(* ===== verification/Prelude.thy ===== *)
theory Prelude
  imports Main "HOL-Library.Word" "HOL-Library.List_Lexorder" "HOL-Library.Char_ord"
    "HOL-Library.AList" "HOL-Library.Sublist"
begin

text \<open>
  What every component of the model shares: the Go values the source uses (strings as byte
  lists, 64-bit integers, instants), the parts of Go's standard library it calls
  (\<open>strings\<close>, \<open>strconv\<close>, \<open>encoding/hex\<close>), Go maps with their nil value, the control
  structure "first error of a loop", and the collections of rewrite rules.

  A Go pointer is an \<open>option\<close>; \<open>nil\<close> is \<open>None\<close>. A Go \<open>error\<close> result is
  \<open>go_error option\<close> (theory Errors), a value-or-error result is a sum with the error on the left.
\<close>

named_theorems status_simps "the lifecycle status predicates, evaluated on constructors"
named_theorems decision_defs "definitions of the lifecycle decisions"
named_theorems frame_simps "what an operation leaves unchanged"
named_theorems go_map_simps "lookup after the map operations"

section \<open>Integers and instants\<close>

text \<open>Go's \<open>uint64\<close> is \<open>64 word\<close>: \<open>++\<close> wraps. Go's \<open>int\<close> is \<open>int\<close>; the sums the
  source forms of two ints are wrapped to 64 bits by \<open>int_add\<close>.\<close>

type_synonym uint64 = "64 word"

definition int_add :: "int \<Rightarrow> int \<Rightarrow> int" where
  "int_add a b = signed_take_bit 63 (a + b)"

lemma int_add_small: "- (2 ^ 63) \<le> a + b \<Longrightarrow> a + b < 2 ^ 63 \<Longrightarrow> int_add a b = a + b"
  by (simp add: int_add_def signed_take_bit_int_eq_self)

text \<open>\<open>time.Time\<close> is the instant in nanoseconds since Go's zero time; \<open>IsZero\<close> is the test
  for 0. \<open>UTC\<close> keeps the instant. Durations are nanoseconds.\<close>

type_synonym time = int

definition IsZero :: "time \<Rightarrow> bool" where [simp]: "IsZero t = (t = 0)"
definition UTC :: "time \<Rightarrow> time" where [simp]: "UTC t = t"

section \<open>Strings\<close>

text \<open>The UTF-8 encodings of the code points that \<open>unicode.IsSpace\<close> accepts.\<close>

definition spaces :: "string list" where
  "spaces = [[CHR 0x09], [CHR 0x0A], [CHR 0x0B], [CHR 0x0C], [CHR 0x0D], [CHR 0x20],
     [CHR 0xC2, CHR 0x85], [CHR 0xC2, CHR 0xA0], [CHR 0xE1, CHR 0x9A, CHR 0x80]]
     @ map (\<lambda>c. [CHR 0xE2, CHR 0x80, c])
         [CHR 0x80, CHR 0x81, CHR 0x82, CHR 0x83, CHR 0x84, CHR 0x85, CHR 0x86, CHR 0x87,
          CHR 0x88, CHR 0x89, CHR 0x8A]
     @ [[CHR 0xE2, CHR 0x80, CHR 0xA8], [CHR 0xE2, CHR 0x80, CHR 0xA9],
        [CHR 0xE2, CHR 0x80, CHR 0xAF], [CHR 0xE2, CHR 0x81, CHR 0x9F],
        [CHR 0xE3, CHR 0x80, CHR 0x80]]"

lemma find_SomeD: "find P xs = Some x \<Longrightarrow> P x \<and> x \<in> set xs"
  by (induction xs) (auto split: if_splits)

function trim_front :: "string list \<Rightarrow> string \<Rightarrow> string" where
  "trim_front ws s = (case find (\<lambda>w. w \<noteq> [] \<and> prefix w s) ws of
      None \<Rightarrow> s | Some w \<Rightarrow> trim_front ws (drop (length w) s))"
  by pat_completeness auto
termination
  by (relation "measure (\<lambda>(ws, s). length s)") (auto dest!: find_SomeD simp: prefix_def)

declare trim_front.simps [simp del]

definition TrimSpace :: "string \<Rightarrow> string" where
  "TrimSpace s = rev (trim_front (map rev spaces) (rev (trim_front spaces s)))"

abbreviation blank :: "string \<Rightarrow> bool" where "blank s \<equiv> TrimSpace s = []"

definition lower_char :: "char \<Rightarrow> char" where
  "lower_char c = (let n = (of_char c :: nat) in if 65 \<le> n \<and> n \<le> 90 then char_of (n + 32) else c)"

definition ToLower :: "string \<Rightarrow> string" where
  "ToLower s = map lower_char s"

text \<open>\<open>strings.EqualFold(s, lit)\<close> for the ASCII literals of the source, none of which holds a
  letter with a non-ASCII case variant (\<open>k\<close> or \<open>s\<close>).\<close>

definition EqualFold :: "string \<Rightarrow> string \<Rightarrow> bool" where
  "EqualFold s t = (ToLower s = ToLower t)"

definition HasPrefix :: "string \<Rightarrow> string \<Rightarrow> bool" where
  "HasPrefix s p = prefix p s"

lemma trim_front_None:
  "find (\<lambda>w. w \<noteq> [] \<and> prefix w s) ws = None \<Longrightarrow> trim_front ws s = s"
  by (subst trim_front.simps) simp

lemma trim_front_Some:
  "find (\<lambda>w. w \<noteq> [] \<and> prefix w s) ws = Some w \<Longrightarrow> trim_front ws s = trim_front ws (drop (length w) s)"
  by (subst trim_front.simps) simp

lemma trim_front_Nil [simp]: "trim_front ws [] = []"
  by (rule trim_front_None) (auto simp: find_None_iff)

lemma TrimSpace_Nil [simp]: "TrimSpace [] = []"
  by (simp add: TrimSpace_def)

text \<open>A string that starts with a visible ASCII character is not blank.\<close>

definition visible :: "char \<Rightarrow> bool" where
  "visible c = (33 \<le> (of_char c :: nat) \<and> (of_char c :: nat) \<le> 126)"

lemma spaces_invisible: "\<forall>w \<in> set spaces. w \<noteq> [] \<and> \<not> visible (hd w)"
  by (simp add: spaces_def visible_def)

lemma trim_front_keeps_last:
  assumes ws: "\<forall>w \<in> set ws. w \<noteq> [] \<and> \<not> visible (last w)" and c: "visible c"
  shows "\<exists>q. trim_front ws (p @ [c]) = q @ [c]"
proof (induction "length p" arbitrary: p rule: less_induct)
  case less
  show ?case
  proof (cases "find (\<lambda>w. w \<noteq> [] \<and> prefix w (p @ [c])) ws")
    case None
    then show ?thesis by (simp add: trim_front_None)
  next
    case (Some w)
    then have w: "w \<noteq> []" "prefix w (p @ [c])" "w \<in> set ws"
      by (auto dest: find_SomeD)
    have "w \<noteq> p @ [c]" using ws w(3) c by auto
    then have "prefix w p" using w(2) by simp
    then have d: "drop (length w) (p @ [c]) = drop (length w) p @ [c]"
      and l: "length (drop (length w) p) < length p"
      using w(1) by (auto simp: prefix_def)
    from less [OF l] Some d show ?thesis by (simp add: trim_front_Some)
  qed
qed

lemma TrimSpace_visible_nonempty:
  assumes "visible c"
  shows "TrimSpace (c # s) \<noteq> []"
proof -
  have "\<not> prefix w (c # s)" if "w \<in> set spaces" for w
    using bspec [OF spaces_invisible that] assms by (cases w) auto
  then have front: "trim_front spaces (c # s) = c # s"
    by (intro trim_front_None) (auto simp: find_None_iff)
  have "\<exists>q. trim_front (map rev spaces) (rev s @ [c]) = q @ [c]"
    using spaces_invisible assms by (intro trim_front_keeps_last) (auto simp: last_rev)
  then show ?thesis by (auto simp: TrimSpace_def front)
qed

lemma trim_front_clean: "w \<in> set ws \<Longrightarrow> w \<noteq> [] \<Longrightarrow> \<not> prefix w (trim_front ws s)"
proof (induction ws s rule: trim_front.induct)
  case (1 ws s)
  show ?case
  proof (cases "find (\<lambda>w. w \<noteq> [] \<and> prefix w s) ws")
    case None
    then show ?thesis using 1(2,3) by (auto simp: trim_front_None find_None_iff)
  next
    case (Some v)
    then show ?thesis using 1 by (simp add: trim_front_Some)
  qed
qed

lemma trim_front_suffix: "suffix (trim_front ws s) s"
proof (induction ws s rule: trim_front.induct)
  case (1 ws s)
  show ?case
  proof (cases "find (\<lambda>w. w \<noteq> [] \<and> prefix w s) ws")
    case (Some v)
    have "suffix (drop (length v) s) s" by (rule suffix_drop)
    with 1 [OF Some] show ?thesis by (simp add: trim_front_Some [OF Some] suffix_order.trans)
  qed (simp add: trim_front_None)
qed

lemma trim_front_fixed: "(\<And>w. w \<in> set ws \<Longrightarrow> w \<noteq> [] \<Longrightarrow> \<not> prefix w s) \<Longrightarrow> trim_front ws s = s"
  by (rule trim_front_None) (auto simp: find_None_iff)

lemma TrimSpace_idem: "TrimSpace (TrimSpace s) = TrimSpace s"
proof -
  let ?u = "trim_front spaces s"
  let ?t = "TrimSpace s"
  have t: "rev ?t = trim_front (map rev spaces) (rev ?u)" by (simp add: TrimSpace_def)
  then have "prefix ?t ?u" using trim_front_suffix [of "map rev spaces" "rev ?u"] by (metis rev_rev_ident suffix_to_prefix)
  then have front: "trim_front spaces ?t = ?t"
    using trim_front_clean [of _ spaces s] by (intro trim_front_fixed) (meson prefix_order.trans)
  have "trim_front (map rev spaces) (rev ?t) = rev ?t"
    unfolding t by (rule trim_front_fixed) (rule trim_front_clean)
  then show ?thesis by (simp add: TrimSpace_def [of ?t] front)
qed

lemma TrimSpace_id: "s \<noteq> [] \<Longrightarrow> visible (hd s) \<Longrightarrow> visible (last s) \<Longrightarrow> TrimSpace s = s"
proof -
  assume s: "s \<noteq> []" "visible (hd s)" "visible (last s)"
  have "\<not> prefix w s" if "w \<in> set spaces" for w
    using bspec [OF spaces_invisible that] s by (cases w; cases s) auto
  then have front: "trim_front spaces s = s"
    by (intro trim_front_None) (auto simp: find_None_iff)
  have last: "\<not> visible (last w)" if "w \<in> set spaces" for w
    using that by (auto simp: spaces_def visible_def)
  have "\<not> prefix w (rev s)" if "w \<in> set (map rev spaces)" for w
  proof
    assume "prefix w (rev s)"
    moreover have "w \<noteq> []" "\<not> visible (hd w)" using that bspec [OF spaces_invisible] last by (auto simp: hd_rev)
    ultimately show False using s by (cases w; cases "rev s") (auto simp: last_conv_nth hd_rev [symmetric] prefix_def)
  qed
  then have "trim_front (map rev spaces) (rev s) = rev s"
    by (intro trim_front_None) (auto simp: find_None_iff)
  then show ?thesis by (simp add: TrimSpace_def front)
qed

section \<open>Decimal numbers\<close>

definition digit_char :: "nat \<Rightarrow> char" where
  "digit_char d = char_of (48 + d)"

fun digits_of :: "nat \<Rightarrow> string" where
  "digits_of n = (if n < 10 then [digit_char n] else digits_of (n div 10) @ [digit_char (n mod 10)])"

declare digits_of.simps [simp del]

text \<open>\<open>strconv.Itoa\<close> and \<open>fmt.Sprint\<close> of an int.\<close>

definition Itoa :: "int \<Rightarrow> string" where
  "Itoa i = (if i < 0 then CHR ''-'' # digits_of (nat (- i)) else digits_of (nat i))"

definition digit_val :: "char \<Rightarrow> nat option" where
  "digit_val c = (let n = (of_char c :: nat) in if 48 \<le> n \<and> n \<le> 57 then Some (n - 48) else None)"

fun parse_digits :: "nat \<Rightarrow> string \<Rightarrow> nat option" where
  "parse_digits acc [] = Some acc"
| "parse_digits acc (c # cs) = (case digit_val c of None \<Rightarrow> None | Some d \<Rightarrow> parse_digits (10 * acc + d) cs)"

definition unsigned_digits :: "string \<Rightarrow> nat option" where
  "unsigned_digits s = (if s = [] then None else parse_digits 0 s)"

text \<open>\<open>strconv.Atoi\<close>: the value and whether the error is nil. A syntax error gives 0, a number
  outside the 64-bit range the nearest bound.\<close>

definition Atoi :: "string \<Rightarrow> int \<times> bool" where
  "Atoi s =
     (let neg = (s \<noteq> [] \<and> hd s = CHR ''-'');
          body = (if s \<noteq> [] \<and> (hd s = CHR ''-'' \<or> hd s = CHR ''+'') then tl s else s)
      in case unsigned_digits body of
           None \<Rightarrow> (0, False)
         | Some n \<Rightarrow>
             if neg then (if int n > 2 ^ 63 then (- (2 ^ 63), False) else (- int n, True))
             else (if int n \<ge> 2 ^ 63 then (2 ^ 63 - 1, False) else (int n, True)))"

lemma digit_val_char [simp]: "d < 10 \<Longrightarrow> digit_val (digit_char d) = Some d"
  by (simp add: digit_val_def digit_char_def)

lemma parse_digits_snoc:
  "parse_digits acc (s @ [c]) = (case parse_digits acc s of None \<Rightarrow> None
     | Some n \<Rightarrow> map_option (\<lambda>d. 10 * n + d) (digit_val c))"
  by (induction acc s rule: parse_digits.induct) (auto split: option.splits)

lemma parse_digits_of: "parse_digits 0 (digits_of n) = Some n"
proof (induction n rule: digits_of.induct)
  case (1 n)
  show ?case
  proof (cases "n < 10")
    case True
    then show ?thesis by (subst digits_of.simps) simp
  next
    case False
    with 1 have "parse_digits 0 (digits_of (n div 10)) = Some (n div 10)" by simp
    with False show ?thesis by (subst digits_of.simps) (simp add: parse_digits_snoc)
  qed
qed

lemma digits_of_nonempty [simp]: "digits_of n \<noteq> []"
  by (subst digits_of.simps) simp

lemma digit_char_sign: "d < 10 \<Longrightarrow> digit_char d \<noteq> CHR ''-'' \<and> digit_char d \<noteq> CHR ''+''"
  by (auto simp: digit_char_def dest!: arg_cong [where f = "of_char :: char \<Rightarrow> nat"])

lemma digits_of_hd_sign: "hd (digits_of n) \<noteq> CHR ''-'' \<and> hd (digits_of n) \<noteq> CHR ''+''"
proof (induction n rule: digits_of.induct)
  case (1 n)
  show ?case
  proof (cases "n < 10")
    case True
    then show ?thesis by (subst (1 2) digits_of.simps) (simp add: digit_char_sign)
  next
    case False
    then have "digits_of n = digits_of (n div 10) @ [digit_char (n mod 10)]"
      by (subst digits_of.simps) simp
    with 1 False show ?thesis by (simp add: hd_append)
  qed
qed

lemma digits_of_not_minus [simp]: "digits_of n \<noteq> CHR ''-'' # s"
  using digits_of_hd_sign [of n] by (metis list.sel(1))

lemma digits_of_inj: "digits_of m = digits_of n \<longleftrightarrow> m = n"
  by (metis option.inject parse_digits_of)

lemma Itoa_sign: "hd (Itoa i) = CHR ''-'' \<longleftrightarrow> i < 0"
  using digits_of_hd_sign [of "nat i"] by (simp add: Itoa_def)

lemma Itoa_inj [simp]: "Itoa a = Itoa b \<longleftrightarrow> a = b"
proof
  assume eq: "Itoa a = Itoa b"
  then have sign: "a < 0 \<longleftrightarrow> b < 0" using Itoa_sign [of a] Itoa_sign [of b] by simp
  show "a = b"
  proof (cases "a < 0")
    case True
    with eq sign have "digits_of (nat (- a)) = digits_of (nat (- b))" by (simp add: Itoa_def)
    with True sign show ?thesis by (simp add: digits_of_inj)
  next
    case False
    with eq sign have "digits_of (nat a) = digits_of (nat b)" by (simp add: Itoa_def)
    with False sign show ?thesis by (simp add: digits_of_inj)
  qed
qed simp

text \<open>Reading a printed number gives it back, for the numbers of Go's \<open>int\<close>.\<close>

lemma Atoi_Itoa:
  assumes "- (2 ^ 63) \<le> i" and "i < 2 ^ 63"
  shows "Atoi (Itoa i) = (i, True)"
proof (cases "i < 0")
  case True
  have "\<not> nat (- i) > 2 ^ 63" using assms(1) by (simp add: nat_le_iff not_less)
  then show ?thesis using True
    by (simp add: Atoi_def Itoa_def unsigned_digits_def parse_digits_of)
next
  case False
  have "\<not> nat i \<ge> 2 ^ 63" using assms(2) False by (simp add: nat_less_iff not_le)
  then show ?thesis using False digits_of_hd_sign [of "nat i"]
    by (simp add: Atoi_def Itoa_def unsigned_digits_def parse_digits_of)
qed

end
