(* ===== verification/Errors.thy ===== *)
theory Errors
  imports Prelude
begin

text \<open>
  The errors of the modelled packages as values. A formatted error keeps its literal pieces and
  its arguments in order; the typed errors of \<open>snapshot.go\<close>, \<open>execution.go\<close>, \<open>state.go\<close> and
  \<open>status.go\<close> have constructors of their own, because callers test for them with \<open>errors.As\<close>.
  \<open>NilMapPanic\<close> is the run-time panic of an assignment to a nil map, \<open>NilPointerPanic\<close> the one of a
  nil dereference.
\<close>

datatype piece = Lit string | Str string | Quo string | Num int

record SemanticViolation =
  viol_IssueNumber :: int
  viol_Status :: string
  viol_Field :: string
  viol_Code :: string
  viol_Migratable :: bool
  viol_Reason :: string
  viol_MigrationRule :: string
  viol_OperatorGuide :: string

datatype go_error =
    Errorf "piece list"
  | Wrapf "piece list" go_error
  | SchemaVersionError string int
  | SemanticContractVersionError int int
  | LifecycleAPIVersionError string string
  | SemanticCompatibilityError "SemanticViolation list"
  | ConflictError string
  | IssueQuarantinedError int string string
  | IssueMutationError int go_error
  | NilMapPanic
  | NilPointerPanic

text \<open>Message texts are data the proofs do not look into: the simplifier leaves the arguments of an
  error, and a text marked with \<open>lit\<close>, alone.\<close>

definition lit :: "string \<Rightarrow> string" where
  "lit s = s"

lemma lit_cong [cong]: "lit s = lit s"
  by (rule refl)

lemma Errorf_cong [cong]: "Errorf ps = Errorf ps"
  by (rule refl)

lemma Wrapf_cong [cong]: "e = e' \<Longrightarrow> Wrapf ps e = Wrapf ps e'"
  by simp

section \<open>Texts\<close>

definition hex_digit :: "nat \<Rightarrow> char" where
  "hex_digit n = (if n < 10 then char_of (48 + n) else char_of (87 + n))"

text \<open>\<open>%q\<close> on printable text: quotes and backslashes are escaped, control bytes written in
  hexadecimal. Bytes from 0x80 on belong to printable UTF-8 text and stay.\<close>

definition quote_char :: "char \<Rightarrow> string" where
  "quote_char c =
     (let n = (of_char c :: nat) in
      if c = CHR 0x22 then [CHR 0x5C, CHR 0x22]
      else if c = CHR 0x5C then [CHR 0x5C, CHR 0x5C]
      else if n = 10 then [CHR 0x5C, CHR ''n'']
      else if n = 13 then [CHR 0x5C, CHR ''r'']
      else if n = 9 then [CHR 0x5C, CHR ''t'']
      else if n < 32 \<or> n = 127 then [CHR 0x5C, CHR ''x'', hex_digit (n div 16), hex_digit (n mod 16)]
      else [c])"

definition go_quote :: "string \<Rightarrow> string" where
  "go_quote s = CHR 0x22 # concat (map quote_char s) @ [CHR 0x22]"

fun render :: "piece \<Rightarrow> string" where
  "render (Lit s) = s"
| "render (Str s) = s"
| "render (Quo s) = go_quote s"
| "render (Num i) = Itoa i"

definition join :: "string \<Rightarrow> string list \<Rightarrow> string" where
  "join sep xs = (case xs of [] \<Rightarrow> [] | x # ys \<Rightarrow> x @ concat (map (\<lambda>y. sep @ y) ys))"

abbreviation CurrentVersion :: int where "CurrentVersion \<equiv> 6"

text \<open>The \<open>Error\<close> methods.\<close>

definition violation_text :: "SemanticViolation \<Rightarrow> string" where
  "violation_text v = ''Issue #'' @ Itoa (viol_IssueNumber v) @ '' '' @ viol_Reason v @ '' ('' @ viol_Code v @ '')''"

fun error_text :: "go_error \<Rightarrow> string" where
  "error_text (Errorf ps) = concat (map render ps)"
| "error_text (Wrapf ps e) = concat (map render ps) @ error_text e"
| "error_text (SchemaVersionError kind v) =
     (if 0 < v \<and> v < CurrentVersion
      then kind @ '' schema migration required from version '' @ Itoa v @ '' to '' @ Itoa CurrentVersion
      else ''unsupported '' @ kind @ '' version '' @ Itoa v @ ''; this binary supports version ''
        @ Itoa CurrentVersion @ ''; migration required before execution'')"
| "error_text (SemanticContractVersionError v c) =
     ''snapshot semantic contract version '' @ Itoa v @ '' does not match '' @ Itoa c"
| "error_text (LifecycleAPIVersionError v c) =
     ''snapshot Issue lifecycle API version '' @ go_quote v @ '' does not match '' @ go_quote c"
| "error_text (SemanticCompatibilityError vs) =
     ''durable state does not satisfy semantic contract: '' @ join ''; '' (map violation_text vs)"
| "error_text (ConflictError m) = m"
| "error_text (IssueQuarantinedError n code reason) =
     ''Issue #'' @ Itoa n @ '' is quarantined ('' @ code @ ''): '' @ reason"
| "error_text (IssueMutationError n e) = error_text e"
| "error_text NilMapPanic = ''assignment to entry in nil map''"
| "error_text NilPointerPanic = ''invalid memory address or nil pointer dereference''"

text \<open>An error whose text starts with a visible character; every error of the validators is one,
  so the reason of a quarantine record is never blank.\<close>

fun good_error :: "go_error \<Rightarrow> bool" where
  "good_error (Errorf (Lit (c # s) # ps)) = visible c"
| "good_error (Wrapf (Lit (c # s) # ps) e) = visible c"
| "good_error (SchemaVersionError (c # s) v) = visible c"
| "good_error (SemanticContractVersionError v c) = True"
| "good_error (LifecycleAPIVersionError v c) = True"
| "good_error (SemanticCompatibilityError vs) = True"
| "good_error (ConflictError (c # s)) = visible c"
| "good_error (IssueMutationError n e) = good_error e"
| "good_error _ = False"

lemma visible_letters [simp]:
  "visible CHR ''I''" "visible CHR ''P''" "visible CHR ''S''" "visible CHR ''G''" "visible CHR ''a''"
  "visible CHR ''c''" "visible CHR ''d''" "visible CHR ''e''" "visible CHR ''l''" "visible CHR ''m''"
  "visible CHR ''n''" "visible CHR ''p''" "visible CHR ''q''" "visible CHR ''r''" "visible CHR ''s''"
  "visible CHR ''t''" "visible CHR ''u''" "visible CHR ''v''" "visible CHR ''w''"
  by (simp_all add: visible_def)

lemma good_error_not_blank: "good_error e \<Longrightarrow> \<not> blank (error_text e)"
  by (induction e rule: good_error.induct) (auto simp: TrimSpace_visible_nonempty)

section \<open>Loops that return the first error\<close>

text \<open>\<open>for _, x := range xs { if err := f(x); err != nil { return err } }\<close>\<close>

fun for_each :: "('a \<Rightarrow> go_error option) \<Rightarrow> 'a list \<Rightarrow> go_error option" where
  "for_each f [] = None"
| "for_each f (x # xs) = (case f x of Some e \<Rightarrow> Some e | None \<Rightarrow> for_each f xs)"

text \<open>\<open>if err := a; err != nil { return err }; return b\<close>\<close>

definition and_then :: "go_error option \<Rightarrow> go_error option \<Rightarrow> go_error option" where
  "and_then a b = (case a of Some e \<Rightarrow> Some e | None \<Rightarrow> b)"

lemma and_then_None [simp]: "and_then a b = None \<longleftrightarrow> a = None \<and> b = None"
  by (simp add: and_then_def split: option.splits)

lemma and_then_Some: "and_then a b = Some e \<longleftrightarrow> a = Some e \<or> (a = None \<and> b = Some e)"
  by (auto simp: and_then_def split: option.splits)

lemma for_each_None [simp]: "for_each f xs = None \<longleftrightarrow> (\<forall>x \<in> set xs. f x = None)"
  by (induction xs) (auto split: option.splits)

lemma for_each_Some: "for_each f xs = Some e \<Longrightarrow> \<exists>x \<in> set xs. f x = Some e"
  by (induction xs) (auto split: option.splits)

lemma for_each_cong [fundef_cong]:
  "xs = ys \<Longrightarrow> (\<And>x. x \<in> set ys \<Longrightarrow> f x = g x) \<Longrightarrow> for_each f xs = for_each g ys"
  by (induction xs arbitrary: ys) (auto split: option.splits)

text \<open>The same for steps that return a value or an error.\<close>

definition and_ok :: "go_error + 'a \<Rightarrow> ('a \<Rightarrow> go_error + 'b) \<Rightarrow> go_error + 'b" where
  "and_ok r f = (case r of Inl e \<Rightarrow> Inl e | Inr x \<Rightarrow> f x)"

lemma and_ok_simps [simp]: "and_ok (Inl e) f = Inl e" "and_ok (Inr x) f = f x"
  by (simp_all add: and_ok_def)

lemma and_ok_Inr: "and_ok r f = Inr y \<longleftrightarrow> (\<exists>x. r = Inr x \<and> f x = Inr y)"
  by (cases r) simp_all

lemma and_ok_Inl: "and_ok r f = Inl e \<longleftrightarrow> r = Inl e \<or> (\<exists>x. r = Inr x \<and> f x = Inl e)"
  by (cases r) simp_all

lemma and_ok_cong [fundef_cong]:
  "r = r' \<Longrightarrow> (\<And>x. r' = Inr x \<Longrightarrow> f x = g x) \<Longrightarrow> and_ok r f = and_ok r' g"
  by (cases r') simp_all

text \<open>A run of \<open>if cond { return fmt.Errorf(...) }\<close> statements: each one a \<open>guard\<close>, in order.\<close>

definition guard :: "bool \<Rightarrow> piece list \<Rightarrow> go_error option" where
  "guard c ps = (if c then Some (Errorf ps) else None)"

fun first_error :: "go_error option list \<Rightarrow> go_error option" where
  "first_error [] = None"
| "first_error (x # xs) = (case x of Some e \<Rightarrow> Some e | None \<Rightarrow> first_error xs)"

lemma guard_None [simp]: "guard c ps = None \<longleftrightarrow> \<not> c"
  by (simp add: guard_def)

lemma guard_cong [cong]: "c = c' \<Longrightarrow> guard c ps = guard c' ps"
  by simp

lemma first_error_None [simp]: "first_error (x # xs) = None \<longleftrightarrow> x = None \<and> first_error xs = None"
  by (simp split: option.splits)

declare first_error.simps(2) [simp del]

lemma first_error_all: "first_error xs = None \<longleftrightarrow> (\<forall>x \<in> set xs. x = None)"
  by (induction xs) simp_all

lemma first_error_Some: "first_error xs = Some e \<Longrightarrow> Some e \<in> set xs"
  by (induction xs) (auto simp: first_error.simps split: option.splits)

lemma guard_good: "guard c ps = Some e \<Longrightarrow> good_error (Errorf ps) \<Longrightarrow> good_error e"
  by (simp add: guard_def split: if_splits)

end
