(* ===== verification/IssueStatus.thy ===== *)
theory IssueStatus
  imports Errors
begin

text \<open>
  \<open>internal/domain/issue\<close>: the lifecycle vocabulary. \<open>status.go\<close> (statuses and the policies
  that depend on a status alone), \<open>substate.go\<close> (requests and conflict attempts), \<open>effect.go\<close>,
  \<open>continuation.go\<close>, the constants of \<open>suspension.go\<close>, \<open>attention.go\<close> (who waits for a human)
  and \<open>retry.go\<close> (retry budgets).

  Each Go string type is a datatype with one constructor per constant. A persisted string that
  is none of the constants is kept by the constructor \<open>...Other\<close>; \<open>Status_of_string\<close> and its
  kin read a string and never build \<open>Other\<close> of a constant's text.
\<close>

section \<open>Statuses (status.go)\<close>

datatype Status =
    StatusUnset | StatusClaiming | StatusClaimed | StatusLaunching | StatusRunning
  | StatusResumePending | StatusRetryWait | StatusNeedsInput | StatusAwaitingChecks
  | StatusAwaitingMerge | StatusResolvingConflict | StatusBlocked | StatusFailed
  | StatusCompleted | StatusCanceled
  | StatusOther string

datatype WorktreeRetentionClass =
    WorktreeRetainIndefinitely | WorktreeRetainCompleted | WorktreeRetainFailed
  | WorktreeRetainBlocked | WorktreeRetainAttention

definition AllStatuses :: "Status list" where
  "AllStatuses =
     [StatusUnset, StatusClaiming, StatusClaimed, StatusLaunching, StatusRunning,
      StatusResumePending, StatusRetryWait,
      StatusNeedsInput, StatusAwaitingChecks, StatusAwaitingMerge,
      StatusResolvingConflict, StatusBlocked, StatusFailed, StatusCompleted, StatusCanceled]"

fun Status_String :: "Status \<Rightarrow> string" where
  "Status_String StatusUnset = ''''"
| "Status_String StatusClaiming = ''claiming''"
| "Status_String StatusClaimed = ''claimed''"
| "Status_String StatusLaunching = ''launching''"
| "Status_String StatusRunning = ''running''"
| "Status_String StatusResumePending = ''resume_pending''"
| "Status_String StatusRetryWait = ''retry_wait''"
| "Status_String StatusNeedsInput = ''needs_input''"
| "Status_String StatusAwaitingChecks = ''awaiting_checks''"
| "Status_String StatusAwaitingMerge = ''awaiting_merge''"
| "Status_String StatusResolvingConflict = ''resolving_conflict''"
| "Status_String StatusBlocked = ''blocked''"
| "Status_String StatusFailed = ''failed''"
| "Status_String StatusCompleted = ''completed''"
| "Status_String StatusCanceled = ''canceled''"
| "Status_String (StatusOther s) = s"

definition Status_of_string :: "string \<Rightarrow> Status" where
  "Status_of_string s = (case find (\<lambda>x. Status_String x = s) AllStatuses of
     Some x \<Rightarrow> x | None \<Rightarrow> StatusOther s)"

definition Status_Validate :: "Status \<Rightarrow> go_error option" where
  "Status_Validate s = (if s \<in> set AllStatuses then None
     else Some (Errorf [Lit ''unknown Issue status '', Quo (Status_String s)]))"

definition Terminal :: "Status \<Rightarrow> bool" where
  "Terminal s \<longleftrightarrow> s = StatusCompleted \<or> s = StatusFailed \<or> s = StatusBlocked \<or> s = StatusCanceled"

fun StatusRetentionClass :: "Status \<Rightarrow> WorktreeRetentionClass" where
  "StatusRetentionClass StatusCompleted = WorktreeRetainCompleted"
| "StatusRetentionClass StatusFailed = WorktreeRetainFailed"
| "StatusRetentionClass StatusBlocked = WorktreeRetainBlocked"
| "StatusRetentionClass StatusCanceled = WorktreeRetainIndefinitely"
| "StatusRetentionClass StatusNeedsInput = WorktreeRetainAttention"
| "StatusRetentionClass StatusResumePending = WorktreeRetainAttention"
| "StatusRetentionClass _ = WorktreeRetainIndefinitely"

definition RequiresWorkspaceProvenance :: "Status \<Rightarrow> bool" where
  "RequiresWorkspaceProvenance s \<longleftrightarrow> s \<in>
     {StatusClaimed, StatusLaunching, StatusRunning, StatusResumePending, StatusRetryWait,
      StatusNeedsInput, StatusAwaitingChecks, StatusAwaitingMerge, StatusResolvingConflict}"

definition RequiresActiveExecution :: "Status \<Rightarrow> bool" where
  "RequiresActiveExecution s \<longleftrightarrow> s \<in> {StatusClaiming, StatusClaimed, StatusLaunching, StatusRunning}"

definition TerminalForWebhook :: "Status \<Rightarrow> bool" where
  "TerminalForWebhook s \<longleftrightarrow> Terminal s \<or> s = StatusNeedsInput"

definition WebhookRoutable :: "Status \<Rightarrow> bool" where
  "WebhookRoutable s \<longleftrightarrow> s \<in>
     {StatusClaiming, StatusClaimed, StatusLaunching, StatusRunning, StatusResumePending,
      StatusRetryWait, StatusNeedsInput, StatusAwaitingChecks, StatusAwaitingMerge,
      StatusResolvingConflict}"

definition PendingDispatch :: "Status \<Rightarrow> bool" where
  "PendingDispatch s \<longleftrightarrow> s \<in>
     {StatusClaiming, StatusLaunching, StatusResumePending, StatusRetryWait, StatusAwaitingChecks,
      StatusAwaitingMerge, StatusResolvingConflict}"

definition DispatchPending :: "Status \<Rightarrow> bool \<Rightarrow> bool" where
  "DispatchPending s effectPending \<longleftrightarrow> effectPending \<or> PendingDispatch s"

definition RetainsRunLogs :: "Status \<Rightarrow> bool" where
  "RetainsRunLogs s \<longleftrightarrow> PendingDispatch s \<or> s = StatusClaimed \<or> s = StatusRunning \<or> s = StatusNeedsInput"

definition PreventsIdle :: "Status \<Rightarrow> bool" where
  "PreventsIdle s \<longleftrightarrow> PendingDispatch s \<or> s = StatusClaimed \<or> s = StatusRunning"

definition IneligibleForAdmission :: "Status \<Rightarrow> bool" where
  "IneligibleForAdmission s \<longleftrightarrow> s \<noteq> StatusUnset \<and> s \<noteq> StatusClaiming"

definition DispatchesWorker :: "Status \<Rightarrow> bool" where
  "DispatchesWorker s \<longleftrightarrow> s \<in>
     {StatusClaiming, StatusLaunching, StatusResumePending, StatusRetryWait, StatusResolvingConflict}"

definition DispatchesWorkerWhile :: "Status \<Rightarrow> bool \<Rightarrow> bool" where
  "DispatchesWorkerWhile s effectPending \<longleftrightarrow> \<not> effectPending \<and> DispatchesWorker s"

definition BlocksNewAdmission :: "Status \<Rightarrow> bool" where
  "BlocksNewAdmission s \<longleftrightarrow> s \<in>
     {StatusClaiming, StatusClaimed, StatusLaunching, StatusRunning, StatusResumePending,
      StatusRetryWait, StatusAwaitingChecks, StatusAwaitingMerge, StatusResolvingConflict}"

lemmas [status_simps] = Terminal_def RequiresWorkspaceProvenance_def RequiresActiveExecution_def
  TerminalForWebhook_def WebhookRoutable_def PendingDispatch_def DispatchPending_def
  RetainsRunLogs_def PreventsIdle_def IneligibleForAdmission_def DispatchesWorker_def
  DispatchesWorkerWhile_def BlocksNewAdmission_def

section \<open>Requests and conflict attempts (substate.go)\<close>

datatype RequestStatus = RequestStatusPending | RequestStatusAnswered | RequestStatusCanceled
  | RequestStatusOther string

datatype ConflictAttemptStatus = ConflictAttemptStatusRunning | ConflictAttemptStatusCompleted
  | ConflictAttemptStatusNeedsInput | ConflictAttemptStatusRetryableFailure
  | ConflictAttemptStatusBlocked | ConflictAttemptStatusOther string

fun ConflictAttemptStatus_Validate :: "ConflictAttemptStatus \<Rightarrow> go_error option" where
  "ConflictAttemptStatus_Validate (ConflictAttemptStatusOther s) =
     Some (Errorf [Lit ''unknown conflict attempt status '', Quo s])"
| "ConflictAttemptStatus_Validate _ = None"

fun RequestStatus_Validate :: "RequestStatus \<Rightarrow> go_error option" where
  "RequestStatus_Validate (RequestStatusOther s) = Some (Errorf [Lit ''unknown request status '', Quo s])"
| "RequestStatus_Validate _ = None"

definition AnswerRequest :: "RequestStatus \<Rightarrow> string \<Rightarrow> string \<Rightarrow> go_error + RequestStatus" where
  "AnswerRequest status previous answer =
     (if status = RequestStatusAnswered \<and> previous = answer then Inr status
      else if status \<noteq> RequestStatusPending
      then Inl (Errorf [Lit ''request is already answered or canceled''])
      else Inr RequestStatusAnswered)"

section \<open>Effects, continuation stages, suspensions\<close>

datatype EffectKind = EffectNone | EffectMarkDone | EffectMarkNeedsInput | EffectMarkFailed
  | EffectMarkBlocked | EffectRetryConflict | EffectApplyResolution | EffectOther string

fun EffectKind_String :: "EffectKind \<Rightarrow> string" where
  "EffectKind_String EffectNone = ''''"
| "EffectKind_String EffectMarkDone = ''mark_done''"
| "EffectKind_String EffectMarkNeedsInput = ''mark_needs_input''"
| "EffectKind_String EffectMarkFailed = ''mark_failed''"
| "EffectKind_String EffectMarkBlocked = ''mark_blocked''"
| "EffectKind_String EffectRetryConflict = ''retry_conflict''"
| "EffectKind_String EffectApplyResolution = ''apply_resolution''"
| "EffectKind_String (EffectOther s) = s"

definition allEffectKinds :: "EffectKind list" where
  "allEffectKinds =
     [EffectMarkDone, EffectMarkNeedsInput, EffectMarkFailed, EffectMarkBlocked,
      EffectRetryConflict, EffectApplyResolution]"

definition EffectKind_Validate :: "EffectKind \<Rightarrow> go_error option" where
  "EffectKind_Validate k = (if k \<in> set allEffectKinds then None
     else Some (Errorf [Lit ''unknown lifecycle effect '', Quo (EffectKind_String k)]))"

datatype ContinuationStage = ContinuationStageNone | ContinuationStageResume
  | ContinuationStagePublish | ContinuationStageChecks | ContinuationStageConflict
  | ContinuationStageOther string

fun ContinuationStage_String :: "ContinuationStage \<Rightarrow> string" where
  "ContinuationStage_String ContinuationStageNone = ''''"
| "ContinuationStage_String ContinuationStageResume = ''resume''"
| "ContinuationStage_String ContinuationStagePublish = ''publish''"
| "ContinuationStage_String ContinuationStageChecks = ''checks''"
| "ContinuationStage_String ContinuationStageConflict = ''conflict''"
| "ContinuationStage_String (ContinuationStageOther s) = s"

definition ContinuationStage_Validate :: "ContinuationStage \<Rightarrow> go_error option" where
  "ContinuationStage_Validate s =
     (if s \<in> {ContinuationStageResume, ContinuationStagePublish, ContinuationStageChecks, ContinuationStageConflict}
      then None
      else Some (Errorf [Lit ''unknown continuation stage '', Quo (ContinuationStage_String s)]))"

fun ContinuationStageForStatus :: "Status \<Rightarrow> ContinuationStage" where
  "ContinuationStageForStatus StatusAwaitingChecks = ContinuationStageChecks"
| "ContinuationStageForStatus StatusAwaitingMerge = ContinuationStageChecks"
| "ContinuationStageForStatus StatusResolvingConflict = ContinuationStageConflict"
| "ContinuationStageForStatus _ = ContinuationStageResume"

datatype ResolutionAction = ResolutionApproveConflictPaths | ResolutionNone | ResolutionResume
  | ResolutionRetryStage | ResolutionAdoptWorktree | ResolutionAdoptHead | ResolutionAdoptInput
  | ResolutionAdoptPR | ResolutionCancel | ResolutionOther string

fun ResolutionAction_String :: "ResolutionAction \<Rightarrow> string" where
  "ResolutionAction_String ResolutionApproveConflictPaths = ''approve-conflict-paths''"
| "ResolutionAction_String ResolutionNone = ''''"
| "ResolutionAction_String ResolutionResume = ''resume''"
| "ResolutionAction_String ResolutionRetryStage = ''retry-stage''"
| "ResolutionAction_String ResolutionAdoptWorktree = ''adopt-worktree''"
| "ResolutionAction_String ResolutionAdoptHead = ''adopt-head''"
| "ResolutionAction_String ResolutionAdoptInput = ''adopt-input''"
| "ResolutionAction_String ResolutionAdoptPR = ''adopt-pr''"
| "ResolutionAction_String ResolutionCancel = ''cancel''"
| "ResolutionAction_String (ResolutionOther s) = s"

fun ResolutionAction_Validate :: "ResolutionAction \<Rightarrow> go_error option" where
  "ResolutionAction_Validate ResolutionNone = Some (Errorf [Lit ''unknown Issue resolution action '', Quo ''''])"
| "ResolutionAction_Validate (ResolutionOther s) = Some (Errorf [Lit ''unknown Issue resolution action '', Quo s])"
| "ResolutionAction_Validate _ = None"

datatype SuspensionStatus = SuspensionActive | SuspensionQuarantined | SuspensionResolved
  | SuspensionOther string

fun SuspensionStatus_String :: "SuspensionStatus \<Rightarrow> string" where
  "SuspensionStatus_String SuspensionActive = ''active''"
| "SuspensionStatus_String SuspensionQuarantined = ''quarantined''"
| "SuspensionStatus_String SuspensionResolved = ''resolved''"
| "SuspensionStatus_String (SuspensionOther s) = s"

datatype Recoverability = RecoverabilityOperator | RecoverabilityAutomatic | RecoverabilityNone
  | RecoverabilityAmbiguous | RecoverabilityOther string

fun Recoverability_String :: "Recoverability \<Rightarrow> string" where
  "Recoverability_String RecoverabilityOperator = ''operator''"
| "Recoverability_String RecoverabilityAutomatic = ''automatic''"
| "Recoverability_String RecoverabilityNone = ''none''"
| "Recoverability_String RecoverabilityAmbiguous = ''ambiguous''"
| "Recoverability_String (RecoverabilityOther s) = s"

section \<open>Waiting for a human (attention.go)\<close>

record HumanWait =
  hw_Status :: Status
  hw_Unanswered :: bool
  hw_Quarantined :: bool
  hw_Recoverability :: Recoverability
  hw_SuspensionStatus :: SuspensionStatus
  hw_ReviewDecision :: string
  hw_AutoMerge :: bool

definition HumanWait_Reason :: "HumanWait \<Rightarrow> string" where
  "HumanWait_Reason w =
     (if hw_Status w = StatusCompleted \<or> hw_Status w = StatusCanceled then ''''
      else if hw_Unanswered w then ''answer_required''
      else if hw_Quarantined w then ''recovery_required''
      else if (hw_Status w = StatusBlocked \<or> hw_Status w = StatusFailed)
          \<and> hw_SuspensionStatus w \<noteq> SuspensionResolved
          \<and> (hw_Recoverability w = RecoverabilityOperator \<or> hw_Recoverability w = RecoverabilityAmbiguous
             \<or> hw_Recoverability w = RecoverabilityNone) then ''recovery_required''
      else if hw_Status w = StatusAwaitingChecks \<or> hw_Status w = StatusAwaitingMerge then
        (if hw_ReviewDecision w = ''REVIEW_REQUIRED'' \<or> hw_ReviewDecision w = ''CHANGES_REQUESTED''
         then ''review_required''
         else if hw_Status w = StatusAwaitingMerge \<and> \<not> hw_AutoMerge w then ''merge_required''
         else '''')
      else '''')"

section \<open>Retry budgets (retry.go)\<close>

datatype RetryMode = RetryExhausted | RetryContinuation | RetryFreshAttempt

record RetryBudget =
  rb_Extended :: bool
  rb_Resumable :: bool
  rb_Attempts :: int
  rb_MaxAttempts :: int
  rb_Continuations :: int
  rb_MaxContinuations :: int

definition RetryBudget_Decide :: "RetryBudget \<Rightarrow> RetryMode" where
  "RetryBudget_Decide b =
     (if rb_Extended b \<and> rb_Resumable b \<and> rb_Continuations b < rb_MaxContinuations b then RetryContinuation
      else if rb_Attempts b < rb_MaxAttempts b then RetryFreshAttempt
      else RetryExhausted)"

definition RetryBudget_DelayIndex :: "RetryBudget \<Rightarrow> int" where
  "RetryBudget_DelayIndex b = int_add (rb_Attempts b) (rb_Continuations b)"

definition PublicationRetry_Allowed :: "int \<Rightarrow> int \<Rightarrow> bool" where
  "PublicationRetry_Allowed attempts maxAttempts \<longleftrightarrow> attempts < maxAttempts"

definition AttemptBudget_Exhausted :: "int \<Rightarrow> int \<Rightarrow> bool" where
  "AttemptBudget_Exhausted attempts maxAttempts \<longleftrightarrow> attempts \<ge> maxAttempts"

record ConflictRetryBudget =
  cb_Attempts :: int
  cb_MaxAttempts :: int
  cb_HasRunningAttempt :: bool

definition EffectiveAttempts :: "ConflictRetryBudget \<Rightarrow> int" where
  "EffectiveAttempts b = (if cb_HasRunningAttempt b then cb_Attempts b else int_add (cb_Attempts b) 1)"

definition ConflictRetry_Allowed :: "ConflictRetryBudget \<Rightarrow> bool" where
  "ConflictRetry_Allowed b \<longleftrightarrow> EffectiveAttempts b < cb_MaxAttempts b"

section \<open>Properties\<close>

lemma AllStatuses_UNIV: "s \<in> set AllStatuses \<longleftrightarrow> (\<forall>t. s \<noteq> StatusOther t)"
  by (cases s) (simp_all add: AllStatuses_def)

lemma Status_Validate_None [simp]: "Status_Validate s = None \<longleftrightarrow> (\<forall>t. s \<noteq> StatusOther t)"
  by (simp add: Status_Validate_def AllStatuses_UNIV)

lemma Status_Validate_known [simp]:
  "Status_Validate StatusUnset = None"
  "Status_Validate StatusClaiming = None"
  "Status_Validate StatusClaimed = None"
  "Status_Validate StatusLaunching = None"
  "Status_Validate StatusRunning = None"
  "Status_Validate StatusResumePending = None"
  "Status_Validate StatusRetryWait = None"
  "Status_Validate StatusNeedsInput = None"
  "Status_Validate StatusAwaitingChecks = None"
  "Status_Validate StatusAwaitingMerge = None"
  "Status_Validate StatusResolvingConflict = None"
  "Status_Validate StatusBlocked = None"
  "Status_Validate StatusFailed = None"
  "Status_Validate StatusCompleted = None"
  "Status_Validate StatusCanceled = None"
  by simp_all

lemma Status_Validate_good: "Status_Validate s = Some e \<Longrightarrow> good_error e"
  by (auto simp: Status_Validate_def split: if_splits)

lemma Status_String_of_string: "Status_String (Status_of_string s) = s"
  by (auto simp: Status_of_string_def split: option.splits dest!: find_SomeD)

lemma Status_String_inj: "inj_on Status_String (set AllStatuses)"
  by (simp add: AllStatuses_def inj_on_def)

lemma Status_of_String: "s \<in> set AllStatuses \<Longrightarrow> Status_of_string (Status_String s) = s"
  using Status_String_inj
  by (auto simp: Status_of_string_def find_None_iff dest!: find_SomeD dest: inj_onD split: option.splits)

lemma EffectKind_Validate_None [simp]:
  "EffectKind_Validate k = None \<longleftrightarrow> k \<noteq> EffectNone \<and> (\<forall>t. k \<noteq> EffectOther t)"
  by (cases k) (simp_all add: EffectKind_Validate_def allEffectKinds_def)

lemma EffectKind_Validate_good: "EffectKind_Validate s = Some e \<Longrightarrow> good_error e"
  by (auto simp: EffectKind_Validate_def split: if_splits)

lemma ContinuationStage_Validate_None [simp]:
  "ContinuationStage_Validate s = None \<longleftrightarrow> s \<noteq> ContinuationStageNone \<and> (\<forall>t. s \<noteq> ContinuationStageOther t)"
  by (cases s) (simp_all add: ContinuationStage_Validate_def)

lemma ContinuationStageForStatus_valid [simp]:
  "ContinuationStage_Validate (ContinuationStageForStatus s) = None"
  by (cases s rule: ContinuationStageForStatus.cases) simp_all

lemma ResolutionAction_Validate_None [simp]:
  "ResolutionAction_Validate a = None \<longleftrightarrow> a \<noteq> ResolutionNone \<and> (\<forall>t. a \<noteq> ResolutionOther t)"
  by (cases a) simp_all

text \<open>The statuses partition into unset, executing, parked-but-pending, waiting for input and
  terminal, and the scheduler's predicates agree with that partition.\<close>

lemma executing_blocks_admission:
  "RequiresActiveExecution s \<Longrightarrow> BlocksNewAdmission s \<and> PreventsIdle s \<and> \<not> Terminal s"
  by (auto simp: status_simps)

lemma dispatch_hierarchy:
  "DispatchesWorker s \<Longrightarrow> PendingDispatch s" "PendingDispatch s \<Longrightarrow> PreventsIdle s"
  "PreventsIdle s \<longleftrightarrow> BlocksNewAdmission s" "BlocksNewAdmission s \<Longrightarrow> WebhookRoutable s"
  "WebhookRoutable s \<longleftrightarrow> BlocksNewAdmission s \<or> s = StatusNeedsInput"
  by (auto simp: status_simps)

lemma AnswerRequest_Inr:
  "AnswerRequest st prev ans = Inr st' \<longleftrightarrow>
     st' = RequestStatusAnswered \<and> (st = RequestStatusPending \<or> st = RequestStatusAnswered \<and> prev = ans)"
  by (auto simp: AnswerRequest_def split: if_splits)

end
