(* ===== verification/IssueTransition.thy ===== *)
theory IssueTransition
  imports IssueStatus
begin

text \<open>
  \<open>internal/domain/issue/transition.go\<close> and the decisions of \<open>suspension.go\<close>: every
  side-effect-free decision that moves an Issue between lifecycle states. A decision is a function
  from the observed status to an error or to a \<open>Transition\<close> (with the data the caller commits).
  \<open>lifecycle_step\<close> collects all of them as a step relation; \<open>lifecycle_edge\<close> is the graph it is
  proved to equal, from which the safety properties of single steps and of runs follow.
\<close>

record Transition =
  tr_Name :: string
  tr_From :: Status
  tr_To :: Status

definition NewTransition :: "string \<Rightarrow> Status \<Rightarrow> Status \<Rightarrow> go_error + Transition" where
  "NewTransition name from to' =
     (if name = '''' then Inl (Errorf [Lit ''Issue transition requires a name''])
      else case Status_Validate from of Some e \<Rightarrow> Inl e
      | None \<Rightarrow> (case Status_Validate to' of Some e \<Rightarrow> Inl e
      | None \<Rightarrow> Inr \<lparr>tr_Name = name, tr_From = from, tr_To = to'\<rparr>))"

definition newAllowedTransition :: "string \<Rightarrow> Status \<Rightarrow> Status \<Rightarrow> Status list \<Rightarrow> go_error + Transition" where
  "newAllowedTransition name from to' allowed =
     and_ok (NewTransition name from to') (\<lambda>transition.
       if from \<in> set allowed then Inr transition
       else Inl (Errorf [Lit ''Issue transition '', Str name, Lit '' does not allow status '',
              Quo (Status_String from)]))"

definition ValidateCommit :: "Transition \<Rightarrow> Status \<Rightarrow> go_error option" where
  "ValidateCommit t current =
     and_then (Status_Validate current)
       (if current \<noteq> tr_From t
        then Some (Errorf [Lit ''Issue transition '', Str (tr_Name t), Lit '' expected status '',
               Quo (Status_String (tr_From t)), Lit '', found '', Quo (Status_String current)])
        else Status_Validate (tr_To t))"

section \<open>Decisions with data\<close>

record RetryDecision =
  rd_Transition :: Transition
  rd_Reason :: string
  rd_RetryAt :: time
  rd_FailureKind :: string

definition ScheduleRetry :: "Status \<Rightarrow> string \<Rightarrow> time \<Rightarrow> string \<Rightarrow> go_error + RetryDecision" where
  "ScheduleRetry from reason retryAt failureKind =
     and_ok (newAllowedTransition ''schedule_retry'' from StatusRetryWait
               [StatusLaunching, StatusRunning, StatusAwaitingChecks, StatusAwaitingMerge])
       (\<lambda>transition.
          if reason = '''' \<or> IsZero retryAt \<or> failureKind = ''''
          then Inl (Errorf [Lit ''retry decision requires reason, retry time, and failure kind''])
          else Inr \<lparr>rd_Transition = transition, rd_Reason = reason, rd_RetryAt = retryAt,
                 rd_FailureKind = failureKind\<rparr>)"

record CompletionDecision =
  cd_Transition :: Transition
  cd_PullRequestURL :: string
  cd_PullRequestMerged :: bool
  cd_Effect :: EffectKind

definition Complete :: "Status \<Rightarrow> string \<Rightarrow> go_error + CompletionDecision" where
  "Complete from pullRequestURL =
     and_ok (newAllowedTransition ''complete'' from StatusCompleted
               [StatusLaunching, StatusRunning, StatusAwaitingChecks, StatusAwaitingMerge,
                StatusResumePending, StatusBlocked, StatusFailed])
       (\<lambda>transition. Inr \<lparr>cd_Transition = transition, cd_PullRequestURL = pullRequestURL,
          cd_PullRequestMerged = (pullRequestURL \<noteq> ''''), cd_Effect = EffectMarkDone\<rparr>)"

record InputDecision =
  id_Transition :: Transition
  id_Effect :: EffectKind

definition RequestInput :: "Status \<Rightarrow> go_error + InputDecision" where
  "RequestInput from =
     and_ok (newAllowedTransition ''request_input'' from StatusNeedsInput
               [StatusRunning, StatusResolvingConflict])
       (\<lambda>transition. Inr \<lparr>id_Transition = transition, id_Effect = EffectMarkNeedsInput\<rparr>)"

section \<open>Plain transitions\<close>

definition AwaitChecks :: "Status \<Rightarrow> go_error + Transition" where
  "AwaitChecks from = newAllowedTransition ''await_pull_request_checks'' from StatusAwaitingChecks
     [StatusLaunching, StatusRunning, StatusResumePending, StatusResolvingConflict]"

definition AwaitMerge :: "Status \<Rightarrow> go_error + Transition" where
  "AwaitMerge from = newAllowedTransition ''await_pull_request_merge'' from StatusAwaitingMerge
     [StatusAwaitingChecks, StatusAwaitingMerge]"

definition ResolveConflict :: "Status \<Rightarrow> go_error + Transition" where
  "ResolveConflict from = newAllowedTransition ''resolve_pull_request_conflict'' from StatusResolvingConflict
     [StatusAwaitingChecks, StatusAwaitingMerge]"

definition StartClaim :: "Status \<Rightarrow> go_error + Transition" where
  "StartClaim from = newAllowedTransition ''start_claim'' from StatusClaiming
     [StatusUnset, StatusClaiming]"

definition ResumeAfterAnswer :: "Status \<Rightarrow> Status \<Rightarrow> go_error + Transition" where
  "ResumeAfterAnswer from target =
     (if target = StatusResumePending \<or> target = StatusResolvingConflict
      then newAllowedTransition ''resume_after_answer'' from target [StatusNeedsInput]
      else Inl (Errorf [Lit ''resume after answer does not allow target status '', Quo (Status_String target)]))"

definition ConfirmClaim :: "Status \<Rightarrow> go_error + Transition" where
  "ConfirmClaim from = newAllowedTransition ''confirm_claim'' from StatusClaimed [StatusClaiming]"

definition StartClaimedWorker :: "Status \<Rightarrow> go_error + Transition" where
  "StartClaimedWorker from = newAllowedTransition ''start_claimed_worker'' from StatusLaunching [StatusClaimed]"

definition StartAnsweredResume :: "Status \<Rightarrow> go_error + Transition" where
  "StartAnsweredResume from = newAllowedTransition ''start_answered_resume'' from StatusLaunching [StatusResumePending]"

definition StartRetry :: "Status \<Rightarrow> go_error + Transition" where
  "StartRetry from = newAllowedTransition ''start_retry'' from StatusLaunching [StatusRetryWait]"

definition ConfirmWorkerStarted :: "Status \<Rightarrow> go_error + Transition" where
  "ConfirmWorkerStarted from = newAllowedTransition ''confirm_worker_started'' from StatusRunning [StatusLaunching]"

definition AbortWorkerLaunch :: "Status \<Rightarrow> Status \<Rightarrow> go_error + Transition" where
  "AbortWorkerLaunch from target =
     (if target \<in> {StatusClaimed, StatusResumePending, StatusRetryWait, StatusResolvingConflict}
      then newAllowedTransition ''abort_worker_launch'' from target [StatusLaunching]
      else Inl (Errorf [Lit ''abort worker launch does not allow target status '', Quo (Status_String target)]))"

definition RecoverUnstartedWorker :: "Status \<Rightarrow> Status \<Rightarrow> go_error + Transition" where
  "RecoverUnstartedWorker from target =
     (if target \<noteq> StatusLaunching \<and> target \<noteq> StatusRetryWait \<and> target \<noteq> StatusBlocked
      then Inl (Errorf [Lit ''recover unstarted worker does not allow target status '', Quo (Status_String target)])
      else newAllowedTransition ''recover_unstarted_worker'' from target [StatusRunning])"

definition InterruptExecution :: "Status \<Rightarrow> go_error + Transition" where
  "InterruptExecution from = newAllowedTransition ''interrupt_execution'' from StatusRetryWait
     [StatusClaiming, StatusClaimed, StatusLaunching, StatusRunning]"

section \<open>Outcomes\<close>

record OutcomeDecision =
  od_Transition :: Transition
  od_LastError :: string
  od_FailureKind :: string
  od_Effect :: EffectKind

definition newOutcomeDecision ::
  "string \<Rightarrow> Status \<Rightarrow> Status \<Rightarrow> string \<Rightarrow> string \<Rightarrow> EffectKind \<Rightarrow> Status list \<Rightarrow> go_error + OutcomeDecision" where
  "newOutcomeDecision name from to' reason failureKind effect allowed =
     and_ok (newAllowedTransition name from to' allowed) (\<lambda>transition.
       if reason = '''' \<or> failureKind = ''''
       then Inl (Errorf [Lit ''Issue outcome '', Str name, Lit '' requires reason and failure kind''])
       else Inr \<lparr>od_Transition = transition, od_LastError = reason, od_FailureKind = failureKind, od_Effect = effect\<rparr>)"

definition RejectAnsweredResume :: "Status \<Rightarrow> string \<Rightarrow> string \<Rightarrow> go_error + OutcomeDecision" where
  "RejectAnsweredResume from reason failureKind =
     newOutcomeDecision ''reject_answered_resume'' from StatusBlocked reason failureKind EffectNone [StatusLaunching]"

definition RejectWorkerWorkspace :: "Status \<Rightarrow> string \<Rightarrow> string \<Rightarrow> go_error + OutcomeDecision" where
  "RejectWorkerWorkspace from reason failureKind =
     newOutcomeDecision ''reject_worker_workspace'' from StatusBlocked reason failureKind EffectMarkBlocked
       [StatusLaunching, StatusRunning, StatusResolvingConflict]"

definition ExhaustPullRequestChecks :: "Status \<Rightarrow> string \<Rightarrow> string \<Rightarrow> go_error + OutcomeDecision" where
  "ExhaustPullRequestChecks from reason failureKind =
     newOutcomeDecision ''exhaust_pull_request_checks'' from StatusFailed reason failureKind EffectMarkFailed
       [StatusAwaitingChecks, StatusAwaitingMerge]"

definition BlockPullRequestLifecycle :: "Status \<Rightarrow> string \<Rightarrow> string \<Rightarrow> go_error + OutcomeDecision" where
  "BlockPullRequestLifecycle from reason failureKind =
     newOutcomeDecision ''block_pull_request_lifecycle'' from StatusBlocked reason failureKind EffectMarkBlocked
       [StatusAwaitingChecks, StatusAwaitingMerge]"

definition Fail :: "Status \<Rightarrow> string \<Rightarrow> string \<Rightarrow> bool \<Rightarrow> go_error + OutcomeDecision" where
  "Fail from reason failureKind blocked =
     newOutcomeDecision (if blocked then ''block_issue'' else ''fail_issue'') from
       (if blocked then StatusBlocked else StatusFailed) reason failureKind
       (if blocked then EffectMarkBlocked else EffectMarkFailed)
       [StatusUnset, StatusClaimed, StatusLaunching, StatusRunning, StatusAwaitingChecks, StatusAwaitingMerge,
        StatusResumePending, StatusResolvingConflict, StatusRetryWait]"

definition SuspendWorker :: "Status \<Rightarrow> string \<Rightarrow> string \<Rightarrow> go_error + OutcomeDecision" where
  "SuspendWorker from reason failureKind =
     newOutcomeDecision ''suspend_worker'' from StatusBlocked reason failureKind EffectMarkBlocked [StatusRunning]"

definition StartConflictAttempt :: "Status \<Rightarrow> go_error + Transition" where
  "StartConflictAttempt from = newAllowedTransition ''start_conflict_attempt'' from StatusLaunching
     [StatusResolvingConflict, StatusLaunching]"

definition ScheduleConflictRetry :: "Status \<Rightarrow> go_error + Transition" where
  "ScheduleConflictRetry from = newAllowedTransition ''schedule_conflict_retry'' from StatusResolvingConflict
     [StatusLaunching, StatusRunning, StatusResolvingConflict]"

definition ReconcileObservation :: "Status \<Rightarrow> Status \<Rightarrow> go_error + Transition" where
  "ReconcileObservation from to' =
     (if from = to' then NewTransition ''reconcile_observation'' from to'
      else case to' of
        StatusRetryWait \<Rightarrow> newAllowedTransition ''reconcile_observation'' from to'
          [StatusClaiming, StatusClaimed, StatusLaunching, StatusRunning]
      | StatusAwaitingChecks \<Rightarrow> newAllowedTransition ''reconcile_observation'' from to' [StatusCompleted]
      | StatusAwaitingMerge \<Rightarrow> newAllowedTransition ''reconcile_observation'' from to' [StatusCompleted]
      | StatusCanceled \<Rightarrow> newAllowedTransition ''reconcile_observation'' from to' [StatusBlocked, StatusFailed]
      | _ \<Rightarrow>
        if to' = StatusCompleted \<or> to' = StatusFailed \<or> to' = StatusBlocked
        then newAllowedTransition ''reconcile_observation'' from to'
          [StatusClaiming, StatusClaimed, StatusLaunching, StatusRunning,
           StatusResumePending, StatusRetryWait, StatusNeedsInput, StatusAwaitingChecks,
           StatusAwaitingMerge, StatusResolvingConflict, StatusBlocked, StatusFailed, StatusCompleted]
        else Inl (Errorf [Lit ''reconciliation does not allow status '', Quo (Status_String from),
               Lit '' to converge to '', Quo (Status_String to')]))"

definition RestoreRejectedInput :: "Status \<Rightarrow> go_error + Transition" where
  "RestoreRejectedInput from = newAllowedTransition ''restore_rejected_input'' from StatusNeedsInput [StatusRunning]"

definition RestoreRejectedChecks :: "Status \<Rightarrow> go_error + Transition" where
  "RestoreRejectedChecks from = newAllowedTransition ''restore_rejected_checks'' from StatusAwaitingChecks [StatusRetryWait]"

section \<open>Suspension decisions (suspension.go)\<close>

definition ResolveSuspension :: "Status \<Rightarrow> ResolutionAction \<Rightarrow> ContinuationStage \<Rightarrow> go_error + Transition" where
  "ResolveSuspension from action checkpointStage =
     (case ResolutionAction_Validate action of Some e \<Rightarrow> Inl e
      | None \<Rightarrow>
        if from \<noteq> StatusBlocked \<and> from \<noteq> StatusFailed
        then Inl (Errorf [Lit ''Issue suspension cannot be resolved from status '', Quo (Status_String from)])
        else case action of
          ResolutionResume \<Rightarrow> NewTransition ''resolve_suspension_resume'' from StatusResumePending
        | ResolutionRetryStage \<Rightarrow>
            (case checkpointStage of
               ContinuationStageChecks \<Rightarrow>
                 NewTransition ''resolve_suspension_retry_stage'' from StatusAwaitingChecks
             | ContinuationStageConflict \<Rightarrow>
                 NewTransition ''resolve_suspension_retry_stage'' from StatusResolvingConflict
             | ContinuationStageResume \<Rightarrow>
                 NewTransition ''resolve_suspension_retry_stage'' from StatusResumePending
             | ContinuationStagePublish \<Rightarrow>
                 NewTransition ''resolve_suspension_retry_stage'' from StatusResumePending
             | _ \<Rightarrow> Inl (Errorf [Lit ''cannot retry unknown continuation stage '',
                    Quo (ContinuationStage_String checkpointStage)]))
        | ResolutionAdoptPR \<Rightarrow> NewTransition ''resolve_suspension_adopt_pr'' from StatusCompleted
        | ResolutionCancel \<Rightarrow> NewTransition ''resolve_suspension_cancel'' from StatusCanceled
        | _ \<Rightarrow> Inl (Errorf [Lit ''unknown Issue resolution action '', Quo (ResolutionAction_String action)]))"

definition AdoptCheckpoint ::
  "Status \<Rightarrow> SuspensionStatus \<Rightarrow> ContinuationStage \<Rightarrow> ResolutionAction \<Rightarrow> go_error + ContinuationStage" where
  "AdoptCheckpoint from suspension stage action =
     (if from \<noteq> StatusBlocked \<and> from \<noteq> StatusFailed
      then Inl (Errorf [Lit ''checkpoint cannot be adopted from status '', Quo (Status_String from)])
      else if action = ResolutionAdoptHead \<and> suspension = SuspensionActive \<and> stage = ContinuationStageResume
      then Inr stage
      else if action = ResolutionAdoptWorktree \<and> suspension = SuspensionQuarantined
        \<and> (stage = ContinuationStageResume \<or> stage = ContinuationStageConflict)
      then Inr ContinuationStageConflict
      else Inl (Errorf [Lit ''cannot adopt checkpoint stage '', Quo (ContinuationStage_String stage),
             Lit '' with suspension '', Quo (SuspensionStatus_String suspension), Lit '' using '',
             Quo (ResolutionAction_String action)]))"

definition ApproveConflictPaths ::
  "Status \<Rightarrow> SuspensionStatus \<Rightarrow> Recoverability \<Rightarrow> ContinuationStage \<Rightarrow> bool \<Rightarrow> go_error option" where
  "ApproveConflictPaths from suspension recoverability stage retryAllowed =
     (if (from \<noteq> StatusBlocked \<and> from \<noteq> StatusFailed) \<or> suspension \<noteq> SuspensionActive
        \<or> recoverability \<noteq> RecoverabilityOperator \<or> \<not> retryAllowed
        \<or> (stage \<noteq> ContinuationStageResume \<and> stage \<noteq> ContinuationStageConflict)
      then Some (Errorf [Lit ''conflict paths require an active retryable conflict checkpoint''])
      else None)"

lemmas [decision_defs] = ScheduleRetry_def Complete_def RequestInput_def AwaitChecks_def AwaitMerge_def
  ResolveConflict_def StartClaim_def ResumeAfterAnswer_def ConfirmClaim_def StartClaimedWorker_def
  StartAnsweredResume_def StartRetry_def ConfirmWorkerStarted_def AbortWorkerLaunch_def
  RecoverUnstartedWorker_def InterruptExecution_def newOutcomeDecision_def RejectAnsweredResume_def
  RejectWorkerWorkspace_def ExhaustPullRequestChecks_def BlockPullRequestLifecycle_def Fail_def
  SuspendWorker_def StartConflictAttempt_def ScheduleConflictRetry_def RestoreRejectedInput_def
  RestoreRejectedChecks_def

section \<open>What a decision guarantees\<close>

lemma NewTransition_Inr:
  "NewTransition name from to' = Inr t \<longleftrightarrow>
     name \<noteq> '''' \<and> Status_Validate from = None \<and> Status_Validate to' = None
     \<and> t = \<lparr>tr_Name = name, tr_From = from, tr_To = to'\<rparr>"
  by (auto simp: NewTransition_def simp del: Status_Validate_None split: option.splits)

lemma newAllowed_Inr:
  "newAllowedTransition name from to' allowed = Inr t \<longleftrightarrow>
     NewTransition name from to' = Inr t \<and> from \<in> set allowed"
  by (auto simp: newAllowedTransition_def and_ok_Inr)

lemma newOutcome_Inr:
  "newOutcomeDecision name from to' reason kind effect allowed = Inr d \<longleftrightarrow>
     newAllowedTransition name from to' allowed = Inr (od_Transition d) \<and> reason \<noteq> '''' \<and> kind \<noteq> ''''
     \<and> od_LastError d = reason \<and> od_FailureKind d = kind \<and> od_Effect d = effect"
  by (cases d) (auto simp: newOutcomeDecision_def and_ok_Inr split: if_splits)

lemmas decision_Inr = NewTransition_Inr newAllowed_Inr newOutcome_Inr and_ok_Inr

text \<open>The optimistic fence: a transition commits on exactly the status it was decided from.\<close>

lemma ValidateCommit_None:
  "ValidateCommit t current = None \<longleftrightarrow>
     current = tr_From t \<and> Status_Validate (tr_From t) = None \<and> Status_Validate (tr_To t) = None"
  by (auto simp: ValidateCommit_def simp del: Status_Validate_None)

lemma NewTransition_commits: "NewTransition name from to' = Inr t \<Longrightarrow> ValidateCommit t from = None"
  by (simp add: NewTransition_Inr ValidateCommit_None)

section \<open>The step relation of the lifecycle\<close>

inductive lifecycle_decision :: "Status \<Rightarrow> Transition \<Rightarrow> bool" where
  schedule_retry: "ScheduleRetry s reason retryAt kind = Inr d \<Longrightarrow> lifecycle_decision s (rd_Transition d)"
| complete: "Complete s url = Inr d \<Longrightarrow> lifecycle_decision s (cd_Transition d)"
| request_input: "RequestInput s = Inr d \<Longrightarrow> lifecycle_decision s (id_Transition d)"
| await_checks: "AwaitChecks s = Inr t \<Longrightarrow> lifecycle_decision s t"
| await_merge: "AwaitMerge s = Inr t \<Longrightarrow> lifecycle_decision s t"
| resolve_conflict: "ResolveConflict s = Inr t \<Longrightarrow> lifecycle_decision s t"
| start_claim: "StartClaim s = Inr t \<Longrightarrow> lifecycle_decision s t"
| resume_after_answer: "ResumeAfterAnswer s target = Inr t \<Longrightarrow> lifecycle_decision s t"
| confirm_claim: "ConfirmClaim s = Inr t \<Longrightarrow> lifecycle_decision s t"
| start_claimed_worker: "StartClaimedWorker s = Inr t \<Longrightarrow> lifecycle_decision s t"
| start_answered_resume: "StartAnsweredResume s = Inr t \<Longrightarrow> lifecycle_decision s t"
| start_retry: "StartRetry s = Inr t \<Longrightarrow> lifecycle_decision s t"
| confirm_worker_started: "ConfirmWorkerStarted s = Inr t \<Longrightarrow> lifecycle_decision s t"
| abort_worker_launch: "AbortWorkerLaunch s target = Inr t \<Longrightarrow> lifecycle_decision s t"
| recover_unstarted_worker: "RecoverUnstartedWorker s target = Inr t \<Longrightarrow> lifecycle_decision s t"
| interrupt_execution: "InterruptExecution s = Inr t \<Longrightarrow> lifecycle_decision s t"
| reject_answered_resume: "RejectAnsweredResume s reason kind = Inr d \<Longrightarrow> lifecycle_decision s (od_Transition d)"
| reject_worker_workspace: "RejectWorkerWorkspace s reason kind = Inr d \<Longrightarrow> lifecycle_decision s (od_Transition d)"
| exhaust_checks: "ExhaustPullRequestChecks s reason kind = Inr d \<Longrightarrow> lifecycle_decision s (od_Transition d)"
| block_pull_request: "BlockPullRequestLifecycle s reason kind = Inr d \<Longrightarrow> lifecycle_decision s (od_Transition d)"
| fail: "Fail s reason kind blocked = Inr d \<Longrightarrow> lifecycle_decision s (od_Transition d)"
| suspend_worker: "SuspendWorker s reason kind = Inr d \<Longrightarrow> lifecycle_decision s (od_Transition d)"
| start_conflict_attempt: "StartConflictAttempt s = Inr t \<Longrightarrow> lifecycle_decision s t"
| schedule_conflict_retry: "ScheduleConflictRetry s = Inr t \<Longrightarrow> lifecycle_decision s t"
| reconcile: "ReconcileObservation s target = Inr t \<Longrightarrow> lifecycle_decision s t"
| restore_rejected_input: "RestoreRejectedInput s = Inr t \<Longrightarrow> lifecycle_decision s t"
| restore_rejected_checks: "RestoreRejectedChecks s = Inr t \<Longrightarrow> lifecycle_decision s t"
| resolve_suspension: "ResolveSuspension s action stage = Inr t \<Longrightarrow> lifecycle_decision s t"

definition lifecycle_step :: "Status \<Rightarrow> Status \<Rightarrow> bool" where
  "lifecycle_step s t \<longleftrightarrow> (\<exists>tr. lifecycle_decision s tr \<and> tr_To tr = t)"

lemma lifecycle_stepI: "lifecycle_decision s tr \<Longrightarrow> lifecycle_step s (tr_To tr)"
  by (auto simp: lifecycle_step_def)

text \<open>The graph: the sources of each target, beside the repeated observation of the same status.\<close>

fun lifecycle_sources :: "Status \<Rightarrow> Status list" where
  "lifecycle_sources StatusUnset = []"
| "lifecycle_sources StatusClaiming = [StatusUnset]"
| "lifecycle_sources StatusClaimed = [StatusClaiming, StatusLaunching]"
| "lifecycle_sources StatusLaunching =
     [StatusClaimed, StatusResumePending, StatusRetryWait, StatusResolvingConflict, StatusRunning]"
| "lifecycle_sources StatusRunning = [StatusLaunching]"
| "lifecycle_sources StatusResumePending = [StatusNeedsInput, StatusLaunching, StatusBlocked, StatusFailed]"
| "lifecycle_sources StatusRetryWait =
     [StatusClaiming, StatusClaimed, StatusLaunching, StatusRunning, StatusAwaitingChecks, StatusAwaitingMerge]"
| "lifecycle_sources StatusNeedsInput = [StatusRunning, StatusResolvingConflict]"
| "lifecycle_sources StatusAwaitingChecks =
     [StatusLaunching, StatusRunning, StatusResumePending, StatusResolvingConflict, StatusRetryWait,
      StatusBlocked, StatusFailed, StatusCompleted]"
| "lifecycle_sources StatusAwaitingMerge = [StatusAwaitingChecks, StatusCompleted]"
| "lifecycle_sources StatusResolvingConflict =
     [StatusAwaitingChecks, StatusAwaitingMerge, StatusNeedsInput, StatusLaunching, StatusRunning,
      StatusBlocked, StatusFailed]"
| "lifecycle_sources StatusBlocked =
     [StatusUnset, StatusClaiming, StatusClaimed, StatusLaunching, StatusRunning, StatusResumePending,
      StatusRetryWait, StatusNeedsInput, StatusAwaitingChecks, StatusAwaitingMerge,
      StatusResolvingConflict, StatusFailed, StatusCompleted]"
| "lifecycle_sources StatusFailed =
     [StatusUnset, StatusClaiming, StatusClaimed, StatusLaunching, StatusRunning, StatusResumePending,
      StatusRetryWait, StatusNeedsInput, StatusAwaitingChecks, StatusAwaitingMerge,
      StatusResolvingConflict, StatusBlocked, StatusCompleted]"
| "lifecycle_sources StatusCompleted =
     [StatusClaiming, StatusClaimed, StatusLaunching, StatusRunning, StatusResumePending,
      StatusRetryWait, StatusNeedsInput, StatusAwaitingChecks, StatusAwaitingMerge,
      StatusResolvingConflict, StatusBlocked, StatusFailed]"
| "lifecycle_sources StatusCanceled = [StatusBlocked, StatusFailed]"
| "lifecycle_sources (StatusOther s) = []"

definition lifecycle_edge :: "Status \<Rightarrow> Status \<Rightarrow> bool" where
  "lifecycle_edge s t \<longleftrightarrow> s \<in> set AllStatuses \<and> t \<in> set AllStatuses \<and> (s = t \<or> s \<in> set (lifecycle_sources t))"

lemma reconcile_edge:
  "ReconcileObservation s target = Inr t \<Longrightarrow> lifecycle_edge s (tr_To t)"
  by (cases target)
    (auto simp: ReconcileObservation_def decision_Inr lifecycle_edge_def AllStatuses_UNIV split: if_splits)

lemma resolve_edge:
  "ResolveSuspension s action stage = Inr t \<Longrightarrow> lifecycle_edge s (tr_To t)"
  by (auto simp: ResolveSuspension_def decision_Inr lifecycle_edge_def AllStatuses_UNIV
      split: if_splits option.splits ResolutionAction.splits ContinuationStage.splits)

lemma reconcile_fenced: "ReconcileObservation s target = Inr t \<Longrightarrow> tr_From t = s \<and> tr_Name t \<noteq> ''''"
  by (cases target) (auto simp: ReconcileObservation_def decision_Inr split: if_splits)

lemma resolve_fenced: "ResolveSuspension s action stage = Inr t \<Longrightarrow> tr_From t = s \<and> tr_Name t \<noteq> ''''"
  by (auto simp: ResolveSuspension_def decision_Inr
      split: if_splits option.splits ResolutionAction.splits ContinuationStage.splits)

lemma decision_edge: "lifecycle_decision s tr \<Longrightarrow> lifecycle_edge s (tr_To tr)"
proof (cases rule: lifecycle_decision.cases, assumption)
qed (auto simp: decision_defs decision_Inr lifecycle_edge_def AllStatuses_UNIV
      dest!: reconcile_edge resolve_edge split: if_splits)

lemma decision_fenced: "lifecycle_decision s tr \<Longrightarrow> tr_From tr = s \<and> tr_Name tr \<noteq> ''''"
proof (cases rule: lifecycle_decision.cases, assumption)
qed (auto simp: decision_defs decision_Inr dest: reconcile_fenced resolve_fenced split: if_splits)

lemma step_edge: "lifecycle_step s t \<Longrightarrow> lifecycle_edge s t"
  by (auto simp: lifecycle_step_def decision_edge)

lemma step_via:
  assumes "\<And>t. F = Inr t \<Longrightarrow> lifecycle_decision s t"
    and "\<exists>n. F = Inr \<lparr>tr_Name = n, tr_From = s, tr_To = u\<rparr>"
  shows "lifecycle_step s u"
  using assms(2) by (force dest: assms(1) lifecycle_stepI)

lemma reconcile_allows:
  "s \<in> set AllStatuses \<Longrightarrow> s = u
     \<or> u \<in> {StatusCompleted, StatusFailed, StatusBlocked} \<and> s \<noteq> StatusUnset \<and> s \<noteq> StatusCanceled
     \<or> u \<in> {StatusAwaitingChecks, StatusAwaitingMerge} \<and> s = StatusCompleted
     \<or> u = StatusCanceled \<and> s \<in> {StatusBlocked, StatusFailed}
     \<or> u = StatusRetryWait \<and> s \<in> {StatusClaiming, StatusClaimed, StatusLaunching, StatusRunning}
   \<Longrightarrow> \<exists>n. ReconcileObservation s u = Inr \<lparr>tr_Name = n, tr_From = s, tr_To = u\<rparr>"
  by (cases s) (auto simp: ReconcileObservation_def decision_Inr AllStatuses_UNIV)

lemma reconcile_step:
  "s \<in> set AllStatuses \<Longrightarrow> s = u
     \<or> u \<in> {StatusCompleted, StatusFailed, StatusBlocked} \<and> s \<noteq> StatusUnset \<and> s \<noteq> StatusCanceled
     \<or> u \<in> {StatusAwaitingChecks, StatusAwaitingMerge} \<and> s = StatusCompleted
     \<or> u = StatusCanceled \<and> s \<in> {StatusBlocked, StatusFailed}
     \<or> u = StatusRetryWait \<and> s \<in> {StatusClaiming, StatusClaimed, StatusLaunching, StatusRunning}
   \<Longrightarrow> lifecycle_step s u"
  by (rule step_via [OF lifecycle_decision.reconcile [where target = u]], assumption) (rule reconcile_allows)

lemma resolve_step:
  assumes "s = StatusBlocked \<or> s = StatusFailed"
  shows "lifecycle_step s StatusResumePending" "lifecycle_step s StatusAwaitingChecks"
    "lifecycle_step s StatusResolvingConflict"
proof -
  show "lifecycle_step s StatusResumePending"
    by (rule step_via [OF lifecycle_decision.resolve_suspension [where action = ResolutionResume]], assumption)
      (use assms in \<open>auto simp: ResolveSuspension_def decision_Inr\<close>)
  show "lifecycle_step s StatusAwaitingChecks"
    by (rule step_via [OF lifecycle_decision.resolve_suspension
          [where action = ResolutionRetryStage and stage = ContinuationStageChecks]], assumption)
      (use assms in \<open>auto simp: ResolveSuspension_def decision_Inr\<close>)
  show "lifecycle_step s StatusResolvingConflict"
    by (rule step_via [OF lifecycle_decision.resolve_suspension
          [where action = ResolutionRetryStage and stage = ContinuationStageConflict]], assumption)
      (use assms in \<open>auto simp: ResolveSuspension_def decision_Inr\<close>)
qed

lemma launch_steps:
  "lifecycle_step StatusUnset StatusClaiming"
  "lifecycle_step StatusClaiming StatusClaimed"
  "lifecycle_step StatusClaimed StatusLaunching"
  "lifecycle_step StatusResumePending StatusLaunching"
  "lifecycle_step StatusRetryWait StatusLaunching"
  "lifecycle_step StatusResolvingConflict StatusLaunching"
  "lifecycle_step StatusRunning StatusLaunching"
  "lifecycle_step StatusLaunching StatusRunning"
  "lifecycle_step StatusLaunching StatusClaimed"
  "lifecycle_step StatusLaunching StatusResumePending"
  "lifecycle_step StatusLaunching StatusResolvingConflict"
proof -
  show "lifecycle_step StatusUnset StatusClaiming"
    by (rule step_via [OF lifecycle_decision.start_claim], assumption) (simp add: StartClaim_def decision_Inr)
  show "lifecycle_step StatusClaiming StatusClaimed"
    by (rule step_via [OF lifecycle_decision.confirm_claim], assumption) (simp add: ConfirmClaim_def decision_Inr)
  show "lifecycle_step StatusClaimed StatusLaunching"
    by (rule step_via [OF lifecycle_decision.start_claimed_worker], assumption) (simp add: StartClaimedWorker_def decision_Inr)
  show "lifecycle_step StatusResumePending StatusLaunching"
    by (rule step_via [OF lifecycle_decision.start_answered_resume], assumption) (simp add: StartAnsweredResume_def decision_Inr)
  show "lifecycle_step StatusRetryWait StatusLaunching"
    by (rule step_via [OF lifecycle_decision.start_retry], assumption) (simp add: StartRetry_def decision_Inr)
  show "lifecycle_step StatusResolvingConflict StatusLaunching"
    by (rule step_via [OF lifecycle_decision.start_conflict_attempt], assumption) (simp add: StartConflictAttempt_def decision_Inr)
  show "lifecycle_step StatusRunning StatusLaunching"
    by (rule step_via [OF lifecycle_decision.recover_unstarted_worker [where target = StatusLaunching]], assumption) (simp add: RecoverUnstartedWorker_def decision_Inr)
  show "lifecycle_step StatusLaunching StatusRunning"
    by (rule step_via [OF lifecycle_decision.confirm_worker_started], assumption) (simp add: ConfirmWorkerStarted_def decision_Inr)
  show "lifecycle_step StatusLaunching StatusClaimed"
    by (rule step_via [OF lifecycle_decision.abort_worker_launch [where target = StatusClaimed]], assumption) (simp add: AbortWorkerLaunch_def decision_Inr)
  show "lifecycle_step StatusLaunching StatusResumePending"
    by (rule step_via [OF lifecycle_decision.abort_worker_launch [where target = StatusResumePending]], assumption) (simp add: AbortWorkerLaunch_def decision_Inr)
  show "lifecycle_step StatusLaunching StatusResolvingConflict"
    by (rule step_via [OF lifecycle_decision.abort_worker_launch [where target = StatusResolvingConflict]], assumption) (simp add: AbortWorkerLaunch_def decision_Inr)
qed

lemma waiting_steps:
  "lifecycle_step StatusNeedsInput StatusResumePending"
  "lifecycle_step StatusNeedsInput StatusResolvingConflict"
  "lifecycle_step StatusLaunching StatusAwaitingChecks"
  "lifecycle_step StatusRunning StatusAwaitingChecks"
  "lifecycle_step StatusResumePending StatusAwaitingChecks"
  "lifecycle_step StatusResolvingConflict StatusAwaitingChecks"
  "lifecycle_step StatusRetryWait StatusAwaitingChecks"
  "lifecycle_step StatusRunning StatusNeedsInput"
  "lifecycle_step StatusAwaitingChecks StatusAwaitingMerge"
  "lifecycle_step StatusAwaitingChecks StatusResolvingConflict"
  "lifecycle_step StatusAwaitingMerge StatusResolvingConflict"
  "lifecycle_step StatusRunning StatusResolvingConflict"
proof -
  show "lifecycle_step StatusNeedsInput StatusResumePending"
    by (rule step_via [OF lifecycle_decision.resume_after_answer [where target = StatusResumePending]], assumption) (simp add: ResumeAfterAnswer_def decision_Inr)
  show "lifecycle_step StatusNeedsInput StatusResolvingConflict"
    by (rule step_via [OF lifecycle_decision.resume_after_answer [where target = StatusResolvingConflict]], assumption) (simp add: ResumeAfterAnswer_def decision_Inr)
  show "lifecycle_step StatusLaunching StatusAwaitingChecks"
    by (rule step_via [OF lifecycle_decision.await_checks], assumption) (simp add: AwaitChecks_def decision_Inr)
  show "lifecycle_step StatusRunning StatusAwaitingChecks"
    by (rule step_via [OF lifecycle_decision.await_checks], assumption) (simp add: AwaitChecks_def decision_Inr)
  show "lifecycle_step StatusResumePending StatusAwaitingChecks"
    by (rule step_via [OF lifecycle_decision.await_checks], assumption) (simp add: AwaitChecks_def decision_Inr)
  show "lifecycle_step StatusResolvingConflict StatusAwaitingChecks"
    by (rule step_via [OF lifecycle_decision.await_checks], assumption) (simp add: AwaitChecks_def decision_Inr)
  show "lifecycle_step StatusRetryWait StatusAwaitingChecks"
    by (rule step_via [OF lifecycle_decision.restore_rejected_checks], assumption) (simp add: RestoreRejectedChecks_def decision_Inr)
  show "lifecycle_step StatusRunning StatusNeedsInput"
    by (rule step_via [OF lifecycle_decision.restore_rejected_input], assumption) (simp add: RestoreRejectedInput_def decision_Inr)
  show "lifecycle_step StatusAwaitingChecks StatusAwaitingMerge"
    by (rule step_via [OF lifecycle_decision.await_merge], assumption) (simp add: AwaitMerge_def decision_Inr)
  show "lifecycle_step StatusAwaitingChecks StatusResolvingConflict"
    by (rule step_via [OF lifecycle_decision.resolve_conflict], assumption) (simp add: ResolveConflict_def decision_Inr)
  show "lifecycle_step StatusAwaitingMerge StatusResolvingConflict"
    by (rule step_via [OF lifecycle_decision.resolve_conflict], assumption) (simp add: ResolveConflict_def decision_Inr)
  show "lifecycle_step StatusRunning StatusResolvingConflict"
    by (rule step_via [OF lifecycle_decision.schedule_conflict_retry], assumption) (simp add: ScheduleConflictRetry_def decision_Inr)
qed

lemma data_steps:
  "lifecycle_step StatusResolvingConflict StatusNeedsInput"
  "s \<in> {StatusAwaitingChecks, StatusAwaitingMerge} \<Longrightarrow> lifecycle_step s StatusRetryWait"
  "lifecycle_step StatusUnset StatusBlocked" "lifecycle_step StatusUnset StatusFailed"
proof -
  have "RequestInput StatusResolvingConflict = Inr \<lparr>id_Transition =
      \<lparr>tr_Name = ''request_input'', tr_From = StatusResolvingConflict, tr_To = StatusNeedsInput\<rparr>,
      id_Effect = EffectMarkNeedsInput\<rparr>"
    by (simp add: RequestInput_def newAllowedTransition_def NewTransition_def)
  then show "lifecycle_step StatusResolvingConflict StatusNeedsInput"
    by (force dest: lifecycle_decision.request_input lifecycle_stepI)
  show "lifecycle_step s StatusRetryWait" if "s \<in> {StatusAwaitingChecks, StatusAwaitingMerge}"
  proof -
    have "ScheduleRetry s ''r'' 1 ''k'' = Inr \<lparr>rd_Transition =
        \<lparr>tr_Name = ''schedule_retry'', tr_From = s, tr_To = StatusRetryWait\<rparr>,
        rd_Reason = ''r'', rd_RetryAt = 1, rd_FailureKind = ''k''\<rparr>"
      using that by (auto simp: ScheduleRetry_def newAllowedTransition_def NewTransition_def)
    then show ?thesis by (force dest: lifecycle_decision.schedule_retry lifecycle_stepI)
  qed
  have "Fail StatusUnset ''r'' ''k'' b = Inr \<lparr>od_Transition =
        \<lparr>tr_Name = (if b then ''block_issue'' else ''fail_issue''), tr_From = StatusUnset,
         tr_To = (if b then StatusBlocked else StatusFailed)\<rparr>,
        od_LastError = ''r'', od_FailureKind = ''k'',
        od_Effect = (if b then EffectMarkBlocked else EffectMarkFailed)\<rparr>" for b
    by (simp add: Fail_def newOutcomeDecision_def newAllowedTransition_def NewTransition_def)
  from lifecycle_stepI [OF lifecycle_decision.fail [OF this]] have "lifecycle_step StatusUnset (if b then StatusBlocked else StatusFailed)" for b
    by simp
  from this [of True] this [of False]
  show "lifecycle_step StatusUnset StatusBlocked" "lifecycle_step StatusUnset StatusFailed" by simp_all
qed

lemmas named_steps = launch_steps waiting_steps data_steps resolve_step

lemma edge_step: "lifecycle_edge s t \<Longrightarrow> lifecycle_step s t"
  by (cases t) (auto simp: lifecycle_edge_def AllStatuses_UNIV intro: named_steps reconcile_step)

text \<open>The decisions allow exactly the edges of the graph.\<close>

lemma lifecycle_step_iff: "lifecycle_step s t \<longleftrightarrow> lifecycle_edge s t"
  using step_edge edge_step by blast

section \<open>Consequences: single steps\<close>

lemma step_known: "lifecycle_step s t \<Longrightarrow> s \<in> set AllStatuses \<and> t \<in> set AllStatuses"
  by (simp add: lifecycle_step_iff lifecycle_edge_def)

text \<open>Every decision of the lifecycle is fenced: the transition it returns has a name, names the
  status it was asked about as its source, and commits on exactly that status: \<open>ValidateCommit\<close>
  rejects it for an Issue that has moved on since the decision.\<close>

theorem decisions_are_fenced:
  "lifecycle_decision s tr \<Longrightarrow>
     tr_From tr = s \<and> tr_Name tr \<noteq> '''' \<and> (\<forall>current. ValidateCommit tr current = None \<longleftrightarrow> current = s)"
  using decision_edge [of s tr] decision_fenced [of s tr]
  by (auto simp: ValidateCommit_None lifecycle_edge_def AllStatuses_UNIV)

theorem decisions_are_fenced_witness:
  "ValidateCommit \<lparr>tr_Name = ''confirm_claim'', tr_From = StatusClaiming, tr_To = StatusClaimed\<rparr> StatusClaiming = None
   \<and> ValidateCommit \<lparr>tr_Name = ''confirm_claim'', tr_From = StatusClaiming, tr_To = StatusClaimed\<rparr> StatusRunning \<noteq> None"
proof -
  have "ConfirmClaim StatusClaiming
     = Inr \<lparr>tr_Name = ''confirm_claim'', tr_From = StatusClaiming, tr_To = StatusClaimed\<rparr>"
    by (simp add: ConfirmClaim_def decision_Inr)
  from decisions_are_fenced [OF lifecycle_decision.confirm_claim [OF this]] show ?thesis by auto
qed


section \<open>Consequences: runs\<close>

text \<open>The statuses an Issue can reach, starting unset.\<close>

inductive lifecycle_reach :: "Status \<Rightarrow> Status \<Rightarrow> bool" for s0 where
  reach_refl: "lifecycle_reach s0 s0"
| reach_step: "lifecycle_reach s0 s \<Longrightarrow> lifecycle_step s t \<Longrightarrow> lifecycle_reach s0 t"

lemma reach_trans: "lifecycle_reach s t \<Longrightarrow> lifecycle_reach t u \<Longrightarrow> lifecycle_reach s u"
  by (rotate_tac, induction rule: lifecycle_reach.induct) (auto intro: reach_step)

lemma reach_one: "lifecycle_step s t \<Longrightarrow> lifecycle_reach s t"
  by (auto intro: reach_step reach_refl)

text \<open>Cancellation is final: from a canceled Issue no sequence of lifecycle decisions leads to
  any other status.\<close>

theorem canceled_is_final: "lifecycle_reach StatusCanceled t = (t = StatusCanceled)"
proof
  show "lifecycle_reach StatusCanceled t \<Longrightarrow> t = StatusCanceled"
  proof (induction rule: lifecycle_reach.induct)
    case (reach_step s t)
    then show ?case
      by (cases t) (auto simp: lifecycle_step_iff lifecycle_edge_def)
  qed simp
qed (auto intro: reach_refl)

text \<open>A worker is only ever confirmed as running from a launch: each step into \<open>running\<close> from
  another status comes from \<open>launching\<close>, and \<open>launching\<close> in turn is entered only from a claimed,
  resumable, retryable, conflict-resolving or unstarted-running Issue.\<close>

theorem running_only_after_launching:
  "lifecycle_step s StatusRunning = (s = StatusRunning \<or> s = StatusLaunching)
   \<and> lifecycle_step s StatusLaunching = (s \<in> {StatusLaunching, StatusClaimed, StatusResumePending,
       StatusRetryWait, StatusResolvingConflict, StatusRunning})"
  by (auto simp: lifecycle_step_iff lifecycle_edge_def AllStatuses_UNIV)

text \<open>The statuses that hold the repository's execution are entered, from outside, only by a claim
  or a launch.\<close>

lemma enter_execution:
  "lifecycle_step s t \<Longrightarrow> RequiresActiveExecution t \<Longrightarrow> \<not> RequiresActiveExecution s \<Longrightarrow>
     (s, t) \<in> {(StatusUnset, StatusClaiming), (StatusResumePending, StatusLaunching),
                (StatusRetryWait, StatusLaunching), (StatusResolvingConflict, StatusLaunching)}"
  by (auto simp: lifecycle_step_iff lifecycle_edge_def RequiresActiveExecution_def)

text \<open>Every known status is reachable from a new Issue, and a new Issue reaches nothing else.\<close>

theorem lifecycle_reachable: "lifecycle_reach StatusUnset t = (t \<in> set AllStatuses)"
proof
  show "lifecycle_reach StatusUnset t \<Longrightarrow> t \<in> set AllStatuses"
    by (induction rule: lifecycle_reach.induct) (auto dest: step_known simp: AllStatuses_def)
next
  have claim: "lifecycle_reach StatusUnset StatusClaiming" by (intro reach_one named_steps)
  have claimed: "lifecycle_reach StatusUnset StatusClaimed" by (rule reach_step [OF claim named_steps(2)])
  have launching: "lifecycle_reach StatusUnset StatusLaunching" by (rule reach_step [OF claimed named_steps(3)])
  have edge: "lifecycle_reach StatusUnset u" if "lifecycle_reach StatusUnset s" "s \<in> set (lifecycle_sources u)"
      "u \<in> set AllStatuses" "s \<in> set AllStatuses" for s u
    using that by (auto intro: reach_step simp: lifecycle_step_iff lifecycle_edge_def)
  have running: "lifecycle_reach StatusUnset StatusRunning"
    and checks: "lifecycle_reach StatusUnset StatusAwaitingChecks"
    and failed: "lifecycle_reach StatusUnset StatusFailed"
    by (rule edge [OF launching]; simp add: AllStatuses_def)+
  assume known: "t \<in> set AllStatuses"
  show "lifecycle_reach StatusUnset t"
    by (cases t) (use known claim claimed launching running checks failed reach_refl [of StatusUnset] in
      \<open>auto simp: AllStatuses_UNIV intro: edge [OF launching] edge [OF running] edge [OF checks] edge [OF failed]\<close>)
qed

end
