(* ===== verification/IssuePaths.thy ===== *)
theory IssuePaths
  imports IssueTransition
begin

text \<open>
  \<open>ValidateConflictApprovalPaths\<close> of \<open>internal/domain/issue/suspension.go\<close>: the check an operator's
  conflict paths pass before they widen what a recovery worker may touch. \<open>path_Clean\<close> is Go's
  \<open>path.Clean\<close> on the slash-separated components. The theorem says what the check amounts to: a
  path is accepted exactly if every component is an ordinary name, so no accepted path leaves the
  worktree.
\<close>

fun split_slash :: "string \<Rightarrow> string list" where
  "split_slash [] = [[]]"
| "split_slash (c # s) =
     (if c = CHR ''/'' then [] # split_slash s
      else (case split_slash s of [] \<Rightarrow> [[c]] | w # ws \<Rightarrow> (c # w) # ws))"

definition clean_step :: "bool \<Rightarrow> string list \<Rightarrow> string \<Rightarrow> string list" where
  "clean_step rooted out c =
     (if c = '''' \<or> c = ''.'' then out
      else if c = ''..'' then
        (case out of
           x # xs \<Rightarrow> if x \<noteq> ''..'' then xs else ''..'' # out
         | [] \<Rightarrow> if rooted then [] else [''..''])
      else c # out)"

definition IsAbs :: "string \<Rightarrow> bool" where
  "IsAbs s \<longleftrightarrow> s \<noteq> [] \<and> hd s = CHR ''/''"

definition path_Clean :: "string \<Rightarrow> string" where
  "path_Clean s =
     (if s = '''' then ''.''
      else let body = join ''/'' (rev (foldl (clean_step (IsAbs s)) [] (split_slash s)));
               r = (if IsAbs s then CHR ''/'' # body else body)
           in if r = '''' then ''.'' else r)"

definition forbidden_chars :: "char list" where
  "forbidden_chars = [CHR 0x5C, CHR 0x00, CHR 0x0D, CHR 0x0A]"

definition bad_approval_path :: "string \<Rightarrow> bool" where
  "bad_approval_path v \<longleftrightarrow> v = '''' \<or> v = ''.'' \<or> v = ''..'' \<or> IsAbs v \<or> path_Clean v \<noteq> v
     \<or> HasPrefix v ''../'' \<or> (\<exists>c \<in> set v. c \<in> set forbidden_chars)"

definition ValidateConflictApprovalPaths :: "string list \<Rightarrow> go_error option" where
  "ValidateConflictApprovalPaths paths =
     (if paths = [] then Some (Errorf [Lit ''at least one explicit conflict path is required''])
      else for_each (\<lambda>v. if bad_approval_path v
             then Some (Errorf [Lit ''invalid conflict approval path '', Quo v]) else None) paths)"

section \<open>Components\<close>

lemma split_slash_nonempty [simp]: "split_slash s \<noteq> []"
  by (cases s) (auto split: list.splits)

lemma split_slash_no_slash: "w \<in> set (split_slash s) \<Longrightarrow> CHR ''/'' \<notin> set w"
  by (induction s arbitrary: w) (auto split: list.splits if_splits)

lemma join_Cons: "join sep (x # y # ys) = x @ sep @ join sep (y # ys)"
  by (simp add: join_def)

lemma join_single [simp]: "join sep [x] = x" and join_Nil [simp]: "join sep [] = []"
  by (simp_all add: join_def)

lemma split_slash_append:
  "CHR ''/'' \<notin> set w \<Longrightarrow> split_slash (w @ CHR ''/'' # s) = w # split_slash s"
  "CHR ''/'' \<notin> set w \<Longrightarrow> split_slash w = [w]"
  by (induction w) (auto split: list.splits)

lemma split_join:
  "ws \<noteq> [] \<Longrightarrow> \<forall>w \<in> set ws. CHR ''/'' \<notin> set w \<Longrightarrow> split_slash (join ''/'' ws) = ws"
proof (induction ws)
  case (Cons w ws)
  then show ?case
    by (cases ws) (auto simp: join_Cons split_slash_append)
qed simp

lemma join_Cons_char: "join sep ((c # w) # ws) = c # join sep (w # ws)"
  by (simp add: join_def)

lemma join_split: "join ''/'' (split_slash s) = s"
proof (induction s)
  case (Cons c s)
  obtain w ws where "split_slash s = w # ws" by (cases "split_slash s") simp_all
  with Cons show ?case by (auto simp: join_Cons join_Cons_char)
qed simp

section \<open>Cleaning\<close>

text \<open>Kept in reverse, a cleaned path has its parent references, if any, at the end.\<close>

fun dots_last :: "string list \<Rightarrow> bool" where
  "dots_last [] = True"
| "dots_last (x # xs) = (if x = ''..'' then set xs \<subseteq> {''..''} else dots_last xs)"

lemma dots_last_tail: "set xs \<subseteq> {''..''} \<Longrightarrow> dots_last xs"
  by (induction xs) auto

lemma dots_last_last: "dots_last xs \<Longrightarrow> ''..'' \<in> set xs \<Longrightarrow> last xs = ''..''"
proof (induction xs)
  case (Cons x xs)
  then show ?case by (cases "xs = []") (auto split: if_splits dest: last_in_set)
qed simp

definition ordinary :: "string \<Rightarrow> bool" where
  "ordinary w \<longleftrightarrow> w \<noteq> '''' \<and> w \<noteq> ''.'' \<and> w \<noteq> ''..''"

definition clean_ok :: "string list \<Rightarrow> bool" where
  "clean_ok out \<longleftrightarrow> dots_last out \<and> (\<forall>w \<in> set out. w \<noteq> '''' \<and> w \<noteq> ''.'' \<and> CHR ''/'' \<notin> set w)"

lemma clean_step_ok: "clean_ok out \<Longrightarrow> CHR ''/'' \<notin> set c \<Longrightarrow> clean_ok (clean_step rooted out c)"
  by (cases out) (auto simp: clean_ok_def clean_step_def dots_last_tail split: if_splits)

lemma clean_fold_ok:
  "clean_ok out \<Longrightarrow> \<forall>c \<in> set cs. CHR ''/'' \<notin> set c \<Longrightarrow> clean_ok (foldl (clean_step rooted) out cs)"
  by (induction cs arbitrary: out) (auto simp: clean_step_ok)

lemma clean_fold_ordinary:
  "\<forall>c \<in> set cs. ordinary c \<Longrightarrow> foldl (clean_step rooted) out cs = rev cs @ out"
  by (induction cs arbitrary: out) (auto simp: clean_step_def ordinary_def)

lemma hd_join: "ws \<noteq> [] \<Longrightarrow> hd ws = ''..'' \<Longrightarrow> join ''/'' ws = ''..'' \<or> prefix ''../'' (join ''/'' ws)"
  by (cases ws; cases "tl ws") (auto simp: join_Cons)

lemma clean_relative_components:
  assumes rel: "\<not> IsAbs v" and clean: "path_Clean v = v" and v: "v \<noteq> ''.''" "v \<noteq> ''..''" "v \<noteq> ''''"
    and parent: "\<not> prefix ''../'' v"
  shows "\<forall>w \<in> set (split_slash v). ordinary w"
proof -
  define out where "out = foldl (clean_step False) [] (split_slash v)"
  have ok: "clean_ok out"
    unfolding out_def by (rule clean_fold_ok) (auto simp: clean_ok_def dest: split_slash_no_slash)
  have v_join: "v = join ''/'' (rev out)"
    using clean rel v by (auto simp: path_Clean_def out_def [symmetric] Let_def split: if_splits)
  have ne: "out \<noteq> []" using v_join v(3) by auto
  have comps: "split_slash v = rev out"
    unfolding v_join using ok ne by (intro split_join) (auto simp: clean_ok_def)
  have "''..'' \<notin> set out"
  proof
    assume "''..'' \<in> set out"
    with ok have "hd (rev out) = ''..''" by (simp add: clean_ok_def dots_last_last hd_rev)
    with ne have "v = ''..'' \<or> prefix ''../'' v" unfolding v_join by (intro hd_join) auto
    with v(2) parent show False by simp
  qed
  with ok comps show ?thesis by (auto simp: clean_ok_def ordinary_def)
qed

lemma ordinary_components_clean:
  assumes "\<forall>w \<in> set (split_slash v). ordinary w"
  shows "\<not> IsAbs v" "path_Clean v = v" "v \<noteq> ''''" "v \<noteq> ''.''" "v \<noteq> ''..''" "\<not> prefix ''../'' v"
proof -
  have neq: "v \<noteq> u" if "split_slash u = [u]" "\<not> ordinary u" for u
    using assms that by auto
  show ne: "v \<noteq> ''''" by (rule neq) (simp_all add: ordinary_def)
  show "v \<noteq> ''.''" by (rule neq) (simp_all add: ordinary_def)
  show "v \<noteq> ''..''" by (rule neq) (simp_all add: ordinary_def)
  show rel: "\<not> IsAbs v"
  proof
    assume "IsAbs v"
    then obtain z where "v = CHR ''/'' # z" by (cases v) (auto simp: IsAbs_def)
    with assms show False by (simp add: ordinary_def)
  qed
  show "path_Clean v = v"
    using rel ne by (simp add: path_Clean_def clean_fold_ordinary [OF assms] join_split)
  show "\<not> prefix ''../'' v"
  proof
    assume "prefix ''../'' v"
    then obtain z where "v = ''..'' @ CHR ''/'' # z" by (auto simp: prefix_def)
    then have "split_slash v = ''..'' # split_slash z" by (simp only: split_slash_append) simp
    with assms show False by (simp add: ordinary_def)
  qed
qed

text \<open>The conflict paths an operator may approve are exactly the non-empty lists of relative
  paths all of whose components are ordinary names (never empty, \<open>.\<close> or \<open>..\<close>) without backslash,
  NUL or line break; so no approved path is absolute or climbs out of the worktree.\<close>

theorem approved_paths_stay_inside:
  "(ValidateConflictApprovalPaths paths = None) =
     (paths \<noteq> [] \<and> (\<forall>v \<in> set paths. (\<forall>w \<in> set (split_slash v). ordinary w) \<and> set v \<inter> set forbidden_chars = {}))"
proof -
  have "bad_approval_path v \<longleftrightarrow>
      \<not> ((\<forall>w \<in> set (split_slash v). ordinary w) \<and> set v \<inter> set forbidden_chars = {})" for v
    using clean_relative_components [of v] ordinary_components_clean [of v]
    unfolding bad_approval_path_def HasPrefix_def by blast
  then show ?thesis by (auto simp: ValidateConflictApprovalPaths_def)
qed

theorem approved_paths_stay_inside_witness:
  "ValidateConflictApprovalPaths [''src/main.go''] = None \<and> ValidateConflictApprovalPaths [''src/../../etc''] \<noteq> None"
  unfolding approved_paths_stay_inside by (simp add: ordinary_def forbidden_chars_def)

end
