(* ===== verification/QueueAuthor.thy ===== *)
theory QueueAuthor
  imports Errors
begin

text \<open>
  \<open>internal/domain/queue/author.go\<close> (who may put an Issue into the queue) with the allowlist checks
  of \<open>internal/platform/config/config.go\<close>, and \<open>internal/domain/publication/audit.go\<close> (which
  publisher failures an operator may recover).
\<close>

section \<open>Trusted authors\<close>

record AuthorFacts =
  af_Login :: string
  af_AccountType :: string
  af_Permission :: string
  af_RepositoryOwner :: bool

record AuthorVerification =
  av_Trusted :: bool
  av_Login :: string
  av_AccountType :: string
  av_Permission :: string
  av_Reason :: string
  av_VerifiedAt :: time

definition automationAccount :: "string \<Rightarrow> bool" where
  "automationAccount accountType \<longleftrightarrow> EqualFold accountType ''Bot'' \<or> EqualFold accountType ''App''"

definition VerifyAuthor :: "string list \<Rightarrow> AuthorFacts \<Rightarrow> time \<Rightarrow> AuthorVerification" where
  "VerifyAuthor allowLogins facts observedAt =
     (let login = ToLower (TrimSpace (af_Login facts));
          result = \<lparr>av_Trusted = False, av_Login = login, av_AccountType = TrimSpace (af_AccountType facts),
            av_Permission = ToLower (TrimSpace (af_Permission facts)), av_Reason = '''', av_VerifiedAt = UTC observedAt\<rparr>
      in if login = '''' then result\<lparr>av_Reason := ''author_missing''\<rparr>
         else if login \<in> set allowLogins then result\<lparr>av_Trusted := True, av_Reason := ''exact_allowlist''\<rparr>
         else if af_RepositoryOwner facts \<and> \<not> automationAccount (af_AccountType facts)
         then result\<lparr>av_Trusted := True, av_Permission := ''admin'', av_Reason := ''repository_owner''\<rparr>
         else if automationAccount (af_AccountType facts)
         then result\<lparr>av_Reason := ''automation_not_allowlisted''\<rparr>
         else if av_Permission result \<in> {''write'', ''maintain'', ''admin''}
         then result\<lparr>av_Trusted := True, av_Reason := ''repository_permission''\<rparr>
         else result\<lparr>av_Reason := ''permission_below_write''\<rparr>)"

text \<open>The checks on the allowlist in \<open>Config.Validate\<close>.\<close>

fun validateAllowLogins :: "string list \<Rightarrow> string set \<Rightarrow> go_error option" where
  "validateAllowLogins [] seen = None"
| "validateAllowLogins (login # rest) seen =
     (if login = '''' \<or> login \<noteq> TrimSpace login \<or> ToLower login \<noteq> login
      then Some (Errorf [Lit ''github.trusted_issue_authors.allow_logins must contain lowercase exact logins''])
      else if login \<in> seen
      then Some (Errorf [Lit ''github.trusted_issue_authors.allow_logins must not contain duplicate login '', Quo login])
      else validateAllowLogins rest (insert login seen))"

lemma validateAllowLogins_None:
  "validateAllowLogins logins seen = None \<longleftrightarrow>
     distinct logins \<and> set logins \<inter> seen = {} \<and> (\<forall>l \<in> set logins. l \<noteq> '''' \<and> TrimSpace l = l \<and> ToLower l = l)"
  by (induction logins arbitrary: seen) auto

lemma trusted_iff:
  "av_Trusted (VerifyAuthor allow facts at) \<longleftrightarrow>
     ToLower (TrimSpace (af_Login facts)) \<noteq> ''''
     \<and> (ToLower (TrimSpace (af_Login facts)) \<in> set allow
        \<or> (\<not> automationAccount (af_AccountType facts)
           \<and> (af_RepositoryOwner facts
              \<or> ToLower (TrimSpace (af_Permission facts)) \<in> {''write'', ''maintain'', ''admin''})))"
  by (simp add: VerifyAuthor_def Let_def)

text \<open>With a valid allowlist every entry of it works: an author is trusted by
  \<open>exact_allowlist\<close> if and only if some entry is the author's login up to letter case and
  surrounding space, and an automation account (type Bot or App) is trusted in that case only,
  whatever its permission or ownership.\<close>

theorem allowlist_decides_automation:
  assumes "validateAllowLogins allow {} = None"
  shows "(av_Reason (VerifyAuthor allow facts at) = ''exact_allowlist'')
      = (\<exists>entry \<in> set allow. EqualFold (TrimSpace entry) (TrimSpace (af_Login facts)))
    \<and> (automationAccount (af_AccountType facts)
       \<longrightarrow> av_Trusted (VerifyAuthor allow facts at)
         = (\<exists>entry \<in> set allow. EqualFold (TrimSpace entry) (TrimSpace (af_Login facts))))"
proof -
  let ?login = "ToLower (TrimSpace (af_Login facts))"
  have entries: "(\<exists>entry \<in> set allow. EqualFold (TrimSpace entry) (TrimSpace (af_Login facts))) \<longleftrightarrow> ?login \<in> set allow"
    and nonempty: "?login \<in> set allow \<Longrightarrow> ?login \<noteq> ''''"
    using assms by (auto simp: validateAllowLogins_None EqualFold_def)
  have "av_Reason (VerifyAuthor allow facts at) = ''exact_allowlist'' \<longleftrightarrow> ?login \<noteq> '''' \<and> ?login \<in> set allow"
    by (simp add: VerifyAuthor_def Let_def)
  with entries nonempty show ?thesis by (auto simp: trusted_iff)
qed

definition sample_bot :: AuthorFacts where
  "sample_bot = \<lparr>af_Login = ''Builder'', af_AccountType = ''bot'', af_Permission = ''admin'', af_RepositoryOwner = True\<rparr>"

theorem allowlist_decides_automation_witness:
  "av_Trusted (VerifyAuthor [''builder''] sample_bot 0) \<and> \<not> av_Trusted (VerifyAuthor [''owner''] sample_bot 0)"
proof -
  have trim: "TrimSpace ''builder'' = ''builder''" "TrimSpace ''Builder'' = ''Builder''" "TrimSpace ''owner'' = ''owner''"
    by (simp_all add: TrimSpace_id visible_def)
  have bot: "automationAccount (af_AccountType sample_bot)" and login: "af_Login sample_bot = ''Builder''"
    by code_simp+
  have lower: "ToLower ''Builder'' = ''builder''" "ToLower ''builder'' = ''builder''" "ToLower ''owner'' = ''owner''"
    by code_simp+
  have "validateAllowLogins [''builder''] {} = None" "validateAllowLogins [''owner''] {} = None"
    by (simp_all add: trim lower)
  from allowlist_decides_automation [OF this(1), of sample_bot 0] allowlist_decides_automation [OF this(2), of sample_bot 0] bot
  show ?thesis by (simp add: login trim lower EqualFold_def)
qed

text \<open>Trust is monotone: adding allowlist entries, granting ownership to a human account or raising a
  permission to write or above never makes a trusted author untrusted, and nobody without a login is trusted.\<close>

theorem author_trust_monotone:
  "(av_Trusted (VerifyAuthor allow facts at) \<longrightarrow> av_Trusted (VerifyAuthor (allow @ extra) facts at'))
   \<and> (av_Trusted (VerifyAuthor allow facts at) \<longrightarrow> av_Trusted (VerifyAuthor allow (facts\<lparr>af_RepositoryOwner := True\<rparr>) at'))
   \<and> (av_Trusted (VerifyAuthor allow facts at) \<longrightarrow> TrimSpace (af_Login facts) \<noteq> '''')"
  by (auto simp: trusted_iff ToLower_def)

theorem author_trust_monotone_witness:
  "av_Trusted (VerifyAuthor ([''ann''] @ [''bob'']) (sample_bot\<lparr>af_Login := ''ann''\<rparr>) 0)"
proof -
  have "av_Trusted (VerifyAuthor [''ann''] (sample_bot\<lparr>af_Login := ''ann''\<rparr>) 0)" by code_simp
  with author_trust_monotone [of "[''ann'']" "sample_bot\<lparr>af_Login := ''ann''\<rparr>" 0 "[''bob'']" 0] show ?thesis by blast
qed

section \<open>Publisher failures\<close>

text \<open>The error values the classifier looks for, and every other error with its text; \<open>errors.As\<close>
  follows the chain of wrapped errors.\<close>

datatype publish_error =
    DurableBaseMissingError
  | FormatterError string string
  | PullRequestMismatchError string
  | OtherError string
  | WrapError string publish_error

fun publish_error_text :: "publish_error \<Rightarrow> string" where
  "publish_error_text DurableBaseMissingError = ''inspect publish changes: durable base SHA is missing''"
| "publish_error_text (FormatterError code detail) =
     (if detail = '''' then ''formatter_failed: '' @ code else ''formatter_failed: '' @ code @ '': '' @ detail)"
| "publish_error_text (PullRequestMismatchError detail) = ''pull_request_mismatch: '' @ detail"
| "publish_error_text (OtherError s) = s"
| "publish_error_text (WrapError s e) = s @ publish_error_text e"

fun errors_As :: "(publish_error \<Rightarrow> bool) \<Rightarrow> publish_error \<Rightarrow> bool" where
  "errors_As P (WrapError s e) = (P (WrapError s e) \<or> errors_As P e)"
| "errors_As P e = P e"

record FailureProvenance =
  fp_Origin :: string
  fp_Phase :: string
  fp_Code :: string
  fp_Recoverable :: bool
  fp_Reason :: string
  fp_FailedAt :: time

fun is_formatter :: "publish_error \<Rightarrow> bool" where
  "is_formatter (FormatterError code detail) = True"
| "is_formatter _ = False"

fun is_mismatch :: "publish_error \<Rightarrow> bool" where
  "is_mismatch (PullRequestMismatchError detail) = True"
| "is_mismatch _ = False"

definition ClassifyFailure :: "publish_error \<Rightarrow> time \<Rightarrow> FailureProvenance" where
  "ClassifyFailure err now =
     (let result = \<lparr>fp_Origin = ''publisher'', fp_Phase = ''publication'', fp_Code = ''unknown'', fp_Recoverable = False,
            fp_Reason = publish_error_text err, fp_FailedAt = UTC now\<rparr>
      in if errors_As (\<lambda>e. e = DurableBaseMissingError) err
         then result\<lparr>fp_Phase := ''pre_publication'', fp_Code := ''durable_base_sha_missing'', fp_Recoverable := True\<rparr>
         else let result = (if errors_As is_formatter err then result\<lparr>fp_Code := ''formatter_failed''\<rparr> else result)
              in if errors_As is_mismatch err then result\<lparr>fp_Code := ''pull_request_mismatch''\<rparr> else result)"

fun root_error :: "publish_error \<Rightarrow> publish_error" where
  "root_error (WrapError s e) = root_error e"
| "root_error e = e"

lemma errors_As_root:
  "errors_As (\<lambda>e. e = DurableBaseMissingError) err \<longleftrightarrow> root_error err = DurableBaseMissingError"
  "errors_As is_formatter err \<longleftrightarrow> is_formatter (root_error err)"
  "errors_As is_mismatch err \<longleftrightarrow> is_mismatch (root_error err)"
  by (induction err) simp_all

text \<open>A publisher failure is classified by its root cause, however often it was wrapped: only the
  missing durable base is recoverable, and it alone is recorded as failing before publication.\<close>

theorem classify_by_root_cause:
  "fp_Recoverable (ClassifyFailure err now) = (root_error err = DurableBaseMissingError)
   \<and> (fp_Phase (ClassifyFailure err now) = ''pre_publication'') = (root_error err = DurableBaseMissingError)
   \<and> fp_Code (ClassifyFailure err now) = (case root_error err of
        DurableBaseMissingError \<Rightarrow> ''durable_base_sha_missing'' | FormatterError c d \<Rightarrow> ''formatter_failed''
      | PullRequestMismatchError d \<Rightarrow> ''pull_request_mismatch'' | _ \<Rightarrow> ''unknown'')"
  by (cases "root_error err") (simp_all add: ClassifyFailure_def errors_As_root)

end
