(* ===== verification/StateContract.thy ===== *)
theory StateContract
  imports IssueStatus
begin

text \<open>
  \<open>internal/domain/statecontract/contract.go\<close>: the versioned classification of the durable fields,
  which statuses require which field, and the validation of a contract.
\<close>

datatype Class = Optional | Observational | ExecutionRequiredProvenance | ClassOther string

fun Class_String :: "Class \<Rightarrow> string" where
  "Class_String Optional = ''optional''"
| "Class_String Observational = ''observational''"
| "Class_String ExecutionRequiredProvenance = ''execution_required_provenance''"
| "Class_String (ClassOther s) = s"

record MigrationPolicy =
  mp_Code :: string
  mp_Kind :: string
  mp_OperatorGuide :: string

record Field =
  fd_Path :: string
  fd_Class :: Class
  fd_Introduced :: int
  fd_RequiredStatuses :: "Status list"
  fd_Migration :: MigrationPolicy

record Contract =
  ct_Version :: int
  ct_SchemaVersion :: int
  ct_MigrationFromSchema :: int
  ct_Fields :: "Field list"

definition workspaceRequiredStatuses :: "Status list" where
  "workspaceRequiredStatuses = filter RequiresWorkspaceProvenance AllStatuses"

definition activeExecutionStatuses :: "Status list" where
  "activeExecutionStatuses = filter RequiresActiveExecution AllStatuses"

definition policy :: "string \<Rightarrow> string \<Rightarrow> string \<Rightarrow> MigrationPolicy" where
  "policy code kind guide = \<lparr>mp_Code = code, mp_Kind = kind, mp_OperatorGuide = guide\<rparr>"

definition field :: "string \<Rightarrow> Class \<Rightarrow> int \<Rightarrow> Status list \<Rightarrow> MigrationPolicy \<Rightarrow> Field" where
  "field path class introduced statuses migration =
     \<lparr>fd_Path = path, fd_Class = class, fd_Introduced = introduced, fd_RequiredStatuses = statuses,
      fd_Migration = migration\<rparr>"

definition current_fields :: "Field list" where
  "current_fields =
     [field ''active_execution'' ExecutionRequiredProvenance 4 activeExecutionStatuses
        (policy ''DERIVE_SINGLE_ACTIVE_EXECUTION'' ''migrate''
          ''derive the single execution authority from the canonical run and generation; quarantine ambiguity''),
      field ''issues[].workspace'' ExecutionRequiredProvenance 1 workspaceRequiredStatuses
        (policy ''WORKSPACE_PROVENANCE_PRESERVED_OR_QUARANTINED'' ''migrate''
          ''stopped v4 records are converted to a typed continuation checkpoint; ambiguous records are isolated''),
      field ''issues[].generation'' ExecutionRequiredProvenance 4 activeExecutionStatuses
        (policy ''DERIVE_EXECUTION_GENERATION'' ''migrate''
          ''derive generation from legacy execution authority; reject ambiguous runtime state''),
      field ''issues[].continuation'' Optional 4 [] (policy ''FOLD_LEGACY_RECOVERY_TO_CHECKPOINT'' ''migrate'' ''''),
      field ''issues[].continuation.stage'' Optional 4 [] (policy ''NORMALIZE_CONTINUATION_STAGE'' ''migrate'' ''''),
      field ''issues[].continuation.evidence'' Optional 4 [] (policy ''PRESERVE_CONTINUATION_EVIDENCE'' ''preserve'' ''''),
      field ''issues[].suspension'' Optional 2 [] (policy ''FOLD_TERMINAL_RECOVERY_TO_SUSPENSION'' ''migrate'' ''''),
      field ''issues[].session'' Optional 1 [] (policy ''OPTIONAL_NO_MIGRATION'' ''compatible'' ''''),
      field ''issues[].publication_audit'' Optional 1 [] (policy ''OPTIONAL_NO_MIGRATION'' ''compatible'' ''''),
      field ''issues[].github_state_reason'' Optional 4 [] (policy ''OPTIONAL_GITHUB_OBSERVATION'' ''compatible'' ''''),
      field ''issues[].cancellation'' Optional 4 [] (policy ''OPTIONAL_CANCELLATION_EVIDENCE'' ''compatible'' ''''),
      field ''issues[].attempts'' Observational 1 [] (policy ''PRESERVE_OBSERVATION'' ''preserve'' ''''),
      field ''issues[].updated_at'' Observational 1 [] (policy ''PRESERVE_OBSERVATION'' ''preserve'' '''')]"

definition Contract_Current :: Contract where
  "Contract_Current = \<lparr>ct_Version = CurrentVersion, ct_SchemaVersion = CurrentVersion, ct_MigrationFromSchema = 5,
     ct_Fields = current_fields\<rparr>"

definition validate_field :: "Field \<Rightarrow> go_error option" where
  "validate_field f =
     (let field_error = (\<lambda>msg. Some (Errorf [Lit ''state contract field '', Str (fd_Path f), Lit msg])) in
      case fd_Class f of ClassOther c \<Rightarrow> Some (Errorf [Lit ''state contract field '', Str (fd_Path f), Lit '' has unknown class '', Quo c])
      | _ \<Rightarrow>
      if mp_Code (fd_Migration f) = '''' \<or> mp_Kind (fd_Migration f) = ''''
      then field_error '' has no migration/compatibility rule''
      else if fd_Class f = ExecutionRequiredProvenance then
        (if fd_RequiredStatuses f = [] then Some (Errorf [Lit ''execution-required field '', Str (fd_Path f), Lit '' has no required statuses''])
         else if mp_Kind (fd_Migration f) = ''non_migratable'' \<and> mp_OperatorGuide (fd_Migration f) = ''''
         then Some (Errorf [Lit ''non-migratable field '', Str (fd_Path f), Lit '' has no operator guide''])
         else None)
      else None)"

fun validate_fields :: "string set \<Rightarrow> Field list \<Rightarrow> go_error option" where
  "validate_fields seen [] = None"
| "validate_fields seen (f # fs) =
     (if fd_Path f = '''' \<or> fd_Path f \<in> seen
      then Some (Errorf [Lit ''state contract field path is empty or duplicated: '', Quo (fd_Path f)])
      else case validate_field f of Some e \<Rightarrow> Some e | None \<Rightarrow> validate_fields (insert (fd_Path f) seen) fs)"

definition Contract_Validate :: "Contract \<Rightarrow> go_error option" where
  "Contract_Validate contract =
     (if ct_Version contract \<le> 0 \<or> ct_SchemaVersion contract \<le> 0 \<or> ct_MigrationFromSchema contract \<le> 0
      then Some (Errorf [Lit ''contract and schema versions must be positive''])
      else validate_fields {} (ct_Fields contract))"

definition FieldByPath :: "string \<Rightarrow> Field option" where
  "FieldByPath path = find (\<lambda>f. fd_Path f = path) (ct_Fields Contract_Current)"

definition RequiredForStatus :: "Field \<Rightarrow> Status \<Rightarrow> bool" where
  "RequiredForStatus f status \<longleftrightarrow> status \<in> set (fd_RequiredStatuses f)"

section \<open>Properties\<close>

lemma validate_fields_None:
  "validate_fields seen fs = None \<longleftrightarrow>
     distinct (map fd_Path fs) \<and> set (map fd_Path fs) \<inter> seen = {}
     \<and> (\<forall>f \<in> set fs. fd_Path f \<noteq> '''' \<and> validate_field f = None)"
  by (induction fs arbitrary: seen) (auto split: option.splits)

lemma field_simps' [simp]:
  "fd_Path (field p c i s m) = p" "fd_Class (field p c i s m) = c" "fd_RequiredStatuses (field p c i s m) = s"
  "fd_Migration (field p c i s m) = m" "mp_Code (policy k d g) = k" "mp_Kind (policy k d g) = d"
  "mp_OperatorGuide (policy k d g) = g"
  by (simp_all add: field_def policy_def)

lemma required_lists:
  "set activeExecutionStatuses = {s. RequiresActiveExecution s}"
  "set workspaceRequiredStatuses = {s. RequiresWorkspaceProvenance s}"
  by (auto simp: activeExecutionStatuses_def workspaceRequiredStatuses_def AllStatuses_UNIV status_simps)

lemma required_nonempty: "activeExecutionStatuses \<noteq> []" "workspaceRequiredStatuses \<noteq> []"
  by (simp_all add: activeExecutionStatuses_def workspaceRequiredStatuses_def AllStatuses_def status_simps)

text \<open>In a valid contract a path names at most one field, every field has a migration rule, and
  an execution-required field names the statuses that require it.\<close>

theorem valid_contract_is_complete:
  assumes "Contract_Validate contract = None" and "f \<in> set (ct_Fields contract)"
  shows "find (\<lambda>g. fd_Path g = fd_Path f) (ct_Fields contract) = Some f
    \<and> mp_Code (fd_Migration f) \<noteq> '''' \<and> mp_Kind (fd_Migration f) \<noteq> ''''
    \<and> (fd_Class f = ExecutionRequiredProvenance \<longrightarrow> (\<exists>s. RequiredForStatus f s))"
proof -
  have ok: "distinct (map fd_Path (ct_Fields contract))" "validate_field f = None"
    using assms by (auto simp: Contract_Validate_def validate_fields_None split: if_splits)
  have "find (\<lambda>g. fd_Path g = fd_Path f) fs = Some f"
    if "distinct (map fd_Path fs)" "f \<in> set fs" for fs
    using that by (induction fs) force+
  moreover have "\<exists>s. s \<in> set (fd_RequiredStatuses f)" if "fd_RequiredStatuses f \<noteq> []"
    using that by (cases "fd_RequiredStatuses f") auto
  ultimately show ?thesis using ok assms(2)
    by (auto simp: validate_field_def RequiredForStatus_def split: Class.splits if_splits)
qed

lemma Contract_Current_valid: "Contract_Validate Contract_Current = None"
  by (simp add: Contract_Validate_def Contract_Current_def current_fields_def validate_field_def required_nonempty)

definition active_field :: Field where
  "active_field = current_fields ! 0"

definition workspace_field :: Field where
  "workspace_field = current_fields ! 1"

lemma FieldByPath_current:
  "FieldByPath ''issues[].workspace'' = Some workspace_field" "FieldByPath ''active_execution'' = Some active_field"
  by (simp_all add: FieldByPath_def Contract_Current_def workspace_field_def active_field_def current_fields_def)

lemma RequiredForStatus_current [simp]:
  "RequiredForStatus workspace_field st = RequiresWorkspaceProvenance st"
  "RequiredForStatus active_field st = RequiresActiveExecution st"
  using required_lists
  by (auto simp: RequiredForStatus_def workspace_field_def active_field_def current_fields_def)

theorem valid_contract_is_complete_witness:
  "find (\<lambda>g. fd_Path g = ''active_execution'') (ct_Fields Contract_Current) = Some (hd current_fields)
   \<and> (\<exists>s. RequiredForStatus (hd current_fields) s)"
  using valid_contract_is_complete [OF Contract_Current_valid, of "hd current_fields"]
  by (simp add: Contract_Current_def current_fields_def)

text \<open>The contract this binary ships is valid, and its requirement lists agree with the lifecycle
  vocabulary: the execution authority and the generation are required exactly for the statuses that
  hold an execution, the workspace exactly for those that need workspace provenance.\<close>

theorem current_contract_agrees:
  "Contract_Validate Contract_Current = None
   \<and> (\<exists>f. FieldByPath ''active_execution'' = Some f \<and> (\<forall>s. RequiredForStatus f s = RequiresActiveExecution s))
   \<and> (\<exists>f. FieldByPath ''issues[].generation'' = Some f \<and> (\<forall>s. RequiredForStatus f s = RequiresActiveExecution s))
   \<and> (\<exists>f. FieldByPath ''issues[].workspace'' = Some f \<and> (\<forall>s. RequiredForStatus f s = RequiresWorkspaceProvenance s))"
  using Contract_Current_valid required_lists
  by (simp add: FieldByPath_def Contract_Current_def current_fields_def RequiredForStatus_def)

end
