(* ===== verification/GoMap.thy ===== *)
theory GoMap
  imports Errors
begin

text \<open>
  Go's \<open>map[string]V\<close>. A map is nil or a list of entries in one iteration order; the order is
  not determined by Go, so every statement about a map holds for each order of the entries. The
  keys of the entries are distinct (\<open>map_ok\<close>), which all operations keep. A map of pointers has
  values of an option type, because a decoded JSON \<open>null\<close> is an entry that holds nil.

  The locale \<open>keyed_store\<close> is the contract the components rely on, interpreted on these maps.
\<close>

datatype 'v gomap = NilMap | GoMap "(string \<times> 'v) list"

primrec entries :: "'v gomap \<Rightarrow> (string \<times> 'v) list" where
  "entries NilMap = []"
| "entries (GoMap es) = es"

definition map_ok :: "'v gomap \<Rightarrow> bool" where
  "map_ok m \<longleftrightarrow> distinct (map fst (entries m))"

definition mlookup :: "'v gomap \<Rightarrow> string \<Rightarrow> 'v option" where
  "mlookup m k = map_of (entries m) k"

text \<open>\<open>m[k]\<close> on a map of pointers: nil for a missing key and for a nil entry.\<close>

definition ptr_at :: "'v option gomap \<Rightarrow> string \<Rightarrow> 'v option" where
  "ptr_at m k = (case mlookup m k of None \<Rightarrow> None | Some p \<Rightarrow> p)"

text \<open>\<open>m[k] = v\<close>; an assignment to a nil map panics.\<close>

definition massign :: "string \<Rightarrow> 'v \<Rightarrow> 'v gomap \<Rightarrow> go_error + 'v gomap" where
  "massign k v m = (case m of NilMap \<Rightarrow> Inl NilMapPanic | GoMap es \<Rightarrow> Inr (GoMap (AList.update k v es)))"

text \<open>A write through the pointer stored under \<open>k\<close>; there is none to follow in a nil map.\<close>

definition mstore :: "string \<Rightarrow> 'v \<Rightarrow> 'v gomap \<Rightarrow> 'v gomap" where
  "mstore k v m = (case m of NilMap \<Rightarrow> NilMap | GoMap es \<Rightarrow> GoMap (AList.update k v es))"

text \<open>\<open>delete(m, k)\<close>, a no-op on a nil map.\<close>

definition mdelete :: "string \<Rightarrow> 'v gomap \<Rightarrow> 'v gomap" where
  "mdelete k m = (case m of NilMap \<Rightarrow> NilMap | GoMap es \<Rightarrow> GoMap (AList.delete k es))"

text \<open>A loop over the entries that writes through every pointer it meets.\<close>

definition map_values :: "(string \<Rightarrow> 'v \<Rightarrow> 'v) \<Rightarrow> 'v gomap \<Rightarrow> 'v gomap" where
  "map_values f m = (case m of NilMap \<Rightarrow> NilMap | GoMap es \<Rightarrow> GoMap (map (\<lambda>(k, v). (k, f k v)) es))"

definition mfilter :: "('v \<Rightarrow> bool) \<Rightarrow> 'v gomap \<Rightarrow> 'v gomap" where
  "mfilter P m = (case m of NilMap \<Rightarrow> NilMap | GoMap es \<Rightarrow> GoMap (filter (\<lambda>(k, v). P v) es))"

definition mkeys :: "'v gomap \<Rightarrow> string list" where
  "mkeys m = map fst (entries m)"

definition pointees :: "'v option gomap \<Rightarrow> 'v list" where
  "pointees m = List.map_filter (\<lambda>(k, p). p) (entries m)"

section \<open>The contract\<close>

locale keyed_store =
  fixes look :: "'m \<Rightarrow> string \<Rightarrow> 'v option"
    and put :: "string \<Rightarrow> 'v \<Rightarrow> 'm \<Rightarrow> 'm"
    and del :: "string \<Rightarrow> 'm \<Rightarrow> 'm"
    and items :: "'m \<Rightarrow> (string \<times> 'v) list"
    and invar :: "'m \<Rightarrow> bool"
  assumes look_put: "invar m \<Longrightarrow> look (put k v m) k' = (if k' = k then Some v else look m k')"
    and look_del: "invar m \<Longrightarrow> look (del k m) k' = (if k' = k then None else look m k')"
    and items_look: "invar m \<Longrightarrow> (k, v) \<in> set (items m) \<longleftrightarrow> look m k = Some v"
    and invar_put: "invar m \<Longrightarrow> invar (put k v m)"
    and invar_del: "invar m \<Longrightarrow> invar (del k m)"
begin

lemma look_put_same: "invar m \<Longrightarrow> look (put k v m) k = Some v"
  by (simp add: look_put)

lemma look_put_other: "invar m \<Longrightarrow> k' \<noteq> k \<Longrightarrow> look (put k v m) k' = look m k'"
  by (simp add: look_put)

lemma put_put: "invar m \<Longrightarrow> look (put k v (put k w m)) = look (put k v m)"
  by (rule ext) (simp add: look_put invar_put)

lemma del_put: "invar m \<Longrightarrow> look (del k (put k v m)) = look (del k m)"
  by (rule ext) (simp add: look_put look_del invar_put)

text \<open>A property of all entries after a write or a deletion.\<close>

lemma ball_put:
  "invar m \<Longrightarrow> (\<forall>(k', v') \<in> set (items (put k v m)). P k' v') \<longleftrightarrow>
     P k v \<and> (\<forall>(k', v') \<in> set (items m). k' \<noteq> k \<longrightarrow> P k' v')"
  by (auto simp: items_look look_put invar_put split: if_splits)
    (metis (mono_tags, lifting) case_prodD items_look)

lemma ball_del:
  "invar m \<Longrightarrow> (\<forall>(k', v') \<in> set (items (del k m)). P k' v') \<longleftrightarrow>
     (\<forall>(k', v') \<in> set (items m). k' \<noteq> k \<longrightarrow> P k' v')"
  by (auto simp: items_look look_del invar_del split: if_splits)
    (metis (mono_tags, lifting) case_prodD items_look)

end

definition store_ok :: "'v gomap \<Rightarrow> bool" where
  "store_ok m \<longleftrightarrow> m \<noteq> NilMap \<and> map_ok m"

lemma nil_iff [simp]:
  "mstore k v m = NilMap \<longleftrightarrow> m = NilMap" "mdelete k m = NilMap \<longleftrightarrow> m = NilMap"
  "map_values f m = NilMap \<longleftrightarrow> m = NilMap" "mfilter P m = NilMap \<longleftrightarrow> m = NilMap"
  by (cases m; simp add: mstore_def mdelete_def map_values_def mfilter_def)+

lemma mlookup_mdelete [simp, go_map_simps]: "mlookup (mdelete k m) k' = (if k' = k then None else mlookup m k')"
  by (cases m) (simp_all add: mlookup_def mdelete_def delete_conv)

lemma mlookup_mstore [go_map_simps]:
  "m \<noteq> NilMap \<Longrightarrow> mlookup (mstore k v m) k' = (if k' = k then Some v else mlookup m k')"
  by (cases m) (simp_all add: mlookup_def mstore_def update_conv)

lemma map_ok_mdelete [simp]: "map_ok m \<Longrightarrow> map_ok (mdelete k m)"
  by (cases m) (simp_all add: map_ok_def mdelete_def distinct_delete)

lemma map_ok_mstore [simp]: "map_ok m \<Longrightarrow> map_ok (mstore k v m)"
  by (cases m) (simp_all add: map_ok_def mstore_def distinct_update)

lemma entries_iff: "map_ok m \<Longrightarrow> (k, v) \<in> set (entries m) \<longleftrightarrow> mlookup m k = Some v"
  by (simp add: map_ok_def mlookup_def)

interpretation gm: keyed_store mlookup mstore mdelete entries store_ok
proof unfold_locales
  fix m :: "'a gomap" and k k' :: string and v :: 'a
  assume m: "store_ok m"
  then show "mlookup (mstore k v m) k' = (if k' = k then Some v else mlookup m k')"
    by (simp add: store_ok_def mlookup_mstore)
  show "mlookup (mdelete k m) k' = (if k' = k then None else mlookup m k')" by simp
  show "(k, v) \<in> set (entries m) \<longleftrightarrow> mlookup m k = Some v"
    using m by (simp add: store_ok_def entries_iff)
  show "store_ok (mstore k v m)" "store_ok (mdelete k m)"
    using m by (simp_all add: store_ok_def nil_iff)
qed

section \<open>Lemmas on the map operations\<close>

lemma massign_Inr: "massign k v m = Inr m' \<longleftrightarrow> m \<noteq> NilMap \<and> m' = mstore k v m"
  by (cases m) (auto simp: massign_def mstore_def)

lemma ptr_at_Some: "ptr_at m k = Some x \<longleftrightarrow> mlookup m k = Some (Some x)"
  by (auto simp: ptr_at_def split: option.splits)

lemma ptr_at_mdelete [simp, go_map_simps]: "ptr_at (mdelete k m) k' = (if k' = k then None else ptr_at m k')"
  by (simp add: ptr_at_def)

lemma ptr_at_mstore [simp, go_map_simps]:
  "m \<noteq> NilMap \<Longrightarrow> ptr_at (mstore k v m) k' = (if k' = k then v else ptr_at m k')"
  by (simp add: ptr_at_def mlookup_mstore)

lemma ptr_at_not_nil: "ptr_at m k = Some x \<Longrightarrow> m \<noteq> NilMap"
  by (auto simp: ptr_at_def mlookup_def)

lemma map_of_map_values: "map_of (map (\<lambda>(k, v). (k, f k v)) es) k = map_option (f k) (map_of es k)"
  by (induction es) auto

lemma mlookup_map_values [simp, go_map_simps]: "mlookup (map_values f m) k = map_option (f k) (mlookup m k)"
  by (cases m) (simp_all add: mlookup_def map_values_def map_of_map_values)

lemma ptr_at_map_values [go_map_simps]:
  "(\<And>k. f k None = None) \<Longrightarrow> ptr_at (map_values f m) k = (case ptr_at m k of None \<Rightarrow> None | Some x \<Rightarrow> f k (Some x))"
  by (auto simp: ptr_at_def split: option.splits)

lemma keys_map_values [simp]: "map fst (entries (map_values f m)) = map fst (entries m)"
  by (cases m) (auto simp: map_values_def)

lemma map_ok_map_values [simp]: "map_ok (map_values f m) \<longleftrightarrow> map_ok m"
  by (simp add: map_ok_def)

lemma entries_map_values: "entries (map_values f m) = map (\<lambda>(k, v). (k, f k v)) (entries m)"
  by (cases m) (simp_all add: map_values_def)

lemma map_values_cong: "(\<And>k v. (k, v) \<in> set (entries m) \<Longrightarrow> f k v = v) \<Longrightarrow> map_values f m = m"
  by (cases m) (auto simp: map_values_def intro!: map_idI)

lemma entries_mfilter: "entries (mfilter P m) = filter (\<lambda>(k, v). P v) (entries m)"
  by (cases m) (simp_all add: mfilter_def)

lemma map_ok_mfilter [simp]: "map_ok m \<Longrightarrow> map_ok (mfilter P m)"
  by (simp add: map_ok_def entries_mfilter distinct_map_filter)

lemma mem_pointees: "map_ok m \<Longrightarrow> x \<in> set (pointees m) \<longleftrightarrow> (\<exists>k. ptr_at m k = Some x)"
  by (auto simp: pointees_def List.map_filter_def ptr_at_Some simp flip: entries_iff
      intro!: image_eqI [where x = "(k, Some x)" for k])

lemma pointees_entries: "x \<in> set (pointees m) \<longleftrightarrow> (\<exists>k. (k, Some x) \<in> set (entries m))"
  by (force simp: pointees_def List.map_filter_def)

end
