(* ===== verification/SnapshotModel.thy ===== *)
theory SnapshotModel
  imports GoMap IssueStatus QueueAuthor
begin

text \<open>
  The durable data of \<open>internal/domain/snapshot/snapshot.go\<close>: one repository aggregate
  (\<open>Snapshot\<close>) with its Issues, the single execution authority, pending effects and requests,
  quarantined Issues and author verifications. Struct fields keep their names behind a short prefix
  per struct; a pointer is an option, a map of pointers a \<open>gomap\<close> of options, \<open>uint64\<close> a 64-bit
  word and \<open>time.Time\<close> an integer whose 0 is the zero time.
\<close>

section \<open>Supervisor\<close>

datatype SupervisorState = SupervisorStateUnset | SupervisorStateStarting | SupervisorStateRunning
  | SupervisorStatePolling | SupervisorStateRetryWait | SupervisorStateBlocked | SupervisorStateStopped
  | SupervisorStateMaintenance | SupervisorStateDraining | SupervisorStateOther string

fun SupervisorState_Validate :: "SupervisorState \<Rightarrow> go_error option" where
  "SupervisorState_Validate (SupervisorStateOther s) = Some (Errorf [Lit ''unknown supervisor state '', Quo s])"
| "SupervisorState_Validate _ = None"

datatype RecoveryState = RecoveryStateBlocked | RecoveryStateOther string

fun RecoveryState_Validate :: "RecoveryState \<Rightarrow> go_error option" where
  "RecoveryState_Validate (RecoveryStateOther s) = Some (Errorf [Lit ''unknown recovery state '', Quo s])"
| "RecoveryState_Validate RecoveryStateBlocked = None"

record RateLimit =
  rl_Resource :: string
  rl_ObservedResetAt :: time
  rl_CooldownSource :: string
  rl_SuppressedRetryCount :: uint64

record Supervisor =
  sup_State :: SupervisorState
  sup_PID :: int
  sup_StartedAt :: time
  sup_UpdatedAt :: time
  sup_Message :: string
  sup_FailureKind :: string
  sup_ConsecutiveFailures :: int
  sup_RetryAfter :: "time option"
  sup_RateLimit :: "RateLimit option"

section \<open>Workers, executions and effects\<close>

record AnswerRecord =
  ans_RequestID :: string
  ans_Question :: string
  ans_Answer :: string
  ans_AnsweredAt :: time

record AnswerProvenance =
  prov_Source :: string
  prov_CommentID :: int
  prov_Actor :: string
  prov_Permission :: string
  prov_RequestID :: string
  prov_IssueNumber :: int
  prov_RunID :: string
  prov_BodySHA256 :: string
  prov_CommentedAt :: time
  prov_CommentEdited :: time

record WorkerSession =
  ses_Backend :: string
  ses_ID :: string

record WorkerIdentity =
  wid_Backend :: string
  wid_RuntimeVersion :: string
  wid_Provider :: string
  wid_RequestedModel :: string
  wid_ResolvedModel :: string
  wid_Variant :: string

record Cancellation =
  can_Source :: string
  can_GitHubStateReason :: string
  can_PreviousStatus :: Status
  can_ExecutionReleaseResult :: string
  can_CanceledAt :: time

record ExecutionIdentity =
  exi_RunID :: string
  exi_Generation :: uint64

record ActiveExecution =
  act_IssueNumber :: int
  act_RunID :: string
  act_Generation :: uint64
  act_BaseSHA :: string
  act_StartedAt :: time

record EffectIntent =
  eff_ID :: string
  eff_IssueNumber :: int
  eff_RunID :: string
  eff_Kind :: EffectKind
  eff_CreatedAt :: time

record WorkerWorkspace =
  wsp_Path :: string
  wsp_Branch :: string
  wsp_RepoID :: string
  wsp_Repository :: string
  wsp_RepositoryID :: int
  wsp_GitCommonDir :: string
  wsp_MainCheckout :: string
  wsp_CapturedAt :: time

definition Workspace_Matches ::
  "WorkerWorkspace \<Rightarrow> string \<Rightarrow> string \<Rightarrow> string \<Rightarrow> string \<Rightarrow> int \<Rightarrow> string \<Rightarrow> string \<Rightarrow> bool" where
  "Workspace_Matches w path branch repoID repository repositoryID gitCommonDir mainCheckout \<longleftrightarrow>
     wsp_Path w = path \<and> wsp_Branch w = branch \<and> wsp_RepoID w = repoID \<and>
     wsp_Repository w = repository \<and> wsp_RepositoryID w = repositoryID \<and>
     wsp_GitCommonDir w = gitCommonDir \<and> wsp_MainCheckout w = mainCheckout"

section \<open>Continuations, suspensions, conflict recovery\<close>

record ContinuationEvidence =
  evi_Origin :: string
  evi_Phase :: string
  evi_Code :: string
  evi_Status :: string
  evi_ObservedAt :: time

record ContinuationCheckpoint =
  ckpt_ID :: string
  ckpt_Kind :: string
  ckpt_RequestID :: string
  ckpt_CreatedAt :: time
  ckpt_RunID :: string
  ckpt_Generation :: uint64
  ckpt_BaseSHA :: string
  ckpt_Workspace :: "WorkerWorkspace option"
  ckpt_Session :: "WorkerSession option"
  ckpt_HeadSHA :: string
  ckpt_WorktreeSHA256 :: string
  ckpt_PullRequestURL :: string
  ckpt_PullRequestNumber :: int
  ckpt_Stage :: ContinuationStage
  ckpt_ResultSHA256 :: string
  ckpt_Summary :: string
  ckpt_Evidence :: "ContinuationEvidence option"

abbreviation ContinuationKindNeedsInput :: string where
  "ContinuationKindNeedsInput \<equiv> ''needs_input''"

record Suspension =
  susp_ID :: string
  susp_Origin :: string
  susp_Status :: SuspensionStatus
  susp_ReasonCode :: string
  susp_Recoverability :: Recoverability
  susp_Reason :: string
  susp_MissingEvidence :: "string list"
  susp_AllowedActions :: "ResolutionAction list"
  susp_CheckpointID :: string
  susp_SuspendedAt :: time
  susp_ResolvedAt :: time
  susp_Resolution :: ResolutionAction

record ConflictAttempt =
  cat_Number :: int
  cat_BaseSHA :: string
  cat_Status :: ConflictAttemptStatus
  cat_Reason :: string
  cat_ConflictFiles :: "string list"
  cat_StartedAt :: time
  cat_FinishedAt :: time

record ConflictVerification =
  cv_Command :: string
  cv_Result :: string

record ConflictRecovery =
  cr_PullRequestURL :: string
  cr_RetryID :: string
  cr_PreviousBaseSHA :: string
  cr_TargetBaseSHA :: string
  cr_OriginalHeadSHA :: string
  cr_ConflictFiles :: "string list"
  cr_AllowedPaths :: "string list"
  cr_Attempts :: int
  cr_BaseUpdates :: int
  cr_History :: "ConflictAttempt list"
  cr_OriginalDiff :: string
  cr_BaseCommits :: string
  cr_ConflictContent :: string
  cr_Verification :: "ConflictVerification list"
  cr_LastReason :: string
  cr_StartedAt :: time
  cr_UpdatedAt :: time

record FormatterAudit =
  fa_Name :: string
  fa_Enabled :: bool
  fa_FileCount :: int
  fa_Changed :: bool
  fa_Result :: string
  fa_FailureCode :: string

record Audit =
  aud_BaseSHA :: string
  aud_ChangedPaths :: "string list"
  aud_Formatter :: FormatterAudit
  aud_Reason :: string

section \<open>Issues and requests\<close>

record Issue =
  iss_Number :: int
  iss_Title :: string
  iss_AuthorVerification :: "AuthorVerification option"
  iss_Status :: Status
  iss_RunID :: string
  iss_Generation :: uint64
  iss_LaunchSource :: Status
  iss_Continuation :: "ContinuationCheckpoint option"
  iss_Suspension :: "Suspension option"
  iss_PublicationAudit :: "Audit option"
  iss_Branch :: string
  iss_Worktree :: string
  iss_Workspace :: "WorkerWorkspace option"
  iss_Attempts :: int
  iss_Continuations :: int
  iss_ExecutionProfile :: string
  iss_SessionID :: string
  iss_Session :: "WorkerSession option"
  iss_WorkerIdentity :: WorkerIdentity
  iss_WorkerPID :: int
  iss_WorkerPGID :: int
  iss_PullRequestURL :: string
  iss_PullRequestNumber :: int
  iss_HeadSHA :: string
  iss_ReviewDecision :: string
  iss_PullRequestMerged :: bool
  iss_GitHubStateReason :: string
  iss_Cancellation :: "Cancellation option"
  iss_FailureKind :: string
  iss_LastError :: string
  iss_RetryAfter :: "time option"
  iss_Answers :: "AnswerRecord list"
  iss_ConflictRecovery :: "ConflictRecovery option"
  iss_UpdatedAt :: time

text \<open>The zero value of the struct, \<open>Issue{}\<close>.\<close>

definition zero_Issue :: Issue where
  "zero_Issue = \<lparr>iss_Number = 0, iss_Title = '''', iss_AuthorVerification = None, iss_Status = StatusUnset,
     iss_RunID = '''', iss_Generation = 0, iss_LaunchSource = StatusUnset, iss_Continuation = None,
     iss_Suspension = None, iss_PublicationAudit = None, iss_Branch = '''', iss_Worktree = '''',
     iss_Workspace = None, iss_Attempts = 0, iss_Continuations = 0, iss_ExecutionProfile = '''',
     iss_SessionID = '''', iss_Session = None,
     iss_WorkerIdentity = \<lparr>wid_Backend = '''', wid_RuntimeVersion = '''', wid_Provider = '''',
       wid_RequestedModel = '''', wid_ResolvedModel = '''', wid_Variant = ''''\<rparr>,
     iss_WorkerPID = 0, iss_WorkerPGID = 0, iss_PullRequestURL = '''', iss_PullRequestNumber = 0,
     iss_HeadSHA = '''', iss_ReviewDecision = '''', iss_PullRequestMerged = False, iss_GitHubStateReason = '''',
     iss_Cancellation = None, iss_FailureKind = '''', iss_LastError = '''', iss_RetryAfter = None,
     iss_Answers = [], iss_ConflictRecovery = None, iss_UpdatedAt = 0\<rparr>"

record RequestOption =
  opt_ID :: string
  opt_Label :: string

record Request =
  req_ID :: string
  req_IssueNumber :: int
  req_Question :: string
  req_Reason :: string
  req_Recommended :: string
  req_Options :: "RequestOption list"
  req_AllowFreeText :: bool
  req_ResumeStatus :: Status
  req_RunID :: string
  req_CheckpointID :: string
  req_ReleasedExecution :: "ExecutionIdentity option"
  req_Status :: RequestStatus
  req_Answer :: string
  req_AnswerProvenance :: "AnswerProvenance option"
  req_CreatedAt :: time
  req_AnsweredAt :: "time option"

record QuarantineRecord =
  qr_IssueNumber :: int
  qr_RunID :: string
  qr_Generation :: uint64
  qr_RejectedStatus :: Status
  qr_ReasonCode :: string
  qr_Reason :: string
  qr_QuarantinedAt :: time
  qr_LastValid :: "Issue option"
  qr_Requests :: "Request option list"

record Recovery =
  rec_Status :: RecoveryState
  rec_Reason :: string
  rec_BackupDir :: string
  rec_DetectedAt :: time

section \<open>The repository aggregate\<close>

record Snapshot =
  snap_Version :: int
  snap_SemanticContractVersion :: int
  snap_IssueLifecycleAPIVersion :: string
  snap_RepoID :: string
  snap_RepoPath :: string
  snap_StateRevision :: uint64
  snap_Supervisor :: Supervisor
  snap_LastExecutionReleasedAt :: time
  snap_ActiveExecution :: "ActiveExecution option"
  snap_Issues :: "Issue option gomap"
  snap_PendingEffects :: "EffectIntent option gomap"
  snap_QuarantinedIssues :: "QuarantineRecord option gomap"
  snap_IntakeVerifications :: "AuthorVerification option gomap"
  snap_PendingRequests :: "Request option gomap"
  snap_Recovery :: "Recovery option"

record Event =
  ev_Version :: int
  ev_EventID :: string
  ev_Sequence :: uint64
  ev_Timestamp :: time
  ev_RepoID :: string
  ev_IssueNumber :: int
  ev_RunID :: string
  ev_Type :: string
  ev_Payload :: string

record Transaction =
  txn_Version :: int
  txn_Snapshot :: Snapshot
  txn_Event :: Event

text \<open>\<open>snapshot.Issues[strconv.Itoa(number)]\<close>, the lookup every operation starts with.\<close>

abbreviation issue_at :: "Snapshot \<Rightarrow> int \<Rightarrow> Issue option" where
  "issue_at snapshot number \<equiv> ptr_at (snap_Issues snapshot) (Itoa number)"

text \<open>A write through the pointer of Issue \<open>number\<close>.\<close>

definition put_issue :: "int \<Rightarrow> Issue \<Rightarrow> Snapshot \<Rightarrow> Snapshot" where
  "put_issue number issue snapshot =
     snapshot\<lparr>snap_Issues := mstore (Itoa number) (Some issue) (snap_Issues snapshot)\<rparr>"

text \<open>The statuses and maps a snapshot decoded from JSON has: maps without repeated keys.\<close>

definition maps_ok :: "Snapshot \<Rightarrow> bool" where
  "maps_ok s \<longleftrightarrow> map_ok (snap_Issues s) \<and> map_ok (snap_PendingEffects s) \<and> map_ok (snap_QuarantinedIssues s)
     \<and> map_ok (snap_IntakeVerifications s) \<and> map_ok (snap_PendingRequests s)"

lemma put_issue_fields [simp]:
  "snap_Version (put_issue n i s) = snap_Version s"
  "snap_SemanticContractVersion (put_issue n i s) = snap_SemanticContractVersion s"
  "snap_IssueLifecycleAPIVersion (put_issue n i s) = snap_IssueLifecycleAPIVersion s"
  "snap_RepoID (put_issue n i s) = snap_RepoID s"
  "snap_RepoPath (put_issue n i s) = snap_RepoPath s"
  "snap_StateRevision (put_issue n i s) = snap_StateRevision s"
  "snap_Supervisor (put_issue n i s) = snap_Supervisor s"
  "snap_LastExecutionReleasedAt (put_issue n i s) = snap_LastExecutionReleasedAt s"
  "snap_ActiveExecution (put_issue n i s) = snap_ActiveExecution s"
  "snap_PendingEffects (put_issue n i s) = snap_PendingEffects s"
  "snap_QuarantinedIssues (put_issue n i s) = snap_QuarantinedIssues s"
  "snap_IntakeVerifications (put_issue n i s) = snap_IntakeVerifications s"
  "snap_PendingRequests (put_issue n i s) = snap_PendingRequests s"
  "snap_Recovery (put_issue n i s) = snap_Recovery s"
  "snap_Issues (put_issue n i s) = mstore (Itoa n) (Some i) (snap_Issues s)"
  by (simp_all add: put_issue_def)

end
