(* ===== verification/SnapshotValidate.thy ===== *)
theory SnapshotValidate
  imports SnapshotModel StateContract
begin

text \<open>
  The fail-closed validators of \<open>internal/domain/snapshot/snapshot.go\<close>: \<open>Snapshot.Validate\<close> and
  the aggregate checks it is made of, the semantic contract, and the validation of observed answers.
  A chain of early returns is a list of \<open>guard\<close>s; a loop over a map visits its entries in order.
\<close>

section \<open>Identifiers and digests\<close>

definition id_char :: "char \<Rightarrow> bool" where
  "id_char c = (let n = (of_char c :: nat) in
     97 \<le> n \<and> n \<le> 122 \<or> 65 \<le> n \<and> n \<le> 90 \<or> 48 \<le> n \<and> n \<le> 57 \<or> n = 95 \<or> n = 45)"

definition ValidID :: "string \<Rightarrow> string \<Rightarrow> bool" where
  "ValidID value prefix' \<longleftrightarrow>
     \<not> (\<not> HasPrefix value prefix' \<or> length value \<le> length prefix' \<or> length value > 128) \<and> (\<forall>c \<in> set value. id_char c)"

definition hex_char :: "char \<Rightarrow> bool" where
  "hex_char c = (let n = (of_char c :: nat) in
     48 \<le> n \<and> n \<le> 57 \<or> 97 \<le> n \<and> n \<le> 102 \<or> 65 \<le> n \<and> n \<le> 70)"

text \<open>\<open>hex.DecodeString\<close> succeeds and gives 32 bytes.\<close>

definition ValidSHA256 :: "string \<Rightarrow> bool" where
  "ValidSHA256 value \<longleftrightarrow> (even (length value) \<and> (\<forall>c \<in> set value. hex_char c)) \<and> length value div 2 = 32"

section \<open>Answers\<close>

text \<open>\<open>ValidateAnswerObservation\<close>.\<close>

definition provenance_mismatch :: "Request \<Rightarrow> AnswerProvenance \<Rightarrow> bool" where
  "provenance_mismatch request p \<longleftrightarrow>
     prov_Source p \<noteq> ''github_issue_comment'' \<or> prov_CommentID p \<le> 0 \<or> prov_Actor p = '''' \<or>
     prov_RequestID p \<noteq> req_ID request \<or> prov_IssueNumber p \<noteq> req_IssueNumber request \<or>
     prov_RunID p \<noteq> req_RunID request \<or> \<not> ValidSHA256 (prov_BodySHA256 p) \<or> IsZero (prov_CommentedAt p) \<or>
     prov_CommentedAt p < req_CreatedAt request \<or> prov_CommentEdited p < prov_CommentedAt p"

definition observation_run :: "Snapshot \<Rightarrow> int \<Rightarrow> string option" where
  "observation_run snapshot number =
     (case ptr_at (snap_Issues snapshot) (Itoa number) of Some item \<Rightarrow> Some (iss_RunID item)
      | None \<Rightarrow> map_option qr_RunID (ptr_at (snap_QuarantinedIssues snapshot) (Itoa number)))"

definition ValidateAnswerObservation ::
  "Snapshot \<Rightarrow> Request \<Rightarrow> AnswerProvenance option \<Rightarrow> go_error option" where
  "ValidateAnswerObservation snapshot request provenance =
     (if req_Status request \<noteq> RequestStatusPending \<and> req_Status request \<noteq> RequestStatusAnswered
      then Some (ConflictError (lit ''request is canceled''))
      else case provenance of None \<Rightarrow> None
      | Some p \<Rightarrow>
        if provenance_mismatch request p
        then Some (ConflictError (lit ''comment observation does not match request''))
        else if req_Status request = RequestStatusAnswered then
          (case req_AnswerProvenance request of
             None \<Rightarrow> Some (ConflictError (lit ''request was answered by a different observation''))
           | Some old \<Rightarrow>
             if prov_CommentID old \<noteq> prov_CommentID p \<or> prov_BodySHA256 old \<noteq> prov_BodySHA256 p \<or>
                prov_Actor old \<noteq> prov_Actor p \<or> prov_CommentEdited old \<noteq> prov_CommentEdited p
             then Some (ConflictError (lit ''request was answered by a different observation''))
             else None)
        else case observation_run snapshot (req_IssueNumber request) of
             None \<Rightarrow> Some (ConflictError (lit ''request has no Issue''))
           | Some run \<Rightarrow> if run \<noteq> req_RunID request
               then Some (ConflictError (lit ''request belongs to a stale run'')) else None)"

section \<open>The execution authority\<close>

definition active_matches :: "ActiveExecution \<Rightarrow> Issue \<Rightarrow> bool" where
  "active_matches active issue \<longleftrightarrow> act_IssueNumber active = iss_Number issue \<and> act_RunID active = iss_RunID issue
     \<and> act_Generation active = iss_Generation issue"

definition authority_matches :: "Snapshot \<Rightarrow> Issue \<Rightarrow> bool" where
  "authority_matches snapshot issue \<longleftrightarrow> (case snap_ActiveExecution snapshot of None \<Rightarrow> False
     | Some active \<Rightarrow> active_matches active issue \<and> act_Generation active \<noteq> 0 \<and> \<not> IsZero (act_StartedAt active))"

text \<open>\<open>LegacyWorkerLaunchSource\<close>: the launch source the durable evidence authorizes, or the reason
  there is none.\<close>

definition answered_evidence :: "Snapshot \<Rightarrow> Issue \<Rightarrow> bool" where
  "answered_evidence snapshot issue \<longleftrightarrow> iss_Answers issue \<noteq> [] \<or>
     (\<exists>request \<in> set (pointees (snap_PendingRequests snapshot)).
        req_IssueNumber request = iss_Number issue \<and> req_Status request = RequestStatusAnswered)"

definition answered_request_bound :: "Issue \<Rightarrow> ContinuationCheckpoint \<Rightarrow> Request \<Rightarrow> bool" where
  "answered_request_bound issue checkpoint request \<longleftrightarrow>
     req_ID request = ckpt_RequestID checkpoint \<and> req_IssueNumber request = iss_Number issue \<and>
     req_CheckpointID request = ckpt_ID checkpoint \<and> req_RunID request = iss_RunID issue \<and>
     (case req_ReleasedExecution request of None \<Rightarrow> False
      | Some released \<Rightarrow> exi_RunID released = ckpt_RunID checkpoint \<and> exi_Generation released = ckpt_Generation checkpoint) \<and>
     req_Status request = RequestStatusAnswered \<and> TrimSpace (req_Answer request) \<noteq> '''' \<and>
     (case req_AnsweredAt request of None \<Rightarrow> False | Some t \<Rightarrow> \<not> IsZero t)"

definition answer_agrees :: "Request \<Rightarrow> AnswerRecord \<Rightarrow> bool" where
  "answer_agrees request answer \<longleftrightarrow> ans_Question answer = req_Question request \<and> ans_Answer answer = req_Answer request
     \<and> \<not> IsZero (ans_AnsweredAt answer) \<and> req_AnsweredAt request = Some (ans_AnsweredAt answer)"

definition resume_evidence :: "Snapshot \<Rightarrow> Issue \<Rightarrow> ContinuationCheckpoint \<Rightarrow> string + Status" where
  "resume_evidence snapshot issue checkpoint =
     (if ckpt_Kind checkpoint \<noteq> ContinuationKindNeedsInput \<or> ckpt_RequestID checkpoint = '''' \<or>
         ckpt_RunID checkpoint \<noteq> iss_RunID issue \<or> ckpt_Generation checkpoint = 0 \<or>
         ckpt_Generation checkpoint \<ge> iss_Generation issue \<or> ckpt_Generation checkpoint + 1 \<noteq> iss_Generation issue
      then Inl (lit ''needs-input continuation identity does not match the Issue run and generation'')
      else case ptr_at (snap_PendingRequests snapshot) (ckpt_RequestID checkpoint) of
        None \<Rightarrow> Inl (lit ''answered request does not match the continuation identity'')
      | Some request \<Rightarrow>
        if \<not> answered_request_bound issue checkpoint request
        then Inl (lit ''answered request does not match the continuation identity'')
        else let matching = filter (\<lambda>a. ans_RequestID a = ckpt_RequestID checkpoint) (iss_Answers issue) in
          if \<exists>a \<in> set matching. \<not> answer_agrees request a
          then Inl (lit ''recorded answer does not match the answered request'')
          else if length matching \<noteq> 1
          then Inl (lit ''answered request does not have exactly one matching answer record'')
          else Inr StatusResumePending)"

definition LegacyWorkerLaunchSource :: "Snapshot \<Rightarrow> Issue \<Rightarrow> string + Status" where
  "LegacyWorkerLaunchSource snapshot issue =
     (if \<not> authority_matches snapshot issue
      then Inl (lit ''active execution does not match the Issue run and generation'')
      else case iss_Continuation issue of
        None \<Rightarrow> if answered_evidence snapshot issue
                then Inl (lit ''answered evidence has no continuation checkpoint'') else Inr StatusRetryWait
      | Some checkpoint \<Rightarrow>
        if ckpt_Kind checkpoint = '''' \<and> ckpt_RequestID checkpoint = '''' then
          (if answered_evidence snapshot issue
           then Inl (lit ''answered evidence is not bound to the continuation checkpoint'') else Inr StatusRetryWait)
        else resume_evidence snapshot issue checkpoint)"

definition executing_issues :: "Snapshot \<Rightarrow> Issue list" where
  "executing_issues snapshot = filter (\<lambda>i. RequiresActiveExecution (iss_Status i)) (pointees (snap_Issues snapshot))"

definition launch_needs_evidence :: "Issue \<Rightarrow> bool" where
  "launch_needs_evidence issue \<longleftrightarrow> iss_Status issue = StatusLaunching \<and> iss_WorkerPID issue = 0 \<and>
     (case iss_Continuation issue of None \<Rightarrow> False | Some c \<Rightarrow> ckpt_Kind c = ContinuationKindNeedsInput) \<and>
     (iss_LaunchSource issue = StatusResumePending \<or> iss_LaunchSource issue = StatusRetryWait)"

definition launch_evidence_error :: "Issue \<Rightarrow> string \<Rightarrow> go_error" where
  "launch_evidence_error issue reason = Errorf [Lit ''Issue #'', Num (iss_Number issue),
     Lit '' launch source is inconsistent with answered continuation evidence: '', Str reason]"

definition validate_launch_evidence :: "Snapshot \<Rightarrow> Issue \<Rightarrow> go_error option" where
  "validate_launch_evidence snapshot executing =
     (if \<not> launch_needs_evidence executing then None
      else case LegacyWorkerLaunchSource snapshot executing of
        Inl reason \<Rightarrow> Some (launch_evidence_error executing reason)
      | Inr source \<Rightarrow> if source \<noteq> iss_LaunchSource executing
          then Some (launch_evidence_error executing (lit ''evidence authorizes '' @ Status_String source
                 @ lit '' instead of '' @ Status_String (iss_LaunchSource executing)))
          else None)"

definition validateExecutionState :: "Snapshot \<Rightarrow> go_error option" where
  "validateExecutionState snapshot = (case executing_issues snapshot of
     [] \<Rightarrow> guard (snap_ActiveExecution snapshot \<noteq> None) [Lit ''active execution has no executing Issue'']
   | [executing] \<Rightarrow>
       first_error [guard (\<not> authority_matches snapshot executing)
           [Lit ''Issue #'', Num (iss_Number executing), Lit '' does not match repository active execution''],
         validate_launch_evidence snapshot executing]
   | first # second # _ \<Rightarrow> Some (Errorf [Lit ''Issues #'', Num (iss_Number first), Lit '' and #'', Num (iss_Number second),
       Lit '' both claim the single active execution'']))"

section \<open>The Issue aggregate\<close>

fun validate_actions :: "ResolutionAction set \<Rightarrow> ResolutionAction list \<Rightarrow> go_error option" where
  "validate_actions seen [] = None"
| "validate_actions seen (action # rest) =
     (if ResolutionAction_Validate action \<noteq> None \<or> action = ResolutionAdoptWorktree
        \<or> action = ResolutionApproveConflictPaths \<or> action \<in> seen
      then Some (Errorf [Lit ''suspension contains an invalid or duplicate action '', Quo (ResolutionAction_String action)])
      else validate_actions (insert action seen) rest)"

definition validate_suspension_status :: "Suspension \<Rightarrow> go_error option" where
  "validate_suspension_status suspension = (case susp_Status suspension of
     SuspensionResolved \<Rightarrow>
       guard (IsZero (susp_ResolvedAt suspension) \<or> ResolutionAction_Validate (susp_Resolution suspension) \<noteq> None
           \<or> susp_Resolution suspension = ResolutionAdoptWorktree
           \<or> susp_Resolution suspension = ResolutionApproveConflictPaths)
         [Lit ''resolved suspension has no valid resolution'']
   | SuspensionOther t \<Rightarrow> Some (Errorf [Lit ''unknown suspension status '', Quo t])
   | _ \<Rightarrow> guard (\<not> IsZero (susp_ResolvedAt suspension) \<or> susp_Resolution suspension \<noteq> ResolutionNone)
         [Lit ''active suspension contains a resolution''])"

definition pending_adoption_sync :: "Issue \<Rightarrow> Suspension \<Rightarrow> bool" where
  "pending_adoption_sync issue suspension \<longleftrightarrow> susp_Status suspension = SuspensionResolved
     \<and> susp_Resolution suspension = ResolutionAdoptPR
     \<and> (case iss_Continuation issue of None \<Rightarrow> False | Some c \<Rightarrow> susp_CheckpointID suspension = ckpt_ID c)"

definition validateSuspension :: "Issue \<Rightarrow> go_error option" where
  "validateSuspension issue = (case iss_Suspension issue of None \<Rightarrow> None | Some suspension \<Rightarrow> first_error
     [guard (iss_Status issue = StatusCompleted \<and> \<not> pending_adoption_sync issue suspension)
        [Lit ''completed lifecycle retains a suspension outside pending adoption synchronization''],
      guard (\<not> Terminal (iss_Status issue) \<and> susp_Status suspension \<noteq> SuspensionResolved)
        [Lit ''active suspension is attached to executing lifecycle '', Quo (Status_String (iss_Status issue))],
      guard (\<not> ValidID (susp_ID suspension) ''suspension_'' \<or> blank (susp_ReasonCode suspension)
          \<or> blank (susp_Reason suspension) \<or> IsZero (susp_SuspendedAt suspension)
          \<or> susp_AllowedActions suspension = [])
        [Lit ''suspension identity, reason, time, and actions must be complete''],
      validate_suspension_status suspension,
      guard (case susp_Recoverability suspension of RecoverabilityOther t \<Rightarrow> True | _ \<Rightarrow> False)
        [Lit ''unknown suspension recoverability '', Quo (Recoverability_String (susp_Recoverability suspension))],
      validate_actions {} (susp_AllowedActions suspension),
      guard (susp_CheckpointID suspension \<noteq> '''' \<and> (case iss_Continuation issue of None \<Rightarrow> True
          | Some c \<Rightarrow> ckpt_ID c \<noteq> susp_CheckpointID suspension))
        [Lit ''suspension checkpoint identity is inconsistent'']])"

definition validate_worker :: "Issue \<Rightarrow> go_error option" where
  "validate_worker issue = first_error
     [guard (iss_WorkerPID issue < 0 \<or> iss_WorkerPGID issue < 0 \<or> (iss_WorkerPID issue = 0) \<noteq> (iss_WorkerPGID issue = 0))
        [Lit ''worker PID and PGID must be present or absent together''],
      guard (iss_WorkerPID issue > 0 \<and> (iss_RunID issue = '''' \<or> \<not> RequiresActiveExecution (iss_Status issue)))
        [Lit ''worker process is not owned by an executing lifecycle''],
      guard (iss_Status issue = StatusRunning \<and> iss_WorkerPID issue = 0)
        [Lit ''running worker process identity is missing'']]"

definition validate_launch_source :: "Issue \<Rightarrow> go_error option" where
  "validate_launch_source issue =
     (if iss_Status issue = StatusLaunching
      then guard (iss_LaunchSource issue \<notin> {StatusClaimed, StatusResumePending, StatusRetryWait, StatusResolvingConflict})
        [Lit ''launch source '', Quo (Status_String (iss_LaunchSource issue)), Lit '' is invalid'']
      else guard (iss_LaunchSource issue \<noteq> StatusUnset) [Lit ''launch source is retained outside launching state''])"

definition validate_session :: "Issue \<Rightarrow> go_error option" where
  "validate_session issue = (case iss_Session issue of
     Some session \<Rightarrow> guard (blank (ses_Backend session) \<or> blank (ses_ID session) \<or> iss_SessionID issue \<noteq> ses_ID session)
       [Lit ''worker session identity is incomplete or inconsistent'']
   | None \<Rightarrow> guard (iss_SessionID issue \<noteq> '''') [Lit ''legacy session ID is missing its typed session''])"

definition validate_pull_request :: "Issue \<Rightarrow> go_error option" where
  "validate_pull_request issue = first_error
     [guard (iss_PullRequestNumber issue < 0) [Lit ''Pull Request number must not be negative''],
      guard (iss_PullRequestNumber issue > 0 \<and> iss_PullRequestURL issue = '''') [Lit ''Pull Request number has no URL''],
      guard (iss_PullRequestMerged issue \<and> (iss_PullRequestNumber issue = 0 \<or> iss_PullRequestURL issue = ''''
          \<or> iss_HeadSHA issue = ''''))
        [Lit ''merged Pull Request identity is incomplete'']]"

definition cancellation_complete :: "Cancellation \<Rightarrow> bool" where
  "cancellation_complete c \<longleftrightarrow> can_Source c \<noteq> ''''
     \<and> (can_PreviousStatus c = StatusBlocked \<or> can_PreviousStatus c = StatusFailed)
     \<and> (can_ExecutionReleaseResult c = ''not_present'' \<or> can_ExecutionReleaseResult c = ''released'')
     \<and> \<not> IsZero (can_CanceledAt c)"

definition not_planned_missing :: "Issue \<Rightarrow> Cancellation \<Rightarrow> bool" where
  "not_planned_missing issue c \<longleftrightarrow> can_Source c = ''github_not_planned'' \<and>
     (\<not> EqualFold (iss_GitHubStateReason issue) ''NOT_PLANNED'' \<or> \<not> EqualFold (can_GitHubStateReason c) ''NOT_PLANNED'')"

definition validate_cancellation :: "Issue \<Rightarrow> go_error option" where
  "validate_cancellation issue =
     (if iss_Status issue = StatusCanceled then first_error
        [guard (case iss_Cancellation issue of None \<Rightarrow> True | Some c \<Rightarrow> \<not> cancellation_complete c)
           [Lit ''canceled lifecycle has incomplete cancellation evidence''],
         guard (case iss_Suspension issue of None \<Rightarrow> False
             | Some sp \<Rightarrow> susp_Status sp \<noteq> SuspensionResolved \<or> susp_Resolution sp \<noteq> ResolutionCancel)
           [Lit ''canceled lifecycle retains an unresolved suspension''],
         guard (case iss_Cancellation issue of None \<Rightarrow> False | Some c \<Rightarrow> not_planned_missing issue c)
           [Lit ''GitHub cancellation is missing authoritative NOT_PLANNED state reason'']]
      else guard (iss_Cancellation issue \<noteq> None) [Lit ''non-canceled lifecycle contains cancellation evidence''])"

definition validate_checkpoint :: "Issue \<Rightarrow> go_error option" where
  "validate_checkpoint issue = (case iss_Continuation issue of None \<Rightarrow> None | Some checkpoint \<Rightarrow> first_error
     [guard (\<not> ValidID (ckpt_ID checkpoint) ''checkpoint_'' \<and> \<not> ValidID (ckpt_ID checkpoint) ''park_'')
        [Lit ''continuation checkpoint identity is invalid''],
      guard (ckpt_RunID checkpoint = '''' \<or> ckpt_Generation checkpoint = 0
          \<or> ckpt_Generation checkpoint > iss_Generation issue \<or> IsZero (ckpt_CreatedAt checkpoint))
        [Lit ''continuation checkpoint execution identity is incomplete''],
      map_option (Wrapf [Lit ''continuation checkpoint stage: '']) (ContinuationStage_Validate (ckpt_Stage checkpoint)),
      guard (ckpt_WorktreeSHA256 checkpoint \<noteq> '''' \<and> \<not> ValidSHA256 (ckpt_WorktreeSHA256 checkpoint))
        [Lit ''continuation checkpoint worktree digest is invalid''],
      guard (ckpt_ResultSHA256 checkpoint \<noteq> '''' \<and> \<not> ValidSHA256 (ckpt_ResultSHA256 checkpoint))
        [Lit ''continuation checkpoint result digest is invalid'']])"

definition validate_history :: "Issue \<Rightarrow> go_error option" where
  "validate_history issue = (case iss_ConflictRecovery issue of None \<Rightarrow> None | Some recovery \<Rightarrow>
     for_each (\<lambda>attempt. map_option (Wrapf [Lit ''conflict attempt '', Num (cat_Number attempt), Lit '': ''])
                 (ConflictAttemptStatus_Validate (cat_Status attempt))) (cr_History recovery))"

definition validateIssueAggregate :: "Issue \<Rightarrow> go_error option" where
  "validateIssueAggregate issue = first_error
     [Status_Validate (iss_Status issue),
      guard (iss_Attempts issue < 0 \<or> iss_Continuations issue < 0)
        [Lit ''attempt and continuation counters must not be negative''],
      validate_worker issue,
      validate_launch_source issue,
      validate_session issue,
      validate_pull_request issue,
      validate_cancellation issue,
      guard (iss_ReviewDecision issue \<notin> {'''', ''APPROVED'', ''CHANGES_REQUESTED'', ''REVIEW_REQUIRED''})
        [Lit ''unsupported Pull Request review decision '', Quo (iss_ReviewDecision issue)],
      guard (case iss_RetryAfter issue of None \<Rightarrow> False | Some t \<Rightarrow> IsZero t) [Lit ''retry deadline is zero''],
      guard (iss_Generation issue > 0 \<and> iss_RunID issue = '''') [Lit ''execution generation has no run owner''],
      guard (case iss_Workspace issue of None \<Rightarrow> False | Some w \<Rightarrow> wsp_RepositoryID w < 0)
        [Lit ''workspace repository ID must not be negative''],
      validate_history issue,
      validate_checkpoint issue,
      validateSuspension issue]"

section \<open>Effects and requests\<close>

definition wanted_status :: "EffectKind \<Rightarrow> Status" where
  "wanted_status kind = (case kind of
     EffectMarkDone \<Rightarrow> StatusCompleted
   | EffectMarkNeedsInput \<Rightarrow> StatusNeedsInput
   | EffectMarkFailed \<Rightarrow> StatusFailed
   | EffectMarkBlocked \<Rightarrow> StatusBlocked
   | EffectRetryConflict \<Rightarrow> StatusResolvingConflict
   | _ \<Rightarrow> StatusUnset)"

definition resolution_executable :: "Issue \<Rightarrow> bool" where
  "resolution_executable issue \<longleftrightarrow> \<not> Terminal (iss_Status issue) \<and>
     (case iss_Suspension issue of None \<Rightarrow> False | Some sp \<Rightarrow> susp_Status sp = SuspensionResolved)"

definition validateEffectIntent :: "Snapshot \<Rightarrow> string \<Rightarrow> EffectIntent option \<Rightarrow> go_error option" where
  "validateEffectIntent snapshot key effect =
     (let incomplete = Errorf [Lit ''pending effect entry '', Quo key, Lit '' has incomplete identity''] in
      case effect of None \<Rightarrow> Some incomplete | Some effect \<Rightarrow>
      if key \<noteq> Itoa (eff_IssueNumber effect) \<or> \<not> ValidID (eff_ID effect) ''effect_'' \<or> eff_RunID effect = ''''
        \<or> IsZero (eff_CreatedAt effect) then Some incomplete
      else case EffectKind_Validate (eff_Kind effect) of Some e \<Rightarrow> Some e | None \<Rightarrow>
      (case ptr_at (snap_Issues snapshot) key of
         None \<Rightarrow> Some (Errorf [Lit ''pending effect '', Str (eff_ID effect), Lit '' has no matching Issue run''])
       | Some issue \<Rightarrow> first_error
          [guard (iss_RunID issue \<noteq> eff_RunID effect)
             [Lit ''pending effect '', Str (eff_ID effect), Lit '' has no matching Issue run''],
           guard (eff_Kind effect = EffectApplyResolution \<and> \<not> resolution_executable issue)
             [Lit ''Issue resolution effect has no resolved executable suspension''],
           guard (wanted_status (eff_Kind effect) \<noteq> StatusUnset \<and> iss_Status issue \<noteq> wanted_status (eff_Kind effect))
             [Lit ''effect '', Quo (EffectKind_String (eff_Kind effect)), Lit '' is incompatible with status '',
              Quo (Status_String (iss_Status issue))]]))"

definition historical_answered_run :: "Request \<Rightarrow> bool" where
  "historical_answered_run request \<longleftrightarrow> req_Status request = RequestStatusAnswered \<and> req_CheckpointID request \<noteq> ''''
     \<and> (case req_ReleasedExecution request of None \<Rightarrow> False | Some r \<Rightarrow> exi_RunID r = req_RunID request)"

definition historical_completed_request :: "Issue \<Rightarrow> Request \<Rightarrow> bool" where
  "historical_completed_request issue request \<longleftrightarrow> iss_Status issue = StatusCompleted \<and> iss_Continuation issue = None
     \<and> req_Status request = RequestStatusAnswered \<and> req_RunID request \<noteq> ''''
     \<and> (case req_ReleasedExecution request of None \<Rightarrow> False | Some r \<Rightarrow> exi_RunID r = req_RunID request)"

definition answer_recorded :: "Issue \<Rightarrow> Request \<Rightarrow> bool" where
  "answer_recorded issue request \<longleftrightarrow> (\<exists>answer \<in> set (iss_Answers issue).
     ans_RequestID answer = req_ID request \<and> ans_Question answer = req_Question request
     \<and> ans_Answer answer = req_Answer request)"

definition validate_request_answer :: "string \<Rightarrow> Request \<Rightarrow> go_error option" where
  "validate_request_answer id' request = (case req_Status request of
     RequestStatusPending \<Rightarrow> guard (req_Answer request \<noteq> '''' \<or> req_AnsweredAt request \<noteq> None)
       [Lit ''pending request '', Str id', Lit '' already contains an answer'']
   | RequestStatusAnswered \<Rightarrow> guard (blank (req_Answer request)) [Lit ''answered request '', Str id', Lit '' has no answer'']
   | RequestStatusCanceled \<Rightarrow> guard (req_Answer request \<noteq> '''' \<or> req_AnsweredAt request \<noteq> None)
       [Lit ''canceled request '', Str id', Lit '' contains an answer'']
   | _ \<Rightarrow> None)"

definition validate_provenance :: "Snapshot \<Rightarrow> string \<Rightarrow> Request \<Rightarrow> go_error option" where
  "validate_provenance snapshot id' request = (case req_AnswerProvenance request of None \<Rightarrow> None | Some p \<Rightarrow> first_error
     [guard (req_Status request \<noteq> RequestStatusAnswered \<or> \<not> ValidSHA256 (prov_BodySHA256 p))
        [Lit ''request '', Str id', Lit '' has invalid answer provenance''],
      ValidateAnswerObservation snapshot request (Some p)])"

definition validate_request_checkpoint :: "string \<Rightarrow> Issue \<Rightarrow> Request \<Rightarrow> go_error option" where
  "validate_request_checkpoint id' issue request =
     (if req_Status request = RequestStatusAnswered \<and> answer_recorded issue request then None
      else if req_CheckpointID request = '''' then None
      else if historical_completed_request issue request then None
      else let (checkpoint, bound) = (case iss_Continuation issue of None \<Rightarrow> ('''', '''')
                 | Some c \<Rightarrow> (ckpt_ID c, ckpt_RequestID c)) in
        guard (case iss_Continuation issue of None \<Rightarrow> True
           | Some c \<Rightarrow> ckpt_ID c \<noteq> req_CheckpointID request \<or> ckpt_RequestID c \<noteq> req_ID request)
          [Lit ''request '', Str id', Lit '' continuation identity is inconsistent: issue checkpoint='', Quo checkpoint,
           Lit '' request checkpoint='', Quo (req_CheckpointID request), Lit '' checkpoint request='', Quo bound])"

definition ValidateRequestAggregate :: "Snapshot \<Rightarrow> string \<Rightarrow> Request \<Rightarrow> go_error option" where
  "ValidateRequestAggregate snapshot id' request =
     (if blank id' \<or> req_ID request \<noteq> id' \<or> \<not> ValidID id' ''req_''
      then Some (Errorf [Lit ''request entry '', Quo id', Lit '' has invalid identity''])
      else case issue_at snapshot (req_IssueNumber request) of
        None \<Rightarrow> Some (Errorf [Lit ''request '', Str id', Lit '' refers to missing Issue #'', Num (req_IssueNumber request)])
      | Some issue \<Rightarrow> first_error
        [guard (req_RunID request \<noteq> '''' \<and> req_RunID request \<noteq> iss_RunID issue \<and> \<not> historical_answered_run request)
           [Lit ''request '', Str id', Lit '' run does not match Issue #'', Num (iss_Number issue)],
         (if req_ResumeStatus request = StatusUnset then None
          else map_option (Wrapf [Lit ''request '', Str id', Lit '': '']) (Status_Validate (req_ResumeStatus request))),
         validate_request_answer id' request,
         validate_provenance snapshot id' request,
         validate_request_checkpoint id' issue request])"

section \<open>The semantic contract\<close>

definition SupportsExecutionRequiredField :: "string \<Rightarrow> bool" where
  "SupportsExecutionRequiredField path \<longleftrightarrow> path \<in> {''issues[].workspace'', ''issues[].generation'', ''active_execution''}"

definition CrossedWorkerExecutionBoundary :: "Issue \<Rightarrow> bool" where
  "CrossedWorkerExecutionBoundary issue \<longleftrightarrow>
     (iss_Workspace issue \<noteq> None \<or> iss_Worktree issue \<noteq> '''' \<or> iss_Branch issue \<noteq> '''' \<or> iss_SessionID issue \<noteq> ''''
      \<or> iss_Session issue \<noteq> None \<or> iss_Attempts issue > 0 \<or> iss_Continuations issue > 0)
     \<or> iss_PublicationAudit issue \<noteq> None \<or> iss_ConflictRecovery issue \<noteq> None \<or> iss_Continuation issue \<noteq> None
     \<or> iss_Suspension issue \<noteq> None"

abbreviation SemanticCodeWorkspaceProvenanceMissing :: string where
  "SemanticCodeWorkspaceProvenanceMissing \<equiv> lit ''EXECUTION_REQUIRED_WORKSPACE_PROVENANCE_MISSING''"

abbreviation SemanticCodeWorkspaceProvenanceInvalid :: string where
  "SemanticCodeWorkspaceProvenanceInvalid \<equiv> lit ''EXECUTION_REQUIRED_WORKSPACE_PROVENANCE_INVALID''"

abbreviation SemanticCodeExecutionAuthorityMissing :: string where
  "SemanticCodeExecutionAuthorityMissing \<equiv> lit ''EXECUTION_REQUIRED_ACTIVE_EXECUTION_MISSING''"

definition violation :: "Issue \<Rightarrow> Field \<Rightarrow> string \<Rightarrow> string \<Rightarrow> SemanticViolation" where
  "violation issue f code reason =
     \<lparr>viol_IssueNumber = iss_Number issue, viol_Status = Status_String (iss_Status issue), viol_Field = fd_Path f,
      viol_Code = code, viol_Migratable = False, viol_Reason = reason, viol_MigrationRule = mp_Code (fd_Migration f),
      viol_OperatorGuide = mp_OperatorGuide (fd_Migration f)\<rparr>"

definition workspace_inconsistent :: "Snapshot \<Rightarrow> Issue \<Rightarrow> WorkerWorkspace \<Rightarrow> bool" where
  "workspace_inconsistent snapshot issue w \<longleftrightarrow>
     wsp_Path w = '''' \<or> wsp_Path w \<noteq> iss_Worktree issue \<or> wsp_Branch w = '''' \<or> wsp_Branch w \<noteq> iss_Branch issue \<or>
     wsp_RepoID w = '''' \<or> wsp_RepoID w \<noteq> snap_RepoID snapshot \<or> wsp_Repository w = '''' \<or>
     wsp_GitCommonDir w = '''' \<or> wsp_MainCheckout w = '''' \<or> IsZero (wsp_CapturedAt w)"

definition holds_authority :: "Snapshot \<Rightarrow> Issue \<Rightarrow> bool" where
  "holds_authority snapshot issue \<longleftrightarrow> (case snap_ActiveExecution snapshot of None \<Rightarrow> False
     | Some active \<Rightarrow> active_matches active issue)"

definition issue_violations :: "Snapshot \<Rightarrow> Field \<Rightarrow> Field \<Rightarrow> Issue \<Rightarrow> SemanticViolation list" where
  "issue_violations snapshot f activeField issue =
     (if RequiredForStatus activeField (iss_Status issue) \<and> \<not> holds_authority snapshot issue
      then [violation issue activeField SemanticCodeExecutionAuthorityMissing
              (lit ''executing lifecycle has no matching repository active execution'')] else [])
     @ (if \<not> RequiredForStatus f (iss_Status issue) \<or> \<not> CrossedWorkerExecutionBoundary issue then []
        else case iss_Workspace issue of
          None \<Rightarrow> [violation issue f SemanticCodeWorkspaceProvenanceMissing
                     (lit ''saved workspace provenance is required before this recovery state can execute'')]
        | Some w \<Rightarrow> if workspace_inconsistent snapshot issue w
            then [violation issue f SemanticCodeWorkspaceProvenanceInvalid
                    (lit ''saved workspace provenance is incomplete or inconsistent with durable issue identity'')]
            else [])"

definition validator_missing :: "Field \<Rightarrow> SemanticViolation" where
  "validator_missing f = \<lparr>viol_IssueNumber = 0, viol_Status = '''', viol_Field = fd_Path f,
     viol_Code = lit ''EXECUTION_REQUIRED_VALIDATOR_MISSING'', viol_Migratable = False,
     viol_Reason = lit ''execution-required contract field has no runtime validator'',
     viol_MigrationRule = mp_Code (fd_Migration f), viol_OperatorGuide = ''''\<rparr>"

definition requirement_missing :: "string \<Rightarrow> string \<Rightarrow> string \<Rightarrow> SemanticViolation" where
  "requirement_missing path code reason = \<lparr>viol_IssueNumber = 0, viol_Status = '''', viol_Field = path, viol_Code = code,
     viol_Migratable = False, viol_Reason = reason, viol_MigrationRule = '''', viol_OperatorGuide = ''''\<rparr>"

text \<open>The keys in numeric order. Go's sort is not stable; for the keys of a valid snapshot, which
  are the decimal forms of distinct numbers, the order is determined.\<close>

definition sorted_issue_keys :: "Snapshot \<Rightarrow> string list" where
  "sorted_issue_keys snapshot = sort_key (\<lambda>k. fst (Atoi k)) (mkeys (snap_Issues snapshot))"

definition semanticViolations :: "Snapshot \<Rightarrow> SemanticViolation list" where
  "semanticViolations snapshot =
     (let violations = map validator_missing (filter (\<lambda>f. fd_Class f = ExecutionRequiredProvenance
            \<and> \<not> SupportsExecutionRequiredField (fd_Path f)) (ct_Fields Contract_Current)) in
      case FieldByPath ''issues[].workspace'' of
        None \<Rightarrow> violations @ [requirement_missing ''issues[].workspace'' SemanticCodeWorkspaceProvenanceInvalid
                  (lit ''workspace requirement is missing from the current contract'')]
      | Some f \<Rightarrow> (case FieldByPath ''active_execution'' of
          None \<Rightarrow> violations @ [requirement_missing ''active_execution'' SemanticCodeExecutionAuthorityMissing
                  (lit ''active execution requirement is missing from the current contract'')]
        | Some activeField \<Rightarrow> violations @ concat (map (\<lambda>key.
            case ptr_at (snap_Issues snapshot) key of None \<Rightarrow> []
            | Some issue \<Rightarrow> issue_violations snapshot f activeField issue) (sorted_issue_keys snapshot))))"

definition persistence_tolerates :: "Snapshot \<Rightarrow> SemanticViolation \<Rightarrow> bool" where
  "persistence_tolerates snapshot v \<longleftrightarrow> viol_Code v = SemanticCodeWorkspaceProvenanceMissing \<and>
     (case issue_at snapshot (viol_IssueNumber v) of None \<Rightarrow> False
      | Some issue \<Rightarrow> (iss_Status issue = StatusBlocked \<or> iss_Status issue = StatusFailed)
          \<and> iss_WorkerPID issue = 0 \<and> iss_WorkerPGID issue = 0)"

definition validatePersistenceSemanticContract :: "Snapshot \<Rightarrow> go_error option" where
  "validatePersistenceSemanticContract snapshot =
     (let remaining = filter (\<lambda>v. \<not> persistence_tolerates snapshot v) (semanticViolations snapshot)
      in if remaining \<noteq> [] then Some (SemanticCompatibilityError remaining) else None)"

section \<open>The aggregate\<close>

definition validate_issue_entry :: "string \<Rightarrow> Issue option \<Rightarrow> go_error option" where
  "validate_issue_entry key entry = (case entry of
     None \<Rightarrow> Some (Errorf [Lit ''Issue entry '', Quo key, Lit '' is null''])
   | Some issue \<Rightarrow> first_error
      [guard (iss_Number issue < 1 \<or> key \<noteq> Itoa (iss_Number issue))
         [Lit ''Issue entry '', Quo key, Lit '' does not match Issue number '', Num (iss_Number issue)],
       map_option (Wrapf [Lit ''Issue #'', Num (iss_Number issue), Lit '': '']) (validateIssueAggregate issue)])"

definition validate_quarantine_entry :: "Snapshot \<Rightarrow> string \<Rightarrow> QuarantineRecord option \<Rightarrow> go_error option" where
  "validate_quarantine_entry snapshot key entry =
     (let invalid = [Lit ''quarantined Issue entry '', Quo key, Lit '' has invalid identity''] in
      case entry of None \<Rightarrow> Some (Errorf invalid)
      | Some q \<Rightarrow> first_error
        [guard (qr_IssueNumber q < 1 \<or> key \<noteq> Itoa (qr_IssueNumber q)) invalid,
         guard (ptr_at (snap_Issues snapshot) key \<noteq> None)
           [Lit ''Issue #'', Num (qr_IssueNumber q), Lit '' is both managed and quarantined''],
         guard (qr_ReasonCode q = '''' \<or> blank (qr_Reason q) \<or> IsZero (qr_QuarantinedAt q))
           [Lit ''quarantined Issue #'', Num (qr_IssueNumber q), Lit '' has incomplete evidence'']])"

definition validate_verification_entry :: "string \<Rightarrow> AuthorVerification option \<Rightarrow> go_error option" where
  "validate_verification_entry key entry =
     guard (\<not> snd (Atoi key) \<or> (case entry of None \<Rightarrow> True
         | Some v \<Rightarrow> av_Reason v = '''' \<or> IsZero (av_VerifiedAt v)))
       [Lit ''Issue author verification entry '', Quo key, Lit '' is invalid'']"

definition validate_request_entry :: "Snapshot \<Rightarrow> string \<Rightarrow> Request option \<Rightarrow> go_error option" where
  "validate_request_entry snapshot id' entry = (case entry of
     None \<Rightarrow> Some (Errorf [Lit ''request entry '', Quo id', Lit '' is null''])
   | Some request \<Rightarrow> ValidateRequestAggregate snapshot id' request)"

definition validateContent :: "Snapshot \<Rightarrow> go_error option" where
  "validateContent snapshot = first_error
     [SupervisorState_Validate (sup_State (snap_Supervisor snapshot)),
      (case snap_Recovery snapshot of None \<Rightarrow> None | Some r \<Rightarrow> RecoveryState_Validate (rec_Status r)),
      guard (blank (snap_RepoID snapshot) \<or> blank (snap_RepoPath snapshot))
        [Lit ''snapshot repository identity is incomplete''],
      guard (snap_Issues snapshot = NilMap \<or> snap_PendingEffects snapshot = NilMap
          \<or> snap_QuarantinedIssues snapshot = NilMap \<or> snap_IntakeVerifications snapshot = NilMap
          \<or> snap_PendingRequests snapshot = NilMap)
        [Lit ''snapshot aggregate maps must be initialized''],
      validateExecutionState snapshot,
      validatePersistenceSemanticContract snapshot,
      for_each (\<lambda>(key, entry). validate_issue_entry key entry) (entries (snap_Issues snapshot)),
      for_each (\<lambda>(key, entry). validate_quarantine_entry snapshot key entry) (entries (snap_QuarantinedIssues snapshot)),
      for_each (\<lambda>(key, effect). validateEffectIntent snapshot key effect) (entries (snap_PendingEffects snapshot)),
      for_each (\<lambda>(key, entry). validate_verification_entry key entry) (entries (snap_IntakeVerifications snapshot)),
      for_each (\<lambda>(id', entry). validate_request_entry snapshot id' entry) (entries (snap_PendingRequests snapshot))]"

definition ValidateVersion :: "Snapshot \<Rightarrow> go_error option" where
  "ValidateVersion snapshot =
     (if snap_Version snapshot \<noteq> CurrentVersion then Some (SchemaVersionError ''state'' (snap_Version snapshot))
      else if snap_SemanticContractVersion snapshot \<noteq> 0
      then Some (SemanticContractVersionError (snap_SemanticContractVersion snapshot) 0)
      else if snap_IssueLifecycleAPIVersion snapshot \<noteq> ''''
      then Some (LifecycleAPIVersionError (snap_IssueLifecycleAPIVersion snapshot) '''')
      else None)"

definition resolved_cancel :: "Suspension \<Rightarrow> bool" where
  "resolved_cancel sp \<longleftrightarrow> susp_Status sp = SuspensionResolved \<and> susp_Resolution sp = ResolutionCancel"

definition validate_resolved_cancel :: "Issue \<Rightarrow> go_error option" where
  "validate_resolved_cancel item = (case iss_Suspension item of None \<Rightarrow> None | Some sp \<Rightarrow>
     guard (resolved_cancel sp \<and>
        (iss_Status item \<noteq> StatusCanceled \<or> IsZero (susp_ResolvedAt sp)
         \<or> (case iss_Cancellation item of None \<Rightarrow> True | Some c \<Rightarrow> susp_ResolvedAt sp \<noteq> can_CanceledAt c)))
       [Lit ''Issue #'', Num (iss_Number item), Lit '' resolved cancel does not match completed cancellation''])"

definition Snapshot_Validate :: "Snapshot \<Rightarrow> go_error option" where
  "Snapshot_Validate snapshot = first_error
     [ValidateVersion snapshot,
      for_each validate_resolved_cancel (pointees (snap_Issues snapshot)),
      validateContent snapshot]"

definition ValidateLegacy :: "Snapshot \<Rightarrow> go_error option" where
  "ValidateLegacy snapshot =
     (if snap_Version snapshot \<noteq> 5 then Some (SchemaVersionError ''legacy state'' (snap_Version snapshot))
      else if snap_SemanticContractVersion snapshot \<noteq> 4
      then Some (SemanticContractVersionError (snap_SemanticContractVersion snapshot) 4)
      else if snap_IssueLifecycleAPIVersion snapshot \<noteq> ''2.0'' \<and> snap_IssueLifecycleAPIVersion snapshot \<noteq> ''2.1''
      then Some (LifecycleAPIVersionError (snap_IssueLifecycleAPIVersion snapshot) ''2.1'')
      else validateContent snapshot)"

definition ValidateSemanticContract :: "Snapshot \<Rightarrow> go_error option" where
  "ValidateSemanticContract snapshot = first_error
     [(if snap_Version snapshot \<noteq> 0 then ValidateVersion snapshot else None),
      (if semanticViolations snapshot = [] then None
       else Some (SemanticCompatibilityError (semanticViolations snapshot)))]"

end
