(* ===== verification/SnapshotFacts.thy ===== *)
theory SnapshotFacts
  imports SnapshotValidate
begin

text \<open>
  What a valid snapshot promises: the facts every other component relies on, read off the
  validators (\<open>valid_facts\<close>), and the properties of the repository aggregate that follow from them:
  one execution authority, one worker, consistent effects and requests, answered continuations.
\<close>

section \<open>Sample data\<close>

definition new_issue :: "int \<Rightarrow> Issue" where
  "new_issue n = zero_Issue\<lparr>iss_Number := n, iss_Title := ''title'', iss_UpdatedAt := 1\<rparr>"

definition sample_workspace :: WorkerWorkspace where
  "sample_workspace = \<lparr>wsp_Path = ''/w'', wsp_Branch = ''b'', wsp_RepoID = ''repo'', wsp_Repository = ''o/r'',
     wsp_RepositoryID = 1, wsp_GitCommonDir = ''/g'', wsp_MainCheckout = ''/m'', wsp_CapturedAt = 1\<rparr>"

definition running_issue :: Issue where
  "running_issue = (new_issue 7)\<lparr>iss_Status := StatusRunning, iss_RunID := ''run_1'', iss_Generation := 3,
     iss_WorkerPID := 42, iss_WorkerPGID := 42, iss_Worktree := ''/w'', iss_Branch := ''b'',
     iss_Workspace := Some sample_workspace, iss_Attempts := 1\<rparr>"

definition sample_active :: ActiveExecution where
  "sample_active = \<lparr>act_IssueNumber = 7, act_RunID = ''run_1'', act_Generation = 3, act_BaseSHA = '''', act_StartedAt = 1\<rparr>"

definition new_snapshot :: Snapshot where
  "new_snapshot = \<lparr>snap_Version = 6, snap_SemanticContractVersion = 0, snap_IssueLifecycleAPIVersion = '''',
     snap_RepoID = ''repo'', snap_RepoPath = ''/repo'', snap_StateRevision = 0,
     snap_Supervisor = \<lparr>sup_State = SupervisorStateStopped, sup_PID = 0, sup_StartedAt = 0, sup_UpdatedAt = 1,
       sup_Message = '''', sup_FailureKind = '''', sup_ConsecutiveFailures = 0, sup_RetryAfter = None, sup_RateLimit = None\<rparr>,
     snap_LastExecutionReleasedAt = 0, snap_ActiveExecution = None,
     snap_Issues = GoMap [], snap_PendingEffects = GoMap [], snap_QuarantinedIssues = GoMap [],
     snap_IntakeVerifications = GoMap [], snap_PendingRequests = GoMap [], snap_Recovery = None\<rparr>"

definition running_snapshot :: Snapshot where
  "running_snapshot = new_snapshot\<lparr>snap_ActiveExecution := Some sample_active,
     snap_Issues := GoMap [(''7'', Some running_issue), (''9'', Some (new_issue 9))]\<rparr>"

lemma new_snapshot_valid: "Snapshot_Validate new_snapshot = None"
  by code_simp

lemma running_snapshot_valid: "Snapshot_Validate running_snapshot = None"
  by code_simp

section \<open>The facts of a valid snapshot\<close>

lemma ptr_at_entry: "ptr_at m k = Some x \<Longrightarrow> (k, Some x) \<in> set (entries m)"
  by (auto simp: ptr_at_Some mlookup_def dest: map_of_SomeD)

text \<open>The parts of \<open>Snapshot_Validate\<close>.\<close>

lemma valid_parts:
  assumes "Snapshot_Validate s = None"
  shows valid_version: "ValidateVersion s = None"
    and valid_cancel: "\<forall>i \<in> set (pointees (snap_Issues s)). validate_resolved_cancel i = None"
    and valid_content: "validateContent s = None"
  using assms by (simp_all add: Snapshot_Validate_def)

lemma content_parts:
  assumes "validateContent s = None"
  shows content_supervisor: "SupervisorState_Validate (sup_State (snap_Supervisor s)) = None"
    and content_repo: "\<not> blank (snap_RepoID s)" "\<not> blank (snap_RepoPath s)"
    and content_maps: "snap_Issues s \<noteq> NilMap" "snap_PendingEffects s \<noteq> NilMap" "snap_QuarantinedIssues s \<noteq> NilMap"
      "snap_IntakeVerifications s \<noteq> NilMap" "snap_PendingRequests s \<noteq> NilMap"
    and content_execution: "validateExecutionState s = None"
    and content_semantic: "validatePersistenceSemanticContract s = None"
    and content_issues: "\<forall>(k, e) \<in> set (entries (snap_Issues s)). validate_issue_entry k e = None"
    and content_quarantine: "\<forall>(k, e) \<in> set (entries (snap_QuarantinedIssues s)). validate_quarantine_entry s k e = None"
    and content_effects: "\<forall>(k, e) \<in> set (entries (snap_PendingEffects s)). validateEffectIntent s k e = None"
    and content_verifications: "\<forall>(k, e) \<in> set (entries (snap_IntakeVerifications s)). validate_verification_entry k e = None"
    and content_requests: "\<forall>(k, e) \<in> set (entries (snap_PendingRequests s)). validate_request_entry s k e = None"
  using assms by (auto simp: validateContent_def)

lemma valid_not_nil:
  assumes "Snapshot_Validate s = None"
  shows "snap_Issues s \<noteq> NilMap" "snap_PendingEffects s \<noteq> NilMap" "snap_QuarantinedIssues s \<noteq> NilMap"
    "snap_IntakeVerifications s \<noteq> NilMap" "snap_PendingRequests s \<noteq> NilMap"
  using content_maps [OF valid_content [OF assms]] by auto

lemma valid_issue:
  assumes "Snapshot_Validate s = None" and "ptr_at (snap_Issues s) k = Some i"
  shows "1 \<le> iss_Number i" and "k = Itoa (iss_Number i)" and "validateIssueAggregate i = None"
proof -
  have "validate_issue_entry k (Some i) = None"
    using content_issues [OF valid_content [OF assms(1)]] ptr_at_entry [OF assms(2)] by auto
  then show "1 \<le> iss_Number i" and "k = Itoa (iss_Number i)" and "validateIssueAggregate i = None"
    by (auto simp: validate_issue_entry_def)
qed

text \<open>An entry of a valid snapshot is not null, so the keys of the map are the managed Issues.\<close>

lemma valid_no_null:
  assumes "Snapshot_Validate s = None" and "(k, e) \<in> set (entries (snap_Issues s))"
  shows "\<exists>i. e = Some i"
  using content_issues [OF valid_content [OF assms(1)]] assms(2)
  by (cases e) (auto simp: validate_issue_entry_def)

lemma issue_at_key:
  assumes "Snapshot_Validate s = None"
  shows "ptr_at (snap_Issues s) k = Some i \<Longrightarrow> issue_at s (iss_Number i) = Some i"
  using valid_issue(2) [OF assms] by auto

lemma aggregate_parts:
  assumes "validateIssueAggregate i = None"
  shows agg_status: "\<forall>t. iss_Status i \<noteq> StatusOther t"
    and agg_counters: "0 \<le> iss_Attempts i" "0 \<le> iss_Continuations i"
    and agg_worker: "validate_worker i = None"
    and agg_launch: "validate_launch_source i = None"
    and agg_session: "validate_session i = None"
    and agg_pull_request: "validate_pull_request i = None"
    and agg_cancellation: "validate_cancellation i = None"
    and agg_retry: "iss_RetryAfter i \<noteq> Some 0"
    and agg_generation: "iss_Generation i > 0 \<Longrightarrow> iss_RunID i \<noteq> ''''"
    and agg_checkpoint: "validate_checkpoint i = None"
    and agg_suspension: "validateSuspension i = None"
  using assms by (auto simp: validateIssueAggregate_def)

lemma worker_facts:
  assumes "validateIssueAggregate i = None"
  shows "0 \<le> iss_WorkerPID i" "0 \<le> iss_WorkerPGID i" "iss_WorkerPID i = 0 \<longleftrightarrow> iss_WorkerPGID i = 0"
    "iss_WorkerPID i > 0 \<Longrightarrow> RequiresActiveExecution (iss_Status i) \<and> iss_RunID i \<noteq> ''''"
    "iss_Status i = StatusRunning \<Longrightarrow> iss_WorkerPID i > 0"
  using agg_worker [OF assms] by (auto simp: validate_worker_def)

text \<open>A valid snapshot keeps the authority and the executing Issue together.\<close>

lemma executing_mem: "map_ok (snap_Issues s) \<Longrightarrow>
    i \<in> set (executing_issues s) \<longleftrightarrow> (\<exists>k. ptr_at (snap_Issues s) k = Some i) \<and> RequiresActiveExecution (iss_Status i)"
  by (auto simp: executing_issues_def mem_pointees)

lemma execution_cases:
  assumes "validateExecutionState s = None"
  obtains (idle) "executing_issues s = []" "snap_ActiveExecution s = None"
  | (busy) i a where "executing_issues s = [i]" "snap_ActiveExecution s = Some a" "active_matches a i"
      "act_Generation a \<noteq> 0" "act_StartedAt a \<noteq> 0" "validate_launch_evidence s i = None"
proof (cases "executing_issues s")
  case Nil
  then show ?thesis using assms that(1) by (auto simp: validateExecutionState_def)
next
  case (Cons i rest)
  then show ?thesis using assms that(2)
    by (cases rest) (auto simp: validateExecutionState_def authority_matches_def split: option.splits)
qed

section \<open>The semantic contract\<close>

lemma violations_alt: "semanticViolations s = concat (map (\<lambda>key. case ptr_at (snap_Issues s) key of None \<Rightarrow> []
     | Some issue \<Rightarrow> issue_violations s workspace_field active_field issue) (sorted_issue_keys s))"
proof -
  have "filter (\<lambda>f. fd_Class f = ExecutionRequiredProvenance \<and> \<not> SupportsExecutionRequiredField (fd_Path f))
      (ct_Fields Contract_Current) = []"
    by (simp add: Contract_Current_def current_fields_def SupportsExecutionRequiredField_def)
  then show ?thesis by (simp add: semanticViolations_def FieldByPath_current)
qed

lemma violations_mem:
  "v \<in> set (semanticViolations s) \<longleftrightarrow>
     (\<exists>k i. ptr_at (snap_Issues s) k = Some i \<and> v \<in> set (issue_violations s workspace_field active_field i))"
proof -
  have "ptr_at (snap_Issues s) k = Some i \<Longrightarrow> k \<in> set (sorted_issue_keys s)" for k i
    by (force simp: sorted_issue_keys_def mkeys_def dest: ptr_at_entry)
  then have "(\<exists>k \<in> set (sorted_issue_keys s). \<exists>i. ptr_at (snap_Issues s) k = Some i \<and> P i)
      \<longleftrightarrow> (\<exists>k i. ptr_at (snap_Issues s) k = Some i \<and> P i)" for P
    by blast
  moreover have "v \<in> set (case e of None \<Rightarrow> [] | Some i \<Rightarrow> f i) \<longleftrightarrow> (\<exists>i. e = Some i \<and> v \<in> set (f i))"
    for e :: "Issue option" and f
    by (cases e) auto
  ultimately show ?thesis by (simp add: violations_alt)
qed

lemma issue_violations_Nil:
  "issue_violations s workspace_field active_field i = [] \<longleftrightarrow>
     (RequiresActiveExecution (iss_Status i) \<longrightarrow> holds_authority s i)
     \<and> (RequiresWorkspaceProvenance (iss_Status i) \<and> CrossedWorkerExecutionBoundary i \<longrightarrow>
         (\<exists>w. iss_Workspace i = Some w \<and> \<not> workspace_inconsistent s i w))"
  by (auto simp: issue_violations_def split: option.splits)

lemma violations_Nil:
  "semanticViolations s = [] \<longleftrightarrow>
     (\<forall>k i. ptr_at (snap_Issues s) k = Some i \<longrightarrow> issue_violations s workspace_field active_field i = [])"
proof -
  have "semanticViolations s = [] \<longleftrightarrow> (\<forall>v. v \<notin> set (semanticViolations s))"
    by (cases "semanticViolations s") auto
  also have "\<dots> \<longleftrightarrow> (\<forall>k i. ptr_at (snap_Issues s) k = Some i \<longrightarrow>
      (\<forall>v. v \<notin> set (issue_violations s workspace_field active_field i)))"
    unfolding violations_mem by blast
  finally show ?thesis by (simp only: set_empty [symmetric] empty_iff set_eq_iff simp_thms)
qed

lemma codes_distinct:
  "SemanticCodeWorkspaceProvenanceInvalid \<noteq> SemanticCodeWorkspaceProvenanceMissing"
  "SemanticCodeExecutionAuthorityMissing \<noteq> SemanticCodeWorkspaceProvenanceMissing"
  by (simp_all add: lit_def)

lemma persistence_violations:
  assumes "validatePersistenceSemanticContract s = None" and "ptr_at (snap_Issues s) k = Some i"
    and "v \<in> set (issue_violations s workspace_field active_field i)"
  shows "persistence_tolerates s v"
proof -
  have "filter (\<lambda>v. \<not> persistence_tolerates s v) (semanticViolations s) = []"
    using assms(1) by (simp add: validatePersistenceSemanticContract_def Let_def split: if_splits)
  moreover have "v \<in> set (semanticViolations s)" unfolding violations_mem using assms(2,3) by blast
  ultimately show ?thesis by (simp only: filter_empty_conv) blast
qed

text \<open>Workspace provenance of durable records: in a valid snapshot every Issue whose status requires
  it and that has crossed the worker boundary carries a workspace record that names its own worktree,
  its own branch and this repository; the only exception is a blocked or failed Issue without a
  worker process, whose workspace record may be missing altogether but never inconsistent.\<close>

theorem workspace_provenance:
  assumes "Snapshot_Validate s = None" and "ptr_at (snap_Issues s) k = Some i"
    and "RequiresWorkspaceProvenance (iss_Status i)" and "CrossedWorkerExecutionBoundary i"
  shows "(\<exists>w. iss_Workspace i = Some w \<and> wsp_Path w = iss_Worktree i \<and> wsp_Branch w = iss_Branch i
       \<and> wsp_RepoID w = snap_RepoID s \<and> iss_Worktree i \<noteq> '''' \<and> iss_Branch i \<noteq> '''')
    \<or> (iss_Workspace i = None \<and> (iss_Status i = StatusBlocked \<or> iss_Status i = StatusFailed) \<and> iss_WorkerPID i = 0)"
proof -
  have at: "issue_at s (iss_Number i) = Some i" using issue_at_key assms by blast
  have tolerated: "persistence_tolerates s v" if "v \<in> set (issue_violations s workspace_field active_field i)" for v
    by (rule persistence_violations [OF content_semantic [OF valid_content [OF assms(1)]] assms(2) that])
  show ?thesis
  proof (cases "iss_Workspace i")
    case None
    then have "violation i workspace_field SemanticCodeWorkspaceProvenanceMissing
        (lit ''saved workspace provenance is required before this recovery state can execute'')
        \<in> set (issue_violations s workspace_field active_field i)"
      using assms(3,4) by (simp add: issue_violations_def)
    from tolerated [OF this] None at show ?thesis by (auto simp: persistence_tolerates_def violation_def)
  next
    case (Some w)
    have "\<not> workspace_inconsistent s i w"
    proof
      assume "workspace_inconsistent s i w"
      then have "violation i workspace_field SemanticCodeWorkspaceProvenanceInvalid
        (lit ''saved workspace provenance is incomplete or inconsistent with durable issue identity'')
        \<in> set (issue_violations s workspace_field active_field i)"
        using assms(3,4) Some by (simp add: issue_violations_def)
      from tolerated [OF this] show False by (simp add: persistence_tolerates_def violation_def codes_distinct)
    qed
    with Some show ?thesis by (simp add: workspace_inconsistent_def)
  qed
qed

theorem workspace_provenance_witness:
  "\<exists>w. iss_Workspace running_issue = Some w \<and> wsp_Path w = iss_Worktree running_issue"
proof -
  have at: "ptr_at (snap_Issues running_snapshot) ''7'' = Some running_issue"
    and need: "RequiresWorkspaceProvenance (iss_Status running_issue)" "CrossedWorkerExecutionBoundary running_issue"
    and st: "iss_Status running_issue = StatusRunning"
    by code_simp+
  from workspace_provenance [OF running_snapshot_valid at need] st show ?thesis by auto
qed

section \<open>One execution, one worker\<close>

text \<open>C6: The repository has one execution authority: in a valid snapshot an Issue is in an executing
  status if and only if the active execution names it, so at most one Issue executes, and an active
  execution always has its Issue, in an executing status, with the same run and a positive generation.\<close>

theorem single_execution_authority:
  assumes "Snapshot_Validate s = None" and "maps_ok s"
  shows "(\<forall>k i. ptr_at (snap_Issues s) k = Some i \<longrightarrow>
      RequiresActiveExecution (iss_Status i) = (\<exists>a. snap_ActiveExecution s = Some a \<and> k = Itoa (act_IssueNumber a)))
    \<and> (\<forall>a. snap_ActiveExecution s = Some a \<longrightarrow> (\<exists>i. issue_at s (act_IssueNumber a) = Some i
        \<and> RequiresActiveExecution (iss_Status i) \<and> iss_RunID i = act_RunID a
        \<and> iss_Generation i = act_Generation a \<and> act_Generation a > 0))"
proof -
  have ok: "map_ok (snap_Issues s)" using assms(2) by (simp add: maps_ok_def)
  from content_execution [OF valid_content [OF assms(1)]] show ?thesis
  proof (cases rule: execution_cases)
    case idle
    then have "\<not> RequiresActiveExecution (iss_Status i)" if "ptr_at (snap_Issues s) k = Some i" for k i
      using executing_mem [OF ok, of i] that by auto
    with idle show ?thesis by auto
  next
    case (busy i a)
    have mem: "(\<exists>k. ptr_at (snap_Issues s) k = Some j) \<and> RequiresActiveExecution (iss_Status j) \<longleftrightarrow> j = i" for j
      using executing_mem [OF ok, of j] busy(1) by auto
    then obtain k where k: "ptr_at (snap_Issues s) k = Some i" and run: "RequiresActiveExecution (iss_Status i)"
      by auto
    have at: "issue_at s (act_IssueNumber a) = Some i"
      using issue_at_key [OF assms(1) k] busy(3) by (simp add: active_matches_def)
    moreover have "RequiresActiveExecution (iss_Status j) \<longleftrightarrow> k' = Itoa (act_IssueNumber a)"
      if j: "ptr_at (snap_Issues s) k' = Some j" for k' j
      using mem [of j] j at run valid_issue(2) [OF assms(1) j] busy(3) by (auto simp: active_matches_def)
    ultimately show ?thesis using busy run by (auto simp: active_matches_def word_gt_0)
  qed
qed

lemma running_snapshot_maps: "maps_ok running_snapshot"
  by (simp add: maps_ok_def running_snapshot_def new_snapshot_def map_ok_def)

theorem single_execution_authority_witness:
  "\<exists>i. issue_at running_snapshot 7 = Some i \<and> RequiresActiveExecution (iss_Status i) \<and> iss_Generation i = 3"
  using single_execution_authority [OF running_snapshot_valid running_snapshot_maps]
  by (auto simp: running_snapshot_def sample_active_def)

text \<open>One worker process per repository: in a valid snapshot an Issue with a worker process is the one
  the active execution names, and two Issues with a worker process are the same Issue.\<close>

theorem one_worker:
  assumes "Snapshot_Validate s = None" and "maps_ok s"
    and "ptr_at (snap_Issues s) k = Some i" and "iss_WorkerPID i \<noteq> 0"
    and "ptr_at (snap_Issues s) k' = Some i'" and "iss_WorkerPID i' \<noteq> 0"
  shows "k' = k \<and> (\<exists>a. snap_ActiveExecution s = Some a \<and> act_IssueNumber a = iss_Number i
    \<and> act_RunID a = iss_RunID i \<and> act_Generation a = iss_Generation i)"
proof -
  have ok: "map_ok (snap_Issues s)" using assms(2) by (simp add: maps_ok_def)
  have run: "RequiresActiveExecution (iss_Status j)" if "ptr_at (snap_Issues s) l = Some j" "iss_WorkerPID j \<noteq> 0" for l j
    using worker_facts(1,4) [OF valid_issue(3) [OF assms(1) that(1)]] that(2) by simp
  from content_execution [OF valid_content [OF assms(1)]] show ?thesis
  proof (cases rule: execution_cases)
    case idle
    then show ?thesis using executing_mem [OF ok, of i] run [OF assms(3,4)] assms(3) by auto
  next
    case (busy x a)
    have "i = x" "i' = x"
      using executing_mem [OF ok, of i] executing_mem [OF ok, of i'] run assms(3-6) busy(1) by auto
    then show ?thesis
      using busy valid_issue(2) [OF assms(1,3)] valid_issue(2) [OF assms(1,5)] by (simp add: active_matches_def)
  qed
qed

theorem one_worker_witness:
  "\<exists>a. snap_ActiveExecution running_snapshot = Some a \<and> act_IssueNumber a = 7"
proof -
  have at: "ptr_at (snap_Issues running_snapshot) ''7'' = Some running_issue"
    and pid: "iss_WorkerPID running_issue \<noteq> 0" and n: "iss_Number running_issue = 7"
    by code_simp+
  from one_worker [OF running_snapshot_valid running_snapshot_maps at pid at pid] n show ?thesis by auto
qed

section \<open>Effects, requests, quarantine\<close>

lemma effect_facts:
  assumes "Snapshot_Validate s = None" and "ptr_at (snap_PendingEffects s) k = Some e"
  shows "k = Itoa (eff_IssueNumber e)" "ValidID (eff_ID e) ''effect_''" "EffectKind_Validate (eff_Kind e) = None"
    "\<exists>i. ptr_at (snap_Issues s) k = Some i \<and> iss_RunID i = eff_RunID e \<and> eff_RunID e \<noteq> ''''
       \<and> (wanted_status (eff_Kind e) \<noteq> StatusUnset \<longrightarrow> iss_Status i = wanted_status (eff_Kind e))
       \<and> (eff_Kind e = EffectApplyResolution \<longrightarrow> resolution_executable i)"
proof -
  have "validateEffectIntent s k (Some e) = None"
    using content_effects [OF valid_content [OF assms(1)]] ptr_at_entry [OF assms(2)] by auto
  then show "k = Itoa (eff_IssueNumber e)" "ValidID (eff_ID e) ''effect_''" "EffectKind_Validate (eff_Kind e) = None"
    "\<exists>i. ptr_at (snap_Issues s) k = Some i \<and> iss_RunID i = eff_RunID e \<and> eff_RunID e \<noteq> ''''
       \<and> (wanted_status (eff_Kind e) \<noteq> StatusUnset \<longrightarrow> iss_Status i = wanted_status (eff_Kind e))
       \<and> (eff_Kind e = EffectApplyResolution \<longrightarrow> resolution_executable i)"
    by (auto simp: validateEffectIntent_def Let_def simp del: EffectKind_Validate_None split: if_splits option.splits)
qed

lemma request_facts:
  assumes "Snapshot_Validate s = None" and "ptr_at (snap_PendingRequests s) k = Some r"
  shows "req_ID r = k" "ValidID k ''req_''" "ValidateRequestAggregate s k r = None"
    "\<exists>i. issue_at s (req_IssueNumber r) = Some i"
proof -
  have "validate_request_entry s k (Some r) = None"
    using content_requests [OF valid_content [OF assms(1)]] ptr_at_entry [OF assms(2)] by auto
  then show v: "ValidateRequestAggregate s k r = None" by (simp add: validate_request_entry_def)
  then show "req_ID r = k" "ValidID k ''req_''" "\<exists>i. issue_at s (req_IssueNumber r) = Some i"
    by (auto simp: ValidateRequestAggregate_def split: if_splits option.splits)
qed

lemma quarantine_facts:
  assumes "Snapshot_Validate s = None" and "ptr_at (snap_QuarantinedIssues s) k = Some q"
  shows "k = Itoa (qr_IssueNumber q)" "1 \<le> qr_IssueNumber q" "ptr_at (snap_Issues s) k = None"
    "qr_ReasonCode q \<noteq> ''''" "\<not> blank (qr_Reason q)" "qr_QuarantinedAt q \<noteq> 0"
proof -
  have "validate_quarantine_entry s k (Some q) = None"
    using content_quarantine [OF valid_content [OF assms(1)]] ptr_at_entry [OF assms(2)] by auto
  then show "k = Itoa (qr_IssueNumber q)" "1 \<le> qr_IssueNumber q" "ptr_at (snap_Issues s) k = None"
    "qr_ReasonCode q \<noteq> ''''" "\<not> blank (qr_Reason q)" "qr_QuarantinedAt q \<noteq> 0"
    by (auto simp: validate_quarantine_entry_def)
qed

text \<open>Quarantine isolates: in a valid snapshot a quarantined Issue is not managed, owns no pending
  effect and no pending request, and is not the Issue of the active execution.\<close>

theorem quarantine_isolates:
  assumes "Snapshot_Validate s = None" and "maps_ok s" and "ptr_at (snap_QuarantinedIssues s) (Itoa n) = Some q"
  shows "issue_at s n = None \<and> ptr_at (snap_PendingEffects s) (Itoa n) = None
    \<and> (\<forall>k r. ptr_at (snap_PendingRequests s) k = Some r \<longrightarrow> req_IssueNumber r \<noteq> n)
    \<and> (\<forall>a. snap_ActiveExecution s = Some a \<longrightarrow> act_IssueNumber a \<noteq> n)"
proof -
  have none: "issue_at s n = None" using quarantine_facts(3) [OF assms(1,3)] .
  moreover have "ptr_at (snap_PendingEffects s) (Itoa n) = None"
    using effect_facts(4) [OF assms(1), of "Itoa n"] none by (cases "ptr_at (snap_PendingEffects s) (Itoa n)") auto
  moreover have "req_IssueNumber r \<noteq> n" if "ptr_at (snap_PendingRequests s) k = Some r" for k r
    using request_facts(4) [OF assms(1) that] none by auto
  moreover have "act_IssueNumber a \<noteq> n" if a: "snap_ActiveExecution s = Some a" for a
  proof -
    have ok: "map_ok (snap_Issues s)" using assms(2) by (simp add: maps_ok_def)
    from content_execution [OF valid_content [OF assms(1)]] show ?thesis
    proof (cases rule: execution_cases)
      case (busy x b)
      then obtain k where "ptr_at (snap_Issues s) k = Some x" using executing_mem [OF ok, of x] by auto
      from issue_at_key [OF assms(1) this] busy a none show ?thesis by (auto simp: active_matches_def)
    qed (use a in simp)
  qed
  ultimately show ?thesis by blast
qed

definition quarantined_snapshot :: Snapshot where
  "quarantined_snapshot = running_snapshot\<lparr>snap_QuarantinedIssues := GoMap [(''8'', Some
     \<lparr>qr_IssueNumber = 8, qr_RunID = '''', qr_Generation = 0, qr_RejectedStatus = StatusUnset, qr_ReasonCode = ''code'',
      qr_Reason = ''reason'', qr_QuarantinedAt = 1, qr_LastValid = None, qr_Requests = []\<rparr>)]\<rparr>"

lemma quarantined_snapshot_valid: "Snapshot_Validate quarantined_snapshot = None"
  by code_simp

theorem quarantine_isolates_witness: "issue_at quarantined_snapshot 8 = None"
proof -
  have "maps_ok quarantined_snapshot"
    by (simp add: maps_ok_def quarantined_snapshot_def running_snapshot_def new_snapshot_def map_ok_def)
  moreover have "\<exists>q. ptr_at (snap_QuarantinedIssues quarantined_snapshot) (Itoa 8) = Some q"
    unfolding not_None_eq [symmetric] by code_simp
  ultimately show ?thesis using quarantine_isolates [OF quarantined_snapshot_valid] by blast
qed

text \<open>A pending effect of a valid snapshot is bound to a managed Issue of the same run, and its kind fixes
  what the Issue's status is: the label it will write is the label of the committed state. An effect
  that applies a resolution belongs to a live Issue whose suspension is resolved.\<close>

theorem effect_matches_issue:
  assumes "Snapshot_Validate s = None" and "ptr_at (snap_PendingEffects s) k = Some e"
  shows "\<exists>i. issue_at s (eff_IssueNumber e) = Some i \<and> iss_RunID i = eff_RunID e
    \<and> (eff_Kind e = EffectMarkDone \<longrightarrow> iss_Status i = StatusCompleted)
    \<and> (eff_Kind e = EffectMarkNeedsInput \<longrightarrow> iss_Status i = StatusNeedsInput)
    \<and> (eff_Kind e = EffectMarkFailed \<longrightarrow> iss_Status i = StatusFailed)
    \<and> (eff_Kind e = EffectMarkBlocked \<longrightarrow> iss_Status i = StatusBlocked)
    \<and> (eff_Kind e = EffectRetryConflict \<longrightarrow> iss_Status i = StatusResolvingConflict)
    \<and> (eff_Kind e = EffectApplyResolution \<longrightarrow> \<not> Terminal (iss_Status i)
        \<and> (\<exists>sp. iss_Suspension i = Some sp \<and> susp_Status sp = SuspensionResolved))"
proof -
  obtain i where "ptr_at (snap_Issues s) k = Some i" "iss_RunID i = eff_RunID e"
    "wanted_status (eff_Kind e) \<noteq> StatusUnset \<longrightarrow> iss_Status i = wanted_status (eff_Kind e)"
    "eff_Kind e = EffectApplyResolution \<longrightarrow> resolution_executable i"
    using effect_facts(4) [OF assms] by blast
  with effect_facts(1) [OF assms] show ?thesis
    by (auto simp: wanted_status_def resolution_executable_def split: option.splits)
qed

definition effect_snapshot :: Snapshot where
  "effect_snapshot = new_snapshot\<lparr>snap_Issues := GoMap [(''5'', Some ((new_issue 5)\<lparr>iss_Status := StatusCompleted,
       iss_RunID := ''run_5''\<rparr>))],
     snap_PendingEffects := GoMap [(''5'', Some \<lparr>eff_ID = ''effect_1'', eff_IssueNumber = 5, eff_RunID = ''run_5'',
       eff_Kind = EffectMarkDone, eff_CreatedAt = 1\<rparr>)]\<rparr>"

theorem effect_matches_issue_witness: "\<exists>i. issue_at effect_snapshot 5 = Some i \<and> iss_Status i = StatusCompleted"
proof -
  have valid: "Snapshot_Validate effect_snapshot = None" by code_simp
  have at: "ptr_at (snap_PendingEffects effect_snapshot) ''5'' = Some \<lparr>eff_ID = ''effect_1'', eff_IssueNumber = 5,
      eff_RunID = ''run_5'', eff_Kind = EffectMarkDone, eff_CreatedAt = 1\<rparr>"
    by code_simp
  from effect_matches_issue [OF valid at] show ?thesis by auto
qed

section \<open>Launch sources\<close>

lemma next_generation:
  fixes c i :: uint64
  shows "\<not> (c \<ge> i \<or> c + 1 \<noteq> i) \<longleftrightarrow> unat i = unat c + 1"
proof -
  have "unat (c + 1) = unat c + 1" if "c < i"
    using that unsigned_less [of i, where ?'a = nat]
    by (simp add: unat_word_ariths word_less_nat_alt)
  then show ?thesis by (auto simp: not_le word_less_nat_alt word_unat_eq_iff)
qed

text \<open>Complete evidence that the question of a needs-input checkpoint was answered.\<close>

definition answered_continuation :: "Snapshot \<Rightarrow> Issue \<Rightarrow> ContinuationCheckpoint \<Rightarrow> bool" where
  "answered_continuation s i c \<longleftrightarrow> ckpt_Kind c = ContinuationKindNeedsInput
     \<and> ckpt_RequestID c \<noteq> '''' \<and> ckpt_RunID c = iss_RunID i \<and> ckpt_Generation c \<noteq> 0
     \<and> unat (iss_Generation i) = unat (ckpt_Generation c) + 1
     \<and> (case ptr_at (snap_PendingRequests s) (ckpt_RequestID c) of None \<Rightarrow> False
        | Some r \<Rightarrow> answered_request_bound i c r
            \<and> (\<exists>a. filter (\<lambda>a. ans_RequestID a = ckpt_RequestID c) (iss_Answers i) = [a] \<and> answer_agrees r a))"

lemma one_matching: "(\<exists>a. xs = [a] \<and> P a) \<longleftrightarrow> \<not> (\<exists>a \<in> set xs. \<not> P a) \<and> length xs = 1"
  by (cases xs) auto

lemma resume_evidence_cases:
  "resume_evidence s i c = Inr StatusResumePending \<and> answered_continuation s i c
   \<or> (\<exists>r. resume_evidence s i c = Inl r) \<and> \<not> answered_continuation s i c"
proof -
  have id': "(ckpt_Kind c \<noteq> ContinuationKindNeedsInput \<or> ckpt_RequestID c = '''' \<or>
         ckpt_RunID c \<noteq> iss_RunID i \<or> ckpt_Generation c = 0 \<or>
         ckpt_Generation c \<ge> iss_Generation i \<or> ckpt_Generation c + 1 \<noteq> iss_Generation i)
     \<longleftrightarrow> \<not> (ckpt_Kind c = ContinuationKindNeedsInput \<and> ckpt_RequestID c \<noteq> '''' \<and> ckpt_RunID c = iss_RunID i
        \<and> ckpt_Generation c \<noteq> 0 \<and> unat (iss_Generation i) = unat (ckpt_Generation c) + 1)" (is "?bad \<longleftrightarrow> \<not> ?good")
    unfolding next_generation [symmetric] by blast
  show ?thesis
  proof (cases ?good)
    case False
    then show ?thesis unfolding resume_evidence_def answered_continuation_def id' by (simp only: simp_thms if_True) auto
  next
    case True
    show ?thesis
    proof (cases "ptr_at (snap_PendingRequests s) (ckpt_RequestID c)")
      case None
      then show ?thesis unfolding resume_evidence_def answered_continuation_def id' using True by simp
    next
      case (Some r)
      then show ?thesis unfolding resume_evidence_def answered_continuation_def id' one_matching Let_def
        using True by auto
    qed
  qed
qed

text \<open>A launch resumes an answered question only on complete evidence: the source is
  \<open>resume_pending\<close> exactly when the Issue holds the execution authority and its needs-input checkpoint
  is of the same run and of the generation just before (no wrap-around), the checkpoint's request is
  answered and bound to it, and the Issue records exactly one answer to that request, the same answer
  (\<open>answered_continuation\<close>). The only other source is a retry, and only when nothing was answered.\<close>

theorem resume_only_with_answer:
  "(LegacyWorkerLaunchSource s i = Inr StatusResumePending) =
     (authority_matches s i \<and> (\<exists>c. iss_Continuation i = Some c \<and> answered_continuation s i c))
   \<and> (LegacyWorkerLaunchSource s i = Inr StatusRetryWait) =
       (authority_matches s i \<and> \<not> answered_evidence s i
        \<and> (case iss_Continuation i of None \<Rightarrow> True | Some c \<Rightarrow> ckpt_Kind c = '''' \<and> ckpt_RequestID c = ''''))
   \<and> LegacyWorkerLaunchSource s i \<in> {Inr StatusResumePending, Inr StatusRetryWait} \<union> range Inl"
proof (cases "iss_Continuation i")
  case None
  then show ?thesis by (simp add: LegacyWorkerLaunchSource_def)
next
  case (Some c)
  show ?thesis
  proof (cases "ckpt_Kind c = '''' \<and> ckpt_RequestID c = ''''")
    case True
    then have "\<not> answered_continuation s i c" by (simp add: answered_continuation_def)
    with True Some show ?thesis by (simp add: LegacyWorkerLaunchSource_def)
  next
    case False
    with Some have "LegacyWorkerLaunchSource s i = (if authority_matches s i then resume_evidence s i c
        else Inl (lit ''active execution does not match the Issue run and generation''))"
      by (auto simp: LegacyWorkerLaunchSource_def)
    with False Some resume_evidence_cases [of s i c] show ?thesis by auto
  qed
qed

end
