(* ===== verification/SnapshotLog.thy ===== *)
theory SnapshotLog
  imports SnapshotFacts
begin

text \<open>
  \<open>internal/domain/snapshot/transaction.go\<close> and \<open>transition.go\<close>: the prepared
  transaction that couples a snapshot to its event, the sequence check of the event log and the
  normalisation of a decoded snapshot.
\<close>

section \<open>Transactions and the event log\<close>

definition transaction_version :: "Transaction \<Rightarrow> int" where
  "transaction_version txn =
     (let version = txn_Version txn;
          version = (if version = CurrentVersion \<and> snap_Version (txn_Snapshot txn) \<noteq> CurrentVersion
                     then snap_Version (txn_Snapshot txn) else version)
      in if version = CurrentVersion \<and> ev_Version (txn_Event txn) \<noteq> CurrentVersion
         then ev_Version (txn_Event txn) else version)"

definition Transaction_Validate :: "Transaction \<Rightarrow> string \<Rightarrow> go_error option" where
  "Transaction_Validate txn repoID =
     (if txn_Version txn \<noteq> CurrentVersion \<or> snap_Version (txn_Snapshot txn) \<noteq> CurrentVersion
        \<or> ev_Version (txn_Event txn) \<noteq> CurrentVersion
      then Some (SchemaVersionError ''transaction'' (transaction_version txn))
      else first_error
        [guard (snap_RepoID (txn_Snapshot txn) \<noteq> repoID \<or> ev_RepoID (txn_Event txn) \<noteq> repoID)
           [Lit ''transaction repository does not match state store''],
         guard (ev_Sequence (txn_Event txn) = 0) [Lit ''transaction event sequence must be positive''],
         guard (snap_StateRevision (txn_Snapshot txn) \<noteq> ev_Sequence (txn_Event txn))
           [Lit ''transaction snapshot revision '', Num (uint (snap_StateRevision (txn_Snapshot txn))),
            Lit '' does not match event sequence '', Num (uint (ev_Sequence (txn_Event txn)))],
         map_option (Wrapf [Lit ''prepared transaction snapshot: '']) (Snapshot_Validate (txn_Snapshot txn))])"

text \<open>The loop over the events: the index, the last sequence seen and the events left.\<close>

fun check_events :: "int \<Rightarrow> uint64 \<Rightarrow> Event list \<Rightarrow> go_error + uint64" where
  "check_events index prev [] = Inr prev"
| "check_events index prev (event # events) =
     (if ev_Version event \<noteq> CurrentVersion then Inl (SchemaVersionError ''event'' (ev_Version event))
      else if index = 0 \<and> ev_Type event = ''event_log_checkpoint'' then
        (if ev_Sequence event = 0 then Inl (Errorf [Lit ''event log checkpoint sequence must be positive''])
         else check_events (index + 1) (ev_Sequence event) events)
      else if ev_Sequence event \<noteq> prev + 1
      then Inl (Errorf [Lit ''event sequence at index '', Num index, Lit '' is '', Num (uint (ev_Sequence event)),
             Lit '', expected '', Num (uint (prev + 1))])
      else check_events (index + 1) (ev_Sequence event) events)"

definition ValidateEventSequence :: "Snapshot \<Rightarrow> Event list \<Rightarrow> go_error option" where
  "ValidateEventSequence snapshot events = (case check_events 0 0 events of
     Inl e \<Rightarrow> Some e
   | Inr prev \<Rightarrow> guard (snap_StateRevision snapshot \<noteq> prev)
       [Lit ''state revision '', Num (uint (snap_StateRevision snapshot)),
        Lit '' does not match last event sequence '', Num (uint prev)])"

section \<open>Normalisation\<close>

definition init_map :: "'v gomap \<Rightarrow> 'v gomap" where
  "init_map m = (case m of NilMap \<Rightarrow> GoMap [] | _ \<Rightarrow> m)"

definition normalize_session :: "Issue \<Rightarrow> Issue" where
  "normalize_session issue =
     (let issue = (if iss_Session issue = None \<and> iss_SessionID issue \<noteq> ''''
                   then issue\<lparr>iss_Session := Some \<lparr>ses_Backend = ''codex'', ses_ID = iss_SessionID issue\<rparr>\<rparr> else issue)
      in case iss_Session issue of None \<Rightarrow> issue
         | Some session \<Rightarrow> if iss_SessionID issue = '''' then issue\<lparr>iss_SessionID := ses_ID session\<rparr> else issue)"

definition Normalize :: "Snapshot \<Rightarrow> Snapshot" where
  "Normalize s =
     s\<lparr>snap_Issues := map_values (\<lambda>k. map_option normalize_session) (init_map (snap_Issues s)),
       snap_PendingRequests := init_map (snap_PendingRequests s),
       snap_PendingEffects := init_map (snap_PendingEffects s),
       snap_QuarantinedIssues := init_map (snap_QuarantinedIssues s),
       snap_IntakeVerifications := init_map (snap_IntakeVerifications s)\<rparr>"

section \<open>Properties\<close>

text \<open>The events count up by one from \<open>start\<close>.\<close>

definition counts_from :: "uint64 \<Rightarrow> Event list \<Rightarrow> bool" where
  "counts_from start events \<longleftrightarrow> (\<forall>j < length events. ev_Sequence (events ! j) = start + of_nat j)"

lemma counts_from_Nil [simp]: "counts_from start []"
  by (simp add: counts_from_def)

lemma counts_from_Cons [simp]:
  "counts_from start (e # es) \<longleftrightarrow> ev_Sequence e = start \<and> counts_from (start + 1) es"
proof -
  have "(\<forall>j < Suc n. P j) \<longleftrightarrow> P 0 \<and> (\<forall>j < n. P (Suc j))" for P and n :: nat
    by (auto simp: less_Suc_eq_0_disj)
  then show ?thesis by (simp add: counts_from_def algebra_simps)
qed

lemma check_events_tail:
  "0 < index \<Longrightarrow> check_events index prev events = Inr q \<longleftrightarrow>
     (\<forall>e \<in> set events. ev_Version e = CurrentVersion) \<and> counts_from (prev + 1) events
     \<and> q = prev + of_nat (length events)"
proof (induction events arbitrary: index prev)
  case (Cons e es)
  then show ?case using Cons.IH [of "index + 1" "prev + 1"] by (auto simp: algebra_simps)
qed auto

text \<open>Appending the next event keeps a log.\<close>

lemma check_events_append:
  "check_events index prev (es @ [e]) = Inr q \<longleftrightarrow>
     (\<exists>p. check_events index prev es = Inr p \<and> check_events (index + int (length es)) p [e] = Inr q)"
proof (induction es arbitrary: index prev)
  case (Cons x es)
  have eq: "index + 1 + int (length es) = index + (1 + int (length es))" by simp
  show ?case
    by (simp del: check_events.simps(2) add: check_events.simps(2) [of index prev x] Cons eq)
qed simp

text \<open>The first sequence number of a log: 1, or the one its leading checkpoint records.\<close>

definition log_start :: "Event list \<Rightarrow> uint64" where
  "log_start events = (case events of e # _ \<Rightarrow> if ev_Type e = ''event_log_checkpoint'' then ev_Sequence e else 1 | [] \<Rightarrow> 1)"

text \<open>C32: The event log check accepts exactly the gap-free logs: every event has the current version, the
  sequence numbers count up by one from 1 or from the sequence of a leading checkpoint (which must be
  positive), and the snapshot's revision is the last sequence number (0 for an empty log).\<close>

theorem event_sequence_gap_free:
  "(ValidateEventSequence s events = None) =
     ((\<forall>e \<in> set events. ev_Version e = CurrentVersion)
      \<and> counts_from (log_start events) events
      \<and> (events = [] \<or> log_start events \<noteq> 0)
      \<and> snap_StateRevision s = log_start events + of_nat (length events) - 1)"
proof (cases events)
  case Nil
  then show ?thesis by (simp add: ValidateEventSequence_def log_start_def)
next
  case (Cons e es)
  have none: "ValidateEventSequence s events = None \<longleftrightarrow> check_events 0 0 events = Inr (snap_StateRevision s)"
    by (auto simp: ValidateEventSequence_def split: sum.splits)
  show ?thesis
    unfolding none unfolding Cons
    using check_events_tail [of 1 "ev_Sequence e" es "snap_StateRevision s"]
    by (auto simp: log_start_def algebra_simps)
qed

theorem event_sequence_gap_free_witness:
  "ValidateEventSequence (new_snapshot\<lparr>snap_StateRevision := 5\<rparr>)
     [\<lparr>ev_Version = 6, ev_EventID = ''evt_1'', ev_Sequence = 4, ev_Timestamp = 1, ev_RepoID = ''repo'', ev_IssueNumber = 0,
       ev_RunID = '''', ev_Type = ''event_log_checkpoint'', ev_Payload = ''''\<rparr>,
      \<lparr>ev_Version = 6, ev_EventID = ''evt_2'', ev_Sequence = 5, ev_Timestamp = 1, ev_RepoID = ''repo'', ev_IssueNumber = 0,
       ev_RunID = '''', ev_Type = ''issue_updated'', ev_Payload = ''''\<rparr>] = None"
  unfolding event_sequence_gap_free by (simp add: log_start_def)

text \<open>Normalising is idempotent and leaves valid snapshots alone.\<close>

lemma init_map_id: "m \<noteq> NilMap \<Longrightarrow> init_map m = m"
  by (cases m) (simp_all add: init_map_def)

lemma init_map_idem: "init_map (init_map m) = init_map m"
  by (cases m) (simp_all add: init_map_def)

lemma map_values_idem:
  "(\<And>k v. f k (f k v) = f k v) \<Longrightarrow> map_values f (init_map (map_values f (init_map m))) = map_values f (init_map m)"
  by (cases m) (auto simp: init_map_def map_values_def)

lemma normalize_session_idem: "normalize_session (normalize_session i) = normalize_session i"
  by (cases "iss_Session i") (auto simp: normalize_session_def Let_def)

lemma session_facts:
  assumes "validateIssueAggregate i = None"
  shows "iss_Session i = None \<Longrightarrow> iss_SessionID i = ''''"
    "iss_Session i = Some ses \<Longrightarrow> iss_SessionID i = ses_ID ses \<and> ses_ID ses \<noteq> ''''"
  using agg_session [OF assms] by (auto simp: validate_session_def)

lemma normalize_session_valid: "validateIssueAggregate i = None \<Longrightarrow> normalize_session i = i"
  using session_facts [of i] by (cases "iss_Session i") (auto simp: normalize_session_def Let_def)

lemma normalize_valid:
  assumes v: "Snapshot_Validate s = None"
  shows "Normalize s = s"
proof -
  have "map_values (\<lambda>k. map_option normalize_session) (snap_Issues s) = snap_Issues s"
  proof (rule map_values_cong)
    fix k e assume e: "(k, e) \<in> set (entries (snap_Issues s))"
    then obtain i where "e = Some i" "validate_issue_entry k (Some i) = None"
      using valid_no_null [OF v e] content_issues [OF valid_content [OF v]] by auto
    then show "map_option normalize_session e = e"
      by (simp add: validate_issue_entry_def normalize_session_valid)
  qed
  with valid_not_nil [OF v] show "Normalize s = s"
    by (simp add: Normalize_def init_map_id)
qed

text \<open>Loading does not change a valid state: \<open>Normalize\<close> is the identity on every valid snapshot, and on
  any snapshot normalising twice is the same as normalising once.\<close>

theorem normalize_identity_on_valid:
  "(Snapshot_Validate s = None \<longrightarrow> Normalize s = s) \<and> Normalize (Normalize s) = Normalize s"
proof -
  have idem: "map_option normalize_session (map_option normalize_session v) = map_option normalize_session v" for v
    by (cases v) (simp_all add: normalize_session_idem)
  have "Normalize (Normalize s) = Normalize s"
    by (simp add: Normalize_def init_map_idem map_values_idem idem)
  then show ?thesis using normalize_valid by blast
qed

theorem normalize_identity_on_valid_witness: "Normalize running_snapshot = running_snapshot"
  using normalize_identity_on_valid [of running_snapshot] running_snapshot_valid by blast

text \<open>A prepared transaction that passes its check carries a valid snapshot of this repository whose
  revision is the sequence of its event.\<close>

lemma transaction_facts:
  assumes "Transaction_Validate txn repoID = None"
  shows "Snapshot_Validate (txn_Snapshot txn) = None" "snap_RepoID (txn_Snapshot txn) = repoID"
    "snap_StateRevision (txn_Snapshot txn) = ev_Sequence (txn_Event txn)" "ev_Sequence (txn_Event txn) \<noteq> 0"
    "ev_Version (txn_Event txn) = CurrentVersion" "ev_RepoID (txn_Event txn) = repoID" "txn_Version txn = CurrentVersion"
  using assms by (auto simp: Transaction_Validate_def split: if_splits)

end
