(* ===== verification/Effects.thy ===== *)
theory Effects
  imports SnapshotFacts IssueTransition
begin

text \<open>
  Fresh identifiers (\<open>NewID\<close> of \<open>internal/adapter/state/state.go\<close>), the pending effects
  (\<open>effect.go\<close>) and the commit of a decided transition (\<open>ApplyIssueTransition\<close> of
  \<open>issue_transition.go\<close>). The random bytes of an identifier are an argument. The operations get a
  snapshot the caller owns: a nil \<open>*Snapshot\<close> has no counterpart here, and what an operation wrote
  before it failed is not returned, because its callers drop the snapshot with the error.
\<close>

section \<open>Identifiers\<close>

text \<open>What \<open>crypto/rand\<close> returns, or the clock reading used when it fails.\<close>

datatype Entropy = RandBytes "8 word list" | RandFailed int

definition hex_byte :: "8 word \<Rightarrow> string" where
  "hex_byte b = [hex_digit (unat b div 16), hex_digit (unat b mod 16)]"

definition NewID :: "string \<Rightarrow> Entropy \<Rightarrow> string" where
  "NewID prefix' entropy = (case entropy of
     RandBytes buf \<Rightarrow> prefix' @ ''_'' @ concat (map hex_byte buf)
   | RandFailed nanos \<Rightarrow> prefix' @ ''_'' @ Itoa nanos)"

text \<open>The buffer has eight bytes, the clock reading 63 bits.\<close>

fun entropy_ok :: "Entropy \<Rightarrow> bool" where
  "entropy_ok (RandBytes buf) = (length buf = 8)"
| "entropy_ok (RandFailed nanos) = (- (2 ^ 63) \<le> nanos \<and> nanos < 2 ^ 63)"

section \<open>Effects\<close>

definition PendingEffect :: "Snapshot \<Rightarrow> int \<Rightarrow> EffectIntent option" where
  "PendingEffect s issueNumber = ptr_at (snap_PendingEffects s) (Itoa issueNumber)"

definition SetEffect :: "Entropy \<Rightarrow> int \<Rightarrow> string \<Rightarrow> EffectKind \<Rightarrow> time \<Rightarrow> Snapshot \<Rightarrow> go_error + Snapshot" where
  "SetEffect entropy issueNumber runID kind createdAt s =
     (if issueNumber < 1 \<or> runID = '''' \<or> IsZero createdAt
      then Inl (Errorf [Lit ''effect identity is incomplete''])
      else if kind = EffectNone
      then Inr (s\<lparr>snap_PendingEffects := mdelete (Itoa issueNumber) (snap_PendingEffects s)\<rparr>)
      else case EffectKind_Validate kind of Some e \<Rightarrow> Inl e
      | None \<Rightarrow>
        if (case PendingEffect s issueNumber of None \<Rightarrow> False
            | Some current \<Rightarrow> eff_IssueNumber current = issueNumber \<and> eff_RunID current = runID \<and> eff_Kind current = kind)
        then Inr s
        else and_ok (massign (Itoa issueNumber) (Some \<lparr>eff_ID = NewID ''effect'' entropy, eff_IssueNumber = issueNumber,
                 eff_RunID = runID, eff_Kind = kind, eff_CreatedAt = UTC createdAt\<rparr>) (snap_PendingEffects s))
               (\<lambda>m. Inr (s\<lparr>snap_PendingEffects := m\<rparr>)))"

definition ClearEffect :: "int \<Rightarrow> string \<Rightarrow> Snapshot \<Rightarrow> go_error + Snapshot" where
  "ClearEffect issueNumber effectID s = (case PendingEffect s issueNumber of
     None \<Rightarrow> Inr s
   | Some current \<Rightarrow>
     if eff_ID current \<noteq> effectID
     then Inl (Errorf [Lit ''Issue #'', Num issueNumber, Lit '' effect identity is stale''])
     else Inr (s\<lparr>snap_PendingEffects := mdelete (Itoa issueNumber) (snap_PendingEffects s)\<rparr>))"

section \<open>Committing a transition\<close>

definition ValidateIssueTransition :: "Issue option \<Rightarrow> Transition \<Rightarrow> go_error option" where
  "ValidateIssueTransition item transition = (case item of
     None \<Rightarrow> Some (Errorf [Lit ''cannot apply Issue transition '', Str (tr_Name transition), Lit '' to a missing Issue''])
   | Some i \<Rightarrow> ValidateCommit transition (iss_Status i))"

definition drop_resolved_suspension :: "Transition \<Rightarrow> Issue \<Rightarrow> Issue" where
  "drop_resolved_suspension tr item =
     (if Terminal (tr_To tr) \<and> \<not> Terminal (tr_From tr)
        \<and> (case iss_Suspension item of None \<Rightarrow> False | Some sp \<Rightarrow> susp_Status sp = SuspensionResolved)
      then item\<lparr>iss_Suspension := None\<rparr> else item)"

definition commit_transition :: "Transition \<Rightarrow> Issue \<Rightarrow> Issue" where
  "commit_transition tr item =
     (let item = (drop_resolved_suspension tr item)\<lparr>iss_Status := tr_To tr\<rparr>;
          item = (if tr_From tr = StatusLaunching \<and> tr_To tr \<noteq> StatusLaunching
                  then item\<lparr>iss_LaunchSource := StatusUnset\<rparr> else item)
      in if tr_To tr = StatusCompleted then item\<lparr>iss_Continuation := None, iss_Suspension := None\<rparr> else item)"

definition ApplyIssueTransition :: "Issue option \<Rightarrow> Transition \<Rightarrow> go_error + Issue" where
  "ApplyIssueTransition item transition = (case ValidateIssueTransition item transition of
     Some e \<Rightarrow> Inl e
   | None \<Rightarrow> (case item of None \<Rightarrow> Inl NilPointerPanic | Some i \<Rightarrow> Inr (commit_transition transition i)))"

text \<open>A write through the pointer \<open>snapshot.Issues[strconv.Itoa(number)]\<close>.\<close>

definition modify_issue :: "int \<Rightarrow> (Issue \<Rightarrow> Issue) \<Rightarrow> Snapshot \<Rightarrow> Snapshot" where
  "modify_issue number f s = (case issue_at s number of None \<Rightarrow> s | Some i \<Rightarrow> put_issue number (f i) s)"

definition transition_issue :: "int \<Rightarrow> Transition \<Rightarrow> Snapshot \<Rightarrow> go_error + Snapshot" where
  "transition_issue number transition s =
     and_ok (ApplyIssueTransition (issue_at s number) transition) (\<lambda>i. Inr (put_issue number i s))"

section \<open>Lemmas\<close>

lemma update_update: "AList.update k v (AList.update k w es) = AList.update k v es"
  by (induction es) auto

lemma put_issue_put_issue [simp]: "put_issue n x (put_issue n y s) = put_issue n x s"
  by (cases "snap_Issues s") (simp_all add: put_issue_def mstore_def update_update)

lemma hex_digit_id: "d < 16 \<Longrightarrow> id_char (hex_digit d)"
  by (auto simp: id_char_def hex_digit_def Let_def)

lemma hex_byte_ids: "c \<in> set (hex_byte b) \<Longrightarrow> id_char c"
proof -
  have "unat b < 256" using unsigned_less [of b, where ?'a = nat] by simp
  then show "c \<in> set (hex_byte b) \<Longrightarrow> id_char c"
    by (auto simp: hex_byte_def intro!: hex_digit_id)
qed

lemma digits_ids: "c \<in> set (digits_of n) \<Longrightarrow> id_char c"
proof (induction n rule: digits_of.induct)
  case (1 n)
  have "id_char (digit_char d)" if "d < 10" for d
    using that by (simp add: id_char_def digit_char_def Let_def)
  moreover have "c \<in> set (if n < 10 then [digit_char n] else digits_of (n div 10) @ [digit_char (n mod 10)])"
    using 1(2) by (subst (asm) digits_of.simps)
  ultimately show ?case using 1(1) by (auto split: if_splits)
qed

lemma digits_length: "n < 10 ^ k \<Longrightarrow> 0 < k \<Longrightarrow> length (digits_of n) \<le> k"
proof (induction n arbitrary: k rule: digits_of.induct)
  case (1 n)
  show ?case
  proof (cases "n < 10")
    case True
    then show ?thesis using 1(3) by (subst digits_of.simps) simp
  next
    case False
    then have k: "1 < k" using 1(2) by (cases k; cases "k - 1") auto
    then have "n div 10 < 10 ^ (k - 1)" using 1(2) by (cases k) (auto simp: less_mult_imp_div_less mult.commute)
    with 1(1) [OF False this] k show ?thesis using False by (subst digits_of.simps) simp
  qed
qed

text \<open>The identifiers the validators check.\<close>

lemma NewID_valid_id:
  assumes "entropy_ok entropy" and "\<forall>c \<in> set prefix'. id_char c" and "length prefix' \<le> 100"
  shows "ValidID (NewID prefix' entropy) (prefix' @ ''_'')"
proof -
  have body: "\<exists>t. NewID prefix' entropy = prefix' @ ''_'' @ t \<and> t \<noteq> [] \<and> length t \<le> 20 \<and> (\<forall>c \<in> set t. id_char c)"
  proof (cases entropy)
    case (RandBytes buf)
    then obtain b bs where "buf = b # bs" using assms(1) by (cases buf) auto
    moreover have "length (concat (map hex_byte xs)) = 2 * length xs" for xs
      by (induction xs) (simp_all add: hex_byte_def)
    ultimately show ?thesis
      using RandBytes assms(1) hex_byte_ids by (auto simp: NewID_def hex_byte_def)
  next
    case (RandFailed n)
    have "digits_of m \<noteq> []" for m by (subst digits_of.simps) simp
    moreover have "length (digits_of (nat m)) \<le> 19" if "m \<le> 2 ^ 63" for m :: int
      using that by (intro digits_length) auto
    moreover have "id_char CHR ''-''" by (simp add: id_char_def)
    moreover have "- n \<le> 2 ^ 63" "n \<le> 2 ^ 63" using RandFailed assms(1) by auto
    ultimately have "Itoa n \<noteq> [] \<and> length (Itoa n) \<le> 20 \<and> (\<forall>c \<in> set (Itoa n). id_char c)"
      by (auto simp: Itoa_def dest: digits_ids intro: le_trans [of _ 19])
    then show ?thesis using RandFailed by (simp add: NewID_def)
  qed
  moreover have "id_char CHR ''_''" by (simp add: id_char_def)
  ultimately show ?thesis
    using assms(2,3) by (auto simp: ValidID_def HasPrefix_def prefix_def)
qed

text \<open>Every identifier the store makes is acceptable to the validators: \<open>NewID(prefix)\<close> is a valid
  identifier for the prefix with its underscore, also when the random source fails and the clock is
  used.\<close>

theorem NewID_valid:
  assumes "entropy_ok entropy" and "\<forall>c \<in> set prefix'. id_char c" and "length prefix' \<le> 100"
  shows "ValidID (NewID prefix' entropy) (prefix' @ ''_'')"
  using NewID_valid_id [OF assms] .

theorem NewID_valid_witness: "ValidID (NewID ''effect'' (RandBytes [1,2,3,4,5,6,7,8])) ''effect_''"
  using NewID_valid [of "RandBytes [1,2,3,4,5,6,7,8]" "''effect''"] by (simp add: id_char_def)

end
