(* ===== verification/Execution.thy ===== *)
theory Execution
  imports Effects
begin

text \<open>
  \<open>internal/adapter/state/execution.go\<close>: the repository's single execution authority as a fencing
  token. Each operation is the mutation the code runs under \<open>Store.Update\<close>, from a snapshot to an
  error or the changed snapshot.
\<close>

section \<open>Ownership\<close>

definition ActiveIdentity :: "Snapshot \<Rightarrow> int \<Rightarrow> ExecutionIdentity option" where
  "ActiveIdentity s issueNumber = (case snap_ActiveExecution s of None \<Rightarrow> None
     | Some active \<Rightarrow> if act_IssueNumber active \<noteq> issueNumber then None
         else Some \<lparr>exi_RunID = act_RunID active, exi_Generation = act_Generation active\<rparr>)"

definition OwnsActiveExecution :: "Snapshot \<Rightarrow> int \<Rightarrow> ExecutionIdentity \<Rightarrow> bool" where
  "OwnsActiveExecution s issueNumber identity \<longleftrightarrow> ActiveIdentity s issueNumber = Some identity"

section \<open>Release, capture, resume, transfer\<close>

definition ReleaseExecution :: "int \<Rightarrow> ExecutionIdentity \<Rightarrow> Snapshot \<Rightarrow> go_error + Snapshot" where
  "ReleaseExecution issueNumber identity s =
     (if \<not> OwnsActiveExecution s issueNumber identity
      then Inl (Errorf [Lit ''Issue #'', Num issueNumber, Lit '' execution identity is stale''])
      else case issue_at s issueNumber of
        None \<Rightarrow> Inl (Errorf [Lit ''Issue #'', Num issueNumber, Lit '' execution identity does not match its aggregate''])
      | Some issue \<Rightarrow>
        if iss_RunID issue \<noteq> exi_RunID identity \<or> iss_Generation issue \<noteq> exi_Generation identity
        then Inl (Errorf [Lit ''Issue #'', Num issueNumber, Lit '' execution identity does not match its aggregate''])
        else Inr (put_issue issueNumber (issue\<lparr>iss_WorkerPID := 0, iss_WorkerPGID := 0\<rparr>)
                    (s\<lparr>snap_ActiveExecution := None\<rparr>)))"

definition clear_resolved :: "Issue \<Rightarrow> Issue" where
  "clear_resolved issue =
     (if (case iss_Suspension issue of None \<Rightarrow> False | Some sp \<Rightarrow> susp_Status sp = SuspensionResolved)
      then issue\<lparr>iss_Suspension := None\<rparr> else issue)"

definition captured_checkpoint ::
  "string \<Rightarrow> time \<Rightarrow> ExecutionIdentity \<Rightarrow> ActiveExecution \<Rightarrow> Issue \<Rightarrow> ContinuationCheckpoint" where
  "captured_checkpoint checkpointID createdAt identity active issue =
     \<lparr>ckpt_ID = checkpointID, ckpt_Kind = '''', ckpt_RequestID = '''', ckpt_CreatedAt = UTC createdAt,
      ckpt_RunID = exi_RunID identity, ckpt_Generation = exi_Generation identity, ckpt_BaseSHA = act_BaseSHA active,
      ckpt_Workspace = iss_Workspace issue, ckpt_Session = iss_Session issue, ckpt_HeadSHA = iss_HeadSHA issue,
      ckpt_WorktreeSHA256 = '''', ckpt_PullRequestURL = iss_PullRequestURL issue,
      ckpt_PullRequestNumber = iss_PullRequestNumber issue,
      ckpt_Stage = ContinuationStageForStatus (iss_Status issue), ckpt_ResultSHA256 = '''', ckpt_Summary = '''',
      ckpt_Evidence = None\<rparr>"

definition CaptureContinuation ::
  "int \<Rightarrow> ExecutionIdentity \<Rightarrow> string \<Rightarrow> time \<Rightarrow> Snapshot \<Rightarrow> go_error + Snapshot" where
  "CaptureContinuation issueNumber identity checkpointID createdAt s =
     (if blank checkpointID \<or> IsZero createdAt
      then Inl (Errorf [Lit ''continuation identity and timestamp are required''])
      else if \<not> OwnsActiveExecution s issueNumber identity
      then Inl (Errorf [Lit ''Issue #'', Num issueNumber, Lit '' execution identity is stale''])
      else case issue_at s issueNumber of
        None \<Rightarrow> Inl (Errorf [Lit ''Issue #'', Num issueNumber, Lit '' is missing''])
      | Some issue \<Rightarrow> (case snap_ActiveExecution s of
          None \<Rightarrow> Inl NilPointerPanic
        | Some active \<Rightarrow> ReleaseExecution issueNumber identity
            (put_issue issueNumber ((clear_resolved issue)\<lparr>iss_Continuation :=
               Some (captured_checkpoint checkpointID createdAt identity active issue)\<rparr>) s)))"

definition ResumeContinuation ::
  "int \<Rightarrow> string \<Rightarrow> time \<Rightarrow> Snapshot \<Rightarrow> go_error + Snapshot \<times> ExecutionIdentity" where
  "ResumeContinuation issueNumber checkpointID resumedAt s =
     (if IsZero resumedAt then Inl (Errorf [Lit ''snapshot and resume timestamp are required''])
      else case snap_ActiveExecution s of
        Some active \<Rightarrow> Inl (Errorf [Lit ''repository active execution is occupied by Issue #'', Num (act_IssueNumber active)])
      | None \<Rightarrow> (case issue_at s issueNumber of
          None \<Rightarrow> Inl (Errorf [Lit ''Issue #'', Num issueNumber, Lit '' continuation '', Str checkpointID, Lit '' is missing''])
        | Some issue \<Rightarrow> (case iss_Continuation issue of
            None \<Rightarrow> Inl (Errorf [Lit ''Issue #'', Num issueNumber, Lit '' continuation '', Str checkpointID, Lit '' is missing''])
          | Some checkpoint \<Rightarrow>
            if ckpt_ID checkpoint \<noteq> checkpointID
            then Inl (Errorf [Lit ''Issue #'', Num issueNumber, Lit '' continuation '', Str checkpointID, Lit '' is missing''])
            else if ckpt_RunID checkpoint \<noteq> iss_RunID issue \<or> ckpt_Generation checkpoint = 0
              \<or> ckpt_Generation checkpoint > iss_Generation issue
            then Inl (Errorf [Lit ''Issue #'', Num issueNumber, Lit '' continuation identity is inconsistent''])
            else let generation = iss_Generation issue + 1 in
              Inr (put_issue issueNumber (issue\<lparr>iss_Generation := generation\<rparr>)
                     (s\<lparr>snap_ActiveExecution := Some \<lparr>act_IssueNumber = iss_Number issue, act_RunID = iss_RunID issue,
                        act_Generation = generation, act_BaseSHA = ckpt_BaseSHA checkpoint, act_StartedAt = UTC resumedAt\<rparr>\<rparr>),
                   \<lparr>exi_RunID = iss_RunID issue, exi_Generation = generation\<rparr>))))"

definition TransferExecution ::
  "int \<Rightarrow> ExecutionIdentity \<Rightarrow> string \<Rightarrow> time \<Rightarrow> Snapshot \<Rightarrow> go_error + Snapshot \<times> ExecutionIdentity" where
  "TransferExecution issueNumber current newRunID startedAt s =
     (if blank newRunID \<or> IsZero startedAt \<or> \<not> OwnsActiveExecution s issueNumber current
      then Inl (Errorf [Lit ''execution transfer identity is invalid''])
      else case issue_at s issueNumber of
        None \<Rightarrow> Inl (Errorf [Lit ''Issue #'', Num issueNumber, Lit '' execution transfer is stale''])
      | Some issue \<Rightarrow>
        if iss_RunID issue \<noteq> exi_RunID current \<or> iss_Generation issue \<noteq> exi_Generation current
        then Inl (Errorf [Lit ''Issue #'', Num issueNumber, Lit '' execution transfer is stale''])
        else let generation = iss_Generation issue + 1 in
          Inr (put_issue issueNumber (issue\<lparr>iss_Generation := generation, iss_RunID := newRunID\<rparr>)
                 (s\<lparr>snap_ActiveExecution := map_option (\<lambda>a. a\<lparr>act_RunID := newRunID, act_Generation := generation,
                      act_StartedAt := UTC startedAt\<rparr>) (snap_ActiveExecution s)\<rparr>),
               \<lparr>exi_RunID = newRunID, exi_Generation = generation\<rparr>))"

section \<open>Starting an execution\<close>

record ExecutionStart =
  st_IssueNumber :: int
  st_Title :: string
  st_RunID :: string
  st_BaseSHA :: string
  st_StartedAt :: time
  st_AuthorVerification :: "AuthorVerification option"

text \<open>The first loop over the requests dereferences every entry.\<close>

fun unanswered_question :: "int \<Rightarrow> (string \<times> Request option) list \<Rightarrow> go_error option" where
  "unanswered_question number [] = None"
| "unanswered_question number ((key, None) # es) = Some NilPointerPanic"
| "unanswered_question number ((key, Some request) # es) =
     (if req_IssueNumber request = number \<and> req_Status request = RequestStatusPending
      then Some (Errorf [Lit ''Issue #'', Num number, Lit '' has an unanswered question''])
      else unanswered_question number es)"

text \<open>The second loop adopts the intake answers the Issue does not record yet.\<close>

definition adopt_answer :: "int \<Rightarrow> Request \<Rightarrow> AnswerRecord list \<Rightarrow> AnswerRecord list" where
  "adopt_answer number request answers =
     (if req_IssueNumber request \<noteq> number \<or> req_RunID request \<noteq> '''' \<or> req_Status request \<noteq> RequestStatusAnswered
      then answers
      else case req_AnsweredAt request of None \<Rightarrow> answers
        | Some at \<Rightarrow> if \<exists>answer \<in> set answers. ans_RequestID answer = req_ID request then answers
            else answers @ [\<lparr>ans_RequestID = req_ID request, ans_Question = req_Question request,
                   ans_Answer = req_Answer request, ans_AnsweredAt = at\<rparr>])"

definition claimed_issue :: "ExecutionStart \<Rightarrow> Request list \<Rightarrow> Issue \<Rightarrow> Issue" where
  "claimed_issue start requests issue =
     issue\<lparr>iss_Generation := iss_Generation issue + 1, iss_Title := st_Title start, iss_RunID := st_RunID start,
       iss_Answers := fold (adopt_answer (st_IssueNumber start)) requests (iss_Answers issue),
       iss_AuthorVerification := (case st_AuthorVerification start of None \<Rightarrow> iss_AuthorVerification issue | v \<Rightarrow> v),
       iss_Attempts := (if iss_Attempts issue = 0 then 1 else iss_Attempts issue), iss_UpdatedAt := st_StartedAt start\<rparr>"

text \<open>The Issue of the claim, created when it is missing.\<close>

definition claim_target :: "int \<Rightarrow> Snapshot \<Rightarrow> go_error + Issue option gomap \<times> Issue" where
  "claim_target number s = (case issue_at s number of
     Some issue \<Rightarrow> Inr (snap_Issues s, issue)
   | None \<Rightarrow> and_ok (massign (Itoa number) (Some (zero_Issue\<lparr>iss_Number := number\<rparr>)) (snap_Issues s))
       (\<lambda>m. Inr (m, zero_Issue\<lparr>iss_Number := number\<rparr>)))"

definition claim_result :: "ExecutionStart \<Rightarrow> Snapshot \<Rightarrow> Issue option gomap \<Rightarrow> Issue \<Rightarrow> Snapshot \<times> ExecutionIdentity" where
  "claim_result start s issues issue =
     (s\<lparr>snap_Issues := mstore (Itoa (st_IssueNumber start)) (Some issue) issues,
        snap_IntakeVerifications := (if st_AuthorVerification start = None then snap_IntakeVerifications s
           else mdelete (Itoa (st_IssueNumber start)) (snap_IntakeVerifications s)),
        snap_ActiveExecution := Some \<lparr>act_IssueNumber = iss_Number issue, act_RunID = st_RunID start,
           act_Generation = iss_Generation issue, act_BaseSHA = st_BaseSHA start, act_StartedAt = st_StartedAt start\<rparr>,
        snap_Supervisor := (snap_Supervisor s)\<lparr>sup_State := SupervisorStateRunning\<rparr>\<rparr>,
      \<lparr>exi_RunID = st_RunID start, exi_Generation = iss_Generation issue\<rparr>)"

definition claim_execution :: "ExecutionStart \<Rightarrow> Snapshot \<Rightarrow> go_error + Snapshot \<times> ExecutionIdentity" where
  "claim_execution start s =
     (case unanswered_question (st_IssueNumber start) (entries (snap_PendingRequests s)) of Some e \<Rightarrow> Inl e
      | None \<Rightarrow>
      and_ok (claim_target (st_IssueNumber start) s) (\<lambda>(issues, issue).
      and_ok (StartClaim (iss_Status issue)) (\<lambda>transition.
      and_ok (ApplyIssueTransition (Some issue) transition) (\<lambda>issue.
        Inr (claim_result start s issues (claimed_issue start (pointees (snap_PendingRequests s)) issue))))))"

text \<open>The mutation of \<open>StartExecution\<close>; its caller has rejected a number below 1 and a blank run.\<close>

definition start_mutation :: "ExecutionStart \<Rightarrow> Snapshot \<Rightarrow> go_error + Snapshot \<times> ExecutionIdentity" where
  "start_mutation start s =
     (case ptr_at (snap_QuarantinedIssues s) (Itoa (st_IssueNumber start)) of
        Some record \<Rightarrow> Inl (IssueQuarantinedError (st_IssueNumber start) (qr_ReasonCode record) (qr_Reason record))
      | None \<Rightarrow> (case snap_ActiveExecution s of
          Some active \<Rightarrow>
            if act_IssueNumber active \<noteq> st_IssueNumber start \<or> act_RunID active \<noteq> st_RunID start
            then Inl (Errorf [Lit ''repository active execution is owned by Issue #'', Num (act_IssueNumber active),
                   Lit '' run '', Str (act_RunID active), Lit '' generation '', Num (uint (act_Generation active))])
            else Inr (s, \<lparr>exi_RunID = act_RunID active, exi_Generation = act_Generation active\<rparr>)
        | None \<Rightarrow> claim_execution start s))"

definition start_time :: "ExecutionStart \<Rightarrow> time \<Rightarrow> ExecutionStart" where
  "start_time start now =
     (if IsZero (st_StartedAt start) then start\<lparr>st_StartedAt := UTC now\<rparr> else start\<lparr>st_StartedAt := UTC (st_StartedAt start)\<rparr>)"

definition start_request_error :: "ExecutionStart \<Rightarrow> go_error option" where
  "start_request_error start = guard (st_IssueNumber start < 1 \<or> blank (st_RunID start))
     [Lit ''execution requires a positive Issue number and non-empty run ID'']"

section \<open>What the operations do\<close>

lemma issue_at_put: "snap_Issues s \<noteq> NilMap \<Longrightarrow> issue_at (put_issue n i s) m = (if m = n then Some i else issue_at s m)"
  by simp

lemma owns_iff: "OwnsActiveExecution s n identity \<longleftrightarrow>
    (\<exists>a. snap_ActiveExecution s = Some a \<and> act_IssueNumber a = n
      \<and> identity = \<lparr>exi_RunID = act_RunID a, exi_Generation = act_Generation a\<rparr>)"
  by (auto simp: OwnsActiveExecution_def ActiveIdentity_def split: option.splits)

lemma release_Inr: "ReleaseExecution n identity s = Inr s' \<longleftrightarrow> OwnsActiveExecution s n identity
    \<and> (\<exists>i. issue_at s n = Some i \<and> iss_RunID i = exi_RunID identity \<and> iss_Generation i = exi_Generation identity
        \<and> s' = put_issue n (i\<lparr>iss_WorkerPID := 0, iss_WorkerPGID := 0\<rparr>) (s\<lparr>snap_ActiveExecution := None\<rparr>))"
  by (auto simp: ReleaseExecution_def split: option.splits)

lemma clear_resolved_fields [simp]:
  "iss_Number (clear_resolved i) = iss_Number i" "iss_RunID (clear_resolved i) = iss_RunID i"
  "iss_Generation (clear_resolved i) = iss_Generation i" "iss_Status (clear_resolved i) = iss_Status i"
  "iss_WorkerPID (clear_resolved i) = iss_WorkerPID i"
  by (simp_all add: clear_resolved_def split: option.splits)

lemma capture_Inr:
  assumes "CaptureContinuation n identity checkpointID at s = Inr s'"
  shows "\<exists>a i j. snap_ActiveExecution s = Some a \<and> OwnsActiveExecution s n identity \<and> issue_at s n = Some i
      \<and> iss_RunID i = exi_RunID identity \<and> iss_Generation i = exi_Generation identity
      \<and> j = (clear_resolved i)\<lparr>iss_Continuation := Some (captured_checkpoint checkpointID at identity a i),
               iss_WorkerPID := 0, iss_WorkerPGID := 0\<rparr>
      \<and> snap_ActiveExecution s' = None \<and> issue_at s' n = Some j
      \<and> (\<forall>k. k \<noteq> Itoa n \<longrightarrow> ptr_at (snap_Issues s') k = ptr_at (snap_Issues s) k)
      \<and> snap_Issues s' \<noteq> NilMap"
  using assms
  by (auto simp: CaptureContinuation_def release_Inr ptr_at_not_nil owns_iff split: if_splits option.splits)

lemma resume_Inr: "ResumeContinuation n checkpointID at s = Inr (s', identity) \<longleftrightarrow>
    (\<exists>i c. \<not> IsZero at \<and> snap_ActiveExecution s = None \<and> issue_at s n = Some i \<and> iss_Continuation i = Some c
      \<and> ckpt_ID c = checkpointID \<and> ckpt_RunID c = iss_RunID i \<and> ckpt_Generation c \<noteq> 0
      \<and> ckpt_Generation c \<le> iss_Generation i
      \<and> identity = \<lparr>exi_RunID = iss_RunID i, exi_Generation = iss_Generation i + 1\<rparr>
      \<and> s' = put_issue n (i\<lparr>iss_Generation := iss_Generation i + 1\<rparr>)
          (s\<lparr>snap_ActiveExecution := Some \<lparr>act_IssueNumber = iss_Number i, act_RunID = iss_RunID i,
             act_Generation = iss_Generation i + 1, act_BaseSHA = ckpt_BaseSHA c, act_StartedAt = UTC at\<rparr>\<rparr>))"
  by (auto simp: ResumeContinuation_def Let_def not_less split: option.splits if_splits)

lemma transfer_Inr: "TransferExecution n current run at s = Inr (s', identity) \<longleftrightarrow>
    (\<exists>i. \<not> blank run \<and> \<not> IsZero at \<and> OwnsActiveExecution s n current \<and> issue_at s n = Some i
      \<and> iss_RunID i = exi_RunID current \<and> iss_Generation i = exi_Generation current
      \<and> identity = \<lparr>exi_RunID = run, exi_Generation = iss_Generation i + 1\<rparr>
      \<and> s' = put_issue n (i\<lparr>iss_Generation := iss_Generation i + 1, iss_RunID := run\<rparr>)
          (s\<lparr>snap_ActiveExecution := map_option (\<lambda>a. a\<lparr>act_RunID := run, act_Generation := iss_Generation i + 1,
             act_StartedAt := UTC at\<rparr>) (snap_ActiveExecution s)\<rparr>))"
  by (auto simp: TransferExecution_def Let_def split: option.splits if_splits)

text \<open>The record a claim leaves.\<close>

lemma StartClaim_Inr: "StartClaim st = Inr tr \<longleftrightarrow> (st = StatusUnset \<or> st = StatusClaiming)
    \<and> tr = \<lparr>tr_Name = ''start_claim'', tr_From = st, tr_To = StatusClaiming\<rparr>"
  by (auto simp: StartClaim_def newAllowedTransition_def NewTransition_def and_ok_Inr split: if_splits option.splits)

lemma apply_Inr: "ApplyIssueTransition item tr = Inr i' \<longleftrightarrow>
    (\<exists>i. item = Some i \<and> ValidateCommit tr (iss_Status i) = None \<and> i' = commit_transition tr i)"
  by (auto simp: ApplyIssueTransition_def ValidateIssueTransition_def split: option.splits)

lemma commit_fields [simp]:
  "iss_Number (commit_transition tr i) = iss_Number i" "iss_RunID (commit_transition tr i) = iss_RunID i"
  "iss_Generation (commit_transition tr i) = iss_Generation i" "iss_Status (commit_transition tr i) = tr_To tr"
  "iss_WorkerPID (commit_transition tr i) = iss_WorkerPID i" "iss_WorkerPGID (commit_transition tr i) = iss_WorkerPGID i"
  "iss_Answers (commit_transition tr i) = iss_Answers i" "iss_Attempts (commit_transition tr i) = iss_Attempts i"
  "iss_Cancellation (commit_transition tr i) = iss_Cancellation i"
  by (simp_all add: commit_transition_def drop_resolved_suspension_def Let_def split: option.splits)

definition claimed_record :: "ExecutionStart \<Rightarrow> Snapshot \<Rightarrow> Issue \<Rightarrow> Issue" where
  "claimed_record start s i = claimed_issue start (pointees (snap_PendingRequests s))
     (commit_transition \<lparr>tr_Name = ''start_claim'', tr_From = iss_Status i, tr_To = StatusClaiming\<rparr> i)"

lemma claimed_record_fields [simp]:
  "iss_Number (claimed_record start s i) = iss_Number i" "iss_Status (claimed_record start s i) = StatusClaiming"
  "iss_RunID (claimed_record start s i) = st_RunID start" "iss_Generation (claimed_record start s i) = iss_Generation i + 1"
  by (simp_all add: claimed_record_def claimed_issue_def)

definition issue_or_new :: "Snapshot \<Rightarrow> int \<Rightarrow> Issue" where
  "issue_or_new s n = (case issue_at s n of Some i \<Rightarrow> i | None \<Rightarrow> zero_Issue\<lparr>iss_Number := n\<rparr>)"

lemma claim_target_Inr:
  "claim_target n s = Inr (issues, i) \<Longrightarrow> i = issue_or_new s n \<and> issues \<noteq> NilMap \<and> snap_Issues s \<noteq> NilMap
     \<and> (\<forall>k. k \<noteq> Itoa n \<longrightarrow> ptr_at issues k = ptr_at (snap_Issues s) k)"
  by (auto simp: claim_target_def and_ok_Inr massign_Inr issue_or_new_def ptr_at_not_nil split: option.splits)

lemma claim_Inr:
  assumes "claim_execution start s = Inr (s', identity)"
  defines "n \<equiv> st_IssueNumber start" and "i \<equiv> issue_or_new s (st_IssueNumber start)"
  shows "iss_Status i = StatusUnset \<or> iss_Status i = StatusClaiming"
    and "unanswered_question n (entries (snap_PendingRequests s)) = None"
    and "snap_Issues s \<noteq> NilMap" and "snap_Issues s' \<noteq> NilMap"
    and "issue_at s' n = Some (claimed_record start s i)"
    and "k \<noteq> Itoa n \<Longrightarrow> ptr_at (snap_Issues s') k = ptr_at (snap_Issues s) k"
    and "snap_ActiveExecution s' = Some \<lparr>act_IssueNumber = iss_Number i, act_RunID = st_RunID start,
           act_Generation = iss_Generation i + 1, act_BaseSHA = st_BaseSHA start, act_StartedAt = st_StartedAt start\<rparr>"
    and "identity = \<lparr>exi_RunID = st_RunID start, exi_Generation = iss_Generation i + 1\<rparr>"
    and "snap_PendingRequests s' = snap_PendingRequests s" "snap_PendingEffects s' = snap_PendingEffects s"
    and "snap_QuarantinedIssues s' = snap_QuarantinedIssues s"
proof -
  obtain issues j where t: "claim_target n s = Inr (issues, j)"
    and q: "unanswered_question n (entries (snap_PendingRequests s)) = None"
    and st: "iss_Status j = StatusUnset \<or> iss_Status j = StatusClaiming"
    and r: "(s', identity) = claim_result start s issues (claimed_record start s j)"
    using assms(1) unfolding n_def
    by (auto simp: claim_execution_def and_ok_Inr StartClaim_Inr apply_Inr claimed_record_def split: option.splits)
  have j: "j = i" using claim_target_Inr [OF t] by (simp add: i_def n_def)
  note facts = claim_target_Inr [OF t] q st r [unfolded claim_result_def] j
  show "iss_Status i = StatusUnset \<or> iss_Status i = StatusClaiming"
    and "unanswered_question n (entries (snap_PendingRequests s)) = None"
    and "snap_Issues s \<noteq> NilMap" and "snap_Issues s' \<noteq> NilMap"
    and "issue_at s' n = Some (claimed_record start s i)"
    and "k \<noteq> Itoa n \<Longrightarrow> ptr_at (snap_Issues s') k = ptr_at (snap_Issues s) k"
    and "snap_ActiveExecution s' = Some \<lparr>act_IssueNumber = iss_Number i, act_RunID = st_RunID start,
           act_Generation = iss_Generation i + 1, act_BaseSHA = st_BaseSHA start, act_StartedAt = st_StartedAt start\<rparr>"
    and "identity = \<lparr>exi_RunID = st_RunID start, exi_Generation = iss_Generation i + 1\<rparr>"
    and "snap_PendingRequests s' = snap_PendingRequests s" "snap_PendingEffects s' = snap_PendingEffects s"
    and "snap_QuarantinedIssues s' = snap_QuarantinedIssues s"
    using facts by (simp_all add: n_def)
qed

section \<open>Fencing\<close>

text \<open>The token of the execution authority and the generation counter of an Issue.\<close>

definition owner :: "Snapshot \<Rightarrow> (int \<times> string \<times> uint64) option" where
  "owner s = map_option (\<lambda>a. (act_IssueNumber a, act_RunID a, act_Generation a)) (snap_ActiveExecution s)"

definition generation :: "Snapshot \<Rightarrow> int \<Rightarrow> nat" where
  "generation s n = (case issue_at s n of None \<Rightarrow> 0 | Some i \<Rightarrow> unat (iss_Generation i))"

text \<open>The authority agrees with the aggregate, and each record is stored under its own number.\<close>

definition authority_agrees :: "Snapshot \<Rightarrow> bool" where
  "authority_agrees s \<longleftrightarrow> (\<forall>n run g. owner s = Some (n, run, g) \<longrightarrow> generation s n = unat g)
     \<and> (\<forall>n i. issue_at s n = Some i \<longrightarrow> iss_Number i = n)"

text \<open>The contract of a fenced authority: counters never fall and rise by at most one per step, and an
  owner that was not the owner before has the counter's next value. The counters are 64 bits wide, so
  the contract speaks of states whose counters have not reached the last value.\<close>

locale fenced_authority =
  fixes step :: "'s \<Rightarrow> 's \<Rightarrow> bool"
    and holder :: "'s \<Rightarrow> ('n \<times> 'r \<times> uint64) option"
    and counter :: "'s \<Rightarrow> 'n \<Rightarrow> nat"
    and agrees :: "'s \<Rightarrow> bool"
  assumes step_agrees: "agrees s \<Longrightarrow> step s s' \<Longrightarrow> (\<And>n. counter s n + 1 < 2 ^ 64) \<Longrightarrow> agrees s'"
    and step_mono: "agrees s \<Longrightarrow> step s s' \<Longrightarrow> (\<And>n. counter s n + 1 < 2 ^ 64) \<Longrightarrow>
          counter s n \<le> counter s' n \<and> counter s' n \<le> counter s n + 1"
    and step_fresh: "agrees s \<Longrightarrow> step s s' \<Longrightarrow> (\<And>n. counter s n + 1 < 2 ^ 64) \<Longrightarrow>
          holder s' = Some (n, r, g) \<Longrightarrow> holder s = Some (n, r, g) \<or> unat g = counter s n + 1"
    and holder_counter: "agrees s \<Longrightarrow> holder s = Some (n, r, g) \<Longrightarrow> unat g = counter s n"
begin

inductive run :: "nat \<Rightarrow> 's \<Rightarrow> 's \<Rightarrow> bool" where
  stop: "run 0 s s"
| more: "run k s t \<Longrightarrow> step t u \<Longrightarrow> run (Suc k) s u"

lemma run_invariant:
  assumes "run k s t" and "agrees s" and "\<And>n. counter s n + k + extra < 2 ^ 64"
  shows "agrees t \<and> (\<forall>n. counter s n \<le> counter t n \<and> counter t n + extra < 2 ^ 64)"
  using assms
proof (induction arbitrary: extra rule: run.induct)
  case (stop s)
  then show ?case by simp
next
  case (more k s t u)
  have t: "agrees t" "\<And>n. counter s n \<le> counter t n" "\<And>n. counter t n + (extra + 1) < 2 ^ 64"
    using more.IH [of "extra + 1"] more.prems by (simp_all add: algebra_simps)
  then have room: "counter t n + 1 < 2 ^ 64" for n
    using t(3) [of n] by linarith
  note u = step_agrees [OF t(1) more.hyps(2) room] step_mono [OF t(1) more.hyps(2) room]
  show ?case
  proof (intro conjI allI)
    show "agrees u" by (rule u(1))
    fix n
    show "counter s n \<le> counter u n" using t(2) [of n] u(2) [of n] by linarith
    show "counter u n + extra < 2 ^ 64" using t(3) [of n] u(2) [of n] by linarith
  qed
qed

lemma run_fresh:
  assumes "run k s t" and "agrees s" and "\<And>n. counter s n + k < 2 ^ 64" and "holder t = Some (n, r, g)"
    and "holder s \<noteq> Some (n, r, g)"
  shows "counter s n < unat g"
  using assms
proof (induction rule: run.induct)
  case (more k s t u)
  have t: "agrees t" "counter s n \<le> counter t n" and room: "\<And>n. counter t n + 1 < 2 ^ 64"
    using run_invariant [OF more.hyps(1) more.prems(1), of 1] more.prems(2) by auto
  have "holder t = Some (n, r, g) \<or> unat g = counter t n + 1"
    by (rule step_fresh [OF t(1) more.hyps(2) room more.prems(3)])
  then show ?case
  proof
    assume "holder t = Some (n, r, g)"
    moreover have "counter s m + k < 2 ^ 64" for m using more.prems(2) [of m] by linarith
    ultimately show ?thesis using more.IH more.prems(1,4) by blast
  qed (use t(2) in linarith)
qed simp

text \<open>A token that was given up never comes back.\<close>

lemma no_resurrection:
  assumes "agrees s0" and "holder s0 = Some tok" and "run i s0 s1" and "holder s1 \<noteq> Some tok"
    and "run j s1 s2" and "\<And>n. counter s0 n + i + j < 2 ^ 64"
  shows "holder s2 \<noteq> Some tok"
proof
  assume s2: "holder s2 = Some tok"
  obtain n r g where tok: "tok = (n, r, g)" by (cases tok)
  have s1: "agrees s1" "counter s0 n \<le> counter s1 n" "\<And>m. counter s1 m + j < 2 ^ 64"
    using run_invariant [OF assms(3,1), of j] assms(6) by auto
  have "counter s1 n < unat g"
    using run_fresh [OF assms(5) s1(1,3)] s2 assms(4) tok by blast
  moreover have "unat g = counter s0 n" using holder_counter assms(1,2) tok by blast
  ultimately show False using s1(2) by linarith
qed

end

section \<open>The operations are fenced\<close>

text \<open>The steps of the store: the operations on the authority, and any other mutation that keeps the
  counters and at most gives the authority up.\<close>

inductive execution_step :: "Snapshot \<Rightarrow> Snapshot \<Rightarrow> bool" where
  start: "start_mutation start s = Inr (s', identity) \<Longrightarrow> execution_step s s'"
| release: "ReleaseExecution n identity s = Inr s' \<Longrightarrow> execution_step s s'"
| capture: "CaptureContinuation n identity checkpointID at s = Inr s' \<Longrightarrow> execution_step s s'"
| resume: "ResumeContinuation n checkpointID at s = Inr (s', identity) \<Longrightarrow> execution_step s s'"
| transfer: "TransferExecution n current newRunID at s = Inr (s', identity) \<Longrightarrow> execution_step s s'"
| other: "snap_ActiveExecution s' = snap_ActiveExecution s \<or> snap_ActiveExecution s' = None \<Longrightarrow>
    \<forall>n. generation s' n = generation s n \<Longrightarrow> \<forall>n i. issue_at s' n = Some i \<longrightarrow> iss_Number i = n \<Longrightarrow> execution_step s s'"



lemma next_unat:
  fixes g :: uint64
  shows "unat g + 1 < 2 ^ 64 \<Longrightarrow> unat (g + 1) = unat g + 1"
  by (simp add: unat_word_ariths)

text \<open>A step that rewrites the record of one Issue: what it does to the counters.\<close>

lemma generation_put:
  assumes "issue_at s' n = Some j" and "\<forall>k. k \<noteq> Itoa n \<longrightarrow> ptr_at (snap_Issues s') k = ptr_at (snap_Issues s) k"
  shows "generation s' m = (if m = n then unat (iss_Generation j) else generation s m)"
  using assms by (simp add: generation_def)

lemma numbers_put:
  assumes "issue_at s' n = Some j" and "\<forall>k. k \<noteq> Itoa n \<longrightarrow> ptr_at (snap_Issues s') k = ptr_at (snap_Issues s) k"
    and "iss_Number j = n" and "\<forall>n i. issue_at s n = Some i \<longrightarrow> iss_Number i = n"
  shows "\<forall>m i. issue_at s' m = Some i \<longrightarrow> iss_Number i = m"
  using assms by (metis Itoa_inj option.inject)

text \<open>Every step either keeps the counters and the authority (or drops it), or advances the counter of
  one Issue by one and makes that value the authority's generation.\<close>

definition advances :: "Snapshot \<Rightarrow> Snapshot \<Rightarrow> int \<Rightarrow> bool" where
  "advances s s' n \<longleftrightarrow> (\<exists>r. owner s' = Some (n, r, iss_Generation (issue_or_new s n) + 1))
     \<and> (\<forall>m. generation s' m = (if m = n then unat (iss_Generation (issue_or_new s n) + 1) else generation s m))"

definition step_shape :: "Snapshot \<Rightarrow> Snapshot \<Rightarrow> bool" where
  "step_shape s s' \<longleftrightarrow> (\<forall>n i. issue_at s' n = Some i \<longrightarrow> iss_Number i = n) \<and>
    ((owner s' = owner s \<or> owner s' = None) \<and> (\<forall>m. generation s' m = generation s m) \<or> (\<exists>n. advances s s' n))"

lemma shape_advance:
  assumes "issue_at s' n = Some j" and "\<forall>k. k \<noteq> Itoa n \<longrightarrow> ptr_at (snap_Issues s') k = ptr_at (snap_Issues s) k"
    and "iss_Number j = n" and "\<forall>n i. issue_at s n = Some i \<longrightarrow> iss_Number i = n"
    and "iss_Generation j = iss_Generation (issue_or_new s n) + 1"
    and "owner s' = Some (n, r, iss_Generation (issue_or_new s n) + 1)"
  shows "step_shape s s'"
proof -
  have "advances s s' n"
    unfolding advances_def using assms(5,6) generation_put [OF assms(1,2)] by simp
  then show ?thesis unfolding step_shape_def using numbers_put [OF assms(1-4)] by blast
qed

lemma shape_keep:
  assumes "issue_at s n = Some i" and "issue_at s' n = Some j"
    and "\<forall>k. k \<noteq> Itoa n \<longrightarrow> ptr_at (snap_Issues s') k = ptr_at (snap_Issues s) k"
    and "iss_Number j = iss_Number i" and "\<forall>n i. issue_at s n = Some i \<longrightarrow> iss_Number i = n"
    and "iss_Generation j = iss_Generation i" and "owner s' = None"
  shows "step_shape s s'"
proof -
  have "\<forall>m. generation s' m = generation s m"
    using generation_put [OF assms(2,3)] assms(1,6) by (simp add: generation_def)
  moreover have "iss_Number j = n" using assms(1,4,5) by simp
  ultimately show ?thesis unfolding step_shape_def using numbers_put [OF assms(2,3) _ assms(5)] assms(7) by blast
qed

lemma start_shape:
  assumes "start_mutation start s = Inr (s', identity)" and nums: "\<forall>n i. issue_at s n = Some i \<longrightarrow> iss_Number i = n"
  shows "step_shape s s'"
proof (cases "snap_ActiveExecution s")
  case (Some a)
  then have "s' = s" using assms(1) by (auto simp: start_mutation_def split: option.splits if_splits)
  then show ?thesis using nums by (simp add: step_shape_def)
next
  case None
  then have claim: "claim_execution start s = Inr (s', identity)"
    using assms(1) by (auto simp: start_mutation_def split: option.splits)
  let ?n = "st_IssueNumber start"
  let ?i = "issue_or_new s ?n"
  note facts = claim_Inr [OF claim]
  have n: "iss_Number ?i = ?n" using nums by (simp add: issue_or_new_def split: option.splits)
  show ?thesis
  proof (rule shape_advance [OF facts(5) _ _ nums])
    show "\<forall>k. k \<noteq> Itoa ?n \<longrightarrow> ptr_at (snap_Issues s') k = ptr_at (snap_Issues s) k" using facts(6) by blast
    show "iss_Number (claimed_record start s ?i) = ?n" using n by simp
    show "iss_Generation (claimed_record start s ?i) = iss_Generation ?i + 1" by simp
    show "owner s' = Some (?n, st_RunID start, iss_Generation ?i + 1)" using facts(7) n by (simp add: owner_def)
  qed
qed

lemma execution_step_shape:
  assumes "execution_step s s'" and "authority_agrees s"
  shows "step_shape s s'"
proof -
  have nums: "\<forall>n i. issue_at s n = Some i \<longrightarrow> iss_Number i = n" using assms(2) by (simp add: authority_agrees_def)
  from assms(1) show ?thesis
  proof (cases rule: execution_step.cases)
    case (start start identity)
    then show ?thesis by (rule start_shape [OF _ nums])
  next
    case (release n identity)
    then obtain i where i: "issue_at s n = Some i" and
        s': "s' = put_issue n (i\<lparr>iss_WorkerPID := 0, iss_WorkerPGID := 0\<rparr>) (s\<lparr>snap_ActiveExecution := None\<rparr>)"
      unfolding release_Inr by (elim exE conjE) (rule that; assumption)
    show ?thesis
      by (rule shape_keep [OF i _ _ _ nums, of s' "i\<lparr>iss_WorkerPID := 0, iss_WorkerPGID := 0\<rparr>"])
        (use ptr_at_not_nil [OF i] in \<open>simp_all add: s' owner_def\<close>)
  next
    case (capture n identity checkpointID at)
    from capture_Inr [OF this] obtain a i j where
      i: "issue_at s n = Some i" and none: "snap_ActiveExecution s' = None" and j: "issue_at s' n = Some j"
      and j_def: "j = (clear_resolved i)\<lparr>iss_Continuation := Some (captured_checkpoint checkpointID at identity a i),
               iss_WorkerPID := 0, iss_WorkerPGID := 0\<rparr>"
      and others: "\<forall>k. k \<noteq> Itoa n \<longrightarrow> ptr_at (snap_Issues s') k = ptr_at (snap_Issues s) k"
      by blast
    show ?thesis by (rule shape_keep [OF i j others _ nums]) (simp_all add: none j_def owner_def)
  next
    case (resume n checkpointID at identity)
    then obtain i and c :: ContinuationCheckpoint where i: "issue_at s n = Some i"
      and s': "s' = put_issue n (i\<lparr>iss_Generation := iss_Generation i + 1\<rparr>)
          (s\<lparr>snap_ActiveExecution := Some \<lparr>act_IssueNumber = iss_Number i, act_RunID = iss_RunID i,
             act_Generation = iss_Generation i + 1, act_BaseSHA = ckpt_BaseSHA c, act_StartedAt = UTC at\<rparr>\<rparr>)"
      unfolding resume_Inr by (elim exE conjE) (rule that; assumption)
    have n: "iss_Number i = n" using i nums by blast
    show ?thesis
      by (rule shape_advance [OF _ _ _ nums, of s' n "i\<lparr>iss_Generation := iss_Generation i + 1\<rparr>" "iss_RunID i"])
        (use i n ptr_at_not_nil [OF i] in \<open>simp_all add: s' owner_def issue_or_new_def\<close>)
  next
    case (transfer n current newRunID at identity)
    then obtain i where i: "issue_at s n = Some i" and own: "OwnsActiveExecution s n current"
      and s': "s' = put_issue n (i\<lparr>iss_Generation := iss_Generation i + 1, iss_RunID := newRunID\<rparr>)
          (s\<lparr>snap_ActiveExecution := map_option (\<lambda>a. a\<lparr>act_RunID := newRunID, act_Generation := iss_Generation i + 1,
             act_StartedAt := UTC at\<rparr>) (snap_ActiveExecution s)\<rparr>)"
      unfolding transfer_Inr by (elim exE conjE) (rule that; assumption)
    have n: "iss_Number i = n" using i nums by blast
    obtain a where a: "snap_ActiveExecution s = Some a" "act_IssueNumber a = n" using own unfolding owns_iff by blast
    show ?thesis
      by (rule shape_advance [OF _ _ _ nums,
            of s' n "i\<lparr>iss_Generation := iss_Generation i + 1, iss_RunID := newRunID\<rparr>" newRunID])
        (use i n a ptr_at_not_nil [OF i] in \<open>simp_all add: s' owner_def issue_or_new_def\<close>)
  next
    case other
    then show ?thesis by (auto simp: owner_def step_shape_def)
  qed
qed

lemma generation_or_new: "generation s n = unat (iss_Generation (issue_or_new s n))"
  by (simp add: generation_def issue_or_new_def zero_Issue_def split: option.splits)

interpretation authority: fenced_authority execution_step owner generation authority_agrees
proof unfold_locales
  fix s s' :: Snapshot and n r g
  assume agrees: "authority_agrees s" and step: "execution_step s s'" and room: "\<And>n. generation s n + 1 < 2 ^ 64"
  have inc: "unat (iss_Generation (issue_or_new s m) + 1) = generation s m + 1" for m
    using room [of m] by (simp add: next_unat generation_or_new)
  from execution_step_shape [OF step agrees] have shape: "step_shape s s'" .
  show "authority_agrees s'"
    using shape agrees inc by (auto simp: step_shape_def advances_def authority_agrees_def)
  show "generation s n \<le> generation s' n \<and> generation s' n \<le> generation s n + 1"
    using shape inc by (auto simp: step_shape_def advances_def)
  assume "owner s' = Some (n, r, g)"
  then show "owner s = Some (n, r, g) \<or> unat g = generation s n + 1"
    using shape inc by (auto simp: step_shape_def advances_def)
next
  fix s :: Snapshot and n r g
  assume "authority_agrees s" "owner s = Some (n, r, g)"
  then show "unat g = generation s n" by (simp add: authority_agrees_def)
qed

lemma stale_rejected:
  assumes "\<not> OwnsActiveExecution s n identity"
  shows "\<exists>e. ReleaseExecution n identity s = Inl e"
    "\<exists>e. CaptureContinuation n identity checkpointID at s = Inl e"
    "\<exists>e. TransferExecution n identity newRunID at s = Inl e"
  using assms by (simp_all add: ReleaseExecution_def CaptureContinuation_def TransferExecution_def)

text \<open>C23: The execution authority is a fencing token. Once an execution gave its authority up (by a release, a
  capture, a transfer or a lifecycle boundary), no run of the store's operations makes the same run and
  generation the owner again, and every later attempt to release, capture or transfer with the old
  identity is rejected, provided no 64-bit generation counter is exhausted on the way.\<close>

theorem given_up_authority_is_fenced:
  assumes "authority_agrees s0" and "OwnsActiveExecution s0 n identity"
    and "authority.run i s0 s1" and "\<not> OwnsActiveExecution s1 n identity"
    and "authority.run j s1 s2" and "\<forall>m. generation s0 m + i + j < 2 ^ 64"
  shows "\<not> OwnsActiveExecution s2 n identity
    \<and> (\<exists>e. ReleaseExecution n identity s2 = Inl e)
    \<and> (\<exists>e. CaptureContinuation n identity checkpointID at s2 = Inl e)
    \<and> (\<exists>e. TransferExecution n identity newRunID at s2 = Inl e)"
proof -
  have token: "OwnsActiveExecution s n identity \<longleftrightarrow> owner s = Some (n, exi_RunID identity, exi_Generation identity)" for s
    by (cases identity) (auto simp: owns_iff owner_def)
  have "owner s2 \<noteq> Some (n, exi_RunID identity, exi_Generation identity)"
    using authority.no_resurrection [OF assms(1) _ assms(3) _ assms(5)] assms(2,4,6) unfolding token by blast
  then have "\<not> OwnsActiveExecution s2 n identity" unfolding token .
  then show ?thesis using stale_rejected by blast
qed

definition sample_identity :: ExecutionIdentity where
  "sample_identity = \<lparr>exi_RunID = ''run_1'', exi_Generation = 3\<rparr>"

definition released_snapshot :: Snapshot where
  "released_snapshot = put_issue 7 (running_issue\<lparr>iss_WorkerPID := 0, iss_WorkerPGID := 0\<rparr>)
     (running_snapshot\<lparr>snap_ActiveExecution := None\<rparr>)"

definition sample_start :: ExecutionStart where
  "sample_start = \<lparr>st_IssueNumber = 9, st_Title = ''title'', st_RunID = ''run_2'', st_BaseSHA = '''', st_StartedAt = 5,
     st_AuthorVerification = None\<rparr>"

lemma running_issue_at: "issue_at running_snapshot n = (if n = 7 then Some running_issue else if n = 9 then Some (new_issue 9) else None)"
proof -
  have "''7'' = Itoa 7" "''9'' = Itoa 9" by code_simp+
  then show ?thesis
    by (simp add: running_snapshot_def new_snapshot_def ptr_at_def mlookup_def del: Itoa_inj) (simp only: Itoa_inj, auto)
qed

lemma running_agrees: "authority_agrees running_snapshot"
proof -
  have "iss_Number running_issue = 7" "iss_Number (new_issue 9) = 9" "unat (iss_Generation running_issue) = 3"
    "owner running_snapshot = Some (7, ''run_1'', 3)"
    by code_simp+
  then show ?thesis by (auto simp: authority_agrees_def generation_def running_issue_at split: if_splits)
qed

lemma running_release: "ReleaseExecution 7 sample_identity running_snapshot = Inr released_snapshot"
proof -
  have "OwnsActiveExecution running_snapshot 7 sample_identity" "iss_RunID running_issue = exi_RunID sample_identity"
    "iss_Generation running_issue = exi_Generation sample_identity"
    by code_simp+
  then show ?thesis unfolding release_Inr running_issue_at by (simp add: released_snapshot_def)
qed

theorem given_up_authority_is_fenced_witness:
  "\<exists>s2 identity. start_mutation sample_start released_snapshot = Inr (s2, identity)
     \<and> (\<exists>e. ReleaseExecution 7 sample_identity s2 = Inl e)"
proof -
  have "isl (start_mutation sample_start released_snapshot) = False" by code_simp
  then obtain s2 identity where start: "start_mutation sample_start released_snapshot = Inr (s2, identity)"
    by (cases "start_mutation sample_start released_snapshot") auto
  have run1: "authority.run 1 running_snapshot released_snapshot"
    using authority.run.more [OF authority.run.stop execution_step.release [OF running_release]] by simp
  have run2: "authority.run 1 released_snapshot s2"
    using authority.run.more [OF authority.run.stop execution_step.start [OF start]] by simp
  have owns: "OwnsActiveExecution running_snapshot 7 sample_identity" using running_release by (simp add: release_Inr)
  have gone: "\<not> OwnsActiveExecution released_snapshot 7 sample_identity" by (simp add: owns_iff released_snapshot_def)
  have "unat (iss_Generation running_issue) = 3" "unat (iss_Generation (new_issue 9)) = 0" by code_simp+
  then have "\<forall>m. generation running_snapshot m + 1 + 1 < 2 ^ 64"
    by (simp add: generation_def running_issue_at split: if_splits)
  from given_up_authority_is_fenced [OF running_agrees owns run1 gone run2 this] start show ?thesis by blast
qed

text \<open>Starting an execution is exclusive and idempotent: it succeeds only for an Issue that is not
  quarantined; afterwards the Issue's run and generation own the authority and the returned identity is
  that token; asking again for the same Issue and run returns the same identity and changes nothing; and
  asking for any other Issue or run fails.\<close>

theorem start_exclusive_idempotent:
  assumes "start_mutation start s = Inr (s', identity)" and "authority_agrees s"
  shows "ptr_at (snap_QuarantinedIssues s) (Itoa (st_IssueNumber start)) = None
    \<and> OwnsActiveExecution s' (st_IssueNumber start) identity \<and> exi_RunID identity = st_RunID start
    \<and> start_mutation start s' = Inr (s', identity)
    \<and> (\<forall>other. st_IssueNumber other \<noteq> st_IssueNumber start \<or> st_RunID other \<noteq> st_RunID start
         \<longrightarrow> (\<exists>e. start_mutation other s' = Inl e))"
proof -
  have q: "ptr_at (snap_QuarantinedIssues s) (Itoa (st_IssueNumber start)) = None"
    using assms(1) by (auto simp: start_mutation_def split: option.splits)
  have after: "\<exists>a. snap_ActiveExecution s' = Some a \<and> act_IssueNumber a = st_IssueNumber start \<and> act_RunID a = st_RunID start
      \<and> identity = \<lparr>exi_RunID = act_RunID a, exi_Generation = act_Generation a\<rparr>
      \<and> snap_QuarantinedIssues s' = snap_QuarantinedIssues s"
  proof (cases "snap_ActiveExecution s")
    case (Some a)
    then show ?thesis using assms(1) q by (auto simp: start_mutation_def split: if_splits)
  next
    case None
    then have claim: "claim_execution start s = Inr (s', identity)"
      using assms(1) q by (simp add: start_mutation_def)
    have "iss_Number (issue_or_new s (st_IssueNumber start)) = st_IssueNumber start"
      using assms(2) by (simp add: authority_agrees_def issue_or_new_def split: option.splits)
    then show ?thesis using claim_Inr(7,8,11) [OF claim] by simp
  qed
  then obtain a where a: "snap_ActiveExecution s' = Some a" "act_IssueNumber a = st_IssueNumber start"
      "act_RunID a = st_RunID start" "identity = \<lparr>exi_RunID = act_RunID a, exi_Generation = act_Generation a\<rparr>"
    and q': "snap_QuarantinedIssues s' = snap_QuarantinedIssues s"
    by blast
  have others: "\<exists>e. start_mutation other s' = Inl e"
    if "st_IssueNumber other \<noteq> st_IssueNumber start \<or> st_RunID other \<noteq> st_RunID start" for other
    using that a by (auto simp: start_mutation_def split: option.splits)
  show ?thesis using q q' a others by (auto simp: owns_iff start_mutation_def)
qed

theorem start_exclusive_idempotent_witness:
  "\<exists>s2 identity. start_mutation sample_start released_snapshot = Inr (s2, identity)
     \<and> start_mutation sample_start s2 = Inr (s2, identity)"
proof -
  have "isl (start_mutation sample_start released_snapshot) = False" by code_simp
  then obtain s2 identity where start: "start_mutation sample_start released_snapshot = Inr (s2, identity)"
    by (cases "start_mutation sample_start released_snapshot") auto
  have "step_shape running_snapshot released_snapshot"
    by (rule execution_step_shape [OF execution_step.release [OF running_release] running_agrees])
  then have "authority_agrees released_snapshot"
    by (auto simp: authority_agrees_def step_shape_def advances_def owner_def released_snapshot_def)
  from start_exclusive_idempotent [OF start this] start show ?thesis by blast
qed

text \<open>C36: Parking and resuming: capturing a continuation gives the authority up with a checkpoint of the
  Issue's own workspace, session and base, and resuming that checkpoint later hands the authority to the
  same run with the next generation and the same base commit, leaving every other Issue untouched.\<close>

theorem capture_then_resume:
  assumes "CaptureContinuation n identity checkpointID at s = Inr s1" and "exi_Generation identity \<noteq> 0" and "\<not> IsZero at'"
    and "authority_agrees s"
  shows "snap_ActiveExecution s1 = None \<and>
    (\<exists>s2 a. ResumeContinuation n checkpointID at' s1
        = Inr (s2, \<lparr>exi_RunID = exi_RunID identity, exi_Generation = exi_Generation identity + 1\<rparr>)
      \<and> snap_ActiveExecution s = Some a
      \<and> snap_ActiveExecution s2 = Some \<lparr>act_IssueNumber = n, act_RunID = exi_RunID identity,
          act_Generation = exi_Generation identity + 1, act_BaseSHA = act_BaseSHA a, act_StartedAt = UTC at'\<rparr>
      \<and> (\<forall>m. m \<noteq> n \<longrightarrow> issue_at s2 m = issue_at s m))"
proof -
  from capture_Inr [OF assms(1)] obtain a i j where
    a: "snap_ActiveExecution s = Some a" and i: "issue_at s n = Some i"
    and id': "iss_RunID i = exi_RunID identity" "iss_Generation i = exi_Generation identity"
    and j: "j = (clear_resolved i)\<lparr>iss_Continuation := Some (captured_checkpoint checkpointID at identity a i),
               iss_WorkerPID := 0, iss_WorkerPGID := 0\<rparr>"
    and none: "snap_ActiveExecution s1 = None" and at_j: "issue_at s1 n = Some j"
    and others: "\<forall>k. k \<noteq> Itoa n \<longrightarrow> ptr_at (snap_Issues s1) k = ptr_at (snap_Issues s) k"
    and nil: "snap_Issues s1 \<noteq> NilMap"
    by blast
  let ?s2 = "put_issue n (j\<lparr>iss_Generation := iss_Generation j + 1\<rparr>)
      (s1\<lparr>snap_ActiveExecution := Some \<lparr>act_IssueNumber = iss_Number j, act_RunID = iss_RunID j,
         act_Generation = iss_Generation j + 1, act_BaseSHA = act_BaseSHA a, act_StartedAt = UTC at'\<rparr>\<rparr>)"
  have "ResumeContinuation n checkpointID at' s1
      = Inr (?s2, \<lparr>exi_RunID = iss_RunID j, exi_Generation = iss_Generation j + 1\<rparr>)"
    unfolding resume_Inr using none at_j assms(2,3) id'
    by (intro exI [of _ j] exI [of _ "captured_checkpoint checkpointID at identity a i"]) (simp add: j captured_checkpoint_def)
  moreover have "iss_Number i = n" using assms(4) i by (simp add: authority_agrees_def)
  moreover have "issue_at ?s2 m = issue_at s m" if "m \<noteq> n" for m using that nil others by simp
  ultimately show ?thesis using none a id' by (auto simp: j)
qed

theorem capture_then_resume_witness:
  "\<exists>s1 s2. CaptureContinuation 7 sample_identity ''checkpoint_1'' 4 running_snapshot = Inr s1
     \<and> ResumeContinuation 7 ''checkpoint_1'' 5 s1 = Inr (s2, \<lparr>exi_RunID = ''run_1'', exi_Generation = 4\<rparr>)"
proof -
  have "isl (CaptureContinuation 7 sample_identity ''checkpoint_1'' 4 running_snapshot) = False" by code_simp
  then obtain s1 where c: "CaptureContinuation 7 sample_identity ''checkpoint_1'' 4 running_snapshot = Inr s1"
    by (cases "CaptureContinuation 7 sample_identity ''checkpoint_1'' 4 running_snapshot") auto
  from capture_then_resume [OF c _ _ running_agrees, of 5] c show ?thesis by (auto simp: sample_identity_def)
qed

end
