(* ===== verification/Boundaries.thy ===== *)
theory Boundaries
  imports Execution
begin

text \<open>
  \<open>internal/adapter/state/suspension.go\<close>: what the store enforces at the end of every mutation. The
  execution authority is released when its Issue no longer executes, with a continuation captured for
  later, and every Issue that stopped in a blocked or failed state gets a suspension that says what
  an operator may do. The draws of \<open>NewID\<close> are arguments: \<open>draw\<close> gives the entropy for the checkpoint
  (under the empty name) and for the suspension of the Issue with a given key.
\<close>

section \<open>Capturing at a boundary\<close>

definition empty_checkpoint :: "string \<Rightarrow> ContinuationCheckpoint" where
  "empty_checkpoint id' =
     \<lparr>ckpt_ID = id', ckpt_Kind = '''', ckpt_RequestID = '''', ckpt_CreatedAt = 0, ckpt_RunID = '''', ckpt_Generation = 0,
      ckpt_BaseSHA = '''', ckpt_Workspace = None, ckpt_Session = None, ckpt_HeadSHA = '''', ckpt_WorktreeSHA256 = '''',
      ckpt_PullRequestURL = '''', ckpt_PullRequestNumber = 0, ckpt_Stage = ContinuationStageNone, ckpt_ResultSHA256 = '''',
      ckpt_Summary = '''', ckpt_Evidence = None\<rparr>"

definition refresh_checkpoint :: "Issue \<Rightarrow> ActiveExecution \<Rightarrow> time \<Rightarrow> ContinuationCheckpoint \<Rightarrow> ContinuationCheckpoint" where
  "refresh_checkpoint issue active now c =
     c\<lparr>ckpt_CreatedAt := UTC now, ckpt_RunID := act_RunID active, ckpt_Generation := act_Generation active,
       ckpt_BaseSHA := act_BaseSHA active, ckpt_Workspace := iss_Workspace issue, ckpt_Session := iss_Session issue,
       ckpt_HeadSHA := (if ckpt_Stage c \<noteq> ContinuationStagePublish \<or> ckpt_WorktreeSHA256 c = ''''
                        then iss_HeadSHA issue else ckpt_HeadSHA c),
       ckpt_PullRequestURL := iss_PullRequestURL issue, ckpt_PullRequestNumber := iss_PullRequestNumber issue,
       ckpt_Stage := (if ContinuationStage_Validate (ckpt_Stage c) \<noteq> None
                      then ContinuationStageForStatus (iss_Status issue) else ckpt_Stage c)\<rparr>"

definition stale_checkpoint :: "Issue \<Rightarrow> ActiveExecution \<Rightarrow> bool" where
  "stale_checkpoint issue active \<longleftrightarrow> (case iss_Continuation issue of None \<Rightarrow> True
     | Some c \<Rightarrow> ckpt_Kind c = ContinuationKindNeedsInput
         \<and> (ckpt_RunID c \<noteq> act_RunID active \<or> ckpt_Generation c \<noteq> act_Generation active))"

text \<open>\<open>clock\<close> is \<open>time.Now()\<close>, read when the caller has no time.\<close>

definition captureContinuation :: "Entropy \<Rightarrow> time \<Rightarrow> Issue \<Rightarrow> ActiveExecution \<Rightarrow> time \<Rightarrow> Issue" where
  "captureContinuation entropy clock issue active now =
     (let now = (if IsZero now then UTC clock else now);
          issue = (if stale_checkpoint issue active
            then (clear_resolved issue)\<lparr>iss_Continuation := Some (empty_checkpoint (NewID ''checkpoint'' entropy))\<rparr>
            else issue)
      in issue\<lparr>iss_Continuation := map_option (refresh_checkpoint issue active now) (iss_Continuation issue)\<rparr>)"

section \<open>Suspensions\<close>

definition uniqueResolutionActions :: "ResolutionAction list \<Rightarrow> ResolutionAction list" where
  "uniqueResolutionActions actions = remdups_adj actions"

text \<open>The evidence the switch over the continuation collects.\<close>

definition ambiguous_checkpoint :: "ContinuationCheckpoint \<Rightarrow> bool" where
  "ambiguous_checkpoint c \<longleftrightarrow>
     (ckpt_Stage c = ContinuationStageResume \<or> ckpt_Stage c = ContinuationStagePublish) \<and> blank (ckpt_WorktreeSHA256 c)"

definition terminal_reason_code :: "Issue \<Rightarrow> string" where
  "terminal_reason_code issue =
     (let code = (if TrimSpace (iss_FailureKind issue) \<noteq> '''' then TrimSpace (iss_FailureKind issue) else ''terminal'')
      in case iss_Continuation issue of None \<Rightarrow> code
         | Some c \<Rightarrow> if ckpt_Kind c \<noteq> '''' then ckpt_Kind c else code)"

definition terminal_actions :: "Issue \<Rightarrow> ResolutionAction list" where
  "terminal_actions issue =
     (let actions = ResolutionCancel # (if iss_PullRequestURL issue \<noteq> '''' then [ResolutionAdoptPR, ResolutionRetryStage] else [])
      in case iss_Continuation issue of None \<Rightarrow> actions
         | Some c \<Rightarrow> if ambiguous_checkpoint c then [ResolutionCancel]
             else if ckpt_Stage c \<in> {ContinuationStagePublish, ContinuationStageChecks, ContinuationStageConflict}
             then actions @ [ResolutionRetryStage] else actions @ [ResolutionResume])"

definition terminal_missing :: "Issue \<Rightarrow> string list" where
  "terminal_missing issue =
     (if iss_Worktree issue = '''' \<or> iss_Workspace issue = None then [''workspace''] else [])
     @ (case iss_Continuation issue of None \<Rightarrow> []
        | Some c \<Rightarrow> if ambiguous_checkpoint c then [''worktree_sha256''] else [])"

definition terminal_recoverability :: "Issue \<Rightarrow> Recoverability" where
  "terminal_recoverability issue =
     (if terminal_missing issue \<noteq> [] \<and> iss_Worktree issue = '''' then RecoverabilityAmbiguous
      else case iss_Continuation issue of None \<Rightarrow> RecoverabilityOperator
        | Some c \<Rightarrow> if ambiguous_checkpoint c then RecoverabilityAmbiguous else RecoverabilityOperator)"

definition terminal_suspension :: "Entropy \<Rightarrow> Issue \<Rightarrow> time \<Rightarrow> Suspension" where
  "terminal_suspension entropy issue now =
     \<lparr>susp_ID = NewID ''suspension'' entropy, susp_Origin = ''runtime'',
      susp_Status = (if terminal_recoverability issue = RecoverabilityAmbiguous then SuspensionQuarantined else SuspensionActive),
      susp_ReasonCode = terminal_reason_code issue, susp_Recoverability = terminal_recoverability issue,
      susp_Reason = (if TrimSpace (iss_LastError issue) = '''' then ''terminal lifecycle boundary'' else TrimSpace (iss_LastError issue)),
      susp_MissingEvidence = terminal_missing issue,
      susp_AllowedActions = uniqueResolutionActions (sort_key ResolutionAction_String (terminal_actions issue)),
      susp_CheckpointID = (case iss_Continuation issue of None \<Rightarrow> '''' | Some c \<Rightarrow> ckpt_ID c),
      susp_SuspendedAt = UTC now, susp_ResolvedAt = 0, susp_Resolution = ResolutionNone\<rparr>"

definition ensureTerminalSuspension :: "Entropy \<Rightarrow> Issue \<Rightarrow> time \<Rightarrow> Issue" where
  "ensureTerminalSuspension entropy issue now =
     (if \<not> Terminal (iss_Status issue) \<or> iss_Status issue = StatusCompleted \<or> iss_Status issue = StatusCanceled
        \<or> iss_Suspension issue \<noteq> None then issue
      else issue\<lparr>iss_Suspension := Some (terminal_suspension entropy issue now)\<rparr>)"

section \<open>The boundary\<close>

definition end_execution :: "Entropy \<Rightarrow> time \<Rightarrow> ActiveExecution \<Rightarrow> time \<Rightarrow> Issue \<Rightarrow> Issue" where
  "end_execution entropy clock active now issue =
     (if iss_Status issue \<noteq> StatusCompleted \<and> iss_Status issue \<noteq> StatusCanceled
      then captureContinuation entropy clock issue active now else issue)\<lparr>iss_WorkerPID := 0, iss_WorkerPGID := 0\<rparr>"

definition release_stopped :: "Entropy \<Rightarrow> time \<Rightarrow> time \<Rightarrow> Snapshot \<Rightarrow> Snapshot" where
  "release_stopped entropy clock now s = (case snap_ActiveExecution s of None \<Rightarrow> s
     | Some active \<Rightarrow> (case issue_at s (act_IssueNumber active) of
         None \<Rightarrow> s\<lparr>snap_ActiveExecution := None\<rparr>
       | Some issue \<Rightarrow> if RequiresActiveExecution (iss_Status issue) then s
           else put_issue (act_IssueNumber active) (end_execution entropy clock active now issue)
                  (s\<lparr>snap_ActiveExecution := None\<rparr>)))"

definition terminal_boundary :: "Entropy \<Rightarrow> time \<Rightarrow> Issue \<Rightarrow> Issue" where
  "terminal_boundary entropy now issue =
     (if \<not> Terminal (iss_Status issue) then issue
      else if iss_Status issue = StatusCompleted then issue\<lparr>iss_Continuation := None, iss_Suspension := None\<rparr>
      else ensureTerminalSuspension entropy issue now)"

definition finalizeLifecycleBoundaries :: "(string \<Rightarrow> Entropy) \<Rightarrow> time \<Rightarrow> time \<Rightarrow> Snapshot \<Rightarrow> Snapshot" where
  "finalizeLifecycleBoundaries draw clock now s =
     (let s = release_stopped (draw '''') clock now s
      in s\<lparr>snap_Issues := map_values (\<lambda>k. map_option (\<lambda>issue. terminal_boundary (draw k) now issue)) (snap_Issues s)\<rparr>)"

section \<open>Lemmas\<close>

lemma boundary_fields [simp]:
  "iss_Status (terminal_boundary e now i) = iss_Status i" "iss_Number (terminal_boundary e now i) = iss_Number i"
  "iss_RunID (terminal_boundary e now i) = iss_RunID i" "iss_Generation (terminal_boundary e now i) = iss_Generation i"
  "iss_WorkerPID (terminal_boundary e now i) = iss_WorkerPID i"
  by (simp_all add: terminal_boundary_def ensureTerminalSuspension_def)

lemma capture_fields [simp]:
  "iss_Status (captureContinuation e c i a now) = iss_Status i" "iss_Number (captureContinuation e c i a now) = iss_Number i"
  "iss_RunID (captureContinuation e c i a now) = iss_RunID i" "iss_Generation (captureContinuation e c i a now) = iss_Generation i"
  by (simp_all add: captureContinuation_def Let_def)

lemma end_fields [simp]:
  "iss_Status (end_execution e c a now i) = iss_Status i" "iss_Number (end_execution e c a now i) = iss_Number i"
  "iss_RunID (end_execution e c a now i) = iss_RunID i" "iss_Generation (end_execution e c a now i) = iss_Generation i"
  "iss_WorkerPID (end_execution e c a now i) = 0"
  by (simp_all add: end_execution_def)

lemma terminal_boundary_idem: "terminal_boundary e' now' (terminal_boundary e now i) = terminal_boundary e now i"
  by (simp add: terminal_boundary_def ensureTerminalSuspension_def)

lemma finalize_active: "snap_ActiveExecution (finalizeLifecycleBoundaries draw clock now s) =
    snap_ActiveExecution (release_stopped (draw '''') clock now s)"
  by (simp add: finalizeLifecycleBoundaries_def Let_def)

lemma finalize_issue_at: "ptr_at (snap_Issues (finalizeLifecycleBoundaries draw clock now s)) k =
    map_option (terminal_boundary (draw k) now) (ptr_at (snap_Issues (release_stopped (draw '''') clock now s)) k)"
  by (simp add: finalizeLifecycleBoundaries_def Let_def ptr_at_map_values split: option.splits)

lemma release_stopped_statuses:
  "map_option iss_Status (ptr_at (snap_Issues (release_stopped e c now s)) k) = map_option iss_Status (ptr_at (snap_Issues s) k)"
  by (simp add: release_stopped_def ptr_at_not_nil split: option.splits)

lemma release_stopped_active:
  "snap_ActiveExecution (release_stopped e c now s) = Some a \<longleftrightarrow> snap_ActiveExecution s = Some a \<and>
     (\<exists>i. issue_at s (act_IssueNumber a) = Some i \<and> RequiresActiveExecution (iss_Status i))"
  by (auto simp: release_stopped_def split: option.splits)

lemma release_stopped_same: "snap_ActiveExecution (release_stopped e c now s) = Some a \<Longrightarrow> release_stopped e c now s = s"
  by (auto simp: release_stopped_def split: option.splits if_splits)

lemma boundary_completed: "iss_Status i = StatusCompleted \<Longrightarrow>
    iss_Continuation (terminal_boundary e now i) = None \<and> iss_Suspension (terminal_boundary e now i) = None"
  by (simp add: terminal_boundary_def Terminal_def)

lemma boundary_stopped: "iss_Status i = StatusBlocked \<or> iss_Status i = StatusFailed \<Longrightarrow>
    iss_Suspension (terminal_boundary e now i) \<noteq> None"
  by (auto simp: terminal_boundary_def Terminal_def ensureTerminalSuspension_def)

text \<open>After every mutation the lifecycle boundaries hold, whatever the mutation did: the execution
  authority, if any, belongs to an Issue that is still in an executing status; a completed Issue keeps
  neither continuation nor suspension; a blocked or failed Issue has a suspension; and the boundary step
  changes no Issue's status and is idempotent.\<close>

theorem boundaries_established:
  "(\<forall>a. snap_ActiveExecution (finalizeLifecycleBoundaries draw clock now s) = Some a \<longrightarrow>
      (\<exists>i. issue_at (finalizeLifecycleBoundaries draw clock now s) (act_IssueNumber a) = Some i
           \<and> RequiresActiveExecution (iss_Status i)))
   \<and> (\<forall>k i. ptr_at (snap_Issues (finalizeLifecycleBoundaries draw clock now s)) k = Some i \<longrightarrow>
        map_option iss_Status (ptr_at (snap_Issues s) k) = Some (iss_Status i)
        \<and> (iss_Status i = StatusCompleted \<longrightarrow> iss_Continuation i = None \<and> iss_Suspension i = None)
        \<and> (iss_Status i = StatusBlocked \<or> iss_Status i = StatusFailed \<longrightarrow> iss_Suspension i \<noteq> None))
   \<and> finalizeLifecycleBoundaries draw' clock' now' (finalizeLifecycleBoundaries draw clock now s)
      = finalizeLifecycleBoundaries draw clock now s"
proof (intro conjI allI impI)
  fix a assume a: "snap_ActiveExecution (finalizeLifecycleBoundaries draw clock now s) = Some a"
  then obtain i where i: "issue_at s (act_IssueNumber a) = Some i" "RequiresActiveExecution (iss_Status i)"
    unfolding finalize_active release_stopped_active by blast
  then show "\<exists>i. issue_at (finalizeLifecycleBoundaries draw clock now s) (act_IssueNumber a) = Some i
           \<and> RequiresActiveExecution (iss_Status i)"
    using release_stopped_same [OF a [unfolded finalize_active]] by (simp add: finalize_issue_at)
next
  fix k i assume "ptr_at (snap_Issues (finalizeLifecycleBoundaries draw clock now s)) k = Some i"
  then obtain j where j: "ptr_at (snap_Issues (release_stopped (draw '''') clock now s)) k = Some j"
      and i: "i = terminal_boundary (draw k) now j"
    by (auto simp: finalize_issue_at)
  show "map_option iss_Status (ptr_at (snap_Issues s) k) = Some (iss_Status i)"
    using release_stopped_statuses [of "draw ''''" clock now s k] j i by simp
  show "iss_Continuation i = None" "iss_Suspension i = None" if "iss_Status i = StatusCompleted"
    using that boundary_completed [of j "draw k" now] by (simp_all add: i)
  show "iss_Suspension i \<noteq> None" if "iss_Status i = StatusBlocked \<or> iss_Status i = StatusFailed"
    using that boundary_stopped [of j "draw k" now] by (simp add: i)
next
  let ?f = "finalizeLifecycleBoundaries draw clock now s"
  have "release_stopped e c n ?f = ?f" for e c n
  proof (cases "snap_ActiveExecution ?f")
    case None
    then show ?thesis by (simp add: release_stopped_def)
  next
    case (Some a)
    then have a: "snap_ActiveExecution (release_stopped (draw '''') clock now s) = Some a" by (simp only: finalize_active)
    have "\<exists>i. issue_at s (act_IssueNumber a) = Some i \<and> RequiresActiveExecution (iss_Status i)"
      using a unfolding release_stopped_active by blast
    with release_stopped_same [OF a] have "\<exists>i. issue_at ?f (act_IssueNumber a) = Some i \<and> RequiresActiveExecution (iss_Status i)"
      by (auto simp: finalize_issue_at)
    with Some show ?thesis by (auto simp: release_stopped_def)
  qed
  moreover have "map_values (\<lambda>k. map_option (terminal_boundary (draw' k) now')) (snap_Issues ?f) = snap_Issues ?f"
  proof (rule map_values_cong)
    fix k v assume "(k, v) \<in> set (entries (snap_Issues ?f))"
    then obtain w where "v = map_option (terminal_boundary (draw k) now) w"
      by (auto simp: finalizeLifecycleBoundaries_def Let_def entries_map_values)
    then show "map_option (terminal_boundary (draw' k) now') v = v"
      by (cases w) (simp_all add: terminal_boundary_idem)
  qed
  ultimately show "finalizeLifecycleBoundaries draw' clock' now' ?f = ?f"
    unfolding finalizeLifecycleBoundaries_def [of draw'] Let_def by simp
qed

theorem boundaries_established_witness:
  "finalizeLifecycleBoundaries (\<lambda>_. RandFailed 9) 0 2 (finalizeLifecycleBoundaries (\<lambda>_. RandFailed 8) 0 1 running_snapshot)
     = finalizeLifecycleBoundaries (\<lambda>_. RandFailed 8) 0 1 running_snapshot"
  using boundaries_established [of "\<lambda>_. RandFailed 8" 0 1 running_snapshot "\<lambda>_. RandFailed 9" 0 2] by blast

section \<open>The suspension is valid\<close>

lemma terminal_actions_cases:
  "terminal_actions i \<in> {[ResolutionCancel], [ResolutionCancel, ResolutionRetryStage], [ResolutionCancel, ResolutionResume],
     [ResolutionCancel, ResolutionAdoptPR, ResolutionRetryStage],
     [ResolutionCancel, ResolutionAdoptPR, ResolutionRetryStage, ResolutionRetryStage],
     [ResolutionCancel, ResolutionAdoptPR, ResolutionRetryStage, ResolutionResume]}"
  by (simp add: terminal_actions_def Let_def split: option.splits)

lemma sorted_actions_valid:
  assumes "as \<in> {[ResolutionCancel], [ResolutionCancel, ResolutionRetryStage], [ResolutionCancel, ResolutionResume],
     [ResolutionCancel, ResolutionAdoptPR, ResolutionRetryStage],
     [ResolutionCancel, ResolutionAdoptPR, ResolutionRetryStage, ResolutionRetryStage],
     [ResolutionCancel, ResolutionAdoptPR, ResolutionRetryStage, ResolutionResume]}"
  shows "validate_actions {} (uniqueResolutionActions (sort_key ResolutionAction_String as)) = None
    \<and> uniqueResolutionActions (sort_key ResolutionAction_String as) \<noteq> []"
proof -
  have "\<forall>as \<in> {[ResolutionCancel], [ResolutionCancel, ResolutionRetryStage], [ResolutionCancel, ResolutionResume],
     [ResolutionCancel, ResolutionAdoptPR, ResolutionRetryStage],
     [ResolutionCancel, ResolutionAdoptPR, ResolutionRetryStage, ResolutionRetryStage],
     [ResolutionCancel, ResolutionAdoptPR, ResolutionRetryStage, ResolutionResume]}.
     validate_actions {} (uniqueResolutionActions (sort_key ResolutionAction_String as)) = None
    \<and> uniqueResolutionActions (sort_key ResolutionAction_String as) \<noteq> []"
    by code_simp
  from bspec [OF this assms] show ?thesis .
qed

text \<open>The kinds of checkpoint the code makes.\<close>

definition known_kind :: "Issue \<Rightarrow> bool" where
  "known_kind i \<longleftrightarrow> (case iss_Continuation i of None \<Rightarrow> True
     | Some c \<Rightarrow> ckpt_Kind c = '''' \<or> ckpt_Kind c = ContinuationKindNeedsInput)"

lemma not_blank_texts: "\<not> blank ''terminal''" "\<not> blank ContinuationKindNeedsInput" "\<not> blank ''terminal lifecycle boundary''"
  by (simp_all add: TrimSpace_visible_nonempty)

text \<open>The suspension made at a terminal boundary is always acceptable to the validator: whatever evidence
  a blocked or failed Issue carries, its new suspension has a valid identity, a reason, distinct known
  actions that include cancelling, and is quarantined exactly when its recovery is ambiguous.\<close>

theorem terminal_suspension_valid:
  assumes "iss_Status i = StatusBlocked \<or> iss_Status i = StatusFailed" and "iss_Suspension i = None"
    and "known_kind i" and "entropy_ok e" and "\<not> IsZero now"
  shows "validateSuspension (ensureTerminalSuspension e i now) = None
    \<and> (\<exists>sp. iss_Suspension (ensureTerminalSuspension e i now) = Some sp \<and> ResolutionCancel \<in> set (susp_AllowedActions sp)
        \<and> (susp_Status sp = SuspensionQuarantined) = (susp_Recoverability sp = RecoverabilityAmbiguous))"
proof -
  let ?sp = "terminal_suspension e i now"
  have sp: "iss_Suspension (ensureTerminalSuspension e i now) = Some ?sp"
    and fields: "iss_Status (ensureTerminalSuspension e i now) = iss_Status i"
      "iss_Continuation (ensureTerminalSuspension e i now) = iss_Continuation i"
    using assms(1,2) by (auto simp: ensureTerminalSuspension_def Terminal_def)
  have recoverability: "terminal_recoverability i = RecoverabilityAmbiguous \<or> terminal_recoverability i = RecoverabilityOperator"
    by (simp add: terminal_recoverability_def split: option.splits)
  have id': "ValidID (susp_ID ?sp) ''suspension_''"
    using NewID_valid_id [of e "''suspension''"] assms(4) by (simp add: terminal_suspension_def id_char_def)
  have code: "\<not> blank (susp_ReasonCode ?sp)"
    using assms(3) not_blank_texts(1,2)
    by (cases "iss_Continuation i")
      (auto simp: terminal_suspension_def terminal_reason_code_def known_kind_def Let_def TrimSpace_idem)
  have reason: "\<not> blank (susp_Reason ?sp)"
    using not_blank_texts(3) by (simp add: terminal_suspension_def TrimSpace_idem)
  have actions: "validate_actions {} (susp_AllowedActions ?sp) = None" "susp_AllowedActions ?sp \<noteq> []"
    using sorted_actions_valid [OF terminal_actions_cases [of i]] by (simp_all add: terminal_suspension_def)
  have cancel: "ResolutionCancel \<in> set (susp_AllowedActions ?sp)"
    using terminal_actions_cases [of i] by (auto simp: terminal_suspension_def uniqueResolutionActions_def)
  have rest: "susp_Status ?sp \<noteq> SuspensionResolved" "susp_SuspendedAt ?sp \<noteq> 0" "susp_ResolvedAt ?sp = 0"
      "susp_Resolution ?sp = ResolutionNone" "susp_Recoverability ?sp = terminal_recoverability i"
      "susp_CheckpointID ?sp = (case iss_Continuation i of None \<Rightarrow> '''' | Some c \<Rightarrow> ckpt_ID c)"
      "susp_Status ?sp = (if terminal_recoverability i = RecoverabilityAmbiguous then SuspensionQuarantined else SuspensionActive)"
    using assms(5) by (auto simp: terminal_suspension_def)
  have "validateSuspension (ensureTerminalSuspension e i now) = None"
    using id' code reason actions rest(2-7) recoverability assms(1)
    by (auto simp: validateSuspension_def sp fields validate_suspension_status_def Terminal_def first_error.simps(1)
        split: option.splits)
  with sp cancel rest(5,7) recoverability show ?thesis by auto
qed

theorem terminal_suspension_valid_witness:
  "validateSuspension (ensureTerminalSuspension (RandFailed 17) ((new_issue 4)\<lparr>iss_Status := StatusFailed\<rparr>) 9) = None"
  using terminal_suspension_valid [of "(new_issue 4)\<lparr>iss_Status := StatusFailed\<rparr>" "RandFailed 17" 9]
  by (simp add: new_issue_def zero_Issue_def known_kind_def)

end
