(* ===== verification/LaunchRecovery.thy ===== *)
theory LaunchRecovery
  imports Execution
begin

text \<open>
  The recovery of launches in \<open>internal/adapter/state/execution.go\<close>: a needs-input continuation is
  checked against its request, a launch that never got a worker process is taken back only on a
  complete chain of persisted identities, and launches written by older versions are either given
  the source their evidence proves or blocked for an operator.
\<close>

section \<open>Needs-input continuations\<close>

definition ValidateNeedsInputContinuation :: "Issue option \<Rightarrow> Request option \<Rightarrow> go_error option" where
  "ValidateNeedsInputContinuation issue request = (case (issue, request) of
     (Some i, Some r) \<Rightarrow> (case iss_Continuation i of
         None \<Rightarrow> Some (Errorf [Lit ''needs-input continuation is incomplete''])
       | Some c \<Rightarrow> guard (ckpt_Kind c \<noteq> ContinuationKindNeedsInput \<or> ckpt_RequestID c \<noteq> req_ID r
             \<or> req_CheckpointID r \<noteq> ckpt_ID c \<or> req_IssueNumber r \<noteq> iss_Number i \<or> req_RunID r \<noteq> iss_RunID i
             \<or> (case req_ReleasedExecution r of None \<Rightarrow> True
                | Some released \<Rightarrow> exi_RunID released \<noteq> ckpt_RunID c \<or> exi_Generation released \<noteq> ckpt_Generation c))
           [Lit ''Issue #'', Num (iss_Number i), Lit '' needs-input continuation identity is inconsistent''])
   | _ \<Rightarrow> Some (Errorf [Lit ''needs-input continuation is incomplete'']))"

section \<open>Unstarted conflict launches\<close>

definition launch_identity_broken :: "ActiveExecution \<Rightarrow> Issue \<Rightarrow> bool" where
  "launch_identity_broken active issue \<longleftrightarrow> iss_Status issue \<noteq> StatusLaunching \<or> iss_LaunchSource issue \<noteq> StatusResolvingConflict
     \<or> iss_WorkerPID issue \<noteq> 0 \<or> iss_WorkerPGID issue \<noteq> 0 \<or> act_IssueNumber active \<noteq> iss_Number issue
     \<or> act_RunID active \<noteq> iss_RunID issue \<or> act_Generation active \<noteq> iss_Generation issue \<or> act_Generation active = 0
     \<or> IsZero (act_StartedAt active)"

definition launch_checkpoint_broken :: "ActiveExecution \<Rightarrow> Issue \<Rightarrow> ContinuationCheckpoint \<Rightarrow> bool" where
  "launch_checkpoint_broken active issue c \<longleftrightarrow> ckpt_ID c = '''' \<or> ckpt_RunID c \<noteq> iss_RunID issue \<or> ckpt_Generation c = 0
     \<or> ckpt_Generation c \<ge> iss_Generation issue \<or> act_StartedAt active < ckpt_CreatedAt c
     \<or> ckpt_BaseSHA c \<noteq> act_BaseSHA active \<or> ckpt_HeadSHA c \<noteq> iss_HeadSHA issue
     \<or> ckpt_PullRequestURL c \<noteq> iss_PullRequestURL issue \<or> ckpt_PullRequestNumber c \<noteq> iss_PullRequestNumber issue
     \<or> ckpt_Workspace c \<noteq> iss_Workspace issue"

definition launch_recovery_broken :: "ActiveExecution \<Rightarrow> Issue \<Rightarrow> ConflictRecovery \<Rightarrow> bool" where
  "launch_recovery_broken active issue r \<longleftrightarrow> cr_PullRequestURL r = '''' \<or> cr_PullRequestURL r \<noteq> iss_PullRequestURL issue
     \<or> cr_PreviousBaseSHA r \<noteq> act_BaseSHA active \<or> cr_TargetBaseSHA r = '''' \<or> cr_OriginalHeadSHA r \<noteq> iss_HeadSHA issue
     \<or> cr_ConflictFiles r = []"

definition validateUnstartedConflictLaunch :: "Snapshot \<Rightarrow> Issue option \<Rightarrow> go_error option" where
  "validateUnstartedConflictLaunch s item = (case (item, snap_ActiveExecution s) of
     (Some issue, Some active) \<Rightarrow> first_error
       [guard (launch_identity_broken active issue)
          [Lit ''Issue #'', Num (iss_Number issue), Lit '' unstarted conflict launch execution identity is inconsistent''],
        guard (case iss_Continuation issue of None \<Rightarrow> True | Some c \<Rightarrow> launch_checkpoint_broken active issue c)
          [Lit ''Issue #'', Num (iss_Number issue), Lit '' unstarted conflict launch continuation identity is inconsistent''],
        guard (case iss_Continuation issue of None \<Rightarrow> False
            | Some c \<Rightarrow> ckpt_Stage c \<noteq> ContinuationStageChecks \<and> ckpt_Stage c \<noteq> ContinuationStageConflict)
          [Lit ''Issue #'', Num (iss_Number issue), Lit '' unstarted conflict launch continuation stage is inconsistent''],
        guard (case iss_ConflictRecovery issue of None \<Rightarrow> True | Some r \<Rightarrow> launch_recovery_broken active issue r)
          [Lit ''Issue #'', Num (iss_Number issue), Lit '' unstarted conflict launch recovery context is inconsistent'']]
   | _ \<Rightarrow> Some (Errorf [Lit ''unstarted conflict launch evidence is incomplete'']))"

text \<open>Whether \<open>RecoverUnstartedConflictLaunch\<close> has a launch to look at.\<close>

definition conflict_launch_pending :: "Snapshot \<Rightarrow> Issue option" where
  "conflict_launch_pending s = (case snap_ActiveExecution s of None \<Rightarrow> None
     | Some active \<Rightarrow> (case issue_at s (act_IssueNumber active) of None \<Rightarrow> None
       | Some issue \<Rightarrow> if iss_Status issue \<noteq> StatusLaunching \<or> iss_LaunchSource issue \<noteq> StatusResolvingConflict
           \<or> iss_WorkerPID issue \<noteq> 0 \<or> iss_WorkerPGID issue \<noteq> 0 then None else Some issue))"

definition abort_launch :: "int \<Rightarrow> Issue \<Rightarrow> time \<Rightarrow> Snapshot \<Rightarrow> go_error + Snapshot" where
  "abort_launch number current now s =
     and_ok (AbortWorkerLaunch (iss_Status current) (iss_LaunchSource current)) (\<lambda>transition.
     and_ok (ReleaseExecution (iss_Number current)
               \<lparr>exi_RunID = iss_RunID current, exi_Generation = iss_Generation current\<rparr> s) (\<lambda>s.
     and_ok (ApplyIssueTransition (issue_at s number) transition) (\<lambda>i.
       Inr (put_issue number (i\<lparr>iss_UpdatedAt := UTC now\<rparr>) s))))"

text \<open>The mutation of \<open>RecoverUnstartedConflictLaunch\<close>, for the Issue and authority it observed.\<close>

definition conflict_launch_mutation :: "int \<Rightarrow> ActiveExecution \<Rightarrow> time \<Rightarrow> Snapshot \<Rightarrow> go_error + Snapshot" where
  "conflict_launch_mutation number expected now latest = (case issue_at latest number of
     None \<Rightarrow> Inl (Errorf [Lit ''Issue #'', Num number, Lit '' conflict launch changed before recovery''])
   | Some current \<Rightarrow>
     if snap_ActiveExecution latest \<noteq> Some expected
     then Inl (Errorf [Lit ''Issue #'', Num number, Lit '' conflict launch changed before recovery''])
     else (case validateUnstartedConflictLaunch latest (Some current) of Some e \<Rightarrow> Inl e
     | None \<Rightarrow> abort_launch number current now latest))"

section \<open>Stopped assignments\<close>

definition stopped_supervisor :: "time \<Rightarrow> Snapshot \<Rightarrow> Snapshot" where
  "stopped_supervisor now s = s\<lparr>snap_Supervisor := (snap_Supervisor s)\<lparr>sup_State := SupervisorStateStopped, sup_PID := 0,
     sup_Message := lit ''retained stopped assignment retry'', sup_UpdatedAt := UTC now\<rparr>\<rparr>"

text \<open>The mutation of \<open>ReconcileStoppedAssignment\<close>.\<close>

definition stopped_assignment_mutation :: "time \<Rightarrow> Snapshot \<Rightarrow> go_error + Snapshot" where
  "stopped_assignment_mutation now s =
     (if \<exists>item \<in> set (pointees (snap_Issues s)). iss_WorkerPID item \<noteq> 0 \<or> iss_WorkerPGID item \<noteq> 0
      then Inl (Errorf [Lit ''stopped assignment state retains a worker process identity''])
      else case snap_ActiveExecution s of None \<Rightarrow> Inr (stopped_supervisor now s)
      | Some active \<Rightarrow> (case issue_at s (act_IssueNumber active) of
          None \<Rightarrow> Inl (Errorf [Lit ''stopped assignment active execution is not an unstarted worker launch''])
        | Some item \<Rightarrow>
          if iss_Status item \<noteq> StatusLaunching \<or> iss_WorkerPID item \<noteq> 0 \<or> iss_WorkerPGID item \<noteq> 0
            \<or> iss_RunID item \<noteq> act_RunID active \<or> iss_Generation item \<noteq> act_Generation active
            \<or> iss_LaunchSource item = StatusResolvingConflict
          then Inl (Errorf [Lit ''stopped assignment active execution is not an unstarted worker launch''])
          else and_ok (abort_launch (act_IssueNumber active) item now s) (\<lambda>s. Inr (stopped_supervisor now s))))"

section \<open>Launches of older versions\<close>

definition legacyLaunchObservedAt :: "Snapshot \<Rightarrow> Issue \<Rightarrow> time" where
  "legacyLaunchObservedAt s issue =
     (if \<not> IsZero (iss_UpdatedAt issue) then UTC (iss_UpdatedAt issue)
      else if \<not> IsZero (sup_UpdatedAt (snap_Supervisor s)) then UTC (sup_UpdatedAt (snap_Supervisor s))
      else case snap_ActiveExecution s of
        Some active \<Rightarrow> if \<not> IsZero (act_StartedAt active) then UTC (act_StartedAt active)
          else (case iss_Continuation issue of
              Some c \<Rightarrow> if \<not> IsZero (ckpt_CreatedAt c) then UTC (ckpt_CreatedAt c) else 62135596801000000000
            | None \<Rightarrow> 62135596801000000000)
      | None \<Rightarrow> (case iss_Continuation issue of
              Some c \<Rightarrow> if \<not> IsZero (ckpt_CreatedAt c) then UTC (ckpt_CreatedAt c) else 62135596801000000000
            | None \<Rightarrow> 62135596801000000000))"

abbreviation put_key :: "string \<Rightarrow> Issue \<Rightarrow> Snapshot \<Rightarrow> Snapshot" where
  "put_key key issue s \<equiv> s\<lparr>snap_Issues := mstore key (Some issue) (snap_Issues s)\<rparr>"

definition legacy_suspension :: "Snapshot \<Rightarrow> Issue \<Rightarrow> Suspension" where
  "legacy_suspension s issue =
     \<lparr>susp_ID = ''suspension_legacy_launch_'' @ Itoa (iss_Number issue), susp_Origin = ''runtime'',
      susp_Status = SuspensionQuarantined, susp_ReasonCode = ''legacy_launch_authority'',
      susp_Recoverability = RecoverabilityAmbiguous, susp_Reason = iss_LastError issue, susp_MissingEvidence = [],
      susp_AllowedActions = [ResolutionCancel],
      susp_CheckpointID = (case iss_Continuation issue of None \<Rightarrow> '''' | Some c \<Rightarrow> ckpt_ID c),
      susp_SuspendedAt = legacyLaunchObservedAt s issue, susp_ResolvedAt = 0, susp_Resolution = ResolutionNone\<rparr>"

definition block_legacy_launch :: "string \<Rightarrow> string \<Rightarrow> Issue \<Rightarrow> Snapshot \<Rightarrow> Snapshot" where
  "block_legacy_launch key reason issue s =
     (let s = (if (case snap_ActiveExecution s of None \<Rightarrow> False | Some a \<Rightarrow> act_IssueNumber a = iss_Number issue)
               then s\<lparr>snap_ActiveExecution := None\<rparr> else s);
          issue = issue\<lparr>iss_WorkerPID := 0, iss_WorkerPGID := 0,
            iss_LastError := ''legacy running launch authority is ambiguous or inconsistent'' @ '': '' @ reason,
            iss_FailureKind := ''issue'', iss_RetryAfter := None\<rparr>
      in put_key key (issue\<lparr>iss_Suspension := Some (legacy_suspension s issue)\<rparr>) s)"

definition normalize_launch :: "string \<Rightarrow> Snapshot \<Rightarrow> Snapshot" where
  "normalize_launch key s = (case ptr_at (snap_Issues s) key of None \<Rightarrow> s
   | Some issue \<Rightarrow>
     if iss_Status issue \<noteq> StatusRunning \<or> iss_WorkerPID issue \<noteq> 0 \<or> iss_WorkerPGID issue \<noteq> 0 then s
     else case LegacyWorkerLaunchSource s issue of
       Inr source \<Rightarrow> (case and_ok (RecoverUnstartedWorker (iss_Status issue) StatusLaunching)
             (ApplyIssueTransition (Some issue)) of
           Inl e \<Rightarrow> s | Inr i \<Rightarrow> put_key key (i\<lparr>iss_LaunchSource := source\<rparr>) s)
     | Inl reason \<Rightarrow> (case and_ok (RecoverUnstartedWorker (iss_Status issue) StatusBlocked)
             (ApplyIssueTransition (Some issue)) of
           Inl e \<Rightarrow> s | Inr i \<Rightarrow> block_legacy_launch key reason i s))"

definition NormalizeLegacyWorkerLaunches :: "Snapshot \<Rightarrow> Snapshot" where
  "NormalizeLegacyWorkerLaunches s = fold normalize_launch (mkeys (snap_Issues s)) s"

section \<open>Aborted launches\<close>

lemma AbortWorkerLaunch_Inr: "AbortWorkerLaunch st target = Inr tr \<longleftrightarrow> st = StatusLaunching
    \<and> target \<in> {StatusClaimed, StatusResumePending, StatusRetryWait, StatusResolvingConflict}
    \<and> tr = \<lparr>tr_Name = ''abort_worker_launch'', tr_From = st, tr_To = target\<rparr>"
  by (auto simp: AbortWorkerLaunch_def newAllowedTransition_def NewTransition_def and_ok_Inr split: if_splits option.splits)

definition aborted_issue :: "Issue \<Rightarrow> time \<Rightarrow> Issue" where
  "aborted_issue i now = (commit_transition
     \<lparr>tr_Name = ''abort_worker_launch'', tr_From = StatusLaunching, tr_To = iss_LaunchSource i\<rparr>
     (i\<lparr>iss_WorkerPID := 0, iss_WorkerPGID := 0\<rparr>))\<lparr>iss_UpdatedAt := now\<rparr>"

lemma aborted_fields [simp]: "iss_Status (aborted_issue i now) = iss_LaunchSource i"
  "iss_LaunchSource (aborted_issue i now) = (if iss_LaunchSource i = StatusLaunching then StatusLaunching else StatusUnset)"
  "iss_Generation (aborted_issue i now) = iss_Generation i" "iss_RunID (aborted_issue i now) = iss_RunID i"
  "iss_WorkerPID (aborted_issue i now) = 0" "iss_Number (aborted_issue i now) = iss_Number i"
  by (simp_all add: aborted_issue_def commit_transition_def drop_resolved_suspension_def Let_def split: option.splits)

lemma abort_launch_Inr:
  assumes "abort_launch n i now s = Inr s'" and "issue_at s n = Some i" and "iss_Number i = n"
  shows "iss_Status i = StatusLaunching"
    and "iss_LaunchSource i \<in> {StatusClaimed, StatusResumePending, StatusRetryWait, StatusResolvingConflict}"
    and "OwnsActiveExecution s n \<lparr>exi_RunID = iss_RunID i, exi_Generation = iss_Generation i\<rparr>"
    and "s' = put_issue n (aborted_issue i now) (s\<lparr>snap_ActiveExecution := None\<rparr>)"
proof -
  have nil: "snap_Issues s \<noteq> NilMap" by (rule ptr_at_not_nil [OF assms(2)])
  obtain tr s1 i1 where tr: "AbortWorkerLaunch (iss_Status i) (iss_LaunchSource i) = Inr tr"
    and s1: "ReleaseExecution (iss_Number i) \<lparr>exi_RunID = iss_RunID i, exi_Generation = iss_Generation i\<rparr> s = Inr s1"
    and i1: "ApplyIssueTransition (issue_at s1 n) tr = Inr i1"
    and s': "s' = put_issue n (i1\<lparr>iss_UpdatedAt := now\<rparr>) s1"
    using assms(1) by (auto simp: abort_launch_def and_ok_Inr)
  show "iss_Status i = StatusLaunching"
    and "iss_LaunchSource i \<in> {StatusClaimed, StatusResumePending, StatusRetryWait, StatusResolvingConflict}"
    using tr by (auto simp: AbortWorkerLaunch_Inr)
  show "OwnsActiveExecution s n \<lparr>exi_RunID = iss_RunID i, exi_Generation = iss_Generation i\<rparr>"
    using s1 assms(3) by (simp add: release_Inr)
  have s1': "s1 = put_issue n (i\<lparr>iss_WorkerPID := 0, iss_WorkerPGID := 0\<rparr>) (s\<lparr>snap_ActiveExecution := None\<rparr>)"
    using s1 assms(2,3) by (auto simp: release_Inr)
  then show "s' = put_issue n (aborted_issue i now) (s\<lparr>snap_ActiveExecution := None\<rparr>)"
    using i1 tr s' nil by (auto simp: AbortWorkerLaunch_Inr apply_Inr aborted_issue_def)
qed

text \<open>Taking back an unstarted conflict launch is safe and loses nothing: it needs the authority, the
  checkpoint and the recovery context to agree; afterwards nobody holds the authority, the Issue is back in
  \<open>resolving_conflict\<close> with the same run and generation and no worker, other Issues are untouched, and
  its checkpoint can be resumed again.\<close>

theorem conflict_launch_recoverable:
  assumes "conflict_launch_mutation n expected now s = Inr s'" and "authority_agrees s" and "\<not> IsZero at"
  shows "snap_ActiveExecution s = Some expected \<and> snap_ActiveExecution s' = None
    \<and> (\<exists>i i' c. issue_at s n = Some i \<and> issue_at s' n = Some i' \<and> iss_Status i = StatusLaunching
        \<and> iss_Status i' = StatusResolvingConflict \<and> iss_LaunchSource i' = StatusUnset
        \<and> iss_RunID i' = iss_RunID i \<and> iss_Generation i' = iss_Generation i \<and> iss_WorkerPID i' = 0
        \<and> iss_Continuation i' = Some c \<and> ckpt_BaseSHA c = act_BaseSHA expected
        \<and> (\<exists>s2 identity. ResumeContinuation n (ckpt_ID c) at s' = Inr (s2, identity)))
    \<and> (\<forall>m. m \<noteq> n \<longrightarrow> issue_at s' m = issue_at s m)"
proof -
  obtain i where i: "issue_at s n = Some i" and expected: "snap_ActiveExecution s = Some expected"
    and valid: "validateUnstartedConflictLaunch s (Some i) = None" and abort: "abort_launch n i now s = Inr s'"
    using assms(1) by (auto simp: conflict_launch_mutation_def split: option.splits if_splits)
  have n: "iss_Number i = n" using assms(2) i by (simp add: authority_agrees_def)
  obtain c where c: "iss_Continuation i = Some c" and good: "\<not> launch_checkpoint_broken expected i c"
    and id': "\<not> launch_identity_broken expected i"
    using valid by (auto simp: validateUnstartedConflictLaunch_def expected split: option.splits)
  note s' = abort_launch_Inr [OF abort i n]
  have source: "iss_LaunchSource i = StatusResolvingConflict" using id' by (simp add: launch_identity_broken_def)
  have nil: "snap_Issues s \<noteq> NilMap" by (rule ptr_at_not_nil [OF i])
  have cont: "iss_Continuation (aborted_issue i now) = Some c"
    using c source by (simp add: aborted_issue_def commit_transition_def drop_resolved_suspension_def Let_def split: option.splits)
  have at': "issue_at s' n = Some (aborted_issue i now)" using nil by (simp add: s'(4))
  have "\<exists>s2 identity. ResumeContinuation n (ckpt_ID c) at s' = Inr (s2, identity)"
    unfolding resume_Inr using at' cont good assms(3)
    by (intro exI conjI) (auto simp: s'(4) launch_checkpoint_broken_def not_le less_imp_le)
  then show ?thesis using expected i at' cont source good s'(1) nil
    by (auto simp: s'(4) launch_checkpoint_broken_def)
qed

definition empty_conflict_checkpoint :: ContinuationCheckpoint where
  "empty_conflict_checkpoint = \<lparr>ckpt_ID = ''checkpoint_1'', ckpt_Kind = '''', ckpt_RequestID = '''', ckpt_CreatedAt = 4,
     ckpt_RunID = ''run_1'', ckpt_Generation = 2, ckpt_BaseSHA = '''', ckpt_Workspace = None, ckpt_Session = None,
     ckpt_HeadSHA = ''h'', ckpt_WorktreeSHA256 = '''', ckpt_PullRequestURL = ''u'', ckpt_PullRequestNumber = 0,
     ckpt_Stage = ContinuationStageConflict, ckpt_ResultSHA256 = '''', ckpt_Summary = '''', ckpt_Evidence = None\<rparr>"

definition launching_conflict :: Issue where
  "launching_conflict = (new_issue 7)\<lparr>iss_Status := StatusLaunching, iss_LaunchSource := StatusResolvingConflict,
     iss_RunID := ''run_1'', iss_Generation := 3, iss_PullRequestURL := ''u'', iss_HeadSHA := ''h'',
     iss_Continuation := Some ((empty_conflict_checkpoint)\<lparr>ckpt_BaseSHA := ''b''\<rparr>),
     iss_ConflictRecovery := Some \<lparr>cr_PullRequestURL = ''u'', cr_RetryID = '''', cr_PreviousBaseSHA = ''b'',
       cr_TargetBaseSHA = ''t'', cr_OriginalHeadSHA = ''h'', cr_ConflictFiles = [''f''], cr_AllowedPaths = [],
       cr_Attempts = 1, cr_BaseUpdates = 0, cr_History = [], cr_OriginalDiff = '''', cr_BaseCommits = '''',
       cr_ConflictContent = '''', cr_Verification = [], cr_LastReason = '''', cr_StartedAt = 1, cr_UpdatedAt = 1\<rparr>\<rparr>"

definition launching_snapshot :: Snapshot where
  "launching_snapshot = new_snapshot\<lparr>snap_ActiveExecution := Some (sample_active\<lparr>act_BaseSHA := ''b'', act_StartedAt := 5\<rparr>),
     snap_Issues := GoMap [(''7'', Some launching_conflict)]\<rparr>"

lemma launching_at: "issue_at launching_snapshot n = (if n = 7 then Some launching_conflict else None)"
proof -
  have "''7'' = Itoa 7" by code_simp
  then show ?thesis
    by (simp add: launching_snapshot_def new_snapshot_def ptr_at_def mlookup_def del: Itoa_inj) (simp only: Itoa_inj, auto)
qed

lemma launching_agrees: "authority_agrees launching_snapshot"
proof -
  have "iss_Number launching_conflict = 7" "unat (iss_Generation launching_conflict) = 3"
    "owner launching_snapshot = Some (7, ''run_1'', 3)"
    by code_simp+
  then show ?thesis by (auto simp: authority_agrees_def generation_def launching_at split: if_splits)
qed

theorem conflict_launch_recoverable_witness:
  "\<exists>s'. conflict_launch_mutation 7 (sample_active\<lparr>act_BaseSHA := ''b'', act_StartedAt := 5\<rparr>) 9 launching_snapshot = Inr s'
     \<and> snap_ActiveExecution s' = None"
proof -
  let ?r = "conflict_launch_mutation 7 (sample_active\<lparr>act_BaseSHA := ''b'', act_StartedAt := 5\<rparr>) 9 launching_snapshot"
  have "isl ?r = False" by code_simp
  then obtain s' where r: "?r = Inr s'" by (cases ?r) auto
  from conflict_launch_recoverable [OF r launching_agrees, of 11] r show ?thesis by auto
qed

text \<open>A stopped assignment keeps nothing running: when its reconciliation succeeds, no Issue has a worker
  process, nobody holds the execution authority and the supervisor is stopped; an execution it ended was
  an unstarted launch of the owner, now back in the status it was launched from.\<close>

theorem stopped_assignment_quiet:
  assumes "stopped_assignment_mutation now s = Inr s'" and "authority_agrees s" and "maps_ok s"
  shows "snap_ActiveExecution s' = None \<and> sup_State (snap_Supervisor s') = SupervisorStateStopped
    \<and> (\<forall>k i. ptr_at (snap_Issues s') k = Some i \<longrightarrow> iss_WorkerPID i = 0)
    \<and> (\<forall>a. snap_ActiveExecution s = Some a \<longrightarrow> (\<exists>i i'. issue_at s (act_IssueNumber a) = Some i
        \<and> issue_at s' (act_IssueNumber a) = Some i' \<and> iss_Status i = StatusLaunching
        \<and> iss_Status i' = iss_LaunchSource i \<and> iss_Generation i' = iss_Generation i))"
proof -
  have quiet: "iss_WorkerPID i = 0" if "ptr_at (snap_Issues s) k = Some i" for k i
    using assms(1,3) that by (auto simp: stopped_assignment_mutation_def maps_ok_def mem_pointees split: if_splits)
  show ?thesis
  proof (cases "snap_ActiveExecution s")
    case None
    then have "s' = stopped_supervisor now s"
      using assms(1) by (simp add: stopped_assignment_mutation_def split: if_splits)
    then show ?thesis using None quiet by (simp add: stopped_supervisor_def)
  next
    case (Some a)
    then obtain i s1 where i: "issue_at s (act_IssueNumber a) = Some i" "iss_Status i = StatusLaunching"
      and s1: "abort_launch (act_IssueNumber a) i now s = Inr s1" and s': "s' = stopped_supervisor now s1"
      using assms(1) by (auto simp: stopped_assignment_mutation_def and_ok_Inr split: if_splits option.splits)
    have n: "iss_Number i = act_IssueNumber a" using assms(2) i by (simp add: authority_agrees_def)
    note eq = abort_launch_Inr(4) [OF s1 i(1) n]
    show ?thesis using Some i ptr_at_not_nil [OF i(1)] quiet by (auto simp: s' eq stopped_supervisor_def)
  qed
qed

theorem stopped_assignment_quiet_witness:
  "\<exists>s'. stopped_assignment_mutation 9 released_snapshot = Inr s' \<and> sup_State (snap_Supervisor s') = SupervisorStateStopped"
proof -
  have "isl (stopped_assignment_mutation 9 released_snapshot) = False" by code_simp
  then obtain s' where r: "stopped_assignment_mutation 9 released_snapshot = Inr s'"
    by (cases "stopped_assignment_mutation 9 released_snapshot") auto
  have maps: "maps_ok released_snapshot"
    using running_snapshot_maps by (simp add: released_snapshot_def maps_ok_def)
  have "step_shape running_snapshot released_snapshot"
    by (rule execution_step_shape [OF execution_step.release [OF running_release] running_agrees])
  then have "authority_agrees released_snapshot"
    by (auto simp: authority_agrees_def step_shape_def advances_def owner_def released_snapshot_def)
  from stopped_assignment_quiet [OF r this maps] r show ?thesis by blast
qed

section \<open>Legacy launches\<close>

definition unstarted :: "Issue \<Rightarrow> bool" where
  "unstarted i \<longleftrightarrow> iss_Status i = StatusRunning \<and> iss_WorkerPID i = 0 \<and> iss_WorkerPGID i = 0"

lemma recover_commit:
  assumes "iss_Status i = StatusRunning" and "target \<in> {StatusLaunching, StatusBlocked}"
  shows "and_ok (RecoverUnstartedWorker StatusRunning target) (ApplyIssueTransition (Some i))
    = Inr (commit_transition \<lparr>tr_Name = ''recover_unstarted_worker'', tr_From = StatusRunning, tr_To = target\<rparr> i)"
proof -
  have "RecoverUnstartedWorker StatusRunning target
      = Inr \<lparr>tr_Name = ''recover_unstarted_worker'', tr_From = StatusRunning, tr_To = target\<rparr>"
    using assms(2) by (auto simp: RecoverUnstartedWorker_def newAllowedTransition_def NewTransition_def)
  moreover have "ValidateCommit \<lparr>tr_Name = ''recover_unstarted_worker'', tr_From = StatusRunning, tr_To = target\<rparr>
      (iss_Status i) = None"
    using assms by (auto simp: ValidateCommit_def)
  ultimately show ?thesis using assms(1) by (simp add: ApplyIssueTransition_def ValidateIssueTransition_def)
qed

lemma normalize_other: "k' \<noteq> k \<Longrightarrow> ptr_at (snap_Issues (normalize_launch k s)) k' = ptr_at (snap_Issues s) k'"
  by (auto simp: normalize_launch_def block_legacy_launch_def Let_def ptr_at_not_nil split: option.splits sum.splits)

lemma normalize_here: "ptr_at (snap_Issues (normalize_launch k s)) k = Some i \<Longrightarrow> \<not> unstarted i"
proof (cases "ptr_at (snap_Issues s) k")
  case (Some j)
  assume i: "ptr_at (snap_Issues (normalize_launch k s)) k = Some i"
  show ?thesis
  proof (cases "unstarted j")
    case True
    then have "iss_Status j = StatusRunning" "iss_WorkerPID j = 0" "iss_WorkerPGID j = 0" by (simp_all add: unstarted_def)
    then show ?thesis using i Some ptr_at_not_nil [OF Some]
      by (cases "LegacyWorkerLaunchSource s j")
        (auto simp: normalize_launch_def recover_commit [of j] block_legacy_launch_def Let_def unstarted_def)
  next
    case False
    then have "normalize_launch k s = s" using Some by (auto simp: normalize_launch_def unstarted_def)
    with i Some False show ?thesis by simp
  qed
qed (simp add: normalize_launch_def)

lemma normalize_none: "ptr_at (snap_Issues s) k = None \<Longrightarrow> ptr_at (snap_Issues (normalize_launch k' s)) k = None"
  by (cases "k = k'") (simp_all add: normalize_other, simp add: normalize_launch_def)

lemma fold_normalize_started:
  "(\<forall>i. ptr_at (snap_Issues s) k = Some i \<longrightarrow> k \<in> set ks \<or> \<not> unstarted i) \<Longrightarrow>
     ptr_at (snap_Issues (fold normalize_launch ks s)) k = Some i \<Longrightarrow> \<not> unstarted i"
proof (induction ks arbitrary: s)
  case (Cons k' ks)
  show ?case
  proof (rule Cons.IH)
    show "\<forall>i. ptr_at (snap_Issues (normalize_launch k' s)) k = Some i \<longrightarrow> k \<in> set ks \<or> \<not> unstarted i"
      using Cons.prems(1) normalize_here [of k' s] normalize_other [of k k' s] by (cases "k = k'") auto
    show "ptr_at (snap_Issues (fold normalize_launch ks (normalize_launch k' s))) k = Some i"
      using Cons.prems(2) by simp
  qed
qed auto

lemma legacy_valid:
  assumes valid: "Snapshot_Validate s = None"
  shows "NormalizeLegacyWorkerLaunches s = s"
proof -
  have "normalize_launch k s = s" for k
  proof (cases "ptr_at (snap_Issues s) k")
    case (Some i)
    have "iss_Status i = StatusRunning \<Longrightarrow> iss_WorkerPID i \<noteq> 0"
      using worker_facts(5) [OF valid_issue(3) [OF valid Some]] by auto
    with Some show ?thesis by (auto simp: normalize_launch_def)
  qed (simp add: normalize_launch_def)
  then have "fold normalize_launch ks s = s" for ks by (induction ks) simp_all
  then show "NormalizeLegacyWorkerLaunches s = s" by (simp add: NormalizeLegacyWorkerLaunches_def)
qed

text \<open>After the launches of older versions are normalised, no Issue is left running without a worker
  process (each became a launch with a proven source or a blocked Issue), and a valid snapshot, which has
  none, is not changed at all.\<close>

theorem legacy_launches_resolved:
  "(\<forall>k i. ptr_at (snap_Issues (NormalizeLegacyWorkerLaunches s)) k = Some i \<longrightarrow> \<not> unstarted i)
   \<and> (Snapshot_Validate s = None \<longrightarrow> NormalizeLegacyWorkerLaunches s = s)"
proof (intro conjI allI impI)
  fix k i assume "ptr_at (snap_Issues (NormalizeLegacyWorkerLaunches s)) k = Some i"
  moreover have "k \<in> set (mkeys (snap_Issues s))" if "ptr_at (snap_Issues s) k = Some j" for j
    using ptr_at_entry [OF that] by (force simp: mkeys_def)
  ultimately show "\<not> unstarted i"
    using fold_normalize_started [of s k "mkeys (snap_Issues s)" i] by (simp add: NormalizeLegacyWorkerLaunches_def)
qed (rule legacy_valid)

theorem legacy_launches_resolved_witness: "NormalizeLegacyWorkerLaunches running_snapshot = running_snapshot"
  using legacy_launches_resolved [of running_snapshot] running_snapshot_valid by blast

end
