(* ===== verification/StoreModel.thy ===== *)
theory StoreModel
  imports SnapshotLog Boundaries LaunchRecovery
begin

text \<open>
  \<open>internal/adapter/state/state.go\<close> and \<open>recovery.go\<close>: the durable store. A disk holds the files of
  the state directory as the values they decode to: the snapshot, the lines of the event log and a possible
  partial tail, the prepared transaction and the migration journal. The writes of the store are single
  operations on the disk (the atomic replacement of \<open>fsutil.WriteFile\<close>, the synced append, the removal), so that a
  crash is a stop between two of them or inside an append. What the store calls but this theory does not model is
  an argument in the record \<open>Store\<close>: the redaction of a snapshot or payload, the number of bytes of an encoded event,
  and the completion of an operator's quarantine recovery, which is consulted only if its journal is on the disk.
\<close>

section \<open>The disk\<close>

datatype 'a stored = Missing | Unreadable go_error | Holds 'a

record LogLine =
  ln_Bytes :: int
  ln_Event :: "go_error + Event option"

record MigrationJournal =
  mj_Status :: string
  mj_To :: int

datatype backup_file = BackupState "Snapshot stored" | BackupEvents "LogLine list" bool | BackupTxn "Transaction stored"

record Disk =
  disk_State :: "Snapshot stored"
  disk_Lines :: "LogLine list"
  disk_Tail :: bool
  disk_Txn :: "Transaction stored"
  disk_Migration :: "MigrationJournal stored"
  disk_Restore :: bool
  disk_Backups :: "(string \<times> backup_file) list"

datatype payload = CallerPayload string | RejectedPayload string string | TruncatedPayload int
  | RecoveryPayload string string | ArchivedPayload uint64

record RetentionPolicy =
  ret_MaxBytes :: int
  ret_MaxAge :: int
  ret_Keep :: int

record Store =
  store_RepoID :: string
  store_RepoPath :: string
  store_EventRetention :: RetentionPolicy
  store_sanitize :: "Snapshot \<Rightarrow> go_error + Snapshot"
  store_payload :: "payload \<Rightarrow> go_error + string"
  store_redact :: "string \<Rightarrow> string"
  store_bytes :: "Event \<Rightarrow> int"
  store_restore :: "Disk \<Rightarrow> go_error option \<times> Disk"

text \<open>What an operation draws from outside: the clock, randomness, the name of a backup and the age of the log.\<close>

record Ambient =
  amb_Now :: time
  amb_Clock :: time
  amb_EventID :: Entropy
  amb_Draw :: "string \<Rightarrow> Entropy"
  amb_Backup :: string
  amb_LogAge :: int

text \<open>An update may recover first and rotate the log at its end; each part draws on its own.\<close>

record Draws =
  dr_Recover :: Ambient
  dr_Update :: Ambient
  dr_Rotate :: Ambient

datatype disk_op = WriteTxn Transaction | AppendEvent Event | WriteState Snapshot | RemoveTxn | TruncateTail
  | MoveState string | MoveEvents string | MoveTxn string | ReplaceLog Event

definition log_line :: "Store \<Rightarrow> Event \<Rightarrow> LogLine" where
  "log_line st e = \<lparr>ln_Bytes = store_bytes st e, ln_Event = Inr (Some e)\<rparr>"

fun run_op :: "Store \<Rightarrow> disk_op \<Rightarrow> Disk \<Rightarrow> Disk" where
  "run_op st (WriteTxn t) d = d\<lparr>disk_Txn := Holds t\<rparr>"
| "run_op st (AppendEvent e) d = d\<lparr>disk_Lines := disk_Lines d @ [log_line st e], disk_Tail := False\<rparr>"
| "run_op st (WriteState s) d = d\<lparr>disk_State := Holds s\<rparr>"
| "run_op st RemoveTxn d = d\<lparr>disk_Txn := Missing\<rparr>"
| "run_op st TruncateTail d = d\<lparr>disk_Tail := False\<rparr>"
| "run_op st (MoveState b) d = (if disk_State d = Missing then d
     else d\<lparr>disk_State := Missing, disk_Backups := (b, BackupState (disk_State d)) # disk_Backups d\<rparr>)"
| "run_op st (MoveEvents b) d =
     d\<lparr>disk_Lines := [], disk_Tail := False, disk_Backups := (b, BackupEvents (disk_Lines d) (disk_Tail d)) # disk_Backups d\<rparr>"
| "run_op st (MoveTxn b) d = (if disk_Txn d = Missing then d
     else d\<lparr>disk_Txn := Missing, disk_Backups := (b, BackupTxn (disk_Txn d)) # disk_Backups d\<rparr>)"
| "run_op st (ReplaceLog e) d = d\<lparr>disk_Lines := [log_line st e], disk_Tail := False\<rparr>"

definition run_ops :: "Store \<Rightarrow> disk_op list \<Rightarrow> Disk \<Rightarrow> Disk" where
  "run_ops st ops d = fold (run_op st) ops d"

text \<open>The disks a crash may leave: before every operation, after the last, and inside an append.\<close>

fun torn :: "disk_op \<Rightarrow> Disk \<Rightarrow> Disk list" where
  "torn (AppendEvent e) d = [d\<lparr>disk_Tail := True\<rparr>]"
| "torn _ d = []"

fun crash_disks :: "Store \<Rightarrow> disk_op list \<Rightarrow> Disk \<Rightarrow> Disk list" where
  "crash_disks st [] d = [d]"
| "crash_disks st (op # ops) d = d # torn op d @ crash_disks st ops (run_op st op d)"

section \<open>Reading\<close>

fun version_error :: "go_error \<Rightarrow> bool" where
  "version_error (SchemaVersionError _ _) = True"
| "version_error (SemanticContractVersionError _ _) = True"
| "version_error (LifecycleAPIVersionError _ _) = True"
| "version_error (Wrapf _ e) = version_error e"
| "version_error (IssueMutationError _ e) = version_error e"
| "version_error _ = False"

definition checkSnapshotMigration :: "Disk \<Rightarrow> go_error option" where
  "checkSnapshotMigration d = (case disk_Migration d of
     Missing \<Rightarrow> None
   | Unreadable e \<Rightarrow> Some e
   | Holds journal \<Rightarrow> guard (mj_Status journal = ''prepared'' \<and> mj_To journal = CurrentVersion)
       [Lit ''snapshot migration is prepared; complete migration before accessing durable state''])"

definition loadSnapshotUnlocked :: "Store \<Rightarrow> Disk \<Rightarrow> go_error + Snapshot option" where
  "loadSnapshotUnlocked st d = (case disk_State d of
     Missing \<Rightarrow> Inr None
   | Unreadable e \<Rightarrow> Inl e
   | Holds s \<Rightarrow>
     if snap_Version s \<noteq> CurrentVersion
     then Inl (Wrapf [Lit ''decode state: ''] (SchemaVersionError ''state'' (snap_Version s)))
     else if snap_RepoID s \<noteq> store_RepoID st
     then Inl (Errorf [Lit ''state repo_id '', Quo (snap_RepoID s), Lit '' does not match '', Quo (store_RepoID st)])
     else Inr (Some (NormalizeLegacyWorkerLaunches (Normalize s))))"

fun read_lines :: "string \<Rightarrow> int \<Rightarrow> LogLine list \<Rightarrow> go_error + Event list \<times> int" where
  "read_lines repo n [] = Inr ([], n)"
| "read_lines repo n (l # ls) = (case ln_Event l of
     Inl e \<Rightarrow> Inl (Wrapf [Lit ''decode event at byte '', Num n, Lit '': ''] e)
   | Inr None \<Rightarrow> read_lines repo (n + ln_Bytes l) ls
   | Inr (Some event) \<Rightarrow>
     if ev_Version event \<noteq> CurrentVersion then Inl (SchemaVersionError ''event'' (ev_Version event))
     else if ev_RepoID event \<noteq> repo
     then Inl (Errorf [Lit ''invalid event metadata at sequence '', Num (uint (ev_Sequence event))])
     else and_ok (read_lines repo (n + ln_Bytes l) ls) (\<lambda>(es, m). Inr (event # es, m)))"

definition readEventsUnlocked :: "Store \<Rightarrow> Disk \<Rightarrow> go_error + Event list \<times> int \<times> bool" where
  "readEventsUnlocked st d =
     and_ok (read_lines (store_RepoID st) 0 (disk_Lines d)) (\<lambda>(es, n). Inr (es, n, disk_Tail d))"

definition loadTransactionUnlocked :: "Disk \<Rightarrow> go_error + Transaction option" where
  "loadTransactionUnlocked d = (case disk_Txn d of
     Missing \<Rightarrow> Inr None
   | Unreadable e \<Rightarrow> Inl e
   | Holds txn \<Rightarrow>
     if txn_Version txn \<noteq> CurrentVersion then Inl (SchemaVersionError ''state'' (txn_Version txn))
     else if snap_Version (txn_Snapshot txn) \<noteq> CurrentVersion
     then Inl (SchemaVersionError ''state'' (snap_Version (txn_Snapshot txn)))
     else Inr (Some (txn\<lparr>txn_Snapshot := NormalizeLegacyWorkerLaunches (Normalize (txn_Snapshot txn))\<rparr>)))"

definition validateConsistency :: "Snapshot \<Rightarrow> Event list \<Rightarrow> go_error option" where
  "validateConsistency s events = (case ValidateEventSequence s events of Some e \<Rightarrow> Some e | None \<Rightarrow> Snapshot_Validate s)"

definition sameEvent :: "Event \<Rightarrow> Event \<Rightarrow> bool" where
  "sameEvent l r \<longleftrightarrow> ev_Version l = ev_Version r \<and> ev_EventID l = ev_EventID r \<and> ev_Sequence l = ev_Sequence r
     \<and> ev_RepoID l = ev_RepoID r \<and> ev_IssueNumber l = ev_IssueNumber r \<and> ev_RunID l = ev_RunID r
     \<and> ev_Type l = ev_Type r \<and> ev_Payload l = ev_Payload r"

section \<open>Recovery\<close>

definition emptySnapshot :: "Store \<Rightarrow> time \<Rightarrow> Snapshot" where
  "emptySnapshot st now = \<lparr>snap_Version = CurrentVersion, snap_SemanticContractVersion = 0, snap_IssueLifecycleAPIVersion = '''',
     snap_RepoID = store_RepoID st, snap_RepoPath = store_RepoPath st, snap_StateRevision = 0,
     snap_Supervisor = \<lparr>sup_State = SupervisorStateStopped, sup_PID = 0, sup_StartedAt = 0, sup_UpdatedAt = now,
       sup_Message = '''', sup_FailureKind = '''', sup_ConsecutiveFailures = 0, sup_RetryAfter = None, sup_RateLimit = None\<rparr>,
     snap_LastExecutionReleasedAt = 0, snap_ActiveExecution = None,
     snap_Issues = GoMap [], snap_PendingEffects = GoMap [], snap_QuarantinedIssues = GoMap [],
     snap_IntakeVerifications = GoMap [], snap_PendingRequests = GoMap [], snap_Recovery = None\<rparr>"

definition make_event :: "Store \<Rightarrow> Ambient \<Rightarrow> Snapshot \<Rightarrow> int \<Rightarrow> string \<Rightarrow> string \<Rightarrow> string \<Rightarrow> Event" where
  "make_event st amb s issueNumber runID eventType payload =
     \<lparr>ev_Version = CurrentVersion, ev_EventID = NewID ''evt'' (amb_EventID amb), ev_Sequence = snap_StateRevision s,
      ev_Timestamp = amb_Now amb, ev_RepoID = store_RepoID st, ev_IssueNumber = issueNumber, ev_RunID = runID,
      ev_Type = eventType, ev_Payload = payload\<rparr>"

text \<open>The writes of a commit, in their order.\<close>

definition commit_ops :: "Transaction \<Rightarrow> disk_op list" where
  "commit_ops txn = [WriteTxn txn, AppendEvent (txn_Event txn), WriteState (txn_Snapshot txn), RemoveTxn]"

definition blocked_snapshot :: "Store \<Rightarrow> Ambient \<Rightarrow> string \<Rightarrow> Snapshot" where
  "blocked_snapshot st amb safeCause =
     (let s = emptySnapshot st (amb_Now amb) in
      s\<lparr>snap_StateRevision := 1,
        snap_Supervisor := (snap_Supervisor s)\<lparr>sup_State := SupervisorStateBlocked, sup_UpdatedAt := amb_Now amb,
          sup_Message := ''durable state recovery blocked: '' @ safeCause @ '' (backup: '' @ amb_Backup amb @ '')''\<rparr>,
        snap_Recovery := Some \<lparr>rec_Status = RecoveryStateBlocked, rec_Reason = safeCause, rec_BackupDir = amb_Backup amb,
          rec_DetectedAt = amb_Now amb\<rparr>\<rparr>)"

definition quarantine_moves :: "Ambient \<Rightarrow> disk_op list" where
  "quarantine_moves amb = [MoveState (amb_Backup amb), MoveEvents (amb_Backup amb), MoveTxn (amb_Backup amb)]"

definition quarantine_event :: "Store \<Rightarrow> Ambient \<Rightarrow> string \<Rightarrow> go_error + Event" where
  "quarantine_event st amb safeCause =
     and_ok (store_payload st (RecoveryPayload safeCause (amb_Backup amb))) (\<lambda>payload.
       let s = blocked_snapshot st amb safeCause; event = make_event st amb s 0 '''' ''recovery_blocked'' payload in
       case Transaction_Validate \<lparr>txn_Version = CurrentVersion, txn_Snapshot = s, txn_Event = event\<rparr> (store_RepoID st) of
         Some e \<Rightarrow> Inl e | None \<Rightarrow> Inr event)"

definition quarantineUnlocked :: "Store \<Rightarrow> Ambient \<Rightarrow> go_error \<Rightarrow> Disk \<Rightarrow> (go_error + Snapshot) \<times> Disk" where
  "quarantineUnlocked st amb cause d =
     (let d = run_ops st (quarantine_moves amb) d; safeCause = store_redact st (error_text cause) in
      case quarantine_event st amb safeCause of
        Inl e \<Rightarrow> (Inl e, d)
      | Inr event \<Rightarrow> (Inr (blocked_snapshot st amb safeCause),
          run_ops st [AppendEvent event, WriteState (blocked_snapshot st amb safeCause)] d))"

text \<open>What every failed read leads to.\<close>

definition reject_state :: "Store \<Rightarrow> Ambient \<Rightarrow> go_error \<Rightarrow> Disk \<Rightarrow> (go_error + Snapshot) \<times> Disk" where
  "reject_state st amb e d = (if version_error e then (Inl e, d) else quarantineUnlocked st amb e d)"

text \<open>The completion of a prepared transaction: the writes made, and the error that stops it. The sequence of a validated
  transaction is positive, so the log is not empty where its last event is compared.\<close>

definition last_sequence :: "Event list \<Rightarrow> uint64" where
  "last_sequence events = (if events = [] then 0 else ev_Sequence (last events))"

definition complete_log :: "Event list \<Rightarrow> bool \<Rightarrow> Transaction \<Rightarrow> disk_op list \<times> go_error option" where
  "complete_log events partial txn =
     (let trunc = (if partial then [TruncateTail] else []); prev = last_sequence events; event = txn_Event txn in
      if prev = ev_Sequence event then
        (trunc, guard (events = [] \<or> \<not> sameEvent (last events) event)
           [Lit ''transaction event conflicts with event sequence '', Num (uint prev)])
      else if prev + 1 = ev_Sequence event then (trunc @ [AppendEvent event], None)
      else (trunc, Some (Errorf [Lit ''transaction event sequence '', Num (uint (ev_Sequence event)),
              Lit '' does not follow event log sequence '', Num (uint prev)])))"

definition complete_state :: "Snapshot option \<Rightarrow> Transaction \<Rightarrow> disk_op list \<times> go_error option" where
  "complete_state saved txn = (case saved of
     None \<Rightarrow> ([WriteState (txn_Snapshot txn)], None)
   | Some s \<Rightarrow>
     if snap_StateRevision s = snap_StateRevision (txn_Snapshot txn) then
       ([], guard (s \<noteq> txn_Snapshot txn)
          [Lit ''transaction snapshot conflicts at revision '', Num (uint (snap_StateRevision s))])
     else if snap_StateRevision s < snap_StateRevision (txn_Snapshot txn) then ([WriteState (txn_Snapshot txn)], None)
     else ([], Some (Errorf [Lit ''state revision '', Num (uint (snap_StateRevision s)),
             Lit '' is ahead of prepared transaction revision '', Num (uint (snap_StateRevision (txn_Snapshot txn)))])))"

definition complete_transaction ::
  "Snapshot option \<Rightarrow> Event list \<Rightarrow> bool \<Rightarrow> Transaction \<Rightarrow> disk_op list \<times> go_error option" where
  "complete_transaction saved events partial txn = (case complete_log events partial txn of
     (ops, Some e) \<Rightarrow> (ops, Some e)
   | (ops, None) \<Rightarrow> (case complete_state saved txn of
       (ops', Some e) \<Rightarrow> (ops @ ops', Some e)
     | (ops', None) \<Rightarrow> (ops @ ops' @ [RemoveTxn], None)))"

definition repaired_snapshot :: "Ambient \<Rightarrow> Snapshot \<Rightarrow> Snapshot" where
  "repaired_snapshot amb s = s\<lparr>snap_StateRevision := snap_StateRevision s + 1,
     snap_Supervisor := (snap_Supervisor s)\<lparr>sup_UpdatedAt := amb_Now amb\<rparr>\<rparr>"

definition recordRepairUnlocked :: "Store \<Rightarrow> Ambient \<Rightarrow> Snapshot \<Rightarrow> string \<Rightarrow> payload \<Rightarrow> Disk \<Rightarrow> (go_error + Snapshot) \<times> Disk" where
  "recordRepairUnlocked st amb s eventType payload d =
     (let s = repaired_snapshot amb s
      in case Snapshot_Validate s of Some e \<Rightarrow> (Inl (Wrapf [Lit ''validate repaired snapshot: ''] e), d)
      | None \<Rightarrow> (case store_payload st payload of Inl e \<Rightarrow> (Inl e, d)
      | Inr json \<Rightarrow>
        let txn = \<lparr>txn_Version = CurrentVersion, txn_Snapshot = s, txn_Event = make_event st amb s 0 '''' eventType json\<rparr> in
        (case Transaction_Validate txn (store_RepoID st) of Some e \<Rightarrow> (Inl e, d)
         | None \<Rightarrow> (Inr s, run_ops st (commit_ops txn) d))))"

text \<open>The checks after a transaction, if any, is completed.\<close>

definition check_consistency :: "Store \<Rightarrow> Ambient \<Rightarrow> Snapshot \<Rightarrow> Event list \<Rightarrow> Disk \<Rightarrow> (go_error + Snapshot) \<times> Disk" where
  "check_consistency st amb s events d =
     (case validateConsistency s events of Some e \<Rightarrow> reject_state st amb e d | None \<Rightarrow> (Inr s, d))"

definition repair_tail :: "Store \<Rightarrow> Ambient \<Rightarrow> Snapshot \<Rightarrow> Event list \<Rightarrow> int \<Rightarrow> Disk \<Rightarrow> (go_error + Snapshot) \<times> Disk" where
  "repair_tail st amb s events validBytes d =
     (if snap_StateRevision s \<noteq> last_sequence events
      then quarantineUnlocked st amb (Errorf [Lit ''partial event tail with state revision '', Num (uint (snap_StateRevision s)),
             Lit '' and last complete event '', Num (uint (last_sequence events))]) d
      else case recordRepairUnlocked st amb s ''event_log_tail_truncated'' (TruncatedPayload validBytes)
                  (run_op st TruncateTail d) of
        (Inl e, d) \<Rightarrow> (Inl e, d)
      | (Inr s, d) \<Rightarrow> (case readEventsUnlocked st d of
          Inl e \<Rightarrow> (Inl e, d)
        | Inr (events, _, _) \<Rightarrow> check_consistency st amb s events d))"

definition settle :: "Store \<Rightarrow> Ambient \<Rightarrow> Snapshot option \<Rightarrow> Event list \<Rightarrow> int \<Rightarrow> bool \<Rightarrow> Disk \<Rightarrow> (go_error + Snapshot) \<times> Disk" where
  "settle st amb saved events validBytes partial d = (case saved of
     None \<Rightarrow>
       if events \<noteq> [] \<or> partial
       then quarantineUnlocked st amb (Errorf [Lit ''state snapshot is missing while event log is not empty'']) d
       else (Inr (emptySnapshot st (amb_Now amb)), d)
   | Some s \<Rightarrow> if partial then repair_tail st amb s events validBytes d else check_consistency st amb s events d)"

definition finish_transaction ::
  "Store \<Rightarrow> Ambient \<Rightarrow> Snapshot option \<Rightarrow> Event list \<Rightarrow> bool \<Rightarrow> Transaction \<Rightarrow> Disk \<Rightarrow> (go_error + Snapshot) \<times> Disk" where
  "finish_transaction st amb saved events partial txn d =
     (case Transaction_Validate txn (store_RepoID st) of Some e \<Rightarrow> reject_state st amb e d
      | None \<Rightarrow> (case complete_transaction saved events partial txn of
          (ops, Some e) \<Rightarrow> quarantineUnlocked st amb e (run_ops st ops d)
        | (ops, None) \<Rightarrow>
          let d = run_ops st ops d in
          (case readEventsUnlocked st d of Inl e \<Rightarrow> (Inl e, d)
           | Inr (events, validBytes, partial) \<Rightarrow> settle st amb (Some (txn_Snapshot txn)) events validBytes partial d)))"

definition recover_files :: "Store \<Rightarrow> Ambient \<Rightarrow> Disk \<Rightarrow> (go_error + Snapshot) \<times> Disk" where
  "recover_files st amb d = (case loadSnapshotUnlocked st d of
     Inl e \<Rightarrow> reject_state st amb e d
   | Inr saved \<Rightarrow> (case readEventsUnlocked st d of
       Inl e \<Rightarrow> reject_state st amb e d
     | Inr (events, validBytes, partial) \<Rightarrow> (case loadTransactionUnlocked d of
         Inl e \<Rightarrow> reject_state st amb e d
       | Inr None \<Rightarrow> settle st amb saved events validBytes partial d
       | Inr (Some txn) \<Rightarrow> finish_transaction st amb saved events partial txn d)))"

definition recoverUnlocked :: "Store \<Rightarrow> Ambient \<Rightarrow> Disk \<Rightarrow> (go_error + Snapshot) \<times> Disk" where
  "recoverUnlocked st amb d = (case checkSnapshotMigration d of
     Some e \<Rightarrow> (Inl e, d)
   | None \<Rightarrow> (case (if disk_Restore d then store_restore st d else (None, d)) of
       (Some e, d) \<Rightarrow> (Inl (Wrapf [Lit ''complete quarantined snapshot recovery: ''] e), d)
     | (None, d) \<Rightarrow> recover_files st amb d))"

section \<open>Updates\<close>

text \<open>\<open>cloneIssue\<close> copies through JSON, which is the identity on the data. \<open>sort.Slice\<close> leaves the order of requests with the
  same identifier open; the model keeps the order of the entries.\<close>

definition quarantine_record :: "int \<Rightarrow> Issue option \<Rightarrow> Issue option \<Rightarrow> go_error \<Rightarrow> time \<Rightarrow> Request list \<Rightarrow> QuarantineRecord" where
  "quarantine_record issueNumber rejected lastValid cause now requests =
     (let source = (case rejected of None \<Rightarrow> lastValid | r \<Rightarrow> r) in
      \<lparr>qr_IssueNumber = issueNumber, qr_RunID = (case source of None \<Rightarrow> '''' | Some i \<Rightarrow> iss_RunID i),
       qr_Generation = (case source of None \<Rightarrow> 0 | Some i \<Rightarrow> iss_Generation i),
       qr_RejectedStatus = (case source of None \<Rightarrow> StatusUnset | Some i \<Rightarrow> iss_Status i),
       qr_ReasonCode = ''issue_invariant_violation'', qr_Reason = error_text cause, qr_QuarantinedAt = UTC now,
       qr_LastValid = lastValid, qr_Requests = map Some (sort_key req_ID requests)\<rparr>)"

definition request_of :: "int \<Rightarrow> Request option \<Rightarrow> bool" where
  "request_of issueNumber r = (case r of None \<Rightarrow> False | Some r \<Rightarrow> req_IssueNumber r = issueNumber)"

definition isolateInvalidIssue :: "int \<Rightarrow> Issue option \<Rightarrow> go_error \<Rightarrow> time \<Rightarrow> Snapshot \<Rightarrow> go_error + Snapshot" where
  "isolateInvalidIssue issueNumber lastValid cause now s =
     (let key = Itoa issueNumber;
          requests = filter (\<lambda>r. req_IssueNumber r = issueNumber) (pointees (snap_PendingRequests s));
          record = quarantine_record issueNumber (issue_at s issueNumber) lastValid cause now requests
      in and_ok (massign key (Some record) (snap_QuarantinedIssues s)) (\<lambda>quarantined.
           Inr (s\<lparr>snap_Issues := mdelete key (snap_Issues s),
                  snap_PendingRequests := mfilter (\<lambda>r. \<not> request_of issueNumber r) (snap_PendingRequests s),
                  snap_PendingEffects := mdelete key (snap_PendingEffects s),
                  snap_ActiveExecution := (case snap_ActiveExecution s of
                      None \<Rightarrow> None | Some a \<Rightarrow> if act_IssueNumber a = issueNumber then None else Some a),
                  snap_QuarantinedIssues := quarantined\<rparr>)))"

text \<open>The snapshot after the mutation and the lifecycle boundary, isolated where it became invalid.\<close>

definition settle_mutation ::
  "string \<Rightarrow> payload \<Rightarrow> int \<Rightarrow> Issue option \<Rightarrow> time \<Rightarrow> Snapshot \<Rightarrow> go_error + Snapshot \<times> string \<times> payload" where
  "settle_mutation eventType payload issueNumber lastValid now s = (case Snapshot_Validate s of
     None \<Rightarrow> Inr (s, eventType, payload)
   | Some validationErr \<Rightarrow>
     if issueNumber < 1
     then Inl (Wrapf [Lit ''validate snapshot before event '', Quo eventType, Lit '': ''] validationErr)
     else and_ok (isolateInvalidIssue issueNumber lastValid validationErr now s) (\<lambda>s.
       case Snapshot_Validate s of
         Some e \<Rightarrow> Inl (Wrapf [Lit ''validate repository after quarantining Issue #'', Num issueNumber, Lit '': ''] e)
       | None \<Rightarrow> Inr (s, ''issue_quarantined'', RejectedPayload eventType (error_text validationErr))))"

definition stamp_release :: "bool \<Rightarrow> time \<Rightarrow> Snapshot \<Rightarrow> Snapshot" where
  "stamp_release hadActive now s =
     (let s = (if hadActive \<and> snap_ActiveExecution s = None then s\<lparr>snap_LastExecutionReleasedAt := now\<rparr> else s)
      in s\<lparr>snap_StateRevision := snap_StateRevision s + 1,
           snap_Supervisor := (snap_Supervisor s)\<lparr>sup_UpdatedAt := now\<rparr>\<rparr>)"

definition make_transaction :: "Store \<Rightarrow> Ambient \<Rightarrow> int \<Rightarrow> string \<Rightarrow> string \<Rightarrow> Snapshot \<Rightarrow> string \<Rightarrow> go_error + Transaction" where
  "make_transaction st amb issueNumber runID eventType s json =
     (let txn = \<lparr>txn_Version = CurrentVersion, txn_Snapshot = s, txn_Event = make_event st amb s issueNumber runID eventType json\<rparr>
      in case Transaction_Validate txn (store_RepoID st) of Some e \<Rightarrow> Inl e | None \<Rightarrow> Inr txn)"

definition prepare_update ::
  "Store \<Rightarrow> Ambient \<Rightarrow> string \<Rightarrow> int \<Rightarrow> string \<Rightarrow> payload \<Rightarrow> (Snapshot \<Rightarrow> go_error + Snapshot) \<Rightarrow> Snapshot \<Rightarrow> go_error + Transaction" where
  "prepare_update st amb eventType issueNumber runID payload mutate s =
     (let hadActive = (snap_ActiveExecution s \<noteq> None); s = Normalize s;
          lastValid = (if issueNumber > 0 then issue_at s issueNumber else None); now = amb_Now amb in
      case mutate s of
        Inl e \<Rightarrow> Inl (if issueNumber > 0 then IssueMutationError issueNumber e else e)
      | Inr s \<Rightarrow>
        and_ok (settle_mutation eventType payload issueNumber lastValid now
                 (finalizeLifecycleBoundaries (amb_Draw amb) (amb_Clock amb) now (Normalize s))) (\<lambda>(s, eventType, payload).
        and_ok (store_sanitize st (stamp_release hadActive now s)) (\<lambda>s.
        and_ok (store_payload st payload) (make_transaction st amb issueNumber runID eventType s))))"

text \<open>\<open>rotateEventsUnlocked\<close>: the size and age of the log decide; the checkpoint replaces the log.\<close>

definition rotation_due :: "Store \<Rightarrow> Ambient \<Rightarrow> Snapshot \<Rightarrow> Disk \<Rightarrow> bool" where
  "rotation_due st amb s d \<longleftrightarrow>
     (let p = store_EventRetention st in
      ret_MaxBytes p > 0 \<and> ret_MaxAge p > 0 \<and> ret_Keep p > 0 \<and> snap_StateRevision s \<noteq> 0
      \<and> (sum_list (map ln_Bytes (disk_Lines d)) > ret_MaxBytes p \<or> amb_LogAge amb > ret_MaxAge p))"

definition rotateEventsUnlocked :: "Store \<Rightarrow> Ambient \<Rightarrow> Snapshot \<Rightarrow> Disk \<Rightarrow> Disk" where
  "rotateEventsUnlocked st amb s d =
     (if \<not> rotation_due st amb s d then d
      else case store_payload st (ArchivedPayload (snap_StateRevision s)) of Inl e \<Rightarrow> d
      | Inr json \<Rightarrow> run_op st (ReplaceLog (make_event st amb s 0 '''' ''event_log_checkpoint'' json)) d)"

definition recovery_blocked :: "Snapshot \<Rightarrow> go_error option" where
  "recovery_blocked s = (case snap_Recovery s of None \<Rightarrow> None
     | Some r \<Rightarrow> guard (rec_Status r = RecoveryStateBlocked)
         [Lit ''durable state is recovery-blocked: '', Str (rec_Reason r), Lit '' (backup: '', Str (rec_BackupDir r), Lit '')''])"

definition Update ::
  "Store \<Rightarrow> Draws \<Rightarrow> string \<Rightarrow> int \<Rightarrow> string \<Rightarrow> payload \<Rightarrow> (Snapshot \<Rightarrow> go_error + Snapshot) \<Rightarrow> Disk \<Rightarrow> (go_error + Snapshot) \<times> Disk" where
  "Update st draws eventType issueNumber runID payload mutate d = (case recoverUnlocked st (dr_Recover draws) d of
     (Inl e, d) \<Rightarrow> (Inl e, d)
   | (Inr s, d) \<Rightarrow> (case recovery_blocked s of Some e \<Rightarrow> (Inl e, d)
     | None \<Rightarrow> (case prepare_update st (dr_Update draws) eventType issueNumber runID payload mutate s of
         Inl e \<Rightarrow> (Inl e, d)
       | Inr txn \<Rightarrow> (Inr (txn_Snapshot txn),
           rotateEventsUnlocked st (dr_Rotate draws) (txn_Snapshot txn) (run_ops st (commit_ops txn) d)))))"

definition Load :: "Store \<Rightarrow> Ambient \<Rightarrow> Disk \<Rightarrow> (go_error + Snapshot) \<times> Disk" where
  "Load st amb d = recoverUnlocked st amb d"

definition Initialize :: "Store \<Rightarrow> Ambient \<Rightarrow> Disk \<Rightarrow> go_error option \<times> Disk" where
  "Initialize st amb d = (case recoverUnlocked st amb d of
     (Inl e, d) \<Rightarrow> (Some e, d)
   | (Inr s, d) \<Rightarrow> if disk_State d \<noteq> Missing then (None, d)
     else (case Snapshot_Validate s of Some e \<Rightarrow> (Some e, d) | None \<Rightarrow> (None, run_op st (WriteState s) d)))"

definition InspectExclusive :: "Store \<Rightarrow> Ambient \<Rightarrow> (Snapshot \<Rightarrow> go_error option) \<Rightarrow> Disk \<Rightarrow> go_error option \<times> Disk" where
  "InspectExclusive st amb inspect d = (case recoverUnlocked st amb d of
     (Inl e, d) \<Rightarrow> (Some e, d) | (Inr s, d) \<Rightarrow> (inspect s, d))"

end
