(* ===== verification/Store.thy ===== *)
theory Store
  imports StoreModel
begin

text \<open>
  Correctness of the durable store: a settled disk is read back unchanged, recovery always ends in a settled disk, an
  update moves from one settled disk to the next, and a crash at any moment, also during recovery, leaves a disk from
  which recovery reaches the state before or after the update.
\<close>

section \<open>Reading what was written\<close>

lemma read_lines_append:
  "read_lines repo n ls = Inr (es, m) \<Longrightarrow> ev_Version e = CurrentVersion \<Longrightarrow> ev_RepoID e = repo \<Longrightarrow>
     read_lines repo n (ls @ [log_line st e]) = Inr (es @ [e], m + store_bytes st e)"
proof (induction ls arbitrary: n es)
  case (Cons l ls)
  then show ?case by (auto simp: and_ok_Inr split: sum.splits option.splits if_splits)
qed (simp add: log_line_def)

lemma check_events_seq: "check_events index prev es = Inr q \<Longrightarrow> q = (if es = [] then prev else ev_Sequence (last es))"
  by (induction index prev es rule: check_events.induct) (auto split: if_splits)

lemma check_events_next:
  "check_events index prev [e] = Inr (ev_Sequence e)"
  if "ev_Version e = CurrentVersion" "ev_Sequence e = prev + 1" "ev_Sequence e \<noteq> 0"
  using that by simp

lemma sequence_None: "ValidateEventSequence s es = None \<longleftrightarrow> check_events 0 0 es = Inr (snap_StateRevision s)"
  by (auto simp: ValidateEventSequence_def split: sum.splits)

lemma sequence_append:
  assumes "ValidateEventSequence s es = None" and "ev_Version e = CurrentVersion" and "ev_Sequence e = snap_StateRevision s + 1"
    and "ev_Sequence e \<noteq> 0" and "snap_StateRevision s' = ev_Sequence e"
  shows "ValidateEventSequence s' (es @ [e]) = None"
  using assms by (auto simp: sequence_None check_events_append)

lemma last_sequence_valid: "ValidateEventSequence s es = None \<Longrightarrow> last_sequence es = snap_StateRevision s"
  using check_events_seq [of 0 0 es] by (auto simp: sequence_None last_sequence_def)

lemma load_valid:
  assumes "Snapshot_Validate s = None" and "snap_RepoID s = store_RepoID st" and "disk_State d = Holds s"
  shows "loadSnapshotUnlocked st d = Inr (Some s)"
proof -
  have "snap_Version s = CurrentVersion" using valid_version [OF assms(1)] by (simp add: ValidateVersion_def split: if_splits)
  then show ?thesis using assms by (simp add: loadSnapshotUnlocked_def normalize_valid legacy_valid)
qed

section \<open>Settled disks\<close>

text \<open>No transaction is prepared, the log is complete and ends at the revision of the valid snapshot.\<close>

definition settled :: "Store \<Rightarrow> Snapshot \<Rightarrow> Disk \<Rightarrow> bool" where
  "settled st s d \<longleftrightarrow> disk_Txn d = Missing \<and> \<not> disk_Tail d \<and> loadSnapshotUnlocked st d = Inr (Some s)
     \<and> (\<exists>es n. read_lines (store_RepoID st) 0 (disk_Lines d) = Inr (es, n) \<and> validateConsistency s es = None)"

text \<open>A disk without any state: nothing has been committed.\<close>

definition fresh :: "Store \<Rightarrow> Disk \<Rightarrow> bool" where
  "fresh st d \<longleftrightarrow> disk_Txn d = Missing \<and> \<not> disk_Tail d \<and> disk_State d = Missing
     \<and> (\<exists>n. read_lines (store_RepoID st) 0 (disk_Lines d) = Inr ([], n))"

text \<open>Neither a migration nor a restore is under way.\<close>

definition ready :: "Disk \<Rightarrow> bool" where
  "ready d \<longleftrightarrow> checkSnapshotMigration d = None \<and> \<not> disk_Restore d"

lemma validateConsistency_None:
  "validateConsistency s es = None \<longleftrightarrow> ValidateEventSequence s es = None \<and> Snapshot_Validate s = None"
  by (simp add: validateConsistency_def split: option.splits)

lemma ready_op [simp]: "checkSnapshotMigration (run_op st op d) = checkSnapshotMigration d" "disk_Restore (run_op st op d) = disk_Restore d"
  by (cases op; simp add: checkSnapshotMigration_def)+

lemma ready_ops [simp]: "ready (run_ops st ops d) = ready d"
proof (induction ops arbitrary: d)
  case (Cons op ops)
  then show ?case by (simp add: run_ops_def ready_def)
qed (simp add: run_ops_def)

lemma recover_ready: "ready d \<Longrightarrow> recoverUnlocked st amb d = recover_files st amb d"
  by (simp add: recoverUnlocked_def ready_def)

lemma recover_settled:
  assumes "settled st s d" and "ready d"
  shows "recoverUnlocked st amb d = (Inr s, d)"
proof -
  obtain es n where "read_lines (store_RepoID st) 0 (disk_Lines d) = Inr (es, n)" "validateConsistency s es = None"
    and "disk_Txn d = Missing" "\<not> disk_Tail d" "loadSnapshotUnlocked st d = Inr (Some s)"
    using assms(1) by (auto simp: settled_def)
  then show ?thesis
    by (simp add: recover_ready [OF assms(2)] recover_files_def readEventsUnlocked_def loadTransactionUnlocked_def
        settle_def check_consistency_def and_ok_def)
qed

lemma recover_fresh:
  assumes "fresh st d" and "ready d"
  shows "recoverUnlocked st amb d = (Inr (emptySnapshot st (amb_Now amb)), d)"
  using assms(1)
  by (auto simp: recover_ready [OF assms(2)] recover_files_def readEventsUnlocked_def loadTransactionUnlocked_def
      loadSnapshotUnlocked_def settle_def fresh_def and_ok_def)

text \<open>A committed transaction whose event follows the log settles the disk.\<close>

lemma commit_settles:
  assumes "Transaction_Validate txn (store_RepoID st) = None"
    and "read_lines (store_RepoID st) 0 (disk_Lines d) = Inr (es, n)" and "check_events 0 0 es = Inr r"
    and "ev_Sequence (txn_Event txn) = r + 1"
    and "disk_State d' = Holds (txn_Snapshot txn)" "disk_Txn d' = Missing" "\<not> disk_Tail d'"
    and "disk_Lines d' = disk_Lines d @ [log_line st (txn_Event txn)]"
  shows "settled st (txn_Snapshot txn) d'"
proof -
  note t = transaction_facts [OF assms(1)]
  have "read_lines (store_RepoID st) 0 (disk_Lines d') = Inr (es @ [txn_Event txn], n + store_bytes st (txn_Event txn))"
    using read_lines_append [OF assms(2) t(5,6)] by (simp add: assms(8))
  moreover have "validateConsistency (txn_Snapshot txn) (es @ [txn_Event txn]) = None"
    using t(1,3,4,5) assms(3,4) by (auto simp: validateConsistency_None sequence_None check_events_append)
  moreover have "loadSnapshotUnlocked st d' = Inr (Some (txn_Snapshot txn))"
    by (rule load_valid [OF t(1,2) assms(5)])
  ultimately show ?thesis using assms(6,7) by (auto simp: settled_def)
qed

section \<open>Recovery ends settled\<close>

lemma moves_effect:
  "run_ops st (quarantine_moves amb) d = d\<lparr>disk_State := Missing, disk_Lines := [], disk_Tail := False, disk_Txn := Missing,
     disk_Backups := disk_Backups (run_ops st (quarantine_moves amb) d)\<rparr>"
  by (cases d) (auto simp: run_ops_def quarantine_moves_def)

lemma moves_fields:
  "disk_State (run_ops st (quarantine_moves amb) d) = Missing" "disk_Lines (run_ops st (quarantine_moves amb) d) = []"
  "disk_Tail (run_ops st (quarantine_moves amb) d) = False" "disk_Txn (run_ops st (quarantine_moves amb) d) = Missing"
  by (subst moves_effect, simp)+

lemma quarantine_Inr:
  assumes "quarantineUnlocked st amb cause d = (Inr s, d')"
  shows "\<exists>event. s = blocked_snapshot st amb (store_redact st (error_text cause))
    \<and> Transaction_Validate \<lparr>txn_Version = CurrentVersion, txn_Snapshot = s, txn_Event = event\<rparr> (store_RepoID st) = None
    \<and> ev_Sequence event = 1
    \<and> d' = run_ops st [AppendEvent event, WriteState s] (run_ops st (quarantine_moves amb) d)"
  using assms
  by (auto simp: quarantineUnlocked_def quarantine_event_def Let_def and_ok_Inr make_event_def blocked_snapshot_def
      split: sum.splits option.splits)

lemma quarantine_settles:
  assumes "quarantineUnlocked st amb cause d = (Inr s, d')"
  shows "settled st s d'" and "ready d' = ready d"
proof -
  obtain event where t: "Transaction_Validate \<lparr>txn_Version = CurrentVersion, txn_Snapshot = s, txn_Event = event\<rparr> (store_RepoID st) = None"
      and seq: "ev_Sequence event = 1"
      and d': "d' = run_ops st [AppendEvent event, WriteState s] (run_ops st (quarantine_moves amb) d)"
    using quarantine_Inr [OF assms] by blast
  show "ready d' = ready d" by (simp add: d')
  let ?d = "run_ops st (quarantine_moves amb) d"
  note d = moves_fields [of st amb d]
  show "settled st s d'"
    using commit_settles [OF t, of ?d "[]" 0 0 d'] seq d
    by (simp add: d' run_ops_def)
qed

lemma reject_settles:
  assumes "reject_state st amb cause d = (Inr s, d')"
  shows "settled st s d'" and "ready d' = ready d"
  using assms quarantine_settles by (auto simp: reject_state_def split: if_splits)

lemma consistency_settles:
  assumes "check_consistency st amb s es d = (Inr s', d')" and "read_lines (store_RepoID st) 0 (disk_Lines d) = Inr (es, n)"
    and "loadSnapshotUnlocked st d = Inr (Some s)" and "disk_Txn d = Missing" and "\<not> disk_Tail d"
  shows "settled st s' d'" and "ready d' = ready d"
proof -
  have "settled st s' d' \<and> ready d' = ready d"
  proof (cases "validateConsistency s es")
    case None
    then show ?thesis using assms by (auto simp: check_consistency_def settled_def)
  next
    case (Some e)
    then show ?thesis using assms(1) reject_settles by (fastforce simp: check_consistency_def)
  qed
  then show "settled st s' d'" "ready d' = ready d" by auto
qed

lemma repair_Inr:
  assumes "recordRepairUnlocked st amb s ty pl d = (Inr s', d')"
  shows "\<exists>txn. Transaction_Validate txn (store_RepoID st) = None \<and> txn_Snapshot txn = s'
    \<and> ev_Sequence (txn_Event txn) = snap_StateRevision s + 1 \<and> d' = run_ops st (commit_ops txn) d"
proof -
  obtain json where json: "store_payload st pl = Inr json"
    using assms by (cases "store_payload st pl") (auto simp: recordRepairUnlocked_def Let_def split: option.splits)
  let ?txn = "\<lparr>txn_Version = CurrentVersion, txn_Snapshot = repaired_snapshot amb s,
      txn_Event = make_event st amb (repaired_snapshot amb s) 0 '''' ty json\<rparr>"
  have "Transaction_Validate ?txn (store_RepoID st) = None" "s' = repaired_snapshot amb s" "d' = run_ops st (commit_ops ?txn) d"
    using assms by (auto simp: recordRepairUnlocked_def json Let_def split: option.splits)
  then show ?thesis by (intro exI [of _ ?txn]) (simp add: make_event_def repaired_snapshot_def)
qed

lemma commit_effect:
  "run_ops st (commit_ops txn) d = d\<lparr>disk_Lines := disk_Lines d @ [log_line st (txn_Event txn)], disk_Tail := False,
     disk_State := Holds (txn_Snapshot txn), disk_Txn := Missing\<rparr>"
  by (simp add: run_ops_def commit_ops_def)

lemma tail_settles:
  assumes "repair_tail st amb s es n d = (Inr s', d')" and "read_lines (store_RepoID st) 0 (disk_Lines d) = Inr (es, m)"
  shows "settled st s' d'" and "ready d' = ready d"
proof -
  have "settled st s' d' \<and> ready d' = ready d"
  proof (cases "snap_StateRevision s = last_sequence es")
    case False
    then show ?thesis using assms(1) quarantine_settles by (fastforce simp: repair_tail_def)
  next
    case True
    then obtain s1 d1 where r: "recordRepairUnlocked st amb s ''event_log_tail_truncated'' (TruncatedPayload n)
        (run_op st TruncateTail d) = (Inr s1, d1)"
      and rest: "(case readEventsUnlocked st d1 of Inl e \<Rightarrow> (Inl e, d1)
        | Inr (events, _, _) \<Rightarrow> check_consistency st amb s1 events d1) = (Inr s', d')"
      using assms(1) by (auto simp: repair_tail_def split: prod.splits sum.splits)
    from repair_Inr [OF r] obtain txn where t: "Transaction_Validate txn (store_RepoID st) = None" "txn_Snapshot txn = s1"
        "d1 = run_ops st (commit_ops txn) (run_op st TruncateTail d)" by blast
    note facts = transaction_facts [OF t(1)]
    have lines: "read_lines (store_RepoID st) 0 (disk_Lines d1)
        = Inr (es @ [txn_Event txn], m + store_bytes st (txn_Event txn))"
      using read_lines_append [OF assms(2) facts(5,6)] by (simp add: t(3) commit_effect)
    have load: "loadSnapshotUnlocked st d1 = Inr (Some s1)"
      using load_valid [OF facts(1,2)] t by (simp add: commit_effect)
    have cc: "check_consistency st amb s1 (es @ [txn_Event txn]) d1 = (Inr s', d')"
      using rest lines by (simp add: readEventsUnlocked_def and_ok_def)
    have "disk_Txn d1 = Missing" "\<not> disk_Tail d1" by (simp_all add: t(3) commit_effect)
    from consistency_settles [OF cc lines load this]
    show ?thesis by (simp add: t(3)) (simp add: ready_def checkSnapshotMigration_def)
  qed
  then show "settled st s' d'" "ready d' = ready d" by auto
qed

text \<open>Completing a prepared transaction ends in its snapshot.\<close>

lemma run_ops_append: "run_ops st (xs @ ys) d = run_ops st ys (run_ops st xs d)"
  by (simp add: run_ops_def)

lemma complete_log_effect:
  assumes "complete_log es partial txn = (ops, None)" and "read_lines (store_RepoID st) 0 (disk_Lines d) = Inr (es, n)"
    and "Transaction_Validate txn (store_RepoID st) = None" and "partial = disk_Tail d"
  shows "\<exists>es' n'. read_lines (store_RepoID st) 0 (disk_Lines (run_ops st ops d)) = Inr (es', n')
    \<and> \<not> disk_Tail (run_ops st ops d) \<and> disk_State (run_ops st ops d) = disk_State d \<and> disk_Txn (run_ops st ops d) = disk_Txn d"
proof -
  note t = transaction_facts [OF assms(3)]
  have "read_lines (store_RepoID st) 0 (disk_Lines d @ [log_line st (txn_Event txn)])
      = Inr (es @ [txn_Event txn], n + store_bytes st (txn_Event txn))"
    by (rule read_lines_append [OF assms(2) t(5,6)])
  then show ?thesis using assms(1,2,4)
    by (auto simp: complete_log_def Let_def run_ops_def split: if_splits)
qed

lemma complete_state_effect:
  assumes "complete_state saved txn = (ops, None)" and "loadSnapshotUnlocked st d = Inr saved"
    and "Transaction_Validate txn (store_RepoID st) = None"
  shows "loadSnapshotUnlocked st (run_ops st ops d) = Inr (Some (txn_Snapshot txn))"
    and "disk_Lines (run_ops st ops d) = disk_Lines d" and "disk_Tail (run_ops st ops d) = disk_Tail d"
    and "disk_Txn (run_ops st ops d) = disk_Txn d"
proof -
  note t = transaction_facts [OF assms(3)]
  have cases': "ops = [WriteState (txn_Snapshot txn)] \<or> ops = [] \<and> saved = Some (txn_Snapshot txn)"
    using assms(1) by (auto simp: complete_state_def split: option.splits if_splits)
  have "loadSnapshotUnlocked st (run_ops st [WriteState (txn_Snapshot txn)] d) = Inr (Some (txn_Snapshot txn))"
    by (rule load_valid [OF t(1,2)]) (simp add: run_ops_def)
  with cases' assms(2) show "loadSnapshotUnlocked st (run_ops st ops d) = Inr (Some (txn_Snapshot txn))"
    by (auto simp: run_ops_def)
  from cases' show "disk_Lines (run_ops st ops d) = disk_Lines d" "disk_Tail (run_ops st ops d) = disk_Tail d"
      "disk_Txn (run_ops st ops d) = disk_Txn d"
    by (auto simp: run_ops_def)
qed

lemma load_same_state: "disk_State d' = disk_State d \<Longrightarrow> loadSnapshotUnlocked st d' = loadSnapshotUnlocked st d"
  by (simp add: loadSnapshotUnlocked_def)

lemma complete_transaction_None:
  assumes "complete_transaction saved es partial txn = (ops, None)"
  shows "\<exists>ops1 ops2. complete_log es partial txn = (ops1, None) \<and> complete_state saved txn = (ops2, None)
     \<and> ops = ops1 @ ops2 @ [RemoveTxn]"
  using assms by (auto simp: complete_transaction_def split: prod.splits option.splits)

lemma finish_settles:
  assumes "finish_transaction st amb saved es partial txn d = (Inr s, d')"
    and "read_lines (store_RepoID st) 0 (disk_Lines d) = Inr (es, n)" and "partial = disk_Tail d"
    and "loadSnapshotUnlocked st d = Inr saved"
  shows "settled st s d'" and "ready d' = ready d"
proof -
  have "settled st s d' \<and> ready d' = ready d"
  proof (cases "Transaction_Validate txn (store_RepoID st)")
    case (Some e)
    then show ?thesis using assms(1) reject_settles by (fastforce simp: finish_transaction_def)
  next
    case None
    obtain ops err where ops: "complete_transaction saved es partial txn = (ops, err)" by fastforce
    show ?thesis
    proof (cases err)
      case (Some e)
      then have "quarantineUnlocked st amb e (run_ops st ops d) = (Inr s, d')"
        using assms(1) None ops by (simp add: finish_transaction_def)
      from quarantine_settles [OF this] show ?thesis by simp
    next
      case err: None
      from complete_transaction_None [OF ops [unfolded err]] obtain ops1 ops2 where
        c: "complete_log es partial txn = (ops1, None)" "complete_state saved txn = (ops2, None)" "ops = ops1 @ ops2 @ [RemoveTxn]"
        by blast
      let ?d1 = "run_ops st ops1 d"
      let ?d2 = "run_ops st ops2 ?d1"
      let ?d3 = "run_op st RemoveTxn ?d2"
      have d3: "run_ops st ops d = ?d3" by (simp add: c(3) run_ops_append run_ops_def)
      obtain es' n' where l: "read_lines (store_RepoID st) 0 (disk_Lines ?d1) = Inr (es', n')" "\<not> disk_Tail ?d1"
          "disk_State ?d1 = disk_State d"
        using complete_log_effect [OF c(1) assms(2) None assms(3)] by blast
      have "loadSnapshotUnlocked st ?d1 = Inr saved" using assms(4) load_same_state [OF l(3)] by simp
      note ce = complete_state_effect [OF c(2) this None]
      have load: "loadSnapshotUnlocked st ?d3 = Inr (Some (txn_Snapshot txn))"
        using ce(1) load_same_state [of ?d3 ?d2 st] by simp
      have lines: "read_lines (store_RepoID st) 0 (disk_Lines ?d3) = Inr (es', n')" "\<not> disk_Tail ?d3" "disk_Txn ?d3 = Missing"
        using l(1,2) ce(2,3) by simp_all
      have "check_consistency st amb (txn_Snapshot txn) es' ?d3 = (Inr s, d')"
        using assms(1) None ops err lines
        by (simp add: finish_transaction_def d3 Let_def readEventsUnlocked_def and_ok_def settle_def)
      from consistency_settles [OF this lines(1) load lines(3,2)]
      have "settled st s d'" "ready d' = ready ?d3" by auto
      moreover have "ready ?d3 = ready d" using d3 ready_ops [of st ops d] by simp
      ultimately show ?thesis by simp
    qed
  qed
  then show "settled st s d'" "ready d' = ready d" by auto
qed

lemma settle_settles:
  assumes "settle st amb saved es n (disk_Tail d) d = (Inr s, d')"
    and lines: "read_lines (store_RepoID st) 0 (disk_Lines d) = Inr (es, n)"
    and saved: "loadSnapshotUnlocked st d = Inr saved" and miss: "disk_Txn d = Missing" and "ready d"
  shows "(settled st s d' \<or> fresh st d' \<and> s = emptySnapshot st (amb_Now amb)) \<and> ready d'"
proof (cases saved)
  case None
  then have state: "disk_State d = Missing" using saved by (auto simp: loadSnapshotUnlocked_def split: stored.splits if_splits)
  show ?thesis
  proof (cases "es \<noteq> [] \<or> disk_Tail d")
    case True
    then show ?thesis using assms(1,5) None quarantine_settles by (fastforce simp: settle_def)
  next
    case False
    then show ?thesis using assms(1,5) None state lines miss by (auto simp: settle_def fresh_def)
  qed
next
  case (Some s0)
  show ?thesis
  proof (cases "disk_Tail d")
    case True
    then have "repair_tail st amb s0 es n d = (Inr s, d')" using assms(1) Some by (simp add: settle_def)
    from tail_settles [OF this lines] assms(5) show ?thesis by simp
  next
    case False
    then have "check_consistency st amb s0 es d = (Inr s, d')" using assms(1) Some by (simp add: settle_def)
    from consistency_settles [OF this lines saved [unfolded Some] miss False] assms(5) show ?thesis by simp
  qed
qed

lemma recover_settles:
  assumes "recoverUnlocked st amb d = (Inr s, d')" and "ready d"
  shows "(settled st s d' \<or> fresh st d' \<and> s = emptySnapshot st (amb_Now amb)) \<and> ready d'"
proof -
  have r: "recover_files st amb d = (Inr s, d')" using assms recover_ready by simp
  have rej: "settled st s d' \<and> ready d'" if "reject_state st amb e d = (Inr s, d')" for e
    using reject_settles [OF that] assms(2) by blast
  show ?thesis
  proof (cases "loadSnapshotUnlocked st d")
    case (Inl e)
    then show ?thesis using r rej by (simp add: recover_files_def)
  next
    case saved: (Inr saved)
    show ?thesis
    proof (cases "read_lines (store_RepoID st) 0 (disk_Lines d)")
      case (Inl e)
      then show ?thesis using r rej saved by (simp add: recover_files_def readEventsUnlocked_def and_ok_def)
    next
      case lines: (Inr p)
      obtain es n where p: "p = (es, n)" by (cases p)
      note lines = lines [unfolded p]
      consider (bad) e where "loadTransactionUnlocked d = Inl e" | (none) "loadTransactionUnlocked d = Inr None"
        | (txn) txn where "loadTransactionUnlocked d = Inr (Some txn)"
        by (cases "loadTransactionUnlocked d"; cases "projr (loadTransactionUnlocked d)") auto
      then show ?thesis
      proof cases
        case bad
        then show ?thesis using r rej saved lines by (simp add: recover_files_def readEventsUnlocked_def and_ok_def)
      next
        case none
        then have miss: "disk_Txn d = Missing"
          by (cases "disk_Txn d") (simp_all add: loadTransactionUnlocked_def split: if_splits)
        have "settle st amb saved es n (disk_Tail d) d = (Inr s, d')"
          using r saved lines none by (simp add: recover_files_def readEventsUnlocked_def and_ok_def)
        from settle_settles [OF this lines saved miss assms(2)] show ?thesis .
      next
        case txn
        then have "finish_transaction st amb saved es (disk_Tail d) txn d = (Inr s, d')"
          using r saved lines by (simp add: recover_files_def readEventsUnlocked_def and_ok_def)
        from finish_settles [OF this lines refl saved] assms(2) show ?thesis by simp
      qed
    qed
  qed
qed

section \<open>Updates\<close>

lemma revision_kept [simp]:
  "snap_StateRevision (Normalize s) = snap_StateRevision s"
  "snap_StateRevision (finalizeLifecycleBoundaries draw c now s) = snap_StateRevision s"
  by (auto simp: Normalize_def finalizeLifecycleBoundaries_def release_stopped_def Let_def split: option.splits)

lemma isolate_revision: "isolateInvalidIssue n lastValid e now s = Inr s' \<Longrightarrow> snap_StateRevision s' = snap_StateRevision s"
  by (auto simp: isolateInvalidIssue_def Let_def and_ok_Inr)

lemma settle_mutation_Inr:
  assumes "settle_mutation ty pl n lastValid now s = Inr (s', ty', pl')"
  shows "Snapshot_Validate s' = None" and "snap_StateRevision s' = snap_StateRevision s"
    and "s' = s \<and> ty' = ty \<and> pl' = pl \<or> ty' = ''issue_quarantined'' \<and> n \<ge> 1
      \<and> (\<exists>e. Snapshot_Validate s = Some e \<and> isolateInvalidIssue n lastValid e now s = Inr s')"
proof -
  have c: "Snapshot_Validate s' = None \<and> (s' = s \<and> ty' = ty \<and> pl' = pl \<or> ty' = ''issue_quarantined'' \<and> n \<ge> 1
      \<and> (\<exists>e. Snapshot_Validate s = Some e \<and> isolateInvalidIssue n lastValid e now s = Inr s'))"
    using assms by (cases "Snapshot_Validate s") (auto simp: settle_mutation_def and_ok_Inr split: if_splits option.splits)
  then show "Snapshot_Validate s' = None"
    "s' = s \<and> ty' = ty \<and> pl' = pl \<or> ty' = ''issue_quarantined'' \<and> n \<ge> 1
      \<and> (\<exists>e. Snapshot_Validate s = Some e \<and> isolateInvalidIssue n lastValid e now s = Inr s')" by auto
  from c show "snap_StateRevision s' = snap_StateRevision s" using isolate_revision by blast
qed

text \<open>What the store relies on: redaction rewrites strings and keeps numbers, and a mutation leaves the revision to the store.\<close>

definition keeps_revision :: "(Snapshot \<Rightarrow> go_error + Snapshot) \<Rightarrow> bool" where
  "keeps_revision f \<longleftrightarrow> (\<forall>s s'. f s = Inr s' \<longrightarrow> snap_StateRevision s' = snap_StateRevision s)"

lemma make_transaction_Inr: "make_transaction st amb n run ty s json = Inr txn \<longleftrightarrow>
    txn = \<lparr>txn_Version = CurrentVersion, txn_Snapshot = s, txn_Event = make_event st amb s n run ty json\<rparr>
    \<and> Transaction_Validate txn (store_RepoID st) = None"
  by (auto simp: make_transaction_def Let_def split: option.splits)

lemma prepare_update_Inr:
  assumes "prepare_update st amb ty n run pl mutate s = Inr txn"
  shows "\<exists>s1 s2 s3 ty' pl' json. mutate (Normalize s) = Inr s1
    \<and> settle_mutation ty pl n (if n > 0 then issue_at (Normalize s) n else None) (amb_Now amb)
        (finalizeLifecycleBoundaries (amb_Draw amb) (amb_Clock amb) (amb_Now amb) (Normalize s1)) = Inr (s2, ty', pl')
    \<and> store_sanitize st (stamp_release (snap_ActiveExecution s \<noteq> None) (amb_Now amb) s2) = Inr s3
    \<and> store_payload st pl' = Inr json
    \<and> txn = \<lparr>txn_Version = CurrentVersion, txn_Snapshot = s3, txn_Event = make_event st amb s3 n run ty' json\<rparr>
    \<and> Transaction_Validate txn (store_RepoID st) = None"
proof -
  obtain s1 where s1: "mutate (Normalize s) = Inr s1"
    using assms by (cases "mutate (Normalize s)") (auto simp: prepare_update_def Let_def)
  let ?lv = "if n > 0 then issue_at (Normalize s) n else None"
  let ?s = "finalizeLifecycleBoundaries (amb_Draw amb) (amb_Clock amb) (amb_Now amb) (Normalize s1)"
  let ?st = "\<lambda>s2. store_sanitize st (stamp_release (snap_ActiveExecution s \<noteq> None) (amb_Now amb) s2)"
  have "\<exists>x. settle_mutation ty pl n ?lv (amb_Now amb) ?s = Inr x \<and> (case x of (s2, ty, pl) \<Rightarrow>
      and_ok (?st s2) (\<lambda>s3. and_ok (store_payload st pl) (make_transaction st amb n run ty s3))) = Inr txn"
    using assms unfolding prepare_update_def Let_def s1 sum.case and_ok_Inr .
  then obtain x where x: "settle_mutation ty pl n ?lv (amb_Now amb) ?s = Inr x" "(case x of (s2, ty, pl) \<Rightarrow>
      and_ok (?st s2) (\<lambda>s3. and_ok (store_payload st pl) (make_transaction st amb n run ty s3))) = Inr txn"
    by (elim exE conjE) (rule that; assumption)
  obtain s2 ty' pl' where p: "x = (s2, ty', pl')" by (cases x)
  note a = x(1) [unfolded p]
  from x(2) [unfolded p prod.case] obtain s3 json where b: "?st s2 = Inr s3" "store_payload st pl' = Inr json"
      "make_transaction st amb n run ty' s3 json = Inr txn"
    unfolding and_ok_Inr by blast
  show ?thesis
    by (intro exI conjI) (rule s1 a b b(3) [unfolded make_transaction_Inr, THEN conjunct1]
        b(3) [unfolded make_transaction_Inr, THEN conjunct2])+
qed

lemma prepared_transaction:
  assumes "prepare_update st amb ty n run pl mutate s = Inr txn" and "keeps_revision (store_sanitize st)" and "keeps_revision mutate"
  shows "Transaction_Validate txn (store_RepoID st) = None" and "snap_StateRevision (txn_Snapshot txn) = snap_StateRevision s + 1"
    and "ev_Sequence (txn_Event txn) = snap_StateRevision s + 1"
proof -
  obtain s1 s2 s3 ty' pl' json where u: "mutate (Normalize s) = Inr s1"
    "settle_mutation ty pl n (if n > 0 then issue_at (Normalize s) n else None) (amb_Now amb)
        (finalizeLifecycleBoundaries (amb_Draw amb) (amb_Clock amb) (amb_Now amb) (Normalize s1)) = Inr (s2, ty', pl')"
    "store_sanitize st (stamp_release (snap_ActiveExecution s \<noteq> None) (amb_Now amb) s2) = Inr s3"
    "txn = \<lparr>txn_Version = CurrentVersion, txn_Snapshot = s3, txn_Event = make_event st amb s3 n run ty' json\<rparr>"
    "Transaction_Validate txn (store_RepoID st) = None"
    using prepare_update_Inr [OF assms(1)] by blast
  show "Transaction_Validate txn (store_RepoID st) = None" by (rule u(5))
  have "snap_StateRevision s1 = snap_StateRevision s" using assms(3) u(1) by (fastforce simp: keeps_revision_def)
  moreover have "snap_StateRevision s2 = snap_StateRevision s1" using settle_mutation_Inr(2) [OF u(2)] by simp
  moreover have "snap_StateRevision s3 = snap_StateRevision s2 + 1"
    using assms(2) u(3) by (fastforce simp: keeps_revision_def stamp_release_def Let_def split: if_splits)
  ultimately show "snap_StateRevision (txn_Snapshot txn) = snap_StateRevision s + 1" by (simp add: u(4))
  with transaction_facts(3) [OF u(5)] show "ev_Sequence (txn_Event txn) = snap_StateRevision s + 1" by simp
qed

text \<open>The disk before an update: settled, or fresh with the empty snapshot.\<close>

definition base_of :: "Store \<Rightarrow> Snapshot \<Rightarrow> Disk \<Rightarrow> bool" where
  "base_of st s d \<longleftrightarrow> settled st s d \<or> fresh st d \<and> (\<exists>now. s = emptySnapshot st now)"

lemma base_lines:
  assumes "base_of st s d"
  shows "\<exists>es n. read_lines (store_RepoID st) 0 (disk_Lines d) = Inr (es, n) \<and> check_events 0 0 es = Inr (snap_StateRevision s)
    \<and> last_sequence es = snap_StateRevision s \<and> disk_Txn d = Missing \<and> \<not> disk_Tail d"
  using assms unfolding base_of_def
proof
  assume "settled st s d"
  then show ?thesis using last_sequence_valid by (auto simp: settled_def validateConsistency_None sequence_None)
qed (auto simp: fresh_def emptySnapshot_def last_sequence_def)

lemma rotate_settles:
  assumes "settled st s d" and "snap_StateRevision s \<noteq> 0"
  shows "settled st s (rotateEventsUnlocked st amb s d)" and "ready (rotateEventsUnlocked st amb s d) = ready d"
proof -
  let ?cp = "\<lambda>json. make_event st amb s 0 '''' ''event_log_checkpoint'' json"
  have load: "loadSnapshotUnlocked st (run_op st (ReplaceLog e) d) = loadSnapshotUnlocked st d" for e
    by (simp add: loadSnapshotUnlocked_def)
  have valid: "Snapshot_Validate s = None" and parts: "disk_Txn d = Missing" "loadSnapshotUnlocked st d = Inr (Some s)"
    using assms(1) unfolding settled_def validateConsistency_None by blast+
  have "check_events 0 0 [?cp json] = Inr (snap_StateRevision s)" for json
    using assms(2) by (simp add: make_event_def)
  then have "validateConsistency s [?cp json] = None" for json
    unfolding validateConsistency_None sequence_None using valid by blast
  moreover have "read_lines (store_RepoID st) 0 [log_line st (?cp json)] = Inr ([?cp json], store_bytes st (?cp json))" for json
    by (simp add: log_line_def make_event_def and_ok_def)
  ultimately have "settled st s (run_op st (ReplaceLog (?cp json)) d)" for json
    unfolding settled_def load using parts by fastforce
  with assms(1) show "settled st s (rotateEventsUnlocked st amb s d)"
    by (simp add: rotateEventsUnlocked_def split: sum.splits)
  show "ready (rotateEventsUnlocked st amb s d) = ready d"
    by (simp add: rotateEventsUnlocked_def ready_def split: sum.splits) (simp add: checkSnapshotMigration_def)
qed

section \<open>Crashes\<close>

text \<open>The writes recovery makes to complete a prepared transaction, and the disks any number of crashes can leave: the first
  during the commit, every other during the completion of the one before.\<close>

definition recovery_ops :: "Store \<Rightarrow> Disk \<Rightarrow> disk_op list" where
  "recovery_ops st d = (case (loadSnapshotUnlocked st d, readEventsUnlocked st d, loadTransactionUnlocked d) of
     (Inr saved, Inr (events, validBytes, partial), Inr (Some txn)) \<Rightarrow> fst (complete_transaction saved events partial txn)
   | _ \<Rightarrow> [])"

inductive interrupted :: "Store \<Rightarrow> Transaction \<Rightarrow> Disk \<Rightarrow> Disk \<Rightarrow> bool" for st txn d where
  commit: "d' \<in> set (crash_disks st (commit_ops txn) d) \<Longrightarrow> interrupted st txn d d'"
| recovery: "interrupted st txn d d' \<Longrightarrow> d'' \<in> set (crash_disks st (recovery_ops st d') d') \<Longrightarrow> interrupted st txn d d''"

text \<open>The disks in between: the transaction is prepared, the event may be torn or written, the state may be written.\<close>

definition stages :: "Store \<Rightarrow> Transaction \<Rightarrow> Disk \<Rightarrow> Disk list" where
  "stages st txn d =
     (let d1 = d\<lparr>disk_Txn := Holds txn\<rparr>; d2 = d1\<lparr>disk_Lines := disk_Lines d @ [log_line st (txn_Event txn)]\<rparr> in
      [d1, d1\<lparr>disk_Tail := True\<rparr>, d2, d2\<lparr>disk_State := Holds (txn_Snapshot txn)\<rparr>])"

text \<open>A valid transaction that follows the base of the disk, and the disk after its commit.\<close>

definition pending_commit :: "Store \<Rightarrow> Snapshot \<Rightarrow> Disk \<Rightarrow> Transaction \<Rightarrow> bool" where
  "pending_commit st s d txn \<longleftrightarrow> base_of st s d \<and> ready d \<and> Transaction_Validate txn (store_RepoID st) = None
     \<and> ev_Sequence (txn_Event txn) = snap_StateRevision s + 1"

abbreviation committed :: "Store \<Rightarrow> Transaction \<Rightarrow> Disk \<Rightarrow> Disk" where
  "committed st txn d \<equiv> run_ops st (commit_ops txn) d"

lemma pending_facts:
  assumes "pending_commit st s d txn"
  shows "base_of st s d" "ready d" "Transaction_Validate txn (store_RepoID st) = None"
    "ev_Sequence (txn_Event txn) = snap_StateRevision s + 1" "\<not> disk_Tail d"
  using assms base_lines [of st s d] by (auto simp: pending_commit_def)

text \<open>The disk with its fields spelt out, to compare disks by their parts.\<close>

lemma disk_parts:
  assumes "\<not> disk_Tail d"
  obtains state lines t m r b where "d = \<lparr>disk_State = state, disk_Lines = lines, disk_Tail = False, disk_Txn = t,
      disk_Migration = m, disk_Restore = r, disk_Backups = b\<rparr>"
  using assms by (cases d) auto

lemma commit_crashes:
  assumes "\<not> disk_Tail d"
  shows "set (crash_disks st (commit_ops txn) d) = {d, committed st txn d} \<union> set (stages st txn d)"
  using assms by (rule disk_parts) (simp add: commit_effect, simp add: commit_ops_def stages_def Let_def, blast)

lemma loads: "base_of st s d \<Longrightarrow> \<exists>saved. loadSnapshotUnlocked st d = Inr saved \<and> (saved = None \<or> saved = Some s)"
  by (auto simp: base_of_def settled_def fresh_def loadSnapshotUnlocked_def)

lemma txn_loads:
  assumes "Transaction_Validate txn (store_RepoID st) = None" and "disk_Txn d = Holds txn"
  shows "loadTransactionUnlocked d = Inr (Some txn)"
  using assms(2) transaction_facts [OF assms(1)] valid_version [OF transaction_facts(1) [OF assms(1)]]
  by (simp add: loadTransactionUnlocked_def normalize_valid legacy_valid ValidateVersion_def split: if_splits)

lemma log_old:
  assumes "pending_commit st s d txn"
  shows "\<exists>es n. read_lines (store_RepoID st) 0 (disk_Lines d) = Inr (es, n) \<and> last_sequence es = snap_StateRevision s
    \<and> read_lines (store_RepoID st) 0 (disk_Lines d @ [log_line st (txn_Event txn)])
        = Inr (es @ [txn_Event txn], n + store_bytes st (txn_Event txn))"
  using base_lines [OF pending_facts(1) [OF assms]] read_lines_append transaction_facts(5,6) [OF pending_facts(3) [OF assms]]
  by metis

lemma next_revision: "(r :: uint64) + 1 \<noteq> 0 \<Longrightarrow> unat (r + 1) = Suc (unat r)"
  by (simp add: add.commute unatSuc)

lemma later_revision:
  assumes "pending_commit st s d txn"
  shows "snap_StateRevision s < snap_StateRevision (txn_Snapshot txn)"
proof -
  note t = transaction_facts [OF pending_facts(3) [OF assms]]
  have "snap_StateRevision s + 1 \<noteq> 0" using t(4) pending_facts(4) [OF assms] by simp
  from next_revision [OF this] show ?thesis using t(3) pending_facts(4) [OF assms] by (simp add: word_less_nat_alt)
qed

lemma state_not_yet:
  assumes c: "pending_commit st s d txn"
  shows "disk_State d \<noteq> Holds (txn_Snapshot txn)"
proof
  note p = pending_facts [OF c]
  assume "disk_State d = Holds (txn_Snapshot txn)"
  from load_valid [OF transaction_facts(1,2) [OF p(3)] this] loads [OF p(1)] later_revision [OF c] show False by auto
qed

text \<open>The writes that remain at a stage.\<close>

definition remaining_ops :: "Transaction \<Rightarrow> Disk \<Rightarrow> Disk \<Rightarrow> disk_op list" where
  "remaining_ops txn d d' = (if disk_Tail d' then [TruncateTail] else [])
     @ (if disk_Lines d' = disk_Lines d then [AppendEvent (txn_Event txn)] else [])
     @ (if disk_State d' = Holds (txn_Snapshot txn) then [] else [WriteState (txn_Snapshot txn)]) @ [RemoveTxn]"

lemma stages_cases:
  assumes "d' \<in> set (stages st txn d)"
  obtains (prepared) "d' = d\<lparr>disk_Txn := Holds txn\<rparr>" | (torn) "d' = d\<lparr>disk_Txn := Holds txn, disk_Tail := True\<rparr>"
    | (logged) "d' = d\<lparr>disk_Txn := Holds txn, disk_Lines := disk_Lines d @ [log_line st (txn_Event txn)]\<rparr>"
    | (written) "d' = d\<lparr>disk_Txn := Holds txn, disk_Lines := disk_Lines d @ [log_line st (txn_Event txn)],
        disk_State := Holds (txn_Snapshot txn)\<rparr>"
  using assms by (auto simp: stages_def Let_def)

lemma stage_ops:
  assumes c: "pending_commit st s d txn" and "d' \<in> set (stages st txn d)"
  shows "\<exists>saved es n. loadSnapshotUnlocked st d' = Inr saved \<and> readEventsUnlocked st d' = Inr (es, n, disk_Tail d')
    \<and> loadTransactionUnlocked d' = Inr (Some txn)
    \<and> complete_transaction saved es (disk_Tail d') txn = (remaining_ops txn d d', None)"
proof -
  note p = pending_facts [OF c]
  note t = transaction_facts [OF p(3)]
  obtain saved where saved: "loadSnapshotUnlocked st d = Inr saved" "saved = None \<or> saved = Some s" using loads [OF p(1)] by blast
  obtain es n where log: "read_lines (store_RepoID st) 0 (disk_Lines d) = Inr (es, n)"
    "last_sequence es = snap_StateRevision s" "read_lines (store_RepoID st) 0 (disk_Lines d @ [log_line st (txn_Event txn)])
        = Inr (es @ [txn_Event txn], n + store_bytes st (txn_Event txn))"
    using log_old [OF c] by blast
  have load_same: "loadSnapshotUnlocked st d'' = Inr saved" if "disk_State d'' = disk_State d" for d''
    using saved(1) load_same_state [OF that] by simp
  have load_new: "loadSnapshotUnlocked st d'' = Inr (Some (txn_Snapshot txn))" if "disk_State d'' = Holds (txn_Snapshot txn)" for d''
    by (rule load_valid [OF t(1,2) that])
  note state_old = state_not_yet [OF c]
  have old_state: "complete_state saved txn = ([WriteState (txn_Snapshot txn)], None)"
    using saved(2) later_revision [OF c] by (auto simp: complete_state_def)
  have new_state: "complete_state (Some (txn_Snapshot txn)) txn = ([], None)" by (simp add: complete_state_def)
  have old_log: "complete_log es partial txn = ((if partial then [TruncateTail] else []) @ [AppendEvent (txn_Event txn)], None)" for partial
    using log(2) p(4) by (simp add: complete_log_def Let_def)
  have new_log: "complete_log (es @ [txn_Event txn]) False txn = ([], None)"
    by (simp add: complete_log_def Let_def last_sequence_def sameEvent_def)
  note simps = stages_def Let_def readEventsUnlocked_def and_ok_def complete_transaction_def remaining_ops_def p(5)
  note txn = txn_loads [OF p(3), of d']
  from assms(2) show ?thesis
  proof (cases rule: stages_cases)
    case prepared
    then show ?thesis using log state_old old_state old_log [of False] load_same [of d'] txn by (simp add: simps)
  next
    case torn
    then show ?thesis using log state_old old_state old_log [of True] load_same [of d'] txn by (simp add: simps)
  next
    case logged
    then show ?thesis using log state_old old_state new_log load_same [of d'] txn by (simp add: simps)
  next
    case written
    then show ?thesis using log new_state new_log load_new [of d'] txn by (simp add: simps)
  qed
qed

lemma remaining_run:
  assumes "\<not> disk_Tail d" and "d' \<in> set (stages st txn d)"
  shows "run_ops st (remaining_ops txn d d') d' = committed st txn d"
  using assms(1) by (rule disk_parts)
    (use assms(2) in \<open>auto simp: stages_def Let_def remaining_ops_def run_ops_def commit_ops_def split: if_splits\<close>)

lemma remaining_crashes:
  assumes "\<not> disk_Tail d" and old: "disk_State d \<noteq> Holds (txn_Snapshot txn)" and "d' \<in> set (stages st txn d)"
    and "d'' \<in> set (crash_disks st (remaining_ops txn d d') d')"
  shows "d'' = committed st txn d \<or> d'' \<in> set (stages st txn d)"
proof -
  obtain state lines t m r b where d: "d = \<lparr>disk_State = state, disk_Lines = lines, disk_Tail = False, disk_Txn = t,
      disk_Migration = m, disk_Restore = r, disk_Backups = b\<rparr>" using assms(1) by (rule disk_parts)
  from assms(3) show ?thesis
    by (cases rule: stages_cases; use assms(4) old in
      \<open>simp add: d remaining_ops_def stages_def Let_def commit_effect\<close>; blast)
qed

lemma committed_settled:
  assumes "pending_commit st s d txn"
  shows "settled st (txn_Snapshot txn) (committed st txn d)"
proof -
  note p = pending_facts [OF assms]
  obtain es n where "read_lines (store_RepoID st) 0 (disk_Lines d) = Inr (es, n)" "check_events 0 0 es = Inr (snap_StateRevision s)"
    using base_lines [OF p(1)] by blast
  from commit_settles [OF p(3) this p(4), of "committed st txn d"] show ?thesis by (simp add: commit_effect)
qed

lemma recover_committed:
  "pending_commit st s d txn \<Longrightarrow> recoverUnlocked st amb (committed st txn d) = (Inr (txn_Snapshot txn), committed st txn d)"
  using recover_settled [OF committed_settled] pending_facts(2) by simp

lemma stage_ready: "ready d \<Longrightarrow> d' \<in> set (stages st txn d) \<Longrightarrow> ready d'"
  by (auto simp: stages_def Let_def ready_def checkSnapshotMigration_def)

lemma recover_stage:
  assumes c: "pending_commit st s d txn" and d': "d' \<in> set (stages st txn d)"
  shows "recoverUnlocked st amb d' = (Inr (txn_Snapshot txn), committed st txn d)"
proof -
  note p = pending_facts [OF c]
  obtain saved es n where f: "loadSnapshotUnlocked st d' = Inr saved" "readEventsUnlocked st d' = Inr (es, n, disk_Tail d')"
      "loadTransactionUnlocked d' = Inr (Some txn)"
      "complete_transaction saved es (disk_Tail d') txn = (remaining_ops txn d d', None)"
    using stage_ops [OF c d'] by blast
  note run = remaining_run [OF p(5) d']
  obtain es' n' where l: "read_lines (store_RepoID st) 0 (disk_Lines (committed st txn d)) = Inr (es', n')"
      "validateConsistency (txn_Snapshot txn) es' = None" "\<not> disk_Tail (committed st txn d)"
    using committed_settled [OF c] unfolding settled_def by blast
  have "settle st amb (Some (txn_Snapshot txn)) es' n' (disk_Tail (committed st txn d)) (committed st txn d)
      = (Inr (txn_Snapshot txn), committed st txn d)"
    using l by (simp add: settle_def check_consistency_def)
  then have "finish_transaction st amb saved es (disk_Tail d') txn d' = (Inr (txn_Snapshot txn), committed st txn d)"
    using l(1) by (simp add: finish_transaction_def p(3) f(4) run Let_def readEventsUnlocked_def and_ok_def)
  then show ?thesis by (simp add: recover_ready [OF stage_ready [OF p(2) d']] recover_files_def f)
qed

lemma interrupted_disks:
  assumes "interrupted st txn d d'" and c: "pending_commit st s d txn"
  shows "d' = d \<or> d' = committed st txn d \<or> d' \<in> set (stages st txn d)"
  using assms(1)
proof (induction rule: interrupted.induct)
  case (commit d')
  then show ?case using commit_crashes [OF pending_facts(5) [OF c]] by auto
next
  case (recovery d' d'')
  have "recovery_ops st d = []" "recovery_ops st (committed st txn d) = []"
    using base_lines [OF pending_facts(1) [OF c]]
    by (auto simp: recovery_ops_def loadTransactionUnlocked_def commit_effect split: sum.splits)
  moreover have "recovery_ops st d' = remaining_ops txn d d'" if "d' \<in> set (stages st txn d)"
    using stage_ops [OF c that] by (auto simp: recovery_ops_def)
  ultimately show ?case
    using recovery remaining_crashes [OF pending_facts(5) [OF c] state_not_yet [OF c], of d' st d''] by auto
qed

lemma interrupted_recovers:
  assumes "interrupted st txn d d'" and "pending_commit st s d txn"
  shows "d' = d \<or> recoverUnlocked st amb d' = (Inr (txn_Snapshot txn), committed st txn d)"
  using interrupted_disks [OF assms] recover_committed [OF assms(2)] recover_stage [OF assms(2)] by auto

lemma update_Inr:
  assumes "Update st draws ty n run pl mutate d = (Inr s', d')" and "ready d"
  shows "\<exists>s0 d0 txn. recoverUnlocked st (dr_Recover draws) d = (Inr s0, d0) \<and> base_of st s0 d0 \<and> ready d0
    \<and> recovery_blocked s0 = None \<and> prepare_update st (dr_Update draws) ty n run pl mutate s0 = Inr txn
    \<and> s' = txn_Snapshot txn \<and> d' = rotateEventsUnlocked st (dr_Rotate draws) s' (committed st txn d0)"
proof -
  obtain r d0 where r: "recoverUnlocked st (dr_Recover draws) d = (r, d0)" by (cases "recoverUnlocked st (dr_Recover draws) d")
  show ?thesis
  proof (cases r)
    case (Inr s0)
    from recover_settles [OF r [unfolded Inr] assms(2)] have "base_of st s0 d0 \<and> ready d0" by (auto simp: base_of_def)
    with assms(1) r Inr show ?thesis
      by (auto simp: Update_def split: option.splits sum.splits)
  qed (use assms(1) r in \<open>simp add: Update_def\<close>)
qed

end
