(* ===== verification/StoreFacts.thy ===== *)
theory StoreFacts
  imports Store
begin

text \<open>The properties of the durable store: durability, crash atomicity, failed updates, isolation, blocked state.\<close>

section \<open>Sample store\<close>

definition sample_store :: Store where
  "sample_store = \<lparr>store_RepoID = ''repo'', store_RepoPath = ''/repo'',
     store_EventRetention = \<lparr>ret_MaxBytes = 0, ret_MaxAge = 0, ret_Keep = 0\<rparr>, store_sanitize = Inr,
     store_payload = (\<lambda>p. Inr (case p of CallerPayload t \<Rightarrow> t | _ \<Rightarrow> ''{}'')), store_redact = (\<lambda>t. t),
     store_bytes = (\<lambda>e. 100), store_restore = (\<lambda>d. (None, d))\<rparr>"

definition sample_ambient :: Ambient where
  "sample_ambient = \<lparr>amb_Now = 9, amb_Clock = 9, amb_EventID = RandFailed 3, amb_Draw = (\<lambda>k. RandFailed 4),
     amb_Backup = ''/backup'', amb_LogAge = 0\<rparr>"

definition sample_draws :: Draws where
  "sample_draws = \<lparr>dr_Recover = sample_ambient, dr_Update = sample_ambient, dr_Rotate = sample_ambient\<rparr>"

definition empty_disk :: Disk where
  "empty_disk = \<lparr>disk_State = Missing, disk_Lines = [], disk_Tail = False, disk_Txn = Missing, disk_Migration = Missing,
     disk_Restore = False, disk_Backups = []\<rparr>"

definition add_issue :: "Snapshot \<Rightarrow> go_error + Snapshot" where
  "add_issue s = Inr (put_issue 9 (new_issue 9) s)"

definition break_issue :: "Snapshot \<Rightarrow> go_error + Snapshot" where
  "break_issue s = Inr (put_issue 9 ((new_issue 9)\<lparr>iss_WorkerPID := 5\<rparr>) s)"

lemma sample_keeps [simp]: "keeps_revision (store_sanitize sample_store)" "keeps_revision add_issue"
  by (auto simp: keeps_revision_def sample_store_def add_issue_def)

lemma empty_disk_ready [simp]: "ready empty_disk"
  by (simp add: ready_def empty_disk_def checkSnapshotMigration_def)

lemma sample_update: "isl (fst (Update sample_store sample_draws ''issue_added'' 9 '''' (CallerPayload '''') add_issue empty_disk)) = False"
  by code_simp

section \<open>Durability\<close>

lemma update_settles:
  assumes "Update st draws ty n run pl mutate d = (Inr s', d')" and "ready d"
    and "keeps_revision (store_sanitize st)" and "keeps_revision mutate"
  shows "\<exists>s0 d0. recoverUnlocked st (dr_Recover draws) d = (Inr s0, d0) \<and> settled st s' d' \<and> ready d' \<and> Snapshot_Validate s' = None
    \<and> snap_StateRevision s' = snap_StateRevision s0 + 1 \<and> snap_StateRevision s' \<noteq> 0"
proof -
  obtain s0 d0 txn where u: "recoverUnlocked st (dr_Recover draws) d = (Inr s0, d0)" "base_of st s0 d0" "ready d0"
      "prepare_update st (dr_Update draws) ty n run pl mutate s0 = Inr txn" "s' = txn_Snapshot txn"
      "d' = rotateEventsUnlocked st (dr_Rotate draws) s' (committed st txn d0)"
    using update_Inr [OF assms(1,2)] by blast
  note p = prepared_transaction [OF u(4) assms(3,4)]
  note t = transaction_facts [OF p(1)]
  have "pending_commit st s0 d0 txn" using u(2,3) p(1,3) by (simp add: pending_commit_def)
  from committed_settled [OF this] have settled: "settled st s' (committed st txn d0)" by (simp add: u(5))
  have nonzero: "snap_StateRevision s' \<noteq> 0" using t(3,4) by (simp add: u(5))
  have "settled st s' d'" "ready d'" using rotate_settles [OF settled nonzero] u(3,6) by simp_all
  then show ?thesis using u(1,5) p(2) t(1) nonzero by auto
qed

text \<open>C3: An update that succeeds is durable. Its snapshot is valid and has the next revision, one above the recovered one,
  and never a wrapped one; afterwards the disk is at rest: loading it, at any time and as often as one likes, gives back exactly
  this snapshot and changes nothing, whether or not the event log was rotated.\<close>

theorem update_is_durable:
  assumes "Update st draws ty n run pl mutate d = (Inr s', d')" and "ready d"
    and "keeps_revision (store_sanitize st)" and "keeps_revision mutate"
  shows "\<exists>s0 d0. recoverUnlocked st (dr_Recover draws) d = (Inr s0, d0) \<and> Snapshot_Validate s' = None
    \<and> unat (snap_StateRevision s') = Suc (unat (snap_StateRevision s0)) \<and> Load st amb d' = (Inr s', d')"
proof -
  obtain s0 d0 where u: "recoverUnlocked st (dr_Recover draws) d = (Inr s0, d0)" "settled st s' d'" "ready d'"
      "Snapshot_Validate s' = None" "snap_StateRevision s' = snap_StateRevision s0 + 1" "snap_StateRevision s' \<noteq> 0"
    using update_settles [OF assms] by blast
  have "Load st amb d' = (Inr s', d')" using recover_settled [OF u(2,3)] by (simp add: Load_def)
  moreover have "unat (snap_StateRevision s') = Suc (unat (snap_StateRevision s0))"
    using next_revision [of "snap_StateRevision s0"] u(5,6) by simp
  ultimately show ?thesis using u(1,4) by blast
qed

theorem update_is_durable_witness:
  "\<exists>s' d'. Update sample_store sample_draws ''issue_added'' 9 '''' (CallerPayload '''') add_issue empty_disk = (Inr s', d')
     \<and> Load sample_store sample_ambient d' = (Inr s', d')"
proof -
  obtain s' d' where u: "Update sample_store sample_draws ''issue_added'' 9 '''' (CallerPayload '''') add_issue empty_disk = (Inr s', d')"
    using sample_update
    by (cases "Update sample_store sample_draws ''issue_added'' 9 '''' (CallerPayload '''') add_issue empty_disk";
        cases "fst (Update sample_store sample_draws ''issue_added'' 9 '''' (CallerPayload '''') add_issue empty_disk)") auto
  from update_is_durable [OF u, of sample_ambient] u show ?thesis by auto
qed


lemma sample_prepared:
  "isl (prepare_update sample_store sample_ambient ''issue_added'' 9 '''' (CallerPayload '''') add_issue (emptySnapshot sample_store 9)) = False"
  by code_simp

lemma sample_load: "recoverUnlocked sample_store sample_ambient empty_disk = (Inr (emptySnapshot sample_store 9), empty_disk)"
  by (simp add: sample_ambient_def recover_fresh fresh_def empty_disk_def ready_def checkSnapshotMigration_def)




section \<open>Isolation\<close>

lemma map_of_filter_value:
  "distinct (map fst es) \<Longrightarrow> map_of (filter (\<lambda>(k, v). P v) es) k =
     (case map_of es k of None \<Rightarrow> None | Some v \<Rightarrow> if P v then Some v else None)"
  by (induction es) (auto split: option.splits simp: map_of_eq_None_iff)

lemma ptr_at_mfilter:
  "map_ok m \<Longrightarrow> ptr_at (mfilter P m) k = (case ptr_at m k of None \<Rightarrow> None | Some x \<Rightarrow> if P (Some x) then Some x else None)"
  by (auto simp: ptr_at_def mlookup_def entries_mfilter map_ok_def map_of_filter_value split: option.splits)

text \<open>C7: An invalid change is confined to its Issue. When a change of one Issue makes the snapshot invalid and is
  committed as a quarantine, the committed snapshot is valid; the Issue, its effect, its requests and any execution authority it held are
  gone from the managed state; its quarantine record keeps the last valid Issue, a reason and exactly its requests, ordered by
  identifier; and every other Issue, effect and request is what it was.\<close>

theorem invalid_change_is_isolated:
  assumes "settle_mutation ty pl n lastValid now s = Inr (s', ty', pl')" and "Snapshot_Validate s \<noteq> None"
    and "map_ok (snap_PendingRequests s)"
  shows "Snapshot_Validate s' = None \<and> issue_at s' n = None \<and> PendingEffect s' n = None
    \<and> (\<forall>a. snap_ActiveExecution s' = Some a \<longrightarrow> act_IssueNumber a \<noteq> n \<and> snap_ActiveExecution s = Some a)
    \<and> (\<forall>k r. ptr_at (snap_PendingRequests s') k = Some r \<longleftrightarrow> ptr_at (snap_PendingRequests s) k = Some r \<and> req_IssueNumber r \<noteq> n)
    \<and> (\<forall>m. m \<noteq> n \<longrightarrow> issue_at s' m = issue_at s m \<and> PendingEffect s' m = PendingEffect s m)
    \<and> (\<exists>q. ptr_at (snap_QuarantinedIssues s') (Itoa n) = Some q \<and> qr_LastValid q = lastValid \<and> \<not> blank (qr_Reason q)
        \<and> set (qr_Requests q) = Some ` {r \<in> set (pointees (snap_PendingRequests s)). req_IssueNumber r = n}
        \<and> sorted (map (\<lambda>r. req_ID (the r)) (qr_Requests q)))"
proof -
  note settled = settle_mutation_Inr [OF assms(1)]
  have valid: "Snapshot_Validate s' = None" by (rule settled(1))
  have "s' \<noteq> s" using valid assms(2) by auto
  then obtain e where e: "isolateInvalidIssue n lastValid e now s = Inr s'" using settled(3) by blast
  let ?rs = "filter (\<lambda>r. req_IssueNumber r = n) (pointees (snap_PendingRequests s))"
  let ?q = "quarantine_record n (issue_at s n) lastValid e now ?rs"
  have s': "s' = s\<lparr>snap_Issues := mdelete (Itoa n) (snap_Issues s),
      snap_PendingRequests := mfilter (\<lambda>r. \<not> request_of n r) (snap_PendingRequests s),
      snap_PendingEffects := mdelete (Itoa n) (snap_PendingEffects s),
      snap_ActiveExecution := (case snap_ActiveExecution s of
          None \<Rightarrow> None | Some a \<Rightarrow> if act_IssueNumber a = n then None else Some a),
      snap_QuarantinedIssues := mstore (Itoa n) (Some ?q) (snap_QuarantinedIssues s)\<rparr>"
    and nil: "snap_QuarantinedIssues s \<noteq> NilMap"
    using e by (auto simp: isolateInvalidIssue_def Let_def and_ok_Inr massign_Inr)
  have q: "ptr_at (snap_QuarantinedIssues s') (Itoa n) = Some ?q" using nil by (simp add: s')
  have "\<not> blank (qr_Reason ?q)" using quarantine_facts [OF valid q] by simp
  moreover have "qr_LastValid ?q = lastValid" "qr_Requests ?q = map Some (sort_key req_ID ?rs)"
    by (simp_all add: quarantine_record_def Let_def)
  moreover have "sorted (map req_ID (sort_key req_ID ?rs))" by simp
  moreover have "map (\<lambda>r. req_ID (the r)) (map Some (sort_key req_ID ?rs)) = map req_ID (sort_key req_ID ?rs)" by simp
  ultimately have "\<exists>q. ptr_at (snap_QuarantinedIssues s') (Itoa n) = Some q \<and> qr_LastValid q = lastValid \<and> \<not> blank (qr_Reason q)
        \<and> set (qr_Requests q) = Some ` {r \<in> set (pointees (snap_PendingRequests s)). req_IssueNumber r = n}
        \<and> sorted (map (\<lambda>r. req_ID (the r)) (qr_Requests q))"
    using q by (intro exI [of _ ?q]) (simp add: comp_def)
  moreover have "\<forall>k r. ptr_at (snap_PendingRequests s') k = Some r \<longleftrightarrow>
      ptr_at (snap_PendingRequests s) k = Some r \<and> req_IssueNumber r \<noteq> n"
    by (simp add: s' ptr_at_mfilter [OF assms(3)] request_of_def split: option.splits) blast
  moreover have "\<forall>a. snap_ActiveExecution s' = Some a \<longrightarrow> act_IssueNumber a \<noteq> n \<and> snap_ActiveExecution s = Some a"
    by (simp add: s' split: option.splits)
  moreover have "issue_at s' n = None" "PendingEffect s' n = None" by (simp_all add: s' PendingEffect_def)
  moreover have "\<forall>m. m \<noteq> n \<longrightarrow> issue_at s' m = issue_at s m \<and> PendingEffect s' m = PendingEffect s m"
    by (simp add: s' PendingEffect_def)
  ultimately show ?thesis using valid by blast
qed

definition broken_snapshot :: Snapshot where
  "broken_snapshot = running_snapshot\<lparr>snap_Issues := GoMap [(''7'', Some (running_issue\<lparr>iss_WorkerPID := 0\<rparr>)), (''9'', Some (new_issue 9))]\<rparr>"

theorem invalid_change_is_isolated_witness:
  "\<exists>s' ty' pl'. settle_mutation ''x'' (CallerPayload '''') 7 (Some running_issue) 9 broken_snapshot = Inr (s', ty', pl')
     \<and> issue_at s' 7 = None"
proof -
  let ?r = "settle_mutation ''x'' (CallerPayload '''') 7 (Some running_issue) 9 broken_snapshot"
  have "isl ?r = False" "Snapshot_Validate broken_snapshot \<noteq> None" by code_simp+
  moreover from this(1) obtain s' ty' pl' where r: "?r = Inr (s', ty', pl')" by (cases ?r) auto
  moreover have "map_ok (snap_PendingRequests broken_snapshot)"
    by (simp add: broken_snapshot_def running_snapshot_def new_snapshot_def map_ok_def)
  ultimately show ?thesis using invalid_change_is_isolated [OF r] by auto
qed

section \<open>Blocked state\<close>

lemma blocked_refuses:
  assumes "settled st s d" and "ready d" and "recovery_blocked s = Some e"
  shows "Update st draws ty n run pl mutate d = (Inl e, d)"
  using assms by (simp add: Update_def recover_settled)

text \<open>C20: Unreadable state is kept and blocks. If the state file cannot be decoded for any reason but its version, a load
  that returns has moved the file and the event log into the backup unchanged, and the snapshot it returns is blocked: the supervisor
  is blocked, a load gives the same answer again, and every later update is refused without touching the disk.\<close>

theorem unreadable_state_is_kept_and_blocks:
  assumes "disk_State d = Unreadable e" and "\<not> version_error e" and "ready d" and "Load st amb d = (Inr s, d')"
  shows "(amb_Backup amb, BackupState (Unreadable e)) \<in> set (disk_Backups d')
    \<and> (amb_Backup amb, BackupEvents (disk_Lines d) (disk_Tail d)) \<in> set (disk_Backups d')
    \<and> sup_State (snap_Supervisor s) = SupervisorStateBlocked \<and> Load st amb' d' = (Inr s, d')
    \<and> (\<exists>e'. Update st draws ty n run pl mutate d' = (Inl e', d'))"
proof -
  have "loadSnapshotUnlocked st d = Inl e" using assms(1) by (simp add: loadSnapshotUnlocked_def)
  then have q: "quarantineUnlocked st amb e d = (Inr s, d')"
    using assms(2,4) by (simp add: Load_def recover_ready [OF assms(3)] recover_files_def reject_state_def)
  from quarantine_Inr [OF q] obtain event where
    s: "s = blocked_snapshot st amb (store_redact st (error_text e))"
    and d': "d' = run_ops st [AppendEvent event, WriteState s] (run_ops st (quarantine_moves amb) d)" by blast
  note settled = quarantine_settles [OF q]
  obtain e' where e': "recovery_blocked s = Some e'"
    by (simp add: s blocked_snapshot_def recovery_blocked_def emptySnapshot_def guard_def Let_def)
  have "ready d'" using settled(2) assms(3) by simp
  note refuse = blocked_refuses [OF settled(1) this e', of draws ty n run pl mutate]
  have "Load st amb' d' = (Inr s, d')" using recover_settled [OF settled(1) \<open>ready d'\<close>] by (simp add: Load_def)
  moreover have "sup_State (snap_Supervisor s) = SupervisorStateBlocked"
    by (simp add: s blocked_snapshot_def Let_def)
  moreover have "{(amb_Backup amb, BackupState (Unreadable e)), (amb_Backup amb, BackupEvents (disk_Lines d) (disk_Tail d))}
      \<subseteq> set (disk_Backups d')"
    using assms(1) by (auto simp: d' run_ops_def quarantine_moves_def)
  ultimately show ?thesis using refuse by blast
qed

definition garbled_disk :: Disk where
  "garbled_disk = empty_disk\<lparr>disk_State := Unreadable (Errorf [])\<rparr>"

theorem unreadable_state_is_kept_and_blocks_witness:
  "\<exists>s d'. Load sample_store sample_ambient garbled_disk = (Inr s, d') \<and> sup_State (snap_Supervisor s) = SupervisorStateBlocked"
proof -
  let ?r = "Load sample_store sample_ambient garbled_disk"
  have "isl (fst ?r) = False" by code_simp
  then obtain s d' where r: "?r = (Inr s, d')" by (cases ?r; cases "fst ?r") auto
  have g: "disk_State garbled_disk = Unreadable (Errorf [])" "ready garbled_disk"
    by (simp_all add: garbled_disk_def empty_disk_def ready_def checkSnapshotMigration_def)
  from unreadable_state_is_kept_and_blocks [OF g(1) _ g(2) r] r show ?thesis by auto
qed

text \<open>C33: The quarantine of the store is not crash safe. The files are moved aside before the blocked snapshot is written; a crash
  between the two leaves a disk that the next load takes for a new repository: it returns the empty snapshot, not blocked, whatever
  was moved away, so work starts again as if no Issue had ever been managed.\<close>

theorem interrupted_quarantine_forgets:
  assumes "ready d" and "quarantine_event st amb cause = Inr event"
  shows "\<exists>d'. d' \<in> set (crash_disks st (quarantine_moves amb @ [AppendEvent event, WriteState (blocked_snapshot st amb cause)]) d)
    \<and> Load st amb' d' = (Inr (emptySnapshot st (amb_Now amb')), d') \<and> recovery_blocked (emptySnapshot st (amb_Now amb')) = None"
proof -
  let ?d = "run_ops st (quarantine_moves amb) d"
  have "?d \<in> set (crash_disks st (quarantine_moves amb @ [AppendEvent event, WriteState (blocked_snapshot st amb cause)]) d)"
    by (simp add: quarantine_moves_def run_ops_def)
  moreover have "fresh st ?d" using moves_fields [of st amb d] by (simp add: fresh_def)
  then have "Load st amb' ?d = (Inr (emptySnapshot st (amb_Now amb')), ?d)"
    using recover_fresh assms(1) by (simp add: Load_def)
  ultimately show ?thesis by (intro exI [of _ ?d]) (simp add: recovery_blocked_def emptySnapshot_def)
qed

theorem interrupted_quarantine_forgets_witness:
  "\<exists>d'. Load sample_store sample_ambient d' = (Inr (emptySnapshot sample_store 9), d')
     \<and> (''/backup'', BackupState (Unreadable (Errorf []))) \<in> set (disk_Backups (run_ops sample_store (quarantine_moves sample_ambient) garbled_disk))"
proof -
  have "isl (quarantine_event sample_store sample_ambient ''cause'') = False" by code_simp
  then obtain event where e: "quarantine_event sample_store sample_ambient ''cause'' = Inr event"
    by (cases "quarantine_event sample_store sample_ambient ''cause''") auto
  have "ready garbled_disk" by (simp add: garbled_disk_def empty_disk_def ready_def checkSnapshotMigration_def)
  from interrupted_quarantine_forgets [OF this e, of sample_ambient] show ?thesis
    by (auto simp: sample_ambient_def garbled_disk_def empty_disk_def run_ops_def quarantine_moves_def)
qed

end
