(* ===== verification/SnapshotQuery.thy ===== *)
theory SnapshotQuery
  imports SnapshotFacts
begin

text \<open>
  What the supervisor and its operators read from a snapshot (\<open>Requests\<close>, \<open>Request\<close>, \<open>HumanNeeds\<close>,
  \<open>NeedsHuman\<close>, \<open>Attention\<close> of \<open>internal/domain/snapshot/snapshot.go\<close>). \<open>sort.Slice\<close> is a sort on
  the same key; Go's is not stable, so only statements that do not depend on the order of equal keys
  are made.
\<close>

definition Requests :: "Snapshot \<Rightarrow> Request list" where
  "Requests s = sort_key req_ID (pointees (snap_PendingRequests s)
     @ concat (map (\<lambda>record. List.map_filter (\<lambda>r. r) (qr_Requests record)) (pointees (snap_QuarantinedIssues s))))"

text \<open>The loop over the requests: the one found so far.\<close>

fun find_request :: "string \<Rightarrow> Request option \<Rightarrow> Request list \<Rightarrow> go_error + Request option" where
  "find_request id' found [] = Inr found"
| "find_request id' found (request # requests) =
     (if req_ID request \<noteq> id' then find_request id' found requests
      else if found \<noteq> None then Inl (Errorf [Lit ''ambiguous request ID '', Str id'])
      else find_request id' (Some request) requests)"

definition Snapshot_Request :: "Snapshot \<Rightarrow> string \<Rightarrow> go_error + Request" where
  "Snapshot_Request s id' = and_ok (find_request id' None (Requests s)) (\<lambda>found. case found of
     None \<Rightarrow> Inl (Errorf [Lit ''unknown request ID '', Str id']) | Some r \<Rightarrow> Inr r)"

record HumanNeed =
  hn_IssueNumber :: int
  hn_Reason :: string

definition unanswered_issues :: "Snapshot \<Rightarrow> int set" where
  "unanswered_issues s = req_IssueNumber ` set (filter (\<lambda>r. req_Status r = RequestStatusPending) (Requests s))"

definition issue_wait :: "Snapshot \<Rightarrow> bool \<Rightarrow> Issue \<Rightarrow> HumanWait" where
  "issue_wait s autoMerge item =
     \<lparr>hw_Status = iss_Status item, hw_Unanswered = (iss_Number item \<in> unanswered_issues s), hw_Quarantined = False,
      hw_Recoverability = (case iss_Suspension item of None \<Rightarrow> RecoverabilityOther '''' | Some sp \<Rightarrow> susp_Recoverability sp),
      hw_SuspensionStatus = (case iss_Suspension item of None \<Rightarrow> SuspensionOther '''' | Some sp \<Rightarrow> susp_Status sp),
      hw_ReviewDecision = iss_ReviewDecision item, hw_AutoMerge = autoMerge\<rparr>"

definition quarantine_wait :: "Snapshot \<Rightarrow> int \<Rightarrow> HumanWait" where
  "quarantine_wait s number =
     \<lparr>hw_Status = StatusUnset, hw_Unanswered = (number \<in> unanswered_issues s), hw_Quarantined = True,
      hw_Recoverability = RecoverabilityOther '''', hw_SuspensionStatus = SuspensionOther '''',
      hw_ReviewDecision = '''', hw_AutoMerge = False\<rparr>"

definition issue_needs :: "Snapshot \<Rightarrow> bool \<Rightarrow> HumanNeed list" where
  "issue_needs s autoMerge = List.map_filter (\<lambda>item.
     let reason = HumanWait_Reason (issue_wait s autoMerge item)
     in if reason \<noteq> '''' then Some \<lparr>hn_IssueNumber = iss_Number item, hn_Reason = reason\<rparr> else None)
     (pointees (snap_Issues s))"

definition quarantine_needs :: "Snapshot \<Rightarrow> HumanNeed list" where
  "quarantine_needs s = List.map_filter (\<lambda>(key, q). case q of None \<Rightarrow> None
     | Some _ \<Rightarrow> let number = fst (Atoi key)
         in Some \<lparr>hn_IssueNumber = number, hn_Reason = HumanWait_Reason (quarantine_wait s number)\<rparr>)
     (entries (snap_QuarantinedIssues s))"

definition HumanNeeds :: "Snapshot \<Rightarrow> bool \<Rightarrow> HumanNeed list" where
  "HumanNeeds s autoMerge = sort_key hn_IssueNumber (issue_needs s autoMerge @ quarantine_needs s)"

definition NeedsHuman :: "Snapshot \<Rightarrow> int \<Rightarrow> bool \<Rightarrow> bool" where
  "NeedsHuman s number autoMerge \<longleftrightarrow> (\<exists>need \<in> set (HumanNeeds s autoMerge). hn_IssueNumber need = number)"

text \<open>The last loop of \<open>Attention\<close> dereferences every entry it visits.\<close>

fun prevents_idle :: "(string \<times> Issue option) list \<Rightarrow> go_error + bool" where
  "prevents_idle [] = Inr False"
| "prevents_idle ((key, None) # es) = Inl NilPointerPanic"
| "prevents_idle ((key, Some issue) # es) = (if PreventsIdle (iss_Status issue) then Inr True else prevents_idle es)"

definition SupervisorState_String :: "SupervisorState \<Rightarrow> string" where
  "SupervisorState_String st = (case st of SupervisorStateUnset \<Rightarrow> '''' | SupervisorStateStarting \<Rightarrow> ''starting''
     | SupervisorStateRunning \<Rightarrow> ''running'' | SupervisorStatePolling \<Rightarrow> ''polling'' | SupervisorStateRetryWait \<Rightarrow> ''retry_wait''
     | SupervisorStateBlocked \<Rightarrow> ''blocked'' | SupervisorStateStopped \<Rightarrow> ''stopped''
     | SupervisorStateMaintenance \<Rightarrow> ''maintenance'' | SupervisorStateDraining \<Rightarrow> ''draining'' | SupervisorStateOther t \<Rightarrow> t)"

definition Attention :: "Snapshot \<Rightarrow> bool \<Rightarrow> bool \<Rightarrow> go_error + string \<times> bool" where
  "Attention s untilIdle autoMerge =
     (let st = sup_State (snap_Supervisor s) in
      if filter (\<lambda>r. req_Status r = RequestStatusPending) (Requests s) \<noteq> [] then Inr (''needs_input'', True)
      else if HumanNeeds s autoMerge \<noteq> [] then Inr (''needs_human'', True)
      else if \<exists>issue \<in> set (pointees (snap_Issues s)). iss_Status issue = StatusBlocked then Inr (''blocked'', True)
      else if st = SupervisorStateBlocked \<or> st = SupervisorStateStopped then Inr (SupervisorState_String st, True)
      else if untilIdle \<and> st = SupervisorStatePolling then
        (if entries (snap_PendingEffects s) \<noteq> [] then Inr ('''', False)
         else and_ok (prevents_idle (entries (snap_Issues s))) (\<lambda>busy.
           if busy then Inr ('''', False) else Inr (''idle'', True)))
      else Inr ('''', False))"

section \<open>Requests\<close>

lemma set_Requests:
  "set (Requests s) = set (pointees (snap_PendingRequests s))
     \<union> {r. \<exists>q \<in> set (pointees (snap_QuarantinedIssues s)). Some r \<in> set (qr_Requests q)}"
proof -
  have "r \<in> set (List.map_filter (\<lambda>r. r) xs) \<longleftrightarrow> Some r \<in> set xs" for r :: Request and xs
    by (force simp: List.map_filter_def)
  then show ?thesis by (auto simp: Requests_def)
qed

lemma find_request_Some: "find_request id' (Some r) rs = Inr x \<longleftrightarrow> x = Some r \<and> (\<forall>q \<in> set rs. req_ID q \<noteq> id')"
  by (induction rs) auto

lemma find_request_None:
  "find_request id' None rs = Inr (Some r) \<longleftrightarrow> filter (\<lambda>q. req_ID q = id') rs = [r]"
  by (induction rs) (auto simp: find_request_Some filter_empty_conv)

text \<open>A request is found by its ID exactly when it is the only request, pending or quarantined, with
  that ID: an ambiguous ID is an error, never a guess, and quarantine never hides a conversation.\<close>

theorem request_lookup_exact:
  "(Snapshot_Request s id' = Inr r) = (filter (\<lambda>q. req_ID q = id') (Requests s) = [r])
   \<and> set (Requests s) = set (pointees (snap_PendingRequests s))
       \<union> {r. \<exists>q \<in> set (pointees (snap_QuarantinedIssues s)). Some r \<in> set (qr_Requests q)}"
  using find_request_None [of id' "Requests s" r] set_Requests [of s]
  by (auto simp: Snapshot_Request_def and_ok_Inr split: option.splits)

section \<open>Who needs a human\<close>

lemma quarantine_always_waits: "HumanWait_Reason (quarantine_wait s n) \<noteq> ''''"
  by (simp add: HumanWait_Reason_def quarantine_wait_def)

lemma issue_needs_mem:
  "need \<in> set (issue_needs s am) \<longleftrightarrow> (\<exists>i \<in> set (pointees (snap_Issues s)). hn_IssueNumber need = iss_Number i
     \<and> hn_Reason need = HumanWait_Reason (issue_wait s am i) \<and> hn_Reason need \<noteq> '''')"
  by (cases need) (auto simp: issue_needs_def List.map_filter_def Let_def image_iff split: if_splits)

lemma quarantine_needs_mem:
  "need \<in> set (quarantine_needs s) \<longleftrightarrow> (\<exists>k q. (k, Some q) \<in> set (entries (snap_QuarantinedIssues s))
     \<and> hn_IssueNumber need = fst (Atoi k) \<and> hn_Reason need = HumanWait_Reason (quarantine_wait s (fst (Atoi k))))"
  by (cases need) (force simp: quarantine_needs_def List.map_filter_def Let_def image_iff split: option.splits)

text \<open>Issue numbers are Go ints.\<close>

definition numbers_ok :: "Snapshot \<Rightarrow> bool" where
  "numbers_ok s \<longleftrightarrow> (\<forall>q \<in> set (pointees (snap_QuarantinedIssues s)).
     - (2 ^ 63) \<le> qr_IssueNumber q \<and> qr_IssueNumber q < 2 ^ 63)"

lemma quarantine_key:
  assumes "Snapshot_Validate s = None" and "numbers_ok s" and "(k, Some q) \<in> set (entries (snap_QuarantinedIssues s))"
  shows "k = Itoa (qr_IssueNumber q)" "fst (Atoi k) = qr_IssueNumber q"
proof -
  have "validate_quarantine_entry s k (Some q) = None"
    using content_quarantine [OF valid_content [OF assms(1)]] assms(3) by auto
  then show "k = Itoa (qr_IssueNumber q)" by (simp add: validate_quarantine_entry_def)
  moreover have "- (2 ^ 63) \<le> qr_IssueNumber q" "qr_IssueNumber q < 2 ^ 63"
    using assms(2,3) by (auto simp: numbers_ok_def pointees_entries)
  ultimately show "fst (Atoi k) = qr_IssueNumber q" by (simp add: Atoi_Itoa)
qed

text \<open>The operator's list is complete and exact: in a valid snapshot an Issue needs a human if and only
  if it is quarantined, or it is managed and its own record gives a reason (an unanswered request, an
  unresolved suspension, a review, a merge that is not automatic).\<close>

theorem human_needs_exact:
  assumes "Snapshot_Validate s = None" and "maps_ok s" and "numbers_ok s"
  shows "NeedsHuman s n autoMerge =
    (ptr_at (snap_QuarantinedIssues s) (Itoa n) \<noteq> None
     \<or> (\<exists>i. issue_at s n = Some i \<and> HumanWait_Reason (issue_wait s autoMerge i) \<noteq> ''''))"
proof -
  have "(\<exists>need \<in> set (issue_needs s autoMerge). hn_IssueNumber need = n)
      \<longleftrightarrow> (\<exists>i. issue_at s n = Some i \<and> HumanWait_Reason (issue_wait s autoMerge i) \<noteq> '''')" (is "?I \<longleftrightarrow> ?i")
  proof
    assume ?I
    then obtain k i where "(k, Some i) \<in> set (entries (snap_Issues s))" "iss_Number i = n"
        "HumanWait_Reason (issue_wait s autoMerge i) \<noteq> ''''"
      by (auto simp: issue_needs_mem pointees_entries)
    moreover then have "ptr_at (snap_Issues s) k = Some i"
      using assms(2) by (simp add: ptr_at_Some maps_ok_def entries_iff)
    ultimately show ?i using issue_at_key [OF assms(1)] by blast
  next
    assume ?i
    then obtain i where i: "issue_at s n = Some i" "HumanWait_Reason (issue_wait s autoMerge i) \<noteq> ''''" by blast
    have "\<lparr>hn_IssueNumber = n, hn_Reason = HumanWait_Reason (issue_wait s autoMerge i)\<rparr> \<in> set (issue_needs s autoMerge)"
      using i valid_issue(2) [OF assms(1) i(1)] ptr_at_entry [OF i(1)]
      by (auto simp: issue_needs_mem pointees_entries intro!: bexI [of _ i])
    then show ?I by force
  qed
  moreover have "(\<exists>need \<in> set (quarantine_needs s). hn_IssueNumber need = n)
      \<longleftrightarrow> ptr_at (snap_QuarantinedIssues s) (Itoa n) \<noteq> None" (is "?Q \<longleftrightarrow> ?q")
  proof
    assume ?Q
    then obtain k q where kq: "(k, Some q) \<in> set (entries (snap_QuarantinedIssues s))" "fst (Atoi k) = n"
      by (auto simp: quarantine_needs_mem)
    then have "k = Itoa n" using quarantine_key [OF assms(1,3)] by auto
    moreover have "ptr_at (snap_QuarantinedIssues s) k = Some q"
      using kq(1) assms(2) by (simp add: ptr_at_Some maps_ok_def entries_iff)
    ultimately show ?q by simp
  next
    assume ?q
    then obtain q where q: "ptr_at (snap_QuarantinedIssues s) (Itoa n) = Some q" by blast
    note entry = ptr_at_entry [OF q]
    have n: "fst (Atoi (Itoa n)) = n"
      using quarantine_key [OF assms(1,3) entry] by simp
    have "\<lparr>hn_IssueNumber = n, hn_Reason = HumanWait_Reason (quarantine_wait s n)\<rparr> \<in> set (quarantine_needs s)"
      using entry n by (auto simp: quarantine_needs_mem)
    then show ?Q by force
  qed
  ultimately show ?thesis by (auto simp: NeedsHuman_def HumanNeeds_def)
qed

theorem human_needs_exact_witness:
  "NeedsHuman quarantined_snapshot 8 False \<and> \<not> NeedsHuman quarantined_snapshot 7 False"
proof -
  have maps: "maps_ok quarantined_snapshot" and nums: "numbers_ok quarantined_snapshot"
    by (simp_all add: maps_ok_def numbers_ok_def quarantined_snapshot_def running_snapshot_def new_snapshot_def map_ok_def
        pointees_def List.map_filter_def)
  have "ptr_at (snap_QuarantinedIssues quarantined_snapshot) (Itoa 8) \<noteq> None"
    "ptr_at (snap_QuarantinedIssues quarantined_snapshot) (Itoa 7) = None"
    "issue_at quarantined_snapshot 7 = Some running_issue"
    "HumanWait_Reason (issue_wait quarantined_snapshot False running_issue) = ''''"
    by code_simp+
  then show ?thesis
    using human_needs_exact [OF quarantined_snapshot_valid maps nums, of _ False] by simp
qed

section \<open>Attention\<close>

lemma prevents_idle_valid:
  assumes "\<forall>(k, e) \<in> set es. e \<noteq> None"
  shows "prevents_idle es = Inr (\<exists>(k, e) \<in> set es. \<exists>i. e = Some i \<and> PreventsIdle (iss_Status i))"
  using assms by (induction es rule: prevents_idle.induct) auto

text \<open>On a valid snapshot the attention check always returns (the dereferences of its last loop are
  safe), and it tells an unattended run to stop as idle exactly when the supervisor is polling and
  nothing is left: no question, no Issue waiting for a human, no blocked Issue, no pending effect and no
  Issue in a status with work ahead of it.\<close>

theorem attention_idle_exact:
  assumes "Snapshot_Validate s = None"
  shows "\<exists>result. Attention s untilIdle autoMerge = Inr result
    \<and> (result = (''idle'', True)) =
      (untilIdle \<and> sup_State (snap_Supervisor s) = SupervisorStatePolling
       \<and> (\<forall>r \<in> set (Requests s). req_Status r \<noteq> RequestStatusPending) \<and> HumanNeeds s autoMerge = []
       \<and> entries (snap_PendingEffects s) = []
       \<and> (\<forall>i \<in> set (pointees (snap_Issues s)). iss_Status i \<noteq> StatusBlocked \<and> \<not> PreventsIdle (iss_Status i)))"
proof -
  have "\<forall>(k, e) \<in> set (entries (snap_Issues s)). e \<noteq> None"
    using valid_no_null [OF assms] by fastforce
  then have "prevents_idle (entries (snap_Issues s))
      = Inr (\<exists>(k, e) \<in> set (entries (snap_Issues s)). \<exists>i. e = Some i \<and> PreventsIdle (iss_Status i))"
    by (rule prevents_idle_valid)
  then have busy: "prevents_idle (entries (snap_Issues s))
      = Inr (\<exists>i \<in> set (pointees (snap_Issues s)). PreventsIdle (iss_Status i))"
  proof -
    have "(\<exists>(k, e) \<in> set (entries m). \<exists>i. e = Some i \<and> P i) \<longleftrightarrow> (\<exists>i \<in> set (pointees m). P i)" for m :: "Issue option gomap" and P
      by (force simp: pointees_entries Bex_def)
    with \<open>prevents_idle _ = _\<close> show ?thesis by simp
  qed
  show ?thesis
    by (cases "sup_State (snap_Supervisor s)")
      (auto simp: Attention_def busy Let_def filter_empty_conv SupervisorState_String_def)
qed

theorem attention_idle_exact_witness:
  "Attention (new_snapshot\<lparr>snap_Supervisor := (snap_Supervisor new_snapshot)\<lparr>sup_State := SupervisorStatePolling\<rparr>\<rparr>) True False
     = Inr (''idle'', True)"
proof -
  let ?s = "new_snapshot\<lparr>snap_Supervisor := (snap_Supervisor new_snapshot)\<lparr>sup_State := SupervisorStatePolling\<rparr>\<rparr>"
  have valid: "Snapshot_Validate ?s = None" by code_simp
  have "Requests ?s = []" "HumanNeeds ?s False = []" "entries (snap_PendingEffects ?s) = []"
    "pointees (snap_Issues ?s) = []" "sup_State (snap_Supervisor ?s) = SupervisorStatePolling"
    by code_simp+
  with attention_idle_exact [OF valid, of True False] show ?thesis by auto
qed

end
