(* ===== verification/Resolution.thy ===== *)
theory Resolution
  imports LaunchRecovery Boundaries IssuePaths
begin

text \<open>
  \<open>internal/adapter/state/issue_transition.go\<close> and \<open>input_recovery.go\<close>: the operator's resolutions
  of suspended and quarantined Issues, cancellations and answers. As for the executions, an operation
  maps the snapshot under \<open>Store.Update\<close> to an error or the changed snapshot; \<open>reflect.DeepEqual\<close> is
  equality of the data.
\<close>

section \<open>Requests\<close>

definition pending_request_for :: "int \<Rightarrow> Request \<Rightarrow> bool" where
  "pending_request_for number r \<longleftrightarrow> req_IssueNumber r = number \<and> req_Status r = RequestStatusPending"

definition has_pending_request :: "Snapshot \<Rightarrow> int \<Rightarrow> bool" where
  "has_pending_request s number \<longleftrightarrow> (\<exists>r \<in> set (pointees (snap_PendingRequests s)). pending_request_for number r)"

definition CancelPendingRequests :: "int \<Rightarrow> Snapshot \<Rightarrow> Snapshot" where
  "CancelPendingRequests issueNumber s = s\<lparr>snap_PendingRequests := map_values (\<lambda>k. map_option (\<lambda>r.
     if pending_request_for issueNumber r then r\<lparr>req_Status := RequestStatusCanceled\<rparr> else r)) (snap_PendingRequests s)\<rparr>"

definition ApplyRequestAnswer :: "Request \<Rightarrow> string \<Rightarrow> time \<Rightarrow> go_error + Request" where
  "ApplyRequestAnswer request answer now =
     and_ok (AnswerRequest (req_Status request) (req_Answer request) answer) (\<lambda>status.
       if req_Status request = status then Inr request
       else Inr (request\<lparr>req_Status := status, req_Answer := answer, req_AnsweredAt := Some (UTC now)\<rparr>))"

section \<open>Cancellations\<close>

definition legacy_cancel_version :: "Snapshot \<Rightarrow> bool" where
  "legacy_cancel_version s \<longleftrightarrow> snap_Version s = 5 \<and> snap_SemanticContractVersion s = 4
     \<and> (snap_IssueLifecycleAPIVersion s = ''2.0'' \<or> snap_IssueLifecycleAPIVersion s = ''2.1'')"

definition legacy_cancel_evidence :: "Snapshot \<Rightarrow> int \<Rightarrow> Issue \<Rightarrow> Suspension \<Rightarrow> go_error option" where
  "legacy_cancel_evidence s number item suspension = first_error
     [guard (iss_Cancellation item \<noteq> None \<or> IsZero (susp_ResolvedAt suspension) \<or> IsZero (susp_SuspendedAt suspension)
          \<or> susp_ResolvedAt suspension < susp_SuspendedAt suspension)
        [Lit ''Issue #'', Num number, Lit '' legacy cancellation evidence is incomplete or contradictory''],
      guard (snap_ActiveExecution s \<noteq> None \<or> iss_WorkerPID item \<noteq> 0 \<or> iss_WorkerPGID item \<noteq> 0)
        [Lit ''Issue #'', Num number, Lit '' legacy cancellation retains execution authority or worker identity''],
      guard (has_pending_request s number)
        [Lit ''Issue #'', Num number, Lit '' legacy cancellation has an unanswered request''],
      guard (\<exists>e \<in> set (pointees (snap_PendingEffects s)). eff_IssueNumber e = number)
        [Lit ''Issue #'', Num number, Lit '' legacy cancellation has an unfinished effect'']]"

definition MigrateLegacyCancellation :: "int \<Rightarrow> Snapshot \<Rightarrow> go_error + Snapshot" where
  "MigrateLegacyCancellation number s =
     (if \<not> legacy_cancel_version s then Inl (Errorf [Lit ''legacy cancellation requires snapshot (5,4,2.0/2.1)''])
      else case issue_at s number of None \<Rightarrow> Inl (Errorf [Lit ''Issue #'', Num number, Lit '' is missing''])
      | Some item \<Rightarrow> (case iss_Suspension item of None \<Rightarrow> Inr s
        | Some suspension \<Rightarrow>
          if \<not> resolved_cancel suspension \<or> iss_Status item = StatusCanceled then Inr s
          else case legacy_cancel_evidence s number item suspension of Some e \<Rightarrow> Inl e
          | None \<Rightarrow>
            and_ok (ResolveSuspension (iss_Status item) ResolutionCancel ContinuationStageNone) (\<lambda>transition.
            and_ok (ApplyIssueTransition (Some item) transition) (\<lambda>i.
              Inr (put_issue number (i\<lparr>iss_Cancellation := Some \<lparr>can_Source = ''legacy_cancel_migration'',
                can_GitHubStateReason = '''', can_PreviousStatus = iss_Status item,
                can_ExecutionReleaseResult = ''not_present'', can_CanceledAt = susp_ResolvedAt suspension\<rparr>\<rparr>) s)))))"

definition resolve_suspension_as :: "ResolutionAction \<Rightarrow> time \<Rightarrow> Issue \<Rightarrow> Issue" where
  "resolve_suspension_as action now i = i\<lparr>iss_Suspension := map_option (\<lambda>sp. sp\<lparr>susp_Status := SuspensionResolved,
     susp_Resolution := action, susp_ResolvedAt := now\<rparr>) (iss_Suspension i)\<rparr>"

text \<open>The checks of \<open>ApplyNotPlannedCancellation\<close> before anything is written.\<close>

definition not_planned_error :: "Snapshot \<Rightarrow> int \<Rightarrow> Issue \<Rightarrow> go_error option" where
  "not_planned_error s number item = first_error
     [guard (case snap_ActiveExecution s of None \<Rightarrow> False | Some a \<Rightarrow> act_IssueNumber a = number
          \<and> (act_RunID a \<noteq> iss_RunID item \<or> act_Generation a \<noteq> iss_Generation item))
        [Lit ''Issue #'', Num number, Lit '' cannot be canceled because execution authority ownership is inconsistent''],
      guard (iss_WorkerPID item \<noteq> 0 \<or> iss_WorkerPGID item \<noteq> 0)
        [Lit ''Issue #'', Num number, Lit '' cannot be canceled while worker process identity is present''],
      guard (has_pending_request s number)
        [Lit ''Issue #'', Num number, Lit '' cannot be canceled while an operator request is pending''],
      (case PendingEffect s number of None \<Rightarrow> None | Some effect \<Rightarrow>
        guard (eff_RunID effect \<noteq> iss_RunID item \<or> eff_Kind effect \<noteq> EffectMarkBlocked \<and> eff_Kind effect \<noteq> EffectMarkFailed)
          [Lit ''Issue #'', Num number, Lit '' cannot be canceled with pending effect '', Quo (EffectKind_String (eff_Kind effect))]),
      guard (\<not> EqualFold (iss_GitHubStateReason item) ''NOT_PLANNED'')
        [Lit ''Issue #'', Num number, Lit '' does not have authoritative NOT_PLANNED state reason'']]"

definition changed_since :: "int \<Rightarrow> Issue \<Rightarrow> Issue \<Rightarrow> bool" where
  "changed_since number expected item \<longleftrightarrow> iss_Number expected \<noteq> number \<or> iss_Status item \<noteq> iss_Status expected
     \<or> iss_RunID item \<noteq> iss_RunID expected \<or> iss_Generation item \<noteq> iss_Generation expected"

definition not_planned_record :: "time \<Rightarrow> Status \<Rightarrow> string \<Rightarrow> Issue \<Rightarrow> Issue" where
  "not_planned_record now previous releaseResult i =
     (resolve_suspension_as ResolutionCancel (UTC now) i)\<lparr>iss_Cancellation := Some \<lparr>can_Source = ''github_not_planned'',
        can_GitHubStateReason = ''NOT_PLANNED'', can_PreviousStatus = previous,
        can_ExecutionReleaseResult = releaseResult, can_CanceledAt = UTC now\<rparr>,
      iss_LastError := '''', iss_RetryAfter := None, iss_UpdatedAt := UTC now\<rparr>"

definition ApplyNotPlannedCancellation :: "int \<Rightarrow> Issue option \<Rightarrow> time \<Rightarrow> Snapshot \<Rightarrow> go_error + Snapshot \<times> string" where
  "ApplyNotPlannedCancellation number expected now s = (case expected of
     None \<Rightarrow> Inl (Errorf [Lit ''not planned cancellation requires snapshot, expected Issue, and time''])
   | Some expected \<Rightarrow>
     if IsZero now then Inl (Errorf [Lit ''not planned cancellation requires snapshot, expected Issue, and time''])
     else case issue_at s number of
       None \<Rightarrow> Inl (Errorf [Lit ''Issue #'', Num number, Lit '' changed before not planned cancellation''])
     | Some item \<Rightarrow>
       if changed_since number expected item
       then Inl (Errorf [Lit ''Issue #'', Num number, Lit '' changed before not planned cancellation''])
       else case not_planned_error s number item of Some e \<Rightarrow> Inl e
       | None \<Rightarrow>
         and_ok (ReconcileObservation (iss_Status item) StatusCanceled) (\<lambda>transition.
         let owned = (case snap_ActiveExecution s of None \<Rightarrow> False | Some a \<Rightarrow> act_IssueNumber a = number) in
         and_ok (if owned then ReleaseExecution number \<lparr>exi_RunID = iss_RunID item, exi_Generation = iss_Generation item\<rparr> s
                 else Inr s) (\<lambda>s1.
         let s2 = (if PendingEffect s number \<noteq> None
                   then s1\<lparr>snap_PendingEffects := mdelete (Itoa number) (snap_PendingEffects s1)\<rparr> else s1);
             releaseResult = (if owned then ''released'' else ''not_present'') in
         and_ok (ApplyIssueTransition (map_option (\<lambda>i. i\<lparr>iss_GitHubStateReason := ''NOT_PLANNED''\<rparr>) (issue_at s2 number)) transition)
           (\<lambda>i. Inr (put_issue number (not_planned_record now (iss_Status item) releaseResult i) s2, releaseResult)))))"

definition quarantine_base :: "int \<Rightarrow> QuarantineRecord \<Rightarrow> Issue" where
  "quarantine_base number record =
     (let item = zero_Issue\<lparr>iss_Number := number, iss_RunID := qr_RunID record, iss_Generation := qr_Generation record,
            iss_Status := StatusBlocked\<rparr>
      in case qr_LastValid record of None \<Rightarrow> item
      | Some saved \<Rightarrow> item\<lparr>iss_Title := iss_Title saved, iss_Branch := iss_Branch saved, iss_Worktree := iss_Worktree saved,
          iss_Workspace := iss_Workspace saved, iss_Session := iss_Session saved, iss_SessionID := iss_SessionID saved,
          iss_Answers := iss_Answers saved, iss_Attempts := iss_Attempts saved, iss_Continuations := iss_Continuations saved,
          iss_ExecutionProfile := iss_ExecutionProfile saved, iss_WorkerIdentity := iss_WorkerIdentity saved,
          iss_PullRequestURL := iss_PullRequestURL saved, iss_PullRequestNumber := iss_PullRequestNumber saved,
          iss_HeadSHA := iss_HeadSHA saved, iss_PullRequestMerged := iss_PullRequestMerged saved\<rparr>)"

definition CancelQuarantinedIssue :: "int \<Rightarrow> time \<Rightarrow> Snapshot \<Rightarrow> go_error + Snapshot" where
  "CancelQuarantinedIssue number now s = (case ptr_at (snap_QuarantinedIssues s) (Itoa number) of
     None \<Rightarrow> Inl (Errorf [Lit ''Issue #'', Num number, Lit '' quarantine is unavailable''])
   | Some record \<Rightarrow>
     if issue_at s number \<noteq> None \<or> IsZero now
     then Inl (Errorf [Lit ''Issue #'', Num number, Lit '' quarantine is unavailable''])
     else if (case snap_ActiveExecution s of None \<Rightarrow> False | Some a \<Rightarrow> act_IssueNumber a = number)
     then Inl (Errorf [Lit ''Issue #'', Num number, Lit '' quarantine retains execution authority''])
     else
       and_ok (ResolveSuspension StatusBlocked ResolutionCancel ContinuationStageNone) (\<lambda>transition.
       and_ok (ApplyIssueTransition (Some (quarantine_base number record)) transition) (\<lambda>i.
       and_ok (massign (Itoa number) (Some (i\<lparr>iss_Cancellation := Some \<lparr>can_Source = ''operator_quarantine_resolution'',
            can_GitHubStateReason = '''', can_PreviousStatus = StatusBlocked, can_ExecutionReleaseResult = ''not_present'',
            can_CanceledAt = now\<rparr>, iss_UpdatedAt := now\<rparr>)) (snap_Issues s)) (\<lambda>issues.
         Inr (s\<lparr>snap_Issues := issues,
                snap_QuarantinedIssues := mdelete (Itoa number) (snap_QuarantinedIssues s)\<rparr>)))))"

section \<open>Rejected inputs and checks\<close>

definition input_provenance_broken :: "QuarantineRecord \<Rightarrow> Issue \<Rightarrow> ContinuationCheckpoint \<Rightarrow> Suspension \<Rightarrow> Request \<Rightarrow> bool" where
  "input_provenance_broken q item c suspension r \<longleftrightarrow> iss_Status item \<noteq> StatusRunning
     \<or> iss_Number item \<noteq> qr_IssueNumber q \<or> iss_RunID item \<noteq> qr_RunID q \<or> iss_Generation item \<noteq> qr_Generation q
     \<or> susp_Status suspension \<noteq> SuspensionResolved \<or> susp_CheckpointID suspension \<noteq> ckpt_ID c
     \<or> req_IssueNumber r \<noteq> iss_Number item \<or> req_RunID r \<noteq> iss_RunID item
     \<or> (case req_ReleasedExecution r of None \<Rightarrow> True
        | Some e \<Rightarrow> exi_RunID e \<noteq> iss_RunID item \<or> exi_Generation e \<noteq> iss_Generation item)
     \<or> \<not> ValidID (req_ID r) ''req_'' \<or> \<not> ValidID (req_CheckpointID r) ''checkpoint_'' \<or> req_CheckpointID r = ckpt_ID c
     \<or> IsZero (req_CreatedAt r) \<or> (req_Status r \<noteq> RequestStatusPending \<and> req_Status r \<noteq> RequestStatusAnswered)
     \<or> (case iss_Session item of None \<Rightarrow> True | Some ses \<Rightarrow> ses_ID ses = '''') \<or> iss_Session item \<noteq> ckpt_Session c
     \<or> iss_Workspace item = None \<or> iss_Workspace item \<noteq> ckpt_Workspace c \<or> iss_ConflictRecovery item \<noteq> None
     \<or> iss_PullRequestURL item \<noteq> '''' \<or> iss_PullRequestNumber item \<noteq> 0 \<or> ckpt_BaseSHA c = ''''"

definition InputRecoveryCandidate :: "QuarantineRecord option \<Rightarrow> go_error + Issue" where
  "InputRecoveryCandidate record = (case record of
     None \<Rightarrow> Inl (Errorf [Lit ''quarantine is not a single rejected input boundary''])
   | Some q \<Rightarrow> (case (qr_LastValid q, qr_Requests q) of
       (Some item, [request]) \<Rightarrow>
         if qr_ReasonCode q \<noteq> ''issue_invariant_violation'' \<or> qr_RejectedStatus q \<noteq> StatusNeedsInput
         then Inl (Errorf [Lit ''quarantine is not a single rejected input boundary''])
         else (case (request, iss_Continuation item, iss_Suspension item) of
             (Some r, Some c, Some suspension) \<Rightarrow>
               if input_provenance_broken q item c suspension r
               then Inl (Errorf [Lit ''rejected input provenance is incomplete or inconsistent'']) else Inr item
           | _ \<Rightarrow> Inl (Errorf [Lit ''rejected input provenance is incomplete or inconsistent'']))
     | _ \<Rightarrow> Inl (Errorf [Lit ''quarantine is not a single rejected input boundary''])))"

definition checks_provenance_broken :: "QuarantineRecord \<Rightarrow> Issue \<Rightarrow> ContinuationCheckpoint \<Rightarrow> bool" where
  "checks_provenance_broken q item c \<longleftrightarrow> ckpt_Kind c \<noteq> ContinuationKindNeedsInput \<or> ckpt_RequestID c = ''''
     \<or> ckpt_RunID c \<noteq> iss_RunID item \<or> ckpt_Generation c \<noteq> iss_Generation item \<or> ckpt_BaseSHA c = ''''
     \<or> ckpt_PullRequestURL c \<noteq> iss_PullRequestURL item \<or> ckpt_PullRequestNumber c \<noteq> iss_PullRequestNumber item
     \<or> ckpt_Stage c \<noteq> ContinuationStageResume
     \<or> (case iss_Session item of None \<Rightarrow> True | Some ses \<Rightarrow> ses_ID ses = '''' \<or> iss_SessionID item \<noteq> ses_ID ses)
     \<or> iss_Session item \<noteq> ckpt_Session c \<or> iss_Workspace item = None \<or> iss_Workspace item \<noteq> ckpt_Workspace c"

definition checks_issue_broken :: "QuarantineRecord \<Rightarrow> Issue \<Rightarrow> bool" where
  "checks_issue_broken q item \<longleftrightarrow> iss_Status item \<noteq> StatusRetryWait \<or> iss_Number item \<noteq> qr_IssueNumber q
     \<or> iss_RunID item \<noteq> qr_RunID q \<or> iss_Generation item = 0 \<or> iss_Generation item + 1 \<noteq> qr_Generation q
     \<or> iss_WorkerPID item \<noteq> 0 \<or> iss_WorkerPGID item \<noteq> 0 \<or> iss_Suspension item \<noteq> None
     \<or> iss_ConflictRecovery item \<noteq> None \<or> iss_PullRequestURL item = '''' \<or> iss_PullRequestNumber item \<le> 0
     \<or> iss_HeadSHA item = '''' \<or> iss_PullRequestMerged item
     \<or> (case iss_Continuation item of None \<Rightarrow> True | Some c \<Rightarrow> checks_provenance_broken q item c)"

definition checks_request_broken :: "Issue \<Rightarrow> Request \<Rightarrow> bool" where
  "checks_request_broken item r \<longleftrightarrow> req_IssueNumber r \<noteq> iss_Number item \<or> req_RunID r \<noteq> iss_RunID item
     \<or> req_Status r \<noteq> RequestStatusAnswered \<or> req_Answer r = ''''
     \<or> (case req_AnsweredAt r of None \<Rightarrow> True | Some t \<Rightarrow> IsZero t)"

definition checks_receipts :: "Issue \<Rightarrow> Request \<Rightarrow> nat" where
  "checks_receipts item r = length (filter (\<lambda>answer. ans_RequestID answer = req_ID r \<and> ans_Question answer = req_Question r
     \<and> ans_Answer answer = req_Answer r \<and> req_AnsweredAt r = Some (ans_AnsweredAt answer)) (iss_Answers item))"

definition checks_follow_broken :: "Issue \<Rightarrow> ContinuationCheckpoint \<Rightarrow> Request \<Rightarrow> bool" where
  "checks_follow_broken item c r \<longleftrightarrow> req_CheckpointID r \<noteq> ckpt_ID c \<or> (case req_ReleasedExecution r of None \<Rightarrow> True
     | Some e \<Rightarrow> exi_RunID e \<noteq> iss_RunID item \<or> exi_Generation e + 1 \<noteq> iss_Generation item)"

fun checks_requests :: "Issue \<Rightarrow> ContinuationCheckpoint \<Rightarrow> bool \<Rightarrow> Request option list \<Rightarrow> go_error + bool" where
  "checks_requests item c found [] = Inr found"
| "checks_requests item c found (None # rs) = Inl (Errorf [Lit ''checks retry contains an unresolved or inconsistent request''])"
| "checks_requests item c found (Some r # rs) =
     (if checks_request_broken item r
      then Inl (Errorf [Lit ''checks retry contains an unresolved or inconsistent request''])
      else if checks_receipts item r \<noteq> 1
      then Inl (Errorf [Lit ''checks retry answer receipt does not match its history''])
      else if req_ID r = ckpt_RequestID c then
        (if found \<or> checks_follow_broken item c r
         then Inl (Errorf [Lit ''checks retry does not follow the answered execution''])
         else checks_requests item c True rs)
      else checks_requests item c found rs)"

definition AnsweredChecksRecoveryCandidate :: "QuarantineRecord option \<Rightarrow> go_error + Issue" where
  "AnsweredChecksRecoveryCandidate record = (case record of
     None \<Rightarrow> Inl (Errorf [Lit ''quarantine is not a rejected checks retry''])
   | Some q \<Rightarrow> (case qr_LastValid q of
       None \<Rightarrow> Inl (Errorf [Lit ''quarantine is not a rejected checks retry''])
     | Some item \<Rightarrow>
       if qr_ReasonCode q \<noteq> ''issue_invariant_violation'' \<or> qr_RejectedStatus q \<noteq> StatusLaunching
       then Inl (Errorf [Lit ''quarantine is not a rejected checks retry''])
       else if checks_issue_broken q item
       then Inl (Errorf [Lit ''answered checks retry provenance is incomplete or inconsistent''])
       else (case iss_Continuation item of None \<Rightarrow> Inl NilPointerPanic
         | Some c \<Rightarrow> and_ok (checks_requests item c False (qr_Requests q)) (\<lambda>found.
             if found then Inr item else Inl (Errorf [Lit ''checks retry has no matching answered request''])))))"

definition restored_input :: "Issue \<Rightarrow> Request \<Rightarrow> string \<Rightarrow> string \<Rightarrow> Issue" where
  "restored_input item r head' digest =
     item\<lparr>iss_Suspension := None, iss_WorkerPID := 0, iss_WorkerPGID := 0,
       iss_Continuation := Some ((empty_checkpoint (req_CheckpointID r))\<lparr>ckpt_CreatedAt := req_CreatedAt r,
         ckpt_RunID := iss_RunID item, ckpt_Generation := iss_Generation item,
         ckpt_BaseSHA := (case iss_Continuation item of None \<Rightarrow> '''' | Some c \<Rightarrow> ckpt_BaseSHA c),
         ckpt_Workspace := iss_Workspace item, ckpt_Session := iss_Session item, ckpt_HeadSHA := head',
         ckpt_WorktreeSHA256 := digest, ckpt_Kind := ContinuationKindNeedsInput, ckpt_RequestID := req_ID r,
         ckpt_Stage := ContinuationStageResume\<rparr>)\<rparr>"

definition RestoreInput :: "int \<Rightarrow> string \<Rightarrow> string \<Rightarrow> time \<Rightarrow> Snapshot \<Rightarrow> go_error + Snapshot" where
  "RestoreInput number head' digest now s =
     (let q = ptr_at (snap_QuarantinedIssues s) (Itoa number) in
      and_ok (InputRecoveryCandidate q) (\<lambda>item.
      if issue_at s number \<noteq> None \<or> snap_ActiveExecution s \<noteq> None \<or> head' = '''' \<or> digest = '''' \<or> IsZero now
      then Inl (Errorf [Lit ''input recovery boundary changed''])
      else case map_option qr_Requests q of
        Some (Some r # _) \<Rightarrow>
          if ptr_at (snap_PendingRequests s) (req_ID r) \<noteq> None then Inl (Errorf [Lit ''input request ID already exists''])
          else
          and_ok (RestoreRejectedInput (iss_Status item)) (\<lambda>transition.
          and_ok (ApplyIssueTransition (Some (restored_input item r head' digest)) transition) (\<lambda>i.
          and_ok (massign (Itoa number) (Some (i\<lparr>iss_LastError := '''', iss_FailureKind := '''', iss_RetryAfter := None,
              iss_UpdatedAt := UTC now\<rparr>)) (snap_Issues s)) (\<lambda>issues.
          and_ok (massign (req_ID r) (Some r) (snap_PendingRequests s)) (\<lambda>requests.
            Inr (s\<lparr>snap_Issues := issues, snap_PendingRequests := requests,
                   snap_QuarantinedIssues := mdelete (Itoa number) (snap_QuarantinedIssues s)\<rparr>)))))
      | _ \<Rightarrow> Inl NilPointerPanic))"

text \<open>The last loop assigns every quarantined request; the candidate check has excluded nil entries.\<close>

fun restore_requests :: "Request option list \<Rightarrow> Request option gomap \<Rightarrow> go_error + Request option gomap" where
  "restore_requests [] m = Inr m"
| "restore_requests (None # rs) m = Inl NilPointerPanic"
| "restore_requests (Some r # rs) m = and_ok (massign (req_ID r) (Some r) m) (restore_requests rs)"

definition request_exists :: "Request option gomap \<Rightarrow> Request option list \<Rightarrow> bool" where
  "request_exists m rs \<longleftrightarrow> (\<exists>r \<in> set (List.map_filter (\<lambda>r. r) rs). ptr_at m (req_ID r) \<noteq> None)"

definition restored_checks :: "Entropy \<Rightarrow> Issue \<Rightarrow> string \<Rightarrow> string \<Rightarrow> time \<Rightarrow> Issue" where
  "restored_checks entropy item head' digest now =
     item\<lparr>iss_Continuation := Some ((empty_checkpoint (NewID ''checkpoint'' entropy))\<lparr>ckpt_CreatedAt := UTC now,
         ckpt_RunID := iss_RunID item, ckpt_Generation := iss_Generation item,
         ckpt_BaseSHA := (case iss_Continuation item of None \<Rightarrow> '''' | Some c \<Rightarrow> ckpt_BaseSHA c),
         ckpt_Workspace := iss_Workspace item, ckpt_Session := iss_Session item, ckpt_HeadSHA := head',
         ckpt_WorktreeSHA256 := digest, ckpt_PullRequestURL := iss_PullRequestURL item,
         ckpt_PullRequestNumber := iss_PullRequestNumber item, ckpt_Stage := ContinuationStageChecks\<rparr>)\<rparr>"

definition RestoreAnsweredChecks :: "Entropy \<Rightarrow> int \<Rightarrow> string \<Rightarrow> string \<Rightarrow> time \<Rightarrow> Snapshot \<Rightarrow> go_error + Snapshot" where
  "RestoreAnsweredChecks entropy number head' digest now s =
     (let q = ptr_at (snap_QuarantinedIssues s) (Itoa number);
          requests = (case q of None \<Rightarrow> [] | Some record \<Rightarrow> qr_Requests record) in
      and_ok (AnsweredChecksRecoveryCandidate q) (\<lambda>item.
      if issue_at s number \<noteq> None \<or> snap_ActiveExecution s \<noteq> None \<or> head' = '''' \<or> \<not> ValidSHA256 digest \<or> IsZero now
      then Inl (Errorf [Lit ''checks recovery boundary changed''])
      else if request_exists (snap_PendingRequests s) requests
      then Inl (Errorf [Lit ''checks request ID already exists''])
      else
        and_ok (RestoreRejectedChecks (iss_Status item)) (\<lambda>transition.
        and_ok (ApplyIssueTransition (Some (restored_checks entropy item head' digest now)) transition) (\<lambda>i.
        and_ok (massign (Itoa number) (Some (i\<lparr>iss_RetryAfter := None, iss_UpdatedAt := UTC now\<rparr>)) (snap_Issues s)) (\<lambda>issues.
        and_ok (restore_requests requests (snap_PendingRequests s)) (\<lambda>m.
          Inr (s\<lparr>snap_Issues := issues, snap_PendingRequests := m,
                 snap_QuarantinedIssues := mdelete (Itoa number) (snap_QuarantinedIssues s)\<rparr>)))))))"

section \<open>Operator resolutions\<close>

definition CanAdoptHead :: "Issue \<Rightarrow> bool" where
  "CanAdoptHead item = (case (iss_Continuation item, iss_Suspension item) of
     (Some c, Some sp) \<Rightarrow>
       (iss_Status item = StatusBlocked \<or> iss_Status item = StatusFailed) \<and> susp_Status sp = SuspensionActive
       \<and> susp_Origin sp = ''worker'' \<and> ResolutionResume \<in> set (susp_AllowedActions sp)
       \<and> susp_CheckpointID sp = ckpt_ID c \<and> ckpt_RunID c = iss_RunID item \<and> ckpt_Generation c = iss_Generation item
       \<and> ckpt_Stage c = ContinuationStageResume \<and> ckpt_HeadSHA c = '''' \<and> ckpt_WorktreeSHA256 c \<noteq> ''''
       \<and> (case ckpt_Session c of None \<Rightarrow> False | Some ses \<Rightarrow> ses_ID ses \<noteq> '''')
       \<and> ckpt_Workspace c \<noteq> None \<and> ckpt_Workspace c = iss_Workspace item
       \<and> iss_WorkerPID item = 0 \<and> iss_WorkerPGID item = 0 \<and> iss_ConflictRecovery item = None
       \<and> iss_PullRequestURL item = '''' \<and> iss_PullRequestNumber item = 0
       \<and> ckpt_PullRequestURL c = '''' \<and> ckpt_PullRequestNumber c = 0
   | _ \<Rightarrow> False)"

definition CanAdoptWorktree :: "Issue \<Rightarrow> bool" where
  "CanAdoptWorktree item = ((iss_Status item = StatusBlocked \<or> iss_Status item = StatusFailed)
     \<and> iss_ConflictRecovery item \<noteq> None \<and> (case (iss_Continuation item, iss_Suspension item) of
       (Some c, Some sp) \<Rightarrow> ckpt_WorktreeSHA256 c = '''' \<and> susp_Status sp = SuspensionQuarantined
         \<and> susp_Recoverability sp = RecoverabilityAmbiguous \<and> susp_CheckpointID sp = ckpt_ID c
         \<and> susp_MissingEvidence sp = [''worktree_sha256''] \<and> susp_AllowedActions sp = [ResolutionCancel]
     | _ \<Rightarrow> False))"

definition CanApproveConflictPaths :: "Issue \<Rightarrow> bool" where
  "CanApproveConflictPaths item = (case (iss_Continuation item, iss_Suspension item, iss_ConflictRecovery item) of
     (Some c, Some sp, Some r) \<Rightarrow> iss_Workspace item \<noteq> None
       \<and> ApproveConflictPaths (iss_Status item) (susp_Status sp) (susp_Recoverability sp) (ckpt_Stage c)
           (ResolutionRetryStage \<in> set (susp_AllowedActions sp)) = None
       \<and> iss_RunID item \<noteq> '''' \<and> ckpt_RunID c = iss_RunID item \<and> ckpt_Generation c \<noteq> 0
       \<and> ckpt_Generation c = iss_Generation item \<and> susp_ID sp \<noteq> '''' \<and> ckpt_ID c \<noteq> ''''
       \<and> susp_CheckpointID sp = ckpt_ID c \<and> susp_MissingEvidence sp = []
       \<and> ValidSHA256 (ckpt_WorktreeSHA256 c) \<and> ckpt_HeadSHA c \<noteq> '''' \<and> ckpt_HeadSHA c = iss_HeadSHA item
       \<and> cr_OriginalHeadSHA r = ckpt_HeadSHA c \<and> cr_TargetBaseSHA r \<noteq> '''' \<and> cr_AllowedPaths r \<noteq> []
       \<and> ckpt_BaseSHA c \<noteq> '''' \<and> iss_PullRequestNumber item > 0
       \<and> ckpt_PullRequestNumber c = iss_PullRequestNumber item \<and> iss_PullRequestURL item \<noteq> ''''
       \<and> ckpt_PullRequestURL c = iss_PullRequestURL item \<and> cr_PullRequestURL r = iss_PullRequestURL item
       \<and> ckpt_Workspace c = iss_Workspace item \<and> iss_WorkerPID item = 0 \<and> iss_WorkerPGID item = 0
   | _ \<Rightarrow> False)"

record OperatorResolutionObservation =
  oro_HeadSHA :: string
  oro_WorktreeSHA256 :: string
  oro_AllowedPaths :: "string list"
  oro_ResultSummary :: string
  oro_ResultSHA256 :: string
  oro_RepairPublicationHead :: bool
  oro_PullRequestURL :: string
  oro_PullRequestNumber :: int
  oro_GitHubStateReason :: string

text \<open>\<open>append\<close>, \<open>slices.Sort\<close> and \<open>slices.Compact\<close> on the allowed paths.\<close>

definition allow_paths :: "string list \<Rightarrow> Issue \<Rightarrow> Issue" where
  "allow_paths paths item = item\<lparr>iss_ConflictRecovery := map_option (\<lambda>r. r\<lparr>cr_AllowedPaths :=
     remdups_adj (sort (cr_AllowedPaths r @ paths))\<rparr>) (iss_ConflictRecovery item)\<rparr>"

definition approve_paths :: "int \<Rightarrow> OperatorResolutionObservation \<Rightarrow> Issue \<Rightarrow> Snapshot \<Rightarrow> go_error + Snapshot" where
  "approve_paths number observed item s =
     (if \<not> CanApproveConflictPaths item \<or> oro_HeadSHA observed \<noteq> iss_HeadSHA item
        \<or> (case iss_Continuation item of None \<Rightarrow> True | Some c \<Rightarrow> oro_WorktreeSHA256 observed \<noteq> ckpt_WorktreeSHA256 c)
        \<or> oro_AllowedPaths observed = []
      then Inl (Errorf [Lit ''Issue #'', Num number, Lit '' conflict path approval evidence is inconsistent''])
      else if has_pending_request s number
      then Inl (Errorf [Lit ''Issue #'', Num number, Lit '' has a pending request''])
      else case ValidateConflictApprovalPaths (oro_AllowedPaths observed) of Some e \<Rightarrow> Inl e
      | None \<Rightarrow> Inr (put_issue number (allow_paths (oro_AllowedPaths observed) item) s))"

definition continuation_consistent :: "Issue \<Rightarrow> ContinuationCheckpoint \<Rightarrow> bool" where
  "continuation_consistent item c \<longleftrightarrow> ckpt_RunID c = iss_RunID item \<and> ckpt_Generation c \<noteq> 0
     \<and> \<not> ckpt_Generation c > iss_Generation item"

text \<open>The first half for the two adoptions of a checkpoint: the adopted stage.\<close>

definition adoption_check ::
  "int \<Rightarrow> ResolutionAction \<Rightarrow> OperatorResolutionObservation \<Rightarrow> Issue \<Rightarrow> Suspension \<Rightarrow> go_error + ContinuationStage" where
  "adoption_check number action observed item sp =
     (if action = ResolutionAdoptHead \<and> (\<not> CanAdoptHead item \<or> oro_HeadSHA observed = '''')
        \<or> action = ResolutionAdoptWorktree \<and> (\<not> CanAdoptWorktree item \<or> \<not> ValidSHA256 (oro_WorktreeSHA256 observed))
      then Inl (Errorf [Lit ''Issue #'', Num number, Lit '' checkpoint adoption evidence is inconsistent''])
      else case iss_Continuation item of None \<Rightarrow> Inl NilPointerPanic
      | Some c \<Rightarrow>
        if \<not> continuation_consistent item c
        then Inl (Errorf [Lit ''Issue #'', Num number, Lit '' continuation identity is inconsistent''])
        else AdoptCheckpoint (iss_Status item) (susp_Status sp) (ckpt_Stage c) action)"

definition checkpoint_stage :: "Issue \<Rightarrow> ContinuationStage" where
  "checkpoint_stage item = (case iss_Continuation item of None \<Rightarrow> ContinuationStageNone | Some c \<Rightarrow> ckpt_Stage c)"

text \<open>The first half for every other action.\<close>

definition resolution_check ::
  "int \<Rightarrow> ResolutionAction \<Rightarrow> OperatorResolutionObservation \<Rightarrow> Issue \<Rightarrow> Suspension \<Rightarrow> go_error option" where
  "resolution_check number action observed item sp =
     (if action \<notin> set (susp_AllowedActions sp) \<or>
        (susp_Status sp \<noteq> SuspensionActive \<and> \<not> (susp_Status sp = SuspensionQuarantined \<and> action = ResolutionCancel))
      then Some (Errorf [Lit ''Issue #'', Num number, Lit '' action is not allowed by suspension''])
      else case ResolveSuspension (iss_Status item) action (checkpoint_stage item) of Inl e \<Rightarrow> Some e
      | Inr _ \<Rightarrow>
        if action \<noteq> ResolutionResume \<and> action \<noteq> ResolutionRetryStage then None
        else first_error
          [guard (case iss_Continuation item of None \<Rightarrow> True
               | Some c \<Rightarrow> susp_CheckpointID sp \<noteq> ckpt_ID c \<or> \<not> continuation_consistent item c)
             [Lit ''Issue #'', Num number, Lit '' continuation identity is inconsistent''],
           guard (action = ResolutionRetryStage \<and> checkpoint_stage item = ContinuationStagePublish
               \<and> (oro_ResultSummary observed = '''' \<or> \<not> ValidSHA256 (oro_ResultSHA256 observed)
                  \<or> oro_RepairPublicationHead observed \<and> oro_HeadSHA observed = ''''))
             [Lit ''Issue #'', Num number, Lit '' publication evidence is incomplete''],
           guard (action = ResolutionRetryStage \<and> checkpoint_stage item = ContinuationStageChecks
               \<and> (oro_HeadSHA observed = '''' \<or> oro_PullRequestNumber observed \<le> 0))
             [Lit ''Issue #'', Num number, Lit '' checks Pull Request identity is incomplete'']])"

definition adopt_worktree :: "OperatorResolutionObservation \<Rightarrow> ContinuationStage \<Rightarrow> Issue \<Rightarrow> Issue" where
  "adopt_worktree observed stage item = allow_paths (oro_AllowedPaths observed)
     (item\<lparr>iss_Continuation := map_option (\<lambda>c. c\<lparr>ckpt_WorktreeSHA256 := oro_WorktreeSHA256 observed, ckpt_Stage := stage\<rparr>)
        (iss_Continuation item),
      iss_Suspension := map_option (\<lambda>sp. sp\<lparr>susp_Status := SuspensionActive, susp_Recoverability := RecoverabilityOperator,
        susp_MissingEvidence := [], susp_AllowedActions := [ResolutionCancel, ResolutionRetryStage]\<rparr>) (iss_Suspension item)\<rparr>)"

definition adopt_head :: "OperatorResolutionObservation \<Rightarrow> Issue \<Rightarrow> Issue" where
  "adopt_head observed item = item\<lparr>iss_Continuation := map_option (\<lambda>c. c\<lparr>ckpt_HeadSHA := oro_HeadSHA observed\<rparr>)
     (iss_Continuation item)\<rparr>"

text \<open>What a retry writes to the record before the execution is resumed.\<close>

definition prepare_retry :: "ResolutionAction \<Rightarrow> OperatorResolutionObservation \<Rightarrow> time \<Rightarrow> Issue \<Rightarrow> Issue" where
  "prepare_retry action observed now item =
     (let item = (if action = ResolutionRetryStage
            then item\<lparr>iss_ConflictRecovery := map_option (\<lambda>r. r\<lparr>cr_Attempts := 0, cr_UpdatedAt := now\<rparr>) (iss_ConflictRecovery item)\<rparr>
            else item)
      in if action = ResolutionRetryStage \<and> checkpoint_stage item = ContinuationStagePublish
         then item\<lparr>iss_Continuation := map_option (\<lambda>c. c\<lparr>
                ckpt_HeadSHA := (if oro_RepairPublicationHead observed then oro_HeadSHA observed else ckpt_HeadSHA c),
                ckpt_Summary := oro_ResultSummary observed, ckpt_ResultSHA256 := oro_ResultSHA256 observed\<rparr>) (iss_Continuation item)\<rparr>
         else item)"

definition refresh_checks :: "ResolutionAction \<Rightarrow> OperatorResolutionObservation \<Rightarrow> Issue \<Rightarrow> Issue" where
  "refresh_checks action observed i =
     (if action = ResolutionRetryStage \<and> checkpoint_stage i = ContinuationStageChecks
      then i\<lparr>iss_HeadSHA := oro_HeadSHA observed, iss_PullRequestNumber := oro_PullRequestNumber observed\<rparr> else i)"

definition resume_suspended ::
  "Entropy \<Rightarrow> int \<Rightarrow> ResolutionAction \<Rightarrow> OperatorResolutionObservation \<Rightarrow> time \<Rightarrow> Issue \<Rightarrow> Snapshot \<Rightarrow> go_error + Snapshot" where
  "resume_suspended entropy number action observed now item s =
     (let item = prepare_retry action observed now item in
      case iss_Continuation item of None \<Rightarrow> Inl NilPointerPanic
      | Some c \<Rightarrow>
        and_ok (ResumeContinuation number (ckpt_ID c) now (put_issue number item s)) (\<lambda>(s, identity).
        and_ok (ResolveSuspension (iss_Status item) action (ckpt_Stage c)) (\<lambda>transition.
        and_ok (ApplyIssueTransition (issue_at s number) transition) (\<lambda>i.
          SetEffect entropy number (iss_RunID i) EffectApplyResolution now
            (put_issue number (refresh_checks action observed i) s)))))"

definition adopt_pull_request ::
  "Entropy \<Rightarrow> int \<Rightarrow> OperatorResolutionObservation \<Rightarrow> time \<Rightarrow> Issue \<Rightarrow> Snapshot \<Rightarrow> go_error + Snapshot" where
  "adopt_pull_request entropy number observed now item s =
     (if oro_PullRequestURL observed = '''' \<or> oro_PullRequestNumber observed \<le> 0 \<or> oro_HeadSHA observed = ''''
      then Inl (Errorf [Lit ''Issue #'', Num number, Lit '' matching merged Pull Request changed after planning''])
      else
        and_ok (ResolveSuspension (iss_Status item) ResolutionAdoptPR ContinuationStageNone) (\<lambda>transition.
        and_ok (SetEffect entropy number (iss_RunID item) EffectMarkDone now s) (\<lambda>s.
        and_ok (ApplyIssueTransition (Some (resolve_suspension_as ResolutionAdoptPR now
            (item\<lparr>iss_PullRequestURL := oro_PullRequestURL observed, iss_PullRequestNumber := oro_PullRequestNumber observed,
               iss_HeadSHA := oro_HeadSHA observed, iss_PullRequestMerged := True\<rparr>))) transition) (\<lambda>i.
          Inr (put_issue number i s)))))"

definition cancel_suspended ::
  "Entropy \<Rightarrow> int \<Rightarrow> ResolutionAction \<Rightarrow> OperatorResolutionObservation \<Rightarrow> time \<Rightarrow> Issue \<Rightarrow> Snapshot \<Rightarrow> go_error + Snapshot" where
  "cancel_suspended entropy number action observed now item s =
     and_ok (ResolveSuspension (iss_Status item) action ContinuationStageNone) (\<lambda>transition.
     and_ok (ApplyIssueTransition (Some item) transition) (\<lambda>i.
     and_ok (SetEffect entropy number (iss_RunID i) EffectNone now (CancelPendingRequests number s)) (\<lambda>s.
       Inr (put_issue number (i\<lparr>iss_Cancellation := Some \<lparr>can_Source = ''operator_resolution'',
           can_GitHubStateReason = oro_GitHubStateReason observed, can_PreviousStatus = iss_Status item,
           can_ExecutionReleaseResult = ''not_present'', can_CanceledAt = now\<rparr>,
         iss_GitHubStateReason := oro_GitHubStateReason observed\<rparr>) s))))"

text \<open>The last statements: the suspension is resolved unless a checkpoint was adopted.\<close>

definition stamp_resolution :: "int \<Rightarrow> ResolutionAction \<Rightarrow> time \<Rightarrow> Snapshot \<Rightarrow> Snapshot" where
  "stamp_resolution number action now s = modify_issue number (\<lambda>i.
     (if action \<noteq> ResolutionAdoptWorktree \<and> action \<noteq> ResolutionAdoptHead then resolve_suspension_as action now i else i)
     \<lparr>iss_UpdatedAt := now\<rparr>) s"

definition apply_resolution ::
  "Entropy \<Rightarrow> int \<Rightarrow> ResolutionAction \<Rightarrow> OperatorResolutionObservation \<Rightarrow> time \<Rightarrow> Issue \<Rightarrow> Suspension \<Rightarrow> Snapshot
     \<Rightarrow> go_error + Snapshot" where
  "apply_resolution entropy number action observed now item sp s =
     (if action = ResolutionAdoptHead \<or> action = ResolutionAdoptWorktree then
        and_ok (adoption_check number action observed item sp) (\<lambda>stage.
          Inr (put_issue number (if action = ResolutionAdoptHead then adopt_head observed item
                                 else adopt_worktree observed stage item) s))
      else case resolution_check number action observed item sp of Some e \<Rightarrow> Inl e
      | None \<Rightarrow>
        if action = ResolutionResume \<or> action = ResolutionRetryStage
        then resume_suspended entropy number action observed now item s
        else if action = ResolutionAdoptPR then adopt_pull_request entropy number observed now item s
        else cancel_suspended entropy number action observed now item s)"

definition ResolveOperatorSuspension ::
  "Entropy \<Rightarrow> int \<Rightarrow> ResolutionAction \<Rightarrow> OperatorResolutionObservation \<Rightarrow> time \<Rightarrow> Snapshot \<Rightarrow> go_error + Snapshot" where
  "ResolveOperatorSuspension entropy number action observed now s =
     (if IsZero now then Inl (Errorf [Lit ''operator resolution requires snapshot and time''])
      else case issue_at s number of
        None \<Rightarrow> Inl (Errorf [Lit ''Issue #'', Num number, Lit '' suspension is unavailable or retains worker identity''])
      | Some item \<Rightarrow> (case iss_Suspension item of
          None \<Rightarrow> Inl (Errorf [Lit ''Issue #'', Num number, Lit '' suspension is unavailable or retains worker identity''])
        | Some sp \<Rightarrow>
          if iss_Number item \<noteq> number \<or> iss_RunID item = '''' \<or> iss_WorkerPID item \<noteq> 0 \<or> iss_WorkerPGID item \<noteq> 0
          then Inl (Errorf [Lit ''Issue #'', Num number, Lit '' suspension is unavailable or retains worker identity''])
          else if (case snap_ActiveExecution s of None \<Rightarrow> False
            | Some a \<Rightarrow> action \<noteq> ResolutionCancel \<and> action \<noteq> ResolutionAdoptPR \<or> act_IssueNumber a = number)
          then Inl (Errorf [Lit ''Issue #'', Num number, Lit '' execution slot changed''])
          else if action = ResolutionApproveConflictPaths then approve_paths number observed item s
          else and_ok (apply_resolution entropy number action observed now item sp s) (\<lambda>s.
                 Inr (stamp_resolution number action now s))))"

section \<open>Operations on one Issue\<close>

text \<open>What an operation on Issue \<open>n\<close> leaves alone: the repository identity and revision, every other
  Issue, effect and quarantine record, and every request of another Issue.\<close>

definition local_change :: "int \<Rightarrow> Snapshot \<Rightarrow> Snapshot \<Rightarrow> bool" where
  "local_change n s s' \<longleftrightarrow>
     (\<forall>m. m \<noteq> n \<longrightarrow> issue_at s' m = issue_at s m \<and> PendingEffect s' m = PendingEffect s m
        \<and> ptr_at (snap_QuarantinedIssues s') (Itoa m) = ptr_at (snap_QuarantinedIssues s) (Itoa m))
     \<and> (\<forall>k r. ptr_at (snap_PendingRequests s) k = Some r \<and> req_IssueNumber r \<noteq> n \<longrightarrow>
           ptr_at (snap_PendingRequests s') k = Some r)
     \<and> snap_RepoID s' = snap_RepoID s \<and> snap_RepoPath s' = snap_RepoPath s \<and> snap_Version s' = snap_Version s
     \<and> snap_StateRevision s' = snap_StateRevision s \<and> snap_Recovery s' = snap_Recovery s
     \<and> snap_IntakeVerifications s' = snap_IntakeVerifications s"

text \<open>The contract of such an operation, and what follows for a whole plan of them.\<close>

locale issue_operation =
  fixes op :: "int \<Rightarrow> Snapshot \<Rightarrow> go_error + Snapshot"
  assumes local: "op n s = Inr s' \<Longrightarrow> local_change n s s'"
begin

fun run_plan :: "int list \<Rightarrow> Snapshot \<Rightarrow> go_error + Snapshot" where
  "run_plan [] s = Inr s"
| "run_plan (n # ns) s = and_ok (op n s) (run_plan ns)"

lemma plan_keeps_issue: "run_plan ns s = Inr s' \<Longrightarrow> m \<notin> set ns \<Longrightarrow> issue_at s' m = issue_at s m"
  by (induction ns arbitrary: s) (auto simp: and_ok_Inr local_change_def dest!: local)

lemma plan_keeps_request:
  "run_plan ns s = Inr s' \<Longrightarrow> ptr_at (snap_PendingRequests s) k = Some r \<Longrightarrow> req_IssueNumber r \<notin> set ns \<Longrightarrow>
     ptr_at (snap_PendingRequests s') k = Some r"
  by (induction ns arbitrary: s) (auto simp: and_ok_Inr local_change_def dest!: local)

lemma plan_keeps_revision: "run_plan ns s = Inr s' \<Longrightarrow> snap_StateRevision s' = snap_StateRevision s \<and> snap_RepoID s' = snap_RepoID s"
  by (induction ns arbitrary: s) (fastforce simp: and_ok_Inr local_change_def dest!: local)+

end

lemma local_refl [intro]: "local_change n s s"
  by (simp add: local_change_def)

lemma local_trans: "local_change n s t \<Longrightarrow> local_change n t u \<Longrightarrow> local_change n s u"
  unfolding local_change_def by metis

lemma mstore_nil [simp]: "mstore k v NilMap = NilMap"
  by (simp add: mstore_def)

lemma ptr_at_mstore_other [simp]: "k' \<noteq> k \<Longrightarrow> ptr_at (mstore k v m) k' = ptr_at m k'"
  by (cases "m = NilMap") simp_all

lemma local_put: "local_change n s (put_issue n i s)"
  by (simp add: local_change_def PendingEffect_def)

lemma local_authority: "local_change n s (s\<lparr>snap_ActiveExecution := a\<rparr>)"
  by (simp add: local_change_def PendingEffect_def)

lemma local_modify: "local_change n s (modify_issue n f s)"
  by (simp add: modify_issue_def local_put local_refl split: option.splits)

lemma local_effect: "SetEffect e n run kind at s = Inr s' \<Longrightarrow> local_change n s s'"
  by (auto simp: SetEffect_def and_ok_Inr massign_Inr local_change_def PendingEffect_def split: if_splits option.splits)

lemma local_drop_effect: "local_change n s (s\<lparr>snap_PendingEffects := mdelete (Itoa n) (snap_PendingEffects s)\<rparr>)"
  by (simp add: local_change_def PendingEffect_def)

lemma local_cancel_requests: "local_change n s (CancelPendingRequests n s)"
  by (auto simp: local_change_def CancelPendingRequests_def PendingEffect_def ptr_at_map_values pending_request_for_def
      split: option.splits)

lemma local_release: "ReleaseExecution n identity s = Inr s' \<Longrightarrow> local_change n s s'"
  by (auto simp: release_Inr local_change_def PendingEffect_def)

lemma local_resume: "ResumeContinuation n c at s = Inr (s', identity) \<Longrightarrow> local_change n s s'"
  by (auto simp: resume_Inr local_change_def PendingEffect_def)

lemma local_resolution:
  assumes "ResolveOperatorSuspension e n action observed now s = Inr s'"
  shows "local_change n s s'"
proof -
  obtain item sp where item: "issue_at s n = Some item" "iss_Suspension item = Some sp"
    and cases': "action = ResolutionApproveConflictPaths \<and> approve_paths n observed item s = Inr s'
      \<or> (\<exists>t. apply_resolution e n action observed now item sp s = Inr t \<and> s' = stamp_resolution n action now t)"
    using assms by (auto simp: ResolveOperatorSuspension_def and_ok_Inr split: if_splits option.splits)
  have stamp: "local_change n t (stamp_resolution n action now t)" for t
    by (simp add: stamp_resolution_def local_modify)
  have resume: "local_change n s t" if r: "resume_suspended e n action observed now item s = Inr t" for t
  proof -
    obtain c :: ContinuationCheckpoint and s1 identity i j run where
        "ResumeContinuation n (ckpt_ID c) now (put_issue n j s) = Inr (s1, identity)"
        and "SetEffect e n run EffectApplyResolution now (put_issue n i s1) = Inr t"
      using r by (auto simp: resume_suspended_def and_ok_Inr Let_def split: option.splits)
    then show ?thesis
      using local_put local_resume local_effect local_trans by meson
  qed
  have adopt: "local_change n s t" if "adopt_pull_request e n observed now item s = Inr t" for t
    using that local_effect local_put local_trans
    by (auto simp: adopt_pull_request_def and_ok_Inr split: if_splits) meson
  have cancel: "local_change n s t" if "cancel_suspended e n action observed now item s = Inr t" for t
    using that local_effect local_put local_trans local_cancel_requests
    by (auto simp: cancel_suspended_def and_ok_Inr) meson
  have apply': "local_change n s t" if "apply_resolution e n action observed now item sp s = Inr t" for t
    using that resume adopt cancel local_put
    by (auto simp: apply_resolution_def and_ok_Inr split: if_splits option.splits)
  have approve: "local_change n s t" if "approve_paths n observed item s = Inr t" for t
    using that local_put by (auto simp: approve_paths_def split: if_splits option.splits)
  from cases' show ?thesis using approve apply' stamp local_trans by meson
qed

lemma local_not_planned:
  assumes "ApplyNotPlannedCancellation n expected now s = Inr (s', res)"
  shows "local_change n s s'"
proof -
  obtain s1 i where s1: "s1 = s \<or> (\<exists>identity. ReleaseExecution n identity s = Inr s1)"
    and s': "s' = put_issue n i s1 \<or> s' = put_issue n i (s1\<lparr>snap_PendingEffects := mdelete (Itoa n) (snap_PendingEffects s1)\<rparr>)"
    using assms
    by (auto simp: ApplyNotPlannedCancellation_def and_ok_Inr Let_def split: option.splits if_splits)
  have "local_change n s s1" using s1 local_release by auto
  moreover have "local_change n s1 s'" using s' local_put local_drop_effect local_trans by metis
  ultimately show ?thesis by (rule local_trans)
qed

lemma local_legacy: "MigrateLegacyCancellation n s = Inr s' \<Longrightarrow> local_change n s s'"
  by (auto simp: MigrateLegacyCancellation_def and_ok_Inr local_put split: if_splits option.splits)

lemma local_quarantine: "CancelQuarantinedIssue n now s = Inr s' \<Longrightarrow> local_change n s s'"
  by (auto simp: CancelQuarantinedIssue_def and_ok_Inr massign_Inr local_change_def PendingEffect_def split: if_splits option.splits)

lemma input_candidate_Inr:
  assumes "InputRecoveryCandidate record = Inr item"
  shows "\<exists>q r c sp. record = Some q \<and> qr_LastValid q = Some item \<and> qr_Requests q = [Some r] \<and> iss_Continuation item = Some c
    \<and> iss_Suspension item = Some sp \<and> \<not> input_provenance_broken q item c sp r"
  using assms by (auto simp: InputRecoveryCandidate_def split: option.splits list.splits if_splits)

lemma RestoreRejectedInput_Inr: "RestoreRejectedInput st = Inr tr \<longleftrightarrow> st = StatusRunning
    \<and> tr = \<lparr>tr_Name = ''restore_rejected_input'', tr_From = st, tr_To = StatusNeedsInput\<rparr>"
  by (auto simp: RestoreRejectedInput_def newAllowedTransition_def NewTransition_def and_ok_Inr split: if_splits option.splits)

lemma restore_input_Inr:
  assumes "RestoreInput n head' digest now s = Inr s'"
  shows "\<exists>q r item i. ptr_at (snap_QuarantinedIssues s) (Itoa n) = Some q \<and> InputRecoveryCandidate (Some q) = Inr item
    \<and> qr_Requests q = [Some r] \<and> issue_at s n = None \<and> snap_ActiveExecution s = None
    \<and> head' \<noteq> '''' \<and> digest \<noteq> '''' \<and> now \<noteq> 0 \<and> ptr_at (snap_PendingRequests s) (req_ID r) = None
    \<and> snap_Issues s \<noteq> NilMap \<and> snap_PendingRequests s \<noteq> NilMap \<and> iss_Status item = StatusRunning
    \<and> i = (commit_transition \<lparr>tr_Name = ''restore_rejected_input'', tr_From = StatusRunning, tr_To = StatusNeedsInput\<rparr>
          (restored_input item r head' digest))\<lparr>iss_LastError := '''', iss_FailureKind := '''', iss_RetryAfter := None,
              iss_UpdatedAt := now\<rparr>
    \<and> s' = s\<lparr>snap_Issues := mstore (Itoa n) (Some i) (snap_Issues s),
             snap_PendingRequests := mstore (req_ID r) (Some r) (snap_PendingRequests s),
             snap_QuarantinedIssues := mdelete (Itoa n) (snap_QuarantinedIssues s)\<rparr>"
proof -
  obtain item where c: "InputRecoveryCandidate (ptr_at (snap_QuarantinedIssues s) (Itoa n)) = Inr item"
    using assms by (auto simp: RestoreInput_def Let_def and_ok_Inr)
  from input_candidate_Inr [OF this] obtain q r where
    q: "ptr_at (snap_QuarantinedIssues s) (Itoa n) = Some q" "qr_Requests q = [Some r]" by blast
  have "\<exists>i. issue_at s n = None \<and> snap_ActiveExecution s = None
    \<and> head' \<noteq> '''' \<and> digest \<noteq> '''' \<and> now \<noteq> 0 \<and> ptr_at (snap_PendingRequests s) (req_ID r) = None
    \<and> snap_Issues s \<noteq> NilMap \<and> snap_PendingRequests s \<noteq> NilMap \<and> iss_Status item = StatusRunning
    \<and> i = (commit_transition \<lparr>tr_Name = ''restore_rejected_input'', tr_From = StatusRunning, tr_To = StatusNeedsInput\<rparr>
          (restored_input item r head' digest))\<lparr>iss_LastError := '''', iss_FailureKind := '''', iss_RetryAfter := None,
              iss_UpdatedAt := now\<rparr>
    \<and> s' = s\<lparr>snap_Issues := mstore (Itoa n) (Some i) (snap_Issues s),
             snap_PendingRequests := mstore (req_ID r) (Some r) (snap_PendingRequests s),
             snap_QuarantinedIssues := mdelete (Itoa n) (snap_QuarantinedIssues s)\<rparr>"
    using assms c q
    by (auto simp: RestoreInput_def Let_def and_ok_Inr RestoreRejectedInput_Inr apply_Inr massign_Inr split: if_splits)
  then obtain i where "issue_at s n = None \<and> snap_ActiveExecution s = None
    \<and> head' \<noteq> '''' \<and> digest \<noteq> '''' \<and> now \<noteq> 0 \<and> ptr_at (snap_PendingRequests s) (req_ID r) = None
    \<and> snap_Issues s \<noteq> NilMap \<and> snap_PendingRequests s \<noteq> NilMap \<and> iss_Status item = StatusRunning
    \<and> i = (commit_transition \<lparr>tr_Name = ''restore_rejected_input'', tr_From = StatusRunning, tr_To = StatusNeedsInput\<rparr>
          (restored_input item r head' digest))\<lparr>iss_LastError := '''', iss_FailureKind := '''', iss_RetryAfter := None,
              iss_UpdatedAt := now\<rparr>
    \<and> s' = s\<lparr>snap_Issues := mstore (Itoa n) (Some i) (snap_Issues s),
             snap_PendingRequests := mstore (req_ID r) (Some r) (snap_PendingRequests s),
             snap_QuarantinedIssues := mdelete (Itoa n) (snap_QuarantinedIssues s)\<rparr>" by blast
  with q c show ?thesis by (intro exI [of _ q] exI [of _ r] exI [of _ item] exI [of _ i]) simp
qed

lemma local_restore_input: "RestoreInput n head' digest now s = Inr s' \<Longrightarrow> local_change n s s'"
  by (drule restore_input_Inr) (auto simp: local_change_def PendingEffect_def)

lemma restore_requests_Inr:
  "restore_requests rs m = Inr m' \<Longrightarrow> (\<And>r. Some r \<in> set rs \<Longrightarrow> req_ID r \<noteq> k) \<Longrightarrow> ptr_at m' k = ptr_at m k"
  by (induction rs m rule: restore_requests.induct) (auto simp: and_ok_Inr massign_Inr)

lemma local_restore_checks:
  assumes "RestoreAnsweredChecks e n head' digest now s = Inr s'"
  shows "local_change n s s'"
proof -
  obtain rs i m where fresh: "\<not> request_exists (snap_PendingRequests s) rs"
    and m: "restore_requests rs (snap_PendingRequests s) = Inr m"
    and s': "s' = s\<lparr>snap_Issues := mstore (Itoa n) i (snap_Issues s), snap_PendingRequests := m,
              snap_QuarantinedIssues := mdelete (Itoa n) (snap_QuarantinedIssues s)\<rparr>"
    using assms by (auto simp: RestoreAnsweredChecks_def Let_def and_ok_Inr massign_Inr split: if_splits)
  have "ptr_at m k = Some r" if "ptr_at (snap_PendingRequests s) k = Some r" for k r
  proof -
    have "req_ID x \<noteq> k" if "Some x \<in> set rs" for x
      using fresh \<open>ptr_at _ k = Some r\<close> that by (force simp: request_exists_def List.map_filter_def)
    from restore_requests_Inr [OF m this] that show ?thesis by simp
  qed
  then show ?thesis by (simp add: s' local_change_def PendingEffect_def)
qed

interpretation resolve: issue_operation "\<lambda>n. ResolveOperatorSuspension e n action observed now"
  for e action observed now
  by unfold_locales (rule local_resolution)

interpretation release: issue_operation "\<lambda>n. ReleaseExecution n identity" for identity
  by unfold_locales (rule local_release)

interpretation legacy_cancel: issue_operation MigrateLegacyCancellation
  by unfold_locales (rule local_legacy)

interpretation quarantine_cancel: issue_operation "\<lambda>n. CancelQuarantinedIssue n now" for now
  by unfold_locales (rule local_quarantine)

interpretation restore_input: issue_operation "\<lambda>n. RestoreInput n head' digest now" for head' digest now
  by unfold_locales (rule local_restore_input)

interpretation restore_checks: issue_operation "\<lambda>n. RestoreAnsweredChecks e n head' digest now" for e head' digest now
  by unfold_locales (rule local_restore_checks)

interpretation not_planned: issue_operation "\<lambda>n s. map_sum id fst (ApplyNotPlannedCancellation n expected now s)"
  for expected now
proof unfold_locales
  fix n s s' assume "map_sum id fst (ApplyNotPlannedCancellation n expected now s) = Inr s'"
  then show "local_change n s s'"
    by (cases "ApplyNotPlannedCancellation n expected now s") (auto dest: local_not_planned)
qed

end
