(* ===== verification/ResolutionFacts.thy ===== *)
theory ResolutionFacts
  imports Resolution SnapshotFacts
begin

text \<open>
  The properties of the operator's operations: a resolution is local to its Issue, cancelling is
  complete, resuming claims a fresh execution authority, an answer is final, and a restored input is
  bound to its checkpoint.
\<close>

section \<open>Sample data\<close>

definition resume_checkpoint :: ContinuationCheckpoint where
  "resume_checkpoint = (empty_checkpoint ''checkpoint_1'')\<lparr>ckpt_CreatedAt := 2, ckpt_RunID := ''run_1'', ckpt_Generation := 3,
     ckpt_BaseSHA := ''b'', ckpt_Workspace := Some sample_workspace, ckpt_WorktreeSHA256 := replicate 64 (CHR ''a''),
     ckpt_Stage := ContinuationStageResume\<rparr>"

definition failed_issue :: Issue where
  "failed_issue = ensureTerminalSuspension (RandFailed 5) (running_issue\<lparr>iss_Status := StatusFailed, iss_WorkerPID := 0,
     iss_WorkerPGID := 0, iss_Continuation := Some resume_checkpoint\<rparr>) 3"

definition failed_snapshot :: Snapshot where
  "failed_snapshot = new_snapshot\<lparr>snap_Issues := GoMap [(''7'', Some failed_issue), (''9'', Some (new_issue 9))]\<rparr>"

definition no_observation :: OperatorResolutionObservation where
  "no_observation = \<lparr>oro_HeadSHA = '''', oro_WorktreeSHA256 = '''', oro_AllowedPaths = [], oro_ResultSummary = '''',
     oro_ResultSHA256 = '''', oro_RepairPublicationHead = False, oro_PullRequestURL = '''', oro_PullRequestNumber = 0,
     oro_GitHubStateReason = ''''\<rparr>"

lemma failed_snapshot_valid: "Snapshot_Validate failed_snapshot = None"
  by code_simp

lemma failed_resolved:
  "isl (ResolveOperatorSuspension (RandFailed 8) 7 ResolutionCancel no_observation 9 failed_snapshot) = False"
  "isl (ResolveOperatorSuspension (RandFailed 8) 7 ResolutionResume no_observation 9 failed_snapshot) = False"
  by code_simp+

section \<open>Locality\<close>

text \<open>C22: A resolution concerns one Issue. When the operator resolves the suspension of an Issue, by whatever
  action, every other Issue keeps its record, its pending effect and its quarantine, every request of
  another Issue stays as it is, and the identity and revision of the snapshot are not touched.\<close>

theorem resolutions_are_local:
  assumes "ResolveOperatorSuspension e n action observed now s = Inr s'" and "m \<noteq> n"
  shows "issue_at s' m = issue_at s m \<and> PendingEffect s' m = PendingEffect s m
    \<and> ptr_at (snap_QuarantinedIssues s') (Itoa m) = ptr_at (snap_QuarantinedIssues s) (Itoa m)
    \<and> (\<forall>k r. ptr_at (snap_PendingRequests s) k = Some r \<and> req_IssueNumber r = m \<longrightarrow>
          ptr_at (snap_PendingRequests s') k = Some r)
    \<and> snap_RepoID s' = snap_RepoID s \<and> snap_StateRevision s' = snap_StateRevision s"
  using resolve.local [OF assms(1)] assms(2) unfolding local_change_def by blast

theorem resolutions_are_local_witness:
  "\<exists>s'. ResolveOperatorSuspension (RandFailed 8) 7 ResolutionCancel no_observation 9 failed_snapshot = Inr s'
     \<and> issue_at s' 9 = Some (new_issue 9)"
proof -
  obtain s' where r: "ResolveOperatorSuspension (RandFailed 8) 7 ResolutionCancel no_observation 9 failed_snapshot = Inr s'"
    using failed_resolved(1)
    by (cases "ResolveOperatorSuspension (RandFailed 8) 7 ResolutionCancel no_observation 9 failed_snapshot") auto
  have "issue_at failed_snapshot 9 = Some (new_issue 9)" by code_simp
  with resolutions_are_local [OF r, of 9] r show ?thesis by auto
qed

section \<open>Cancelling\<close>

lemma resolve_cancel_Inr:
  "ResolveSuspension st ResolutionCancel stage = Inr tr \<longleftrightarrow> (st = StatusBlocked \<or> st = StatusFailed)
     \<and> tr = \<lparr>tr_Name = ''resolve_suspension_cancel'', tr_From = st, tr_To = StatusCanceled\<rparr>"
  by (auto simp: ResolveSuspension_def NewTransition_def split: if_splits option.splits)

lemma commit_terminal:
  "Terminal (tr_From tr) \<Longrightarrow> tr_From tr \<noteq> StatusLaunching \<Longrightarrow> tr_To tr \<noteq> StatusCompleted \<Longrightarrow>
     commit_transition tr i = i\<lparr>iss_Status := tr_To tr\<rparr>"
  by (simp add: commit_transition_def drop_resolved_suspension_def Let_def)

lemma requests_canceled: "\<not> has_pending_request (CancelPendingRequests n s) n"
proof -
  have "\<not> pending_request_for n r" if "(k, Some r) \<in> set (entries (map_values (\<lambda>k. map_option (\<lambda>r.
      if pending_request_for n r then r\<lparr>req_Status := RequestStatusCanceled\<rparr> else r)) (snap_PendingRequests s)))" for k r
    using that by (clarsimp simp: entries_map_values) (case_tac b; simp add: pending_request_for_def split: if_splits)
  then show ?thesis by (auto simp: has_pending_request_def pointees_entries CancelPendingRequests_def)
qed

text \<open>What a cancellation by the operator has gone through.\<close>

lemma cancel_Inr:
  assumes "ResolveOperatorSuspension e n ResolutionCancel observed now s = Inr s'"
  shows "\<exists>item sp s1. issue_at s n = Some item \<and> iss_Suspension item = Some sp \<and> now \<noteq> 0 \<and> iss_Number item = n
     \<and> \<not> (\<exists>a. snap_ActiveExecution s = Some a \<and> act_IssueNumber a = n) \<and> iss_WorkerPID item = 0 \<and> iss_WorkerPGID item = 0
     \<and> (iss_Status item = StatusBlocked \<or> iss_Status item = StatusFailed)
     \<and> s1 = CancelPendingRequests n s
     \<and> s' = put_issue n ((resolve_suspension_as ResolutionCancel now (item\<lparr>iss_Status := StatusCanceled,
          iss_Cancellation := Some \<lparr>can_Source = ''operator_resolution'', can_GitHubStateReason = oro_GitHubStateReason observed,
            can_PreviousStatus = iss_Status item, can_ExecutionReleaseResult = ''not_present'', can_CanceledAt = now\<rparr>,
          iss_GitHubStateReason := oro_GitHubStateReason observed\<rparr>))\<lparr>iss_UpdatedAt := now\<rparr>)
        (s1\<lparr>snap_PendingEffects := mdelete (Itoa n) (snap_PendingEffects s1)\<rparr>)"
proof -
  obtain item sp t where item: "issue_at s n = Some item" "iss_Suspension item = Some sp" "now \<noteq> 0" "iss_Number item = n"
      "iss_WorkerPID item = 0" "iss_WorkerPGID item = 0" "\<not> (\<exists>a. snap_ActiveExecution s = Some a \<and> act_IssueNumber a = n)"
    and t: "cancel_suspended e n ResolutionCancel observed now item s = Inr t"
    and s': "s' = stamp_resolution n ResolutionCancel now t"
    using assms
    by (auto simp: ResolveOperatorSuspension_def apply_resolution_def and_ok_Inr split: if_splits option.splits)
  have nil: "snap_Issues s \<noteq> NilMap" using item(1) by (rule ptr_at_not_nil)
  from t have st: "iss_Status item = StatusBlocked \<or> iss_Status item = StatusFailed"
    by (auto simp: cancel_suspended_def and_ok_Inr resolve_cancel_Inr)
  let ?s1 = "CancelPendingRequests n s"
  let ?i = "item\<lparr>iss_Status := StatusCanceled,
          iss_Cancellation := Some \<lparr>can_Source = ''operator_resolution'', can_GitHubStateReason = oro_GitHubStateReason observed,
            can_PreviousStatus = iss_Status item, can_ExecutionReleaseResult = ''not_present'', can_CanceledAt = now\<rparr>,
          iss_GitHubStateReason := oro_GitHubStateReason observed\<rparr>"
  have t': "t = put_issue n ?i (?s1\<lparr>snap_PendingEffects := mdelete (Itoa n) (snap_PendingEffects ?s1)\<rparr>)"
    using t st by (auto simp: cancel_suspended_def and_ok_Inr resolve_cancel_Inr apply_Inr SetEffect_def
        commit_terminal Terminal_def split: if_splits)
  have "s' = put_issue n ((resolve_suspension_as ResolutionCancel now ?i)\<lparr>iss_UpdatedAt := now\<rparr>)
        (?s1\<lparr>snap_PendingEffects := mdelete (Itoa n) (snap_PendingEffects ?s1)\<rparr>)"
    using nil by (simp add: s' t' stamp_resolution_def modify_issue_def resolve_suspension_as_def CancelPendingRequests_def)
  with item st show ?thesis by (intro exI [of _ item] exI [of _ sp] exI [of _ ?s1]) simp
qed

text \<open>C4: Cancelling is complete. When the operator cancels a suspended Issue, the Issue is canceled with
  cancellation evidence the validators accept, its suspension is resolved as canceled at the same time, no
  request of it stays pending, no effect is left to run, no worker identity is kept and it does not own
  the execution authority, whether or not another Issue does.\<close>

theorem operator_cancel_is_complete:
  assumes "ResolveOperatorSuspension e n ResolutionCancel observed now s = Inr s'"
  shows "\<exists>i. issue_at s' n = Some i \<and> iss_Status i = StatusCanceled \<and> validate_cancellation i = None
     \<and> validate_resolved_cancel i = None \<and> (\<exists>sp. iss_Suspension i = Some sp \<and> resolved_cancel sp)
     \<and> iss_WorkerPID i = 0 \<and> iss_WorkerPGID i = 0
     \<and> \<not> has_pending_request s' n \<and> PendingEffect s' n = None
     \<and> snap_ActiveExecution s' = snap_ActiveExecution s
     \<and> (\<nexists>a. snap_ActiveExecution s' = Some a \<and> act_IssueNumber a = n)"
proof -
  let ?s1 = "CancelPendingRequests n s"
  obtain item sp where item: "issue_at s n = Some item" "iss_Suspension item = Some sp" "now \<noteq> 0" "iss_Number item = n"
      "iss_WorkerPID item = 0" "iss_WorkerPGID item = 0" "\<not> (\<exists>a. snap_ActiveExecution s = Some a \<and> act_IssueNumber a = n)"
      "iss_Status item = StatusBlocked \<or> iss_Status item = StatusFailed"
    and s': "s' = put_issue n ((resolve_suspension_as ResolutionCancel now (item\<lparr>iss_Status := StatusCanceled,
          iss_Cancellation := Some \<lparr>can_Source = ''operator_resolution'', can_GitHubStateReason = oro_GitHubStateReason observed,
            can_PreviousStatus = iss_Status item, can_ExecutionReleaseResult = ''not_present'', can_CanceledAt = now\<rparr>,
          iss_GitHubStateReason := oro_GitHubStateReason observed\<rparr>))\<lparr>iss_UpdatedAt := now\<rparr>)
        (?s1\<lparr>snap_PendingEffects := mdelete (Itoa n) (snap_PendingEffects ?s1)\<rparr>)"
    using cancel_Inr [OF assms] by blast
  have nil: "snap_Issues s \<noteq> NilMap" using item(1) by (rule ptr_at_not_nil)
  have pend: "\<not> has_pending_request s' n"
    using requests_canceled [of n s] by (simp add: s' has_pending_request_def)
  have rest: "snap_ActiveExecution s' = snap_ActiveExecution s" "PendingEffect s' n = None"
    by (simp_all add: s' CancelPendingRequests_def PendingEffect_def)
  show ?thesis
    using item nil pend rest
    by (intro exI [of _ "the (issue_at s' n)"])
      (auto simp: s' CancelPendingRequests_def validate_cancellation_def validate_resolved_cancel_def resolved_cancel_def
        resolve_suspension_as_def cancellation_complete_def not_planned_missing_def)
qed

theorem operator_cancel_is_complete_witness:
  "\<exists>s'. ResolveOperatorSuspension (RandFailed 8) 7 ResolutionCancel no_observation 9 failed_snapshot = Inr s'
     \<and> PendingEffect s' 7 = None"
proof -
  obtain s' where r: "ResolveOperatorSuspension (RandFailed 8) 7 ResolutionCancel no_observation 9 failed_snapshot = Inr s'"
    using failed_resolved(1)
    by (cases "ResolveOperatorSuspension (RandFailed 8) 7 ResolutionCancel no_observation 9 failed_snapshot") auto
  with operator_cancel_is_complete [OF r] show ?thesis by auto
qed

section \<open>Resuming\<close>

definition resume_target :: "ResolutionAction \<Rightarrow> ContinuationStage \<Rightarrow> Status" where
  "resume_target action stage = (if action = ResolutionRetryStage \<and> stage = ContinuationStageChecks then StatusAwaitingChecks
     else if action = ResolutionRetryStage \<and> stage = ContinuationStageConflict then StatusResolvingConflict
     else StatusResumePending)"

lemma resolve_resume_Inr:
  assumes "ResolveSuspension st action stage = Inr tr" and "action = ResolutionResume \<or> action = ResolutionRetryStage"
  shows "(st = StatusBlocked \<or> st = StatusFailed) \<and> tr_From tr = st \<and> tr_To tr = resume_target action stage"
  using assms by (auto simp: ResolveSuspension_def NewTransition_def resume_target_def
      split: if_splits option.splits ContinuationStage.splits)

lemma prepare_fields:
  "iss_Status (prepare_retry action observed now i) = iss_Status i"
  "iss_Number (prepare_retry action observed now i) = iss_Number i"
  "iss_RunID (prepare_retry action observed now i) = iss_RunID i"
  "iss_Generation (prepare_retry action observed now i) = iss_Generation i"
  "iss_Suspension (prepare_retry action observed now i) = iss_Suspension i"
  "checkpoint_stage (prepare_retry action observed now i) = checkpoint_stage i"
  by (auto simp: prepare_retry_def Let_def checkpoint_stage_def split: option.splits)

lemma refresh_fields:
  "iss_Status (refresh_checks action observed i) = iss_Status i" "iss_RunID (refresh_checks action observed i) = iss_RunID i"
  "iss_Generation (refresh_checks action observed i) = iss_Generation i"
  "iss_Suspension (refresh_checks action observed i) = iss_Suspension i"
  by (simp_all add: refresh_checks_def)

lemma stamp_resume:
  assumes "action = ResolutionResume \<or> action = ResolutionRetryStage" and "issue_at s n = Some i"
  shows "stamp_resolution n action now s = put_issue n ((resolve_suspension_as action now i)\<lparr>iss_UpdatedAt := now\<rparr>) s"
  using assms by (auto simp: stamp_resolution_def modify_issue_def)

lemma effect_set:
  assumes "SetEffect e n run kind at s = Inr s'" and "kind \<noteq> EffectNone"
  shows "\<exists>eff. PendingEffect s' n = Some eff \<and> eff_Kind eff = kind \<and> eff_RunID eff = run \<and> eff_IssueNumber eff = n"
    and "snap_Issues s' = snap_Issues s" and "snap_ActiveExecution s' = snap_ActiveExecution s"
  using assms by (auto simp: SetEffect_def and_ok_Inr massign_Inr PendingEffect_def split: if_splits option.splits)

lemma put_issue_authority: "(put_issue n i s)\<lparr>snap_ActiveExecution := a\<rparr> = put_issue n i (s\<lparr>snap_ActiveExecution := a\<rparr>)"
  by (simp add: put_issue_def)

text \<open>C5: Resuming claims a fresh authority. When the operator resumes a suspended Issue or retries its stage, no
  execution was active before; afterwards the Issue owns the active execution under its run with the next
  generation, so that every holder of the old one is fenced off. It waits in the status its checkpoint stage asks
  for, its suspension is resolved by the action, and the effect that carries out the resolution is pending for
  that run.\<close>

theorem resolved_execution_is_fenced:
  assumes "ResolveOperatorSuspension e n action observed now s = Inr s'"
    and "action = ResolutionResume \<or> action = ResolutionRetryStage"
  shows "\<exists>item i a eff. issue_at s n = Some item \<and> issue_at s' n = Some i
     \<and> snap_ActiveExecution s = None \<and> snap_ActiveExecution s' = Some a
     \<and> act_IssueNumber a = n \<and> act_RunID a = iss_RunID item \<and> act_Generation a = iss_Generation item + 1
     \<and> iss_RunID i = iss_RunID item \<and> iss_Generation i = iss_Generation item + 1
     \<and> iss_Status i = resume_target action (checkpoint_stage item)
     \<and> (\<exists>sp. iss_Suspension i = Some sp \<and> susp_Status sp = SuspensionResolved \<and> susp_Resolution sp = action)
     \<and> PendingEffect s' n = Some eff \<and> eff_Kind eff = EffectApplyResolution \<and> eff_RunID eff = iss_RunID item"
proof -
  obtain item sp t where item: "issue_at s n = Some item" "iss_Suspension item = Some sp" "iss_Number item = n"
    and t: "resume_suspended e n action observed now item s = Inr t" and s': "s' = stamp_resolution n action now t"
    using assms
    by (auto simp: ResolveOperatorSuspension_def apply_resolution_def and_ok_Inr split: if_splits option.splits)
  have nil: "snap_Issues s \<noteq> NilMap" using item(1) by (rule ptr_at_not_nil)
  define j where "j = prepare_retry action observed now item"
  obtain c :: ContinuationCheckpoint and s1 identity tr i0 where c: "iss_Continuation j = Some c"
    and r: "ResumeContinuation n (ckpt_ID c) now (put_issue n j s) = Inr (s1, identity)"
    and tr: "ResolveSuspension (iss_Status j) action (ckpt_Stage c) = Inr tr"
    and i0: "ApplyIssueTransition (issue_at s1 n) tr = Inr i0"
    and eff: "SetEffect e n (iss_RunID i0) EffectApplyResolution now (put_issue n (refresh_checks action observed i0) s1) = Inr t"
    using t by (auto simp: resume_suspended_def and_ok_Inr Let_def j_def split: option.splits)
  let ?a = "\<lparr>act_IssueNumber = n, act_RunID = iss_RunID item, act_Generation = iss_Generation item + 1,
      act_BaseSHA = ckpt_BaseSHA c, act_StartedAt = UTC now\<rparr>"
  have r': "snap_ActiveExecution s = None"
      "s1 = put_issue n (j\<lparr>iss_Generation := iss_Generation item + 1\<rparr>) (s\<lparr>snap_ActiveExecution := Some ?a\<rparr>)"
    using r nil item(3) c unfolding resume_Inr by (auto simp: j_def prepare_fields put_issue_authority)
  have stage: "ckpt_Stage c = checkpoint_stage item"
    using c prepare_fields(6) [of action observed now item] by (simp add: j_def checkpoint_stage_def)
  have tr': "iss_Status item = StatusBlocked \<or> iss_Status item = StatusFailed" "tr_From tr = iss_Status item"
      "tr_To tr = resume_target action (checkpoint_stage item)"
    using resolve_resume_Inr [OF tr assms(2)] by (simp_all add: j_def prepare_fields stage)
  have i0': "i0 = j\<lparr>iss_Generation := iss_Generation item + 1, iss_Status := resume_target action (checkpoint_stage item)\<rparr>"
    using i0 nil tr' by (auto simp: r'(2) apply_Inr commit_terminal Terminal_def resume_target_def)
  let ?i = "refresh_checks action observed i0"
  have at_t: "issue_at t n = Some ?i" "snap_ActiveExecution t = Some ?a"
    using effect_set(2,3) [OF eff] nil by (simp_all add: r'(2))
  obtain eff' where eff': "PendingEffect t n = Some eff'" "eff_Kind eff' = EffectApplyResolution" "eff_RunID eff' = iss_RunID i0"
    using effect_set(1) [OF eff] by auto
  let ?i' = "(resolve_suspension_as action now ?i)\<lparr>iss_UpdatedAt := now\<rparr>"
  have fin: "s' = put_issue n ?i' t" using stamp_resume [OF assms(2) at_t(1)] by (simp add: s')
  have "issue_at s' n = Some ?i'" "snap_ActiveExecution s' = Some ?a" "PendingEffect s' n = Some eff'"
    using at_t eff' ptr_at_not_nil [OF at_t(1)] by (simp_all add: fin PendingEffect_def)
  with item r'(1) eff'(2,3) show ?thesis
    by (intro exI [of _ item] exI [of _ ?i'] exI [of _ ?a] exI [of _ eff'])
      (simp add: i0' j_def prepare_fields refresh_fields resolve_suspension_as_def)
qed

theorem resolved_execution_is_fenced_witness:
  "\<exists>s'. ResolveOperatorSuspension (RandFailed 8) 7 ResolutionResume no_observation 9 failed_snapshot = Inr s'
     \<and> snap_ActiveExecution s' \<noteq> None"
proof -
  obtain s' where r: "ResolveOperatorSuspension (RandFailed 8) 7 ResolutionResume no_observation 9 failed_snapshot = Inr s'"
    using failed_resolved(2)
    by (cases "ResolveOperatorSuspension (RandFailed 8) 7 ResolutionResume no_observation 9 failed_snapshot") auto
  with resolved_execution_is_fenced [OF r] show ?thesis by auto
qed

section \<open>Answers and restored inputs\<close>

text \<open>C24: An answer is final. Answering succeeds only on a pending request or by repeating the recorded answer; the
  answered request carries the answer and its time, identifies the same question, and from then on the same answer
  changes nothing at whatever time it is repeated, while every other answer is refused.\<close>

theorem answers_are_final:
  assumes "ApplyRequestAnswer r answer now = Inr r'"
  shows "req_Status r' = RequestStatusAnswered \<and> req_Answer r' = answer
    \<and> (req_Status r = RequestStatusPending \<longrightarrow> req_AnsweredAt r' = Some (UTC now))
    \<and> (req_Status r \<noteq> RequestStatusPending \<longrightarrow> r' = r)
    \<and> req_ID r' = req_ID r \<and> req_IssueNumber r' = req_IssueNumber r \<and> req_CheckpointID r' = req_CheckpointID r
    \<and> ApplyRequestAnswer r' answer later = Inr r'
    \<and> (other \<noteq> answer \<longrightarrow> (\<exists>e. ApplyRequestAnswer r' other later = Inl e))"
  using assms by (auto simp: ApplyRequestAnswer_def and_ok_Inr AnswerRequest_def split: if_splits)

definition pending_request :: Request where
  "pending_request = \<lparr>req_ID = ''req_1'', req_IssueNumber = 7, req_Question = ''q'', req_Reason = '''', req_Recommended = '''',
     req_Options = [], req_AllowFreeText = True, req_ResumeStatus = StatusUnset, req_RunID = ''run_1'',
     req_CheckpointID = ''checkpoint_2'', req_ReleasedExecution = Some \<lparr>exi_RunID = ''run_1'', exi_Generation = 3\<rparr>,
     req_Status = RequestStatusPending, req_Answer = '''', req_AnswerProvenance = None, req_CreatedAt = 2, req_AnsweredAt = None\<rparr>"

theorem answers_are_final_witness:
  "\<exists>r'. ApplyRequestAnswer pending_request ''yes'' 9 = Inr r' \<and> (\<exists>e. ApplyRequestAnswer r' ''no'' 10 = Inl e)"
proof -
  have "\<exists>r'. ApplyRequestAnswer pending_request ''yes'' 9 = Inr r'"
    by (simp add: ApplyRequestAnswer_def AnswerRequest_def pending_request_def and_ok_def)
  then obtain r' where r: "ApplyRequestAnswer pending_request ''yes'' 9 = Inr r'" by blast
  from answers_are_final [OF r, of 10 "''no''"] r show ?thesis by auto
qed

text \<open>A restored input is bound to its checkpoint. When a rejected needs-input boundary is restored from
  quarantine, the Issue comes back as needing input, with no worker and no suspension; its one pending request and its
  rebuilt checkpoint refer to each other under the Issue's run and generation, the quarantine record is gone, and
  nobody holds the execution authority.\<close>

theorem restored_input_is_bound:
  assumes "RestoreInput n head' digest now s = Inr s'"
  shows "\<exists>i r. issue_at s' n = Some i \<and> iss_Status i = StatusNeedsInput
     \<and> ptr_at (snap_PendingRequests s') (req_ID r) = Some r \<and> ValidateNeedsInputContinuation (Some i) (Some r) = None
     \<and> iss_WorkerPID i = 0 \<and> iss_WorkerPGID i = 0 \<and> iss_Suspension i = None
     \<and> ptr_at (snap_QuarantinedIssues s') (Itoa n) = None \<and> issue_at s n = None
     \<and> snap_ActiveExecution s' = None"
proof -
  obtain q r item i where q: "ptr_at (snap_QuarantinedIssues s) (Itoa n) = Some q" "InputRecoveryCandidate (Some q) = Inr item"
      "qr_Requests q = [Some r]"
    and free: "issue_at s n = None" "snap_ActiveExecution s = None"
    and nil: "snap_Issues s \<noteq> NilMap" "snap_PendingRequests s \<noteq> NilMap"
    and i: "i = (commit_transition \<lparr>tr_Name = ''restore_rejected_input'', tr_From = StatusRunning, tr_To = StatusNeedsInput\<rparr>
          (restored_input item r head' digest))\<lparr>iss_LastError := '''', iss_FailureKind := '''', iss_RetryAfter := None,
              iss_UpdatedAt := now\<rparr>"
    and s': "s' = s\<lparr>snap_Issues := mstore (Itoa n) (Some i) (snap_Issues s),
             snap_PendingRequests := mstore (req_ID r) (Some r) (snap_PendingRequests s),
             snap_QuarantinedIssues := mdelete (Itoa n) (snap_QuarantinedIssues s)\<rparr>"
    using restore_input_Inr [OF assms] by (elim exE conjE) (rule that; assumption)
  from input_candidate_Inr [OF q(2)] q(3) obtain c sp where ok: "\<not> input_provenance_broken q item c sp r" by auto
  then have r: "req_IssueNumber r = iss_Number item" "req_RunID r = iss_RunID item"
      "req_ReleasedExecution r = Some \<lparr>exi_RunID = iss_RunID item, exi_Generation = iss_Generation item\<rparr>"
    by (auto simp: input_provenance_broken_def split: option.splits)
  have i': "i = (restored_input item r head' digest)\<lparr>iss_Status := StatusNeedsInput, iss_LastError := '''',
      iss_FailureKind := '''', iss_RetryAfter := None, iss_UpdatedAt := now\<rparr>"
    by (simp add: i commit_transition_def drop_resolved_suspension_def Terminal_def)
  show ?thesis
    using nil free r by (intro exI [of _ i] exI [of _ r])
      (simp add: s' i' restored_input_def ValidateNeedsInputContinuation_def empty_checkpoint_def)
qed

definition rejected_record :: QuarantineRecord where
  "rejected_record = \<lparr>qr_IssueNumber = 7, qr_RunID = ''run_1'', qr_Generation = 3, qr_RejectedStatus = StatusNeedsInput,
     qr_ReasonCode = ''issue_invariant_violation'', qr_Reason = ''reason'', qr_QuarantinedAt = 4,
     qr_LastValid = Some (running_issue\<lparr>iss_Session := Some \<lparr>ses_Backend = ''p'', ses_ID = ''s''\<rparr>,
       iss_Continuation := Some (resume_checkpoint\<lparr>ckpt_Session := Some \<lparr>ses_Backend = ''p'', ses_ID = ''s''\<rparr>\<rparr>),
       iss_Suspension := map_option (\<lambda>sp. sp\<lparr>susp_Status := SuspensionResolved\<rparr>) (iss_Suspension failed_issue)\<rparr>),
     qr_Requests = [Some pending_request]\<rparr>"

definition rejected_snapshot :: Snapshot where
  "rejected_snapshot = new_snapshot\<lparr>snap_QuarantinedIssues := GoMap [(''7'', Some rejected_record)]\<rparr>"

theorem restored_input_is_bound_witness:
  "\<exists>s'. RestoreInput 7 ''h'' ''d'' 9 rejected_snapshot = Inr s' \<and> snap_ActiveExecution s' = None"
proof -
  have "isl (RestoreInput 7 ''h'' ''d'' 9 rejected_snapshot) = False" by code_simp
  then obtain s' where r: "RestoreInput 7 ''h'' ''d'' 9 rejected_snapshot = Inr s'"
    by (cases "RestoreInput 7 ''h'' ''d'' 9 rejected_snapshot") auto
  from restored_input_is_bound [OF r] r show ?thesis by auto
qed

section \<open>Approved conflict paths\<close>

lemma sorted_remdups_adj: "sorted xs \<Longrightarrow> sorted (remdups_adj xs)"
  by (induction xs rule: remdups_adj.induct) (auto split: if_splits)

lemma distinct_remdups_adj_sorted: "sorted xs \<Longrightarrow> distinct (remdups_adj xs)"
proof (induction xs rule: remdups_adj.induct)
  case (3 x y xs)
  then show ?case by (cases "x = y") (fastforce simp del: remdups_adj.simps simp: remdups_adj.simps(3))+
qed simp_all

text \<open>Approving conflict paths widens the allowed paths and nothing else. It succeeds only on an Issue that is
  eligible at exactly the head and worktree the operator saw and with no question open; then the allowed paths are the
  old ones and the approved ones in sorted order without repetition, and every other part of the snapshot is as it
  was.\<close>

theorem approval_only_widens:
  assumes "ResolveOperatorSuspension e n ResolutionApproveConflictPaths observed now s = Inr s'"
  shows "\<exists>item r r'. issue_at s n = Some item \<and> CanApproveConflictPaths item \<and> oro_HeadSHA observed = iss_HeadSHA item
     \<and> iss_ConflictRecovery item = Some r \<and> \<not> has_pending_request s n
     \<and> ValidateConflictApprovalPaths (oro_AllowedPaths observed) = None
     \<and> r' = r\<lparr>cr_AllowedPaths := cr_AllowedPaths r'\<rparr> \<and> sorted (cr_AllowedPaths r') \<and> distinct (cr_AllowedPaths r')
     \<and> set (cr_AllowedPaths r') = set (cr_AllowedPaths r) \<union> set (oro_AllowedPaths observed)
     \<and> s' = put_issue n (item\<lparr>iss_ConflictRecovery := Some r'\<rparr>) s"
proof -
  obtain item where item: "issue_at s n = Some item" and ok: "approve_paths n observed item s = Inr s'"
    using assms by (auto simp: ResolveOperatorSuspension_def split: if_splits option.splits)
  then have facts: "CanApproveConflictPaths item" "oro_HeadSHA observed = iss_HeadSHA item" "\<not> has_pending_request s n"
      "ValidateConflictApprovalPaths (oro_AllowedPaths observed) = None"
      "s' = put_issue n (allow_paths (oro_AllowedPaths observed) item) s"
    by (auto simp: approve_paths_def split: if_splits option.splits)
  then obtain r :: ConflictRecovery where r: "iss_ConflictRecovery item = Some r"
    by (auto simp: CanApproveConflictPaths_def split: option.splits)
  let ?ps = "remdups_adj (sort (cr_AllowedPaths r @ oro_AllowedPaths observed))"
  have "sorted ?ps" "distinct ?ps" "set ?ps = set (cr_AllowedPaths r) \<union> set (oro_AllowedPaths observed)"
    by (simp_all add: sorted_remdups_adj distinct_remdups_adj_sorted)
  with item facts r show ?thesis
    by (intro exI [of _ item] exI [of _ r] exI [of _ "r\<lparr>cr_AllowedPaths := ?ps\<rparr>"]) (simp add: allow_paths_def)
qed

definition conflicted_issue :: Issue where
  "conflicted_issue = failed_issue\<lparr>iss_HeadSHA := ''h'', iss_PullRequestURL := ''u'', iss_PullRequestNumber := 3,
     iss_Continuation := Some (resume_checkpoint\<lparr>ckpt_HeadSHA := ''h'', ckpt_PullRequestURL := ''u'', ckpt_PullRequestNumber := 3,
        ckpt_Stage := ContinuationStageConflict\<rparr>),
     iss_Suspension := map_option (\<lambda>sp. sp\<lparr>susp_AllowedActions := [ResolutionCancel, ResolutionRetryStage]\<rparr>)
        (iss_Suspension failed_issue),
     iss_ConflictRecovery := Some \<lparr>cr_PullRequestURL = ''u'', cr_RetryID = '''', cr_PreviousBaseSHA = '''', cr_TargetBaseSHA = ''t'',
        cr_OriginalHeadSHA = ''h'', cr_ConflictFiles = [], cr_AllowedPaths = [''b''], cr_Attempts = 1, cr_BaseUpdates = 0,
        cr_History = [], cr_OriginalDiff = '''', cr_BaseCommits = '''', cr_ConflictContent = '''', cr_Verification = [],
        cr_LastReason = '''', cr_StartedAt = 3, cr_UpdatedAt = 3\<rparr>\<rparr>"

definition conflicted_snapshot :: Snapshot where
  "conflicted_snapshot = new_snapshot\<lparr>snap_Issues := GoMap [(''7'', Some conflicted_issue)]\<rparr>"

definition approval :: OperatorResolutionObservation where
  "approval = no_observation\<lparr>oro_HeadSHA := ''h'', oro_WorktreeSHA256 := replicate 64 (CHR ''a''), oro_AllowedPaths := [''a'', ''b'']\<rparr>"

theorem approval_only_widens_witness:
  "\<exists>s' item. ResolveOperatorSuspension (RandFailed 8) 7 ResolutionApproveConflictPaths approval 9 conflicted_snapshot = Inr s'
     \<and> issue_at conflicted_snapshot 7 = Some item \<and> CanApproveConflictPaths item"
proof -
  let ?r = "ResolveOperatorSuspension (RandFailed 8) 7 ResolutionApproveConflictPaths approval 9 conflicted_snapshot"
  have "isl ?r = False" by code_simp
  then obtain s' where r: "?r = Inr s'" by (cases ?r) auto
  from approval_only_widens [OF r] r show ?thesis by blast
qed

end
