(* ===== verification/Mailbox.thy ===== *)
theory Mailbox
  imports StoreFacts SnapshotQuery ResolutionFacts
begin

text \<open>
  \<open>internal/adapter/state/mailbox.go\<close> and \<open>answer_validation.go\<close>: the questions to the operator and
  their answers. An answer is first received (\<open>RecordAnswer\<close>), later delivered to the Issue that waits for it
  (\<open>PrepareAnsweredRequests\<close>); \<open>AskIntake\<close> asks before an execution exists. Each of the three is an update of the
  store. A slice of options is a list, so that nil and empty are one value.
\<close>

section \<open>Validation\<close>

text \<open>Go's strings are byte sequences; \<open>utf8.ValidString\<close> and \<open>range\<close> decode them. The decoded runes, if the bytes are valid.\<close>

definition continuation_byte :: "nat \<Rightarrow> bool" where
  "continuation_byte b \<longleftrightarrow> 0x80 \<le> b \<and> b \<le> 0xBF"

definition lead_3 :: "nat \<Rightarrow> nat \<Rightarrow> bool" where
  "lead_3 a b \<longleftrightarrow> continuation_byte b \<and> 0xE0 \<le> a \<and> a \<le> 0xEF \<and> (a = 0xE0 \<longrightarrow> 0xA0 \<le> b) \<and> (a = 0xED \<longrightarrow> b \<le> 0x9F)"

definition lead_4 :: "nat \<Rightarrow> nat \<Rightarrow> bool" where
  "lead_4 a b \<longleftrightarrow> continuation_byte b \<and> 0xF0 \<le> a \<and> a \<le> 0xF4 \<and> (a = 0xF0 \<longrightarrow> 0x90 \<le> b) \<and> (a = 0xF4 \<longrightarrow> b \<le> 0x8F)"

fun decode_runes :: "nat list \<Rightarrow> nat list option" where
  "decode_runes [] = Some []"
| "decode_runes (a # bs) =
     (if a < 0x80 then map_option ((#) a) (decode_runes bs)
      else case bs of [] \<Rightarrow> None
      | b # bs \<Rightarrow>
        if 0xC2 \<le> a \<and> a \<le> 0xDF \<and> continuation_byte b
        then map_option ((#) ((a - 0xC0) * 64 + (b - 0x80))) (decode_runes bs)
        else (case bs of [] \<Rightarrow> None
          | c # bs \<Rightarrow>
            if lead_3 a b \<and> continuation_byte c
            then map_option ((#) ((a - 0xE0) * 4096 + (b - 0x80) * 64 + (c - 0x80))) (decode_runes bs)
            else (case bs of [] \<Rightarrow> None
              | d # bs \<Rightarrow>
                if lead_4 a b \<and> continuation_byte c \<and> continuation_byte d
                then map_option ((#) ((a - 0xF0) * 262144 + (b - 0x80) * 4096 + (c - 0x80) * 64 + (d - 0x80))) (decode_runes bs)
                else None)))"

definition runes :: "string \<Rightarrow> nat list option" where
  "runes s = decode_runes (map of_char s)"

definition IsControl :: "nat \<Rightarrow> bool" where
  "IsControl r \<longleftrightarrow> r < 0x20 \<or> 0x7F \<le> r \<and> r < 0xA0"

definition forbidden_rune :: "nat \<Rightarrow> bool" where
  "forbidden_rune r \<longleftrightarrow> r \<noteq> 0x0A \<and> r \<noteq> 0x09 \<and> IsControl r"

definition MaxAnswerBytes :: int where
  "MaxAnswerBytes = 16 * 1024"

definition option_error :: "Request option \<Rightarrow> string \<Rightarrow> go_error option" where
  "option_error request answer = (case request of None \<Rightarrow> None | Some r \<Rightarrow>
     guard (req_Options r \<noteq> [] \<and> answer \<notin> opt_ID ` set (req_Options r) \<and> \<not> req_AllowFreeText r)
       [Lit ''answer must be one of the advertised option IDs''])"

definition ValidateAnswer :: "(string \<Rightarrow> string) \<Rightarrow> Request option \<Rightarrow> string \<Rightarrow> go_error option" where
  "ValidateAnswer redact request answer = first_error
     [guard (TrimSpace answer = '''') [Lit ''answer must not be empty''],
      guard (int (length answer) > MaxAnswerBytes) [Lit ''answer must not exceed '', Num MaxAnswerBytes, Lit '' bytes''],
      guard (runes answer = None) [Lit ''answer must be valid UTF-8''],
      guard (case runes answer of None \<Rightarrow> False | Some rs \<Rightarrow> \<exists>r \<in> set rs. forbidden_rune r) [Lit ''answer must not contain control characters''],
      guard (redact answer \<noteq> answer) [Lit ''answer must not contain a credential or configured secret''],
      option_error request answer]"

section \<open>Receiving an answer\<close>

text \<open>A write through the pointer \<open>Request(id)\<close> returns. It points into the pending requests or into a quarantine record; the
  lookup succeeds only if the ID is unique, so the write changes every request with it.\<close>

definition write_request :: "string \<Rightarrow> (Request \<Rightarrow> Request) \<Rightarrow> Request \<Rightarrow> Request" where
  "write_request id' f r = (if req_ID r = id' then f r else r)"

definition update_request :: "string \<Rightarrow> (Request \<Rightarrow> Request) \<Rightarrow> Snapshot \<Rightarrow> Snapshot" where
  "update_request id' f s = s\<lparr>
     snap_PendingRequests := map_values (\<lambda>k. map_option (write_request id' f)) (snap_PendingRequests s),
     snap_QuarantinedIssues := map_values (\<lambda>k. map_option (\<lambda>q.
        q\<lparr>qr_Requests := map (map_option (write_request id' f)) (qr_Requests q)\<rparr>)) (snap_QuarantinedIssues s)\<rparr>"

definition errAnswerRecorded :: go_error where
  "errAnswerRecorded = Errorf [Lit ''answer already recorded'']"

text \<open>\<open>errors.Is(err, errAnswerRecorded)\<close>.\<close>

fun is_answer_recorded :: "go_error \<Rightarrow> bool" where
  "is_answer_recorded (Wrapf ps e) = is_answer_recorded e"
| "is_answer_recorded (IssueMutationError n e) = is_answer_recorded e"
| "is_answer_recorded e = (e = errAnswerRecorded)"

text \<open>The checks made before the update and again inside it.\<close>

definition checked_request :: "(string \<Rightarrow> string) \<Rightarrow> string \<Rightarrow> string \<Rightarrow> AnswerProvenance option \<Rightarrow> Snapshot \<Rightarrow> go_error + Request" where
  "checked_request redact id' answer provenance s = (case Snapshot_Request s id' of
     Inl _ \<Rightarrow> Inl (ConflictError (lit ''unknown or ambiguous request''))
   | Inr request \<Rightarrow> (case ValidateAnswer redact (Some request) answer of Some e \<Rightarrow> Inl e
     | None \<Rightarrow> (case ValidateAnswerObservation s request provenance of Some e \<Rightarrow> Inl e
       | None \<Rightarrow> Inr request)))"

definition answer_mutation ::
  "(string \<Rightarrow> string) \<Rightarrow> string \<Rightarrow> string \<Rightarrow> AnswerProvenance option \<Rightarrow> time \<Rightarrow> Snapshot \<Rightarrow> go_error + Snapshot" where
  "answer_mutation redact id' answer provenance now s =
     and_ok (checked_request redact id' answer provenance s) (\<lambda>request.
     if req_Status request = RequestStatusAnswered then
       Inl (if req_Answer request = answer then errAnswerRecorded
            else ConflictError (lit ''request already has a different answer''))
     else and_ok (ApplyRequestAnswer request answer now) (\<lambda>r.
       Inr (update_request id' (\<lambda>_. r\<lparr>req_AnswerProvenance := provenance\<rparr>) s)))"

definition found_request :: "string \<Rightarrow> Snapshot \<Rightarrow> go_error + Snapshot \<times> Request" where
  "found_request id' s = and_ok (Snapshot_Request s id') (\<lambda>r. Inr (s, r))"

text \<open>The two loads and the update each draw on their own. The payload is the encoded record of the receipt.\<close>

definition receive ::
  "Store \<Rightarrow> Draws \<Rightarrow> Ambient \<Rightarrow> string \<Rightarrow> string \<Rightarrow> AnswerProvenance option \<Rightarrow> time \<Rightarrow> payload \<Rightarrow> Request \<Rightarrow> Disk
     \<Rightarrow> (go_error + Snapshot \<times> Request) \<times> Disk" where
  "receive st draws reload id' answer provenance now payload request d =
     (case Update st draws ''answer_recorded'' (req_IssueNumber request) (req_RunID request) payload
            (answer_mutation (store_redact st) id' answer provenance now) d of
        (Inr s, d) \<Rightarrow> (found_request id' s, d)
      | (Inl e, d) \<Rightarrow>
        if is_answer_recorded e then (case Load st reload d of
            (Inl e, d) \<Rightarrow> (Inl e, d) | (Inr s, d) \<Rightarrow> (found_request id' s, d))
        else (Inl e, d))"

definition RecordAnswer ::
  "Store \<Rightarrow> Ambient \<Rightarrow> Draws \<Rightarrow> Ambient \<Rightarrow> string \<Rightarrow> string \<Rightarrow> time \<Rightarrow> AnswerProvenance option list \<Rightarrow> payload \<Rightarrow> Disk
     \<Rightarrow> (go_error + Snapshot \<times> Request) \<times> Disk" where
  "RecordAnswer st amb draws reload id' answer now observations payload d = (case Load st amb d of
     (Inl e, d) \<Rightarrow> (Inl e, d)
   | (Inr s, d) \<Rightarrow>
     if \<not> ValidID id' ''req_'' \<or> IsZero now \<or> length observations > 1
     then (Inl (Errorf [Lit ''answer identity and timestamp are required'']), d)
     else let provenance = (case observations of [p] \<Rightarrow> p | _ \<Rightarrow> None) in
       (case checked_request (store_redact st) id' answer provenance s of
          Inl e \<Rightarrow> (Inl e, d)
        | Inr request \<Rightarrow>
          if req_Status request = RequestStatusAnswered then
            (if req_Answer request \<noteq> answer then Inl (ConflictError (lit ''request already has a different answer''))
             else Inr (s, request), d)
          else receive st draws reload id' answer provenance now payload request d))"

section \<open>Delivering an answer\<close>

definition resume_status :: "Request \<Rightarrow> Status" where
  "resume_status request = (if req_ResumeStatus request = StatusUnset then StatusResumePending else req_ResumeStatus request)"

definition continuation_owns :: "Snapshot \<Rightarrow> Issue \<Rightarrow> bool" where
  "continuation_owns s item \<longleftrightarrow> iss_WorkerPID item \<noteq> 0 \<or> iss_WorkerPGID item \<noteq> 0
     \<or> (case snap_ActiveExecution s of None \<Rightarrow> False | Some a \<Rightarrow> act_IssueNumber a = iss_Number item)"

definition answeredTransition :: "Snapshot \<Rightarrow> Request \<Rightarrow> go_error + Transition" where
  "answeredTransition s request = (case issue_at s (req_IssueNumber request) of
     None \<Rightarrow> Inl (Errorf [Lit ''answer has no managed continuation''])
   | Some item \<Rightarrow>
     if req_Status request \<noteq> RequestStatusAnswered \<or> req_AnsweredAt request = None
     then Inl (Errorf [Lit ''answer has no managed continuation''])
     else if \<exists>recorded \<in> set (iss_Answers item). ans_RequestID recorded = req_ID request
     then Inl (Errorf [Lit ''answer already delivered''])
     else and_ok (ResumeAfterAnswer (iss_Status item) (resume_status request)) (\<lambda>transition.
       if continuation_owns s item then Inl (Errorf [Lit ''answer continuation still owns execution''])
       else if has_pending_request s (iss_Number item) then Inl (Errorf [Lit ''another question remains unanswered''])
       else case (if req_ResumeStatus request = StatusUnset then ValidateNeedsInputContinuation (Some item) (Some request) else None) of
         Some e \<Rightarrow> Inl e
       | None \<Rightarrow> Inr transition))"

definition delivered :: "Request \<Rightarrow> time \<Rightarrow> time \<Rightarrow> Issue \<Rightarrow> Issue" where
  "delivered request answeredAt now i = i\<lparr>iss_Answers := iss_Answers i @ [\<lparr>ans_RequestID = req_ID request,
       ans_Question = req_Question request, ans_Answer = req_Answer request, ans_AnsweredAt = answeredAt\<rparr>],
     iss_RetryAfter := None, iss_UpdatedAt := UTC now\<rparr>"

definition clear_needs_input :: "int \<Rightarrow> Snapshot \<Rightarrow> go_error + Snapshot" where
  "clear_needs_input number s = (case PendingEffect s number of
     None \<Rightarrow> Inr s
   | Some effect \<Rightarrow> if eff_Kind effect = EffectMarkNeedsInput then ClearEffect number (eff_ID effect) s else Inr s)"

definition retry_conflict :: "Entropy \<Rightarrow> Transition \<Rightarrow> int \<Rightarrow> string \<Rightarrow> time \<Rightarrow> Snapshot \<Rightarrow> go_error + Snapshot" where
  "retry_conflict entropy transition number runID now s =
     (if tr_To transition = StatusResolvingConflict then SetEffect entropy number runID EffectRetryConflict now s else Inr s)"

definition deliver_mutation :: "Entropy \<Rightarrow> string \<Rightarrow> time \<Rightarrow> Snapshot \<Rightarrow> go_error + Snapshot" where
  "deliver_mutation entropy id' now s =
     and_ok (Snapshot_Request s id') (\<lambda>latest.
     and_ok (answeredTransition s latest) (\<lambda>transition.
     let number = req_IssueNumber latest in
     and_ok (ApplyIssueTransition (issue_at s number) transition) (\<lambda>i.
     case req_AnsweredAt latest of None \<Rightarrow> Inl NilPointerPanic | Some answeredAt \<Rightarrow>
     let item = delivered latest answeredAt now i in
     and_ok (clear_needs_input (iss_Number item) (put_issue number item s)) (\<lambda>s.
     retry_conflict entropy transition (iss_Number item) (iss_RunID item) now s))))"

text \<open>The requests are those of the snapshot loaded first; each update draws on its own.\<close>

fun deliver_all ::
  "Store \<Rightarrow> (nat \<Rightarrow> Draws \<times> Entropy) \<Rightarrow> (string \<Rightarrow> payload) \<Rightarrow> time \<Rightarrow> Request list \<Rightarrow> Snapshot \<Rightarrow> Disk \<Rightarrow> (go_error + Snapshot) \<times> Disk" where
  "deliver_all st draws payload now [] s d = (Inr s, d)"
| "deliver_all st draws payload now (request # requests) s d =
     (if isl (answeredTransition s request) then deliver_all st (\<lambda>i. draws (Suc i)) payload now requests s d
      else case Update st (fst (draws 0)) ''answer_ready'' (req_IssueNumber request) (req_RunID request) (payload (req_ID request))
             (deliver_mutation (snd (draws 0)) (req_ID request) now) d of
        (Inl e, d) \<Rightarrow> (Inl e, d)
      | (Inr s, d) \<Rightarrow> deliver_all st (\<lambda>i. draws (Suc i)) payload now requests s d)"

definition PrepareAnsweredRequests ::
  "Store \<Rightarrow> Ambient \<Rightarrow> (nat \<Rightarrow> Draws \<times> Entropy) \<Rightarrow> (string \<Rightarrow> payload) \<Rightarrow> time \<Rightarrow> Disk \<Rightarrow> (go_error + Snapshot) \<times> Disk" where
  "PrepareAnsweredRequests st amb draws payload now d = (case Load st amb d of
     (Inl e, d) \<Rightarrow> (Inl e, d)
   | (Inr s, d) \<Rightarrow> deliver_all st draws payload now (Requests s) s d)"

section \<open>Asking before an execution\<close>

definition same_question :: "string \<Rightarrow> string \<Rightarrow> string \<Rightarrow> RequestOption list \<Rightarrow> bool \<Rightarrow> Request \<Rightarrow> bool" where
  "same_question question reason recommended options freeText r \<longleftrightarrow> req_Question r = question \<and> req_Reason r = reason
     \<and> req_Recommended r = recommended \<and> req_Options r = options \<and> req_AllowFreeText r = freeText"

definition intake_request ::
  "string \<Rightarrow> int \<Rightarrow> string \<Rightarrow> string \<Rightarrow> string \<Rightarrow> RequestOption list \<Rightarrow> bool \<Rightarrow> time \<Rightarrow> Request" where
  "intake_request id' number question reason recommended options freeText now =
     \<lparr>req_ID = id', req_IssueNumber = number, req_Question = question, req_Reason = reason, req_Recommended = recommended,
      req_Options = options, req_AllowFreeText = freeText, req_ResumeStatus = StatusUnset, req_RunID = '''', req_CheckpointID = '''',
      req_ReleasedExecution = None, req_Status = RequestStatusPending, req_Answer = '''', req_AnswerProvenance = None,
      req_CreatedAt = UTC now, req_AnsweredAt = None\<rparr>"

definition intake_blocked :: "Snapshot \<Rightarrow> int \<Rightarrow> bool" where
  "intake_blocked s number \<longleftrightarrow> ptr_at (snap_QuarantinedIssues s) (Itoa number) \<noteq> None
     \<or> (case issue_at s number of None \<Rightarrow> False | Some item \<Rightarrow> iss_Status item \<noteq> StatusUnset \<or> iss_RunID item \<noteq> '''')"

text \<open>The mutation returns the ID it assigns to the captured variable with the snapshot.\<close>

definition intake_mutation ::
  "string \<Rightarrow> int \<Rightarrow> string \<Rightarrow> string \<Rightarrow> string \<Rightarrow> string \<Rightarrow> RequestOption list \<Rightarrow> bool \<Rightarrow> time \<Rightarrow> Snapshot
     \<Rightarrow> go_error + Snapshot \<times> string" where
  "intake_mutation id' number title question reason recommended options freeText now s =
     (if intake_blocked s number then Inl (Errorf [Lit ''intake question requires an Issue without an execution''])
      else case find (pending_request_for number) (Requests s) of
        Some r \<Rightarrow>
          if same_question question reason recommended options freeText r then Inr (s, req_ID r)
          else Inl (Errorf [Lit ''Issue already has a different unanswered question''])
      | None \<Rightarrow>
        and_ok (if issue_at s number = None
                then massign (Itoa number) (Some (zero_Issue\<lparr>iss_Number := number, iss_Title := title, iss_UpdatedAt := UTC now\<rparr>)) (snap_Issues s)
                else Inr (snap_Issues s)) (\<lambda>issues.
        and_ok (massign id' (Some (intake_request id' number question reason recommended options freeText now)) (snap_PendingRequests s))
          (\<lambda>requests. Inr (s\<lparr>snap_Issues := issues, snap_PendingRequests := requests\<rparr>, id'))))"

text \<open>The ID after the update: the one the mutation settled on when it ran on the recovered snapshot.\<close>

definition intake_id :: "Store \<Rightarrow> Draws \<Rightarrow> (Snapshot \<Rightarrow> go_error + Snapshot \<times> string) \<Rightarrow> string \<Rightarrow> Disk \<Rightarrow> string" where
  "intake_id st draws mutation newID d = (case fst (recoverUnlocked st (dr_Recover draws) d) of
     Inl _ \<Rightarrow> newID
   | Inr s \<Rightarrow> (case mutation (Normalize s) of Inl _ \<Rightarrow> newID | Inr (_, id') \<Rightarrow> id'))"

definition AskIntake ::
  "Store \<Rightarrow> Draws \<Rightarrow> Entropy \<Rightarrow> int \<Rightarrow> string \<Rightarrow> string \<Rightarrow> string \<Rightarrow> string \<Rightarrow> RequestOption list \<Rightarrow> bool \<Rightarrow> time \<Rightarrow> payload \<Rightarrow> Disk
     \<Rightarrow> (go_error + Snapshot \<times> Request) \<times> Disk" where
  "AskIntake st draws entropy number title question reason recommended options freeText now payload d =
     (let newID = NewID ''req'' entropy;
          mutation = intake_mutation newID number title question reason recommended options freeText now in
      case Update st draws ''input_requested'' number '''' payload (\<lambda>s. map_sum id fst (mutation s)) d of
        (Inl e, d') \<Rightarrow> (Inl e, d')
      | (Inr s, d') \<Rightarrow> (found_request (intake_id st draws mutation newID d) s, d'))"

section \<open>Requests after a write\<close>

lemma insort_key_map: "insort_key k (f x) (map f xs) = map f (insort_key (\<lambda>x. k (f x)) x xs)"
  by (induction xs) auto

lemma sort_key_map: "sort_key k (map f xs) = map f (sort_key (\<lambda>x. k (f x)) xs)"
  by (induction xs) (simp_all add: insort_key_map)

lemma pointees_map_values: "pointees (map_values (\<lambda>k. map_option f) m) = map f (pointees m)"
  by (cases m) (auto simp: pointees_def map_values_def List.map_filter_def comp_def filter_map split_def map_option_case
      split: option.splits intro!: map_cong filter_cong)

lemma map_filter_map: "List.map_filter (\<lambda>r. r) (map (map_option f) xs) = map f (List.map_filter (\<lambda>r. r) xs)"
  by (induction xs) (simp_all add: List.map_filter_simps split: option.split)

lemma Requests_update:
  assumes "\<And>r. req_ID r = i \<Longrightarrow> req_ID (f r) = i"
  shows "Requests (update_request i f s) = map (write_request i f) (Requests s)"
proof -
  have "req_ID (write_request i f r) = req_ID r" for r using assms by (simp add: write_request_def)
  then have sorted: "sort_key req_ID (map (write_request i f) xs) = map (write_request i f) (sort_key req_ID xs)" for xs
    by (simp add: sort_key_map)
  have "concat (map (\<lambda>x. map (write_request i f) (g x)) qs) = map (write_request i f) (concat (map g qs))"
    for g :: "QuarantineRecord \<Rightarrow> Request list" and qs by (simp add: map_concat comp_def)
  then show ?thesis
    by (simp add: Requests_def update_request_def pointees_map_values comp_def map_filter_map sorted flip: map_append)
qed

lemma found_iff: "Snapshot_Request s i = Inr r \<longleftrightarrow> filter (\<lambda>q. req_ID q = i) (Requests s) = [r]"
  using find_request_None [of i "Requests s" r] by (auto simp: Snapshot_Request_def and_ok_Inr split: option.splits)

lemma found_ID: "Snapshot_Request s i = Inr r \<Longrightarrow> req_ID r = i"
  by (auto simp: found_iff filter_eq_Cons_iff)

lemma found_update:
  assumes "Snapshot_Request s i = Inr r" and "\<And>r. req_ID r = i \<Longrightarrow> req_ID (f r) = i"
  shows "Snapshot_Request (update_request i f s) i = Inr (f r)"
proof -
  have "filter (\<lambda>q. req_ID q = i) (map (write_request i f) rs) = map f (filter (\<lambda>q. req_ID q = i) rs)" for rs
    using assms(2) by (induction rs) (simp_all add: write_request_def)
  with assms(1) show ?thesis by (simp add: found_iff Requests_update [OF assms(2)])
qed

section \<open>Receiving\<close>

lemma checked_Inr:
  "checked_request redact i a p s = Inr r \<longleftrightarrow>
     Snapshot_Request s i = Inr r \<and> ValidateAnswer redact (Some r) a = None \<and> ValidateAnswerObservation s r p = None"
  by (auto simp: checked_request_def split: sum.splits option.splits)

lemma answer_mutation_Inr:
  "answer_mutation redact i a p now s = Inr s' \<longleftrightarrow> (\<exists>r. checked_request redact i a p s = Inr r \<and> req_Status r = RequestStatusPending
     \<and> s' = update_request i (\<lambda>_. r\<lparr>req_Status := RequestStatusAnswered, req_Answer := a, req_AnsweredAt := Some now,
          req_AnswerProvenance := p\<rparr>) s)"
  by (auto simp: answer_mutation_def and_ok_Inr ApplyRequestAnswer_def AnswerRequest_def split: if_splits)

lemma ValidateAnswer_None:
  "ValidateAnswer redact request a = None \<longleftrightarrow> TrimSpace a \<noteq> '''' \<and> int (length a) \<le> MaxAnswerBytes
     \<and> (\<exists>rs. runes a = Some rs \<and> (\<forall>r \<in> set rs. \<not> forbidden_rune r)) \<and> redact a = a
     \<and> (\<forall>r. request = Some r \<and> req_Options r \<noteq> [] \<and> \<not> req_AllowFreeText r \<longrightarrow> a \<in> opt_ID ` set (req_Options r))"
  by (auto simp: ValidateAnswer_def option_error_def split: option.splits)

lemma ValidateAnswer_cong:
  "req_Options r = req_Options r' \<Longrightarrow> req_AllowFreeText r = req_AllowFreeText r' \<Longrightarrow>
     ValidateAnswer redact (Some r) a = ValidateAnswer redact (Some r') a"
  by (simp add: ValidateAnswer_def option_error_def)

text \<open>The same observation is accepted again after the answer.\<close>

lemma observation_repeats:
  assumes "ValidateAnswerObservation s r p = None" and "req_Status r = RequestStatusPending"
  shows "ValidateAnswerObservation s' (r\<lparr>req_Status := RequestStatusAnswered, req_Answer := a, req_AnsweredAt := t,
          req_AnswerProvenance := p\<rparr>) p = None"
proof (cases p)
  case (Some x)
  from assms have "\<not> provenance_mismatch r x"
    by (auto simp: ValidateAnswerObservation_def Some split: if_splits)
  then show ?thesis by (simp add: ValidateAnswerObservation_def Some provenance_mismatch_def)
qed (simp add: ValidateAnswerObservation_def)

lemma recorded_guard: "Some e = guard c ps \<Longrightarrow> ps \<noteq> [Lit ''answer already recorded''] \<Longrightarrow> e \<noteq> errAnswerRecorded"
  by (simp add: guard_def errAnswerRecorded_def split: if_splits)

lemma recorded_not_conflict:
  assumes "ValidateAnswer redact request a = Some e" shows "e \<noteq> errAnswerRecorded"
proof -
  have option: "e \<noteq> errAnswerRecorded" if "Some e = option_error request a"
    using that unfolding option_error_def by (cases request) (simp_all add: recorded_guard)
  from first_error_Some [OF assms [unfolded ValidateAnswer_def]] show ?thesis
    unfolding set_simps insert_iff empty_iff
    apply (elim disjE FalseE)
    apply (erule recorded_guard, simp)+
    by (erule option)
qed

lemma answered_repeats:
  assumes "Snapshot_Request s' i = Inr (r\<lparr>req_Status := RequestStatusAnswered, req_Answer := a, req_AnsweredAt := t,
      req_AnswerProvenance := p\<rparr>)"
    and "ValidateAnswer redact (Some r) a = None" and "ValidateAnswerObservation s r p = None" and "req_Status r = RequestStatusPending"
  shows "answer_mutation redact i a p later s' = Inl errAnswerRecorded"
proof -
  let ?r = "r\<lparr>req_Status := RequestStatusAnswered, req_Answer := a, req_AnsweredAt := t, req_AnswerProvenance := p\<rparr>"
  have "ValidateAnswer redact (Some ?r) a = None" using assms(2) ValidateAnswer_cong [of ?r r] by simp
  then have "checked_request redact i a p s' = Inr ?r"
    using assms(1) observation_repeats [OF assms(3,4)] by (simp add: checked_Inr)
  then show ?thesis by (simp add: answer_mutation_def)
qed

lemma answered_refuses:
  assumes "Snapshot_Request s' i = Inr r" and "req_Status r = RequestStatusAnswered" and "req_Answer r \<noteq> b"
  shows "\<exists>e. answer_mutation redact i b q later s' = Inl e \<and> e \<noteq> errAnswerRecorded"
proof (cases "checked_request redact i b q s'")
  case (Inl e)
  have conflict: "ConflictError m \<noteq> errAnswerRecorded" for m by (simp add: errAnswerRecorded_def)
  have "ValidateAnswerObservation s' r q = Some e \<Longrightarrow> e \<noteq> errAnswerRecorded" for e
    by (auto simp: ValidateAnswerObservation_def conflict split: option.splits if_splits)
  with Inl have "e \<noteq> errAnswerRecorded"
    using assms(1) recorded_not_conflict by (auto simp: checked_request_def split: option.splits)
  with Inl show ?thesis by (simp add: answer_mutation_def)
next
  case (Inr x)
  then have "x = r" using assms(1) by (simp add: checked_Inr)
  with Inr assms(2,3) show ?thesis by (simp add: answer_mutation_def errAnswerRecorded_def)
qed

text \<open>An answer is received exactly once. Recording succeeds only on the one request with the ID, while it is
  pending, and for an answer that is not blank, at most 16 KiB, valid UTF-8 without control characters, free of secrets and,
  unless free text is allowed, one of the options. Then that request carries the answer, its time and its source, every other
  request and every other part of the snapshot are unchanged; repeating the same answer is recognised, and every other
  answer is refused.\<close>

theorem answer_is_received_once:
  assumes "answer_mutation redact i a p now s = Inr s'"
  shows "\<exists>r r'. Snapshot_Request s i = Inr r \<and> req_Status r = RequestStatusPending
     \<and> TrimSpace a \<noteq> '''' \<and> int (length a) \<le> 16384 \<and> (\<exists>rs. runes a = Some rs \<and> (\<forall>c \<in> set rs. \<not> forbidden_rune c)) \<and> redact a = a
     \<and> (req_Options r \<noteq> [] \<and> \<not> req_AllowFreeText r \<longrightarrow> a \<in> opt_ID ` set (req_Options r))
     \<and> r' = r\<lparr>req_Status := RequestStatusAnswered, req_Answer := a, req_AnsweredAt := Some now, req_AnswerProvenance := p\<rparr>
     \<and> Snapshot_Request s' i = Inr r' \<and> Requests s' = map (\<lambda>q. if req_ID q = i then r' else q) (Requests s)
     \<and> s' = s\<lparr>snap_PendingRequests := snap_PendingRequests s', snap_QuarantinedIssues := snap_QuarantinedIssues s'\<rparr>
     \<and> answer_mutation redact i a p later s' = Inl errAnswerRecorded
     \<and> (\<forall>b q. b \<noteq> a \<longrightarrow> (\<exists>e. answer_mutation redact i b q later s' = Inl e \<and> e \<noteq> errAnswerRecorded))"
proof -
  obtain r where r: "Snapshot_Request s i = Inr r" "ValidateAnswer redact (Some r) a = None"
      "ValidateAnswerObservation s r p = None" "req_Status r = RequestStatusPending"
    and s': "s' = update_request i (\<lambda>_. r\<lparr>req_Status := RequestStatusAnswered, req_Answer := a, req_AnsweredAt := Some now,
          req_AnswerProvenance := p\<rparr>) s"
    using assms by (auto simp: answer_mutation_Inr checked_Inr)
  let ?r = "r\<lparr>req_Status := RequestStatusAnswered, req_Answer := a, req_AnsweredAt := Some now, req_AnswerProvenance := p\<rparr>"
  have "req_ID r = i" using r(1) by (rule found_ID)
  then have keeps: "req_ID q = i \<Longrightarrow> req_ID ?r = i" for q by simp
  note found = found_update [OF r(1), of "\<lambda>_. ?r", OF keeps, folded s']
  have all: "Requests s' = map (\<lambda>q. if req_ID q = i then ?r else q) (Requests s)"
    using Requests_update [of i "\<lambda>_. ?r" s, OF keeps] by (simp add: s' write_request_def [abs_def])
  note again = answered_repeats [OF found r(2,3,4)]
  have other: "\<forall>b q. b \<noteq> a \<longrightarrow> (\<exists>e. answer_mutation redact i b q later s' = Inl e \<and> e \<noteq> errAnswerRecorded)"
    by (intro allI impI answered_refuses [OF found]) simp_all
  have valid: "TrimSpace a \<noteq> ''''" "int (length a) \<le> 16384" "\<exists>rs. runes a = Some rs \<and> (\<forall>c \<in> set rs. \<not> forbidden_rune c)"
      "redact a = a" "req_Options r \<noteq> [] \<and> \<not> req_AllowFreeText r \<longrightarrow> a \<in> opt_ID ` set (req_Options r)"
    using r(2) ValidateAnswer_None [of redact "Some r" a] by (simp_all add: MaxAnswerBytes_def)
  have rest: "s' = s\<lparr>snap_PendingRequests := snap_PendingRequests s', snap_QuarantinedIssues := snap_QuarantinedIssues s'\<rparr>"
    by (simp add: s' update_request_def)
  show ?thesis
    using valid r(1,4) found all again other
    by (intro exI [of _ r] exI [of _ ?r] conjI) (rule rest refl | assumption)+
qed

section \<open>Delivering\<close>

lemma resume_after_answer_Inr:
  "ResumeAfterAnswer from target = Inr tr \<Longrightarrow> from = StatusNeedsInput \<and> tr_From tr = from \<and> tr_To tr = target
     \<and> (target = StatusResumePending \<or> target = StatusResolvingConflict)"
  by (auto simp: ResumeAfterAnswer_def decision_Inr split: if_splits)

lemma answeredTransition_Inr:
  assumes "answeredTransition s request = Inr tr"
  shows "\<exists>item at. issue_at s (req_IssueNumber request) = Some item \<and> req_Status request = RequestStatusAnswered
     \<and> req_AnsweredAt request = Some at \<and> (\<forall>a \<in> set (iss_Answers item). ans_RequestID a \<noteq> req_ID request)
     \<and> iss_Status item = StatusNeedsInput \<and> tr_From tr = StatusNeedsInput \<and> tr_To tr = resume_status request
     \<and> (resume_status request = StatusResumePending \<or> resume_status request = StatusResolvingConflict)
     \<and> \<not> continuation_owns s item \<and> \<not> has_pending_request s (iss_Number item)"
  using assms resume_after_answer_Inr
  by (fastforce simp: answeredTransition_def and_ok_Inr split: option.splits if_splits)

lemma clear_needs_input_Inr:
  assumes "clear_needs_input n s = Inr s'"
  shows "snap_Issues s' = snap_Issues s" "snap_PendingRequests s' = snap_PendingRequests s"
    "snap_QuarantinedIssues s' = snap_QuarantinedIssues s" "snap_ActiveExecution s' = snap_ActiveExecution s"
    "\<forall>eff. PendingEffect s' n = Some eff \<longrightarrow> eff_Kind eff \<noteq> EffectMarkNeedsInput"
  using assms by (auto simp: clear_needs_input_def ClearEffect_def PendingEffect_def split: option.splits if_splits)

lemma set_effect_requests:
  "SetEffect e n run kind at s = Inr s' \<Longrightarrow> snap_PendingRequests s' = snap_PendingRequests s
     \<and> snap_QuarantinedIssues s' = snap_QuarantinedIssues s"
  by (auto simp: SetEffect_def and_ok_Inr split: if_splits option.splits)

lemma delivered_fields: "iss_Number (delivered r at now i) = iss_Number i" "iss_RunID (delivered r at now i) = iss_RunID i"
  by (simp_all add: delivered_def)

lemma put_issue_requests [simp]:
  "snap_PendingRequests (put_issue n i s) = snap_PendingRequests s"
  "snap_QuarantinedIssues (put_issue n i s) = snap_QuarantinedIssues s"
  by (simp_all add: put_issue_def)

lemma deliver_Inr:
  assumes "deliver_mutation e i now s = Inr s'"
  shows "\<exists>r tr i1 at s1. Snapshot_Request s i = Inr r \<and> answeredTransition s r = Inr tr
     \<and> ApplyIssueTransition (issue_at s (req_IssueNumber r)) tr = Inr i1 \<and> req_AnsweredAt r = Some at
     \<and> clear_needs_input (iss_Number i1) (put_issue (req_IssueNumber r) (delivered r at now i1) s) = Inr s1
     \<and> retry_conflict e tr (iss_Number i1) (iss_RunID i1) now s1 = Inr s'"
proof -
  obtain r tr i1 where r: "Snapshot_Request s i = Inr r" "answeredTransition s r = Inr tr"
      "ApplyIssueTransition (issue_at s (req_IssueNumber r)) tr = Inr i1"
    using assms unfolding deliver_mutation_def and_ok_Inr Let_def by blast
  with assms show ?thesis
    by (cases "req_AnsweredAt r") (auto simp: deliver_mutation_def and_ok_Inr delivered_fields)
qed

lemma retry_frame:
  assumes "retry_conflict e tr n run now s = Inr s'"
  shows "snap_Issues s' = snap_Issues s" "snap_ActiveExecution s' = snap_ActiveExecution s"
    "snap_PendingRequests s' = snap_PendingRequests s" "snap_QuarantinedIssues s' = snap_QuarantinedIssues s"
  using assms effect_set(2,3) [of e n run EffectRetryConflict now s s'] set_effect_requests [of e n run EffectRetryConflict now s s']
  by (auto simp: retry_conflict_def split: if_splits)

text \<open>A request whose answer the Issue has recorded is not delivered again.\<close>

lemma delivered_once:
  assumes "Snapshot_Request s i = Inr r" and "issue_at s (req_IssueNumber r) = Some item" and "req_Status r = RequestStatusAnswered"
    and "req_AnsweredAt r = Some at" and "\<exists>a \<in> set (iss_Answers item). ans_RequestID a = req_ID r"
  shows "deliver_mutation e i now s = Inl (Errorf [Lit ''answer already delivered''])"
  using assms by (simp add: deliver_mutation_def answeredTransition_def)

text \<open>C31: An answer is delivered exactly once. Delivery needs a received answer, an Issue that waits for input, owns no worker
  and no execution and has no other question open. The Issue then goes to the status the request asked for, with the answer appended
  to its record and no retry pending; the effect that announced the question is gone and a conflict retry is pending exactly
  where the conflict is resumed; no request changes; and delivering the same request again is refused.\<close>

theorem answer_is_delivered_once:
  assumes "deliver_mutation e i now s = Inr s'" and "Snapshot_Validate s = None"
  shows "\<exists>r at item item'. Snapshot_Request s i = Inr r \<and> req_Status r = RequestStatusAnswered \<and> req_AnsweredAt r = Some at
     \<and> issue_at s (req_IssueNumber r) = Some item \<and> iss_Status item = StatusNeedsInput
     \<and> iss_WorkerPID item = 0 \<and> iss_WorkerPGID item = 0 \<and> \<not> has_pending_request s (req_IssueNumber r)
     \<and> issue_at s' (req_IssueNumber r) = Some item' \<and> iss_Status item' = resume_status r
     \<and> iss_Status item' \<in> {StatusResumePending, StatusResolvingConflict} \<and> iss_RetryAfter item' = None
     \<and> iss_Answers item' = iss_Answers item @ [\<lparr>ans_RequestID = i, ans_Question = req_Question r, ans_Answer = req_Answer r,
          ans_AnsweredAt = at\<rparr>]
     \<and> (\<forall>a \<in> set (iss_Answers item). ans_RequestID a \<noteq> i)
     \<and> (\<forall>eff. PendingEffect s' (req_IssueNumber r) = Some eff \<longrightarrow> eff_Kind eff \<noteq> EffectMarkNeedsInput)
     \<and> (resume_status r = StatusResolvingConflict \<longrightarrow>
          (\<exists>eff. PendingEffect s' (req_IssueNumber r) = Some eff \<and> eff_Kind eff = EffectRetryConflict \<and> eff_RunID eff = iss_RunID item))
     \<and> Requests s' = Requests s \<and> snap_ActiveExecution s' = snap_ActiveExecution s
     \<and> deliver_mutation e' i later s' = Inl (Errorf [Lit ''answer already delivered''])"
proof -
  from deliver_Inr [OF assms(1)] obtain r tr i1 at s1 where r: "Snapshot_Request s i = Inr r" "answeredTransition s r = Inr tr"
      "ApplyIssueTransition (issue_at s (req_IssueNumber r)) tr = Inr i1" "req_AnsweredAt r = Some at"
    and s1: "clear_needs_input (iss_Number i1) (put_issue (req_IssueNumber r) (delivered r at now i1) s) = Inr s1"
    and s': "retry_conflict e tr (iss_Number i1) (iss_RunID i1) now s1 = Inr s'"
    by (elim exE conjE) (rule that; assumption)
  obtain item where item: "issue_at s (req_IssueNumber r) = Some item" "req_Status r = RequestStatusAnswered"
      "\<forall>a \<in> set (iss_Answers item). ans_RequestID a \<noteq> req_ID r" "iss_Status item = StatusNeedsInput"
      "tr_From tr = StatusNeedsInput" "tr_To tr = resume_status r"
      "resume_status r = StatusResumePending \<or> resume_status r = StatusResolvingConflict"
      "\<not> continuation_owns s item" "\<not> has_pending_request s (iss_Number item)"
    using answeredTransition_Inr [OF r(2)] by (elim exE conjE) (rule that; assumption)
  have number: "iss_Number item = req_IssueNumber r"
    using valid_issue(2) [OF assms(2) item(1)] by (simp add: Itoa_inj inj_eq)
  have i1: "i1 = commit_transition tr item" using r(3) item(1) by (simp add: apply_Inr)
  have nil: "snap_Issues s \<noteq> NilMap" using item(1) by (rule ptr_at_not_nil)
  let ?n = "req_IssueNumber r" and ?i = "delivered r at now i1"
  have i1': "iss_Number i1 = ?n" "iss_RunID i1 = iss_RunID item" "iss_Status i1 = resume_status r" "iss_Answers i1 = iss_Answers item"
    using number item(6) by (simp_all add: i1 commit_transition_def drop_resolved_suspension_def Let_def)
  note s1 = s1 [unfolded i1'(1)] and s' = s' [unfolded i1'(1,2)]
  note clear = clear_needs_input_Inr [OF s1]
  have c: "snap_Issues s1 = snap_Issues (put_issue ?n ?i s)" "snap_PendingRequests s1 = snap_PendingRequests s"
      "snap_QuarantinedIssues s1 = snap_QuarantinedIssues s" "snap_ActiveExecution s1 = snap_ActiveExecution s"
    by (simp_all add: clear)
  have d: "snap_Issues s' = snap_Issues (put_issue ?n ?i s)" "snap_ActiveExecution s' = snap_ActiveExecution s" "Requests s' = Requests s"
    using retry_frame [OF s'] c by (simp_all add: Requests_def)
  have eff: "\<forall>eff. PendingEffect s' ?n = Some eff \<longrightarrow> eff_Kind eff \<noteq> EffectMarkNeedsInput"
      "resume_status r = StatusResolvingConflict \<longrightarrow>
         (\<exists>eff. PendingEffect s' ?n = Some eff \<and> eff_Kind eff = EffectRetryConflict \<and> eff_RunID eff = iss_RunID item)"
    using s' clear(5) effect_set(1) [of e ?n "iss_RunID item" EffectRetryConflict now s1 s'] item(6)
    by (auto simp: retry_conflict_def split: if_splits)
  have issue: "issue_at s' ?n = Some ?i" using nil by (simp add: d(1) put_issue_def)
  have id: "req_ID r = i" using r(1) by (rule found_ID)
  have found: "Snapshot_Request s' i = Inr r" using r(1) d(3) by (simp add: found_iff)
  have again: "deliver_mutation e' i later s' = Inl (Errorf [Lit ''answer already delivered''])"
    by (rule delivered_once [OF found issue item(2) r(4)]) (simp add: delivered_def)
  have fields: "iss_Status ?i = resume_status r" "iss_Status ?i \<in> {StatusResumePending, StatusResolvingConflict}" "iss_RetryAfter ?i = None"
      "iss_Answers ?i = iss_Answers item @ [\<lparr>ans_RequestID = i, ans_Question = req_Question r, ans_Answer = req_Answer r,
          ans_AnsweredAt = at\<rparr>]"
    using item(7) i1'(3,4) by (auto simp: delivered_def id)
  have idle: "iss_WorkerPID item = 0" "iss_WorkerPGID item = 0" "\<not> has_pending_request s ?n" "\<forall>a \<in> set (iss_Answers item). ans_RequestID a \<noteq> i"
    using item(3,8,9) number by (simp_all add: continuation_owns_def id)
  show ?thesis
    by (intro exI conjI) (rule r(1) item(2) r(4) item(1) item(4) issue eff again d(2,3) fields idle)+
qed

section \<open>Asking\<close>

lemma set_pointees_assign:
  assumes "massign k (Some v) m = Inr m'"
  shows "v \<in> set (pointees m')" "set (pointees m') \<subseteq> insert v (set (pointees m))"
proof -
  obtain es where m: "m = GoMap es" "m' = GoMap (AList.update k (Some v) es)"
    using assms by (cases m) (auto simp: massign_def)
  have "set (AList.update k (Some v) es) \<subseteq> insert (k, Some v) (set es)"
    by (induction es) auto
  moreover have "(k, Some v) \<in> set (AList.update k (Some v) es)" by (induction es) auto
  ultimately show "v \<in> set (pointees m')" "set (pointees m') \<subseteq> insert v (set (pointees m))"
    unfolding subset_iff by (auto simp: pointees_entries m)
qed

text \<open>An intake question is asked once and only where no execution exists. It succeeds only for an Issue that is not
  quarantined and has neither a status nor a run; afterwards exactly one such question, with the returned ID, is
  pending for the Issue, every other Issue, execution, effect and quarantine record is what it was, and asking the same question again
  changes nothing and returns the same ID.\<close>

theorem intake_question_is_asked_once:
  assumes "intake_mutation id' n title q why rec opts free now s = Inr (s', i)"
  shows "\<not> intake_blocked s n
     \<and> (\<exists>r \<in> set (Requests s'). req_ID r = i \<and> pending_request_for n r \<and> same_question q why rec opts free r)
     \<and> (\<exists>item. issue_at s' n = Some item \<and> iss_Status item = StatusUnset \<and> iss_RunID item = '''' \<or> s' = s)
     \<and> (\<forall>m. m \<noteq> n \<longrightarrow> issue_at s' m = issue_at s m)
     \<and> s' = s\<lparr>snap_Issues := snap_Issues s', snap_PendingRequests := snap_PendingRequests s'\<rparr>
     \<and> (\<forall>r \<in> set (Requests s'). r \<in> set (Requests s) \<or> r = intake_request id' n q why rec opts free now)
     \<and> intake_mutation id'' n title' q why rec opts free later s' = Inr (s', i)"
proof (cases "find (pending_request_for n) (Requests s)")
  case (Some r)
  then have r: "\<not> intake_blocked s n" "same_question q why rec opts free r" "s' = s" "i = req_ID r"
    using assms by (auto simp: intake_mutation_def split: if_splits)
  have "r \<in> set (Requests s)" "pending_request_for n r" using find_SomeD [OF Some] by simp_all
  moreover have "intake_mutation id'' n title' q why rec opts free later s = Inr (s, i)"
    using Some r by (simp add: intake_mutation_def)
  ultimately show ?thesis using r by auto
next
  case None
  let ?r = "intake_request id' n q why rec opts free now"
  obtain issues requests where new: "\<not> intake_blocked s n" "i = id'"
      "(if issue_at s n = None then massign (Itoa n) (Some (zero_Issue\<lparr>iss_Number := n, iss_Title := title, iss_UpdatedAt := now\<rparr>)) (snap_Issues s)
        else Inr (snap_Issues s)) = Inr issues"
      "massign id' (Some ?r) (snap_PendingRequests s) = Inr requests"
    and s': "s' = s\<lparr>snap_Issues := issues, snap_PendingRequests := requests\<rparr>"
    using assms None by (auto simp: intake_mutation_def and_ok_Inr split: if_splits)
  note requests = set_pointees_assign [OF new(4)]
  have set: "?r \<in> set (Requests s')" "\<forall>r \<in> set (Requests s'). r \<in> set (Requests s) \<or> r = ?r"
    using requests by (auto simp: set_Requests s')
  have only: "\<forall>r \<in> set (Requests s). \<not> pending_request_for n r" using None by (simp add: find_None_iff)
  have p: "pending_request_for n ?r" "same_question q why rec opts free ?r" "req_ID ?r = id'"
    by (simp_all add: pending_request_for_def same_question_def intake_request_def)
  then have "find (pending_request_for n) (Requests s') \<noteq> None" using set(1) by (auto simp: find_None_iff)
  then obtain x where x: "find (pending_request_for n) (Requests s') = Some x" by blast
  then have "x = ?r" using find_SomeD [OF x] set(2) only by blast
  have issues: "\<forall>m. m \<noteq> n \<longrightarrow> issue_at s' m = issue_at s m" "\<exists>item. issue_at s' n = Some item \<and> iss_Status item = StatusUnset \<and> iss_RunID item = ''''"
    using new(1,3) by (auto simp: s' massign_Inr intake_blocked_def zero_Issue_def split: if_splits option.splits)
  then have "\<not> intake_blocked s' n" using new(1) by (auto simp: intake_blocked_def s')
  then have "intake_mutation id'' n title' q why rec opts free later s' = Inr (s', i)"
    using x \<open>x = ?r\<close> p new(2) by (simp add: intake_mutation_def)
  moreover have "s' = s\<lparr>snap_Issues := snap_Issues s', snap_PendingRequests := snap_PendingRequests s'\<rparr>" by (simp add: s')
  ultimately show ?thesis using new(1,2) set p issues by blast
qed

section \<open>The mailbox on a sample\<close>

definition asked_issue :: Issue where
  "asked_issue = running_issue\<lparr>iss_Status := StatusNeedsInput, iss_WorkerPID := 0, iss_WorkerPGID := 0, iss_SessionID := ''s'',
     iss_Session := Some \<lparr>ses_Backend = ''p'', ses_ID = ''s''\<rparr>,
     iss_Continuation := Some ((empty_checkpoint ''checkpoint_2'')\<lparr>ckpt_CreatedAt := 2, ckpt_RunID := ''run_1'', ckpt_Generation := 3,
       ckpt_BaseSHA := ''base'', ckpt_Workspace := iss_Workspace running_issue, ckpt_Session := Some \<lparr>ses_Backend = ''p'', ses_ID = ''s''\<rparr>,
       ckpt_HeadSHA := ''h'', ckpt_WorktreeSHA256 := replicate 64 (CHR ''a''), ckpt_Kind := ContinuationKindNeedsInput,
       ckpt_RequestID := ''req_1'', ckpt_Stage := ContinuationStageResume\<rparr>)\<rparr>"

definition asked_snapshot :: Snapshot where
  "asked_snapshot = new_snapshot\<lparr>snap_StateRevision := 1, snap_Issues := GoMap [(''7'', Some asked_issue)],
     snap_PendingRequests := GoMap [(''req_1'', Some pending_request)]\<rparr>"

definition answered_request :: Request where
  "answered_request = pending_request\<lparr>req_Status := RequestStatusAnswered, req_Answer := ''yes'', req_AnsweredAt := Some 9\<rparr>"

definition answered_snapshot :: Snapshot where
  "answered_snapshot = asked_snapshot\<lparr>snap_PendingRequests := GoMap [(''req_1'', Some answered_request)]\<rparr>"

lemma sample_mailbox:
  "isl (answer_mutation id ''req_1'' ''yes'' None 9 asked_snapshot) = False"
  "isl (deliver_mutation (RandFailed 8) ''req_1'' 10 answered_snapshot) = False"
  "Snapshot_Validate answered_snapshot = None"
  "isl (intake_mutation ''req_2'' 9 ''t'' ''q'' '''' '''' [] True 9 new_snapshot) = False"
  by code_simp+

theorem answer_is_received_once_witness:
  "\<exists>s'. answer_mutation id ''req_1'' ''yes'' None 9 asked_snapshot = Inr s'
     \<and> answer_mutation id ''req_1'' ''yes'' None 11 s' = Inl errAnswerRecorded"
proof -
  let ?m = "answer_mutation id ''req_1'' ''yes'' None 9 asked_snapshot"
  obtain s' where m: "?m = Inr s'" using sample_mailbox(1) by (cases ?m) auto
  from answer_is_received_once [OF m, of 11] m show ?thesis by blast
qed

theorem answer_is_delivered_once_witness:
  "\<exists>s'. deliver_mutation (RandFailed 8) ''req_1'' 10 answered_snapshot = Inr s'
     \<and> deliver_mutation (RandFailed 9) ''req_1'' 11 s' = Inl (Errorf [Lit ''answer already delivered''])"
proof -
  let ?m = "deliver_mutation (RandFailed 8) ''req_1'' 10 answered_snapshot"
  obtain s' where m: "?m = Inr s'" using sample_mailbox(2) by (cases ?m) auto
  from answer_is_delivered_once [OF m sample_mailbox(3), of "RandFailed 9" 11] m show ?thesis by blast
qed

theorem intake_question_is_asked_once_witness:
  "\<exists>s' i. intake_mutation ''req_2'' 9 ''t'' ''q'' '''' '''' [] True 9 new_snapshot = Inr (s', i)
     \<and> intake_mutation ''req_3'' 9 ''t'' ''q'' '''' '''' [] True 12 s' = Inr (s', i)"
proof -
  let ?m = "intake_mutation ''req_2'' 9 ''t'' ''q'' '''' '''' [] True 9 new_snapshot"
  obtain s' i where m: "?m = Inr (s', i)" using sample_mailbox(4) by (cases ?m) auto
  from intake_question_is_asked_once [OF m, of "''req_3''" "''t''" 12] m show ?thesis by blast
qed

section \<open>Durability of an answer\<close>

lemma recover_keeps_ready:
  assumes "ready d" shows "ready (snd (recoverUnlocked st amb d))"
proof -
  have q: "ready (snd (quarantineUnlocked st amb e d))" if "ready d" for e d
    using that by (simp add: quarantineUnlocked_def Let_def split: sum.split)
  then have r: "ready (snd (reject_state st amb e d))" if "ready d" for e d
    using that by (simp add: reject_state_def)
  then have c: "ready (snd (check_consistency st amb s es d))" if "ready d" for s es d
    using that by (simp add: check_consistency_def split: option.split)
  have rec: "ready (snd (recordRepairUnlocked st amb s ty pl d))" if "ready d" for s ty pl d
    using that by (simp add: recordRepairUnlocked_def Let_def split: option.split sum.split)
  have t: "ready (snd (repair_tail st amb s es n d))" if "ready d" for s es n d
  proof -
    have "ready (run_op st TruncateTail d)" using that unfolding ready_def ready_op .
    from rec [OF this] show ?thesis
      using q [OF that] c by (auto simp: repair_tail_def split: prod.split sum.split) (metis snd_conv)+
  qed
  have s: "ready (snd (settle st amb saved es n p d))" if "ready d" for saved es n p d
    using that q c t by (simp add: settle_def split: option.split)
  have f: "ready (snd (finish_transaction st amb saved es p txn d))" if "ready d" for saved es p txn d
  proof -
    have "ready (run_ops st ops d)" for ops using that by simp
    then show ?thesis
      using q r [OF that] s by (auto simp: finish_transaction_def Let_def split: prod.split option.split sum.split)
  qed
  show ?thesis
    using assms r s f by (auto simp: recover_ready recover_files_def split: prod.split option.split sum.split)
qed

lemma update_keeps_ready:
  assumes "Update st draws ty n run pl mutate d = (Inl e, d')" and "ready d" shows "ready d'"
  using assms recover_keeps_ready [OF assms(2), of st "dr_Recover draws"]
  by (auto simp: Update_def split: prod.splits sum.splits option.splits)

lemma answer_keeps_revision: "keeps_revision (answer_mutation redact i a p now)"
  by (auto simp: keeps_revision_def answer_mutation_Inr update_request_def)

lemma nothing_asked: "Snapshot_Request (emptySnapshot st now) i \<noteq> Inr r"
  by (simp add: found_iff Requests_def emptySnapshot_def pointees_def List.map_filter_simps)

lemma load_settles:
  assumes "Load st amb d = (Inr s, d')" and "ready d" and "Snapshot_Request s i = Inr r"
  shows "settled st s d'" "ready d'"
  using recover_settles [of st amb d s d'] assms nothing_asked by (auto simp: Load_def)

lemma receive_settles:
  assumes "receive st draws reload i a p now pl request d = (Inr (s, r), d')" and "ready d" and "keeps_revision (store_sanitize st)"
  shows "settled st s d' \<and> ready d' \<and> Snapshot_Request s i = Inr r"
proof (cases "Update st draws ''answer_recorded'' (req_IssueNumber request) (req_RunID request) pl
            (answer_mutation (store_redact st) i a p now) d")
  case (Pair res d1)
  show ?thesis
  proof (cases res)
    case (Inr s1)
    with Pair assms(1) have s: "s1 = s" "d1 = d'" "Snapshot_Request s i = Inr r"
      by (auto simp: receive_def found_request_def and_ok_Inr)
    with update_settles [OF Pair [unfolded Inr] assms(2,3) answer_keeps_revision] show ?thesis by blast
  next
    case (Inl e)
    have "ready d1" by (rule update_keeps_ready [OF Pair [unfolded Inl] assms(2)])
    moreover from Pair Inl assms(1) have "Load st reload d1 = (Inr s, d')" "Snapshot_Request s i = Inr r"
      by (auto simp: receive_def found_request_def and_ok_Inr split: if_splits prod.splits sum.splits)
    ultimately show ?thesis using load_settles by blast
  qed
qed

lemma RecordAnswer_settles:
  assumes "RecordAnswer st amb draws reload i a now obs pl d = (Inr (s, r), d')" and "ready d" and "keeps_revision (store_sanitize st)"
  shows "settled st s d' \<and> ready d' \<and> Snapshot_Request s i = Inr r"
proof (cases "Load st amb d")
  case (Pair res d1)
  with assms(1) obtain s1 where s1: "res = Inr s1" by (cases res) (auto simp: RecordAnswer_def)
  let ?p = "case obs of [p] \<Rightarrow> p | _ \<Rightarrow> None"
  from assms(1) obtain q where q: "checked_request (store_redact st) i a ?p s1 = Inr q"
    by (auto simp: RecordAnswer_def Pair s1 Let_def split: if_splits sum.splits)
  then have found: "Snapshot_Request s1 i = Inr q" by (simp add: checked_Inr)
  note load = load_settles [OF Pair [unfolded s1] assms(2) found]
  show ?thesis
  proof (cases "req_Status q = RequestStatusAnswered")
    case True
    with assms(1) q found load show ?thesis by (auto simp: RecordAnswer_def Pair s1 Let_def split: if_splits)
  next
    case False
    with assms(1) q have "receive st draws reload i a ?p now pl q d1 = (Inr (s, r), d')"
      by (auto simp: RecordAnswer_def Pair s1 Let_def split: if_splits)
    from receive_settles [OF this load(2) assms(3)] show ?thesis .
  qed
qed


definition asked_disk :: Disk where
  "asked_disk = run_ops sample_store [AppendEvent (make_event sample_store sample_ambient asked_snapshot 7 '''' ''x'' ''''),
     WriteState asked_snapshot] empty_disk"

lemma sample_answer:
  "isl (fst (RecordAnswer sample_store sample_ambient sample_draws sample_ambient ''req_1'' ''yes'' 9 [] (CallerPayload '''') asked_disk)) = False"
  by code_simp


end
