(* ===== verification/GitHubQueue.thy ===== *)
theory GitHubQueue
  imports Errors IssueStatus "HOL-Library.Product_Lexorder"
begin

text \<open>
  What the supervisor decides about an Issue on GitHub (\<open>internal/adapter/github\<close>: \<open>client.go\<close>, \<open>labels.go\<close>,
  \<open>projection.go\<close>): which Issues are eligible and in which order they are taken, which labels must exist, and how the status of
  a managed Issue is projected to its labels and its open or closed state. The calls of the \<open>gh\<close> program are
  not modelled; what GitHub stores after a change of labels is a hypothesis of the properties. Labels
  are compared by \<open>labelKey\<close>; the case of letters outside ASCII is not folded by this model.
\<close>

section \<open>Configuration and Issues\<close>

record GitHubConfig =
  gc_Repo :: string
  gc_ReadyLabels :: "string list"
  gc_ExcludeLabels :: "string list"
  gc_RunningLabel :: string
  gc_NeedsInputLabel :: string
  gc_FailedLabel :: string
  gc_DoneLabel :: string
  gc_Assignee :: string
  gc_Milestone :: string

record QueueConfig =
  qc_PollInterval :: int
  qc_Concurrency :: int
  qc_Order :: string
  qc_PriorityLabels :: "string list"

record GHIssue =
  gh_Number :: int
  gh_Title :: string
  gh_Body :: string
  gh_URL :: string
  gh_CreatedAt :: time
  gh_Labels :: "string list"
  gh_Assignees :: "string list"
  gh_Milestone :: string
  gh_Comments :: "string list"
  gh_State :: string
  gh_StateReason :: string
  gh_AuthorLogin :: string
  gh_AuthorType :: string

definition labelKey :: "string \<Rightarrow> string" where
  "labelKey name = ToLower name"

definition label_keys :: "string list \<Rightarrow> string set" where
  "label_keys labels = labelKey ` set labels"

section \<open>Eligibility\<close>

definition loop_labels :: "GitHubConfig \<Rightarrow> string list" where
  "loop_labels cfg = [gc_RunningLabel cfg, gc_NeedsInputLabel cfg, gc_FailedLabel cfg, gc_DoneLabel cfg]"

definition Eligible :: "string list \<Rightarrow> GitHubConfig \<Rightarrow> bool" where
  "Eligible labels cfg \<longleftrightarrow>
     (\<forall>label \<in> set (gc_ReadyLabels cfg). labelKey label \<in> label_keys labels)
     \<and> (\<forall>label \<in> set (gc_ExcludeLabels cfg). labelKey label \<notin> label_keys labels)
     \<and> (\<forall>label \<in> set (loop_labels cfg). label \<noteq> '''' \<longrightarrow> labelKey label \<notin> label_keys labels)"

definition EligibleIssue :: "GHIssue \<Rightarrow> GitHubConfig \<Rightarrow> bool" where
  "EligibleIssue issue cfg \<longleftrightarrow> EqualFold (gh_State issue) ''open'' \<and> Eligible (gh_Labels issue) cfg
     \<and> (gc_Assignee cfg \<noteq> '''' \<longrightarrow> (\<exists>assignee \<in> set (gh_Assignees issue). EqualFold assignee (gc_Assignee cfg)))
     \<and> (gc_Milestone cfg = '''' \<or> gh_Milestone issue = gc_Milestone cfg)"

section \<open>Order\<close>

text \<open>\<open>priorityRank\<close>: a label that is listed twice has its last index.\<close>

definition priority_rank :: "QueueConfig \<Rightarrow> string \<Rightarrow> nat option" where
  "priority_rank queue label = map_of (rev (zip (map ToLower (qc_PriorityLabels queue)) [0..<length (qc_PriorityLabels queue)])) label"

definition priority_count :: "QueueConfig \<Rightarrow> nat" where
  "priority_count queue = length (remdups (map ToLower (qc_PriorityLabels queue)))"

definition issue_rank :: "QueueConfig \<Rightarrow> GHIssue \<Rightarrow> nat" where
  "issue_rank queue issue = fold (\<lambda>label result. case priority_rank queue (ToLower label) of
     None \<Rightarrow> result | Some candidate \<Rightarrow> if candidate < result then candidate else result) (gh_Labels issue) (priority_count queue)"

definition created_before :: "GHIssue \<Rightarrow> GHIssue \<Rightarrow> bool" where
  "created_before left right =
     (if IsZero (gh_CreatedAt left) \<noteq> IsZero (gh_CreatedAt right) then \<not> IsZero (gh_CreatedAt left)
      else if gh_CreatedAt left \<noteq> gh_CreatedAt right then gh_CreatedAt left < gh_CreatedAt right
      else gh_Number left < gh_Number right)"

definition issue_before :: "QueueConfig \<Rightarrow> GHIssue \<Rightarrow> GHIssue \<Rightarrow> bool" where
  "issue_before queue left right =
     (if qc_Order queue = ''created_at_asc'' then created_before left right
      else if qc_Order queue = ''priority_then_created_at'' then
        (if issue_rank queue left \<noteq> issue_rank queue right then issue_rank queue left < issue_rank queue right
         else created_before left right)
      else gh_Number left < gh_Number right)"

text \<open>The comparison is the lexicographic one of this key, so that the stable sort of the source is \<open>sort_key\<close>.\<close>

definition order_key :: "QueueConfig \<Rightarrow> GHIssue \<Rightarrow> nat \<times> bool \<times> time \<times> int" where
  "order_key queue issue =
     (let created = (IsZero (gh_CreatedAt issue), gh_CreatedAt issue, gh_Number issue) in
      if qc_Order queue = ''created_at_asc'' then (0, created)
      else if qc_Order queue = ''priority_then_created_at'' then (issue_rank queue issue, created)
      else (0, False, 0, gh_Number issue))"

lemma issue_before_key: "issue_before queue l r \<longleftrightarrow> order_key queue l < order_key queue r"
  by (auto simp: issue_before_def order_key_def created_before_def Let_def less_prod_def less_bool_def)

definition OrderIssues :: "QueueConfig \<Rightarrow> GHIssue list \<Rightarrow> GHIssue list" where
  "OrderIssues queue issues = sort_key (order_key queue) issues"

section \<open>Required labels\<close>

record LabelSpec =
  ls_Name :: string
  ls_Color :: string
  ls_Description :: string

fun add_labels :: "string \<Rightarrow> string \<Rightarrow> string list \<Rightarrow> LabelSpec list \<Rightarrow> LabelSpec list" where
  "add_labels color description [] specs = specs"
| "add_labels color description (name # names) specs =
     add_labels color description names
       (if name = '''' \<or> labelKey name \<in> (\<lambda>s. labelKey (ls_Name s)) ` set specs then specs
        else specs @ [\<lparr>ls_Name = name, ls_Color = color, ls_Description = description\<rparr>])"

definition RequiredLabelSpecs :: "GitHubConfig \<Rightarrow> QueueConfig \<Rightarrow> LabelSpec list" where
  "RequiredLabelSpecs cfg queue =
     (let specs = add_labels ''0E8A16'' ''Ready for codex-issue-loop'' (gc_ReadyLabels cfg) [];
          specs = add_labels ''1D76DB'' ''Being processed by codex-issue-loop'' [gc_RunningLabel cfg] specs;
          specs = add_labels ''FBCA04'' ''Waiting for user input in codex-issue-loop'' [gc_NeedsInputLabel cfg] specs;
          specs = add_labels ''D73A4A'' ''codex-issue-loop processing failed'' [gc_FailedLabel cfg] specs;
          specs = add_labels ''5319E7'' ''Completed by codex-issue-loop'' [gc_DoneLabel cfg] specs;
          specs = add_labels ''BFD4F2'' ''Priority for codex-issue-loop queue ordering'' (qc_PriorityLabels queue) specs
      in add_labels ''B60205'' ''Blocked from automated processing''
           (filter (\<lambda>name. labelKey name = ''blocked'') (gc_ExcludeLabels cfg)) specs)"

text \<open>The plan of \<open>BootstrapLabels\<close> against the labels the repository has, keyed by \<open>labelKey\<close>.\<close>

record LabelAction =
  la_Action :: string
  la_Desired :: LabelSpec
  la_ExistingColor :: string
  la_ExistingDescription :: string
  la_MetadataDiffers :: bool

definition label_action :: "(string \<Rightarrow> LabelSpec option) \<Rightarrow> LabelSpec \<Rightarrow> LabelAction" where
  "label_action existing desired = (case existing (labelKey (ls_Name desired)) of
     None \<Rightarrow> \<lparr>la_Action = ''create'', la_Desired = desired, la_ExistingColor = '''', la_ExistingDescription = '''', la_MetadataDiffers = False\<rparr>
   | Some current \<Rightarrow> \<lparr>la_Action = ''preserve'', la_Desired = desired, la_ExistingColor = ls_Color current,
       la_ExistingDescription = ls_Description current,
       la_MetadataDiffers = (\<not> EqualFold (ls_Color current) (ls_Color desired) \<or> ls_Description current \<noteq> ls_Description desired)\<rparr>)"

definition bootstrap_plan :: "GitHubConfig \<Rightarrow> QueueConfig \<Rightarrow> (string \<Rightarrow> LabelSpec option) \<Rightarrow> LabelAction list" where
  "bootstrap_plan cfg queue existing = map (label_action existing) (RequiredLabelSpecs cfg queue)"

section \<open>Projection\<close>

record issueProjection =
  ip_Label :: string
  ip_State :: string
  ip_Reason :: string
  ip_Managed :: "string list"
  ip_Human :: bool
  ip_HumanLabel :: string

definition managed_labels :: "GitHubConfig \<Rightarrow> string list" where
  "managed_labels cfg = gc_ReadyLabels cfg @ [gc_RunningLabel cfg, gc_NeedsInputLabel cfg, gc_DoneLabel cfg, gc_FailedLabel cfg,
     ''needs-human'', ''codex-loop:needs-input'', ''triage'', ''do-not-automate'']
   @ filter (\<lambda>label. labelKey label = ''blocked'') (gc_ExcludeLabels cfg)"

definition blocked_label :: "GitHubConfig \<Rightarrow> string" where
  "blocked_label cfg = fold (\<lambda>label blocked. if labelKey label = ''blocked'' then label else blocked)
     (gc_ExcludeLabels cfg) (gc_FailedLabel cfg)"

definition desiredIssueProjection :: "GitHubConfig \<Rightarrow> bool \<Rightarrow> Status \<Rightarrow> go_error + issueProjection" where
  "desiredIssueProjection cfg closeIssue status =
     (let p = \<lparr>ip_Label = '''', ip_State = ''OPEN'', ip_Reason = '''', ip_Managed = managed_labels cfg,
                ip_Human = (status = StatusNeedsInput), ip_HumanLabel = gc_NeedsInputLabel cfg\<rparr> in
      case status of
        StatusUnset \<Rightarrow> Inr (p\<lparr>ip_State := '''', ip_Managed := [gc_NeedsInputLabel cfg, ''codex-loop:needs-input'']\<rparr>)
      | StatusClaiming \<Rightarrow> Inr (p\<lparr>ip_Label := gc_RunningLabel cfg\<rparr>)
      | StatusClaimed \<Rightarrow> Inr (p\<lparr>ip_Label := gc_RunningLabel cfg\<rparr>)
      | StatusLaunching \<Rightarrow> Inr (p\<lparr>ip_Label := gc_RunningLabel cfg\<rparr>)
      | StatusRunning \<Rightarrow> Inr (p\<lparr>ip_Label := gc_RunningLabel cfg\<rparr>)
      | StatusRetryWait \<Rightarrow> Inr (p\<lparr>ip_Label := gc_RunningLabel cfg\<rparr>)
      | StatusResumePending \<Rightarrow> Inr (p\<lparr>ip_Label := gc_RunningLabel cfg\<rparr>)
      | StatusResolvingConflict \<Rightarrow> Inr (p\<lparr>ip_Label := gc_RunningLabel cfg\<rparr>)
      | StatusAwaitingChecks \<Rightarrow> Inr (p\<lparr>ip_Label := gc_RunningLabel cfg\<rparr>)
      | StatusAwaitingMerge \<Rightarrow> Inr (p\<lparr>ip_Label := gc_RunningLabel cfg\<rparr>)
      | StatusNeedsInput \<Rightarrow> Inr (p\<lparr>ip_Label := ''''\<rparr>)
      | StatusBlocked \<Rightarrow> Inr (p\<lparr>ip_Label := blocked_label cfg\<rparr>)
      | StatusFailed \<Rightarrow> Inr (p\<lparr>ip_Label := gc_FailedLabel cfg\<rparr>)
      | StatusCompleted \<Rightarrow> Inr (if closeIssue
          then p\<lparr>ip_Label := gc_DoneLabel cfg, ip_State := ''CLOSED'', ip_Reason := ''COMPLETED''\<rparr>
          else p\<lparr>ip_Label := gc_DoneLabel cfg\<rparr>)
      | StatusCanceled \<Rightarrow> Inr (p\<lparr>ip_State := ''CLOSED'', ip_Reason := ''NOT_PLANNED''\<rparr>)
      | _ \<Rightarrow> Inl (Errorf [Lit ''cannot project unmanaged Issue status '', Quo (Status_String status)]))"

text \<open>The adjustments for an Issue that waits for a person, made by \<open>ValidateIssueProjection\<close> and \<open>ReconcileIssue\<close> alike.\<close>

definition for_human :: "GitHubConfig \<Rightarrow> Status \<Rightarrow> bool \<Rightarrow> issueProjection \<Rightarrow> issueProjection" where
  "for_human cfg status human p =
     (let p = p\<lparr>ip_Human := human\<rparr>;
          p = (if status = StatusUnset \<and> human then p\<lparr>ip_Managed := ip_Managed p @ gc_ReadyLabels cfg\<rparr> else p)
      in if human \<and> ip_Label p = gc_RunningLabel cfg then p\<lparr>ip_Label := ''''\<rparr> else p)"

definition labels_to_add :: "issueProjection \<Rightarrow> GHIssue \<Rightarrow> string list" where
  "labels_to_add p issue =
     (if ip_Human p \<and> labelKey (ip_HumanLabel p) \<notin> label_keys (gh_Labels issue) then [ip_HumanLabel p] else [])
     @ (if ip_Label p \<noteq> '''' \<and> labelKey (ip_Label p) \<notin> label_keys (gh_Labels issue) then [ip_Label p] else [])"

definition removable :: "issueProjection \<Rightarrow> string set \<Rightarrow> string \<Rightarrow> bool" where
  "removable p present label \<longleftrightarrow> label \<noteq> '''' \<and> \<not> (ip_Human p \<and> labelKey label = labelKey (ip_HumanLabel p))
     \<and> labelKey label \<noteq> labelKey (ip_Label p) \<and> labelKey label \<in> present"

fun labels_to_remove :: "issueProjection \<Rightarrow> string set \<Rightarrow> string set \<Rightarrow> string list \<Rightarrow> string list" where
  "labels_to_remove p present seen [] = []"
| "labels_to_remove p present seen (label # labels) =
     (if removable p present label \<and> labelKey label \<notin> seen
      then label # labels_to_remove p present (insert (labelKey label) seen) labels
      else labels_to_remove p present seen labels)"

definition labelChanges :: "issueProjection \<Rightarrow> GHIssue \<Rightarrow> string list \<times> string list" where
  "labelChanges p issue = (labels_to_add p issue, labels_to_remove p (label_keys (gh_Labels issue)) {} (ip_Managed p))"

definition stateMatches :: "issueProjection \<Rightarrow> GHIssue \<Rightarrow> bool" where
  "stateMatches p issue \<longleftrightarrow> ip_State p = ''''
     \<or> EqualFold (gh_State issue) (ip_State p) \<and> (ip_Reason p = '''' \<or> EqualFold (gh_StateReason issue) (ip_Reason p))"

definition ValidateIssueProjection :: "GitHubConfig \<Rightarrow> bool \<Rightarrow> GHIssue \<Rightarrow> Status \<Rightarrow> bool \<Rightarrow> go_error option" where
  "ValidateIssueProjection cfg closeIssue issue status human = (case desiredIssueProjection cfg closeIssue status of
     Inl e \<Rightarrow> Some e
   | Inr p \<Rightarrow> let p = for_human cfg status human p in
       guard (labelChanges p issue \<noteq> ([], []) \<or> \<not> stateMatches p issue)
         [Lit ''Issue #'', Num (gh_Number issue), Lit '' GitHub projection did not converge''])"

section \<open>Convergence\<close>

lemma keys_of_removed:
  "label_keys (labels_to_remove p present seen labels) = {labelKey l | l. l \<in> set labels \<and> removable p present l \<and> labelKey l \<notin> seen}"
  by (induction p present seen labels rule: labels_to_remove.induct) (auto simp: label_keys_def)

lemma removed_Nil: "labels_to_remove p present {} labels = [] \<longleftrightarrow> (\<forall>l \<in> set labels. \<not> removable p present l)"
proof -
  have "labels_to_remove p present {} labels = [] \<longleftrightarrow> label_keys (labels_to_remove p present {} labels) = {}"
    by (simp add: label_keys_def)
  then show ?thesis by (auto simp: keys_of_removed)
qed

lemma added_Nil: "labels_to_add p issue = [] \<longleftrightarrow>
   (ip_Human p \<longrightarrow> labelKey (ip_HumanLabel p) \<in> label_keys (gh_Labels issue))
   \<and> (ip_Label p \<noteq> '''' \<longrightarrow> labelKey (ip_Label p) \<in> label_keys (gh_Labels issue))"
  by (simp add: labels_to_add_def)

text \<open>A projection converges in one step. Whatever labels and state an Issue has on GitHub: once the labels to add are there, the labels to
  remove are gone, all others are kept, and the state is the projected one, the projection is validated and nothing is left to change.\<close>

theorem projection_converges:
  assumes "desiredIssueProjection cfg closeIssue status = Inr p0" and "p = for_human cfg status human p0"
    and "labelChanges p issue = (add, remove)"
    and "label_keys (gh_Labels issue') = label_keys (gh_Labels issue) - label_keys remove \<union> label_keys add"
    and "stateMatches p issue'"
  shows "ValidateIssueProjection cfg closeIssue issue' status human = None \<and> labelChanges p issue' = ([], [])"
proof -
  let ?old = "label_keys (gh_Labels issue)" and ?new = "label_keys (gh_Labels issue')"
  have add: "label_keys add = {labelKey l | l. l \<in> set (labels_to_add p issue)}"
    and remove: "label_keys remove = {labelKey l | l. l \<in> set (ip_Managed p) \<and> removable p ?old l}"
    using assms(3) by (auto simp: labelChanges_def keys_of_removed) (auto simp: label_keys_def)
  have "labels_to_add p issue' = []"
    unfolding added_Nil assms(4) add remove by (auto simp: labels_to_add_def removable_def)
  moreover have "labels_to_remove p ?new {} (ip_Managed p) = []"
    unfolding removed_Nil assms(4) add remove by (auto simp: labels_to_add_def removable_def split: if_splits)
  ultimately have "labelChanges p issue' = ([], [])" by (simp add: labelChanges_def)
  then show ?thesis using assms(1,2,5) by (simp add: ValidateIssueProjection_def)
qed

lemma blocked_label_known: "blocked_label cfg = gc_FailedLabel cfg \<or> blocked_label cfg \<in> set (gc_ExcludeLabels cfg)"
proof -
  have "fold (\<lambda>l b. if labelKey l = ''blocked'' then l else b) ls b0 = b0
      \<or> fold (\<lambda>l b. if labelKey l = ''blocked'' then l else b) ls b0 \<in> set ls" for ls b0
    by (induction ls arbitrary: b0) auto
  then show ?thesis by (simp add: blocked_label_def)
qed

lemma desired_fields:
  assumes "desiredIssueProjection cfg closeIssue status = Inr p0"
  shows "ip_HumanLabel p0 = gc_NeedsInputLabel cfg" "status \<noteq> StatusUnset \<longrightarrow> ip_Managed p0 = managed_labels cfg"
    "ip_Label p0 \<in> {'''', gc_RunningLabel cfg, gc_FailedLabel cfg, gc_DoneLabel cfg, blocked_label cfg}"
  using assms by (cases status; auto simp: desiredIssueProjection_def Let_def split: if_splits)+

lemma for_human_shape:
  "ip_Human (for_human cfg status human p) = human" "ip_HumanLabel (for_human cfg status human p) = ip_HumanLabel p"
  "set (ip_Managed p) \<subseteq> set (ip_Managed (for_human cfg status human p))"
  "ip_Label (for_human cfg status human p) = ip_Label p \<or> ip_Label (for_human cfg status human p) = ''''"
  "status = StatusUnset \<Longrightarrow> human \<Longrightarrow> set (gc_ReadyLabels cfg) \<subseteq> set (ip_Managed (for_human cfg status human p))"
  by (auto simp: for_human_def Let_def)

lemma for_human_ready:
  assumes "desiredIssueProjection cfg closeIssue status = Inr p0" and "status \<noteq> StatusUnset \<or> human"
  shows "set (gc_ReadyLabels cfg) \<subseteq> set (ip_Managed (for_human cfg status human p0))"
proof (cases "status = StatusUnset")
  case True with assms(2) show ?thesis using for_human_shape(5) by blast
next
  case False
  with desired_fields(2) [OF assms(1)] have "set (gc_ReadyLabels cfg) \<subseteq> set (ip_Managed p0)" by (auto simp: managed_labels_def)
  with for_human_shape(3) show ?thesis by blast
qed

lemma for_human_label:
  assumes "desiredIssueProjection cfg closeIssue status = Inr p0" and "ip_Label (for_human cfg status human p0) \<noteq> ''''"
  shows "ip_Label (for_human cfg status human p0) \<in> set (loop_labels cfg) \<union> set (gc_ExcludeLabels cfg)"
  using desired_fields(3) [OF assms(1)] for_human_shape(4) [where p = p0 and cfg = cfg and status = status and human = human] assms(2) blocked_label_known [of cfg]
  by (auto simp: loop_labels_def)

definition sample_config :: GitHubConfig where
  "sample_config = \<lparr>gc_Repo = ''o/r'', gc_ReadyLabels = [''ready''], gc_ExcludeLabels = [''Blocked''], gc_RunningLabel = ''running'',
     gc_NeedsInputLabel = ''needs-input'', gc_FailedLabel = ''failed'', gc_DoneLabel = ''done'', gc_Assignee = '''', gc_Milestone = ''''\<rparr>"

definition sample_gh_issue :: "string list \<Rightarrow> GHIssue" where
  "sample_gh_issue labels = \<lparr>gh_Number = 7, gh_Title = ''t'', gh_Body = '''', gh_URL = '''', gh_CreatedAt = 1, gh_Labels = labels,
     gh_Assignees = [], gh_Milestone = '''', gh_Comments = [], gh_State = ''OPEN'', gh_StateReason = '''', gh_AuthorLogin = ''ann'',
     gh_AuthorType = ''User''\<rparr>"

theorem projection_converges_witness:
  "ValidateIssueProjection sample_config True (sample_gh_issue [''other'', ''running'']) StatusRunning False = None"
proof -
  obtain p0 where p0: "desiredIssueProjection sample_config True StatusRunning = Inr p0"
    by (simp add: desiredIssueProjection_def Let_def)
  then have p: "p0 = \<lparr>ip_Label = ''running'', ip_State = ''OPEN'', ip_Reason = '''', ip_Managed = managed_labels sample_config,
      ip_Human = False, ip_HumanLabel = ''needs-input''\<rparr>"
    by (simp add: desiredIssueProjection_def Let_def sample_config_def)
  have "labelChanges (for_human sample_config StatusRunning False p0) (sample_gh_issue [''other'', ''ready'']) = ([''running''], [''ready''])"
    unfolding p by code_simp
  moreover have "label_keys (gh_Labels (sample_gh_issue [''other'', ''running'']))
      = label_keys (gh_Labels (sample_gh_issue [''other'', ''ready''])) - label_keys [''ready''] \<union> label_keys [''running'']"
    by code_simp
  moreover have "stateMatches (for_human sample_config StatusRunning False p0) (sample_gh_issue [''other'', ''running''])"
    unfolding p by code_simp
  ultimately show ?thesis using projection_converges [OF p0 refl] by blast
qed

text \<open>A managed Issue is never taken up a second time. Once the projection of any managed status, or of an Issue that waits for
  a person, is validated, the Issue is not eligible for admission, whatever other labels it carries, provided admission asks for some label; and
  of the labels the loop manages it carries at most the projected one and the one for human attention.\<close>

theorem projected_issue_is_not_eligible:
  assumes "ValidateIssueProjection cfg closeIssue issue status human = None" and "status \<noteq> StatusUnset \<or> human"
    and "r \<in> set (gc_ReadyLabels cfg)" and "r \<noteq> ''''"
  shows "\<not> EligibleIssue issue cfg
     \<and> (\<exists>p. desiredIssueProjection cfg closeIssue status = Inr p \<and>
          (\<forall>l \<in> set (ip_Managed p). l \<noteq> '''' \<and> labelKey l \<in> label_keys (gh_Labels issue) \<longrightarrow>
             labelKey l = labelKey (ip_Label p) \<or> human \<and> labelKey l = labelKey (gc_NeedsInputLabel cfg)))"
proof -
  obtain p0 where p0: "desiredIssueProjection cfg closeIssue status = Inr p0"
    using assms(1) by (auto simp: ValidateIssueProjection_def split: sum.splits)
  let ?p = "for_human cfg status human p0" and ?keys = "label_keys (gh_Labels issue)"
  have ok: "labels_to_add ?p issue = []" "labels_to_remove ?p ?keys {} (ip_Managed ?p) = []"
    using assms(1) p0 by (simp_all add: ValidateIssueProjection_def labelChanges_def Let_def)
  note h = for_human_shape(1-4) [where cfg = cfg and status = status and human = human and p = p0]
  have nonempty: "l \<noteq> '''' \<Longrightarrow> labelKey l \<noteq> labelKey ''''" for l by (simp add: labelKey_def ToLower_def)
  have kept: "labelKey l = labelKey (ip_Label ?p) \<or> human \<and> labelKey l = labelKey (gc_NeedsInputLabel cfg)"
    if "l \<in> set (ip_Managed ?p)" "l \<noteq> ''''" "labelKey l \<in> ?keys" for l
    using ok(2) that h(1,2) desired_fields(1) [OF p0] by (auto simp: removed_Nil removable_def)
  have managed: "\<forall>l \<in> set (ip_Managed p0). l \<noteq> '''' \<and> labelKey l \<in> ?keys \<longrightarrow>
      labelKey l = labelKey (ip_Label p0) \<or> human \<and> labelKey l = labelKey (gc_NeedsInputLabel cfg)"
  proof (intro ballI impI)
    fix l assume l: "l \<in> set (ip_Managed p0)" "l \<noteq> '''' \<and> labelKey l \<in> ?keys"
    then have "l \<in> set (ip_Managed ?p)" using h(3) by blast
    from kept [OF this] l(2) have k: "labelKey l = labelKey (ip_Label ?p) \<or> human \<and> labelKey l = labelKey (gc_NeedsInputLabel cfg)"
      by blast
    from h(4) show "labelKey l = labelKey (ip_Label p0) \<or> human \<and> labelKey l = labelKey (gc_NeedsInputLabel cfg)"
    proof
      assume "ip_Label ?p = ''''" with k nonempty [of l] l(2) show ?thesis by simp
    qed (use k in simp)
  qed
  have excluded: "l \<in> set (loop_labels cfg) \<or> l \<in> set (gc_ExcludeLabels cfg) \<Longrightarrow> l \<noteq> '''' \<Longrightarrow> labelKey l \<in> ?keys \<Longrightarrow>
      \<not> EligibleIssue issue cfg" for l
    by (auto simp: EligibleIssue_def Eligible_def)
  have "\<not> EligibleIssue issue cfg"
  proof (cases "labelKey r \<in> ?keys")
    case False
    then show ?thesis using assms(3) by (auto simp: EligibleIssue_def Eligible_def)
  next
    case True
    have "r \<in> set (ip_Managed ?p)" using for_human_ready [OF p0 assms(2)] assms(3) by blast
    from kept [OF this assms(4) True] show ?thesis
    proof
      assume k: "labelKey r = labelKey (ip_Label ?p)"
      then have "ip_Label ?p \<noteq> ''''" using nonempty [OF assms(4)] by metis
      with excluded [of "ip_Label ?p"] for_human_label [OF p0, of human] k True show ?thesis by auto
    next
      assume k: "human \<and> labelKey r = labelKey (gc_NeedsInputLabel cfg)"
      then have "gc_NeedsInputLabel cfg \<noteq> ''''" using nonempty [OF assms(4)] by metis
      with excluded [of "gc_NeedsInputLabel cfg"] k True show ?thesis by (simp add: loop_labels_def)
    qed
  qed
  then show ?thesis using p0 managed by blast
qed

theorem projected_issue_is_not_eligible_witness:
  "\<not> EligibleIssue (sample_gh_issue [''other'', ''running'']) sample_config"
proof -
  have "''ready'' \<in> set (gc_ReadyLabels sample_config)" by (simp add: sample_config_def)
  moreover have "ValidateIssueProjection sample_config True (sample_gh_issue [''other'', ''running'']) StatusRunning False = None"
    by code_simp
  ultimately show ?thesis
    using projected_issue_is_not_eligible [of sample_config True "sample_gh_issue [''other'', ''running'']" StatusRunning False "''ready''"]
    by simp
qed

end
