(* ===== verification/RateLimit.thy ===== *)
theory RateLimit
  imports StoreModel
begin

text \<open>
  Classified failures (\<open>internal/platform/failure\<close>), the cooldown all supervisors of one user share
  (\<open>internal/platform/ratelimit/store.go\<close>), what the scheduler derives from a rate limit
  (\<open>internal/application/supervisor/rate_limit.go\<close>) and its backoff (\<open>backoff.go\<close>). An error is the chain that
  \<open>errors.As\<close> walks. The cooldown file holds the value it decodes to; its lock makes the operations sequential. The
  random factor of the jitter is an argument, because it is a floating point product.
\<close>

section \<open>Failures\<close>

datatype FailureKind = Transient | IssueFailure | SupervisorFailure

record RateLimitError =
  rle_Resource :: string
  rle_ResetAt :: time
  rle_Source :: string

datatype failure = Cause string | Context string failure | Classified FailureKind string failure
  | Limited RateLimitError failure | Scoped int failure

text \<open>The first error of a kind in the chain.\<close>

fun as_classified :: "failure \<Rightarrow> FailureKind option" where
  "as_classified (Cause m) = None"
| "as_classified (Context m e) = as_classified e"
| "as_classified (Classified k m e) = Some k"
| "as_classified (Limited r e) = as_classified e"
| "as_classified (Scoped n e) = as_classified e"

fun as_scoped :: "failure \<Rightarrow> int option" where
  "as_scoped (Cause m) = None"
| "as_scoped (Context m e) = as_scoped e"
| "as_scoped (Classified k m e) = as_scoped e"
| "as_scoped (Limited r e) = as_scoped e"
| "as_scoped (Scoped n e) = Some n"

fun AsRateLimit :: "failure \<Rightarrow> RateLimitError option" where
  "AsRateLimit (Cause m) = None"
| "AsRateLimit (Context m e) = AsRateLimit e"
| "AsRateLimit (Classified k m e) = AsRateLimit e"
| "AsRateLimit (Limited r e) = Some r"
| "AsRateLimit (Scoped n e) = AsRateLimit e"

definition WrapFailure :: "FailureKind \<Rightarrow> string \<Rightarrow> failure \<Rightarrow> failure" where
  "WrapFailure kind operation e =
     (if as_classified e \<noteq> None then e
      else Classified (case as_scoped e of None \<Rightarrow> kind | Some n \<Rightarrow> if n > 0 then IssueFailure else kind) operation e)"

definition KindOf :: "failure \<Rightarrow> FailureKind" where
  "KindOf e = (case as_classified e of None \<Rightarrow> IssueFailure | Some kind \<Rightarrow> kind)"

text \<open>The error of a store operation as a chain: the mutation of an Issue scopes its error.\<close>

fun store_failure :: "go_error \<Rightarrow> failure" where
  "store_failure (Wrapf ps e) = Context (error_text (Errorf ps)) (store_failure e)"
| "store_failure (IssueMutationError n e) = Scoped n (store_failure e)"
| "store_failure e = Cause (error_text e)"

section \<open>The shared cooldown\<close>

record Cooldown =
  cd_Resource :: string
  cd_ResetAt :: time
  cd_Source :: string
  cd_ObservedAt :: time
  cd_SuppressedRetryCount :: uint64

definition zero_Cooldown :: Cooldown where
  "zero_Cooldown = \<lparr>cd_Resource = '''', cd_ResetAt = 0, cd_Source = '''', cd_ObservedAt = 0, cd_SuppressedRetryCount = 0\<rparr>"

definition Cooldown_Active :: "Cooldown \<Rightarrow> time \<Rightarrow> bool" where
  "Cooldown_Active c now \<longleftrightarrow> \<not> IsZero (cd_ResetAt c) \<and> cd_ResetAt c > now"

definition load_cooldown :: "Cooldown stored \<Rightarrow> go_error + Cooldown" where
  "load_cooldown f = (case f of Missing \<Rightarrow> Inr zero_Cooldown | Unreadable e \<Rightarrow> Inl e | Holds c \<Rightarrow> Inr c)"

definition cooldown_Current :: "string \<Rightarrow> time \<Rightarrow> Cooldown stored \<Rightarrow> go_error + Cooldown \<times> bool" where
  "cooldown_Current path now f = (if path = '''' then Inr (zero_Cooldown, False)
     else and_ok (load_cooldown f) (\<lambda>c. Inr (c, Cooldown_Active c now)))"

definition Suppress :: "string \<Rightarrow> time \<Rightarrow> Cooldown stored \<Rightarrow> (go_error + Cooldown \<times> bool) \<times> Cooldown stored" where
  "Suppress path now f = (if path = '''' then (Inr (zero_Cooldown, False), f)
     else case load_cooldown f of Inl e \<Rightarrow> (Inl e, f)
     | Inr c \<Rightarrow> if \<not> Cooldown_Active c now then (Inr (c, False), f)
       else let c = c\<lparr>cd_SuppressedRetryCount := cd_SuppressedRetryCount c + 1\<rparr> in (Inr (c, True), Holds c))"

definition observed_cooldown :: "Cooldown \<Rightarrow> time \<Rightarrow> Cooldown" where
  "observed_cooldown observed now =
     (if cd_Resource observed = '''' then observed\<lparr>cd_Resource := ''graphql''\<rparr> else observed)\<lparr>cd_ObservedAt := UTC now\<rparr>"

definition Observe :: "string \<Rightarrow> Cooldown \<Rightarrow> time \<Rightarrow> Cooldown stored \<Rightarrow> (go_error + Cooldown) \<times> Cooldown stored" where
  "Observe path observed now f =
     (let observed = observed_cooldown observed now in
      if path = '''' then (Inr observed, f)
      else case load_cooldown f of Inl e \<Rightarrow> (Inl e, f)
      | Inr current \<Rightarrow>
        if Cooldown_Active current now \<and> \<not> cd_ResetAt observed > cd_ResetAt current then (Inr current, f)
        else let observed = (if Cooldown_Active current now
               then observed\<lparr>cd_SuppressedRetryCount := cd_SuppressedRetryCount current\<rparr> else observed)
             in (Inr observed, Holds observed))"

definition Replace :: "string \<Rightarrow> Cooldown \<Rightarrow> time \<Rightarrow> Cooldown stored \<Rightarrow> Cooldown \<times> Cooldown stored" where
  "Replace path observed now f =
     (let observed = observed_cooldown observed now in (observed, if path = '''' then f else Holds observed))"

section \<open>Cooldowns from errors\<close>

definition unknownRateLimitCooldown :: int where
  "unknownRateLimitCooldown = 3600 * 10 ^ 9"

definition cooldownFromError :: "failure \<Rightarrow> time \<Rightarrow> Cooldown option" where
  "cooldownFromError e now = (case AsRateLimit e of None \<Rightarrow> None
   | Some limited \<Rightarrow>
     let fallback = now + unknownRateLimitCooldown;
         resetAt = (if rle_Source limited = ''rest-rate-limit-inconsistent'' \<and> rle_ResetAt limited < fallback
                    then fallback else rle_ResetAt limited);
         source = (if resetAt > now then rle_Source limited else ''fallback'');
         resetAt = (if resetAt > now then resetAt else fallback);
         resource = (if rle_Resource limited = '''' then ''graphql'' else rle_Resource limited)
     in Some \<lparr>cd_Resource = resource, cd_ResetAt = resetAt, cd_Source = source, cd_ObservedAt = 0, cd_SuppressedRetryCount = 0\<rparr>)"

text \<open>\<open>revalidateStartupCooldown\<close>, with the status the REST endpoint reports, if it does.\<close>

record RateLimitStatus =
  rls_ResetAt :: time
  rls_Remaining :: int

definition revalidateStartupCooldown ::
  "string \<Rightarrow> Cooldown \<Rightarrow> RateLimitStatus option \<Rightarrow> time \<Rightarrow> Cooldown stored \<Rightarrow> (go_error + Cooldown) \<times> Cooldown stored" where
  "revalidateStartupCooldown path cooldown status now f =
     (if cd_Source cooldown = ''rest-rate-limit-recovered'' then (Inr cooldown, f)
      else case status of None \<Rightarrow> (Inr cooldown, f)
      | Some status \<Rightarrow>
        if rls_Remaining status \<le> 0 \<and> rls_ResetAt status > cd_ResetAt cooldown
        then Observe path (cooldown\<lparr>cd_ResetAt := rls_ResetAt status, cd_Source := ''rest-rate-limit''\<rparr>) now f
        else (Inr cooldown, f))"

lemma observed_reset [simp]: "cd_ResetAt (observed_cooldown c now) = cd_ResetAt c"
  by (simp add: observed_cooldown_def)

section \<open>Backoff\<close>

definition backoffInitial :: int where "backoffInitial = 5 * 10 ^ 9"
definition backoffMaximum :: int where "backoffMaximum = 300 * 10 ^ 9"

fun backoff_loop :: "nat \<Rightarrow> int \<Rightarrow> int" where
  "backoff_loop 0 delay = delay"
| "backoff_loop (Suc n) delay = (if delay < backoffMaximum then backoff_loop n (delay * 2) else delay)"

definition backoff_base :: "int \<Rightarrow> int" where
  "backoff_base attempt =
     (let delay = backoff_loop (nat ((if attempt < 1 then 1 else attempt) - 1)) backoffInitial
      in if delay > backoffMaximum then backoffMaximum else delay)"

text \<open>\<open>scaled\<close> is the product of the base and the random factor.\<close>

definition jitter :: "(int \<Rightarrow> int) \<Rightarrow> int \<Rightarrow> int \<Rightarrow> int" where
  "jitter scaled base maximum = (if maximum > 0 \<and> scaled base > maximum then maximum else scaled base)"

definition retryDelay :: "(int \<Rightarrow> int) \<Rightarrow> int \<Rightarrow> int" where
  "retryDelay scaled attempt = jitter scaled (backoff_base attempt) backoffMaximum"

section \<open>Properties\<close>

lemma backoff_loop_power: "0 < d \<Longrightarrow> d \<le> backoffMaximum \<Longrightarrow>
    min backoffMaximum (backoff_loop n d) = min backoffMaximum (d * 2 ^ n)"
proof (induction n arbitrary: d)
  case (Suc n)
  show ?case
  proof (cases "2 * d \<le> backoffMaximum")
    case True
    with Suc show ?thesis by (simp add: mult.commute mult.left_commute)
  next
    case False
    have loop: "x \<le> backoff_loop m x" if "0 < x" for x m using that
    proof (induction m arbitrary: x)
      case (Suc m)
      from Suc.IH [of "x * 2"] Suc.prems show ?case by simp
    qed simp
    have "backoffMaximum \<le> d * 2 * 2 ^ n" using False Suc.prems
      by (smt (verit) mult_le_cancel_left1 one_le_power)
    with False Suc.prems loop [of "d * 2" n] show ?thesis
      by (auto simp: min_def mult.assoc)
  qed
qed simp

lemma backoff_form: "backoff_base n = min backoffMaximum (backoffInitial * 2 ^ nat (n - 1))"
proof -
  have "backoff_base n = min backoffMaximum (backoff_loop (nat (n - 1)) backoffInitial)"
    by (cases "n < 1") (simp_all add: backoff_base_def Let_def min_def)
  also have "\<dots> = min backoffMaximum (backoffInitial * 2 ^ nat (n - 1))"
    by (rule backoff_loop_power) (simp_all add: backoffInitial_def backoffMaximum_def)
  finally show ?thesis .
qed



section \<open>Sharing\<close>

datatype rate_op = SuppressAt time | ObserveAt Cooldown time

fun op_time :: "rate_op \<Rightarrow> time" where
  "op_time (SuppressAt now) = now" | "op_time (ObserveAt c now) = now"

fun run_rate :: "string \<Rightarrow> rate_op \<Rightarrow> Cooldown stored \<Rightarrow> Cooldown stored" where
  "run_rate path (SuppressAt now) f = snd (Suppress path now f)"
| "run_rate path (ObserveAt c now) f = snd (Observe path c now f)"

fun op_reset :: "rate_op \<Rightarrow> time" where
  "op_reset (SuppressAt now) = 0" | "op_reset (ObserveAt c now) = cd_ResetAt c"

text \<open>A shared cooldown is never shortened and observations converge. While a cooldown is active, any number of supervisors may suppress
  requests and observe resets in any order: the file keeps holding an active cooldown, and its end is the latest of the first one and
  all observed ones, whatever the order.\<close>

theorem cooldown_never_shortens:
  assumes "path \<noteq> ''''" and "cd_ResetAt c \<noteq> 0" and "\<forall>op \<in> set ops. op_time op < cd_ResetAt c" and "0 \<le> cd_ResetAt c"
  shows "\<exists>c'. fold (run_rate path) ops (Holds c) = Holds c' \<and> cd_ResetAt c' = fold (\<lambda>op t. max t (op_reset op)) ops (cd_ResetAt c)
    \<and> cd_ResetAt c \<le> cd_ResetAt c' \<and> (\<forall>now < cd_ResetAt c. Cooldown_Active c' now)"
  using assms(2-4)
proof (induction ops arbitrary: c)
  case Nil
  then show ?case by (simp add: Cooldown_Active_def)
next
  case (Cons op ops)
  have active: "Cooldown_Active c (op_time op)" using Cons.prems by (simp add: Cooldown_Active_def)
  obtain c1 where c1: "run_rate path op (Holds c) = Holds c1" "cd_ResetAt c1 = max (cd_ResetAt c) (op_reset op)"
  proof (cases op)
    case (SuppressAt now)
    with active assms(1) Cons.prems(3) that show ?thesis by (auto simp: Suppress_def load_cooldown_def Let_def max_def)
  next
    case (ObserveAt x now)
    with active assms(1) that show ?thesis
      by (cases "cd_ResetAt c < cd_ResetAt x") (auto simp: Observe_def load_cooldown_def Let_def max_def)
  qed
  have "cd_ResetAt c1 \<noteq> 0" "\<forall>op \<in> set ops. op_time op < cd_ResetAt c1" "0 \<le> cd_ResetAt c1"
    using c1(2) Cons.prems by (auto simp: max_def less_le_trans)
  from Cons.IH [OF this] c1 Cons.prems show ?case by fastforce
qed

theorem cooldown_never_shortens_witness:
  "\<exists>c'. fold (run_rate ''p'') [SuppressAt 5, ObserveAt (zero_Cooldown\<lparr>cd_ResetAt := 30\<rparr>) 6, ObserveAt (zero_Cooldown\<lparr>cd_ResetAt := 20\<rparr>) 7]
      (Holds (zero_Cooldown\<lparr>cd_ResetAt := 10\<rparr>)) = Holds c' \<and> cd_ResetAt c' = 30"
  using cooldown_never_shortens [of "''p''" "zero_Cooldown\<lparr>cd_ResetAt := 10\<rparr>"
      "[SuppressAt 5, ObserveAt (zero_Cooldown\<lparr>cd_ResetAt := 30\<rparr>) 6, ObserveAt (zero_Cooldown\<lparr>cd_ResetAt := 20\<rparr>) 7]"]
  by simp blast

text \<open>A cooldown taken from an error always lies in the future, so that the scheduler really waits: whatever reset GitHub reports,
  missing, past or inconsistent, the cooldown ends after now, for an unusable or inconsistent report not before an hour has passed,
  and names a resource.\<close>

theorem cooldown_from_error_waits:
  assumes "cooldownFromError e now = Some c" and "0 \<le> now"
  shows "Cooldown_Active c now \<and> cd_Resource c \<noteq> ''''
    \<and> (\<exists>limited. AsRateLimit e = Some limited
        \<and> (rle_ResetAt limited \<le> now \<or> rle_Source limited = ''rest-rate-limit-inconsistent'' \<longrightarrow> now + unknownRateLimitCooldown \<le> cd_ResetAt c)
        \<and> (now < rle_ResetAt limited \<and> rle_Source limited \<noteq> ''rest-rate-limit-inconsistent'' \<longrightarrow> cd_ResetAt c = rle_ResetAt limited))"
  using assms by (auto simp: cooldownFromError_def Let_def Cooldown_Active_def unknownRateLimitCooldown_def split: option.splits if_splits)

theorem cooldown_from_error_waits_witness:
  "\<exists>c. cooldownFromError (Limited \<lparr>rle_Resource = '''', rle_ResetAt = 0, rle_Source = ''''\<rparr> (Cause ''x'')) 5 = Some c \<and> Cooldown_Active c 5"
proof -
  obtain c where c: "cooldownFromError (Limited \<lparr>rle_Resource = '''', rle_ResetAt = 0, rle_Source = ''''\<rparr> (Cause ''x'')) 5 = Some c"
    by (simp add: cooldownFromError_def Let_def)
  from cooldown_from_error_waits [OF c] c show ?thesis by auto
qed

section \<open>Classification\<close>

lemma store_failure_unclassified: "as_classified (store_failure e) = None"
  by (induction e rule: store_failure.induct) simp_all

text \<open>The failure of one Issue never stops the supervisor. When an update fails because the mutation of an Issue failed, then
  however the supervisor wraps the error, as a supervisor failure or any other, once or again, it stays classified as a failure of the
  Issue.\<close>

theorem issue_failure_stays_local:
  assumes "prepare_update st amb ty n run pl mutate s = Inl e" and "0 < n" and "\<exists>e0. mutate (Normalize s) = Inl e0"
  shows "KindOf (WrapFailure kind op (store_failure e)) = IssueFailure
    \<and> KindOf (WrapFailure kind' op' (WrapFailure kind op (store_failure e))) = IssueFailure"
proof -
  from assms obtain e0 where "e = IssueMutationError n e0" by (auto simp: prepare_update_def Let_def)
  then have "as_scoped (store_failure e) = Some n" "as_classified (store_failure e) = None"
    by (simp_all add: store_failure_unclassified)
  then show ?thesis using assms(2) by (simp add: WrapFailure_def KindOf_def)
qed

theorem issue_failure_stays_local_witness:
  "KindOf (WrapFailure SupervisorFailure ''persist'' (store_failure (IssueMutationError 7 (Errorf [])))) = IssueFailure"
proof -
  let ?st = "\<lparr>store_RepoID = ''r'', store_RepoPath = ''/r'', store_EventRetention = \<lparr>ret_MaxBytes = 0, ret_MaxAge = 0, ret_Keep = 0\<rparr>,
     store_sanitize = Inr, store_payload = (\<lambda>p. Inr ''''), store_redact = (\<lambda>t. t), store_bytes = (\<lambda>e. 1), store_restore = (\<lambda>d. (None, d))\<rparr>"
  let ?amb = "\<lparr>amb_Now = 9, amb_Clock = 9, amb_EventID = RandFailed 3, amb_Draw = (\<lambda>k. RandFailed 4), amb_Backup = '''', amb_LogAge = 0\<rparr>"
  have "prepare_update ?st ?amb ''x'' 7 '''' (CallerPayload '''') (\<lambda>s. Inl (Errorf [])) s = Inl (IssueMutationError 7 (Errorf []))" for s
    by (simp add: prepare_update_def Let_def)
  from issue_failure_stays_local [OF this] show ?thesis by simp
qed

end
