(* ===== verification/Scheduler.thy ===== *)
theory Scheduler
  imports GitHubQueue RateLimit QueueAuthor SnapshotQuery Effects
begin

text \<open>
  \<open>internal/application/supervisor/scheduler.go\<close>, \<open>internal/application/drain/drain.go\<close> and
  \<open>internal/adapter/github/author.go\<close>: which work the supervisor takes up, and when. The scheduler keeps the jobs it has
  started, by Issue, and the deadlines of retries and polls. A job runs in its own goroutine; it is started by \<open>dispatch\<close> and ends with an
  event. Its code, the GitHub calls and the clock are not modelled: their results are arguments. The maps keyed by Issue number are
  association lists; where the source ranges over one, the model gives its result in the order of the list.
\<close>

section \<open>State\<close>

record ActiveJob =
  job_RunID :: string
  job_Slot :: int

record Scheduler =
  sch_active :: "(int \<times> ActiveJob) list"
  sch_issueRetry :: "(int \<times> time) list"
  sch_issueFails :: "(int \<times> int) list"
  sch_terminalPoll :: "(int \<times> time) list"
  sch_pollAt :: time
  sch_cooldownUntil :: time
  sch_lastSuppressedReset :: time
  sch_consecutiveFailures :: int
  sch_rateLimitActive :: bool

record SchedulerEvent =
  se_Kind :: string
  se_IssueNumber :: int
  se_RunID :: string
  se_Err :: "failure option"

text \<open>\<open>strings.Join\<close>.\<close>

fun join_with :: "string \<Rightarrow> string list \<Rightarrow> string" where
  "join_with sep [] = ''''"
| "join_with sep [x] = x"
| "join_with sep (x # xs) = x @ sep @ join_with sep xs"

text \<open>\<open>m[k]\<close> of a map with a zero value.\<close>

definition at_zero :: "(int \<times> 'v) list \<Rightarrow> 'v \<Rightarrow> int \<Rightarrow> 'v" where
  "at_zero m z k = (case map_of m k of None \<Rightarrow> z | Some v \<Rightarrow> v)"

section \<open>Slots\<close>

definition used_slots :: "Scheduler \<Rightarrow> int set" where
  "used_slots s = {slot \<in> (\<lambda>(n, job). job_Slot job) ` set (sch_active s). slot \<ge> 0}"

definition slot_limit :: "QueueConfig \<Rightarrow> int" where
  "slot_limit queue = (if qc_Concurrency queue < 1 then 1 else qc_Concurrency queue)"

definition freeSlot :: "QueueConfig \<Rightarrow> Scheduler \<Rightarrow> int option" where
  "freeSlot queue s = find (\<lambda>slot. slot \<notin> used_slots s) (map int [0..<nat (slot_limit queue)])"

definition hasFreeSlot :: "QueueConfig \<Rightarrow> Scheduler \<Rightarrow> bool" where
  "hasFreeSlot queue s \<longleftrightarrow> freeSlot queue s \<noteq> None"

definition workerCount :: "Scheduler \<Rightarrow> nat" where
  "workerCount s = length (filter (\<lambda>(n, job). job_Slot job \<ge> 0) (sch_active s))"

definition hasMaintenanceJob :: "Scheduler \<Rightarrow> bool" where
  "hasMaintenanceJob s \<longleftrightarrow> (\<exists>(n, job) \<in> set (sch_active s). job_Slot job < 0)"

definition is_active :: "Scheduler \<Rightarrow> int \<Rightarrow> bool" where
  "is_active s number \<longleftrightarrow> map_of (sch_active s) number \<noteq> None"

definition retryPending :: "time \<Rightarrow> Scheduler \<Rightarrow> int \<Rightarrow> bool" where
  "retryPending now s number \<longleftrightarrow> (case map_of (sch_issueRetry s) number of None \<Rightarrow> False | Some deadline \<Rightarrow> deadline > now)"

section \<open>Jobs\<close>

definition dispatch :: "int \<Rightarrow> string \<Rightarrow> int \<Rightarrow> Scheduler \<Rightarrow> Scheduler" where
  "dispatch number runID slot s =
     s\<lparr>sch_active := AList.update number \<lparr>job_RunID = runID, job_Slot = slot\<rparr> (sch_active s),
       sch_issueRetry := AList.delete number (sch_issueRetry s)\<rparr>"

text \<open>\<open>delay\<close> is the retry delay of the loop. The error is the one handed to the cycle.\<close>

definition handleEvent :: "(int \<Rightarrow> int) \<Rightarrow> time \<Rightarrow> SchedulerEvent \<Rightarrow> Scheduler \<Rightarrow> failure option \<times> Scheduler" where
  "handleEvent delay now event s =
     (if se_Kind event \<noteq> ''job_finished''
      then (Some (WrapFailure SupervisorFailure ''handle scheduler event'' (Cause ''unknown event kind'')), s)
      else case map_of (sch_active s) (se_IssueNumber event) of
        None \<Rightarrow> (None, s)
      | Some job \<Rightarrow>
        if job_RunID job \<noteq> se_RunID event then (None, s)
        else let number = se_IssueNumber event; s = s\<lparr>sch_active := AList.delete number (sch_active s)\<rparr> in
          (case se_Err event of
             None \<Rightarrow> (None, s\<lparr>sch_issueFails := AList.delete number (sch_issueFails s)\<rparr>)
           | Some e \<Rightarrow>
             if cooldownFromError e now \<noteq> None \<or> KindOf e = SupervisorFailure then (Some e, s)
             else let fails = at_zero (sch_issueFails s) 0 number + 1 in
               (None, s\<lparr>sch_issueFails := AList.update number fails (sch_issueFails s),
                        sch_issueRetry := AList.update number (now + delay fails) (sch_issueRetry s)\<rparr>)))"

text \<open>\<open>cancelAndDrain\<close> over the events that arrive, until no job is left.\<close>

fun drain_jobs :: "SchedulerEvent list \<Rightarrow> Scheduler \<Rightarrow> Scheduler" where
  "drain_jobs [] s = s"
| "drain_jobs (event # events) s =
     (if sch_active s = [] then s
      else case map_of (sch_active s) (se_IssueNumber event) of
        None \<Rightarrow> drain_jobs events s
      | Some job \<Rightarrow> if job_RunID job = se_RunID event
          then drain_jobs events (s\<lparr>sch_active := AList.delete (se_IssueNumber event) (sch_active s)\<rparr>)
          else drain_jobs events s)"

section \<open>Failed cycles\<close>

text \<open>What \<open>handleCycleError\<close> decides; the updates of the durable state are \<open>record_retry\<close> and the like below.\<close>

datatype cycle_outcome = CoolDown Cooldown | IssueLocal | BlockSupervisor FailureKind int | RetryAt time int FailureKind

definition cycle_delay :: "(int \<Rightarrow> int) \<Rightarrow> int \<Rightarrow> int" where
  "cycle_delay delay failures = (if failures \<ge> 5 then backoffMaximum else delay failures)"

definition handleCycleError ::
  "(int \<Rightarrow> int) \<Rightarrow> string \<Rightarrow> time \<Rightarrow> failure \<Rightarrow> Cooldown stored \<Rightarrow> Scheduler \<Rightarrow> cycle_outcome \<times> Cooldown stored \<times> Scheduler" where
  "handleCycleError delay path now cause rates s = (case cooldownFromError cause now of
     Some observed \<Rightarrow> (case Observe path observed now rates of
         (Inl e, rates) \<Rightarrow> (BlockSupervisor SupervisorFailure (sch_consecutiveFailures s + 1), rates, s)
       | (Inr cooldown, rates) \<Rightarrow> (CoolDown cooldown, rates,
           s\<lparr>sch_rateLimitActive := True, sch_cooldownUntil := cd_ResetAt cooldown, sch_pollAt := cd_ResetAt cooldown\<rparr>))
   | None \<Rightarrow> (case KindOf cause of
       IssueFailure \<Rightarrow> (IssueLocal, rates, s)
     | SupervisorFailure \<Rightarrow> (BlockSupervisor SupervisorFailure (sch_consecutiveFailures s + 1), rates, s)
     | Transient \<Rightarrow>
       let failures = sch_consecutiveFailures s + 1; retryAt = now + cycle_delay delay failures in
       (RetryAt retryAt failures Transient, rates,
        s\<lparr>sch_consecutiveFailures := failures, sch_pollAt := retryAt, sch_cooldownUntil := retryAt\<rparr>)))"

text \<open>The updates of the supervisor's record that carry an outcome to the durable state.\<close>

fun FailureKind_String :: "FailureKind \<Rightarrow> string" where
  "FailureKind_String Transient = ''transient''"
| "FailureKind_String IssueFailure = ''issue''"
| "FailureKind_String SupervisorFailure = ''supervisor''"

definition rateLimitState :: "Cooldown \<Rightarrow> RateLimit" where
  "rateLimitState c = \<lparr>rl_Resource = cd_Resource c, rl_ObservedResetAt = cd_ResetAt c, rl_CooldownSource = cd_Source c,
     rl_SuppressedRetryCount = cd_SuppressedRetryCount c\<rparr>"

definition on_supervisor :: "(Supervisor \<Rightarrow> Supervisor) \<Rightarrow> Snapshot \<Rightarrow> Snapshot" where
  "on_supervisor f s = s\<lparr>snap_Supervisor := f (snap_Supervisor s)\<rparr>"

definition recordSupervisorRetry :: "string \<Rightarrow> FailureKind \<Rightarrow> int \<Rightarrow> time \<Rightarrow> Snapshot \<Rightarrow> Snapshot" where
  "recordSupervisorRetry cause kind consecutive retryAt = on_supervisor (\<lambda>sup. sup\<lparr>sup_State := SupervisorStateRetryWait,
     sup_Message := cause, sup_FailureKind := FailureKind_String kind, sup_ConsecutiveFailures := consecutive,
     sup_RateLimit := None, sup_RetryAfter := Some retryAt\<rparr>)"

definition recordSupervisorRateLimit :: "string \<Rightarrow> int \<Rightarrow> Cooldown \<Rightarrow> Snapshot \<Rightarrow> Snapshot" where
  "recordSupervisorRateLimit cause consecutive c = on_supervisor (\<lambda>sup. sup\<lparr>sup_State := SupervisorStateRetryWait,
     sup_Message := cause, sup_FailureKind := FailureKind_String Transient, sup_ConsecutiveFailures := consecutive,
     sup_RetryAfter := Some (cd_ResetAt c), sup_RateLimit := Some (rateLimitState c)\<rparr>)"

definition recordRateLimitSuppressed :: "string \<Rightarrow> Cooldown \<Rightarrow> Snapshot \<Rightarrow> Snapshot" where
  "recordRateLimitSuppressed message c = on_supervisor (\<lambda>sup. sup\<lparr>sup_State := SupervisorStateRetryWait,
     sup_Message := message, sup_FailureKind := FailureKind_String Transient,
     sup_RetryAfter := Some (cd_ResetAt c), sup_RateLimit := Some (rateLimitState c)\<rparr>)"

definition resetSupervisorFailures :: "Snapshot \<Rightarrow> Snapshot" where
  "resetSupervisorFailures = on_supervisor (\<lambda>sup. sup\<lparr>sup_FailureKind := '''', sup_ConsecutiveFailures := 0,
     sup_RetryAfter := None, sup_RateLimit := None\<rparr>)"

definition blockSupervisor :: "string \<Rightarrow> FailureKind \<Rightarrow> int \<Rightarrow> Snapshot \<Rightarrow> Snapshot" where
  "blockSupervisor cause kind consecutive = on_supervisor (\<lambda>sup. sup\<lparr>sup_State := SupervisorStateBlocked,
     sup_Message := cause, sup_FailureKind := FailureKind_String kind, sup_ConsecutiveFailures := consecutive,
     sup_RetryAfter := None\<rparr>)"

definition markPolling :: "string \<Rightarrow> Snapshot \<Rightarrow> Snapshot" where
  "markPolling message = on_supervisor (\<lambda>sup. sup\<lparr>sup_State := SupervisorStatePolling, sup_Message := message\<rparr>)"

section \<open>Draining\<close>

definition HasWorker :: "Snapshot \<Rightarrow> bool" where
  "HasWorker s \<longleftrightarrow> (\<exists>issue \<in> set (pointees (snap_Issues s)). iss_WorkerPID issue \<noteq> 0 \<or> iss_WorkerPGID issue \<noteq> 0)"

definition drain_Ready :: "Snapshot \<Rightarrow> bool" where
  "drain_Ready s \<longleftrightarrow> sup_State (snap_Supervisor s) = SupervisorStateMaintenance \<and> snap_ActiveExecution s = None \<and> \<not> HasWorker s"

definition RecoverableUnstartedConflictLaunch :: "Snapshot \<Rightarrow> bool" where
  "RecoverableUnstartedConflictLaunch s \<longleftrightarrow>
     (sup_State (snap_Supervisor s) = SupervisorStateDraining \<or> sup_State (snap_Supervisor s) = SupervisorStateMaintenance)
     \<and> (case snap_ActiveExecution s of None \<Rightarrow> False
        | Some active \<Rightarrow> \<not> IsZero (sup_StartedAt (snap_Supervisor s)) \<and> act_StartedAt active < sup_StartedAt (snap_Supervisor s)
          \<and> (case issue_at s (act_IssueNumber active) of None \<Rightarrow> False
             | Some issue \<Rightarrow> iss_Status issue = StatusLaunching \<and> iss_LaunchSource issue = StatusResolvingConflict
               \<and> iss_WorkerPID issue = 0 \<and> iss_WorkerPGID issue = 0))"

text \<open>A fence is a path; a path that cannot be examined counts as a fence.\<close>

definition Requested :: "(string \<Rightarrow> go_error option stored) \<Rightarrow> string list \<Rightarrow> bool" where
  "Requested lstat paths \<longleftrightarrow> (\<exists>path \<in> set paths. path \<noteq> '''' \<and> lstat path \<noteq> Missing)"

text \<open>The state the scheduler reports while a fence is up.\<close>

definition maintenance_state :: "Scheduler \<Rightarrow> Snapshot \<Rightarrow> SupervisorState" where
  "maintenance_state s snapshot = (if sch_active s \<noteq> [] \<or> snap_ActiveExecution snapshot \<noteq> None \<or> HasWorker snapshot
     then SupervisorStateDraining else SupervisorStateMaintenance)"

section \<open>Managed Issues\<close>

definition admissionBlockers :: "Snapshot \<Rightarrow> Issue list" where
  "admissionBlockers s = filter (\<lambda>i. BlocksNewAdmission (iss_Status i)) (pointees (snap_Issues s))"

definition admissionWait :: "Snapshot \<Rightarrow> string" where
  "admissionWait s =
     (let waiting = sort (map (\<lambda>i. ''Issue #'' @ Itoa (iss_Number i) @ '' ('' @ Status_String (iss_Status i) @ '')'') (admissionBlockers s))
      in if waiting = [] then '''' else ''new Issue admission waits for in-progress lifecycle: '' @ join_with '', '' waiting)"

definition pendingIssue :: "Issue \<Rightarrow> bool \<Rightarrow> time \<Rightarrow> bool" where
  "pendingIssue issue effectPending now \<longleftrightarrow> DispatchPending (iss_Status issue) effectPending
     \<and> (case iss_RetryAfter issue of None \<Rightarrow> True | Some t \<Rightarrow> \<not> t > now)"

definition pendingIssues :: "Snapshot \<Rightarrow> time \<Rightarrow> Issue list" where
  "pendingIssues s now = sort_key iss_Number
     (filter (\<lambda>issue. pendingIssue issue (PendingEffect s (iss_Number issue) \<noteq> None) now) (pointees (snap_Issues s)))"

definition issueDispatchesWorker :: "Issue \<Rightarrow> bool \<Rightarrow> bool" where
  "issueDispatchesWorker issue effectPending \<longleftrightarrow> DispatchesWorkerWhile (iss_Status issue) effectPending"

fun dispatch_pending :: "QueueConfig \<Rightarrow> time \<Rightarrow> Snapshot \<Rightarrow> Issue list \<Rightarrow> Scheduler \<Rightarrow> Scheduler" where
  "dispatch_pending queue now snapshot [] s = s"
| "dispatch_pending queue now snapshot (current # rest) s =
     (let number = iss_Number current in
      if is_active s number \<or> retryPending now s number then dispatch_pending queue now snapshot rest s
      else if issueDispatchesWorker current (PendingEffect snapshot number \<noteq> None) then
        (case freeSlot queue s of
           None \<Rightarrow> dispatch_pending queue now snapshot rest s
         | Some slot \<Rightarrow> dispatch_pending queue now snapshot rest (dispatch number (iss_RunID current) slot s))
      else if hasMaintenanceJob s then dispatch_pending queue now snapshot rest s
      else dispatch_pending queue now snapshot rest (dispatch number (iss_RunID current) (- 1) s))"

section \<open>Admission\<close>

text \<open>\<open>VerifyIssueAuthor\<close>: the permission is asked only where the account itself does not decide. \<open>permission\<close> is the answer of the API for
  a login, the permission and the login it belongs to, or its failure.\<close>

definition repository_owner :: "string \<Rightarrow> string" where
  "repository_owner repo = takeWhile (\<lambda>c. c \<noteq> CHR ''/'') (ToLower repo)"

definition VerifyIssueAuthor ::
  "string list \<Rightarrow> string \<Rightarrow> (string \<Rightarrow> failure + string \<times> string) \<Rightarrow> time \<Rightarrow> time \<Rightarrow> GHIssue \<Rightarrow> AuthorVerification \<times> failure option" where
  "VerifyIssueAuthor allowLogins repo permission now later issue =
     (let login = ToLower (TrimSpace (gh_AuthorLogin issue));
          facts = \<lparr>af_Login = login, af_AccountType = gh_AuthorType issue, af_Permission = '''',
            af_RepositoryOwner = (login \<noteq> '''' \<and> login = repository_owner repo)\<rparr>;
          preflight = VerifyAuthor allowLogins facts now in
      if av_Reason preflight \<noteq> ''permission_below_write'' then (preflight, None)
      else case permission login of
        Inl e \<Rightarrow> (preflight\<lparr>av_Reason := ''permission_unverifiable''\<rparr>, Some e)
      | Inr (granted, user) \<Rightarrow>
        if user = '''' \<or> \<not> EqualFold user login then (preflight\<lparr>av_Reason := ''identity_mismatch''\<rparr>, None)
        else (VerifyAuthor allowLogins (facts\<lparr>af_Permission := granted\<rparr>) later, None))"

definition SameAuthorDecision :: "AuthorVerification option \<Rightarrow> AuthorVerification \<Rightarrow> bool" where
  "SameAuthorDecision left right = (case left of None \<Rightarrow> False
     | Some l \<Rightarrow> av_Trusted l = av_Trusted right \<and> av_Login l = av_Login right \<and> av_AccountType l = av_AccountType right
         \<and> av_Permission l = av_Permission right \<and> av_Reason l = av_Reason right)"

text \<open>The update of \<open>RecordAuthorVerification\<close> and its check; \<open>now\<close> stamps an unstamped verification.\<close>

definition RecordAuthorVerification :: "int \<Rightarrow> time \<Rightarrow> AuthorVerification \<Rightarrow> Snapshot \<Rightarrow> go_error + Snapshot" where
  "RecordAuthorVerification number now verification s =
     (let v = (if IsZero (av_VerifiedAt verification) then verification\<lparr>av_VerifiedAt := UTC now\<rparr> else verification) in
      if number < 1 \<or> av_Reason v = '''' then Inl (Errorf [Lit ''author verification evidence is incomplete''])
      else and_ok (massign (Itoa number) (Some v) (snap_IntakeVerifications s)) (\<lambda>m. Inr (s\<lparr>snap_IntakeVerifications := m\<rparr>)))"

definition inadmissible :: "GitHubConfig \<Rightarrow> bool \<Rightarrow> Snapshot \<Rightarrow> Scheduler \<Rightarrow> GHIssue \<Rightarrow> bool" where
  "inadmissible cfg autoMerge snapshot s candidate \<longleftrightarrow>
     (let number = gh_Number candidate in
      NeedsHuman snapshot number autoMerge \<or> \<not> EligibleIssue candidate cfg
      \<or> ptr_at (snap_QuarantinedIssues snapshot) (Itoa number) \<noteq> None
      \<or> (case issue_at snapshot number of None \<Rightarrow> False | Some current \<Rightarrow> IneligibleForAdmission (iss_Status current))
      \<or> is_active s number)"

text \<open>The loop over the ordered candidates: the one selected, and the verifications it records on the way.\<close>

fun select_candidate ::
  "GitHubConfig \<Rightarrow> bool \<Rightarrow> Snapshot \<Rightarrow> Scheduler \<Rightarrow> (GHIssue \<Rightarrow> AuthorVerification \<times> failure option) \<Rightarrow>
     (int \<Rightarrow> AuthorVerification \<Rightarrow> failure option) \<Rightarrow> GHIssue list \<Rightarrow> (failure + GHIssue option) \<times> (int \<times> AuthorVerification) list" where
  "select_candidate cfg autoMerge snapshot s verify record' [] = (Inr None, [])"
| "select_candidate cfg autoMerge snapshot s verify record' (candidate # rest) =
     (if inadmissible cfg autoMerge snapshot s candidate then select_candidate cfg autoMerge snapshot s verify record' rest
      else let (v, e) = verify candidate; number = gh_Number candidate in
        if e = None \<and> av_Trusted v then (Inr (Some candidate), [])
        else if SameAuthorDecision (ptr_at (snap_IntakeVerifications snapshot) (Itoa number)) v
        then select_candidate cfg autoMerge snapshot s verify record' rest
        else (case record' number v of
            Some cause \<Rightarrow> (Inl (WrapFailure SupervisorFailure ''record Issue author verification'' cause), [(number, v)])
          | None \<Rightarrow> let (r, vs) = select_candidate cfg autoMerge snapshot s verify record' rest in (r, (number, v) # vs)))"

definition selectReady ::
  "GitHubConfig \<Rightarrow> QueueConfig \<Rightarrow> bool \<Rightarrow> Snapshot \<Rightarrow> Scheduler \<Rightarrow> (GHIssue \<Rightarrow> AuthorVerification \<times> failure option) \<Rightarrow>
     (int \<Rightarrow> AuthorVerification \<Rightarrow> failure option) \<Rightarrow> GHIssue list \<Rightarrow> (failure + GHIssue option) \<times> (int \<times> AuthorVerification) list" where
  "selectReady cfg queue autoMerge snapshot s verify record' issues =
     (if workerCount s \<noteq> 0 \<or> snap_ActiveExecution snapshot \<noteq> None \<or> admissionWait snapshot \<noteq> '''' then (Inr None, [])
      else select_candidate cfg autoMerge snapshot s verify record' (OrderIssues queue issues))"

section \<open>Reconciliation of managed Issues\<close>

definition poll_due :: "time \<Rightarrow> Scheduler \<Rightarrow> int \<Rightarrow> bool" where
  "poll_due now s number \<longleftrightarrow> \<not> retryPending now s number \<and> \<not> at_zero (sch_terminalPoll s) 0 number > now"

text \<open>The candidates: the number and run of managed Issues that are not finished, and the numbers of quarantined Issues.\<close>

definition reconcile_candidates :: "time \<Rightarrow> Snapshot \<Rightarrow> Scheduler \<Rightarrow> (int \<times> string) list" where
  "reconcile_candidates now snapshot s =
     map (\<lambda>i. (iss_Number i, iss_RunID i))
       (filter (\<lambda>i. iss_Status i \<noteq> StatusCompleted \<and> iss_Status i \<noteq> StatusCanceled \<and> poll_due now s (iss_Number i))
         (pointees (snap_Issues snapshot)))
     @ List.map_filter (\<lambda>(key, q). case (Atoi key, q) of
           ((number, True), Some _) \<Rightarrow> if poll_due now s number \<and> \<not> is_active s number then Some (number, '''') else None
         | _ \<Rightarrow> None) (entries (snap_QuarantinedIssues snapshot))"

definition poll_delay :: "QueueConfig \<Rightarrow> int" where
  "poll_delay queue = (if 5 * qc_PollInterval queue < 300 * 10 ^ 9 then 300 * 10 ^ 9 else 5 * qc_PollInterval queue)"

definition next_candidate :: "time \<Rightarrow> Snapshot \<Rightarrow> Scheduler \<Rightarrow> (int \<times> string) option" where
  "next_candidate now snapshot s =
     (case sort_key (\<lambda>(n, run). (at_zero (sch_terminalPoll s) 0 n, n)) (reconcile_candidates now snapshot s) of
        [] \<Rightarrow> None | c # _ \<Rightarrow> Some c)"

text \<open>\<open>input\<close> and \<open>project\<close> are the outcomes of \<open>reconcileInputIssue\<close> and, for a running Issue, \<open>reconcileIssueProjection\<close>.\<close>

definition dispatchManagedReconciliation ::
  "QueueConfig \<Rightarrow> time \<Rightarrow> (int \<Rightarrow> failure option) \<Rightarrow> (int \<Rightarrow> failure option) \<Rightarrow> Snapshot \<Rightarrow> Scheduler \<Rightarrow> (failure + bool) \<times> Scheduler" where
  "dispatchManagedReconciliation queue now input project snapshot s =
     (if hasMaintenanceJob s then (Inr False, s)
      else case next_candidate now snapshot s of None \<Rightarrow> (Inr False, s)
      | Some (number, run) \<Rightarrow>
        let s = s\<lparr>sch_terminalPoll := AList.update number (now + poll_delay queue) (sch_terminalPoll s)\<rparr> in
        (case input number of
           Some e \<Rightarrow> (Inl (WrapFailure Transient ''reconcile GitHub input control'' e), s)
         | None \<Rightarrow>
           if is_active s number then
             (case project number of
                None \<Rightarrow> (Inr False, s)
              | Some e \<Rightarrow> if cooldownFromError e now \<noteq> None \<or> KindOf e = SupervisorFailure then (Inl e, s) else (Inr False, s))
           else (Inr True, dispatch number run (- 1) s)))"

section \<open>Deadlines\<close>

definition until :: "time \<Rightarrow> time \<Rightarrow> int" where
  "until now deadline = (if IsZero deadline then 24 * 3600 * 10 ^ 9 else if \<not> deadline > now then 0 else deadline - now)"

definition earlier :: "time \<Rightarrow> time \<Rightarrow> time" where
  "earlier deadline t = (if IsZero deadline \<or> t < deadline then t else deadline)"

definition retry_deadline :: "time \<Rightarrow> Snapshot option \<Rightarrow> Scheduler \<Rightarrow> time" where
  "retry_deadline now snapshot s =
     (let jobs = map snd (filter (\<lambda>(n, t). \<not> is_active s n) (sch_issueRetry s));
          issues = (case snapshot of None \<Rightarrow> [] | Some snap \<Rightarrow> List.map_filter (\<lambda>i. case iss_RetryAfter i of
             None \<Rightarrow> None | Some t \<Rightarrow> if t > now \<and> \<not> is_active s (iss_Number i) then Some t else None) (pointees (snap_Issues snap)))
      in fold (\<lambda>t deadline. earlier deadline t) (jobs @ issues) 0)"

text \<open>The expired retries are deleted on the way.\<close>

definition nextRetryDelay :: "time \<Rightarrow> Snapshot option \<Rightarrow> Scheduler \<Rightarrow> int option \<times> Scheduler" where
  "nextRetryDelay now snapshot s =
     (if sch_cooldownUntil s > now then (Some (sch_cooldownUntil s - now), s)
      else let s = s\<lparr>sch_issueRetry := filter (\<lambda>(n, t). t > now) (sch_issueRetry s)\<rparr>;
               deadline = retry_deadline now snapshot s in
        (if IsZero deadline then None else Some (until now deadline), s))"

section \<open>Polling\<close>

definition markPollingIfIdle :: "Snapshot \<Rightarrow> string \<Rightarrow> Scheduler \<Rightarrow> (Snapshot \<Rightarrow> Snapshot) option" where
  "markPollingIfIdle snapshot message s =
     (let message = (if admissionWait snapshot \<noteq> '''' then admissionWait snapshot else message);
          sup = snap_Supervisor snapshot in
      if sch_active s \<noteq> [] \<or> sup_State sup = SupervisorStatePolling \<and> sup_Message sup = message then None
      else Some (markPolling message))"

end
