(* ===== verification/Traces.thy ===== *)
theory Traces
  imports Prelude "HOL-Library.AList"
begin

text \<open>
  What the models of running components share: association lists as directories and as maps keyed by a number, and the runs of a
  labelled step relation with the obligations that are carried through them.
\<close>

section \<open>Association lists\<close>

lemma delete_lookup: "map_of (AList.delete k es) n = (if n = k then None else map_of es n)"
  by (simp add: delete_conv')

lemma update_lookup: "map_of (AList.update k v es) n = (if n = k then Some v else map_of es n)"
  by (simp add: update_conv')

lemma update_fresh: "map_of es k = None \<Longrightarrow> AList.update k v es = es @ [(k, v)]"
  by (induction es) (auto split: if_splits)

lemma delete_fresh: "map_of es k = None \<Longrightarrow> AList.delete k (es @ [(k, v)]) = es"
  by (induction es) (auto split: if_splits simp: AList.delete_eq)

section \<open>Runs\<close>

inductive steps :: "('s \<Rightarrow> 'e \<Rightarrow> 's \<Rightarrow> bool) \<Rightarrow> 's \<Rightarrow> 'e list \<Rightarrow> 's \<Rightarrow> bool" for step where
  steps_Nil: "steps step s [] s"
| steps_snoc: "steps step s es t \<Longrightarrow> step t e u \<Longrightarrow> steps step s (es @ [e]) u"

text \<open>An obligation is kept by every step that does not discharge it, and so through every run without such a step.\<close>

locale obligation =
  fixes step :: "'s \<Rightarrow> 'e \<Rightarrow> 's \<Rightarrow> bool"
    and owed :: "'s \<Rightarrow> bool"
    and discharged :: "'e \<Rightarrow> bool"
  assumes kept: "step s e t \<Longrightarrow> owed s \<Longrightarrow> \<not> discharged e \<Longrightarrow> owed t"
begin

lemma kept_through: "steps step s es t \<Longrightarrow> owed s \<Longrightarrow> \<forall>e \<in> set es. \<not> discharged e \<Longrightarrow> owed t"
  by (induction rule: steps.induct) (auto intro: kept)

end

end
