(* ===== verification/SchedulerFacts.thy ===== *)
theory SchedulerFacts
  imports Scheduler Traces
begin

text \<open>
  The properties of the scheduler: jobs and slots, admission, retries, the rotation of reconciliations, deadlines and
  failed cycles.
\<close>

section \<open>Jobs and slots\<close>

definition slots_of :: "Scheduler \<Rightarrow> int list" where
  "slots_of s = map (\<lambda>(n, job). job_Slot job) (sch_active s)"

definition jobs_ok :: "QueueConfig \<Rightarrow> Scheduler \<Rightarrow> bool" where
  "jobs_ok queue s \<longleftrightarrow> distinct (map fst (sch_active s)) \<and> distinct (filter (\<lambda>x. 0 \<le> x) (slots_of s))
     \<and> (\<forall>slot \<in> set (slots_of s). slot < slot_limit queue) \<and> length (filter (\<lambda>x. x < 0) (slots_of s)) \<le> 1"

lemma update_new: "k \<notin> fst ` set es \<Longrightarrow> AList.update k v es = es @ [(k, v)]"
  by (induction es) auto

lemma active_mem: "is_active s n \<longleftrightarrow> n \<in> fst ` set (sch_active s)"
  by (simp add: is_active_def map_of_eq_None_iff)

lemma used_slots_set: "used_slots s = {x \<in> set (slots_of s). 0 \<le> x}"
  by (simp add: used_slots_def slots_of_def)

lemma freeSlot_Some: "freeSlot queue s = Some slot \<Longrightarrow> 0 \<le> slot \<and> slot < slot_limit queue \<and> slot \<notin> set (slots_of s)"
  unfolding freeSlot_def by (drule find_SomeD) (auto simp: used_slots_set)

lemma maintenance_slots: "hasMaintenanceJob s \<longleftrightarrow> (\<exists>x \<in> set (slots_of s). x < 0)"
  by (force simp: hasMaintenanceJob_def slots_of_def)

lemma dispatch_jobs:
  assumes "jobs_ok queue s" and "\<not> is_active s n"
    and "freeSlot queue s = Some slot \<or> slot = - 1 \<and> \<not> hasMaintenanceJob s"
  shows "jobs_ok queue (dispatch n run slot s)"
proof -
  have "slots_of (dispatch n run slot s) = slots_of s @ [slot]"
    using assms(2) by (simp add: slots_of_def dispatch_def active_mem update_new)
  moreover have "map fst (sch_active (dispatch n run slot s)) = map fst (sch_active s) @ [n]" "n \<notin> fst ` set (sch_active s)"
    using assms(2) by (simp_all add: dispatch_def active_mem update_new)
  moreover have "0 < slot_limit queue" by (simp add: slot_limit_def)
  ultimately show ?thesis using assms(1,3) freeSlot_Some [of queue s slot]
    by (auto simp: jobs_ok_def maintenance_slots filter_empty_conv)
qed

lemma jobs_delete:
  assumes "jobs_ok queue s" shows "jobs_ok queue (s\<lparr>sch_active := AList.delete n (sch_active s)\<rparr>)"
proof -
  define ps where "ps = sch_active s"
  let ?qs = "filter (\<lambda>(k, job). k \<noteq> n) ps"
  have del: "AList.delete n ps = ?qs" by (induction ps) auto
  have sub: "set (map (\<lambda>(n, job). job_Slot job) ?qs) \<subseteq> set (map (\<lambda>(n, job). job_Slot job) ps)" by auto
  have le: "length (filter P (map f (filter Q xs))) \<le> length (filter P (map f xs))" for P f Q and xs :: "'a list"
    by (induction xs) auto
  have "distinct (filter (\<lambda>x. 0 \<le> x) (map (\<lambda>(n, job). job_Slot job) ?qs))"
    if "distinct (filter (\<lambda>x. 0 \<le> x) (map (\<lambda>(n, job). job_Slot job) ps))"
    using that by (induction ps) auto
  moreover have "distinct (map fst ?qs)" if "distinct (map fst ps)" using that by (rule distinct_map_filter)
  ultimately show ?thesis
    using assms sub le [of "\<lambda>x. x < 0" "\<lambda>(n, job). job_Slot job" "\<lambda>(k, job). k \<noteq> n" ps]
    by (auto simp: jobs_ok_def slots_of_def del simp flip: ps_def)
qed

text \<open>The steps of the scheduler that change its jobs.\<close>

inductive scheduler_step :: "QueueConfig \<Rightarrow> Scheduler \<Rightarrow> Scheduler \<Rightarrow> bool" for queue where
  pending: "scheduler_step queue s (dispatch_pending queue now snapshot issues s)"
| admit: "fst (selectReady cfg queue autoMerge snapshot s verify rec candidates) = Inr (Some issue) \<Longrightarrow> freeSlot queue s = Some slot \<Longrightarrow>
    scheduler_step queue s (dispatch (gh_Number issue) run slot s)"
| reconcile: "scheduler_step queue s (snd (dispatchManagedReconciliation queue now input project snapshot s))"
| event: "scheduler_step queue s (snd (handleEvent delay now e s))"
| failed: "scheduler_step queue s (snd (snd (handleCycleError delay path now cause rates s)))"
| deadline: "scheduler_step queue s (snd (nextRetryDelay now snapshot' s))"
| drain: "scheduler_step queue s (drain_jobs events s)"

inductive scheduler_reaches :: "QueueConfig \<Rightarrow> Scheduler \<Rightarrow> Scheduler \<Rightarrow> bool" for queue where
  refl: "scheduler_reaches queue s s"
| step: "scheduler_reaches queue s t \<Longrightarrow> scheduler_step queue t u \<Longrightarrow> scheduler_reaches queue s u"

lemma jobs_cong: "sch_active s' = sch_active s \<Longrightarrow> jobs_ok queue s' = jobs_ok queue s"
  by (simp add: jobs_ok_def slots_of_def)

lemma pending_jobs: "jobs_ok queue s \<Longrightarrow> jobs_ok queue (dispatch_pending queue now snapshot issues s)"
  by (induction issues arbitrary: s) (auto simp: Let_def dispatch_jobs split: option.split)

lemma select_Some:
  "select_candidate cfg am snap s verify rec cs = (Inr (Some c), vs) \<Longrightarrow>
     \<exists>before after. cs = before @ c # after \<and> \<not> inadmissible cfg am snap s c
       \<and> (\<exists>v. verify c = (v, None) \<and> av_Trusted v)
       \<and> (\<forall>b \<in> set before. inadmissible cfg am snap s b \<or> snd (verify b) \<noteq> None \<or> \<not> av_Trusted (fst (verify b)))"
proof (induction cs arbitrary: vs)
  case (Cons x cs)
  show ?case
  proof (cases "\<not> inadmissible cfg am snap s x \<and> snd (verify x) = None \<and> av_Trusted (fst (verify x))")
    case True
    with Cons.prems have "c = x" by (auto simp: Let_def split: prod.splits)
    with True show ?thesis by (intro exI [of _ "[]"] exI [of _ cs]) (simp add: prod_eq_iff)
  next
    case False
    with Cons.prems obtain vs' where "select_candidate cfg am snap s verify rec cs = (Inr (Some c), vs')"
      by (auto simp: Let_def split: prod.splits if_splits option.splits)
    from Cons.IH [OF this] obtain before after where
      "cs = before @ c # after" "\<not> inadmissible cfg am snap s c" "\<exists>v. verify c = (v, None) \<and> av_Trusted v"
      "\<forall>b \<in> set before. inadmissible cfg am snap s b \<or> snd (verify b) \<noteq> None \<or> \<not> av_Trusted (fst (verify b))" by blast
    with False show ?thesis by (intro exI [of _ "x # before"] exI [of _ after]) auto
  qed
qed simp

lemma step_jobs: "scheduler_step queue s t \<Longrightarrow> jobs_ok queue s \<Longrightarrow> jobs_ok queue t"
proof (induction rule: scheduler_step.induct)
  case (admit cfg am snap s verify rec cs issue slot run)
  have "\<not> is_active s (gh_Number issue)"
    using admit(1) select_Some [of cfg am snap s verify rec "OrderIssues queue cs" issue]
    by (cases "select_candidate cfg am snap s verify rec (OrderIssues queue cs)")
      (auto simp: selectReady_def inadmissible_def Let_def split: if_splits)
  then show ?case using admit dispatch_jobs by blast
next
  case (reconcile s now input project snap)
  have j: "jobs_ok queue (s\<lparr>sch_terminalPoll := p\<rparr>) = jobs_ok queue s" "is_active (s\<lparr>sch_terminalPoll := p\<rparr>) n = is_active s n"
      "hasMaintenanceJob (s\<lparr>sch_terminalPoll := p\<rparr>) = hasMaintenanceJob s" for p n
    by (simp_all add: jobs_ok_def slots_of_def is_active_def hasMaintenanceJob_def)
  show ?case
    using reconcile dispatch_jobs
    by (auto simp: dispatchManagedReconciliation_def Let_def j split: option.split)
next
  case (event s delay now e)
  then show ?case using jobs_delete [OF event]
    by (auto simp: handleEvent_def Let_def jobs_ok_def slots_of_def split: option.split)
next
  case (failed s delay path now cause rates)
  then show ?case
    by (auto simp: handleCycleError_def Let_def jobs_ok_def slots_of_def split: option.split sum.split prod.split FailureKind.split)
next
  case (deadline s now snap)
  then show ?case by (simp add: nextRetryDelay_def Let_def jobs_ok_def slots_of_def)
next
  case (drain s events)
  then show ?case by (induction events arbitrary: s) (auto simp: jobs_delete split: option.split)
qed (rule pending_jobs)

lemma worker_slots: "workerCount s = length (filter (\<lambda>x. 0 \<le> x) (slots_of s))"
  by (simp add: workerCount_def slots_of_def filter_map comp_def split_def)

text \<open>Jobs never share a slot. Whatever the scheduler does from a state whose jobs are in order, dispatching pending Issues, admitting a new one,
  reconciling, handling events and failed cycles, computing deadlines or draining, in any order: every Issue has at most
  one job, no two workers share a slot, there are never more workers than the concurrency allows, and at most one job runs without
  a slot.\<close>

theorem jobs_never_share_a_slot:
  assumes "scheduler_reaches queue s t" and "jobs_ok queue s"
  shows "distinct (map fst (sch_active t)) \<and> int (workerCount t) \<le> slot_limit queue
    \<and> (\<forall>i j. i < length (sch_active t) \<and> j < length (sch_active t) \<and> i \<noteq> j \<and> 0 \<le> slots_of t ! i \<longrightarrow> slots_of t ! i \<noteq> slots_of t ! j)
    \<and> length (filter (\<lambda>x. x < 0) (slots_of t)) \<le> 1"
proof -
  have ok: "jobs_ok queue t" using assms by induction (auto intro: step_jobs)
  let ?slots = "filter (\<lambda>x. 0 \<le> x) (slots_of t)"
  have "set ?slots \<subseteq> {0..<slot_limit queue}" using ok by (auto simp: jobs_ok_def)
  then have "card (set ?slots) \<le> nat (slot_limit queue)" using card_mono [of "{0..<slot_limit queue}"] by fastforce
  moreover have "card (set ?slots) = workerCount t" using ok distinct_card [of ?slots] by (simp add: jobs_ok_def worker_slots)
  ultimately have workers: "int (workerCount t) \<le> slot_limit queue" by (simp add: slot_limit_def split: if_splits)
  have share: "xs ! i \<noteq> xs ! j"
    if "distinct (filter (\<lambda>x. 0 \<le> x) xs)" "i < length xs" "j < length xs" "i \<noteq> j" "0 \<le> xs ! i" for xs :: "int list" and i j
    using that
  proof (induction xs arbitrary: i j)
    case (Cons x xs)
    then show ?case by (cases i; cases j) (auto split: if_splits)
  qed simp
  have "length (slots_of t) = length (sch_active t)" by (simp add: slots_of_def)
  then have "\<forall>i j. i < length (sch_active t) \<and> j < length (sch_active t) \<and> i \<noteq> j \<and> 0 \<le> slots_of t ! i \<longrightarrow> slots_of t ! i \<noteq> slots_of t ! j"
    using ok share [of "slots_of t"] by (simp add: jobs_ok_def)
  with ok workers show ?thesis by (simp add: jobs_ok_def)
qed

definition idle_scheduler :: Scheduler where
  "idle_scheduler = \<lparr>sch_active = [], sch_issueRetry = [], sch_issueFails = [], sch_terminalPoll = [], sch_pollAt = 0,
     sch_cooldownUntil = 0, sch_lastSuppressedReset = 0, sch_consecutiveFailures = 0, sch_rateLimitActive = False\<rparr>"

definition sample_queue :: QueueConfig where
  "sample_queue = \<lparr>qc_PollInterval = 60 * 10 ^ 9, qc_Concurrency = 1, qc_Order = ''created_at_asc'', qc_PriorityLabels = []\<rparr>"

definition resumable :: "int \<Rightarrow> Issue" where
  "resumable n = (new_issue n)\<lparr>iss_Status := StatusResumePending, iss_RunID := ''run_1''\<rparr>"

theorem jobs_never_share_a_slot_witness:
  "int (workerCount (dispatch_pending sample_queue 5 new_snapshot [resumable 7, resumable 8] idle_scheduler)) \<le> 1
   \<and> is_active (dispatch_pending sample_queue 5 new_snapshot [resumable 7, resumable 8] idle_scheduler) 7"
proof -
  let ?t = "dispatch_pending sample_queue 5 new_snapshot [resumable 7, resumable 8] idle_scheduler"
  have "scheduler_reaches sample_queue idle_scheduler ?t"
    by (rule scheduler_reaches.step [OF scheduler_reaches.refl scheduler_step.pending])
  moreover have "jobs_ok sample_queue idle_scheduler" by (simp add: jobs_ok_def idle_scheduler_def slots_of_def)
  moreover have "slot_limit sample_queue = 1" by (simp add: slot_limit_def sample_queue_def)
  moreover have "is_active ?t 7" by code_simp
  ultimately show ?thesis using jobs_never_share_a_slot [of sample_queue idle_scheduler ?t] by simp
qed

section \<open>Admission\<close>

lemma wait_empty: "admissionWait s = '''' \<longleftrightarrow> (\<forall>i \<in> set (pointees (snap_Issues s)). \<not> BlocksNewAdmission (iss_Status i))"
proof -
  have "sort xs = [] \<longleftrightarrow> xs = []" for xs :: "string list" by (metis length_0_conv length_sort)
  then show ?thesis by (simp add: admissionWait_def admissionBlockers_def Let_def filter_empty_conv)
qed

lemma ToLower_TrimSpace_Nil: "ToLower (TrimSpace x) = '''' \<Longrightarrow> ToLower (TrimSpace (ToLower (TrimSpace x))) = ''''"
  by (simp add: ToLower_def)

text \<open>What makes the author of an admitted Issue trusted.\<close>

lemma verified_author:
  assumes "VerifyIssueAuthor allow repo permission now later issue = (v, None)" and "av_Trusted v"
  shows "ToLower (TrimSpace (gh_AuthorLogin issue)) \<noteq> '''' \<and>
    (ToLower (TrimSpace (ToLower (TrimSpace (gh_AuthorLogin issue)))) \<in> set allow
     \<or> \<not> automationAccount (gh_AuthorType issue)
       \<and> (ToLower (TrimSpace (gh_AuthorLogin issue)) = repository_owner repo
          \<or> (\<exists>granted user. permission (ToLower (TrimSpace (gh_AuthorLogin issue))) = Inr (granted, user)
               \<and> EqualFold user (ToLower (TrimSpace (gh_AuthorLogin issue)))
               \<and> ToLower (TrimSpace granted) \<in> {''write'', ''maintain'', ''admin''})))"
proof -
  let ?login = "ToLower (TrimSpace (gh_AuthorLogin issue))"
  let ?facts = "\<lparr>af_Login = ?login, af_AccountType = gh_AuthorType issue, af_Permission = '''',
    af_RepositoryOwner = (?login \<noteq> '''' \<and> ?login = repository_owner repo)\<rparr>"
  have "av_Trusted (VerifyAuthor allow ?facts now) \<or> (\<exists>granted user. permission ?login = Inr (granted, user) \<and> EqualFold user ?login
      \<and> av_Trusted (VerifyAuthor allow (?facts\<lparr>af_Permission := granted\<rparr>) later))"
    using assms by (auto simp: VerifyIssueAuthor_def Let_def split: if_splits sum.splits)
  moreover have "ToLower (TrimSpace '''') = ''''" by (simp add: ToLower_def)
  ultimately show ?thesis using ToLower_TrimSpace_Nil by (auto simp: trusted_iff)
qed

text \<open>C25: Only what may be worked on is admitted. If the scheduler admits an Issue, then no worker is running, the repository has
  no active execution and no managed Issue blocks admission; the Issue was a candidate, is open and eligible by its labels, not quarantined,
  not waiting for a person, has no status that excludes it and no job; its author is on the allowlist, or is a person who owns the
  repository or whom the API confirms to have at least write permission; and every candidate before it in the order of the queue was
  inadmissible or not trusted.\<close>

theorem admission_is_safe:
  assumes "selectReady cfg queue autoMerge snapshot s (VerifyIssueAuthor allow repo permission now later) record' issues = (Inr (Some c), vs)"
  shows "workerCount s = 0 \<and> snap_ActiveExecution snapshot = None
    \<and> (\<forall>i \<in> set (pointees (snap_Issues snapshot)). \<not> BlocksNewAdmission (iss_Status i))
    \<and> c \<in> set issues \<and> EligibleIssue c cfg \<and> ptr_at (snap_QuarantinedIssues snapshot) (Itoa (gh_Number c)) = None
    \<and> \<not> NeedsHuman snapshot (gh_Number c) autoMerge \<and> \<not> is_active s (gh_Number c)
    \<and> (\<forall>i. issue_at snapshot (gh_Number c) = Some i \<longrightarrow> iss_Status i = StatusUnset \<or> iss_Status i = StatusClaiming)
    \<and> (ToLower (TrimSpace (ToLower (TrimSpace (gh_AuthorLogin c)))) \<in> set allow
       \<or> \<not> automationAccount (gh_AuthorType c)
         \<and> (ToLower (TrimSpace (gh_AuthorLogin c)) = repository_owner repo
            \<or> (\<exists>granted user. permission (ToLower (TrimSpace (gh_AuthorLogin c))) = Inr (granted, user)
                 \<and> EqualFold user (ToLower (TrimSpace (gh_AuthorLogin c)))
                 \<and> ToLower (TrimSpace granted) \<in> {''write'', ''maintain'', ''admin''})))
    \<and> (\<forall>b \<in> set issues. issue_before queue b c \<longrightarrow> inadmissible cfg autoMerge snapshot s b
         \<or> (\<exists>v e. VerifyIssueAuthor allow repo permission now later b = (v, e) \<and> (e \<noteq> None \<or> \<not> av_Trusted v)))"
proof -
  let ?verify = "VerifyIssueAuthor allow repo permission now later"
  have gate: "workerCount s = 0" "snap_ActiveExecution snapshot = None" "admissionWait snapshot = ''''"
    and sel: "select_candidate cfg autoMerge snapshot s ?verify record' (OrderIssues queue issues) = (Inr (Some c), vs)"
    using assms by (auto simp: selectReady_def split: if_splits)
  from select_Some [OF sel] obtain before after v where
    split: "OrderIssues queue issues = before @ c # after" and adm: "\<not> inadmissible cfg autoMerge snapshot s c"
    and v: "?verify c = (v, None)" "av_Trusted v"
    and skipped: "\<forall>b \<in> set before. inadmissible cfg autoMerge snapshot s b \<or> snd (?verify b) \<noteq> None \<or> \<not> av_Trusted (fst (?verify b))"
    by blast
  have mem: "set issues = set before \<union> {c} \<union> set after" using arg_cong [OF split, of set] by (auto simp: OrderIssues_def)
  have sorted: "sorted (map (order_key queue) (before @ c # after))" by (simp flip: split add: OrderIssues_def)
  have first: "b \<in> set before" if "b \<in> set issues" "issue_before queue b c" for b
    using that sorted mem by (auto simp: issue_before_key sorted_append)
  have rest: "\<forall>b \<in> set issues. issue_before queue b c \<longrightarrow> inadmissible cfg autoMerge snapshot s b
         \<or> (\<exists>v e. ?verify b = (v, e) \<and> (e \<noteq> None \<or> \<not> av_Trusted v))"
    using first skipped by (metis prod.collapse)
  show ?thesis
    using gate adm mem rest verified_author [OF v]
    by (auto simp: wait_empty inadmissible_def Let_def IneligibleForAdmission_def split: option.splits)
qed

definition permitted :: "string \<Rightarrow> failure + string \<times> string" where
  "permitted login = Inr (''write'', login)"

fun selected :: "failure + GHIssue option \<Rightarrow> bool" where
  "selected (Inr (Some c)) = True"
| "selected r = False"

lemma selectedE:
  assumes "selected (fst x)" obtains c vs where "x = (Inr (Some c), vs)"
  using assms by (cases x; cases "fst x" rule: selected.cases) auto

theorem admission_is_safe_witness:
  "\<exists>c vs. selectReady sample_config sample_queue True new_snapshot idle_scheduler (VerifyIssueAuthor [] ''o/r'' permitted 5 6) (\<lambda>n v. None)
      [sample_gh_issue [''other''], (sample_gh_issue [''ready''])\<lparr>gh_Number := 8\<rparr>] = (Inr (Some c), vs) \<and> EligibleIssue c sample_config"
proof -
  let ?r = "selectReady sample_config sample_queue True new_snapshot idle_scheduler (VerifyIssueAuthor [] ''o/r'' permitted 5 6) (\<lambda>n v. None)
      [sample_gh_issue [''other''], (sample_gh_issue [''ready''])\<lparr>gh_Number := 8\<rparr>]"
  have "selected (fst ?r)" by code_simp
  then obtain c vs where r: "?r = (Inr (Some c), vs)" by (rule selectedE)
  have "EligibleIssue c sample_config" using admission_is_safe [OF r] by (elim conjE)
  with r show ?thesis by (intro exI conjI)
qed

section \<open>Finished jobs and retries\<close>

lemma dispatch_other:
  "is_active (dispatch m run slot s) n \<longleftrightarrow> n = m \<or> is_active s n"
  "n \<noteq> m \<Longrightarrow> retryPending now (dispatch m run slot s) n = retryPending now s n"
  by (auto simp: is_active_def retryPending_def dispatch_def delete_lookup update_lookup)

lemma pending_waits:
  "\<not> is_active s n \<Longrightarrow> retryPending now s n \<Longrightarrow> \<not> is_active (dispatch_pending queue now snapshot issues s) n"
proof (induction issues arbitrary: s)
  case (Cons i rest)
  have keep: "\<not> is_active (dispatch (iss_Number i) run slot s) n \<and> retryPending now (dispatch (iss_Number i) run slot s) n"
    if "\<not> retryPending now s (iss_Number i)" for run slot
    using that Cons.prems by (cases "n = iss_Number i") (simp_all add: dispatch_other)
  show ?case
    using Cons.IH keep Cons.prems by (auto simp: Let_def split: option.split)
qed simp

text \<open>A finished job is accounted for exactly once. An event of a run that the scheduler does not have, because another run of the Issue has
  replaced it or because it was handled before, changes nothing. The event of the current run frees its Issue; if the job failed on its
  own, neither by a rate limit nor by a supervisor failure, no other Issue is affected, its failures are counted and it is not started again
  before the delay for that many failures has passed.\<close>

theorem finished_job_is_handled_once:
  assumes "se_Kind event = ''job_finished''" and "handleEvent delay now event s = (r, s')"
  shows "(map_option job_RunID (map_of (sch_active s) (se_IssueNumber event)) \<noteq> Some (se_RunID event) \<longrightarrow> r = None \<and> s' = s)
    \<and> (map_option job_RunID (map_of (sch_active s) (se_IssueNumber event)) = Some (se_RunID event) \<longrightarrow>
        \<not> is_active s' (se_IssueNumber event) \<and> (\<forall>m. m \<noteq> se_IssueNumber event \<longrightarrow> map_of (sch_active s') m = map_of (sch_active s) m)
        \<and> handleEvent delay later event s' = (None, s')
        \<and> (\<forall>e. se_Err event = Some e \<and> cooldownFromError e now = None \<and> KindOf e \<noteq> SupervisorFailure \<longrightarrow>
             r = None \<and> at_zero (sch_issueFails s') 0 (se_IssueNumber event) = at_zero (sch_issueFails s) 0 (se_IssueNumber event) + 1
             \<and> (\<forall>now' < now + delay (at_zero (sch_issueFails s') 0 (se_IssueNumber event)).
                  \<not> is_active (dispatch_pending queue now' snapshot issues s') (se_IssueNumber event))))"
proof (cases "map_option job_RunID (map_of (sch_active s) (se_IssueNumber event)) = Some (se_RunID event)")
  case False
  then show ?thesis using assms by (auto simp: handleEvent_def split: option.splits if_splits)
next
  case True
  let ?n = "se_IssueNumber event"
  obtain job where job: "map_of (sch_active s) ?n = Some job" "job_RunID job = se_RunID event" using True by blast
  have act: "sch_active s' = AList.delete ?n (sch_active s)"
    using assms job by (auto simp: handleEvent_def Let_def split: option.splits if_splits)
  then have gone: "\<not> is_active s' ?n" "\<forall>m. m \<noteq> ?n \<longrightarrow> map_of (sch_active s') m = map_of (sch_active s) m"
    by (simp_all add: is_active_def delete_lookup)
  then have again: "handleEvent delay later event s' = (None, s')"
    using assms(1) by (simp add: handleEvent_def is_active_def)
  have retry: "r = None \<and> at_zero (sch_issueFails s') 0 ?n = at_zero (sch_issueFails s) 0 ?n + 1
      \<and> map_of (sch_issueRetry s') ?n = Some (now + delay (at_zero (sch_issueFails s') 0 ?n))"
    if "se_Err event = Some e" "cooldownFromError e now = None" "KindOf e \<noteq> SupervisorFailure" for e
    using assms job that by (auto simp: handleEvent_def Let_def at_zero_def update_lookup)
  have "\<not> is_active (dispatch_pending queue now' snapshot issues s') ?n"
    if "se_Err event = Some e" "cooldownFromError e now = None" "KindOf e \<noteq> SupervisorFailure"
      "now' < now + delay (at_zero (sch_issueFails s') 0 ?n)" for e now'
    using pending_waits [OF gone(1)] retry [OF that(1-3)] that(4) by (simp add: retryPending_def)
  with True gone again retry show ?thesis by blast
qed

theorem finished_job_is_handled_once_witness:
  "\<exists>r s'. handleEvent (\<lambda>k. 10) 5 \<lparr>se_Kind = ''job_finished'', se_IssueNumber = 7, se_RunID = ''run_1'', se_Err = Some (Cause ''x'')\<rparr>
      (dispatch 7 ''run_1'' 0 idle_scheduler) = (r, s') \<and> \<not> is_active s' 7
      \<and> \<not> is_active (dispatch_pending sample_queue 14 new_snapshot [resumable 7] s') 7"
proof -
  let ?e = "\<lparr>se_Kind = ''job_finished'', se_IssueNumber = 7, se_RunID = ''run_1'', se_Err = Some (Cause ''x'')\<rparr>"
  let ?s = "dispatch 7 ''run_1'' 0 idle_scheduler"
  obtain r s' where h: "handleEvent (\<lambda>k. 10) 5 ?e ?s = (r, s')" by (cases "handleEvent (\<lambda>k. 10) 5 ?e ?s")
  have "cooldownFromError (Cause ''x'') 5 = None" "KindOf (Cause ''x'') \<noteq> SupervisorFailure"
    by (simp_all add: cooldownFromError_def KindOf_def)
  moreover have "map_option job_RunID (map_of (sch_active ?s) 7) = Some ''run_1''" by (simp add: dispatch_def idle_scheduler_def)
  ultimately show ?thesis
    using finished_job_is_handled_once [OF _ h, of 6 sample_queue new_snapshot "[resumable 7]"] h by fastforce
qed

section \<open>Rotation of reconciliations\<close>

definition due_numbers :: "time \<Rightarrow> Snapshot \<Rightarrow> Scheduler \<Rightarrow> int set" where
  "due_numbers now snapshot s = fst ` set (reconcile_candidates now snapshot s)"

definition listed :: "Snapshot \<Rightarrow> int \<Rightarrow> bool" where
  "listed snapshot n \<longleftrightarrow> (\<exists>i \<in> set (pointees (snap_Issues snapshot)). n = iss_Number i \<and> iss_Status i \<noteq> StatusCompleted \<and> iss_Status i \<noteq> StatusCanceled)"

definition isolated :: "Snapshot \<Rightarrow> int \<Rightarrow> bool" where
  "isolated snapshot n \<longleftrightarrow> (\<exists>(key, q) \<in> set (entries (snap_QuarantinedIssues snapshot)). Atoi key = (n, True) \<and> q \<noteq> None)"

lemma map_filter_fst: "n \<in> fst ` set (List.map_filter f es) \<longleftrightarrow> (\<exists>e \<in> set es. \<exists>r. f e = Some (n, r))"
  by (force simp: List.map_filter_def)

lemma isolated_candidates:
  "fst ` set (List.map_filter (\<lambda>(key, q). case (Atoi key, q) of
      ((number, True), Some _) \<Rightarrow> if P number then Some (number, '''') else None | _ \<Rightarrow> None) es)
    = {n. (\<exists>(key, q) \<in> set es. Atoi key = (n, True) \<and> q \<noteq> None) \<and> P n}"
  (is "fst ` set (List.map_filter ?f es) = _")
proof -
  have pick: "?f e = Some (n, r) \<longleftrightarrow> (case e of (key, q) \<Rightarrow> Atoi key = (n, True) \<and> q \<noteq> None) \<and> P n \<and> r = ''''" for e n r
    by (cases e; cases "Atoi (fst e)"; cases "snd (Atoi (fst e))"; cases "snd e") auto
  show ?thesis unfolding set_eq_iff map_filter_fst pick mem_Collect_eq by blast
qed

lemma due_iff:
  "n \<in> due_numbers now snapshot s \<longleftrightarrow> poll_due now s n \<and> (listed snapshot n \<or> isolated snapshot n \<and> \<not> is_active s n)"
proof -
  have "due_numbers now snapshot s =
      {n. listed snapshot n \<and> poll_due now s n} \<union> {n. isolated snapshot n \<and> (poll_due now s n \<and> \<not> is_active s n)}"
    unfolding due_numbers_def reconcile_candidates_def set_append image_Un isolated_candidates isolated_def
    by (rule arg_cong2 [where f = "(\<union>)"]) (auto simp: listed_def image_image)
  then show ?thesis by blast
qed

lemma next_candidate_Some:
  assumes "next_candidate now snapshot s = Some (n, run)"
  shows "(n, run) \<in> set (reconcile_candidates now snapshot s)"
    and "m \<in> due_numbers now snapshot s \<Longrightarrow> at_zero (sch_terminalPoll s) 0 n \<le> at_zero (sch_terminalPoll s) 0 m"
proof -
  let ?key = "\<lambda>(n :: int, run :: string). (at_zero (sch_terminalPoll s) 0 n, n)"
  let ?cs = "sort_key ?key (reconcile_candidates now snapshot s)"
  obtain rest where cs: "?cs = (n, run) # rest"
    using assms by (auto simp: next_candidate_def split: list.splits)
  have "set (reconcile_candidates now snapshot s) = set ?cs" by (simp only: set_sort)
  also have "\<dots> = insert (n, run) (set rest)" by (simp only: cs list.set)
  finally have mem: "set (reconcile_candidates now snapshot s) = insert (n, run) (set rest)" .
  then show "(n, run) \<in> set (reconcile_candidates now snapshot s)" by simp
  have "sorted (map ?key ?cs)" by (rule sorted_sort_key)
  then have least: "\<forall>c \<in> set rest. ?key (n, run) \<le> ?key c" unfolding cs by simp
  show "at_zero (sch_terminalPoll s) 0 n \<le> at_zero (sch_terminalPoll s) 0 m" if due: "m \<in> due_numbers now snapshot s"
  proof -
    have "m \<in> fst ` insert (n, run) (set rest)" using due unfolding due_numbers_def mem .
    then obtain run' where m: "(m, run') = (n, run) \<or> (m, run') \<in> set rest" by fastforce
    show ?thesis
    proof (cases "m = n")
      case False
      with m least have "?key (n, run) \<le> ?key (m, run')" by blast
      then show ?thesis by (auto simp: less_eq_prod_def)
    qed simp
  qed
qed

lemma poll_advance:
  assumes "s' = s\<lparr>sch_terminalPoll := AList.update n t (sch_terminalPoll s)\<rparr>" and "t > now"
  shows "due_numbers now snapshot s' = due_numbers now snapshot s - {n}"
proof -
  have due: "poll_due now s' m \<longleftrightarrow> poll_due now s m \<and> m \<noteq> n" for m
    using assms by (simp add: poll_due_def retryPending_def at_zero_def update_lookup)
  have act: "is_active s' m = is_active s m" for m by (simp add: assms(1) is_active_def)
  show ?thesis unfolding set_eq_iff Diff_iff due_iff by (auto simp: due act)
qed

lemma dispatch_due:
  assumes "t > now" and "n \<notin> due_numbers now snapshot s'" and "s' = s\<lparr>sch_terminalPoll := AList.update n t (sch_terminalPoll s)\<rparr>"
  shows "due_numbers now snapshot (dispatch n run slot s') = due_numbers now snapshot s'"
proof -
  have served: "\<not> poll_due now (dispatch n run slot s') n" "\<not> poll_due now s' n"
    using assms(1,3) by (simp_all add: poll_due_def dispatch_def at_zero_def update_lookup)
  have "poll_due now (dispatch n run slot s') m = poll_due now s' m" if "m \<noteq> n" for m
    unfolding poll_due_def dispatch_other(2) [OF that] by (simp add: dispatch_def)
  moreover have "is_active (dispatch n run slot s') m = is_active s' m" if "m \<noteq> n" for m
    using that by (simp add: dispatch_other)
  ultimately have "m \<in> due_numbers now snapshot (dispatch n run slot s') \<longleftrightarrow> m \<in> due_numbers now snapshot s'" for m
    using served by (cases "m = n") (simp_all add: due_iff)
  then show ?thesis by blast
qed

lemma round_cases:
  assumes "\<not> hasMaintenanceJob s" and "dispatchManagedReconciliation queue now input project snapshot s = (r, s')"
  obtains (idle) "due_numbers now snapshot s = {}" "s' = s" "r = Inr False"
    | (served) n run s1 where "n \<in> due_numbers now snapshot s" "next_candidate now snapshot s = Some (n, run)"
      "s1 = s\<lparr>sch_terminalPoll := AList.update n (now + poll_delay queue) (sch_terminalPoll s)\<rparr>"
      "s' = s1 \<or> (s' = dispatch n run (- 1) s1 \<and> r = Inr True \<and> \<not> is_active s n)"
proof (cases "next_candidate now snapshot s")
  case None
  have empty: "xs = []" if "sort_key f xs = []" for xs and f :: "int \<times> string \<Rightarrow> time \<times> int" using that by (metis length_0_conv length_sort)
  have "sort_key (\<lambda>(n, run). (at_zero (sch_terminalPoll s) 0 n, n)) (reconcile_candidates now snapshot s) = []"
    using None unfolding next_candidate_def by (simp split: list.splits)
  then have "reconcile_candidates now snapshot s = []" by (rule empty)
  then have "due_numbers now snapshot s = {}" by (simp only: due_numbers_def list.set image_empty)
  moreover have "s' = s" "r = Inr False" using assms unfolding dispatchManagedReconciliation_def None by simp_all
  ultimately show ?thesis by (rule idle)
next
  case (Some c)
  obtain n run where c: "c = (n, run)" by (cases c)
  have "n \<in> due_numbers now snapshot s"
    using imageI [OF next_candidate_Some(1) [OF Some [unfolded c]], of fst] by (simp only: due_numbers_def fst_conv)
  moreover
  obtain s1 where s1: "s1 = s\<lparr>sch_terminalPoll := AList.update n (now + poll_delay queue) (sch_terminalPoll s)\<rparr>" by blast
  have act: "is_active s1 n = is_active s n" by (simp add: s1 is_active_def)
  have "(case input n of
           Some e \<Rightarrow> (Inl (WrapFailure Transient ''reconcile GitHub input control'' e), s1)
         | None \<Rightarrow>
           if is_active s1 n then
             (case project n of
                None \<Rightarrow> (Inr False, s1)
              | Some e \<Rightarrow> if cooldownFromError e now \<noteq> None \<or> KindOf e = SupervisorFailure then (Inl e, s1) else (Inr False, s1))
           else (Inr True, dispatch n run (- 1) s1)) = (r, s')"
    using assms(2) unfolding dispatchManagedReconciliation_def Some c s1 Let_def option.case prod.case if_not_P [OF assms(1)] .
  then have "s' = s1 \<or> (s' = dispatch n run (- 1) s1 \<and> r = Inr True \<and> \<not> is_active s n)"
    unfolding act by (cases "input n"; cases "is_active s n"; cases "project n") (simp_all split: if_splits)
  ultimately show ?thesis by (rule served [OF _ Some [unfolded c] s1])
qed

lemma poll_delay_min: "300 * 10 ^ 9 \<le> poll_delay queue"
  by (simp add: poll_delay_def)

lemma round_due:
  assumes "s1 = s\<lparr>sch_terminalPoll := AList.update n (now + poll_delay queue) (sch_terminalPoll s)\<rparr>"
    and "s' = s1 \<or> s' = dispatch n run slot s1"
  shows "due_numbers now snapshot s' = due_numbers now snapshot s - {n}"
    and "later < now + 300 * 10 ^ 9 \<Longrightarrow> n \<notin> due_numbers later snapshot s'"
proof -
  have future: "now + poll_delay queue > now" using poll_delay_min [of queue] by simp
  show "due_numbers now snapshot s' = due_numbers now snapshot s - {n}"
    using assms(2) dispatch_due [OF future _ assms(1), of snapshot run slot] poll_advance [OF assms(1) future, of snapshot] by (metis Diff_iff insertI1)
  have "at_zero (sch_terminalPoll s') 0 n = now + poll_delay queue"
    using assms by (auto simp: dispatch_def at_zero_def update_lookup)
  then show "n \<notin> due_numbers later snapshot s'" if "later < now + 300 * 10 ^ 9"
    using that poll_delay_min [of queue] by (simp add: due_iff poll_due_def)
qed

text \<open>Reconciliation rotates over the managed Issues. When no maintenance job runs, a round serves exactly one of the Issues that are due,
  if there is any: the one whose turn is the oldest. Whatever the outcome, it leaves the others as they are, and the Issue it served is not
  due again for at least five minutes, so that it cannot starve them.\<close>

theorem reconciliation_rotates:
  assumes "\<not> hasMaintenanceJob s" and "dispatchManagedReconciliation queue now input project snapshot s = (r, s')"
  shows "due_numbers now snapshot s = {} \<and> s' = s \<and> r = Inr False
    \<or> (\<exists>n \<in> due_numbers now snapshot s.
        (\<forall>m \<in> due_numbers now snapshot s. at_zero (sch_terminalPoll s) 0 n \<le> at_zero (sch_terminalPoll s) 0 m)
        \<and> due_numbers now snapshot s' = due_numbers now snapshot s - {n}
        \<and> (\<forall>later < now + 300 * 10 ^ 9. n \<notin> due_numbers later snapshot s'))"
  using assms
proof (cases rule: round_cases)
  case (served n run s1)
  then have "s' = s1 \<or> s' = dispatch n run (- 1) s1" by blast
  from served(1) round_due [OF served(3) this] next_candidate_Some(2) [OF served(2)] show ?thesis by blast
qed blast

definition two_issues :: Snapshot where
  "two_issues = new_snapshot\<lparr>snap_Issues := GoMap [(''7'', Some (resumable 7)), (''8'', Some (resumable 8))]\<rparr>"

lemma two_due: "due_numbers 5 two_issues idle_scheduler = {7, 8}"
  by (simp add: due_numbers_def reconcile_candidates_def two_issues_def new_snapshot_def pointees_def List.map_filter_def resumable_def
      new_issue_def poll_due_def retryPending_def idle_scheduler_def at_zero_def)

theorem reconciliation_rotates_witness:
  "\<exists>n \<in> {7, 8}. due_numbers 5 two_issues (snd (dispatchManagedReconciliation sample_queue 5 (\<lambda>n. None) (\<lambda>n. None) two_issues idle_scheduler))
    = {7, 8} - {n}"
proof -
  have idle: "\<not> hasMaintenanceJob idle_scheduler" by (simp add: hasMaintenanceJob_def idle_scheduler_def)
  obtain r s' where r: "dispatchManagedReconciliation sample_queue 5 (\<lambda>n. None) (\<lambda>n. None) two_issues idle_scheduler = (r, s')"
    by (cases "dispatchManagedReconciliation sample_queue 5 (\<lambda>n. None) (\<lambda>n. None) two_issues idle_scheduler")
  from reconciliation_rotates [OF idle r] r show ?thesis unfolding two_due by auto
qed

text \<open>A sweep: rounds of reconciliation, the job of each finishing before the next.\<close>

definition finish_maintenance :: "(int \<Rightarrow> int) \<Rightarrow> time \<Rightarrow> Scheduler \<Rightarrow> Scheduler" where
  "finish_maintenance delay now s = (case find (\<lambda>(n, job). job_Slot job < 0) (sch_active s) of
     None \<Rightarrow> s
   | Some (n, job) \<Rightarrow> snd (handleEvent delay now \<lparr>se_Kind = ''job_finished'', se_IssueNumber = n, se_RunID = job_RunID job, se_Err = None\<rparr> s))"

fun sweep :: "QueueConfig \<Rightarrow> (int \<Rightarrow> int) \<Rightarrow> time \<Rightarrow> (int \<Rightarrow> failure option) \<Rightarrow> (int \<Rightarrow> failure option) \<Rightarrow> Snapshot \<Rightarrow> nat \<Rightarrow> Scheduler \<Rightarrow> Scheduler"
where
  "sweep queue delay now input project snapshot 0 s = s"
| "sweep queue delay now input project snapshot (Suc k) s = sweep queue delay now input project snapshot k
     (finish_maintenance delay now (snd (dispatchManagedReconciliation queue now input project snapshot s)))"

lemma no_maintenance: "\<not> hasMaintenanceJob s \<longleftrightarrow> find (\<lambda>(n, job). job_Slot job < 0) (sch_active s) = None"
  by (auto simp: hasMaintenanceJob_def find_None_iff)

lemma find_append: "find P (xs @ ys) = (case find P xs of None \<Rightarrow> find P ys | Some x \<Rightarrow> Some x)"
  by (induction xs) auto

lemma finish_dispatch:
  assumes "\<not> hasMaintenanceJob s" and "\<not> is_active s n"
  shows "sch_active (finish_maintenance delay now (dispatch n run (- 1) s)) = sch_active s"
    and "sch_terminalPoll (finish_maintenance delay now (dispatch n run (- 1) s)) = sch_terminalPoll s"
    and "sch_issueRetry (finish_maintenance delay now (dispatch n run (- 1) s)) = AList.delete n (sch_issueRetry s)"
proof -
  let ?job = "\<lparr>job_RunID = run, job_Slot = - 1\<rparr>"
  have fresh_key: "map_of (sch_active s) n = None" using assms(2) by (simp add: is_active_def)
  then have active: "sch_active (dispatch n run (- 1) s) = sch_active s @ [(n, ?job)]" by (simp add: dispatch_def update_fresh)
  with assms(1) have "find (\<lambda>(n, job). job_Slot job < 0) (sch_active (dispatch n run (- 1) s)) = Some (n, ?job)"
    unfolding no_maintenance by (simp add: find_append)
  moreover have "map_of (sch_active (dispatch n run (- 1) s)) n = Some ?job" by (simp add: dispatch_def update_lookup)
  moreover have "AList.delete n (sch_active (dispatch n run (- 1) s)) = sch_active s" using active fresh_key by (simp add: delete_fresh)
  ultimately show "sch_active (finish_maintenance delay now (dispatch n run (- 1) s)) = sch_active s"
    and "sch_terminalPoll (finish_maintenance delay now (dispatch n run (- 1) s)) = sch_terminalPoll s"
    and "sch_issueRetry (finish_maintenance delay now (dispatch n run (- 1) s)) = AList.delete n (sch_issueRetry s)"
    by (simp_all add: finish_maintenance_def handleEvent_def) (simp_all add: dispatch_def)
qed

lemma due_cong:
  assumes "sch_active t = sch_active s" and "sch_terminalPoll t = sch_terminalPoll s" and "sch_issueRetry t = AList.delete n (sch_issueRetry s)"
    and "\<not> poll_due now s n" and "at_zero (sch_terminalPoll s) 0 n > now"
  shows "due_numbers now snapshot t = due_numbers now snapshot s"
proof -
  have "poll_due now t m = poll_due now s m" for m
    using assms(2-5) by (cases "m = n") (simp_all add: poll_due_def retryPending_def delete_lookup)
  moreover have "is_active t m = is_active s m" for m using assms(1) by (simp add: is_active_def)
  ultimately show ?thesis by (auto simp: due_iff)
qed

text \<open>No managed Issue is starved. While the rounds follow one another, each finishing before the next, every Issue that is due is served
  within as many rounds as there are due Issues, whatever the outcome of the rounds: then none is due.\<close>

theorem every_due_issue_is_reconciled:
  assumes "\<not> hasMaintenanceJob s"
  shows "due_numbers now snapshot (sweep queue delay now input project snapshot (card (due_numbers now snapshot s)) s) = {}"
proof -
  have "card (due_numbers now snapshot s) = k \<Longrightarrow> due_numbers now snapshot (sweep queue delay now input project snapshot k s) = {}"
    if "\<not> hasMaintenanceJob s" for k s
    using that
  proof (induction k arbitrary: s)
    case 0
    then show ?case by (simp add: due_numbers_def)
  next
    case (Suc k)
    obtain r s' where round: "dispatchManagedReconciliation queue now input project snapshot s = (r, s')" by fastforce
    let ?t = "finish_maintenance delay now s'"
    have "\<not> hasMaintenanceJob ?t \<and> card (due_numbers now snapshot ?t) = k"
      using Suc.prems(2) round
    proof (cases rule: round_cases)
      case idle
      with Suc.prems show ?thesis by simp
    next
      case (served n run s1)
      have active: "sch_active s1 = sch_active s" by (simp add: served(3))
      then have calm: "\<not> hasMaintenanceJob s1" using Suc.prems(2) by (simp add: hasMaintenanceJob_def)
      have late: "at_zero (sch_terminalPoll s1) 0 n > now"
        using poll_delay_min [of queue] by (simp add: served(3) at_zero_def update_lookup)
      have due: "due_numbers now snapshot s1 = due_numbers now snapshot s - {n}" using round_due(1) [OF served(3)] by blast
      have "sch_active ?t = sch_active s1 \<and> due_numbers now snapshot ?t = due_numbers now snapshot s1"
        using served(4)
      proof
        assume "s' = s1"
        with calm show ?thesis by (simp add: finish_maintenance_def no_maintenance)
      next
        assume s': "s' = dispatch n run (- 1) s1 \<and> r = Inr True \<and> \<not> is_active s n"
        then have "\<not> is_active s1 n" using active by (simp add: is_active_def)
        note fin = finish_dispatch [OF calm this, of delay now run]
        from late have "\<not> poll_due now s1 n" by (simp add: poll_due_def)
        from due_cong [OF fin this late] fin(1) s' show ?thesis by simp
      qed
      moreover have "finite (due_numbers now snapshot s)" by (simp add: due_numbers_def)
      ultimately show ?thesis
        using calm due Suc.prems(1) served(1) by (simp add: hasMaintenanceJob_def)
    qed
    with Suc.IH round show ?case by simp
  qed
  with assms show ?thesis by blast
qed

theorem every_due_issue_is_reconciled_witness:
  "due_numbers 5 two_issues (sweep sample_queue (\<lambda>k. 10) 5 (\<lambda>n. None) (\<lambda>n. None) two_issues 2 idle_scheduler) = {}"
proof -
  have idle: "\<not> hasMaintenanceJob idle_scheduler" by (simp add: hasMaintenanceJob_def idle_scheduler_def)
  have "card {7, 8 :: int} = 2" by simp
  with every_due_issue_is_reconciled [OF idle, of 5 two_issues sample_queue "\<lambda>k. 10" "\<lambda>n. None" "\<lambda>n. None"]
  show ?thesis unfolding two_due by (simp only:)
qed

section \<open>Waking up\<close>

text \<open>The deadlines the scheduler has to wake up for: the retries of its own Issues and those of the durable state.\<close>

definition wake_times :: "time \<Rightarrow> Snapshot option \<Rightarrow> Scheduler \<Rightarrow> time set" where
  "wake_times now snapshot s =
     {t. \<exists>n. (n, t) \<in> set (sch_issueRetry s) \<and> t > now \<and> \<not> is_active s n}
     \<union> {t. \<exists>snap i. snapshot = Some snap \<and> i \<in> set (pointees (snap_Issues snap)) \<and> iss_RetryAfter i = Some t \<and> t > now
          \<and> \<not> is_active s (iss_Number i)}"

lemma earlier_fold:
  "\<forall>t \<in> set ts. 0 < t \<Longrightarrow> 0 < d \<Longrightarrow> fold (\<lambda>t deadline. earlier deadline t) ts d = Min (insert d (set ts))"
proof (induction ts arbitrary: d)
  case (Cons t ts)
  then have step: "earlier d t = min d t" by (auto simp: earlier_def IsZero_def)
  have "insert (min d t) (set ts) = (if d \<le> t then insert d (set ts) else insert t (set ts))" by (simp add: min_def)
  moreover have "Min (insert d (insert t A)) = Min (insert (min d t) A)" if "finite A" for A
    using that by (cases "A = {}") (simp_all add: min.assoc)
  ultimately show ?case using Cons by (simp add: step)
qed simp

lemma earlier_fold_zero:
  assumes "\<forall>t \<in> set ts. 0 < t"
  shows "fold (\<lambda>t deadline. earlier deadline t) ts 0 = (if ts = [] then 0 else Min (set ts))"
proof (cases ts)
  case (Cons t rest)
  have "earlier 0 t = t" by (simp add: earlier_def IsZero_def)
  with assms Cons earlier_fold [of rest t] show ?thesis by simp
qed simp

definition deadlines :: "time \<Rightarrow> Snapshot option \<Rightarrow> Scheduler \<Rightarrow> time list" where
  "deadlines now snapshot s = map snd (filter (\<lambda>(n, t). \<not> is_active s n) (sch_issueRetry s))
     @ (case snapshot of None \<Rightarrow> [] | Some snap \<Rightarrow> List.map_filter (\<lambda>i. case iss_RetryAfter i of
             None \<Rightarrow> None | Some t \<Rightarrow> if t > now \<and> \<not> is_active s (iss_Number i) then Some t else None) (pointees (snap_Issues snap)))"

lemma retry_deadline_fold: "retry_deadline now snapshot s = fold (\<lambda>t deadline. earlier deadline t) (deadlines now snapshot s) 0"
  by (simp add: retry_deadline_def deadlines_def Let_def)

lemma set_map_filter: "set (List.map_filter f xs) = {y. \<exists>x \<in> set xs. f x = Some y}"
  by (force simp: List.map_filter_def)

lemma set_deadlines:
  "set (deadlines now snapshot (s\<lparr>sch_issueRetry := filter (\<lambda>(n, t). t > now) (sch_issueRetry s)\<rparr>)) = wake_times now snapshot s"
proof -
  have active: "is_active (s\<lparr>sch_issueRetry := r\<rparr>) n = is_active s n" for r n by (simp add: is_active_def)
  have issue: "(case iss_RetryAfter i of None \<Rightarrow> None | Some t \<Rightarrow> if t > now \<and> \<not> is_active s (iss_Number i) then Some t else None) = Some t
      \<longleftrightarrow> iss_RetryAfter i = Some t \<and> t > now \<and> \<not> is_active s (iss_Number i)" for i t
    by (auto split: option.splits)
  let ?own = "set (map snd (filter (\<lambda>(n, t). \<not> is_active s n) (filter (\<lambda>(n, t). t > now) (sch_issueRetry s))))"
  have own: "?own = {t. \<exists>n. (n, t) \<in> set (sch_issueRetry s) \<and> t > now \<and> \<not> is_active s n}" by force
  have durable: "set (case snapshot of None \<Rightarrow> [] | Some snap \<Rightarrow> List.map_filter (\<lambda>i. case iss_RetryAfter i of
             None \<Rightarrow> None | Some t \<Rightarrow> if t > now \<and> \<not> is_active s (iss_Number i) then Some t else None) (pointees (snap_Issues snap)))
      = {t. \<exists>snap i. snapshot = Some snap \<and> i \<in> set (pointees (snap_Issues snap)) \<and> iss_RetryAfter i = Some t \<and> t > now
          \<and> \<not> is_active s (iss_Number i)}"
    by (cases snapshot) (auto simp: set_map_filter issue)
  show ?thesis
    unfolding deadlines_def active wake_times_def set_append durable own [symmetric] by simp
qed

text \<open>The scheduler neither oversleeps nor wakes for nothing. During a cooldown it sleeps until its end. Otherwise it sleeps until the earliest
  future retry of an Issue that has no job, its own or one of the durable state, and it does not set the timer when there is none.\<close>

theorem scheduler_wakes_for_retries:
  assumes "0 \<le> now"
  shows "fst (nextRetryDelay now snapshot s) =
    (if sch_cooldownUntil s > now then Some (sch_cooldownUntil s - now)
     else if wake_times now snapshot s = {} then None else Some (Min (wake_times now snapshot s) - now))"
proof (cases "sch_cooldownUntil s > now")
  case False
  let ?s = "s\<lparr>sch_issueRetry := filter (\<lambda>(n, t). t > now) (sch_issueRetry s)\<rparr>"
  let ?ds = "deadlines now snapshot ?s"
  have later: "\<forall>t \<in> set ?ds. now < t" unfolding set_deadlines by (auto simp: wake_times_def)
  with assms have pos: "\<forall>t \<in> set ?ds. 0 < t" by fastforce
  have deadline: "retry_deadline now snapshot ?s = (if wake_times now snapshot s = {} then 0 else Min (wake_times now snapshot s))"
    unfolding retry_deadline_fold earlier_fold_zero [OF pos] set_deadlines [symmetric] by simp
  have some: "wake_times now snapshot s \<noteq> {} \<Longrightarrow> now < Min (wake_times now snapshot s)"
    using later unfolding set_deadlines [symmetric] by simp
  have "fst (nextRetryDelay now snapshot s)
      = (if IsZero (retry_deadline now snapshot ?s) then None else Some (until now (retry_deadline now snapshot ?s)))"
    using False by (simp add: nextRetryDelay_def Let_def)
  also have "\<dots> = (if wake_times now snapshot s = {} then None else Some (Min (wake_times now snapshot s) - now))"
    unfolding deadline using some assms by (cases "wake_times now snapshot s = {}") (simp_all add: until_def IsZero_def)
  finally show ?thesis using False by simp
qed (simp add: nextRetryDelay_def)

theorem scheduler_wakes_for_retries_witness:
  "fst (nextRetryDelay 5 None (idle_scheduler\<lparr>sch_issueRetry := [(7, 30), (8, 20), (9, 3)]\<rparr>)) = Some 15"
proof -
  have "wake_times 5 None (idle_scheduler\<lparr>sch_issueRetry := [(7, 30), (8, 20), (9, 3)]\<rparr>) = {30, 20}"
    by (auto simp: wake_times_def idle_scheduler_def is_active_def)
  then show ?thesis
    using scheduler_wakes_for_retries [of 5 None "idle_scheduler\<lparr>sch_issueRetry := [(7, 30), (8, 20), (9, 3)]\<rparr>"]
    by (simp add: idle_scheduler_def)
qed

section \<open>Failed cycles\<close>

lemma error_cooldown_future: "cooldownFromError e now = Some c \<Longrightarrow> now < cd_ResetAt c"
  by (auto simp: cooldownFromError_def Let_def unknownRateLimitCooldown_def split: option.splits if_splits)

lemma observe_result:
  assumes "Observe path c now f = (Inr c', f')" shows "cd_ResetAt c \<le> cd_ResetAt c'"
  using assms by (auto simp: Observe_def Let_def split: if_splits sum.splits)

text \<open>A failed cycle always leads to waiting, never to a busy loop, and only where it has to. A rate limit makes the scheduler wait at
  least until the reset that was reported, without counting as a failure. A transient failure is counted and makes it wait, from the fifth
  on for five minutes. A failure of one Issue changes nothing. Only a supervisor failure, or a cooldown that cannot be shared,
  blocks the supervisor.\<close>

theorem failed_cycle_waits:
  assumes "handleCycleError delay path now cause rates s = (outcome, rates', s')" and "\<forall>k. 0 < delay k"
  shows "(case cooldownFromError cause now of
      Some observed \<Rightarrow> (case outcome of
          CoolDown c \<Rightarrow> now < cd_ResetAt observed \<and> cd_ResetAt observed \<le> cd_ResetAt c \<and> sch_cooldownUntil s' = cd_ResetAt c
            \<and> sch_pollAt s' = cd_ResetAt c \<and> sch_consecutiveFailures s' = sch_consecutiveFailures s
        | BlockSupervisor kind failures \<Rightarrow> s' = s \<and> (\<exists>e. load_cooldown rates = Inl e)
        | _ \<Rightarrow> False)
    | None \<Rightarrow> rates' = rates \<and> (case KindOf cause of
        IssueFailure \<Rightarrow> outcome = IssueLocal \<and> s' = s
      | SupervisorFailure \<Rightarrow> outcome = BlockSupervisor SupervisorFailure (sch_consecutiveFailures s + 1) \<and> s' = s
      | Transient \<Rightarrow> (\<exists>t. outcome = RetryAt t (sch_consecutiveFailures s + 1) Transient \<and> now < t \<and> sch_cooldownUntil s' = t \<and> sch_pollAt s' = t
          \<and> sch_consecutiveFailures s' = sch_consecutiveFailures s + 1 \<and> sch_active s' = sch_active s
          \<and> (4 \<le> sch_consecutiveFailures s \<longrightarrow> t = now + backoffMaximum))))"
proof (cases "cooldownFromError cause now")
  case None
  then show ?thesis
    using assms by (cases "KindOf cause") (auto simp: handleCycleError_def Let_def cycle_delay_def backoffMaximum_def)
next
  case (Some observed)
  obtain res f where obs: "Observe path observed now rates = (res, f)" by fastforce
  show ?thesis
  proof (cases res)
    case (Inl e)
    with obs have "load_cooldown rates = Inl e" by (auto simp: Observe_def Let_def split: if_splits sum.splits)
    with Inl obs Some assms(1) show ?thesis by (auto simp: handleCycleError_def)
  next
    case (Inr c)
    with obs observe_result have "cd_ResetAt observed \<le> cd_ResetAt c" by blast
    with Inr obs Some assms(1) error_cooldown_future [OF Some] show ?thesis by (auto simp: handleCycleError_def)
  qed
qed

theorem failed_cycle_waits_witness:
  "\<exists>t rates' s'. handleCycleError (\<lambda>k. 10) ''p'' 5 (Classified Transient ''poll'' (Cause ''x'')) Missing idle_scheduler = (RetryAt t 1 Transient, rates', s')
     \<and> 5 < t \<and> sch_pollAt s' = t"
proof -
  obtain outcome rates' s' where h: "handleCycleError (\<lambda>k. 10) ''p'' 5 (Classified Transient ''poll'' (Cause ''x'')) Missing idle_scheduler = (outcome, rates', s')"
    by (metis prod_cases3)
  have "cooldownFromError (Classified Transient ''poll'' (Cause ''x'')) 5 = None" "KindOf (Classified Transient ''poll'' (Cause ''x'')) = Transient" "sch_consecutiveFailures idle_scheduler = 0"
    by (simp_all add: cooldownFromError_def KindOf_def idle_scheduler_def)
  with failed_cycle_waits [OF h] h show ?thesis by auto
qed

end
