(* ===== verification/Webhook.thy ===== *)
theory Webhook
  imports GitHubQueue Traces
begin

text \<open>
  The webhook broker (\<open>internal/adapter/webhook\<close>: \<open>broker.go\<close>, \<open>mailbox.go\<close>, \<open>sweep.go\<close>): which
  requests it accepts, how an accepted delivery travels from the inbox to the mailbox of its repository, and the sweep that
  looks for what no webhook has reported. The directories are association lists from file names, without their suffix, to contents;
  a file whose text cannot be decoded holds \<open>None\<close>. The HTTP server, its timers and the goroutines are not modelled: an
  operation is one step, and the disk operations of a step may stop anywhere. The JSON decoder, the HMAC, the environment and the
  secret files are arguments.
\<close>

section \<open>Configuration\<close>

record SecretSource =
  sec_Env :: string
  sec_File :: string

record WebhookConfig =
  wc_Mode :: string
  wc_ListenerAddress :: string
  wc_SecretSource :: SecretSource
  wc_PreviousSecret :: SecretSource
  wc_InstallationIDs :: "int list"
  wc_AllowRepositoryHook :: bool
  wc_MaxBodyBytes :: int
  wc_ReadTimeout :: int
  wc_ReadHeaderTimeout :: int
  wc_IdleTimeout :: int
  wc_MaxConcurrent :: int

definition Webhook_Enabled :: "WebhookConfig \<Rightarrow> bool" where
  "Webhook_Enabled w \<longleftrightarrow> wc_Mode w = ''webhook''"

text \<open>The repository a registration is for, with the parts of its configuration the broker reads.\<close>

record Registration =
  reg_RepoID :: string
  reg_Repo :: string
  reg_RepositoryID :: int
  reg_Webhook :: WebhookConfig

text \<open>\<open>commonListener\<close>: every enabled repository must agree with the first on the listener and the limits.\<close>

definition listener_limits :: "WebhookConfig \<Rightarrow> string \<times> int \<times> int \<times> int \<times> int \<times> int" where
  "listener_limits w = (wc_ListenerAddress w, wc_MaxBodyBytes w, wc_ReadTimeout w, wc_ReadHeaderTimeout w, wc_IdleTimeout w, wc_MaxConcurrent w)"

fun common_from :: "WebhookConfig option \<Rightarrow> Registration list \<Rightarrow> go_error + WebhookConfig option" where
  "common_from selected [] = Inr selected"
| "common_from selected (r # rs) =
     (let other = reg_Webhook r in
      if \<not> Webhook_Enabled other then common_from selected rs
      else case selected of
        None \<Rightarrow> common_from (Some other) rs
      | Some w \<Rightarrow>
        if wc_ListenerAddress w = '''' then common_from (Some other) rs
        else if listener_limits other \<noteq> listener_limits w
        then Inl (Errorf [Lit ''all webhook repositories in a managed root must use the same listener and HTTP limits''])
        else common_from selected rs)"

definition commonListener :: "Registration list \<Rightarrow> go_error + WebhookConfig" where
  "commonListener rs = (case common_from None rs of
     Inl e \<Rightarrow> Inl e
   | Inr None \<Rightarrow> Inl (Errorf [Lit ''no webhook repositories are registered''])
   | Inr (Some w) \<Rightarrow> if wc_ListenerAddress w = '''' then Inl (Errorf [Lit ''no webhook repositories are registered'']) else Inr w)"

text \<open>The maps \<open>byName\<close> and \<open>byID\<close> of \<open>initialize\<close>; the second serves only to refuse duplicates.\<close>

fun index_registrations :: "(string \<times> Registration) list \<Rightarrow> int list \<Rightarrow> Registration list \<Rightarrow> go_error + (string \<times> Registration) list" where
  "index_registrations names ids [] = Inr names"
| "index_registrations names ids (r # rs) =
     (if \<not> Webhook_Enabled (reg_Webhook r) then index_registrations names ids rs
      else let name = ToLower (reg_Repo r) in
        if map_of names name \<noteq> None then Inl (Errorf [Lit ''duplicate webhook repository registration '', Str name])
        else if reg_RepositoryID r \<in> set ids then Inl (Errorf [Lit ''duplicate webhook repository ID '', Str (Itoa (reg_RepositoryID r))])
        else index_registrations (AList.update name r names) (reg_RepositoryID r # ids) rs)"

section \<open>Deliveries\<close>

record Delivery =
  whd_Version :: int
  whd_DeliveryID :: string
  whd_Event :: string
  whd_Action :: string
  whd_RepoID :: string
  whd_RepositoryID :: int
  whd_Repository :: string
  whd_InstallationID :: int
  whd_IssueNumber :: int
  whd_PullRequestNumber :: int
  whd_HeadSHA :: string
  whd_AcceptedAt :: time
  whd_RoutedAt :: time

definition InboxVersion :: int where "InboxVersion = 1"
definition receiptRetention :: int where "receiptRetention = 30 * 24 * 3600 * 10 ^ 9"
definition receiptLimit :: nat where "receiptLimit = 200000"

record payloadEnvelope =
  pay_Action :: string
  pay_RepositoryID :: int
  pay_FullName :: string
  pay_InstallationID :: int
  pay_IssueNumber :: int
  pay_PullRequestNumber :: int
  pay_PullRequestHead :: string
  pay_CheckRunHead :: string
  pay_CheckRunPullRequests :: "int list"
  pay_WorkflowRunHead :: string
  pay_WorkflowRunPullRequests :: "int list"
  pay_SHA :: string
  pay_State :: string

definition allowedActions :: "string \<Rightarrow> string list option" where
  "allowedActions event =
     (if event = ''issues'' then Some [''labeled'', ''unlabeled'', ''opened'', ''reopened'', ''closed'', ''edited'']
      else if event = ''issue_comment'' then Some [''created'', ''edited'', ''deleted'']
      else if event = ''pull_request'' then Some [''opened'', ''ready_for_review'', ''synchronize'', ''converted_to_draft'', ''closed'', ''reopened'']
      else if event = ''check_run'' then Some [''created'', ''rerequested'', ''completed'']
      else if event = ''status'' then Some [''pending'', ''success'', ''failure'', ''error'']
      else if event = ''workflow_run'' then Some [''requested'', ''in_progress'', ''completed'']
      else if event = ''ping'' then Some [''''] else None)"

definition delivery_id_char :: "char \<Rightarrow> bool" where
  "delivery_id_char c \<longleftrightarrow> (let n = of_char c :: nat in 65 \<le> n \<and> n \<le> 90 \<or> 97 \<le> n \<and> n \<le> 122 \<or> 48 \<le> n \<and> n \<le> 57) \<or> c \<in> set ''._-''"

definition deliveryIDPattern :: "string \<Rightarrow> bool" where
  "deliveryIDPattern s \<longleftrightarrow> 1 \<le> length s \<and> length s \<le> 200 \<and> (\<forall>c \<in> set s. delivery_id_char c)"

definition hex_val :: "char \<Rightarrow> nat option" where
  "hex_val c = (let n = of_char c :: nat in
     if 48 \<le> n \<and> n \<le> 57 then Some (n - 48)
     else if 97 \<le> n \<and> n \<le> 102 then Some (n - 87)
     else if 65 \<le> n \<and> n \<le> 70 then Some (n - 55) else None)"

definition commitSHAPattern :: "string \<Rightarrow> bool" where
  "commitSHAPattern s \<longleftrightarrow> 40 \<le> length s \<and> length s \<le> 64 \<and> (\<forall>c \<in> set s. hex_val c \<noteq> None)"

definition actionFor :: "string \<Rightarrow> payloadEnvelope \<Rightarrow> string" where
  "actionFor event payload = (if event = ''status'' then pay_State payload else pay_Action payload)"

definition payloadTargetsValid :: "string \<Rightarrow> payloadEnvelope \<Rightarrow> bool" where
  "payloadTargetsValid event payload =
     (if event = ''issues'' \<or> event = ''issue_comment'' then pay_IssueNumber payload > 0
      else if event = ''pull_request'' then pay_PullRequestNumber payload > 0 \<and> commitSHAPattern (pay_PullRequestHead payload)
      else if event = ''check_run'' then commitSHAPattern (pay_CheckRunHead payload)
      else if event = ''status'' then commitSHAPattern (pay_SHA payload)
      else if event = ''workflow_run'' then commitSHAPattern (pay_WorkflowRunHead payload)
      else event = ''ping'')"

section \<open>Signatures\<close>

text \<open>\<open>hex.DecodeString\<close>.\<close>

fun hex_decode :: "string \<Rightarrow> string option" where
  "hex_decode [] = Some []"
| "hex_decode [c] = None"
| "hex_decode (a # b # rest) = (case (hex_val a, hex_val b, hex_decode rest) of
     (Some x, Some y, Some bytes) \<Rightarrow> Some (char_of (16 * x + y) # bytes) | _ \<Rightarrow> None)"

text \<open>Where secrets come from: the environment, and the files, a regular one with its permission bits.\<close>

record Secrets =
  env_lookup :: "string \<Rightarrow> string option"
  file_lookup :: "string \<Rightarrow> (bool \<times> nat \<times> string) option"

definition readSecret :: "Secrets \<Rightarrow> SecretSource \<Rightarrow> string option" where
  "readSecret sx source =
     (if sec_Env source \<noteq> '''' then (case env_lookup sx (sec_Env source) of None \<Rightarrow> None | Some v \<Rightarrow> if v = '''' then None else Some v)
      else if sec_File source = '''' then None
      else case file_lookup sx (sec_File source) of
        None \<Rightarrow> None
      | Some (regular, perm, value') \<Rightarrow> if \<not> regular \<or> perm mod 64 \<noteq> 0 then None else Some (TrimSpace value'))"

text \<open>\<open>mac\<close> is HMAC-SHA256 of a secret and a message.\<close>

definition verifyAnySignature :: "(string \<Rightarrow> string \<Rightarrow> string) \<Rightarrow> Secrets \<Rightarrow> string \<Rightarrow> string \<Rightarrow> SecretSource list \<Rightarrow> bool" where
  "verifyAnySignature mac sx header body sources =
     (if \<not> HasPrefix header ''sha256='' then False
      else case hex_decode (drop 7 header) of
        None \<Rightarrow> False
      | Some provided \<Rightarrow> length provided = 32
          \<and> (\<exists>source \<in> set sources. case readSecret sx source of
               None \<Rightarrow> False | Some secret \<Rightarrow> secret \<noteq> '''' \<and> provided = mac secret body))"

section \<open>Admission of a request\<close>

record HookRequest =
  hr_Method :: string
  hr_Path :: string
  hr_Delivery :: string
  hr_Event :: string
  hr_Signature :: string
  hr_Body :: "string option"

text \<open>The target of a delivery, from the first part of the payload that names one.\<close>

definition delivery_pr :: "payloadEnvelope \<Rightarrow> int" where
  "delivery_pr p =
     (let n = pay_PullRequestNumber p;
          n = (if n = 0 \<and> pay_CheckRunPullRequests p \<noteq> [] then hd (pay_CheckRunPullRequests p) else n)
      in if n = 0 \<and> pay_WorkflowRunPullRequests p \<noteq> [] then hd (pay_WorkflowRunPullRequests p) else n)"

definition delivery_head :: "payloadEnvelope \<Rightarrow> string" where
  "delivery_head p =
     (let h = pay_PullRequestHead p;
          h = (if h = '''' then pay_CheckRunHead p else h);
          h = (if h = '''' then pay_WorkflowRunHead p else h)
      in if h = '''' then pay_SHA p else h)"

definition make_delivery :: "Registration \<Rightarrow> string \<Rightarrow> string \<Rightarrow> payloadEnvelope \<Rightarrow> time \<Rightarrow> Delivery" where
  "make_delivery reg ident event p now =
     \<lparr>whd_Version = InboxVersion, whd_DeliveryID = ident, whd_Event = event, whd_Action = actionFor event p,
      whd_RepoID = reg_RepoID reg, whd_RepositoryID = pay_RepositoryID p, whd_Repository = reg_Repo reg,
      whd_InstallationID = pay_InstallationID p, whd_IssueNumber = pay_IssueNumber p, whd_PullRequestNumber = delivery_pr p,
      whd_HeadSHA = delivery_head p, whd_AcceptedAt = now, whd_RoutedAt = 0\<rparr>"

definition installation_allowed :: "WebhookConfig \<Rightarrow> string \<Rightarrow> payloadEnvelope \<Rightarrow> bool" where
  "installation_allowed w event p \<longleftrightarrow> event = ''ping''
     \<or> (if pay_InstallationID p = 0 then wc_AllowRepositoryHook w else pay_InstallationID p \<in> set (wc_InstallationIDs w))"

text \<open>\<open>ServeHTTP\<close> up to the inbox: the status code of the refusal, or the delivery. \<open>busy\<close> says that the limit of concurrent requests is
  reached; the body is read up to one byte past the limit.\<close>

definition admit_request ::
  "(string \<Rightarrow> string \<Rightarrow> string) \<Rightarrow> Secrets \<Rightarrow> (string \<Rightarrow> payloadEnvelope option) \<Rightarrow> Registration list \<Rightarrow> (string \<times> Registration) list \<Rightarrow>
     bool \<Rightarrow> time \<Rightarrow> HookRequest \<Rightarrow> int + Delivery" where
  "admit_request mac sx decode regs names busy now r =
     (if hr_Method r \<noteq> ''POST'' \<or> hr_Path r \<noteq> ''/github/webhook'' then Inl 404
      else if busy then Inl 503
      else if \<not> deliveryIDPattern (hr_Delivery r) \<or> allowedActions (hr_Event r) = None then Inl 400
      else case commonListener regs of Inl e \<Rightarrow> Inl 503
      | Inr limits \<Rightarrow> (case map_option (take (nat (wc_MaxBodyBytes limits + 1))) (hr_Body r) of
          None \<Rightarrow> Inl 400
        | Some body \<Rightarrow>
          if int (length body) > wc_MaxBodyBytes limits then Inl 413
          else case decode body of None \<Rightarrow> Inl 400
          | Some p \<Rightarrow> (case map_of names (ToLower (pay_FullName p)) of
              None \<Rightarrow> Inl 403
            | Some reg \<Rightarrow>
              let w = reg_Webhook reg; event = hr_Event r in
              if reg_RepositoryID reg \<noteq> pay_RepositoryID p then Inl 403
              else if actionFor event p \<notin> set (the (allowedActions event)) then Inl 422
              else if \<not> installation_allowed w event p then Inl 403
              else if \<not> verifyAnySignature mac sx (hr_Signature r) body [wc_SecretSource w, wc_PreviousSecret w] then Inl 401
              else if \<not> payloadTargetsValid event p then Inl 422
              else Inr (make_delivery reg (hr_Delivery r) event p now))))"

end
