(* ===== verification/WebhookBroker.thy ===== *)
theory WebhookBroker
  imports Webhook
begin

text \<open>
  The durable part of the webhook broker: the inbox, the receipts, the quarantine and the mailboxes of the repositories, and the operations
  on them, each a list of disk operations that may stop anywhere. The properties: an accepted delivery is authentic, it is not lost before the
  scheduler acknowledges it, it is routed once, an interrupted routing is completed by the next one, and a sweep reports every difference.
\<close>

section \<open>Directories\<close>

record BrokerStatus =
  bs_LastAcceptedDelivery :: string
  bs_LastAcceptedAt :: time
  bs_QueueDepth :: nat
  bs_Quarantined :: nat
  bs_Accepted :: uint64
  bs_Duplicates :: uint64
  bs_Rejected :: uint64
  bs_LastSuccessfulSafetySweep :: time
  bs_NotModified304 :: uint64
  bs_UpdatedAt :: time

text \<open>A receipt has the time it was written. The mailbox is keyed by repository and delivery.\<close>

record Broker =
  bk_inbox :: "(string \<times> Delivery option) list"
  bk_receipts :: "(string \<times> Delivery \<times> time) list"
  bk_quarantine :: "Delivery option list"
  bk_mailbox :: "((string \<times> string) \<times> Delivery) list"
  bk_status :: BrokerStatus

datatype broker_op =
    PutInbox string Delivery
  | DropInbox string
  | PutMailbox string string Delivery
  | PutReceipt string Delivery time
  | DropReceipt string
  | MoveToQuarantine string

fun run_broker_op :: "broker_op \<Rightarrow> Broker \<Rightarrow> Broker" where
  "run_broker_op (PutInbox i d) b = b\<lparr>bk_inbox := AList.update i (Some d) (bk_inbox b)\<rparr>"
| "run_broker_op (DropInbox i) b = b\<lparr>bk_inbox := AList.delete i (bk_inbox b)\<rparr>"
| "run_broker_op (PutMailbox repo i d) b = b\<lparr>bk_mailbox := AList.update (repo, i) d (bk_mailbox b)\<rparr>"
| "run_broker_op (PutReceipt i d now) b = b\<lparr>bk_receipts := AList.update i (d, now) (bk_receipts b)\<rparr>"
| "run_broker_op (DropReceipt i) b = b\<lparr>bk_receipts := AList.delete i (bk_receipts b)\<rparr>"
| "run_broker_op (MoveToQuarantine i) b = (case map_of (bk_inbox b) i of
     None \<Rightarrow> b | Some content \<Rightarrow> b\<lparr>bk_inbox := AList.delete i (bk_inbox b), bk_quarantine := bk_quarantine b @ [content]\<rparr>)"

definition run_broker_ops :: "broker_op list \<Rightarrow> Broker \<Rightarrow> Broker" where
  "run_broker_ops ops b = fold run_broker_op ops b"

section \<open>Status\<close>

definition refreshDepth :: "time \<Rightarrow> Broker \<Rightarrow> Broker" where
  "refreshDepth now b = b\<lparr>bk_status := (bk_status b)\<lparr>bs_QueueDepth := length (bk_inbox b),
     bs_Quarantined := length (bk_quarantine b), bs_UpdatedAt := now\<rparr>\<rparr>"

definition reject :: "time \<Rightarrow> Broker \<Rightarrow> Broker" where
  "reject now b = b\<lparr>bk_status := (bk_status b)\<lparr>bs_Rejected := bs_Rejected (bk_status b) + 1, bs_UpdatedAt := now\<rparr>\<rparr>"

definition accept :: "time \<Rightarrow> Delivery \<Rightarrow> Broker \<Rightarrow> Broker" where
  "accept now d b = refreshDepth now (b\<lparr>bk_status := (bk_status b)\<lparr>bs_Accepted := bs_Accepted (bk_status b) + 1,
     bs_LastAcceptedDelivery := whd_DeliveryID d, bs_LastAcceptedAt := whd_AcceptedAt d\<rparr>\<rparr>)"

definition duplicate :: "time \<Rightarrow> Broker \<Rightarrow> Broker" where
  "duplicate now b = b\<lparr>bk_status := (bk_status b)\<lparr>bs_Duplicates := bs_Duplicates (bk_status b) + 1, bs_UpdatedAt := now\<rparr>\<rparr>"

section \<open>Receiving\<close>

definition appendInbox :: "Delivery \<Rightarrow> Broker \<Rightarrow> bool \<times> Broker" where
  "appendInbox d b =
     (if map_of (bk_receipts b) (whd_DeliveryID d) \<noteq> None \<or> map_of (bk_inbox b) (whd_DeliveryID d) \<noteq> None then (False, b)
      else (True, run_broker_op (PutInbox (whd_DeliveryID d) d) b))"

text \<open>\<open>ServeHTTP\<close>: the status code of the response.\<close>

definition ServeHTTP ::
  "(string \<Rightarrow> string \<Rightarrow> string) \<Rightarrow> Secrets \<Rightarrow> (string \<Rightarrow> payloadEnvelope option) \<Rightarrow> Registration list \<Rightarrow> (string \<times> Registration) list \<Rightarrow>
     bool \<Rightarrow> time \<Rightarrow> HookRequest \<Rightarrow> Broker \<Rightarrow> int \<times> Broker" where
  "ServeHTTP mac sx decode regs names busy now r b = (case admit_request mac sx decode regs names busy now r of
     Inl code \<Rightarrow> (code, if code = 404 then b else reject now b)
   | Inr d \<Rightarrow> (case appendInbox d b of
       (True, b') \<Rightarrow> (202, accept now d b')
     | (False, b') \<Rightarrow> (202, duplicate now b')))"

section \<open>Routing\<close>

definition addressed :: "(string \<times> Registration) list \<Rightarrow> Delivery \<Rightarrow> bool" where
  "addressed names d = (case map_of names (ToLower (whd_Repository d)) of
     None \<Rightarrow> False | Some reg \<Rightarrow> reg_RepoID reg = whd_RepoID d \<and> reg_RepositoryID reg = whd_RepositoryID d)"

text \<open>\<open>route\<close>: the delivery goes to the mailbox, gets a receipt and leaves the inbox, in this order.\<close>

definition route_ops :: "(string \<times> Registration) list \<Rightarrow> time \<Rightarrow> string \<Rightarrow> Broker \<Rightarrow> broker_op list" where
  "route_ops names now i b =
     (if map_of (bk_receipts b) i \<noteq> None then [DropInbox i]
      else case map_of (bk_inbox b) i of
        None \<Rightarrow> []
      | Some None \<Rightarrow> [MoveToQuarantine i]
      | Some (Some d) \<Rightarrow>
        if \<not> addressed names d then [MoveToQuarantine i]
        else [PutMailbox (whd_RepoID d) (whd_DeliveryID d) d, PutReceipt i (d\<lparr>whd_RoutedAt := now\<rparr>) now, DropInbox i])"

definition route :: "(string \<times> Registration) list \<Rightarrow> time \<Rightarrow> string \<Rightarrow> Broker \<Rightarrow> Broker" where
  "route names now i b = refreshDepth now (run_broker_ops (route_ops names now i b) b)"

text \<open>\<open>replayOnce\<close> offers every delivery of the inbox to the workers.\<close>

definition replay_ids :: "Broker \<Rightarrow> string list" where
  "replay_ids b = map fst (bk_inbox b)"

section \<open>Housekeeping\<close>

text \<open>\<open>migrateRoutedInbox\<close>: a routed delivery that an older version left in the inbox becomes a receipt.\<close>

definition migrate_ops :: "time \<Rightarrow> Broker \<Rightarrow> broker_op list" where
  "migrate_ops now b = concat (map (\<lambda>(i, content). case content of
       None \<Rightarrow> [] | Some d \<Rightarrow> if IsZero (whd_RoutedAt d) then [] else [PutReceipt i d now, DropInbox i]) (bk_inbox b))"

definition compact_ops :: "time \<Rightarrow> Broker \<Rightarrow> broker_op list" where
  "compact_ops now b =
     (let cutoff = now - receiptRetention;
          expired = filter (\<lambda>(i, d, written). written < cutoff) (bk_receipts b);
          kept = sort_key (\<lambda>(i, d, written). written) (filter (\<lambda>(i, d, written). \<not> written < cutoff) (bk_receipts b));
          excess = (if length kept > receiptLimit then take (length kept - receiptLimit) kept else [])
      in map (\<lambda>(i, d, written). DropReceipt i) (expired @ excess))"

section \<open>Mailboxes\<close>

definition ReadMailbox :: "string \<Rightarrow> Broker \<Rightarrow> Delivery list" where
  "ReadMailbox repo b = sort_key whd_AcceptedAt (map snd (filter (\<lambda>((r, i), d). r = repo) (bk_mailbox b)))"

definition AckMailbox :: "string \<Rightarrow> Delivery list \<Rightarrow> Broker \<Rightarrow> Broker" where
  "AckMailbox repo ds b = b\<lparr>bk_mailbox := fold (\<lambda>d. AList.delete (repo, whd_DeliveryID d)) ds (bk_mailbox b)\<rparr>"

definition same_delivery :: "Delivery \<Rightarrow> Delivery \<Rightarrow> bool" where
  "same_delivery x d \<longleftrightarrow> whd_DeliveryID x = whd_DeliveryID d \<and> whd_RepoID x = whd_RepoID d \<and> whd_IssueNumber x = whd_IssueNumber d
     \<and> whd_PullRequestNumber x = whd_PullRequestNumber d \<and> whd_Event x = whd_Event d \<and> whd_Action x = whd_Action d"

definition EnqueueMailbox :: "string \<Rightarrow> Delivery \<Rightarrow> Broker \<Rightarrow> go_error + Broker" where
  "EnqueueMailbox repo d b = (case map_of (bk_mailbox b) (repo, whd_DeliveryID d) of
     Some x \<Rightarrow> if same_delivery x d then Inr b else Inl (Errorf [Lit ''mailbox delivery ID collision''])
   | None \<Rightarrow> Inr (run_broker_op (PutMailbox repo (whd_DeliveryID d) d) b))"

section \<open>Sweeps\<close>

record SweepPageState =
  sp_ETag :: string
  sp_LastModified :: string
  sp_ItemCount :: int
  sp_Issues :: "GHIssue list"

record SweepState =
  ss_ETag :: string
  ss_LastModified :: string
  ss_LastStatus :: int
  ss_LastSuccessful :: time
  ss_NotModified304 :: uint64
  ss_REST200 :: uint64
  ss_RateRemaining :: string
  ss_RateReset :: string
  ss_Pages :: "(int \<times> SweepPageState) list"

record ConditionalQueueResult =
  cq_Issues :: "GHIssue list"
  cq_StatusCode :: int
  cq_ETag :: string
  cq_LastModified :: string
  cq_RateRemaining :: string
  cq_RateReset :: string
  cq_NotModified :: bool
  cq_ItemCount :: int

definition empty_page :: SweepPageState where
  "empty_page = \<lparr>sp_ETag = '''', sp_LastModified = '''', sp_ItemCount = 0, sp_Issues = []\<rparr>"

text \<open>\<open>LoadSweepState\<close> of a decoded file: \<open>version\<close> is its version.\<close>

definition LoadSweepState :: "(int \<times> SweepState) option \<Rightarrow> go_error + SweepState" where
  "LoadSweepState f = (case f of
     None \<Rightarrow> Inr \<lparr>ss_ETag = '''', ss_LastModified = '''', ss_LastStatus = 0, ss_LastSuccessful = 0, ss_NotModified304 = 0, ss_REST200 = 0,
       ss_RateRemaining = '''', ss_RateReset = '''', ss_Pages = []\<rparr>
   | Some (version, st) \<Rightarrow>
     if version \<noteq> InboxVersion then Inl (Errorf [Lit ''unsupported webhook sweep state version''])
     else Inr (if ss_Pages st = [] \<and> (ss_ETag st \<noteq> '''' \<or> ss_LastModified st \<noteq> '''') then st\<lparr>ss_Pages := [(1, empty_page)]\<rparr> else st))"

definition composeSweepIssues :: "(int \<times> SweepPageState) list \<Rightarrow> int list" where
  "composeSweepIssues pages = concat (map (\<lambda>(page, p). map gh_Number (sp_Issues p)) pages)"

definition sweepDelivery :: "Registration \<Rightarrow> int \<Rightarrow> string \<Rightarrow> time \<Rightarrow> Delivery" where
  "sweepDelivery reg number action now =
     \<lparr>whd_Version = InboxVersion, whd_DeliveryID = ''sweep-'' @ Itoa number @ ''-'' @ action, whd_Event = ''issues'', whd_Action = action,
      whd_RepoID = reg_RepoID reg, whd_RepositoryID = reg_RepositoryID reg, whd_Repository = reg_Repo reg,
      whd_InstallationID = 0, whd_IssueNumber = number, whd_PullRequestNumber = 0, whd_HeadSHA = '''', whd_AcceptedAt = now, whd_RoutedAt = 0\<rparr>"

text \<open>One page: the state and the page as it is cached after the answer, and the Issues that the answer lists.\<close>

definition sweep_page :: "int \<Rightarrow> ConditionalQueueResult \<Rightarrow> SweepState \<Rightarrow> SweepState \<times> SweepPageState \<times> int list" where
  "sweep_page page r st =
     (let cached = (case map_of (ss_Pages st) page of None \<Rightarrow> empty_page | Some p \<Rightarrow> p);
          st = st\<lparr>ss_LastStatus := cq_StatusCode r, ss_RateRemaining := cq_RateRemaining r, ss_RateReset := cq_RateReset r\<rparr>;
          (st, cached, listed) =
            (if cq_NotModified r then
               let cached = cached\<lparr>sp_ETag := (if cq_ETag r \<noteq> '''' then cq_ETag r else sp_ETag cached),
                     sp_LastModified := (if cq_LastModified r \<noteq> '''' then cq_LastModified r else sp_LastModified cached)\<rparr>
               in (st\<lparr>ss_NotModified304 := ss_NotModified304 st + 1, ss_Pages := AList.update page cached (ss_Pages st)\<rparr>, cached, [])
             else if cq_StatusCode r = 200 then
               let cached = \<lparr>sp_ETag = cq_ETag r, sp_LastModified = cq_LastModified r, sp_ItemCount = cq_ItemCount r, sp_Issues = cq_Issues r\<rparr>
               in (st\<lparr>ss_REST200 := ss_REST200 st + 1, ss_Pages := AList.update page cached (ss_Pages st)\<rparr>, cached, map gh_Number (cq_Issues r))
             else (st, cached, []));
          st = (if page = 1 then st\<lparr>ss_ETag := sp_ETag cached, ss_LastModified := sp_LastModified cached\<rparr> else st)
      in (st, cached, listed))"

text \<open>The loop over the pages, with the Issues listed so far; a page that is not full is the last one, and what was cached of later ones is dropped.\<close>

fun sweep_pages ::
  "(int \<Rightarrow> string \<Rightarrow> string \<Rightarrow> go_error + ConditionalQueueResult) \<Rightarrow> int list \<Rightarrow> SweepState \<Rightarrow> int list \<Rightarrow> go_error + SweepState \<times> int list" where
  "sweep_pages client [] st listed = Inr (st, listed)"
| "sweep_pages client (page # pages) st listed =
     (let cached = (case map_of (ss_Pages st) page of None \<Rightarrow> empty_page | Some p \<Rightarrow> p) in
      case client page (sp_ETag cached) (sp_LastModified cached) of
        Inl e \<Rightarrow> Inl e
      | Inr r \<Rightarrow>
        let (st, cached, new) = sweep_page page r st in
        if sp_ItemCount cached < 100
        then Inr (st\<lparr>ss_Pages := filter (\<lambda>(p, c). p \<le> page \<or> p > 10) (ss_Pages st)\<rparr>, listed @ new)
        else sweep_pages client pages st (listed @ new))"

definition sweep_targets :: "Registration \<Rightarrow> time \<Rightarrow> int list \<Rightarrow> int list \<Rightarrow> int list \<Rightarrow> Delivery list" where
  "sweep_targets reg now listed previous current =
     (let gone = filter (\<lambda>n. n \<notin> set current) previous in
      map (\<lambda>n. sweepDelivery reg n (if n \<in> set gone then ''collection_exited'' else ''reconciled'') now)
        (sorted_list_of_set (set listed \<union> set gone)))"

fun enqueue_all :: "string \<Rightarrow> Delivery list \<Rightarrow> Broker \<Rightarrow> go_error option \<times> Broker" where
  "enqueue_all repo [] b = (None, b)"
| "enqueue_all repo (d # ds) b = (case EnqueueMailbox repo d b of Inl e \<Rightarrow> (Some e, b) | Inr b' \<Rightarrow> enqueue_all repo ds b')"

definition sweep_delay :: "(int \<Rightarrow> time) \<Rightarrow> time \<Rightarrow> SweepState \<Rightarrow> int" where
  "sweep_delay unix now st =
     (if ss_RateRemaining st = ''0'' then (case Atoi (ss_RateReset st) of
        (reset, True) \<Rightarrow> let resetAt = unix reset + 10 ^ 9 in if resetAt > now then resetAt - now else 0
      | _ \<Rightarrow> 0) else 0)"

text \<open>\<open>sweepOnce\<close>: the delay until the next sweep, the state it saves, if it does, and the broker. The mailbox is written before the state.\<close>

definition sweepOnce ::
  "Registration \<Rightarrow> (int \<Rightarrow> time) \<Rightarrow> (int \<Rightarrow> string \<Rightarrow> string \<Rightarrow> go_error + ConditionalQueueResult) \<Rightarrow> time \<Rightarrow> (int \<times> SweepState) option \<Rightarrow> Broker \<Rightarrow>
     (go_error + int) \<times> (int \<times> SweepState) option \<times> Broker" where
  "sweepOnce reg unix client now f b = (case LoadSweepState f of
     Inl e \<Rightarrow> (Inl e, f, b)
   | Inr st \<Rightarrow> (case sweep_pages client [1..10] st [] of
       Inl e \<Rightarrow> (Inl e, f, b)
     | Inr (st', listed) \<Rightarrow>
       let targets = sweep_targets reg now listed (composeSweepIssues (ss_Pages st)) (composeSweepIssues (ss_Pages st'));
           st' = st'\<lparr>ss_LastSuccessful := now\<rparr>;
           (e, b) = enqueue_all (reg_RepoID reg) targets b in
       (case e of
          Some e \<Rightarrow> (Inl e, f, b)
        | None \<Rightarrow> (Inr (sweep_delay unix now st'), Some (InboxVersion, st'),
            b\<lparr>bk_status := (bk_status b)\<lparr>bs_LastSuccessfulSafetySweep := now,
               bs_NotModified304 := bs_NotModified304 (bk_status b) + (ss_NotModified304 st' - ss_NotModified304 st), bs_UpdatedAt := now\<rparr>\<rparr>))))"

end
