(* ===== verification/Routing.thy ===== *)
theory Routing
  imports SchedulerFacts WebhookBroker
begin

text \<open>
  The intake of webhook deliveries and the scheduling cycle (\<open>processMailbox\<close>, \<open>mailboxIssueNumber\<close>, \<open>preflight\<close> and
  \<open>schedule\<close> of \<open>internal/application/supervisor/scheduler.go\<close>). What the cycle reads, and the outcomes of the durable
  updates and GitHub calls it makes, are arguments; the updates it asks for are part of its result, in their order. The clock is read
  at the beginning of a cycle and once more for the next poll.
\<close>

section \<open>The Issue a delivery is about\<close>

text \<open>The source ranges over a map where several Issues may match; the model takes the first of its list.\<close>

definition pull_url_suffix :: "Delivery \<Rightarrow> string" where
  "pull_url_suffix d = ''/pull/'' @ Itoa (whd_PullRequestNumber d)"

definition mailboxIssueNumber :: "Snapshot \<Rightarrow> Delivery \<Rightarrow> int" where
  "mailboxIssueNumber snapshot d =
     (if whd_IssueNumber d > 0 then whd_IssueNumber d
      else case (if whd_PullRequestNumber d \<noteq> 0
          then find (\<lambda>i. iss_PullRequestNumber i = whd_PullRequestNumber d \<or> suffix (pull_url_suffix d) (iss_PullRequestURL i))
            (pointees (snap_Issues snapshot)) else None) of
        Some i \<Rightarrow> iss_Number i
      | None \<Rightarrow> (case (if whd_HeadSHA d \<noteq> '''' then find (\<lambda>i. iss_HeadSHA i = whd_HeadSHA d) (pointees (snap_Issues snapshot)) else None) of
          Some i \<Rightarrow> iss_Number i | None \<Rightarrow> 0))"

section \<open>Handling one delivery\<close>

text \<open>The outcomes of what is called for a delivery: \<open>reconcileInputIssue\<close>, \<open>reconcileCollectionExit\<close>,
  \<open>reconcileTerminalWebhook\<close>, the update of the wake, \<open>reconcileIssueProjection\<close> and \<open>getIssue\<close>.\<close>

record MailboxCalls =
  mc_input :: "int \<Rightarrow> failure option"
  mc_exit :: "Issue \<Rightarrow> Delivery \<Rightarrow> failure option"
  mc_terminal :: "Issue \<Rightarrow> Delivery \<Rightarrow> failure + bool"
  mc_wake :: "int \<Rightarrow> Delivery \<Rightarrow> failure option"
  mc_projection :: "int \<Rightarrow> failure option"
  mc_issue :: "int \<Rightarrow> failure + GHIssue"

text \<open>A delivery is acknowledged, kept, kept with the Issue it made a candidate, or ends the batch.\<close>

datatype handling = Acknowledge | Keep | Admit GHIssue | Stop failure

definition local_failure :: "failure option \<Rightarrow> handling" where
  "local_failure e = (case e of None \<Rightarrow> Acknowledge | Some e \<Rightarrow> if KindOf e = IssueFailure then Acknowledge else Stop e)"

definition handle_delivery :: "GitHubConfig \<Rightarrow> Snapshot \<Rightarrow> bool \<Rightarrow> MailboxCalls \<Rightarrow> int \<Rightarrow> Delivery \<Rightarrow> handling" where
  "handle_delivery cfg snapshot freeSlots calls number d =
     (case (if whd_Event d = ''issue_comment'' then mc_input calls number else None) of
        Some e \<Rightarrow> Stop e
      | None \<Rightarrow> (case issue_at snapshot number of
          Some issue \<Rightarrow>
            if whd_Event d = ''issues'' then local_failure (mc_exit calls issue d)
            else if TerminalForWebhook (iss_Status issue) then
              (case mc_terminal calls issue d of
                 Inl e \<Rightarrow> local_failure (Some e) | Inr handled \<Rightarrow> if handled then Acknowledge else Keep)
            else if \<not> WebhookRoutable (iss_Status issue) \<and> PendingEffect snapshot (iss_Number issue) = None then Acknowledge
            else local_failure (mc_wake calls number d)
        | None \<Rightarrow>
            if ptr_at (snap_QuarantinedIssues snapshot) (Itoa number) \<noteq> None then
              (case mc_projection calls number of Some e \<Rightarrow> Stop e | None \<Rightarrow> Acknowledge)
            else if whd_Event d \<noteq> ''issues'' \<and> whd_Event d \<noteq> ''issue_comment'' then Acknowledge
            else if \<not> freeSlots \<or> snap_ActiveExecution snapshot \<noteq> None then Keep
            else (case mc_issue calls number of
                Inl e \<Rightarrow> Stop (WrapFailure Transient (''read webhook Issue #'' @ Itoa number) e)
              | Inr candidate \<Rightarrow> if EligibleIssue candidate cfg then Admit candidate else Acknowledge)))"

text \<open>The mutation of the wake.\<close>

definition wake_issue :: "Delivery \<Rightarrow> time \<Rightarrow> Issue \<Rightarrow> Issue" where
  "wake_issue d now i =
     (let i = i\<lparr>iss_RetryAfter := Some now\<rparr>;
          i = (if whd_HeadSHA d \<noteq> '''' then i\<lparr>iss_HeadSHA := whd_HeadSHA d\<rparr> else i)
      in if whd_PullRequestNumber d \<noteq> 0 then i\<lparr>iss_PullRequestNumber := whd_PullRequestNumber d\<rparr> else i)"

definition webhook_wake :: "int \<Rightarrow> Delivery \<Rightarrow> time \<Rightarrow> Snapshot \<Rightarrow> Snapshot" where
  "webhook_wake number d now s = modify_issue number (wake_issue d now) s"

section \<open>The batch\<close>

text \<open>The position of the newest delivery of each Issue; a number that has none gets the zero of the map.\<close>

definition newest_index :: "int list \<Rightarrow> int \<Rightarrow> nat" where
  "newest_index numbers n = (if n > 0 then (case find (\<lambda>j. numbers ! j = n) (rev [0..<length numbers]) of None \<Rightarrow> 0 | Some j \<Rightarrow> j) else 0)"

definition coalesced :: "int list \<Rightarrow> Delivery list \<Rightarrow> Delivery list" where
  "coalesced numbers ds = map ((!) ds) (filter (\<lambda>i. numbers ! i > 0 \<and> newest_index numbers (numbers ! i) \<noteq> i) [0..<length ds])"

fun handle_batch ::
  "GitHubConfig \<Rightarrow> Snapshot \<Rightarrow> bool \<Rightarrow> MailboxCalls \<Rightarrow> (nat \<Rightarrow> bool) \<Rightarrow> (nat \<times> int \<times> Delivery) list \<Rightarrow> GHIssue list \<Rightarrow> Delivery list \<Rightarrow>
     failure option \<times> GHIssue list \<times> Delivery list" where
  "handle_batch cfg snapshot freeSlots calls newest [] candidates acks = (None, candidates, acks)"
| "handle_batch cfg snapshot freeSlots calls newest ((index, number, d) # rest) candidates acks =
     (if number = 0 then handle_batch cfg snapshot freeSlots calls newest rest candidates (acks @ [d])
      else if \<not> newest index then handle_batch cfg snapshot freeSlots calls newest rest candidates acks
      else case handle_delivery cfg snapshot freeSlots calls number d of
        Acknowledge \<Rightarrow> handle_batch cfg snapshot freeSlots calls newest rest candidates (acks @ [d])
      | Keep \<Rightarrow> handle_batch cfg snapshot freeSlots calls newest rest candidates acks
      | Admit c \<Rightarrow> handle_batch cfg snapshot freeSlots calls newest rest (candidates @ [c]) acks
      | Stop e \<Rightarrow> (Some e, [], acks))"

definition processMailbox ::
  "bool \<Rightarrow> GitHubConfig \<Rightarrow> Snapshot \<Rightarrow> bool \<Rightarrow> MailboxCalls \<Rightarrow> failure + Delivery list \<Rightarrow> failure option \<times> GHIssue list \<times> Delivery list" where
  "processMailbox enabled cfg snapshot freeSlots calls mailbox =
     (if \<not> enabled then (None, [], [])
      else case mailbox of
        Inl e \<Rightarrow> (Some e, [], [])
      | Inr ds \<Rightarrow>
        if ds = [] then (None, [], [])
        else let numbers = map (mailboxIssueNumber snapshot) ds;
                 newest = (\<lambda>i. newest_index numbers (numbers ! i) = i) in
          handle_batch cfg snapshot freeSlots calls newest (rev (zip [0..<length ds] (zip numbers ds))) [] (coalesced numbers ds))"

section \<open>The cycle\<close>

record CycleConfig =
  cc_GitHub :: GitHubConfig
  cc_Queue :: QueueConfig
  cc_AutoMerge :: bool
  cc_Webhook :: bool
  cc_RotateBytes :: int
  cc_RatePath :: string

record ScheduleResult =
  sr_dispatched :: bool
  sr_githubAttempted :: bool
  sr_githubSucceeded :: bool

text \<open>The durable updates a cycle asks for.\<close>

datatype cycle_write = MaintenanceObserved SupervisorState | RateLimitSuppressed Cooldown | MailboxAcknowledged "Delivery list"
  | AuthorsVerified "(int \<times> AuthorVerification) list" | PollingMarked string

record CycleEnv =
  ce_snapshot :: "go_error + Snapshot"
  ce_available :: "go_error + uint64"
  ce_prune :: "go_error option"
  ce_fence :: bool
  ce_recover :: "go_error + Snapshot \<times> bool"
  ce_prepared :: "go_error + Snapshot"
  ce_mailbox :: "failure + Delivery list"
  ce_calls :: MailboxCalls
  ce_reloaded :: "go_error + Snapshot"
  ce_prepared_again :: "go_error + Snapshot"
  ce_verify :: "GHIssue \<Rightarrow> AuthorVerification \<times> failure option"
  ce_record :: "int \<Rightarrow> AuthorVerification \<Rightarrow> failure option"
  ce_input :: "int \<Rightarrow> failure option"
  ce_project :: "int \<Rightarrow> failure option"
  ce_ready :: "failure + GHIssue list"
  ce_write :: "cycle_write \<Rightarrow> go_error option"
  ce_runs :: "string \<times> string"
  ce_now :: time
  ce_later :: time
  ce_scaled :: "int \<Rightarrow> int"

text \<open>What a cycle changes.\<close>

record Cycle =
  cy_sched :: Scheduler
  cy_rates :: "Cooldown stored"
  cy_result :: ScheduleResult
  cy_writes :: "cycle_write list"

definition preflight :: "CycleConfig \<Rightarrow> CycleEnv \<Rightarrow> failure option" where
  "preflight cc env = (case ce_available env of
     Inl e \<Rightarrow> Some (WrapFailure SupervisorFailure ''inspect log storage capacity'' (store_failure e))
   | Inr available \<Rightarrow>
     if available < word_of_int (cc_RotateBytes cc * 2)
     then Some (WrapFailure SupervisorFailure ''log storage safety reserve exhausted'' (Cause ''available is below required''))
     else case ce_prune env of
       Some e \<Rightarrow> Some (WrapFailure SupervisorFailure ''prune worker run logs'' (store_failure e)) | None \<Rightarrow> None)"

definition pollDelay :: "CycleConfig \<Rightarrow> CycleEnv \<Rightarrow> int" where
  "pollDelay cc env = jitter (ce_scaled env) (qc_PollInterval (cc_Queue cc)) 0"

definition maintenance_message :: string where
  "maintenance_message = ''maintenance drain fence is active''"

definition write_failure :: "go_error option \<Rightarrow> failure option" where
  "write_failure e = map_option store_failure e"

text \<open>With a fence up, the cycle only reports the drain, and takes back a launch that was never started.\<close>

definition schedule_fenced :: "CycleEnv \<Rightarrow> Snapshot \<Rightarrow> Cycle \<Rightarrow> failure option \<times> Cycle" where
  "schedule_fenced env snapshot c =
     (case (if sch_active (cy_sched c) = [] \<and> snap_ActiveExecution snapshot \<noteq> None \<and> \<not> HasWorker snapshot
            then map_sum id (\<lambda>(recovered, changed). if changed then recovered else snapshot) (ce_recover env) else Inr snapshot) of
        Inl e \<Rightarrow> (Some (WrapFailure SupervisorFailure ''recover unstarted conflict launch during drain'' (store_failure e)), c)
      | Inr snapshot \<Rightarrow>
        let st = maintenance_state (cy_sched c) snapshot in
        if sup_State (snap_Supervisor snapshot) \<noteq> st \<or> sup_Message (snap_Supervisor snapshot) \<noteq> maintenance_message
        then (write_failure (ce_write env (MaintenanceObserved st)), c\<lparr>cy_writes := cy_writes c @ [MaintenanceObserved st]\<rparr>)
        else (None, c))"

text \<open>During a shared cooldown, the cycle only counts that it would have had work.\<close>

definition schedule_limited :: "CycleConfig \<Rightarrow> CycleEnv \<Rightarrow> Snapshot \<Rightarrow> bool \<Rightarrow> Cooldown \<Rightarrow> Cycle \<Rightarrow> failure option \<times> Cycle" where
  "schedule_limited cc env snapshot poll cooldown c =
     (let s = (cy_sched c)\<lparr>sch_cooldownUntil := cd_ResetAt cooldown,
                sch_pollAt := (if cd_ResetAt cooldown > sch_pollAt (cy_sched c) then cd_ResetAt cooldown else sch_pollAt (cy_sched c))\<rparr>;
          c = c\<lparr>cy_sched := s\<rparr> in
      if \<not> ((pendingIssues snapshot (ce_now env) \<noteq> [] \<or> poll \<and> hasFreeSlot (cc_Queue cc) s) \<and> cd_ResetAt cooldown \<noteq> sch_lastSuppressedReset s)
      then (None, c)
      else case Suppress (cc_RatePath cc) (ce_now env) (cy_rates c) of
        (Inl e, rates) \<Rightarrow> (Some (WrapFailure SupervisorFailure ''record shared GitHub rate-limit suppression'' (store_failure e)), c\<lparr>cy_rates := rates\<rparr>)
      | (Inr (updated, active), rates) \<Rightarrow>
        if \<not> active then (None, c\<lparr>cy_rates := rates\<rparr>)
        else (map_option (\<lambda>e. WrapFailure SupervisorFailure ''persist GitHub rate-limit suppression'' (store_failure e)) (ce_write env (RateLimitSuppressed updated)),
              c\<lparr>cy_rates := rates, cy_sched := s\<lparr>sch_lastSuppressedReset := cd_ResetAt updated, sch_rateLimitActive := True\<rparr>,
                cy_writes := cy_writes c @ [RateLimitSuppressed updated]\<rparr>))"

text \<open>\<open>dispatch\<close> of a selected Issue into a free slot.\<close>

definition admit_selected :: "CycleConfig \<Rightarrow> string \<Rightarrow> GHIssue \<Rightarrow> Cycle \<Rightarrow> Cycle" where
  "admit_selected cc run issue c = (case freeSlot (cc_Queue cc) (cy_sched c) of
     None \<Rightarrow> c
   | Some slot \<Rightarrow> c\<lparr>cy_sched := dispatch (gh_Number issue) run slot (cy_sched c), cy_result := (cy_result c)\<lparr>sr_dispatched := True\<rparr>\<rparr>)"

definition select_in_cycle :: "CycleConfig \<Rightarrow> CycleEnv \<Rightarrow> Snapshot \<Rightarrow> GHIssue list \<Rightarrow> Cycle \<Rightarrow> (failure + GHIssue option) \<times> Cycle" where
  "select_in_cycle cc env snapshot issues c =
     (let (r, vs) = selectReady (cc_GitHub cc) (cc_Queue cc) (cc_AutoMerge cc) snapshot (cy_sched c) (ce_verify env) (ce_record env) issues
      in (r, if vs = [] then c else c\<lparr>cy_writes := cy_writes c @ [AuthorsVerified vs]\<rparr>))"

definition mark_polling :: "CycleEnv \<Rightarrow> Snapshot \<Rightarrow> Cycle \<Rightarrow> failure option \<times> Cycle" where
  "mark_polling env snapshot c = (case markPollingIfIdle snapshot '''' (cy_sched c) of
     None \<Rightarrow> (None, c)
   | Some f \<Rightarrow> (write_failure (ce_write env (PollingMarked (admissionWait snapshot))),
       c\<lparr>cy_writes := cy_writes c @ [PollingMarked (admissionWait snapshot)]\<rparr>))"

text \<open>The poll of the queue.\<close>

definition schedule_poll :: "CycleConfig \<Rightarrow> CycleEnv \<Rightarrow> Snapshot \<Rightarrow> Cycle \<Rightarrow> failure option \<times> Cycle" where
  "schedule_poll cc env snapshot c =
     (let next = ce_later env + pollDelay cc env;
          polled = (\<lambda>c. c\<lparr>cy_sched := (cy_sched c)\<lparr>sch_pollAt := next\<rparr>\<rparr>) in
      if \<not> hasFreeSlot (cc_Queue cc) (cy_sched c) then (None, polled c)
      else let c = c\<lparr>cy_result := (cy_result c)\<lparr>sr_githubAttempted := True\<rparr>\<rparr> in
        (case ce_ready env of
           Inl e \<Rightarrow> (Some (WrapFailure Transient ''poll GitHub Issue queue'' e), c)
         | Inr issues \<Rightarrow>
           let c = polled (c\<lparr>cy_result := (cy_result c)\<lparr>sr_githubSucceeded := True\<rparr>\<rparr>) in
           (case select_in_cycle cc env snapshot issues c of
              (Inl e, c) \<Rightarrow> (Some (WrapFailure SupervisorFailure ''select Issue admission'' e), c)
            | (Inr None, c) \<Rightarrow> mark_polling env snapshot c
            | (Inr (Some issue), c) \<Rightarrow> (None, admit_selected cc (snd (ce_runs env)) issue c))))"

definition ack_batch :: "CycleEnv \<Rightarrow> string \<Rightarrow> Delivery list \<Rightarrow> Cycle \<Rightarrow> failure option \<times> Cycle" where
  "ack_batch env operation batch c =
     (if batch = [] then (None, c)
      else (map_option (\<lambda>e. WrapFailure SupervisorFailure operation (store_failure e)) (ce_write env (MailboxAcknowledged batch)),
            c\<lparr>cy_writes := cy_writes c @ [MailboxAcknowledged batch]\<rparr>))"

text \<open>Reconciliation and the poll.\<close>

definition schedule_rest :: "CycleConfig \<Rightarrow> CycleEnv \<Rightarrow> bool \<Rightarrow> Snapshot \<Rightarrow> Cycle \<Rightarrow> failure option \<times> Cycle" where
  "schedule_rest cc env poll snapshot c =
     (case dispatchManagedReconciliation (cc_Queue cc) (ce_now env) (ce_input env) (ce_project env) snapshot (cy_sched c) of
        (Inl e, s) \<Rightarrow> (Some e, c\<lparr>cy_sched := s\<rparr>)
      | (Inr dispatched, s) \<Rightarrow>
        let c = c\<lparr>cy_sched := s, cy_result := (if dispatched then (cy_result c)\<lparr>sr_dispatched := True\<rparr> else cy_result c)\<rparr> in
        if \<not> poll then mark_polling env snapshot c else schedule_poll cc env snapshot c)"

text \<open>The work of a cycle: pending Issues, the candidates of the mailbox, the acknowledgement, reconciliation and the poll.\<close>

definition schedule_work :: "CycleConfig \<Rightarrow> CycleEnv \<Rightarrow> bool \<Rightarrow> Snapshot \<Rightarrow> GHIssue list \<Rightarrow> Delivery list \<Rightarrow> Cycle \<Rightarrow> failure option \<times> Cycle" where
  "schedule_work cc env poll snapshot candidates batch c =
     (let s = dispatch_pending (cc_Queue cc) (ce_now env) snapshot (pendingIssues snapshot (ce_now env)) (cy_sched c);
          c = c\<lparr>cy_sched := s, cy_result := (if s = cy_sched c then cy_result c else (cy_result c)\<lparr>sr_dispatched := True\<rparr>)\<rparr>;
          (selected, c) = (if candidates \<noteq> [] \<and> hasFreeSlot (cc_Queue cc) (cy_sched c) then select_in_cycle cc env snapshot candidates c else (Inr None, c)) in
      case selected of
        Inl e \<Rightarrow> (Some (WrapFailure SupervisorFailure ''select webhook Issue admission'' e), c)
      | Inr choice \<Rightarrow>
        let c = (case choice of None \<Rightarrow> c | Some issue \<Rightarrow> admit_selected cc (fst (ce_runs env)) issue c) in
        (case ack_batch env ''ack webhook mailbox'' batch c of
           (Some e, c) \<Rightarrow> (Some e, c)
         | (None, c) \<Rightarrow> schedule_rest cc env poll snapshot c))"

text \<open>The cycle from the mailbox on.\<close>

definition schedule_open :: "CycleConfig \<Rightarrow> CycleEnv \<Rightarrow> bool \<Rightarrow> Snapshot \<Rightarrow> Cycle \<Rightarrow> failure option \<times> Cycle" where
  "schedule_open cc env poll snapshot c =
     (case processMailbox (cc_Webhook cc) (cc_GitHub cc) snapshot (hasFreeSlot (cc_Queue cc) (cy_sched c)) (ce_calls env) (ce_mailbox env) of
        (Some e, candidates, batch) \<Rightarrow>
          (case ack_batch env ''ack safely coalesced webhook mailbox after reconciliation failure'' batch c of
             (Some e', c) \<Rightarrow> (Some e', c)
           | (None, c) \<Rightarrow> (Some (WrapFailure SupervisorFailure ''read webhook mailbox'' e), c))
      | (None, candidates, batch) \<Rightarrow>
        (case (if batch = [] then Inr snapshot else ce_reloaded env) of
           Inl e \<Rightarrow> (Some (WrapFailure SupervisorFailure ''reload webhook-routed state'' (store_failure e)), c)
         | Inr reloaded \<Rightarrow> (case ce_prepared_again env of
             Inl e \<Rightarrow> (Some (store_failure e), c)
           | Inr snapshot \<Rightarrow> schedule_work cc env poll snapshot candidates batch c)))"

text \<open>The shared cooldown, and the poll that is not due.\<close>

definition schedule_cooldown_check :: "CycleConfig \<Rightarrow> CycleEnv \<Rightarrow> bool \<Rightarrow> Snapshot \<Rightarrow> Cycle \<Rightarrow> failure option \<times> Cycle" where
  "schedule_cooldown_check cc env pollCandidates snapshot c =
     (let poll = (pollCandidates \<and> \<not> sch_pollAt (cy_sched c) > ce_now env) in
      case cooldown_Current (cc_RatePath cc) (ce_now env) (cy_rates c) of
        Inl e \<Rightarrow> (Some (WrapFailure SupervisorFailure ''load shared GitHub rate-limit cooldown'' (store_failure e)), c)
      | Inr (cooldown, active) \<Rightarrow>
        if active then schedule_limited cc env snapshot poll cooldown c
        else schedule_open cc env poll snapshot (c\<lparr>cy_sched := (cy_sched c)\<lparr>sch_cooldownUntil := 0, sch_lastSuppressedReset := 0\<rparr>\<rparr>))"

text \<open>\<open>schedule\<close>.\<close>

definition schedule :: "CycleConfig \<Rightarrow> CycleEnv \<Rightarrow> bool \<Rightarrow> Cycle \<Rightarrow> failure option \<times> Cycle" where
  "schedule cc env pollCandidates c =
     (let poll = (pollCandidates \<and> \<not> cc_Webhook cc) in
      case ce_snapshot env of
        Inl e \<Rightarrow> (Some (WrapFailure SupervisorFailure ''load durable state'' (store_failure e)), c)
      | Inr snapshot \<Rightarrow>
        if preflight cc env \<noteq> None then (preflight cc env, c)
        else if ce_fence env then schedule_fenced env snapshot c
        else case ce_prepared env of
          Inl e \<Rightarrow> (Some (store_failure e), c)
        | Inr snapshot \<Rightarrow>
          let retry = sup_RetryAfter (snap_Supervisor snapshot); now = ce_now env;
              c = c\<lparr>cy_sched := (case retry of
                    Some t \<Rightarrow> if t > sch_pollAt (cy_sched c) then (cy_sched c)\<lparr>sch_pollAt := t\<rparr> else cy_sched c | None \<Rightarrow> cy_sched c)\<rparr> in
          (case retry of
             Some t \<Rightarrow> if t > now then (None, c\<lparr>cy_sched := (cy_sched c)\<lparr>sch_cooldownUntil := t\<rparr>\<rparr>)
               else schedule_cooldown_check cc env poll snapshot c
           | None \<Rightarrow> schedule_cooldown_check cc env poll snapshot c))"

end
