(* ===== verification/RoutingFacts.thy ===== *)
theory RoutingFacts
  imports Routing
begin

text \<open>
  The properties of the intake of webhook deliveries and of the scheduling cycle.
\<close>

section \<open>Intents\<close>

lemma newest_last:
  assumes "n > 0" and "i < length numbers" and "numbers ! i = n"
  shows "i \<le> newest_index numbers n \<and> newest_index numbers n < length numbers \<and> numbers ! newest_index numbers n = n
    \<and> (\<forall>k. newest_index numbers n < k \<and> k < length numbers \<longrightarrow> numbers ! k \<noteq> n)"
proof -
  let ?m = "length numbers" and ?xs = "rev [0..<length numbers]"
  have nth: "?xs ! k = ?m - Suc k" if "k < ?m" for k using that by (simp add: rev_nth)
  have "find (\<lambda>j. numbers ! j = n) ?xs \<noteq> None" using assms(2,3) by (auto simp: find_None_iff)
  then obtain j where j: "find (\<lambda>j. numbers ! j = n) ?xs = Some j" by blast
  then obtain p where p: "p < ?m" "numbers ! (?xs ! p) = n" "j = ?xs ! p" "\<forall>q < p. numbers ! (?xs ! q) \<noteq> n"
    by (auto simp: find_Some_iff)
  have jp: "j = ?m - Suc p" using p(1,3) nth by simp
  have later: "numbers ! k \<noteq> n" if "j < k" "k < ?m" for k
  proof -
    have "?m - Suc k < p" using that jp p(1) by linarith
    then have "numbers ! (?xs ! (?m - Suc k)) \<noteq> n" using p(4) by blast
    moreover have "?xs ! (?m - Suc k) = k" using that nth [of "?m - Suc k"] by simp
    ultimately show ?thesis by simp
  qed
  have "newest_index numbers n = j" using assms(1) j by (simp add: newest_index_def)
  moreover have "j < ?m" using jp p(1) by linarith
  moreover have "i \<le> j" using later [of i] assms(2,3) by (cases "i \<le> j") auto
  ultimately show ?thesis using p(2,3) later by auto
qed

lemma batch_acks:
  "handle_batch cfg snap slots calls newest xs cands acks = (e, cands', acks') \<Longrightarrow>
    set acks \<subseteq> set acks' \<and> (\<forall>d \<in> set acks' - set acks. \<exists>i n. (i, n, d) \<in> set xs
      \<and> (n = 0 \<or> newest i \<and> handle_delivery cfg snap slots calls n d = Acknowledge))"
proof (induction xs arbitrary: cands acks)
  case (Cons x xs)
  obtain i n d where x: "x = (i, n, d)" by (cases x)
  show ?case
  proof (cases "n = 0 \<or> \<not> newest i")
    case True
    with Cons x show ?thesis by (cases "n = 0") fastforce+
  next
    case False
    with Cons x show ?thesis by (cases "handle_delivery cfg snap slots calls n d") fastforce+
  qed
qed simp

lemma batch_complete:
  "handle_batch cfg snap slots calls newest xs cands acks = (None, cands', acks') \<Longrightarrow>
    set cands \<subseteq> set cands' \<and> (\<forall>i n d. (i, n, d) \<in> set xs \<and> n \<noteq> 0 \<and> newest i \<longrightarrow>
      (handle_delivery cfg snap slots calls n d = Acknowledge \<and> d \<in> set acks') \<or> handle_delivery cfg snap slots calls n d = Keep
      \<or> (\<exists>c \<in> set cands'. handle_delivery cfg snap slots calls n d = Admit c))"
proof (induction xs arbitrary: cands acks)
  case (Cons x xs)
  obtain i n d where x: "x = (i, n, d)" by (cases x)
  show ?case
  proof (cases "n = 0 \<or> \<not> newest i")
    case True
    with Cons x show ?thesis by (cases "n = 0") fastforce+
  next
    case False
    show ?thesis
    proof (cases "handle_delivery cfg snap slots calls n d")
      case Acknowledge
      with False Cons.prems x have rest: "handle_batch cfg snap slots calls newest xs cands (acks @ [d]) = (None, cands', acks')" by simp
      then have "d \<in> set acks'" using batch_acks by fastforce
      with Cons.IH [OF rest] Acknowledge x show ?thesis by auto
    next
      case (Admit c)
      with False Cons.prems x have rest: "handle_batch cfg snap slots calls newest xs (cands @ [c]) acks = (None, cands', acks')" by simp
      from Cons.IH [OF rest] Admit x show ?thesis by auto
    next
      case Keep
      with False Cons.prems x have rest: "handle_batch cfg snap slots calls newest xs cands acks = (None, cands', acks')" by simp
      from Cons.IH [OF rest] Keep x show ?thesis by auto
    qed (use False Cons.prems x in auto)
  qed
qed simp


definition sample_calls :: MailboxCalls where
  "sample_calls = \<lparr>mc_input = (\<lambda>n. None), mc_exit = (\<lambda>i d. None), mc_terminal = (\<lambda>i d. Inr True), mc_wake = (\<lambda>n d. None),
     mc_projection = (\<lambda>n. None), mc_issue = (\<lambda>n. Inr (sample_gh_issue [''ready'']))\<rparr>"

definition sample_mail :: "string \<Rightarrow> string \<Rightarrow> Delivery" where
  "sample_mail ident event = \<lparr>whd_Version = 1, whd_DeliveryID = ident, whd_Event = event, whd_Action = ''opened'', whd_RepoID = ''r1'',
     whd_RepositoryID = 9, whd_Repository = ''o/r'', whd_InstallationID = 5, whd_IssueNumber = 7, whd_PullRequestNumber = 0,
     whd_HeadSHA = '''', whd_AcceptedAt = 30, whd_RoutedAt = 0\<rparr>"


section \<open>The gates of a cycle\<close>

text \<open>What a part of a cycle may do to the jobs and the attempts.\<close>

definition keeps_jobs :: "CycleConfig \<Rightarrow> Cycle \<Rightarrow> Cycle \<Rightarrow> bool" where
  "keeps_jobs cc c c' \<longleftrightarrow> (jobs_ok (cc_Queue cc) (cy_sched c) \<longrightarrow> jobs_ok (cc_Queue cc) (cy_sched c'))"

definition idles :: "Cycle \<Rightarrow> Cycle \<Rightarrow> bool" where
  "idles c c' \<longleftrightarrow> sch_active (cy_sched c') = sch_active (cy_sched c) \<and> cy_result c' = cy_result c"

lemma keeps_refl: "keeps_jobs cc c c" and keeps_trans: "keeps_jobs cc a b \<Longrightarrow> keeps_jobs cc b c \<Longrightarrow> keeps_jobs cc a c"
  by (simp_all add: keeps_jobs_def)

lemma keeps_active: "sch_active (cy_sched c') = sch_active (cy_sched c) \<Longrightarrow> keeps_jobs cc c c'"
  using jobs_cong [of "cy_sched c'" "cy_sched c" "cc_Queue cc"] by (simp add: keeps_jobs_def)

lemma idles_keeps: "idles c c' \<Longrightarrow> keeps_jobs cc c c'"
  by (simp add: idles_def keeps_active)

lemma keeps_step: "scheduler_step (cc_Queue cc) (cy_sched c) (cy_sched c') \<Longrightarrow> keeps_jobs cc c c'"
  by (auto simp: keeps_jobs_def intro: step_jobs)

lemma mark_polling_idles: "mark_polling env snapshot c = (e, c') \<Longrightarrow> idles c c'"
  by (auto simp: mark_polling_def idles_def split: option.splits)

lemma ack_idles: "ack_batch env operation batch c = (e, c') \<Longrightarrow> idles c c'"
  by (auto simp: ack_batch_def idles_def split: if_splits)

lemma select_sched: "select_in_cycle cc env snapshot issues c = (r, c') \<Longrightarrow> cy_sched c' = cy_sched c \<and> cy_result c' = cy_result c
    \<and> r = fst (selectReady (cc_GitHub cc) (cc_Queue cc) (cc_AutoMerge cc) snapshot (cy_sched c) (ce_verify env) (ce_record env) issues)"
  by (auto simp: select_in_cycle_def split: prod.splits if_splits)

lemma admit_keeps:
  assumes "select_in_cycle cc env snapshot issues c = (Inr (Some issue), c')"
  shows "keeps_jobs cc c (admit_selected cc run issue c')"
proof (cases "freeSlot (cc_Queue cc) (cy_sched c')")
  case None
  then show ?thesis using select_sched [OF assms] by (simp add: admit_selected_def keeps_active)
next
  case (Some slot)
  have "fst (selectReady (cc_GitHub cc) (cc_Queue cc) (cc_AutoMerge cc) snapshot (cy_sched c) (ce_verify env) (ce_record env) issues) = Inr (Some issue)"
    using select_sched [OF assms] by simp
  from scheduler_step.admit [OF this] Some select_sched [OF assms] show ?thesis
    by (intro keeps_step) (simp add: admit_selected_def)
qed

lemma poll_keeps:
  assumes "schedule_poll cc env snapshot c = (e, c')" shows "keeps_jobs cc c c'"
proof (cases "hasFreeSlot (cc_Queue cc) (cy_sched c)")
  case False
  then show ?thesis using assms by (auto simp: schedule_poll_def Let_def intro: keeps_active)
next
  case True
  show ?thesis
  proof (cases "ce_ready env")
    case (Inl e')
    with True assms show ?thesis by (auto simp: schedule_poll_def Let_def intro: keeps_active)
  next
    case (Inr issues)
    obtain c1 where c1: "c1 = c\<lparr>cy_result := (cy_result c)\<lparr>sr_githubAttempted := True, sr_githubSucceeded := True\<rparr>,
      cy_sched := (cy_sched c)\<lparr>sch_pollAt := ce_later env + pollDelay cc env\<rparr>\<rparr>" by blast
    have k1: "keeps_jobs cc c c1" by (rule keeps_active) (simp add: c1)
    obtain r c2 where sel: "select_in_cycle cc env snapshot issues c1 = (r, c2)" by fastforce
    have out: "(case r of Inl e \<Rightarrow> (Some (WrapFailure SupervisorFailure ''select Issue admission'' e), c2)
        | Inr None \<Rightarrow> mark_polling env snapshot c2
        | Inr (Some issue) \<Rightarrow> (None, admit_selected cc (snd (ce_runs env)) issue c2)) = (e, c')"
      using assms True Inr sel unfolding c1 by (auto simp: schedule_poll_def Let_def split: sum.splits option.splits)
    have k2: "keeps_jobs cc c1 c2" using select_sched [OF sel] by (simp add: keeps_active)
    show ?thesis
    proof (cases r)
      case (Inl e')
      with out keeps_trans [OF k1 k2] show ?thesis by simp
    next
      case r: (Inr choice)
      show ?thesis
      proof (cases choice)
        case None
        with out r have "mark_polling env snapshot c2 = (e, c')" by simp
        from keeps_trans [OF keeps_trans [OF k1 k2] idles_keeps [OF mark_polling_idles [OF this]]] show ?thesis .
      next
        case (Some issue)
        with out r have "c' = admit_selected cc (snd (ce_runs env)) issue c2" by simp
        with keeps_trans [OF k1 admit_keeps [OF sel [unfolded r Some]]] show ?thesis by simp
      qed
    qed
  qed
qed

lemma rest_keeps:
  assumes "schedule_rest cc env poll snapshot c = (e, c')" shows "keeps_jobs cc c c'"
proof -
  obtain r s where d: "dispatchManagedReconciliation (cc_Queue cc) (ce_now env) (ce_input env) (ce_project env) snapshot (cy_sched c) = (r, s)"
    by fastforce
  have step: "scheduler_step (cc_Queue cc) (cy_sched c) s"
    using scheduler_step.reconcile [of "cc_Queue cc" "cy_sched c" "ce_now env" "ce_input env" "ce_project env" snapshot] d by simp
  show ?thesis
  proof (cases r)
    case (Inl e')
    with assms d have "c' = c\<lparr>cy_sched := s\<rparr>" by (simp add: schedule_rest_def)
    with step show ?thesis by (simp add: keeps_step)
  next
    case (Inr dispatched)
    obtain c1 where c1: "c1 = c\<lparr>cy_sched := s, cy_result := (if dispatched then (cy_result c)\<lparr>sr_dispatched := True\<rparr> else cy_result c)\<rparr>" by blast
    have k1: "keeps_jobs cc c c1" using step by (intro keeps_step) (simp add: c1)
    have "(if \<not> poll then mark_polling env snapshot c1 else schedule_poll cc env snapshot c1) = (e, c')"
      using assms d Inr unfolding c1 by (simp add: schedule_rest_def Let_def)
    then have "keeps_jobs cc c1 c'"
      by (cases poll) (auto intro: poll_keeps idles_keeps mark_polling_idles)
    with k1 show ?thesis by (rule keeps_trans)
  qed
qed

lemma pending_keeps:
  "keeps_jobs cc c (c\<lparr>cy_sched := dispatch_pending (cc_Queue cc) now snapshot issues (cy_sched c), cy_result := r\<rparr>)"
  by (rule keeps_step) (simp add: scheduler_step.pending)

lemma work_keeps:
  assumes "schedule_work cc env poll snapshot candidates batch c = (e, c')" shows "keeps_jobs cc c c'"
proof -
  let ?s = "dispatch_pending (cc_Queue cc) (ce_now env) snapshot (pendingIssues snapshot (ce_now env)) (cy_sched c)"
  obtain c1 where c1: "c1 = c\<lparr>cy_sched := ?s, cy_result := (if ?s = cy_sched c then cy_result c else (cy_result c)\<lparr>sr_dispatched := True\<rparr>)\<rparr>" by blast
  have k1: "keeps_jobs cc c c1" unfolding c1 by (rule pending_keeps)
  obtain sel c2 where sel: "(if candidates \<noteq> [] \<and> hasFreeSlot (cc_Queue cc) (cy_sched c1)
      then select_in_cycle cc env snapshot candidates c1 else (Inr None, c1)) = (sel, c2)" by fastforce
  have k2: "keeps_jobs cc c1 c2"
    using sel select_sched [of cc env snapshot candidates c1 sel c2] by (auto simp: keeps_active split: if_splits)
  have out: "(case sel of Inl e \<Rightarrow> (Some (WrapFailure SupervisorFailure ''select webhook Issue admission'' e), c2)
      | Inr choice \<Rightarrow>
        let c = (case choice of None \<Rightarrow> c2 | Some issue \<Rightarrow> admit_selected cc (fst (ce_runs env)) issue c2) in
        (case ack_batch env ''ack webhook mailbox'' batch c of
           (Some e, c) \<Rightarrow> (Some e, c) | (None, c) \<Rightarrow> schedule_rest cc env poll snapshot c)) = (e, c')"
    using assms sel unfolding schedule_work_def c1 Let_def by (simp only: prod.case)
  show ?thesis
  proof (cases sel)
    case (Inl e')
    with out keeps_trans [OF k1 k2] show ?thesis by simp
  next
    case (Inr choice)
    obtain c3 where c3: "c3 = (case choice of None \<Rightarrow> c2 | Some issue \<Rightarrow> admit_selected cc (fst (ce_runs env)) issue c2)" by blast
    have k3: "keeps_jobs cc c1 c3"
    proof (cases choice)
      case (Some issue)
      with sel Inr have "select_in_cycle cc env snapshot candidates c1 = (Inr (Some issue), c2)" by (simp split: if_splits)
      from admit_keeps [OF this] Some show ?thesis by (simp add: c3)
    qed (use k2 c3 in simp)
    obtain e4 c4 where ack: "ack_batch env ''ack webhook mailbox'' batch c3 = (e4, c4)" by fastforce
    have k4: "keeps_jobs cc c3 c4" by (rule idles_keeps [OF ack_idles [OF ack]])
    have "(case e4 of Some e \<Rightarrow> (Some e, c4) | None \<Rightarrow> schedule_rest cc env poll snapshot c4) = (e, c')"
      using out Inr ack c3 by (simp add: Let_def)
    then have "keeps_jobs cc c4 c'" by (cases e4) (auto intro: keeps_refl rest_keeps)
    with keeps_trans [OF keeps_trans [OF k1 k3] k4] show ?thesis by (rule keeps_trans)
  qed
qed

lemma open_keeps:
  assumes "schedule_open cc env poll snapshot c = (e, c')" shows "keeps_jobs cc c c'"
proof -
  obtain e1 candidates batch where p: "processMailbox (cc_Webhook cc) (cc_GitHub cc) snapshot (hasFreeSlot (cc_Queue cc) (cy_sched c)) (ce_calls env) (ce_mailbox env)
      = (e1, candidates, batch)" by (metis prod_cases3)
  show ?thesis
  proof (cases e1)
    case (Some e2)
    obtain e3 c3 where ack: "ack_batch env ''ack safely coalesced webhook mailbox after reconciliation failure'' batch c = (e3, c3)" by fastforce
    have "c' = c3" using assms p Some ack by (cases e3) (auto simp: schedule_open_def)
    with ack_idles [OF ack] show ?thesis by (simp add: idles_keeps)
  next
    case None
    then show ?thesis
      using assms p work_keeps by (auto simp: schedule_open_def keeps_refl split: sum.splits if_splits)
  qed
qed

lemma limited_idles: "schedule_limited cc env snapshot poll cooldown c = (e, c') \<Longrightarrow> idles c c'"
  by (auto simp: schedule_limited_def Let_def idles_def split: if_splits prod.splits sum.splits)

lemma fenced_idles: "schedule_fenced env snapshot c = (e, c') \<Longrightarrow> idles c c'"
  by (auto simp: schedule_fenced_def Let_def idles_def split: if_splits prod.splits sum.splits)

text \<open>When a cycle may take up work: the state is readable, the storage has its reserve, no fence is up, the supervisor is not
  waiting for a retry and no shared cooldown is active.\<close>

definition gates_open :: "CycleConfig \<Rightarrow> CycleEnv \<Rightarrow> Cycle \<Rightarrow> bool" where
  "gates_open cc env c \<longleftrightarrow> (\<exists>snapshot. ce_snapshot env = Inr snapshot) \<and> preflight cc env = None \<and> \<not> ce_fence env
     \<and> (\<exists>snapshot. ce_prepared env = Inr snapshot \<and> (\<forall>t. sup_RetryAfter (snap_Supervisor snapshot) = Some t \<longrightarrow> t \<le> ce_now env))
     \<and> (\<exists>cooldown. cooldown_Current (cc_RatePath cc) (ce_now env) (cy_rates c) = Inr (cooldown, False))"

lemma check_cases:
  assumes "schedule_cooldown_check cc env poll snapshot c = (e, c')"
  shows "keeps_jobs cc c c' \<and> (idles c c' \<or> (\<exists>cooldown. cooldown_Current (cc_RatePath cc) (ce_now env) (cy_rates c) = Inr (cooldown, False)))"
proof (cases "cooldown_Current (cc_RatePath cc) (ce_now env) (cy_rates c)")
  case (Inl e')
  with assms show ?thesis by (auto simp: schedule_cooldown_check_def Let_def idles_def keeps_refl)
next
  case (Inr res)
  obtain cooldown active where res: "res = (cooldown, active)" by (cases res)
  show ?thesis
  proof (cases active)
    case True
    with assms Inr res have "idles c c'" by (auto simp: schedule_cooldown_check_def Let_def intro: limited_idles)
    then show ?thesis using idles_keeps by blast
  next
    case False
    obtain c1 where c1: "c1 = c\<lparr>cy_sched := (cy_sched c)\<lparr>sch_cooldownUntil := 0, sch_lastSuppressedReset := 0\<rparr>\<rparr>" by blast
    have "\<exists>poll'. schedule_open cc env poll' snapshot c1 = (e, c')"
      using assms Inr res False c1 by (auto simp: schedule_cooldown_check_def Let_def)
    then have "keeps_jobs cc c1 c'" using open_keeps by blast
    moreover have "keeps_jobs cc c c1" by (rule keeps_active) (simp add: c1)
    ultimately have "keeps_jobs cc c c'" using keeps_trans by blast
    with Inr res False show ?thesis by simp
  qed
qed

lemma schedule_reaches_check:
  assumes "schedule cc env poll c = (e, c')"
  shows "idles c c' \<or> (\<exists>c1 prepared. idles c c1 \<and> schedule_cooldown_check cc env (poll \<and> \<not> cc_Webhook cc) prepared c1 = (e, c')
    \<and> cy_rates c1 = cy_rates c \<and> (\<exists>snapshot. ce_snapshot env = Inr snapshot) \<and> preflight cc env = None \<and> \<not> ce_fence env
    \<and> ce_prepared env = Inr prepared \<and> (\<forall>t. sup_RetryAfter (snap_Supervisor prepared) = Some t \<longrightarrow> t \<le> ce_now env))"
proof -
  consider "\<exists>e'. ce_snapshot env = Inl e'" | "preflight cc env \<noteq> None" | "ce_fence env" | "\<exists>e'. ce_prepared env = Inl e'"
    | snapshot prepared where "ce_snapshot env = Inr snapshot" "preflight cc env = None" "\<not> ce_fence env" "ce_prepared env = Inr prepared"
    by (metis Inl_Inr_False sum.exhaust)
  then show ?thesis
  proof cases
    case (5 snapshot prepared)
    show ?thesis
    proof (cases "sup_RetryAfter (snap_Supervisor prepared)")
      case None
      then have "schedule_cooldown_check cc env (poll \<and> \<not> cc_Webhook cc) prepared c = (e, c')"
        using assms 5 by (simp add: schedule_def Let_def)
      with 5 None show ?thesis by (intro disjI2 exI [of _ c] exI [of _ prepared]) (simp add: idles_def)
    next
      case (Some t)
      obtain c1 where c1: "c1 = c\<lparr>cy_sched := (if t > sch_pollAt (cy_sched c) then (cy_sched c)\<lparr>sch_pollAt := t\<rparr> else cy_sched c)\<rparr>" by blast
      have same: "idles c c1 \<and> cy_rates c1 = cy_rates c" by (simp add: c1 idles_def)
      show ?thesis
      proof (cases "t > ce_now env")
        case True
        then have "c' = c1\<lparr>cy_sched := (cy_sched c1)\<lparr>sch_cooldownUntil := t\<rparr>\<rparr>"
          using assms 5 Some c1 by (simp add: schedule_def Let_def)
        with same show ?thesis by (simp add: idles_def)
      next
        case False
        then have "schedule_cooldown_check cc env (poll \<and> \<not> cc_Webhook cc) prepared c1 = (e, c')"
          using assms 5 Some c1 by (simp add: schedule_def Let_def)
        with 5 False Some same show ?thesis by (intro disjI2 exI [of _ c1] exI [of _ prepared]) (simp add: not_less)
      qed
    qed
  qed (use assms in \<open>auto simp: schedule_def idles_def Let_def dest: fenced_idles [unfolded idles_def] split: sum.splits if_splits\<close>)
qed

text \<open>C28: A cycle respects its gates. Whatever it reads and whatever fails on the way, it keeps every job in its own slot; and only if all gates are
  open can it start a job or ask GitHub for Issues.\<close>

theorem cycle_respects_gates:
  assumes "schedule cc env poll c = (e, c')" and "jobs_ok (cc_Queue cc) (cy_sched c)"
  shows "jobs_ok (cc_Queue cc) (cy_sched c')
    \<and> (gates_open cc env c \<or> sch_active (cy_sched c') = sch_active (cy_sched c) \<and> cy_result c' = cy_result c)"
  using schedule_reaches_check [OF assms(1)]
proof (elim disjE exE conjE)
  assume "idles c c'"
  then show ?thesis using idles_keeps [of c c' cc] assms(2) by (simp add: keeps_jobs_def idles_def)
next
  fix c1 prepared snapshot
  assume c1: "idles c c1" and check: "schedule_cooldown_check cc env (poll \<and> \<not> cc_Webhook cc) prepared c1 = (e, c')"
    and same: "cy_rates c1 = cy_rates c"
    and open_so_far: "ce_snapshot env = Inr snapshot" "preflight cc env = None" "\<not> ce_fence env" "ce_prepared env = Inr prepared"
      "\<forall>t. sup_RetryAfter (snap_Supervisor prepared) = Some t \<longrightarrow> t \<le> ce_now env"
  from check_cases [OF check] same have "keeps_jobs cc c1 c'"
    and "idles c1 c' \<or> (\<exists>cooldown. cooldown_Current (cc_RatePath cc) (ce_now env) (cy_rates c) = Inr (cooldown, False))" by simp_all
  with c1 idles_keeps [OF c1, of cc] assms(2) open_so_far show ?thesis
    by (auto simp: keeps_jobs_def idles_def gates_open_def)
qed

definition sample_cycle_config :: CycleConfig where
  "sample_cycle_config = \<lparr>cc_GitHub = sample_config, cc_Queue = sample_queue, cc_AutoMerge = False, cc_Webhook = True, cc_RotateBytes = 1024,
     cc_RatePath = ''/rate''\<rparr>"

definition sample_env :: CycleEnv where
  "sample_env = \<lparr>ce_snapshot = Inr two_issues, ce_available = Inr 5000, ce_prune = None, ce_fence = False, ce_recover = Inr (two_issues, False),
     ce_prepared = Inr two_issues, ce_mailbox = Inr [], ce_calls = sample_calls, ce_reloaded = Inr two_issues, ce_prepared_again = Inr two_issues,
     ce_verify = VerifyIssueAuthor [] ''o/r'' permitted 5 6, ce_record = (\<lambda>n v. None), ce_input = (\<lambda>n. None), ce_project = (\<lambda>n. None),
     ce_ready = Inr [], ce_write = (\<lambda>w. None), ce_runs = (''run_a'', ''run_b''), ce_now = 5, ce_later = 6, ce_scaled = id\<rparr>"

definition sample_cycle :: Cycle where
  "sample_cycle = \<lparr>cy_sched = idle_scheduler, cy_rates = Missing,
     cy_result = \<lparr>sr_dispatched = False, sr_githubAttempted = False, sr_githubSucceeded = False\<rparr>, cy_writes = []\<rparr>"

lemma idle_jobs_ok: "jobs_ok sample_queue idle_scheduler"
  by (simp add: jobs_ok_def idle_scheduler_def slots_of_def)

theorem cycle_respects_gates_witness:
  "sch_active (cy_sched (snd (schedule sample_cycle_config (sample_env\<lparr>ce_fence := True\<rparr>) True sample_cycle))) = []
   \<and> sch_active (cy_sched (snd (schedule sample_cycle_config sample_env True sample_cycle))) \<noteq> []
   \<and> jobs_ok sample_queue (cy_sched (snd (schedule sample_cycle_config sample_env True sample_cycle)))"
proof -
  have ok: "jobs_ok (cc_Queue sample_cycle_config) (cy_sched sample_cycle)"
    using idle_jobs_ok by (simp add: sample_cycle_config_def sample_cycle_def)
  have "\<not> gates_open sample_cycle_config (sample_env\<lparr>ce_fence := True\<rparr>) sample_cycle" by (simp add: gates_open_def)
  with cycle_respects_gates [OF prod.collapse [symmetric] ok, of "sample_env\<lparr>ce_fence := True\<rparr>" True]
  have "sch_active (cy_sched (snd (schedule sample_cycle_config (sample_env\<lparr>ce_fence := True\<rparr>) True sample_cycle))) = []"
    by (simp add: sample_cycle_def idle_scheduler_def)
  moreover have "(sch_active (cy_sched (snd (schedule sample_cycle_config sample_env True sample_cycle))) = []) = False" by code_simp
  moreover have "jobs_ok sample_queue (cy_sched (snd (schedule sample_cycle_config sample_env True sample_cycle)))"
    using cycle_respects_gates [OF prod.collapse [symmetric] ok, of sample_env True] by (simp add: sample_cycle_config_def)
  ultimately show ?thesis by simp
qed

section \<open>A failure that blocks\<close>

lemma single_comment:
  assumes "whd_Event d = ''issue_comment''" and "whd_IssueNumber d = n" and "n > 0" and "mc_input calls n = Some e"
  shows "processMailbox True cfg snapshot slots calls (Inr [d]) = (Some e, [], [])"
proof -
  have number: "mailboxIssueNumber snapshot d = n" using assms(2,3) by (simp add: mailboxIssueNumber_def)
  then have newest: "newest_index [n] ([n] ! 0) = 0" using assms(3) by (simp add: newest_index_def)
  have "handle_delivery cfg snapshot slots calls n d = Stop e" using assms(1,4) by (simp add: handle_delivery_def)
  with number newest assms(3) show ?thesis by (simp add: processMailbox_def Let_def coalesced_def)
qed

text \<open>C34: The same failure is treated in two ways. When the comments of an Issue cannot be read, an error without a classification, the
  reconciliation of managed Issues takes it for a transient failure and tries again later. When a webhook about a comment asks for the same
  read, the cycle takes it for a failure of the supervisor, and a supervisor that handles this failure is blocked.\<close>

theorem comment_failure_blocks_supervisor:
  assumes "cc_Webhook cc" and "ce_mailbox env = Inr [d]" and "whd_Event d = ''issue_comment''" and "whd_IssueNumber d = n" and "n > 0"
    and "mc_input (ce_calls env) n = Some (Cause m)"
  shows "\<exists>e. schedule_open cc env poll snapshot c = (Some e, c) \<and> KindOf e = SupervisorFailure
    \<and> fst (handleCycleError delay path now e rates s) = BlockSupervisor SupervisorFailure (sch_consecutiveFailures s + 1)
    \<and> (\<not> hasMaintenanceJob s \<and> next_candidate now snapshot s = Some (n, run) \<longrightarrow>
        (\<exists>e'. fst (dispatchManagedReconciliation queue now (mc_input (ce_calls env)) project snapshot s) = Inl e' \<and> KindOf e' = Transient
           \<and> (\<exists>t k. fst (handleCycleError delay path now e' rates s) = RetryAt t k Transient)))"
proof -
  let ?e = "Classified SupervisorFailure ''read webhook mailbox'' (Cause m)"
  let ?t = "Classified Transient ''reconcile GitHub input control'' (Cause m)"
  have "schedule_open cc env poll snapshot c = (Some ?e, c)"
    using assms single_comment [OF assms(3-6)] by (simp add: schedule_open_def ack_batch_def WrapFailure_def)
  moreover have "fst (handleCycleError delay path now ?e rates s) = BlockSupervisor SupervisorFailure (sch_consecutiveFailures s + 1)"
    by (simp add: handleCycleError_def cooldownFromError_def KindOf_def)
  moreover have "\<exists>t k. fst (handleCycleError delay path now ?t rates s) = RetryAt t k Transient"
    by (simp add: handleCycleError_def cooldownFromError_def KindOf_def Let_def)
  moreover have "fst (dispatchManagedReconciliation queue now (mc_input (ce_calls env)) project snapshot s) = Inl ?t"
    if "\<not> hasMaintenanceJob s" "next_candidate now snapshot s = Some (n, run)"
    using that assms(6) by (simp add: dispatchManagedReconciliation_def Let_def WrapFailure_def)
  moreover have "KindOf ?e = SupervisorFailure" "KindOf ?t = Transient" by (simp_all add: KindOf_def)
  ultimately show ?thesis by blast
qed

theorem comment_failure_blocks_supervisor_witness:
  "\<exists>e. schedule_open sample_cycle_config (sample_env\<lparr>ce_mailbox := Inr [sample_mail ''d-1'' ''issue_comment''],
      ce_calls := sample_calls\<lparr>mc_input := \<lambda>n. Some (Cause ''connection reset'')\<rparr>\<rparr>) False two_issues sample_cycle = (Some e, sample_cycle)
    \<and> KindOf e = SupervisorFailure"
proof -
  let ?env = "sample_env\<lparr>ce_mailbox := Inr [sample_mail ''d-1'' ''issue_comment''],
      ce_calls := sample_calls\<lparr>mc_input := \<lambda>n. Some (Cause ''connection reset'')\<rparr>\<rparr>"
  have "cc_Webhook sample_cycle_config" "ce_mailbox ?env = Inr [sample_mail ''d-1'' ''issue_comment'']"
    "whd_Event (sample_mail ''d-1'' ''issue_comment'') = ''issue_comment''" "whd_IssueNumber (sample_mail ''d-1'' ''issue_comment'') = 7"
    "(0::int) < 7" "mc_input (ce_calls ?env) 7 = Some (Cause ''connection reset'')"
    by (simp_all add: sample_cycle_config_def sample_mail_def)
  from comment_failure_blocks_supervisor [OF this] show ?thesis by blast
qed

end
