(* ===== verification/WebhookFacts.thy ===== *)
theory WebhookFacts
  imports WebhookBroker
begin

text \<open>
  The properties of the webhook broker: authenticity of what it accepts, at-least-once delivery through crashes, at-most-once
  routing while a receipt is kept, completion of an interrupted routing, and completeness of a sweep.
\<close>

section \<open>Authenticity\<close>

lemma body_untruncated: "int (length (take (nat (m + 1)) s)) \<le> m \<Longrightarrow> take (nat (m + 1)) s = s"
  by (auto simp: min_def split: if_splits)

lemma signature_facts:
  assumes "verifyAnySignature mac sx header body sources"
  obtains source secret where "source \<in> set sources" and "readSecret sx source = Some secret" and "secret \<noteq> ''''"
    and "HasPrefix header ''sha256=''" and "hex_decode (drop 7 header) = Some (mac secret body)"
  using assms by (auto simp: verifyAnySignature_def split: if_splits option.splits)

lemma targets_issue: "payloadTargetsValid event p \<Longrightarrow> event = ''issues'' \<or> event = ''issue_comment'' \<Longrightarrow> pay_IssueNumber p > 0"
  by (auto simp: payloadTargetsValid_def)

lemma targets_pull_request:
  "payloadTargetsValid ''pull_request'' p \<Longrightarrow> delivery_pr p > 0 \<and> commitSHAPattern (delivery_head p)"
  by (auto simp: payloadTargetsValid_def delivery_pr_def delivery_head_def Let_def commitSHAPattern_def)

lemma admit_Inr:
  assumes "admit_request mac sx decode regs names busy now r = Inr d"
  obtains limits body p reg where "hr_Method r = ''POST''" and "hr_Path r = ''/github/webhook''" and "\<not> busy"
    and "deliveryIDPattern (hr_Delivery r)" and "commonListener regs = Inr limits" and "hr_Body r = Some body"
    and "int (length body) \<le> wc_MaxBodyBytes limits" and "decode body = Some p"
    and "map_of names (ToLower (pay_FullName p)) = Some reg" and "reg_RepositoryID reg = pay_RepositoryID p"
    and "\<exists>actions. allowedActions (hr_Event r) = Some actions \<and> actionFor (hr_Event r) p \<in> set actions"
    and "installation_allowed (reg_Webhook reg) (hr_Event r) p"
    and "verifyAnySignature mac sx (hr_Signature r) body [wc_SecretSource (reg_Webhook reg), wc_PreviousSecret (reg_Webhook reg)]"
    and "payloadTargetsValid (hr_Event r) p" and "d = make_delivery reg (hr_Delivery r) (hr_Event r) p now"
proof -
  have first: "hr_Method r = ''POST''" "hr_Path r = ''/github/webhook''" "\<not> busy" "deliveryIDPattern (hr_Delivery r)"
    "allowedActions (hr_Event r) \<noteq> None"
    using assms unfolding admit_request_def by (auto simp del: commonListener_def split: if_splits)
  then obtain limits where limits: "commonListener regs = Inr limits"
    using assms unfolding admit_request_def by (auto split: if_splits sum.splits)
  obtain full where full: "hr_Body r = Some full"
    using assms first limits unfolding admit_request_def by (cases "hr_Body r") auto
  define body where "body = take (nat (wc_MaxBodyBytes limits + 1)) full"
  have short: "int (length body) \<le> wc_MaxBodyBytes limits"
    using assms first limits full unfolding admit_request_def by (auto simp: body_def split: if_splits)
  then have whole: "body = full" unfolding body_def by (rule body_untruncated)
  have rest: "(case decode body of None \<Rightarrow> Inl 400
          | Some p \<Rightarrow> (case map_of names (ToLower (pay_FullName p)) of
              None \<Rightarrow> Inl 403
            | Some reg \<Rightarrow>
              let w = reg_Webhook reg; event = hr_Event r in
              if reg_RepositoryID reg \<noteq> pay_RepositoryID p then Inl 403
              else if actionFor event p \<notin> set (the (allowedActions event)) then Inl 422
              else if \<not> installation_allowed w event p then Inl 403
              else if \<not> verifyAnySignature mac sx (hr_Signature r) body [wc_SecretSource w, wc_PreviousSecret w] then Inl 401
              else if \<not> payloadTargetsValid event p then Inl 422
              else Inr (make_delivery reg (hr_Delivery r) event p now))) = (Inr d :: int + Delivery)"
    using assms first limits full short unfolding admit_request_def by (simp flip: body_def)
  then obtain p where p: "decode body = Some p" by (cases "decode body") auto
  with rest obtain reg where reg: "map_of names (ToLower (pay_FullName p)) = Some reg"
    by (cases "map_of names (ToLower (pay_FullName p))") auto
  from rest p reg show ?thesis
    using that [OF first(1-4) limits full [folded whole] short p reg] first(5) by (auto simp: Let_def split: if_splits)
qed

text \<open>C27: The broker only accepts what a registered repository has signed. If a request is accepted, it was posted to the webhook path,
  its whole body, not longer than the limit, names a registered repository with the identity the registration has and an event and
  action that are allowed, it comes from an allowed installation, and its signature is the HMAC of that very body under a secret, not empty,
  that is configured for this repository. The delivery carries the identity of that repository and a usable target.\<close>

theorem webhook_is_authenticated:
  assumes "admit_request mac sx decode regs names busy now r = Inr d"
  shows "\<exists>limits body p reg source secret actions.
      hr_Method r = ''POST'' \<and> hr_Path r = ''/github/webhook'' \<and> commonListener regs = Inr limits
    \<and> hr_Body r = Some body \<and> int (length body) \<le> wc_MaxBodyBytes limits \<and> decode body = Some p
    \<and> map_of names (ToLower (pay_FullName p)) = Some reg \<and> reg_RepositoryID reg = pay_RepositoryID p
    \<and> allowedActions (hr_Event r) = Some actions \<and> actionFor (hr_Event r) p \<in> set actions
    \<and> installation_allowed (reg_Webhook reg) (hr_Event r) p
    \<and> source \<in> {wc_SecretSource (reg_Webhook reg), wc_PreviousSecret (reg_Webhook reg)}
    \<and> readSecret sx source = Some secret \<and> secret \<noteq> '''' \<and> hex_decode (drop 7 (hr_Signature r)) = Some (mac secret body)
    \<and> whd_RepoID d = reg_RepoID reg \<and> whd_RepositoryID d = reg_RepositoryID reg \<and> whd_DeliveryID d = hr_Delivery r
    \<and> deliveryIDPattern (whd_DeliveryID d) \<and> whd_RoutedAt d = 0
    \<and> (hr_Event r \<in> {''issues'', ''issue_comment''} \<longrightarrow> whd_IssueNumber d > 0)
    \<and> (hr_Event r = ''pull_request'' \<longrightarrow> whd_PullRequestNumber d > 0 \<and> commitSHAPattern (whd_HeadSHA d))"
proof -
  from assms obtain limits body p reg where f: "hr_Method r = ''POST''" "hr_Path r = ''/github/webhook''"
    "deliveryIDPattern (hr_Delivery r)" "commonListener regs = Inr limits" "hr_Body r = Some body"
    "int (length body) \<le> wc_MaxBodyBytes limits" "decode body = Some p"
    "map_of names (ToLower (pay_FullName p)) = Some reg" "reg_RepositoryID reg = pay_RepositoryID p"
    and actions: "\<exists>actions. allowedActions (hr_Event r) = Some actions \<and> actionFor (hr_Event r) p \<in> set actions"
    and inst: "installation_allowed (reg_Webhook reg) (hr_Event r) p"
    and sig: "verifyAnySignature mac sx (hr_Signature r) body [wc_SecretSource (reg_Webhook reg), wc_PreviousSecret (reg_Webhook reg)]"
    and targets: "payloadTargetsValid (hr_Event r) p" and d: "d = make_delivery reg (hr_Delivery r) (hr_Event r) p now"
    by (rule admit_Inr)
  from sig obtain source secret where s: "source \<in> {wc_SecretSource (reg_Webhook reg), wc_PreviousSecret (reg_Webhook reg)}"
    "readSecret sx source = Some secret" "secret \<noteq> ''''" "hex_decode (drop 7 (hr_Signature r)) = Some (mac secret body)"
    by (rule signature_facts) auto
  have fields: "whd_RepoID d = reg_RepoID reg" "whd_RepositoryID d = reg_RepositoryID reg" "whd_DeliveryID d = hr_Delivery r"
    "whd_RoutedAt d = 0" "whd_IssueNumber d = pay_IssueNumber p" "whd_PullRequestNumber d = delivery_pr p" "whd_HeadSHA d = delivery_head p"
    using f(9) by (simp_all add: d make_delivery_def)
  from actions obtain actions where a: "allowedActions (hr_Event r) = Some actions" "actionFor (hr_Event r) p \<in> set actions" by blast
  have "hr_Event r \<in> {''issues'', ''issue_comment''} \<longrightarrow> whd_IssueNumber d > 0"
    using targets_issue [OF targets] fields(5) by (simp only: insert_iff empty_iff) simp
  moreover have "hr_Event r = ''pull_request'' \<longrightarrow> whd_PullRequestNumber d > 0 \<and> commitSHAPattern (whd_HeadSHA d)"
    using targets targets_pull_request [of p] unfolding fields(6,7) by auto
  moreover have "deliveryIDPattern (whd_DeliveryID d)" using f(3) fields(3) by (simp only:)
  ultimately show ?thesis
    using f(1,2,4-9) a inst s fields(1-4) by (intro exI conjI) assumption+
qed

definition sample_webhook :: WebhookConfig where
  "sample_webhook = \<lparr>wc_Mode = ''webhook'', wc_ListenerAddress = ''127.0.0.1:8080'',
     wc_SecretSource = \<lparr>sec_Env = ''SECRET'', sec_File = ''''\<rparr>, wc_PreviousSecret = \<lparr>sec_Env = '''', sec_File = ''''\<rparr>,
     wc_InstallationIDs = [5], wc_AllowRepositoryHook = False, wc_MaxBodyBytes = 100, wc_ReadTimeout = 1, wc_ReadHeaderTimeout = 1,
     wc_IdleTimeout = 1, wc_MaxConcurrent = 2\<rparr>"

definition sample_registration :: Registration where
  "sample_registration = \<lparr>reg_RepoID = ''r1'', reg_Repo = ''o/r'', reg_RepositoryID = 9, reg_Webhook = sample_webhook\<rparr>"

definition sample_payload :: payloadEnvelope where
  "sample_payload = \<lparr>pay_Action = ''opened'', pay_RepositoryID = 9, pay_FullName = ''O/R'', pay_InstallationID = 5, pay_IssueNumber = 7,
     pay_PullRequestNumber = 0, pay_PullRequestHead = '''', pay_CheckRunHead = '''', pay_CheckRunPullRequests = [],
     pay_WorkflowRunHead = '''', pay_WorkflowRunPullRequests = [], pay_SHA = '''', pay_State = ''''\<rparr>"

definition sample_secrets :: Secrets where
  "sample_secrets = \<lparr>env_lookup = (\<lambda>n. Some ''key''), file_lookup = (\<lambda>n. None)\<rparr>"

definition sample_mac :: "string \<Rightarrow> string \<Rightarrow> string" where
  "sample_mac secret body = take 32 (secret @ body @ replicate 32 CHR ''a'')"

text \<open>The request is signed: \<open>6b6579\<close>, \<open>7b\<close> and \<open>7d\<close> are the bytes of the key and of the body.\<close>

definition sample_request :: HookRequest where
  "sample_request = \<lparr>hr_Method = ''POST'', hr_Path = ''/github/webhook'', hr_Delivery = ''d-1'', hr_Event = ''issues'',
     hr_Signature = ''sha256=6b65797b7d'' @ concat (replicate 27 ''61''), hr_Body = Some ''{}''\<rparr>"

definition sample_delivery :: Delivery where
  "sample_delivery = \<lparr>whd_Version = 1, whd_DeliveryID = ''d-1'', whd_Event = ''issues'', whd_Action = ''opened'', whd_RepoID = ''r1'',
     whd_RepositoryID = 9, whd_Repository = ''o/r'', whd_InstallationID = 5, whd_IssueNumber = 7, whd_PullRequestNumber = 0,
     whd_HeadSHA = '''', whd_AcceptedAt = 30, whd_RoutedAt = 0\<rparr>"

lemma sample_admitted:
  "admit_request sample_mac sample_secrets (\<lambda>body. Some sample_payload) [sample_registration] [(''o/r'', sample_registration)] False 30
     sample_request = Inr sample_delivery"
  by code_simp

theorem webhook_is_authenticated_witness:
  "\<exists>secret. secret \<noteq> '''' \<and> hex_decode (drop 7 (hr_Signature sample_request)) = Some (sample_mac secret ''{}'')"
proof -
  have "hr_Body sample_request = Some ''{}''" by (simp add: sample_request_def)
  with webhook_is_authenticated [OF sample_admitted] show ?thesis by (elim exE conjE) (intro exI conjI, assumption, simp)
qed

section \<open>No delivery is lost\<close>

datatype broker_event =
    Received Delivery
  | Routed string
  | Acknowledged string "string list"
  | Compacted
  | Migrated
  | Enqueued string Delivery
  | Counted

text \<open>The steps of the broker and of the scheduler that reads its mailbox. Routing, compaction and migration may stop after any of
  their disk operations, at a failure or a crash. A received delivery has not been routed.\<close>

inductive broker_step :: "(string \<times> Registration) list \<Rightarrow> Broker \<Rightarrow> broker_event \<Rightarrow> Broker \<Rightarrow> bool" for names where
  received: "whd_RoutedAt d = 0 \<Longrightarrow> broker_step names b (Received d) (snd (appendInbox d b))"
| routed: "broker_step names b (Routed i) (run_broker_ops (take k (route_ops names now i b)) b)"
| acknowledged: "broker_step names b (Acknowledged repo (map whd_DeliveryID ds)) (AckMailbox repo ds b)"
| compacted: "broker_step names b Compacted (run_broker_ops (take k (compact_ops now b)) b)"
| migrated: "broker_step names b Migrated (run_broker_ops (take k (migrate_ops now b)) b)"
| enqueued: "EnqueueMailbox repo d b = Inr b' \<Longrightarrow> broker_step names b (Enqueued repo d) b'"
| counted: "broker_step names b Counted (b\<lparr>bk_status := st\<rparr>)"

inductive_cases received_cases: "broker_step names b (Received d) t"
inductive_cases enqueued_cases: "broker_step names b (Enqueued repo d) t"

text \<open>Operations that do not concern a delivery leave what is stored of it alone.\<close>

fun op_id :: "broker_op \<Rightarrow> string" where
  "op_id (PutInbox i d) = i" | "op_id (DropInbox i) = i" | "op_id (PutMailbox repo i d) = i" | "op_id (PutReceipt i d now) = i"
| "op_id (DropReceipt i) = i" | "op_id (MoveToQuarantine i) = i"

definition at_rest :: "string \<Rightarrow> Broker \<Rightarrow> Delivery option option \<times> (Delivery \<times> time) option \<times> (string \<Rightarrow> Delivery option)" where
  "at_rest i b = (map_of (bk_inbox b) i, map_of (bk_receipts b) i, \<lambda>repo. map_of (bk_mailbox b) (repo, i))"

lemma op_frame: "op_id op \<noteq> i \<Longrightarrow> at_rest i (run_broker_op op b) = at_rest i b"
  by (cases op) (auto simp: at_rest_def update_lookup delete_lookup split: option.split)

lemma ops_frame: "\<forall>op \<in> set ops. op_id op \<noteq> i \<Longrightarrow> at_rest i (run_broker_ops ops b) = at_rest i b"
  by (induction ops arbitrary: b) (simp_all add: run_broker_ops_def op_frame)

text \<open>The inbox is keyed by delivery.\<close>

definition inbox_keyed :: "Broker \<Rightarrow> bool" where
  "inbox_keyed b \<longleftrightarrow> distinct (map fst (bk_inbox b)) \<and> (\<forall>i d. map_of (bk_inbox b) i = Some (Some d) \<longrightarrow> whd_DeliveryID d = i)"

fun op_keyed :: "broker_op \<Rightarrow> bool" where
  "op_keyed (PutInbox i d) = (whd_DeliveryID d = i)" | "op_keyed op = True"

lemma keyed_delete: "inbox_keyed b \<Longrightarrow> inbox_keyed (b\<lparr>bk_inbox := AList.delete i (bk_inbox b), bk_quarantine := q\<rparr>)"
  unfolding inbox_keyed_def by (simp add: delete_lookup distinct_delete)

lemma keyed_op: "inbox_keyed b \<Longrightarrow> op_keyed op \<Longrightarrow> inbox_keyed (run_broker_op op b)"
proof (cases op)
  case (MoveToQuarantine i)
  assume "inbox_keyed b"
  with keyed_delete MoveToQuarantine show ?thesis by (cases "map_of (bk_inbox b) i") simp_all
qed (auto simp: inbox_keyed_def update_lookup delete_lookup distinct_update distinct_delete split: if_splits)

lemma keyed_ops: "inbox_keyed b \<Longrightarrow> \<forall>op \<in> set ops. op_keyed op \<Longrightarrow> inbox_keyed (run_broker_ops ops b)"
  by (induction ops arbitrary: b) (simp_all add: run_broker_ops_def keyed_op)

lemma route_keyed: "op \<in> set (route_ops names now i b) \<Longrightarrow> op_keyed op"
  by (auto simp: route_ops_def split: if_splits option.splits)

lemma compact_drops: "op \<in> set (compact_ops now b) \<Longrightarrow> \<exists>i. op = DropReceipt i"
  by (auto simp: compact_ops_def Let_def split: if_splits dest!: in_set_takeD)

lemma migrate_op: "op \<in> set (migrate_ops now b) \<Longrightarrow> \<exists>i d. (i, Some d) \<in> set (bk_inbox b) \<and> whd_RoutedAt d \<noteq> 0 \<and> (op = PutReceipt i d now \<or> op = DropInbox i)"
  by (auto simp: migrate_ops_def split: option.splits if_splits)

lemma step_keyed: "broker_step names b e t \<Longrightarrow> inbox_keyed b \<Longrightarrow> inbox_keyed t"
proof (induction rule: broker_step.induct)
  case (received d b)
  then show ?case by (auto simp: appendInbox_def simp del: run_broker_op.simps intro: keyed_op)
next
  case (routed b i k now)
  then show ?case by (auto intro!: keyed_ops dest: in_set_takeD route_keyed)
next
  case (compacted b k now)
  then show ?case by (auto intro!: keyed_ops dest!: in_set_takeD compact_drops)
next
  case (migrated b k now)
  then show ?case by (auto intro!: keyed_ops dest!: in_set_takeD migrate_op)
next
  case (enqueued repo d b b')
  then show ?case by (auto simp: EnqueueMailbox_def inbox_keyed_def split: option.splits if_splits)
qed (auto simp: AckMailbox_def inbox_keyed_def)

text \<open>What identifies the intent of a delivery: everything but the times.\<close>

definition intent :: "Delivery \<Rightarrow> Delivery" where
  "intent d = d\<lparr>whd_AcceptedAt := 0, whd_RoutedAt := 0\<rparr>"

lemma intent_fields: "intent x = intent d \<Longrightarrow> whd_DeliveryID x = whd_DeliveryID d \<and> whd_RepoID x = whd_RepoID d
    \<and> whd_Repository x = whd_Repository d \<and> whd_RepositoryID x = whd_RepositoryID d"
  by (cases x; cases d) (simp add: intent_def)

lemma intent_addressed: "intent x = intent d \<Longrightarrow> addressed names x = addressed names d"
  using intent_fields [of x d] unfolding addressed_def by (auto split: option.splits)

text \<open>A delivery is carried when it waits in the inbox, not routed, or is in the mailbox of its repository; whatever has its
  identifier in the inbox has its intent.\<close>

definition carries_at :: "Delivery \<Rightarrow> Delivery option option \<times> (Delivery \<times> time) option \<times> (string \<Rightarrow> Delivery option) \<Rightarrow> bool" where
  "carries_at d = (\<lambda>(inbox, receipt, mailbox).
     (\<forall>content. inbox = Some content \<longrightarrow> (\<exists>x. content = Some x \<and> intent x = intent d \<and> whd_RoutedAt x = 0))
     \<and> (inbox \<noteq> None \<and> receipt = None \<or> (\<exists>x. mailbox (whd_RepoID d) = Some x \<and> intent x = intent d)))"

definition carried :: "(string \<times> Registration) list \<Rightarrow> Delivery \<Rightarrow> Broker \<Rightarrow> bool" where
  "carried names d b \<longleftrightarrow> addressed names d \<and> inbox_keyed b \<and> carries_at d (at_rest (whd_DeliveryID d) b)"

text \<open>The scheduler acknowledges a delivery, and GitHub does not use the identifier of a delivery for another.\<close>

fun lets_go :: "Delivery \<Rightarrow> broker_event \<Rightarrow> bool" where
  "lets_go d (Acknowledged repo ids) = (repo = whd_RepoID d \<and> whd_DeliveryID d \<in> set ids)"
| "lets_go d (Received x) = (whd_DeliveryID x = whd_DeliveryID d \<and> intent x \<noteq> intent d)"
| "lets_go d e = False"

lemma take_route: "set (take k ops) \<subseteq> set ops"
  by (rule set_take_subset)

lemma route_other:
  assumes "inbox_keyed b" and "i \<noteq> j"
  shows "at_rest j (run_broker_ops (take k (route_ops names now i b)) b) = at_rest j b"
proof (rule ops_frame)
  show "\<forall>op \<in> set (take k (route_ops names now i b)). op_id op \<noteq> j"
    using assms by (auto dest!: in_set_takeD simp: route_ops_def inbox_keyed_def split: if_splits option.splits)
qed

lemma route_carries:
  assumes "addressed names d" and "inbox_keyed b" and "carries_at d (at_rest (whd_DeliveryID d) b)"
  shows "carries_at d (at_rest (whd_DeliveryID d) (run_broker_ops (take k (route_ops names now (whd_DeliveryID d) b)) b))"
proof (cases "map_of (bk_inbox b) (whd_DeliveryID d)")
  case None
  then show ?thesis using assms(3)
    by (cases "map_of (bk_receipts b) (whd_DeliveryID d)"; cases k)
      (auto simp: route_ops_def carries_at_def at_rest_def run_broker_ops_def delete_lookup)
next
  case (Some content)
  with assms(3) obtain x where x: "content = Some x" "intent x = intent d" "whd_RoutedAt x = 0"
    by (auto simp: carries_at_def at_rest_def)
  have ids: "whd_DeliveryID x = whd_DeliveryID d" "whd_RepoID x = whd_RepoID d" "addressed names x"
    using intent_fields [OF x(2)] intent_addressed [OF x(2)] assms(1) by simp_all
  show ?thesis
  proof (cases "map_of (bk_receipts b) (whd_DeliveryID d)")
    case None
    consider "k = 0" | "k = 1" | "k = 2" | "k \<ge> 3" by linarith
    then show ?thesis
      using assms(3) Some None x ids
      by cases (auto simp: route_ops_def carries_at_def at_rest_def run_broker_ops_def delete_lookup update_lookup take_Cons' numeral_2_eq_2)
  next
    case r: (Some receipt)
    then show ?thesis using assms(3) Some x
      by (cases k) (auto simp: route_ops_def carries_at_def at_rest_def run_broker_ops_def delete_lookup)
  qed
qed

lemma drop_receipts_carries:
  "carries_at d (at_rest i b) \<Longrightarrow> \<forall>op \<in> set ops. \<exists>j. op = DropReceipt j \<Longrightarrow> carries_at d (at_rest i (run_broker_ops ops b))"
proof (induction ops arbitrary: b)
  case (Cons op ops)
  then obtain j where "op = DropReceipt j" by auto
  with Cons.prems(1) have "carries_at d (at_rest i (run_broker_op op b))"
    by (auto simp: carries_at_def at_rest_def delete_lookup)
  with Cons show ?case by (simp add: run_broker_ops_def)
qed (simp add: run_broker_ops_def)

lemma migrate_other:
  assumes "inbox_keyed b" and "carries_at d (at_rest i b)"
  shows "at_rest i (run_broker_ops (take k (migrate_ops now b)) b) = at_rest i b"
proof (rule ops_frame)
  show "\<forall>op \<in> set (take k (migrate_ops now b)). op_id op \<noteq> i"
    using assms by (auto dest!: in_set_takeD migrate_op simp: carries_at_def at_rest_def inbox_keyed_def)
qed

lemma fold_delete: "map_of (fold (\<lambda>d. AList.delete (repo, f d)) ds es) k = (if k \<in> (\<lambda>d. (repo, f d)) ` set ds then None else map_of es k)"
  by (induction ds arbitrary: es) (auto simp: delete_lookup)

lemma step_carries:
  assumes "broker_step names b e t" and "carried names d b" and "\<not> lets_go d e"
  shows "carried names d t"
proof -
  let ?i = "whd_DeliveryID d"
  have keyed: "inbox_keyed b" "inbox_keyed t" and addr: "addressed names d" and c: "carries_at d (at_rest ?i b)"
    using assms step_keyed by (auto simp: carried_def)
  have "carries_at d (at_rest ?i t)"
    using assms(1)
  proof cases
    case (received x)
    then show ?thesis using c assms(3) by (auto simp: appendInbox_def carries_at_def at_rest_def update_lookup split: if_splits)
  next
    case (routed i k now)
    then show ?thesis using c keyed addr route_carries route_other by (cases "i = ?i") simp_all
  next
    case (acknowledged repo ds)
    have "(whd_RepoID d, ?i) \<notin> (\<lambda>x. (repo, whd_DeliveryID x)) ` set ds"
      using assms(3) acknowledged(1) by (auto simp: image_iff)
    then have "map_of (bk_mailbox t) (whd_RepoID d, ?i) = map_of (bk_mailbox b) (whd_RepoID d, ?i)"
      unfolding acknowledged(2) AckMailbox_def by (simp add: fold_delete)
    moreover have "bk_inbox t = bk_inbox b" "bk_receipts t = bk_receipts b" using acknowledged by (simp_all add: AckMailbox_def)
    ultimately show ?thesis using c by (simp add: carries_at_def at_rest_def)
  next
    case (compacted k now)
    then show ?thesis using c by (auto intro!: drop_receipts_carries dest!: in_set_takeD compact_drops)
  next
    case (migrated k now)
    then show ?thesis using c keyed migrate_other by simp
  next
    case (enqueued repo x)
    then show ?thesis using c by (auto simp: EnqueueMailbox_def carries_at_def at_rest_def update_lookup split: option.splits if_splits)
  next
    case (counted st)
    then show ?thesis using c by (simp add: at_rest_def)
  qed
  with keyed addr show ?thesis by (simp add: carried_def)
qed

interpretation carriage: obligation "broker_step names" "carried names d" "lets_go d" for names d
  by unfold_locales (rule step_carries)

text \<open>C26: An accepted delivery is never lost. From the moment it is in the inbox of a broker that knows its repository, through any
  sequence of deliveries, routings, compactions, migrations and sweeps, each of which may be interrupted after any of its disk operations and
  repeated, it waits in the inbox or in the mailbox of its repository until the scheduler has acknowledged it there.\<close>

theorem accepted_delivery_is_never_lost:
  assumes "inbox_keyed b" and "addressed names d" and "whd_RoutedAt d = 0" and "appendInbox d b = (True, b')"
    and "steps (broker_step names) b' es t" and "\<forall>e \<in> set es. \<not> lets_go d e"
  shows "(\<exists>x. map_of (bk_inbox t) (whd_DeliveryID d) = Some (Some x) \<and> intent x = intent d)
    \<or> (\<exists>x. map_of (bk_mailbox t) (whd_RepoID d, whd_DeliveryID d) = Some x \<and> intent x = intent d)"
proof -
  have b': "b' = snd (appendInbox d b)" and received: "map_of (bk_receipts b) (whd_DeliveryID d) = None"
    using assms(4) by (simp_all add: appendInbox_def del: not_None_eq split: if_splits)
  have "inbox_keyed b'" using step_keyed [OF broker_step.received [OF assms(3)] assms(1)] b' by simp
  then have "carried names d b'"
    using assms(2-4) received by (auto simp: carried_def carries_at_def at_rest_def appendInbox_def update_lookup split: if_splits)
  then have "carried names d t" using carriage.kept_through [OF assms(5)] assms(6) by blast
  then show ?thesis by (auto simp: carried_def carries_at_def at_rest_def)
qed

definition empty_status :: BrokerStatus where
  "empty_status = \<lparr>bs_LastAcceptedDelivery = '''', bs_LastAcceptedAt = 0, bs_QueueDepth = 0, bs_Quarantined = 0, bs_Accepted = 0,
     bs_Duplicates = 0, bs_Rejected = 0, bs_LastSuccessfulSafetySweep = 0, bs_NotModified304 = 0, bs_UpdatedAt = 0\<rparr>"

definition empty_broker :: Broker where
  "empty_broker = \<lparr>bk_inbox = [], bk_receipts = [], bk_quarantine = [], bk_mailbox = [], bk_status = empty_status\<rparr>"

definition waiting_broker :: Broker where
  "waiting_broker = \<lparr>bk_inbox = [(''d-1'', Some sample_delivery)], bk_receipts = [], bk_quarantine = [], bk_mailbox = [], bk_status = empty_status\<rparr>"

lemma sample_names: "addressed [(''o/r'', sample_registration)] sample_delivery"
  by code_simp

lemma sample_appended: "appendInbox sample_delivery empty_broker = (True, waiting_broker)"
  by (simp add: appendInbox_def empty_broker_def waiting_broker_def sample_delivery_def)

lemma empty_keyed: "inbox_keyed empty_broker" "inbox_keyed waiting_broker"
  by (simp_all add: inbox_keyed_def empty_broker_def waiting_broker_def sample_delivery_def)

theorem accepted_delivery_is_never_lost_witness:
  "\<exists>t. steps (broker_step [(''o/r'', sample_registration)]) waiting_broker [Routed ''d-1'', Routed ''d-1'', Compacted] t
    \<and> ((\<exists>x. map_of (bk_inbox t) ''d-1'' = Some (Some x) \<and> intent x = intent sample_delivery)
      \<or> (\<exists>x. map_of (bk_mailbox t) (''r1'', ''d-1'') = Some x \<and> intent x = intent sample_delivery))"
proof -
  let ?names = "[(''o/r'', sample_registration)]"
  let ?b1 = "run_broker_ops (take 2 (route_ops ?names 31 ''d-1'' waiting_broker)) waiting_broker"
  let ?b2 = "run_broker_ops (take 1 (route_ops ?names 32 ''d-1'' ?b1)) ?b1"
  let ?t = "run_broker_ops (take 9 (compact_ops 33 ?b2)) ?b2"
  have s: "broker_step ?names waiting_broker (Routed ''d-1'') ?b1" "broker_step ?names ?b1 (Routed ''d-1'') ?b2" "broker_step ?names ?b2 Compacted ?t"
    by (rule broker_step.routed, rule broker_step.routed, rule broker_step.compacted)
  have run: "steps (broker_step ?names) waiting_broker [Routed ''d-1'', Routed ''d-1'', Compacted] ?t"
    using steps_snoc [where step = "broker_step ?names", OF steps_snoc [where step = "broker_step ?names",
      OF steps_snoc [where step = "broker_step ?names", OF steps_Nil s(1)] s(2)] s(3)] by (simp only: append.simps)
  have "whd_RoutedAt sample_delivery = 0" "\<forall>e \<in> set [Routed ''d-1'', Routed ''d-1'', Compacted]. \<not> lets_go sample_delivery e"
    by (simp_all add: sample_delivery_def)
  from accepted_delivery_is_never_lost [OF empty_keyed(1) sample_names this(1) sample_appended run this(2)] run
  show ?thesis by (intro exI [of _ ?t]) (simp add: sample_delivery_def)
qed

section \<open>Every delivery is routed once\<close>

text \<open>A delivery that has its receipt, and is not in a mailbox.\<close>

definition settled_at :: "string \<Rightarrow> Delivery option option \<times> (Delivery \<times> time) option \<times> (string \<Rightarrow> Delivery option) \<Rightarrow> bool" where
  "settled_at repo = (\<lambda>(inbox, receipt, mailbox). receipt \<noteq> None \<and> mailbox repo = None)"

fun reopens :: "string \<Rightarrow> string \<Rightarrow> broker_event \<Rightarrow> bool" where
  "reopens repo i Compacted = True"
| "reopens repo i (Enqueued r d) = (r = repo \<and> whd_DeliveryID d = i)"
| "reopens repo i e = False"

fun unsettles :: "string \<Rightarrow> string \<Rightarrow> broker_op \<Rightarrow> bool" where
  "unsettles repo i (PutMailbox r j d) = (r = repo \<and> j = i)"
| "unsettles repo i (DropReceipt j) = (j = i)"
| "unsettles repo i op = False"

lemma settled_ops:
  "settled_at repo (at_rest i b) \<Longrightarrow> \<forall>op \<in> set ops. \<not> unsettles repo i op \<Longrightarrow> settled_at repo (at_rest i (run_broker_ops ops b))"
proof (induction ops arbitrary: b)
  case (Cons op ops)
  have "settled_at repo (at_rest i (run_broker_op op b))"
    using Cons.prems by (cases op) (auto simp: settled_at_def at_rest_def update_lookup delete_lookup split: option.split)
  with Cons show ?case by (simp add: run_broker_ops_def)
qed (simp add: run_broker_ops_def)

lemma step_settled:
  assumes "broker_step names b e t" and "inbox_keyed b \<and> settled_at repo (at_rest i b)" and "\<not> reopens repo i e"
  shows "inbox_keyed t \<and> settled_at repo (at_rest i t)"
proof -
  have keyed: "inbox_keyed b" "inbox_keyed t" and st: "settled_at repo (at_rest i b)" using assms step_keyed by auto
  have "settled_at repo (at_rest i t)"
    using assms(1)
  proof cases
    case (received d)
    then show ?thesis using st by (auto simp: appendInbox_def settled_at_def at_rest_def)
  next
    case (routed j k now)
    have "\<not> unsettles repo i op" if "op \<in> set (route_ops names now j b)" for op
      using that st keyed(1) by (auto simp: route_ops_def settled_at_def at_rest_def inbox_keyed_def split: if_splits option.splits)
    then show ?thesis using routed st by (auto intro!: settled_ops dest: in_set_takeD)
  next
    case (acknowledged r ds)
    then show ?thesis using st by (simp add: AckMailbox_def settled_at_def at_rest_def fold_delete)
  next
    case (compacted k now)
    then show ?thesis using assms(3) by simp
  next
    case (migrated k now)
    then show ?thesis using st by (auto intro!: settled_ops dest!: in_set_takeD migrate_op)
  next
    case (enqueued r d)
    then show ?thesis using st assms(3)
      by (auto simp: EnqueueMailbox_def settled_at_def at_rest_def update_lookup split: option.splits if_splits)
  next
    case (counted s)
    then show ?thesis using st by (simp add: at_rest_def)
  qed
  with keyed show ?thesis by blast
qed

interpretation settlement: obligation "broker_step names" "\<lambda>b. inbox_keyed b \<and> settled_at repo (at_rest i b)" "reopens repo i" for names repo i
  by unfold_locales (rule step_settled)

text \<open>A delivery is routed once. When it has its receipt and the scheduler has acknowledged it, no redelivery by GitHub, replay, restart or
  acknowledgement brings it back to the mailbox, and a redelivery is reported as a duplicate, for as long as its receipt is kept:
  only a compaction may end this.\<close>

theorem delivery_is_routed_once:
  assumes "steps (broker_step names) b es t" and "inbox_keyed b" and "map_of (bk_receipts b) i \<noteq> None"
    and "map_of (bk_mailbox b) (repo, i) = None" and "\<forall>e \<in> set es. \<not> reopens repo i e"
  shows "map_of (bk_mailbox t) (repo, i) = None \<and> (whd_DeliveryID d = i \<longrightarrow> appendInbox d t = (False, t))"
proof -
  have "inbox_keyed b \<and> settled_at repo (at_rest i b)" using assms(2-4) by (simp add: settled_at_def at_rest_def)
  from settlement.kept_through [OF assms(1) this assms(5)]
  show ?thesis by (auto simp: settled_at_def at_rest_def appendInbox_def)
qed

theorem delivery_is_routed_once_witness:
  "map_of (bk_mailbox (empty_broker\<lparr>bk_receipts := [(''d-1'', sample_delivery, 31)]\<rparr>)) (''r1'', ''d-1'') = None
    \<and> appendInbox sample_delivery (empty_broker\<lparr>bk_receipts := [(''d-1'', sample_delivery, 31)]\<rparr>)
      = (False, empty_broker\<lparr>bk_receipts := [(''d-1'', sample_delivery, 31)]\<rparr>)"
proof -
  let ?b = "empty_broker\<lparr>bk_receipts := [(''d-1'', sample_delivery, 31)]\<rparr>"
  have "broker_step [(''o/r'', sample_registration)] ?b (Received sample_delivery) (snd (appendInbox sample_delivery ?b))"
    by (rule broker_step.received) (simp add: sample_delivery_def)
  moreover have "snd (appendInbox sample_delivery ?b) = ?b" by (simp add: appendInbox_def sample_delivery_def)
  ultimately have "steps (broker_step [(''o/r'', sample_registration)]) ?b ([] @ [Received sample_delivery]) ?b"
    using steps_snoc [OF steps_Nil] by metis
  then have run: "steps (broker_step [(''o/r'', sample_registration)]) ?b [Received sample_delivery] ?b" by simp
  have "inbox_keyed ?b" "map_of (bk_receipts ?b) ''d-1'' \<noteq> None" "map_of (bk_mailbox ?b) (''r1'', ''d-1'') = None"
    by (simp_all add: inbox_keyed_def empty_broker_def)
  from delivery_is_routed_once [OF run this, of sample_delivery] show ?thesis by (simp add: sample_delivery_def)
qed

section \<open>Interrupted routing\<close>

lemma route_full:
  assumes "map_of (bk_receipts b) i = None" and "map_of (bk_inbox b) i = Some (Some d)" and "addressed names d"
  shows "route_ops names now i b = [PutMailbox (whd_RepoID d) (whd_DeliveryID d) d, PutReceipt i (d\<lparr>whd_RoutedAt := now\<rparr>) now, DropInbox i]"
  using assms by (simp add: route_ops_def)

lemma refresh_rest: "at_rest j (refreshDepth now b) = at_rest j b" "bk_quarantine (refreshDepth now b) = bk_quarantine b"
  by (simp_all add: refreshDepth_def at_rest_def)

text \<open>An interrupted routing is completed by the next one. After a failure or crash anywhere in the routing of a delivery, routing it again
  leaves it in the mailbox of its repository, with a receipt and out of the inbox, and nothing else has changed.\<close>

theorem interrupted_routing_completes:
  assumes "map_of (bk_inbox b) i = Some (Some d)" and "whd_DeliveryID d = i" and "addressed names d" and "map_of (bk_receipts b) i = None"
  shows "at_rest j (route names later i (run_broker_ops (take k (route_ops names now i b)) b)) =
      (if j \<noteq> i then at_rest j b
       else (None, Some (d\<lparr>whd_RoutedAt := (if k < 2 then later else now)\<rparr>, (if k < 2 then later else now)),
         (\<lambda>repo. map_of (bk_mailbox b) (repo, i))(whd_RepoID d := Some d)))
    \<and> bk_quarantine (route names later i (run_broker_ops (take k (route_ops names now i b)) b)) = bk_quarantine b"
proof -
  let ?b1 = "run_broker_ops (take k (route_ops names now i b)) b"
  consider "k = 0" | "k = 1" | "k = 2" | "k \<ge> 3" by linarith
  then show ?thesis
  proof cases
    case 1
    then show ?thesis unfolding route_def refresh_rest
      using assms by (auto simp: route_full run_broker_ops_def at_rest_def update_lookup delete_lookup fun_eq_iff)
  next
    case 2
    let ?c = "run_broker_op (PutMailbox (whd_RepoID d) i d) b"
    have "?b1 = ?c" using 2 assms by (simp add: route_full run_broker_ops_def)
    moreover have "route_ops names later i ?c = [PutMailbox (whd_RepoID d) i d, PutReceipt i (d\<lparr>whd_RoutedAt := later\<rparr>) later, DropInbox i]"
      using assms by (simp add: route_ops_def)
    ultimately show ?thesis unfolding route_def refresh_rest
      using 2 assms by (auto simp: run_broker_ops_def at_rest_def update_lookup delete_lookup fun_eq_iff)
  next
    case 3
    let ?c = "run_broker_ops [PutMailbox (whd_RepoID d) i d, PutReceipt i (d\<lparr>whd_RoutedAt := now\<rparr>) now] b"
    have "?b1 = ?c" using 3 assms by (simp add: route_full numeral_2_eq_2)
    moreover have "route_ops names later i ?c = [DropInbox i]" by (simp add: route_ops_def run_broker_ops_def update_lookup)
    ultimately show ?thesis unfolding route_def refresh_rest
      using 3 assms by (auto simp: run_broker_ops_def at_rest_def update_lookup delete_lookup fun_eq_iff)
  next
    case 4
    let ?c = "run_broker_ops [PutMailbox (whd_RepoID d) i d, PutReceipt i (d\<lparr>whd_RoutedAt := now\<rparr>) now, DropInbox i] b"
    have "?b1 = ?c" using 4 assms by (simp add: route_full)
    moreover have "route_ops names later i ?c = [DropInbox i]" by (simp add: route_ops_def run_broker_ops_def update_lookup)
    ultimately show ?thesis unfolding route_def refresh_rest
      using 4 assms by (auto simp: run_broker_ops_def at_rest_def update_lookup delete_lookup fun_eq_iff)
  qed
qed

theorem interrupted_routing_completes_witness:
  "fst (at_rest ''d-1'' (route [(''o/r'', sample_registration)] 40 ''d-1''
      (run_broker_ops (take 1 (route_ops [(''o/r'', sample_registration)] 31 ''d-1'' waiting_broker)) waiting_broker))) = None"
proof -
  have "map_of (bk_inbox waiting_broker) ''d-1'' = Some (Some sample_delivery)" "whd_DeliveryID sample_delivery = ''d-1''"
    "map_of (bk_receipts waiting_broker) ''d-1'' = None"
    by (simp_all add: waiting_broker_def sample_delivery_def)
  from interrupted_routing_completes [OF this(1,2) sample_names this(3), of "''d-1''" 40 1 31] show ?thesis by simp
qed

section \<open>Sweeps\<close>

lemma set_update_subset: "set (AList.update k v es) \<subseteq> insert (k, v) (set es)"
  by (induction es) auto

lemma compose_update:
  "set (composeSweepIssues (AList.update page p pages)) \<subseteq> set (composeSweepIssues pages) \<union> gh_Number ` set (sp_Issues p)"
  using set_update_subset [of page p pages] by (fastforce simp: composeSweepIssues_def)

lemma map_of_issues: "map_of pages page = Some p \<Longrightarrow> gh_Number ` set (sp_Issues p) \<subseteq> set (composeSweepIssues pages)"
  by (drule map_of_SomeD) (force simp: composeSweepIssues_def)

lemma page_reports:
  assumes "sweep_page page r st = (st', cached, listed)"
  shows "set (composeSweepIssues (ss_Pages st')) \<subseteq> set (composeSweepIssues (ss_Pages st)) \<union> set listed"
proof (cases "cq_NotModified r")
  case True
  obtain old where old: "old = (case map_of (ss_Pages st) page of None \<Rightarrow> empty_page | Some p \<Rightarrow> p)" by blast
  have "gh_Number ` set (sp_Issues old) \<subseteq> set (composeSweepIssues (ss_Pages st))"
    unfolding old by (auto simp: empty_page_def split: option.split dest: map_of_issues)
  moreover have "ss_Pages st' = AList.update page cached (ss_Pages st) \<and> sp_Issues cached = sp_Issues old"
    using assms True by (auto simp: sweep_page_def Let_def old)
  ultimately show ?thesis using compose_update [of page cached "ss_Pages st"] by fastforce
next
  case False
  then have "ss_Pages st' = ss_Pages st \<or> (ss_Pages st' = AList.update page cached (ss_Pages st) \<and> listed = map gh_Number (sp_Issues cached))"
    using assms by (auto simp: sweep_page_def Let_def split: if_splits)
  then show ?thesis using compose_update [of page cached "ss_Pages st"] by auto
qed

lemma compose_filter: "set (composeSweepIssues (filter P pages)) \<subseteq> set (composeSweepIssues pages)"
  by (auto simp: composeSweepIssues_def)

lemma pages_report:
  "sweep_pages client pages st listed = Inr (st', listed') \<Longrightarrow>
    set (composeSweepIssues (ss_Pages st')) \<union> set listed \<subseteq> set (composeSweepIssues (ss_Pages st)) \<union> set listed'
    \<and> set listed \<subseteq> set listed'"
proof (induction pages arbitrary: st listed)
  case (Cons page pages)
  let ?cached = "case map_of (ss_Pages st) page of None \<Rightarrow> empty_page | Some p \<Rightarrow> p"
  obtain r where r: "client page (sp_ETag ?cached) (sp_LastModified ?cached) = Inr r"
    using Cons.prems by (cases "client page (sp_ETag ?cached) (sp_LastModified ?cached)") (simp_all add: Let_def)
  obtain st1 c new where p: "sweep_page page r st = (st1, c, new)" by (metis prod_cases3)
  note step = page_reports [OF p]
  show ?case
  proof (cases "sp_ItemCount c < 100")
    case True
    then have st': "st' = st1\<lparr>ss_Pages := filter (\<lambda>(p, c). p \<le> page \<or> p > 10) (ss_Pages st1)\<rparr>" "listed' = listed @ new"
      using Cons.prems r p by (auto simp: Let_def)
    then show ?thesis
      using step compose_filter [of "\<lambda>(p, c). p \<le> page \<or> p > 10" "ss_Pages st1"] by auto
  next
    case False
    then have "sweep_pages client pages st1 (listed @ new) = Inr (st', listed')"
      using Cons.prems r p by (simp add: Let_def)
    from Cons.IH [OF this] step show ?thesis by auto
  qed
qed auto

lemma enqueue_keeps:
  "enqueue_all repo ds b = (e, t) \<Longrightarrow> map_of (bk_mailbox b) k = Some x \<Longrightarrow> map_of (bk_mailbox t) k = Some x"
proof (induction ds arbitrary: b)
  case (Cons d ds)
  show ?case
  proof (cases "EnqueueMailbox repo d b")
    case (Inr b1)
    then have "map_of (bk_mailbox b1) k = Some x"
      using Cons.prems(2) by (auto simp: EnqueueMailbox_def update_lookup split: option.splits if_splits)
    with Cons Inr show ?thesis by simp
  qed (use Cons.prems in simp)
qed simp

lemma enqueued_all:
  "enqueue_all repo ds b = (None, t) \<Longrightarrow> d \<in> set ds \<Longrightarrow> \<exists>x. map_of (bk_mailbox t) (repo, whd_DeliveryID d) = Some x \<and> same_delivery x d"
proof (induction ds arbitrary: b)
  case (Cons d' ds)
  obtain b1 where b1: "EnqueueMailbox repo d' b = Inr b1" "enqueue_all repo ds b1 = (None, t)"
    using Cons.prems(1) by (auto split: sum.splits)
  have "\<exists>x. map_of (bk_mailbox b1) (repo, whd_DeliveryID d') = Some x \<and> same_delivery x d'"
    using b1(1) by (auto simp: EnqueueMailbox_def same_delivery_def update_lookup split: option.splits if_splits)
  with enqueue_keeps [OF b1(2)] Cons.IH [OF b1(2)] Cons.prems(2) show ?case by auto
qed simp

definition in_mailbox :: "string \<Rightarrow> int \<Rightarrow> string \<Rightarrow> Broker \<Rightarrow> bool" where
  "in_mailbox repo number action b \<longleftrightarrow> (\<exists>i x. map_of (bk_mailbox b) (repo, i) = Some x \<and> whd_IssueNumber x = number
     \<and> whd_Event x = ''issues'' \<and> whd_Action x = action \<and> whd_RepoID x = repo)"

definition swept_issues :: "(int \<times> SweepState) option \<Rightarrow> int set" where
  "swept_issues f = (case LoadSweepState f of Inl e \<Rightarrow> {} | Inr st \<Rightarrow> set (composeSweepIssues (ss_Pages st)))"

text \<open>A sweep misses nothing. When it succeeds, every Issue that is in the collection it saves and was not in the one saved before is in
  the mailbox as reconciled, and every Issue that has left the collection as having left it, before the new collection is
  saved. When it fails, the saved collection is unchanged, so that the next sweep sees the same differences; and no delivery that was in a
  mailbox is lost or replaced.\<close>

theorem sweep_misses_nothing:
  assumes "sweepOnce reg unix client now f b = (r, f', b')"
  shows "(\<forall>k x. map_of (bk_mailbox b) k = Some x \<longrightarrow> map_of (bk_mailbox b') k = Some x)
    \<and> (case r of Inl e \<Rightarrow> f' = f
       | Inr delay \<Rightarrow> 0 \<le> delay
           \<and> (\<forall>n \<in> swept_issues f' - swept_issues f. in_mailbox (reg_RepoID reg) n ''reconciled'' b')
           \<and> (\<forall>n \<in> swept_issues f - swept_issues f'. in_mailbox (reg_RepoID reg) n ''collection_exited'' b'))"
proof (cases "LoadSweepState f")
  case (Inl e)
  then show ?thesis using assms by (auto simp: sweepOnce_def)
next
  case load: (Inr st)
  show ?thesis
  proof (cases "sweep_pages client [1..10] st []")
    case (Inl e)
    then show ?thesis using assms load by (auto simp: sweepOnce_def)
  next
    case (Inr res)
    obtain st' listed where res: "res = (st', listed)" by (cases res)
    let ?prev = "composeSweepIssues (ss_Pages st)" and ?cur = "composeSweepIssues (ss_Pages st')"
    let ?targets = "sweep_targets reg now listed ?prev ?cur"
    obtain e t where enq: "enqueue_all (reg_RepoID reg) ?targets b = (e, t)" by fastforce
    have kept: "map_of (bk_mailbox b') k = Some x" if "map_of (bk_mailbox b) k = Some x" for k x
      using assms load Inr res enq enqueue_keeps [OF enq that] by (auto simp: sweepOnce_def Let_def split: option.splits)
    show ?thesis
    proof (cases e)
      case (Some err)
      then show ?thesis using assms load Inr res enq kept by (auto simp: sweepOnce_def Let_def)
    next
      case None
      have out: "r = Inr (sweep_delay unix now (st'\<lparr>ss_LastSuccessful := now\<rparr>))" "f' = Some (InboxVersion, st'\<lparr>ss_LastSuccessful := now\<rparr>)"
        "bk_mailbox b' = bk_mailbox t"
        using assms load Inr res enq None by (auto simp: sweepOnce_def Let_def)
      have delay: "0 \<le> sweep_delay unix now st" for st
        by (auto simp: sweep_delay_def Let_def split: prod.split bool.split)
      have target: "in_mailbox (reg_RepoID reg) n action b'" if "sweepDelivery reg n action now \<in> set ?targets" for n action
        using enqueued_all [OF enq [unfolded None] that] by (auto simp: in_mailbox_def same_delivery_def sweepDelivery_def out(3))
      have cur: "swept_issues f' \<subseteq> set ?cur"
        by (auto simp: swept_issues_def LoadSweepState_def out(2) composeSweepIssues_def empty_page_def)
      have cur': "set ?cur \<subseteq> swept_issues f'"
        by (auto simp: swept_issues_def LoadSweepState_def out(2) composeSweepIssues_def empty_page_def)
      have prev: "swept_issues f = set ?prev" by (simp add: swept_issues_def load)
      have listed: "set ?cur \<subseteq> set ?prev \<union> set listed" using pages_report [OF Inr [unfolded res]] by simp
      have "sweepDelivery reg n ''reconciled'' now \<in> set ?targets" if "n \<in> swept_issues f' - swept_issues f" for n
        using that listed cur prev by (auto simp: sweep_targets_def Let_def image_iff)
      moreover have "sweepDelivery reg n ''collection_exited'' now \<in> set ?targets" if "n \<in> swept_issues f - swept_issues f'" for n
        using that cur' prev by (auto simp: sweep_targets_def Let_def image_iff)
      ultimately show ?thesis using kept delay target out(1) by simp
    qed
  qed
qed

definition sample_page :: "int \<Rightarrow> string \<Rightarrow> string \<Rightarrow> go_error + ConditionalQueueResult" where
  "sample_page page etag modified = Inr \<lparr>cq_Issues = [sample_gh_issue [''ready'']], cq_StatusCode = 200, cq_ETag = ''e1'', cq_LastModified = '''',
     cq_RateRemaining = ''10'', cq_RateReset = '''', cq_NotModified = False, cq_ItemCount = 1\<rparr>"

theorem sweep_misses_nothing_witness:
  "\<exists>f' b'. sweepOnce sample_registration id sample_page 30 None empty_broker = (Inr 0, f', b')
    \<and> in_mailbox ''r1'' (gh_Number (sample_gh_issue [''ready''])) ''reconciled'' b'"
proof -
  let ?n = "gh_Number (sample_gh_issue [''ready''])"
  let ?s = "sweepOnce sample_registration id sample_page 30 None empty_broker"
  obtain r f' b' where s: "?s = (r, f', b')" by (metis prod_cases3)
  have "fst ?s = Inr 0" by code_simp
  with s have r: "r = Inr 0" by simp
  have "?n \<in> swept_issues (fst (snd ?s))" by code_simp
  with s have "?n \<in> swept_issues f' - swept_issues None" by (simp add: swept_issues_def LoadSweepState_def composeSweepIssues_def)
  moreover have "reg_RepoID sample_registration = ''r1''" by (simp add: sample_registration_def)
  ultimately show ?thesis using sweep_misses_nothing [OF s] r s by (intro exI conjI) auto
qed

end
