(* ===== verification/Release.thy ===== *)
theory Release
  imports IssuePaths Webhook
begin

text \<open>
  \<open>internal/application/delivery/release.go\<close>: which published release may be installed. The release must be a production release with an
  annotated tag, its assets must agree with the manifest, the checksums and the attestation, its binary must report what the manifest
  says, and the installed version must be compatible with it. What \<open>gh\<close>, the file system and the candidate binary answer is an
  argument.
\<close>

definition BinaryAsset :: string where "BinaryAsset = ''agent-loop_Darwin_arm64''"
definition ManifestAsset :: string where "ManifestAsset = ''release-manifest.json''"
definition ChecksumAsset :: string where "ChecksumAsset = ''checksums.txt''"
definition ProtocolVersion :: int where "ProtocolVersion = 1"
definition AssignmentProtocolVersion :: int where "AssignmentProtocolVersion = 1"

section \<open>Versions\<close>

datatype SemVer = SemVer (sv_Major: int) (sv_Minor: int) (sv_Patch: int)

fun split_on :: "char \<Rightarrow> string \<Rightarrow> string list" where
  "split_on x [] = [[]]"
| "split_on x (c # s) = (if c = x then [] # split_on x s
     else case split_on x s of [] \<Rightarrow> [[c]] | w # ws \<Rightarrow> (c # w) # ws)"

text \<open>\<open>0|[1-9][0-9]*\<close>.\<close>

definition semver_number :: "string \<Rightarrow> bool" where
  "semver_number s \<longleftrightarrow> s \<noteq> [] \<and> (\<forall>c \<in> set s. digit_val c \<noteq> None) \<and> (s = ''0'' \<or> hd s \<noteq> CHR ''0'')"

definition semverPattern :: "string \<Rightarrow> (string \<times> string \<times> string) option" where
  "semverPattern s = (case s of [] \<Rightarrow> None
     | c # body \<Rightarrow> if c \<noteq> CHR ''v'' then None
       else case split_on CHR ''.'' body of
         [a, b, d] \<Rightarrow> if semver_number a \<and> semver_number b \<and> semver_number d then Some (a, b, d) else None
       | _ \<Rightarrow> None)"

definition ParseSemVer :: "string \<Rightarrow> go_error + SemVer" where
  "ParseSemVer value' = (case semverPattern value' of
     None \<Rightarrow> Inl (Errorf [Lit ''production release tag must be vMAJOR.MINOR.PATCH''])
   | Some (a, b, d) \<Rightarrow>
       if \<not> snd (Atoi a) \<or> \<not> snd (Atoi b) \<or> \<not> snd (Atoi d)
       then Inl (Errorf [Lit ''production release version component is too large''])
       else Inr (SemVer (fst (Atoi a)) (fst (Atoi b)) (fst (Atoi d))))"

definition SemVer_Compare :: "SemVer \<Rightarrow> SemVer \<Rightarrow> int" where
  "SemVer_Compare v other =
     (if sv_Major v \<noteq> sv_Major other then (if sv_Major v < sv_Major other then -1 else 1)
      else if sv_Minor v \<noteq> sv_Minor other then (if sv_Minor v < sv_Minor other then -1 else 1)
      else if sv_Patch v < sv_Patch other then -1
      else if sv_Patch v > sv_Patch other then 1 else 0)"

text \<open>The zero value, which a caller that drops the error works with.\<close>

definition semver_or_zero :: "go_error + SemVer \<Rightarrow> SemVer" where
  "semver_or_zero r = (case r of Inl e \<Rightarrow> SemVer 0 0 0 | Inr v \<Rightarrow> v)"

text \<open>\<open>Compare\<close> makes the versions a linear order, the lexicographic one.\<close>

instantiation SemVer :: linorder
begin

definition less_eq_SemVer :: "SemVer \<Rightarrow> SemVer \<Rightarrow> bool" where
  "a \<le> b \<longleftrightarrow> SemVer_Compare a b \<le> 0"

definition less_SemVer :: "SemVer \<Rightarrow> SemVer \<Rightarrow> bool" where
  "a < b \<longleftrightarrow> SemVer_Compare a b < 0"

instance
proof
  fix a b c :: SemVer
  show "(a < b) = (a \<le> b \<and> \<not> b \<le> a)"
    by (auto simp: less_SemVer_def less_eq_SemVer_def SemVer_Compare_def)
  show "a \<le> a" by (simp add: less_eq_SemVer_def SemVer_Compare_def)
  show "a \<le> b \<Longrightarrow> b \<le> c \<Longrightarrow> a \<le> c"
    by (auto simp: less_eq_SemVer_def SemVer_Compare_def split: if_splits)
  show "a \<le> b \<Longrightarrow> b \<le> a \<Longrightarrow> a = b"
    by (cases a; cases b) (auto simp: less_eq_SemVer_def SemVer_Compare_def split: if_splits)
  show "a \<le> b \<or> b \<le> a" by (auto simp: less_eq_SemVer_def SemVer_Compare_def)
qed

end

lemma SemVer_Compare_less: "SemVer_Compare a b < 0 \<longleftrightarrow> a < b"
  by (simp add: less_SemVer_def)

lemma SemVer_Compare_eq: "SemVer_Compare a b = 0 \<longleftrightarrow> a = b"
  by (cases a; cases b) (auto simp: SemVer_Compare_def)

section \<open>Digests\<close>

definition validHex :: "string \<Rightarrow> bool" where
  "validHex s \<longleftrightarrow> hex_decode s \<noteq> None \<and> s = ToLower s"

definition validSHA :: "string \<Rightarrow> bool" where
  "validSHA s \<longleftrightarrow> length s = 40 \<and> validHex s"

definition validDigest :: "string \<Rightarrow> bool" where
  "validDigest s \<longleftrightarrow> length s = 64 \<and> hex_decode s \<noteq> None \<and> s = ToLower s"

section \<open>Manifest and binary\<close>

record VersionRef =
  ref_Version :: string
  ref_Commit :: string

record ReleaseManifest =
  man_ManifestVersion :: int
  man_DeliveryProtocol :: int
  man_AssignmentProtocol :: int
  man_Version :: string
  man_Commit :: string
  man_Target :: string
  man_Artifact :: string
  man_ArtifactSHA256 :: string
  man_StateSchemaCurrent :: int
  man_StateSchemaMigrationFrom :: int
  man_SemanticContractCurrent :: int
  man_SemanticContractMinimum :: int
  man_IssueLifecycleAPICurrent :: string
  man_IssueLifecycleAPIMinimum :: string

record BinaryInfo =
  bin_Version :: string
  bin_Commit :: string
  bin_Target :: string
  bin_DeliveryProtocol :: int
  bin_AssignmentProtocol :: int
  bin_StateSchemaCurrent :: int
  bin_StateSchemaMigrationFrom :: int
  bin_SemanticContractCurrent :: int
  bin_SemanticContractMinimum :: int
  bin_IssueLifecycleAPICurrent :: string
  bin_IssueLifecycleAPIMinimum :: string

definition compareBinaryManifest :: "BinaryInfo \<Rightarrow> ReleaseManifest \<Rightarrow> go_error option" where
  "compareBinaryManifest b m =
     (if bin_Version b \<noteq> man_Version m \<or> bin_Commit b \<noteq> man_Commit m \<or> bin_Target b \<noteq> man_Target m
        \<or> bin_DeliveryProtocol b \<noteq> man_DeliveryProtocol m \<or> bin_AssignmentProtocol b \<noteq> man_AssignmentProtocol m
        \<or> bin_StateSchemaCurrent b \<noteq> man_StateSchemaCurrent m \<or> bin_StateSchemaMigrationFrom b \<noteq> man_StateSchemaMigrationFrom m
        \<or> bin_SemanticContractCurrent b \<noteq> man_SemanticContractCurrent m \<or> bin_SemanticContractMinimum b \<noteq> man_SemanticContractMinimum m
      then Some (Errorf [Lit ''binary embedded metadata does not match release manifest''])
      else if man_IssueLifecycleAPICurrent m \<noteq> ''''
        \<and> (bin_IssueLifecycleAPICurrent b \<noteq> man_IssueLifecycleAPICurrent m \<or> bin_IssueLifecycleAPIMinimum b \<noteq> man_IssueLifecycleAPIMinimum m)
      then Some (Errorf [Lit ''binary Issue lifecycle API metadata does not match release manifest''])
      else None)"

section \<open>Checksums\<close>

fun next_word :: "string \<Rightarrow> string \<times> string" where
  "next_word [] = ([], [])"
| "next_word (c # s) = (if \<exists>w \<in> set spaces. prefix w (c # s) then ([], c # s)
     else let (a, b) = next_word s in (c # a, b))"

lemma next_word_length: "length (snd (next_word s)) \<le> length s"
  by (induction s) (auto simp: split_beta)

text \<open>\<open>strings.Fields\<close>.\<close>

function Fields :: "string \<Rightarrow> string list" where
  "Fields s = (case trim_front spaces s of [] \<Rightarrow> [] | c # rest \<Rightarrow> (c # fst (next_word rest)) # Fields (snd (next_word rest)))"
  by pat_completeness auto
termination
proof (relation "measure length")
  fix s c rest
  assume "trim_front spaces s = c # rest"
  then have "length (c # rest) \<le> length s" using trim_front_suffix [of spaces s] by (auto dest: suffix_length_le)
  then show "(snd (next_word rest), s) \<in> measure length" using next_word_length [of rest] by simp
qed simp

declare Fields.simps [simp del]

text \<open>\<open>filepath.Base\<close>.\<close>

definition path_Base :: "string \<Rightarrow> string" where
  "path_Base s = (if s = '''' then ''.''
     else let t = rev (dropWhile (\<lambda>c. c = CHR ''/'') (rev s)) in
       if t = '''' then ''/'' else last (split_slash t))"

definition TrimPrefix :: "string \<Rightarrow> string \<Rightarrow> string" where
  "TrimPrefix s p = (if prefix p s then drop (length p) s else s)"

text \<open>The lines of a \<open>bufio.Scanner\<close>, which fails on a line of 64 KiB.\<close>

definition scan_lines :: "string \<Rightarrow> string list" where
  "scan_lines text = (let ls = split_on CHR 0x0A text in if last ls = [] then butlast ls else ls)"

fun checksum_lines :: "string list \<Rightarrow> (string \<times> string) list \<Rightarrow> go_error + (string \<times> string) list" where
  "checksum_lines [] result = Inr result"
| "checksum_lines (line # ls) result =
     (if length line \<ge> 65536 then Inl (Errorf [Lit ''bufio.Scanner: token too long''])
      else case Fields line of
        [digest, file] \<Rightarrow>
          if \<not> validDigest digest then Inl (Errorf [Lit ''invalid checksums.txt format''])
          else let name = TrimPrefix file ''*'' in
            if path_Base name \<noteq> name \<or> name = ''.'' then Inl (Errorf [Lit ''checksum asset name must be a basename''])
            else if map_of result name \<noteq> None then Inl (Errorf [Lit ''duplicate checksum for '', Str name])
            else checksum_lines ls ((name, ToLower digest) # result)
      | _ \<Rightarrow> Inl (Errorf [Lit ''invalid checksums.txt format'']))"

text \<open>A directory of assets: the manifest as read and decoded, the checksums, the SHA-256 of each file.\<close>

record AssetDir =
  ad_Manifest :: "go_error + go_error + ReleaseManifest"
  ad_Checksums :: "go_error + string"
  ad_digest :: "string \<Rightarrow> go_error + string"

definition parseChecksums :: "AssetDir \<Rightarrow> go_error + (string \<times> string) list" where
  "parseChecksums d = and_ok (ad_Checksums d) (\<lambda>text. checksum_lines (scan_lines text) [])"

section \<open>Static verification\<close>

definition manifest_error :: "ReleaseManifest \<Rightarrow> string \<Rightarrow> string \<Rightarrow> go_error option" where
  "manifest_error m tag commit = first_error
     [guard (man_ManifestVersion m \<noteq> 1 \<or> man_DeliveryProtocol m \<noteq> ProtocolVersion \<or> man_AssignmentProtocol m \<noteq> AssignmentProtocolVersion)
        [Lit ''unknown release manifest version or delivery protocol''],
      guard (man_Version m \<noteq> tag \<or> man_Commit m \<noteq> commit) [Lit ''release tag, commit, and manifest metadata do not match''],
      guard (man_Target m \<noteq> ''darwin/arm64'' \<or> man_Artifact m \<noteq> BinaryAsset) [Lit ''release target or artifact name is not darwin/arm64''],
      guard (\<not> validSHA (man_Commit m) \<or> \<not> validDigest (man_ArtifactSHA256 m)) [Lit ''release manifest contains an invalid commit or digest''],
      guard (man_StateSchemaCurrent m \<le> 0 \<or> man_StateSchemaMigrationFrom m \<le> 0 \<or> man_StateSchemaMigrationFrom m > man_StateSchemaCurrent m
             \<or> man_SemanticContractCurrent m \<le> 0 \<or> man_SemanticContractMinimum m < 0 \<or> man_SemanticContractMinimum m > man_SemanticContractCurrent m)
        [Lit ''release manifest contains an invalid compatibility range''],
      guard ((man_IssueLifecycleAPICurrent m = '''') \<noteq> (man_IssueLifecycleAPIMinimum m = ''''))
        [Lit ''release manifest contains an incomplete Issue lifecycle API range'']]"

definition asset_error :: "AssetDir \<Rightarrow> ReleaseManifest \<Rightarrow> (string \<times> string) list \<Rightarrow> string \<Rightarrow> go_error option" where
  "asset_error d m checksums name = (case map_of checksums name of
     None \<Rightarrow> Some (Errorf [Lit ''checksums.txt does not cover '', Str name])
   | Some want \<Rightarrow> (case ad_digest d name of
       Inl e \<Rightarrow> Some e
     | Inr got \<Rightarrow>
         if got \<noteq> want then Some (Errorf [Lit ''checksum mismatch for '', Str name])
         else if name = BinaryAsset \<and> got \<noteq> man_ArtifactSHA256 m
         then Some (Errorf [Lit ''artifact digest differs between manifest and checksums.txt'']) else None))"

definition verifyStaticAssets :: "AssetDir \<Rightarrow> string \<Rightarrow> string \<Rightarrow> go_error + ReleaseManifest \<times> string" where
  "verifyStaticAssets d tag commit = (case ad_Manifest d of
     Inl e \<Rightarrow> Inl (Wrapf [Lit ''read release manifest: ''] e)
   | Inr (Inl e) \<Rightarrow> Inl (Wrapf [Lit ''decode release manifest: ''] e)
   | Inr (Inr m) \<Rightarrow> (case manifest_error m tag commit of
       Some e \<Rightarrow> Inl e
     | None \<Rightarrow> and_ok (parseChecksums d) (\<lambda>checksums.
         case for_each (asset_error d m checksums) [BinaryAsset, ManifestAsset] of
           Some e \<Rightarrow> Inl e | None \<Rightarrow> Inr (m, man_ArtifactSHA256 m))))"

section \<open>The published release\<close>

record Release =
  rel_Tag :: string
  rel_Draft :: bool
  rel_Prerelease :: bool

record gitObject =
  obj_Type :: string
  obj_SHA :: string

record annotatedTag =
  tag_Tag :: string
  tag_Object :: gitObject

text \<open>What GitHub answers: the command may fail, its output may not decode.\<close>

record ReleaseView =
  rv_Release :: "go_error + go_error + Release"
  rv_Ref :: "string \<Rightarrow> go_error + go_error + gitObject"
  rv_Tag :: "string \<Rightarrow> go_error + go_error + annotatedTag"

definition answer :: "piece list \<Rightarrow> (go_error \<Rightarrow> go_error) \<Rightarrow> go_error + go_error + 'a \<Rightarrow> go_error + 'a" where
  "answer failed undecodable r = (case r of Inl e \<Rightarrow> Inl (Wrapf failed e) | Inr (Inl e) \<Rightarrow> Inl (undecodable e) | Inr (Inr x) \<Rightarrow> Inr x)"

definition refuse :: "bool \<Rightarrow> piece list \<Rightarrow> go_error + unit" where
  "refuse c ps = (if c then Inl (Errorf ps) else Inr ())"

lemma refuse_Inr [simp]: "refuse c ps = Inr u \<longleftrightarrow> \<not> c"
  by (simp add: refuse_def)

definition resolveProduction :: "string \<Rightarrow> ReleaseView \<Rightarrow> go_error + Release \<times> string" where
  "resolveProduction expected v =
     and_ok (if expected = '''' then Inr () else and_ok (ParseSemVer expected) (\<lambda>_. Inr ())) (\<lambda>_.
     and_ok (answer [Lit ''discover latest production release: ''] (Wrapf [Lit ''decode release metadata: '']) (rv_Release v)) (\<lambda>release.
     and_ok (refuse (rel_Draft release \<or> rel_Prerelease release) [Lit ''latest release is not a production release'']) (\<lambda>_.
     and_ok (refuse (expected \<noteq> '''' \<and> rel_Tag release \<noteq> expected)
               [Lit ''resolved production release does not match the exact requested version'']) (\<lambda>_.
     and_ok (case ParseSemVer (rel_Tag release) of Inl e \<Rightarrow> Inl (Wrapf [Lit ''release tag: ''] e) | Inr _ \<Rightarrow> Inr ()) (\<lambda>_.
     and_ok (answer [Lit ''resolve release tag ref: ''] (\<lambda>e. e) (rv_Ref v (rel_Tag release))) (\<lambda>ref.
     and_ok (refuse (obj_Type ref \<noteq> ''tag'' \<or> \<not> validSHA (obj_SHA ref)) [Lit ''release tag must be an annotated Git tag'']) (\<lambda>_.
     and_ok (answer [Lit ''peel annotated release tag: ''] (\<lambda>e. e) (rv_Tag v (obj_SHA ref))) (\<lambda>tag.
     and_ok (refuse (tag_Tag tag \<noteq> rel_Tag release \<or> obj_Type (tag_Object tag) \<noteq> ''commit'' \<or> \<not> validSHA (obj_SHA (tag_Object tag)))
               [Lit ''annotated release tag does not peel uniquely to a commit'']) (\<lambda>_.
       Inr (release, obj_SHA (tag_Object tag)))))))))))"

section \<open>Checking a candidate\<close>

record Candidate =
  cand_Release :: Release
  cand_Manifest :: ReleaseManifest
  cand_Binary :: BinaryInfo
  cand_Dir :: string
  cand_Digest :: string

datatype Phase = PhaseIdle | PhaseDiscovered | PhaseDownloaded | PhaseVerified | PhaseDraining | PhaseApplying
  | PhaseValidating | PhaseSucceeded | PhaseUnknown string

record VerificationProgress =
  prog_Phase :: Phase
  prog_Desired :: VersionRef
  prog_Digest :: string
  prog_Candidate :: string

text \<open>What is already in the cache under the name of the candidate.\<close>

datatype cache_entry = NoEntry | IrregularEntry | CachedDir AssetDir | UnknownEntry go_error

text \<open>One run of the verifier: what GitHub says before and after, the downloaded assets, the attestation of an asset, the metadata
  the binary reports, and the failures of the file system.\<close>

record CheckRun =
  chk_MkCache :: "go_error option"
  chk_Before :: ReleaseView
  chk_MkTemp :: "go_error + string"
  chk_Download :: "go_error option"
  chk_Assets :: AssetDir
  chk_Attest :: "string \<Rightarrow> go_error option"
  chk_Chmod :: "go_error option"
  chk_Info :: "go_error + go_error + BinaryInfo"
  chk_After :: ReleaseView
  chk_Cache :: "string \<Rightarrow> cache_entry"
  chk_Place :: "go_error option"

definition or_error :: "go_error option \<Rightarrow> (go_error \<Rightarrow> go_error) \<Rightarrow> go_error + unit" where
  "or_error r wrap = (case r of Some e \<Rightarrow> Inl (wrap e) | None \<Rightarrow> Inr ())"

lemma or_error_Inr [simp]: "or_error r wrap = Inr u \<longleftrightarrow> r = None"
  by (simp add: or_error_def split: option.splits)

definition cache_name :: "string \<Rightarrow> string \<Rightarrow> string" where
  "cache_name tag digest = tag @ ''-'' @ take 16 digest"

definition place_candidate :: "CheckRun \<Rightarrow> string \<Rightarrow> string \<Rightarrow> ReleaseManifest \<Rightarrow> string \<Rightarrow> go_error + unit" where
  "place_candidate k tag commit m digest = (case chk_Cache k (cache_name tag digest) of
     NoEntry \<Rightarrow> or_error (chk_Place k) (\<lambda>e. e)
   | IrregularEntry \<Rightarrow> Inl (Errorf [Lit ''existing delivery cache entry is not a regular directory''])
   | UnknownEntry e \<Rightarrow> Inl e
   | CachedDir d \<Rightarrow>
       if verifyStaticAssets d tag commit = Inr (m, digest) then or_error (chk_Place k) (\<lambda>e. e)
       else Inl (Errorf [Lit ''existing delivery cache entry does not match the verified candidate'']))"

text \<open>The downloaded candidate, up to its place in the cache.\<close>

definition verify_download :: "string \<Rightarrow> CheckRun \<Rightarrow> Release \<Rightarrow> string \<Rightarrow> go_error + Candidate" where
  "verify_download expected k release commit =
     and_ok (verifyStaticAssets (chk_Assets k) (rel_Tag release) commit) (\<lambda>(m, digest).
     and_ok (case for_each (\<lambda>asset. map_option (Wrapf [Lit ''verify GitHub artifact attestation for '', Str asset, Lit '': '']) (chk_Attest k asset))
                    [BinaryAsset, ManifestAsset] of Some e \<Rightarrow> Inl e | None \<Rightarrow> Inr ()) (\<lambda>_.
     and_ok (or_error (chk_Chmod k) (\<lambda>e. e)) (\<lambda>_.
     and_ok (answer [Lit ''inspect verified candidate binary: ''] (Wrapf [Lit ''decode candidate binary metadata: '']) (chk_Info k)) (\<lambda>binary.
     and_ok (or_error (compareBinaryManifest binary m) (\<lambda>e. e)) (\<lambda>_.
     and_ok (resolveProduction expected (chk_After k)) (\<lambda>(after, afterCommit).
     and_ok (refuse (rel_Tag after \<noteq> rel_Tag release \<or> afterCommit \<noteq> commit)
               [Lit ''release changed while it was being verified; retry with a fresh candidate'']) (\<lambda>_.
     and_ok (place_candidate k (rel_Tag release) commit m digest) (\<lambda>_.
       Inr \<lparr>cand_Release = release, cand_Manifest = m, cand_Binary = binary,
            cand_Dir = cache_name (rel_Tag release) digest, cand_Digest = digest\<rparr>))))))))"

text \<open>\<open>Check\<close>: the progress it reports and its result. A failing report ends it; the reports are in the order of the source.\<close>

definition Verifier_Check :: "(VerificationProgress \<Rightarrow> go_error option) \<Rightarrow> string \<Rightarrow> CheckRun \<Rightarrow> go_error + Candidate" where
  "Verifier_Check progress expected k =
     and_ok (or_error (chk_MkCache k) (\<lambda>e. e)) (\<lambda>_.
     and_ok (resolveProduction expected (chk_Before k)) (\<lambda>(release, commit).
     let desired = \<lparr>ref_Version = rel_Tag release, ref_Commit = commit\<rparr> in
     and_ok (or_error (progress \<lparr>prog_Phase = PhaseDiscovered, prog_Desired = desired, prog_Digest = '''', prog_Candidate = ''''\<rparr>)
               (Wrapf [Lit ''persist discovered delivery phase: ''])) (\<lambda>_.
     and_ok (chk_MkTemp k) (\<lambda>tmp.
     and_ok (or_error (chk_Download k) (Wrapf [Lit ''download release assets: ''])) (\<lambda>_.
     and_ok (or_error (progress \<lparr>prog_Phase = PhaseDownloaded, prog_Desired = desired, prog_Digest = '''', prog_Candidate = tmp\<rparr>)
               (Wrapf [Lit ''persist downloaded delivery phase: ''])) (\<lambda>_.
     and_ok (verify_download expected k release commit) (\<lambda>candidate.
     and_ok (or_error (progress \<lparr>prog_Phase = PhaseVerified, prog_Desired = desired, prog_Digest = cand_Digest candidate,
                         prog_Candidate = cand_Dir candidate\<rparr>) (Wrapf [Lit ''persist verified delivery phase: ''])) (\<lambda>_.
       Inr candidate))))))))"

definition Verifier_Discover :: "string \<Rightarrow> ReleaseView \<Rightarrow> go_error + VersionRef" where
  "Verifier_Discover expected v = and_ok (resolveProduction expected v) (\<lambda>(release, commit).
     Inr \<lparr>ref_Version = rel_Tag release, ref_Commit = commit\<rparr>)"

section \<open>Compatibility\<close>

record CompatibilityPlan =
  cp_Allowed :: bool
  cp_Result :: string
  cp_Reason :: string
  cp_Current :: VersionRef
  cp_Desired :: VersionRef

definition PlanCompatibility :: "VersionRef \<Rightarrow> int \<Rightarrow> int \<Rightarrow> Candidate \<Rightarrow> CompatibilityPlan" where
  "PlanCompatibility current currentSchema currentSemantic candidate =
     (let m = cand_Manifest candidate;
          plan = (\<lambda>allowed result reason. \<lparr>cp_Allowed = allowed, cp_Result = result, cp_Reason = reason, cp_Current = current,
                    cp_Desired = \<lparr>ref_Version = man_Version m, ref_Commit = man_Commit m\<rparr>\<rparr>)
      in case ParseSemVer (man_Version m) of
        Inl e \<Rightarrow> plan False ''blocked'' (error_text e)
      | Inr want \<Rightarrow>
        if ref_Version current = '''' then plan False ''blocked'' ''no managed installation exists''
        else case ParseSemVer (ref_Version current) of
          Inl e \<Rightarrow> plan False ''blocked'' ''installed version is not a production SemVer''
        | Inr have' \<Rightarrow>
          let cmp = SemVer_Compare want have' in
          if cmp < 0 then plan False ''blocked'' ''implicit downgrade is not allowed''
          else if cmp = 0 then
            (if ref_Commit current \<noteq> man_Commit m then plan False ''blocked'' ''same version resolves to a different commit''
             else plan False ''current'' ''already installed'')
          else if sv_Major want \<noteq> sv_Major have'
          then plan False ''blocked_for_approval'' ''SemVer major update requires explicit migration approval''
          else if man_StateSchemaCurrent m \<noteq> currentSchema
          then plan False ''blocked_for_approval'' ''durable schema migration requires explicit approval''
          else if currentSemantic < man_SemanticContractMinimum m \<or> currentSemantic > man_SemanticContractCurrent m
          then plan False ''blocked_for_approval'' ''durable semantic contract is outside the candidate compatibility range''
          else plan True ''ready'' '''')"

end
