(* ===== verification/ReleaseFacts.thy ===== *)
theory ReleaseFacts
  imports Release
begin

text \<open>
  What the release checks guarantee: versions are read uniquely, a candidate that passes the verifier is the published, attested and
  self-consistent release, and an update is allowed exactly for a compatible newer version.
\<close>

section \<open>Reading versions\<close>

definition SemVer_text :: "SemVer \<Rightarrow> string" where
  "SemVer_text v = CHR ''v'' # Itoa (sv_Major v) @ CHR ''.'' # Itoa (sv_Minor v) @ CHR ''.'' # Itoa (sv_Patch v)"

definition go_nat :: "int \<Rightarrow> bool" where
  "go_nat i \<longleftrightarrow> 0 \<le> i \<and> i < 2 ^ 63"

lemma split_on_nonempty [simp]: "split_on x s \<noteq> []"
  by (cases s) (auto split: list.splits)

lemma split_on_append: "x \<notin> set w \<Longrightarrow> split_on x (w @ x # s) = w # split_on x s"
  by (induction w) (auto split: list.splits)

lemma split_on_single: "x \<notin> set w \<Longrightarrow> split_on x w = [w]"
  by (induction w) (auto split: list.splits)

lemma split_on_three:
  "split_on x s = [a, b, d] \<Longrightarrow> s = a @ x # b @ x # d"
proof -
  have step: "split_on x s = w # ws \<Longrightarrow> ws \<noteq> [] \<Longrightarrow> \<exists>t. s = w @ x # t \<and> split_on x t = ws" for s w ws
    by (induction s arbitrary: w) (auto split: list.splits if_splits)
  have one: "split_on x s = [w] \<Longrightarrow> s = w" for s w
    by (induction s arbitrary: w) (auto split: list.splits if_splits)
  assume "split_on x s = [a, b, d]"
  with step [of s a "[b, d]"] step [of _ b "[d]"] one show ?thesis by fastforce
qed

lemma digit_val_digits: "c \<in> set (digits_of n) \<Longrightarrow> digit_val c \<noteq> None"
proof (induction n rule: digits_of.induct)
  case (1 n)
  then show ?case by (subst (asm) (2) digits_of.simps) (auto split: if_splits)
qed

lemma digit_val_dot [simp]: "digit_val CHR ''.'' = None"
  by (simp add: digit_val_def)

lemma digits_of_no_dot: "CHR ''.'' \<notin> set (digits_of n)"
  using digit_val_digits [of "CHR ''.''" n] by auto

lemma digit_char_0: "digit_char 0 = CHR ''0''"
  by (simp add: digit_char_def char_of_def bit_iff_odd)

lemma digits_of_0: "digits_of 0 = ''0''"
  by (simp add: digits_of.simps digit_char_0)

lemma digit_char_zero: "d < 10 \<Longrightarrow> digit_char d = CHR ''0'' \<longleftrightarrow> d = 0"
  by (auto simp: digit_char_0) (auto simp: digit_char_def dest!: arg_cong [where f = "of_char :: char \<Rightarrow> nat"])

lemma digits_of_leading: "digits_of n = ''0'' \<or> hd (digits_of n) \<noteq> CHR ''0''"
proof (induction n rule: digits_of.induct)
  case (1 n)
  show ?case
  proof (cases "n < 10")
    case True
    then show ?thesis by (cases "n = 0") (simp_all add: digits_of_0 digits_of.simps digit_char_zero)
  next
    case False
    then have "digits_of n = digits_of (n div 10) @ [digit_char (n mod 10)]" by (subst digits_of.simps) simp
    moreover have "digits_of (n div 10) \<noteq> ''0''"
      using False digits_of_inj [of "n div 10" 0] by (simp add: digits_of_0)
    ultimately show ?thesis using 1 False by (simp add: hd_append)
  qed
qed

lemma semver_number_digits: "semver_number (digits_of n)"
  using digit_val_digits digits_of_leading by (auto simp: semver_number_def)

lemma digit_val_inverse: "digit_val c = Some d \<Longrightarrow> d < 10 \<and> digit_char d = c"
proof -
  assume v: "digit_val c = Some d"
  then have "48 \<le> (of_char c :: nat)" "(of_char c :: nat) \<le> 57" "d = of_char c - 48"
    by (auto simp: digit_val_def Let_def split: if_splits)
  then show ?thesis by (simp add: digit_char_def)
qed

text \<open>A number without a leading zero is the decimal text of its value.\<close>

lemma parse_digits_print:
  "parse_digits 0 s = Some n \<Longrightarrow> semver_number s \<Longrightarrow> digits_of n = s"
proof (induction s arbitrary: n rule: rev_induct)
  case (snoc c s)
  obtain m d where m: "parse_digits 0 s = Some m" and d: "digit_val c = Some d" and n: "n = 10 * m + d"
    using snoc.prems(1) by (auto simp: parse_digits_snoc split: option.splits)
  note d' = digit_val_inverse [OF d]
  show ?case
  proof (cases "s = []")
    case True
    with m n d' show ?thesis by (simp add: digits_of.simps [of d])
  next
    case False
    with snoc.prems(2) have s: "hd s \<noteq> CHR ''0''" "semver_number s"
      by (auto simp: semver_number_def hd_append append_eq_Cons_conv)
    with snoc.IH m have digits: "digits_of m = s" by simp
    have "hd (digits_of 0) = CHR ''0''" by (simp add: digits_of_0)
    then have "m \<noteq> 0" using digits s(1) by metis
    then show ?thesis using digits n d' by (subst digits_of.simps) simp
  qed
qed (simp add: semver_number_def)

lemma semver_number_hd: "semver_number s \<Longrightarrow> hd s \<noteq> CHR ''-'' \<and> hd s \<noteq> CHR ''+''"
  by (cases s) (auto simp: semver_number_def digit_val_def Let_def)

lemma Atoi_semver:
  assumes "semver_number s" and "snd (Atoi s)"
  shows "go_nat (fst (Atoi s)) \<and> Itoa (fst (Atoi s)) = s"
proof -
  have s: "s \<noteq> []" "hd s \<noteq> CHR ''-''" "hd s \<noteq> CHR ''+''"
    using assms(1) semver_number_hd [OF assms(1)] by (auto simp: semver_number_def)
  obtain n where n: "parse_digits 0 s = Some n" and small: "int n < 2 ^ 63"
    using assms(2) s by (auto simp: Atoi_def unsigned_digits_def split: option.splits if_splits)
  have "Atoi s = (int n, True)" using s n small by (simp add: Atoi_def unsigned_digits_def)
  then show ?thesis using parse_digits_print [OF n assms(1)] small by (simp add: go_nat_def Itoa_def)
qed

lemma Itoa_semver:
  assumes "go_nat i" shows "semver_number (Itoa i)" and "CHR ''.'' \<notin> set (Itoa i)" and "Atoi (Itoa i) = (i, True)"
  using assms semver_number_digits digits_of_no_dot Atoi_Itoa [of i]
  by (auto simp: go_nat_def Itoa_def)

text \<open>a version is read exactly from its canonical text: reading \<open>vMAJOR.MINOR.PATCH\<close> gives the three numbers, and every
  text that is read at all is the canonical text of what is read, with components in the range of an int. So two version texts
  with the same value are the same text.\<close>

theorem version_text_roundtrip:
  "ParseSemVer s = Inr v \<longleftrightarrow> s = SemVer_text v \<and> go_nat (sv_Major v) \<and> go_nat (sv_Minor v) \<and> go_nat (sv_Patch v)"
proof
  assume p: "ParseSemVer s = Inr v"
  then obtain a b d where pat: "semverPattern s = Some (a, b, d)" and ok: "snd (Atoi a)" "snd (Atoi b)" "snd (Atoi d)"
    and v: "v = SemVer (fst (Atoi a)) (fst (Atoi b)) (fst (Atoi d))"
    by (auto simp: ParseSemVer_def split: option.splits if_splits)
  have parts: "\<exists>body. s = CHR ''v'' # body \<and> split_on CHR ''.'' body = [a, b, d]"
    "semver_number a" "semver_number b" "semver_number d"
    using pat by (auto simp: semverPattern_def split: list.splits if_splits)
  then have "s = CHR ''v'' # a @ CHR ''.'' # b @ CHR ''.'' # d" by (auto dest: split_on_three)
  then show "s = SemVer_text v \<and> go_nat (sv_Major v) \<and> go_nat (sv_Minor v) \<and> go_nat (sv_Patch v)"
    using Atoi_semver [OF parts(2) ok(1)] Atoi_semver [OF parts(3) ok(2)] Atoi_semver [OF parts(4) ok(3)]
    by (simp add: v SemVer_text_def)
next
  assume r: "s = SemVer_text v \<and> go_nat (sv_Major v) \<and> go_nat (sv_Minor v) \<and> go_nat (sv_Patch v)"
  then have "semverPattern s = Some (Itoa (sv_Major v), Itoa (sv_Minor v), Itoa (sv_Patch v))"
    by (simp add: semverPattern_def SemVer_text_def split_on_append split_on_single Itoa_semver)
  then show "ParseSemVer s = Inr v" using r by (simp add: ParseSemVer_def Itoa_semver)
qed

section \<open>What a verified candidate is\<close>

lemma answer_Inr: "answer f u r = Inr x \<longleftrightarrow> r = Inr (Inr x)"
  by (auto simp: answer_def split: sum.splits)

lemma read_Inr: "(case r of Inl e \<Rightarrow> Inl (f e) | Inr x \<Rightarrow> Inr ()) = Inr u \<longleftrightarrow> (\<exists>x. r = Inr x)"
  by (cases r) simp_all

lemma verifyStaticAssets_sound:
  "verifyStaticAssets d tag commit = Inr (m, digest) \<Longrightarrow>
     ad_Manifest d = Inr (Inr m) \<and> man_Version m = tag \<and> man_Commit m = commit \<and> digest = man_ArtifactSHA256 m
     \<and> ad_digest d BinaryAsset = Inr digest"
  by (auto simp: verifyStaticAssets_def manifest_error_def asset_error_def and_ok_Inr BinaryAsset_def ManifestAsset_def
      split: sum.splits option.splits if_splits)

lemma resolveProduction_sound:
  "resolveProduction expected v = Inr (release, commit) \<Longrightarrow>
     rv_Release v = Inr (Inr release) \<and> \<not> rel_Draft release \<and> \<not> rel_Prerelease release
     \<and> (expected = '''' \<or> rel_Tag release = expected) \<and> (\<exists>version. ParseSemVer (rel_Tag release) = Inr version) \<and> validSHA commit
     \<and> (\<exists>ref tag. rv_Ref v (rel_Tag release) = Inr (Inr ref) \<and> obj_Type ref = ''tag''
          \<and> rv_Tag v (obj_SHA ref) = Inr (Inr tag) \<and> tag_Tag tag = rel_Tag release
          \<and> tag_Object tag = \<lparr>obj_Type = ''commit'', obj_SHA = commit\<rparr>)"
  by (auto simp: resolveProduction_def and_ok_Inr answer_Inr read_Inr split: if_splits)

lemma verify_download_sound:
  assumes "verify_download expected k release commit = Inr c"
  shows "cand_Release c = release" and "cand_Dir c = cache_name (rel_Tag release) (cand_Digest c)"
    and "verifyStaticAssets (chk_Assets k) (rel_Tag release) commit = Inr (cand_Manifest c, cand_Digest c)"
    and "chk_Attest k BinaryAsset = None" and "chk_Attest k ManifestAsset = None"
    and "chk_Info k = Inr (Inr (cand_Binary c))" and "compareBinaryManifest (cand_Binary c) (cand_Manifest c) = None"
    and "\<exists>after. resolveProduction expected (chk_After k) = Inr (after, commit) \<and> rel_Tag after = rel_Tag release"
  using assms
  by (auto simp: verify_download_def and_ok_Inr answer_Inr split: sum.splits option.splits if_splits prod.splits)

lemma Verifier_Check_download:
  "Verifier_Check progress expected k = Inr c \<Longrightarrow>
     \<exists>release commit. resolveProduction expected (chk_Before k) = Inr (release, commit)
       \<and> verify_download expected k release commit = Inr c"
  by (auto simp: Verifier_Check_def and_ok_Inr Let_def split: prod.splits)

text \<open>C38: a candidate the verifier accepts is the published release: neither draft nor prerelease, of the requested version if one was
  requested, tagged by an annotated tag that peels to the commit of its manifest both before and after the verification. Its
  manifest and binary are attested, the digest of the downloaded binary is the one of the manifest, and the binary reports the
  version, commit and protocol of the manifest.\<close>

theorem accepted_candidate_is_published:
  assumes "Verifier_Check progress expected k = Inr c"
  shows "\<not> rel_Draft (cand_Release c) \<and> \<not> rel_Prerelease (cand_Release c) \<and> (expected = '''' \<or> rel_Tag (cand_Release c) = expected)
    \<and> man_Version (cand_Manifest c) = rel_Tag (cand_Release c)
    \<and> resolveProduction expected (chk_Before k) = Inr (cand_Release c, man_Commit (cand_Manifest c))
    \<and> (\<exists>after. resolveProduction expected (chk_After k) = Inr (after, man_Commit (cand_Manifest c)) \<and> rel_Tag after = rel_Tag (cand_Release c))
    \<and> chk_Attest k BinaryAsset = None \<and> chk_Attest k ManifestAsset = None
    \<and> ad_Manifest (chk_Assets k) = Inr (Inr (cand_Manifest c)) \<and> ad_digest (chk_Assets k) BinaryAsset = Inr (cand_Digest c)
    \<and> cand_Digest c = man_ArtifactSHA256 (cand_Manifest c)
    \<and> chk_Info k = Inr (Inr (cand_Binary c)) \<and> bin_Version (cand_Binary c) = man_Version (cand_Manifest c)
    \<and> bin_Commit (cand_Binary c) = man_Commit (cand_Manifest c) \<and> bin_AssignmentProtocol (cand_Binary c) = man_AssignmentProtocol (cand_Manifest c)"
proof -
  obtain release commit where before: "resolveProduction expected (chk_Before k) = Inr (release, commit)"
    and download: "verify_download expected k release commit = Inr c"
    using Verifier_Check_download [OF assms] by blast
  note d = verify_download_sound [OF download]
  note static = verifyStaticAssets_sound [OF d(3)]
  have "bin_Version (cand_Binary c) = man_Version (cand_Manifest c)" "bin_Commit (cand_Binary c) = man_Commit (cand_Manifest c)"
    "bin_AssignmentProtocol (cand_Binary c) = man_AssignmentProtocol (cand_Manifest c)"
    using d(7) by (auto simp: compareBinaryManifest_def split: if_splits)
  then show ?thesis using static d before resolveProduction_sound [OF before] by auto
qed

definition sample_sha :: string where "sample_sha = replicate 40 CHR ''a''"
definition sample_digest :: string where "sample_digest = replicate 64 CHR ''b''"

definition sample_manifest :: "string \<Rightarrow> ReleaseManifest" where
  "sample_manifest version = \<lparr>man_ManifestVersion = 1, man_DeliveryProtocol = 1, man_AssignmentProtocol = 1, man_Version = version,
     man_Commit = sample_sha, man_Target = ''darwin/arm64'', man_Artifact = BinaryAsset, man_ArtifactSHA256 = sample_digest,
     man_StateSchemaCurrent = 6, man_StateSchemaMigrationFrom = 5, man_SemanticContractCurrent = 2, man_SemanticContractMinimum = 1,
     man_IssueLifecycleAPICurrent = '''', man_IssueLifecycleAPIMinimum = ''''\<rparr>"

definition sample_info :: "string \<Rightarrow> BinaryInfo" where
  "sample_info version = \<lparr>bin_Version = version, bin_Commit = sample_sha, bin_Target = ''darwin/arm64'', bin_DeliveryProtocol = 1,
     bin_AssignmentProtocol = 1, bin_StateSchemaCurrent = 6, bin_StateSchemaMigrationFrom = 5, bin_SemanticContractCurrent = 2,
     bin_SemanticContractMinimum = 1, bin_IssueLifecycleAPICurrent = '''', bin_IssueLifecycleAPIMinimum = ''''\<rparr>"

definition sample_view :: "string \<Rightarrow> ReleaseView" where
  "sample_view version = \<lparr>rv_Release = Inr (Inr \<lparr>rel_Tag = version, rel_Draft = False, rel_Prerelease = False\<rparr>),
     rv_Ref = (\<lambda>_. Inr (Inr \<lparr>obj_Type = ''tag'', obj_SHA = sample_sha\<rparr>)),
     rv_Tag = (\<lambda>_. Inr (Inr \<lparr>tag_Tag = version, tag_Object = \<lparr>obj_Type = ''commit'', obj_SHA = sample_sha\<rparr>\<rparr>))\<rparr>"

definition sample_checksum_file :: string where
  "sample_checksum_file = sample_digest @ '' '' @ BinaryAsset @ [CHR 0x0A] @ sample_digest @ '' '' @ ManifestAsset @ [CHR 0x0A]"

definition sample_check :: "string \<Rightarrow> CheckRun" where
  "sample_check version = \<lparr>chk_MkCache = None, chk_Before = sample_view version, chk_MkTemp = Inr ''/cache/.candidate-1'', chk_Download = None,
     chk_Assets = \<lparr>ad_Manifest = Inr (Inr (sample_manifest version)),
       ad_Checksums = Inr sample_checksum_file,
       ad_digest = (\<lambda>_. Inr sample_digest)\<rparr>,
     chk_Attest = (\<lambda>_. None), chk_Chmod = None, chk_Info = Inr (Inr (sample_info version)), chk_After = sample_view version,
     chk_Cache = (\<lambda>_. NoEntry), chk_Place = None\<rparr>"

definition sample_candidate :: "string \<Rightarrow> Candidate" where
  "sample_candidate version = \<lparr>cand_Release = \<lparr>rel_Tag = version, rel_Draft = False, rel_Prerelease = False\<rparr>, cand_Manifest = sample_manifest version,
     cand_Binary = sample_info version, cand_Dir = cache_name version sample_digest, cand_Digest = sample_digest\<rparr>"

text \<open>The fields of a line of two visible words.\<close>

lemma not_space: "visible c \<Longrightarrow> w \<in> set spaces \<Longrightarrow> \<not> prefix w (c # s)"
  using spaces_invisible by (cases w) auto

lemma next_word_visible: "\<forall>c \<in> set w. visible c \<Longrightarrow> next_word (w @ s) = (w @ fst (next_word s), snd (next_word s))"
  by (induction w) (auto simp: not_space split_beta)

lemma next_word_space: "next_word (CHR 0x20 # s) = ([], CHR 0x20 # s)"
proof -
  have "[CHR 0x20] \<in> set spaces" by (simp add: spaces_def)
  then have "\<exists>w \<in> set spaces. prefix w (CHR 0x20 # s)" by (rule bexI [rotated]) simp
  then show ?thesis by simp
qed

lemma trim_front_visible: "visible c \<Longrightarrow> trim_front spaces (c # s) = c # s"
  by (intro trim_front_None) (auto simp: find_None_iff not_space)

lemma trim_front_space: "visible c \<Longrightarrow> trim_front spaces (CHR 0x20 # c # s) = c # s"
proof -
  assume c: "visible c"
  have "find (\<lambda>w. w \<noteq> [] \<and> prefix w (CHR 0x20 # c # s)) spaces = Some [CHR 0x20]"
    by (simp add: spaces_def)
  then show ?thesis using trim_front_visible [OF c] by (simp add: trim_front_Some)
qed

lemma Fields_visible:
  assumes "\<forall>c \<in> set (a # w). visible c" shows "Fields (a # w) = [a # w]"
  using assms next_word_visible [of w "[]"]
  by (subst Fields.simps) (simp add: trim_front_visible Fields.simps [of "[]"])

lemma Fields_two:
  assumes "\<forall>c \<in> set (a # w). visible c" and "\<forall>c \<in> set (b # v). visible c"
  shows "Fields ((a # w) @ CHR 0x20 # b # v) = [a # w, b # v]"
proof -
  have rest: "Fields (CHR 0x20 # b # v) = [b # v]"
    using assms(2) next_word_visible [of v "[]"]
    by (subst Fields.simps) (simp add: trim_front_space Fields.simps [of "[]"])
  have "next_word (w @ CHR 0x20 # b # v) = (w, CHR 0x20 # b # v)"
    using assms(1) next_word_visible [of w "CHR 0x20 # b # v"] unfolding next_word_space by simp
  then show ?thesis using assms(1) rest by (subst Fields.simps) (simp add: trim_front_visible)
qed

lemma sample_fields:
  "Fields (sample_digest @ CHR 0x20 # BinaryAsset) = [sample_digest, BinaryAsset]"
  "Fields (sample_digest @ CHR 0x20 # ManifestAsset) = [sample_digest, ManifestAsset]"
proof -
  have d: "sample_digest = CHR ''b'' # replicate 63 CHR ''b''" by (simp add: sample_digest_def flip: replicate_Suc)
  have b: "BinaryAsset = CHR ''a'' # ''gent-loop_Darwin_arm64''" and m: "ManifestAsset = CHR ''r'' # ''elease-manifest.json''"
    by (simp_all add: BinaryAsset_def ManifestAsset_def)
  have vis: "\<forall>c \<in> set (CHR ''b'' # replicate 63 CHR ''b''). visible c"
    "\<forall>c \<in> set (CHR ''a'' # ''gent-loop_Darwin_arm64''). visible c" "\<forall>c \<in> set (CHR ''r'' # ''elease-manifest.json''). visible c"
    by (simp_all add: visible_def)
  show "Fields (sample_digest @ CHR 0x20 # BinaryAsset) = [sample_digest, BinaryAsset]"
    unfolding d b using Fields_two [OF vis(1,2)] by simp
  show "Fields (sample_digest @ CHR 0x20 # ManifestAsset) = [sample_digest, ManifestAsset]"
    unfolding d m using Fields_two [OF vis(1,3)] by simp
qed

lemma sample_lines:
  "scan_lines sample_checksum_file = [sample_digest @ CHR 0x20 # BinaryAsset, sample_digest @ CHR 0x20 # ManifestAsset]"
  by code_simp

lemma sample_checksums:
  "checksum_lines [sample_digest @ CHR 0x20 # BinaryAsset, sample_digest @ CHR 0x20 # ManifestAsset] []
     = Inr [(ManifestAsset, sample_digest), (BinaryAsset, sample_digest)]"
proof -
  have valid: "validDigest sample_digest" "ToLower sample_digest = sample_digest" "length sample_digest = 64"
    and names: "path_Base (TrimPrefix BinaryAsset ''*'') = BinaryAsset" "path_Base (TrimPrefix ManifestAsset ''*'') = ManifestAsset"
      "TrimPrefix BinaryAsset ''*'' = BinaryAsset" "TrimPrefix ManifestAsset ''*'' = ManifestAsset"
      "BinaryAsset \<noteq> ''.''" "ManifestAsset \<noteq> ''.''" "BinaryAsset \<noteq> ManifestAsset" "length BinaryAsset < 100" "length ManifestAsset < 100"
    by code_simp+
  then show ?thesis by (simp add: sample_fields)
qed

lemma sample_static:
  "verifyStaticAssets (chk_Assets (sample_check ''v1.2.0'')) ''v1.2.0'' sample_sha = Inr (sample_manifest ''v1.2.0'', sample_digest)"
proof -
  have "manifest_error (sample_manifest ''v1.2.0'') ''v1.2.0'' sample_sha = None" by code_simp
  moreover have "BinaryAsset \<noteq> ManifestAsset" by code_simp
  moreover have "man_ArtifactSHA256 (sample_manifest ''v1.2.0'') = sample_digest" by (simp add: sample_manifest_def)
  moreover have "parseChecksums (chk_Assets (sample_check ''v1.2.0'')) = Inr [(ManifestAsset, sample_digest), (BinaryAsset, sample_digest)]"
    unfolding sample_checksums [symmetric] by (simp del: checksum_lines.simps add: sample_check_def parseChecksums_def sample_lines)
  ultimately show ?thesis
    by (simp add: verifyStaticAssets_def sample_check_def asset_error_def)
qed

lemma sample_check_passes: "Verifier_Check (\<lambda>_. None) ''v1.2.0'' (sample_check ''v1.2.0'') = Inr (sample_candidate ''v1.2.0'')"
proof -
  have view: "resolveProduction ''v1.2.0'' (sample_view ''v1.2.0'')
      = Inr (\<lparr>rel_Tag = ''v1.2.0'', rel_Draft = False, rel_Prerelease = False\<rparr>, sample_sha)" by code_simp
  have binary: "compareBinaryManifest (sample_info ''v1.2.0'') (sample_manifest ''v1.2.0'') = None" by code_simp
  have parts: "chk_Before (sample_check v) = sample_view v" "chk_After (sample_check v) = sample_view v"
    "chk_Info (sample_check v) = Inr (Inr (sample_info v))" "chk_MkCache (sample_check v) = None" "chk_Download (sample_check v) = None"
    "chk_MkTemp (sample_check v) = Inr ''/cache/.candidate-1''" "chk_Attest (sample_check v) = (\<lambda>_. None)" "chk_Chmod (sample_check v) = None"
    "chk_Cache (sample_check v) = (\<lambda>_. NoEntry)" "chk_Place (sample_check v) = None" for v
    by (simp_all add: sample_check_def)
  show ?thesis
    using sample_static
    by (simp add: Verifier_Check_def verify_download_def place_candidate_def parts view binary answer_def or_error_def refuse_def
        sample_candidate_def Let_def)
qed

theorem accepted_candidate_is_published_witness:
  "man_Version (cand_Manifest (sample_candidate ''v1.2.0'')) = rel_Tag (cand_Release (sample_candidate ''v1.2.0''))"
  using accepted_candidate_is_published [OF sample_check_passes] by blast

section \<open>Allowed updates\<close>

text \<open>an update is planned exactly if both versions are production versions, the candidate is newer with the same major
  number, its state schema is the installed one, and the installed semantic contract lies in the range of the candidate.\<close>

theorem update_allowed_exactly:
  "cp_Allowed (PlanCompatibility current currentSchema currentSemantic candidate) \<longleftrightarrow>
     (\<exists>want have'. ParseSemVer (man_Version (cand_Manifest candidate)) = Inr want \<and> ParseSemVer (ref_Version current) = Inr have'
        \<and> have' < want \<and> sv_Major want = sv_Major have' \<and> man_StateSchemaCurrent (cand_Manifest candidate) = currentSchema
        \<and> man_SemanticContractMinimum (cand_Manifest candidate) \<le> currentSemantic
        \<and> currentSemantic \<le> man_SemanticContractCurrent (cand_Manifest candidate))"
proof (cases "ParseSemVer (man_Version (cand_Manifest candidate))")
  case (Inr want)
  note w = Inr
  show ?thesis
  proof (cases "ParseSemVer (ref_Version current)")
    case (Inr have')
    have "ref_Version current \<noteq> ''''" using Inr by (auto simp: ParseSemVer_def semverPattern_def)
    then show ?thesis using w Inr SemVer_Compare_less [of want have'] SemVer_Compare_eq [of want have']
      by (auto simp: PlanCompatibility_def Let_def not_less)
  qed (use w in \<open>auto simp: PlanCompatibility_def Let_def\<close>)
qed (auto simp: PlanCompatibility_def Let_def)

end
