(* ===== verification/DeliveryConfig.thy ===== *)
theory DeliveryConfig
  imports Release StoreModel
begin

text \<open>
  The data of the per-repository delivery (\<open>internal/application/delivery\<close>: \<open>config.go\<close>, \<open>assignment_state.go\<close>, \<open>assignment_slot.go\<close>,
  the fence of \<open>state.go\<close>): the configuration with the assignment of every repository, the transaction of a switch, the
  maintenance fence and the immutable slots, with their validators.
\<close>

definition ConfigVersion :: int where "ConfigVersion = 2"
definition LegacyConfigVersion :: int where "LegacyConfigVersion = 1"

section \<open>Configuration\<close>

record AssignmentRef =
  ar_Version :: string
  ar_Commit :: string
  ar_ArtifactSHA256 :: string
  ar_Slot :: string

record RepositoryAssignment =
  ra_RepositoryID :: string
  ra_Ref :: AssignmentRef
  ra_Generation :: uint64
  ra_Previous :: "AssignmentRef option"
  ra_UpdatedAt :: time

text \<open>A duration is its text and what \<open>time.ParseDuration\<close> reads in it.\<close>

datatype duration = Duration (dur_Text: string) (dur_Value: "int option")

record DeliveryConfig =
  dc_Version :: int
  dc_Enabled :: bool
  dc_ReleaseRepository :: string
  dc_Channel :: string
  dc_PollInterval :: duration
  dc_DrainTimeout :: duration
  dc_AutoApply :: string
  dc_TrustedWorkflow :: string
  dc_Assignments :: "RepositoryAssignment gomap"

record LegacyConfig =
  lc_Version :: int
  lc_Enabled :: bool
  lc_ReleaseRepository :: string
  lc_Channel :: string
  lc_PollInterval :: duration
  lc_DrainTimeout :: duration
  lc_AutoApply :: string
  lc_TrustedWorkflow :: string

definition minute :: int where "minute = 60 * 10 ^ 9"

text \<open>\<open>validRepository\<close>: the number of slashes and the length of the current segment.\<close>

definition repository_char :: "char \<Rightarrow> bool" where
  "repository_char c \<longleftrightarrow> (let n = of_char c :: nat in 97 \<le> n \<and> n \<le> 122 \<or> 65 \<le> n \<and> n \<le> 90 \<or> 48 \<le> n \<and> n \<le> 57) \<or> c \<in> set ''-_.''"

fun repository_parts :: "nat \<Rightarrow> nat \<Rightarrow> string \<Rightarrow> bool" where
  "repository_parts parts segment [] \<longleftrightarrow> parts = 1 \<and> segment > 0"
| "repository_parts parts segment (c # s) \<longleftrightarrow>
     (if c = CHR ''/'' then segment \<noteq> 0 \<and> parts = 0 \<and> repository_parts (parts + 1) 0 s
      else repository_char c \<and> repository_parts parts (segment + 1) s)"

definition validRepository :: "string \<Rightarrow> bool" where
  "validRepository s \<longleftrightarrow> repository_parts 0 0 s"

definition validateAssignmentRef :: "AssignmentRef \<Rightarrow> go_error option" where
  "validateAssignmentRef ref = (case ParseSemVer (ar_Version ref) of Inl e \<Rightarrow> Some e
   | Inr _ \<Rightarrow> first_error
      [guard (\<not> validSHA (ar_Commit ref)) [Lit ''commit must be a lowercase 40-character SHA''],
       guard (\<not> validDigest (ar_ArtifactSHA256 ref)) [Lit ''artifact_sha256 must be a lowercase SHA-256''],
       guard (\<not> IsAbs (ar_Slot ref)) [Lit ''slot must be an absolute path'']])"

definition wrap_error :: "piece list \<Rightarrow> go_error option \<Rightarrow> go_error option" where
  "wrap_error ps r = map_option (Wrapf ps) r"

lemma wrap_error_None [simp]: "wrap_error ps r = None \<longleftrightarrow> r = None"
  by (simp add: wrap_error_def)

definition assignment_error :: "string \<Rightarrow> RepositoryAssignment \<Rightarrow> go_error option" where
  "assignment_error i a = first_error
     [guard (i = '''' \<or> ra_RepositoryID a \<noteq> i) [Lit ''assignment key and repository_id must match: '', Quo i],
      guard (ra_Generation a = 0) [Lit ''assignment '', Str i, Lit '' generation must be positive''],
      guard (IsZero (ra_UpdatedAt a)) [Lit ''assignment '', Str i, Lit '' updated_at must be present''],
      wrap_error [Lit ''assignment '', Str i, Lit '': ''] (validateAssignmentRef (ra_Ref a)),
      (case ra_Previous a of None \<Rightarrow> None
       | Some p \<Rightarrow> first_error
          [wrap_error [Lit ''assignment '', Str i, Lit '' previous: ''] (validateAssignmentRef p),
           guard (p = ra_Ref a) [Lit ''assignment '', Str i, Lit '' previous must differ from current'']])]"

definition positive :: "int \<Rightarrow> int option \<Rightarrow> bool" where
  "positive least d \<longleftrightarrow> (case d of None \<Rightarrow> False | Some n \<Rightarrow> least \<le> n)"

definition Config_Validate :: "DeliveryConfig \<Rightarrow> go_error option" where
  "Config_Validate c = first_error
     [guard (dc_Version c \<noteq> ConfigVersion) [Lit ''unsupported delivery config version '', Num (dc_Version c),
        Lit ''; this controller supports '', Num ConfigVersion],
      guard (dc_ReleaseRepository c = '''' \<or> \<not> validRepository (dc_ReleaseRepository c)) [Lit ''release_repository must be owner/repository''],
      guard (dc_Channel c \<noteq> ''stable'') [Lit ''unsupported delivery channel '', Quo (dc_Channel c)],
      guard (\<not> positive minute (dur_Value (dc_PollInterval c))) [Lit ''poll_interval must be a duration of at least 1m''],
      guard (\<not> positive 1 (dur_Value (dc_DrainTimeout c))) [Lit ''drain_timeout must be a positive duration''],
      guard (dc_AutoApply c \<noteq> ''never'') [Lit ''per-repository delivery requires auto_apply: never''],
      guard (dc_Assignments c = NilMap) [Lit ''assignments must be present''],
      for_each (\<lambda>(i, a). assignment_error i a) (entries (dc_Assignments c))]"

definition LegacyConfig_Validate :: "LegacyConfig \<Rightarrow> go_error option" where
  "LegacyConfig_Validate c = first_error
     [guard (lc_Version c \<noteq> LegacyConfigVersion) [Lit ''delivery config version is '', Num (lc_Version c),
        Lit '', not the migratable version '', Num LegacyConfigVersion],
      guard (lc_ReleaseRepository c = '''' \<or> \<not> validRepository (lc_ReleaseRepository c) \<or> lc_Channel c \<noteq> ''stable'')
        [Lit ''legacy delivery config repository or channel is invalid''],
      guard (\<not> positive minute (dur_Value (lc_PollInterval c))) [Lit ''legacy poll_interval must be at least 1m''],
      guard (\<not> positive 1 (dur_Value (lc_DrainTimeout c))) [Lit ''legacy drain_timeout must be positive''],
      guard (lc_AutoApply c \<noteq> ''schema_compatible'' \<and> lc_AutoApply c \<noteq> ''never'') [Lit ''legacy auto_apply is invalid'']]"

definition Migrated :: "LegacyConfig \<Rightarrow> RepositoryAssignment gomap \<Rightarrow> DeliveryConfig" where
  "Migrated c assignments = \<lparr>dc_Version = ConfigVersion, dc_Enabled = lc_Enabled c, dc_ReleaseRepository = lc_ReleaseRepository c,
     dc_Channel = lc_Channel c, dc_PollInterval = lc_PollInterval c, dc_DrainTimeout = lc_DrainTimeout c, dc_AutoApply = ''never'',
     dc_TrustedWorkflow = lc_TrustedWorkflow c, dc_Assignments = assignments\<rparr>"

definition DrainDuration :: "DeliveryConfig \<Rightarrow> int" where
  "DrainDuration c = (case dur_Value (dc_DrainTimeout c) of None \<Rightarrow> 0 | Some d \<Rightarrow> d)"

definition PollDuration :: "DeliveryConfig \<Rightarrow> int" where
  "PollDuration c = (case dur_Value (dc_PollInterval c) of None \<Rightarrow> 0 | Some d \<Rightarrow> d)"

definition WorkflowIdentity :: "DeliveryConfig \<Rightarrow> string" where
  "WorkflowIdentity c = (if dc_TrustedWorkflow c \<noteq> '''' then dc_TrustedWorkflow c
     else dc_ReleaseRepository c @ ''/.github/workflows/release.yml'')"

text \<open>What the configuration file decodes to. Strict decoding refuses the assignments of the new format in the legacy one.\<close>

datatype config_file = NoConfig | BadConfig go_error | CurrentConfig DeliveryConfig | OldConfig LegacyConfig

definition not_exist :: go_error where "not_exist = Errorf [Lit ''file does not exist'']"

definition legacy_as_current :: "LegacyConfig \<Rightarrow> DeliveryConfig" where
  "legacy_as_current c = (Migrated c NilMap)\<lparr>dc_Version := lc_Version c, dc_AutoApply := lc_AutoApply c\<rparr>"

definition LoadConfig :: "config_file \<Rightarrow> go_error + DeliveryConfig" where
  "LoadConfig f = (case f of
     NoConfig \<Rightarrow> Inl (Wrapf [Lit ''inspect delivery config: ''] not_exist)
   | BadConfig e \<Rightarrow> Inl e
   | CurrentConfig c \<Rightarrow> (case Config_Validate c of Some e \<Rightarrow> Inl e | None \<Rightarrow> Inr c)
   | OldConfig c \<Rightarrow> (case Config_Validate (legacy_as_current c) of Some e \<Rightarrow> Inl e | None \<Rightarrow> Inr (legacy_as_current c)))"

definition LoadLegacyConfig :: "config_file \<Rightarrow> go_error + LegacyConfig" where
  "LoadLegacyConfig f = (case f of
     NoConfig \<Rightarrow> Inl (Wrapf [Lit ''inspect delivery config: ''] not_exist)
   | BadConfig e \<Rightarrow> Inl e
   | CurrentConfig c \<Rightarrow> Inl (Errorf [Lit ''decode legacy delivery config: field assignments not found''])
   | OldConfig c \<Rightarrow> (case LegacyConfig_Validate c of Some e \<Rightarrow> Inl e | None \<Rightarrow> Inr c))"

section \<open>The transaction of a switch\<close>

datatype AssignmentOperation = OperationApply | OperationRollback | OperationUnknown string

datatype AssignmentPhase = AssignmentPlanned | AssignmentDraining | AssignmentApplying | AssignmentValidating
  | AssignmentRollingBack | AssignmentSucceeded | AssignmentRolledBack | AssignmentRollbackFailed | AssignmentPhaseUnknown string

record AssignmentTransaction =
  at_Version :: int
  at_RepositoryID :: string
  at_Operation :: AssignmentOperation
  at_Phase :: AssignmentPhase
  at_ExpectedGeneration :: uint64
  at_TargetGeneration :: uint64
  at_Current :: AssignmentRef
  at_Desired :: AssignmentRef
  at_WasLoaded :: bool
  at_Result :: string
  at_Reason :: string
  at_StartedAt :: time
  at_UpdatedAt :: time

definition no_ref :: AssignmentRef where
  "no_ref = \<lparr>ar_Version = '''', ar_Commit = '''', ar_ArtifactSHA256 = '''', ar_Slot = ''''\<rparr>"

definition no_transaction :: AssignmentTransaction where
  "no_transaction = \<lparr>at_Version = 0, at_RepositoryID = '''', at_Operation = OperationUnknown '''', at_Phase = AssignmentPhaseUnknown '''',
     at_ExpectedGeneration = 0, at_TargetGeneration = 0, at_Current = no_ref, at_Desired = no_ref, at_WasLoaded = False,
     at_Result = '''', at_Reason = '''', at_StartedAt = 0, at_UpdatedAt = 0\<rparr>"

fun knownAssignmentPhase :: "AssignmentPhase \<Rightarrow> bool" where
  "knownAssignmentPhase (AssignmentPhaseUnknown s) = False"
| "knownAssignmentPhase _ = True"

definition validateAssignmentTransaction :: "AssignmentTransaction \<Rightarrow> go_error option" where
  "validateAssignmentTransaction tx = first_error
     [guard (at_RepositoryID tx = '''' \<or> \<not> knownAssignmentPhase (at_Phase tx)) [Lit ''assignment transaction is incomplete or unsupported''],
      guard (at_Operation tx \<noteq> OperationApply \<and> at_Operation tx \<noteq> OperationRollback)
        [Lit ''assignment transaction operation is incomplete or unsupported''],
      guard (at_ExpectedGeneration tx = 0 \<or> at_TargetGeneration tx \<noteq> at_ExpectedGeneration tx + 1)
        [Lit ''assignment transaction generation is invalid''],
      guard (IsZero (at_StartedAt tx)) [Lit ''assignment transaction start time is missing''],
      wrap_error [Lit ''assignment transaction current: ''] (validateAssignmentRef (at_Current tx)),
      wrap_error [Lit ''assignment transaction desired: ''] (validateAssignmentRef (at_Desired tx)),
      guard (at_Current tx = at_Desired tx) [Lit ''assignment transaction does not change the assignment'']]"

definition LoadAssignmentTransaction :: "AssignmentTransaction stored \<Rightarrow> go_error + AssignmentTransaction" where
  "LoadAssignmentTransaction f = (case f of
     Missing \<Rightarrow> Inr no_transaction
   | Unreadable e \<Rightarrow> Inl e
   | Holds tx \<Rightarrow>
       if at_Version tx \<noteq> 1 \<or> at_RepositoryID tx = '''' \<or> \<not> knownAssignmentPhase (at_Phase tx)
       then Inl (Errorf [Lit ''assignment transaction is incomplete or unsupported''])
       else case validateAssignmentTransaction tx of Some e \<Rightarrow> Inl e | None \<Rightarrow> Inr tx)"

section \<open>The fence\<close>

record Maintenance =
  mt_Version :: int
  mt_Generation :: string
  mt_Desired :: VersionRef
  mt_RequestedAt :: time

definition LoadMaintenance :: "Maintenance stored \<Rightarrow> go_error + Maintenance" where
  "LoadMaintenance f = (case f of
     Missing \<Rightarrow> Inl not_exist
   | Unreadable e \<Rightarrow> Inl e
   | Holds m \<Rightarrow> if mt_Version m \<noteq> 1 \<or> mt_Generation m = '''' \<or> ref_Version (mt_Desired m) = '''' \<or> ref_Commit (mt_Desired m) = ''''
       then Inl (Errorf [Lit ''delivery maintenance fence is incomplete or unsupported'']) else Inr m)"

section \<open>Slots\<close>

definition path_Join :: "string \<Rightarrow> string \<Rightarrow> string" where
  "path_Join a b = path_Clean (a @ ''/'' @ b)"

text \<open>\<open>filepath.Dir\<close>.\<close>

definition path_Dir :: "string \<Rightarrow> string" where
  "path_Dir s = path_Clean (rev (dropWhile (\<lambda>c. c \<noteq> CHR ''/'') (rev s)))"

text \<open>\<open>safeName\<close> works on code points; a continuation byte belongs to the code point before it.\<close>

definition safe_char :: "char \<Rightarrow> bool" where
  "safe_char c \<longleftrightarrow> (let n = of_char c :: nat in 97 \<le> n \<and> n \<le> 122 \<or> 65 \<le> n \<and> n \<le> 90 \<or> 48 \<le> n \<and> n \<le> 57) \<or> c \<in> set ''.-''"

definition utf8_tail :: "char \<Rightarrow> bool" where
  "utf8_tail c \<longleftrightarrow> (let n = of_char c :: nat in 128 \<le> n \<and> n < 192)"

definition safeName :: "string \<Rightarrow> string" where
  "safeName s = map (\<lambda>c. if safe_char c then c else CHR ''-'') (filter (\<lambda>c. \<not> utf8_tail c) s)"

definition SlotRef :: "string \<Rightarrow> string \<Rightarrow> string \<Rightarrow> string \<Rightarrow> AssignmentRef" where
  "SlotRef slots version commit digest = \<lparr>ar_Version = version, ar_Commit = commit, ar_ArtifactSHA256 = digest,
     ar_Slot = path_Join (path_Join slots (safeName version @ ''-'' @ digest)) ''agent-loop''\<rparr>"

record SlotManifest =
  sm_Version :: int
  sm_ReleaseVersion :: string
  sm_Commit :: string
  sm_ArtifactSHA256 :: string
  sm_Binary :: string

text \<open>A slot directory: whether it, its binary and its manifest have the required type and mode, and what the manifest decodes to.\<close>

record SlotFiles =
  sf_Private :: bool
  sf_Executable :: "go_error + bool"
  sf_ManifestFile :: "go_error + bool"
  sf_Manifest :: "go_error + go_error + SlotManifest"

definition slot_manifest_matches :: "SlotManifest \<Rightarrow> AssignmentRef \<Rightarrow> bool" where
  "slot_manifest_matches m ref \<longleftrightarrow> sm_Version m = 1 \<and> sm_ReleaseVersion m = ar_Version ref \<and> sm_Commit m = ar_Commit ref
     \<and> sm_ArtifactSHA256 m = ar_ArtifactSHA256 ref \<and> sm_Binary m = path_Base (ar_Slot ref)"

definition demand :: "go_error + bool \<Rightarrow> piece list \<Rightarrow> go_error option" where
  "demand r ps = (case r of Inl e \<Rightarrow> Some e | Inr ok \<Rightarrow> guard (\<not> ok) ps)"

definition VerifySlot :: "(string \<Rightarrow> go_error + SlotFiles) \<Rightarrow> (string \<Rightarrow> go_error + string) \<Rightarrow> AssignmentRef \<Rightarrow> go_error option" where
  "VerifySlot slots digests ref = (case validateAssignmentRef ref of Some e \<Rightarrow> Some e
   | None \<Rightarrow> (case slots (path_Dir (ar_Slot ref)) of Inl e \<Rightarrow> Some e
     | Inr f \<Rightarrow> first_error
        [guard (\<not> sf_Private f) [Lit ''assignment slot directory must be an owner-only regular directory''],
         demand (sf_Executable f) [Lit ''assignment slot binary must be an owner-only executable regular file''],
         demand (sf_ManifestFile f) [Lit ''assignment slot manifest must be an owner-only regular file''],
         (case sf_Manifest f of Inl e \<Rightarrow> Some e | Inr (Inl e) \<Rightarrow> Some (Wrapf [Lit ''decode slot manifest: ''] e)
          | Inr (Inr m) \<Rightarrow> guard (\<not> slot_manifest_matches m ref) [Lit ''assignment slot manifest does not match the assignment'']),
         (case digests (ar_Slot ref) of Inl e \<Rightarrow> Some e
          | Inr d \<Rightarrow> guard (d \<noteq> ar_ArtifactSHA256 ref) [Lit ''assignment slot binary digest mismatch''])]))"

lemma VerifySlot_digest: "VerifySlot slots digests ref = None \<Longrightarrow> digests (ar_Slot ref) = Inr (ar_ArtifactSHA256 ref)"
  by (auto simp: VerifySlot_def split: option.splits sum.splits)

lemma VerifySlot_valid: "VerifySlot slots digests ref = None \<Longrightarrow> validateAssignmentRef ref = None"
  by (simp add: VerifySlot_def split: option.splits)

end
