(* ===== verification/Host.thy ===== *)
theory Host
  imports DeliveryConfig Scheduler
begin

text \<open>
  The host on which \<open>AssignmentController\<close> works: the files of the delivery, the LaunchAgents and the state directories of the
  repositories. Every change of the host is one operation \<open>host_op\<close>; the list \<open>ho_Fates\<close> says of each in turn whether it completes,
  fails without effect, takes effect but reports an error, or is the last thing that happens. A computation is a function from a
  host to a value or the reason to stop, and the host it leaves.
\<close>

section \<open>The host\<close>

record RegistryEntry =
  re_RepoID :: string
  re_RepoPath :: string

record AgentStatus =
  as_Loaded :: bool
  as_Running :: bool

text \<open>What the operation after next does.\<close>

datatype fate = Completes | Fails go_error | FailsLate go_error | Halts

record Host =
  ho_Config :: config_file
  ho_Registry :: "go_error + RegistryEntry gomap"
  ho_Tx :: "string \<Rightarrow> AssignmentTransaction stored"
  ho_Fence :: "string \<Rightarrow> Maintenance stored"
  ho_Wake :: "string \<Rightarrow> string"
  ho_Program :: "string \<Rightarrow> go_error + string"
  ho_Agent :: "string \<Rightarrow> go_error + AgentStatus"
  ho_State :: "string \<Rightarrow> Disk"
  ho_ControllerPlist :: "(go_error + string) stored"
  ho_Controller :: "go_error + AgentStatus"
  ho_Slots :: "string \<Rightarrow> go_error + SlotFiles"
  ho_Digests :: "string \<Rightarrow> go_error + string"
  ho_Now :: time
  ho_Fates :: "fate list"

text \<open>A file is found under its clean path.\<close>

definition file_digest :: "Host \<Rightarrow> string \<Rightarrow> go_error + string" where
  "file_digest h p = ho_Digests h (path_Clean p)"

datatype host_op =
    PutConfig DeliveryConfig
  | PutTx string AssignmentTransaction
  | PutFence string Maintenance
  | DropFence string
  | PutWake string string
  | PutProgram string string
  | StartAgent string AgentStatus
  | StopAgent string AgentStatus
  | PutState string Disk
  | PutControllerPlist "(go_error + string) stored"
  | StartController AgentStatus
  | StopController AgentStatus
  | PutSlot AssignmentRef

definition staged_files :: "AssignmentRef \<Rightarrow> SlotFiles" where
  "staged_files ref = \<lparr>sf_Private = True, sf_Executable = Inr True, sf_ManifestFile = Inr True,
     sf_Manifest = Inr (Inr \<lparr>sm_Version = 1, sm_ReleaseVersion = ar_Version ref, sm_Commit = ar_Commit ref,
       sm_ArtifactSHA256 = ar_ArtifactSHA256 ref, sm_Binary = ''agent-loop''\<rparr>)\<rparr>"

fun run_host_op :: "host_op \<Rightarrow> Host \<Rightarrow> Host" where
  "run_host_op (PutConfig c) h = h\<lparr>ho_Config := CurrentConfig c\<rparr>"
| "run_host_op (PutTx r tx) h = h\<lparr>ho_Tx := (ho_Tx h)(r := Holds tx)\<rparr>"
| "run_host_op (PutFence r m) h = h\<lparr>ho_Fence := (ho_Fence h)(r := Holds m)\<rparr>"
| "run_host_op (DropFence r) h = h\<lparr>ho_Fence := (ho_Fence h)(r := Missing)\<rparr>"
| "run_host_op (PutWake r s) h = h\<lparr>ho_Wake := (ho_Wake h)(r := s)\<rparr>"
| "run_host_op (PutProgram r p) h = h\<lparr>ho_Program := (ho_Program h)(r := Inr (path_Clean p))\<rparr>"
| "run_host_op (StartAgent r st) h = h\<lparr>ho_Agent := (ho_Agent h)(r := Inr st)\<rparr>"
| "run_host_op (StopAgent r st) h = h\<lparr>ho_Agent := (ho_Agent h)(r := Inr st)\<rparr>"
| "run_host_op (PutState r d) h = h\<lparr>ho_State := (ho_State h)(r := d)\<rparr>"
| "run_host_op (PutControllerPlist f) h = h\<lparr>ho_ControllerPlist := f\<rparr>"
| "run_host_op (StartController st) h = h\<lparr>ho_Controller := Inr st\<rparr>"
| "run_host_op (StopController st) h = h\<lparr>ho_Controller := Inr st\<rparr>"
| "run_host_op (PutSlot ref) h = h\<lparr>ho_Slots := (ho_Slots h)(path_Dir (ar_Slot ref) := Inr (staged_files ref)),
     ho_Digests := (ho_Digests h)(path_Clean (ar_Slot ref) := Inr (ar_ArtifactSHA256 ref))\<rparr>"

text \<open>What a computation asks of its surroundings.\<close>

record HostEnv =
  he_Lock :: "go_error option"
  he_Canonical :: "string \<Rightarrow> go_error + string"
  he_SlotsDir :: string
  he_BinDir :: string
  he_Store :: "string \<Rightarrow> Store"
  he_Draws :: "string \<Rightarrow> Draws"
  he_Supervisor :: "string \<Rightarrow> Disk \<Rightarrow> Disk"
  he_Sleep :: "time \<Rightarrow> go_error option"
  he_Booted :: "string \<Rightarrow> AgentStatus"
  he_Unloaded :: "string \<Rightarrow> AgentStatus"
  he_BinaryInfo :: "string \<Rightarrow> go_error + go_error + BinaryInfo"
  he_Doctor :: "string \<Rightarrow> string \<Rightarrow> bool \<Rightarrow> go_error + (int \<times> bool) option"
  he_Installed :: "go_error + (string \<times> string \<times> string)"
  he_Check :: "string \<Rightarrow> CheckRun"

section \<open>Computations\<close>

datatype stop = Failed go_error | Halted

type_synonym 'a act = "Host \<Rightarrow> (stop + 'a) \<times> Host"

definition give :: "'a \<Rightarrow> 'a act" where
  "give x h = (Inr x, h)"

definition fail_with :: "go_error \<Rightarrow> 'a act" where
  "fail_with e h = (Inl (Failed e), h)"

definition bind_act :: "'a act \<Rightarrow> ('a \<Rightarrow> 'b act) \<Rightarrow> 'b act" where
  "bind_act m f h = (case m h of (Inl s, h') \<Rightarrow> (Inl s, h') | (Inr x, h') \<Rightarrow> f x h')"

definition look :: "(Host \<Rightarrow> 'a) \<Rightarrow> 'a act" where
  "look f h = (Inr (f h), h)"

definition look_ok :: "(Host \<Rightarrow> go_error + 'a) \<Rightarrow> 'a act" where
  "look_ok f h = ((case f h of Inl e \<Rightarrow> Inl (Failed e) | Inr x \<Rightarrow> Inr x), h)"

definition require :: "(Host \<Rightarrow> go_error option) \<Rightarrow> unit act" where
  "require f h = ((case f h of Some e \<Rightarrow> Inl (Failed e) | None \<Rightarrow> Inr ()), h)"

text \<open>\<open>if err := m; err != nil\<close>: a failure becomes a value, a halt does not.\<close>

definition attempt :: "'a act \<Rightarrow> (go_error + 'a) act" where
  "attempt m h = (case m h of
     (Inl (Failed e), h') \<Rightarrow> (Inr (Inl e), h') | (Inl Halted, h') \<Rightarrow> (Inl Halted, h') | (Inr x, h') \<Rightarrow> (Inr (Inr x), h'))"

text \<open>A replaced file is replaced or not; only launchd and the store can report an error after an effect.\<close>

fun fails_late :: "host_op \<Rightarrow> bool" where
  "fails_late (StartAgent r st) = True"
| "fails_late (StopAgent r st) = True"
| "fails_late (PutState r d) = True"
| "fails_late (StartController st) = True"
| "fails_late (StopController st) = True"
| "fails_late _ = False"

definition perform :: "host_op \<Rightarrow> unit act" where
  "perform op h = (let h' = h\<lparr>ho_Fates := tl (ho_Fates h)\<rparr> in
     case ho_Fates h of
       [] \<Rightarrow> (Inr (), run_host_op op h)
     | Completes # _ \<Rightarrow> (Inr (), run_host_op op h')
     | Fails e # _ \<Rightarrow> (Inl (Failed e), h')
     | FailsLate e # _ \<Rightarrow> (Inl (Failed e), if fails_late op then run_host_op op h' else h')
     | Halts # _ \<Rightarrow> (Inl Halted, h'))"

text \<open>\<open>_ = m\<close>.\<close>

definition ignore_error :: "'a act \<Rightarrow> unit act" where
  "ignore_error m = bind_act (attempt m) (\<lambda>_. give ())"

text \<open>\<open>if err := m; err != nil { return recover(err) }; f\<close>.\<close>

definition otherwise :: "'a act \<Rightarrow> (go_error \<Rightarrow> 'b act) \<Rightarrow> ('a \<Rightarrow> 'b act) \<Rightarrow> 'b act" where
  "otherwise m handler f = bind_act (attempt m) (\<lambda>r. case r of Inl e \<Rightarrow> handler e | Inr x \<Rightarrow> f x)"

definition wrapped :: "piece list \<Rightarrow> 'a act \<Rightarrow> 'a act" where
  "wrapped ps m = otherwise m (\<lambda>e. fail_with (Wrapf ps e)) give"

text \<open>A pause: the clock advances and the supervisors go on.\<close>

definition pause :: "HostEnv \<Rightarrow> int \<Rightarrow> unit act" where
  "pause env d h = (let h' = h\<lparr>ho_Now := ho_Now h + d, ho_State := (\<lambda>r. he_Supervisor env r (ho_State h r))\<rparr> in
     case he_Sleep env (ho_Now h) of Some e \<Rightarrow> (Inl (Failed e), h) | None \<Rightarrow> (Inr (), h'))"

section \<open>Reading and writing the state of a repository\<close>

text \<open>Reading a snapshot recovers the disk, which is one operation.\<close>

definition load_state :: "HostEnv \<Rightarrow> string \<Rightarrow> Snapshot act" where
  "load_state env r h = (case Load (he_Store env r) (dr_Recover (he_Draws env r)) (ho_State h r) of
     (result, d) \<Rightarrow> bind_act (perform (PutState r d)) (\<lambda>_. look_ok (\<lambda>_. result)) h)"

definition update_state :: "HostEnv \<Rightarrow> string \<Rightarrow> string \<Rightarrow> int \<Rightarrow> string \<Rightarrow> payload \<Rightarrow> (Snapshot \<Rightarrow> go_error + Snapshot) \<Rightarrow> Snapshot act" where
  "update_state env r eventType number runID payload mutate h =
     (case Update (he_Store env r) (he_Draws env r) eventType number runID payload mutate (ho_State h r) of
        (result, d) \<Rightarrow> bind_act (perform (PutState r d)) (\<lambda>_. look_ok (\<lambda>_. result)) h)"

definition RecoverUnstartedConflictLaunch :: "HostEnv \<Rightarrow> string \<Rightarrow> Snapshot act" where
  "RecoverUnstartedConflictLaunch env r =
     bind_act (look ho_Now) (\<lambda>now.
     bind_act (require (\<lambda>_. guard (IsZero now) [Lit ''unstarted conflict launch recovery requires an observation time''])) (\<lambda>_.
     bind_act (load_state env r) (\<lambda>s.
       case (conflict_launch_pending s, snap_ActiveExecution s) of
         (Some issue, Some active) \<Rightarrow>
           bind_act (require (\<lambda>_. validateUnstartedConflictLaunch s (Some issue))) (\<lambda>_.
             update_state env r ''unstarted_conflict_launch_recovered'' (iss_Number issue) (iss_RunID issue)
               (CallerPayload ''{launch_source,run_id,generation,checkpoint_id,observed_at}'')
               (conflict_launch_mutation (iss_Number issue) active now))
       | _ \<Rightarrow> give s)))"

definition ReconcileStoppedAssignment :: "HostEnv \<Rightarrow> string \<Rightarrow> unit act" where
  "ReconcileStoppedAssignment env r =
     bind_act (RecoverUnstartedConflictLaunch env r) (\<lambda>_.
     bind_act (look ho_Now) (\<lambda>now.
     bind_act (update_state env r ''assignment_stopped_state_reconciled'' 0 '''' (CallerPayload ''{reason}'') (stopped_assignment_mutation now))
       (\<lambda>_. give ())))"

end
