(* ===== verification/Assignment.thy ===== *)
theory Assignment
  imports Host
begin

text \<open>
  \<open>AssignmentController\<close> (\<open>internal/application/delivery/assignment_controller.go\<close>) with the parts of \<open>assignment_slot.go\<close>, \<open>assignment_state.go\<close>
  and \<open>platform/launchd\<close> it drives: the switch of one repository to another slot, its rollback, the retries after a failed rollback,
  the assignments of registered and removed repositories, and the migration of the configuration.
\<close>

section \<open>Files\<close>

definition verify_slot :: "AssignmentRef \<Rightarrow> unit act" where
  "verify_slot ref = require (\<lambda>h. VerifySlot (ho_Slots h) (file_digest h) ref)"

definition SaveAssignmentTransaction :: "string \<Rightarrow> AssignmentTransaction \<Rightarrow> unit act" where
  "SaveAssignmentTransaction r tx =
     bind_act (require (\<lambda>_. validateAssignmentTransaction tx)) (\<lambda>_.
     bind_act (look ho_Now) (\<lambda>now. perform (PutTx r (tx\<lparr>at_Version := 1, at_UpdatedAt := now\<rparr>))))"

definition load_transaction :: "string \<Rightarrow> AssignmentTransaction act" where
  "load_transaction r = look_ok (\<lambda>h. LoadAssignmentTransaction (ho_Tx h r))"

definition WriteMaintenance :: "string \<Rightarrow> string \<Rightarrow> VersionRef \<Rightarrow> unit act" where
  "WriteMaintenance r gen desired = bind_act (look ho_Now) (\<lambda>now.
     perform (PutFence r \<lparr>mt_Version = 1, mt_Generation = gen, mt_Desired = desired, mt_RequestedAt = now\<rparr>))"

definition ClearMaintenance :: "string \<Rightarrow> unit act" where
  "ClearMaintenance r = perform (DropFence r)"

definition wake :: "string \<Rightarrow> string \<Rightarrow> unit act" where
  "wake r text = perform (PutWake r (text @ [CHR 0x0A]))"

definition load_config :: "DeliveryConfig act" where
  "load_config = look_ok (\<lambda>h. LoadConfig (ho_Config h))"

definition WriteConfig :: "DeliveryConfig \<Rightarrow> unit act" where
  "WriteConfig cfg = bind_act (require (\<lambda>_. Config_Validate cfg)) (\<lambda>_.
     bind_act (require (\<lambda>h. case ho_Config h of BadConfig e \<Rightarrow> Some e | _ \<Rightarrow> None)) (\<lambda>_. perform (PutConfig cfg)))"

definition StageSlot :: "HostEnv \<Rightarrow> AssignmentRef \<Rightarrow> string \<Rightarrow> unit act" where
  "StageSlot env ref source =
     bind_act (require (\<lambda>_. validateAssignmentRef ref)) (\<lambda>_.
     bind_act (require (\<lambda>_. guard (path_Clean (ar_Slot (SlotRef (he_SlotsDir env) (ar_Version ref) (ar_Commit ref) (ar_ArtifactSHA256 ref)))
                              \<noteq> path_Clean (ar_Slot ref)) [Lit ''assignment slot is not the canonical version and digest path''])) (\<lambda>_.
     bind_act (look_ok (\<lambda>h. file_digest h source)) (\<lambda>digest.
     bind_act (require (\<lambda>_. guard (digest \<noteq> ar_ArtifactSHA256 ref) [Lit ''slot source digest does not match the assignment''])) (\<lambda>_.
     bind_act (look (\<lambda>h. ho_Slots h (path_Dir (ar_Slot ref)))) (\<lambda>dir. case dir of
       Inr _ \<Rightarrow> verify_slot ref
     | Inl e \<Rightarrow> if e \<noteq> not_exist then fail_with e
         else bind_act (perform (PutSlot ref)) (\<lambda>_. verify_slot ref))))))"

section \<open>LaunchAgents\<close>

definition agent_status :: "string \<Rightarrow> AgentStatus act" where
  "agent_status r = look_ok (\<lambda>h. ho_Agent h r)"

definition WritePlist :: "RegistryEntry \<Rightarrow> string \<Rightarrow> unit act" where
  "WritePlist entry binary =
     bind_act (require (\<lambda>_. guard (\<not> IsAbs binary \<or> \<not> IsAbs (re_RepoPath entry)) [Lit ''launchd paths must be absolute''])) (\<lambda>_.
       perform (PutProgram (re_RepoID entry) binary))"

definition agent_program :: "string \<Rightarrow> string act" where
  "agent_program r = look_ok (\<lambda>h. ho_Program h r)"

definition Start :: "HostEnv \<Rightarrow> string \<Rightarrow> unit act" where
  "Start env r = bind_act (agent_status r) (\<lambda>st.
     if as_Loaded st then give ()
     else bind_act (perform (StartAgent r (he_Booted env r))) (\<lambda>_.
       require (\<lambda>_. guard (\<not> as_Loaded (he_Booted env r)) [Lit ''LaunchAgent did not become loaded''])))"

definition RequestStop :: "HostEnv \<Rightarrow> string \<Rightarrow> bool act" where
  "RequestStop env r = bind_act (agent_status r) (\<lambda>st.
     if \<not> as_Loaded st then give False
     else bind_act (perform (StopAgent r (he_Unloaded env r))) (\<lambda>_. give True))"

definition WaitStopped :: "HostEnv \<Rightarrow> string \<Rightarrow> unit act" where
  "WaitStopped env r = bind_act (agent_status r) (\<lambda>st. if as_Loaded st
     then fail_with (Errorf [Lit ''LaunchAgent did not become unloaded'']) else give ())"

definition Stop :: "HostEnv \<Rightarrow> string \<Rightarrow> unit act" where
  "Stop env r = bind_act (RequestStop env r) (\<lambda>requested. if requested then WaitStopped env r else give ())"

section \<open>Registry\<close>

definition Resolve :: "HostEnv \<Rightarrow> string \<Rightarrow> RegistryEntry act" where
  "Resolve env repoPath = bind_act (look_ok ho_Registry) (\<lambda>repos.
     if repoPath \<noteq> '''' then
       bind_act (look_ok (\<lambda>_. he_Canonical env repoPath)) (\<lambda>canonical.
         case find (\<lambda>(i, e). re_RepoPath e = canonical) (entries repos) of
           None \<Rightarrow> fail_with (Errorf [Lit ''repository is not registered: '', Str canonical])
         | Some (i, e) \<Rightarrow> give e)
     else (case entries repos of
         [(i, e)] \<Rightarrow> give e
       | [] \<Rightarrow> fail_with (Errorf [Lit ''no repositories are registered''])
       | _ \<Rightarrow> fail_with (Errorf [Lit ''repository is ambiguous; specify --repo (registered: '', Str (join '', '' (sort (mkeys repos))), Lit '')''])))"

definition canonical_ref :: "HostEnv \<Rightarrow> AssignmentRef \<Rightarrow> AssignmentRef" where
  "canonical_ref env ref = SlotRef (he_SlotsDir env) (ar_Version ref) (ar_Commit ref) (ar_ArtifactSHA256 ref)"

definition validateAssignmentSet :: "HostEnv \<Rightarrow> DeliveryConfig \<Rightarrow> RegistryEntry gomap \<Rightarrow> go_error option" where
  "validateAssignmentSet env cfg repos = first_error
     [guard (length (entries (dc_Assignments cfg)) \<noteq> length (entries repos))
        [Lit ''assignment set has '', Num (int (length (entries (dc_Assignments cfg)))), Lit '' repositories but registry has '',
         Num (int (length (entries repos)))],
      for_each (\<lambda>(i, a). first_error
        [guard (mlookup repos i = None) [Lit ''assignment repository '', Str i, Lit '' is not registered''],
         guard (ra_Ref a \<noteq> canonical_ref env (ra_Ref a)) [Lit ''assignment repository '', Str i, Lit '' does not use its canonical immutable slot''],
         (case ra_Previous a of None \<Rightarrow> None
          | Some p \<Rightarrow> guard (p \<noteq> canonical_ref env p)
              [Lit ''assignment repository '', Str i, Lit '' previous version does not use its canonical immutable slot''])])
        (entries (dc_Assignments cfg)),
      for_each (\<lambda>(i, e). guard (mlookup (dc_Assignments cfg) i = None)
        [Lit ''registered repository '', Str i, Lit '' has no initialized assignment'']) (entries repos)]"

definition loadAssignmentSet :: "HostEnv \<Rightarrow> (DeliveryConfig \<times> RegistryEntry gomap) act" where
  "loadAssignmentSet env = bind_act load_config (\<lambda>cfg. bind_act (look_ok ho_Registry) (\<lambda>repos.
     bind_act (require (\<lambda>_. validateAssignmentSet env cfg repos)) (\<lambda>_. give (cfg, repos))))"

section \<open>Reports\<close>

record AssignmentRuntime =
  rt_Program :: string
  rt_Digest :: string
  rt_Matches :: bool
  rt_Launchd :: AgentStatus

record AssignmentReport =
  rp_Repository :: string
  rp_Assignment :: RepositoryAssignment
  rp_Runtime :: AssignmentRuntime
  rp_Transaction :: "AssignmentTransaction option"
  rp_FenceActive :: bool
  rp_Result :: string
  rp_Reason :: string

text \<open>A report is read from the host; with an error it is what was read before the error.\<close>

definition assignmentReport :: "RegistryEntry \<Rightarrow> RepositoryAssignment \<Rightarrow> Host \<Rightarrow> AssignmentReport \<times> go_error option" where
  "assignmentReport entry a h =
     (let r = re_RepoID entry; st = \<lparr>as_Loaded = False, as_Running = False\<rparr>;
          report = (\<lambda>rt. \<lparr>rp_Repository = r, rp_Assignment = a, rp_Runtime = rt, rp_Transaction = None, rp_FenceActive = False,
                     rp_Result = '''', rp_Reason = ''''\<rparr>)
      in case ho_Program h r of
        Inl e \<Rightarrow> (report \<lparr>rt_Program = '''', rt_Digest = '''', rt_Matches = False, rt_Launchd = st\<rparr>,
                 Some (Wrapf [Lit ''inspect repository LaunchAgent program: ''] e))
      | Inr program \<Rightarrow> (case file_digest h program of
          Inl e \<Rightarrow> (report \<lparr>rt_Program = program, rt_Digest = '''', rt_Matches = False, rt_Launchd = st\<rparr>, Some e)
        | Inr digest \<Rightarrow>
          let matches = (path_Clean program = path_Clean (ar_Slot (ra_Ref a)) \<and> digest = ar_ArtifactSHA256 (ra_Ref a)) in
          (case ho_Agent h r of
             Inl e \<Rightarrow> (report \<lparr>rt_Program = program, rt_Digest = digest, rt_Matches = matches, rt_Launchd = st\<rparr>, Some e)
           | Inr st \<Rightarrow>
             let rep = report \<lparr>rt_Program = program, rt_Digest = digest, rt_Matches = matches, rt_Launchd = st\<rparr> in
             (case LoadAssignmentTransaction (ho_Tx h r) of
                Inl e \<Rightarrow> (rep, Some e)
              | Inr tx \<Rightarrow>
                let rep = (if at_RepositoryID tx = '''' then rep
                           else if at_Phase tx = AssignmentDraining \<and> at_Result tx = ''deferred''
                           then rep\<lparr>rp_Transaction := Some tx, rp_Result := ''pending'', rp_Reason := at_Reason tx\<rparr>
                           else rep\<lparr>rp_Transaction := Some tx\<rparr>)
                in (if ho_Fence h r = Missing then rep else rep\<lparr>rp_FenceActive := True\<rparr>, None)))))"

type_synonym outcome = "AssignmentReport \<times> go_error option"

definition report_as :: "RegistryEntry \<Rightarrow> RepositoryAssignment \<Rightarrow> string \<Rightarrow> outcome act" where
  "report_as entry a result = look (\<lambda>h. case assignmentReport entry a h of (rep, err) \<Rightarrow> (rep\<lparr>rp_Result := result\<rparr>, err))"

definition reportWithTransaction :: "RegistryEntry \<Rightarrow> RepositoryAssignment \<Rightarrow> AssignmentTransaction \<Rightarrow> go_error \<Rightarrow> outcome act" where
  "reportWithTransaction entry a tx cause = look (\<lambda>h. ((fst (assignmentReport entry a h))\<lparr>rp_Transaction := Some tx,
     rp_Result := at_Result tx, rp_Reason := at_Reason tx\<rparr>, Some cause))"

section \<open>Health\<close>

definition assignmentProtocol :: "HostEnv \<Rightarrow> string \<Rightarrow> AssignmentRef \<Rightarrow> int act" where
  "assignmentProtocol env program ref = (case he_BinaryInfo env program of
     Inl e \<Rightarrow> fail_with (Wrapf [Lit ''inspect repository assignment protocol: ''] e)
   | Inr (Inl e) \<Rightarrow> fail_with (Wrapf [Lit ''decode repository assignment protocol: ''] e)
   | Inr (Inr info) \<Rightarrow>
       if bin_Version info \<noteq> ar_Version ref \<or> bin_Commit info \<noteq> ar_Commit ref
       then fail_with (Errorf [Lit ''loaded repository version and commit do not match its current assignment''])
       else if bin_AssignmentProtocol info < 0 \<or> bin_AssignmentProtocol info > AssignmentProtocolVersion
       then fail_with (Errorf [Lit ''loaded repository uses an unsupported assignment protocol''])
       else give (bin_AssignmentProtocol info))"

definition runtimeAssignmentProtocol :: "HostEnv \<Rightarrow> string \<Rightarrow> AssignmentRef \<Rightarrow> int act" where
  "runtimeAssignmentProtocol env r current =
     bind_act (agent_program r) (\<lambda>program.
     bind_act (look_ok (\<lambda>h. file_digest h program)) (\<lambda>digest.
       if digest \<noteq> ar_ArtifactSHA256 current
       then fail_with (Errorf [Lit ''loaded repository binary digest does not match its current assignment''])
       else assignmentProtocol env program current))"

definition stopped_health :: "HostEnv \<Rightarrow> string \<Rightarrow> unit act" where
  "stopped_health env r =
     bind_act (wrapped [Lit ''validate stopped repository canonical snapshot: ''] (load_state env r)) (\<lambda>s.
       require (\<lambda>_. first_error
         [guard (sup_State (snap_Supervisor s) \<noteq> SupervisorStateStopped) [Lit ''stopped assignment requires supervisor state stopped, got '',
            Str (SupervisorState_String (sup_State (snap_Supervisor s)))],
          guard (HasWorker s) [Lit ''stopped assignment canonical snapshot still owns a worker process'']]))"

definition doctor_health :: "HostEnv \<Rightarrow> RegistryEntry \<Rightarrow> AssignmentRef \<Rightarrow> int \<Rightarrow> unit act" where
  "doctor_health env entry ref protocol = (case he_Doctor env (ar_Slot ref) (re_RepoPath entry) (protocol \<ge> 1) of
     Inl e \<Rightarrow> fail_with (Wrapf [Lit ''assigned repository doctor failed: ''] e)
   | Inr (Some (schema, ok)) \<Rightarrow> if schema = 1 \<and> ok then give ()
       else fail_with (Errorf [Lit ''assigned repository doctor did not return ok=true''])
   | Inr None \<Rightarrow> fail_with (Errorf [Lit ''assigned repository doctor did not return ok=true'']))"

definition health :: "HostEnv \<Rightarrow> RegistryEntry \<Rightarrow> AssignmentRef \<Rightarrow> bool \<Rightarrow> unit act" where
  "health env entry ref wasLoaded =
     bind_act (verify_slot ref) (\<lambda>_.
     bind_act (agent_program (re_RepoID entry)) (\<lambda>program.
     bind_act (require (\<lambda>_. guard (path_Clean program \<noteq> path_Clean (ar_Slot ref))
                 [Lit ''LaunchAgent program does not match the assigned immutable slot''])) (\<lambda>_.
     bind_act (agent_status (re_RepoID entry)) (\<lambda>st.
     bind_act (require (\<lambda>_. guard (wasLoaded \<and> (\<not> as_Loaded st \<or> \<not> as_Running st))
                 [Lit ''assigned repository LaunchAgent is not running''])) (\<lambda>_.
     bind_act (assignmentProtocol env (ar_Slot ref) ref) (\<lambda>protocol.
       if \<not> wasLoaded then stopped_health env (re_RepoID entry) else doctor_health env entry ref protocol))))))"

definition inspectAssignmentStop :: "HostEnv \<Rightarrow> string \<Rightarrow> unit act" where
  "inspectAssignmentStop env r =
     bind_act (wrapped [Lit ''inspect assignment state before stopping runtime: ''] (load_state env r)) (\<lambda>s.
       require (\<lambda>_. guard (HasWorker s \<or> snap_ActiveExecution s \<noteq> None) [Lit ''assignment refuses to stop an active worker'']))"

section \<open>Draining\<close>

definition second :: int where "second = 10 ^ 9"

definition drain_poll :: "HostEnv \<Rightarrow> string \<Rightarrow> bool act" where
  "drain_poll env r =
     bind_act (load_state env r) (\<lambda>s.
     bind_act (if RecoverableUnstartedConflictLaunch s
               then wrapped [Lit ''recover unstarted conflict launch while draining: ''] (RecoverUnstartedConflictLaunch env r)
               else give s) (\<lambda>s. give (drain_Ready s)))"

text \<open>One round of a waiting loop: the poll, the deadline, the pause. The result is whether the loop is done.\<close>

definition wait_round :: "bool act \<Rightarrow> HostEnv \<Rightarrow> time \<Rightarrow> bool act" where
  "wait_round poll env deadline = bind_act poll (\<lambda>ready.
     if ready then give True
     else bind_act (look ho_Now) (\<lambda>now.
       if \<not> now < deadline
       then fail_with (Errorf [Lit ''repository drain deadline reached without signaling or killing workers''])
       else bind_act (pause env second) (\<lambda>_. give False)))"

text \<open>The loop runs as long as a round says so; the rounds are bounded by \<open>rounds\<close>, and \<open>None\<close> is a loop that is not over then.\<close>

fun wait_rounds :: "nat \<Rightarrow> bool act \<Rightarrow> HostEnv \<Rightarrow> time \<Rightarrow> Host \<Rightarrow> ((stop + unit) \<times> Host) option" where
  "wait_rounds 0 poll env deadline h = None"
| "wait_rounds (Suc n) poll env deadline h = (case wait_round poll env deadline h of
     (Inl s, h') \<Rightarrow> Some (Inl s, h')
   | (Inr True, h') \<Rightarrow> Some (Inr (), h')
   | (Inr False, h') \<Rightarrow> wait_rounds n poll env deadline h')"

definition rounds_until :: "time \<Rightarrow> time \<Rightarrow> nat" where
  "rounds_until deadline now = nat ((deadline - now) div second + 1) + 1"

definition wait_until :: "bool act \<Rightarrow> HostEnv \<Rightarrow> time \<Rightarrow> unit act" where
  "wait_until poll env deadline h = (case wait_rounds (rounds_until deadline (ho_Now h)) poll env deadline h of
     None \<Rightarrow> (Inl Halted, h) | Some r \<Rightarrow> r)"

definition waitForDrain :: "HostEnv \<Rightarrow> DeliveryConfig \<Rightarrow> string \<Rightarrow> unit act" where
  "waitForDrain env cfg r = bind_act (look ho_Now) (\<lambda>now. wait_until (drain_poll env r) env (now + DrainDuration cfg))"

definition legacy_busy :: "Snapshot \<Rightarrow> bool" where
  "legacy_busy s \<longleftrightarrow> HasWorker s \<or> (\<exists>item \<in> set (pointees (snap_Issues s)).
     iss_Status item = StatusRunning \<or> iss_Status item = StatusLaunching
     \<or> (case iss_Suspension item of None \<Rightarrow> False | Some x \<Rightarrow> susp_ReasonCode x = ''legacy_launch_authority''))"

text \<open>A runtime without the protocol is stopped as soon as its snapshot is idle; the stop is requested under the lock of the state.\<close>

definition legacy_poll :: "HostEnv \<Rightarrow> string \<Rightarrow> bool act" where
  "legacy_poll env r =
     bind_act (wrapped [Lit ''stop legacy repository runtime under admission lock: ''] (bind_act (load_state env r) (\<lambda>s.
       if legacy_busy s then give (False, False)
       else bind_act (RequestStop env r) (\<lambda>requested. give (True, requested))))) (\<lambda>(idle, requested).
     bind_act (if requested then wrapped [Lit ''wait for legacy repository runtime to stop: ''] (WaitStopped env r) else give ()) (\<lambda>_.
       give idle))"

definition waitForLegacyIdleAndStop :: "HostEnv \<Rightarrow> DeliveryConfig \<Rightarrow> string \<Rightarrow> unit act" where
  "waitForLegacyIdleAndStop env cfg r = bind_act (look ho_Now) (\<lambda>now. wait_until (legacy_poll env r) env (now + DrainDuration cfg))"

section \<open>The delivery controller of the host\<close>

definition controller_program :: "Host \<Rightarrow> go_error + string" where
  "controller_program h = (case ho_ControllerPlist h of Missing \<Rightarrow> Inl not_exist | Unreadable e \<Rightarrow> Inl e | Holds p \<Rightarrow> p)"

definition StartDelivery :: "HostEnv \<Rightarrow> unit act" where
  "StartDelivery env = bind_act (look_ok ho_Controller) (\<lambda>st. if as_Loaded st then give ()
     else bind_act (perform (StartController (he_Booted env ''com.codex-issue-loop.delivery''))) (\<lambda>_.
       require (\<lambda>_. guard (\<not> as_Loaded (he_Booted env ''com.codex-issue-loop.delivery'')) [Lit ''delivery LaunchAgent did not become loaded''])))"

definition StopDelivery :: "HostEnv \<Rightarrow> unit act" where
  "StopDelivery env = bind_act (look_ok ho_Controller) (\<lambda>st. if \<not> as_Loaded st then give ()
     else bind_act (perform (StopController (he_Unloaded env ''com.codex-issue-loop.delivery''))) (\<lambda>_.
       require (\<lambda>_. guard (as_Loaded (he_Unloaded env ''com.codex-issue-loop.delivery'')) [Lit ''delivery LaunchAgent did not stop''])))"

definition WriteDeliveryPlist :: "DeliveryConfig \<Rightarrow> string \<Rightarrow> unit act" where
  "WriteDeliveryPlist cfg binary = bind_act (require (\<lambda>_. first_error
     [guard (\<not> IsAbs binary) [Lit ''delivery binary path must be absolute''],
      guard (PollDuration cfg < minute) [Lit ''delivery interval must be at least one minute'']])) (\<lambda>_.
       perform (PutControllerPlist (Holds (Inr (path_Clean binary)))))"

definition ensureDeliveryController :: "HostEnv \<Rightarrow> DeliveryConfig \<Rightarrow> AssignmentRef \<Rightarrow> unit act" where
  "ensureDeliveryController env cfg desired =
     bind_act (verify_slot desired) (\<lambda>_.
     bind_act (look controller_program) (\<lambda>program.
     if (case program of Inl e \<Rightarrow> False | Inr p \<Rightarrow> path_Clean p = path_Clean (ar_Slot desired)) then give ()
     else bind_act (look ho_ControllerPlist) (\<lambda>previous.
       bind_act (require (\<lambda>_. case previous of Unreadable e \<Rightarrow> Some e | _ \<Rightarrow> None)) (\<lambda>_.
       bind_act (look_ok ho_Controller) (\<lambda>st.
       bind_act (WriteDeliveryPlist cfg (ar_Slot desired)) (\<lambda>_.
         let restore = perform (PutControllerPlist previous) in
         if \<not> as_Loaded st then give ()
         else otherwise (StopDelivery env) (\<lambda>e. bind_act (ignore_error restore) (\<lambda>_. fail_with e)) (\<lambda>_.
           otherwise (StartDelivery env) (\<lambda>e.
             bind_act (attempt restore) (\<lambda>restored. bind_act (attempt (StartDelivery env)) (\<lambda>restarted.
               case (restored, restarted) of
                 (Inr _, Inr _) \<Rightarrow> fail_with (Wrapf [Lit ''start assignment controller: '', Lit ''previous controller restored: ''] e)
               | _ \<Rightarrow> fail_with (Errorf [Lit ''start assignment controller: '', Str (error_text e)])))) give)))))))"

section \<open>Rolling a switch back\<close>

definition restore_runtime :: "HostEnv \<Rightarrow> RegistryEntry \<Rightarrow> AssignmentRef \<Rightarrow> bool \<Rightarrow> unit act" where
  "restore_runtime env entry ref wasLoaded =
     bind_act (inspectAssignmentStop env (re_RepoID entry)) (\<lambda>_.
     bind_act (ignore_error (Stop env (re_RepoID entry))) (\<lambda>_.
     bind_act (verify_slot ref) (\<lambda>_.
     bind_act (WritePlist entry (ar_Slot ref)) (\<lambda>_.
     bind_act (if wasLoaded then Start env (re_RepoID entry) else give ()) (\<lambda>_.
       health env entry ref wasLoaded)))))"

definition rollbackSwitch :: "HostEnv \<Rightarrow> RegistryEntry \<Rightarrow> RepositoryAssignment \<Rightarrow> AssignmentTransaction \<Rightarrow> go_error \<Rightarrow> outcome act" where
  "rollbackSwitch env entry current tx cause =
     (let r = re_RepoID entry;
          tx = tx\<lparr>at_Phase := AssignmentRollingBack, at_Result := lit ''rolling_back'', at_Reason := error_text cause\<rparr> in
     bind_act (ignore_error (SaveAssignmentTransaction r tx)) (\<lambda>_.
     otherwise (restore_runtime env entry (ra_Ref current) (at_WasLoaded tx))
       (\<lambda>e. let reason = error_text cause @ ''; rollback failed: '' @ error_text e;
                tx = tx\<lparr>at_Phase := AssignmentRollbackFailed, at_Result := lit ''rollback_failed'', at_Reason := reason\<rparr> in
          bind_act (ignore_error (SaveAssignmentTransaction r tx)) (\<lambda>_.
            reportWithTransaction entry current tx (Errorf [Str reason])))
       (\<lambda>_. bind_act (ignore_error (ClearMaintenance r)) (\<lambda>_.
          bind_act (ignore_error (wake r ''assignment-rollback-cleared'')) (\<lambda>_.
          let tx = tx\<lparr>at_Phase := AssignmentRolledBack, at_Result := lit ''rolled_back''\<rparr> in
          bind_act (ignore_error (SaveAssignmentTransaction r tx)) (\<lambda>_.
            reportWithTransaction entry current tx (Wrapf [Lit ''assignment failed and was rolled back: ''] cause)))))))"

section \<open>Switching\<close>

definition unfinished :: "AssignmentTransaction \<Rightarrow> bool" where
  "unfinished tx \<longleftrightarrow> at_RepositoryID tx \<noteq> '''' \<and> at_Phase tx \<noteq> AssignmentSucceeded \<and> at_Phase tx \<noteq> AssignmentRolledBack"

definition deferred :: "AssignmentTransaction \<Rightarrow> bool" where
  "deferred tx \<longleftrightarrow> at_Phase tx = AssignmentDraining \<and> at_Result tx = ''deferred''"

definition deferred_error :: "string \<Rightarrow> RepositoryAssignment \<Rightarrow> AssignmentTransaction \<Rightarrow> Host \<Rightarrow> go_error option" where
  "deferred_error r current tx h = (if \<not> deferred tx then None else first_error
     [guard (at_RepositoryID tx \<noteq> r \<or> at_ExpectedGeneration tx \<noteq> ra_Generation current \<or> at_Current tx \<noteq> ra_Ref current)
        [Lit ''deferred assignment transaction no longer matches the committed assignment''],
      guard (ho_Fence h r \<noteq> Missing) [Lit ''deferred assignment transaction still has a repository fence'']])"

type_synonym switch_state = "DeliveryConfig \<times> RegistryEntry \<times> RepositoryAssignment \<times> AssignmentTransaction"

definition assignment_of :: "DeliveryConfig \<Rightarrow> string \<Rightarrow> RepositoryAssignment act" where
  "assignment_of cfg r = (case mlookup (dc_Assignments cfg) r of
     None \<Rightarrow> fail_with (Errorf [Lit ''repository has no initialized assignment'']) | Some a \<Rightarrow> give a)"

definition switch_context :: "HostEnv \<Rightarrow> string \<Rightarrow> switch_state act" where
  "switch_context env repoPath =
     bind_act (require (\<lambda>_. he_Lock env)) (\<lambda>_.
     bind_act (loadAssignmentSet env) (\<lambda>(cfg, repos).
     bind_act (Resolve env repoPath) (\<lambda>entry.
     bind_act (assignment_of cfg (re_RepoID entry)) (\<lambda>current.
     bind_act (wrapped [Lit ''verify current assignment slot: ''] (verify_slot (ra_Ref current))) (\<lambda>_.
     bind_act (load_transaction (re_RepoID entry)) (\<lambda>tx.
     bind_act (require (deferred_error (re_RepoID entry) current tx)) (\<lambda>_. give (cfg, entry, current, tx))))))))"

definition version_of :: "AssignmentRef \<Rightarrow> VersionRef" where
  "version_of ref = \<lparr>ref_Version = ar_Version ref, ref_Commit = ar_Commit ref\<rparr>"

definition fence_generation :: "uint64 \<Rightarrow> string" where
  "fence_generation g = ''assignment-'' @ Itoa (uint g)"

definition finish_committed :: "HostEnv \<Rightarrow> RegistryEntry \<Rightarrow> RepositoryAssignment \<Rightarrow> AssignmentTransaction \<Rightarrow> outcome act" where
  "finish_committed env entry current tx =
     bind_act (health env entry (ra_Ref current) (at_WasLoaded tx)) (\<lambda>_.
     bind_act (ClearMaintenance (re_RepoID entry)) (\<lambda>_.
     bind_act (ignore_error (wake (re_RepoID entry) ''assignment-resumed-cleared'')) (\<lambda>_.
     bind_act (SaveAssignmentTransaction (re_RepoID entry) (tx\<lparr>
         at_Phase := (if at_Operation tx = OperationRollback then AssignmentRolledBack else AssignmentSucceeded),
         at_Result := lit ''succeeded'', at_Reason := ''''\<rparr>)) (\<lambda>_.
       report_as entry current ''succeeded''))))"

definition retry_error :: "string \<Rightarrow> RepositoryAssignment \<Rightarrow> AssignmentTransaction \<Rightarrow> AssignmentRef \<Rightarrow> uint64 \<Rightarrow> AssignmentOperation \<Rightarrow> Host \<Rightarrow> go_error option" where
  "retry_error r current tx desired expected operation h =
     (if at_RepositoryID tx \<noteq> r \<or> at_Operation tx \<noteq> operation \<or> at_ExpectedGeneration tx \<noteq> expected
        \<or> at_Current tx \<noteq> ra_Ref current \<or> at_Desired tx \<noteq> desired
      then Some (Errorf [Lit ''retained assignment transaction does not match the requested retry''])
      else case LoadMaintenance (ho_Fence h r) of
        Inl e \<Rightarrow> Some (Wrapf [Lit ''load retained assignment fence: ''] e)
      | Inr fence \<Rightarrow> guard (mt_Generation fence \<noteq> fence_generation (at_TargetGeneration tx) \<or> mt_Desired fence \<noteq> version_of desired)
          [Lit ''retained assignment fence does not match the failed transaction''])"

text \<open>Before a retry the runtime is stopped, unless the snapshot shows a worker.\<close>

definition stop_retained :: "HostEnv \<Rightarrow> string \<Rightarrow> AgentStatus \<Rightarrow> AgentStatus act" where
  "stop_retained env r st = (if as_Loaded st
     then bind_act (inspectAssignmentStop env r) (\<lambda>_.
       bind_act (wrapped [Lit ''stop idle retained assignment runtime: ''] (Stop env r)) (\<lambda>_.
       bind_act (agent_status r) (\<lambda>st.
       bind_act (require (\<lambda>_. guard (as_Loaded st \<or> as_Running st) [Lit ''retained assignment runtime did not stop''])) (\<lambda>_. give st))))
     else bind_act (wrapped [Lit ''inspect retained assignment state: ''] (load_state env r)) (\<lambda>s.
       bind_act (require (\<lambda>_. guard (HasWorker s) [Lit ''retained assignment retry refuses to stop an active worker''])) (\<lambda>_. give st)))"

definition prepare_retained :: "HostEnv \<Rightarrow> string \<Rightarrow> AssignmentTransaction \<Rightarrow> AgentStatus \<Rightarrow> (AssignmentTransaction \<times> AgentStatus) act" where
  "prepare_retained env r tx st =
     bind_act (stop_retained env r st) (\<lambda>st.
     bind_act (require (\<lambda>_. guard (as_Running st) [Lit ''retained assignment retry refuses a running unloaded runtime''])) (\<lambda>_.
     bind_act (if at_WasLoaded tx then give ()
               else wrapped [Lit ''reconcile stopped retained assignment state: ''] (ReconcileStoppedAssignment env r)) (\<lambda>_.
     let tx = tx\<lparr>at_Phase := AssignmentPlanned, at_Result := lit ''retrying''\<rparr> in
     bind_act (SaveAssignmentTransaction r tx) (\<lambda>_. give (tx, st)))))"

definition new_transaction :: "string \<Rightarrow> RepositoryAssignment \<Rightarrow> AssignmentRef \<Rightarrow> AssignmentOperation \<Rightarrow> bool \<Rightarrow> time \<Rightarrow> AssignmentTransaction" where
  "new_transaction r current desired operation loaded now = \<lparr>at_Version = 0, at_RepositoryID = r, at_Operation = operation,
     at_Phase = AssignmentPlanned, at_ExpectedGeneration = ra_Generation current, at_TargetGeneration = ra_Generation current + 1,
     at_Current = ra_Ref current, at_Desired = desired, at_WasLoaded = loaded, at_Result = '''', at_Reason = '''',
     at_StartedAt = now, at_UpdatedAt = 0\<rparr>"

text \<open>The transaction, the fence and the wake-up are on the disk before the repository is drained.\<close>

definition raise_fence :: "HostEnv \<Rightarrow> string \<Rightarrow> AssignmentTransaction \<Rightarrow> AssignmentTransaction act" where
  "raise_fence env r tx =
     bind_act (WriteMaintenance r (fence_generation (at_TargetGeneration tx)) (version_of (at_Desired tx))) (\<lambda>_.
     bind_act (wake r (fence_generation (at_TargetGeneration tx))) (\<lambda>_.
     let tx = tx\<lparr>at_Phase := AssignmentDraining, at_Result := lit ''draining''\<rparr> in
     bind_act (SaveAssignmentTransaction r tx) (\<lambda>_. give tx)))"

text \<open>A fenced repository is drained and stopped. A drain that fails defers the switch and lifts the fence; a stop that fails rolls back.\<close>

datatype drained = Drained | Deferred outcome | Reverted outcome

definition drain_repository ::
  "HostEnv \<Rightarrow> DeliveryConfig \<Rightarrow> RegistryEntry \<Rightarrow> RepositoryAssignment \<Rightarrow> AssignmentTransaction \<Rightarrow> bool \<Rightarrow> drained act" where
  "drain_repository env cfg entry current tx legacy =
     (let r = re_RepoID entry in
      otherwise (if legacy then waitForLegacyIdleAndStop env cfg r else waitForDrain env cfg r)
        (\<lambda>e. let tx = tx\<lparr>at_Result := lit ''deferred'', at_Reason := error_text e\<rparr> in
           bind_act (ignore_error (SaveAssignmentTransaction r tx)) (\<lambda>_.
           bind_act (ignore_error (ClearMaintenance r)) (\<lambda>_.
           bind_act (reportWithTransaction entry current tx e) (\<lambda>out. give (Deferred out)))))
        (\<lambda>_. if legacy then give Drained
             else otherwise (Stop env r) (\<lambda>e. bind_act (rollbackSwitch env entry current tx e) (\<lambda>out. give (Reverted out)))
                    (\<lambda>_. give Drained)))"

text \<open>\<open>if err := m; err != nil { return c.rollbackSwitch(...) }\<close>.\<close>

definition or_roll_back ::
  "HostEnv \<Rightarrow> RegistryEntry \<Rightarrow> RepositoryAssignment \<Rightarrow> AssignmentTransaction \<Rightarrow> 'a act \<Rightarrow> ('a \<Rightarrow> outcome act) \<Rightarrow> outcome act" where
  "or_roll_back env entry current tx m f = otherwise m (\<lambda>e. rollbackSwitch env entry current tx e) f"

definition next_assignment :: "RepositoryAssignment \<Rightarrow> AssignmentTransaction \<Rightarrow> time \<Rightarrow> RepositoryAssignment" where
  "next_assignment current tx now = current\<lparr>ra_Ref := at_Desired tx, ra_Previous := Some (ra_Ref current),
     ra_Generation := at_TargetGeneration tx, ra_UpdatedAt := now\<rparr>"

definition with_assignment :: "string \<Rightarrow> RepositoryAssignment \<Rightarrow> DeliveryConfig \<Rightarrow> DeliveryConfig" where
  "with_assignment r a cfg = cfg\<lparr>dc_Assignments := mstore r a (dc_Assignments cfg)\<rparr>"

definition commit_switch ::
  "HostEnv \<Rightarrow> DeliveryConfig \<Rightarrow> RegistryEntry \<Rightarrow> RepositoryAssignment \<Rightarrow> AssignmentTransaction \<Rightarrow> bool \<Rightarrow> outcome act" where
  "commit_switch env cfg entry current tx rollback =
     bind_act (look ho_Now) (\<lambda>now.
     let r = re_RepoID entry; new = next_assignment current tx now in
     or_roll_back env entry current tx (WriteConfig (with_assignment r new cfg)) (\<lambda>_.
     bind_act (ClearMaintenance r) (\<lambda>_.
     bind_act (wake r ''assignment-cleared'') (\<lambda>_.
     bind_act (SaveAssignmentTransaction r (tx\<lparr>at_Phase := (if rollback then AssignmentRolledBack else AssignmentSucceeded),
                 at_Result := lit ''succeeded'', at_Reason := ''''\<rparr>)) (\<lambda>_.
       report_as entry new ''succeeded'')))))"

definition apply_switch ::
  "HostEnv \<Rightarrow> DeliveryConfig \<Rightarrow> RegistryEntry \<Rightarrow> RepositoryAssignment \<Rightarrow> AssignmentTransaction \<Rightarrow> bool \<Rightarrow> outcome act" where
  "apply_switch env cfg entry current tx rollback =
     (let r = re_RepoID entry; desired = at_Desired tx in
     or_roll_back env entry current tx (if rollback then give ()
         else wrapped [Lit ''activate assignment-aware delivery controller: ''] (ensureDeliveryController env cfg desired)) (\<lambda>_.
     let tx = tx\<lparr>at_Phase := AssignmentApplying, at_Result := lit ''applying''\<rparr> in
     bind_act (SaveAssignmentTransaction r tx) (\<lambda>_.
     or_roll_back env entry current tx (WritePlist entry (ar_Slot desired)) (\<lambda>_.
     or_roll_back env entry current tx (if at_WasLoaded tx then Start env r else give ()) (\<lambda>_.
     let tx = tx\<lparr>at_Phase := AssignmentValidating, at_Result := lit ''validating''\<rparr> in
     bind_act (SaveAssignmentTransaction r tx) (\<lambda>_.
     or_roll_back env entry current tx (health env entry desired (at_WasLoaded tx)) (\<lambda>_.
       commit_switch env cfg entry current tx rollback)))))))"

definition legacy_runtime :: "HostEnv \<Rightarrow> string \<Rightarrow> AssignmentRef \<Rightarrow> AgentStatus \<Rightarrow> bool act" where
  "legacy_runtime env r current st = (if as_Loaded st
     then bind_act (runtimeAssignmentProtocol env r current) (\<lambda>protocol. give (protocol = 0)) else give False)"

definition operation_of :: "bool \<Rightarrow> AssignmentOperation" where
  "operation_of rollback = (if rollback then OperationRollback else OperationApply)"

definition run_switch ::
  "HostEnv \<Rightarrow> DeliveryConfig \<Rightarrow> RegistryEntry \<Rightarrow> RepositoryAssignment \<Rightarrow> AssignmentTransaction \<Rightarrow> AssignmentRef \<Rightarrow> bool \<Rightarrow> bool \<Rightarrow> outcome act" where
  "run_switch env cfg entry current tx desired rollback active =
     (let r = re_RepoID entry in
     bind_act (agent_status r) (\<lambda>st.
     bind_act (if at_Phase tx = AssignmentRollbackFailed then prepare_retained env r tx st else give (tx, st)) (\<lambda>(tx, st).
     bind_act (legacy_runtime env r (ra_Ref current) st) (\<lambda>legacy.
     bind_act (if active then give tx
               else bind_act (look ho_Now) (\<lambda>now.
                 let tx = new_transaction r current desired (operation_of rollback) (as_Loaded st) now in
                 bind_act (SaveAssignmentTransaction r tx) (\<lambda>_. give tx))) (\<lambda>tx.
     bind_act (raise_fence env r tx) (\<lambda>tx.
     bind_act (if as_Loaded st then drain_repository env cfg entry current tx legacy else give Drained) (\<lambda>d. case d of
       Deferred out \<Rightarrow> give out
     | Reverted out \<Rightarrow> give out
     | Drained \<Rightarrow> apply_switch env cfg entry current tx rollback)))))))"

definition is_older :: "AssignmentRef \<Rightarrow> AssignmentRef \<Rightarrow> bool" where
  "is_older desired current \<longleftrightarrow>
     SemVer_Compare (semver_or_zero (ParseSemVer (ar_Version desired))) (semver_or_zero (ParseSemVer (ar_Version current))) < 0"

definition rolling_back_error :: "RepositoryAssignment \<Rightarrow> AssignmentTransaction \<Rightarrow> go_error option" where
  "rolling_back_error current tx = guard (at_ExpectedGeneration tx \<noteq> ra_Generation current \<or> at_Current tx \<noteq> ra_Ref current)
     [Lit ''assignment rollback transaction no longer matches current generation'']"

definition interrupted_cause :: "AssignmentTransaction \<Rightarrow> go_error" where
  "interrupted_cause tx = (if blank (at_Reason tx) then Errorf [Lit ''assignment process stopped during rollback''] else Errorf [Str (at_Reason tx)])"

definition switch_error ::
  "RepositoryAssignment \<Rightarrow> AssignmentTransaction \<Rightarrow> AssignmentRef \<Rightarrow> bool \<Rightarrow> bool \<Rightarrow> string \<Rightarrow> uint64 \<Rightarrow> bool \<Rightarrow> Host \<Rightarrow> go_error option" where
  "switch_error current tx desired rollback retryRetained r expected active h = first_error
     [guard (\<not> rollback \<and> is_older desired (ra_Ref current)) [Lit ''assignment apply does not allow downgrade; use assignment rollback''],
      (if at_Phase tx \<noteq> AssignmentRollbackFailed then None
       else if \<not> retryRetained then Some (Errorf [Lit ''previous assignment rollback failed; repository fence remains active''])
       else retry_error r current tx desired expected (operation_of rollback) h),
      guard (active \<and> at_Desired tx \<noteq> desired) [Lit ''another assignment target is already in progress'']]"

definition switch_from ::
  "HostEnv \<Rightarrow> AssignmentRef \<Rightarrow> uint64 \<Rightarrow> bool \<Rightarrow> bool \<Rightarrow> DeliveryConfig \<Rightarrow> RegistryEntry \<Rightarrow> RepositoryAssignment \<Rightarrow> AssignmentTransaction \<Rightarrow> outcome act" where
  "switch_from env desired expected rollback retryRetained cfg entry current tx =
     (let r = re_RepoID entry;
         active = unfinished tx \<and> \<not> deferred tx;
         resuming = active \<and> at_Desired tx = desired \<and> at_ExpectedGeneration tx = expected
           \<and> ra_Generation current = at_TargetGeneration tx \<and> ra_Ref current = desired in
     bind_act (require (\<lambda>_. guard (active \<and> at_Operation tx \<noteq> operation_of rollback) [Lit ''assignment transaction is already in progress''])) (\<lambda>_.
     bind_act (require (\<lambda>_. guard (expected = 0 \<or> ra_Generation current \<noteq> expected \<and> \<not> resuming)
                 [Lit ''stale assignment preview: generation is '', Num (uint (ra_Generation current)), Lit '', expected '', Num (uint expected)])) (\<lambda>_.
     if ra_Ref current = desired
     then (if resuming then finish_committed env entry current tx else report_as entry current ''current'')
     else bind_act (verify_slot desired) (\<lambda>_.
       bind_act (require (switch_error current tx desired rollback retryRetained r expected active)) (\<lambda>_.
       if at_Phase tx = AssignmentRollingBack
       then bind_act (require (\<lambda>_. rolling_back_error current tx)) (\<lambda>_. rollbackSwitch env entry current tx (interrupted_cause tx))
       else run_switch env cfg entry current tx desired rollback active)))))"

definition switchTo :: "HostEnv \<Rightarrow> string \<Rightarrow> AssignmentRef \<Rightarrow> uint64 \<Rightarrow> bool \<Rightarrow> bool \<Rightarrow> outcome act" where
  "switchTo env repoPath desired expected rollback retryRetained =
     bind_act (switch_context env repoPath) (\<lambda>(cfg, entry, current, tx).
       switch_from env desired expected rollback retryRetained cfg entry current tx)"

section \<open>The commands\<close>

definition candidate_ref :: "HostEnv \<Rightarrow> Candidate \<Rightarrow> AssignmentRef" where
  "candidate_ref env c = SlotRef (he_SlotsDir env) (man_Version (cand_Manifest c)) (man_Commit (cand_Manifest c)) (cand_Digest c)"

definition check_release :: "HostEnv \<Rightarrow> string \<Rightarrow> Candidate act" where
  "check_release env version = look_ok (\<lambda>_. Verifier_Check (\<lambda>_. None) version (he_Check env version))"

definition Apply :: "HostEnv \<Rightarrow> string \<Rightarrow> string \<Rightarrow> uint64 \<Rightarrow> outcome act" where
  "Apply env repoPath version expected =
     bind_act (loadAssignmentSet env) (\<lambda>_.
     bind_act (check_release env version) (\<lambda>candidate.
     bind_act (StageSlot env (candidate_ref env candidate) (path_Join (cand_Dir candidate) BinaryAsset)) (\<lambda>_.
       switchTo env repoPath (candidate_ref env candidate) expected False False)))"

definition Retry :: "HostEnv \<Rightarrow> string \<Rightarrow> uint64 \<Rightarrow> outcome act" where
  "Retry env repoPath expected =
     bind_act (Resolve env repoPath) (\<lambda>entry.
     bind_act (load_transaction (re_RepoID entry)) (\<lambda>tx.
     bind_act (require (\<lambda>_. first_error
       [guard (at_Phase tx \<noteq> AssignmentRollbackFailed) [Lit ''assignment retry requires a rollback_failed transaction''],
        guard (at_ExpectedGeneration tx \<noteq> expected) [Lit ''stale assignment retry: transaction generation is '',
          Num (uint (at_ExpectedGeneration tx)), Lit '', expected '', Num (uint expected)]])) (\<lambda>_.
     bind_act (wrapped [Lit ''verify retained assignment target: ''] (verify_slot (at_Desired tx))) (\<lambda>_.
       switchTo env repoPath (at_Desired tx) expected (at_Operation tx = OperationRollback) True))))"

definition Rollback :: "HostEnv \<Rightarrow> string \<Rightarrow> uint64 \<Rightarrow> outcome act" where
  "Rollback env repoPath expected =
     bind_act (loadAssignmentSet env) (\<lambda>(cfg, repos).
     bind_act (Resolve env repoPath) (\<lambda>entry.
     bind_act (assignment_of cfg (re_RepoID entry)) (\<lambda>assignment.
     bind_act (load_transaction (re_RepoID entry)) (\<lambda>tx.
     if unfinished tx \<and> at_Operation tx = OperationRollback \<and> at_ExpectedGeneration tx = expected
     then bind_act (wrapped [Lit ''verify rollback transaction target: ''] (verify_slot (at_Desired tx))) (\<lambda>_.
       switchTo env repoPath (at_Desired tx) expected True False)
     else case ra_Previous assignment of
       None \<Rightarrow> fail_with (Errorf [Lit ''repository assignment has no previous version''])
     | Some previous \<Rightarrow> bind_act (wrapped [Lit ''verify previous assignment slot: ''] (verify_slot previous)) (\<lambda>_.
         switchTo env repoPath previous expected True False)))))"

definition retained_error :: "string \<Rightarrow> RepositoryAssignment \<Rightarrow> AssignmentTransaction \<Rightarrow> Host \<Rightarrow> go_error option" where
  "retained_error r current tx h = first_error
     [guard (at_RepositoryID tx \<noteq> r \<or> at_Phase tx \<noteq> AssignmentRollbackFailed \<or> at_Result tx \<noteq> ''rollback_failed'')
        [Lit ''assignment rollback retry requires the exact active rollback_failed transaction''],
      guard (ra_Generation current \<noteq> at_ExpectedGeneration tx \<or> ra_Ref current \<noteq> at_Current tx)
        [Lit ''assignment rollback retry no longer matches the committed assignment''],
      (case LoadMaintenance (ho_Fence h r) of
         Inl e \<Rightarrow> Some (Wrapf [Lit ''load retained assignment fence: ''] e)
       | Inr fence \<Rightarrow> guard (mt_Generation fence \<noteq> fence_generation (at_TargetGeneration tx)
             \<or> mt_Desired fence \<noteq> version_of (at_Desired tx))
           [Lit ''retained assignment fence does not match the rollback_failed transaction'']),
      (case ho_Agent h r of Inl e \<Rightarrow> Some e
       | Inr st \<Rightarrow> guard (as_Loaded st \<noteq> at_WasLoaded tx) [Lit ''repository loaded state changed since the failed assignment''])]"

definition finish_rollback :: "HostEnv \<Rightarrow> RegistryEntry \<Rightarrow> RepositoryAssignment \<Rightarrow> AssignmentTransaction \<Rightarrow> outcome act" where
  "finish_rollback env entry current tx =
     (let r = re_RepoID entry in
     otherwise (health env entry (ra_Ref current) (at_WasLoaded tx))
       (\<lambda>e. let reason = ''assignment rollback retry health failed: '' @ error_text e; tx = tx\<lparr>at_Reason := reason\<rparr> in
          bind_act (ignore_error (SaveAssignmentTransaction r tx)) (\<lambda>_. reportWithTransaction entry current tx (Errorf [Str reason])))
       (\<lambda>_. bind_act (ClearMaintenance r) (\<lambda>_.
          bind_act (wake r ''assignment-rollback-retry-cleared'') (\<lambda>_.
          bind_act (SaveAssignmentTransaction r (tx\<lparr>at_Phase := AssignmentRolledBack, at_Result := lit ''rolled_back'', at_Reason := ''''\<rparr>)) (\<lambda>_.
            report_as entry current ''rolled_back'')))))"

definition RetryRollback :: "HostEnv \<Rightarrow> string \<Rightarrow> outcome act" where
  "RetryRollback env repoPath =
     bind_act (require (\<lambda>_. he_Lock env)) (\<lambda>_.
     bind_act (loadAssignmentSet env) (\<lambda>(cfg, repos).
     bind_act (Resolve env repoPath) (\<lambda>entry.
     bind_act (assignment_of cfg (re_RepoID entry)) (\<lambda>current.
     let r = re_RepoID entry in
     bind_act (load_transaction r) (\<lambda>tx.
     bind_act (require (retained_error r current tx)) (\<lambda>_.
     bind_act (if at_WasLoaded tx then bind_act (inspectAssignmentStop env r) (\<lambda>_. Stop env r) else give ()) (\<lambda>_.
     bind_act (wrapped [Lit ''verify rollback assignment slot: ''] (verify_slot (ra_Ref current))) (\<lambda>_.
     bind_act (WritePlist entry (ar_Slot (ra_Ref current))) (\<lambda>_.
     bind_act (if at_WasLoaded tx then Start env r else give ()) (\<lambda>_.
       finish_rollback env entry current tx))))))))))"

record AssignmentPlan =
  pl_RepositoryID :: string
  pl_ExpectedGeneration :: uint64
  pl_Current :: AssignmentRef
  pl_Desired :: AssignmentRef
  pl_Allowed :: bool
  pl_Reason :: string

definition Preview :: "HostEnv \<Rightarrow> string \<Rightarrow> string \<Rightarrow> AssignmentPlan act" where
  "Preview env repoPath version =
     bind_act (loadAssignmentSet env) (\<lambda>(cfg, repos).
     bind_act (Resolve env repoPath) (\<lambda>entry.
     bind_act (assignment_of cfg (re_RepoID entry)) (\<lambda>current.
     bind_act (check_release env version) (\<lambda>candidate.
     let desired = candidate_ref env candidate;
         plan = (\<lambda>allowed reason. \<lparr>pl_RepositoryID = re_RepoID entry, pl_ExpectedGeneration = ra_Generation current, pl_Current = ra_Ref current,
                   pl_Desired = desired, pl_Allowed = allowed, pl_Reason = reason\<rparr>) in
     if is_older desired (ra_Ref current) then give (plan False ''downgrade requires assignment rollback'')
     else if ra_Ref current = desired then give (plan False ''already assigned'')
     else give (plan True '''')))))"

definition zero_entry :: RegistryEntry where "zero_entry = \<lparr>re_RepoID = '''', re_RepoPath = ''''\<rparr>"

definition zero_assignment :: RepositoryAssignment where
  "zero_assignment = \<lparr>ra_RepositoryID = '''', ra_Ref = no_ref, ra_Generation = 0, ra_Previous = None, ra_UpdatedAt = 0\<rparr>"

definition or_zero :: "'a \<Rightarrow> 'a option \<Rightarrow> 'a" where
  "or_zero z r = (case r of None \<Rightarrow> z | Some x \<Rightarrow> x)"

definition Verify :: "HostEnv \<Rightarrow> string \<Rightarrow> outcome act" where
  "Verify env repoPath =
     bind_act (loadAssignmentSet env) (\<lambda>(cfg, repos).
     bind_act (Resolve env repoPath) (\<lambda>entry.
     let a = or_zero zero_assignment (mlookup (dc_Assignments cfg) (re_RepoID entry));
         registered = or_zero zero_entry (mlookup repos (re_RepoID entry)) in
     bind_act (look (assignmentReport registered a)) (\<lambda>(rep, err). case err of
       Some e \<Rightarrow> give (rep, Some e)
     | None \<Rightarrow> if \<not> rt_Matches (rp_Runtime rep)
         then give (rep, Some (Errorf [Lit ''repository runtime does not match its exact assignment'']))
         else otherwise (health env entry (ra_Ref a) (as_Loaded (rt_Launchd (rp_Runtime rep))))
           (\<lambda>e. give (rep, Some e)) (\<lambda>_. give (rep\<lparr>rp_Result := ''verified''\<rparr>, None)))))"

fun report_all :: "RegistryEntry gomap \<Rightarrow> DeliveryConfig \<Rightarrow> string list \<Rightarrow> Host \<Rightarrow> go_error + AssignmentReport list" where
  "report_all repos cfg [] h = Inr []"
| "report_all repos cfg (i # ids) h = (case mlookup (dc_Assignments cfg) i of
     None \<Rightarrow> Inl (Errorf [Lit ''repository '', Str i, Lit '' has no assignment''])
   | Some a \<Rightarrow> (case mlookup repos i of
       None \<Rightarrow> Inl (Errorf [Lit ''assignment repository '', Str i, Lit '' is not registered''])
     | Some entry \<Rightarrow> (case assignmentReport entry a h of
         (_, Some e) \<Rightarrow> Inl e
       | (rep, None) \<Rightarrow> and_ok (report_all repos cfg ids h) (\<lambda>reps. Inr (rep # reps)))))"

definition AssignmentStatus :: "HostEnv \<Rightarrow> string \<Rightarrow> AssignmentReport list act" where
  "AssignmentStatus env repoPath =
     bind_act (loadAssignmentSet env) (\<lambda>(cfg, repos).
     bind_act (if repoPath \<noteq> '''' then bind_act (Resolve env repoPath) (\<lambda>entry. give [re_RepoID entry])
               else give (sort (mkeys (dc_Assignments cfg)))) (\<lambda>ids.
       look_ok (report_all repos cfg ids)))"

section \<open>Registration\<close>

definition lifecycle_error :: "string \<Rightarrow> Host \<Rightarrow> go_error option" where
  "lifecycle_error r h =
     (if ho_Fence h r \<noteq> Missing
      then Some (Errorf [Lit ''repository '', Str r, Lit '' has an assignment maintenance fence; recover the assignment before registering or unregistering''])
      else case LoadAssignmentTransaction (ho_Tx h r) of
        Inl e \<Rightarrow> Some (Wrapf [Lit ''inspect repository assignment transaction: ''] e)
      | Inr tx \<Rightarrow> guard (unfinished tx) [Lit ''repository '', Str r, Lit '' has an unfinished assignment transaction; recover the assignment before registering or unregistering''])"

definition checkRepositoryAssignmentLifecycle :: "string \<Rightarrow> unit act" where
  "checkRepositoryAssignmentLifecycle r = require (lifecycle_error r)"

text \<open>Without a configuration, or with one of the old format, a repository has no assignment; \<open>None\<close> is that answer.\<close>

datatype managed = Unmanaged | Managed | ConfigBroken go_error

definition managed_config :: "config_file \<Rightarrow> managed" where
  "managed_config f = (if f = NoConfig then Unmanaged
     else case LoadConfig f of Inr c \<Rightarrow> Managed
     | Inl e \<Rightarrow> (case LoadLegacyConfig f of Inr c \<Rightarrow> Unmanaged | Inl _ \<Rightarrow> ConfigBroken e))"

definition if_managed :: "'a \<Rightarrow> 'a act \<Rightarrow> 'a act" where
  "if_managed x m = bind_act (look (\<lambda>h. managed_config (ho_Config h))) (\<lambda>g. case g of
     Unmanaged \<Rightarrow> give x | ConfigBroken e \<Rightarrow> fail_with e | Managed \<Rightarrow> m)"

definition installed_ref :: "HostEnv \<Rightarrow> AssignmentRef act" where
  "installed_ref env =
     bind_act (look_ok (\<lambda>_. he_Installed env)) (\<lambda>(version, commit, sha).
     bind_act (look_ok (\<lambda>h. file_digest h (path_Join (he_BinDir env) ''agent-loop''))) (\<lambda>digest.
     bind_act (require (\<lambda>_. guard (sha \<noteq> '''' \<and> sha \<noteq> digest) [Lit ''installed binary digest does not match install manifest''])) (\<lambda>_.
       give (SlotRef (he_SlotsDir env) version commit digest))))"

definition first_assignment :: "string \<Rightarrow> AssignmentRef \<Rightarrow> time \<Rightarrow> RepositoryAssignment" where
  "first_assignment r ref now = \<lparr>ra_RepositoryID = r, ra_Ref = ref, ra_Generation = 1, ra_Previous = None, ra_UpdatedAt = now\<rparr>"

definition EnsureRepositoryAssignment :: "HostEnv \<Rightarrow> RegistryEntry \<Rightarrow> RepositoryAssignment option act" where
  "EnsureRepositoryAssignment env entry = if_managed None
     (let r = re_RepoID entry in
     bind_act (require (\<lambda>_. he_Lock env)) (\<lambda>_.
     bind_act (checkRepositoryAssignmentLifecycle r) (\<lambda>_.
     bind_act load_config (\<lambda>cfg.
     bind_act (look_ok ho_Registry) (\<lambda>repos.
     bind_act (require (\<lambda>_. guard (case mlookup repos r of None \<Rightarrow> True | Some e \<Rightarrow> re_RepoPath e \<noteq> re_RepoPath entry)
                 [Lit ''repository must be registered before assignment initialization''])) (\<lambda>_.
     case mlookup (dc_Assignments cfg) r of
       Some current \<Rightarrow> bind_act (require (\<lambda>_. validateAssignmentSet env cfg repos)) (\<lambda>_. give (Some current))
     | None \<Rightarrow>
       bind_act (require (\<lambda>_. first_error
         [guard (length (entries (dc_Assignments cfg)) + 1 \<noteq> length (entries repos))
            [Lit ''assignment set differs from registry by more than the repository being initialized''],
          for_each (\<lambda>(i, a). guard (mlookup repos i = None) [Lit ''assignment repository '', Str i, Lit '' is not registered''])
            (entries (dc_Assignments cfg))])) (\<lambda>_.
       bind_act (installed_ref env) (\<lambda>ref.
       bind_act (StageSlot env ref (path_Join (he_BinDir env) ''agent-loop'')) (\<lambda>_.
       bind_act (look ho_Now) (\<lambda>now.
       let a = first_assignment r ref now in
       bind_act (WriteConfig (with_assignment r a cfg)) (\<lambda>_. give (Some a))))))))))))"

definition RemoveRepositoryAssignment :: "HostEnv \<Rightarrow> string \<Rightarrow> bool act" where
  "RemoveRepositoryAssignment env r = if_managed False
     (bind_act (require (\<lambda>_. he_Lock env)) (\<lambda>_.
     bind_act (checkRepositoryAssignmentLifecycle r) (\<lambda>_.
     bind_act load_config (\<lambda>cfg.
     if mlookup (dc_Assignments cfg) r = None then give False
     else bind_act (look_ok ho_Registry) (\<lambda>repos.
       bind_act (require (\<lambda>_. guard (mlookup repos r \<noteq> None)
                   [Lit ''repository must be removed from registry before deleting its assignment''])) (\<lambda>_.
       let cfg' = cfg\<lparr>dc_Assignments := mdelete r (dc_Assignments cfg)\<rparr> in
       bind_act (require (\<lambda>_. validateAssignmentSet env cfg' repos)) (\<lambda>_.
       bind_act (WriteConfig cfg') (\<lambda>_. give True))))))))"

section \<open>Migration\<close>

record MigrationReport =
  mg_From :: int
  mg_To :: int
  mg_Applied :: bool
  mg_AlreadyDone :: bool
  mg_Assignments :: "RepositoryAssignment list"

definition sortedAssignments :: "RepositoryAssignment gomap \<Rightarrow> RepositoryAssignment list" where
  "sortedAssignments m = sort_key ra_RepositoryID (map snd (entries m))"

definition migrated_assignments :: "RegistryEntry gomap \<Rightarrow> AssignmentRef \<Rightarrow> time \<Rightarrow> RepositoryAssignment gomap" where
  "migrated_assignments repos ref now = GoMap (map (\<lambda>(i, e). (i, first_assignment i ref now)) (entries repos))"

definition apply_migration ::
  "HostEnv \<Rightarrow> LegacyConfig \<Rightarrow> AssignmentRef \<Rightarrow> RepositoryAssignment gomap \<Rightarrow> MigrationReport \<Rightarrow> MigrationReport act" where
  "apply_migration env legacy ref assignments report =
     bind_act (require (\<lambda>_. he_Lock env)) (\<lambda>_.
     bind_act (look (\<lambda>h. LoadConfig (ho_Config h))) (\<lambda>r. case r of
       Inr cfg \<Rightarrow> bind_act (look_ok ho_Registry) (\<lambda>repos.
         bind_act (require (\<lambda>_. validateAssignmentSet env cfg repos)) (\<lambda>_.
           give (report\<lparr>mg_AlreadyDone := True, mg_Assignments := sortedAssignments (dc_Assignments cfg)\<rparr>)))
     | Inl _ \<Rightarrow>
       bind_act (look_ok (\<lambda>h. LoadLegacyConfig (ho_Config h))) (\<lambda>lockedLegacy.
       bind_act (look_ok ho_Registry) (\<lambda>lockedRegistry.
       bind_act (look_ok (\<lambda>_. he_Installed env)) (\<lambda>(version, commit, sha).
       bind_act (look_ok (\<lambda>h. file_digest h (path_Join (he_BinDir env) ''agent-loop''))) (\<lambda>digest.
       bind_act (require (\<lambda>_. first_error
         [guard (lockedLegacy \<noteq> legacy \<or> SlotRef (he_SlotsDir env) version commit digest \<noteq> ref
                 \<or> length (entries lockedRegistry) \<noteq> length (entries assignments))
            [Lit ''delivery migration inputs changed after preview; run migration preview again''],
          for_each (\<lambda>(i, a). guard (mlookup lockedRegistry i = None)
            [Lit ''delivery migration registry changed after preview; run migration preview again'']) (entries assignments)])) (\<lambda>_.
       bind_act (StageSlot env ref (path_Join (he_BinDir env) ''agent-loop'')) (\<lambda>_.
       bind_act (WriteConfig (Migrated lockedLegacy assignments)) (\<lambda>_.
         give (report\<lparr>mg_Applied := True\<rparr>))))))))))"

definition MigrateConfig :: "HostEnv \<Rightarrow> bool \<Rightarrow> MigrationReport act" where
  "MigrateConfig env apply =
     bind_act (look (\<lambda>h. LoadConfig (ho_Config h))) (\<lambda>r. case r of
       Inr cfg \<Rightarrow> bind_act (look_ok ho_Registry) (\<lambda>repos.
         bind_act (require (\<lambda>_. validateAssignmentSet env cfg repos)) (\<lambda>_.
           give \<lparr>mg_From = ConfigVersion, mg_To = ConfigVersion, mg_Applied = False, mg_AlreadyDone = True,
                  mg_Assignments = sortedAssignments (dc_Assignments cfg)\<rparr>))
     | Inl _ \<Rightarrow>
       bind_act (look_ok (\<lambda>h. LoadLegacyConfig (ho_Config h))) (\<lambda>legacy.
       bind_act (look_ok ho_Registry) (\<lambda>repos.
       bind_act (installed_ref env) (\<lambda>ref.
       bind_act (look ho_Now) (\<lambda>now.
       let assignments = migrated_assignments repos ref now;
           report = \<lparr>mg_From = LegacyConfigVersion, mg_To = ConfigVersion, mg_Applied = False, mg_AlreadyDone = False,
                      mg_Assignments = sortedAssignments assignments\<rparr> in
       if \<not> apply then give report else apply_migration env legacy ref assignments report)))))"

end
