(* ===== verification/HostLogic.thy ===== *)
theory HostLogic
  imports Assignment
begin

text \<open>
  Reasoning about computations on a host. \<open>triple P m Q E\<close> says that from a host with \<open>P\<close> the computation ends with a value and a
  host in \<open>Q\<close>, or stops in a host with \<open>E\<close>. Because the fates of the operations are part of the host, \<open>E\<close> holds of every host that a
  failure or a crash leaves. The locale \<open>host_invariant\<close> is the contract of an assertion that the operations of a switch keep; the
  assertion then holds through every command.
\<close>

section \<open>Triples\<close>

definition triple :: "(Host \<Rightarrow> bool) \<Rightarrow> 'a act \<Rightarrow> ('a \<Rightarrow> Host \<Rightarrow> bool) \<Rightarrow> (Host \<Rightarrow> bool) \<Rightarrow> bool" where
  "triple P m Q E \<longleftrightarrow> (\<forall>h. P h \<longrightarrow> (case m h of (Inr x, h') \<Rightarrow> Q x h' | (Inl s, h') \<Rightarrow> E h'))"

lemma tripleI: "(\<And>h. P h \<Longrightarrow> case m h of (Inr x, h') \<Rightarrow> Q x h' | (Inl s, h') \<Rightarrow> E h') \<Longrightarrow> triple P m Q E"
  by (simp add: triple_def)

lemma triple_Inr: "triple P m Q E \<Longrightarrow> P h \<Longrightarrow> m h = (Inr x, h') \<Longrightarrow> Q x h'"
  by (auto simp: triple_def)

lemma triple_Inl: "triple P m Q E \<Longrightarrow> P h \<Longrightarrow> m h = (Inl s, h') \<Longrightarrow> E h'"
  by (auto simp: triple_def)

lemma triple_conseq:
  "triple P m Q E \<Longrightarrow> (\<And>h. P' h \<Longrightarrow> P h) \<Longrightarrow> (\<And>x h. Q x h \<Longrightarrow> Q' x h) \<Longrightarrow> (\<And>h. E h \<Longrightarrow> E' h) \<Longrightarrow> triple P' m Q' E'"
  by (fastforce simp: triple_def split: prod.splits sum.splits)

lemma triple_pre: "triple P m Q E \<Longrightarrow> (\<And>h. P' h \<Longrightarrow> P h) \<Longrightarrow> triple P' m Q E"
  by (rule triple_conseq)

lemma triple_post: "triple P m Q E \<Longrightarrow> (\<And>x h. Q x h \<Longrightarrow> Q' x h) \<Longrightarrow> triple P m Q' E"
  by (rule triple_conseq)

lemma triple_give: "(\<And>h. P h \<Longrightarrow> Q x h) \<Longrightarrow> triple P (give x) Q E"
  by (simp add: triple_def give_def)

lemma triple_fail: "(\<And>h. P h \<Longrightarrow> E h) \<Longrightarrow> triple P (fail_with e) Q E"
  by (simp add: triple_def fail_with_def)

lemma triple_bind: "triple P m R E \<Longrightarrow> (\<And>x. triple (R x) (f x) Q E) \<Longrightarrow> triple P (bind_act m f) Q E"
  by (fastforce simp: triple_def bind_act_def split: prod.splits sum.splits)

lemma triple_look: "(\<And>h. P h \<Longrightarrow> Q (f h) h) \<Longrightarrow> triple P (look f) Q E"
  by (simp add: triple_def look_def)

lemma triple_look_ok:
  "(\<And>h x. P h \<Longrightarrow> f h = Inr x \<Longrightarrow> Q x h) \<Longrightarrow> (\<And>h. P h \<Longrightarrow> E h) \<Longrightarrow> triple P (look_ok f) Q E"
  by (auto simp: triple_def look_ok_def split: sum.splits)

lemma triple_require:
  "(\<And>h. P h \<Longrightarrow> f h = None \<Longrightarrow> Q () h) \<Longrightarrow> (\<And>h. P h \<Longrightarrow> E h) \<Longrightarrow> triple P (require f) Q E"
  by (auto simp: triple_def require_def split: option.splits)

lemma triple_attempt:
  "triple P m Q E \<Longrightarrow> triple P (attempt m) (\<lambda>r h. case r of Inl e \<Rightarrow> E h | Inr x \<Rightarrow> Q x h) E"
  by (fastforce simp: triple_def attempt_def split: prod.splits sum.splits stop.splits)

lemma triple_ignore: "triple P m Q E \<Longrightarrow> (\<And>x h. Q x h \<Longrightarrow> R h) \<Longrightarrow> (\<And>h. E h \<Longrightarrow> R h) \<Longrightarrow> triple P (ignore_error m) (\<lambda>_. R) E"
  unfolding ignore_error_def
  by (rule triple_bind [OF triple_attempt], assumption, rule triple_give) (auto split: sum.splits)

lemma triple_otherwise:
  "triple P m R H \<Longrightarrow> (\<And>h. H h \<Longrightarrow> E h) \<Longrightarrow> (\<And>e. triple H (handler e) Q E) \<Longrightarrow> (\<And>x. triple (R x) (f x) Q E)
     \<Longrightarrow> triple P (otherwise m handler f) Q E"
  unfolding otherwise_def
  by (rule triple_bind [OF triple_conseq [OF triple_attempt]], assumption, assumption, assumption, assumption)
    (auto split: sum.splits)

lemma triple_wrapped: "triple P m Q E \<Longrightarrow> triple P (wrapped ps m) Q E"
  unfolding wrapped_def by (rule triple_otherwise) (auto intro: triple_fail triple_give)

lemma triple_perform:
  assumes "\<And>h fs. P h \<Longrightarrow> Q () (run_host_op op (h\<lparr>ho_Fates := fs\<rparr>))" and "\<And>h fs. P h \<Longrightarrow> E (h\<lparr>ho_Fates := fs\<rparr>)"
    and "\<And>h fs. P h \<Longrightarrow> fails_late op \<Longrightarrow> E (run_host_op op (h\<lparr>ho_Fates := fs\<rparr>))"
  shows "triple P (perform op) Q E"
proof (rule tripleI)
  fix h assume P: "P h"
  have same: "h\<lparr>ho_Fates := ho_Fates h\<rparr> = h" by simp
  show "case perform op h of (Inr x, h') \<Rightarrow> Q x h' | (Inl s, h') \<Rightarrow> E h'"
    using assms [OF P] assms(1) [OF P, of "ho_Fates h"]
    by (auto simp: perform_def Let_def split: list.splits fate.splits)
qed

lemma triple_if: "(b \<Longrightarrow> triple P m Q E) \<Longrightarrow> (\<not> b \<Longrightarrow> triple P m' Q E) \<Longrightarrow> triple P (if b then m else m') Q E"
  by simp

lemma triple_pure: "(\<And>h. P h \<Longrightarrow> b) \<Longrightarrow> (b \<Longrightarrow> triple P m Q E) \<Longrightarrow> triple P m Q E"
  by (auto simp: triple_def)

section \<open>Assertions that every step keeps\<close>

definition keeps :: "(Host \<Rightarrow> bool) \<Rightarrow> 'a act \<Rightarrow> bool" where
  "keeps I m \<longleftrightarrow> triple I m (\<lambda>_. I) I"

lemma keepsD: "keeps I m \<Longrightarrow> I h \<Longrightarrow> I (snd (m h))"
  by (cases "m h"; cases "fst (m h)") (auto simp: keeps_def triple_def)

named_theorems keeps_rules "computations that keep an assertion, by their structure"

lemma keeps_give [keeps_rules]: "keeps I (give x)"
  unfolding keeps_def by (rule triple_give)

lemma keeps_fail [keeps_rules]: "keeps I (fail_with e)"
  unfolding keeps_def by (rule triple_fail)

lemma keeps_look [keeps_rules]: "keeps I (look f)"
  unfolding keeps_def by (rule triple_look)

lemma keeps_look_ok [keeps_rules]: "keeps I (look_ok f)"
  unfolding keeps_def by (rule triple_look_ok)

lemma keeps_require [keeps_rules]: "keeps I (require f)"
  unfolding keeps_def by (rule triple_require)

lemma keeps_bind [keeps_rules]: "keeps I m \<Longrightarrow> (\<And>x. keeps I (f x)) \<Longrightarrow> keeps I (bind_act m f)"
  unfolding keeps_def by (rule triple_bind)

lemma keeps_attempt [keeps_rules]: "keeps I m \<Longrightarrow> keeps I (attempt m)"
  unfolding keeps_def by (rule triple_post [OF triple_attempt [of I m "\<lambda>_. I" I]]) (auto split: sum.splits)

lemma keeps_otherwise [keeps_rules]:
  "keeps I m \<Longrightarrow> (\<And>e. keeps I (handler e)) \<Longrightarrow> (\<And>x. keeps I (f x)) \<Longrightarrow> keeps I (otherwise m handler f)"
  unfolding keeps_def by (rule triple_otherwise)

lemma keeps_wrapped [keeps_rules]: "keeps I m \<Longrightarrow> keeps I (wrapped ps m)"
  unfolding keeps_def by (rule triple_wrapped)

lemma keeps_ignore [keeps_rules]: "keeps I m \<Longrightarrow> keeps I (ignore_error m)"
  unfolding keeps_def by (rule triple_ignore [of I m "\<lambda>_. I" I])

lemma keeps_if [keeps_rules]: "(b \<Longrightarrow> keeps I m) \<Longrightarrow> (\<not> b \<Longrightarrow> keeps I m') \<Longrightarrow> keeps I (if b then m else m')"
  by simp

lemma keeps_prod [keeps_rules]: "(\<And>a b. keeps I (f a b)) \<Longrightarrow> keeps I (case p of (a, b) \<Rightarrow> f a b)"
  by (cases p) simp

lemma keeps_option [keeps_rules]: "keeps I m \<Longrightarrow> (\<And>x. keeps I (f x)) \<Longrightarrow> keeps I (case r of None \<Rightarrow> m | Some x \<Rightarrow> f x)"
  by (cases r) simp_all

lemma keeps_sum [keeps_rules]: "(\<And>x. keeps I (f x)) \<Longrightarrow> (\<And>y. keeps I (g y)) \<Longrightarrow> keeps I (case r of Inl x \<Rightarrow> f x | Inr y \<Rightarrow> g y)"
  by (cases r) simp_all

lemma keeps_bool [keeps_rules]: "keeps I m \<Longrightarrow> keeps I m' \<Longrightarrow> keeps I (case b of True \<Rightarrow> m | False \<Rightarrow> m')"
  by (cases b) simp_all

lemma keeps_list [keeps_rules]: "keeps I m \<Longrightarrow> (\<And>x xs. keeps I (f x xs)) \<Longrightarrow> keeps I (case l of [] \<Rightarrow> m | x # xs \<Rightarrow> f x xs)"
  by (cases l) simp_all

lemma keeps_drained [keeps_rules]:
  "keeps I m \<Longrightarrow> (\<And>x. keeps I (f x)) \<Longrightarrow> (\<And>x. keeps I (g x)) \<Longrightarrow> keeps I (case d of Drained \<Rightarrow> m | Deferred x \<Rightarrow> f x | Reverted x \<Rightarrow> g x)"
  by (cases d) simp_all

lemma keeps_report [keeps_rules]: "keeps I (report_as entry a text)" "keeps I (reportWithTransaction entry a tx cause)"
  by (simp_all add: report_as_def reportWithTransaction_def keeps_rules)

lemma keeps_wait_rounds:
  "keeps I poll \<Longrightarrow> keeps I (pause env second) \<Longrightarrow> I h \<Longrightarrow> wait_rounds n poll env deadline h = Some (r, h') \<Longrightarrow> I h'"
proof (induction n arbitrary: h)
  case (Suc n)
  have "keeps I (wait_round poll env deadline)"
    unfolding wait_round_def by (intro keeps_rules Suc.prems)
  then have step: "I (snd (wait_round poll env deadline h))" by (rule keepsD) (rule Suc.prems)
  obtain x h1 where w: "wait_round poll env deadline h = (x, h1)" by fastforce
  show ?case
  proof (cases x)
    case (Inr b)
    then show ?thesis using Suc w step by (cases b) auto
  qed (use Suc w step in auto)
qed simp

lemma keeps_wait_until: "keeps I poll \<Longrightarrow> keeps I (pause env second) \<Longrightarrow> keeps I (wait_until poll env deadline)"
  unfolding keeps_def [of I "wait_until poll env deadline"]
  by (rule tripleI) (auto simp: wait_until_def split: option.splits sum.splits dest: keeps_wait_rounds)

text \<open>An assertion, and the operations that keep it. \<open>r\<close> is the repository a command is about.\<close>

locale host_assertion =
  fixes env :: HostEnv and r :: string and I :: "Host \<Rightarrow> bool" and allowed :: "host_op \<Rightarrow> bool"
  assumes fates: "I h \<Longrightarrow> I (h\<lparr>ho_Fates := fs\<rparr>)"
    and op: "I h \<Longrightarrow> allowed op \<Longrightarrow> I (run_host_op op h)"
begin

lemma keeps_perform: "allowed op \<Longrightarrow> keeps I (perform op)"
  unfolding keeps_def by (rule triple_perform) (auto intro: fates op)

lemma keeps_save: "(\<And>tx. allowed (PutTx r tx)) \<Longrightarrow> keeps I (SaveAssignmentTransaction r tx)"
  unfolding SaveAssignmentTransaction_def by (intro keeps_rules keeps_perform)

lemma keeps_load_state: "(\<And>d. allowed (PutState r d)) \<Longrightarrow> keeps I (load_state env r)"
  unfolding keeps_def
proof (rule tripleI)
  fix h assume a: "\<And>d. allowed (PutState r d)" and h: "I h"
  obtain x d where l: "Load (he_Store env r) (dr_Recover (he_Draws env r)) (ho_State h r) = (x, d)" by fastforce
  have "keeps I (bind_act (perform (PutState r d)) (\<lambda>_. look_ok (\<lambda>_. x)))" by (intro keeps_rules keeps_perform a)
  then show "case load_state env r h of (Inr y, h') \<Rightarrow> I h' | (Inl s, h') \<Rightarrow> I h'"
    using h l by (auto simp: load_state_def keeps_def triple_def)
qed

lemma keeps_update_state: "(\<And>d. allowed (PutState r d)) \<Longrightarrow> keeps I (update_state env r ev n run payload f)"
  unfolding keeps_def
proof (rule tripleI)
  fix h assume a: "\<And>d. allowed (PutState r d)" and h: "I h"
  obtain x d where l: "Update (he_Store env r) (he_Draws env r) ev n run payload f (ho_State h r) = (x, d)" by fastforce
  have "keeps I (bind_act (perform (PutState r d)) (\<lambda>_. look_ok (\<lambda>_. x)))" by (intro keeps_rules keeps_perform a)
  then show "case update_state env r ev n run payload f h of (Inr y, h') \<Rightarrow> I h' | (Inl s, h') \<Rightarrow> I h'"
    using h l by (auto simp: update_state_def keeps_def triple_def)
qed

lemma keeps_state_operations:
  assumes a: "\<And>d. allowed (PutState r d)"
  shows "keeps I (RecoverUnstartedConflictLaunch env r)" and "keeps I (ReconcileStoppedAssignment env r)"
    and "keeps I (stopped_health env r)" and "keeps I (inspectAssignmentStop env r)" and "keeps I (drain_poll env r)"
proof -
  show recover: "keeps I (RecoverUnstartedConflictLaunch env r)"
    unfolding RecoverUnstartedConflictLaunch_def by (intro keeps_rules keeps_load_state keeps_update_state a)
  then show "keeps I (ReconcileStoppedAssignment env r)"
    unfolding ReconcileStoppedAssignment_def by (intro keeps_rules keeps_update_state a)
  show "keeps I (stopped_health env r)" unfolding stopped_health_def by (intro keeps_rules keeps_load_state a)
  show "keeps I (inspectAssignmentStop env r)" unfolding inspectAssignmentStop_def by (intro keeps_rules keeps_load_state a)
  show "keeps I (drain_poll env r)" unfolding drain_poll_def by (intro keeps_rules keeps_load_state recover a)
qed

lemma keeps_protocol: "keeps I (assignmentProtocol env program ref)" "keeps I (runtimeAssignmentProtocol env s ref)"
  "keeps I (legacy_runtime env s ref st)" "keeps I (doctor_health env entry ref protocol)"
  unfolding legacy_runtime_def runtimeAssignmentProtocol_def assignmentProtocol_def agent_program_def doctor_health_def
  by (intro keeps_rules)+

lemma keeps_health: "(\<And>d. allowed (PutState (re_RepoID entry) d)) \<Longrightarrow> re_RepoID entry = r \<Longrightarrow> keeps I (health env entry ref loaded)"
  unfolding health_def verify_slot_def agent_program_def agent_status_def
  by (intro keeps_rules keeps_protocol) (simp add: keeps_state_operations)

lemma keeps_agent:
  assumes "\<And>st. allowed (StartAgent r st)" and "\<And>st. allowed (StopAgent r st)"
  shows "keeps I (Start env r)" and "keeps I (Stop env r)" and "keeps I (RequestStop env r)" and "keeps I (WaitStopped env r)"
  unfolding Start_def Stop_def RequestStop_def WaitStopped_def agent_status_def
  by (intro keeps_rules keeps_perform assms)+

end

text \<open>One that also survives a pause, in which the supervisors go on.\<close>

locale host_invariant = host_assertion +
  assumes paused: "I h \<Longrightarrow> I (h\<lparr>ho_Now := now, ho_State := (\<lambda>s. he_Supervisor env s (ho_State h s))\<rparr>)"
begin

lemma keeps_pause: "keeps I (pause env d)"
  unfolding keeps_def by (rule tripleI) (auto simp: pause_def Let_def intro: paused split: option.splits)

end

section \<open>Computations that only read\<close>

lemma reads: "keeps (\<lambda>h'. h' = h) m \<Longrightarrow> snd (m h) = h"
  by (drule keepsD) simp_all

lemma reads_agent [keeps_rules]: "keeps (\<lambda>h'. h' = h) (agent_status s)" "keeps (\<lambda>h'. h' = h) (agent_program s)"
  "keeps (\<lambda>h'. h' = h) (verify_slot ref)" "keeps (\<lambda>h'. h' = h) (load_transaction s)" "keeps (\<lambda>h'. h' = h) load_config"
  by (simp_all add: agent_status_def agent_program_def verify_slot_def load_transaction_def load_config_def keeps_rules)

lemma reads_Resolve [keeps_rules]: "keeps (\<lambda>h'. h' = h) (Resolve env p)"
  unfolding Resolve_def by (intro keeps_rules)

lemma reads_set [keeps_rules]: "keeps (\<lambda>h'. h' = h) (loadAssignmentSet env)"
  unfolding loadAssignmentSet_def by (intro keeps_rules)

lemma reads_assignment [keeps_rules]: "keeps (\<lambda>h'. h' = h) (assignment_of cfg s)"
  unfolding assignment_of_def by (intro keeps_rules)

lemma reads_context: "snd (switch_context env p h) = h"
  unfolding switch_context_def by (intro reads keeps_rules)

named_theorems act_simps "when a computation returns a value, and in which host"

lemma bind_Inr [act_simps]: "bind_act m f h = (Inr y, h') \<longleftrightarrow> (\<exists>x h1. m h = (Inr x, h1) \<and> f x h1 = (Inr y, h'))"
  by (auto simp: bind_act_def split: prod.splits sum.splits)

lemma give_Inr [act_simps]: "give x h = (Inr y, h') \<longleftrightarrow> y = x \<and> h' = h"
  by (auto simp: give_def)

lemma fail_Inr [act_simps]: "fail_with e h = (Inr y, h') \<longleftrightarrow> False"
  by (simp add: fail_with_def)

lemma look_Inr [act_simps]: "look f h = (Inr y, h') \<longleftrightarrow> y = f h \<and> h' = h"
  by (auto simp: look_def)

lemma look_ok_Inr [act_simps]: "look_ok f h = (Inr y, h') \<longleftrightarrow> f h = Inr y \<and> h' = h"
  by (auto simp: look_ok_def split: sum.splits)

lemma require_Inr [act_simps]: "require f h = (Inr y, h') \<longleftrightarrow> f h = None \<and> h' = h"
  by (auto simp: require_def split: option.splits)

lemma wrapped_Inr [act_simps]: "wrapped ps m h = (Inr y, h') \<longleftrightarrow> m h = (Inr y, h')"
  by (auto simp: wrapped_def otherwise_def attempt_def bind_act_def give_def fail_with_def split: prod.splits sum.splits stop.splits)

lemma verify_Inr [act_simps]: "verify_slot ref h = (Inr u, h') \<longleftrightarrow> VerifySlot (ho_Slots h) (file_digest h) ref = None \<and> h' = h"
  by (auto simp: verify_slot_def act_simps)

lemma assignment_of_Inr [act_simps]: "assignment_of cfg s h = (Inr a, h') \<longleftrightarrow> mlookup (dc_Assignments cfg) s = Some a \<and> h' = h"
  by (auto simp: assignment_of_def act_simps split: option.splits)

lemma load_set_Inr [act_simps]: "loadAssignmentSet env h = (Inr (cfg, repos), h') \<longleftrightarrow>
   LoadConfig (ho_Config h) = Inr cfg \<and> ho_Registry h = Inr repos \<and> validateAssignmentSet env cfg repos = None \<and> h' = h"
  by (auto simp: loadAssignmentSet_def load_config_def act_simps)

text \<open>The registered repository a path names.\<close>

definition target :: "HostEnv \<Rightarrow> string \<Rightarrow> Host \<Rightarrow> RegistryEntry option" where
  "target env p h = (case fst (Resolve env p h) of Inl s \<Rightarrow> None | Inr e \<Rightarrow> Some e)"

lemma Resolve_Inr [act_simps]: "Resolve env p h = (Inr e, h') \<longleftrightarrow> target env p h = Some e \<and> h' = h"
  using reads [OF reads_Resolve [of h env p]] by (cases "Resolve env p h") (auto simp: target_def split: sum.splits)

lemma switch_context_Inr: "switch_context env p h = (Inr (cfg, entry, current, tx), h') \<longleftrightarrow>
   he_Lock env = None \<and> LoadConfig (ho_Config h) = Inr cfg
   \<and> (\<exists>repos. ho_Registry h = Inr repos \<and> validateAssignmentSet env cfg repos = None)
   \<and> target env p h = Some entry \<and> mlookup (dc_Assignments cfg) (re_RepoID entry) = Some current
   \<and> VerifySlot (ho_Slots h) (file_digest h) (ra_Ref current) = None
   \<and> LoadAssignmentTransaction (ho_Tx h (re_RepoID entry)) = Inr tx \<and> deferred_error (re_RepoID entry) current tx h = None \<and> h' = h"
  by (auto simp: switch_context_def load_transaction_def act_simps split_paired_Ex)

section \<open>Commands keep an assertion\<close>

fun local_op :: "string \<Rightarrow> host_op \<Rightarrow> bool" where
  "local_op r (PutConfig c) = False"
| "local_op r (PutTx s tx) = (s = r)"
| "local_op r (PutFence s m) = (s = r)"
| "local_op r (DropFence s) = (s = r)"
| "local_op r (PutWake s text) = (s = r)"
| "local_op r (PutProgram s p) = (s = r)"
| "local_op r (StartAgent s st) = (s = r)"
| "local_op r (StopAgent s st) = (s = r)"
| "local_op r (PutState s d) = (s = r)"
| "local_op r (PutControllerPlist f) = True"
| "local_op r (StartController st) = True"
| "local_op r (StopController st) = True"
| "local_op r (PutSlot ref) = False"

text \<open>An assertion that the operations on \<open>r\<close> and on the controller keep, and that allows assigning \<open>r\<close> in the configuration that is there.\<close>

locale switch_invariant = host_invariant +
  assumes local: "local_op r op \<Longrightarrow> allowed op"
    and config: "I h \<Longrightarrow> LoadConfig (ho_Config h) = Inr cfg \<Longrightarrow> allowed (PutConfig (with_assignment r a cfg))"
begin

lemma keeps_restore: "re_RepoID entry = r \<Longrightarrow> keeps I (restore_runtime env entry ref loaded)"
  unfolding restore_runtime_def verify_slot_def WritePlist_def
  by (intro keeps_rules keeps_perform keeps_health) (simp_all add: local keeps_perform keeps_state_operations keeps_agent)

lemma keeps_clear: "keeps I (ClearMaintenance r)" "keeps I (wake r text)" "keeps I (SaveAssignmentTransaction r tx)"
  "keeps I (WriteMaintenance r g v)"
  by (simp_all add: ClearMaintenance_def wake_def WriteMaintenance_def local keeps_perform keeps_save keeps_rules)

lemma keeps_rollbackSwitch: "re_RepoID entry = r \<Longrightarrow> keeps I (rollbackSwitch env entry current tx cause)"
  unfolding rollbackSwitch_def Let_def by (intro keeps_rules) (simp_all add: keeps_restore keeps_clear)

lemma keeps_or_roll_back:
  "re_RepoID entry = r \<Longrightarrow> keeps I m \<Longrightarrow> (\<And>x. keeps I (f x)) \<Longrightarrow> keeps I (or_roll_back env entry current tx m f)"
  unfolding or_roll_back_def by (intro keeps_rules keeps_rollbackSwitch)

lemma keeps_drain: "keeps I (waitForDrain env cfg r)" "keeps I (waitForLegacyIdleAndStop env cfg r)"
  unfolding waitForDrain_def waitForLegacyIdleAndStop_def legacy_poll_def
  by (intro keeps_rules keeps_wait_until keeps_pause keeps_load_state;
      simp add: local keeps_state_operations keeps_agent)+

lemma keeps_controller: "keeps I (ensureDeliveryController env cfg desired)"
  unfolding ensureDeliveryController_def StartDelivery_def StopDelivery_def WriteDeliveryPlist_def verify_slot_def Let_def
  by (intro keeps_rules keeps_perform local) simp_all

lemma keeps_drain_repository: "re_RepoID entry = r \<Longrightarrow> keeps I (drain_repository env cfg entry current tx legacy)"
  unfolding drain_repository_def Let_def
  by (intro keeps_rules) (simp_all add: keeps_drain keeps_clear keeps_agent local keeps_rollbackSwitch)

end

context switch_invariant
begin

lemma keeps_retry: "keeps I (prepare_retained env r tx st)"
  unfolding prepare_retained_def stop_retained_def agent_status_def Let_def
  by (intro keeps_rules keeps_load_state) (simp_all add: local keeps_state_operations keeps_agent keeps_clear)

lemma keeps_raise: "keeps I (raise_fence env r tx)"
  unfolding raise_fence_def Let_def by (intro keeps_rules keeps_clear)

lemma keeps_commit:
  assumes "re_RepoID entry = r" and "\<And>a. allowed (PutConfig (with_assignment r a cfg))"
  shows "keeps I (commit_switch env cfg entry current tx rollback)"
  unfolding commit_switch_def WriteConfig_def Let_def assms(1)
  by (intro keeps_rules keeps_or_roll_back keeps_perform keeps_clear assms)

lemma keeps_apply:
  assumes "re_RepoID entry = r" and "\<And>a. allowed (PutConfig (with_assignment r a cfg))"
  shows "keeps I (apply_switch env cfg entry current tx rollback)"
  unfolding apply_switch_def WritePlist_def Let_def assms(1)
  by (intro keeps_rules keeps_or_roll_back keeps_perform keeps_clear keeps_commit keeps_controller assms)
    (simp_all add: assms keeps_agent keeps_health local)

lemma keeps_run:
  assumes "re_RepoID entry = r" and "\<And>a. allowed (PutConfig (with_assignment r a cfg))"
  shows "keeps I (run_switch env cfg entry current tx desired rollback active)"
  unfolding run_switch_def agent_status_def Let_def assms(1)
  by (intro keeps_rules keeps_retry keeps_protocol keeps_clear keeps_raise keeps_drain_repository keeps_apply assms)

lemma keeps_finish: "re_RepoID entry = r \<Longrightarrow> keeps I (finish_committed env entry current tx)"
  unfolding finish_committed_def
  by (intro keeps_rules keeps_health) (simp_all add: keeps_clear local)

lemma keeps_switch_from:
  assumes "re_RepoID entry = r" and "\<And>a. allowed (PutConfig (with_assignment r a cfg))"
  shows "keeps I (switch_from env desired expected rollback retryRetained cfg entry current tx)"
  unfolding switch_from_def verify_slot_def Let_def
  by (intro keeps_rules keeps_finish keeps_rollbackSwitch keeps_run assms)

lemma switchTo_keeps:
  assumes "I h" and "\<And>e. target env p h = Some e \<Longrightarrow> re_RepoID e = r"
  shows "I (snd (switchTo env p desired expected rollback retryRetained h))"
proof (cases "switch_context env p h")
  case (Pair x h1)
  have h1: "h1 = h" using reads_context [of env p h] Pair by simp
  show ?thesis
  proof (cases x)
    case (Inr c)
    obtain cfg entry current tx where c: "c = (cfg, entry, current, tx)" by (cases c) auto
    have ctx: "switch_context env p h = (Inr (cfg, entry, current, tx), h)" using Pair Inr c h1 by simp
    then have "LoadConfig (ho_Config h) = Inr cfg" "re_RepoID entry = r" using assms(2) by (simp_all add: switch_context_Inr)
    then have "keeps I (switch_from env desired expected rollback retryRetained cfg entry current tx)"
      by (intro keeps_switch_from config [OF assms(1)])
    from keepsD [OF this assms(1)] show ?thesis by (simp add: switchTo_def bind_act_def ctx)
  qed (use Pair h1 assms(1) in \<open>simp add: switchTo_def bind_act_def\<close>)
qed

lemma keeps_finish_rollback: "re_RepoID entry = r \<Longrightarrow> keeps I (finish_rollback env entry current tx)"
  unfolding finish_rollback_def Let_def
  by (intro keeps_rules keeps_health) (simp_all add: keeps_clear local)

end

lemma bind_reads:
  assumes "keeps (\<lambda>h'. h' = h) m" and "I h" and "\<And>x. m h = (Inr x, h) \<Longrightarrow> I (snd (f x h))"
  shows "I (snd (bind_act m f h))"
  using reads [OF assms(1)] assms(2,3) by (cases "m h"; cases "fst (m h)") (auto simp: bind_act_def)

text \<open>The commands on the repository at a path.\<close>

datatype command = ApplyVersion string uint64 | RetrySwitch uint64 | RollBack uint64 | RetryRollingBack

fun run_command :: "HostEnv \<Rightarrow> string \<Rightarrow> command \<Rightarrow> outcome act" where
  "run_command env p (ApplyVersion version expected) = Apply env p version expected"
| "run_command env p (RetrySwitch expected) = Retry env p expected"
| "run_command env p (RollBack expected) = Rollback env p expected"
| "run_command env p RetryRollingBack = RetryRollback env p"

text \<open>A slot may be staged if the assertion survives it wherever the slot does not exist yet.\<close>

definition staging_kept :: "HostEnv \<Rightarrow> command \<Rightarrow> (Host \<Rightarrow> bool) \<Rightarrow> Host \<Rightarrow> bool" where
  "staging_kept env c I h = (case c of
     ApplyVersion version expected \<Rightarrow> (case Verifier_Check (\<lambda>_. None) version (he_Check env version) of
         Inl e \<Rightarrow> True
       | Inr candidate \<Rightarrow> ho_Slots h (path_Dir (ar_Slot (candidate_ref env candidate))) = Inl not_exist \<longrightarrow>
           (\<forall>fs. I (run_host_op (PutSlot (candidate_ref env candidate)) (h\<lparr>ho_Fates := fs\<rparr>))))
   | _ \<Rightarrow> True)"

lemma target_run: "target env p (run_host_op op h) = target env p h" "target env p (h\<lparr>ho_Fates := fs\<rparr>) = target env p h"
proof -
  have t: "ho_Registry h = ho_Registry h' \<Longrightarrow> target env p h = target env p h'" for h h'
    by (auto simp: target_def Resolve_def bind_act_def look_ok_def look_def give_def fail_with_def split: sum.splits list.splits option.splits)
  have "ho_Registry (run_host_op op h) = ho_Registry h" by (cases op) simp_all
  then show "target env p (run_host_op op h) = target env p h" by (rule t)
  show "target env p (h\<lparr>ho_Fates := fs\<rparr>) = target env p h" by (rule t) simp
qed

lemma perform_cases: "\<exists>fs. snd (perform op h) = h\<lparr>ho_Fates := fs\<rparr> \<or> snd (perform op h) = run_host_op op (h\<lparr>ho_Fates := fs\<rparr>)"
proof -
  have same: "h\<lparr>ho_Fates := ho_Fates h\<rparr> = h" by simp
  show ?thesis
  proof (cases "ho_Fates h")
    case Nil
    then have "snd (perform op h) = run_host_op op h" by (simp add: perform_def)
    then have "snd (perform op h) = run_host_op op (h\<lparr>ho_Fates := ho_Fates h\<rparr>)" unfolding same .
    then show ?thesis by blast
  next
    case (Cons f fs)
    then show ?thesis by (intro exI [of _ fs]) (cases f; simp add: perform_def Let_def)
  qed
qed

lemma StageSlot_cases:
  "snd (StageSlot env ref src h) = h
   \<or> ho_Slots h (path_Dir (ar_Slot ref)) = Inl not_exist \<and> snd (StageSlot env ref src h) = snd (perform (PutSlot ref) h)"
proof -
  have reads: "snd (verify_slot ref h1) = h1" for h1
    by (simp add: verify_slot_def require_def)
  show ?thesis
    by (auto simp: StageSlot_def bind_act_def require_def look_ok_def look_def fail_with_def reads split: option.splits sum.splits prod.splits)
qed

text \<open>An assertion that a switch and a retried rollback of the repository at \<open>p\<close> keep is kept by every command.\<close>

locale command_invariant =
  fixes env :: HostEnv and p :: string and T :: "RegistryEntry option" and I :: "Host \<Rightarrow> bool"
  assumes fates: "I h \<Longrightarrow> I (h\<lparr>ho_Fates := fs\<rparr>)"
    and switchTo: "I h \<Longrightarrow> target env p h = T \<Longrightarrow> I (snd (switchTo env p desired expected rollback retryRetained h))"
    and RetryRollback: "I h \<Longrightarrow> target env p h = T \<Longrightarrow> I (snd (RetryRollback env p h))"
begin

lemma Retry_keeps:
  assumes "I h" and "target env p h = T"
  shows "I (snd (Retry env p expected h))"
  unfolding Retry_def
  by (intro bind_reads [where I = I] keeps_rules assms(1) switchTo assms(2))

lemma Rollback_keeps:
  assumes "I h" and "target env p h = T"
  shows "I (snd (Rollback env p expected h))"
  unfolding Rollback_def
proof (rule bind_reads [where I = I, OF _ assms(1)], intro keeps_rules)
  fix x assume x: "loadAssignmentSet env h = (Inr x, h)"
  obtain cfg repos where "x = (cfg, repos)" by (cases x)
  then show "I (snd ((case x of (cfg, repos) \<Rightarrow> bind_act (Resolve env p) (\<lambda>entry.
     bind_act (assignment_of cfg (re_RepoID entry)) (\<lambda>assignment.
     bind_act (load_transaction (re_RepoID entry)) (\<lambda>tx.
     if unfinished tx \<and> at_Operation tx = OperationRollback \<and> at_ExpectedGeneration tx = expected
     then bind_act (wrapped [Lit ''verify rollback transaction target: ''] (verify_slot (at_Desired tx))) (\<lambda>_.
       switchTo env p (at_Desired tx) expected True False)
     else case ra_Previous assignment of
       None \<Rightarrow> fail_with (Errorf [Lit ''repository assignment has no previous version''])
     | Some previous \<Rightarrow> bind_act (wrapped [Lit ''verify previous assignment slot: ''] (verify_slot previous)) (\<lambda>_.
         switchTo env p previous expected True False))))) h))"
    by (auto split: option.splits simp: fail_with_def assms(1)
        intro!: bind_reads [where I = I] keeps_rules assms(1) switchTo assms(2))
qed

lemma run_command_keeps:
  assumes "I h" and "target env p h = T" and "staging_kept env c I h"
  shows "I (snd (run_command env p c h))"
proof (cases c)
  case (ApplyVersion version expected)
  show ?thesis unfolding ApplyVersion run_command.simps Apply_def check_release_def
  proof (rule bind_reads [where I = I, OF reads_set assms(1)], rule bind_reads [where I = I, OF keeps_look_ok assms(1)], goal_cases)
    case (1 x candidate)
    then have check: "Verifier_Check (\<lambda>_. None) version (he_Check env version) = Inr candidate" by (simp add: act_simps)
    let ?ref = "candidate_ref env candidate"
    have kept: "I (snd (StageSlot env ?ref src h)) \<and> target env p (snd (StageSlot env ?ref src h)) = target env p h" for src
      using StageSlot_cases [of env ?ref src h] perform_cases [of "PutSlot ?ref" h] assms(1,3) check
      by (auto simp del: run_host_op.simps simp: target_run fates staging_kept_def ApplyVersion)
    obtain y h1 where stage: "StageSlot env ?ref (path_Join (cand_Dir candidate) BinaryAsset) h = (y, h1)" by fastforce
    with kept have "I h1" "target env p h1 = target env p h" by (metis snd_conv)+
    moreover from this have "I (snd (switchTo env p ?ref expected False False h1))" using assms(2) by (intro switchTo) simp_all
    ultimately show ?case using stage by (cases y) (simp_all add: bind_act_def)
  qed
qed (use assms in \<open>auto intro: Retry_keeps Rollback_keeps RetryRollback\<close>)

end

context switch_invariant
begin

lemma RetryRollback_keeps:
  assumes "I h" and "\<And>e. target env p h = Some e \<Longrightarrow> re_RepoID e = r"
  shows "I (snd (RetryRollback env p h))"
  unfolding RetryRollback_def Let_def
proof (intro bind_reads [where I = I] keeps_rules assms(1), goal_cases)
  case (1 u x)
  obtain cfg repos where x: "x = (cfg, repos)" by (cases x)
  have rest: "keeps I (bind_act (assignment_of cfg (re_RepoID entry)) (\<lambda>current.
     bind_act (load_transaction (re_RepoID entry)) (\<lambda>tx.
     bind_act (require (retained_error (re_RepoID entry) current tx)) (\<lambda>_.
     bind_act (if at_WasLoaded tx then bind_act (inspectAssignmentStop env (re_RepoID entry)) (\<lambda>_. Stop env (re_RepoID entry)) else give ()) (\<lambda>_.
     bind_act (wrapped [Lit ''verify rollback assignment slot: ''] (verify_slot (ra_Ref current))) (\<lambda>_.
     bind_act (WritePlist entry (ar_Slot (ra_Ref current))) (\<lambda>_.
     bind_act (if at_WasLoaded tx then Start env (re_RepoID entry) else give ()) (\<lambda>_.
       finish_rollback env entry current tx))))))))" if "re_RepoID entry = r" for entry
    unfolding that WritePlist_def verify_slot_def load_transaction_def assignment_of_def
    by (intro keeps_rules keeps_finish_rollback keeps_perform that) (simp_all add: that local keeps_state_operations keeps_agent)
  show ?case unfolding x prod.case
    by (rule bind_reads [where I = I, OF reads_Resolve assms(1)], rule keepsD [OF rest assms(1)]) (auto simp: act_simps intro: assms(2))
qed

lemma command: "(\<And>e. T = Some e \<Longrightarrow> re_RepoID e = r) \<Longrightarrow> command_invariant env p T I"
  by unfold_locales (auto intro: fates switchTo_keeps RetryRollback_keeps)

end

end
