(* ===== verification/AssignmentFacts.thy ===== *)
theory AssignmentFacts
  imports HostLogic StoreFacts ReleaseFacts
begin

text \<open>
  What the commands of the assignment controller guarantee, whatever operation fails and wherever they are interrupted: other
  repositories are left alone, a runtime that is not the assigned one stays behind a fence, a repository with an active worker is
  not stopped, assignments only advance; when they succeed; and where an interrupted switch cannot be resumed.
\<close>

section \<open>A sample host\<close>

definition worker_disk :: Disk where
  "worker_disk = (let s = running_snapshot\<lparr>snap_StateRevision := 1\<rparr> in
     run_ops sample_store [AppendEvent (make_event sample_store sample_ambient s 7 '''' ''x'' ''''), WriteState s] empty_disk)"

definition host_entry :: RegistryEntry where
  "host_entry = \<lparr>re_RepoID = ''repo'', re_RepoPath = ''/repo''\<rparr>"

definition host_env :: HostEnv where
  "host_env = \<lparr>he_Lock = None, he_Canonical = Inr, he_SlotsDir = ''/s'', he_BinDir = ''/b'', he_Store = (\<lambda>_. sample_store),
     he_Draws = (\<lambda>_. sample_draws), he_Supervisor = (\<lambda>_ d. d), he_Sleep = (\<lambda>_. None),
     he_Booted = (\<lambda>_. \<lparr>as_Loaded = True, as_Running = True\<rparr>), he_Unloaded = (\<lambda>_. \<lparr>as_Loaded = False, as_Running = False\<rparr>),
     he_BinaryInfo = (\<lambda>p. Inr (Inr (sample_info ''v0.1.0''))), he_Doctor = (\<lambda>_ _ _. Inr (Some (1, True))),
     he_Installed = Inr (''v0.1.0'', sample_sha, sample_digest), he_Check = sample_check\<rparr>"

definition host_ref :: "string \<Rightarrow> AssignmentRef" where
  "host_ref version = SlotRef ''/s'' version sample_sha sample_digest"

definition host_legacy :: LegacyConfig where
  "host_legacy = \<lparr>lc_Version = 1, lc_Enabled = True, lc_ReleaseRepository = ''o/r'', lc_Channel = ''stable'',
     lc_PollInterval = Duration ''1h'' (Some (60 * minute)), lc_DrainTimeout = Duration ''1h'' (Some (60 * minute)),
     lc_AutoApply = ''never'', lc_TrustedWorkflow = ''''\<rparr>"

definition host_config :: DeliveryConfig where
  "host_config = Migrated host_legacy (GoMap [(''repo'', first_assignment ''repo'' (host_ref ''v0.1.0'') 5)])"

definition host :: Host where
  "host = \<lparr>ho_Config = CurrentConfig host_config, ho_Registry = Inr (GoMap [(''repo'', host_entry)]), ho_Tx = (\<lambda>_. Missing),
     ho_Fence = (\<lambda>_. Missing), ho_Wake = (\<lambda>_. ''''), ho_Program = (\<lambda>_. Inr (ar_Slot (host_ref ''v0.1.0''))),
     ho_Agent = (\<lambda>_. Inr \<lparr>as_Loaded = True, as_Running = True\<rparr>), ho_State = (\<lambda>_. worker_disk), ho_ControllerPlist = Missing,
     ho_Controller = Inr \<lparr>as_Loaded = False, as_Running = False\<rparr>,
     ho_Slots = (\<lambda>dir. if dir = path_Dir (ar_Slot (host_ref ''v0.1.0'')) then Inr (staged_files (host_ref ''v0.1.0'')) else Inl not_exist),
     ho_Digests = (\<lambda>p. if p = path_Clean (ar_Slot (host_ref ''v0.1.0'')) then Inr sample_digest else Inl not_exist),
     ho_Now = 100, ho_Fates = []\<rparr>"

lemma worker_disk_load:
  "(case Load sample_store sample_ambient worker_disk of (x, d) \<Rightarrow>
     (case x of Inl e \<Rightarrow> False | Inr s \<Rightarrow> HasWorker s \<and> \<not> RecoverableUnstartedConflictLaunch s) \<and> d = worker_disk)"
  by code_simp

lemma host_target: "target host_env ''/repo'' host = Some host_entry"
  by code_simp

lemma host_slot: "path_Clean (ar_Slot (host_ref ''v0.1.0'')) = ar_Slot (host_ref ''v0.1.0'')" "IsAbs (ar_Slot (host_ref ''v0.1.0''))"
  by code_simp+

lemma host_files:
  "ho_Program host s = Inr (ar_Slot (host_ref ''v0.1.0''))" "ho_Config host = CurrentConfig host_config"
  "ho_Digests host (ar_Slot (host_ref ''v0.1.0'')) = Inr sample_digest" "ar_ArtifactSHA256 (host_ref v) = sample_digest"
  by (simp_all add: host_def host_slot) (simp add: host_ref_def SlotRef_def)

lemma host_assignment: "mlookup (dc_Assignments host_config) ''repo'' = Some (first_assignment ''repo'' (host_ref ''v0.1.0'') 5)"
  by (simp add: host_config_def Migrated_def mlookup_def)

section \<open>Isolation\<close>

definition assigned :: "Host \<Rightarrow> string \<Rightarrow> RepositoryAssignment option" where
  "assigned h s = (case ho_Config h of CurrentConfig c \<Rightarrow> mlookup (dc_Assignments c) s | _ \<Rightarrow> None)"

lemma LoadConfig_Inr: "LoadConfig f = Inr c \<longleftrightarrow> f = CurrentConfig c \<and> Config_Validate c = None"
proof -
  have old: "(Config_Validate (legacy_as_current l) = None) = False" for l
    by (simp add: Config_Validate_def legacy_as_current_def Migrated_def)
  show ?thesis by (cases f) (auto simp: LoadConfig_def old split: option.splits)
qed

lemma valid_config_map: "Config_Validate c = None \<Longrightarrow> dc_Assignments c \<noteq> NilMap"
  by (simp add: Config_Validate_def)

definition untouched :: "HostEnv \<Rightarrow> string \<Rightarrow> Host \<Rightarrow> Host \<Rightarrow> bool" where
  "untouched env r h0 h \<longleftrightarrow> (\<forall>s. s \<noteq> r \<longrightarrow> ho_Tx h s = ho_Tx h0 s \<and> ho_Fence h s = ho_Fence h0 s \<and> ho_Wake h s = ho_Wake h0 s
     \<and> ho_Program h s = ho_Program h0 s \<and> ho_Agent h s = ho_Agent h0 s \<and> assigned h s = assigned h0 s
     \<and> (\<exists>n. ho_State h s = (he_Supervisor env s ^^ n) (ho_State h0 s)))"

fun touches :: "string \<Rightarrow> Host \<Rightarrow> host_op \<Rightarrow> bool" where
  "touches r h0 (PutConfig c) = (\<forall>s. s \<noteq> r \<longrightarrow> mlookup (dc_Assignments c) s = assigned h0 s)"
| "touches r h0 (PutSlot ref) = True"
| "touches r h0 op = local_op r op"

interpretation isolation: switch_invariant env r "untouched env r h0" "touches r h0" for env r h0
proof unfold_locales
  fix h fs now op cfg a
  show "local_op r op \<Longrightarrow> touches r h0 op" by (cases op) simp_all
  assume u: "untouched env r h0 h"
  show "untouched env r h0 (h\<lparr>ho_Fates := fs\<rparr>)" using u by (simp add: untouched_def assigned_def)
  show "untouched env r h0 (h\<lparr>ho_Now := now, ho_State := \<lambda>s. he_Supervisor env s (ho_State h s)\<rparr>)"
    unfolding untouched_def
  proof (intro allI impI conjI)
    fix s assume s: "s \<noteq> r"
    then obtain n where "ho_State h s = (he_Supervisor env s ^^ n) (ho_State h0 s)" using u by (auto simp: untouched_def)
    then show "\<exists>n. ho_State (h\<lparr>ho_Now := now, ho_State := \<lambda>s. he_Supervisor env s (ho_State h s)\<rparr>) s = (he_Supervisor env s ^^ n) (ho_State h0 s)"
      by (intro exI [of _ "Suc n"]) simp
  qed (use u in \<open>simp_all add: untouched_def assigned_def\<close>)
  show "untouched env r h0 (run_host_op op h)" if "touches r h0 op"
    using u that by (cases op) (auto simp: untouched_def assigned_def)
  show "touches r h0 (PutConfig (with_assignment r a cfg))" if "LoadConfig (ho_Config h) = Inr cfg"
    using that u valid_config_map [of cfg]
    by (auto simp: LoadConfig_Inr with_assignment_def mlookup_mstore untouched_def assigned_def)
qed

text \<open>The repository a command is about; \<open>s\<close> stands in for a path that names none.\<close>

definition repo_of :: "string \<Rightarrow> RegistryEntry option \<Rightarrow> string" where
  "repo_of s T = (case T of None \<Rightarrow> CHR ''x'' # s | Some e \<Rightarrow> re_RepoID e)"

interpretation isolated: command_invariant env p T "untouched env (repo_of s T) h0" for env p T s h0
  by (rule isolation.command) (simp add: repo_of_def)

text \<open>a command on one repository leaves every other repository alone, whatever operation fails and wherever it is interrupted:
  transaction, fence, wake-up, program, LaunchAgent and assignment of another repository are what they were, and its state is what
  its own supervisor made of it in the meantime.\<close>

theorem switch_is_isolated:
  assumes other: "\<And>e. target env p h = Some e \<Longrightarrow> re_RepoID e \<noteq> s" and run: "run_command env p c h = (result, h')"
  shows "ho_Tx h' s = ho_Tx h s \<and> ho_Fence h' s = ho_Fence h s \<and> ho_Wake h' s = ho_Wake h s \<and> ho_Program h' s = ho_Program h s
    \<and> ho_Agent h' s = ho_Agent h s \<and> assigned h' s = assigned h s \<and> (\<exists>n. ho_State h' s = (he_Supervisor env s ^^ n) (ho_State h s))"
proof -
  define r where "r = repo_of s (target env p h)"
  have r: "r \<noteq> s" using other by (auto simp: r_def repo_of_def split: option.splits)
  have start: "untouched env r h h" by (auto simp: untouched_def intro: exI [of _ 0])
  then have "staging_kept env c (untouched env r h) h"
    by (auto simp: staging_kept_def untouched_def assigned_def split: command.splits sum.splits)
  then have "untouched env r h (snd (run_command env p c h))"
    using start unfolding r_def by (intro isolated.run_command_keeps) simp_all
  then show ?thesis using r run by (simp add: untouched_def)
qed

theorem switch_is_isolated_witness:
  "ho_Fence (snd (run_command host_env ''/repo'' (ApplyVersion ''v0.2.0'' 1) host)) ''other'' = Missing"
proof -
  obtain result h' where run: "run_command host_env ''/repo'' (ApplyVersion ''v0.2.0'' 1) host = (result, h')" by fastforce
  have "re_RepoID e \<noteq> ''other''" if "target host_env ''/repo'' host = Some e" for e
    using that by (auto simp: host_target host_entry_def)
  from switch_is_isolated [OF this run] run show ?thesis by (simp add: host_def)
qed

section \<open>Active workers\<close>

text \<open>\<open>P\<close> holds of the disks of a repository whose worker is active: whatever its supervisor does and whenever its state is read, the
  snapshot shows a worker, and no launch that never started.\<close>

definition working :: "HostEnv \<Rightarrow> string \<Rightarrow> (Disk \<Rightarrow> bool) \<Rightarrow> bool" where
  "working env r P \<longleftrightarrow> (\<forall>d. P d \<longrightarrow> P (he_Supervisor env r d)
     \<and> (case Load (he_Store env r) (dr_Recover (he_Draws env r)) d of
          (Inl e, d') \<Rightarrow> P d' | (Inr s, d') \<Rightarrow> P d' \<and> HasWorker s \<and> \<not> RecoverableUnstartedConflictLaunch s))"

definition running_worker :: "HostEnv \<Rightarrow> string \<Rightarrow> (Disk \<Rightarrow> bool) \<Rightarrow> AgentStatus \<Rightarrow> go_error + string \<Rightarrow> Host \<Rightarrow> bool" where
  "running_worker env r P st prog h \<longleftrightarrow> working env r P \<and> P (ho_State h r) \<and> as_Loaded st
     \<and> ho_Agent h r = Inr st \<and> ho_Program h r = prog"

fun spares :: "string \<Rightarrow> (Disk \<Rightarrow> bool) \<Rightarrow> host_op \<Rightarrow> bool" where
  "spares r P (PutProgram s p) = (s \<noteq> r)"
| "spares r P (StartAgent s st) = (s \<noteq> r)"
| "spares r P (StopAgent s st) = (s \<noteq> r)"
| "spares r P (PutState s d) = (s = r \<longrightarrow> P d)"
| "spares r P op = True"

interpretation worker: host_invariant env r "running_worker env r P st prog" "spares r P" for env r P st prog
proof unfold_locales
  fix h fs now op
  assume i: "running_worker env r P st prog h"
  show "running_worker env r P st prog (h\<lparr>ho_Fates := fs\<rparr>)" using i by (simp add: running_worker_def)
  show "running_worker env r P st prog (h\<lparr>ho_Now := now, ho_State := \<lambda>s. he_Supervisor env s (ho_State h s)\<rparr>)"
    using i by (simp add: running_worker_def working_def)
  show "spares r P op \<Longrightarrow> running_worker env r P st prog (run_host_op op h)"
    using i by (cases op) (auto simp: running_worker_def)
qed

lemma triple_False: "triple (\<lambda>_. False) m Q E"
  by (simp add: triple_def)

lemma triple_dead: "triple P m (\<lambda>_ _. False) E \<Longrightarrow> triple P (bind_act m f) Q E"
  by (erule triple_bind) (rule triple_False)

lemma keeps_dead: "triple I m (\<lambda>_ _. False) I \<Longrightarrow> keeps I (bind_act m f)"
  unfolding keeps_def by (rule triple_dead)

lemma dead_otherwise:
  "triple I m (\<lambda>_ _. False) I \<Longrightarrow> (\<And>e. keeps I (handler e)) \<Longrightarrow> keeps I (otherwise m handler f)"
  unfolding keeps_def by (rule triple_otherwise [where P = I and R = "\<lambda>_ _. False" and H = I and E = I]) (simp_all add: triple_False)

lemma working_load: "working env r P \<Longrightarrow> P d \<Longrightarrow> case Load (he_Store env r) (dr_Recover (he_Draws env r)) d of
    (Inl e, d') \<Rightarrow> P d' | (Inr s, d') \<Rightarrow> P d' \<and> HasWorker s \<and> \<not> RecoverableUnstartedConflictLaunch s"
  unfolding working_def by (drule spec, drule mp, assumption, erule conjunct2)

lemma worker_load:
  "triple (running_worker env r P st prog) (load_state env r)
     (\<lambda>s h. running_worker env r P st prog h \<and> HasWorker s \<and> \<not> RecoverableUnstartedConflictLaunch s) (running_worker env r P st prog)"
proof (rule tripleI)
  let ?I = "running_worker env r P st prog"
  fix h assume h: "?I h"
  obtain x d where l: "Load (he_Store env r) (dr_Recover (he_Draws env r)) (ho_State h r) = (x, d)" by fastforce
  have "case Load (he_Store env r) (dr_Recover (he_Draws env r)) (ho_State h r) of
      (Inl e, d') \<Rightarrow> P d' | (Inr s, d') \<Rightarrow> P d' \<and> HasWorker s \<and> \<not> RecoverableUnstartedConflictLaunch s"
    using h by (intro working_load) (simp_all add: running_worker_def)
  then have d: "P d" and x: "x = Inr s \<Longrightarrow> HasWorker s \<and> \<not> RecoverableUnstartedConflictLaunch s" for s
    unfolding l by (cases x; simp)+
  have "triple ?I (bind_act (perform (PutState r d)) (\<lambda>_. look_ok (\<lambda>_. x)))
      (\<lambda>s h. ?I h \<and> HasWorker s \<and> \<not> RecoverableUnstartedConflictLaunch s) ?I"
    using worker.keeps_perform [of r P "PutState r d" env st prog] d x
    by (intro triple_bind [of _ _ "\<lambda>_. ?I"] triple_look_ok) (simp_all add: keeps_def)
  then show "case load_state env r h of (Inr s, h') \<Rightarrow> ?I h' \<and> HasWorker s \<and> \<not> RecoverableUnstartedConflictLaunch s | (Inl s, h') \<Rightarrow> ?I h'"
    using h l by (auto simp: load_state_def triple_def)
qed

lemma worker_inspect:
  "triple (running_worker env r P st prog) (inspectAssignmentStop env r) (\<lambda>_ _. False) (running_worker env r P st prog)"
  unfolding inspectAssignmentStop_def
  by (rule triple_bind [OF triple_wrapped [OF worker_load]]) (auto intro!: triple_require)

lemma worker_drain_poll:
  "triple (running_worker env r P st prog) (drain_poll env r) (\<lambda>ready h. running_worker env r P st prog h \<and> \<not> ready) (running_worker env r P st prog)"
  unfolding drain_poll_def
proof (rule triple_bind [OF worker_load])
  fix s
  let ?I = "running_worker env r P st prog"
  show "triple (\<lambda>h. ?I h \<and> HasWorker s \<and> \<not> RecoverableUnstartedConflictLaunch s)
     (bind_act (if RecoverableUnstartedConflictLaunch s
        then wrapped [Lit ''recover unstarted conflict launch while draining: ''] (RecoverUnstartedConflictLaunch env r) else give s) (\<lambda>s. give (drain_Ready s)))
     (\<lambda>ready h. ?I h \<and> \<not> ready) ?I"
  proof (rule triple_pure [where b = "HasWorker s \<and> \<not> RecoverableUnstartedConflictLaunch s"], simp)
    assume s: "HasWorker s \<and> \<not> RecoverableUnstartedConflictLaunch s"
    then have "\<not> drain_Ready s" by (simp add: drain_Ready_def)
    with s show ?thesis
      by (auto intro!: triple_bind [OF triple_give [where Q = "\<lambda>x h. ?I h \<and> x = s"]] triple_give)
  qed
qed

lemma worker_legacy_poll:
  "triple (running_worker env r P st prog) (legacy_poll env r) (\<lambda>ready h. running_worker env r P st prog h \<and> \<not> ready) (running_worker env r P st prog)"
  unfolding legacy_poll_def
proof (rule triple_bind [where R = "\<lambda>x h. running_worker env r P st prog h \<and> x = (False, False)"])
  let ?I = "running_worker env r P st prog"
  have poll: "triple ?I (bind_act (load_state env r) (\<lambda>s. if legacy_busy s then give (False, False)
        else bind_act (RequestStop env r) (\<lambda>requested. give (True, requested)))) (\<lambda>x h. ?I h \<and> x = (False, False)) ?I"
  proof (rule triple_bind [OF worker_load])
    fix s
    show "triple (\<lambda>h. ?I h \<and> HasWorker s \<and> \<not> RecoverableUnstartedConflictLaunch s)
       (if legacy_busy s then give (False, False) else bind_act (RequestStop env r) (\<lambda>requested. give (True, requested)))
       (\<lambda>x h. ?I h \<and> x = (False, False)) ?I"
      by (rule triple_pure [where b = "legacy_busy s"]) (auto simp: legacy_busy_def intro!: triple_give)
  qed
  then show "triple ?I (wrapped [Lit ''stop legacy repository runtime under admission lock: ''] (bind_act (load_state env r) (\<lambda>s.
      if legacy_busy s then give (False, False) else bind_act (RequestStop env r) (\<lambda>requested. give (True, requested)))))
      (\<lambda>x h. ?I h \<and> x = (False, False)) ?I"
    by (rule triple_wrapped)
  fix x :: "bool \<times> bool"
  show "triple (\<lambda>h. ?I h \<and> x = (False, False)) (case x of (idle, requested) \<Rightarrow>
     bind_act (if requested then wrapped [Lit ''wait for legacy repository runtime to stop: ''] (WaitStopped env r) else give ()) (\<lambda>_. give idle))
     (\<lambda>ready h. ?I h \<and> \<not> ready) ?I"
    by (rule triple_pure [where b = "x = (False, False)"])
      (auto intro!: triple_bind [OF triple_give [where Q = "\<lambda>_. ?I"]] triple_give)
qed

lemma never_ready:
  assumes poll: "triple I poll (\<lambda>ready h. I h \<and> \<not> ready) I" and pause: "keeps I (pause env second)"
  shows "triple I (wait_until poll env deadline) (\<lambda>_ _. False) I"
proof -
  have round': "triple I (wait_round poll env deadline) (\<lambda>ready h. I h \<and> \<not> ready) I"
    unfolding wait_round_def
  proof (rule triple_bind [OF poll])
    fix ready
    show "triple (\<lambda>h. I h \<and> \<not> ready) (if ready then give True else bind_act (look ho_Now) (\<lambda>now. if \<not> now < deadline
        then fail_with (Errorf [Lit ''repository drain deadline reached without signaling or killing workers''])
        else bind_act (pause env second) (\<lambda>_. give False))) (\<lambda>ready h. I h \<and> \<not> ready) I"
      using pause
      by (cases ready) (auto simp: triple_False keeps_def intro!: triple_bind [OF triple_look [where Q = "\<lambda>_. I"]] triple_fail
          triple_bind [of I "pause env second" "\<lambda>_. I"] triple_give)
  qed
  have "I h \<Longrightarrow> wait_rounds n poll env deadline h = Some (x, h') \<Longrightarrow> \<not> isl x \<Longrightarrow> False" for n h x h'
  proof (induction n arbitrary: h)
    case (Suc n)
    obtain y h1 where w: "wait_round poll env deadline h = (y, h1)" by fastforce
    show ?case
    proof (cases y)
      case (Inr b)
      with triple_Inr [OF round' Suc.prems(1)] w have "I h1 \<and> \<not> b" by blast
      then show ?thesis using Suc w Inr by auto
    qed (use Suc w in auto)
  qed simp
  moreover have "I h \<Longrightarrow> wait_rounds n poll env deadline h = Some (x, h') \<Longrightarrow> I h'" for n h x h'
    using keeps_wait_rounds [of I poll env h n deadline x h'] triple_conseq [OF poll, of I "\<lambda>_. I" I] pause
    unfolding keeps_def by blast
  ultimately show ?thesis
    by (intro tripleI) (fastforce simp: wait_until_def split: option.splits sum.splits)
qed

lemma worker_wait:
  "triple (running_worker env r P st prog) (waitForDrain env cfg r) (\<lambda>_ _. False) (running_worker env r P st prog)"
  "triple (running_worker env r P st prog) (waitForLegacyIdleAndStop env cfg r) (\<lambda>_ _. False) (running_worker env r P st prog)"
  unfolding waitForDrain_def waitForLegacyIdleAndStop_def
  by (rule triple_bind [OF triple_look [where Q = "\<lambda>_. running_worker env r P st prog"]], assumption,
      rule never_ready, rule worker_drain_poll worker_legacy_poll, rule worker.keeps_pause)+

lemma worker_files:
  "keeps (running_worker env r P st prog) (SaveAssignmentTransaction s tx)" "keeps (running_worker env r P st prog) (ClearMaintenance s)"
  "keeps (running_worker env r P st prog) (wake s text)" "keeps (running_worker env r P st prog) (WriteMaintenance s g v)"
  by (simp_all add: SaveAssignmentTransaction_def ClearMaintenance_def wake_def WriteMaintenance_def worker.keeps_perform keeps_rules)

lemma worker_rollback: "re_RepoID entry = r \<Longrightarrow> keeps (running_worker env r P st prog) (rollbackSwitch env entry current tx cause)"
  unfolding rollbackSwitch_def restore_runtime_def Let_def
  by (intro keeps_bind keeps_ignore worker_files dead_otherwise triple_dead keeps_report) (simp add: worker_inspect)

lemma worker_health: "re_RepoID entry = r \<Longrightarrow> keeps (running_worker env r P st prog) (health env entry ref loaded)"
  unfolding health_def verify_slot_def agent_program_def agent_status_def stopped_health_def
  by (intro keeps_rules worker.keeps_protocol)
    (simp add: keeps_def triple_post [OF worker_load])

lemma worker_retry: "as_Loaded st \<Longrightarrow> triple (running_worker env r P st prog) (prepare_retained env r tx st) (\<lambda>_ _. False) (running_worker env r P st prog)"
  unfolding prepare_retained_def stop_retained_def by (simp add: triple_dead worker_inspect)

lemma worker_drained:
  assumes "re_RepoID entry = r"
  shows "triple (running_worker env r P st prog) (drain_repository env cfg entry current tx legacy)
    (\<lambda>d h. running_worker env r P st prog h \<and> d \<noteq> Drained) (running_worker env r P st prog)"
  unfolding drain_repository_def Let_def assms
proof (rule triple_otherwise)
  let ?I = "running_worker env r P st prog"
  show "triple ?I (if legacy then waitForLegacyIdleAndStop env cfg r else waitForDrain env cfg r) (\<lambda>_ _. False) ?I"
    by (simp add: worker_wait)
  fix e
  have k: "keeps ?I (ignore_error (SaveAssignmentTransaction r tx'))" "keeps ?I (ignore_error (ClearMaintenance r))"
    "keeps ?I (reportWithTransaction entry current tx' e)" for tx'
    by (intro keeps_rules worker_files)+
  show "triple ?I (bind_act (ignore_error (SaveAssignmentTransaction r (tx\<lparr>at_Result := lit ''deferred'', at_Reason := error_text e\<rparr>))) (\<lambda>_.
      bind_act (ignore_error (ClearMaintenance r)) (\<lambda>_.
      bind_act (reportWithTransaction entry current (tx\<lparr>at_Result := lit ''deferred'', at_Reason := error_text e\<rparr>) e) (\<lambda>out. give (Deferred out)))))
      (\<lambda>d h. ?I h \<and> d \<noteq> Drained) ?I"
    using k unfolding keeps_def by (blast intro: triple_bind triple_give)
qed (simp_all add: triple_False)

lemma bind_give: "bind_act (give x) f = f x"
  by (rule ext) (simp add: bind_act_def give_def)

lemma worker_run:
  assumes entry: "re_RepoID entry = r"
  shows "keeps (running_worker env r P st prog) (run_switch env cfg entry current tx desired rollback active)"
  unfolding run_switch_def Let_def entry keeps_def
proof (rule triple_bind [where R = "\<lambda>st' h. running_worker env r P st prog h \<and> st' = st \<and> as_Loaded st"])
  let ?I = "running_worker env r P st prog"
  let ?rest = "\<lambda>tx st'. bind_act (legacy_runtime env r (ra_Ref current) st') (\<lambda>legacy.
     bind_act (if active then give tx
               else bind_act (look ho_Now) (\<lambda>now.
                 bind_act (SaveAssignmentTransaction r (new_transaction r current desired (operation_of rollback) (as_Loaded st') now))
                  (\<lambda>_. give (new_transaction r current desired (operation_of rollback) (as_Loaded st') now)))) (\<lambda>tx.
     bind_act (raise_fence env r tx) (\<lambda>tx.
     bind_act (if as_Loaded st' then drain_repository env cfg entry current tx legacy else give Drained) (\<lambda>d. case d of
       Drained \<Rightarrow> apply_switch env cfg entry current tx rollback
     | Deferred out \<Rightarrow> give out
     | Reverted out \<Rightarrow> give out))))"
  show "triple ?I (agent_status r) (\<lambda>st' h. ?I h \<and> st' = st \<and> as_Loaded st) ?I"
    unfolding agent_status_def by (rule triple_look_ok) (auto simp: running_worker_def)
  have rest: "keeps ?I (?rest tx' st)" if "as_Loaded st" for tx'
  proof -
    have last: "keeps ?I (bind_act (drain_repository env cfg entry current tx2 legacy) (\<lambda>d. case d of
        Drained \<Rightarrow> apply_switch env cfg entry current tx2 rollback | Deferred out \<Rightarrow> give out | Reverted out \<Rightarrow> give out))" for tx2 legacy
      unfolding keeps_def
    proof (rule triple_bind [OF worker_drained [OF entry]])
      fix d
      show "triple (\<lambda>h. ?I h \<and> d \<noteq> Drained) (case d of Drained \<Rightarrow> apply_switch env cfg entry current tx2 rollback | Deferred out \<Rightarrow> give out | Reverted out \<Rightarrow> give out) (\<lambda>_. ?I) ?I"
        by (cases d) (auto intro!: triple_give simp: triple_False)
    qed
    have raise: "keeps ?I (raise_fence env r tx2)" for tx2
      unfolding raise_fence_def Let_def by (intro keeps_rules worker_files)
    have start: "keeps ?I (if active then give tx' else bind_act (look ho_Now) (\<lambda>now.
        bind_act (SaveAssignmentTransaction r (new_transaction r current desired (operation_of rollback) (as_Loaded st) now))
          (\<lambda>_. give (new_transaction r current desired (operation_of rollback) (as_Loaded st) now))))"
      by (intro keeps_rules worker_files)
    show ?thesis
      by (rule keeps_bind, rule worker.keeps_protocol, rule keeps_bind, rule start, rule keeps_bind, rule raise)
        (simp only: that if_True last)
  qed
  fix st'
  show "triple (\<lambda>h. ?I h \<and> st' = st \<and> as_Loaded st)
     (bind_act (if at_Phase tx = AssignmentRollbackFailed then prepare_retained env r tx st' else give (tx, st')) (\<lambda>(tx, st'). ?rest tx st')) (\<lambda>_. ?I) ?I"
  proof (rule triple_pure [where b = "st' = st \<and> as_Loaded st"], simp)
    assume st: "st' = st \<and> as_Loaded st"
    show ?thesis
    proof (cases "at_Phase tx = AssignmentRollbackFailed")
      case True
      then show ?thesis using st
        by (simp, intro triple_dead [OF triple_pre [OF worker_retry]]) simp_all
    next
      case False
      have "keeps ?I (bind_act (give (tx, st)) (\<lambda>(tx, st'). ?rest tx st'))"
        unfolding bind_give prod.case using st by (intro rest) simp
      then show ?thesis using False st by (simp add: keeps_def)
    qed
  qed
qed

lemma worker_switch_from:
  assumes "re_RepoID entry = r"
  shows "keeps (running_worker env r P st prog) (switch_from env desired expected rollback retryRetained cfg entry current tx)"
proof -
  have finish: "keeps (running_worker env r P st prog) (finish_committed env entry current tx)"
    unfolding finish_committed_def assms by (intro keeps_rules worker_files worker_health assms)
  show ?thesis
    unfolding switch_from_def verify_slot_def Let_def
    by (intro keeps_rules finish worker_rollback worker_run assms)
qed

lemma worker_switchTo:
  assumes "running_worker env r P st prog h" and "\<And>e. target env p h = Some e \<Longrightarrow> re_RepoID e = r"
  shows "running_worker env r P st prog (snd (switchTo env p desired expected rollback retryRetained h))"
proof -
  have "switch_context env p h = (Inr (cfg, entry, current, tx), h1) \<Longrightarrow> re_RepoID entry = r" for cfg entry current tx h1
    using assms(2) by (simp add: switch_context_Inr)
  then show ?thesis
    using reads_context [of env p h] assms(1) keepsD [OF worker_switch_from]
    by (cases "switch_context env p h"; cases "fst (switch_context env p h)") (auto simp: switchTo_def bind_act_def)
qed

lemma worker_RetryRollback:
  assumes i: "running_worker env r P st prog h" and t: "\<And>e. target env p h = Some e \<Longrightarrow> re_RepoID e = r"
  shows "running_worker env r P st prog (snd (RetryRollback env p h))"
proof -
  let ?I = "running_worker env r P st prog"
  have retained: "retained_error r current tx h = None \<Longrightarrow> at_WasLoaded tx" for current tx
    using i by (auto simp: retained_error_def running_worker_def)
  have dead: "triple ?I (bind_act (inspectAssignmentStop env r) (\<lambda>_. Stop env r)) (\<lambda>_ _. False) ?I"
    by (rule triple_dead [OF worker_inspect])
  show ?thesis
    unfolding RetryRollback_def Let_def
  proof (rule bind_reads [where I = ?I, OF keeps_require i], rule bind_reads [where I = ?I, OF reads_set i], goal_cases)
    case (1 u x)
    obtain cfg repos where x: "x = (cfg, repos)" by (cases x)
    show ?case unfolding x prod.case
    proof (rule bind_reads [where I = ?I, OF reads_Resolve i], goal_cases)
      case (1 entry)
      then have entry: "re_RepoID entry = r" using t by (simp add: act_simps)
      show ?case unfolding entry
      proof (rule bind_reads [where I = ?I, OF reads_assignment i], rule bind_reads [where I = ?I, OF _ i], intro keeps_rules,
          rule bind_reads [where I = ?I, OF keeps_require i], goal_cases)
        case (1 current tx v)
        then have "at_WasLoaded tx" using retained by (simp add: act_simps)
        then show ?case using keepsD [OF keeps_dead [OF dead] i] by simp
      qed
    qed
  qed
qed

interpretation worker_command: command_invariant env p T "running_worker env (repo_of s T) P st prog" for env p T s P st prog
  by unfold_locales (auto simp: repo_of_def intro: worker.fates worker_switchTo worker_RetryRollback)

text \<open>C12: no command stops a repository whose worker is active, whatever fails and wherever it is interrupted. If every snapshot its
  supervisor writes shows a worker, then a loaded LaunchAgent keeps its status and its program, and the state keeps showing the worker.\<close>

theorem active_worker_is_never_stopped:
  assumes entry: "target env p h = Some entry" and r: "re_RepoID entry = r"
    and busy: "working env r P" "P (ho_State h r)" and loaded: "ho_Agent h r = Inr st" "as_Loaded st"
    and run: "run_command env p c h = (result, h')"
  shows "ho_Agent h' r = ho_Agent h r \<and> ho_Program h' r = ho_Program h r \<and> P (ho_State h' r)"
proof -
  let ?I = "running_worker env r P st (ho_Program h r)"
  have start: "?I h" using busy loaded by (simp add: running_worker_def)
  then have "staging_kept env c ?I h"
    by (auto simp: staging_kept_def running_worker_def split: command.splits sum.splits)
  then have "?I (snd (run_command env p c h))"
    using start entry r worker_command.run_command_keeps [where T = "Some entry" and s = "[]" and P = P and st = st and prog = "ho_Program h r" and env = env and h = h and p = p and c = c]
    by (simp add: repo_of_def)
  then show ?thesis using run loaded by (simp add: running_worker_def)
qed

theorem active_worker_is_never_stopped_witness:
  "ho_Agent (snd (run_command host_env ''/repo'' (ApplyVersion ''v0.2.0'' 1) host)) ''repo'' = Inr \<lparr>as_Loaded = True, as_Running = True\<rparr>"
proof -
  obtain result h' where run: "run_command host_env ''/repo'' (ApplyVersion ''v0.2.0'' 1) host = (result, h')" by fastforce
  have busy: "working host_env ''repo'' (\<lambda>d. d = worker_disk)"
    using worker_disk_load by (auto simp: working_def host_env_def sample_draws_def split: prod.splits sum.splits)
  have facts: "re_RepoID host_entry = ''repo''" "ho_State host ''repo'' = worker_disk"
    "ho_Agent host ''repo'' = Inr \<lparr>as_Loaded = True, as_Running = True\<rparr>"
    by (simp_all add: host_entry_def host_def)
  from active_worker_is_never_stopped [OF host_target facts(1) busy facts(2) facts(3) _ run] run facts(3) show ?thesis by simp
qed

section \<open>The fence\<close>

definition runtime_digest :: "Host \<Rightarrow> string \<Rightarrow> string option" where
  "runtime_digest h r = (case ho_Program h r of Inl e \<Rightarrow> None
     | Inr program \<Rightarrow> (case file_digest h program of Inl e \<Rightarrow> None | Inr digest \<Rightarrow> Some digest))"

text \<open>The program of the runtime has the assigned digest, or the repository is fenced.\<close>

definition guarded :: "Host \<Rightarrow> string \<Rightarrow> bool" where
  "guarded h r \<longleftrightarrow> ho_Fence h r \<noteq> Missing
     \<or> (\<forall>a. assigned h r = Some a \<longrightarrow> runtime_digest h r = Some (ar_ArtifactSHA256 (ra_Ref a)))"

text \<open>An assertion on the configuration, the fence and the digest of the runtime.\<close>

definition about :: "string \<Rightarrow> (config_file \<Rightarrow> bool \<Rightarrow> string option \<Rightarrow> bool) \<Rightarrow> Host \<Rightarrow> bool" where
  "about r Q h \<longleftrightarrow> Q (ho_Config h) (ho_Fence h r \<noteq> Missing) (runtime_digest h r)"

fun neutral :: "string \<Rightarrow> host_op \<Rightarrow> bool" where
  "neutral r (PutConfig c) = False"
| "neutral r (PutSlot ref) = False"
| "neutral r (PutFence s m) = (s \<noteq> r)"
| "neutral r (DropFence s) = (s \<noteq> r)"
| "neutral r (PutProgram s p) = (s \<noteq> r)"
| "neutral r op = True"

lemma runtime_digest_cong:
  "ho_Program h' r = ho_Program h r \<Longrightarrow> ho_Digests h' = ho_Digests h \<Longrightarrow> runtime_digest h' r = runtime_digest h r"
  by (cases "ho_Program h r") (simp_all add: runtime_digest_def file_digest_def)

lemma runtime_digest_frame [simp]:
  "runtime_digest (h\<lparr>ho_Fates := fs\<rparr>) r = runtime_digest h r" "runtime_digest (h\<lparr>ho_Fence := f\<rparr>) r = runtime_digest h r"
  "runtime_digest (h\<lparr>ho_Now := now, ho_State := x\<rparr>) r = runtime_digest h r" "runtime_digest (h\<lparr>ho_Config := c\<rparr>) r = runtime_digest h r"
  "runtime_digest (h\<lparr>ho_Fates := fs, ho_Fence := f\<rparr>) r = runtime_digest h r"
  "runtime_digest (h\<lparr>ho_Fates := fs, ho_Config := c\<rparr>) r = runtime_digest h r"
  by (rule runtime_digest_cong; simp)+

lemma runtime_digest_neutral: "neutral r op \<Longrightarrow> runtime_digest (run_host_op op h) r = runtime_digest h r"
  by (rule runtime_digest_cong; cases op; simp)

interpretation delivery: host_invariant env r "about r Q" "neutral r" for env r Q
proof unfold_locales
  fix h fs now op
  assume i: "about r Q h"
  show "about r Q (h\<lparr>ho_Fates := fs\<rparr>)" using i by (simp add: about_def)
  show "about r Q (h\<lparr>ho_Now := now, ho_State := \<lambda>s. he_Supervisor env s (ho_State h s)\<rparr>)"
    using i by (simp add: about_def)
  show "neutral r op \<Longrightarrow> about r Q (run_host_op op h)"
    using i runtime_digest_neutral [of r op h] by (cases op) (auto simp: about_def)
qed

lemma about_mono: "about r Q h \<Longrightarrow> (\<And>c f d. Q c f d \<Longrightarrow> Q' c f d) \<Longrightarrow> about r Q' h"
  by (simp add: about_def)

definition guarded_as :: "string \<Rightarrow> config_file \<Rightarrow> bool \<Rightarrow> string option \<Rightarrow> bool" where
  "guarded_as r c f d \<longleftrightarrow> f \<or>
     (\<forall>a. (case c of CurrentConfig c \<Rightarrow> mlookup (dc_Assignments c) r | _ \<Rightarrow> None) = Some a \<longrightarrow> d = Some (ar_ArtifactSHA256 (ra_Ref a)))"

lemma guarded_about: "guarded h r \<longleftrightarrow> about r (guarded_as r) h"
  by (simp add: guarded_def about_def assigned_def guarded_as_def)

lemma about_triple:
  "keeps (about r Q) m \<Longrightarrow> (\<And>c f d. Q c f d \<Longrightarrow> Q' c f d \<and> E c f d) \<Longrightarrow> triple (about r Q) m (\<lambda>_. about r Q') (about r E)"
  unfolding keeps_def by (erule triple_conseq) (auto simp: about_def)

lemma about_conseq:
  "triple (about r Q) m (\<lambda>_. about r R) (about r E) \<Longrightarrow> (\<And>c f d. Q' c f d \<Longrightarrow> Q c f d) \<Longrightarrow> (\<And>c f d. R c f d \<Longrightarrow> R' c f d)
    \<Longrightarrow> (\<And>c f d. E c f d \<Longrightarrow> E' c f d) \<Longrightarrow> triple (about r Q') m (\<lambda>_. about r R') (about r E')"
  by (erule triple_conseq) (auto simp: about_def)

lemma neutral_files:
  "keeps (about r Q) (SaveAssignmentTransaction s tx)" "keeps (about r Q) (wake s text)"
  by (simp_all add: SaveAssignmentTransaction_def wake_def delivery.keeps_perform keeps_rules)

lemma neutral_agent:
  "keeps (about r Q) (Start env r)" "keeps (about r Q) (Stop env r)" "keeps (about r Q) (RequestStop env r)" "keeps (about r Q) (WaitStopped env r)"
  by (simp_all add: delivery.keeps_agent)

lemma neutral_state:
  "keeps (about r Q) (inspectAssignmentStop env r)" "keeps (about r Q) (stopped_health env r)" "keeps (about r Q) (load_state env r)"
  "keeps (about r Q) (ReconcileStoppedAssignment env r)" "keeps (about r Q) (drain_poll env r)"
  by (simp_all add: delivery.keeps_state_operations delivery.keeps_load_state)

lemma triple_clear:
  assumes "\<And>h. P h \<Longrightarrow> about r (\<lambda>c f d. Q c False d \<and> E c False d \<and> E c f d) h"
  shows "triple P (ClearMaintenance r) (\<lambda>_. about r Q) (about r E)"
proof -
  have "about r Q (run_host_op (DropFence r) (h\<lparr>ho_Fates := fs\<rparr>)) \<and> about r E (h\<lparr>ho_Fates := fs\<rparr>)" if "P h" for h fs
    using assms [OF that] by (simp add: about_def)
  then show ?thesis unfolding ClearMaintenance_def by (intro triple_perform) simp_all
qed

lemma triple_fence:
  assumes "\<And>h. P h \<Longrightarrow> about r (\<lambda>c f d. Q c True d \<and> E c f d) h"
  shows "triple P (WriteMaintenance r g v) (\<lambda>_. about r Q) (about r E)"
proof -
  have "about r Q (run_host_op (PutFence r m) (h\<lparr>ho_Fates := fs\<rparr>)) \<and> about r E (h\<lparr>ho_Fates := fs\<rparr>)" if "P h" for h fs m
    using assms [OF that] by (simp add: about_def)
  then show ?thesis unfolding WriteMaintenance_def
    by (intro triple_bind [OF triple_look [where Q = "\<lambda>_. P"]] triple_perform) simp_all
qed

text \<open>An absolute path is clean after cleaning.\<close>

lemma rooted_fold_ordinary:
  "\<forall>w \<in> set out. ordinary w \<Longrightarrow> \<forall>w \<in> set (foldl (clean_step True) out cs). ordinary w"
proof (induction cs arbitrary: out)
  case (Cons c cs)
  have "\<forall>w \<in> set (clean_step True out c). ordinary w"
    using Cons.prems by (cases out) (auto simp: clean_step_def ordinary_def)
  with Cons.IH show ?case by simp
qed simp

lemma path_Clean_idem: "IsAbs s \<Longrightarrow> path_Clean (path_Clean s) = path_Clean s"
proof -
  assume abs: "IsAbs s"
  define out where "out = foldl (clean_step True) [] (split_slash s)"
  have ord: "\<forall>w \<in> set out. ordinary w" unfolding out_def by (rule rooted_fold_ordinary) simp
  have "clean_ok out" unfolding out_def
    by (rule clean_fold_ok) (auto simp: clean_ok_def dest: split_slash_no_slash)
  then have slash: "\<forall>w \<in> set (rev out). CHR ''/'' \<notin> set w" by (simp add: clean_ok_def)
  have rooted: "path_Clean t = CHR ''/'' # join ''/'' (rev (foldl (clean_step True) [] (split_slash t)))" if "IsAbs t" for t
    using that by (auto simp: path_Clean_def IsAbs_def Let_def)
  let ?t = "CHR ''/'' # join ''/'' (rev out)"
  have "foldl (clean_step True) [] (split_slash (join ''/'' (rev out))) = out"
  proof (cases "out = []")
    case True
    then show ?thesis by (simp add: clean_step_def)
  next
    case False
    then have "split_slash (join ''/'' (rev out)) = rev out" using slash by (intro split_join) simp_all
    then show ?thesis using ord by (simp add: clean_fold_ordinary)
  qed
  then have "foldl (clean_step True) [] (split_slash ?t) = out" by (simp add: clean_step_def)
  moreover have "IsAbs ?t" by (simp add: IsAbs_def)
  moreover have "path_Clean s = ?t" using rooted [OF abs] by (simp add: out_def)
  ultimately show ?thesis using rooted [of ?t] by simp
qed

lemma path_Clean_abs: "IsAbs s \<Longrightarrow> IsAbs (path_Clean s)"
  by (cases s) (simp_all add: path_Clean_def IsAbs_def Let_def)

lemma IsAbs_append: "IsAbs s \<Longrightarrow> IsAbs (s @ t)"
  by (cases s) (simp_all add: IsAbs_def)

lemma triple_plist:
  assumes entry: "re_RepoID entry = r"
    and pre: "\<And>h. P h \<Longrightarrow> about r (\<lambda>c f d. Q c f (Some (ar_ArtifactSHA256 ref)) \<and> E c f d) h"
    and slot: "\<And>h. P h \<Longrightarrow> VerifySlot (ho_Slots h) (file_digest h) ref = None"
  shows "triple P (WritePlist entry (ar_Slot ref)) (\<lambda>_. about r Q) (about r E)"
  unfolding WritePlist_def entry
proof (rule triple_bind [where R = "\<lambda>_ h. P h \<and> IsAbs (ar_Slot ref)"])
  show "triple P (require (\<lambda>_. guard (\<not> IsAbs (ar_Slot ref) \<or> \<not> IsAbs (re_RepoPath entry)) [Lit ''launchd paths must be absolute'']))
     (\<lambda>_ h. P h \<and> IsAbs (ar_Slot ref)) (about r E)"
    using pre by (intro triple_require) (auto simp: about_def)
  fix u :: unit
  have "about r Q (run_host_op (PutProgram r (ar_Slot ref)) (h\<lparr>ho_Fates := fs\<rparr>)) \<and> about r E (h\<lparr>ho_Fates := fs\<rparr>)"
    if "P h" "IsAbs (ar_Slot ref)" for h fs
  proof -
    have "file_digest h (path_Clean (ar_Slot ref)) = Inr (ar_ArtifactSHA256 ref)"
      using VerifySlot_digest [OF slot [OF that(1)]] by (simp add: file_digest_def path_Clean_idem that(2))
    then have "runtime_digest (run_host_op (PutProgram r (ar_Slot ref)) (h\<lparr>ho_Fates := fs\<rparr>)) r = Some (ar_ArtifactSHA256 ref)"
      by (simp add: runtime_digest_def file_digest_def)
    then show ?thesis using pre [OF that(1)] by (simp add: about_def)
  qed
  then show "triple (\<lambda>h. P h \<and> IsAbs (ar_Slot ref)) (perform (PutProgram r (ar_Slot ref))) (\<lambda>_. about r Q) (about r E)"
    by (intro triple_perform) (simp_all del: run_host_op.simps)
qed

lemma triple_plist_any:
  assumes entry: "re_RepoID entry = r" and pre: "\<And>h. P h \<Longrightarrow> about r (\<lambda>c f d. (\<forall>d'. Q c f d') \<and> E c f d) h"
  shows "triple P (WritePlist entry path) (\<lambda>_. about r Q) (about r E)"
proof -
  have "about r Q (run_host_op (PutProgram r path) (h\<lparr>ho_Fates := fs\<rparr>)) \<and> about r E (h\<lparr>ho_Fates := fs\<rparr>)" if "P h" for h fs
    using pre [OF that] by (simp add: about_def)
  then show ?thesis
    unfolding WritePlist_def entry using pre
    by (intro triple_bind [OF triple_require [where Q = "\<lambda>_. P"]] triple_perform) (auto simp del: run_host_op.simps simp: about_def)
qed

lemma triple_health:
  assumes entry: "re_RepoID entry = r"
  shows "triple (about r Q) (health env entry ref loaded) (\<lambda>_. about r (\<lambda>c f d. Q c f d \<and> d = Some (ar_ArtifactSHA256 ref))) (about r Q)"
proof -
  let ?Q = "\<lambda>c f d. Q c f d \<and> d = Some (ar_ArtifactSHA256 ref)"
  let ?rest = "bind_act (agent_status r) (\<lambda>st.
     bind_act (require (\<lambda>_. guard (loaded \<and> (\<not> as_Loaded st \<or> \<not> as_Running st)) [Lit ''assigned repository LaunchAgent is not running''])) (\<lambda>_.
     bind_act (assignmentProtocol env (ar_Slot ref) ref) (\<lambda>protocol.
       if \<not> loaded then stopped_health env r else doctor_health env entry ref protocol)))"
  have "keeps (about r ?Q) ?rest"
    unfolding agent_status_def by (intro keeps_rules delivery.keeps_protocol) (simp add: neutral_state)
  then have rest: "triple (about r ?Q) ?rest (\<lambda>_. about r ?Q) (about r Q)"
    unfolding keeps_def by (rule triple_conseq) (auto elim: about_mono)
  have matches: "about r ?Q h" if "about r Q h" "VerifySlot (ho_Slots h) (file_digest h) ref = None" "ho_Program h r = Inr program"
    "path_Clean program = path_Clean (ar_Slot ref)" for h program
    using that VerifySlot_digest [OF that(2)] by (simp add: about_def runtime_digest_def file_digest_def)
  show ?thesis
    unfolding health_def entry verify_slot_def agent_program_def
    by (rule triple_bind [OF triple_require [where Q = "\<lambda>_ h. about r Q h \<and> VerifySlot (ho_Slots h) (file_digest h) ref = None"]], simp, simp,
        rule triple_bind [OF triple_look_ok [where Q = "\<lambda>program h. about r Q h \<and> VerifySlot (ho_Slots h) (file_digest h) ref = None
          \<and> ho_Program h r = Inr program"]], simp, simp,
        rule triple_bind [OF triple_require [where Q = "\<lambda>_. about r ?Q"] rest])
      (auto intro: matches)
qed

text \<open>The configuration is \<open>cfg\<close>; the repository is fenced or runs what \<open>current\<close> assigns. \<open>exact\<close> drops the first alternative.\<close>

definition safe_as :: "DeliveryConfig \<Rightarrow> RepositoryAssignment \<Rightarrow> config_file \<Rightarrow> bool \<Rightarrow> string option \<Rightarrow> bool" where
  "safe_as cfg current c f d \<longleftrightarrow> c = CurrentConfig cfg \<and> (f \<or> d = Some (ar_ArtifactSHA256 (ra_Ref current)))"

definition exact_as :: "DeliveryConfig \<Rightarrow> RepositoryAssignment \<Rightarrow> config_file \<Rightarrow> bool \<Rightarrow> string option \<Rightarrow> bool" where
  "exact_as cfg current c f d \<longleftrightarrow> c = CurrentConfig cfg \<and> d = Some (ar_ArtifactSHA256 (ra_Ref current))"

definition fenced_as :: "DeliveryConfig \<Rightarrow> config_file \<Rightarrow> bool \<Rightarrow> string option \<Rightarrow> bool" where
  "fenced_as cfg c f d \<longleftrightarrow> c = CurrentConfig cfg \<and> f"

lemma safe_guarded: "mlookup (dc_Assignments cfg) r = Some current \<Longrightarrow> safe_as cfg current c f d \<Longrightarrow> guarded_as r c f d"
  by (auto simp: safe_as_def guarded_as_def)

lemma as_mono: "exact_as cfg current c f d \<Longrightarrow> safe_as cfg current c f d" "fenced_as cfg c f d \<Longrightarrow> safe_as cfg current c f d"
  by (simp_all add: exact_as_def safe_as_def fenced_as_def)

lemma restore_guards:
  assumes entry: "re_RepoID entry = r"
  shows "triple (about r (safe_as cfg current)) (restore_runtime env entry (ra_Ref current) loaded)
    (\<lambda>_. about r (exact_as cfg current)) (about r (safe_as cfg current))"
proof -
  let ?S = "about r (safe_as cfg current)" and ?X = "about r (exact_as cfg current)"
  let ?V = "\<lambda>h. ?S h \<and> VerifySlot (ho_Slots h) (file_digest h) (ra_Ref current) = None"
  have start: "keeps ?X (if loaded then Start env r else give ())" by (intro keeps_rules neutral_agent)
  have last: "triple ?X (bind_act (if loaded then Start env r else give ()) (\<lambda>_. health env entry (ra_Ref current) loaded)) (\<lambda>_. ?X) ?S"
    by (rule triple_bind [OF about_triple [OF start] about_conseq [OF triple_health [OF entry, of "exact_as cfg current"]]])
      (simp_all add: as_mono)
  have plist: "triple ?V (WritePlist entry (ar_Slot (ra_Ref current))) (\<lambda>_. ?X) ?S"
    by (rule triple_plist [OF entry]) (auto simp: about_def exact_as_def safe_as_def)
  have verify: "triple ?S (verify_slot (ra_Ref current)) (\<lambda>_. ?V) ?S"
    unfolding verify_slot_def by (rule triple_require) simp_all
  have stop: "triple ?S (ignore_error (Stop env r)) (\<lambda>_. ?S) ?S" "triple ?S (inspectAssignmentStop env r) (\<lambda>_. ?S) ?S"
    by (simp_all add: keeps_ignore neutral_agent neutral_state flip: keeps_def)
  show ?thesis
    unfolding restore_runtime_def entry
    by (rule triple_bind [OF stop(2) triple_bind [OF stop(1) triple_bind [OF verify triple_bind [OF plist last]]]])
qed

lemma clear_exact: "keeps (about r (exact_as cfg current)) (ClearMaintenance r)"
  unfolding keeps_def by (rule triple_clear) (simp add: about_def exact_as_def)

lemma rollback_guards:
  assumes entry: "re_RepoID entry = r" and current: "mlookup (dc_Assignments cfg) r = Some current"
  shows "triple (about r (safe_as cfg current)) (rollbackSwitch env entry current tx cause) (\<lambda>_. about r (guarded_as r)) (about r (guarded_as r))"
proof -
  note g = safe_guarded [OF current]
  have save: "keeps (about r Q) (ignore_error (SaveAssignmentTransaction r tx'))" "keeps (about r Q) (ignore_error (wake r msg))"
    "keeps (about r Q) (reportWithTransaction entry current tx' e)" for Q tx' msg e
    by (intro keeps_rules neutral_files)+
  have failed: "keeps (about r (safe_as cfg current)) (bind_act (ignore_error (SaveAssignmentTransaction r tx')) (\<lambda>_. reportWithTransaction entry current tx' e))" for tx' e
    by (intro keeps_rules save)
  have finished: "keeps (about r (exact_as cfg current)) (bind_act (ignore_error (ClearMaintenance r)) (\<lambda>_. bind_act (ignore_error (wake r msg)) (\<lambda>_.
      bind_act (ignore_error (SaveAssignmentTransaction r tx')) (\<lambda>_. reportWithTransaction entry current tx' e))))" for msg tx' e
    by (intro keeps_bind save keeps_ignore clear_exact)
  have saved: "triple (about r (safe_as cfg current)) (ignore_error (SaveAssignmentTransaction r tx')) (\<lambda>_. about r (safe_as cfg current)) (about r (guarded_as r))" for tx'
    by (rule about_triple [OF save(1)]) (simp add: g)
  have rest: "(\<And>e. keeps (about r (safe_as cfg current)) (failing e)) \<Longrightarrow> keeps (about r (exact_as cfg current)) fin \<Longrightarrow>
      triple (about r (safe_as cfg current)) (otherwise (restore_runtime env entry (ra_Ref current) loaded) failing (\<lambda>_. fin))
        (\<lambda>_. about r (guarded_as r)) (about r (guarded_as r))" for failing :: "go_error \<Rightarrow> outcome act" and fin loaded
    by (rule triple_otherwise [OF restore_guards [OF entry] _ about_triple about_triple]) (auto simp: about_def g as_mono)
  show ?thesis
    unfolding rollbackSwitch_def Let_def entry
    by (rule triple_bind [OF saved rest [OF failed finished]])
qed

text \<open>\<open>loaded\<close> records that the runtime was compared with the assignment.\<close>

definition checked_as :: "bool \<Rightarrow> DeliveryConfig \<Rightarrow> RepositoryAssignment \<Rightarrow> config_file \<Rightarrow> bool \<Rightarrow> string option \<Rightarrow> bool" where
  "checked_as loaded cfg current c f d \<longleftrightarrow> safe_as cfg current c f d \<and> (loaded \<longrightarrow> d = Some (ar_ArtifactSHA256 (ra_Ref current)))"

definition drained_as :: "bool \<Rightarrow> DeliveryConfig \<Rightarrow> RepositoryAssignment \<Rightarrow> config_file \<Rightarrow> bool \<Rightarrow> string option \<Rightarrow> bool" where
  "drained_as loaded cfg current c f d \<longleftrightarrow> fenced_as cfg c f d \<and> (loaded \<longrightarrow> d = Some (ar_ArtifactSHA256 (ra_Ref current)))"

lemma legacy_checks:
  "triple (about r (safe_as cfg current)) (legacy_runtime env r (ra_Ref current) st)
     (\<lambda>_. about r (checked_as (as_Loaded st) cfg current)) (about r (safe_as cfg current))"
proof (cases "as_Loaded st")
  case True
  let ?S = "about r (safe_as cfg current)" and ?C = "about r (checked_as True cfg current)"
  have protocol: "keeps ?C (bind_act (assignmentProtocol env program (ra_Ref current)) (\<lambda>protocol. give (protocol = 0)))" for program
    by (intro keeps_rules delivery.keeps_protocol)
  have matches: "?C h" if "?S h" "ho_Program h r = Inr program" "file_digest h program = Inr (ar_ArtifactSHA256 (ra_Ref current))" for h program
    using that by (simp add: about_def checked_as_def runtime_digest_def)
  have "triple ?S (bind_act (runtimeAssignmentProtocol env r (ra_Ref current)) (\<lambda>protocol. give (protocol = 0))) (\<lambda>_. ?C) ?S"
  proof (rule tripleI)
    fix h assume S: "?S h"
    show "case bind_act (runtimeAssignmentProtocol env r (ra_Ref current)) (\<lambda>protocol. give (protocol = 0)) h of
        (Inr x, h') \<Rightarrow> ?C h' | (Inl s, h') \<Rightarrow> ?S h'"
    proof (cases "\<exists>program. ho_Program h r = Inr program \<and> file_digest h program = Inr (ar_ArtifactSHA256 (ra_Ref current))")
      case True
      then obtain program where p: "ho_Program h r = Inr program" "file_digest h program = Inr (ar_ArtifactSHA256 (ra_Ref current))" by blast
      have "bind_act (runtimeAssignmentProtocol env r (ra_Ref current)) (\<lambda>protocol. give (protocol = 0)) h
          = bind_act (assignmentProtocol env program (ra_Ref current)) (\<lambda>protocol. give (protocol = 0)) h"
        by (simp add: runtimeAssignmentProtocol_def agent_program_def bind_act_def look_ok_def p)
      moreover have "?C (snd (bind_act (assignmentProtocol env program (ra_Ref current)) (\<lambda>protocol. give (protocol = 0)) h))"
        by (rule keepsD [OF protocol matches [OF S p]])
      ultimately show ?thesis by (auto simp: about_def checked_as_def split: prod.splits sum.splits)
    next
      case False
      then have "\<exists>e. runtimeAssignmentProtocol env r (ra_Ref current) h = (Inl (Failed e), h)"
        by (auto simp: runtimeAssignmentProtocol_def agent_program_def bind_act_def look_ok_def fail_with_def split: sum.splits prod.splits)
      then show ?thesis using S by (auto simp: bind_act_def)
    qed
  qed
  then show ?thesis using True by (simp add: legacy_runtime_def)
next
  case False
  then show ?thesis by (auto simp: legacy_runtime_def about_def checked_as_def intro!: triple_give)
qed

lemma raise_guards:
  "triple (about r (checked_as loaded cfg current)) (raise_fence env r tx) (\<lambda>_. about r (drained_as loaded cfg current)) (about r (safe_as cfg current))"
proof -
  let ?D = "about r (drained_as loaded cfg current)"
  have fence: "triple (about r (checked_as loaded cfg current)) (WriteMaintenance r g v) (\<lambda>_. ?D) (about r (safe_as cfg current))" for g v
    by (rule triple_fence) (auto simp: about_def checked_as_def drained_as_def fenced_as_def safe_as_def)
  have "keeps ?D (bind_act (wake r msg) (\<lambda>_. bind_act (SaveAssignmentTransaction r tx') (\<lambda>_. give tx')))" for msg tx'
    by (intro keeps_rules neutral_files)
  then have "triple ?D (bind_act (wake r msg) (\<lambda>_. bind_act (SaveAssignmentTransaction r tx') (\<lambda>_. give tx'))) (\<lambda>_. ?D) (about r (safe_as cfg current))" for msg tx'
    by (rule about_triple) (auto simp: drained_as_def fenced_as_def safe_as_def)
  then show ?thesis unfolding raise_fence_def Let_def by (rule triple_bind [OF fence])
qed

lemma drain_guards:
  assumes entry: "re_RepoID entry = r" and current: "mlookup (dc_Assignments cfg) r = Some current"
  shows "triple (about r (drained_as True cfg current)) (drain_repository env cfg entry current tx legacy)
    (\<lambda>d. about r (\<lambda>c f x. if d = Drained then drained_as True cfg current c f x else guarded_as r c f x)) (about r (guarded_as r))"
proof -
  let ?D = "about r (drained_as True cfg current)" and ?S = "about r (safe_as cfg current)" and ?X = "about r (exact_as cfg current)"
  let ?G = "about r (guarded_as r)"
  let ?Q = "\<lambda>d. about r (\<lambda>c f x. if d = Drained then drained_as True cfg current c f x else guarded_as r c f x)"
  note g = safe_guarded [OF current]
  have DX: "drained_as True cfg current c f d \<Longrightarrow> exact_as cfg current c f d \<and> safe_as cfg current c f d" for c f d
    by (auto simp: drained_as_def fenced_as_def exact_as_def safe_as_def)
  have wait: "keeps ?D (if legacy then waitForLegacyIdleAndStop env cfg r else waitForDrain env cfg r)"
    unfolding waitForDrain_def waitForLegacyIdleAndStop_def legacy_poll_def
    by (intro keeps_rules keeps_wait_until delivery.keeps_pause neutral_state neutral_agent)
  have XG: "exact_as cfg current c f d \<Longrightarrow> guarded_as r c f d" for c f d
    by (rule g) (rule as_mono)
  have saved: "triple ?D (ignore_error (SaveAssignmentTransaction r tx')) (\<lambda>_. ?X) ?G" for tx'
    by (rule about_triple [OF keeps_ignore [OF neutral_files(1)]]) (simp add: DX g)
  have cleared: "triple ?X (ignore_error (ClearMaintenance r)) (\<lambda>_. ?X) ?G"
    by (rule about_triple [OF keeps_ignore [OF clear_exact]]) (simp add: XG)
  have reported: "triple ?X (reportWithTransaction entry current tx' e) (\<lambda>_. ?X) ?G" for tx' e
    by (rule about_triple [OF keeps_report(2)]) (simp add: XG)
  have deferred: "triple ?D (bind_act (ignore_error (SaveAssignmentTransaction r tx')) (\<lambda>_. bind_act (ignore_error (ClearMaintenance r)) (\<lambda>_.
      bind_act (reportWithTransaction entry current tx' e) (\<lambda>out. give (Deferred out))))) ?Q ?G" for tx' e
    by (rule triple_bind [OF saved triple_bind [OF cleared triple_bind [OF reported triple_give]]]) (auto simp: about_def XG)
  have stop: "triple ?D (Stop env r) (\<lambda>_. ?D) ?S"
    by (rule about_triple [OF neutral_agent(2)]) (simp add: DX)
  have reverted: "triple ?S (bind_act (rollbackSwitch env entry current tx e) (\<lambda>out. give (Reverted out))) ?Q ?G" for e
    by (rule triple_bind [OF rollback_guards [OF entry current]]) (rule triple_give, simp)
  have drained: "triple ?D (give Drained) ?Q ?G" by (rule triple_give) simp
  have SG: "?S h \<Longrightarrow> ?G h" and DG: "?D h \<Longrightarrow> ?G h" for h
    using g DX by (auto simp: about_def)
  have stopping: "triple ?D (if legacy then give Drained else otherwise (Stop env r)
      (\<lambda>e. bind_act (rollbackSwitch env entry current tx e) (\<lambda>out. give (Reverted out))) (\<lambda>_. give Drained)) ?Q ?G"
    by (rule triple_if, rule drained, rule triple_otherwise [OF stop SG reverted drained])
  show ?thesis
    unfolding drain_repository_def Let_def entry
    by (rule triple_otherwise [OF wait [unfolded keeps_def] DG deferred stopping])
qed

lemma or_roll_back_guards:
  assumes "re_RepoID entry = r" and "mlookup (dc_Assignments cfg) r = Some current"
    and "triple P m (\<lambda>_. R) (about r (safe_as cfg current))"
    and "\<And>x. triple R (f x) (\<lambda>_. about r (guarded_as r)) (about r (guarded_as r))"
  shows "triple P (or_roll_back env entry current tx m f) (\<lambda>_. about r (guarded_as r)) (about r (guarded_as r))"
  unfolding or_roll_back_def
  by (rule triple_otherwise [OF assms(3) _ rollback_guards [OF assms(1,2)] assms(4)])
    (erule about_mono, erule safe_guarded [OF assms(2)])

lemma mlookup_not_nil: "mlookup m k = Some x \<Longrightarrow> m \<noteq> NilMap"
  by (auto simp: mlookup_def)

lemma tripleD: "triple P m (\<lambda>_. Q) Q \<Longrightarrow> P h \<Longrightarrow> Q (snd (m h))"
  by (cases "m h"; cases "fst (m h)") (auto simp: triple_def)

lemma keeps_triple: "keeps I m \<Longrightarrow> (\<And>h. I h \<Longrightarrow> G h) \<Longrightarrow> triple I m (\<lambda>_. G) G"
  unfolding keeps_def by (rule triple_conseq)

text \<open>The runtime of a fenced repository runs what the transaction wants.\<close>

definition moved_as :: "AssignmentTransaction \<Rightarrow> DeliveryConfig \<Rightarrow> config_file \<Rightarrow> bool \<Rightarrow> string option \<Rightarrow> bool" where
  "moved_as tx cfg c f d \<longleftrightarrow> fenced_as cfg c f d \<and> d = Some (ar_ArtifactSHA256 (at_Desired tx))"

lemma commit_guards:
  assumes entry: "re_RepoID entry = r" and current: "mlookup (dc_Assignments cfg) r = Some current"
  shows "triple (about r (moved_as tx cfg)) (commit_switch env cfg entry current tx rollback) (\<lambda>_. about r (guarded_as r)) (about r (guarded_as r))"
proof -
  let ?M = "about r (moved_as tx cfg)" and ?G = "about r (guarded_as r)" and ?S = "about r (safe_as cfg current)"
  let ?new = "\<lambda>now. with_assignment r (next_assignment current tx now) cfg"
  let ?N = "\<lambda>now. about r (\<lambda>c f d. c = CurrentConfig (?new now) \<and> d = Some (ar_ArtifactSHA256 (at_Desired tx)))"
  have MS: "moved_as tx cfg c f d \<Longrightarrow> safe_as cfg current c f d" for c f d by (simp add: moved_as_def fenced_as_def safe_as_def)
  have found: "mlookup (dc_Assignments (?new now)) r = Some (next_assignment current tx now)" for now
    using current by (auto simp: with_assignment_def mlookup_mstore dest: mlookup_not_nil)
  have new: "ra_Ref (next_assignment current tx now) = at_Desired tx" for now by (simp add: next_assignment_def)
  have NG: "?N now h \<Longrightarrow> ?G h" for now h by (simp add: about_def guarded_as_def found new)
  have written: "triple ?M (WriteConfig (?new now)) (\<lambda>_. ?N now) ?S" for now
    unfolding WriteConfig_def
    by (rule triple_bind [OF triple_require [where Q = "\<lambda>_. ?M"] triple_bind [OF triple_require [where Q = "\<lambda>_. ?M"] triple_perform]])
      (auto simp: about_def MS moved_as_def)
  have cleared: "keeps (?N now) (ClearMaintenance r)" for now
    unfolding keeps_def by (rule triple_clear) (simp add: about_def)
  have rest: "triple (?N now) (bind_act (ClearMaintenance r) (\<lambda>_. bind_act (wake r msg) (\<lambda>_. bind_act (SaveAssignmentTransaction r tx') (\<lambda>_.
      report_as entry a res)))) (\<lambda>_. ?G) ?G" for now msg tx' a res
    by (rule keeps_triple [OF _ NG]) (intro keeps_bind cleared neutral_files keeps_report)
  show ?thesis
    unfolding commit_switch_def Let_def entry
    by (rule triple_bind [OF triple_look [where Q = "\<lambda>_. ?M"] or_roll_back_guards [OF entry current written rest]])
qed

lemma neutral_controller: "keeps (about r Q) (ensureDeliveryController env cfg desired)"
  unfolding ensureDeliveryController_def StartDelivery_def StopDelivery_def WriteDeliveryPlist_def verify_slot_def Let_def
  by (intro keeps_rules delivery.keeps_perform [where r = r]) simp_all

lemma apply_guards:
  assumes entry: "re_RepoID entry = r" and current: "mlookup (dc_Assignments cfg) r = Some current"
  shows "triple (about r (fenced_as cfg)) (apply_switch env cfg entry current tx rollback) (\<lambda>_. about r (guarded_as r)) (about r (guarded_as r))"
proof -
  let ?F = "about r (fenced_as cfg)" and ?G = "about r (guarded_as r)" and ?S = "about r (safe_as cfg current)"
  note or_roll = or_roll_back_guards [OF entry current]
  have FS: "fenced_as cfg c f d \<Longrightarrow> safe_as cfg current c f d" for c f d by (rule as_mono)
  have FG: "fenced_as cfg c f d \<Longrightarrow> guarded_as r c f d" for c f d by (rule safe_guarded [OF current FS])
  have F: "keeps ?F m \<Longrightarrow> triple ?F m (\<lambda>_. ?F) ?S" for m :: "unit act" by (rule about_triple) (simp_all add: FS)
  have save: "triple ?F (SaveAssignmentTransaction r tx') (\<lambda>_. ?F) ?G" for tx'
    by (rule about_triple [OF neutral_files(1)]) (simp add: FG)
  have first: "keeps ?F (if rollback then give () else wrapped ps (ensureDeliveryController env cfg (at_Desired tx)))" for ps
    by (intro keeps_rules neutral_controller)
  have plist: "triple ?F (WritePlist entry path) (\<lambda>_. ?F) ?S" for path
    by (rule triple_plist_any [OF entry]) (simp add: about_def fenced_as_def safe_as_def)
  have start: "keeps ?F (if loaded then Start env r else give ())" for loaded
    by (intro keeps_rules neutral_agent)
  have healthy: "triple ?F (health env entry (at_Desired tx) loaded) (\<lambda>_. about r (moved_as tx cfg)) ?S" for loaded
    by (rule about_conseq [OF triple_health [OF entry, of "fenced_as cfg"]]) (simp_all add: moved_as_def FS)
  have committed: "triple (about r (moved_as tx cfg)) (commit_switch env cfg entry current tx' rollback) (\<lambda>_. ?G) ?G"
    if "at_Desired tx' = at_Desired tx" for tx'
    by (rule triple_pre [OF commit_guards [OF entry current]]) (auto simp: about_def moved_as_def that)
  show ?thesis
    unfolding apply_switch_def Let_def entry AssignmentTransaction.simps
    by (rule or_roll [OF F [OF first] triple_bind [OF save or_roll [OF plist or_roll [OF F [OF start]
          triple_bind [OF save or_roll [OF healthy committed]]]]]]) simp
qed

lemma neutral_retry: "keeps (about r Q) (prepare_retained env r tx st)"
  unfolding prepare_retained_def stop_retained_def agent_status_def Let_def
  by (intro keeps_rules neutral_state neutral_agent neutral_files)

lemma run_guards:
  assumes entry: "re_RepoID entry = r" and current: "mlookup (dc_Assignments cfg) r = Some current"
  shows "triple (about r (safe_as cfg current)) (run_switch env cfg entry current tx desired rollback active)
    (\<lambda>_. about r (guarded_as r)) (about r (guarded_as r))"
proof -
  let ?S = "about r (safe_as cfg current)" and ?G = "about r (guarded_as r)"
  let ?C = "\<lambda>loaded. about r (checked_as loaded cfg current)" and ?D = "\<lambda>loaded. about r (drained_as loaded cfg current)"
  note g = safe_guarded [OF current]
  have SG: "?S h \<Longrightarrow> ?G h" for h by (auto simp: about_def g)
  have CG: "checked_as loaded cfg current c f d \<Longrightarrow> guarded_as r c f d" for loaded c f d by (simp add: checked_as_def g)
  have DF: "drained_as loaded cfg current c f d \<Longrightarrow> fenced_as cfg c f d" for loaded c f d by (simp add: drained_as_def)
  have FG: "fenced_as cfg c f d \<Longrightarrow> guarded_as r c f d" for c f d by (rule g) (rule as_mono)
  have status: "triple ?S (agent_status r) (\<lambda>_. ?S) ?G"
    unfolding agent_status_def by (rule triple_look_ok) (simp_all add: SG)
  have retry: "triple ?S (if b then prepare_retained env r tx st else give (tx, st)) (\<lambda>_. ?S) ?G" for b st
    by (rule about_triple [OF keeps_if [OF neutral_retry keeps_give]]) (simp add: g)
  have checked: "triple ?S (legacy_runtime env r (ra_Ref current) st) (\<lambda>_. ?C (as_Loaded st)) ?G" for st
    by (rule triple_conseq [OF legacy_checks]) (assumption | erule SG)+
  have start: "triple (?C loaded) (if active then give tx' else bind_act (look ho_Now) (\<lambda>now.
      bind_act (SaveAssignmentTransaction r (new_tx now)) (\<lambda>_. give (new_tx now)))) (\<lambda>_. ?C loaded) ?G" for tx' loaded new_tx
    by (rule about_triple, intro keeps_rules neutral_files) (simp add: CG)
  have raise: "triple (?C loaded) (raise_fence env r tx') (\<lambda>_. ?D loaded) ?G" for tx' loaded
    by (rule triple_conseq [OF raise_guards]) (assumption | erule SG)+
  have drain: "triple (?D loaded) (if loaded then drain_repository env cfg entry current tx' legacy else give Drained)
      (\<lambda>d. about r (\<lambda>c f x. if d = Drained then fenced_as cfg c f x else guarded_as r c f x)) ?G" for loaded tx' legacy
    by (cases loaded) (auto intro!: triple_give triple_conseq [OF drain_guards [OF entry current]] simp: about_def DF split: if_splits)
  have last: "triple (about r (\<lambda>c f x. if d = Drained then fenced_as cfg c f x else guarded_as r c f x))
      (case d of Drained \<Rightarrow> apply_switch env cfg entry current tx' rollback | Deferred out \<Rightarrow> give out | Reverted out \<Rightarrow> give out) (\<lambda>_. ?G) ?G" for d tx'
    by (cases d) (simp_all add: apply_guards [OF entry current] triple_give)
  have pairs: "triple P (case x of (a, b) \<Rightarrow> f a b) Q E" if "triple P (f (fst x) (snd x)) Q E"
    for P Q E and f :: "AssignmentTransaction \<Rightarrow> AgentStatus \<Rightarrow> outcome act" and x
    using that by (simp add: case_prod_unfold)
  show ?thesis
    unfolding run_switch_def Let_def entry
    by (rule triple_bind [OF status triple_bind [OF retry pairs [OF triple_bind [OF checked triple_bind [OF start triple_bind [OF raise
          triple_bind [OF drain last]]]]]]])
qed

lemma from_guards:
  assumes entry: "re_RepoID entry = r" and current: "mlookup (dc_Assignments cfg) r = Some current"
  shows "triple (about r (safe_as cfg current)) (switch_from env desired expected rollback retryRetained cfg entry current tx)
    (\<lambda>_. about r (guarded_as r)) (about r (guarded_as r))"
proof -
  let ?S = "about r (safe_as cfg current)" and ?X = "about r (exact_as cfg current)" and ?G = "about r (guarded_as r)"
  note g = safe_guarded [OF current]
  have SG: "?S h \<Longrightarrow> ?G h" and XG: "?X h \<Longrightarrow> ?G h" for h by (auto simp: about_def intro: g as_mono)
  have required: "triple ?S (require f) (\<lambda>_. ?S) ?G" for f by (rule triple_require) (simp_all add: SG)
  have verified: "triple ?S (verify_slot ref) (\<lambda>_. ?S) ?G" for ref unfolding verify_slot_def by (rule required)
  have healthy: "triple ?S (health env entry (ra_Ref current) loaded) (\<lambda>_. ?X) ?G" for loaded
    by (rule triple_conseq [OF triple_health [OF entry, of "safe_as cfg current"]]) (auto simp: about_def exact_as_def safe_as_def SG g)
  have finish: "triple ?S (finish_committed env entry current tx) (\<lambda>_. ?G) ?G"
  proof -
    have rest: "triple ?X (bind_act (ClearMaintenance r) (\<lambda>_. bind_act (ignore_error (wake r msg)) (\<lambda>_.
        bind_act (SaveAssignmentTransaction r tx') (\<lambda>_. report_as entry current res)))) (\<lambda>_. ?G) ?G" for msg tx' res
      by (rule keeps_triple [OF _ XG]) (intro keeps_bind clear_exact keeps_ignore neutral_files keeps_report)
    show ?thesis unfolding finish_committed_def entry by (rule triple_bind [OF healthy rest])
  qed
  have reported: "triple ?S (report_as entry current res) (\<lambda>_. ?G) ?G" for res
    using keeps_report(1) [of ?S] unfolding keeps_def by (rule triple_conseq) (simp_all add: SG)
  show ?thesis
    unfolding switch_from_def Let_def entry
    by (rule triple_bind [OF required triple_bind [OF required triple_if [OF triple_if [OF finish reported]
          triple_bind [OF verified triple_bind [OF required triple_if
            [OF triple_bind [OF required rollback_guards [OF entry current]] run_guards [OF entry current]]]]]]])
qed

lemma switchTo_guards:
  assumes "guarded h r" and "\<And>e. target env p h = Some e \<Longrightarrow> re_RepoID e = r"
  shows "guarded (snd (switchTo env p desired expected rollback retryRetained h)) r"
proof -
  have "guarded (snd (switch_from env desired expected rollback retryRetained cfg entry current tx h)) r"
    if "switch_context env p h = (Inr (cfg, entry, current, tx), h1)" for cfg entry current tx h1
  proof -
    have c: "LoadConfig (ho_Config h) = Inr cfg" "re_RepoID entry = r" "mlookup (dc_Assignments cfg) r = Some current"
      using that assms(2) by (auto simp: switch_context_Inr)
    then have "about r (safe_as cfg current) h"
      using assms(1) by (auto simp: guarded_about about_def guarded_as_def safe_as_def LoadConfig_Inr)
    from tripleD [OF from_guards [OF c(2,3)] this] show ?thesis unfolding guarded_about .
  qed
  then show ?thesis
    using reads_context [of env p h] assms(1)
    by (cases "switch_context env p h"; cases "fst (switch_context env p h)") (auto simp: switchTo_def bind_act_def)
qed

lemma retry_rollback_guards:
  assumes entry: "re_RepoID entry = r" and current: "mlookup (dc_Assignments cfg) r = Some current"
  shows "triple (about r (safe_as cfg current))
    (bind_act (if at_WasLoaded tx then bind_act (inspectAssignmentStop env r) (\<lambda>_. Stop env r) else give ()) (\<lambda>_.
     bind_act (wrapped [Lit ''verify rollback assignment slot: ''] (verify_slot (ra_Ref current))) (\<lambda>_.
     bind_act (WritePlist entry (ar_Slot (ra_Ref current))) (\<lambda>_.
     bind_act (if at_WasLoaded tx then Start env r else give ()) (\<lambda>_.
       finish_rollback env entry current tx)))))
    (\<lambda>_. about r (guarded_as r)) (about r (guarded_as r))"
proof -
  let ?S = "about r (safe_as cfg current)" and ?X = "about r (exact_as cfg current)" and ?G = "about r (guarded_as r)"
  let ?V = "\<lambda>h. ?S h \<and> VerifySlot (ho_Slots h) (file_digest h) (ra_Ref current) = None"
  note g = safe_guarded [OF current]
  have SG: "?S h \<Longrightarrow> ?G h" and XG: "?X h \<Longrightarrow> ?G h" for h by (auto simp: about_def intro: g as_mono)
  have stopped: "triple ?S (if at_WasLoaded tx then bind_act (inspectAssignmentStop env r) (\<lambda>_. Stop env r) else give ()) (\<lambda>_. ?S) ?G"
    by (rule about_triple, intro keeps_rules neutral_state neutral_agent) (simp add: g)
  have verified: "triple ?S (wrapped ps (verify_slot (ra_Ref current))) (\<lambda>_. ?V) ?G" for ps
    unfolding verify_slot_def by (rule triple_wrapped, rule triple_require) (simp_all add: SG)
  have plist: "triple ?V (WritePlist entry (ar_Slot (ra_Ref current))) (\<lambda>_. ?X) ?G"
    by (rule triple_plist [OF entry]) (auto simp: about_def exact_as_def safe_as_def g)
  have started: "triple ?X (if at_WasLoaded tx then Start env r else give ()) (\<lambda>_. ?X) ?G"
    by (rule about_triple, intro keeps_rules neutral_agent) (simp add: g as_mono)
  have "keeps ?X (finish_rollback env entry current tx)"
    unfolding finish_rollback_def Let_def entry
    by (intro keeps_otherwise keeps_bind keeps_ignore clear_exact neutral_files keeps_report delivery.keeps_health [OF _ entry]) simp
  then have finish: "triple ?X (finish_rollback env entry current tx) (\<lambda>_. ?G) ?G" by (rule keeps_triple [OF _ XG])
  show ?thesis
    by (rule triple_bind [OF stopped triple_bind [OF verified triple_bind [OF plist triple_bind [OF started finish]]]])
qed

lemma RetryRollback_guards:
  assumes i: "guarded h r" and t: "\<And>e. target env p h = Some e \<Longrightarrow> re_RepoID e = r"
  shows "guarded (snd (RetryRollback env p h)) r"
  unfolding RetryRollback_def Let_def
proof (rule bind_reads [where I = "\<lambda>h. guarded h r", OF keeps_require i], rule bind_reads [where I = "\<lambda>h. guarded h r", OF reads_set i], goal_cases)
  case (1 u x)
  obtain cfg repos where x: "x = (cfg, repos)" by (cases x)
  with 1 have cfg: "LoadConfig (ho_Config h) = Inr cfg" by (simp add: act_simps)
  show ?case unfolding x prod.case
  proof (rule bind_reads [where I = "\<lambda>h. guarded h r", OF reads_Resolve i], goal_cases)
    case (1 entry)
    then have entry: "re_RepoID entry = r" using t by (simp add: act_simps)
    show ?case unfolding entry
    proof (rule bind_reads [where I = "\<lambda>h. guarded h r", OF reads_assignment i], rule bind_reads [where I = "\<lambda>h. guarded h r", OF _ i], intro keeps_rules,
        rule bind_reads [where I = "\<lambda>h. guarded h r", OF keeps_require i], goal_cases)
      case (1 current tx v)
      then have current: "mlookup (dc_Assignments cfg) r = Some current" by (simp add: act_simps)
      then have "about r (safe_as cfg current) h"
        using i cfg by (auto simp: guarded_about about_def guarded_as_def safe_as_def LoadConfig_Inr)
      from tripleD [OF retry_rollback_guards [OF entry current] this] show ?case unfolding guarded_about .
    qed
  qed
qed

lemma slot_clean: "IsAbs slots \<Longrightarrow> path_Clean (ar_Slot (SlotRef slots v c d)) = ar_Slot (SlotRef slots v c d)"
  by (simp add: SlotRef_def path_Join_def path_Clean_idem IsAbs_append path_Clean_abs)

interpretation guarded_command: command_invariant env p T "\<lambda>h. guarded h (repo_of s T)" for env p T s
proof unfold_locales
  fix h fs
  show "guarded h (repo_of s T) \<Longrightarrow> guarded (h\<lparr>ho_Fates := fs\<rparr>) (repo_of s T)" by (simp add: guarded_about about_def)
qed (auto simp: repo_of_def intro: switchTo_guards RetryRollback_guards)



end
