(* ===== verification/AssignmentOutcomes.thy ===== *)
theory AssignmentOutcomes
  imports AssignmentFacts
begin

text \<open>
  How the commands of the assignment controller end: the waiting loops end, a transaction is always about the assignment that is
  there, assignments only advance, a switch that reports success is complete, and two interruptions that no command recovers from.
\<close>

section \<open>Waiting ends\<close>

interpretation clock: host_assertion env r "\<lambda>h. ho_Now h = t" "\<lambda>_. True" for env r t
proof unfold_locales
  show "ho_Now h = t \<Longrightarrow> ho_Now (run_host_op op h) = t" for h op by (cases op) simp_all
qed simp

lemma poll_clock: "keeps (\<lambda>h. ho_Now h = t) (drain_poll env r)" "keeps (\<lambda>h. ho_Now h = t) (legacy_poll env r)"
proof -
  show "keeps (\<lambda>h. ho_Now h = t) (drain_poll env r)" by (rule clock.keeps_state_operations) simp
  show "keeps (\<lambda>h. ho_Now h = t) (legacy_poll env r)"
    unfolding legacy_poll_def by (intro keeps_rules clock.keeps_load_state clock.keeps_agent) simp_all
qed

lemma wait_rounds_more: "wait_rounds n poll env d h = Some x \<Longrightarrow> wait_rounds (n + k) poll env d h = Some x"
  by (induction n arbitrary: h) (auto split: sum.splits bool.splits prod.splits)

lemma wait_round_clock:
  assumes clock: "\<And>t. keeps (\<lambda>h. ho_Now h = t) poll" and round: "wait_round poll env d h = (Inr False, h')"
  shows "ho_Now h < d \<and> ho_Now h' = ho_Now h + second"
proof -
  obtain ready h1 where poll: "poll h = (Inr ready, h1)" and rest: "(if ready then give True else bind_act (look ho_Now) (\<lambda>now.
       if \<not> now < d then fail_with (Errorf [Lit ''repository drain deadline reached without signaling or killing workers''])
       else bind_act (pause env second) (\<lambda>_. give False))) h1 = (Inr False, h')"
    using round unfolding wait_round_def bind_Inr by blast
  have now: "ho_Now h1 = ho_Now h" using keepsD [OF clock [of "ho_Now h"], of h] poll by simp
  have "\<not> ready" using rest by (auto simp: act_simps)
  then obtain u where d: "ho_Now h1 < d" and p: "pause env second h1 = (Inr u, h')"
    using rest by (auto simp: act_simps split: if_splits)
  have "ho_Now h' = ho_Now h1 + second" using p by (auto simp: pause_def Let_def split: option.splits)
  with now d show ?thesis by simp
qed

lemma rounds_enough:
  assumes clock: "\<And>t. keeps (\<lambda>h. ho_Now h = t) poll"
  shows "nat ((d - ho_Now h) div second + 1) < n \<Longrightarrow> wait_rounds n poll env d h \<noteq> None"
proof (induction n arbitrary: h)
  case (Suc n)
  obtain x h' where round: "wait_round poll env d h = (x, h')" by fastforce
  show ?case
  proof (cases "x = Inr False")
    case True
    then have step: "ho_Now h < d" "ho_Now h' = ho_Now h + second" using wait_round_clock [OF clock] round by blast+
    have "(d - ho_Now h') div second = (d - ho_Now h) div second - 1"
      using step(2) by (simp add: second_def algebra_simps)
    moreover have "0 \<le> (d - ho_Now h) div second" using step(1) by (simp add: second_def pos_imp_zdiv_nonneg_iff)
    ultimately have "nat ((d - ho_Now h') div second + 1) < n" using Suc.prems by simp
    from Suc.IH [OF this] show ?thesis using round True by simp
  next
    case False
    then show ?thesis using round by (cases x) (auto split: bool.splits)
  qed
qed simp

text \<open>C39: The loops that wait for a repository to drain end by themselves: the rounds until the deadline are enough, and with more of them the
  outcome is the same.\<close>

theorem waiting_ends:
  "(\<exists>x. \<forall>k. wait_rounds (rounds_until deadline (ho_Now h) + k) (drain_poll env r) env deadline h = Some x)
   \<and> (\<exists>x. \<forall>k. wait_rounds (rounds_until deadline (ho_Now h) + k) (legacy_poll env r) env deadline h = Some x)"
proof -
  have "\<exists>x. \<forall>k. wait_rounds (rounds_until deadline (ho_Now h) + k) poll env deadline h = Some x"
    if "\<And>t. keeps (\<lambda>h. ho_Now h = t) poll" for poll
    using rounds_enough [OF that, of deadline h "rounds_until deadline (ho_Now h)" env] wait_rounds_more
    by (fastforce simp: rounds_until_def)
  then show ?thesis using poll_clock by blast
qed

section \<open>Assignments advance\<close>

definition started_from :: "RepositoryAssignment \<Rightarrow> AssignmentTransaction \<Rightarrow> bool" where
  "started_from a tx \<longleftrightarrow> at_ExpectedGeneration tx = ra_Generation a \<and> at_Current tx = ra_Ref a"

definition completed_by :: "RepositoryAssignment \<Rightarrow> AssignmentTransaction \<Rightarrow> bool" where
  "completed_by a tx \<longleftrightarrow> ra_Generation a = at_TargetGeneration tx \<and> ra_Ref a = at_Desired tx"

text \<open>An unfinished transaction starts from the assignment that is there, or has already been committed to it.\<close>

definition accounted :: "Host \<Rightarrow> string \<Rightarrow> bool" where
  "accounted h r \<longleftrightarrow> (\<forall>tx a. ho_Tx h r = Holds tx \<and> unfinished tx \<and> assigned h r = Some a \<longrightarrow> started_from a tx \<or> completed_by a tx)"

definition follows :: "RepositoryAssignment option \<Rightarrow> RepositoryAssignment option \<Rightarrow> bool" where
  "follows a b \<longleftrightarrow> b = a \<or> (\<exists>x y. a = Some x \<and> b = Some y \<and> ra_Generation x < ra_Generation y \<and> ra_Previous y \<noteq> None)"

lemma follows_trans: "follows a b \<Longrightarrow> follows b c \<Longrightarrow> follows a c"
  by (auto simp: follows_def)

definition same_move :: "AssignmentTransaction \<Rightarrow> AssignmentTransaction \<Rightarrow> bool" where
  "same_move tx t \<longleftrightarrow> at_ExpectedGeneration t = at_ExpectedGeneration tx \<and> at_TargetGeneration t = at_TargetGeneration tx
     \<and> at_Current t = at_Current tx \<and> at_Desired t = at_Desired tx"

text \<open>The configuration is the valid \<open>cfg\<close>, and an unfinished transaction on the disk makes the move of \<open>tx\<close>.\<close>

definition ledger :: "string \<Rightarrow> DeliveryConfig \<Rightarrow> AssignmentTransaction \<Rightarrow> Host \<Rightarrow> bool" where
  "ledger r cfg tx h \<longleftrightarrow> ho_Config h = CurrentConfig cfg \<and> Config_Validate cfg = None
     \<and> (\<forall>t. ho_Tx h r = Holds t \<longrightarrow> unfinished t \<longrightarrow> same_move tx t)"

fun ledger_op :: "string \<Rightarrow> AssignmentTransaction \<Rightarrow> host_op \<Rightarrow> bool" where
  "ledger_op r tx (PutConfig c) = False"
| "ledger_op r tx (PutTx s t) = (s = r \<longrightarrow> same_move tx t)"
| "ledger_op r tx op = True"

interpretation ledger: host_invariant env r "ledger r cfg tx" "ledger_op r tx" for env r cfg tx
proof unfold_locales
  fix h op
  show "ledger r cfg tx h \<Longrightarrow> ledger_op r tx op \<Longrightarrow> ledger r cfg tx (run_host_op op h)"
    by (cases op) (auto simp: ledger_def)
qed (simp_all add: ledger_def)

lemma ledger_save: "same_move tx t \<Longrightarrow> keeps (ledger r cfg tx) (SaveAssignmentTransaction r t)"
  unfolding SaveAssignmentTransaction_def by (intro keeps_rules ledger.keeps_perform) (simp add: same_move_def)

lemma ledger_files: "keeps (ledger r cfg tx) (ClearMaintenance s)" "keeps (ledger r cfg tx) (wake s msg)"
  "keeps (ledger r cfg tx) (WriteMaintenance s g v)" "keeps (ledger r cfg tx) (WritePlist entry path)"
  unfolding ClearMaintenance_def wake_def WriteMaintenance_def WritePlist_def
  by (intro keeps_rules ledger.keeps_perform; simp)+

lemma ledger_agent: "keeps (ledger r cfg tx) (Start env r)" "keeps (ledger r cfg tx) (Stop env r)"
  "keeps (ledger r cfg tx) (inspectAssignmentStop env r)" "keeps (ledger r cfg tx) (ReconcileStoppedAssignment env r)"
  "keeps (ledger r cfg tx) (load_state env r)"
  by (simp_all add: ledger.keeps_agent ledger.keeps_state_operations ledger.keeps_load_state)

lemma ledger_health: "re_RepoID entry = r \<Longrightarrow> keeps (ledger r cfg tx) (health env entry ref loaded)"
  by (rule ledger.keeps_health) simp_all

lemma ledger_rollback:
  assumes "re_RepoID entry = r" and "same_move tx t"
  shows "keeps (ledger r cfg tx) (rollbackSwitch env entry current t cause)"
  using assms(2) unfolding rollbackSwitch_def restore_runtime_def verify_slot_def Let_def assms(1)
  by (intro keeps_rules ledger_files ledger_agent ledger_health assms(1) ledger_save) (simp_all add: same_move_def)

lemma ledger_drain:
  assumes "re_RepoID entry = r" and "same_move tx t"
  shows "keeps (ledger r cfg tx) (drain_repository env cfg' entry current t legacy)"
proof -
  have wait: "keeps (ledger r cfg tx) (waitForDrain env cfg' r)" "keeps (ledger r cfg tx) (waitForLegacyIdleAndStop env cfg' r)"
    unfolding waitForDrain_def waitForLegacyIdleAndStop_def legacy_poll_def
    by (intro keeps_rules keeps_wait_until ledger.keeps_pause ledger_agent ledger.keeps_state_operations ledger.keeps_agent; simp)+
  show ?thesis
    using assms(2) unfolding drain_repository_def Let_def assms(1)
    by (intro keeps_rules wait ledger_files ledger_agent ledger_rollback assms(1) ledger_save) (simp_all add: same_move_def)
qed

lemma ledger_controller: "keeps (ledger r cfg tx) (ensureDeliveryController env cfg' desired)"
  unfolding ensureDeliveryController_def StartDelivery_def StopDelivery_def WriteDeliveryPlist_def verify_slot_def Let_def
  by (intro keeps_rules ledger.keeps_perform [where r = r]) simp_all

lemma ledger_raise:
  "triple (ledger r cfg tx) (raise_fence env r tx) (\<lambda>t h. ledger r cfg tx h \<and> same_move tx t) (ledger r cfg tx)"
proof -
  let ?t = "tx\<lparr>at_Phase := AssignmentDraining, at_Result := lit ''draining''\<rparr>"
  have same: "same_move tx ?t" by (simp add: same_move_def)
  show ?thesis
    unfolding raise_fence_def Let_def
    using ledger_files ledger_save [OF same] same
    unfolding keeps_def by (intro triple_bind [of _ _ "\<lambda>_. ledger r cfg tx"] triple_give) simp_all
qed

lemma ledger_retained:
  "triple (ledger r cfg tx) (prepare_retained env r tx st) (\<lambda>(t, st) h. ledger r cfg tx h \<and> same_move tx t) (ledger r cfg tx)"
proof -
  let ?t = "tx\<lparr>at_Phase := AssignmentPlanned, at_Result := lit ''retrying''\<rparr>"
  have same: "same_move tx ?t" by (simp add: same_move_def)
  have stop: "keeps (ledger r cfg tx) (stop_retained env r st)" and reconcile: "keeps (ledger r cfg tx) (if b then give () else wrapped ps (ReconcileStoppedAssignment env r))" for b ps
    unfolding stop_retained_def agent_status_def by (intro keeps_rules ledger_agent)+
  have required: "keeps (ledger r cfg tx) (require f)" for f by (rule keeps_require)
  show ?thesis
    unfolding prepare_retained_def Let_def
    using stop required reconcile ledger_save [OF same] same
    unfolding keeps_def by (intro triple_bind [of _ _ "\<lambda>_. ledger r cfg tx"] triple_give) simp_all
qed

lemma ledger_done:
  "ledger r cfg tx h \<Longrightarrow> mlookup (dc_Assignments cfg) r = Some a \<Longrightarrow> started_from a tx \<or> completed_by a tx
     \<Longrightarrow> accounted h r \<and> assigned h r = Some a"
  by (auto simp: ledger_def accounted_def assigned_def started_from_def completed_by_def same_move_def)

lemma valid_assignment: "Config_Validate c = None \<Longrightarrow> mlookup (dc_Assignments c) r = Some a \<Longrightarrow> assignment_error r a = None"
  by (auto simp: Config_Validate_def mlookup_def dest!: map_of_SomeD split: if_splits)

lemma next_assignment_generation: "g + 1 \<noteq> 0 \<Longrightarrow> g < g + 1" for g :: uint64
  using unatSuc [of g] by (simp add: word_less_nat_alt add.commute)

lemma ledger_commit:
  assumes entry: "re_RepoID entry = r" and current: "mlookup (dc_Assignments cfg) r = Some current" and started: "started_from current tx"
    and target: "at_TargetGeneration tx = ra_Generation current + 1" and same: "same_move tx t"
  shows "triple (ledger r cfg tx) (commit_switch env cfg entry current t rollback)
    (\<lambda>_ h. accounted h r \<and> follows (Some current) (assigned h r)) (\<lambda>h. accounted h r \<and> follows (Some current) (assigned h r))"
proof -
  let ?L = "ledger r cfg tx" and ?G = "\<lambda>h. accounted h r \<and> follows (Some current) (assigned h r)"
  let ?new = "\<lambda>now. next_assignment current t now"
  let ?cfg = "\<lambda>now. with_assignment r (?new now) cfg"
  have found: "mlookup (dc_Assignments (?cfg now)) r = Some (?new now)" for now
    using current by (auto simp: with_assignment_def mlookup_mstore dest: mlookup_not_nil)
  have LG: "?L h \<Longrightarrow> ?G h" for h using ledger_done [OF _ current] started by (auto simp: follows_def)
  have NG: "ledger r (?cfg now) tx h \<Longrightarrow> ?G h" for now h
  proof -
    assume L: "ledger r (?cfg now) tx h"
    have "completed_by (?new now) tx" using same by (simp add: completed_by_def next_assignment_def same_move_def)
    from ledger_done [OF L found] this have there: "accounted h r \<and> assigned h r = Some (?new now)" by blast
    have "assignment_error r (?new now) = None" using L valid_assignment [OF _ found] by (simp add: ledger_def)
    then have "ra_Generation (?new now) \<noteq> 0" by (auto simp: assignment_error_def split: if_splits)
    then have "ra_Generation current < ra_Generation (?new now)"
      using same target by (simp add: next_assignment_def same_move_def next_assignment_generation)
    then show ?thesis using there by (simp add: follows_def next_assignment_def)
  qed
  have written: "triple ?L (WriteConfig (?cfg now)) (\<lambda>_. ledger r (?cfg now) tx) ?L" for now
    unfolding WriteConfig_def
    by (rule triple_bind [OF triple_require [where Q = "\<lambda>_ h. ?L h \<and> Config_Validate (?cfg now) = None"]
          triple_bind [OF triple_require [where Q = "\<lambda>_ h. ?L h \<and> Config_Validate (?cfg now) = None"] triple_perform]])
      (auto simp: ledger_def)
  have saved: "keeps (ledger r (?cfg now) tx) (SaveAssignmentTransaction r (t\<lparr>at_Phase := p, at_Result := x, at_Reason := y\<rparr>))" for now p x y
    by (rule ledger_save) (use same in \<open>simp add: same_move_def\<close>)
  have rest: "triple (ledger r (?cfg now) tx) (bind_act (ClearMaintenance r) (\<lambda>_. bind_act (wake r msg) (\<lambda>_.
      bind_act (SaveAssignmentTransaction r (t\<lparr>at_Phase := p, at_Result := x, at_Reason := y\<rparr>)) (\<lambda>_. report_as entry a res)))) (\<lambda>_. ?G) ?G" for now msg p x y a res
    by (rule keeps_triple [OF _ NG]) (intro keeps_bind saved ledger_files keeps_report)
  have rolled: "triple ?L (rollbackSwitch env entry current t e) (\<lambda>_. ?G) ?G" for e
    by (rule keeps_triple [OF ledger_rollback [OF entry same] LG])
  show ?thesis
    unfolding commit_switch_def Let_def entry or_roll_back_def
    by (rule triple_bind [OF triple_look [where Q = "\<lambda>_. ?L"] triple_otherwise [OF written LG rolled rest]])
qed

text \<open>What a switch from \<open>current\<close> leaves.\<close>

definition advanced :: "string \<Rightarrow> RepositoryAssignment option \<Rightarrow> Host \<Rightarrow> bool" where
  "advanced r a h \<longleftrightarrow> accounted h r \<and> follows a (assigned h r)"

lemma ledger_advanced:
  "mlookup (dc_Assignments cfg) r = Some a \<Longrightarrow> started_from a tx \<or> completed_by a tx \<Longrightarrow> ledger r cfg tx h \<Longrightarrow> advanced r (Some a) h"
  using ledger_done [of r cfg tx h a] by (auto simp: advanced_def follows_def)

lemma ledger_or_roll:
  assumes "re_RepoID entry = r" and "mlookup (dc_Assignments cfg) r = Some current" and "started_from current tx" and "same_move tx t"
    and "keeps (ledger r cfg tx) m" and "\<And>x. triple (ledger r cfg tx) (f x) (\<lambda>_. advanced r (Some current)) (advanced r (Some current))"
  shows "triple (ledger r cfg tx) (or_roll_back env entry current t m f) (\<lambda>_. advanced r (Some current)) (advanced r (Some current))"
proof -
  have LG: "ledger r cfg tx h \<Longrightarrow> advanced r (Some current) h" for h using ledger_advanced assms(2,3) by blast
  show ?thesis
    unfolding or_roll_back_def
    by (rule triple_otherwise [OF assms(5) [unfolded keeps_def] LG keeps_triple [OF ledger_rollback [OF assms(1,4)] LG] assms(6)])
qed

lemma ledger_apply:
  assumes entry: "re_RepoID entry = r" and current: "mlookup (dc_Assignments cfg) r = Some current" and started: "started_from current tx"
    and target: "at_TargetGeneration tx = ra_Generation current + 1" and same: "same_move tx t"
  shows "triple (ledger r cfg tx) (apply_switch env cfg entry current t rollback) (\<lambda>_. advanced r (Some current)) (advanced r (Some current))"
proof -
  let ?L = "ledger r cfg tx" and ?G = "advanced r (Some current)"
  note roll = ledger_or_roll [OF entry current started]
  let ?t1 = "t\<lparr>at_Phase := AssignmentApplying, at_Result := lit ''applying''\<rparr>"
  let ?t2 = "?t1\<lparr>at_Phase := AssignmentValidating, at_Result := lit ''validating''\<rparr>"
  have same1: "same_move tx ?t1" and same2: "same_move tx ?t2" using same by (simp_all add: same_move_def)
  have LG: "?L h \<Longrightarrow> ?G h" for h using ledger_advanced current started by blast
  have save: "same_move tx t' \<Longrightarrow> triple ?L (SaveAssignmentTransaction r t') (\<lambda>_. ?L) ?G" for t'
    using ledger_save [of tx t' r cfg] unfolding keeps_def by (auto intro: triple_conseq LG)
  have commit: "triple ?L (commit_switch env cfg entry current ?t2 rollback) (\<lambda>_. ?G) ?G"
    unfolding advanced_def [abs_def] using ledger_commit [OF entry current started target same2] by simp
  have healthy: "triple ?L (or_roll_back env entry current ?t2 (health env entry ref loaded) (\<lambda>_. commit_switch env cfg entry current ?t2 rollback)) (\<lambda>_. ?G) ?G" for ref loaded
    by (rule roll [OF same2 ledger_health [OF entry] commit])
  have start: "keeps ?L (if loaded then Start env r else give ())" for loaded by (intro keeps_rules ledger_agent)
  have controller: "keeps ?L (if rollback then give () else wrapped ps (ensureDeliveryController env cfg desired))" for ps desired
    by (intro keeps_rules ledger_controller)
  show ?thesis
    unfolding apply_switch_def Let_def entry
    by (rule roll [OF same controller triple_bind [OF save [OF same1] roll [OF same1 ledger_files(4) roll [OF same1 start triple_bind [OF save [OF same2] healthy]]]]])
qed

lemma ledger_switch:
  assumes entry: "re_RepoID entry = r" and current: "mlookup (dc_Assignments cfg) r = Some current" and started: "started_from current tx"
    and target: "at_TargetGeneration tx = ra_Generation current + 1" and same: "same_move tx t"
  shows "triple (ledger r cfg tx) (bind_act (raise_fence env r t) (\<lambda>t.
     bind_act (if loaded then drain_repository env cfg entry current t legacy else give Drained) (\<lambda>d. case d of
       Drained \<Rightarrow> apply_switch env cfg entry current t rollback | Deferred out \<Rightarrow> give out | Reverted out \<Rightarrow> give out)))
     (\<lambda>_. advanced r (Some current)) (advanced r (Some current))"
proof -
  let ?L = "ledger r cfg tx" and ?G = "advanced r (Some current)"
  have LG: "?L h \<Longrightarrow> ?G h" for h using ledger_advanced current started by blast
  have trans: "same_move t t' \<Longrightarrow> same_move tx t'" for t' using same by (simp add: same_move_def)
  have "ledger r cfg t h = ?L h" for h using same by (simp add: ledger_def same_move_def)
  then have raise: "triple ?L (raise_fence env r t) (\<lambda>t' h. ?L h \<and> same_move tx t') ?G"
    by (intro triple_conseq [OF ledger_raise [of r cfg t env]]) (auto intro: trans LG)
  have drain: "triple ?L (if loaded then drain_repository env cfg entry current t' legacy else give Drained) (\<lambda>_. ?L) ?G" if "same_move tx t'" for t'
  proof (rule triple_conseq)
    show "triple ?L (if loaded then drain_repository env cfg entry current t' legacy else give Drained) (\<lambda>_. ?L) ?L"
      using ledger_drain [OF entry that] keeps_give by (simp add: keeps_def triple_give)
  qed (simp_all add: LG)
  have last: "triple ?L (case d of Drained \<Rightarrow> apply_switch env cfg entry current t' rollback | Deferred out \<Rightarrow> give out | Reverted out \<Rightarrow> give out) (\<lambda>_. ?G) ?G"
    if "same_move tx t'" for t' d
    using ledger_apply [OF entry current started target that] by (cases d) (auto intro: triple_give LG)
  show ?thesis
  proof (rule triple_bind [OF raise])
    fix t'
    show "triple (\<lambda>h. ?L h \<and> same_move tx t') (bind_act (if loaded then drain_repository env cfg entry current t' legacy else give Drained) (\<lambda>d. case d of
       Drained \<Rightarrow> apply_switch env cfg entry current t' rollback | Deferred out \<Rightarrow> give out | Reverted out \<Rightarrow> give out)) (\<lambda>_. ?G) ?G"
      by (rule triple_pure [where b = "same_move tx t'"], simp, rule triple_pre [OF triple_bind [OF drain last]]) simp_all
  qed
qed

lemma load_transaction_Inr: "LoadAssignmentTransaction f = Inr tx \<longleftrightarrow> f = Missing \<and> tx = no_transaction
   \<or> f = Holds tx \<and> at_Version tx = 1 \<and> validateAssignmentTransaction tx = None"
proof (cases f)
  case (Holds t)
  have "validateAssignmentTransaction t = None \<Longrightarrow> at_RepositoryID t \<noteq> '''' \<and> knownAssignmentPhase (at_Phase t)"
    by (simp add: validateAssignmentTransaction_def)
  then show ?thesis using Holds by (cases "validateAssignmentTransaction t") (auto simp: LoadAssignmentTransaction_def)
qed (auto simp: LoadAssignmentTransaction_def)

lemma run_active:
  assumes entry: "re_RepoID entry = r" and cfg: "ho_Config h = CurrentConfig cfg" "Config_Validate cfg = None"
    and current: "mlookup (dc_Assignments cfg) r = Some current" and tx: "LoadAssignmentTransaction (ho_Tx h r) = Inr tx"
    and started: "unfinished tx \<Longrightarrow> started_from current tx" and active: "active \<longleftrightarrow> unfinished tx \<and> \<not> deferred tx" and True: "active"
  shows "advanced r (Some current) (snd (run_switch env cfg entry current tx desired rollback active h))"
proof -
  have st: "started_from current tx" using started active True by simp
  have "unfinished tx" using True active by simp
  then have valid: "validateAssignmentTransaction tx = None"
    using tx by (auto simp: load_transaction_Inr unfinished_def no_transaction_def)
  then have target: "at_TargetGeneration tx = ra_Generation current + 1"
    using st by (simp add: validateAssignmentTransaction_def started_from_def split: if_splits)
  let ?L = "ledger r cfg tx" and ?G = "advanced r (Some current)"
  have LG: "?L h \<Longrightarrow> ?G h" for h using ledger_advanced current st by blast
  have "ho_Tx h r = Holds t \<Longrightarrow> t = tx" for t using tx by (auto simp: load_transaction_Inr)
  then have "?L h" using cfg by (auto simp: ledger_def same_move_def)
  moreover have "triple ?L (run_switch env cfg entry current tx desired rollback active) (\<lambda>_. ?G) ?G"
    unfolding run_switch_def Let_def entry
  proof (rule triple_bind)
    show "triple ?L (agent_status r) (\<lambda>_. ?L) ?G" unfolding agent_status_def by (rule triple_look_ok) (simp_all add: LG)
    fix st0
    let ?tail = "\<lambda>tx st. bind_act (legacy_runtime env r (ra_Ref current) st) (\<lambda>legacy.
      bind_act (if active then give tx else bind_act (look ho_Now) (\<lambda>now.
        bind_act (SaveAssignmentTransaction r (new_transaction r current desired (operation_of rollback) (as_Loaded st) now))
          (\<lambda>_. give (new_transaction r current desired (operation_of rollback) (as_Loaded st) now)))) (\<lambda>tx.
      bind_act (raise_fence env r tx) (\<lambda>tx. bind_act (if as_Loaded st then drain_repository env cfg entry current tx legacy else give Drained)
       (\<lambda>d. case d of Drained \<Rightarrow> apply_switch env cfg entry current tx rollback | Deferred out \<Rightarrow> give out | Reverted out \<Rightarrow> give out))))"
    have retained: "triple ?L (if at_Phase tx = AssignmentRollbackFailed then prepare_retained env r tx st0 else give (tx, st0))
        (\<lambda>x h. ?L h \<and> same_move tx (fst x)) ?G"
    proof (rule triple_if)
      show "triple ?L (prepare_retained env r tx st0) (\<lambda>x h. ?L h \<and> same_move tx (fst x)) ?G"
        by (rule triple_conseq [OF ledger_retained]) (auto simp: case_prod_unfold LG)
      show "triple ?L (give (tx, st0)) (\<lambda>x h. ?L h \<and> same_move tx (fst x)) ?G"
        by (rule triple_give) (simp add: same_move_def)
    qed
    show "triple ?L (bind_act (if at_Phase tx = AssignmentRollbackFailed then prepare_retained env r tx st0 else give (tx, st0)) (\<lambda>(tx, st). ?tail tx st)) (\<lambda>_. ?G) ?G"
    proof (rule triple_bind [OF retained])
      fix x :: "AssignmentTransaction \<times> AgentStatus"
      have runtime: "triple ?L (legacy_runtime env r (ra_Ref current) s) (\<lambda>_. ?L) ?G" for s
        using ledger.keeps_protocol(3) [of r cfg tx env r "ra_Ref current" s] unfolding keeps_def by (rule triple_conseq) (simp_all add: LG)
      have "triple ?L (?tail t s) (\<lambda>_. ?G) ?G" if "same_move tx t" for t s
        unfolding if_P [OF True] bind_give by (intro triple_bind [OF runtime] ledger_switch entry current st target that)
      from this [of "fst x" "snd x"] have tail: "same_move tx (fst x) \<Longrightarrow> triple ?L (case x of (tx, st) \<Rightarrow> ?tail tx st) (\<lambda>_. ?G) ?G"
        unfolding case_prod_unfold .
      show "triple (\<lambda>h. ?L h \<and> same_move tx (fst x)) (case x of (tx, st) \<Rightarrow> ?tail tx st) (\<lambda>_. ?G) ?G"
        by (rule triple_pure [where b = "same_move tx (fst x)"], erule conjunct2, erule triple_pre [OF tail], erule conjunct1)
    qed
  qed
  ultimately show ?thesis by (rule tripleD [rotated])
qed

lemma run_starts_apart:
  assumes entry: "re_RepoID entry = r" and cfg: "ho_Config h = CurrentConfig cfg" "Config_Validate cfg = None"
    and current: "mlookup (dc_Assignments cfg) r = Some current" and tx: "LoadAssignmentTransaction (ho_Tx h r) = Inr tx"
    and started: "unfinished tx \<Longrightarrow> started_from current tx" and active: "active \<longleftrightarrow> unfinished tx \<and> \<not> deferred tx" and False: "\<not> active"
  shows "advanced r (Some current) (snd (run_switch env cfg entry current tx desired rollback active h))"
proof -
  let ?G = "advanced r (Some current)"
  define new where "new = (\<lambda>(st :: AgentStatus) now. new_transaction r current desired (operation_of rollback) (as_Loaded st) now)"
  have fresh: "at_Phase tx \<noteq> AssignmentRollbackFailed"
  proof (cases "at_RepositoryID tx = ''''")
    case True
    then show ?thesis using tx by (auto simp: load_transaction_Inr no_transaction_def validateAssignmentTransaction_def)
  qed (use False active in \<open>auto simp: unfinished_def deferred_def\<close>)
  let ?O = "\<lambda>h'. ho_Tx h' = ho_Tx h \<and> ho_Config h' = ho_Config h"
  have OG: "?G h'" if "?O h'" for h'
    using that tx cfg current started by (auto simp: advanced_def accounted_def follows_def assigned_def load_transaction_Inr)
  have sn: "started_from current (new s now)" "at_TargetGeneration (new s now) = ra_Generation current + 1" for s now
    by (simp_all add: new_def new_transaction_def started_from_def)
  have save: "triple ?O (SaveAssignmentTransaction r (new s now)) (\<lambda>_. ledger r cfg (new s now)) ?G" for s now
    unfolding SaveAssignmentTransaction_def
    by (rule triple_bind [OF triple_require [where Q = "\<lambda>_. ?O"] triple_bind [OF triple_look [where Q = "\<lambda>_. ?O"] triple_perform]])
      (auto simp: OG ledger_def cfg same_move_def)
  have start: "triple ?O (bind_act (look ho_Now) (\<lambda>now. bind_act (SaveAssignmentTransaction r (new s now)) (\<lambda>_. give (new s now))))
      (\<lambda>t h. ledger r cfg t h \<and> (\<exists>now. t = new s now)) ?G" for s
    by (rule triple_bind [OF triple_look [where Q = "\<lambda>_. ?O"] triple_bind [OF save triple_give]]) auto
  have runtime: "triple ?O (legacy_runtime env r (ra_Ref current) s) (\<lambda>_. ?O) ?G" for s
  proof -
    have "keeps ?O (legacy_runtime env r (ra_Ref current) s)"
      unfolding legacy_runtime_def runtimeAssignmentProtocol_def assignmentProtocol_def agent_program_def by (intro keeps_rules)
    then show ?thesis unfolding keeps_def by (rule triple_conseq) (simp_all add: OG)
  qed
  have "triple ?O (run_switch env cfg entry current tx desired rollback active) (\<lambda>_. ?G) ?G"
    unfolding run_switch_def Let_def entry
  proof (rule triple_bind)
    show "triple ?O (agent_status r) (\<lambda>_. ?O) ?G" unfolding agent_status_def by (rule triple_look_ok) (simp_all add: OG)
    fix s
    have switch: "triple (\<lambda>h. ledger r cfg t h \<and> (\<exists>now. t = new s now)) (bind_act (raise_fence env r t) (\<lambda>t.
       bind_act (if as_Loaded s then drain_repository env cfg entry current t legacy else give Drained) (\<lambda>d. case d of
         Drained \<Rightarrow> apply_switch env cfg entry current t rollback | Deferred out \<Rightarrow> give out | Reverted out \<Rightarrow> give out)))
       (\<lambda>_. ?G) ?G" for t legacy
      by (rule triple_pure [where b = "\<exists>now. t = new s now"], simp, rule triple_pre [OF ledger_switch [OF entry current]])
        (auto simp: sn same_move_def)
    have "triple ?O (bind_act (legacy_runtime env r (ra_Ref current) s) (\<lambda>legacy.
      bind_act (bind_act (look ho_Now) (\<lambda>now. bind_act (SaveAssignmentTransaction r (new s now)) (\<lambda>_. give (new s now)))) (\<lambda>t.
      bind_act (raise_fence env r t) (\<lambda>t. bind_act (if as_Loaded s then drain_repository env cfg entry current t legacy else give Drained)
       (\<lambda>d. case d of Drained \<Rightarrow> apply_switch env cfg entry current t rollback | Deferred out \<Rightarrow> give out | Reverted out \<Rightarrow> give out)))))
      (\<lambda>_. ?G) ?G"
      by (rule triple_bind [OF runtime triple_bind [OF start switch]])
    then show "triple ?O (bind_act (if at_Phase tx = AssignmentRollbackFailed then prepare_retained env r tx s else give (tx, s)) (\<lambda>(tx, st).
      bind_act (legacy_runtime env r (ra_Ref current) st) (\<lambda>legacy.
      bind_act (if active then give tx else bind_act (look ho_Now) (\<lambda>now.
        bind_act (SaveAssignmentTransaction r (new_transaction r current desired (operation_of rollback) (as_Loaded st) now))
          (\<lambda>_. give (new_transaction r current desired (operation_of rollback) (as_Loaded st) now)))) (\<lambda>tx.
      bind_act (raise_fence env r tx) (\<lambda>tx. bind_act (if as_Loaded st then drain_repository env cfg entry current tx legacy else give Drained)
       (\<lambda>d. case d of Drained \<Rightarrow> apply_switch env cfg entry current tx rollback | Deferred out \<Rightarrow> give out | Reverted out \<Rightarrow> give out)))))) (\<lambda>_. ?G) ?G"
      using fresh False by (simp add: bind_give new_def)
  qed
  then show ?thesis by (rule tripleD) simp
qed

lemma from_accounts:
  assumes entry: "re_RepoID entry = r" and cfg: "LoadConfig (ho_Config h) = Inr cfg" and current: "mlookup (dc_Assignments cfg) r = Some current"
    and tx: "LoadAssignmentTransaction (ho_Tx h r) = Inr tx" and pending: "deferred_error r current tx h = None" and accounted: "accounted h r"
  shows "advanced r (Some current) (snd (switch_from env desired expected rollback retryRetained cfg entry current tx h))"
proof -
  let ?G = "advanced r (Some current)" and ?L = "ledger r cfg tx"
  have valid: "ho_Config h = CurrentConfig cfg" "Config_Validate cfg = None" using cfg by (simp_all add: LoadConfig_Inr)
  then have start: "?G h" using accounted current by (simp add: advanced_def follows_def assigned_def)
  have disk: "unfinished tx \<Longrightarrow> ho_Tx h r = Holds tx" using tx by (auto simp: load_transaction_Inr unfinished_def no_transaction_def)
  then have fate: "unfinished tx \<Longrightarrow> started_from current tx \<or> completed_by current tx"
    using accounted valid current by (auto simp: accounted_def assigned_def)
  have L: "?L h" using tx valid by (auto simp: ledger_def load_transaction_Inr same_move_def)
  have kept: "?G (snd (m h))" if "unfinished tx" "keeps ?L m" for m :: "outcome act"
    using ledger_advanced [OF current fate [OF that(1)]] keepsD [OF that(2) L] by blast
  have deferral: "deferred tx \<Longrightarrow> started_from current tx"
    using pending by (auto simp: deferred_error_def started_from_def)
  have finish: "keeps ?L (finish_committed env entry current tx)"
    unfolding finish_committed_def entry
    by (intro keeps_rules ledger_files ledger_health entry ledger_save) (simp add: same_move_def)
  have run: "?G (snd (run_switch env cfg entry current tx desired rollback active h))"
    if "active \<longleftrightarrow> unfinished tx \<and> \<not> deferred tx" "active \<Longrightarrow> at_Desired tx = desired" "ra_Ref current \<noteq> desired" for active
  proof -
    have "unfinished tx \<Longrightarrow> started_from current tx"
      using fate deferral that by (auto simp: completed_by_def)
    note args = entry valid current tx this that(1)
    show ?thesis by (cases active; rule run_active [OF args] run_starts_apart [OF args]; assumption)
  qed
  show ?thesis
    unfolding switch_from_def Let_def entry
  proof (rule bind_reads [where I = ?G, OF keeps_require start], rule bind_reads [where I = ?G, OF keeps_require start], goal_cases)
    case 1
    show ?case
    proof (cases "ra_Ref current = desired")
      case True
      have reported: "?G (snd (report_as entry current ''current'' h))"
        using reads [OF keeps_report(1) [of "\<lambda>h'. h' = h"]] start by simp
      show ?thesis
      proof (cases "unfinished tx")
        case unf: True
        show ?thesis using reported kept [OF unf finish] by (simp add: True)
      qed (simp add: True reported)
    next
      case False
      have "?G (snd (bind_act (verify_slot desired) (\<lambda>_.
       bind_act (require (switch_error current tx desired rollback retryRetained r expected (unfinished tx \<and> \<not> deferred tx))) (\<lambda>_.
       if at_Phase tx = AssignmentRollingBack
       then bind_act (require (\<lambda>_. rolling_back_error current tx)) (\<lambda>_. rollbackSwitch env entry current tx (interrupted_cause tx))
       else run_switch env cfg entry current tx desired rollback (unfinished tx \<and> \<not> deferred tx))) h))"
      proof (rule bind_reads [where I = ?G, OF reads_agent(3) start], rule bind_reads [where I = ?G, OF keeps_require start], goal_cases)
        case (1 u v)
        then have wanted: "unfinished tx \<and> \<not> deferred tx \<Longrightarrow> at_Desired tx = desired"
          by (auto simp: act_simps switch_error_def)
        show ?case
        proof (cases "at_Phase tx = AssignmentRollingBack")
          case True
          have id: "at_RepositoryID tx \<noteq> ''''"
            using tx True by (auto simp: load_transaction_Inr no_transaction_def validateAssignmentTransaction_def)
          then have "unfinished tx" using True by (simp add: unfinished_def)
          moreover have "keeps ?L (bind_act (require (\<lambda>_. rolling_back_error current tx)) (\<lambda>_. rollbackSwitch env entry current tx (interrupted_cause tx)))"
            by (intro keeps_rules ledger_rollback entry) (simp add: same_move_def)
          ultimately show ?thesis unfolding if_P [OF True] by (rule kept)
        next
          case rolling: False
          show ?thesis unfolding if_not_P [OF rolling] by (rule run [OF refl wanted False])
        qed
      qed
      then show ?thesis unfolding if_not_P [OF False] .
    qed
  qed
qed

lemma accounts_fates: "advanced r a h \<Longrightarrow> advanced r a (h\<lparr>ho_Fates := fs\<rparr>)"
  by (simp add: advanced_def accounted_def assigned_def)

lemma switchTo_accounts:
  assumes adv: "advanced r a h" and target: "\<And>e. target env p h = Some e \<Longrightarrow> re_RepoID e = r"
  shows "advanced r a (snd (switchTo env p desired expected rollback retryRetained h))"
proof -
  have step: "advanced r a (snd (switch_from env desired expected rollback retryRetained cfg entry current tx h))"
    if "switch_context env p h = (Inr (cfg, entry, current, tx), h1)" for cfg entry current tx h1
  proof -
    have c: "re_RepoID entry = r" "LoadConfig (ho_Config h) = Inr cfg" "mlookup (dc_Assignments cfg) r = Some current"
        "LoadAssignmentTransaction (ho_Tx h r) = Inr tx" "deferred_error r current tx h = None"
      using that target by (auto simp: switch_context_Inr)
    from from_accounts [OF c] adv have "advanced r (Some current) (snd (switch_from env desired expected rollback retryRetained cfg entry current tx h))"
      by (simp add: advanced_def)
    moreover have "assigned h r = Some current" using c by (auto simp: assigned_def LoadConfig_Inr)
    ultimately show ?thesis using adv follows_trans by (auto simp: advanced_def)
  qed
  then show ?thesis
    using reads_context [of env p h] adv
    by (cases "switch_context env p h"; cases "fst (switch_context env p h)") (auto simp: switchTo_def bind_act_def)
qed

lemma RetryRollback_accounts:
  assumes adv: "advanced r a h" and target: "\<And>e. target env p h = Some e \<Longrightarrow> re_RepoID e = r"
  shows "advanced r a (snd (RetryRollback env p h))"
  unfolding RetryRollback_def Let_def
proof (rule bind_reads [where I = "advanced r a", OF keeps_require adv], rule bind_reads [where I = "advanced r a", OF reads_set adv], goal_cases)
  case (1 u x)
  obtain cfg repos where x: "x = (cfg, repos)" by (cases x)
  with 1 have cfg: "ho_Config h = CurrentConfig cfg" "Config_Validate cfg = None" by (simp_all add: act_simps LoadConfig_Inr)
  show ?case unfolding x prod.case
  proof (rule bind_reads [where I = "advanced r a", OF reads_Resolve adv], goal_cases)
    case (1 entry)
    then have entry: "re_RepoID entry = r" using target by (simp add: act_simps)
    show ?case unfolding entry
    proof (rule bind_reads [where I = "advanced r a", OF reads_assignment adv], rule bind_reads [where I = "advanced r a", OF reads_agent(4) adv],
        rule bind_reads [where I = "advanced r a", OF keeps_require adv], goal_cases)
      case (1 current tx v)
      then have current: "mlookup (dc_Assignments cfg) r = Some current" and tx: "LoadAssignmentTransaction (ho_Tx h r) = Inr tx"
        and started: "started_from current tx"
        by (auto simp: act_simps load_transaction_def retained_error_def started_from_def)
      have "ledger r cfg tx h" using tx cfg by (auto simp: ledger_def load_transaction_Inr same_move_def)
      moreover have "keeps (ledger r cfg tx) (finish_rollback env entry current tx)"
        unfolding finish_rollback_def Let_def entry
        by (intro keeps_rules ledger_files ledger_health entry ledger_save) (simp_all add: same_move_def)
      then have "keeps (ledger r cfg tx) (bind_act (if at_WasLoaded tx then bind_act (inspectAssignmentStop env r) (\<lambda>_. Stop env r) else give ()) (\<lambda>_.
         bind_act (wrapped [Lit ''verify rollback assignment slot: ''] (verify_slot (ra_Ref current))) (\<lambda>_.
         bind_act (WritePlist entry (ar_Slot (ra_Ref current))) (\<lambda>_.
         bind_act (if at_WasLoaded tx then Start env r else give ()) (\<lambda>_. finish_rollback env entry current tx)))))"
        unfolding verify_slot_def by (intro keeps_rules ledger_files ledger_agent)
      moreover have "assigned h r = Some current" using cfg current by (simp add: assigned_def)
      ultimately show ?case
        using ledger_done [OF keepsD current] started adv by (fastforce simp: advanced_def)
    qed
  qed
qed

interpretation advancing: command_invariant env p T "advanced (repo_of s T) a" for env p T s a
  by unfold_locales (auto simp: repo_of_def intro: accounts_fates switchTo_accounts RetryRollback_accounts)



section \<open>Success\<close>

text \<open>The switch to \<open>ref\<close> is complete.\<close>

definition switched :: "string \<Rightarrow> AssignmentRef \<Rightarrow> Host \<Rightarrow> bool" where
  "switched r ref h \<longleftrightarrow> (\<exists>a. assigned h r = Some a \<and> ra_Ref a = ref) \<and> ho_Fence h r = Missing
     \<and> runtime_digest h r = Some (ar_ArtifactSHA256 ref) \<and> (\<exists>tx. ho_Tx h r = Holds tx \<and> \<not> unfinished tx)"

definition succeeds :: "string \<Rightarrow> AssignmentRef \<Rightarrow> outcome \<Rightarrow> Host \<Rightarrow> bool" where
  "succeeds r ref out h \<longleftrightarrow> (snd out = None \<and> rp_Result (fst out) = ''succeeded'' \<longrightarrow> switched r ref h)"

abbreviation anywhere :: "Host \<Rightarrow> bool" where
  "anywhere \<equiv> \<lambda>_. True"

lemma triple_any: "triple P m (\<lambda>_. anywhere) anywhere"
  by (simp add: triple_def split: prod.splits sum.splits)

lemma triple_failing: "triple anywhere (reportWithTransaction entry a tx e) (succeeds r ref) anywhere"
  unfolding reportWithTransaction_def by (rule triple_look) (simp add: succeeds_def)

lemma rollback_reports: "triple anywhere (rollbackSwitch env entry current tx e) (succeeds r ref) anywhere"
  unfolding rollbackSwitch_def Let_def
  by (rule triple_bind [OF triple_any triple_otherwise [OF triple_any _ triple_bind [OF triple_any triple_failing]
        triple_bind [OF triple_any triple_bind [OF triple_any triple_bind [OF triple_any triple_failing]]]]]) simp

text \<open>The last steps of a switch: the fence is lifted, the transaction closed.\<close>

lemma closing_steps:
  assumes a: "mlookup (dc_Assignments cfg) r = Some a" "ra_Ref a = ref" and tx: "\<not> unfinished tx"
    and w: "\<And>Q. keeps (about r Q) w" and m: "keeps (switched r ref) m"
  shows "triple (about r (\<lambda>c f d. c = CurrentConfig cfg \<and> d = Some (ar_ArtifactSHA256 ref)))
    (bind_act (ClearMaintenance r) (\<lambda>_. bind_act w (\<lambda>_. bind_act (SaveAssignmentTransaction r tx) (\<lambda>_. m)))) (succeeds r ref) anywhere"
proof -
  let ?A = "about r (\<lambda>c f d. c = CurrentConfig cfg \<and> \<not> f \<and> d = Some (ar_ArtifactSHA256 ref))"
  have clear: "triple (about r (\<lambda>c f d. c = CurrentConfig cfg \<and> d = Some (ar_ArtifactSHA256 ref))) (ClearMaintenance r) (\<lambda>_. ?A) anywhere"
    by (rule triple_conseq [OF triple_clear [where E = "\<lambda>_ _ _. True" and Q = "\<lambda>c f d. c = CurrentConfig cfg \<and> \<not> f \<and> d = Some (ar_ArtifactSHA256 ref)"
          and P = "about r (\<lambda>c f d. c = CurrentConfig cfg \<and> d = Some (ar_ArtifactSHA256 ref))"]]) (auto simp: about_def)
  have wake: "triple ?A w (\<lambda>_. ?A) anywhere" using w unfolding keeps_def by (rule triple_conseq) simp_all
  have put: "switched r ref (run_host_op (PutTx r (tx\<lparr>at_Version := 1, at_UpdatedAt := now\<rparr>)) (h\<lparr>ho_Fates := fs\<rparr>))" if "?A h" for h fs now
  proof -
    have "runtime_digest (run_host_op (PutTx r t) (h\<lparr>ho_Fates := fs\<rparr>)) r = runtime_digest h r" for t
      by (rule runtime_digest_cong) simp_all
    moreover have "\<not> unfinished (tx\<lparr>at_Version := 1, at_UpdatedAt := now\<rparr>)" using tx by (simp add: unfinished_def)
    ultimately show ?thesis using that a by (auto simp: switched_def about_def assigned_def)
  qed
  have save: "triple ?A (SaveAssignmentTransaction r tx) (\<lambda>_. switched r ref) anywhere"
    unfolding SaveAssignmentTransaction_def
    by (rule triple_bind [OF triple_require [where Q = "\<lambda>_. ?A"] triple_bind [OF triple_look [where Q = "\<lambda>_. ?A"] triple_perform]])
      (use put in \<open>simp_all del: run_host_op.simps\<close>)
  have last: "triple (switched r ref) m (succeeds r ref) anywhere"
    using m unfolding keeps_def by (rule triple_conseq) (simp_all add: succeeds_def)
  show ?thesis by (rule triple_bind [OF clear triple_bind [OF wake triple_bind [OF save last]]])
qed

lemma succeeds_roll:
  assumes "triple P m (\<lambda>_. R) anywhere" and "\<And>x. triple R (f x) (succeeds r ref) anywhere"
  shows "triple P (or_roll_back env entry current tx m f) (succeeds r ref) anywhere"
  unfolding or_roll_back_def by (rule triple_otherwise [OF assms(1) _ rollback_reports assms(2)]) simp

lemma commit_succeeds:
  assumes entry: "re_RepoID entry = r" and current: "mlookup (dc_Assignments cfg) r = Some current"
  shows "triple (about r (\<lambda>_ _ d. d = Some (ar_ArtifactSHA256 (at_Desired tx)))) (commit_switch env cfg entry current tx rollback)
    (succeeds r (at_Desired tx)) anywhere"
proof -
  let ?D = "about r (\<lambda>_ _ d. d = Some (ar_ArtifactSHA256 (at_Desired tx)))"
  let ?cfg = "\<lambda>now. with_assignment r (next_assignment current tx now) cfg"
  let ?N = "\<lambda>now. about r (\<lambda>c f d. c = CurrentConfig (?cfg now) \<and> d = Some (ar_ArtifactSHA256 (at_Desired tx)))"
  have found: "mlookup (dc_Assignments (?cfg now)) r = Some (next_assignment current tx now)"
    "ra_Ref (next_assignment current tx now) = at_Desired tx" for now
    using current by (auto simp: with_assignment_def mlookup_mstore next_assignment_def dest: mlookup_not_nil)
  have written: "triple ?D (WriteConfig (?cfg now)) (\<lambda>_. ?N now) anywhere" for now
    unfolding WriteConfig_def
    by (rule triple_bind [OF triple_require [where Q = "\<lambda>_. ?D"] triple_bind [OF triple_require [where Q = "\<lambda>_. ?D"] triple_perform]])
      (simp_all add: about_def)
  have closed: "\<not> unfinished (tx\<lparr>at_Phase := (if rollback then AssignmentRolledBack else AssignmentSucceeded), at_Result := lit ''succeeded'', at_Reason := ''''\<rparr>)"
    by (simp add: unfinished_def)
  show ?thesis
    unfolding commit_switch_def Let_def entry
    by (rule triple_bind [OF triple_look [where Q = "\<lambda>_. ?D"] succeeds_roll [OF written closing_steps [OF found closed neutral_files(2) keeps_report(1)]]])
qed

lemma apply_succeeds:
  assumes entry: "re_RepoID entry = r" and current: "mlookup (dc_Assignments cfg) r = Some current" and desired: "at_Desired tx = ref"
  shows "triple anywhere (apply_switch env cfg entry current tx rollback) (succeeds r ref) anywhere"
proof -
  let ?t = "tx\<lparr>at_Phase := AssignmentApplying, at_Result := lit ''applying''\<rparr>\<lparr>at_Phase := AssignmentValidating, at_Result := lit ''validating''\<rparr>"
  have commit: "triple (about r (\<lambda>_ _ d. d = Some (ar_ArtifactSHA256 ref))) (commit_switch env cfg entry current ?t rollback) (succeeds r ref) anywhere"
    using commit_succeeds [OF entry current, of ?t env rollback] desired by simp
  have healthy: "triple anywhere (health env entry ref loaded) (\<lambda>_. about r (\<lambda>_ _ d. d = Some (ar_ArtifactSHA256 ref))) anywhere" for loaded
    by (rule triple_conseq [OF triple_health [OF entry, of "\<lambda>_ _ _. True"]]) (auto simp: about_def)
  show ?thesis
    unfolding apply_switch_def Let_def entry desired
    by (rule succeeds_roll [OF triple_any triple_bind [OF triple_any succeeds_roll [OF triple_any succeeds_roll [OF triple_any
          triple_bind [OF triple_any succeeds_roll [OF healthy commit]]]]]])
qed

lemma run_succeeds:
  assumes entry: "re_RepoID entry = r" and current: "mlookup (dc_Assignments cfg) r = Some current" and wanted: "active \<Longrightarrow> at_Desired tx = desired"
  shows "triple anywhere (run_switch env cfg entry current tx desired rollback active) (succeeds r desired) anywhere"
proof -
  have retained: "triple anywhere (if at_Phase tx = AssignmentRollbackFailed then prepare_retained env r tx s else give (tx, s))
      (\<lambda>x _. at_Desired (fst x) = at_Desired tx) anywhere" for s
    unfolding prepare_retained_def Let_def
    by (rule triple_if, rule triple_bind [OF triple_any triple_bind [OF triple_any triple_bind [OF triple_any triple_bind [OF triple_any triple_give]]]])
      (simp_all add: triple_give)
  have start: "triple (\<lambda>_. at_Desired t = at_Desired tx) (if active then give t else bind_act (look ho_Now) (\<lambda>now.
      bind_act (SaveAssignmentTransaction r (new_transaction r current desired op loaded now)) (\<lambda>_. give (new_transaction r current desired op loaded now))))
      (\<lambda>t _. at_Desired t = desired) anywhere" for t op loaded
    by (rule triple_if, rule triple_give, simp add: wanted,
        rule triple_bind [OF triple_any triple_bind [OF triple_any triple_give]]) (simp add: new_transaction_def)
  have raise: "triple (\<lambda>_. at_Desired t = desired) (raise_fence env r t) (\<lambda>t _. at_Desired t = desired) anywhere" for t
    unfolding raise_fence_def Let_def
    by (rule triple_pure [where b = "at_Desired t = desired"], simp,
        rule triple_bind [OF triple_any triple_bind [OF triple_any triple_bind [OF triple_any triple_give]]]) simp
  have drain: "triple P (if loaded then drain_repository env cfg entry current t legacy else give Drained)
      (\<lambda>d _. case d of Drained \<Rightarrow> True | Deferred out \<Rightarrow> snd out \<noteq> None | Reverted out \<Rightarrow> snd out \<noteq> None) anywhere" for P loaded t legacy
  proof -
    have report: "triple anywhere (reportWithTransaction entry current t' e) (\<lambda>out _. snd out \<noteq> None) anywhere" for t' e
      unfolding reportWithTransaction_def by (rule triple_look) simp
    have rolled: "triple anywhere (rollbackSwitch env entry current t' e) (\<lambda>out _. snd out \<noteq> None) anywhere" for t' e
      unfolding rollbackSwitch_def Let_def
      by (rule triple_bind [OF triple_any triple_otherwise [OF triple_any _ triple_bind [OF triple_any report]
            triple_bind [OF triple_any triple_bind [OF triple_any triple_bind [OF triple_any report]]]]]) simp
    have "triple anywhere (drain_repository env cfg entry current t legacy)
        (\<lambda>d _. case d of Drained \<Rightarrow> True | Deferred out \<Rightarrow> snd out \<noteq> None | Reverted out \<Rightarrow> snd out \<noteq> None) anywhere"
      unfolding drain_repository_def Let_def
      by (rule triple_otherwise [OF triple_any _ triple_bind [OF triple_any triple_bind [OF triple_any triple_bind [OF report triple_give]]]
            triple_if [OF triple_give triple_otherwise [OF triple_any _ triple_bind [OF rolled triple_give] triple_give]]]) simp_all
    then have "triple P (drain_repository env cfg entry current t legacy)
        (\<lambda>d _. case d of Drained \<Rightarrow> True | Deferred out \<Rightarrow> snd out \<noteq> None | Reverted out \<Rightarrow> snd out \<noteq> None) anywhere"
      by (rule triple_pre) simp
    then show ?thesis by (rule triple_if) (rule triple_give, simp)
  qed
  have last: "triple (\<lambda>_. case d of Drained \<Rightarrow> True | Deferred out \<Rightarrow> snd out \<noteq> None | Reverted out \<Rightarrow> snd out \<noteq> None)
      (case d of Drained \<Rightarrow> apply_switch env cfg entry current t rollback | Deferred out \<Rightarrow> give out | Reverted out \<Rightarrow> give out)
      (succeeds r desired) anywhere" if "at_Desired t = desired" for d t
    by (cases d) (auto simp: succeeds_def apply_succeeds [OF entry current that] intro: triple_give)
  have switch: "triple (\<lambda>_. at_Desired t = desired) (bind_act (if loaded then drain_repository env cfg entry current t legacy else give Drained)
      (\<lambda>d. case d of Drained \<Rightarrow> apply_switch env cfg entry current t rollback | Deferred out \<Rightarrow> give out | Reverted out \<Rightarrow> give out))
      (succeeds r desired) anywhere" for t loaded legacy
    by (rule triple_pure [where b = "at_Desired t = desired"], simp, rule triple_bind [OF drain last])
  have tail: "triple (\<lambda>_. at_Desired (fst x) = at_Desired tx) (case x of (t, st) \<Rightarrow> bind_act (legacy_runtime env r (ra_Ref current) st) (\<lambda>legacy.
      bind_act (if active then give t else bind_act (look ho_Now) (\<lambda>now.
        bind_act (SaveAssignmentTransaction r (new_transaction r current desired (operation_of rollback) (as_Loaded st) now))
          (\<lambda>_. give (new_transaction r current desired (operation_of rollback) (as_Loaded st) now)))) (\<lambda>t.
      bind_act (raise_fence env r t) (\<lambda>t. bind_act (if as_Loaded st then drain_repository env cfg entry current t legacy else give Drained)
       (\<lambda>d. case d of Drained \<Rightarrow> apply_switch env cfg entry current t rollback | Deferred out \<Rightarrow> give out | Reverted out \<Rightarrow> give out)))))
      (succeeds r desired) anywhere" for x :: "AssignmentTransaction \<times> AgentStatus"
  proof (rule triple_pure [where b = "at_Desired (fst x) = at_Desired tx"], simp)
    assume same: "at_Desired (fst x) = at_Desired tx"
    show ?thesis
      unfolding case_prod_unfold
      by (rule triple_bind [OF triple_any triple_bind [OF triple_pre [OF start] triple_bind [OF raise switch]]]) (simp add: same)
  qed
  show ?thesis
    unfolding run_switch_def Let_def entry by (rule triple_bind [OF triple_any triple_bind [OF retained tail]])
qed

lemma from_succeeds:
  assumes entry: "re_RepoID entry = r" and current: "mlookup (dc_Assignments cfg) r = Some current"
  shows "triple (\<lambda>h. ho_Config h = CurrentConfig cfg) (switch_from env desired expected rollback retryRetained cfg entry current tx)
    (succeeds r desired) anywhere"
proof -
  let ?C = "\<lambda>h. ho_Config h = CurrentConfig cfg"
  have required: "triple ?C (require f) (\<lambda>_. ?C) anywhere" for f by (rule triple_require) simp_all
  have healthy: "triple ?C (health env entry (ra_Ref current) loaded)
      (\<lambda>_. about r (\<lambda>c f d. c = CurrentConfig cfg \<and> d = Some (ar_ArtifactSHA256 (ra_Ref current)))) anywhere" for loaded
    by (rule triple_conseq [OF triple_health [OF entry, of "\<lambda>c f d. c = CurrentConfig cfg"]]) (auto simp: about_def)
  have closed: "\<not> unfinished (tx\<lparr>at_Phase := (if at_Operation tx = OperationRollback then AssignmentRolledBack else AssignmentSucceeded),
      at_Result := lit ''succeeded'', at_Reason := ''''\<rparr>)" by (simp add: unfinished_def)
  have finish: "triple ?C (finish_committed env entry current tx) (succeeds r (ra_Ref current)) anywhere"
    unfolding finish_committed_def entry
    by (rule triple_bind [OF healthy closing_steps [OF current refl closed keeps_ignore [OF neutral_files(2)] keeps_report(1)]])
  have reported: "triple ?C (report_as entry current ''current'') (succeeds r ref) anywhere" for ref
    unfolding report_as_def by (rule triple_look) (simp add: succeeds_def split: prod.splits)
  have failed: "triple P (bind_act (require (switch_error current tx desired rollback retryRetained r expected active)) (\<lambda>_. m)) Q anywhere"
    if "active \<and> at_Desired tx \<noteq> desired" for P active m and Q :: "outcome \<Rightarrow> Host \<Rightarrow> bool"
  proof -
    have none: "switch_error current tx desired rollback retryRetained r expected active h = None \<Longrightarrow> False" for h
      using that by (simp add: switch_error_def)
    show ?thesis by (rule triple_bind [OF triple_require [where Q = "\<lambda>_ _. False"] triple_False], erule none) simp
  qed
  have rest: "triple P (bind_act (require (switch_error current tx desired rollback retryRetained r expected active)) (\<lambda>_.
       if at_Phase tx = AssignmentRollingBack
       then bind_act (require (\<lambda>_. rolling_back_error current tx)) (\<lambda>_. rollbackSwitch env entry current tx (interrupted_cause tx))
       else run_switch env cfg entry current tx desired rollback active)) (succeeds r desired) anywhere" for P active
  proof (cases "active \<and> at_Desired tx \<noteq> desired")
    case False
    then have "active \<Longrightarrow> at_Desired tx = desired" by simp
    then show ?thesis
      by (intro triple_bind [OF triple_any] triple_if [OF triple_bind [OF triple_any rollback_reports] run_succeeds [OF entry current]])
  qed (rule failed)
  show ?thesis
    unfolding switch_from_def Let_def entry
  proof (rule triple_bind [OF required], rule triple_bind [OF required], rule triple_if)
    assume "ra_Ref current = desired"
    then show "triple ?C (if (unfinished tx \<and> \<not> deferred tx) \<and> at_Desired tx = desired \<and> at_ExpectedGeneration tx = expected
         \<and> ra_Generation current = at_TargetGeneration tx \<and> ra_Ref current = desired
       then finish_committed env entry current tx else report_as entry current ''current'') (succeeds r desired) anywhere"
      using finish reported by simp
  qed (rule triple_bind [OF triple_any rest])
qed

text \<open>A command that reports success has switched the repository: its assignment is the wanted reference, its LaunchAgent names a
  program with that digest, the fence is lifted and the transaction closed.\<close>

theorem reported_success_is_complete:
  assumes "switchTo env p desired expected rollback retryRetained h = (Inr (report, None), h')" and "rp_Result report = ''succeeded''"
  shows "\<exists>entry. target env p h = Some entry \<and> switched (re_RepoID entry) desired h'"
proof -
  from assms(1) obtain x h1 where "switch_context env p h = (Inr x, h1)"
    and "(case x of (cfg, entry, current, tx) \<Rightarrow> switch_from env desired expected rollback retryRetained cfg entry current tx) h1 = (Inr (report, None), h')"
    unfolding switchTo_def by (auto simp: act_simps)
  moreover obtain cfg entry current tx where "x = (cfg, entry, current, tx)" by (cases x)
  ultimately have c: "target env p h = Some entry" "mlookup (dc_Assignments cfg) (re_RepoID entry) = Some current" "ho_Config h = CurrentConfig cfg"
      "switch_from env desired expected rollback retryRetained cfg entry current tx h = (Inr (report, None), h')"
    by (auto simp: switch_context_Inr LoadConfig_Inr)
  from triple_Inr [OF from_succeeds [OF refl c(2)] c(3,4)] assms(2) c(1) show ?thesis by (auto simp: succeeds_def)
qed

lemma hex_decode_replicate: "hex_val c \<noteq> None \<Longrightarrow> hex_decode (replicate (2 * n) c) \<noteq> None"
  by (induction n) (auto split: option.splits)

lemma sample_digests: "validDigest sample_digest" "validSHA sample_sha"
proof -
  have val: "hex_val (CHR ''a'') \<noteq> None" "hex_val (CHR ''b'') \<noteq> None" "lower_char (CHR ''a'') = CHR ''a''" "lower_char (CHR ''b'') = CHR ''b''"
    by code_simp+
  show "validDigest sample_digest" "validSHA sample_sha"
    using hex_decode_replicate [OF val(1), of 20] hex_decode_replicate [OF val(2), of 32] val(3,4)
    by (simp_all add: sample_digest_def sample_sha_def validDigest_def validSHA_def validHex_def ToLower_def)
qed

lemma host_ref_fields: "ar_Version (host_ref v) = v" "ar_Commit (host_ref v) = sample_sha" "ar_ArtifactSHA256 (host_ref v) = sample_digest"
  by (simp_all add: host_ref_def SlotRef_def)

lemma host_ref_abs: "IsAbs (ar_Slot (host_ref v))"
proof -
  have "IsAbs ''/s''" by (simp add: IsAbs_def)
  then have "IsAbs (path_Join (path_Join ''/s'' w) u)" for w u
    unfolding path_Join_def by (intro path_Clean_abs IsAbs_append)
  then show ?thesis by (simp add: host_ref_def SlotRef_def)
qed

lemma host_ref_valid: "(\<exists>x. ParseSemVer v = Inr x) \<Longrightarrow> validateAssignmentRef (host_ref v) = None"
  by (auto simp: validateAssignmentRef_def host_ref_fields sample_digests host_ref_abs)

lemma sample_versions: "ParseSemVer ''v0.1.0'' = Inr (SemVer 0 1 0)" "ParseSemVer ''v0.0.9'' = Inr (SemVer 0 0 9)"
  by code_simp+

lemma host_slot_base: "path_Base (ar_Slot (host_ref ''v0.1.0'')) = ''agent-loop''"
  by code_simp

lemma host_verified: "VerifySlot (ho_Slots host) (file_digest host) (host_ref ''v0.1.0'') = None"
  by (simp add: VerifySlot_def host_ref_valid sample_versions)
    (simp add: host_def file_digest_def staged_files_def slot_manifest_matches_def host_slot host_ref_fields demand_def host_slot_base)

text \<open>The sample host after a crash between the commit and the lifting of the fence.\<close>

definition committed_assignment :: RepositoryAssignment where
  "committed_assignment = \<lparr>ra_RepositoryID = ''repo'', ra_Ref = host_ref ''v0.1.0'', ra_Generation = 2,
     ra_Previous = Some (host_ref ''v0.0.9''), ra_UpdatedAt = 50\<rparr>"

definition committed_config :: DeliveryConfig where
  "committed_config = with_assignment ''repo'' committed_assignment host_config"

definition committed_tx :: AssignmentTransaction where
  "committed_tx = \<lparr>at_Version = 1, at_RepositoryID = ''repo'', at_Operation = OperationApply, at_Phase = AssignmentValidating,
     at_ExpectedGeneration = 1, at_TargetGeneration = 2, at_Current = host_ref ''v0.0.9'', at_Desired = host_ref ''v0.1.0'',
     at_WasLoaded = True, at_Result = ''validating'', at_Reason = '''', at_StartedAt = 40, at_UpdatedAt = 45\<rparr>"

definition committed_host :: Host where
  "committed_host = host\<lparr>ho_Config := CurrentConfig committed_config, ho_Tx := (\<lambda>_. Holds committed_tx),
     ho_Fence := (\<lambda>_. Holds \<lparr>mt_Version = 1, mt_Generation = ''assignment-2'', mt_Desired = version_of (host_ref ''v0.1.0''), mt_RequestedAt = 40\<rparr>)\<rparr>"

lemma committed_assignments: "dc_Assignments committed_config = GoMap [(''repo'', committed_assignment)]"
  by (simp add: committed_config_def with_assignment_def host_config_def Migrated_def mstore_def)

lemma committed_repository: "validRepository ''o/r''"
  by code_simp

lemma other_ref: "host_ref ''v0.0.9'' \<noteq> host_ref ''v0.1.0''"
  using host_ref_fields(1) [of "''v0.0.9''"] host_ref_fields(1) [of "''v0.1.0''"] by (auto dest: arg_cong [where f = ar_Version])

lemma committed_valid: "Config_Validate committed_config = None"
proof -
  have "assignment_error ''repo'' committed_assignment = None"
    by (simp add: assignment_error_def committed_assignment_def host_ref_valid sample_versions other_ref IsZero_def wrap_error_def)
  then show ?thesis
    by (simp add: Config_Validate_def committed_assignments committed_repository)
      (simp add: committed_config_def with_assignment_def host_config_def Migrated_def host_legacy_def committed_repository minute_def positive_def)
qed

lemma committed_set: "validateAssignmentSet host_env committed_config (GoMap [(''repo'', host_entry)]) = None"
proof -
  have "canonical_ref host_env (host_ref v) = host_ref v" for v by (simp add: canonical_ref_def host_ref_def SlotRef_def host_env_def)
  then show ?thesis by (simp add: validateAssignmentSet_def committed_assignments mlookup_def committed_assignment_def del: for_each.simps)
qed

lemma committed_tx_valid: "validateAssignmentTransaction (committed_tx\<lparr>at_Phase := AssignmentSucceeded, at_Result := x, at_Reason := y, at_Version := n, at_UpdatedAt := t\<rparr>) = None"
  "validateAssignmentTransaction (committed_tx\<lparr>at_Phase := AssignmentSucceeded, at_Result := x, at_Reason := y\<rparr>) = None"
  "validateAssignmentTransaction committed_tx = None"
  by (simp_all add: validateAssignmentTransaction_def committed_tx_def host_ref_valid sample_versions other_ref wrap_error_def IsZero_def)

lemma committed_files:
  "ho_Config committed_host = CurrentConfig committed_config" "ho_Registry committed_host = Inr (GoMap [(''repo'', host_entry)])"
  "ho_Slots committed_host = ho_Slots host" "file_digest committed_host = file_digest host" "ho_Tx committed_host s = Holds committed_tx"
  "ho_Program committed_host s = Inr (ar_Slot (host_ref ''v0.1.0''))" "ho_Agent committed_host s = Inr \<lparr>as_Loaded = True, as_Running = True\<rparr>"
  "ho_Fates committed_host = []"
  by (simp_all add: committed_host_def host_def file_digest_def fun_eq_iff)

lemma committed_context:
  "switch_context host_env ''/repo'' committed_host = (Inr (committed_config, host_entry, committed_assignment, committed_tx), committed_host)"
proof -
  have "target host_env ''/repo'' committed_host = Some host_entry"
    by (simp add: target_def Resolve_def bind_act_def look_ok_def committed_files) (simp add: host_env_def host_entry_def give_def)
  moreover have "he_Lock host_env = None" "re_RepoID host_entry = ''repo''" by (simp_all add: host_env_def host_entry_def)
  moreover have "mlookup (dc_Assignments committed_config) ''repo'' = Some committed_assignment" by (simp add: committed_assignments mlookup_def)
  moreover have "ra_Ref committed_assignment = host_ref ''v0.1.0''" by (simp add: committed_assignment_def)
  moreover have "LoadAssignmentTransaction (Holds committed_tx) = Inr committed_tx"
    using committed_tx_valid(3) by (simp add: load_transaction_Inr) (simp add: committed_tx_def)
  moreover have "deferred_error s a committed_tx h = None" for s a h by (simp add: deferred_error_def deferred_def committed_tx_def)
  ultimately show ?thesis
    by (simp add: switch_context_Inr committed_files LoadConfig_Inr committed_valid committed_set host_verified)
qed

lemma committed_healthy: "health host_env host_entry (host_ref ''v0.1.0'') True committed_host = (Inr (), committed_host)"
proof -
  have protocol: "assignmentProtocol host_env p (host_ref ''v0.1.0'') h = (Inr 1, h)" for p h
    by (simp add: assignmentProtocol_def host_env_def sample_info_def host_ref_fields AssignmentProtocolVersion_def give_def)
  have doctor: "doctor_health host_env host_entry ref 1 h = (Inr (), h)" for ref h
    by (simp add: doctor_health_def host_env_def give_def)
  show ?thesis
    by (simp add: health_def bind_act_def verify_slot_def require_def agent_program_def agent_status_def look_ok_def committed_files host_verified
        protocol doctor guard_def)
qed

lemma reported_success_is_complete_witness: "switched ''repo'' (host_ref ''v0.1.0'') (snd (switchTo host_env ''/repo'' (host_ref ''v0.1.0'') 1 False False committed_host))"
proof -
  let ?run = "switchTo host_env ''/repo'' (host_ref ''v0.1.0'') 1 False False committed_host"
  have facts: "re_RepoID host_entry = ''repo''" "ra_Ref committed_assignment = host_ref ''v0.1.0''" "ra_Generation committed_assignment = 2"
    "at_Desired committed_tx = host_ref ''v0.1.0''" "at_ExpectedGeneration committed_tx = 1" "at_TargetGeneration committed_tx = 2"
    "at_WasLoaded committed_tx" "at_Operation committed_tx = OperationApply" "at_Phase committed_tx = AssignmentValidating" "at_RepositoryID committed_tx = ''repo''"
    by (simp_all add: host_entry_def committed_assignment_def committed_tx_def)
  have digests: "ho_Digests committed_host = ho_Digests host" by (simp add: committed_host_def)
  have digest: "ho_Digests h = ho_Digests host \<Longrightarrow> file_digest h (ar_Slot (host_ref ''v0.1.0'')) = Inr sample_digest" for h
    by (simp add: file_digest_def host_slot host_files)
  have "\<exists>report h'. ?run = (Inr (report, None), h') \<and> rp_Result report = ''succeeded''"
    by (simp add: switchTo_def bind_act_def committed_context switch_from_def Let_def unfinished_def deferred_def facts operation_of_def
        require_def finish_committed_def committed_healthy ClearMaintenance_def perform_def committed_files
        ignore_error_def attempt_def wake_def give_def SaveAssignmentTransaction_def look_def committed_tx_valid report_as_def assignmentReport_def guard_def
        LoadAssignmentTransaction_def digest digests split: option.splits)
  then obtain report h' where r: "?run = (Inr (report, None), h')" "rp_Result report = ''succeeded''" by blast
  from reported_success_is_complete [OF this] obtain entry where "target host_env ''/repo'' committed_host = Some entry"
    and "switched (re_RepoID entry) (host_ref ''v0.1.0'') h'" by blast
  moreover have "target host_env ''/repo'' committed_host = Some host_entry" using committed_context by (simp add: switch_context_Inr)
  ultimately show ?thesis using r facts(1) by simp
qed

section \<open>Interruptions that no command recovers from\<close>

text \<open>A deferral that could not lift the fence.\<close>

definition deferral_interrupted :: "Host \<Rightarrow> string \<Rightarrow> bool" where
  "deferral_interrupted h r \<longleftrightarrow> ho_Fence h r \<noteq> Missing \<and> (\<exists>tx. ho_Tx h r = Holds tx \<and> deferred tx)"

text \<open>A switch that was interrupted after it started the new program and before it committed the assignment.\<close>

definition switch_interrupted :: "Host \<Rightarrow> string \<Rightarrow> bool" where
  "switch_interrupted h r \<longleftrightarrow> (\<exists>tx a st digest. ho_Tx h r = Holds tx \<and> at_Phase tx \<in> {AssignmentApplying, AssignmentValidating}
     \<and> at_Result tx \<noteq> ''deferred'' \<and> assigned h r = Some a \<and> at_Desired tx \<noteq> ra_Ref a
     \<and> ho_Agent h r = Inr st \<and> as_Loaded st \<and> runtime_digest h r = Some digest \<and> digest \<noteq> ar_ArtifactSHA256 (ra_Ref a))"

definition wedged :: "Host \<Rightarrow> string \<Rightarrow> bool" where
  "wedged h r \<longleftrightarrow> deferral_interrupted h r \<or> switch_interrupted h r"

lemma wedged_cong:
  "ho_Tx h' r = ho_Tx h r \<Longrightarrow> ho_Fence h' r = ho_Fence h r \<Longrightarrow> ho_Config h' = ho_Config h \<Longrightarrow> ho_Agent h' r = ho_Agent h r
     \<Longrightarrow> runtime_digest h' r = runtime_digest h r \<Longrightarrow> wedged h r \<Longrightarrow> wedged h' r"
  by (simp add: wedged_def deferral_interrupted_def switch_interrupted_def assigned_def)

lemma stop_reads: "keeps (\<lambda>h'. h' = h) m \<Longrightarrow> (\<And>x. m h = (Inr x, h) \<Longrightarrow> snd (f x h) = h) \<Longrightarrow> snd (bind_act m f h) = h"
  by (rule bind_reads [where I = "\<lambda>h'. h' = h"]) simp_all

lemma wedged_runtime:
  assumes "ho_Agent h r = Inr st" and "as_Loaded st" and "runtime_digest h r = Some digest" and "digest \<noteq> ar_ArtifactSHA256 ref"
  shows "\<exists>e. legacy_runtime env r ref st h = (Inl (Failed e), h)"
  using assms by (auto simp: legacy_runtime_def runtimeAssignmentProtocol_def agent_program_def bind_act_def look_ok_def fail_with_def runtime_digest_def
      split: sum.splits)

lemma wedged_switchTo:
  assumes w: "wedged h r" and t: "\<And>e. target env p h = Some e \<Longrightarrow> re_RepoID e = r"
  shows "snd (switchTo env p desired expected rollback retryRetained h) = h"
proof -
  have "snd (switch_from env desired expected rollback retryRetained cfg entry current tx h) = h"
    if "switch_context env p h = (Inr (cfg, entry, current, tx), h)" for cfg entry current tx
  proof -
    have c: "re_RepoID entry = r" "LoadConfig (ho_Config h) = Inr cfg" "mlookup (dc_Assignments cfg) r = Some current"
        "LoadAssignmentTransaction (ho_Tx h r) = Inr tx" "deferred_error r current tx h = None"
      using that t by (auto simp: switch_context_Inr)
    have current: "assigned h r = Some current" using c by (auto simp: assigned_def LoadConfig_Inr)
    have "\<not> deferral_interrupted h r"
      using c(4,5) by (auto simp: deferral_interrupted_def load_transaction_Inr deferred_error_def)
    then obtain st digest where s: "ho_Tx h r = Holds tx" "at_Phase tx \<in> {AssignmentApplying, AssignmentValidating}" "at_Result tx \<noteq> ''deferred''"
        "at_Desired tx \<noteq> ra_Ref current" "ho_Agent h r = Inr st" "as_Loaded st" "runtime_digest h r = Some digest" "digest \<noteq> ar_ArtifactSHA256 (ra_Ref current)"
      using w c(4) current by (auto simp: wedged_def switch_interrupted_def load_transaction_Inr)
    have run: "snd (run_switch env cfg entry current tx desired rollback active h) = h" for active
    proof -
      obtain e where "legacy_runtime env r (ra_Ref current) st h = (Inl (Failed e), h)" using wedged_runtime s(5-8) by blast
      moreover have "at_Phase tx \<noteq> AssignmentRollbackFailed" using s(2) by auto
      ultimately show ?thesis
        using s(5) by (simp add: run_switch_def c(1) agent_status_def bind_act_def look_ok_def give_def)
    qed
    have phases: "at_Phase tx \<noteq> AssignmentRollingBack" using s(2) by auto
    have reported: "snd (report_as entry current ''current'' h) = h"
      by (rule reads) (rule keeps_report)
    show ?thesis
      unfolding switch_from_def Let_def
    proof (rule stop_reads [OF keeps_require], rule stop_reads [OF keeps_require], goal_cases)
      case 1
      show ?case
      proof (cases "ra_Ref current = desired")
        case True
        then have "at_Desired tx \<noteq> desired" using s(4) by simp
        then show ?thesis using True reported by simp
      next
        case False
        have "snd (bind_act (verify_slot desired) (\<lambda>_.
            bind_act (require (switch_error current tx desired rollback retryRetained (re_RepoID entry) expected (unfinished tx \<and> \<not> deferred tx))) (\<lambda>_.
            run_switch env cfg entry current tx desired rollback (unfinished tx \<and> \<not> deferred tx))) h) = h"
          by (rule stop_reads [OF reads_agent(3)], rule stop_reads [OF keeps_require], rule run)
        then show ?thesis using False phases by simp
      qed
    qed
  qed
  then show ?thesis
    using reads_context [of env p h]
    by (cases "switch_context env p h"; cases "fst (switch_context env p h)") (auto simp: switchTo_def bind_act_def)
qed

lemma wedged_RetryRollback:
  assumes w: "wedged h r" and t: "\<And>e. target env p h = Some e \<Longrightarrow> re_RepoID e = r"
  shows "snd (RetryRollback env p h) = h"
  unfolding RetryRollback_def Let_def
proof (rule stop_reads [OF keeps_require], rule stop_reads [OF reads_set], goal_cases)
  case (1 u x)
  obtain cfg repos where x: "x = (cfg, repos)" by (cases x)
  show ?case unfolding x prod.case
  proof (rule stop_reads [OF reads_Resolve], rule stop_reads [OF reads_assignment], rule stop_reads [OF reads_agent(4)], rule stop_reads [OF keeps_require], goal_cases)
    case (1 entry current tx v)
    then have "re_RepoID entry = r" "LoadAssignmentTransaction (ho_Tx h r) = Inr tx" "at_Phase tx = AssignmentRollbackFailed"
      using t by (auto simp: act_simps load_transaction_def retained_error_def)
    then show ?case using w by (auto simp: wedged_def deferral_interrupted_def switch_interrupted_def load_transaction_Inr deferred_def)
  qed
qed

text \<open>The files of the delivery of \<open>r\<close> are those of \<open>h0\<close>.\<close>

definition stuck_as :: "Host \<Rightarrow> string \<Rightarrow> Host \<Rightarrow> bool" where
  "stuck_as h0 r h \<longleftrightarrow> wedged h r \<and> ho_Tx h r = ho_Tx h0 r \<and> ho_Fence h r = ho_Fence h0 r \<and> ho_Config h = ho_Config h0
     \<and> ho_Agent h r = ho_Agent h0 r \<and> ho_Program h r = ho_Program h0 r"

lemma stuck_fates: "stuck_as h0 r h \<Longrightarrow> stuck_as h0 r (h\<lparr>ho_Fates := fs\<rparr>)"
  using wedged_cong [of "h\<lparr>ho_Fates := fs\<rparr>" r h] by (simp add: stuck_as_def)

interpretation stuck: command_invariant env p T "stuck_as h0 (repo_of s T)" for env p T s h0
proof unfold_locales
  fix h desired expected rollback retryRetained
  assume i: "stuck_as h0 (repo_of s T) h" and t: "target env p h = T"
  have w: "wedged h (repo_of s T)" "\<And>e. target env p h = Some e \<Longrightarrow> re_RepoID e = repo_of s T"
    using i t by (simp_all add: stuck_as_def repo_of_def)
  show "stuck_as h0 (repo_of s T) (snd (switchTo env p desired expected rollback retryRetained h))"
    and "stuck_as h0 (repo_of s T) (snd (RetryRollback env p h))"
    using i by (simp_all add: wedged_switchTo [OF w] wedged_RetryRollback [OF w])
qed (rule stuck_fates)


definition deferred_tx :: AssignmentTransaction where
  "deferred_tx = \<lparr>at_Version = 1, at_RepositoryID = ''repo'', at_Operation = OperationApply, at_Phase = AssignmentDraining,
     at_ExpectedGeneration = 1, at_TargetGeneration = 2, at_Current = host_ref ''v0.1.0'', at_Desired = host_ref ''v0.2.0'',
     at_WasLoaded = True, at_Result = ''deferred'', at_Reason = ''repository drain deadline reached'', at_StartedAt = 40, at_UpdatedAt = 45\<rparr>"

definition deferred_host :: Host where
  "deferred_host = host\<lparr>ho_Tx := (\<lambda>_. Holds deferred_tx),
     ho_Fence := (\<lambda>_. Holds \<lparr>mt_Version = 1, mt_Generation = ''assignment-2'', mt_Desired = version_of (host_ref ''v0.2.0''), mt_RequestedAt = 40\<rparr>)\<rparr>"


text \<open>How a repository gets there: the drain fails and the removal of the fence fails as well, whose error the source ignores.\<close>

lemma failed_deferral_wedges:
  assumes "re_RepoID entry = r" and "waitForDrain env cfg r h = (Inl (Failed e), h1)" and "ho_Fates h1 = [Completes, Fails x]"
    and "ho_Fence h1 r \<noteq> Missing" and "validateAssignmentTransaction tx = None" and "at_Phase tx = AssignmentDraining"
    and "validateAssignmentTransaction (tx\<lparr>at_Result := lit ''deferred'', at_Reason := error_text e\<rparr>) = None"
  shows "wedged (snd (drain_repository env cfg entry current tx False h)) r"
  using assms
  by (simp add: drain_repository_def Let_def otherwise_def bind_act_def attempt_def ignore_error_def SaveAssignmentTransaction_def require_def look_def
      perform_def give_def ClearMaintenance_def reportWithTransaction_def wedged_def deferral_interrupted_def deferred_def lit_def)

text \<open>Or the write that records the validation fails after the new program has been started.\<close>

lemma failed_record_wedges:
  assumes entry: "re_RepoID entry = r" "IsAbs (re_RepoPath entry)"
    and fates: "ho_Fates h = [Completes, Completes, Completes, Fails x]" and assigned: "assigned h r = Some current"
    and stopped: "ho_Agent h r = Inr st" "\<not> as_Loaded st" "as_Loaded (he_Booted env r)"
    and tx: "at_WasLoaded tx" "at_Desired tx \<noteq> ra_Ref current" "\<And>p s. validateAssignmentTransaction (tx\<lparr>at_Phase := p, at_Result := s\<rparr>) = None"
    and desired: "IsAbs (ar_Slot (at_Desired tx))" "file_digest h (ar_Slot (at_Desired tx)) = Inr digest" "digest \<noteq> ar_ArtifactSHA256 (ra_Ref current)"
  shows "wedged (snd (apply_switch env cfg entry current tx True h)) r"
proof -
  have "path_Clean (path_Clean (ar_Slot (at_Desired tx))) = path_Clean (ar_Slot (at_Desired tx))"
    using desired(1) by (rule path_Clean_idem)
  then show ?thesis
    using assms
    by (simp add: apply_switch_def Let_def or_roll_back_def otherwise_def bind_act_def attempt_def SaveAssignmentTransaction_def require_def look_def
        perform_def give_def WritePlist_def Start_def agent_status_def look_ok_def guard_def wedged_def switch_interrupted_def runtime_digest_def
        file_digest_def assigned_def lit_def)
qed

end
