(* ===== verification/Loop.thy ===== *)
theory Loop
  imports Scheduler Mailbox Traces
begin

text \<open>
  The supervisor's \<open>Loop\<close> (\<open>internal/application/supervisor\<close>: \<open>supervisor.go\<close>, \<open>progress.go\<close>) as a computation. Its methods
  read and update the durable state, call GitHub, git and the worker, and run beside other goroutines and the command
  line. A computation is a function from a \<open>World\<close> to a failure or a value, and the world it leaves. Every interaction has a number; what the
  surroundings answer, what the clock and the random source give, and what others did to the disk since the last interaction are
  functions of that number and so arbitrary. The world records, in order, the changes asked of GitHub and the updates committed. A nil
  dereference inside a mutation, which ends the process in the source, is a failure of the update here. The stages named in milestones of comments are
  Japanese words in the source.
\<close>

section \<open>What is observed\<close>

record PullRequest =
  pr_Number :: int
  pr_URL :: string
  pr_State :: string
  pr_IsDraft :: bool
  pr_MergedAt :: "time option"
  pr_HeadRefName :: string
  pr_BaseRefName :: string
  pr_MergeStateStatus :: string
  pr_ChecksStatus :: string
  pr_ReviewDecision :: string
  pr_HeadSHA :: string
  pr_MergeSHA :: string
  pr_MergeCommitSHA :: string
  pr_HeadRepository :: string

definition zero_PullRequest :: PullRequest where
  "zero_PullRequest = \<lparr>pr_Number = 0, pr_URL = '''', pr_State = '''', pr_IsDraft = False, pr_MergedAt = None, pr_HeadRefName = '''',
     pr_BaseRefName = '''', pr_MergeStateStatus = '''', pr_ChecksStatus = '''', pr_ReviewDecision = '''', pr_HeadSHA = '''',
     pr_MergeSHA = '''', pr_MergeCommitSHA = '''', pr_HeadRepository = ''''\<rparr>"

record RemoteState =
  rs_Issue :: GHIssue
  rs_PullRequests :: "PullRequest list"

record Inspection =
  ins_Exists :: bool
  ins_Valid :: bool
  ins_Branch :: string
  ins_Head :: string
  ins_RemoteHead :: string
  ins_Dirty :: bool
  ins_UnpushedCommits :: bool
  ins_LocalBranchExists :: bool
  ins_RemoteBranchExists :: bool
  ins_RemoteConsistent :: bool

text \<open>The map \<open>Checks\<close> of a launch validation goes to the payload of an event only.\<close>

record LaunchValidation =
  lv_Valid :: bool
  lv_ExpectedCWD :: string
  lv_CanonicalCWD :: string
  lv_TopLevel :: string
  lv_Branch :: string
  lv_CommonDir :: string
  lv_MainCheckout :: string

record GitResult =
  git_Branch :: string
  git_Commit :: string
  git_PullRequestURL :: string

record Question =
  qu_Text :: string
  qu_Reason :: string
  qu_RecommendedOption :: string
  qu_Options :: "RequestOption list"
  qu_AllowFreeText :: bool

record Test =
  test_Command :: string
  test_Result :: string

record WorkerResult =
  wr_Status :: string
  wr_ExecutionProfile :: string
  wr_Summary :: string
  wr_Question :: "Question option"
  wr_Tests :: "Test list"
  wr_Git :: "GitResult option"
  wr_Retry :: "string option"
  wr_SessionID :: string
  wr_Identity :: WorkerIdentity

definition zero_WorkerIdentity :: WorkerIdentity where
  "zero_WorkerIdentity = \<lparr>wid_Backend = '''', wid_RuntimeVersion = '''', wid_Provider = '''', wid_RequestedModel = '''',
     wid_ResolvedModel = '''', wid_Variant = ''''\<rparr>"

definition zero_WorkerResult :: WorkerResult where
  "zero_WorkerResult = \<lparr>wr_Status = '''', wr_ExecutionProfile = '''', wr_Summary = '''', wr_Question = None, wr_Tests = [],
     wr_Git = None, wr_Retry = None, wr_SessionID = '''', wr_Identity = zero_WorkerIdentity\<rparr>"

record ProcessStart =
  ps_PID :: int
  ps_PGID :: int
  ps_ExpectedCWD :: string
  ps_ActualCWD :: string

text \<open>A run of the worker: whether it reported a process, and how it ended.\<close>

record WorkerRun =
  run_Start :: "ProcessStart option"
  run_Result :: WorkerResult
  run_Error :: "string option"

text \<open>A comment with a command for the supervisor.\<close>

record InputComment =
  ic_ID :: int
  ic_Body :: string
  ic_ActorID :: int
  ic_Actor :: string
  ic_ActorType :: string
  ic_CreatedAt :: time
  ic_UpdatedAt :: time

record Preparation =
  prep_PreviousBaseSHA :: string
  prep_TargetBaseSHA :: string
  prep_OriginalHeadSHA :: string
  prep_ConflictFiles :: "string list"
  prep_AllowedPaths :: "string list"
  prep_OriginalDiff :: string
  prep_BaseCommits :: string
  prep_ConflictContent :: string
  prep_Resolved :: bool
  prep_Published :: bool
  prep_Commit :: string

text \<open>An error of the conflict manager is or is not a \<open>NonRecoverableError\<close>.\<close>

datatype conflict_error = NonRecoverable string | RecoverableConflict failure

section \<open>The loop and its surroundings\<close>

text \<open>Calls that change something outside: on GitHub, on the branch, among the processes. The bodies of comments are not modelled.\<close>

datatype gh_call =
    MarkDone int string
  | MarkRunning int
  | MarkNeedsInput int string string
  | SyncInputRequest Request
  | MarkConflictRetry int string
  | MarkFailed int string bool
  | ClosePullRequest string
  | ReconcileIssue int Status bool
  | UpdatePullRequest string
  | ReadyPullRequest string
  | MergePullRequest string
  | Claim int string
  | CommentProgress int string
  | PublishWork int
  | PublishConflict int
  | SpawnWorker int string string
  | AcknowledgeInput int string int string
  | SignalGroup int bool

record Readings =
  rd_Now :: "nat \<Rightarrow> time"
  rd_Entropy :: "nat \<Rightarrow> Entropy"

record Loop =
  lp_Store :: Store
  lp_GitHub :: GitHubConfig
  lp_CloseIssue :: bool
  lp_AutoMerge :: bool
  lp_RepositoryID :: int
  lp_RepoPath :: string
  lp_BaseBranch :: string
  lp_PollInterval :: int
  lp_MaxAttempts :: int
  lp_MaxContinuations :: int
  lp_Backend :: string
  lp_Webhook :: bool
  lp_SweepInterval :: int
  lp_MaxBaseUpdates :: int
  lp_MaxAttemptsPerBase :: int
  lp_Identity :: WorkerIdentity
  lp_HasWorktrees :: bool
  lp_HasPublisher :: bool
  lp_HasConflicts :: bool
  lp_HasInputControl :: bool
  lp_HasComments :: bool
  lp_Others :: "nat \<Rightarrow> Disk \<Rightarrow> Disk"
  lp_Ambient :: "nat \<Rightarrow> Ambient"
  lp_Draws :: "nat \<Rightarrow> Draws"
  lp_Clock :: "nat \<Rightarrow> nat \<Rightarrow> time"
  lp_Random :: "nat \<Rightarrow> nat \<Rightarrow> Entropy"
  lp_Scaled :: "nat \<Rightarrow> int \<Rightarrow> int"
  lp_TimeText :: "time \<Rightarrow> string"
  lp_Sha256 :: "string \<Rightarrow> string"
  lp_Answer :: "nat \<Rightarrow> gh_call \<Rightarrow> failure option"
  lp_CommentGate :: "nat \<Rightarrow> failure option"
  lp_Targeted :: "nat \<Rightarrow> failure + bool"
  lp_Get :: "nat \<Rightarrow> int \<Rightarrow> failure + GHIssue"
  lp_GetREST :: "nat \<Rightarrow> int \<Rightarrow> failure + GHIssue"
  lp_Inspect :: "nat \<Rightarrow> int \<Rightarrow> string \<Rightarrow> failure + RemoteState"
  lp_InspectREST :: "nat \<Rightarrow> int \<Rightarrow> int \<Rightarrow> string \<Rightarrow> failure + RemoteState"
  lp_Worktree :: "nat \<Rightarrow> string \<Rightarrow> string \<Rightarrow> failure + Inspection"
  lp_Ensure :: "nat \<Rightarrow> int \<Rightarrow> string \<Rightarrow> string \<Rightarrow> failure + string \<times> string"
  lp_ValidateLaunch :: "nat \<Rightarrow> string \<Rightarrow> string \<Rightarrow> LaunchValidation \<times> failure option"
  lp_Digest :: "nat \<Rightarrow> string \<Rightarrow> failure + string"
  lp_Worker :: "nat \<Rightarrow> WorkerRun"
  lp_Published :: "nat \<Rightarrow> GitResult \<times> Audit \<times> publish_error option"
  lp_SavedResult :: "nat \<Rightarrow> string \<Rightarrow> failure + string \<times> string"
  lp_Prepare :: "nat \<Rightarrow> ConflictRecovery option \<Rightarrow> conflict_error + Preparation"
  lp_ConflictPublished :: "nat \<Rightarrow> conflict_error + string"
  lp_Author :: "nat \<Rightarrow> AuthorVerification \<times> failure option"
  lp_BaseSHA :: "nat \<Rightarrow> string"
  lp_Redact :: "string \<Rightarrow> string"
  lp_Comments :: "nat \<Rightarrow> int \<Rightarrow> failure + InputComment list"
  lp_Actor :: "nat \<Rightarrow> InputComment \<Rightarrow> failure + AuthorVerification"
  lp_Alive :: "nat \<Rightarrow> int \<Rightarrow> bool"
  lp_GroupAlive :: "nat \<Rightarrow> int \<Rightarrow> bool"
  lp_OwnsGroup :: "nat \<Rightarrow> int \<Rightarrow> int \<Rightarrow> bool"

datatype event = Called gh_call bool | Committed string int Snapshot Snapshot | AnswerTaken string string "AnswerProvenance option"

record World =
  wo_Disk :: Disk
  wo_Step :: nat
  wo_Trace :: "event list"

type_synonym ('e, 'a) run = "World \<Rightarrow> ('e + 'a) \<times> World"
type_synonym 'a job = "(failure, 'a) run"

section \<open>Composition\<close>

definition ret :: "'a \<Rightarrow> ('e, 'a) run" where
  "ret x w = (Inr x, w)"

definition throw :: "'e \<Rightarrow> ('e, 'a) run" where
  "throw e w = (Inl e, w)"

text \<open>\<open>x, err := m; if err != nil { return handler(err) }; f(x)\<close>.\<close>

definition on_error :: "('e, 'a) run \<Rightarrow> ('e \<Rightarrow> ('d, 'b) run) \<Rightarrow> ('a \<Rightarrow> ('d, 'b) run) \<Rightarrow> ('d, 'b) run" where
  "on_error m handler f w = (case m w of (Inl e, w) \<Rightarrow> handler e w | (Inr x, w) \<Rightarrow> f x w)"

definition seq :: "('e, 'a) run \<Rightarrow> ('a \<Rightarrow> ('e, 'b) run) \<Rightarrow> ('e, 'b) run" where
  "seq m f = on_error m throw f"

definition wrap_job :: "FailureKind \<Rightarrow> string \<Rightarrow> 'a job \<Rightarrow> 'a job" where
  "wrap_job kind operation m = on_error m (\<lambda>e. throw (WrapFailure kind operation e)) ret"

text \<open>\<open>for _, x := range xs { if err := f(x); err != nil { return err } }\<close>.\<close>

fun for_jobs :: "('a \<Rightarrow> ('e, unit) run) \<Rightarrow> 'a list \<Rightarrow> ('e, unit) run" where
  "for_jobs f [] = ret ()"
| "for_jobs f (x # xs) = seq (f x) (\<lambda>_. for_jobs f xs)"

text \<open>A decision of the domain, wrapped when it fails.\<close>

definition decide :: "string \<Rightarrow> go_error + 'a \<Rightarrow> 'a job" where
  "decide operation d = (case d of Inl e \<Rightarrow> throw (WrapFailure IssueFailure operation (store_failure e)) | Inr x \<Rightarrow> ret x)"

definition advance :: "World \<Rightarrow> World" where
  "advance w = w\<lparr>wo_Step := Suc (wo_Step w)\<rparr>"

text \<open>A reading of the surroundings.\<close>

definition observe :: "(nat \<Rightarrow> 'e + 'a) \<Rightarrow> ('e, 'a) run" where
  "observe f w = (f (wo_Step w), advance w)"

definition read_clock :: "Loop \<Rightarrow> ('e, time) run" where
  "read_clock l = observe (\<lambda>k. Inr (UTC (lp_Clock l k 0)))"

definition new_id :: "Loop \<Rightarrow> string \<Rightarrow> ('e, string) run" where
  "new_id l prefix' = observe (\<lambda>k. Inr (NewID prefix' (lp_Random l k 0)))"

text \<open>\<open>Error()\<close> of a chain.\<close>

fun failure_text :: "failure \<Rightarrow> string" where
  "failure_text (Cause m) = m"
| "failure_text (Context m e) = m @ failure_text e"
| "failure_text (Classified k operation e) = (if operation = '''' then failure_text e else operation @ '': '' @ failure_text e)"
| "failure_text (Limited r e) = failure_text e"
| "failure_text (Scoped n e) = failure_text e"

text \<open>A change asked of the outside. What is done before a failure is reported is up to the outside.\<close>

definition call_out :: "Loop \<Rightarrow> gh_call \<Rightarrow> unit job" where
  "call_out l c w = (let r = lp_Answer l (wo_Step w) c in
     (case r of None \<Rightarrow> Inr () | Some e \<Rightarrow> Inl e, (advance w)\<lparr>wo_Trace := wo_Trace w @ [Called c (r = None)]\<rparr>))"

text \<open>A change whose result carries more than an error.\<close>

definition perform_call :: "gh_call \<Rightarrow> (nat \<Rightarrow> 'a) \<Rightarrow> ('a \<Rightarrow> bool) \<Rightarrow> ('e, 'a) run" where
  "perform_call c f succeeded w = (let r = f (wo_Step w) in
     (Inr r, (advance w)\<lparr>wo_Trace := wo_Trace w @ [Called c (succeeded r)]\<rparr>))"

section \<open>The durable state\<close>

definition load_snapshot :: "Loop \<Rightarrow> (go_error, Snapshot) run" where
  "load_snapshot l w = (case Load (lp_Store l) (lp_Ambient l (wo_Step w)) (lp_Others l (wo_Step w) (wo_Disk w)) of
     (r, d) \<Rightarrow> (r, (advance w)\<lparr>wo_Disk := d\<rparr>))"

definition readings :: "Loop \<Rightarrow> nat \<Rightarrow> Readings" where
  "readings l k = \<lparr>rd_Now = (\<lambda>i. UTC (lp_Clock l k i)), rd_Entropy = lp_Random l k\<rparr>"

text \<open>The snapshot a mutation gets.\<close>

definition before_update :: "Loop \<Rightarrow> World \<Rightarrow> Snapshot option" where
  "before_update l w =
     (case fst (recoverUnlocked (lp_Store l) (dr_Recover (lp_Draws l (wo_Step w))) (lp_Others l (wo_Step w) (wo_Disk w))) of
        Inl _ \<Rightarrow> None | Inr s \<Rightarrow> Some (Normalize s))"

definition committed_event :: "Loop \<Rightarrow> string \<Rightarrow> int \<Rightarrow> go_error + Snapshot \<Rightarrow> World \<Rightarrow> event list" where
  "committed_event l eventType number r w = (case (r, before_update l w) of
     (Inr after, Some before) \<Rightarrow> [Committed eventType number before after] | _ \<Rightarrow> [])"

definition update_snapshot ::
  "Loop \<Rightarrow> string \<Rightarrow> int \<Rightarrow> string \<Rightarrow> string \<Rightarrow> (Readings \<Rightarrow> Snapshot \<Rightarrow> go_error + Snapshot) \<Rightarrow> (go_error, Snapshot) run" where
  "update_snapshot l eventType number runID payload mutate w =
     (let k = wo_Step w in
      case Update (lp_Store l) (lp_Draws l k) eventType number runID (CallerPayload payload) (mutate (readings l k))
             (lp_Others l k (wo_Disk w)) of
        (r, d) \<Rightarrow> (r, (advance w)\<lparr>wo_Disk := d, wo_Trace := wo_Trace w @ committed_event l eventType number r w\<rparr>))"

text \<open>\<open>failure.Wrap(failure.Supervisor, operation, err)\<close> of a store operation, and its error as it is.\<close>

definition persist :: "string \<Rightarrow> (go_error, 'a) run \<Rightarrow> 'a job" where
  "persist operation m = on_error m (\<lambda>e. throw (WrapFailure SupervisorFailure operation (store_failure e))) ret"

definition unwrapped :: "(go_error, 'a) run \<Rightarrow> 'a job" where
  "unwrapped m = on_error m (\<lambda>e. throw (store_failure e)) ret"

definition issueState :: "Loop \<Rightarrow> int \<Rightarrow> Issue job" where
  "issueState l number = seq (persist ''load durable state'' (load_snapshot l)) (\<lambda>s. case issue_at s number of
     None \<Rightarrow> throw (WrapFailure IssueFailure ''load Issue state'' (Cause (''Issue #'' @ Itoa number @ '' is missing from state'')))
   | Some item \<Rightarrow> ret item)"

section \<open>Mutations\<close>

text \<open>\<open>item := s.Issues[strconv.Itoa(number)]\<close> and writes through \<open>item\<close>.\<close>

definition edit :: "int \<Rightarrow> (Issue \<Rightarrow> Issue) \<Rightarrow> Snapshot \<Rightarrow> go_error + Snapshot" where
  "edit number f s = (case issue_at s number of None \<Rightarrow> Inl NilPointerPanic | Some item \<Rightarrow> Inr (put_issue number (f item) s))"

definition check_that :: "bool \<Rightarrow> piece list \<Rightarrow> Snapshot \<Rightarrow> go_error + Snapshot" where
  "check_that p ps s = (if p then Inr s else Inl (Errorf ps))"

text \<open>\<open>SetEffect(s, item.Number, item.RunID, kind, now)\<close>.\<close>

definition set_item_effect :: "int \<Rightarrow> Entropy \<Rightarrow> EffectKind \<Rightarrow> time \<Rightarrow> Snapshot \<Rightarrow> go_error + Snapshot" where
  "set_item_effect number entropy kind now s = (case issue_at s number of
     None \<Rightarrow> Inl NilPointerPanic | Some item \<Rightarrow> SetEffect entropy (iss_Number item) (iss_RunID item) kind now s)"

definition issue_identity :: "Issue \<Rightarrow> ExecutionIdentity" where
  "issue_identity i = \<lparr>exi_RunID = iss_RunID i, exi_Generation = iss_Generation i\<rparr>"

text \<open>\<open>if state.OwnsActiveExecution(s, number, identity) { if err := f(s); err != nil { return err } }\<close>.\<close>

definition if_owner :: "int \<Rightarrow> ExecutionIdentity \<Rightarrow> (Snapshot \<Rightarrow> go_error + Snapshot) \<Rightarrow> Snapshot \<Rightarrow> go_error + Snapshot" where
  "if_owner number identity f s = (if OwnsActiveExecution s number identity then f s else Inr s)"

section \<open>Reading GitHub\<close>

text \<open>\<open>strings.TrimRight(value, "/")\<close> and the last two parts.\<close>

definition trim_slashes :: "string \<Rightarrow> string" where
  "trim_slashes s = rev (dropWhile (\<lambda>c. c = CHR ''/'') (rev s))"

fun split_slashes :: "string \<Rightarrow> string list" where
  "split_slashes [] = [[]]"
| "split_slashes (c # cs) = (case split_slashes cs of
     p # ps \<Rightarrow> if c = CHR ''/'' then [] # p # ps else (c # p) # ps | [] \<Rightarrow> [[c]])"

definition pullRequestNumber :: "string \<Rightarrow> int" where
  "pullRequestNumber value = (case rev (split_slashes (trim_slashes value)) of
     number # kind # _ \<Rightarrow> if kind \<noteq> ''pull'' then 0 else fst (Atoi number)
   | _ \<Rightarrow> 0)"

definition getIssue :: "Loop \<Rightarrow> int \<Rightarrow> GHIssue job" where
  "getIssue l number =
     (if lp_Webhook l then seq (observe (lp_Targeted l)) (\<lambda>targeted.
        if targeted then observe (\<lambda>k. lp_GetREST l k number) else observe (\<lambda>k. lp_Get l k number))
      else observe (\<lambda>k. lp_Get l k number))"

definition inspect_targeted :: "Loop \<Rightarrow> Issue \<Rightarrow> RemoteState job" where
  "inspect_targeted l current =
     (let number = (if iss_PullRequestNumber current = 0 then pullRequestNumber (iss_PullRequestURL current) else iss_PullRequestNumber current) in
      if number > 0 then observe (\<lambda>k. lp_InspectREST l k (iss_Number current) number (iss_HeadSHA current))
      else seq (observe (\<lambda>k. lp_GetREST l k (iss_Number current))) (\<lambda>issue. ret \<lparr>rs_Issue = issue, rs_PullRequests = []\<rparr>))"

definition inspectIssue :: "Loop \<Rightarrow> Issue \<Rightarrow> RemoteState job" where
  "inspectIssue l current =
     (let whole = observe (\<lambda>k. lp_Inspect l k (iss_Number current) (iss_Branch current)) in
      if lp_Webhook l then seq (observe (lp_Targeted l)) (\<lambda>targeted. if targeted then inspect_targeted l current else whole)
      else whole)"

section \<open>Retries and comments\<close>

definition canResume :: "Loop \<Rightarrow> Issue \<Rightarrow> bool" where
  "canResume l current \<longleftrightarrow> iss_SessionID current \<noteq> ''''
     \<and> (let backend = (if lp_Backend l = '''' then ''codex'' else lp_Backend l) in
        case iss_Session current of None \<Rightarrow> backend = ''codex''
        | Some session \<Rightarrow> ses_ID session = iss_SessionID current \<and> ses_Backend session = backend)"

definition retryBudget :: "Loop \<Rightarrow> Issue \<Rightarrow> RetryBudget" where
  "retryBudget l issue = \<lparr>rb_Extended = (iss_ExecutionProfile issue = ''extended''), rb_Resumable = canResume l issue,
     rb_Attempts = iss_Attempts issue, rb_MaxAttempts = lp_MaxAttempts l,
     rb_Continuations = iss_Continuations issue, rb_MaxContinuations = lp_MaxContinuations l\<rparr>"

definition retry_delay :: "Loop \<Rightarrow> int \<Rightarrow> ('e, int) run" where
  "retry_delay l attempt = observe (\<lambda>k. Inr (retryDelay (lp_Scaled l k) attempt))"

definition comment_key :: "Issue \<Rightarrow> string \<Rightarrow> string" where
  "comment_key current milestone = iss_RunID current @ '':'' @ Itoa (uint (iss_Generation current)) @ '':'' @ Itoa (iss_Attempts current)
     @ '':'' @ Itoa (iss_Continuations current) @ '':'' @ iss_HeadSHA current @ '':'' @ milestone"

definition commentProgress :: "Loop \<Rightarrow> Issue \<Rightarrow> string \<Rightarrow> unit job" where
  "commentProgress l current milestone =
     on_error (observe (\<lambda>k. case lp_CommentGate l k of Some e \<Rightarrow> Inl e | None \<Rightarrow> Inr ())) (\<lambda>e. ret ()) (\<lambda>_.
       if lp_HasComments l
       then on_error (call_out l (CommentProgress (iss_Number current) (comment_key current milestone))) (\<lambda>e. ret ()) ret
       else ret ())"

definition commentPublication :: "Loop \<Rightarrow> Issue \<Rightarrow> string \<Rightarrow> string \<Rightarrow> unit job" where
  "commentPublication l current prURL head =
     (if prURL = '''' then ret () else commentProgress l current (''published:'' @ prURL @ '':'' @ head))"

definition commentRetry :: "Loop \<Rightarrow> Issue \<Rightarrow> time \<Rightarrow> unit job" where
  "commentRetry l current retryAt = commentProgress l current (''retry:'' @ lp_TimeText l retryAt)"

definition commentResume :: "Loop \<Rightarrow> Issue \<Rightarrow> string \<Rightarrow> unit job" where
  "commentResume l current stage = commentProgress l current (''resumed:''
     @ (case iss_Continuation current of None \<Rightarrow> '''' | Some c \<Rightarrow> ckpt_ID c)
     @ (case iss_Suspension current of None \<Rightarrow> '''' | Some sp \<Rightarrow> '':'' @ susp_ID sp) @ '':'' @ stage)"

end
