(* ===== verification/GitHubSync.thy ===== *)
theory GitHubSync
  imports Loop
begin

text \<open>
  \<open>internal/application/supervisor/github_sync_lifecycle.go\<close> and \<open>internal/adapter/github/adoption.go\<close>: carrying a pending
  effect out on GitHub. The effect is read from the durable state, checked against what GitHub and the worktree show, carried out, followed by
  the projection of the Issue, and only then cleared. The source takes any pending request of the Issue; the model takes the first of
  its map. A digest in hexadecimal is the parameter \<open>lp_Sha256\<close>.
\<close>

section \<open>A merged Pull Request\<close>

record MergedPullRequestExpectation =
  mpe_IssueNumber :: int
  mpe_PreviousStatus :: Status
  mpe_Branch :: string
  mpe_BaseBranch :: string
  mpe_HeadSHA :: string
  mpe_PullRequestURL :: string
  mpe_PullRequestNumber :: int
  mpe_MergeCommitSHA :: string
  mpe_AllowDone :: bool

definition merged_publication :: "GitHubConfig \<Rightarrow> MergedPullRequestExpectation \<Rightarrow> PullRequest \<Rightarrow> bool" where
  "merged_publication cfg expected pr \<longleftrightarrow> pr_Number pr > 0 \<and> pr_URL pr \<noteq> '''' \<and> pr_MergedAt pr \<noteq> None
     \<and> EqualFold (pr_State pr) ''merged'' \<and> pr_HeadRefName pr = mpe_Branch expected \<and> pr_BaseRefName pr = mpe_BaseBranch expected
     \<and> pr_HeadSHA pr = mpe_HeadSHA expected \<and> pr_MergeCommitSHA pr \<noteq> '''' \<and> EqualFold (pr_HeadRepository pr) (gc_Repo cfg)"

definition merged_identity_error :: "GitHubConfig \<Rightarrow> MergedPullRequestExpectation \<Rightarrow> PullRequest \<Rightarrow> go_error option" where
  "merged_identity_error cfg expected pr = first_error
     [guard (\<not> merged_publication cfg expected pr) [Lit ''Issue #'', Num (mpe_IssueNumber expected),
        Lit '' Pull Request is not the authoritative merged publication for the saved branch and head''],
      guard (mpe_PullRequestURL expected \<noteq> '''' \<and> pr_URL pr \<noteq> mpe_PullRequestURL expected)
        [Lit ''Issue #'', Num (mpe_IssueNumber expected), Lit '' merged Pull Request URL changed''],
      guard (mpe_PullRequestNumber expected > 0 \<and> pr_Number pr \<noteq> mpe_PullRequestNumber expected)
        [Lit ''Issue #'', Num (mpe_IssueNumber expected), Lit '' merged Pull Request number changed''],
      guard (mpe_MergeCommitSHA expected \<noteq> '''' \<and> pr_MergeCommitSHA pr \<noteq> mpe_MergeCommitSHA expected)
        [Lit ''Issue #'', Num (mpe_IssueNumber expected), Lit '' merged Pull Request commit changed'']]"

definition ValidateMergedPullRequest :: "GitHubConfig \<Rightarrow> RemoteState \<Rightarrow> MergedPullRequestExpectation \<Rightarrow> go_error + PullRequest" where
  "ValidateMergedPullRequest cfg remote expected =
     (case first_error
        [guard (mpe_IssueNumber expected \<le> 0 \<or> mpe_Branch expected = '''' \<or> mpe_BaseBranch expected = '''' \<or> mpe_HeadSHA expected = '''')
           [Lit ''merged Pull Request adoption expectation is incomplete''],
         guard (mpe_PreviousStatus expected \<noteq> StatusBlocked \<and> mpe_PreviousStatus expected \<noteq> StatusFailed)
           [Lit ''Issue #'', Num (mpe_IssueNumber expected), Lit '' previous status '',
            Quo (Status_String (mpe_PreviousStatus expected)), Lit '' is not an adoptable terminal state''],
         guard (\<not> EqualFold (gh_State (rs_Issue remote)) ''open'' \<and> \<not> EqualFold (gh_State (rs_Issue remote)) ''closed'')
           [Lit ''Issue #'', Num (mpe_IssueNumber expected), Lit '' returned unknown GitHub state '', Quo (gh_State (rs_Issue remote))]] of
        Some e \<Rightarrow> Inl e
      | None \<Rightarrow> (case rs_PullRequests remote of
          [pr] \<Rightarrow> (case merged_identity_error cfg expected pr of Some e \<Rightarrow> Inl e | None \<Rightarrow> Inr pr)
        | _ \<Rightarrow> Inl (Errorf [Lit ''Issue #'', Num (mpe_IssueNumber expected), Lit '' saved branch must have exactly one Pull Request''])))"

section \<open>Checks before a resolution is announced\<close>

definition pendingGenericAdoption :: "Issue \<Rightarrow> bool" where
  "pendingGenericAdoption issue \<longleftrightarrow> iss_Status issue = StatusCompleted \<and> iss_PullRequestMerged issue
     \<and> (case (iss_Continuation issue, iss_Suspension issue) of
          (Some c, Some sp) \<Rightarrow> susp_Status sp = SuspensionResolved \<and> susp_Resolution sp = ResolutionAdoptPR \<and> susp_CheckpointID sp = ckpt_ID c
        | _ \<Rightarrow> False)"

text \<open>\<open>strings.Contains\<close>.\<close>

fun string_contains :: "string \<Rightarrow> string \<Rightarrow> bool" where
  "string_contains [] part \<longleftrightarrow> part = []"
| "string_contains (c # cs) part \<longleftrightarrow> prefix part (c # cs) \<or> string_contains cs part"

definition commentMarkerCount :: "string list \<Rightarrow> string \<Rightarrow> nat" where
  "commentMarkerCount comments marker = length (filter (\<lambda>c. string_contains c marker) comments)"

definition request_marker :: "string \<Rightarrow> string" where
  "request_marker requestID = ''<!-- codex-issue-loop:request:'' @ requestID @ '' -->''"

definition failed_marker :: "int \<Rightarrow> string" where
  "failed_marker number = ''<!-- codex-issue-loop:failed:'' @ Itoa number @ '' -->''"

definition failure_marker :: "Loop \<Rightarrow> string \<Rightarrow> string" where
  "failure_marker l lastError = ''<!-- codex-issue-loop:failure:'' @ take 16 (lp_Sha256 l lastError) @ '' -->''"

definition answered_evidence_intact :: "Loop \<Rightarrow> Issue \<Rightarrow> ContinuationCheckpoint \<Rightarrow> RemoteState \<Rightarrow> bool" where
  "answered_evidence_intact l issue checkpoint remote \<longleftrightarrow>
     (let comments = gh_Comments (rs_Issue remote) in
      ckpt_RequestID checkpoint \<noteq> ''''
      \<and> length (filter (\<lambda>answer. ans_RequestID answer = ckpt_RequestID checkpoint) (iss_Answers issue)) = 1
      \<and> commentMarkerCount comments (request_marker (ckpt_RequestID checkpoint)) = 1
      \<and> commentMarkerCount comments (failed_marker (iss_Number issue)) = 1
      \<and> commentMarkerCount comments (failure_marker l (iss_LastError issue)) = 1)"

definition open_unmerged :: "PullRequest \<Rightarrow> bool" where
  "open_unmerged pr \<longleftrightarrow> EqualFold (pr_State pr) ''open'' \<and> pr_MergedAt pr = None"

text \<open>The Pull Request the resolution relies on.\<close>

definition resolution_pull_request :: "Issue \<Rightarrow> ContinuationCheckpoint \<Rightarrow> RemoteState \<Rightarrow> string option" where
  "resolution_pull_request issue checkpoint remote =
     (if iss_PullRequestURL issue = '''' then
        (if \<exists>pr \<in> set (rs_PullRequests remote). open_unmerged pr then Some (lit ''a Pull Request appeared after planning'') else None)
      else case rs_PullRequests remote of
        [pr] \<Rightarrow>
          if pr_URL pr \<noteq> iss_PullRequestURL issue \<or> pr_Number pr \<noteq> iss_PullRequestNumber issue \<or> pr_HeadRefName pr \<noteq> iss_Branch issue
             \<or> \<not> open_unmerged pr
          then Some (lit ''saved Pull Request identity changed'')
          else if ckpt_Stage checkpoint = ContinuationStageChecks
             \<and> (pr_HeadSHA pr = '''' \<or> pr_HeadSHA pr \<noteq> iss_HeadSHA issue \<or> pr_ChecksStatus pr \<noteq> ''pending'' \<and> pr_ChecksStatus pr \<noteq> ''success'')
          then Some (lit ''repaired Pull Request head or checks changed'')
          else None
      | _ \<Rightarrow> Some (lit ''saved Pull Request count changed''))"

definition refused :: "string \<Rightarrow> failure" where
  "refused reason = Cause (''refuse Issue resolution synchronization: '' @ reason)"

definition validateIssueResolutionSync :: "Loop \<Rightarrow> Issue \<Rightarrow> RemoteState \<Rightarrow> ContinuationCheckpoint job" where
  "validateIssueResolutionSync l issue remote =
     on_error (load_snapshot l) (\<lambda>e. throw (refused ''continuation authority changed'')) (\<lambda>s.
       case iss_Continuation issue of
         None \<Rightarrow> throw (refused ''continuation authority changed'')
       | Some checkpoint \<Rightarrow>
         if \<not> OwnsActiveExecution s (iss_Number issue) (issue_identity issue) then throw (refused ''continuation authority changed'')
         else if ckpt_Kind checkpoint = ContinuationKindNeedsInput \<and> \<not> answered_evidence_intact l issue checkpoint remote
         then throw (refused ''answered checkpoint evidence changed'')
         else case resolution_pull_request issue checkpoint remote of
           Some reason \<Rightarrow> throw (refused reason) | None \<Rightarrow> ret checkpoint)"

section \<open>The projection\<close>

definition state_changed :: failure where
  "state_changed = Cause (lit ''durable Issue state changed during reconciliation'')"

definition project_issue :: "Loop \<Rightarrow> int \<Rightarrow> Snapshot \<Rightarrow> Status \<Rightarrow> unit job" where
  "project_issue l number snapshot status =
     seq (wrap_job Transient ''reconcile GitHub Issue projection''
            (call_out l (ReconcileIssue number status (NeedsHuman snapshot number (lp_AutoMerge l))))) (\<lambda>_.
     seq (unwrapped (load_snapshot l)) (\<lambda>latest.
       if issue_at snapshot number \<noteq> issue_at latest number
         \<or> ptr_at (snap_QuarantinedIssues snapshot) (Itoa number) \<noteq> ptr_at (snap_QuarantinedIssues latest) (Itoa number)
       then throw state_changed else ret ()))"

definition reconcileIssueProjection :: "Loop \<Rightarrow> int \<Rightarrow> unit job" where
  "reconcileIssueProjection l number =
     seq (unwrapped (load_snapshot l)) (\<lambda>snapshot.
       case (issue_at snapshot number, ptr_at (snap_QuarantinedIssues snapshot) (Itoa number)) of
         (None, None) \<Rightarrow> ret ()
       | (None, Some _) \<Rightarrow> project_issue l number snapshot StatusBlocked
       | (Some current, _) \<Rightarrow>
         seq (if iss_Status current = StatusCanceled \<and> iss_PullRequestURL current \<noteq> ''''
              then wrap_job Transient ''close canceled Pull Request'' (call_out l (ClosePullRequest (iss_PullRequestURL current))) else ret ())
           (\<lambda>_. project_issue l number snapshot (iss_Status current)))"

section \<open>Carrying an effect out\<close>

definition inspect_branch :: "Loop \<Rightarrow> string \<Rightarrow> Issue \<Rightarrow> RemoteState job" where
  "inspect_branch l operation issue =
     wrap_job Transient operation (observe (\<lambda>k. lp_Inspect l k (iss_Number issue) (iss_Branch issue)))"

definition adopted_previous :: "RemoteState \<Rightarrow> Status" where
  "adopted_previous remote =
     (if \<exists>label \<in> set (gh_Labels (rs_Issue remote)). EqualFold label ''blocked'' then StatusBlocked else StatusFailed)"

definition adoption_expectation :: "Loop \<Rightarrow> Issue \<Rightarrow> RemoteState \<Rightarrow> MergedPullRequestExpectation" where
  "adoption_expectation l issue remote = \<lparr>mpe_IssueNumber = iss_Number issue, mpe_PreviousStatus = adopted_previous remote,
     mpe_Branch = iss_Branch issue, mpe_BaseBranch = lp_BaseBranch l, mpe_HeadSHA = iss_HeadSHA issue,
     mpe_PullRequestURL = iss_PullRequestURL issue, mpe_PullRequestNumber = iss_PullRequestNumber issue, mpe_MergeCommitSHA = '''',
     mpe_AllowDone = True\<rparr>"

definition unchanged_worktree :: "Issue \<Rightarrow> Inspection \<Rightarrow> bool" where
  "unchanged_worktree issue i \<longleftrightarrow> ins_Valid i \<and> \<not> ins_Dirty i \<and> \<not> ins_UnpushedCommits i \<and> ins_Head i = iss_HeadSHA issue"

definition inspect_worktree :: "Loop \<Rightarrow> Issue \<Rightarrow> Inspection job" where
  "inspect_worktree l issue = observe (\<lambda>k. lp_Worktree l k (iss_Worktree issue) (iss_Branch issue))"

definition check_adoption :: "Loop \<Rightarrow> Issue \<Rightarrow> unit job" where
  "check_adoption l issue =
     (let changed = Cause (lit ''refuse adopted Pull Request synchronization: saved worktree changed'') in
      seq (inspect_branch l ''reinspect adopted merged Pull Request'' issue) (\<lambda>remote.
        case ValidateMergedPullRequest (lp_GitHub l) remote (adoption_expectation l issue remote) of
          Inl e \<Rightarrow> throw (store_failure e)
        | Inr _ \<Rightarrow>
          if \<not> lp_HasWorktrees l
          then throw (Cause (lit ''refuse adopted Pull Request synchronization: worktree inspector is unavailable''))
          else on_error (inspect_worktree l issue) (\<lambda>e. throw changed) (\<lambda>i.
            if unchanged_worktree issue i \<and> ins_RemoteHead i = iss_HeadSHA issue then ret () else throw changed)))"

definition check_resolution :: "Loop \<Rightarrow> Issue \<Rightarrow> unit job" where
  "check_resolution l issue =
     (if \<not> (case iss_Suspension issue of None \<Rightarrow> False
            | Some sp \<Rightarrow> susp_Status sp = SuspensionResolved \<and> (susp_Resolution sp = ResolutionResume \<or> susp_Resolution sp = ResolutionRetryStage))
      then throw (Cause (''Issue #'' @ Itoa (iss_Number issue) @ '' resolution synchronization has no resolved executable suspension''))
      else seq (inspect_branch l ''reinspect Issue resolution'' issue) (\<lambda>remote.
        seq (validateIssueResolutionSync l issue remote) (\<lambda>checkpoint.
          if ckpt_Stage checkpoint \<noteq> ContinuationStageChecks then ret ()
          else if \<not> lp_HasWorktrees l then throw (refused ''worktree inspector is unavailable'')
          else on_error (inspect_worktree l issue) (\<lambda>e. throw (refused ''repaired Pull Request worktree changed'')) (\<lambda>i.
            if unchanged_worktree issue i then ret () else throw (refused ''repaired Pull Request worktree changed'')))))"

definition conflict_retry_id :: "Issue \<Rightarrow> string" where
  "conflict_retry_id issue = (case iss_ConflictRecovery issue of
     None \<Rightarrow> iss_RunID issue
   | Some r \<Rightarrow> if cr_RetryID r \<noteq> '''' then cr_RetryID r else if cr_TargetBaseSHA r \<noteq> '''' then cr_TargetBaseSHA r else iss_RunID issue)"

text \<open>The call an effect asks for, after its checks.\<close>

definition effect_call :: "Loop \<Rightarrow> Snapshot \<Rightarrow> Issue \<Rightarrow> EffectIntent \<Rightarrow> gh_call job" where
  "effect_call l snapshot issue effect =
     (let number = iss_Number issue; kind = eff_Kind effect in
      if kind = EffectMarkDone then
        seq (if pendingGenericAdoption issue then check_adoption l issue else ret ()) (\<lambda>_. ret (MarkDone number (iss_PullRequestURL issue)))
      else if kind = EffectMarkNeedsInput then
        (case find (pending_request_for number) (pointees (snap_PendingRequests snapshot)) of
           None \<Rightarrow> throw (Cause (''Issue #'' @ Itoa number @ '' has no pending request to sync''))
         | Some pending \<Rightarrow> ret (if lp_HasInputControl l then SyncInputRequest pending
             else MarkNeedsInput number (req_ID pending) (req_Question pending)))
      else if kind = EffectRetryConflict then ret (MarkConflictRetry number (conflict_retry_id issue))
      else if kind = EffectApplyResolution then seq (check_resolution l issue) (\<lambda>_. ret (MarkRunning number))
      else if kind = EffectMarkFailed \<or> kind = EffectMarkBlocked
      then ret (MarkFailed number (iss_LastError issue) (kind = EffectMarkBlocked))
      else throw (Cause (''unknown lifecycle effect '' @ go_quote (EffectKind_String kind))))"

definition synced :: "Issue \<Rightarrow> EffectIntent \<Rightarrow> Readings \<Rightarrow> Snapshot \<Rightarrow> go_error + Snapshot" where
  "synced issue effect rd s = (case issue_at s (iss_Number issue) of
     None \<Rightarrow> Inl (Errorf [Lit ''Issue #'', Num (iss_Number issue), Lit '' disappeared during GitHub sync''])
   | Some item \<Rightarrow>
     if (case PendingEffect s (iss_Number issue) of None \<Rightarrow> True | Some current \<Rightarrow> eff_ID current \<noteq> eff_ID effect) then Inr s
     else and_ok (ClearEffect (iss_Number issue) (eff_ID effect) s)
       (edit (iss_Number issue) (\<lambda>item.
          (if eff_Kind effect = EffectMarkDone \<and> pendingGenericAdoption item then item\<lparr>iss_Continuation := None, iss_Suspension := None\<rparr> else item)
            \<lparr>iss_UpdatedAt := rd_Now rd 0\<rparr>)))"

definition carry_out :: "Loop \<Rightarrow> Snapshot \<Rightarrow> Issue \<Rightarrow> EffectIntent \<Rightarrow> unit job" where
  "carry_out l snapshot issue effect =
     seq (effect_call l snapshot issue effect) (\<lambda>c.
     seq (wrap_job Transient ''sync GitHub Issue state'' (call_out l c)) (\<lambda>_.
     seq (reconcileIssueProjection l (iss_Number issue)) (\<lambda>_.
     seq (persist ''persist GitHub synchronization''
            (update_snapshot l ''github_state_synced'' (iss_Number issue) (iss_RunID issue) ''{effect_id,kind}'' (synced issue effect)))
       (\<lambda>_. ret ()))))"

definition syncGitHub :: "Loop \<Rightarrow> int \<Rightarrow> unit job" where
  "syncGitHub l number =
     seq (unwrapped (load_snapshot l)) (\<lambda>snapshot. case issue_at snapshot number of
       None \<Rightarrow> reconcileIssueProjection l number
     | Some issue \<Rightarrow> (case PendingEffect snapshot number of
         None \<Rightarrow> reconcileIssueProjection l number
       | Some effect \<Rightarrow>
         if eff_RunID effect \<noteq> iss_RunID issue
         then throw (Cause (''Issue #'' @ Itoa number @ '' effect belongs to a different run''))
         else carry_out l snapshot issue effect))"

end
