(* ===== verification/Outcomes.thy ===== *)
theory Outcomes
  imports GitHubSync
begin

text \<open>
  How a run of an Issue ends (\<open>internal/application/supervisor\<close>: \<open>worker_execution.go\<close>, \<open>continuation_stage.go\<close>,
  \<open>checks_lifecycle.go\<close>, \<open>conflict_lifecycle.go\<close>): it is failed, retried, suspended, completed or rejected. Each outcome is one mutation of the
  snapshot, defined first, under one update; the Issue is then synchronised with GitHub.
\<close>

section \<open>Evidence of the worktree\<close>

definition continuationWorktreeDigest :: "Loop \<Rightarrow> Issue \<Rightarrow> string job" where
  "continuationWorktreeDigest l current =
     (if \<not> lp_HasWorktrees l \<or> blank (iss_Worktree current) then throw (Cause (lit ''continuation worktree is unavailable''))
      else on_error (observe (\<lambda>k. lp_Digest l k (iss_Worktree current))) (\<lambda>e. throw (Context ''fingerprint continuation worktree: '' e)) (\<lambda>digest.
        if blank digest then throw (Cause (lit ''continuation worktree digest is empty'')) else ret digest))"

definition digest_or_empty :: "Loop \<Rightarrow> Issue \<Rightarrow> string job" where
  "digest_or_empty l current = on_error (continuationWorktreeDigest l current) (\<lambda>e. ret '''') ret"

definition continuationWorktreeHead :: "Loop \<Rightarrow> Issue \<Rightarrow> string job" where
  "continuationWorktreeHead l current =
     (if \<not> lp_HasWorktrees l then ret ''''
      else on_error (inspect_worktree l current) (\<lambda>e. ret '''') (\<lambda>i.
        ret (if ins_Valid i \<and> ins_Branch i = iss_Branch current then ins_Head i else '''')))"

definition with_worktree :: "string \<Rightarrow> string \<Rightarrow> ContinuationCheckpoint \<Rightarrow> ContinuationCheckpoint" where
  "with_worktree digest head c = c\<lparr>ckpt_WorktreeSHA256 := digest, ckpt_HeadSHA := head\<rparr>"

text \<open>\<open>updated, err := l.issueState(number); return l.syncGitHub(ctx, updated)\<close>.\<close>

definition resync :: "Loop \<Rightarrow> int \<Rightarrow> unit job" where
  "resync l number = seq (issueState l number) (\<lambda>updated. syncGitHub l (iss_Number updated))"

section \<open>Failing\<close>

text \<open>The stage a failed run can be retried from, with the classification of its cause.\<close>

record FailedStage =
  fs_Stage :: ContinuationStage
  fs_Summary :: string
  fs_ResultSHA256 :: string
  fs_Provenance :: "time \<Rightarrow> FailureProvenance"

definition no_stage :: FailedStage where
  "no_stage = \<lparr>fs_Stage = ContinuationStageNone, fs_Summary = '''', fs_ResultSHA256 = '''', fs_Provenance = ClassifyFailure (OtherError '''')\<rparr>"

definition stage_evidence :: "FailedStage \<Rightarrow> string \<Rightarrow> Status \<Rightarrow> Readings \<Rightarrow> ContinuationEvidence" where
  "stage_evidence stage kind to' rd =
     (let evidence = \<lparr>evi_Origin = ''runtime'', evi_Phase = ContinuationStage_String (fs_Stage stage), evi_Code = kind,
            evi_Status = Status_String to', evi_ObservedAt = rd_Now rd 1\<rparr>;
          provenance = fs_Provenance stage (rd_Now rd 2)
      in if fs_Stage stage = ContinuationStagePublish
         then evidence\<lparr>evi_Origin := fp_Origin provenance, evi_Phase := fp_Phase provenance, evi_Code := fp_Code provenance\<rparr>
         else evidence)"

definition mark_stage :: "int \<Rightarrow> FailedStage \<Rightarrow> string \<Rightarrow> Status \<Rightarrow> Readings \<Rightarrow> Snapshot \<Rightarrow> go_error + Snapshot" where
  "mark_stage number stage kind to' rd s =
     (if fs_Stage stage = ContinuationStageNone then Inr s
      else case issue_at s number of None \<Rightarrow> Inl NilPointerPanic
      | Some item \<Rightarrow> (case iss_Continuation item of
          None \<Rightarrow> Inl (Errorf [Lit ''Issue #'', Num number, Lit '' terminal transition did not capture a continuation checkpoint''])
        | Some c \<Rightarrow> Inr (put_issue number (item\<lparr>iss_Continuation := Some (c\<lparr>ckpt_Stage := fs_Stage stage, ckpt_Summary := fs_Summary stage,
              ckpt_ResultSHA256 := fs_ResultSHA256 stage, ckpt_Evidence := Some (stage_evidence stage kind to' rd)\<rparr>)\<rparr>) s)))"

definition failed_issue :: "OutcomeDecision \<Rightarrow> string \<Rightarrow> string \<Rightarrow> Issue \<Rightarrow> Issue" where
  "failed_issue decision digest head item =
     item\<lparr>iss_Continuation := map_option (with_worktree digest head) (iss_Continuation item),
       iss_LastError := od_LastError decision, iss_SessionID := '''', iss_Session := None, iss_FailureKind := od_FailureKind decision\<rparr>"

definition fail_mutation ::
  "int \<Rightarrow> ExecutionIdentity \<Rightarrow> OutcomeDecision \<Rightarrow> FailedStage \<Rightarrow> string \<Rightarrow> string \<Rightarrow> string \<Rightarrow> Readings \<Rightarrow> Snapshot \<Rightarrow> go_error + Snapshot" where
  "fail_mutation number identity decision stage kind digest head rd s =
     and_ok (check_that (issue_at s number \<noteq> None) [Lit ''Issue #'', Num number, Lit '' disappeared before failure transition''] s) (\<lambda>s.
     and_ok (if_owner number identity (CaptureContinuation number identity (NewID ''checkpoint'' (rd_Entropy rd 0)) (rd_Now rd 0)) s) (\<lambda>s.
     and_ok (transition_issue number (od_Transition decision) s) (\<lambda>s.
     and_ok (mark_stage number stage kind (tr_To (od_Transition decision)) rd s) (\<lambda>s.
     and_ok (edit number (failed_issue decision digest head) s) (\<lambda>s.
     and_ok (set_item_effect number (rd_Entropy rd 1) (od_Effect decision) (rd_Now rd 3) s)
       (edit number (\<lambda>item. item\<lparr>iss_RetryAfter := None, iss_UpdatedAt := rd_Now rd 4\<rparr>)))))))"

definition failIssueAtStage :: "Loop \<Rightarrow> int \<Rightarrow> failure \<Rightarrow> bool \<Rightarrow> FailedStage \<Rightarrow> unit job" where
  "failIssueAtStage l number cause blocked stage =
     (let kind = FailureKind_String (KindOf cause) in
      seq (wrap_job SupervisorFailure ''load Issue before failure transition'' (issueState l number)) (\<lambda>current.
      seq (decide ''decide Issue failure'' (Fail (iss_Status current) (failure_text cause) kind blocked)) (\<lambda>decision.
      seq (digest_or_empty l current) (\<lambda>digest.
      seq (continuationWorktreeHead l current) (\<lambda>head.
      seq (persist ''persist Issue failure'' (update_snapshot l (''issue_'' @ Status_String (tr_To (od_Transition decision))) number (iss_RunID current)
             ''{error,failure_kind}'' (fail_mutation number (issue_identity current) decision stage kind digest head)))
        (\<lambda>_. resync l number))))))"

definition failIssue :: "Loop \<Rightarrow> int \<Rightarrow> failure \<Rightarrow> bool \<Rightarrow> unit job" where
  "failIssue l number cause blocked = failIssueAtStage l number cause blocked no_stage"

section \<open>Retrying\<close>

definition retry_mutation :: "int \<Rightarrow> RetryDecision \<Rightarrow> Readings \<Rightarrow> Snapshot \<Rightarrow> go_error + Snapshot" where
  "retry_mutation number decision rd s =
     and_ok (transition_issue number (rd_Transition decision) s)
       (edit number (\<lambda>item. item\<lparr>iss_LastError := rd_Reason decision, iss_RetryAfter := Some (rd_RetryAt decision),
          iss_FailureKind := rd_FailureKind decision, iss_UpdatedAt := rd_Now rd 0\<rparr>))"

definition schedule_after ::
  "Loop \<Rightarrow> string \<Rightarrow> string \<Rightarrow> string \<Rightarrow> int \<Rightarrow> Issue \<Rightarrow> string \<Rightarrow> unit job" where
  "schedule_after l eventType deciding persisting index issue reason =
     seq (retry_delay l index) (\<lambda>delay.
     seq (read_clock l) (\<lambda>t.
     seq (decide deciding (ScheduleRetry (iss_Status issue) reason (t + delay) (FailureKind_String Transient))) (\<lambda>decision.
     seq (persist persisting (update_snapshot l eventType (iss_Number issue) (iss_RunID issue) ''{failure_kind,reason,retry_at,delay}''
            (retry_mutation (iss_Number issue) decision)))
       (\<lambda>_. commentRetry l issue (t + delay)))))"

definition retry_limit :: "string \<Rightarrow> failure" where
  "retry_limit reason = WrapFailure IssueFailure ''worker retry limit reached'' (Cause reason)"

definition scheduleRetry :: "Loop \<Rightarrow> Issue \<Rightarrow> string \<Rightarrow> unit job" where
  "scheduleRetry l issue reason =
     (if RetryBudget_Decide (retryBudget l issue) = RetryExhausted then failIssue l (iss_Number issue) (retry_limit reason) False
      else schedule_after l ''retry_scheduled'' ''decide Issue retry'' ''persist Issue retry''
             (RetryBudget_DelayIndex (retryBudget l issue)) issue reason)"

text \<open>The saved result is read for its digest; without one the digest is empty.\<close>

definition publish_stage :: "string \<Rightarrow> string \<Rightarrow> publish_error \<Rightarrow> FailedStage" where
  "publish_stage summary resultSHA256 e = \<lparr>fs_Stage = ContinuationStagePublish, fs_Summary = summary, fs_ResultSHA256 = resultSHA256,
     fs_Provenance = ClassifyFailure e\<rparr>"

definition saved_digest :: "Loop \<Rightarrow> string \<Rightarrow> string job" where
  "saved_digest l runID = on_error (observe (\<lambda>k. lp_SavedResult l k runID)) (\<lambda>e. ret '''') (\<lambda>(summary, digest). ret digest)"

definition schedulePublicationRetry :: "Loop \<Rightarrow> Issue \<Rightarrow> publish_error \<Rightarrow> string \<Rightarrow> unit job" where
  "schedulePublicationRetry l issue cause summary =
     (let reason = publish_error_text cause in
      if \<not> PublicationRetry_Allowed (iss_Attempts issue) (lp_MaxAttempts l) then
        seq (saved_digest l (iss_RunID issue)) (\<lambda>digest.
          failIssueAtStage l (iss_Number issue) (retry_limit reason) False (publish_stage summary digest cause))
      else schedule_after l ''publication_retry_scheduled'' ''decide publication retry'' ''persist publication retry''
             (iss_Attempts issue) issue reason)"

section \<open>Completing\<close>

definition completed_issue :: "CompletionDecision \<Rightarrow> PullRequest \<Rightarrow> Issue \<Rightarrow> Issue" where
  "completed_issue decision pr item =
     item\<lparr>iss_PullRequestURL := CompletionDecision.cd_PullRequestURL decision, iss_LastError := '''', iss_SessionID := '''',
       iss_PullRequestNumber := (if pr_Number pr > 0 then pr_Number pr else iss_PullRequestNumber item),
       iss_HeadSHA := (if pr_HeadSHA pr \<noteq> '''' then pr_HeadSHA pr else iss_HeadSHA item), iss_Session := None,
       iss_PullRequestMerged := cd_PullRequestMerged decision, iss_FailureKind := ''''\<rparr>"

definition complete_mutation :: "int \<Rightarrow> ExecutionIdentity \<Rightarrow> CompletionDecision \<Rightarrow> PullRequest \<Rightarrow> Readings \<Rightarrow> Snapshot \<Rightarrow> go_error + Snapshot" where
  "complete_mutation number identity decision pr rd s =
     and_ok (if_owner number identity (ReleaseExecution number identity) s) (\<lambda>s.
     and_ok (transition_issue number (cd_Transition decision) s) (\<lambda>s.
     and_ok (edit number (completed_issue decision pr) s) (\<lambda>s.
     and_ok (set_item_effect number (rd_Entropy rd 0) (cd_Effect decision) (rd_Now rd 0) s)
       (edit number (\<lambda>item. item\<lparr>iss_RetryAfter := None, iss_UpdatedAt := rd_Now rd 1\<rparr>)))))"

definition completeIssue :: "Loop \<Rightarrow> Issue \<Rightarrow> PullRequest \<Rightarrow> string \<Rightarrow> unit job" where
  "completeIssue l current pr payload =
     seq (decide ''decide Issue completion'' (Complete (iss_Status current) (pr_URL pr))) (\<lambda>decision.
     seq (persist ''persist Issue completion'' (update_snapshot l ''issue_completed'' (iss_Number current) (iss_RunID current) payload
            (complete_mutation (iss_Number current) (issue_identity current) decision pr)))
       (\<lambda>_. resync l (iss_Number current)))"

section \<open>Suspending\<close>

definition worker_suspension :: "string \<Rightarrow> string \<Rightarrow> bool \<Rightarrow> string \<Rightarrow> time \<Rightarrow> Suspension" where
  "worker_suspension id' checkpointID intact reason at =
     \<lparr>susp_ID = id', susp_Origin = ''worker'',
      susp_Status = (if intact then SuspensionActive else SuspensionQuarantined), susp_ReasonCode = ''environment'',
      susp_Recoverability = (if intact then RecoverabilityOperator else RecoverabilityAmbiguous), susp_Reason = reason,
      susp_MissingEvidence = (if intact then [] else [''worktree_sha256'']),
      susp_AllowedActions = (if intact then [ResolutionCancel, ResolutionResume] else [ResolutionCancel]),
      susp_CheckpointID = checkpointID, susp_SuspendedAt = at, susp_ResolvedAt = 0, susp_Resolution = ResolutionNone\<rparr>"

definition supervisor_suspension :: "string \<Rightarrow> string \<Rightarrow> string \<Rightarrow> string \<Rightarrow> time \<Rightarrow> Suspension" where
  "supervisor_suspension id' code checkpointID reason at =
     \<lparr>susp_ID = id', susp_Origin = ''supervisor'', susp_Status = SuspensionActive, susp_ReasonCode = code,
      susp_Recoverability = RecoverabilityNone, susp_Reason = reason, susp_MissingEvidence = [],
      susp_AllowedActions = [ResolutionCancel], susp_CheckpointID = checkpointID, susp_SuspendedAt = at, susp_ResolvedAt = 0,
      susp_Resolution = ResolutionNone\<rparr>"

definition checkpoint_id :: "Issue \<Rightarrow> string" where
  "checkpoint_id item = (case iss_Continuation item of None \<Rightarrow> '''' | Some c \<Rightarrow> ckpt_ID c)"

text \<open>Writes of a decided outcome that several mutations share.\<close>

definition outcome_fields :: "OutcomeDecision \<Rightarrow> Issue \<Rightarrow> Issue" where
  "outcome_fields decision item = item\<lparr>iss_LastError := od_LastError decision, iss_FailureKind := od_FailureKind decision\<rparr>"

definition suspend_mutation ::
  "int \<Rightarrow> Issue \<Rightarrow> OutcomeDecision \<Rightarrow> string \<Rightarrow> time \<Rightarrow> string \<Rightarrow> string \<Rightarrow> string \<Rightarrow> Readings \<Rightarrow> Snapshot \<Rightarrow> go_error + Snapshot" where
  "suspend_mutation number current decision checkpointID suspendedAt digest head reason rd s =
     and_ok (check_that (case issue_at s number of None \<Rightarrow> False | Some item \<Rightarrow> iss_RunID item = iss_RunID current)
               [Lit ''Issue #'', Num number, Lit '' run changed while recording worker block''] s) (\<lambda>s.
     and_ok (CaptureContinuation number (issue_identity current) checkpointID suspendedAt s) (\<lambda>s.
     and_ok (edit number (\<lambda>item. item\<lparr>iss_Continuation := map_option (with_worktree digest head) (iss_Continuation item)\<rparr>) s) (\<lambda>s.
     and_ok (transition_issue number (od_Transition decision) s) (\<lambda>s.
     and_ok (edit number (outcome_fields decision) s) (\<lambda>s.
     and_ok (set_item_effect number (rd_Entropy rd 0) (od_Effect decision) (rd_Now rd 0) s)
       (edit number (\<lambda>item. item\<lparr>iss_Suspension := Some (worker_suspension (NewID ''suspension'' (rd_Entropy rd 1)) (checkpoint_id item)
            (digest \<noteq> '''') reason (rd_Now rd 1)), iss_RetryAfter := None, iss_UpdatedAt := rd_Now rd 2\<rparr>)))))))"

definition suspension_reason :: "string \<Rightarrow> string" where
  "suspension_reason reason = (if blank reason then lit ''worker reported an unresolved environment prerequisite'' else reason)"

definition suspendWorker :: "Loop \<Rightarrow> int \<Rightarrow> string \<Rightarrow> unit job" where
  "suspendWorker l number given =
     (let reason = suspension_reason given; cause = failure_text (WrapFailure IssueFailure ''worker blocked'' (Cause reason)) in
      seq (issueState l number) (\<lambda>current.
      seq (decide ''decide worker environment block'' (SuspendWorker (iss_Status current) cause (FailureKind_String IssueFailure))) (\<lambda>decision.
      seq (new_id l ''checkpoint'') (\<lambda>checkpointID.
      seq (read_clock l) (\<lambda>suspendedAt.
      seq (digest_or_empty l current) (\<lambda>digest.
      seq (continuationWorktreeHead l current) (\<lambda>head.
      seq (persist ''persist worker environment block'' (update_snapshot l ''issue_blocked'' number (iss_RunID current)
             ''{error,failure_kind,blocked_origin,blocked_kind,checkpoint_id,released_execution,suspended_at}''
             (suspend_mutation number current decision checkpointID suspendedAt digest head reason)))
        (\<lambda>_. resync l number))))))))"

section \<open>Rejecting a launch\<close>

definition reject_answer_mutation :: "Issue \<Rightarrow> OutcomeDecision \<Rightarrow> string \<Rightarrow> time \<Rightarrow> Readings \<Rightarrow> Snapshot \<Rightarrow> go_error + Snapshot" where
  "reject_answer_mutation current decision reason at rd s =
     (let number = iss_Number current; identity = issue_identity current in
      and_ok (check_that (case issue_at s number of None \<Rightarrow> False
                | Some item \<Rightarrow> iss_Status item = StatusLaunching \<and> iss_RunID item = iss_RunID current \<and> OwnsActiveExecution s number identity)
                [Lit ''Issue #'', Num number, Lit '' answered continuation changed before rejection''] s) (\<lambda>s.
      and_ok (check_that (case issue_at s number of None \<Rightarrow> False | Some item \<Rightarrow>
                  (case iss_Continuation item of None \<Rightarrow> False | Some c \<Rightarrow> ckpt_Kind c = ContinuationKindNeedsInput))
                [Lit ''Issue #'', Num number, Lit '' answered continuation is inconsistent''] s) (\<lambda>s.
      and_ok (ReleaseExecution number identity s) (\<lambda>s.
      and_ok (transition_issue number (od_Transition decision) s) (\<lambda>s.
      and_ok (edit number (outcome_fields decision) s) (\<lambda>s.
      and_ok (set_item_effect number (rd_Entropy rd 0) (od_Effect decision) at s)
        (edit number (\<lambda>item. item\<lparr>iss_Suspension := Some (supervisor_suspension (NewID ''suspension'' (rd_Entropy rd 1)) ''answer_resume''
           (checkpoint_id item) reason at), iss_RetryAfter := None, iss_UpdatedAt := at\<rparr>))))))))"

definition rejectAnsweredContinuation :: "Loop \<Rightarrow> Issue \<Rightarrow> string \<Rightarrow> unit job" where
  "rejectAnsweredContinuation l current reason =
     seq (read_clock l) (\<lambda>at.
     seq (decide ''decide answered continuation rejection''
            (RejectAnsweredResume (iss_Status current) (''answered continuation rejected: '' @ reason) (FailureKind_String IssueFailure))) (\<lambda>decision.
     seq (persist ''persist rejected answered continuation'' (update_snapshot l ''answered_resume_rejected'' (iss_Number current) (iss_RunID current)
            ''{reason}'' (reject_answer_mutation current decision reason at)))
       (\<lambda>_. ret ())))"

definition workspace_mutation :: "Issue \<Rightarrow> OutcomeDecision \<Rightarrow> string \<Rightarrow> Readings \<Rightarrow> Snapshot \<Rightarrow> go_error + Snapshot" where
  "workspace_mutation expected decision reason rd s =
     (let number = iss_Number expected; identity = issue_identity expected in
      and_ok (check_that (case issue_at s number of None \<Rightarrow> False | Some item \<Rightarrow> iss_RunID item = iss_RunID expected)
                [Lit ''Issue #'', Num number, Lit '' run changed while rejecting worker workspace''] s) (\<lambda>s.
      and_ok (if_owner number identity (CaptureContinuation number identity (NewID ''checkpoint'' (rd_Entropy rd 0)) (rd_Now rd 0)) s) (\<lambda>s.
      and_ok (transition_issue number (od_Transition decision) s) (\<lambda>s.
      and_ok (edit number (outcome_fields decision) s) (\<lambda>s.
      and_ok (set_item_effect number (rd_Entropy rd 1) (od_Effect decision) (rd_Now rd 1) s)
        (edit number (\<lambda>item. item\<lparr>iss_WorkerPID := 0, iss_WorkerPGID := 0, iss_RetryAfter := None,
           iss_Suspension := Some (supervisor_suspension (NewID ''suspension'' (rd_Entropy rd 2)) ''worker_workspace''
             (checkpoint_id item) reason (rd_Now rd 2)), iss_UpdatedAt := rd_Now rd 3\<rparr>)))))))"

definition blockWorkerWorkspace :: "Loop \<Rightarrow> Issue \<Rightarrow> string \<Rightarrow> unit job" where
  "blockWorkerWorkspace l expected reason =
     seq (decide ''decide worker workspace rejection''
            (RejectWorkerWorkspace (iss_Status expected) reason (FailureKind_String IssueFailure))) (\<lambda>decision.
     seq (persist ''persist rejected worker workspace'' (update_snapshot l ''worker_workspace_rejected'' (iss_Number expected) (iss_RunID expected)
            ''{expected_cwd,validation,error,run_id}'' (workspace_mutation expected decision reason)))
       (\<lambda>_. resync l (iss_Number expected)))"

section \<open>Failing a continuation stage\<close>

definition stage_failed_mutation :: "Issue \<Rightarrow> OutcomeDecision \<Rightarrow> string \<Rightarrow> string \<Rightarrow> Readings \<Rightarrow> Snapshot \<Rightarrow> go_error + Snapshot" where
  "stage_failed_mutation current decision digest head rd s =
     (let number = iss_Number current in
      and_ok (check_that (issue_at s number \<noteq> None \<and> OwnsActiveExecution s number (issue_identity current))
                [Lit ''Issue #'', Num number, Lit '' continuation stage changed''] s) (\<lambda>s.
      and_ok (transition_issue number (od_Transition decision) s) (\<lambda>s.
      and_ok (edit number (\<lambda>item. (outcome_fields decision item)
                \<lparr>iss_Continuation := map_option (with_worktree digest head) (iss_Continuation item), iss_RetryAfter := None\<rparr>) s) (\<lambda>s.
      and_ok (set_item_effect number (rd_Entropy rd 0) (od_Effect decision) (rd_Now rd 0) s)
        (edit number (\<lambda>item. item\<lparr>iss_WorkerPID := 0, iss_WorkerPGID := 0, iss_UpdatedAt := rd_Now rd 1\<rparr>))))))"

definition failCheckpointStage :: "Loop \<Rightarrow> Issue \<Rightarrow> string \<Rightarrow> unit job" where
  "failCheckpointStage l current reason =
     seq (decide ''decide checkpoint stage failure'' (Fail (iss_Status current) reason (FailureKind_String IssueFailure) False)) (\<lambda>decision.
     seq (digest_or_empty l current) (\<lambda>digest.
     seq (continuationWorktreeHead l current) (\<lambda>head.
     seq (persist ''persist continuation stage failure'' (update_snapshot l ''continuation_stage_failed'' (iss_Number current) (iss_RunID current)
            ''{reason}'' (stage_failed_mutation current decision digest head)))
       (\<lambda>_. resync l (iss_Number current)))))"

end
