(* ===== verification/Launch.thy ===== *)
theory Launch
  imports Outcomes
begin

text \<open>
  Starting a worker (\<open>internal/application/supervisor\<close>: \<open>worker_execution.go\<close>, \<open>supervisor.go\<close>, \<open>scheduler.go\<close>): acquiring the
  execution of a pending Issue, the checks of GitHub and of the workspace before a process is spawned, and the record of
  the process. A worker runs between two interactions of the loop; its prompt is not modelled.
\<close>

section \<open>Errors of a launch\<close>

text \<open>\<open>workerWorkspaceError\<close> and \<open>launchValidationError\<close>, each terminal or not, with their text; and any other error of a worker.\<close>

datatype launch_error = WorkspaceRejected bool string | LaunchRejected bool string | WorkerFailed string

fun launch_error_text :: "launch_error \<Rightarrow> string" where
  "launch_error_text (WorkspaceRejected terminal m) = m"
| "launch_error_text (LaunchRejected terminal m) = m"
| "launch_error_text (WorkerFailed m) = m"

definition workspace_rejected :: "bool \<Rightarrow> string \<Rightarrow> string \<Rightarrow> launch_error" where
  "workspace_rejected terminal expected cause =
     WorkspaceRejected terminal (''worker workspace validation failed for '' @ expected @ '': '' @ cause)"

section \<open>The boundary on GitHub\<close>

definition answeredResumeRemoteMismatch :: "Loop \<Rightarrow> GHIssue \<Rightarrow> Issue \<Rightarrow> string" where
  "answeredResumeRemoteMismatch l issue current =
     (case ValidateIssueProjection (lp_GitHub l) (lp_CloseIssue l) issue (iss_Status current) False of
        Some e \<Rightarrow> error_text e
      | None \<Rightarrow> if iss_PullRequestURL current \<noteq> '''' then lit ''answered continuation unexpectedly has a saved Pull Request'' else '''')"

definition needs_input_continuation :: "Issue \<Rightarrow> bool" where
  "needs_input_continuation item \<longleftrightarrow> (case iss_Continuation item of None \<Rightarrow> False | Some c \<Rightarrow> ckpt_Kind c = ContinuationKindNeedsInput)"

definition saved_pull_request_changed :: "Issue \<Rightarrow> RemoteState \<Rightarrow> bool" where
  "saved_pull_request_changed current remote \<longleftrightarrow> (case rs_PullRequests remote of
     [pr] \<Rightarrow> pr_URL pr \<noteq> iss_PullRequestURL current
       \<or> iss_PullRequestNumber current > 0 \<and> pr_Number pr \<noteq> iss_PullRequestNumber current
       \<or> iss_HeadSHA current \<noteq> '''' \<and> pr_HeadSHA pr \<noteq> iss_HeadSHA current
   | _ \<Rightarrow> True)"

definition remote_rejection :: "Loop \<Rightarrow> Issue \<Rightarrow> bool \<Rightarrow> RemoteState \<Rightarrow> launch_error option" where
  "remote_rejection l current allowNeedsInput remote =
     (if iss_Status current \<noteq> StatusLaunching
      then Some (LaunchRejected True (''Issue #'' @ Itoa (iss_Number current) @ '' is not in launch state''))
      else case ValidateIssueProjection (lp_GitHub l) (lp_CloseIssue l) (rs_Issue remote) (iss_Status current) False of
        Some e \<Rightarrow> Some (LaunchRejected False (error_text e))
      | None \<Rightarrow>
        if allowNeedsInput \<and> iss_LaunchSource current = StatusResumePending \<and> needs_input_continuation current
          \<and> answeredResumeRemoteMismatch l (rs_Issue remote) current \<noteq> ''''
        then Some (LaunchRejected True (answeredResumeRemoteMismatch l (rs_Issue remote) current))
        else if iss_PullRequestURL current \<noteq> '''' \<and> saved_pull_request_changed current remote
        then Some (LaunchRejected True (lit ''saved Pull Request identity changed before worker launch''))
        else None)"

definition launch_authority :: "Snapshot \<Rightarrow> Issue \<Rightarrow> bool" where
  "launch_authority s current \<longleftrightarrow> (case issue_at s (iss_Number current) of None \<Rightarrow> False
     | Some latest \<Rightarrow> iss_Status latest = StatusLaunching \<and> iss_LaunchSource latest = iss_LaunchSource current
         \<and> iss_RunID latest = iss_RunID current \<and> iss_Generation latest = iss_Generation current
         \<and> OwnsActiveExecution s (iss_Number current) (issue_identity current))"

definition validateRemoteLaunch :: "Loop \<Rightarrow> Issue \<Rightarrow> bool \<Rightarrow> (launch_error, RemoteState) run" where
  "validateRemoteLaunch l current allowNeedsInput =
     (let changed = LaunchRejected True (lit ''execution authority changed during GitHub launch validation'') in
      on_error (reconcileIssueProjection l (iss_Number current))
        (\<lambda>e. throw (LaunchRejected False (''synchronize GitHub launch boundary: '' @ failure_text e))) (\<lambda>_.
      on_error (inspectIssue l current) (\<lambda>e. throw (LaunchRejected False (''inspect GitHub launch boundary: '' @ failure_text e))) (\<lambda>remote.
        case remote_rejection l current allowNeedsInput remote of
          Some e \<Rightarrow> throw e
        | None \<Rightarrow> on_error (load_snapshot l) (\<lambda>e. throw changed) (\<lambda>s.
            if launch_authority s current then ret remote else throw changed))))"

section \<open>The workspace\<close>

text \<open>The checks on the durable Issue, in their order.\<close>

definition launch_state_error :: "Issue \<Rightarrow> string \<Rightarrow> Issue \<Rightarrow> string option" where
  "launch_state_error expected repoPath latest =
     (if iss_RunID latest = '''' \<or> iss_RunID latest \<noteq> iss_RunID expected
      then Some (''run changed from '' @ go_quote (iss_RunID expected) @ '' to '' @ go_quote (iss_RunID latest))
      else if iss_Status latest \<noteq> StatusLaunching \<or> iss_LaunchSource latest \<noteq> iss_LaunchSource expected
      then Some (lit ''launch state changed before spawn'')
      else if iss_SessionID latest \<noteq> iss_SessionID expected then Some (lit ''session changed before spawn'')
      else if iss_Worktree latest = '''' \<or> iss_Worktree latest \<noteq> iss_Worktree expected \<or> iss_Worktree latest \<noteq> repoPath
      then Some (lit ''saved worktree path changed before spawn'')
      else if iss_Branch latest = '''' \<or> iss_Branch latest \<noteq> iss_Branch expected
      then Some (lit ''saved worktree branch changed before spawn'')
      else None)"

definition generation_intact :: "Issue \<Rightarrow> Issue \<Rightarrow> Snapshot \<Rightarrow> bool" where
  "generation_intact expected latest s \<longleftrightarrow> iss_Generation latest \<noteq> 0 \<and> iss_Generation latest = iss_Generation expected
     \<and> OwnsActiveExecution s (iss_Number latest) (issue_identity latest)"

definition workspace_matches :: "Loop \<Rightarrow> LaunchValidation \<Rightarrow> WorkerWorkspace \<Rightarrow> bool" where
  "workspace_matches l v w \<longleftrightarrow> Workspace_Matches w (lv_CanonicalCWD v) (lv_Branch v) (store_RepoID (lp_Store l)) (gc_Repo (lp_GitHub l))
     (lp_RepositoryID l) (lv_CommonDir v) (lv_MainCheckout v)"

definition validated_mutation :: "Issue \<Rightarrow> WorkerWorkspace \<Rightarrow> Readings \<Rightarrow> Snapshot \<Rightarrow> go_error + Snapshot" where
  "validated_mutation latest workspace rd s =
     (let number = iss_Number latest in
      and_ok (check_that (case issue_at s number of None \<Rightarrow> False
                | Some item \<Rightarrow> iss_RunID item = iss_RunID latest \<and> iss_Worktree item = iss_Worktree latest \<and> iss_Branch item = iss_Branch latest
                    \<and> iss_SessionID item = iss_SessionID latest \<and> iss_Generation item = iss_Generation latest
                    \<and> OwnsActiveExecution s number (issue_identity latest))
                [Lit ''Issue #'', Num number, Lit '' launch provenance changed during validation''] s) (\<lambda>s.
      and_ok (check_that (case issue_at s number of None \<Rightarrow> False | Some item \<Rightarrow> iss_Workspace item = Some workspace)
                [Lit ''Issue #'', Num number, Lit '' workspace provenance changed during validation''] s)
        (edit number (\<lambda>item. item\<lparr>iss_UpdatedAt := rd_Now rd 0\<rparr>))))"

definition commit_validation :: "Loop \<Rightarrow> string \<Rightarrow> Issue \<Rightarrow> LaunchValidation \<Rightarrow> (launch_error, LaunchValidation) run" where
  "commit_validation l repoPath latest validation = (case iss_Workspace latest of
     None \<Rightarrow> throw (workspace_rejected True repoPath (lit ''saved workspace provenance is missing''))
   | Some workspace \<Rightarrow>
     if \<not> workspace_matches l validation workspace
     then throw (workspace_rejected True repoPath (lit ''saved workspace provenance does not match the launch target''))
     else on_error (update_snapshot l ''worker_workspace_validated'' (iss_Number latest) (iss_RunID latest)
              ''{expected_cwd,validation,run_id,session_present,execution_identity}'' (validated_mutation latest workspace))
            (\<lambda>e. throw (workspace_rejected True repoPath (error_text e))) (\<lambda>_.
            seq (validateRemoteLaunch l latest False) (\<lambda>_. ret validation)))"

definition validateWorkerLaunch :: "Loop \<Rightarrow> string \<Rightarrow> Issue \<Rightarrow> (launch_error, LaunchValidation) run" where
  "validateWorkerLaunch l repoPath expected =
     (let rejected = (\<lambda>cause. throw (workspace_rejected True repoPath cause)); authority = lit ''active execution generation changed before spawn'' in
      on_error (issueState l (iss_Number expected)) (\<lambda>e. rejected (failure_text e)) (\<lambda>latest.
        case launch_state_error expected repoPath latest of
          Some cause \<Rightarrow> rejected cause
        | None \<Rightarrow> on_error (load_snapshot l) (\<lambda>e. rejected authority) (\<lambda>s.
            if \<not> generation_intact expected latest s then rejected authority
            else seq (observe (\<lambda>k. Inr (lp_ValidateLaunch l k (iss_Worktree latest) (iss_Branch latest)))) (\<lambda>(validation, e).
              case e of
                Some e \<Rightarrow> throw (workspace_rejected False repoPath (failure_text e))
              | None \<Rightarrow>
                if \<not> lv_Valid validation
                then throw (workspace_rejected False repoPath (lit ''worktree validator did not establish a valid launch boundary''))
                else commit_validation l repoPath latest validation))))"

section \<open>The process\<close>

definition started_mutation :: "Issue \<Rightarrow> ProcessStart \<Rightarrow> Readings \<Rightarrow> Snapshot \<Rightarrow> go_error + Snapshot" where
  "started_mutation expected start rd s =
     (let number = iss_Number expected; runID = iss_RunID expected in
      and_ok (check_that (case issue_at s number of None \<Rightarrow> False | Some item \<Rightarrow> iss_RunID item = runID)
                [Lit ''Issue #'', Num number, Lit '' run '', Str runID, Lit '' is no longer active''] s) (\<lambda>s.
      and_ok (check_that (case issue_at s number of None \<Rightarrow> False
                | Some item \<Rightarrow> iss_Generation item = iss_Generation expected \<and> OwnsActiveExecution s number (issue_identity expected))
                [Lit ''Issue #'', Num number, Lit '' run '', Str runID, Lit '' active execution generation changed before process audit''] s) (\<lambda>s.
      and_ok (check_that (case issue_at s number of None \<Rightarrow> False
                | Some item \<Rightarrow> (case iss_Workspace item of None \<Rightarrow> False | Some w \<Rightarrow> wsp_Path w = ps_ExpectedCWD start))
                [Lit ''Issue #'', Num number, Lit '' run '', Str runID, Lit '' has no matching saved workspace provenance''] s) (\<lambda>s.
      case issue_at s number of None \<Rightarrow> Inl NilPointerPanic | Some item \<Rightarrow>
      and_ok (ConfirmWorkerStarted (iss_Status item)) (\<lambda>transition.
      and_ok (transition_issue number transition s)
        (edit number (\<lambda>item. item\<lparr>iss_WorkerPID := ps_PID start, iss_WorkerPGID := ps_PGID start, iss_UpdatedAt := rd_Now rd 0\<rparr>)))))))"

definition answered_conflict :: "Issue \<Rightarrow> bool" where
  "answered_conflict current \<longleftrightarrow>
     (case (iss_Suspension current, iss_Continuation current) of
        (Some sp, Some c) \<Rightarrow> susp_Status sp = SuspensionResolved \<and> ckpt_Stage c = ContinuationStageConflict | _ \<Rightarrow> False)
     \<or> (case iss_ConflictRecovery current of None \<Rightarrow> False
        | Some r \<Rightarrow> (case rev (cr_History r) of
            [] \<Rightarrow> False
          | a # others \<Rightarrow> if cat_Status a = ConflictAttemptStatusRunning
              then (case others of [] \<Rightarrow> False | b # _ \<Rightarrow> cat_Status b = ConflictAttemptStatusNeedsInput)
              else cat_Status a = ConflictAttemptStatusNeedsInput))"

definition commentConflictStart :: "Loop \<Rightarrow> Issue \<Rightarrow> unit job" where
  "commentConflictStart l current =
     (if answered_conflict current then commentResume l current ''conflict'' else commentProgress l current ''conflict-started'')"

definition commentWorkerStart :: "Loop \<Rightarrow> Issue \<Rightarrow> unit job" where
  "commentWorkerStart l current =
     (if iss_LaunchSource current = StatusResumePending then commentResume l current ''implementation''
      else if iss_LaunchSource current = StatusRetryWait then commentProgress l current ''retry-started''
      else if iss_LaunchSource current = StatusResolvingConflict then commentConflictStart l current else ret ())"

definition recordWorkerPID :: "Loop \<Rightarrow> Issue \<Rightarrow> ProcessStart \<Rightarrow> (launch_error, unit) run" where
  "recordWorkerPID l expected start =
     (let rejected = (\<lambda>cause. throw (workspace_rejected True (ps_ExpectedCWD start) cause));
          about = ''Issue #'' @ Itoa (iss_Number expected) @ '' run '' @ iss_RunID expected in
      if ps_PID start \<le> 0 \<or> ps_PGID start \<noteq> ps_PID start then rejected (about @ '' reported invalid worker process identity'')
      else if ps_ExpectedCWD start = '''' \<or> ps_ActualCWD start \<noteq> ps_ExpectedCWD start
      then rejected (about @ '' spawned with cwd '' @ go_quote (ps_ActualCWD start) @ '', expected '' @ go_quote (ps_ExpectedCWD start))
      else on_error (update_snapshot l ''worker_process_started'' (iss_Number expected) (iss_RunID expected) ''{pid,pgid,cwd}''
               (started_mutation expected start)) (\<lambda>e. rejected (error_text e)) (\<lambda>_.
             on_error (commentWorkerStart l expected) (\<lambda>e. ret ()) ret))"

text \<open>\<open>runWorker\<close> and \<open>resumeWorker\<close>: the result and the error.\<close>

definition spawn :: "Loop \<Rightarrow> Issue \<Rightarrow> string \<Rightarrow> ('e, WorkerResult \<times> launch_error option) run" where
  "spawn l current cwd =
     seq (perform_call (SpawnWorker (iss_Number current) (iss_RunID current) cwd) (lp_Worker l) (\<lambda>r. run_Start r \<noteq> None)) (\<lambda>r.
       case run_Start r of
         None \<Rightarrow> ret (run_Result r, map_option WorkerFailed (run_Error r))
       | Some start \<Rightarrow> on_error (recordWorkerPID l current start) (\<lambda>e. ret (zero_WorkerResult, Some e))
           (\<lambda>_. ret (run_Result r, map_option WorkerFailed (run_Error r))))"

definition runWorker :: "Loop \<Rightarrow> Issue \<Rightarrow> ('e, WorkerResult \<times> launch_error option) run" where
  "runWorker l current =
     on_error (validateWorkerLaunch l (iss_Worktree current) current) (\<lambda>e. ret (zero_WorkerResult, Some e))
       (\<lambda>validation. spawn l current (lv_CanonicalCWD validation))"

section \<open>Acquiring the execution of a pending Issue\<close>

definition resume_conflict_mutation :: "Issue \<Rightarrow> Transition \<Rightarrow> Snapshot \<Rightarrow> go_error + Snapshot" where
  "resume_conflict_mutation current transition s =
     (let number = iss_Number current in
      and_ok (check_that (case issue_at s number of None \<Rightarrow> False
                | Some item \<Rightarrow> iss_Status item = iss_Status current \<and> OwnsActiveExecution s number (issue_identity current))
                [Lit ''Issue #'', Num number, Lit '' conflict launch changed before resume''] s) (\<lambda>s.
      and_ok (edit number (\<lambda>item. item\<lparr>iss_LaunchSource := iss_Status item\<rparr>) s) (transition_issue number transition)))"

definition start_pending :: "Status \<Rightarrow> int \<Rightarrow> go_error + Transition" where
  "start_pending status number =
     (if status = StatusResumePending then StartAnsweredResume status
      else if status = StatusRetryWait then StartRetry status
      else if status = StatusResolvingConflict then StartConflictAttempt status
      else Inl (Errorf [Lit ''Issue #'', Num number, Lit '' status '', Str (Status_String status), Lit '' cannot resume execution'']))"

definition resume_execution_mutation :: "Issue \<Rightarrow> ContinuationCheckpoint \<Rightarrow> Readings \<Rightarrow> Snapshot \<Rightarrow> go_error + Snapshot" where
  "resume_execution_mutation current checkpoint rd s =
     (let number = iss_Number current in
      and_ok (check_that (case issue_at s number of None \<Rightarrow> False
                | Some item \<Rightarrow> iss_RunID item = iss_RunID current \<and> iss_Generation item = iss_Generation current
                    \<and> (case iss_Continuation item of None \<Rightarrow> False | Some c \<Rightarrow> ckpt_ID c = ckpt_ID checkpoint))
                [Lit ''Issue #'', Num number, Lit '' continuation changed before execution resume''] s) (\<lambda>s.
      and_ok (ResumeContinuation number (ckpt_ID checkpoint) (rd_Now rd 0) s) (\<lambda>(s, identity).
      case issue_at s number of None \<Rightarrow> Inl NilPointerPanic | Some item \<Rightarrow>
      and_ok (start_pending (iss_Status item) (iss_Number item)) (\<lambda>transition.
      and_ok (edit number (\<lambda>item. item\<lparr>iss_LaunchSource := iss_Status item\<rparr>) s) (\<lambda>s.
      and_ok (transition_issue number transition s)
        (edit number (\<lambda>item. item\<lparr>iss_RetryAfter := None, iss_UpdatedAt := rd_Now rd 1\<rparr>)))))))"

definition resume_conflict_launch :: "Loop \<Rightarrow> Issue \<Rightarrow> Issue job" where
  "resume_conflict_launch l current =
     (if iss_Status current = StatusLaunching then ret current
      else if iss_Status current \<noteq> StatusResolvingConflict
      then throw (WrapFailure IssueFailure ''acquire pending execution'' (Cause (''Issue #'' @ Itoa (iss_Number current)
             @ '' active execution has status '' @ Status_String (iss_Status current))))
      else seq (decide ''resume conflict launch'' (StartConflictAttempt (iss_Status current))) (\<lambda>transition.
        seq (persist ''persist conflict launch resume'' (update_snapshot l ''conflict_launch_resumed'' (iss_Number current) (iss_RunID current)
               ''null'' (\<lambda>rd. resume_conflict_mutation current transition)))
          (\<lambda>_. issueState l (iss_Number current))))"

definition ensurePendingExecution :: "Loop \<Rightarrow> Issue \<Rightarrow> Issue job" where
  "ensurePendingExecution l current =
     seq (persist ''load pending execution'' (load_snapshot l)) (\<lambda>snapshot. case snap_ActiveExecution snapshot of
       Some active \<Rightarrow>
         if act_IssueNumber active = iss_Number current \<and> act_RunID active = iss_RunID current \<and> act_Generation active = iss_Generation current
         then resume_conflict_launch l current
         else throw (WrapFailure Transient ''acquire pending execution''
                (Cause (''active execution belongs to Issue #'' @ Itoa (act_IssueNumber active))))
     | None \<Rightarrow> (case iss_Continuation current of
         None \<Rightarrow> throw (WrapFailure IssueFailure ''acquire pending execution''
                   (Cause (''Issue #'' @ Itoa (iss_Number current) @ '' has no continuation checkpoint'')))
       | Some checkpoint \<Rightarrow>
         seq (on_error (update_snapshot l ''execution_resumed'' (iss_Number current) (iss_RunID current) ''{checkpoint_id}''
                 (resume_execution_mutation current checkpoint))
                (\<lambda>e. throw (WrapFailure IssueFailure ''resume pending execution'' (store_failure e))) ret)
           (\<lambda>_. issueState l (iss_Number current))))"

end
