(* ===== verification/Conflicts.thy ===== *)
theory Conflicts
  imports Launch
begin

text \<open>
  \<open>internal/application/supervisor/conflict_lifecycle.go\<close>: the recovery of a Pull Request that conflicts with its base. The
  conflict manager prepares the merge and publishes its result (\<open>lp_Prepare\<close>, \<open>lp_ConflictPublished\<close>); a worker resolves what is left, within
  a budget of attempts for each base and of updates of the base.
\<close>

section \<open>Attempts\<close>

definition edit_recovery :: "int \<Rightarrow> (Issue \<Rightarrow> ConflictRecovery \<Rightarrow> Issue) \<Rightarrow> Snapshot \<Rightarrow> go_error + Snapshot" where
  "edit_recovery number f s = (case issue_at s number of None \<Rightarrow> Inl NilPointerPanic
     | Some item \<Rightarrow> (case iss_ConflictRecovery item of None \<Rightarrow> Inl NilPointerPanic | Some r \<Rightarrow> Inr (put_issue number (f item r) s)))"

definition running_attempt :: "ConflictRecovery \<Rightarrow> bool" where
  "running_attempt r \<longleftrightarrow> cr_History r \<noteq> [] \<and> cat_Status (last (cr_History r)) = ConflictAttemptStatusRunning"

definition finish_attempt :: "ConflictAttemptStatus \<Rightarrow> string \<Rightarrow> time \<Rightarrow> ConflictRecovery \<Rightarrow> ConflictRecovery" where
  "finish_attempt status reason at r =
     (if running_attempt r
      then r\<lparr>cr_History := butlast (cr_History r) @ [(last (cr_History r))\<lparr>cat_Status := status, cat_Reason := reason, cat_FinishedAt := at\<rparr>]\<rparr>
      else r)"

definition finishConflictAttempt :: "ConflictAttemptStatus \<Rightarrow> string \<Rightarrow> time \<Rightarrow> Issue \<Rightarrow> Issue" where
  "finishConflictAttempt status reason at item = item\<lparr>iss_ConflictRecovery := map_option (finish_attempt status reason at) (iss_ConflictRecovery item)\<rparr>"

definition consumed_attempt :: "string \<Rightarrow> time \<Rightarrow> time \<Rightarrow> int \<Rightarrow> ConflictRecovery \<Rightarrow> ConflictRecovery" where
  "consumed_attempt reason started finished attempts r =
     r\<lparr>cr_Attempts := attempts, cr_History := cr_History r @ [\<lparr>cat_Number = int (length (cr_History r)) + 1, cat_BaseSHA = cr_TargetBaseSHA r,
         cat_Status = ConflictAttemptStatusRetryableFailure, cat_Reason = reason, cat_ConflictFiles = cr_ConflictFiles r,
         cat_StartedAt = started, cat_FinishedAt = finished\<rparr>]\<rparr>"

section \<open>Giving up\<close>

fun uniqueStrings :: "string list \<Rightarrow> string list \<Rightarrow> string list" where
  "uniqueStrings seen [] = []"
| "uniqueStrings seen (v # vs) = (if v \<noteq> '''' \<and> v \<notin> set seen then v # uniqueStrings (v # seen) vs else uniqueStrings seen vs)"

definition conflictFailureDetail :: "string \<Rightarrow> Issue \<Rightarrow> string \<Rightarrow> string" where
  "conflictFailureDetail repoPath current reason = (case iss_ConflictRecovery current of
     None \<Rightarrow> reason @ ''. Recommended recovery: inspect agent-loop issue plan --repo '' @ go_quote repoPath @ '' --issue ''
       @ Itoa (iss_Number current) @ '' and select retry-stage after repairing the worktree.''
   | Some r \<Rightarrow> reason @ ''. Attempts: '' @ Itoa (cr_Attempts r) @ ''; base SHA history: ''
       @ join_with '', '' (uniqueStrings [] (map cat_BaseSHA (cr_History r) @ [cr_TargetBaseSHA r]))
       @ ''; conflict files: '' @ join_with '', '' (cr_ConflictFiles r) @ ''; last reason: '' @ cr_LastReason r
       @ ''. Recommended recovery: inspect the saved worktree and run agent-loop issue resolve --repo '' @ go_quote repoPath
       @ '' --issue '' @ Itoa (iss_Number current) @ '' --action retry-stage.'')"

definition exhausted_mutation :: "int \<Rightarrow> string \<Rightarrow> Readings \<Rightarrow> Snapshot \<Rightarrow> go_error + Snapshot" where
  "exhausted_mutation number reason rd = edit_recovery number (\<lambda>item r.
     finishConflictAttempt ConflictAttemptStatusBlocked reason (rd_Now rd 1)
       (item\<lparr>iss_ConflictRecovery := Some (r\<lparr>cr_LastReason := reason, cr_UpdatedAt := rd_Now rd 0\<rparr>)\<rparr>))"

text \<open>\<open>persisted := updated.Issues[...]\<close> after an update.\<close>

definition persisted_issue :: "string \<Rightarrow> int \<Rightarrow> Snapshot \<Rightarrow> Issue job" where
  "persisted_issue operation number s = (case issue_at s number of
     None \<Rightarrow> throw (WrapFailure IssueFailure operation (Cause (''Issue #'' @ Itoa number @ '' is missing after commit'')))
   | Some item \<Rightarrow> ret item)"

definition conflict_failure :: "string \<Rightarrow> failure" where
  "conflict_failure detail = WrapFailure IssueFailure ''Pull Request conflict recovery'' (Cause detail)"

definition failConflictRecovery :: "Loop \<Rightarrow> Issue \<Rightarrow> string \<Rightarrow> unit job" where
  "failConflictRecovery l current reason =
     seq (if iss_ConflictRecovery current = None then ret current
          else seq (persist ''persist conflict recovery failure'' (update_snapshot l ''conflict_recovery_exhausted'' (iss_Number current)
                      (iss_RunID current) ''{reason,attempts,base_updates,conflict_files}'' (exhausted_mutation (iss_Number current) reason)))
                 (persisted_issue ''reload conflict recovery failure'' (iss_Number current))) (\<lambda>current.
       failIssue l (iss_Number current) (conflict_failure (conflictFailureDetail (lp_RepoPath l) current reason)) True)"

section \<open>Retrying\<close>

definition consume_mutation :: "int \<Rightarrow> string \<Rightarrow> int \<Rightarrow> Readings \<Rightarrow> Snapshot \<Rightarrow> go_error + Snapshot" where
  "consume_mutation number reason attempts rd = edit_recovery number (\<lambda>item r.
     item\<lparr>iss_ConflictRecovery := Some (consumed_attempt reason (rd_Now rd 0) (rd_Now rd 1) attempts r)\<rparr>)"

definition conflict_retry_mutation :: "int \<Rightarrow> Transition \<Rightarrow> string \<Rightarrow> time \<Rightarrow> bool \<Rightarrow> int \<Rightarrow> Readings \<Rightarrow> Snapshot \<Rightarrow> go_error + Snapshot" where
  "conflict_retry_mutation number transition reason retryAt running attempts rd s =
     and_ok (transition_issue number transition s)
       (edit_recovery number (\<lambda>item r.
          let r = (if running then r else consumed_attempt reason (rd_Now rd 0) (rd_Now rd 1) attempts r);
              item = item\<lparr>iss_LastError := reason, iss_RetryAfter := Some retryAt, iss_FailureKind := FailureKind_String Transient,
                iss_ConflictRecovery := Some (r\<lparr>cr_LastReason := reason, cr_UpdatedAt := rd_Now rd 2\<rparr>)\<rparr>
          in (finishConflictAttempt ConflictAttemptStatusRetryableFailure reason (rd_Now rd 3) item)\<lparr>iss_UpdatedAt := rd_Now rd 4\<rparr>))"

definition budget_exhausted_reason :: "string \<Rightarrow> ConflictRecovery \<Rightarrow> int \<Rightarrow> string" where
  "budget_exhausted_reason reason r attempts = reason @ ''recovery budget exhausted for base '' @ cr_TargetBaseSHA r @ '' after ''
     @ Itoa attempts @ '' attempts''"

definition exhaust_conflict :: "Loop \<Rightarrow> Issue \<Rightarrow> ConflictRecovery \<Rightarrow> string \<Rightarrow> int \<Rightarrow> unit job" where
  "exhaust_conflict l current r reason attempts =
     seq (if running_attempt r then ret current
          else seq (persist ''persist conflict recovery exhausted budget'' (update_snapshot l ''conflict_recovery_budget_consumed''
                      (iss_Number current) (iss_RunID current) ''{reason,attempts}'' (consume_mutation (iss_Number current) reason attempts)))
                 (persisted_issue ''reload conflict recovery exhausted budget'' (iss_Number current))) (\<lambda>current.
       failConflictRecovery l current (case iss_ConflictRecovery current of None \<Rightarrow> reason
         | Some r \<Rightarrow> budget_exhausted_reason (reason @ ''; '') r attempts))"

definition scheduleConflictRetry :: "Loop \<Rightarrow> Issue \<Rightarrow> string \<Rightarrow> unit job" where
  "scheduleConflictRetry l current reason = (case iss_ConflictRecovery current of
     None \<Rightarrow> failConflictRecovery l current reason
   | Some r \<Rightarrow>
     let running = running_attempt r;
         budget = \<lparr>cb_Attempts = cr_Attempts r, cb_MaxAttempts = lp_MaxAttemptsPerBase l, cb_HasRunningAttempt = running\<rparr>;
         attempts = EffectiveAttempts budget in
     if \<not> ConflictRetry_Allowed budget then exhaust_conflict l current r reason attempts
     else seq (retry_delay l attempts) (\<lambda>delay.
       seq (read_clock l) (\<lambda>t.
       seq (decide ''decide conflict recovery retry'' (ScheduleConflictRetry (iss_Status current))) (\<lambda>transition.
       seq (persist ''persist conflict recovery retry'' (update_snapshot l ''conflict_recovery_retry_scheduled'' (iss_Number current)
              (iss_RunID current) ''{reason,base_sha,attempts,retry_at}''
              (conflict_retry_mutation (iss_Number current) transition reason (t + delay) running attempts)))
         (\<lambda>_. commentRetry l current (t + delay))))))"

text \<open>\<open>worker_execution.go\<close>: what a launch that was rejected leads to.\<close>

definition reject_launch :: "Loop \<Rightarrow> Issue \<Rightarrow> bool \<Rightarrow> string \<Rightarrow> unit job" where
  "reject_launch l current terminal m =
     (if terminal then
        (if iss_LaunchSource current = StatusResumePending \<and> needs_input_continuation current then rejectAnsweredContinuation l current m
         else failIssue l (iss_Number current) (WrapFailure IssueFailure ''reject worker launch'' (Cause m)) True)
      else if iss_LaunchSource current = StatusResolvingConflict then scheduleConflictRetry l current m
      else scheduleRetry l current m)"

definition handleLaunchValidationFailure :: "Loop \<Rightarrow> Issue \<Rightarrow> launch_error \<Rightarrow> unit job" where
  "handleLaunchValidationFailure l current e =
     reject_launch l current (case e of LaunchRejected terminal m \<Rightarrow> terminal | _ \<Rightarrow> False) (launch_error_text e)"

section \<open>Publishing\<close>

definition published_mutation :: "int \<Rightarrow> Transition \<Rightarrow> time \<Rightarrow> string \<Rightarrow> Readings \<Rightarrow> Snapshot \<Rightarrow> go_error + Snapshot" where
  "published_mutation number transition retryAt commit rd s =
     and_ok (transition_issue number transition s)
       (edit_recovery number (\<lambda>item r.
          (finishConflictAttempt ConflictAttemptStatusCompleted (''published as '' @ commit) (rd_Now rd 1)
             (item\<lparr>iss_LastError := '''', iss_FailureKind := '''', iss_RetryAfter := Some retryAt,
                iss_ConflictRecovery := Some (r\<lparr>cr_LastReason := lit ''published; waiting for CI revalidation'', cr_UpdatedAt := rd_Now rd 0\<rparr>)\<rparr>))
            \<lparr>iss_UpdatedAt := rd_Now rd 2\<rparr>))"

definition finishConflictPublication :: "Loop \<Rightarrow> Issue \<Rightarrow> string \<Rightarrow> unit job" where
  "finishConflictPublication l current commit =
     seq (read_clock l) (\<lambda>t.
     seq (decide ''decide post-conflict check wait'' (AwaitChecks (iss_Status current))) (\<lambda>transition.
     seq (persist ''persist conflict recovery publication'' (update_snapshot l ''conflict_recovery_published'' (iss_Number current)
            (iss_RunID current) ''{pull_request_url,commit,target_base_sha}''
            (published_mutation (iss_Number current) transition (t + lp_PollInterval l) commit)))
       (\<lambda>_. commentPublication l current (iss_PullRequestURL current) commit)))"

definition publishConflictRecovery :: "Loop \<Rightarrow> Issue \<Rightarrow> unit job" where
  "publishConflictRecovery l current =
     (if \<not> lp_HasConflicts l \<or> iss_ConflictRecovery current = None
      then failConflictRecovery l current (lit ''conflict recovery publisher is unavailable'')
      else seq (perform_call (PublishConflict (iss_Number current)) (lp_ConflictPublished l) (\<lambda>r. \<not> isl r)) (\<lambda>r. case r of
        Inl (NonRecoverable m) \<Rightarrow> failConflictRecovery l current m
      | Inl (RecoverableConflict e) \<Rightarrow> scheduleConflictRetry l current (''publish resolved conflict: '' @ failure_text e)
      | Inr commit \<Rightarrow> finishConflictPublication l current commit))"

section \<open>Results of a conflict worker\<close>

definition conflict_result_mutation :: "int \<Rightarrow> string \<Rightarrow> WorkerResult \<Rightarrow> Readings \<Rightarrow> Snapshot \<Rightarrow> go_error + Snapshot" where
  "conflict_result_mutation number profile result rd = edit number (\<lambda>item.
     item\<lparr>iss_ExecutionProfile := profile,
       iss_ConflictRecovery := (if wr_Status result = ''completed''
         then map_option (\<lambda>r. r\<lparr>cr_Verification := map (\<lambda>t. \<lparr>cv_Command = test_Command t, cv_Result = test_Result t\<rparr>) (wr_Tests result)\<rparr>)
                (iss_ConflictRecovery item)
         else iss_ConflictRecovery item),
       iss_UpdatedAt := rd_Now rd 0\<rparr>)"

definition asked_request :: "string \<Rightarrow> int \<Rightarrow> Question \<Rightarrow> time \<Rightarrow> Request" where
  "asked_request id' number q at = \<lparr>req_ID = id', req_IssueNumber = number, req_Question = qu_Text q, req_Reason = qu_Reason q,
     req_Recommended = qu_RecommendedOption q, req_Options = qu_Options q, req_AllowFreeText = qu_AllowFreeText q,
     req_ResumeStatus = StatusUnset, req_RunID = '''', req_CheckpointID = '''', req_ReleasedExecution = None,
     req_Status = RequestStatusPending, req_Answer = '''', req_AnswerProvenance = None, req_CreatedAt = at, req_AnsweredAt = None\<rparr>"

definition put_request :: "Request \<Rightarrow> Snapshot \<Rightarrow> go_error + Snapshot" where
  "put_request r s = and_ok (massign (req_ID r) (Some r) (snap_PendingRequests s)) (\<lambda>m. Inr (s\<lparr>snap_PendingRequests := m\<rparr>))"

text \<open>A worker that asks without a question makes the source dereference nil.\<close>

definition conflict_input_mutation ::
  "int \<Rightarrow> InputDecision \<Rightarrow> string \<Rightarrow> Question option \<Rightarrow> string \<Rightarrow> Readings \<Rightarrow> Snapshot \<Rightarrow> go_error + Snapshot" where
  "conflict_input_mutation number decision requestID question summary rd s =
     and_ok (transition_issue number (id_Transition decision) s) (\<lambda>s.
     and_ok (set_item_effect number (rd_Entropy rd 0) (id_Effect decision) (rd_Now rd 0) s) (\<lambda>s.
     and_ok (edit number (\<lambda>item. finishConflictAttempt ConflictAttemptStatusNeedsInput summary (rd_Now rd 2) (item\<lparr>iss_UpdatedAt := rd_Now rd 1\<rparr>)) s) (\<lambda>s.
     case question of None \<Rightarrow> Inl NilPointerPanic
     | Some q \<Rightarrow> put_request ((asked_request requestID number q (rd_Now rd 3))\<lparr>req_ResumeStatus := StatusResolvingConflict\<rparr>) s)))"

definition conflict_asks :: "Loop \<Rightarrow> Issue \<Rightarrow> WorkerResult \<Rightarrow> unit job" where
  "conflict_asks l current result =
     seq (decide ''decide conflict recovery input request'' (RequestInput (iss_Status current))) (\<lambda>decision.
     seq (new_id l ''req'') (\<lambda>requestID.
     seq (persist ''persist conflict recovery input request'' (update_snapshot l ''input_requested'' (iss_Number current) (iss_RunID current)
            ''{question}'' (conflict_input_mutation (iss_Number current) decision requestID (wr_Question result) (wr_Summary result))))
       (\<lambda>_. seq (wrap_job SupervisorFailure ''reload conflict recovery input request'' (issueState l (iss_Number current)))
          (\<lambda>updated. syncGitHub l (iss_Number updated)))))"

definition retry_reason :: "WorkerResult \<Rightarrow> string" where
  "retry_reason result = (case wr_Retry result of None \<Rightarrow> wr_Summary result | Some reason \<Rightarrow> if reason = '''' then wr_Summary result else reason)"

definition conflict_outcome :: "Loop \<Rightarrow> Issue \<Rightarrow> WorkerResult \<Rightarrow> unit job" where
  "conflict_outcome l current result =
     (if wr_Status result = ''completed'' then
        (if wr_Git result \<noteq> None
         then failConflictRecovery l current (lit ''conflict worker crossed the publication boundary and returned Git publication data'')
         else publishConflictRecovery l current)
      else if wr_Status result = ''needs_input'' then conflict_asks l current result
      else if wr_Status result = ''retryable_failure'' then scheduleConflictRetry l current (retry_reason result)
      else if wr_Status result = ''blocked''
      then failConflictRecovery l current (''worker reported a non-recoverable conflict: '' @ wr_Summary result)
      else scheduleConflictRetry l current (lit ''conflict worker returned an unknown status''))"

text \<open>The Issue a result is handled for: the durable one, if it is of the same execution.\<close>

definition refreshed :: "Loop \<Rightarrow> Issue \<Rightarrow> ('e, Issue) run" where
  "refreshed l current = on_error (issueState l (iss_Number current)) (\<lambda>e. ret current) (\<lambda>latest.
     ret (if iss_RunID latest = iss_RunID current \<and> iss_Generation latest = iss_Generation current then latest else current))"

definition default_profile :: "string \<Rightarrow> string" where
  "default_profile profile = (if profile = '''' then ''extended'' else profile)"

definition handleConflictResult :: "Loop \<Rightarrow> Issue \<Rightarrow> WorkerResult \<Rightarrow> launch_error option \<Rightarrow> unit job" where
  "handleConflictResult l current result runErr =
     seq (refreshed l current) (\<lambda>current. case runErr of
       Some (WorkspaceRejected terminal m) \<Rightarrow>
         if iss_Status current = StatusLaunching \<and> \<not> terminal then scheduleConflictRetry l current m
         else blockWorkerWorkspace l current m
     | Some (LaunchRejected terminal m) \<Rightarrow> handleLaunchValidationFailure l current (LaunchRejected terminal m)
     | _ \<Rightarrow>
       seq (persist ''persist conflict worker result'' (update_snapshot l ''conflict_recovery_worker_completed'' (iss_Number current)
              (iss_RunID current) ''{status,summary,execution_profile,tests}''
              (conflict_result_mutation (iss_Number current) (default_profile (wr_ExecutionProfile result)) result))) (\<lambda>_.
       seq (issueState l (iss_Number current)) (\<lambda>current. case runErr of
         Some e \<Rightarrow> scheduleConflictRetry l current (launch_error_text e)
       | None \<Rightarrow> conflict_outcome l current result)))"

section \<open>An attempt\<close>

definition Test_Passed :: "ConflictVerification \<Rightarrow> bool" where
  "Test_Passed v \<longleftrightarrow> \<not> blank (cv_Command v) \<and> cv_Result v = ''passed''"

definition conflictVerificationGreen :: "ConflictVerification list \<Rightarrow> bool" where
  "conflictVerificationGreen vs \<longleftrightarrow> vs \<noteq> [] \<and> list_all Test_Passed vs"

definition attempt_mutation :: "Loop \<Rightarrow> Issue \<Rightarrow> string \<Rightarrow> int \<Rightarrow> Transition \<Rightarrow> Readings \<Rightarrow> Snapshot \<Rightarrow> go_error + Snapshot" where
  "attempt_mutation l current runID attemptNumber transition rd s =
     (let number = iss_Number current in
      and_ok (TransferExecution number (issue_identity current) runID (rd_Now rd 0) s) (\<lambda>(s, identity).
      and_ok (edit number (\<lambda>item. if iss_Status item \<noteq> StatusLaunching then item\<lparr>iss_LaunchSource := iss_Status item\<rparr> else item) s) (\<lambda>s.
      and_ok (transition_issue number transition s)
        (edit_recovery number (\<lambda>item r. item\<lparr>iss_RunID := runID, iss_WorkerPID := 0, iss_WorkerPGID := 0, iss_SessionID := '''', iss_Session := None,
           iss_RetryAfter := None, iss_WorkerIdentity := lp_Identity l,
           iss_ConflictRecovery := Some (r\<lparr>cr_Attempts := int_add (cr_Attempts r) 1,
             cr_History := cr_History r @ [\<lparr>cat_Number = attemptNumber, cat_BaseSHA = cr_TargetBaseSHA r,
               cat_Status = ConflictAttemptStatusRunning, cat_Reason = '''', cat_ConflictFiles = cr_ConflictFiles r,
               cat_StartedAt = rd_Now rd 1, cat_FinishedAt = 0\<rparr>], cr_UpdatedAt := rd_Now rd 2\<rparr>),
           iss_UpdatedAt := rd_Now rd 3\<rparr>)))))"

definition run_attempt :: "Loop \<Rightarrow> Issue \<Rightarrow> ConflictRecovery \<Rightarrow> unit job" where
  "run_attempt l current r =
     seq (wrap_job Transient ''refresh Issue for conflict recovery'' (getIssue l (iss_Number current))) (\<lambda>issue.
     seq (new_id l ''conflict'') (\<lambda>runID.
     seq (decide ''decide conflict recovery attempt'' (StartConflictAttempt (iss_Status current))) (\<lambda>transition.
     seq (persist ''persist conflict recovery attempt'' (update_snapshot l ''conflict_recovery_attempt_started'' (iss_Number current) runID
            ''{attempt,base_sha,conflict_files,execution_identity}''
            (attempt_mutation l current runID (int (length (cr_History r)) + 1) transition))) (\<lambda>_.
     seq (issueState l (iss_Number current)) (\<lambda>current.
     seq (runWorker l current) (\<lambda>(result, runErr). handleConflictResult l current result runErr))))))"

definition publish_resolved :: "Loop \<Rightarrow> Issue \<Rightarrow> string \<Rightarrow> unit job" where
  "publish_resolved l current operation =
     seq (commentConflictStart l current) (\<lambda>_.
     seq (wrap_job Transient operation (getIssue l (iss_Number current))) (\<lambda>issue. publishConflictRecovery l current))"

definition attempt_conflict :: "Loop \<Rightarrow> Issue \<Rightarrow> ConflictRecovery \<Rightarrow> unit job" where
  "attempt_conflict l current r =
     (let exhausted = AttemptBudget_Exhausted (cr_Attempts r) (lp_MaxAttemptsPerBase l) in
      seq (observe (\<lambda>k. Inr (lp_Prepare l k (Some r)))) (\<lambda>preparation. case preparation of
        Inl (NonRecoverable m) \<Rightarrow> failConflictRecovery l current m
      | Inl (RecoverableConflict e) \<Rightarrow>
        if exhausted then failConflictRecovery l current (budget_exhausted_reason (failure_text e @ ''; '') r (cr_Attempts r))
        else throw (WrapFailure Transient ''resume Pull Request conflict recovery'' e)
      | Inr p \<Rightarrow>
        if prep_Published p then finishConflictPublication l current (prep_Commit p)
        else if prep_Resolved p \<and> (cr_ConflictFiles r = [] \<or> conflictVerificationGreen (cr_Verification r))
        then publish_resolved l current ''refresh Issue for resolved conflict publication''
        else if exhausted then failConflictRecovery l current (budget_exhausted_reason '''' r (cr_Attempts r))
        else run_attempt l current r))"

definition processConflictRecovery :: "Loop \<Rightarrow> Issue \<Rightarrow> unit job" where
  "processConflictRecovery l current =
     seq (if iss_Status current = StatusResolvingConflict then ensurePendingExecution l current else ret current) (\<lambda>current.
       case iss_ConflictRecovery current of
         None \<Rightarrow> failConflictRecovery l current (lit ''durable conflict recovery context is missing'')
       | Some r \<Rightarrow>
         if \<not> lp_HasConflicts l then failConflictRecovery l current (lit ''conflict recovery manager is unavailable'')
         else attempt_conflict l current r)"

section \<open>The beginning\<close>

text \<open>The record of a new recovery, from the preparation and the previous record.\<close>

definition new_recovery :: "PullRequest \<Rightarrow> Preparation \<Rightarrow> ConflictRecovery option \<Rightarrow> time \<Rightarrow> time \<Rightarrow> ConflictRecovery" where
  "new_recovery pr p previous startedAt updatedAt =
     (let same = (case previous of None \<Rightarrow> False | Some r \<Rightarrow> cr_TargetBaseSHA r = prep_TargetBaseSHA p) in
      \<lparr>cr_PullRequestURL = pr_URL pr, cr_RetryID = '''', cr_PreviousBaseSHA = prep_PreviousBaseSHA p, cr_TargetBaseSHA = prep_TargetBaseSHA p,
       cr_OriginalHeadSHA = prep_OriginalHeadSHA p, cr_ConflictFiles = prep_ConflictFiles p, cr_AllowedPaths = prep_AllowedPaths p,
       cr_Attempts = (case previous of None \<Rightarrow> 0 | Some r \<Rightarrow> if same then cr_Attempts r else 0),
       cr_BaseUpdates = (case previous of None \<Rightarrow> 1 | Some r \<Rightarrow> if same then cr_BaseUpdates r else int_add (cr_BaseUpdates r) 1),
       cr_History = (case previous of None \<Rightarrow> [] | Some r \<Rightarrow> cr_History r),
       cr_OriginalDiff = prep_OriginalDiff p, cr_BaseCommits = prep_BaseCommits p, cr_ConflictContent = prep_ConflictContent p,
       cr_Verification = (case previous of None \<Rightarrow> [] | Some r \<Rightarrow> if same then cr_Verification r else []),
       cr_LastReason = '''', cr_StartedAt = startedAt, cr_UpdatedAt = updatedAt\<rparr>)"

definition recovery_record :: "Loop \<Rightarrow> Issue \<Rightarrow> PullRequest \<Rightarrow> Preparation \<Rightarrow> ConflictRecovery job" where
  "recovery_record l current pr p =
     seq (read_clock l) (\<lambda>t.
     seq (case iss_ConflictRecovery current of None \<Rightarrow> ret t
          | Some r \<Rightarrow> if IsZero (cr_StartedAt r) then read_clock l else ret (cr_StartedAt r)) (\<lambda>startedAt.
     seq (read_clock l) (\<lambda>updatedAt. ret (new_recovery pr p (iss_ConflictRecovery current) startedAt updatedAt))))"

definition over_base_budget :: "Loop \<Rightarrow> Issue \<Rightarrow> ConflictRecovery \<Rightarrow> unit job" where
  "over_base_budget l current r =
     seq (persist ''persist conflict recovery base budget'' (update_snapshot l ''conflict_recovery_base_budget_exceeded'' (iss_Number current)
            (iss_RunID current) ''{target_base_sha,base_updates,conflict_files}''
            (\<lambda>rd. edit (iss_Number current) (\<lambda>item. item\<lparr>iss_ConflictRecovery := Some r, iss_UpdatedAt := rd_Now rd 0\<rparr>)))) (\<lambda>s.
     seq (persisted_issue ''reload conflict recovery base budget'' (iss_Number current) s) (\<lambda>current.
       failConflictRecovery l current (''base update budget exceeded ('' @ Itoa (cr_BaseUpdates r) @ '' > '' @ Itoa (lp_MaxBaseUpdates l) @ '')'')))"

definition claim_conflict :: "int \<Rightarrow> time \<Rightarrow> Snapshot \<Rightarrow> go_error + Snapshot" where
  "claim_conflict number at s = (case issue_at s number of None \<Rightarrow> Inl NilPointerPanic | Some item \<Rightarrow>
     if snap_ActiveExecution s = None then
       (case iss_Continuation item of
          None \<Rightarrow> Inl (Errorf [Lit ''Issue #'', Num number, Lit '' continuation checkpoint is missing''])
        | Some c \<Rightarrow> map_sum id fst (ResumeContinuation (iss_Number item) (ckpt_ID c) at s))
     else check_that (OwnsActiveExecution s (iss_Number item) (issue_identity item))
            [Lit ''Issue #'', Num number, Lit '' conflict execution is occupied''] s)"

definition prepared_mutation :: "Issue \<Rightarrow> PullRequest \<Rightarrow> ConflictRecovery \<Rightarrow> Transition \<Rightarrow> Readings \<Rightarrow> Snapshot \<Rightarrow> go_error + Snapshot" where
  "prepared_mutation current pr r transition rd s =
     (let number = iss_Number current in
      and_ok (check_that (case issue_at s number of None \<Rightarrow> False
                | Some item \<Rightarrow> iss_RunID item = iss_RunID current \<and> iss_Generation item = iss_Generation current)
                [Lit ''Issue #'', Num number, Lit '' changed before conflict execution''] s) (\<lambda>s.
      and_ok (claim_conflict number (rd_Now rd 0) s) (\<lambda>s.
      and_ok (transition_issue number transition s)
        (edit number (\<lambda>item. item\<lparr>iss_ConflictRecovery := Some r, iss_PullRequestURL := pr_URL pr,
           iss_LastError := lit ''Pull Request conflict recovery prepared'', iss_FailureKind := '''', iss_RetryAfter := None,
           iss_UpdatedAt := rd_Now rd 1\<rparr>)))))"

definition begin_recovery :: "Loop \<Rightarrow> Issue \<Rightarrow> PullRequest \<Rightarrow> Preparation \<Rightarrow> unit job" where
  "begin_recovery l current pr p =
     seq (recovery_record l current pr p) (\<lambda>r.
       if cr_BaseUpdates r > lp_MaxBaseUpdates l then over_base_budget l current r
       else seq (decide ''decide Pull Request conflict recovery'' (ResolveConflict (iss_Status current))) (\<lambda>transition.
         seq (persist ''persist conflict recovery preparation'' (update_snapshot l ''conflict_recovery_prepared'' (iss_Number current)
                (iss_RunID current) ''{pull_request_url,previous_base_sha,target_base_sha,conflict_files,attempts,base_updates}''
                (prepared_mutation current pr r transition))) (\<lambda>_.
         seq (issueState l (iss_Number current)) (\<lambda>current.
           if prep_Published p then finishConflictPublication l current (prep_Commit p)
           else if prep_Resolved p then publish_resolved l current ''refresh Issue for mechanical conflict recovery''
           else processConflictRecovery l current))))"

definition occupied_by :: "int \<Rightarrow> Snapshot \<Rightarrow> int option" where
  "occupied_by number s = (case snap_ActiveExecution s of None \<Rightarrow> None
     | Some active \<Rightarrow> if act_IssueNumber active \<noteq> number then Some (act_IssueNumber active) else None)"

definition beginConflictRecovery :: "Loop \<Rightarrow> Issue \<Rightarrow> PullRequest \<Rightarrow> unit job" where
  "beginConflictRecovery l current pr =
     (if \<not> lp_HasConflicts l
      then failIssue l (iss_Number current) (conflict_failure (lit ''conflict recovery manager is unavailable'')) True
      else seq (persist ''load conflict execution boundary'' (load_snapshot l)) (\<lambda>s.
        case occupied_by (iss_Number current) s of
          Some other \<Rightarrow> throw (WrapFailure Transient ''acquire conflict execution''
            (Cause (''active execution belongs to Issue #'' @ Itoa other)))
        | None \<Rightarrow>
        if snap_ActiveExecution s = None \<and> iss_Continuation current = None
        then failIssue l (iss_Number current)
               (WrapFailure IssueFailure ''acquire conflict execution'' (Cause (lit ''continuation checkpoint is missing''))) True
        else seq (observe (\<lambda>k. Inr (lp_Prepare l k None))) (\<lambda>preparation. case preparation of
            Inl (NonRecoverable m) \<Rightarrow> failConflictRecovery l current m
          | Inl (RecoverableConflict e) \<Rightarrow> throw (WrapFailure Transient ''prepare Pull Request conflict recovery'' e)
          | Inr p \<Rightarrow> begin_recovery l current pr p)))"

end
