(* ===== verification/PullRequests.thy ===== *)
theory PullRequests
  imports Conflicts
begin

text \<open>
  \<open>internal/application/supervisor/checks_lifecycle.go\<close>: the life of a Pull Request after it was published. One poll inspects it and
  takes one step: it completes the Issue, blocks it, waits, updates or repairs the branch, retries failed checks, or
  marks the Pull Request ready and merges it.
\<close>

section \<open>Waiting\<close>

definition poll_interval :: "Loop \<Rightarrow> int" where
  "poll_interval l = (if lp_Webhook l then lp_SweepInterval l else lp_PollInterval l)"

definition poll_mutation :: "int \<Rightarrow> string \<Rightarrow> time \<Rightarrow> Readings \<Rightarrow> Snapshot \<Rightarrow> go_error + Snapshot" where
  "poll_mutation number reason retryAt rd = edit number (\<lambda>item.
     item\<lparr>iss_LastError := reason, iss_RetryAfter := Some retryAt, iss_UpdatedAt := rd_Now rd 0\<rparr>)"

definition schedulePullRequestPoll :: "Loop \<Rightarrow> Issue \<Rightarrow> string \<Rightarrow> unit job" where
  "schedulePullRequestPoll l current reason =
     seq (read_clock l) (\<lambda>t.
     seq (persist ''persist Pull Request poll'' (update_snapshot l ''pull_request_poll_scheduled'' (iss_Number current) (iss_RunID current)
            ''{status,reason,retry_at}'' (poll_mutation (iss_Number current) reason (t + poll_interval l))))
       (\<lambda>_. ret ()))"

section \<open>Blocking\<close>

definition block_mutation :: "int \<Rightarrow> OutcomeDecision \<Rightarrow> PullRequest \<Rightarrow> Readings \<Rightarrow> Snapshot \<Rightarrow> go_error + Snapshot" where
  "block_mutation number decision pr rd s =
     and_ok (edit number (\<lambda>item. if iss_PullRequestURL item = ''''
               then item\<lparr>iss_PullRequestURL := pr_URL pr, iss_PullRequestNumber := pr_Number pr\<rparr> else item) s) (\<lambda>s.
     and_ok (transition_issue number (od_Transition decision) s) (\<lambda>s.
     and_ok (edit number (outcome_fields decision) s) (\<lambda>s.
     and_ok (set_item_effect number (rd_Entropy rd 0) (od_Effect decision) (rd_Now rd 0) s)
       (edit number (\<lambda>item. item\<lparr>iss_RetryAfter := None, iss_WorkerPID := 0, iss_WorkerPGID := 0, iss_UpdatedAt := rd_Now rd 1\<rparr>)))))"

definition blockPullRequestLifecycle :: "Loop \<Rightarrow> Issue \<Rightarrow> PullRequest \<Rightarrow> string \<Rightarrow> unit job" where
  "blockPullRequestLifecycle l current pr reason =
     seq (decide ''decide Pull Request lifecycle block'' (BlockPullRequestLifecycle (iss_Status current)
            (''Pull Request lifecycle: '' @ reason) (FailureKind_String IssueFailure))) (\<lambda>decision.
     seq (persist ''persist Pull Request lifecycle attention'' (update_snapshot l ''pull_request_lifecycle_blocked'' (iss_Number current)
            (iss_RunID current) ''{reason,pull_request_url,pull_requests}'' (block_mutation (iss_Number current) decision pr)))
       (\<lambda>_. resync l (iss_Number current)))"

section \<open>Failed checks\<close>

definition checks_evidence :: "time \<Rightarrow> ContinuationEvidence" where
  "checks_evidence at = \<lparr>evi_Origin = ''pull_request_lifecycle'', evi_Phase = ''required_checks'', evi_Code = ''checks_retry_exhausted'',
     evi_Status = ''failure'', evi_ObservedAt = at\<rparr>"

definition checks_failed_mutation :: "Issue \<Rightarrow> OutcomeDecision \<Rightarrow> PullRequest \<Rightarrow> time \<Rightarrow> Readings \<Rightarrow> Snapshot \<Rightarrow> go_error + Snapshot" where
  "checks_failed_mutation current decision pr at rd s =
     (let number = iss_Number current; identity = issue_identity current in
      and_ok (check_that (case issue_at s number of None \<Rightarrow> False
                | Some item \<Rightarrow> iss_RunID item = iss_RunID current \<and> iss_PullRequestURL item = pr_URL pr \<and> iss_Branch item = pr_HeadRefName pr)
                [Lit ''Issue #'', Num number, Lit '' changed while recording Pull Request checks exhaustion''] s) (\<lambda>s.
      and_ok (if_owner number identity (CaptureContinuation number identity (NewID ''checkpoint'' (rd_Entropy rd 0)) at) s) (\<lambda>s.
      and_ok (transition_issue number (od_Transition decision) s) (\<lambda>s.
      and_ok (edit number (outcome_fields decision) s) (\<lambda>s.
      and_ok (set_item_effect number (rd_Entropy rd 1) (od_Effect decision) at s) (\<lambda>s.
      case issue_at s number of None \<Rightarrow> Inl NilPointerPanic | Some item \<Rightarrow> (case iss_Continuation item of
        None \<Rightarrow> Inl (Errorf [Lit ''Issue #'', Num number, Lit '' checks exhaustion did not capture a continuation checkpoint''])
      | Some c \<Rightarrow> Inr (put_issue number (item\<lparr>iss_RetryAfter := None, iss_SessionID := '''', iss_Session := None, iss_HeadSHA := pr_HeadSHA pr,
            iss_PullRequestNumber := pr_Number pr,
            iss_Continuation := Some (c\<lparr>ckpt_HeadSHA := pr_HeadSHA pr, ckpt_PullRequestURL := pr_URL pr,
              ckpt_PullRequestNumber := pr_Number pr, ckpt_Evidence := Some (checks_evidence at)\<rparr>), iss_UpdatedAt := at\<rparr>) s))))))))"

definition failPullRequestChecks :: "Loop \<Rightarrow> Issue \<Rightarrow> PullRequest \<Rightarrow> string \<Rightarrow> unit job" where
  "failPullRequestChecks l current pr reason =
     (if iss_PullRequestURL current = '''' \<or> iss_Branch current = '''' \<or> pr_URL pr \<noteq> iss_PullRequestURL current
        \<or> pr_HeadRefName pr \<noteq> iss_Branch current \<or> pr_HeadSHA pr = ''''
      then failIssue l (iss_Number current) (retry_limit reason) False
      else seq (read_clock l) (\<lambda>at.
        seq (decide ''decide Pull Request checks exhaustion'' (ExhaustPullRequestChecks (iss_Status current)
               (failure_text (retry_limit reason)) (FailureKind_String IssueFailure))) (\<lambda>decision.
        seq (persist ''persist Pull Request checks exhaustion'' (update_snapshot l ''pull_request_checks_retry_exhausted'' (iss_Number current)
               (iss_RunID current) ''{pull_request_url,pull_request_number,head_sha,checks_status,attempts,continuations}''
               (checks_failed_mutation current decision pr at)))
          (\<lambda>_. resync l (iss_Number current)))))"

definition schedulePullRequestChecksRetry :: "Loop \<Rightarrow> Issue \<Rightarrow> PullRequest \<Rightarrow> unit job" where
  "schedulePullRequestChecksRetry l issue pr =
     (let reason = ''Pull Request checks failed: '' @ pr_URL pr in
      if RetryBudget_Decide (retryBudget l issue) \<noteq> RetryExhausted then scheduleRetry l issue reason
      else failPullRequestChecks l issue pr reason)"

section \<open>Merging\<close>

definition ready_mutation :: "int \<Rightarrow> Transition \<Rightarrow> PullRequest \<Rightarrow> int \<Rightarrow> Readings \<Rightarrow> Snapshot \<Rightarrow> go_error + Snapshot" where
  "ready_mutation number transition pr interval rd s =
     and_ok (transition_issue number transition s)
       (edit number (\<lambda>item. item\<lparr>iss_PullRequestURL := pr_URL pr, iss_PullRequestNumber := pr_Number pr, iss_LastError := '''',
          iss_FailureKind := '''', iss_RetryAfter := Some (rd_Now rd 0 + interval), iss_UpdatedAt := rd_Now rd 1\<rparr>))"

definition merge :: "Loop \<Rightarrow> Issue \<Rightarrow> bool \<Rightarrow> PullRequest \<Rightarrow> unit job" where
  "merge l current headChanged pr =
     seq (decide ''decide Pull Request merge wait'' (AwaitMerge (iss_Status current))) (\<lambda>transition.
     seq (if pr_IsDraft pr then wrap_job Transient ''mark Pull Request ready'' (call_out l (ReadyPullRequest (pr_URL pr))) else ret ()) (\<lambda>_.
     seq (if lp_AutoMerge l then wrap_job Transient ''merge Pull Request'' (call_out l (MergePullRequest (pr_URL pr))) else ret ()) (\<lambda>_.
     seq (persist ''persist Pull Request ready state'' (update_snapshot l ''pull_request_ready'' (iss_Number current) (iss_RunID current)
            ''{pull_request_url,auto_merge}'' (ready_mutation (iss_Number current) transition pr (poll_interval l)))) (\<lambda>_.
       if iss_Status current \<noteq> StatusAwaitingMerge \<or> headChanged then commentProgress l current ''merge-wait'' else ret ()))))"

definition update_branch :: "Loop \<Rightarrow> Issue \<Rightarrow> bool \<Rightarrow> PullRequest \<Rightarrow> unit job" where
  "update_branch l current headChanged pr =
     (let reason = lit ''Pull Request branch updated; waiting for checks'' in
      seq (wrap_job Transient ''update Pull Request branch'' (call_out l (UpdatePullRequest (pr_URL pr)))) (\<lambda>_.
      seq (schedulePullRequestPoll l current reason) (\<lambda>_.
        if headChanged \<or> iss_LastError current \<noteq> reason then commentProgress l current ''branch-updated'' else ret ())))"

definition follow_checks :: "Loop \<Rightarrow> Issue \<Rightarrow> bool \<Rightarrow> PullRequest \<Rightarrow> unit job" where
  "follow_checks l current headChanged pr =
     (if pr_ChecksStatus pr = ''pending'' \<or> pr_ChecksStatus pr = '''' then schedulePullRequestPoll l current (lit ''waiting for Pull Request checks'')
      else if pr_ChecksStatus pr = ''failure'' then schedulePullRequestChecksRetry l current pr
      else if pr_ChecksStatus pr = ''success'' then merge l current headChanged pr
      else throw (WrapFailure IssueFailure ''inspect Pull Request checks'' (Cause (''unknown check status '' @ go_quote (pr_ChecksStatus pr)))))"

text \<open>The state of the merge comes before the checks.\<close>

definition follow_merge_state :: "Loop \<Rightarrow> Issue \<Rightarrow> bool \<Rightarrow> PullRequest \<Rightarrow> unit job" where
  "follow_merge_state l current headChanged pr =
     (let st = ToLower (pr_MergeStateStatus pr) in
      if lp_AutoMerge l \<and> st = ''behind'' then update_branch l current headChanged pr
      else if lp_AutoMerge l \<and> st = ''dirty'' then beginConflictRecovery l current pr
      else if lp_AutoMerge l \<and> (st = ''unknown'' \<or> st = ''unstable'')
      then schedulePullRequestPoll l current (lit ''waiting for stable Pull Request merge state'')
      else follow_checks l current headChanged pr)"

section \<open>The steps of a poll\<close>

definition intact :: "Inspection \<Rightarrow> bool" where
  "intact i \<longleftrightarrow> ins_Exists i \<and> ins_Valid i \<and> ins_LocalBranchExists i \<and> ins_RemoteBranchExists i"

definition with_worktree_of :: "Loop \<Rightarrow> Issue \<Rightarrow> (Inspection \<Rightarrow> 'a job) \<Rightarrow> 'a job" where
  "with_worktree_of l current f = seq (wrap_job Transient ''inspect Pull Request worktree'' (inspect_worktree l current)) f"

definition review_blocks :: "string \<Rightarrow> bool" where
  "review_blocks decision \<longleftrightarrow> decision = ''CHANGES_REQUESTED'' \<or> decision = ''REVIEW_REQUIRED''"

definition wait_for_review :: "Loop \<Rightarrow> Issue \<Rightarrow> bool \<Rightarrow> unit job" where
  "wait_for_review l current changed =
     (let reason = lit ''waiting for required review to pass'' in
      seq (schedulePullRequestPoll l current reason) (\<lambda>_.
        if changed \<or> iss_LastError current \<noteq> reason
        then commentProgress l current (''review:'' @ iss_ReviewDecision current @ '':'' @ lp_TimeText l (iss_UpdatedAt current)) else ret ()))"

definition follow_open :: "Loop \<Rightarrow> Issue \<Rightarrow> bool \<Rightarrow> bool \<Rightarrow> PullRequest \<Rightarrow> unit job" where
  "follow_open l current headChanged reviewChanged pr =
     (if \<not> EqualFold (pr_State pr) ''open'' then blockPullRequestLifecycle l current pr (lit ''Pull Request was closed without merge'')
      else if review_blocks (iss_ReviewDecision current) then wait_for_review l current (headChanged \<or> reviewChanged)
      else with_worktree_of l current (\<lambda>i.
        if \<not> intact i then blockPullRequestLifecycle l current pr (lit ''open Pull Request branch or worktree disappeared'')
        else if iss_Status current = StatusAwaitingMerge \<and> \<not> lp_AutoMerge l
        then schedulePullRequestPoll l current (lit ''waiting for Pull Request merge'')
        else follow_merge_state l current headChanged pr))"

definition observe_head :: "Loop \<Rightarrow> Issue \<Rightarrow> PullRequest \<Rightarrow> Issue job" where
  "observe_head l current pr =
     seq (persist ''persist Pull Request head'' (update_snapshot l ''pull_request_head_observed'' (iss_Number current) (iss_RunID current) ''{head_sha}''
            (\<lambda>rd. edit (iss_Number current) (\<lambda>item. item\<lparr>iss_HeadSHA := pr_HeadSHA pr, iss_UpdatedAt := rd_Now rd 0\<rparr>))))
       (\<lambda>_. ret (current\<lparr>iss_HeadSHA := pr_HeadSHA pr\<rparr>))"

definition observe_review :: "Loop \<Rightarrow> Issue \<Rightarrow> PullRequest \<Rightarrow> Issue job" where
  "observe_review l current pr =
     seq (persist ''persist Pull Request review decision''
            (update_snapshot l ''pull_request_review_observed'' (iss_Number current) (iss_RunID current) ''{review_decision}''
              (\<lambda>rd. edit (iss_Number current) (\<lambda>item. item\<lparr>iss_ReviewDecision := pr_ReviewDecision pr, iss_UpdatedAt := rd_Now rd 0\<rparr>))))
       (\<lambda>_. ret (current\<lparr>iss_ReviewDecision := pr_ReviewDecision pr\<rparr>))"

definition follow_selected :: "Loop \<Rightarrow> Issue \<Rightarrow> PullRequest \<Rightarrow> unit job" where
  "follow_selected l current pr =
     (if pr_MergedAt pr \<noteq> None then completeIssue l current pr ''null''
      else let headChanged = (pr_HeadSHA pr \<noteq> '''' \<and> iss_HeadSHA current \<noteq> pr_HeadSHA pr);
               reviewChanged = (pr_ReviewDecision pr \<noteq> '''' \<and> iss_ReviewDecision current \<noteq> pr_ReviewDecision pr) in
        seq (if headChanged then observe_head l current pr else ret current) (\<lambda>current.
        seq (if reviewChanged then observe_review l current pr else ret current) (\<lambda>current.
          follow_open l current headChanged reviewChanged pr)))"

definition no_pull_request :: "Loop \<Rightarrow> Issue \<Rightarrow> unit job" where
  "no_pull_request l current = with_worktree_of l current (\<lambda>i.
     if \<not> intact i
     then blockPullRequestLifecycle l current (zero_PullRequest\<lparr>pr_URL := iss_PullRequestURL current, pr_Number := iss_PullRequestNumber current\<rparr>)
            (lit ''saved Pull Request branch or worktree disappeared'')
     else schedulePullRequestPoll l current (lit ''Pull Request is not visible yet''))"

definition merged_candidate :: "Issue \<Rightarrow> PullRequest \<Rightarrow> bool" where
  "merged_candidate current pr \<longleftrightarrow> pr_MergedAt pr \<noteq> None \<and> (pr_URL pr = iss_PullRequestURL current \<or> iss_PullRequestURL current = '''')"

definition selected_candidate :: "Issue \<Rightarrow> PullRequest \<Rightarrow> bool" where
  "selected_candidate current pr \<longleftrightarrow> pr_URL pr = iss_PullRequestURL current
     \<or> iss_PullRequestURL current = '''' \<and> pr_HeadRefName pr = iss_Branch current"

definition follow_remote :: "Loop \<Rightarrow> Issue \<Rightarrow> PullRequest list \<Rightarrow> unit job" where
  "follow_remote l current prs = (case find (merged_candidate current) prs of
     Some pr \<Rightarrow> completeIssue l current pr ''null''
   | None \<Rightarrow>
     if length prs > 1
     then blockPullRequestLifecycle l current (hd prs)
            (''multiple Pull Requests exist for the saved branch: '' @ join_with '', '' (map pr_URL prs))
     else case find (selected_candidate current) prs of
       None \<Rightarrow> no_pull_request l current
     | Some pr \<Rightarrow> follow_selected l current pr)"

definition resumed_checks :: "Issue \<Rightarrow> bool" where
  "resumed_checks current \<longleftrightarrow> iss_RetryAfter current = None
     \<and> (case (iss_Continuation current, iss_Suspension current) of
          (Some c, Some sp) \<Rightarrow> ckpt_Stage c = ContinuationStageChecks \<and> susp_Status sp = SuspensionResolved | _ \<Rightarrow> False)"

definition processPullRequest :: "Loop \<Rightarrow> Issue \<Rightarrow> unit job" where
  "processPullRequest l current =
     seq (wrap_job Transient ''inspect Pull Request lifecycle'' (inspectIssue l current)) (\<lambda>remote.
     seq (if resumed_checks current then commentResume l current ''checks'' else ret ()) (\<lambda>_.
       follow_remote l current (rs_PullRequests remote)))"

end
