(* ===== verification/Runs.thy ===== *)
theory Runs
  imports PullRequests
begin

text \<open>
  The run of an Issue (\<open>internal/application/supervisor\<close>: \<open>worker_execution.go\<close>, \<open>supervisor.go\<close>,
  \<open>continuation_stage.go\<close>): admission and claim, the first worker, the handling of its result, the resumption of what is pending, and the
  publication of a resolved checkpoint. A fresh and a resumed worker session differ in their prompt only.
\<close>

section \<open>A worker's result\<close>

definition worker_superseded :: go_error where
  "worker_superseded = Errorf [Lit ''worker result superseded by authoritative state'']"

text \<open>\<open>errors.Is(err, errWorkerResultSuperseded)\<close>.\<close>

fun is_superseded :: "go_error \<Rightarrow> bool" where
  "is_superseded (Wrapf ps e) = is_superseded e"
| "is_superseded (IssueMutationError n e) = is_superseded e"
| "is_superseded e = (e = worker_superseded)"

definition result_session :: "Loop \<Rightarrow> WorkerResult \<Rightarrow> Issue \<Rightarrow> Issue" where
  "result_session l result item =
     (if wr_SessionID result = '''' then item
      else let backend = (if wid_Backend (wr_Identity result) = '''' then lp_Backend l else wid_Backend (wr_Identity result)) in
        item\<lparr>iss_SessionID := wr_SessionID result,
          iss_Session := Some \<lparr>ses_Backend = (if backend = '''' then ''codex'' else backend), ses_ID = wr_SessionID result\<rparr>\<rparr>)"

definition result_identity :: "Loop \<Rightarrow> WorkerResult \<Rightarrow> WorkerIdentity" where
  "result_identity l result = (if wid_Backend (wr_Identity result) = '''' then lp_Identity l else wr_Identity result)"

definition preflight_mutation :: "Loop \<Rightarrow> int \<Rightarrow> string \<Rightarrow> string \<Rightarrow> WorkerResult \<Rightarrow> Readings \<Rightarrow> Snapshot \<Rightarrow> go_error + Snapshot" where
  "preflight_mutation l number runID profile result rd s = (case issue_at s number of
     None \<Rightarrow> Inl worker_superseded
   | Some item \<Rightarrow>
     if iss_RunID item \<noteq> runID \<or> TerminalForWebhook (iss_Status item) then Inl worker_superseded
     else Inr (put_issue number ((result_session l result (item\<lparr>iss_ExecutionProfile := profile\<rparr>))
            \<lparr>iss_WorkerIdentity := result_identity l result, iss_UpdatedAt := rd_Now rd 0\<rparr>) s))"

section \<open>Completed work\<close>

definition checks_pending_mutation :: "int \<Rightarrow> Transition \<Rightarrow> string \<Rightarrow> Readings \<Rightarrow> Snapshot \<Rightarrow> go_error + Snapshot" where
  "checks_pending_mutation number transition prURL rd s =
     and_ok (transition_issue number transition s) (\<lambda>s.
     and_ok (edit number (\<lambda>item. item\<lparr>iss_PullRequestURL := prURL, iss_LastError := '''', iss_PullRequestNumber := pullRequestNumber prURL,
               iss_PullRequestMerged := False, iss_FailureKind := ''''\<rparr>) s) (\<lambda>s.
     and_ok (set_item_effect number (rd_Entropy rd 0) EffectNone (rd_Now rd 0) s)
       (edit number (\<lambda>item. item\<lparr>iss_RetryAfter := None, iss_UpdatedAt := rd_Now rd 1\<rparr>))))"

definition await_checks :: "Loop \<Rightarrow> Issue \<Rightarrow> GitResult option \<Rightarrow> unit job" where
  "await_checks l current git = (case git of
     None \<Rightarrow> scheduleRetry l current (lit ''completed work has not been published'')
   | Some g \<Rightarrow>
     if git_PullRequestURL g = '''' then completeIssue l current zero_PullRequest ''{result}''
     else seq (decide ''decide Pull Request check wait'' (AwaitChecks (iss_Status current))) (\<lambda>transition.
       seq (persist ''persist Pull Request check wait'' (update_snapshot l ''pull_request_checks_pending'' (iss_Number current)
              (iss_RunID current) ''{result}'' (checks_pending_mutation (iss_Number current) transition (git_PullRequestURL g))))
         (\<lambda>_. ret ())))"

definition publish :: "Loop \<Rightarrow> int \<Rightarrow> ('e, GitResult \<times> Audit \<times> publish_error option) run" where
  "publish l number = perform_call (PublishWork number) (lp_Published l) (\<lambda>(git, audit, e). e = None)"

definition audit_mutation :: "int \<Rightarrow> Audit \<Rightarrow> Readings \<Rightarrow> Snapshot \<Rightarrow> go_error + Snapshot" where
  "audit_mutation number audit rd = edit number (\<lambda>item. item\<lparr>iss_PublicationAudit := Some audit, iss_UpdatedAt := rd_Now rd 0\<rparr>)"

definition publish_completed :: "Loop \<Rightarrow> Issue \<Rightarrow> WorkerResult \<Rightarrow> unit job" where
  "publish_completed l current result =
     seq (persist ''load active execution before publication'' (load_snapshot l)) (\<lambda>s.
     seq (publish l (iss_Number current)) (\<lambda>(git, audit, e).
     seq (persist ''persist publication resource audit'' (update_snapshot l ''publication_audited'' (iss_Number current) (iss_RunID current)
            ''{audit}'' (audit_mutation (iss_Number current) audit))) (\<lambda>_.
       case e of
         Some e \<Rightarrow> schedulePublicationRetry l current (WrapError ''publish completed work: '' e) (wr_Summary result)
       | None \<Rightarrow> seq (commentPublication l current (git_PullRequestURL git) (git_Commit git)) (\<lambda>_. await_checks l current (Some git)))))"

section \<open>A question\<close>

definition question_checkpoint :: "string \<Rightarrow> string \<Rightarrow> string \<Rightarrow> ContinuationCheckpoint \<Rightarrow> ContinuationCheckpoint" where
  "question_checkpoint head digest requestID c = c\<lparr>ckpt_HeadSHA := head, ckpt_WorktreeSHA256 := digest,
     ckpt_Kind := ContinuationKindNeedsInput, ckpt_RequestID := requestID\<rparr>"

definition worker_request :: "string \<Rightarrow> Issue \<Rightarrow> Question \<Rightarrow> string \<Rightarrow> time \<Rightarrow> Request" where
  "worker_request requestID current q checkpointID at = (asked_request requestID (iss_Number current) q at)
     \<lparr>req_RunID := iss_RunID current, req_CheckpointID := checkpointID, req_ReleasedExecution := Some (issue_identity current)\<rparr>"

definition input_mutation ::
  "Issue \<Rightarrow> InputDecision \<Rightarrow> string \<Rightarrow> Question \<Rightarrow> string \<Rightarrow> time \<Rightarrow> string \<Rightarrow> string \<Rightarrow> Readings \<Rightarrow> Snapshot \<Rightarrow> go_error + Snapshot" where
  "input_mutation current decision requestID q checkpointID suspendedAt head digest rd s =
     (let number = iss_Number current; identity = issue_identity current in
      and_ok (check_that (case issue_at s number of None \<Rightarrow> False
                | Some item \<Rightarrow> iss_RunID item = iss_RunID current \<and> OwnsActiveExecution s number identity)
                [Lit ''Issue #'', Num number, Lit '' no longer has an active needs-input worker boundary''] s) (\<lambda>s.
      and_ok (CaptureContinuation number identity checkpointID suspendedAt s) (\<lambda>s.
      and_ok (edit number (\<lambda>item. item\<lparr>iss_Continuation := map_option (question_checkpoint head digest requestID) (iss_Continuation item)\<rparr>) s) (\<lambda>s.
      and_ok (transition_issue number (id_Transition decision) s) (\<lambda>s.
      and_ok (edit number (\<lambda>item. item\<lparr>iss_UpdatedAt := rd_Now rd 0, iss_FailureKind := ''''\<rparr>) s) (\<lambda>s.
      and_ok (set_item_effect number (rd_Entropy rd 0) (id_Effect decision) (rd_Now rd 1) s)
        (put_request (worker_request requestID current q checkpointID (rd_Now rd 2)))))))))"

text \<open>A worker that asks has a question: \<open>worker.go\<close> rejects other results.\<close>

definition ask_operator :: "Loop \<Rightarrow> Issue \<Rightarrow> WorkerResult \<Rightarrow> unit job" where
  "ask_operator l current result =
     seq (decide ''decide input request'' (RequestInput (iss_Status current))) (\<lambda>decision.
     seq (new_id l ''req'') (\<lambda>requestID.
     seq (new_id l ''checkpoint'') (\<lambda>checkpointID.
     seq (read_clock l) (\<lambda>suspendedAt.
     seq (continuationWorktreeHead l current) (\<lambda>head.
     seq (digest_or_empty l current) (\<lambda>digest.
       case wr_Question result of
         None \<Rightarrow> throw (Cause (error_text NilPointerPanic))
       | Some q \<Rightarrow>
         on_error (update_snapshot l ''input_requested'' (iss_Number current) (iss_RunID current)
             ''{question,request_id,checkpoint_id,released_execution,suspended_at}''
             (input_mutation current decision requestID q checkpointID suspendedAt head digest))
           (\<lambda>e. scheduleRetry l current (''persist input request: '' @ error_text e))
           (\<lambda>_. resync l (iss_Number current))))))))"

section \<open>handleResult\<close>

definition result_outcome :: "Loop \<Rightarrow> Issue \<Rightarrow> WorkerResult \<Rightarrow> unit job" where
  "result_outcome l current result =
     (if wr_Status result = ''completed'' then
        (if lp_HasPublisher l then publish_completed l current result else await_checks l current (wr_Git result))
      else if wr_Status result = ''needs_input'' then ask_operator l current result
      else if wr_Status result = ''retryable_failure'' then scheduleRetry l current (retry_reason result)
      else if wr_Status result = ''blocked'' then suspendWorker l (iss_Number current) (wr_Summary result)
      else scheduleRetry l current (lit ''worker returned an unknown status''))"

definition result_profile :: "Issue \<Rightarrow> WorkerResult \<Rightarrow> string" where
  "result_profile current result =
     (if iss_ExecutionProfile current = ''extended'' then ''extended'' else default_profile (wr_ExecutionProfile result))"

definition accept_result :: "Loop \<Rightarrow> Issue \<Rightarrow> WorkerResult \<Rightarrow> launch_error option \<Rightarrow> unit job" where
  "accept_result l current result runErr =
     on_error (update_snapshot l ''worker_preflight_completed'' (iss_Number current) (iss_RunID current) ''{execution_profile}''
         (preflight_mutation l (iss_Number current) (iss_RunID current) (result_profile current result) result))
       (\<lambda>e. if is_superseded e then ret () else throw (WrapFailure SupervisorFailure ''persist worker result'' (store_failure e)))
       (\<lambda>_. seq (issueState l (iss_Number current)) (\<lambda>current. case runErr of
          Some e \<Rightarrow> scheduleRetry l current (launch_error_text e)
        | None \<Rightarrow> result_outcome l current result))"

definition handleResult :: "Loop \<Rightarrow> Issue \<Rightarrow> WorkerResult \<Rightarrow> launch_error option \<Rightarrow> unit job" where
  "handleResult l current result runErr =
     seq (refreshed l current) (\<lambda>current. case runErr of
       Some (WorkspaceRejected terminal m) \<Rightarrow>
         if iss_Status current = StatusLaunching \<and> \<not> terminal then scheduleRetry l current m else blockWorkerWorkspace l current m
     | Some (LaunchRejected terminal m) \<Rightarrow> handleLaunchValidationFailure l current (LaunchRejected terminal m)
     | _ \<Rightarrow> accept_result l current result runErr)"

section \<open>The first worker\<close>

definition same_workspace :: "WorkerWorkspace \<Rightarrow> WorkerWorkspace \<Rightarrow> bool" where
  "same_workspace w v \<longleftrightarrow> Workspace_Matches w (wsp_Path v) (wsp_Branch v) (wsp_RepoID v) (wsp_Repository v) (wsp_RepositoryID v)
     (wsp_GitCommonDir v) (wsp_MainCheckout v)"

definition first_worker_mutation :: "Loop \<Rightarrow> int \<Rightarrow> Transition \<Rightarrow> WorkerWorkspace \<Rightarrow> Readings \<Rightarrow> Snapshot \<Rightarrow> go_error + Snapshot" where
  "first_worker_mutation l number transition workspace rd s =
     and_ok (edit number (\<lambda>item. item\<lparr>iss_LaunchSource := iss_Status item\<rparr>) s) (\<lambda>s.
     and_ok (transition_issue number transition s) (\<lambda>s.
     and_ok (check_that (case issue_at s number of None \<Rightarrow> False
               | Some item \<Rightarrow> (case iss_Workspace item of None \<Rightarrow> False | Some w \<Rightarrow> same_workspace w workspace))
               [Lit ''Issue #'', Num number, Lit '' claimed workspace provenance changed before worker start''] s)
       (edit number (\<lambda>item. item\<lparr>iss_UpdatedAt := rd_Now rd 0, iss_WorkerIdentity := lp_Identity l\<rparr>))))"

definition runClaimed :: "Loop \<Rightarrow> int \<Rightarrow> string \<Rightarrow> WorkerWorkspace \<Rightarrow> unit job" where
  "runClaimed l number runID workspace =
     seq (decide ''decide initial worker start'' (StartClaimedWorker StatusClaimed)) (\<lambda>transition.
     seq (persist ''persist worker start'' (update_snapshot l ''worker_started'' number runID
            ''{worktree,branch,identity,expected_cwd,workspace_validation}'' (first_worker_mutation l number transition workspace))) (\<lambda>_.
     seq (issueState l number) (\<lambda>current.
     seq (on_error (validateWorkerLaunch l (wsp_Path workspace) current) (\<lambda>e. ret (zero_WorkerResult, Some e))
            (\<lambda>validation. spawn l current (lv_CanonicalCWD validation))) (\<lambda>(result, runErr).
       handleResult l current result runErr))))"

definition claimed_mutation :: "int \<Rightarrow> Transition \<Rightarrow> string \<Rightarrow> WorkerWorkspace \<Rightarrow> Readings \<Rightarrow> Snapshot \<Rightarrow> go_error + Snapshot" where
  "claimed_mutation number transition branch workspace rd s =
     and_ok (check_that (issue_at s number \<noteq> None) [Lit ''Issue #'', Num number, Lit '' disappeared while claiming''] s) (\<lambda>s.
     and_ok (transition_issue number transition s)
       (edit number (\<lambda>item. item\<lparr>iss_Worktree := wsp_Path workspace, iss_Branch := branch, iss_Workspace := Some workspace,
          iss_UpdatedAt := rd_Now rd 0\<rparr>)))"

definition launch_workspace :: "Loop \<Rightarrow> LaunchValidation \<Rightarrow> time \<Rightarrow> WorkerWorkspace" where
  "launch_workspace l launch at = \<lparr>wsp_Path = lv_CanonicalCWD launch, wsp_Branch = lv_Branch launch, wsp_RepoID = store_RepoID (lp_Store l),
     wsp_Repository = gc_Repo (lp_GitHub l), wsp_RepositoryID = lp_RepositoryID l, wsp_GitCommonDir = lv_CommonDir launch,
     wsp_MainCheckout = lv_MainCheckout launch, wsp_CapturedAt = at\<rparr>"

definition confirm_claim :: "Loop \<Rightarrow> int \<Rightarrow> string \<Rightarrow> string \<Rightarrow> LaunchValidation \<Rightarrow> unit job" where
  "confirm_claim l number runID branch launch =
     seq (read_clock l) (\<lambda>at.
     seq (decide ''decide claimed Issue'' (ConfirmClaim StatusClaiming)) (\<lambda>transition.
     seq (persist ''persist claimed Issue'' (update_snapshot l ''issue_claimed'' number runID ''{title}''
            (claimed_mutation number transition branch (launch_workspace l launch at)))) (\<lambda>_.
       runClaimed l number runID (launch_workspace l launch at))))"

definition claimAndRun :: "Loop \<Rightarrow> GHIssue \<Rightarrow> string \<Rightarrow> unit job" where
  "claimAndRun l issue runID =
     (let number = gh_Number issue; failed = (\<lambda>operation e. failIssue l number (WrapFailure IssueFailure operation e) False) in
      seq (wrap_job Transient ''claim GitHub Issue'' (call_out l (Claim number runID))) (\<lambda>_.
      seq (issueState l number) (\<lambda>current.
      on_error (observe (\<lambda>k. lp_Ensure l k number (gh_Title issue) (iss_Branch current))) (failed ''prepare Issue worktree'') (\<lambda>(path, branch).
      seq (observe (\<lambda>k. Inr (lp_ValidateLaunch l k path branch))) (\<lambda>(launch, e). case e of
          Some e \<Rightarrow> failed ''validate initial Issue worktree'' e
        | None \<Rightarrow>
          if \<not> lv_Valid launch
          then failed ''validate initial Issue worktree'' (Cause (lit ''worktree validator did not establish a valid launch boundary''))
          else confirm_claim l number runID branch launch)))))"

section \<open>Admission\<close>

definition record_author :: "Loop \<Rightarrow> int \<Rightarrow> AuthorVerification \<Rightarrow> (go_error, unit) run" where
  "record_author l number v =
     seq (read_clock l) (\<lambda>t.
       if number < 1 \<or> av_Reason v = '''' then throw (Errorf [Lit ''author verification evidence is incomplete''])
       else seq (update_snapshot l ''issue_author_verification_recorded'' number '''' ''{verification}''
              (\<lambda>rd. RecordAuthorVerification number t v))
            (\<lambda>_. ret ()))"

text \<open>\<open>StartExecution\<close>; the Issue may be quarantined by the update itself.\<close>

fun is_quarantined :: "go_error \<Rightarrow> bool" where
  "is_quarantined (IssueQuarantinedError n c r) = True"
| "is_quarantined (Wrapf ps e) = is_quarantined e"
| "is_quarantined (IssueMutationError n e) = is_quarantined e"
| "is_quarantined _ = False"

definition start_execution :: "Loop \<Rightarrow> ExecutionStart \<Rightarrow> (go_error, unit) run" where
  "start_execution l start = (case start_request_error start of
     Some e \<Rightarrow> throw e
   | None \<Rightarrow> seq (read_clock l) (\<lambda>t.
       let start = start_time start t in
       seq (update_snapshot l ''execution_started'' (st_IssueNumber start) (st_RunID start) ''{base_sha,started_at,identity}''
              (\<lambda>rd s. map_sum id fst (start_mutation start s))) (\<lambda>s.
         case ptr_at (snap_QuarantinedIssues s) (Itoa (st_IssueNumber start)) of
           Some record \<Rightarrow> throw (IssueQuarantinedError (st_IssueNumber start) (qr_ReasonCode record) (qr_Reason record))
         | None \<Rightarrow> ret ())))"

definition admit :: "Loop \<Rightarrow> GHIssue \<Rightarrow> string \<Rightarrow> AuthorVerification \<Rightarrow> unit job" where
  "admit l issue runID v =
     seq (read_clock l) (\<lambda>t.
     seq (observe (\<lambda>k. Inr (lp_BaseSHA l k))) (\<lambda>base.
       on_error (start_execution l \<lparr>st_IssueNumber = gh_Number issue, st_Title = gh_Title issue, st_RunID = runID, st_BaseSHA = base,
                   st_StartedAt = t, st_AuthorVerification = Some v\<rparr>)
         (\<lambda>e. throw (if is_quarantined e then WrapFailure IssueFailure ''reject quarantined Issue admission'' (store_failure e)
                     else WrapFailure SupervisorFailure ''persist claim start'' (store_failure e)))
         (\<lambda>_. claimAndRun l issue runID)))"

definition startIssue :: "Loop \<Rightarrow> int \<Rightarrow> string \<Rightarrow> unit job" where
  "startIssue l number runID =
     seq (wrap_job Transient ''refresh GitHub Issue before claim'' (getIssue l number)) (\<lambda>issue.
       if \<not> EligibleIssue issue (lp_GitHub l) then ret ()
       else seq (observe (\<lambda>k. Inr (lp_Author l k))) (\<lambda>(v, e). case e of
         Some e \<Rightarrow> seq (if av_Reason v \<noteq> '''' then on_error (record_author l (gh_Number issue) v) (\<lambda>_. ret ()) ret else ret ())
           (\<lambda>_. throw (WrapFailure IssueFailure ''verify refreshed Issue author'' e))
       | None \<Rightarrow>
         if \<not> av_Trusted v then persist ''record refreshed Issue author verification'' (record_author l (gh_Number issue) v)
         else admit l issue runID v))"

section \<open>Publishing a resolved checkpoint\<close>

definition publication_remote_error :: "Issue \<Rightarrow> RemoteState \<Rightarrow> string option" where
  "publication_remote_error current remote =
     (let open_prs = filter open_unmerged (rs_PullRequests remote) in
      if \<not> EqualFold (gh_State (rs_Issue remote)) ''open'' then Some (lit ''GitHub Issue is no longer open'')
      else if iss_PullRequestURL current = ''''
      then (if open_prs \<noteq> [] then Some (lit ''a Pull Request appeared after publication checkpoint resolution'') else None)
      else case open_prs of
        [pr] \<Rightarrow> if pr_URL pr \<noteq> iss_PullRequestURL current \<or> pr_HeadRefName pr \<noteq> iss_Branch current
            then Some (lit ''saved Pull Request differs from the publication checkpoint'') else None
      | _ \<Rightarrow> Some (lit ''saved Pull Request differs from the publication checkpoint''))"

definition publication_ready :: "Loop \<Rightarrow> Issue \<Rightarrow> Snapshot \<Rightarrow> bool" where
  "publication_ready l current s \<longleftrightarrow> (case iss_Continuation current of None \<Rightarrow> False
     | Some c \<Rightarrow> ckpt_Stage c = ContinuationStagePublish \<and> ckpt_Summary c \<noteq> '''' \<and> ckpt_ResultSHA256 c \<noteq> '''')
     \<and> iss_Status current = StatusLaunching \<and> iss_LaunchSource current = StatusResumePending
     \<and> OwnsActiveExecution s (iss_Number current) (issue_identity current) \<and> lp_HasPublisher l \<and> lp_HasWorktrees l"

definition publication_worktree :: "Issue \<Rightarrow> Inspection \<Rightarrow> bool" where
  "publication_worktree current i \<longleftrightarrow> ins_Exists i \<and> ins_Valid i \<and> ins_LocalBranchExists i \<and> ins_Branch i = iss_Branch current \<and> ins_Head i \<noteq> ''''"

definition checkpoint_audit_mutation :: "Issue \<Rightarrow> ContinuationCheckpoint \<Rightarrow> Audit \<Rightarrow> Readings \<Rightarrow> Snapshot \<Rightarrow> go_error + Snapshot" where
  "checkpoint_audit_mutation current checkpoint audit rd s =
     (let number = iss_Number current in
      and_ok (check_that (case issue_at s number of None \<Rightarrow> False
                | Some item \<Rightarrow> iss_Status item = StatusLaunching \<and> OwnsActiveExecution s number (issue_identity current)
                    \<and> (case iss_Continuation item of None \<Rightarrow> False
                       | Some c \<Rightarrow> ckpt_ID c = ckpt_ID checkpoint \<and> ckpt_ResultSHA256 c = ckpt_ResultSHA256 checkpoint))
                [Lit ''Issue #'', Num number, Lit '' publication checkpoint changed during execution''] s)
        (audit_mutation number audit rd))"

definition checkpoint_published_mutation :: "Issue \<Rightarrow> ExecutionIdentity \<Rightarrow> Transition \<Rightarrow> string \<Rightarrow> Readings \<Rightarrow> Snapshot \<Rightarrow> go_error + Snapshot" where
  "checkpoint_published_mutation current identity transition prURL rd s =
     (let number = iss_Number current in
      and_ok (check_that (issue_at s number \<noteq> None \<and> OwnsActiveExecution s number identity)
                [Lit ''Issue #'', Num number, Lit '' publication checkpoint execution changed''] s) (\<lambda>s.
      and_ok (transition_issue number transition s) (\<lambda>s.
      and_ok (edit number (\<lambda>item. item\<lparr>iss_PullRequestURL := prURL, iss_PullRequestNumber := pullRequestNumber prURL, iss_LastError := '''',
                iss_FailureKind := '''', iss_RetryAfter := None\<rparr>) s) (\<lambda>s.
      and_ok (set_item_effect number (rd_Entropy rd 0) EffectNone (rd_Now rd 0) s)
        (edit number (\<lambda>item. item\<lparr>iss_UpdatedAt := rd_Now rd 1\<rparr>))))))"

definition finish_checkpoint :: "Loop \<Rightarrow> Issue \<Rightarrow> ExecutionIdentity \<Rightarrow> GitResult \<Rightarrow> unit job" where
  "finish_checkpoint l current identity git =
     seq (commentPublication l current (git_PullRequestURL git) (git_Commit git)) (\<lambda>_.
       if git_PullRequestURL git = '''' then completeIssue l current zero_PullRequest ''{result}''
       else seq (decide ''decide publication checkpoint completion'' (AwaitChecks (iss_Status current))) (\<lambda>transition.
         seq (persist ''persist publication checkpoint completion'' (update_snapshot l ''publication_checkpoint_completed'' (iss_Number current)
                (iss_RunID current) ''{result}'' (checkpoint_published_mutation current identity transition (git_PullRequestURL git))))
           (\<lambda>_. ret ())))"

definition publish_checkpoint :: "Loop \<Rightarrow> Issue \<Rightarrow> ContinuationCheckpoint \<Rightarrow> unit job" where
  "publish_checkpoint l current checkpoint =
     seq (publish l (iss_Number current)) (\<lambda>(git, audit, e).
     seq (commentResume l current ''publication'') (\<lambda>_.
     seq (persist ''persist publication checkpoint audit'' (update_snapshot l ''publication_checkpoint_audited'' (iss_Number current)
            (iss_RunID current) ''{audit}'' (checkpoint_audit_mutation current checkpoint audit))) (\<lambda>_.
     seq (issueState l (iss_Number current)) (\<lambda>latest. case e of
         Some e \<Rightarrow> failCheckpointStage l latest (''publication checkpoint failed: '' @ publish_error_text e)
       | None \<Rightarrow> finish_checkpoint l latest (issue_identity current) git))))"

definition check_checkpoint :: "Loop \<Rightarrow> Issue \<Rightarrow> ContinuationCheckpoint \<Rightarrow> unit job" where
  "check_checkpoint l current checkpoint =
     (let differs = failCheckpointStage l current (lit ''saved completed worker result differs from the resolved checkpoint'');
          invalid = failCheckpointStage l current (lit ''saved publication worktree is no longer valid'') in
      on_error (observe (\<lambda>k. lp_SavedResult l k (iss_RunID current))) (\<lambda>e. differs) (\<lambda>(summary, digest).
        if summary \<noteq> ckpt_Summary checkpoint \<or> digest \<noteq> ckpt_ResultSHA256 checkpoint then differs
        else on_error (inspect_worktree l current) (\<lambda>e. invalid) (\<lambda>i.
          if \<not> publication_worktree current i then invalid
          else seq (inspect_branch l ''inspect publication checkpoint GitHub state'' current) (\<lambda>remote.
            case publication_remote_error current remote of
              Some reason \<Rightarrow> failCheckpointStage l current reason
            | None \<Rightarrow> publish_checkpoint l current checkpoint))))"

definition processPublicationCheckpoint :: "Loop \<Rightarrow> Issue \<Rightarrow> unit job" where
  "processPublicationCheckpoint l current =
     (let incomplete = failCheckpointStage l current (lit ''publication checkpoint is incomplete or no longer owns the active execution'') in
      on_error (load_snapshot l) (\<lambda>e. incomplete) (\<lambda>s.
        case iss_Continuation current of
          None \<Rightarrow> incomplete
        | Some checkpoint \<Rightarrow> if publication_ready l current s then check_checkpoint l current checkpoint else incomplete))"

section \<open>processExisting\<close>

definition continuation_mutation :: "Issue \<Rightarrow> int \<Rightarrow> Readings \<Rightarrow> Snapshot \<Rightarrow> go_error + Snapshot" where
  "continuation_mutation current continuations rd s =
     (let number = iss_Number current in
      and_ok (check_that (case issue_at s number of None \<Rightarrow> False
                | Some item \<Rightarrow> iss_Status item = StatusLaunching \<and> OwnsActiveExecution s number (issue_identity current))
                [Lit ''Issue #'', Num number, Lit '' retry execution changed before worker continuation''] s)
        (edit number (\<lambda>item. item\<lparr>iss_Continuations := continuations, iss_RetryAfter := None\<rparr>)))"

definition fresh_attempt_mutation :: "Issue \<Rightarrow> string \<Rightarrow> int \<Rightarrow> Readings \<Rightarrow> Snapshot \<Rightarrow> go_error + Snapshot" where
  "fresh_attempt_mutation current runID attempts rd s =
     (let number = iss_Number current in
      and_ok (TransferExecution number (issue_identity current) runID (rd_Now rd 0) s) (\<lambda>(s, identity).
      case issue_at s number of None \<Rightarrow> Inl NilPointerPanic | Some item \<Rightarrow>
      and_ok (check_that (iss_Status item = StatusLaunching) [Lit ''Issue #'', Num number, Lit '' retry execution is not launching''] s)
        (edit number (\<lambda>item. item\<lparr>iss_RunID := runID, iss_Attempts := attempts, iss_SessionID := '''', iss_Session := None,
           iss_RetryAfter := None\<rparr>))))"

definition run_and_handle :: "Loop \<Rightarrow> Issue \<Rightarrow> unit job" where
  "run_and_handle l current = seq (runWorker l current) (\<lambda>(result, runErr). handleResult l current result runErr)"

definition retry_worker :: "Loop \<Rightarrow> Issue \<Rightarrow> unit job" where
  "retry_worker l given =
     (let current = given\<lparr>iss_RetryAfter := None\<rparr>; number = iss_Number current in
      if RetryBudget_Decide (retryBudget l current) = RetryContinuation then
        let continued = current\<lparr>iss_Continuations := int_add (iss_Continuations current) 1\<rparr> in
        seq (persist ''persist worker continuation'' (update_snapshot l ''worker_continuation_started'' number (iss_RunID current)
               ''{continuation}'' (continuation_mutation current (iss_Continuations continued)))) (\<lambda>_.
          run_and_handle l continued)
      else
        seq (new_id l ''run'') (\<lambda>runID.
        seq (persist ''persist worker retry start'' (update_snapshot l ''worker_started'' number runID ''{attempt,execution_identity}''
               (fresh_attempt_mutation current runID (int_add (iss_Attempts current) 1)))) (\<lambda>_.
        seq (issueState l number) (\<lambda>current. run_and_handle l current))))"

definition resume_pending_worker :: "Loop \<Rightarrow> Issue \<Rightarrow> GHIssue \<Rightarrow> unit job" where
  "resume_pending_worker l current issue =
     (if (case iss_Continuation current of None \<Rightarrow> False | Some c \<Rightarrow> ckpt_Stage c = ContinuationStagePublish)
      then processPublicationCheckpoint l current
      else if needs_input_continuation current \<and> answeredResumeRemoteMismatch l issue current \<noteq> ''''
      then rejectAnsweredContinuation l current (answeredResumeRemoteMismatch l issue current)
      else on_error (call_out l (MarkRunning (iss_Number current)))
        (\<lambda>e. scheduleRetry l current (''mark resumed Issue running: '' @ failure_text e))
        (\<lambda>_. run_and_handle l (current\<lparr>iss_RetryAfter := None\<rparr>)))"

definition launch_pending :: "Loop \<Rightarrow> Status \<Rightarrow> Issue \<Rightarrow> unit job" where
  "launch_pending l pendingStatus current =
     on_error (validateRemoteLaunch l current True) (handleLaunchValidationFailure l current) (\<lambda>remote.
       if pendingStatus = StatusResolvingConflict then processConflictRecovery l current
       else if pendingStatus = StatusResumePending then resume_pending_worker l current (rs_Issue remote)
       else retry_worker l current)"

definition process_pending :: "Loop \<Rightarrow> Issue \<Rightarrow> unit job" where
  "process_pending l current =
     (let pendingStatus = (if iss_Status current = StatusLaunching then iss_LaunchSource current else iss_Status current) in
      seq (if iss_Status current = StatusResumePending \<or> iss_Status current = StatusRetryWait \<or> iss_Status current = StatusResolvingConflict
           then ensurePendingExecution l current else ret current) (\<lambda>current.
        if iss_Status current = StatusClaiming
        then seq (wrap_job Transient ''refresh existing GitHub Issue'' (getIssue l (iss_Number current))) (\<lambda>issue.
          claimAndRun l issue (iss_RunID current))
        else launch_pending l pendingStatus current))"

definition processExisting :: "Loop \<Rightarrow> Issue \<Rightarrow> unit job" where
  "processExisting l current =
     seq (unwrapped (load_snapshot l)) (\<lambda>s.
       if PendingEffect s (iss_Number current) \<noteq> None then syncGitHub l (iss_Number current)
       else if iss_Status current = StatusAwaitingChecks \<or> iss_Status current = StatusAwaitingMerge then processPullRequest l current
       else process_pending l current)"

end
