(* ===== verification/InputControl.thy ===== *)
theory InputControl
  imports GitHubSync
begin

text \<open>
  \<open>internal/application/supervisor/input_control.go\<close>: answers given as comments on the Issue. Every comment is looked at in the order of its
  creation; a command is acknowledged with an outcome, and an answer is recorded only when the comment passes every check. The text of an
  acknowledgement is not modelled. The receipt of an answer (\<open>RecordAnswer\<close>) is one interaction.
\<close>

section \<open>Commands\<close>

definition command_prefix :: string where
  "command_prefix = ''/agent-loop''"

definition answer_prefix :: string where
  "answer_prefix = ''/agent-loop answer ''"

definition command_id_char :: "char \<Rightarrow> bool" where
  "command_id_char c \<longleftrightarrow> (let n = of_char c :: nat in 48 \<le> n \<and> n \<le> 57 \<or> 65 \<le> n \<and> n \<le> 90 \<or> 97 \<le> n \<and> n \<le> 122
     \<or> c = CHR ''.'' \<or> c = CHR ''_'' \<or> c = CHR ''-'')"

text \<open>\<open>answerCommandPattern\<close>: the identifier and the rest.\<close>

definition match_command :: "string \<Rightarrow> (string \<times> string) option" where
  "match_command body =
     (if \<not> prefix answer_prefix body then None
      else let tail = drop (length answer_prefix) body; id' = takeWhile command_id_char tail; rest = drop (length id') tail in
        if id' = [] \<or> length id' > 200 \<or> rest = [] \<or> hd rest \<noteq> CHR '' '' \<or> tl rest = [] then None else Some (id', tl rest))"

datatype answer_command = NoCommand | Malformed string | AnswerCommand string string

definition parseAnswerCommand :: "string \<Rightarrow> answer_command" where
  "parseAnswerCommand body =
     (if \<not> prefix command_prefix body then NoCommand
      else case match_command body of
        None \<Rightarrow> Malformed ''''
      | Some (id', raw) \<Rightarrow> if TrimSpace raw = '''' \<or> TrimSpace raw \<noteq> raw then Malformed id' else AnswerCommand id' raw)"

definition IsManagedInputComment :: "string \<Rightarrow> bool" where
  "IsManagedInputComment body \<longleftrightarrow> string_contains body ''<!-- codex-issue-loop:input-request:''
     \<or> string_contains body ''<!-- codex-issue-loop:answer-ack:''"

section \<open>What a comment means\<close>

definition edited_answer :: "Loop \<Rightarrow> InputComment \<Rightarrow> Request \<Rightarrow> bool" where
  "edited_answer l comment request \<longleftrightarrow> (case req_AnswerProvenance request of None \<Rightarrow> False
     | Some p \<Rightarrow> prov_CommentID p = ic_ID comment
         \<and> (prov_BodySHA256 p \<noteq> lp_Sha256 l (ic_Body comment) \<or> prov_CommentEdited p \<noteq> ic_UpdatedAt comment))"

definition automation_actor :: "InputComment \<Rightarrow> bool" where
  "automation_actor comment \<longleftrightarrow> EqualFold (ic_ActorType comment) ''Bot'' \<or> EqualFold (ic_ActorType comment) ''App''"

text \<open>The run the Issue or its quarantine record is in.\<close>

definition current_run :: "Snapshot \<Rightarrow> int \<Rightarrow> Request \<Rightarrow> string" where
  "current_run s number candidate = (case issue_at s number of
     Some item \<Rightarrow> iss_RunID item
   | None \<Rightarrow> (case ptr_at (snap_QuarantinedIssues s) (Itoa number) of Some q \<Rightarrow> qr_RunID q | None \<Rightarrow> req_RunID candidate))"

definition stale_candidate :: "Snapshot \<Rightarrow> int \<Rightarrow> InputComment \<Rightarrow> Request \<Rightarrow> bool" where
  "stale_candidate s number comment candidate \<longleftrightarrow> req_IssueNumber candidate \<noteq> number \<or> req_Status candidate = RequestStatusCanceled
     \<or> ic_CreatedAt comment < req_CreatedAt candidate
     \<or> req_Status candidate = RequestStatusPending \<and> current_run s number candidate \<noteq> req_RunID candidate"

definition repeated_outcome :: "Loop \<Rightarrow> InputComment \<Rightarrow> AuthorVerification \<Rightarrow> string \<Rightarrow> Request \<Rightarrow> string" where
  "repeated_outcome l comment v answer candidate =
     (if (case req_AnswerProvenance candidate of None \<Rightarrow> False
         | Some p \<Rightarrow> prov_CommentID p = ic_ID comment \<and> prov_BodySHA256 p = lp_Sha256 l (ic_Body comment) \<and> req_Answer candidate = answer
             \<and> EqualFold (prov_Actor p) (av_Login v) \<and> prov_CommentEdited p = ic_UpdatedAt comment)
      then ''accepted''
      else if req_Answer candidate = answer
        \<and> (case req_AnswerProvenance candidate of None \<Rightarrow> True | Some p \<Rightarrow> prov_CommentID p \<noteq> ic_ID comment)
      then ''stale'' else ''conflict'')"

definition comment_provenance :: "Loop \<Rightarrow> int \<Rightarrow> InputComment \<Rightarrow> AuthorVerification \<Rightarrow> string \<Rightarrow> Request \<Rightarrow> AnswerProvenance" where
  "comment_provenance l number comment v requestID candidate =
     \<lparr>prov_Source = ''github_issue_comment'', prov_CommentID = ic_ID comment, prov_Actor = av_Login v, prov_Permission = av_Permission v,
      prov_RequestID = requestID, prov_IssueNumber = number, prov_RunID = req_RunID candidate,
      prov_BodySHA256 = lp_Sha256 l (ic_Body comment), prov_CommentedAt = UTC (ic_CreatedAt comment),
      prov_CommentEdited = UTC (ic_UpdatedAt comment)\<rparr>"

section \<open>Recording\<close>

definition record_answer :: "Loop \<Rightarrow> string \<Rightarrow> string \<Rightarrow> AnswerProvenance \<Rightarrow> (go_error, unit) run" where
  "record_answer l requestID answer p w =
     (let k = wo_Step w in
      case RecordAnswer (lp_Store l) (lp_Ambient l k) (lp_Draws l k) (lp_Ambient l (Suc k)) requestID answer (UTC (lp_Clock l k 0)) [Some p]
             (CallerPayload ''{request_id,answer,answered_at,provenance}'') (lp_Others l k (wo_Disk w)) of
        (Inl e, d) \<Rightarrow> (Inl e, (advance w)\<lparr>wo_Disk := d\<rparr>)
      | (Inr _, d) \<Rightarrow> (Inr (), (advance w)\<lparr>wo_Disk := d, wo_Trace := wo_Trace w @ [AnswerTaken requestID answer (Some p)]\<rparr>))"

text \<open>\<open>errors.As(err, &conflict)\<close>.\<close>

fun is_conflict :: "go_error \<Rightarrow> bool" where
  "is_conflict (ConflictError m) = True"
| "is_conflict (Wrapf ps e) = is_conflict e"
| "is_conflict (IssueMutationError n e) = is_conflict e"
| "is_conflict _ = False"

definition acknowledge :: "Loop \<Rightarrow> int \<Rightarrow> string \<Rightarrow> InputComment \<Rightarrow> string \<Rightarrow> unit job" where
  "acknowledge l number requestID comment outcome = call_out l (AcknowledgeInput number requestID (ic_ID comment) outcome)"

section \<open>One comment\<close>

definition take_answer :: "Loop \<Rightarrow> int \<Rightarrow> InputComment \<Rightarrow> AuthorVerification \<Rightarrow> string \<Rightarrow> string \<Rightarrow> Request \<Rightarrow> unit job" where
  "take_answer l number comment v requestID answer candidate =
     (if ValidateAnswer (lp_Redact l) (Some candidate) answer \<noteq> None then acknowledge l number requestID comment ''malformed''
      else on_error (record_answer l requestID answer (comment_provenance l number comment v requestID candidate))
        (\<lambda>e. if is_conflict e then acknowledge l number requestID comment ''conflict'' else throw (store_failure e))
        (\<lambda>_. acknowledge l number requestID comment ''accepted''))"

definition consider_answer :: "Loop \<Rightarrow> int \<Rightarrow> InputComment \<Rightarrow> AuthorVerification \<Rightarrow> string \<Rightarrow> string \<Rightarrow> unit job" where
  "consider_answer l number comment v requestID answer =
     seq (unwrapped (load_snapshot l)) (\<lambda>s. case Snapshot_Request s requestID of
       Inl e \<Rightarrow> acknowledge l number requestID comment ''stale''
     | Inr candidate \<Rightarrow>
       if stale_candidate s number comment candidate then acknowledge l number requestID comment ''stale''
       else if req_Status candidate = RequestStatusAnswered
       then acknowledge l number requestID comment (repeated_outcome l comment v answer candidate)
       else take_answer l number comment v requestID answer candidate)"

definition answer_comment :: "Loop \<Rightarrow> int \<Rightarrow> InputComment \<Rightarrow> string \<Rightarrow> string \<Rightarrow> unit job" where
  "answer_comment l number comment requestID answer =
     (if automation_actor comment then acknowledge l number requestID comment ''unauthorized''
      else seq (observe (\<lambda>k. lp_Actor l k comment)) (\<lambda>v.
        if \<not> av_Trusted v then acknowledge l number requestID comment ''unauthorized''
        else consider_answer l number comment v requestID answer))"

definition handle_comment :: "Loop \<Rightarrow> int \<Rightarrow> Request list \<Rightarrow> InputComment \<Rightarrow> unit job" where
  "handle_comment l number requests comment = (case find (edited_answer l comment) requests of
     Some request \<Rightarrow> acknowledge l number (req_ID request) comment ''conflict''
   | None \<Rightarrow>
     if IsManagedInputComment (ic_Body comment) then ret ()
     else case parseAnswerCommand (ic_Body comment) of
       NoCommand \<Rightarrow> ret ()
     | Malformed requestID \<Rightarrow> acknowledge l number requestID comment ''malformed''
     | AnswerCommand requestID answer \<Rightarrow> answer_comment l number comment requestID answer)"

section \<open>The Issue\<close>

definition sync_question :: "Loop \<Rightarrow> Request \<Rightarrow> unit job" where
  "sync_question l request = (if req_Status request = RequestStatusPending then call_out l (SyncInputRequest request) else ret ())"

definition deleted_answer :: "Loop \<Rightarrow> int \<Rightarrow> InputComment list \<Rightarrow> Request \<Rightarrow> unit job" where
  "deleted_answer l number comments request = (case req_AnswerProvenance request of
     None \<Rightarrow> ret ()
   | Some p \<Rightarrow> if prov_CommentID p \<in> ic_ID ` set comments then ret ()
       else call_out l (AcknowledgeInput number (req_ID request) (prov_CommentID p) ''accepted''))"

definition reconcileInputIssue :: "Loop \<Rightarrow> int \<Rightarrow> unit job" where
  "reconcileInputIssue l number =
     (if \<not> lp_HasInputControl l then ret ()
      else seq (unwrapped (load_snapshot l)) (\<lambda>s.
        let requests = filter (\<lambda>r. req_IssueNumber r = number) (Requests s) in
        seq (for_jobs (sync_question l) requests) (\<lambda>_.
          if requests = [] then ret ()
          else seq (observe (\<lambda>k. lp_Comments l k number)) (\<lambda>listed.
            let comments = sort_key (\<lambda>c. (ic_CreatedAt c, ic_ID c)) listed in
            seq (for_jobs (handle_comment l number requests) comments) (\<lambda>_.
              for_jobs (deleted_answer l number comments) requests)))))"

end
