(* ===== verification/Processes.thy ===== *)
theory Processes
  imports Loop
begin

text \<open>
  \<open>internal/application/supervisor/processes.go\<close>: the workers a terminated supervisor left behind are stopped before a new one
  starts, first politely, then by force, and each is recorded on its Issue. What the process table shows is an answer of the
  surroundings to each question; the wait for a grace period is one such question, whether the groups are still alive at its end.
\<close>

section \<open>Targets\<close>

record workerStopTarget =
  wt_Issue :: Issue
  wt_PGID :: int
  wt_Alive :: bool
  wt_Transition :: "Transition option"

record WorkerStop =
  ws_IssueNumber :: int
  ws_RunID :: string
  ws_PID :: int
  ws_PGID :: int
  ws_Forced :: bool

definition saved_group :: "Issue \<Rightarrow> int" where
  "saved_group issue = (if iss_WorkerPGID issue \<le> 1 then iss_WorkerPID issue else iss_WorkerPGID issue)"

definition interruptible :: "Status \<Rightarrow> bool" where
  "interruptible status \<longleftrightarrow> status = StatusClaiming \<or> status = StatusClaimed \<or> status = StatusRunning"

definition stop_decision :: "Status \<Rightarrow> go_error + Transition option" where
  "stop_decision status = (if interruptible status then map_sum id Some (InterruptExecution status) else Inr None)"

definition with_worker :: "Snapshot \<Rightarrow> Issue list" where
  "with_worker s = sort_key iss_Number (filter (\<lambda>i. iss_WorkerPID i > 0 \<or> iss_WorkerPGID i > 0) (pointees (snap_Issues s)))"

definition group_alive :: "Loop \<Rightarrow> int \<Rightarrow> (go_error, bool) run" where
  "group_alive l pgid = observe (\<lambda>k. Inr (lp_GroupAlive l k pgid))"

definition worker_alive :: "Loop \<Rightarrow> Issue \<Rightarrow> (go_error, bool) run" where
  "worker_alive l issue = seq (observe (\<lambda>k. Inr (lp_Alive l k (iss_WorkerPID issue)))) (\<lambda>alive.
     if alive then ret True else group_alive l (saved_group issue))"

definition stop_target :: "Loop \<Rightarrow> Issue \<Rightarrow> (go_error, workerStopTarget) run" where
  "stop_target l issue =
     seq (worker_alive l issue) (\<lambda>alive.
     seq (if alive then observe (\<lambda>k. Inr (lp_OwnsGroup l k (iss_WorkerPID issue) (saved_group issue))) else ret True) (\<lambda>owns.
       if \<not> owns
       then throw (Errorf [Lit ''Issue #'', Num (iss_Number issue), Lit '' saved worker PID '', Num (iss_WorkerPID issue),
              Lit '' does not own process group '', Num (saved_group issue)])
       else case stop_decision (iss_Status issue) of
         Inl e \<Rightarrow> throw e
       | Inr transition \<Rightarrow> ret \<lparr>wt_Issue = issue, wt_PGID = saved_group issue, wt_Alive = alive, wt_Transition = transition\<rparr>))"

fun stop_targets :: "Loop \<Rightarrow> Issue list \<Rightarrow> (go_error, workerStopTarget list) run" where
  "stop_targets l [] = ret []"
| "stop_targets l (issue # issues) = seq (stop_target l issue) (\<lambda>t. seq (stop_targets l issues) (\<lambda>ts. ret (t # ts)))"

section \<open>Signals\<close>

definition signal :: "Loop \<Rightarrow> int \<Rightarrow> bool \<Rightarrow> (go_error, unit) run" where
  "signal l pgid force = on_error (call_out l (SignalGroup pgid force)) (\<lambda>e. throw (Errorf [Lit ''stop worker process group '', Num pgid])) ret"

definition terminate_group :: "Loop \<Rightarrow> workerStopTarget \<Rightarrow> (go_error, unit) run" where
  "terminate_group l t = (if wt_Alive t then signal l (wt_PGID t) False else ret ())"

text \<open>The targets with the groups that had to be killed marked.\<close>

fun kill_groups :: "Loop \<Rightarrow> workerStopTarget list \<Rightarrow> (go_error, (workerStopTarget \<times> bool) list) run" where
  "kill_groups l [] = ret []"
| "kill_groups l (t # ts) =
     seq (if wt_Alive t then group_alive l (wt_PGID t) else ret False) (\<lambda>forced.
     seq (if forced then signal l (wt_PGID t) True else ret ()) (\<lambda>_.
     seq (kill_groups l ts) (\<lambda>rest. ret ((t, forced) # rest))))"

definition expect_dead :: "Loop \<Rightarrow> workerStopTarget \<Rightarrow> (go_error, unit) run" where
  "expect_dead l t = seq (if wt_Alive t then group_alive l (wt_PGID t) else ret False) (\<lambda>alive.
     if alive then throw (Errorf [Lit ''Issue #'', Num (iss_Number (wt_Issue t)), Lit '' worker process group '', Num (wt_PGID t),
       Lit '' remained alive after SIGKILL'']) else ret ())"

section \<open>The record\<close>

definition interrupt_item :: "workerStopTarget \<Rightarrow> string \<Rightarrow> time \<Rightarrow> Entropy \<Rightarrow> Issue \<Rightarrow> Snapshot \<Rightarrow> go_error + Snapshot" where
  "interrupt_item t reason at entropy item s =
     (let number = iss_Number (wt_Issue t); identity = issue_identity item in
      case wt_Transition t of
        None \<Rightarrow> Inl (Errorf [Lit ''Issue #'', Num number, Lit '' active worker is missing its interruption decision''])
      | Some transition \<Rightarrow>
        and_ok (check_that (OwnsActiveExecution s (iss_Number item) identity)
                  [Lit ''Issue #'', Num number, Lit '' does not own the active execution while stopping''] s) (\<lambda>s.
        and_ok (CaptureContinuation (iss_Number item) identity (NewID ''checkpoint'' entropy) at s) (\<lambda>s.
        and_ok (transition_issue number transition s)
          (edit number (\<lambda>item. item\<lparr>iss_RetryAfter := None, iss_LastError := reason\<rparr>)))))"

definition stopped_mutation :: "workerStopTarget \<Rightarrow> string \<Rightarrow> time \<Rightarrow> Readings \<Rightarrow> Snapshot \<Rightarrow> go_error + Snapshot" where
  "stopped_mutation t reason at rd s =
     (let issue = wt_Issue t; number = iss_Number issue in
      and_ok (check_that (case issue_at s number of None \<Rightarrow> False | Some item \<Rightarrow> iss_RunID item = iss_RunID issue)
                [Lit ''Issue #'', Num number, Lit '' run changed while stopping worker''] s) (\<lambda>s.
      and_ok (check_that (case issue_at s number of None \<Rightarrow> False
                | Some item \<Rightarrow> iss_WorkerPID item = iss_WorkerPID issue \<and> iss_WorkerPGID item = iss_WorkerPGID issue)
                [Lit ''Issue #'', Num number, Lit '' worker process identity changed while stopping''] s) (\<lambda>s.
      and_ok (edit number (\<lambda>item. item\<lparr>iss_WorkerPID := 0, iss_WorkerPGID := 0\<rparr>) s) (\<lambda>s.
      case issue_at s number of None \<Rightarrow> Inl NilPointerPanic | Some item \<Rightarrow>
      and_ok (if interruptible (iss_Status item) then interrupt_item t reason at (rd_Entropy rd 0) item s
              else if iss_Status item = StatusResolvingConflict
              then edit number (\<lambda>item. item\<lparr>iss_RetryAfter := None, iss_LastError := reason\<rparr>) s else Inr s)
        (edit number (\<lambda>item. item\<lparr>iss_UpdatedAt := at\<rparr>))))))"

definition record_stop :: "Loop \<Rightarrow> string \<Rightarrow> workerStopTarget \<times> bool \<Rightarrow> (go_error, WorkerStop) run" where
  "record_stop l reason = (\<lambda>(t, forced). let issue = wt_Issue t in
     seq (read_clock l) (\<lambda>at.
     seq (update_snapshot l ''worker_process_stopped'' (iss_Number issue) (iss_RunID issue) ''{issue_number,run_id,pid,pgid,forced}''
            (stopped_mutation t reason at))
       (\<lambda>_. ret \<lparr>ws_IssueNumber = iss_Number issue, ws_RunID = iss_RunID issue, ws_PID = iss_WorkerPID issue, ws_PGID = wt_PGID t,
              ws_Forced = forced\<rparr>)))"

fun record_stops :: "Loop \<Rightarrow> string \<Rightarrow> (workerStopTarget \<times> bool) list \<Rightarrow> (go_error, WorkerStop list) run" where
  "record_stops l reason [] = ret []"
| "record_stops l reason (t # ts) = seq (record_stop l reason t) (\<lambda>r. seq (record_stops l reason ts) (\<lambda>rs. ret (r # rs)))"

definition StopWorkers :: "Loop \<Rightarrow> int \<Rightarrow> string \<Rightarrow> (go_error, WorkerStop list) run" where
  "StopWorkers l grace reason =
     (if grace \<le> 0 then throw (Errorf [Lit ''worker stop grace period must be positive''])
      else seq (load_snapshot l) (\<lambda>s.
        seq (stop_targets l (with_worker s)) (\<lambda>targets.
        seq (for_jobs (terminate_group l) targets) (\<lambda>_.
        seq (kill_groups l targets) (\<lambda>marked.
        seq (for_jobs (expect_dead l) targets) (\<lambda>_.
          record_stops l reason marked))))))"

end
