(* ===== verification/RunLogic.thy ===== *)
theory RunLogic
  imports Runs InputControl Processes
begin

text \<open>
  Reasoning about the computations of the supervisor by what they leave in the trace. A \<open>trace_property\<close> holds of the empty trace and is
  kept by concatenation; its locale proves once that every job of the supervisor has it, from the few primitives that write to the
  trace. The properties are then statements about single primitives.
\<close>

section \<open>What a computation adds to the trace\<close>

definition traced :: "(event list \<Rightarrow> bool) \<Rightarrow> ('e, 'a) run \<Rightarrow> bool" where
  "traced Q m \<longleftrightarrow> (\<forall>w. \<exists>es. wo_Trace (snd (m w)) = wo_Trace w @ es \<and> Q es)"

lemma tracedI: "(\<And>w. \<exists>es. wo_Trace (snd (m w)) = wo_Trace w @ es \<and> Q es) \<Longrightarrow> traced Q m"
  by (simp add: traced_def)

lemma tracedE:
  assumes "traced Q m"
  obtains es where "wo_Trace (snd (m w)) = wo_Trace w @ es" "Q es"
  using assms by (auto simp: traced_def)

lemma traced_mono: "traced P m \<Longrightarrow> (\<And>es. P es \<Longrightarrow> Q es) \<Longrightarrow> traced Q m"
  unfolding traced_def by blast

lemma on_error_Inl: "m w = (Inl e, w') \<Longrightarrow> on_error m h f w = h e w'"
  by (simp add: on_error_def)

lemma on_error_Inr: "m w = (Inr x, w') \<Longrightarrow> on_error m h f w = f x w'"
  by (simp add: on_error_def)

lemma seq_Inl: "m w = (Inl e, w') \<Longrightarrow> seq m f w = (Inl e, w')"
  by (simp add: seq_def on_error_def throw_def)

lemma seq_Inr: "m w = (Inr x, w') \<Longrightarrow> seq m f w = f x w'"
  by (simp add: seq_def on_error_def)

text \<open>Two computations in sequence, with a property of the whole that the two pieces have together.\<close>

lemma traced_then:
  assumes "traced P m"
    and "\<And>es e. P es \<Longrightarrow> traced (\<lambda>fs. Q (es @ fs)) (h e)"
    and "\<And>es x. P es \<Longrightarrow> traced (\<lambda>fs. Q (es @ fs)) (f x)"
  shows "traced Q (on_error m h f)"
proof (rule tracedI)
  fix w
  obtain es where es: "wo_Trace (snd (m w)) = wo_Trace w @ es" "P es" using assms(1) by (rule tracedE)
  show "\<exists>es. wo_Trace (snd (on_error m h f w)) = wo_Trace w @ es \<and> Q es"
  proof (cases "m w")
    case (Pair r w')
    show ?thesis
    proof (cases r)
      case (Inl e)
      obtain fs where "wo_Trace (snd (h e w')) = wo_Trace w' @ fs" "Q (es @ fs)" using assms(2) [OF es(2)] by (rule tracedE)
      then show ?thesis using es Pair Inl by (auto simp: on_error_def)
    next
      case (Inr x)
      obtain fs where "wo_Trace (snd (f x w')) = wo_Trace w' @ fs" "Q (es @ fs)" using assms(3) [OF es(2)] by (rule tracedE)
      then show ?thesis using es Pair Inr by (auto simp: on_error_def)
    qed
  qed
qed

text \<open>A result that a computation can have, and a property of what follows it.\<close>

definition can_be :: "('e, 'a) run \<Rightarrow> 'a \<Rightarrow> bool" where
  "can_be m x \<longleftrightarrow> (\<exists>w. fst (m w) = Inr x)"

lemma can_be_observe: "can_be (observe f) x \<Longrightarrow> \<exists>k. f k = Inr x"
  by (auto simp: can_be_def observe_def)

lemma can_be_ret [simp]: "can_be (ret x) y \<longleftrightarrow> y = x"
  by (auto simp: can_be_def ret_def)

lemma can_be_throw [simp]: "\<not> can_be (throw e) y"
  by (simp add: can_be_def throw_def)

lemma can_be_on_error: "can_be (on_error m h f) y \<Longrightarrow> (\<exists>e. can_be (h e) y) \<or> (\<exists>x. can_be m x \<and> can_be (f x) y)"
  unfolding can_be_def
proof (elim exE)
  fix w
  assume y: "fst (on_error m h f w) = Inr y"
  obtain r w' where mw: "m w = (r, w')" by fastforce
  show "(\<exists>e w. fst (h e w) = Inr y) \<or> (\<exists>x. (\<exists>w. fst (m w) = Inr x) \<and> (\<exists>w. fst (f x w) = Inr y))"
  proof (cases r)
    case (Inl e)
    then show ?thesis using y mw by (auto simp: on_error_Inl)
  next
    case (Inr x)
    then show ?thesis using y mw by (metis fst_conv on_error_Inr)
  qed
qed

lemma can_be_seq: "can_be (seq m f) y \<Longrightarrow> \<exists>x. can_be m x \<and> can_be (f x) y"
  unfolding seq_def by (drule can_be_on_error) auto

lemma can_be_wrap: "can_be (wrap_job k operation m) y \<Longrightarrow> can_be m y"
  unfolding wrap_job_def by (drule can_be_on_error) auto

text \<open>What a computation leaves, with its result.\<close>

definition leaves :: "('e + 'a \<Rightarrow> event list \<Rightarrow> bool) \<Rightarrow> ('e, 'a) run \<Rightarrow> bool" where
  "leaves R m \<longleftrightarrow> (\<forall>w. \<exists>es. wo_Trace (snd (m w)) = wo_Trace w @ es \<and> R (fst (m w)) es)"

lemma traced_leaves: "traced Q m \<longleftrightarrow> leaves (\<lambda>r. Q) m"
  by (simp add: traced_def leaves_def)

lemma leavesI: "(\<And>w. \<exists>es. wo_Trace (snd (m w)) = wo_Trace w @ es \<and> R (fst (m w)) es) \<Longrightarrow> leaves R m"
  by (simp add: leaves_def)

lemma leaves_mono: "leaves P m \<Longrightarrow> (\<And>r es. P r es \<Longrightarrow> R r es) \<Longrightarrow> leaves R m"
  unfolding leaves_def by blast

lemma leaves_ret: "R (Inr x) [] \<Longrightarrow> leaves R (ret x)"
  by (rule leavesI) (simp add: ret_def)

lemma leaves_throw: "R (Inl e) [] \<Longrightarrow> leaves R (throw e)"
  by (rule leavesI) (simp add: throw_def)

lemma leaves_then:
  assumes m: "leaves P m"
    and h: "\<And>es e. P (Inl e) es \<Longrightarrow> leaves (\<lambda>r fs. R r (es @ fs)) (h e)"
    and f: "\<And>es x. can_be m x \<Longrightarrow> P (Inr x) es \<Longrightarrow> leaves (\<lambda>r fs. R r (es @ fs)) (f x)"
  shows "leaves R (on_error m h f)"
proof (rule leavesI)
  fix w
  obtain r w' where mw: "m w = (r, w')" by fastforce
  with m obtain es where es: "wo_Trace w' = wo_Trace w @ es" "P r es" unfolding leaves_def by (metis fst_conv snd_conv)
  show "\<exists>es. wo_Trace (snd (on_error m h f w)) = wo_Trace w @ es \<and> R (fst (on_error m h f w)) es"
  proof (cases r)
    case (Inl e)
    then have "leaves (\<lambda>r fs. R r (es @ fs)) (h e)" using h es(2) by blast
    then show ?thesis using es mw Inl unfolding leaves_def by (metis append.assoc on_error_Inl)
  next
    case (Inr x)
    then have "can_be m x" using mw by (auto simp: can_be_def intro: exI [of _ w])
    then have "leaves (\<lambda>r fs. R r (es @ fs)) (f x)" using f es(2) Inr by blast
    then show ?thesis using es mw Inr unfolding leaves_def by (metis append.assoc on_error_Inr)
  qed
qed

lemma leaves_seq:
  assumes "leaves P m" and "\<And>es e. P (Inl e) es \<Longrightarrow> R (Inl e) es"
    and "\<And>es x. can_be m x \<Longrightarrow> P (Inr x) es \<Longrightarrow> leaves (\<lambda>r fs. R r (es @ fs)) (f x)"
  shows "leaves R (seq m f)"
  unfolding seq_def by (rule leaves_then [OF assms(1)]) (auto intro!: leaves_throw assms(2, 3))

text \<open>Observations leave nothing.\<close>

definition silent :: "('e, 'a) run \<Rightarrow> bool" where
  "silent m \<longleftrightarrow> (\<forall>w. wo_Trace (snd (m w)) = wo_Trace w)"

lemma silent_leaves: "silent m \<Longrightarrow> leaves (\<lambda>r es. es = []) m"
  by (auto simp: silent_def leaves_def)

lemma leaves_observed:
  "silent m \<Longrightarrow> (\<And>e. leaves R (h e)) \<Longrightarrow> (\<And>x. can_be m x \<Longrightarrow> leaves R (f x)) \<Longrightarrow> leaves R (on_error m h f)"
  by (erule leaves_then [OF silent_leaves]) simp_all

lemma leaves_seen:
  "silent m \<Longrightarrow> (\<And>e. R (Inl e) []) \<Longrightarrow> (\<And>x. can_be m x \<Longrightarrow> leaves R (f x)) \<Longrightarrow> leaves R (seq m f)"
  by (erule leaves_seq [OF silent_leaves]) simp_all

lemma silent_ret: "silent (ret x)" by (simp add: silent_def ret_def)

lemma silent_throw: "silent (throw e)" by (simp add: silent_def throw_def)

lemma silent_observe: "silent (observe f)" by (simp add: silent_def observe_def advance_def)

lemma silent_load: "silent (load_snapshot l)" by (simp add: silent_def load_snapshot_def advance_def split: prod.splits)

lemma silent_on_error: "silent m \<Longrightarrow> (\<And>e. silent (h e)) \<Longrightarrow> (\<And>x. silent (f x)) \<Longrightarrow> silent (on_error m h f)"
  by (auto simp: silent_def on_error_def split: sum.splits prod.splits) (metis snd_conv)+

lemma silent_seq: "silent m \<Longrightarrow> (\<And>x. silent (f x)) \<Longrightarrow> silent (seq m f)"
  unfolding seq_def by (rule silent_on_error) (simp_all add: silent_throw)

lemma silent_wraps: "silent m \<Longrightarrow> silent (wrap_job k operation m)" "silent n \<Longrightarrow> silent (persist operation n)" "silent n \<Longrightarrow> silent (unwrapped n)"
  unfolding wrap_job_def persist_def unwrapped_def by (rule silent_on_error; simp add: silent_throw silent_ret)+

lemma silent_option: "silent m \<Longrightarrow> (\<And>y. silent (f y)) \<Longrightarrow> silent (case x of None \<Rightarrow> m | Some y \<Rightarrow> f y)"
  by (cases x) auto

lemma silent_if: "silent m \<Longrightarrow> silent n \<Longrightarrow> silent (if b then m else n)" by simp

lemma silent_let: "silent (f x) \<Longrightarrow> silent (let y = x in f y)" by simp

lemmas silent_rules = silent_ret silent_throw silent_observe silent_load silent_on_error silent_seq silent_wraps silent_option silent_if silent_let

lemma silent_issueState: "silent (issueState l n)"
  unfolding issueState_def by (intro silent_rules)

lemma silent_inspectIssue: "silent (inspectIssue l i)"
  unfolding inspectIssue_def inspect_targeted_def by (intro silent_rules)

section \<open>The durable state\<close>

text \<open>What recovery returns is valid, or there was nothing yet.\<close>

lemma check_consistency_valid: "check_consistency st amb s es d = (Inr s', d') \<Longrightarrow> Snapshot_Validate s' = None"
  by (auto simp: check_consistency_def reject_state_def validateConsistency_None split: option.splits if_splits
      dest!: quarantine_Inr transaction_facts(1))

lemma reject_valid: "reject_state st amb e d = (Inr s', d') \<Longrightarrow> Snapshot_Validate s' = None"
  by (auto simp: reject_state_def split: if_splits dest!: quarantine_Inr transaction_facts(1))

lemma quarantine_valid: "quarantineUnlocked st amb e d = (Inr s', d') \<Longrightarrow> Snapshot_Validate s' = None"
  by (auto dest!: quarantine_Inr transaction_facts(1))

lemma settle_valid: "settle st amb saved es n partial d = (Inr s, d') \<Longrightarrow> Snapshot_Validate s = None \<or> s = emptySnapshot st (amb_Now amb)"
  by (auto simp: settle_def repair_tail_def split: option.splits if_splits sum.splits prod.splits
      dest!: check_consistency_valid quarantine_valid)

lemma recovered_valid:
  "recoverUnlocked st amb d = (Inr s, d') \<Longrightarrow> Snapshot_Validate s = None \<or> s = emptySnapshot st (amb_Now amb)"
  by (auto simp: recoverUnlocked_def recover_files_def finish_transaction_def Let_def split: option.splits sum.splits prod.splits
      dest!: settle_valid reject_valid quarantine_valid)

lemma recovered_number: "recoverUnlocked st amb d = (Inr s, d') \<Longrightarrow> issue_at s n = Some i \<Longrightarrow> iss_Number i = n"
  by (drule recovered_valid) (auto dest!: valid_issue(2) simp: emptySnapshot_def ptr_at_def mlookup_def)

lemma can_be_issue: "can_be (issueState l n) i \<Longrightarrow> iss_Number i = n"
  unfolding issueState_def
  by (auto dest!: can_be_seq can_be_on_error simp: persist_def can_be_def [of "load_snapshot l"] load_snapshot_def Load_def
      split: option.splits prod.splits dest: recovered_number)

text \<open>A mutation that is committed succeeded on the snapshot before.\<close>

lemma update_mutates:
  "Update st draws ty n run pl mutate d = (Inr s', d') \<Longrightarrow>
     \<exists>s d0 s1. recoverUnlocked st (dr_Recover draws) d = (Inr s, d0) \<and> mutate (Normalize s) = Inr s1"
  by (auto simp: Update_def prepare_update_def Let_def and_ok_Inr split: prod.splits sum.splits option.splits)

lemma leaves_update:
  assumes "\<And>e. R (Inl e) []"
    and "\<And>rd before after s. mutate rd before = Inr s \<Longrightarrow> R (Inr after) [Committed eventType number before after]"
  shows "leaves R (update_snapshot l eventType number runID payload mutate)"
proof (rule leavesI)
  fix w :: World
  obtain r d where u: "Update (lp_Store l) (lp_Draws l (wo_Step w)) eventType number runID (CallerPayload payload)
      (mutate (readings l (wo_Step w))) (lp_Others l (wo_Step w) (wo_Disk w)) = (r, d)" by fastforce
  show "\<exists>es. wo_Trace (snd (update_snapshot l eventType number runID payload mutate w)) = wo_Trace w @ es
      \<and> R (fst (update_snapshot l eventType number runID payload mutate w)) es"
  proof (cases r)
    case (Inl e)
    then show ?thesis using assms(1) u by (simp add: update_snapshot_def advance_def committed_event_def)
  next
    case (Inr after)
    with u obtain s d0 s1 where "recoverUnlocked (lp_Store l) (dr_Recover (lp_Draws l (wo_Step w))) (lp_Others l (wo_Step w) (wo_Disk w))
        = (Inr s, d0)" "mutate (readings l (wo_Step w)) (Normalize s) = Inr s1" by (blast dest: update_mutates)
    then show ?thesis using assms(2) u Inr by (auto simp: update_snapshot_def advance_def committed_event_def before_update_def)
  qed
qed

section \<open>Trace properties\<close>

named_theorems tracing

locale trace_property =
  fixes Q :: "event list \<Rightarrow> bool"
  assumes quiet: "Q []" and joined: "Q a \<Longrightarrow> Q b \<Longrightarrow> Q (a @ b)"
begin

lemma still [intro]: "(\<And>w. wo_Trace (snd (m w)) = wo_Trace w) \<Longrightarrow> traced Q m"
  by (rule tracedI) (use quiet in auto)

lemma t_silent: "silent m \<Longrightarrow> traced Q m" by (rule still) (simp add: silent_def)

lemma t_ret: "traced Q (ret x)" by (rule still) (simp add: ret_def)

lemma t_throw: "traced Q (throw e)" by (rule still) (simp add: throw_def)

lemma t_observe: "traced Q (observe f)" by (rule still) (simp add: observe_def advance_def)

lemma t_load: "traced Q (load_snapshot l)"
  by (rule still) (simp add: load_snapshot_def advance_def split: prod.splits)

lemma t_on_error: "traced Q m \<Longrightarrow> (\<And>e. traced Q (h e)) \<Longrightarrow> (\<And>x. can_be m x \<Longrightarrow> traced Q (f x)) \<Longrightarrow> traced Q (on_error m h f)"
proof (rule tracedI)
  fix w
  assume m: "traced Q m" and h: "\<And>e. traced Q (h e)" and f: "\<And>x. can_be m x \<Longrightarrow> traced Q (f x)"
  obtain r w' where mw: "m w = (r, w')" by fastforce
  obtain es where es: "wo_Trace w' = wo_Trace w @ es" "Q es" using tracedE [OF m, of w] mw by (metis snd_conv)
  have next': "\<exists>fs. wo_Trace (snd (on_error m h f w)) = wo_Trace w' @ fs \<and> Q fs"
  proof (cases r)
    case (Inl e)
    then show ?thesis using h [of e] mw by (auto simp: traced_def on_error_Inl)
  next
    case (Inr x)
    then have "can_be m x" using mw by (auto simp: can_be_def intro: exI [of _ w])
    then show ?thesis using f [of x] mw Inr by (auto simp: traced_def on_error_Inr)
  qed
  then show "\<exists>es. wo_Trace (snd (on_error m h f w)) = wo_Trace w @ es \<and> Q es"
    using es joined by (metis append.assoc)
qed

lemma t_seq: "traced Q m \<Longrightarrow> (\<And>x. can_be m x \<Longrightarrow> traced Q (f x)) \<Longrightarrow> traced Q (seq m f)"
  unfolding seq_def by (rule t_on_error) (simp_all add: t_throw)

lemma t_wrap: "traced Q m \<Longrightarrow> traced Q (wrap_job k operation m)"
  unfolding wrap_job_def by (rule t_on_error) (simp_all add: t_throw t_ret)

lemma t_persist: "traced Q m \<Longrightarrow> traced Q (persist operation m)"
  unfolding persist_def by (rule t_on_error) (simp_all add: t_throw t_ret)

lemma t_unwrapped: "traced Q m \<Longrightarrow> traced Q (unwrapped m)"
  unfolding unwrapped_def by (rule t_on_error) (simp_all add: t_throw t_ret)

lemma t_for: "(\<And>x. x \<in> set xs \<Longrightarrow> traced Q (f x)) \<Longrightarrow> traced Q (for_jobs f xs)"
  by (induction xs) (auto intro!: t_seq t_ret)

lemma t_decide: "traced Q (decide operation d)"
  by (simp add: decide_def t_throw t_ret split: sum.split)

lemma t_clock: "traced Q (read_clock l)" by (simp add: read_clock_def t_observe)

lemma t_id: "traced Q (new_id l prefix')" by (simp add: new_id_def t_observe)

lemma t_if: "(b \<Longrightarrow> traced Q m) \<Longrightarrow> (\<not> b \<Longrightarrow> traced Q n) \<Longrightarrow> traced Q (if b then m else n)" by simp

lemma t_option: "(x = None \<Longrightarrow> traced Q m) \<Longrightarrow> (\<And>y. x = Some y \<Longrightarrow> traced Q (f y)) \<Longrightarrow> traced Q (case x of None \<Rightarrow> m | Some y \<Rightarrow> f y)"
  by (cases x) auto

lemma t_sum: "(\<And>y. x = Inl y \<Longrightarrow> traced Q (g y)) \<Longrightarrow> (\<And>y. x = Inr y \<Longrightarrow> traced Q (f y)) \<Longrightarrow> traced Q (case x of Inl y \<Rightarrow> g y | Inr y \<Rightarrow> f y)"
  by (cases x) auto

lemma t_prod: "(\<And>y z. x = (y, z) \<Longrightarrow> traced Q (f y z)) \<Longrightarrow> traced Q (case x of (y, z) \<Rightarrow> f y z)"
  by (cases x) auto

lemma t_let: "traced Q (f x) \<Longrightarrow> traced Q (let y = x in f y)" by simp

lemma t_conflict: "(\<And>m. x = NonRecoverable m \<Longrightarrow> traced Q (f m)) \<Longrightarrow> (\<And>e. x = RecoverableConflict e \<Longrightarrow> traced Q (g e))
    \<Longrightarrow> traced Q (case x of NonRecoverable m \<Rightarrow> f m | RecoverableConflict e \<Rightarrow> g e)"
  by (cases x) auto

lemma t_launch: "(\<And>t m. x = WorkspaceRejected t m \<Longrightarrow> traced Q (f t m)) \<Longrightarrow> (\<And>t m. x = LaunchRejected t m \<Longrightarrow> traced Q (g t m))
    \<Longrightarrow> (\<And>m. x = WorkerFailed m \<Longrightarrow> traced Q (h m))
    \<Longrightarrow> traced Q (case x of WorkspaceRejected t m \<Rightarrow> f t m | LaunchRejected t m \<Rightarrow> g t m | WorkerFailed m \<Rightarrow> h m)"
  by (cases x) auto

lemma t_command: "(x = NoCommand \<Longrightarrow> traced Q f) \<Longrightarrow> (\<And>i. x = Malformed i \<Longrightarrow> traced Q (g i)) \<Longrightarrow> (\<And>i a. x = AnswerCommand i a \<Longrightarrow> traced Q (h i a))
    \<Longrightarrow> traced Q (case x of NoCommand \<Rightarrow> f | Malformed i \<Rightarrow> g i | AnswerCommand i a \<Rightarrow> h i a)"
  by (cases x) auto

lemma t_call: "(\<And>ok. Q [Called c ok]) \<Longrightarrow> traced Q (call_out l c)"
  by (rule tracedI) (auto simp: call_out_def advance_def Let_def)

lemma t_perform: "(\<And>ok. Q [Called c ok]) \<Longrightarrow> traced Q (perform_call c f succeeded)"
  by (rule tracedI) (auto simp: perform_call_def advance_def Let_def)

lemma t_update: "(\<And>n before after. Q [Committed eventType n before after]) \<Longrightarrow> traced Q (update_snapshot l eventType number runID payload mutate)"
  by (rule tracedI)
     (use quiet in \<open>auto simp: update_snapshot_def advance_def Let_def committed_event_def split: prod.splits sum.splits option.splits\<close>)

lemmas tracing_rules = t_ret t_throw t_observe t_load t_on_error t_seq t_wrap t_persist t_unwrapped t_for t_decide t_clock t_id t_if t_option
  t_sum t_prod t_let t_conflict t_launch t_command

end

section \<open>The supervisor's jobs\<close>

text \<open>The calls that start a worker or decide on a Pull Request; the others are routine.\<close>

fun special_call :: "gh_call \<Rightarrow> bool" where
  "special_call (SpawnWorker n r d) \<longleftrightarrow> True"
| "special_call (MergePullRequest u) \<longleftrightarrow> True"
| "special_call (ReadyPullRequest u) \<longleftrightarrow> True"
| "special_call _ \<longleftrightarrow> False"

definition validated_spawn :: "Loop \<Rightarrow> string \<Rightarrow> Issue \<Rightarrow> (WorkerResult \<times> launch_error option) job" where
  "validated_spawn l path current = on_error (validateWorkerLaunch l path current) (\<lambda>e. ret (zero_WorkerResult, Some e))
     (\<lambda>validation. spawn l current (lv_CanonicalCWD validation))"

text \<open>A property of the supervisor's trace: it has to hold of routine calls and commits, of the fenced start of a worker, and of carrying
  out an effect.\<close>

locale supervised = trace_property +
  fixes l :: Loop
  assumes routine_call: "\<not> special_call c \<Longrightarrow> Q [Called c ok]"
    and routine_commit: "eventType \<noteq> ''github_state_synced'' \<Longrightarrow> Q [Committed eventType number before after]"
    and launch: "traced Q (validated_spawn l path current)"
    and sync: "traced Q (carry_out l snapshot issue effect)"
begin

lemma t_routine: "\<not> special_call c \<Longrightarrow> traced Q (call_out l' c)"
  by (rule t_call) (rule routine_call)

lemma t_routine_perform: "\<not> special_call c \<Longrightarrow> traced Q (perform_call c f succeeded)"
  by (rule t_perform) (rule routine_call)

lemma t_commit: "eventType \<noteq> ''github_state_synced'' \<Longrightarrow> traced Q (update_snapshot l' eventType number runID payload mutate)"
  by (rule t_update) (rule routine_commit)

lemmas t_rules = tracing_rules t_routine t_routine_perform t_commit

lemma t_issueState [tracing]: "traced Q (issueState l' n)"
  unfolding issueState_def by (intro t_rules)

lemma t_getIssue [tracing]: "traced Q (getIssue l' n)"
  unfolding getIssue_def by (intro t_rules)

lemma t_inspectIssue [tracing]: "traced Q (inspectIssue l' i)"
  unfolding inspectIssue_def inspect_targeted_def by (intro t_rules)

lemma t_retry_delay [tracing]: "traced Q (retry_delay l' n)"
  unfolding retry_delay_def by (intro t_rules)

lemma t_commentProgress [tracing]: "traced Q (commentProgress l' i m)"
  unfolding commentProgress_def by (intro t_rules) simp_all

lemma t_comments [tracing]: "traced Q (commentPublication l' i u h)" "traced Q (commentRetry l' i at)" "traced Q (commentResume l' i st)"
  unfolding commentPublication_def commentRetry_def commentResume_def by (intro t_rules tracing)+

lemma t_project [tracing]: "traced Q (reconcileIssueProjection l' n)"
  unfolding reconcileIssueProjection_def project_issue_def by (intro t_rules tracing) simp_all

lemma t_inspect_branch [tracing]: "traced Q (inspect_branch l' m i)"
  unfolding inspect_branch_def by (intro t_rules)

lemma t_inspect_worktree [tracing]: "traced Q (inspect_worktree l' i)"
  unfolding inspect_worktree_def by (intro t_rules)

lemma t_sync [tracing]: "traced Q (syncGitHub l n)"
  unfolding syncGitHub_def by (intro t_rules tracing sync)

lemma t_resync [tracing]: "traced Q (resync l n)"
  unfolding resync_def by (intro t_rules tracing)

lemma t_digest [tracing]: "traced Q (digest_or_empty l' i)" "traced Q (continuationWorktreeHead l' i)"
  unfolding digest_or_empty_def continuationWorktreeDigest_def continuationWorktreeHead_def by (intro t_rules tracing)+

lemma t_failIssueAtStage [tracing]: "traced Q (failIssueAtStage l n c b st)"
  unfolding failIssueAtStage_def by (intro t_rules tracing) simp_all

lemma t_failIssue [tracing]: "traced Q (failIssue l n c b)"
  unfolding failIssue_def by (intro tracing)

lemma t_schedule_after [tracing]: "ev \<noteq> ''github_state_synced'' \<Longrightarrow> traced Q (schedule_after l' ev d p n i r)"
  unfolding schedule_after_def by (intro t_rules tracing)

lemma t_scheduleRetry [tracing]: "traced Q (scheduleRetry l i r)"
  unfolding scheduleRetry_def by (intro t_rules tracing) simp_all

lemma t_publicationRetry [tracing]: "traced Q (schedulePublicationRetry l i c s)"
  unfolding schedulePublicationRetry_def saved_digest_def by (intro t_rules tracing) simp_all

lemma t_completeIssue [tracing]: "traced Q (completeIssue l i pr payload)"
  unfolding completeIssue_def by (intro t_rules tracing) simp_all

lemma t_suspendWorker [tracing]: "traced Q (suspendWorker l n r)"
  unfolding suspendWorker_def by (intro t_rules tracing) simp_all

lemma t_rejectAnswered [tracing]: "traced Q (rejectAnsweredContinuation l i r)"
  unfolding rejectAnsweredContinuation_def by (intro t_rules tracing) simp_all

lemma t_blockWorkspace [tracing]: "traced Q (blockWorkerWorkspace l i r)"
  unfolding blockWorkerWorkspace_def by (intro t_rules tracing) simp_all

lemma t_failCheckpoint [tracing]: "traced Q (failCheckpointStage l i r)"
  unfolding failCheckpointStage_def by (intro t_rules tracing) simp_all

lemma t_remoteLaunch [tracing]: "traced Q (validateRemoteLaunch l' i b)"
  unfolding validateRemoteLaunch_def by (intro t_rules tracing)

lemma t_runWorker [tracing]: "traced Q (runWorker l i :: (WorkerResult \<times> launch_error option) job)"
  using launch [of "iss_Worktree i" i] by (simp add: runWorker_def validated_spawn_def)

lemma t_conflictStart [tracing]: "traced Q (commentConflictStart l' i)"
  unfolding commentConflictStart_def by (intro t_rules tracing)

lemma t_ensurePending [tracing]: "traced Q (ensurePendingExecution l' i)"
  unfolding ensurePendingExecution_def resume_conflict_launch_def by (intro t_rules tracing) simp_all

lemma t_persisted [tracing]: "traced Q (persisted_issue m n s)"
  unfolding persisted_issue_def by (intro t_rules)

lemma t_failConflict [tracing]: "traced Q (failConflictRecovery l i r)"
  unfolding failConflictRecovery_def by (intro t_rules tracing) simp_all

lemma t_conflictRetry [tracing]: "traced Q (scheduleConflictRetry l i r)"
  unfolding scheduleConflictRetry_def exhaust_conflict_def by (intro t_rules tracing) simp_all

lemma t_launchFailure [tracing]: "traced Q (handleLaunchValidationFailure l i e)"
  unfolding handleLaunchValidationFailure_def reject_launch_def by (intro t_rules tracing)

lemma t_finishConflict [tracing]: "traced Q (finishConflictPublication l' i c)"
  unfolding finishConflictPublication_def by (intro t_rules tracing) simp_all

lemma t_publishConflict [tracing]: "traced Q (publishConflictRecovery l i)"
  unfolding publishConflictRecovery_def by (intro t_rules tracing) simp_all

lemma t_refreshed [tracing]: "traced Q (refreshed l' i)"
  unfolding refreshed_def by (intro t_rules tracing)

lemma t_conflictResult [tracing]: "traced Q (handleConflictResult l i r e)"
  unfolding handleConflictResult_def conflict_outcome_def conflict_asks_def by (intro t_rules tracing) simp_all

lemma t_attempt_conflict [tracing]: "traced Q (attempt_conflict l i r)"
  unfolding attempt_conflict_def publish_resolved_def run_attempt_def by (intro t_rules tracing) simp_all

lemma t_processConflict [tracing]: "traced Q (processConflictRecovery l i)"
  unfolding processConflictRecovery_def by (intro t_rules tracing)

lemma t_beginConflict [tracing]: "traced Q (beginConflictRecovery l i pr)"
  unfolding beginConflictRecovery_def begin_recovery_def recovery_record_def over_base_budget_def publish_resolved_def
  by (intro t_rules tracing) simp_all

lemma t_poll [tracing]: "traced Q (schedulePullRequestPoll l' i r)"
  unfolding schedulePullRequestPoll_def by (intro t_rules tracing) simp_all

lemma t_blockLifecycle [tracing]: "traced Q (blockPullRequestLifecycle l i pr r)"
  unfolding blockPullRequestLifecycle_def by (intro t_rules tracing) simp_all

lemma t_checksRetry [tracing]: "traced Q (schedulePullRequestChecksRetry l i pr)"
  unfolding schedulePullRequestChecksRetry_def failPullRequestChecks_def by (intro t_rules tracing) simp_all

lemma t_update_branch [tracing]: "traced Q (update_branch l i b pr)"
  unfolding update_branch_def by (intro t_rules tracing) simp_all

lemma t_no_pull_request [tracing]: "traced Q (no_pull_request l i)"
  unfolding no_pull_request_def with_worktree_of_def by (intro t_rules tracing)

lemma t_review [tracing]: "traced Q (wait_for_review l i b)"
  unfolding wait_for_review_def by (intro t_rules tracing)

lemma t_observed [tracing]: "traced Q (observe_head l i pr)" "traced Q (observe_review l i pr)"
  unfolding observe_head_def observe_review_def by (intro t_rules tracing; simp)+

lemma t_await_checks [tracing]: "traced Q (await_checks l i g)"
  unfolding await_checks_def by (intro t_rules tracing) simp_all

lemma t_publish_completed [tracing]: "traced Q (publish_completed l i r)"
  unfolding publish_completed_def publish_def by (intro t_rules tracing) simp_all

lemma t_ask [tracing]: "traced Q (ask_operator l i r)"
  unfolding ask_operator_def by (intro t_rules tracing) simp_all

lemma t_handleResult [tracing]: "traced Q (handleResult l i r e)"
  unfolding handleResult_def accept_result_def result_outcome_def by (intro t_rules tracing) simp_all

lemma t_runClaimed [tracing]: "traced Q (runClaimed l n r ws)"
  unfolding runClaimed_def validated_spawn_def [symmetric] by (intro t_rules tracing launch) simp_all

lemma t_claimAndRun [tracing]: "traced Q (claimAndRun l i r)"
  unfolding claimAndRun_def confirm_claim_def by (intro t_rules tracing) simp_all

lemma t_startIssue [tracing]: "traced Q (startIssue l n r)"
  unfolding startIssue_def record_author_def admit_def start_execution_def by (intro t_rules tracing) simp_all

lemma t_checkpoint [tracing]: "traced Q (processPublicationCheckpoint l i)"
  unfolding processPublicationCheckpoint_def check_checkpoint_def publish_checkpoint_def publish_def finish_checkpoint_def
  by (intro t_rules tracing) simp_all

lemma t_process_pending [tracing]: "traced Q (process_pending l i)"
  unfolding process_pending_def launch_pending_def retry_worker_def resume_pending_worker_def run_and_handle_def
  by (intro t_rules tracing) simp_all

end

text \<open>A property that also holds of a merge holds of everything the supervisor does with an Issue.\<close>

locale supervised_merges = supervised +
  assumes merging: "traced Q (merge l current headChanged pr)"
begin

lemma t_follow [tracing]: "traced Q (follow_open l i b c pr)"
  unfolding follow_open_def with_worktree_of_def follow_merge_state_def follow_checks_def by (intro t_rules tracing merging)

lemma t_pullRequest [tracing]: "traced Q (processPullRequest l i)"
  unfolding processPullRequest_def follow_remote_def follow_selected_def by (intro t_rules tracing)

lemma t_processExisting: "traced Q (processExisting l i)"
  unfolding processExisting_def by (intro t_rules tracing)

end

end
