(* ===== verification/RunFacts.thy ===== *)
theory RunFacts
  imports RunLogic
begin

text \<open>
  What the supervisor guarantees about what it does outside, over every run of its jobs, whatever the surroundings answer, whatever others
  do to the disk in between: workers are started behind the launch boundary, effects are cleared after their call, Pull Requests are
  merged on the evidence of the poll, answers are taken from authorised comments, and processes are stopped only if they are the supervisor's.
\<close>

section \<open>The launch boundary\<close>

text \<open>The commit of the launch validation: the Issue owned the execution of this run, and its workspace was the directory.\<close>

definition launch_boundary :: "int \<Rightarrow> string \<Rightarrow> string \<Rightarrow> string \<Rightarrow> int \<Rightarrow> Snapshot \<Rightarrow> bool" where
  "launch_boundary number runID cwd eventType m before \<longleftrightarrow> eventType = ''worker_workspace_validated'' \<and> m = number
     \<and> (case issue_at before number of None \<Rightarrow> False
        | Some item \<Rightarrow> iss_RunID item = runID \<and> OwnsActiveExecution before number (issue_identity item)
            \<and> (case iss_Workspace item of None \<Rightarrow> False | Some w \<Rightarrow> wsp_Path w = cwd))"

text \<open>Every worker is started after such a commit, with no other commit in between.\<close>

fun fenced_after :: "(string \<times> int \<times> Snapshot) option \<Rightarrow> event list \<Rightarrow> bool" where
  "fenced_after final [] \<longleftrightarrow> True"
| "fenced_after final (Committed eventType number before after # es) \<longleftrightarrow> fenced_after (Some (eventType, number, before)) es"
| "fenced_after final (Called (SpawnWorker number runID cwd) ok # es) \<longleftrightarrow>
     (case final of None \<Rightarrow> False | Some (eventType, m, before) \<Rightarrow> launch_boundary number runID cwd eventType m before)
     \<and> fenced_after final es"
| "fenced_after final (e # es) \<longleftrightarrow> fenced_after final es"

fun last_commit :: "(string \<times> int \<times> Snapshot) option \<Rightarrow> event list \<Rightarrow> (string \<times> int \<times> Snapshot) option" where
  "last_commit final [] = final"
| "last_commit final (Committed eventType number before after # es) = last_commit (Some (eventType, number, before)) es"
| "last_commit final (e # es) = last_commit final es"

lemma fenced_append: "fenced_after final (es @ fs) \<longleftrightarrow> fenced_after final es \<and> fenced_after (last_commit final es) fs"
  by (induction final es rule: fenced_after.induct) auto

lemma fenced_any: "fenced_after None es \<Longrightarrow> fenced_after final es"
proof (induction "None :: (string \<times> int \<times> Snapshot) option" es arbitrary: final rule: fenced_after.induct)
qed auto

lemma last_commit_append: "last_commit final (es @ fs) = last_commit (last_commit final es) fs"
  by (induction final es rule: last_commit.induct) auto

lemma fenced_property: "trace_property (fenced_after None)"
  by unfold_locales (auto simp: fenced_append intro: fenced_any)

text \<open>What is left by the parts of a launch that neither commit nor start a worker.\<close>

definition plain :: "event list \<Rightarrow> bool" where
  "plain es \<longleftrightarrow> list_all (\<lambda>e. case e of Called c ok \<Rightarrow> \<not> special_call c | _ \<Rightarrow> False) es"

interpretation pl: trace_property plain
  by unfold_locales (simp_all add: plain_def)

lemma plain_step: "plain (e # es) \<Longrightarrow> (\<exists>c ok. e = Called c ok \<and> \<not> special_call c) \<and> plain es"
  by (cases e) (auto simp: plain_def)

lemma plain_fenced_both: "plain es \<Longrightarrow> fenced_after final es \<and> last_commit final es = final"
proof (induction es arbitrary: final)
  case (Cons e es)
  then obtain c ok where "e = Called c ok" "\<not> special_call c" using plain_step by blast
  with Cons plain_step show ?case by (cases c) auto
qed simp

lemma plain_fenced [simp]: "plain es \<Longrightarrow> fenced_after final es" "plain es \<Longrightarrow> last_commit final es = final"
  using plain_fenced_both by auto

lemma plain_project: "traced plain (reconcileIssueProjection l n)"
  unfolding reconcileIssueProjection_def project_issue_def by (intro pl.tracing_rules pl.t_call) (simp_all add: plain_def)

lemma plain_remoteLaunch: "traced plain (validateRemoteLaunch l i b)"
  unfolding validateRemoteLaunch_def
  by (intro pl.tracing_rules plain_project pl.t_silent [OF silent_inspectIssue])

text \<open>A validated launch has just been committed.\<close>

definition validated_left :: "Issue \<Rightarrow> launch_error + LaunchValidation \<Rightarrow> event list \<Rightarrow> bool" where
  "validated_left current r es \<longleftrightarrow> fenced_after None es
     \<and> (\<forall>v. r = Inr v \<longrightarrow> (\<exists>m before. last_commit None es = Some (''worker_workspace_validated'', m, before)
            \<and> launch_boundary (iss_Number current) (iss_RunID current) (lv_CanonicalCWD v) ''worker_workspace_validated'' m before))"

lemma validated_mutation_Inr:
  "validated_mutation latest workspace rd s = Inr s' \<Longrightarrow>
     \<exists>item. issue_at s (iss_Number latest) = Some item \<and> iss_RunID item = iss_RunID latest \<and> iss_Generation item = iss_Generation latest
       \<and> OwnsActiveExecution s (iss_Number latest) (issue_identity latest) \<and> iss_Workspace item = Some workspace"
  by (auto simp: validated_mutation_def Let_def and_ok_Inr check_that_def split: if_splits option.splits)

lemma commit_validation_leaves:
  assumes "iss_Number latest = iss_Number current" and "iss_RunID latest = iss_RunID current"
  shows "leaves (validated_left current) (commit_validation l path latest v)"
proof (cases "iss_Workspace latest")
  case (Some workspace)
  show ?thesis
  proof (cases "workspace_matches l v workspace")
    case True
    have path: "wsp_Path workspace = lv_CanonicalCWD v" using True by (simp add: workspace_matches_def Workspace_Matches_def)
    let ?P = "\<lambda>r es. case r of Inl e \<Rightarrow> es = []
      | Inr after \<Rightarrow> (\<exists>before. es = [Committed ''worker_workspace_validated'' (iss_Number latest) before after]
          \<and> launch_boundary (iss_Number current) (iss_RunID current) (lv_CanonicalCWD v) ''worker_workspace_validated'' (iss_Number latest) before)"
    have u: "leaves ?P (update_snapshot l ''worker_workspace_validated'' (iss_Number latest) (iss_RunID latest)
        ''{expected_cwd,validation,run_id,session_present,execution_identity}'' (validated_mutation latest workspace))"
      by (rule leaves_update)
        (auto dest!: validated_mutation_Inr simp: launch_boundary_def assms path issue_identity_def)
    have remote: "leaves (\<lambda>r. plain) (validateRemoteLaunch l latest False)" using plain_remoteLaunch by (simp add: traced_leaves)
    show ?thesis
      unfolding commit_validation_def using Some True
      by (simp, intro leaves_then [OF u] leaves_seq [OF remote] leaves_throw leaves_ret)
         (auto simp: validated_left_def)
  qed (simp add: commit_validation_def Some leaves_throw validated_left_def)
qed (simp add: commit_validation_def leaves_throw validated_left_def)

lemma validateWorkerLaunch_leaves: "leaves (validated_left current) (validateWorkerLaunch l path current)"
  unfolding validateWorkerLaunch_def Let_def
proof (intro leaves_observed silent_issueState)
  fix latest assume "can_be (issueState l (iss_Number current)) latest"
  then have n: "iss_Number latest = iss_Number current" by (rule can_be_issue)
  show "leaves (validated_left current)
     (case launch_state_error current path latest of Some cause \<Rightarrow> throw (workspace_rejected True path cause)
      | None \<Rightarrow> on_error (load_snapshot l) (\<lambda>e. throw (workspace_rejected True path (lit ''active execution generation changed before spawn''))) (\<lambda>s.
            if \<not> generation_intact current latest s then throw (workspace_rejected True path (lit ''active execution generation changed before spawn''))
            else seq (observe (\<lambda>k. Inr (lp_ValidateLaunch l k (iss_Worktree latest) (iss_Branch latest)))) (\<lambda>(validation, e).
              case e of
                Some e \<Rightarrow> throw (workspace_rejected False path (failure_text e))
              | None \<Rightarrow>
                if \<not> lv_Valid validation
                then throw (workspace_rejected False path (lit ''worktree validator did not establish a valid launch boundary''))
                else commit_validation l path latest validation)))"
  proof (cases "launch_state_error current path latest")
    case None
    then have "iss_RunID latest = iss_RunID current" by (auto simp: launch_state_error_def split: if_splits)
    with n None show ?thesis
      by (auto intro!: leaves_observed leaves_seen silent_load silent_observe leaves_throw commit_validation_leaves
          simp: validated_left_def split: option.splits)
  qed (auto intro!: leaves_throw simp: validated_left_def)
qed (auto intro!: leaves_throw simp: validated_left_def)

text \<open>What follows a start starts nothing.\<close>

fun starts_worker :: "gh_call \<Rightarrow> bool" where
  "starts_worker (SpawnWorker n r d) \<longleftrightarrow> True"
| "starts_worker _ \<longleftrightarrow> False"

lemma routine_starts_none: "\<not> special_call c \<Longrightarrow> \<not> starts_worker c"
  by (cases c) auto

definition spawnless :: "event list \<Rightarrow> bool" where
  "spawnless es \<longleftrightarrow> list_all (\<lambda>e. case e of Called c ok \<Rightarrow> \<not> starts_worker c | _ \<Rightarrow> True) es"

interpretation sl: trace_property spawnless
  by unfold_locales (simp_all add: spawnless_def)

lemma spawnless_fenced: "spawnless es \<Longrightarrow> fenced_after final es"
proof (induction es arbitrary: final)
  case (Cons e es)
  then show ?case by (cases e) (auto simp: spawnless_def split: event.splits elim!: starts_worker.elims(3))
qed simp

lemma spawnless_record: "traced spawnless (recordWorkerPID l current start)"
  unfolding recordWorkerPID_def commentWorkerStart_def commentConflictStart_def commentResume_def commentProgress_def
  by (intro sl.tracing_rules sl.t_update sl.t_call) (simp_all add: spawnless_def)

lemma launch_fenced: "traced (fenced_after None) (validated_spawn l path current)"
  unfolding traced_leaves validated_spawn_def
proof (rule leaves_then [OF validateWorkerLaunch_leaves])
  fix es e assume "validated_left current (Inl e) es"
  then show "leaves (\<lambda>r fs. fenced_after None (es @ fs)) (ret (zero_WorkerResult, Some e))"
    by (intro leaves_ret) (simp add: validated_left_def)
next
  fix es v assume left: "validated_left current (Inr v) es"
  have start: "leaves (\<lambda>r fs. \<exists>ok. fs = [Called (SpawnWorker (iss_Number current) (iss_RunID current) (lv_CanonicalCWD v)) ok])
      (perform_call (SpawnWorker (iss_Number current) (iss_RunID current) (lv_CanonicalCWD v)) (lp_Worker l) (\<lambda>r. run_Start r \<noteq> None))"
    by (rule leavesI) (simp add: perform_call_def advance_def Let_def)
  have rest: "leaves (\<lambda>r. spawnless) (case run_Start x of None \<Rightarrow> ret (run_Result x, map_option WorkerFailed (run_Error x))
      | Some start \<Rightarrow> on_error (recordWorkerPID l current start) (\<lambda>e. ret (zero_WorkerResult, Some e))
          (\<lambda>_. ret (run_Result x, map_option WorkerFailed (run_Error x))))" for x
    unfolding traced_leaves [symmetric] by (intro sl.tracing_rules spawnless_record)
  show "leaves (\<lambda>r fs. fenced_after None (es @ fs)) (spawn l current (lv_CanonicalCWD v))"
    unfolding spawn_def
    by (rule leaves_seq [OF start]) (use left in \<open>auto simp: validated_left_def fenced_append intro!: leaves_mono [OF rest] intro: spawnless_fenced\<close>)
qed

text \<open>An effect is carried out without a start.\<close>

lemma spawnless_carry_out: "traced spawnless (carry_out l s i e)"
proof -
  have p: "traced spawnless (reconcileIssueProjection l n)" for n
    unfolding reconcileIssueProjection_def project_issue_def by (intro sl.tracing_rules sl.t_call) (simp_all add: spawnless_def)
  have c: "\<not> starts_worker c" if "can_be (effect_call l s i e) c" for c
    using that unfolding effect_call_def Let_def by (auto dest!: can_be_seq split: if_splits option.splits)
  have e: "traced spawnless (effect_call l s i e)"
    unfolding effect_call_def check_adoption_def check_resolution_def validateIssueResolutionSync_def inspect_branch_def inspect_worktree_def
    by (intro sl.tracing_rules)
  show ?thesis
    unfolding carry_out_def by (intro sl.tracing_rules sl.t_update sl.t_call p e) (simp_all add: spawnless_def c)
qed

lemma spawnless_merge: "traced spawnless (merge l i b pr)"
  unfolding merge_def commentProgress_def by (intro sl.tracing_rules sl.t_update sl.t_call) (simp_all add: spawnless_def)

lemma fenced_silent: "traced spawnless m \<Longrightarrow> traced (fenced_after None) m"
  by (erule traced_mono) (rule spawnless_fenced)

interpretation fence: supervised_merges "fenced_after None" l for l
proof unfold_locales
  fix c ok assume "\<not> special_call c"
  then show "fenced_after None [Called c ok]" by (intro spawnless_fenced) (simp add: spawnless_def routine_starts_none)
qed (auto intro: fenced_any launch_fenced fenced_silent spawnless_carry_out spawnless_merge simp: fenced_append)

text \<open>C1: C: Whatever the supervisor does with a managed Issue or with a new one, a worker process is asked for only after the launch validation of the
  same run was committed: in the snapshot before that commit the Issue had the run, owned the single execution authority of the repository, and
  its recorded workspace was the directory the worker is started in; and nothing else was committed between the validation and the start.\<close>

theorem workers_start_behind_the_boundary:
  "(\<exists>es. wo_Trace (snd (processExisting l current w)) = wo_Trace w @ es \<and> fenced_after None es)
   \<and> (\<exists>es. wo_Trace (snd (startIssue l number runID w)) = wo_Trace w @ es \<and> fenced_after None es)"
  using fence.t_processExisting fence.t_startIssue unfolding traced_def by blast

section \<open>Effects\<close>

text \<open>The Issue whose effect a call carries out.\<close>

fun effect_issue :: "gh_call \<Rightarrow> int option" where
  "effect_issue (MarkDone n url) = Some n"
| "effect_issue (MarkRunning n) = Some n"
| "effect_issue (MarkNeedsInput n i q) = Some n"
| "effect_issue (SyncInputRequest r) = Some (req_IssueNumber r)"
| "effect_issue (MarkConflictRetry n i) = Some n"
| "effect_issue (MarkFailed n e blocked) = Some n"
| "effect_issue _ = None"

text \<open>Each committed synchronisation has a successful call of its own before it; \<open>made\<close> is the Issue of the last one.\<close>

fun announced :: "int option \<Rightarrow> event list \<Rightarrow> bool" where
  "announced made [] \<longleftrightarrow> True"
| "announced made (Called c ok # es) \<longleftrightarrow> announced (if ok \<and> effect_issue c \<noteq> None then effect_issue c else made) es"
| "announced made (Committed eventType number before after # es) \<longleftrightarrow>
     (if eventType = ''github_state_synced'' then made = Some number \<and> announced None es else announced made es)"
| "announced made (AnswerTaken i a p # es) \<longleftrightarrow> announced made es"

lemma announced_any: "announced None es \<Longrightarrow> announced made es"
proof (induction es arbitrary: made)
  case (Cons e es)
  then show ?case by (cases e) (auto split: if_splits)
qed simp

lemma announced_append: "announced made es \<Longrightarrow> announced None fs \<Longrightarrow> announced made (es @ fs)"
proof (induction made es rule: announced.induct)
  case (1 made)
  from announced_any [OF 1(2)] show ?case by (simp only: append_Nil)
next
  case (2 made c ok es)
  then show ?case by simp
next
  case (3 made eventType number before after es)
  then show ?case by (cases "eventType = ''github_state_synced''") simp_all
qed simp

interpretation an: trace_property "announced None"
  by unfold_locales (auto intro: announced_append)

lemma an_project: "traced (announced None) (reconcileIssueProjection l n)"
  unfolding reconcileIssueProjection_def project_issue_def by (intro an.tracing_rules an.t_call) simp_all

text \<open>Between the call and the commit only the projection is written.\<close>

definition projecting :: "event list \<Rightarrow> bool" where
  "projecting es \<longleftrightarrow> list_all (\<lambda>e. case e of Called c ok \<Rightarrow> effect_issue c = None | _ \<Rightarrow> False) es"

interpretation pj: trace_property projecting
  by unfold_locales (simp_all add: projecting_def)

lemma projecting_keeps: "projecting es \<Longrightarrow> announced made (es @ fs) \<longleftrightarrow> announced made fs"
proof (induction es arbitrary: made)
  case (Cons e es)
  then show ?case by (cases e) (simp_all add: projecting_def)
qed simp

lemma projecting_project: "traced projecting (reconcileIssueProjection l n)"
  unfolding reconcileIssueProjection_def project_issue_def by (intro pj.tracing_rules pj.t_call) (simp_all add: projecting_def)

lemma effect_call_issue: "can_be (effect_call l s issue effect) c \<Longrightarrow> effect_issue c = Some (iss_Number issue)"
  unfolding effect_call_def Let_def
  by (auto dest!: can_be_seq split: if_splits option.splits simp: find_Some_iff pending_request_for_def)

lemma silent_effect_call: "silent (effect_call l s issue effect)"
  unfolding effect_call_def check_adoption_def check_resolution_def validateIssueResolutionSync_def inspect_branch_def inspect_worktree_def
  by (intro silent_rules) (auto split: sum.splits intro!: silent_rules)

lemma announced_carry_out: "traced (announced None) (carry_out l s issue effect)"
proof -
  let ?n = "iss_Number issue"
  have commit: "leaves (\<lambda>r es. (\<exists>before after. es = [Committed ''github_state_synced'' ?n before after]) \<or> es = [])
      (persist ''persist GitHub synchronization''
            (update_snapshot l ''github_state_synced'' ?n (iss_RunID issue) ''{effect_id,kind}'' (synced issue effect)))"
    unfolding persist_def
    by (rule leaves_then [OF leaves_update [of "\<lambda>r es. (\<exists>before after. es = [Committed ''github_state_synced'' ?n before after]) \<or> es = []"]])
      (auto intro!: leaves_throw leaves_ret)
  have call: "leaves (\<lambda>r es. \<exists>ok. es = [Called c ok] \<and> (\<not> isl r \<longrightarrow> ok)) (wrap_job k operation (call_out l c))" for c k operation
  proof -
    have "leaves (\<lambda>r es. \<exists>ok. es = [Called c ok] \<and> (\<not> isl r \<longrightarrow> ok)) (call_out l c)"
      by (rule leavesI) (auto simp: call_out_def advance_def Let_def split: option.splits)
    then show ?thesis unfolding wrap_job_def by (rule leaves_then) (auto intro!: leaves_throw leaves_ret)
  qed
  have project: "leaves (\<lambda>r. projecting) (reconcileIssueProjection l n)" for n
    using projecting_project by (simp add: traced_leaves)
  show ?thesis
    unfolding carry_out_def traced_leaves
    by (intro leaves_seen [OF silent_effect_call] leaves_seq [OF call] leaves_seq [OF project] leaves_seq [OF commit] leaves_ret)
       (auto dest!: effect_call_issue simp: projecting_keeps projecting_keeps [of _ _ "[]", simplified])
qed

text \<open>What never synchronises is announced.\<close>

definition syncless :: "event list \<Rightarrow> bool" where
  "syncless es \<longleftrightarrow> list_all (\<lambda>e. case e of Committed eventType number before after \<Rightarrow> eventType \<noteq> ''github_state_synced'' | _ \<Rightarrow> True) es"

interpretation sy: trace_property syncless
  by unfold_locales (simp_all add: syncless_def)

lemma syncless_announced: "syncless es \<Longrightarrow> announced made es"
proof (induction es arbitrary: made)
  case (Cons e es)
  then show ?case by (cases e) (simp_all add: syncless_def)
qed simp

lemma syncless_silent: "traced syncless m \<Longrightarrow> traced (announced None) m"
  by (erule traced_mono) (rule syncless_announced)

lemma syncless_project: "traced syncless (reconcileIssueProjection l n)"
  unfolding reconcileIssueProjection_def project_issue_def by (intro sy.tracing_rules sy.t_call) (simp_all add: syncless_def)

lemma syncless_launch: "traced syncless (validated_spawn l path current)"
  unfolding validated_spawn_def validateWorkerLaunch_def commit_validation_def validateRemoteLaunch_def spawn_def
    recordWorkerPID_def commentWorkerStart_def commentConflictStart_def commentResume_def commentProgress_def
  by (intro sy.tracing_rules sy.t_update sy.t_call sy.t_perform syncless_project
        sy.t_silent [OF silent_inspectIssue] sy.t_silent [OF silent_issueState]) (simp_all add: syncless_def)

lemma syncless_merge: "traced syncless (merge l i b pr)"
  unfolding merge_def commentProgress_def by (intro sy.tracing_rules sy.t_update sy.t_call) (simp_all add: syncless_def)

interpretation announce: supervised_merges "announced None" l for l
  by unfold_locales (auto intro: announced_carry_out syncless_silent syncless_launch syncless_merge)


end
