(* ===== verification/Reconciliation.thy ===== *)
theory Reconciliation
  imports IssueTransition
begin

text \<open>
  \<open>internal/domain/issue/reconciliation.go\<close>: how the supervisor converges a durable Issue record
  with what it observes of GitHub, the worktree and the worker process, at startup and for terminal
  Issues. The decision is a pure function of the saved state and the observation; the lemmas say
  that it converges in one step, that the lifecycle allows its result, and that a record never
  comes out of it still claiming a worker.
\<close>

record ReconciliationState =
  rs_Status :: Status
  rs_LastError :: string
  rs_Branch :: string
  rs_PullRequest :: string
  rs_Effect :: EffectKind
  rs_RetryAt :: "time option"
  rs_WorkerPID :: int
  rs_WorkerPGID :: int
  rs_PullRequestMerged :: bool
  rs_WorktreeSaved :: bool

record ReconciliationPullRequest =
  pr_Number :: int
  pr_URL :: string
  pr_State :: string
  pr_HeadRefName :: string
  pr_HeadSHA :: string
  pr_Draft :: bool
  pr_Merged :: bool

record ReconciliationWorkspace =
  rw_Exists :: bool
  rw_Valid :: bool
  rw_LocalBranchExists :: bool
  rw_RemoteBranchExists :: bool
  rw_Branch :: string

record ReconciliationObservation =
  ro_Now :: time
  ro_PullRequests :: "ReconciliationPullRequest list"
  ro_Workspace :: ReconciliationWorkspace
  ro_WorkerAlive :: bool

record ReconciliationDecision =
  dc_Status :: Status
  dc_LastError :: string
  dc_Branch :: string
  dc_PullRequest :: string
  dc_Effect :: EffectKind
  dc_RetryAt :: "time option"
  dc_WorkerPID :: int
  dc_WorkerPGID :: int
  dc_PullRequestMerged :: bool
  dc_Reason :: string

definition initialReconciliationDecision :: "ReconciliationState \<Rightarrow> ReconciliationDecision" where
  "initialReconciliationDecision current =
     \<lparr>dc_Status = rs_Status current, dc_LastError = rs_LastError current, dc_Branch = rs_Branch current,
      dc_PullRequest = rs_PullRequest current, dc_Effect = rs_Effect current, dc_RetryAt = rs_RetryAt current,
      dc_WorkerPID = rs_WorkerPID current, dc_WorkerPGID = rs_WorkerPGID current,
      dc_PullRequestMerged = rs_PullRequestMerged current, dc_Reason = lit ''state already converged''\<rparr>"

definition BlockReconciliation :: "ReconciliationDecision \<Rightarrow> string \<Rightarrow> ReconciliationDecision" where
  "BlockReconciliation decision reason =
     decision\<lparr>dc_Status := StatusBlocked,
       dc_LastError := lit ''startup reconciliation blocked: '' @ reason,
       dc_Effect := EffectMarkBlocked, dc_RetryAt := None,
       dc_WorkerPID := 0, dc_WorkerPGID := 0, dc_Reason := reason\<rparr>"

definition TerminalPullRequestCandidate :: "ReconciliationState \<Rightarrow> bool" where
  "TerminalPullRequestCandidate current \<longleftrightarrow>
     (rs_Status current = StatusBlocked \<or> rs_Status current = StatusFailed) \<and> rs_PullRequest current \<noteq> ''''
     \<and> \<not> rs_PullRequestMerged current \<and> rs_Effect current = EffectNone"

definition TerminalReconciliationCandidate :: "ReconciliationState \<Rightarrow> bool" where
  "TerminalReconciliationCandidate current \<longleftrightarrow>
     rs_Status current = StatusBlocked \<or> rs_Status current = StatusFailed"

definition pr_open :: "ReconciliationPullRequest \<Rightarrow> bool" where
  "pr_open pr \<longleftrightarrow> EqualFold (pr_State pr) ''open''"

text \<open>The checks on the only Pull Request of the saved branch.\<close>

definition terminal_pull_request ::
  "ReconciliationState \<Rightarrow> ReconciliationDecision \<Rightarrow> ReconciliationPullRequest \<Rightarrow> ReconciliationDecision" where
  "terminal_pull_request current decision pr =
     (if pr_URL pr \<noteq> rs_PullRequest current
      then decision\<lparr>dc_Reason := lit ''Pull Request for the saved branch does not match the saved Pull Request URL''\<rparr>
      else if rs_Branch current = '''' \<or> pr_HeadRefName pr = '''' \<or> pr_HeadRefName pr \<noteq> rs_Branch current
      then decision\<lparr>dc_Reason := lit ''Pull Request head does not match the saved branch''\<rparr>
      else if \<not> pr_Merged pr
      then (if pr_open pr then decision\<lparr>dc_Reason := lit ''saved Pull Request is not merged''\<rparr>
            else decision\<lparr>dc_Reason := lit ''saved Pull Request was closed without merge''\<rparr>)
      else decision\<lparr>dc_Status := StatusCompleted, dc_LastError := '''', dc_PullRequestMerged := True,
              dc_Effect := EffectMarkDone, dc_RetryAt := None, dc_WorkerPID := 0, dc_WorkerPGID := 0,
              dc_Reason := lit ''saved Pull Request merge discovered for terminal Issue''\<rparr>)"

definition DecideTerminalPullRequestReconciliation ::
  "ReconciliationState \<Rightarrow> ReconciliationObservation \<Rightarrow> ReconciliationDecision \<times> bool" where
  "DecideTerminalPullRequestReconciliation current observed =
     (let decision = (initialReconciliationDecision current)\<lparr>dc_Reason := lit ''terminal Issue remains sticky''\<rparr> in
      if \<not> TerminalPullRequestCandidate current then (decision, False)
      else case ro_PullRequests observed of
        [pr] \<Rightarrow> (terminal_pull_request current decision pr, True)
      | [] \<Rightarrow> (decision\<lparr>dc_Reason := lit ''saved Pull Request was not found for the saved branch''\<rparr>, True)
      | _ \<Rightarrow> (decision\<lparr>dc_Reason := lit ''multiple Pull Requests target the saved branch''\<rparr>, True))"

text \<open>The loop over the observed Pull Requests: the open ones, the first merged and the first closed one.\<close>

record pr_scan =
  sc_open :: "ReconciliationPullRequest list"
  sc_merged :: "ReconciliationPullRequest option"
  sc_closed :: "ReconciliationPullRequest option"

fun scan_pull_requests :: "ReconciliationPullRequest list \<Rightarrow> pr_scan \<Rightarrow> pr_scan" where
  "scan_pull_requests [] s = s"
| "scan_pull_requests (pr # prs) s = scan_pull_requests prs
     (if pr_Merged pr then (if sc_merged s = None then s\<lparr>sc_merged := Some pr\<rparr> else s)
      else if pr_open pr then s\<lparr>sc_open := sc_open s @ [pr]\<rparr>
      else if sc_closed s = None then s\<lparr>sc_closed := Some pr\<rparr> else s)"

definition scan_prs :: "ReconciliationPullRequest list \<Rightarrow> pr_scan" where
  "scan_prs prs = scan_pull_requests prs \<lparr>sc_open = [], sc_merged = None, sc_closed = None\<rparr>"

text \<open>The worktree and branch checks: a reason to block, if any.\<close>

definition workspace_conflict ::
  "ReconciliationState \<Rightarrow> ReconciliationObservation \<Rightarrow> bool \<Rightarrow> string option" where
  "workspace_conflict current observed oneOpen =
     (let w = ro_Workspace observed in
      if rs_WorktreeSaved current then
        (if \<not> rw_Exists w \<or> \<not> rw_Valid w then Some (lit ''saved worktree is missing or invalid'')
         else if rs_Branch current \<noteq> '''' \<and> rw_Branch w \<noteq> rs_Branch current
         then Some (lit ''worktree branch changed from '' @ rs_Branch current @ '' to '' @ rw_Branch w)
         else if rs_Branch current \<noteq> '''' \<and> \<not> rw_LocalBranchExists w then Some (lit ''saved local branch is missing'')
         else if oneOpen \<and> \<not> rw_RemoteBranchExists w
         then Some (lit ''open Pull Request head branch is missing from origin'')
         else None)
      else if oneOpen then Some (lit ''open Pull Request exists but the saved worktree is missing'')
      else None)"

text \<open>The last switch: what becomes of a record whose observations agree and whose worker is gone.\<close>

definition restart_decision ::
  "ReconciliationState \<Rightarrow> time \<Rightarrow> bool \<Rightarrow> ReconciliationDecision \<Rightarrow> ReconciliationDecision" where
  "restart_decision current now oneOpen decision =
     (let d = (case rs_Status current of
         StatusClaiming \<Rightarrow> decision\<lparr>dc_Reason := lit ''durable claim will be retried idempotently''\<rparr>
       | StatusLaunching \<Rightarrow> decision\<lparr>dc_Status := StatusRetryWait, dc_RetryAt := Some now,
           dc_LastError := lit ''worker launch interrupted before process identity was saved'',
           dc_Reason := lit ''dead worker launch scheduled for retry''\<rparr>
       | StatusRunning \<Rightarrow> decision\<lparr>dc_Status := StatusRetryWait, dc_RetryAt := Some now,
           dc_LastError := lit ''worker disappeared before supervisor restart'',
           dc_Reason := lit ''dead worker scheduled for retry''\<rparr>
       | StatusClaimed \<Rightarrow> decision\<lparr>dc_Status := StatusRetryWait, dc_RetryAt := Some now,
           dc_LastError := lit ''worker disappeared before supervisor restart'',
           dc_Reason := lit ''dead worker scheduled for retry''\<rparr>
       | StatusRetryWait \<Rightarrow> decision\<lparr>dc_Reason := lit ''existing retry schedule preserved''\<rparr>
       | StatusResumePending \<Rightarrow> decision\<lparr>dc_Reason := lit ''recorded answer remains pending for resume''\<rparr>
       | StatusNeedsInput \<Rightarrow> decision\<lparr>dc_Reason := lit ''unanswered request remains sticky''\<rparr>
       | StatusResolvingConflict \<Rightarrow>
           (let d = decision\<lparr>dc_Reason := lit ''durable Pull Request conflict recovery will resume in the saved worktree''\<rparr>
            in if dc_RetryAt decision = None then d\<lparr>dc_RetryAt := Some now\<rparr> else d)
       | _ \<Rightarrow> decision)
      in if oneOpen \<and> (rs_Status current = StatusLaunching \<or> rs_Status current = StatusRunning
            \<or> rs_Status current = StatusClaimed)
         then d\<lparr>dc_Reason := lit ''open Pull Request discovered and dead worker scheduled for retry''\<rparr> else d)"

definition merged_decision :: "ReconciliationDecision \<Rightarrow> ReconciliationPullRequest \<Rightarrow> ReconciliationDecision" where
  "merged_decision decision pr =
     decision\<lparr>dc_Status := StatusCompleted, dc_LastError := '''', dc_PullRequest := pr_URL pr,
       dc_PullRequestMerged := True, dc_WorkerPID := 0, dc_RetryAt := None,
       dc_Reason := lit ''merged Pull Request discovered'', dc_WorkerPGID := 0, dc_Effect := EffectMarkDone\<rparr>"

definition adopt_open :: "ReconciliationDecision \<Rightarrow> ReconciliationPullRequest list \<Rightarrow> ReconciliationDecision" where
  "adopt_open decision opens = (case opens of
     [pr] \<Rightarrow> decision\<lparr>dc_PullRequest := pr_URL pr,
       dc_Branch := (if dc_Branch decision = '''' then pr_HeadRefName pr else dc_Branch decision)\<rparr>
   | _ \<Rightarrow> decision)"

definition DecideReconciliation ::
  "ReconciliationState \<Rightarrow> ReconciliationObservation \<Rightarrow> ReconciliationDecision" where
  "DecideReconciliation current observed =
     (let decision = initialReconciliationDecision current in
      if Terminal (rs_Status current) then
        (let (terminal, ok) = DecideTerminalPullRequestReconciliation current observed
         in if ok then terminal else decision)
      else
        let scan = scan_prs (ro_PullRequests observed) in
        if length (ro_PullRequests observed) > 1
        then BlockReconciliation decision (lit ''multiple Pull Requests target the saved branch'')
        else case sc_merged scan of
          Some pr \<Rightarrow> merged_decision decision pr
        | None \<Rightarrow>
          let oneOpen = (length (sc_open scan) = 1);
              decision = adopt_open decision (sc_open scan)
          in case (if oneOpen then None else sc_closed scan) of
            Some pr \<Rightarrow> BlockReconciliation (decision\<lparr>dc_PullRequest := pr_URL pr\<rparr>) (lit ''Pull Request was closed without merge'')
          | None \<Rightarrow>
            (case workspace_conflict current observed oneOpen of
               Some reason \<Rightarrow> BlockReconciliation decision reason
             | None \<Rightarrow>
               if ro_WorkerAlive observed
               then BlockReconciliation decision
                 (lit ''saved worker PID '' @ Itoa (rs_WorkerPID current) @ lit '' is still alive'')
               else restart_decision current (ro_Now observed) oneOpen
                      (decision\<lparr>dc_WorkerPID := 0, dc_WorkerPGID := 0\<rparr>)))"

text \<open>Committing a decision: the caller writes the decided fields back to the saved state.\<close>

definition commit_decision :: "ReconciliationState \<Rightarrow> ReconciliationDecision \<Rightarrow> ReconciliationState" where
  "commit_decision s d =
     s\<lparr>rs_Status := dc_Status d, rs_LastError := dc_LastError d, rs_Branch := dc_Branch d,
       rs_PullRequest := dc_PullRequest d, rs_Effect := dc_Effect d, rs_RetryAt := dc_RetryAt d,
       rs_WorkerPID := dc_WorkerPID d, rs_WorkerPGID := dc_WorkerPGID d,
       rs_PullRequestMerged := dc_PullRequestMerged d\<rparr>"

section \<open>Properties\<close>

lemma initial_fields [simp]:
  "dc_Status (initialReconciliationDecision s) = rs_Status s"
  "dc_Branch (initialReconciliationDecision s) = rs_Branch s"
  by (simp_all add: initialReconciliationDecision_def)

lemma adopt_open_fields [simp]:
  "dc_Status (adopt_open d prs) = dc_Status d" "dc_Effect (adopt_open d prs) = dc_Effect d"
  by (simp_all add: adopt_open_def split: list.splits)

lemma merged_fields [simp]:
  "dc_Status (merged_decision d pr) = StatusCompleted" "dc_Effect (merged_decision d pr) = EffectMarkDone"
  "dc_WorkerPID (merged_decision d pr) = 0" "dc_WorkerPGID (merged_decision d pr) = 0"
  by (simp_all add: merged_decision_def)

lemma restart_fields [simp]:
  "dc_Status (restart_decision current now oneOpen d) =
     (if rs_Status current \<in> {StatusLaunching, StatusRunning, StatusClaimed} then StatusRetryWait else dc_Status d)"
  "dc_WorkerPID (restart_decision current now oneOpen d) = dc_WorkerPID d"
  "dc_WorkerPGID (restart_decision current now oneOpen d) = dc_WorkerPGID d"
  by (simp_all add: restart_decision_def Let_def split: Status.splits)

lemma block_fields [simp]:
  "dc_Status (BlockReconciliation d r) = StatusBlocked" "dc_Effect (BlockReconciliation d r) = EffectMarkBlocked"
  "dc_WorkerPID (BlockReconciliation d r) = 0" "dc_WorkerPGID (BlockReconciliation d r) = 0"
  by (simp_all add: BlockReconciliation_def)

text \<open>The decision for a record that is not terminal is a block, a completion by a merged Pull
  Request, or a restart with every observation in agreement and the worker gone.\<close>

definition restart_applies :: "ReconciliationState \<Rightarrow> ReconciliationObservation \<Rightarrow> bool" where
  "restart_applies current observed \<longleftrightarrow>
     (let scan = scan_prs (ro_PullRequests observed); oneOpen = (length (sc_open scan) = 1) in
      length (ro_PullRequests observed) \<le> 1 \<and> sc_merged scan = None \<and> (oneOpen \<or> sc_closed scan = None)
      \<and> workspace_conflict current observed oneOpen = None \<and> \<not> ro_WorkerAlive observed)"

definition restart_result :: "ReconciliationState \<Rightarrow> ReconciliationObservation \<Rightarrow> ReconciliationDecision" where
  "restart_result current observed =
     (let opens = sc_open (scan_prs (ro_PullRequests observed)) in
      restart_decision current (ro_Now observed) (length opens = 1)
        ((adopt_open (initialReconciliationDecision current) opens)\<lparr>dc_WorkerPID := 0, dc_WorkerPGID := 0\<rparr>))"

lemma decide_cases:
  assumes "\<not> Terminal (rs_Status current)"
  obtains (block) d r where "DecideReconciliation current observed = BlockReconciliation d r"
  | (merged) pr where "DecideReconciliation current observed =
        merged_decision (initialReconciliationDecision current) pr"
  | (restart) "restart_applies current observed"
      "DecideReconciliation current observed = restart_result current observed"
proof (cases "length (ro_PullRequests observed) > 1")
  case True
  then show thesis using assms block by (simp add: DecideReconciliation_def Let_def)
next
  case few: False
  let ?scan = "scan_prs (ro_PullRequests observed)"
  show thesis
  proof (cases "sc_merged ?scan")
    case (Some pr)
    with few assms show thesis by (intro merged [of pr]) (simp add: DecideReconciliation_def Let_def)
  next
    case unmerged: None
    let ?one = "length (sc_open ?scan) = 1"
    let ?d = "adopt_open (initialReconciliationDecision current) (sc_open ?scan)"
    show thesis
    proof (cases "if ?one then None else sc_closed ?scan")
      case (Some pr)
      with few unmerged assms have "DecideReconciliation current observed =
          BlockReconciliation (?d\<lparr>dc_PullRequest := pr_URL pr\<rparr>) (lit ''Pull Request was closed without merge'')"
        by (simp add: DecideReconciliation_def Let_def)
      then show thesis by (rule block)
    next
      case unclosed: None
      show thesis
      proof (cases "workspace_conflict current observed ?one")
        case (Some reason)
        with few unmerged unclosed assms
        have "DecideReconciliation current observed = BlockReconciliation ?d reason"
          by (simp add: DecideReconciliation_def Let_def)
        then show thesis by (rule block)
      next
        case agree: None
        show thesis
        proof (cases "ro_WorkerAlive observed")
          case True
          with few unmerged unclosed agree assms
          have "DecideReconciliation current observed = BlockReconciliation ?d
              (lit ''saved worker PID '' @ Itoa (rs_WorkerPID current) @ lit '' is still alive'')"
            by (simp add: DecideReconciliation_def Let_def)
          then show thesis by (rule block)
        next
          case dead: False
          show thesis
          proof (rule restart)
            show "restart_applies current observed"
              using few unmerged unclosed agree dead
              by (simp add: restart_applies_def Let_def split: if_splits)
            show "DecideReconciliation current observed = restart_result current observed"
              using few unmerged unclosed agree dead assms
              by (simp add: DecideReconciliation_def restart_result_def Let_def)
          qed
        qed
      qed
    qed
  qed
qed

lemma decide_status:
  assumes "\<not> Terminal (rs_Status current)"
  shows "dc_Status (DecideReconciliation current observed) \<in> {StatusBlocked, StatusCompleted,
      (if rs_Status current \<in> {StatusLaunching, StatusRunning, StatusClaimed} then StatusRetryWait
       else rs_Status current)}"
    and "dc_WorkerPID (DecideReconciliation current observed) = 0"
    and "dc_WorkerPGID (DecideReconciliation current observed) = 0"
  using assms by (cases rule: decide_cases [where observed = observed]; simp add: restart_result_def Let_def)+

lemma terminal_pull_request_fields:
  "dc_Status (terminal_pull_request current d pr) \<in> {dc_Status d, StatusCompleted}"
  by (simp add: terminal_pull_request_def)

lemma decide_terminal_status:
  assumes "Terminal (rs_Status current)"
  shows "dc_Status (DecideReconciliation current observed) = rs_Status current
    \<or> TerminalPullRequestCandidate current \<and> dc_Status (DecideReconciliation current observed) = StatusCompleted"
  using assms terminal_pull_request_fields
    [of current "(initialReconciliationDecision current)\<lparr>dc_Reason := lit ''terminal Issue remains sticky''\<rparr>"]
  by (auto simp: DecideReconciliation_def DecideTerminalPullRequestReconciliation_def Let_def split: list.splits)

text \<open>Reconciliation is compatible with the lifecycle: for every record in a known status other
  than unset, the status the reconciliation decides is one that \<open>ReconcileObservation\<close> allows from
  the saved status, so the caller can always commit the decision.\<close>

theorem reconciliation_is_committable:
  assumes "rs_Status current \<in> set AllStatuses" and "rs_Status current \<noteq> StatusUnset"
  shows "\<exists>tr. ReconcileObservation (rs_Status current) (dc_Status (DecideReconciliation current observed)) = Inr tr"
proof (cases "Terminal (rs_Status current)")
  case True
  with decide_terminal_status [OF this, of observed]
  have "\<exists>n. ReconcileObservation (rs_Status current) (dc_Status (DecideReconciliation current observed))
      = Inr \<lparr>tr_Name = n, tr_From = rs_Status current, tr_To = dc_Status (DecideReconciliation current observed)\<rparr>"
    by (intro reconcile_allows assms) (auto simp: TerminalPullRequestCandidate_def)
  then show ?thesis by blast
next
  case False
  with decide_status(1) [OF this, of observed] assms(2)
  have "\<exists>n. ReconcileObservation (rs_Status current) (dc_Status (DecideReconciliation current observed))
      = Inr \<lparr>tr_Name = n, tr_From = rs_Status current, tr_To = dc_Status (DecideReconciliation current observed)\<rparr>"
    by (intro reconcile_allows assms) (auto simp: Terminal_def split: if_splits)
  then show ?thesis by blast
qed

definition sample_state :: "Status \<Rightarrow> ReconciliationState" where
  "sample_state s = \<lparr>rs_Status = s, rs_LastError = '''', rs_Branch = ''b'', rs_PullRequest = '''',
     rs_Effect = EffectNone, rs_RetryAt = None, rs_WorkerPID = 7, rs_WorkerPGID = 7,
     rs_PullRequestMerged = False, rs_WorktreeSaved = False\<rparr>"

definition sample_observation :: "ReconciliationPullRequest list \<Rightarrow> bool \<Rightarrow> ReconciliationObservation" where
  "sample_observation prs alive = \<lparr>ro_Now = 5, ro_PullRequests = prs,
     ro_Workspace = \<lparr>rw_Exists = True, rw_Valid = True, rw_LocalBranchExists = True,
       rw_RemoteBranchExists = True, rw_Branch = ''b''\<rparr>, ro_WorkerAlive = alive\<rparr>"

theorem reconciliation_is_committable_witness:
  "\<exists>tr. ReconcileObservation StatusRunning
     (dc_Status (DecideReconciliation (sample_state StatusRunning) (sample_observation [] False))) = Inr tr"
  using reconciliation_is_committable [of "sample_state StatusRunning" "sample_observation [] False"]
  by (simp add: sample_state_def AllStatuses_def)

text \<open>A record never leaves reconciliation claiming a worker: unless it was already terminal, the
  decision clears the process identity, and its status holds the repository's execution only for an
  unconfirmed claim; a worker that is still alive blocks the Issue instead of being retried next to it,
  unless the Pull Request is already merged.\<close>

theorem reconciliation_releases_worker:
  assumes "\<not> Terminal (rs_Status current)"
  shows "dc_WorkerPID (DecideReconciliation current observed) = 0
    \<and> dc_WorkerPGID (DecideReconciliation current observed) = 0
    \<and> (RequiresActiveExecution (dc_Status (DecideReconciliation current observed)) \<longrightarrow>
         rs_Status current = StatusClaiming)
    \<and> (ro_WorkerAlive observed \<longrightarrow>
         dc_Status (DecideReconciliation current observed) \<in> {StatusBlocked, StatusCompleted})"
proof -
  have "dc_Status (DecideReconciliation current observed) \<in> {StatusBlocked, StatusCompleted}"
    if "ro_WorkerAlive observed"
    using assms by (cases rule: decide_cases [where observed = observed])
      (use that in \<open>simp_all add: restart_applies_def Let_def\<close>)
  moreover have "rs_Status current = StatusClaiming"
    if "RequiresActiveExecution (dc_Status (DecideReconciliation current observed))"
    using decide_status(1) [OF assms, of observed] that by (auto simp: RequiresActiveExecution_def split: if_splits)
  ultimately show ?thesis using decide_status [OF assms, of observed] by blast
qed

theorem reconciliation_releases_worker_witness:
  "dc_Status (DecideReconciliation (sample_state StatusRunning) (sample_observation [] True))
     \<in> {StatusBlocked, StatusCompleted}"
  using reconciliation_releases_worker [of "sample_state StatusRunning" "sample_observation [] True"]
  by (simp add: sample_state_def sample_observation_def Terminal_def)

section \<open>Convergence\<close>

lemma decision_commit_fields [simp]:
  "rs_Status (commit_decision s d) = dc_Status d" "rs_Effect (commit_decision s d) = dc_Effect d"
  "rs_Branch (commit_decision s d) = dc_Branch d" "rs_WorktreeSaved (commit_decision s d) = rs_WorktreeSaved s"
  by (simp_all add: commit_decision_def)

text \<open>A committed block or completion is a fixed point: the pending effect keeps the terminal
  reconciliation away.\<close>

lemma terminal_fixed:
  assumes "Terminal (rs_Status s)" and "rs_Effect s \<noteq> EffectNone \<or> rs_Status s = StatusCompleted"
  shows "commit_decision s (DecideReconciliation s observed) = s"
  using assms
  by (auto simp: DecideReconciliation_def DecideTerminalPullRequestReconciliation_def Let_def
      TerminalPullRequestCandidate_def initialReconciliationDecision_def commit_decision_def)

lemma decide_restart:
  assumes "\<not> Terminal (rs_Status current)" and "restart_applies current observed"
  shows "DecideReconciliation current observed = restart_result current observed"
  using assms by (auto simp: DecideReconciliation_def restart_applies_def restart_result_def Let_def)

lemma terminal_commit:
  assumes "Terminal (rs_Status s)"
  shows "commit_decision s (DecideReconciliation s observed) = s
    \<or> dc_Status (DecideReconciliation s observed) = StatusCompleted"
  using assms
  by (auto simp: DecideReconciliation_def DecideTerminalPullRequestReconciliation_def Let_def
      terminal_pull_request_def initialReconciliationDecision_def commit_decision_def split: list.splits)

lemma workspace_conflict_cong:
  "rs_WorktreeSaved t = rs_WorktreeSaved s \<Longrightarrow> rs_Branch t = rs_Branch s \<Longrightarrow>
     workspace_conflict t = workspace_conflict s"
  by (intro ext) (simp add: workspace_conflict_def Let_def)

lemma restart_commit_fixed:
  fixes s and now and one and opens and url
  assumes adopt: "\<And>t. rs_Branch t = rs_Branch s \<Longrightarrow> adopt_open (initialReconciliationDecision t) opens
      = (initialReconciliationDecision t)\<lparr>dc_PullRequest := (if one then url else rs_PullRequest t)\<rparr>"
  defines "d \<equiv> \<lambda>t. restart_decision t now one
      ((adopt_open (initialReconciliationDecision t) opens)\<lparr>dc_WorkerPID := 0, dc_WorkerPGID := 0\<rparr>)"
  shows "commit_decision (commit_decision s (d s)) (d (commit_decision s (d s))) = commit_decision s (d s)"
proof -
  have ds: "d t = restart_decision t now one
      ((initialReconciliationDecision t)\<lparr>dc_PullRequest := (if one then url else rs_PullRequest t),
        dc_WorkerPID := 0, dc_WorkerPGID := 0\<rparr>)" if "rs_Branch t = rs_Branch s" for t
    using adopt [OF that] by (simp add: d_def)
  have branch: "rs_Branch (commit_decision s (d s)) = rs_Branch s"
    by (cases "rs_Status s") (simp_all add: ds restart_decision_def Let_def)
  show ?thesis
    unfolding ds [OF branch] unfolding ds [OF refl]
    by (cases "rs_Status s"; cases "rs_RetryAt s"; cases one)
      (simp_all add: restart_decision_def Let_def initialReconciliationDecision_def commit_decision_def)
qed

text \<open>Reconciliation converges in one step: once the decision for an observation is committed,
  deciding again on the same observation changes nothing, provided the record names its branch or no
  Pull Request is open (otherwise the first decision adopts a branch the second one checks).\<close>

theorem reconciliation_converges:
  assumes "rs_Branch s \<noteq> '''' \<or> sc_open (scan_prs (ro_PullRequests observed)) = []"
    and "s' = commit_decision s (DecideReconciliation s observed)"
  shows "commit_decision s' (DecideReconciliation s' observed) = s'"
proof (cases "Terminal (rs_Status s)")
  case True
  with terminal_commit [OF this, of observed] show ?thesis
    using assms(2) terminal_fixed [of s' observed] by (auto simp: Terminal_def)
next
  case live: False
  then show ?thesis
  proof (cases rule: decide_cases [where observed = observed])
    case (block d r)
    then show ?thesis using assms(2) by (intro terminal_fixed) (simp_all add: Terminal_def)
  next
    case (merged pr)
    then show ?thesis using assms(2) by (intro terminal_fixed) (simp_all add: Terminal_def)
  next
    case restart
    let ?opens = "sc_open (scan_prs (ro_PullRequests observed))"
    have adopt: "adopt_open (initialReconciliationDecision t) ?opens
        = (initialReconciliationDecision t)\<lparr>dc_PullRequest :=
            (if length ?opens = 1 then pr_URL (hd ?opens) else rs_PullRequest t)\<rparr>"
      if "rs_Branch t = rs_Branch s" for t
      using assms(1) that
      by (auto simp: adopt_open_def initialReconciliationDecision_def split: list.splits)
    have s': "s' = commit_decision s (restart_result s observed)" using assms(2) restart(2) by simp
    have st: "rs_Status s' = (if rs_Status s \<in> {StatusLaunching, StatusRunning, StatusClaimed}
        then StatusRetryWait else rs_Status s)"
      by (simp add: s' restart_result_def Let_def)
    have branch: "rs_Branch s' = rs_Branch s"
      by (cases "rs_Status s") (simp_all add: s' restart_result_def Let_def adopt restart_decision_def)
    have saved: "rs_WorktreeSaved s' = rs_WorktreeSaved s" by (simp add: s')
    have "restart_applies s' observed"
      using restart(1) workspace_conflict_cong [OF saved branch] by (simp add: restart_applies_def)
    moreover have "\<not> Terminal (rs_Status s')" using live st by (simp add: Terminal_def)
    ultimately have "DecideReconciliation s' observed = restart_result s' observed"
      by (intro decide_restart)
    moreover have "commit_decision s' (restart_result s' observed) = s'"
      unfolding s' restart_result_def Let_def
      by (rule restart_commit_fixed) (rule adopt)
    ultimately show ?thesis by simp
  qed
qed

theorem reconciliation_converges_witness:
  "commit_decision (commit_decision (sample_state StatusRunning)
       (DecideReconciliation (sample_state StatusRunning) (sample_observation [] False)))
     (DecideReconciliation (commit_decision (sample_state StatusRunning)
       (DecideReconciliation (sample_state StatusRunning) (sample_observation [] False))) (sample_observation [] False))
   = commit_decision (sample_state StatusRunning)
       (DecideReconciliation (sample_state StatusRunning) (sample_observation [] False))"
  by (rule reconciliation_converges [where s = "sample_state StatusRunning" and observed = "sample_observation [] False", OF _ refl])
    (simp add: sample_state_def)

end
