(* ===== verification/Reconcile.thy ===== *)
theory Reconcile
  imports Runs Processes Reconciliation
begin

text \<open>
  \<open>internal/application/supervisor/reconcile.go\<close>: what the supervisor does with the Issues it finds when it starts, with a terminal
  Issue a webhook delivery names, and with the terminal Issues it polls. Each gathers what GitHub, the worktree and the process table
  show, asks the domain (\<open>Reconciliation\<close>) for a decision, and commits it only if the durable Issue is still the one it decided on;
  at startup it starts over otherwise. Projections of several Issues are done in the random order of a Go map; the model takes the order of
  its list.
\<close>

section \<open>Deciding\<close>

definition startupRemoteInspectionRequired :: "Snapshot \<Rightarrow> Issue option \<Rightarrow> time \<Rightarrow> bool" where
  "startupRemoteInspectionRequired snapshot item now = (case item of None \<Rightarrow> False
     | Some item \<Rightarrow> PendingEffect snapshot (iss_Number item) \<noteq> None
         \<or> (case iss_Status item of
              StatusRetryWait \<Rightarrow> (case iss_RetryAfter item of None \<Rightarrow> True | Some at \<Rightarrow> \<not> at > now)
            | status \<Rightarrow> status \<in> {StatusClaiming, StatusClaimed, StatusLaunching, StatusRunning, StatusResumePending, StatusAwaitingChecks,
                StatusAwaitingMerge, StatusResolvingConflict, StatusBlocked, StatusFailed}))"

record reconciliationDecision =
  dd_Decision :: ReconciliationDecision
  dd_prNumber :: int
  dd_headSHA :: string

definition zero_Inspection :: Inspection where
  "zero_Inspection = \<lparr>ins_Exists = False, ins_Valid = False, ins_Branch = '''', ins_Head = '''', ins_RemoteHead = '''', ins_Dirty = False,
     ins_UnpushedCommits = False, ins_LocalBranchExists = False, ins_RemoteBranchExists = False, ins_RemoteConsistent = False\<rparr>"

definition reconciledPullRequestIdentity :: "PullRequest list \<Rightarrow> string \<Rightarrow> int \<times> string" where
  "reconciledPullRequestIdentity prs url = (case find (\<lambda>pr. PullRequest.pr_URL pr = url) prs of
     None \<Rightarrow> (0, '''') | Some pr \<Rightarrow> (PullRequest.pr_Number pr, PullRequest.pr_HeadSHA pr))"

definition reconciliation_state :: "Issue \<Rightarrow> EffectKind \<Rightarrow> ReconciliationState" where
  "reconciliation_state current effect = ReconciliationState.make (iss_Status current) (iss_LastError current) (iss_Branch current)
     (iss_PullRequestURL current) effect (iss_RetryAfter current) (iss_WorkerPID current) (iss_WorkerPGID current)
     (iss_PullRequestMerged current) (iss_Worktree current \<noteq> '''')"

definition pending_kind :: "Snapshot \<Rightarrow> int \<Rightarrow> EffectKind" where
  "pending_kind snapshot number = (case PendingEffect snapshot number of None \<Rightarrow> EffectNone | Some effect \<Rightarrow> eff_Kind effect)"

definition observed_pull_request :: "PullRequest \<Rightarrow> ReconciliationPullRequest" where
  "observed_pull_request pr = ReconciliationPullRequest.make (PullRequest.pr_Number pr) (PullRequest.pr_URL pr) (PullRequest.pr_State pr)
     (PullRequest.pr_HeadRefName pr) (PullRequest.pr_HeadSHA pr) (pr_IsDraft pr) (pr_MergedAt pr \<noteq> None)"

definition observation_of :: "RemoteState \<Rightarrow> Inspection \<Rightarrow> time \<Rightarrow> bool \<Rightarrow> ReconciliationObservation" where
  "observation_of remote i now alive = \<lparr>ro_Now = now, ro_PullRequests = map observed_pull_request (rs_PullRequests remote),
     ro_Workspace = \<lparr>rw_Exists = ins_Exists i, rw_Valid = ins_Valid i, rw_LocalBranchExists = ins_LocalBranchExists i,
       rw_RemoteBranchExists = ins_RemoteBranchExists i, rw_Branch = ins_Branch i\<rparr>,
     ro_WorkerAlive = alive\<rparr>"

definition reconciliationInputs ::
  "Loop \<Rightarrow> Snapshot \<Rightarrow> Issue \<Rightarrow> RemoteState \<Rightarrow> Inspection \<Rightarrow> (ReconciliationState \<times> ReconciliationObservation) job" where
  "reconciliationInputs l snapshot current remote i =
     seq (read_clock l) (\<lambda>now.
     seq (if iss_WorkerPID current > 0 then observe (\<lambda>k. Inr (lp_Alive l k (iss_WorkerPID current))) else ret False) (\<lambda>alive.
       ret (reconciliation_state current (pending_kind snapshot (iss_Number current)), observation_of remote i now alive)))"

definition with_identity :: "RemoteState \<Rightarrow> ReconciliationDecision \<Rightarrow> reconciliationDecision" where
  "with_identity remote d = (case reconciledPullRequestIdentity (rs_PullRequests remote) (dc_PullRequest d) of
     (number, head) \<Rightarrow> \<lparr>dd_Decision = d, dd_prNumber = number, dd_headSHA = head\<rparr>)"

definition decideReconciliation :: "Loop \<Rightarrow> Snapshot \<Rightarrow> Issue \<Rightarrow> RemoteState \<Rightarrow> Inspection \<Rightarrow> reconciliationDecision job" where
  "decideReconciliation l snapshot current remote i =
     seq (reconciliationInputs l snapshot current remote i) (\<lambda>(st, observed). ret (with_identity remote (DecideReconciliation st observed)))"

text \<open>The poll of a terminal Issue passes an empty snapshot, so no effect is pending for the domain.\<close>

definition decideTerminalPullRequestReconciliation :: "Loop \<Rightarrow> Issue \<Rightarrow> RemoteState \<Rightarrow> (reconciliationDecision \<times> bool) job" where
  "decideTerminalPullRequestReconciliation l current remote =
     seq (read_clock l) (\<lambda>now.
     seq (if iss_WorkerPID current > 0 then observe (\<lambda>k. Inr (lp_Alive l k (iss_WorkerPID current))) else ret False) (\<lambda>alive.
       case DecideTerminalPullRequestReconciliation (reconciliation_state current EffectNone)
              (observation_of remote zero_Inspection now alive) of
         (d, ok) \<Rightarrow> ret (with_identity remote d, ok)))"

definition terminalPullRequestCandidate :: "Issue \<Rightarrow> bool" where
  "terminalPullRequestCandidate issue = TerminalPullRequestCandidate (reconciliation_state issue EffectNone)"

definition terminalReconciliationCandidate :: "Issue \<Rightarrow> bool" where
  "terminalReconciliationCandidate issue = TerminalReconciliationCandidate (reconciliation_state issue EffectNone)"

definition singlePendingRequest :: "Snapshot \<Rightarrow> int \<Rightarrow> Request option" where
  "singlePendingRequest snapshot number =
     (case filter (\<lambda>r. req_IssueNumber r = number \<and> req_Status r = RequestStatusPending) (pointees (snap_PendingRequests snapshot)) of
        [r] \<Rightarrow> Some r | _ \<Rightarrow> None)"

section \<open>Committing\<close>

definition reconciliation_changed :: go_error where
  "reconciliation_changed = Errorf [Lit ''durable Issue state changed during reconciliation'']"

text \<open>\<open>errors.Is(err, errReconciliationStateChanged)\<close>, which only mutations return and only \<open>Update\<close> wraps, and
  \<open>errors.As(err, &mutationErr)\<close>.\<close>

fun is_changed :: "go_error \<Rightarrow> bool" where
  "is_changed (IssueMutationError n e) = is_changed e"
| "is_changed e = (e = reconciliation_changed)"

fun is_mutation_error :: "go_error \<Rightarrow> bool" where
  "is_mutation_error (IssueMutationError n e) = True"
| "is_mutation_error (Wrapf ps e) = is_mutation_error e"
| "is_mutation_error _ = False"

definition unless_changed :: "Issue \<Rightarrow> Snapshot \<Rightarrow> go_error + Snapshot" where
  "unless_changed current s = (if issue_at s (iss_Number current) = Some current then Inr s else Inl reconciliation_changed)"

definition reconciled_issue :: "reconciliationDecision \<Rightarrow> string \<Rightarrow> Issue \<Rightarrow> Issue" where
  "reconciled_issue decision stateReason item =
     (let d = dd_Decision decision in
      item\<lparr>iss_LastError := dc_LastError d, iss_GitHubStateReason := stateReason, iss_Branch := dc_Branch d,
        iss_PullRequestURL := dc_PullRequest d,
        iss_PullRequestNumber := (if dd_prNumber decision = 0 then pullRequestNumber (dc_PullRequest d) else dd_prNumber decision),
        iss_HeadSHA := (if dd_headSHA decision \<noteq> '''' then dd_headSHA decision else iss_HeadSHA item),
        iss_PullRequestMerged := dc_PullRequestMerged d\<rparr>)"

text \<open>The writes that startup and webhooks share.\<close>

definition apply_decision :: "int \<Rightarrow> Transition \<Rightarrow> reconciliationDecision \<Rightarrow> string \<Rightarrow> Readings \<Rightarrow> Snapshot \<Rightarrow> go_error + Snapshot" where
  "apply_decision number transition decision stateReason rd s =
     (let d = dd_Decision decision in
      and_ok (transition_issue number transition s) (\<lambda>s.
      and_ok (edit number (reconciled_issue decision stateReason) s) (\<lambda>s.
      and_ok (set_item_effect number (rd_Entropy rd 0) (dc_Effect d) (rd_Now rd 0) s)
        (edit number (\<lambda>item. item\<lparr>iss_RetryAfter := dc_RetryAt d, iss_WorkerPID := dc_WorkerPID d, iss_WorkerPGID := dc_WorkerPGID d,
           iss_UpdatedAt := rd_Now rd 1\<rparr>)))))"

definition reconcile_mutation :: "Issue \<Rightarrow> Transition \<Rightarrow> reconciliationDecision \<Rightarrow> string \<Rightarrow> Readings \<Rightarrow> Snapshot \<Rightarrow> go_error + Snapshot" where
  "reconcile_mutation current transition decision stateReason rd s =
     and_ok (unless_changed current s) (apply_decision (iss_Number current) transition decision stateReason rd)"

text \<open>The capture of a continuation for an Issue that waits for an answer.\<close>

definition captures_input :: "Snapshot \<Rightarrow> Issue \<Rightarrow> ReconciliationDecision \<Rightarrow> bool" where
  "captures_input latest current d \<longleftrightarrow>
     iss_Status current = StatusNeedsInput \<and> PendingEffect latest (iss_Number current) = None \<and> iss_Continuation current = None
     \<and> iss_PullRequestURL current = '''' \<and> iss_WorkerPID current = 0 \<and> iss_WorkerPGID current = 0
     \<and> dc_Status d = StatusNeedsInput \<and> dc_Effect d = EffectNone \<and> dc_PullRequest d = ''''
     \<and> (case singlePendingRequest latest (iss_Number current) of None \<Rightarrow> False
        | Some request \<Rightarrow> req_ResumeStatus request = StatusUnset \<or> req_ResumeStatus request = StatusResumePending)
     \<and> iss_ConflictRecovery current = None
     \<and> (case snap_ActiveExecution latest of None \<Rightarrow> False | Some active \<Rightarrow> act_IssueNumber active = iss_Number current)"

definition capture_input ::
  "Issue \<Rightarrow> ActiveExecution \<Rightarrow> Request \<Rightarrow> string \<Rightarrow> time \<Rightarrow> Snapshot \<Rightarrow> go_error + Snapshot" where
  "capture_input current active request checkpointID suspendedAt s =
     (let number = iss_Number current; identity = \<lparr>exi_RunID = act_RunID active, exi_Generation = act_Generation active\<rparr> in
      and_ok (CaptureContinuation number identity checkpointID suspendedAt s) (\<lambda>s.
      and_ok (if ptr_at (snap_PendingRequests s) (req_ID request) = Some request then Inr s else Inl reconciliation_changed) (\<lambda>s.
      and_ok (edit number (\<lambda>item. item\<lparr>iss_Continuation := map_option
                (\<lambda>c. c\<lparr>ckpt_Kind := ContinuationKindNeedsInput, ckpt_RequestID := req_ID request\<rparr>) (iss_Continuation item)\<rparr>) s) (\<lambda>s.
      case issue_at s number of None \<Rightarrow> Inl NilPointerPanic | Some item \<Rightarrow>
        put_request (request\<lparr>req_RunID := iss_RunID item, req_CheckpointID := checkpointID, req_ReleasedExecution := Some identity,
          req_ResumeStatus := StatusUnset\<rparr>) s))))"

definition startup_mutation ::
  "Snapshot \<Rightarrow> Issue \<Rightarrow> bool \<Rightarrow> string \<Rightarrow> time \<Rightarrow> Transition \<Rightarrow> reconciliationDecision \<Rightarrow> string \<Rightarrow> Readings \<Rightarrow> Snapshot \<Rightarrow> go_error + Snapshot" where
  "startup_mutation latest current captures checkpointID suspendedAt transition decision stateReason rd s =
     and_ok (unless_changed current s) (\<lambda>s.
     and_ok (if captures
             then case (snap_ActiveExecution latest, singlePendingRequest latest (iss_Number current)) of
                 (Some active, Some request) \<Rightarrow> capture_input current active request checkpointID suspendedAt s
               | _ \<Rightarrow> Inl NilPointerPanic
             else Inr s)
       (apply_decision (iss_Number current) transition decision stateReason rd))"

definition sticky_mutation :: "Issue \<Rightarrow> string \<Rightarrow> Readings \<Rightarrow> Snapshot \<Rightarrow> go_error + Snapshot" where
  "sticky_mutation current stateReason rd s =
     and_ok (unless_changed current s)
       (edit (iss_Number current) (\<lambda>item. item\<lparr>iss_GitHubStateReason := stateReason, iss_UpdatedAt := rd_Now rd 0\<rparr>))"

section \<open>Startup\<close>

definition inspectReconciliationIssue :: "Loop \<Rightarrow> Issue \<Rightarrow> RemoteState job" where
  "inspectReconciliationIssue l current =
     (if terminalReconciliationCandidate current \<and> iss_Branch current \<noteq> ''''
      then observe (\<lambda>k. lp_Inspect l k (iss_Number current) (iss_Branch current))
      else inspectIssue l current)"

text \<open>A round on one Issue: whether another one is needed. An error of the Issue itself is logged and ends the rounds; others end the startup.\<close>

definition round_ended :: "go_error \<Rightarrow> bool job" where
  "round_ended e = (if is_changed e then ret True else if is_mutation_error e then ret False else throw (store_failure e))"

definition reconcile_sticky :: "Loop \<Rightarrow> Issue \<Rightarrow> RemoteState \<Rightarrow> bool job" where
  "reconcile_sticky l current remote =
     on_error (update_snapshot l ''startup_reconciled'' (iss_Number current) (iss_RunID current)
         ''{previous_status,status,reason,github_state_reason}'' (sticky_mutation current (gh_StateReason (rs_Issue remote))))
       round_ended (\<lambda>_. ret False)"

definition commit_startup :: "Loop \<Rightarrow> Snapshot \<Rightarrow> Issue \<Rightarrow> RemoteState \<Rightarrow> reconciliationDecision \<Rightarrow> Transition \<Rightarrow> bool job" where
  "commit_startup l latest current remote decision transition =
     (let captures = captures_input latest current (dd_Decision decision) in
      seq (if captures then new_id l ''checkpoint'' else ret '''') (\<lambda>checkpointID.
      seq (if captures then read_clock l else ret 0) (\<lambda>suspendedAt.
      on_error (update_snapshot l ''startup_reconciled'' (iss_Number current) (iss_RunID current)
          ''{previous_status,status,reason,worktree,pull_requests,predicate_report,checkpoint_id,checkpoint_created}''
          (startup_mutation latest current captures checkpointID suspendedAt transition decision (gh_StateReason (rs_Issue remote))))
        round_ended (\<lambda>_. ret False))))"

definition reconcile_observed :: "Loop \<Rightarrow> Snapshot \<Rightarrow> Issue \<Rightarrow> RemoteState \<Rightarrow> bool job" where
  "reconcile_observed l latest current remote =
     on_error (if iss_Worktree current \<noteq> '''' then inspect_worktree l current else ret zero_Inspection) (\<lambda>e. ret False) (\<lambda>i.
     seq (decideReconciliation l latest current remote i) (\<lambda>decision.
       case ReconcileObservation (iss_Status current) (dc_Status (dd_Decision decision)) of
         Inl e \<Rightarrow> ret False
       | Inr transition \<Rightarrow> commit_startup l latest current remote decision transition))"

definition limited_now :: "Loop \<Rightarrow> failure \<Rightarrow> bool job" where
  "limited_now l e = seq (read_clock l) (\<lambda>now. ret (cooldownFromError e now \<noteq> None))"

definition reconcile_round :: "Loop \<Rightarrow> int \<Rightarrow> bool job" where
  "reconcile_round l number =
     seq (unwrapped (load_snapshot l)) (\<lambda>latest.
     seq (read_clock l) (\<lambda>now.
       case issue_at latest number of
         None \<Rightarrow> ret False
       | Some current \<Rightarrow>
         if \<not> startupRemoteInspectionRequired latest (Some current) now then ret False
         else on_error (inspectReconciliationIssue l current)
           (\<lambda>e. seq (limited_now l e) (\<lambda>limited.
              if limited then throw (Context (''reconcile GitHub state for Issue #'' @ Itoa number @ '': '') e) else ret False))
           (\<lambda>remote.
             if terminalReconciliationCandidate current \<and> \<not> terminalPullRequestCandidate current
             then reconcile_sticky l current remote
             else reconcile_observed l latest current remote)))"

text \<open>The rounds on one Issue: whether they came to an end within the given number.\<close>

fun reconcile_rounds :: "nat \<Rightarrow> Loop \<Rightarrow> int \<Rightarrow> bool job" where
  "reconcile_rounds 0 l number = ret False"
| "reconcile_rounds (Suc n) l number = seq (reconcile_round l number) (\<lambda>again. if again then reconcile_rounds n l number else ret True)"

fun reconcile_numbers :: "nat \<Rightarrow> Loop \<Rightarrow> int list \<Rightarrow> bool job" where
  "reconcile_numbers n l [] = ret True"
| "reconcile_numbers n l (number # numbers) = seq (reconcile_rounds n l number) (\<lambda>ended. if ended then reconcile_numbers n l numbers else ret False)"

fun inspected_numbers :: "Loop \<Rightarrow> Snapshot \<Rightarrow> Issue list \<Rightarrow> int list job" where
  "inspected_numbers l snapshot [] = ret []"
| "inspected_numbers l snapshot (item # items) =
     seq (read_clock l) (\<lambda>now. seq (inspected_numbers l snapshot items) (\<lambda>numbers.
       ret (if startupRemoteInspectionRequired snapshot (Some item) now then iss_Number item # numbers else numbers)))"

definition quarantined_numbers :: "Snapshot \<Rightarrow> int list" where
  "quarantined_numbers s = filter (\<lambda>number. number > 0) (map (\<lambda>(key, r). fst (Atoi key)) (entries (snap_QuarantinedIssues s)))"

definition project_startup :: "Loop \<Rightarrow> int \<Rightarrow> unit job" where
  "project_startup l number = on_error (reconcileIssueProjection l number)
     (\<lambda>e. seq (limited_now l e) (\<lambda>limited. if limited then throw e else ret ())) ret"

text \<open>\<open>controls\<close>: the process inspector is the default or can signal groups. \<open>n\<close> bounds the rounds on one Issue; the result is whether it sufficed.\<close>

definition stop_left_workers :: "Loop \<Rightarrow> int \<Rightarrow> bool \<Rightarrow> Snapshot \<Rightarrow> Snapshot job" where
  "stop_left_workers l grace controls snapshot =
     (if controls
      then on_error (StopWorkers l grace ''worker recovered after supervisor restart'')
        (\<lambda>e. throw (Context ''reconcile orphan worker processes: '' (store_failure e))) (\<lambda>_. unwrapped (load_snapshot l))
      else ret snapshot)"

definition reconcileStartup :: "nat \<Rightarrow> Loop \<Rightarrow> int \<Rightarrow> bool \<Rightarrow> Snapshot \<Rightarrow> bool job" where
  "reconcileStartup n l grace controls snapshot =
     seq (stop_left_workers l grace controls snapshot) (\<lambda>snapshot.
     seq (inspected_numbers l snapshot (pointees (snap_Issues snapshot))) (\<lambda>numbers.
     seq (reconcile_numbers n l (sort numbers)) (\<lambda>ended.
       if \<not> ended then ret False
       else seq (unwrapped (load_snapshot l)) (\<lambda>latest.
         seq (for_jobs (project_startup l) (remdups (sort numbers @ quarantined_numbers latest))) (\<lambda>_. ret True)))))"

section \<open>A terminal Issue and a webhook\<close>

definition webhook_refused :: "string \<Rightarrow> int \<Rightarrow> failure \<Rightarrow> 'a job" where
  "webhook_refused operation number e = throw (WrapFailure IssueFailure (operation @ Itoa number) e)"

definition projected :: "Loop \<Rightarrow> int \<Rightarrow> bool job" where
  "projected l number = seq (reconcileIssueProjection l number) (\<lambda>_. ret True)"

text \<open>A state that changed meanwhile leaves the delivery unhandled.\<close>

definition commit_webhook :: "Loop \<Rightarrow> Issue \<Rightarrow> RemoteState \<Rightarrow> reconciliationDecision \<Rightarrow> Transition \<Rightarrow> bool job" where
  "commit_webhook l current remote decision transition =
     on_error (update_snapshot l ''webhook_terminal_reconciled'' (iss_Number current) (iss_RunID current)
         ''{delivery_id,event,action,status,reason}'' (reconcile_mutation current transition decision (gh_StateReason (rs_Issue remote))))
       (\<lambda>e. if is_changed e then ret False else throw (store_failure e))
       (\<lambda>_. projected l (iss_Number current))"

definition applyWebhookReconciliation :: "Loop \<Rightarrow> Issue \<Rightarrow> RemoteState \<Rightarrow> bool job" where
  "applyWebhookReconciliation l current remote =
     seq (persist ''load webhook reconciliation state'' (load_snapshot l)) (\<lambda>latest.
       if issue_at latest (iss_Number current) \<noteq> Some current then ret False
       else on_error (if iss_Worktree current \<noteq> '''' then inspect_worktree l current else ret zero_Inspection)
         (webhook_refused ''inspect terminal worktree for Issue #'' (iss_Number current)) (\<lambda>i.
         seq (decideReconciliation l latest current remote i) (\<lambda>decision.
           if \<not> TerminalForWebhook (dc_Status (dd_Decision decision)) then projected l (iss_Number current)
           else case ReconcileObservation (iss_Status current) (dc_Status (dd_Decision decision)) of
             Inl e \<Rightarrow> webhook_refused ''decide webhook lifecycle reconciliation for Issue #'' (iss_Number current) (store_failure e)
           | Inr transition \<Rightarrow> commit_webhook l current remote decision transition)))"

text \<open>The identifier of the delivery.\<close>

definition reconcileTerminalWebhook :: "Loop \<Rightarrow> Issue \<Rightarrow> string \<Rightarrow> bool job" where
  "reconcileTerminalWebhook l current deliveryID =
     (if iss_Status current = StatusCanceled \<or> iss_Status current = StatusCompleted then projected l (iss_Number current)
      else seq (wrap_job Transient (''inspect terminal Issue #'' @ Itoa (iss_Number current) @ '' for webhook '' @ deliveryID)
             (inspectReconciliationIssue l current)) (applyWebhookReconciliation l current))"

definition reconcileCollectionExit :: "Loop \<Rightarrow> Issue \<Rightarrow> bool job" where
  "reconcileCollectionExit l current = seq (reconcileIssueProjection l (iss_Number current)) (\<lambda>_. ret False)"

section \<open>The poll of a terminal Issue\<close>

definition if_unchanged :: "Issue \<Rightarrow> (Issue \<Rightarrow> Issue) \<Rightarrow> Snapshot \<Rightarrow> go_error + Snapshot" where
  "if_unchanged current f s = (if issue_at s (iss_Number current) = Some current then edit (iss_Number current) f s else Inr s)"

definition touch_candidate :: "Issue \<Rightarrow> Readings \<Rightarrow> Snapshot \<Rightarrow> go_error + Snapshot" where
  "touch_candidate current rd s = (case issue_at s (iss_Number current) of None \<Rightarrow> Inr s
     | Some item \<Rightarrow> if iss_RunID item \<noteq> iss_RunID current \<or> \<not> terminalPullRequestCandidate item then Inr s
         else edit (iss_Number current) (\<lambda>item. item\<lparr>iss_UpdatedAt := rd_Now rd 0\<rparr>) s)"

definition found_pull_request :: "PullRequest list \<Rightarrow> string \<Rightarrow> PullRequest" where
  "found_pull_request prs url = (case find (\<lambda>pr. PullRequest.pr_URL pr = url) prs of None \<Rightarrow> zero_PullRequest | Some pr \<Rightarrow> pr)"

definition settle_candidate :: "Loop \<Rightarrow> Issue \<Rightarrow> RemoteState \<Rightarrow> unit job" where
  "settle_candidate l current remote =
     seq (decideTerminalPullRequestReconciliation l current remote) (\<lambda>(decision, ok).
       let d = dd_Decision decision in
       if \<not> ok then ret ()
       else if dc_Status d = StatusCompleted \<and> dc_PullRequestMerged d
       then completeIssue l current (found_pull_request (rs_PullRequests remote) (dc_PullRequest d)) ''{source,reason,pull_requests}''
       else seq (persist ''persist terminal Pull Request reconciliation''
              (update_snapshot l ''terminal_pull_request_reconciled'' (iss_Number current) (iss_RunID current)
                ''{status,reason,pull_requests}'' (touch_candidate current))) (\<lambda>_. ret ()))"

definition note_sticky :: "Loop \<Rightarrow> Issue \<Rightarrow> RemoteState \<Rightarrow> unit job" where
  "note_sticky l current remote =
     seq (persist ''persist terminal Issue reconciliation''
            (update_snapshot l ''terminal_issue_reconciled'' (iss_Number current) (iss_RunID current) ''{status,reason,github_state_reason}''
              (\<lambda>rd. if_unchanged current (\<lambda>item. item\<lparr>iss_GitHubStateReason := gh_StateReason (rs_Issue remote), iss_UpdatedAt := rd_Now rd 0\<rparr>))))
       (\<lambda>_. ret ())"

definition reconcileTerminalPullRequest :: "Loop \<Rightarrow> Issue \<Rightarrow> unit job" where
  "reconcileTerminalPullRequest l scheduled =
     seq (persist ''refresh terminal Issue state'' (load_snapshot l)) (\<lambda>snapshot.
       case issue_at snapshot (iss_Number scheduled) of
         None \<Rightarrow> ret ()
       | Some current \<Rightarrow>
         if \<not> terminalReconciliationCandidate current \<or> iss_RunID current \<noteq> iss_RunID scheduled then ret ()
         else seq (inspect_branch l ''reconcile terminal Pull Request'' current) (\<lambda>remote.
           if terminalPullRequestCandidate current then settle_candidate l current remote
           else note_sticky l current remote))"

end
