(* ===== verification/RunSafety.thy ===== *)
theory RunSafety
  imports RunLogic
begin

text \<open>
  The evidence behind what the supervisor cannot take back: merging a Pull Request, taking an answer from a comment, signalling a process
  group. Each property names the observations a call or a record rests on.
\<close>

section \<open>Merging\<close>

fun merge_call :: "gh_call \<Rightarrow> bool" where
  "merge_call (MergePullRequest u) \<longleftrightarrow> True"
| "merge_call (ReadyPullRequest u) \<longleftrightarrow> True"
| "merge_call _ \<longleftrightarrow> False"

text \<open>The calls of a trace, of which merges and releases from draft have to be among those allowed.\<close>

definition merges_only :: "(gh_call \<Rightarrow> bool) \<Rightarrow> event list \<Rightarrow> bool" where
  "merges_only P es \<longleftrightarrow> list_all (\<lambda>e. case e of Called c ok \<Rightarrow> merge_call c \<longrightarrow> P c | _ \<Rightarrow> True) es"

lemma mergeless: "traced (merges_only (\<lambda>c. False)) m \<Longrightarrow> traced (merges_only P) m"
  by (erule traced_mono) (auto simp: merges_only_def elim!: list.pred_mono_strong split: event.splits)

interpretation mo: trace_property "merges_only P" for P
  by unfold_locales (simp_all add: merges_only_def)

lemma merges_routine: "\<not> merge_call c \<Longrightarrow> merges_only P [Called c ok]" "merges_only P [Committed ev n before after]"
  by (simp_all add: merges_only_def)

lemma mergeless_project: "traced (merges_only P) (reconcileIssueProjection l n)"
  unfolding reconcileIssueProjection_def project_issue_def by (intro mo.tracing_rules mo.t_call) (simp_all add: merges_only_def)

lemma mergeless_launch: "traced (merges_only P) (validated_spawn l path current)"
  unfolding validated_spawn_def validateWorkerLaunch_def commit_validation_def validateRemoteLaunch_def spawn_def
    recordWorkerPID_def commentWorkerStart_def commentConflictStart_def commentResume_def commentProgress_def
  by (intro mo.tracing_rules mo.t_update mo.t_call mo.t_perform mergeless_project
        mo.t_silent [OF silent_inspectIssue] mo.t_silent [OF silent_issueState]) (simp_all add: merges_only_def)

lemma effect_call_merges_not: "can_be (effect_call l s issue effect) c \<Longrightarrow> \<not> merge_call c"
  unfolding effect_call_def Let_def by (auto dest!: can_be_seq split: if_splits option.splits)

lemma mergeless_carry_out: "traced (merges_only P) (carry_out l s issue effect)"
proof -
  have e: "traced (merges_only P) (effect_call l s issue effect)"
    unfolding effect_call_def check_adoption_def check_resolution_def validateIssueResolutionSync_def inspect_branch_def inspect_worktree_def
    by (intro mo.tracing_rules)
  show ?thesis
    unfolding carry_out_def by (intro mo.tracing_rules mo.t_update mo.t_call mergeless_project e)
      (simp_all add: merges_routine effect_call_merges_not)
qed

interpretation careful: supervised "merges_only P" l for P l
proof unfold_locales
  fix c ok assume "\<not> special_call c"
  then show "merges_only P [Called c ok]" by (cases c) (simp_all add: merges_only_def)
qed (auto intro: merges_routine mergeless_launch mergeless_carry_out)

text \<open>What the poll saw of the Pull Request.\<close>

definition review_seen :: "Issue \<Rightarrow> PullRequest \<Rightarrow> string" where
  "review_seen current pr = (if pr_ReviewDecision pr \<noteq> '''' then pr_ReviewDecision pr else iss_ReviewDecision current)"

definition unsettled :: "string \<Rightarrow> bool" where
  "unsettled st \<longleftrightarrow> ToLower st \<in> {''behind'', ''dirty'', ''unknown'', ''unstable''}"

definition mergeable :: "Loop \<Rightarrow> Issue \<Rightarrow> PullRequest list \<Rightarrow> string \<Rightarrow> bool" where
  "mergeable l current prs url \<longleftrightarrow> (\<exists>pr. prs = [pr] \<and> pr_URL pr = url \<and> selected_candidate current pr
     \<and> EqualFold (pr_State pr) ''open'' \<and> pr_MergedAt pr = None \<and> pr_ChecksStatus pr = ''success''
     \<and> \<not> review_blocks (review_seen current pr) \<and> \<not> (lp_AutoMerge l \<and> unsettled (pr_MergeStateStatus pr))
     \<and> (\<exists>k i. lp_Worktree l k (iss_Worktree current) (iss_Branch current) = Inr i \<and> intact i))"

definition merge_allowed :: "Loop \<Rightarrow> Issue \<Rightarrow> failure + RemoteState \<Rightarrow> gh_call \<Rightarrow> bool" where
  "merge_allowed l current seen c \<longleftrightarrow> (case seen of Inl e \<Rightarrow> False | Inr remote \<Rightarrow>
     (case c of MergePullRequest url \<Rightarrow> lp_AutoMerge l \<and> mergeable l current (rs_PullRequests remote) url
      | ReadyPullRequest url \<Rightarrow> mergeable l current (rs_PullRequests remote) url | _ \<Rightarrow> False))"

lemma merge_allowed_traced:
  assumes "\<And>c. c = ReadyPullRequest (pr_URL pr) \<or> lp_AutoMerge l \<and> c = MergePullRequest (pr_URL pr) \<Longrightarrow> P c"
  shows "traced (merges_only P) (merge l current b pr)"
  unfolding merge_def
  by (intro mo.tracing_rules mo.t_call mo.t_update tracing) (simp_all add: merges_only_def assms)

lemma can_be_worktree: "can_be (wrap_job k m (inspect_worktree l current)) i \<Longrightarrow> \<exists>k. lp_Worktree l k (iss_Worktree current) (iss_Branch current) = Inr i"
  unfolding inspect_worktree_def by (drule can_be_wrap) (rule can_be_observe)

lemma follow_open_allowed:
  assumes pr: "selected_candidate current pr" "pr_MergedAt pr = None" and seen: "iss_ReviewDecision current' = review_seen current pr"
    and same: "iss_Worktree current' = iss_Worktree current" "iss_Branch current' = iss_Branch current"
  shows "traced (merges_only (merge_allowed l current (Inr (remote\<lparr>rs_PullRequests := [pr]\<rparr>)))) (follow_open l current' b c pr)"
  unfolding follow_open_def with_worktree_of_def follow_merge_state_def follow_checks_def Let_def
  by (intro mo.tracing_rules tracing merge_allowed_traced mo.t_silent [OF silent_observe, folded inspect_worktree_def])
     (auto dest!: can_be_worktree simp: merge_allowed_def mergeable_def assms unsettled_def, blast+)

lemma observed_fields:
  assumes "can_be (if b then observe_head l current pr else ret current) x"
  shows "iss_Worktree x = iss_Worktree current \<and> iss_Branch x = iss_Branch current \<and> iss_ReviewDecision x = iss_ReviewDecision current"
  using assms by (auto simp: observe_head_def split: if_splits dest!: can_be_seq)

lemma reviewed_fields:
  assumes "can_be (if b then observe_review l current pr else ret current) x"
  shows "iss_Worktree x = iss_Worktree current \<and> iss_Branch x = iss_Branch current
    \<and> iss_ReviewDecision x = (if b then pr_ReviewDecision pr else iss_ReviewDecision current)"
  using assms by (auto simp: observe_review_def split: if_splits dest!: can_be_seq)

lemma follow_selected_allowed:
  assumes "selected_candidate current pr"
  shows "traced (merges_only (merge_allowed l current (Inr (remote\<lparr>rs_PullRequests := [pr]\<rparr>)))) (follow_selected l current pr)"
  unfolding follow_selected_def Let_def
proof (intro mo.tracing_rules tracing follow_open_allowed [OF assms])
qed (auto dest!: observed_fields reviewed_fields simp: review_seen_def)

lemma follow_remote_allowed: "traced (merges_only (merge_allowed l current (Inr remote))) (follow_remote l current (rs_PullRequests remote))"
proof (cases "find (merged_candidate current) (rs_PullRequests remote) = None \<and> \<not> length (rs_PullRequests remote) > 1")
  case True
  show ?thesis
  proof (cases "find (selected_candidate current) (rs_PullRequests remote)")
    case (Some pr)
    with True have prs: "rs_PullRequests remote = [pr]" "selected_candidate current pr"
      by (cases "rs_PullRequests remote"; auto split: if_splits)+
    then have "remote = remote\<lparr>rs_PullRequests := [pr]\<rparr>" by simp
    with follow_selected_allowed [OF prs(2), of l remote] True Some prs(1) show ?thesis by (simp add: follow_remote_def)
  qed (use True in \<open>simp add: follow_remote_def careful.t_no_pull_request\<close>)
next
  case False
  then show ?thesis unfolding follow_remote_def by (intro mo.tracing_rules tracing) auto
qed

text \<open>C8: C: When the supervisor polls a Pull Request, it marks it ready or merges it only on the evidence of that poll: the inspection of GitHub
  at the beginning showed exactly one Pull Request, the Issue's own, open and unmerged, its checks successful, its review not blocking, and with
  automatic merging its merge state settled; and the worktree and both branches were intact. It merges only if automatic merging is configured.\<close>

theorem merges_rest_on_the_poll:
  "\<exists>es. wo_Trace (snd (processPullRequest l current w)) = wo_Trace w @ es
     \<and> merges_only (merge_allowed l current (fst (inspectIssue l current w))) es"
proof -
  obtain r w' where seen: "inspectIssue l current w = (r, w')" by fastforce
  have quiet: "wo_Trace w' = wo_Trace w" using silent_inspectIssue [of l current] seen unfolding silent_def by (metis snd_conv)
  show ?thesis
  proof (cases r)
    case (Inl e)
    then show ?thesis using seen quiet
      by (simp add: processPullRequest_def wrap_job_def seq_def on_error_def throw_def merges_only_def)
  next
    case (Inr remote)
    have run: "processPullRequest l current w
        = seq (if resumed_checks current then commentResume l current ''checks'' else ret ())
            (\<lambda>_. follow_remote l current (rs_PullRequests remote)) w'"
      using seen Inr by (simp add: processPullRequest_def wrap_job_def seq_def on_error_def ret_def)
    let ?job = "seq (if resumed_checks current then commentResume l current ''checks'' else ret ())
      (\<lambda>_. follow_remote l current (rs_PullRequests remote))"
    have "traced (merges_only (merge_allowed l current (Inr remote))) ?job"
      by (intro mo.tracing_rules tracing follow_remote_allowed)
    then obtain es where "wo_Trace (snd (?job w')) = wo_Trace w' @ es" "merges_only (merge_allowed l current (Inr remote)) es"
      by (rule tracedE)
    then show ?thesis using run quiet seen Inr by auto
  qed
qed

section \<open>Answers in comments\<close>

text \<open>What the receipt of an answer rests on: a comment that was listed for the Issue and whose whole body is the command, whose author is no
  automation and was verified to be trusted, and a question of the Issue that was open, older than the comment and accepts the answer.\<close>

definition answers :: "Loop \<Rightarrow> int \<Rightarrow> string \<Rightarrow> string \<Rightarrow> AnswerProvenance option \<Rightarrow> InputComment \<Rightarrow> AuthorVerification \<Rightarrow> Request \<Rightarrow> bool" where
  "answers l number requestID answer p comment v question \<longleftrightarrow>
     ic_Body comment = ''/agent-loop answer '' @ requestID @ '' '' @ answer \<and> av_Trusted v
     \<and> \<not> EqualFold (ic_ActorType comment) ''Bot'' \<and> \<not> EqualFold (ic_ActorType comment) ''App''
     \<and> req_ID question = requestID \<and> req_IssueNumber question = number \<and> req_Status question \<noteq> RequestStatusAnswered
     \<and> req_Status question \<noteq> RequestStatusCanceled \<and> req_CreatedAt question \<le> ic_CreatedAt comment
     \<and> ValidateAnswer (lp_Redact l) (Some question) answer = None
     \<and> p = Some (comment_provenance l number comment v requestID question)"

definition authorised_answer :: "Loop \<Rightarrow> int \<Rightarrow> string \<Rightarrow> string \<Rightarrow> AnswerProvenance option \<Rightarrow> bool" where
  "authorised_answer l number requestID answer p \<longleftrightarrow>
     (\<exists>k listed comment k' v question. lp_Comments l k number = Inr listed \<and> comment \<in> set listed \<and> lp_Actor l k' comment = Inr v
        \<and> answers l number requestID answer p comment v question)"

definition answers_only :: "(string \<Rightarrow> string \<Rightarrow> AnswerProvenance option \<Rightarrow> bool) \<Rightarrow> event list \<Rightarrow> bool" where
  "answers_only P es \<longleftrightarrow> list_all (\<lambda>e. case e of AnswerTaken i a p \<Rightarrow> P i a p | _ \<Rightarrow> True) es"

interpretation aw: trace_property "answers_only P" for P
  by unfold_locales (simp_all add: answers_only_def)

lemma parse_command:
  assumes "parseAnswerCommand body = AnswerCommand i a"
  shows "body = ''/agent-loop answer '' @ i @ '' '' @ a"
proof -
  have m: "match_command body = Some (i, a)" using assms by (auto simp: parseAnswerCommand_def split: if_splits option.splits prod.splits)
  then have p: "prefix answer_prefix body" by (simp add: match_command_def split: if_splits)
  then obtain t where t: "body = answer_prefix @ t" by (auto simp: prefix_def)
  define rest where "rest = drop (length (takeWhile command_id_char t)) t"
  have "t = takeWhile command_id_char t @ rest"
    unfolding rest_def using takeWhile_dropWhile_id [of command_id_char t] by (simp add: dropWhile_eq_drop)
  moreover have "i = takeWhile command_id_char t \<and> rest \<noteq> [] \<and> hd rest = CHR '' '' \<and> a = tl rest"
    using m p t by (auto simp: match_command_def Let_def rest_def split: if_splits)
  ultimately have "t = i @ CHR '' '' # a" by (cases rest) auto
  with t show ?thesis by (simp add: answer_prefix_def)
qed

lemma acknowledged: "traced (answers_only P) (acknowledge l n i c o')"
  unfolding acknowledge_def by (rule aw.t_call) (simp add: answers_only_def)

lemma recorded: "P i a (Some p) \<Longrightarrow> traced (answers_only P) (record_answer l i a p)"
  by (rule tracedI) (auto simp: record_answer_def advance_def Let_def answers_only_def split: prod.splits sum.splits)

lemma considered:
  assumes "lp_Comments l k n = Inr listed" "comment \<in> set listed" "lp_Actor l k' comment = Inr v" "av_Trusted v" "\<not> automation_actor comment"
    and "parseAnswerCommand (ic_Body comment) = AnswerCommand i a"
  shows "traced (answers_only (authorised_answer l n)) (consider_answer l n comment v i a)"
proof -
  have taken: "authorised_answer l n i a (Some (comment_provenance l n comment v i q))"
    if "Snapshot_Request s i = Inr q" "\<not> stale_candidate s n comment q" "req_Status q \<noteq> RequestStatusAnswered"
      "ValidateAnswer (lp_Redact l) (Some q) a = None" for s q
    unfolding authorised_answer_def answers_def
    using assms that found_ID [OF that(1)] parse_command [OF assms(6)]
    by (intro exI [of _ k] exI [of _ listed] exI [of _ comment] exI [of _ k'] exI [of _ v] exI [of _ q]) (auto simp: stale_candidate_def automation_actor_def)
  show ?thesis
    unfolding consider_answer_def take_answer_def by (intro aw.tracing_rules acknowledged recorded taken) simp_all
qed

lemma handled:
  assumes "lp_Comments l k n = Inr listed" "comment \<in> set listed"
  shows "traced (answers_only (authorised_answer l n)) (handle_comment l n requests comment)"
  unfolding handle_comment_def answer_comment_def
  by (intro aw.tracing_rules acknowledged) (auto dest!: can_be_observe intro: considered assms)


section \<open>Processes\<close>

text \<open>A signal goes to a group the saved worker process was seen to lead; a worker is recorded as stopped when its group was seen dead.\<close>

definition stop_evidence :: "Loop \<Rightarrow> event \<Rightarrow> bool" where
  "stop_evidence l e \<longleftrightarrow> (case e of
     Called c ok \<Rightarrow> (\<exists>pgid force pid k. c = SignalGroup pgid force \<and> lp_OwnsGroup l k pid pgid)
   | Committed eventType number before after \<Rightarrow> (\<exists>item k. issue_at before number = Some item \<and> \<not> lp_GroupAlive l k (saved_group item))
   | AnswerTaken i a p \<Rightarrow> False)"

definition stops_only :: "Loop \<Rightarrow> event list \<Rightarrow> bool" where
  "stops_only l es \<longleftrightarrow> list_all (stop_evidence l) es"

interpretation st: trace_property "stops_only l" for l
  by unfold_locales (simp_all add: stops_only_def)

lemma stop_target_result:
  assumes "can_be (stop_target l issue) t"
  shows "wt_Issue t = issue \<and> wt_PGID t = saved_group issue
    \<and> (if wt_Alive t then \<exists>k. lp_OwnsGroup l k (iss_WorkerPID issue) (saved_group issue) else \<exists>k. \<not> lp_GroupAlive l k (saved_group issue))"
  using assms unfolding stop_target_def worker_alive_def group_alive_def
  by (auto dest!: can_be_seq can_be_observe split: if_splits sum.splits)

text \<open>The saved worker of a target was seen to lead its group, or the group was seen dead.\<close>

definition sound_target :: "Loop \<Rightarrow> workerStopTarget \<Rightarrow> bool" where
  "sound_target l t \<longleftrightarrow> wt_PGID t = saved_group (wt_Issue t)
     \<and> (if wt_Alive t then \<exists>pid k. lp_OwnsGroup l k pid (wt_PGID t) else \<exists>k. \<not> lp_GroupAlive l k (wt_PGID t))"

definition dead_target :: "Loop \<Rightarrow> workerStopTarget \<Rightarrow> bool" where
  "dead_target l t \<longleftrightarrow> (\<exists>k. \<not> lp_GroupAlive l k (saved_group (wt_Issue t)))"

lemma stop_targets_sound: "can_be (stop_targets l issues) ts \<Longrightarrow> list_all (sound_target l) ts"
proof (induction issues arbitrary: ts)
  case (Cons issue issues)
  then obtain t us where t: "can_be (stop_target l issue) t" and us: "can_be (stop_targets l issues) us" "ts = t # us"
    by (auto dest!: can_be_seq)
  have "sound_target l t" using stop_target_result [OF t] by (auto simp: sound_target_def split: if_splits)
  then show ?case using Cons.IH us by simp
qed simp

lemma can_be_for: "can_be (for_jobs f xs) y \<Longrightarrow> x \<in> set xs \<Longrightarrow> \<exists>z. can_be (f x) z"
  by (induction xs) (auto dest!: can_be_seq)

lemma expected_dead: "can_be (for_jobs (expect_dead l) ts) y \<Longrightarrow> list_all (sound_target l) ts \<Longrightarrow> list_all (dead_target l) ts"
proof -
  assume all: "can_be (for_jobs (expect_dead l) ts) y" and sound: "list_all (sound_target l) ts"
  have "dead_target l t" if t: "t \<in> set ts" for t
  proof -
    obtain z where "can_be (expect_dead l t) z" using can_be_for [OF all t] by blast
    then have "wt_Alive t \<longrightarrow> (\<exists>k. \<not> lp_GroupAlive l k (wt_PGID t))"
      unfolding expect_dead_def group_alive_def by (auto dest!: can_be_seq can_be_observe split: if_splits)
    moreover have "sound_target l t" using sound t by (simp add: list_all_iff)
    ultimately show ?thesis by (auto simp: sound_target_def dead_target_def split: if_splits)
  qed
  then show ?thesis by (simp add: list_all_iff)
qed

lemma killed_targets: "can_be (kill_groups l ts) marked \<Longrightarrow> map fst marked = ts"
  by (induction ts arbitrary: marked) (auto dest!: can_be_seq)

lemma signal_sound: "\<exists>pid k. lp_OwnsGroup l k pid pgid \<Longrightarrow> traced (stops_only l) (signal l pgid force)"
  unfolding signal_def by (intro st.tracing_rules st.t_call) (auto simp: stops_only_def stop_evidence_def)

lemma group_alive_traced: "traced (stops_only l) (group_alive l pgid)"
  unfolding group_alive_def by (intro st.tracing_rules)

lemma kill_sound: "list_all (sound_target l) ts \<Longrightarrow> traced (stops_only l) (kill_groups l ts)"
proof (induction ts)
  case (Cons t ts)
  show ?case unfolding kill_groups.simps
    by (intro st.tracing_rules group_alive_traced signal_sound Cons.IH)
      (use Cons.prems in \<open>auto simp: sound_target_def split: if_splits\<close>)
qed (simp add: st.t_ret)

lemma stopped_item:
  "stopped_mutation t reason at rd s = Inr s' \<Longrightarrow> \<exists>item. issue_at s (iss_Number (wt_Issue t)) = Some item \<and> saved_group item = saved_group (wt_Issue t)"
  by (cases "issue_at s (iss_Number (wt_Issue t))") (simp_all add: stopped_mutation_def Let_def and_ok_Inr check_that_def saved_group_def split: if_splits)

lemma record_sound: "dead_target l t \<Longrightarrow> traced (stops_only l) (record_stop l reason (t, forced))"
  unfolding record_stop_def Let_def prod.case
proof (intro st.t_seq st.tracing_rules)
  fix at assume dead: "dead_target l t"
  show "traced (stops_only l) (update_snapshot l ''worker_process_stopped'' (iss_Number (wt_Issue t)) (iss_RunID (wt_Issue t))
      ''{issue_number,run_id,pid,pgid,forced}'' (stopped_mutation t reason at))"
    unfolding traced_leaves
    by (rule leaves_update) (use dead in \<open>fastforce dest: stopped_item simp: stops_only_def stop_evidence_def dead_target_def\<close>)+
qed

lemma records_sound: "list_all (dead_target l) (map fst marked) \<Longrightarrow> traced (stops_only l) (record_stops l reason marked)"
  by (induction marked) (auto intro!: st.tracing_rules record_sound)


section \<open>A claim that cannot be prepared\<close>

lemma issueState_settled:
  assumes "settled (lp_Store l) s (wo_Disk w)" "ready (wo_Disk w)" "\<And>k d. lp_Others l k d = d" "issue_at s n = Some i"
  shows "issueState l n w = (Inr i, advance w)"
proof -
  have "load_snapshot l w = (Inr s, advance w)"
    using recover_settled [OF assms(1, 2)] by (simp add: load_snapshot_def Load_def assms(3) advance_def)
  then show ?thesis by (simp add: issueState_def persist_def seq_def on_error_def ret_def assms(4))
qed

lemma claiming_cannot_fail: "isl (Fail StatusClaiming reason kind blocked)"
  by (simp add: Fail_def newOutcomeDecision_def newAllowedTransition_def and_ok_def split: sum.split)

text \<open>The failure that the failing of an Issue in the claim ends with.\<close>

lemma fail_while_claiming:
  assumes "settled (lp_Store l) s (wo_Disk w)" "ready (wo_Disk w)" "\<And>k d. lp_Others l k d = d" "issue_at s n = Some i"
    and "iss_Status i = StatusClaiming"
  shows "\<exists>f. failIssue l n cause blocked w = (Inl f, advance w) \<and> KindOf f = IssueFailure"
proof -
  obtain e where "Fail (iss_Status i) (failure_text cause) (FailureKind_String (KindOf cause)) blocked = Inl e"
    using claiming_cannot_fail assms(5) by (metis isl_def)
  then show ?thesis
    using issueState_settled [OF assms(1-4)]
    by (simp add: failIssue_def failIssueAtStage_def Let_def wrap_job_def seq_def on_error_def ret_def throw_def decide_def
        WrapFailure_def KindOf_def store_failure_unclassified split: option.split)
qed

text \<open>C11: C: A worktree that cannot be prepared is never recorded. While an Issue is being claimed, \<open>claimAndRun\<close> means to fail it when the
  worktree cannot be created, but the lifecycle has no such transition from the claim: the job ends with a
  failure of the Issue, and the durable state is what it was, with the Issue still being claimed and the repository's single execution still its
  own. The scheduler runs the same job again after a delay, without a limit, and no other Issue can run.\<close>

theorem failed_preparation_keeps_the_claim:
  assumes "settled (lp_Store l) s (wo_Disk w)" "ready (wo_Disk w)" "\<And>k d. lp_Others l k d = d"
    and "issue_at s (gh_Number issue) = Some i" "iss_Status i = StatusClaiming"
    and "lp_Answer l (wo_Step w) (Claim (gh_Number issue) runID) = None"
    and "lp_Ensure l (Suc (Suc (wo_Step w))) (gh_Number issue) (gh_Title issue) (iss_Branch i) = Inl e"
  shows "\<exists>f w'. claimAndRun l issue runID w = (Inl f, w') \<and> KindOf f = IssueFailure \<and> wo_Disk w' = wo_Disk w
    \<and> wo_Trace w' = wo_Trace w @ [Called (Claim (gh_Number issue) runID) True]"
proof -
  define w1 where "w1 = (advance w)\<lparr>wo_Trace := wo_Trace w @ [Called (Claim (gh_Number issue) runID) True]\<rparr>"
  have w1: "wo_Disk w1 = wo_Disk w" "wo_Step w1 = Suc (wo_Step w)"
      "wo_Trace w1 = wo_Trace w @ [Called (Claim (gh_Number issue) runID) True]"
    by (simp_all add: w1_def advance_def)
  have call: "call_out l (Claim (gh_Number issue) runID) w = (Inr (), w1)"
    by (simp add: call_out_def assms(6) w1_def Let_def)
  have current: "issueState l (gh_Number issue) w1 = (Inr i, advance w1)"
    by (rule issueState_settled [OF _ _ assms(3, 4)]) (simp_all add: w1 assms)
  have ensure: "observe (\<lambda>k. lp_Ensure l k (gh_Number issue) (gh_Title issue) (iss_Branch i)) (advance w1) = (Inl e, advance (advance w1))"
    by (simp add: observe_def w1 advance_def assms(7))
  obtain f where f: "failIssue l (gh_Number issue) (WrapFailure IssueFailure ''prepare Issue worktree'' e) False (advance (advance w1))
      = (Inl f, advance (advance (advance w1)))" "KindOf f = IssueFailure"
    using fail_while_claiming [of l s "advance (advance w1)" "gh_Number issue" i "WrapFailure IssueFailure ''prepare Issue worktree'' e" False]
    by (auto simp: advance_def w1 assms)
  have "claimAndRun l issue runID w = (Inl f, advance (advance (advance w1)))"
    unfolding claimAndRun_def Let_def
    using call current ensure f(1) by (simp add: wrap_job_def seq_def on_error_def ret_def)
  then show ?thesis using f(2) w1 by (simp add: advance_def)
qed

definition claiming_issue :: Issue where
  "claiming_issue = (new_issue 7)\<lparr>iss_Status := StatusClaiming, iss_RunID := ''run_1'', iss_Generation := 3, iss_Attempts := 1\<rparr>"

definition claiming_snapshot :: Snapshot where
  "claiming_snapshot = new_snapshot\<lparr>snap_ActiveExecution := Some sample_active, snap_Issues := GoMap [(''7'', Some claiming_issue)]\<rparr>"

definition claiming_world :: World where
  "claiming_world = \<lparr>wo_Disk = empty_disk\<lparr>disk_State := Holds claiming_snapshot\<rparr>, wo_Step = 0, wo_Trace = []\<rparr>"

text \<open>Surroundings in which nothing can be read and every change succeeds.\<close>

definition sample_loop :: Loop where
  "sample_loop = \<lparr>lp_Store = sample_store, lp_GitHub = sample_config, lp_CloseIssue = True, lp_AutoMerge = True, lp_RepositoryID = 1,
     lp_RepoPath = ''/repo'', lp_BaseBranch = ''main'', lp_PollInterval = 60, lp_MaxAttempts = 3, lp_MaxContinuations = 3,
     lp_Backend = ''codex'', lp_Webhook = False, lp_SweepInterval = 60, lp_MaxBaseUpdates = 3, lp_MaxAttemptsPerBase = 3,
     lp_Identity = zero_WorkerIdentity, lp_HasWorktrees = True, lp_HasPublisher = True, lp_HasConflicts = True, lp_HasInputControl = True,
     lp_HasComments = True, lp_Others = (\<lambda>k d. d), lp_Ambient = (\<lambda>k. sample_ambient), lp_Draws = (\<lambda>k. sample_draws),
     lp_Clock = (\<lambda>k i. 9), lp_Random = (\<lambda>k i. RandFailed 4), lp_Scaled = (\<lambda>k d. d), lp_TimeText = (\<lambda>t. ''''), lp_Sha256 = (\<lambda>t. t),
     lp_Answer = (\<lambda>k c. None), lp_CommentGate = (\<lambda>k. None), lp_Targeted = (\<lambda>k. Inr False),
     lp_Get = (\<lambda>k n. Inl (Cause ''down'')), lp_GetREST = (\<lambda>k n. Inl (Cause ''down'')), lp_Inspect = (\<lambda>k n b. Inl (Cause ''down'')),
     lp_InspectREST = (\<lambda>k n p h. Inl (Cause ''down'')), lp_Worktree = (\<lambda>k p b. Inl (Cause ''no worktree'')),
     lp_Ensure = (\<lambda>k n t b. Inl (Cause ''no space left'')), lp_ValidateLaunch = (\<lambda>k p b. (undefined, Some (Cause ''no worktree''))),
     lp_Digest = (\<lambda>k p. Inl (Cause ''no worktree'')), lp_Worker = (\<lambda>k. \<lparr>run_Start = None, run_Result = zero_WorkerResult, run_Error = Some ''none''\<rparr>),
     lp_Published = (\<lambda>k. (undefined, undefined, Some (OtherError ''down''))), lp_SavedResult = (\<lambda>k r. Inl (Cause ''none'')),
     lp_Prepare = (\<lambda>k r. Inl (NonRecoverable ''none'')), lp_ConflictPublished = (\<lambda>k. Inl (NonRecoverable ''none'')),
     lp_Author = (\<lambda>k. (undefined, Some (Cause ''down''))), lp_BaseSHA = (\<lambda>k. ''''), lp_Redact = (\<lambda>t. t),
     lp_Comments = (\<lambda>k n. Inr []), lp_Actor = (\<lambda>k c. Inl (Cause ''down'')), lp_Alive = (\<lambda>k p. False), lp_GroupAlive = (\<lambda>k p. False),
     lp_OwnsGroup = (\<lambda>k p g. False)\<rparr>"

lemma claiming_settled: "settled sample_store claiming_snapshot (wo_Disk claiming_world)" "ready (wo_Disk claiming_world)"
proof -
  have valid: "Snapshot_Validate claiming_snapshot = None" by code_simp
  have "loadSnapshotUnlocked sample_store (wo_Disk claiming_world) = Inr (Some claiming_snapshot)"
    by (rule load_valid [OF valid]) (simp_all add: claiming_world_def sample_store_def claiming_snapshot_def new_snapshot_def)
  moreover have "validateConsistency claiming_snapshot [] = None"
    by (simp add: validateConsistency_None valid) (simp add: sequence_None claiming_snapshot_def new_snapshot_def)
  ultimately show "settled sample_store claiming_snapshot (wo_Disk claiming_world)"
    by (simp add: settled_def claiming_world_def empty_disk_def)
  show "ready (wo_Disk claiming_world)" by (simp add: claiming_world_def ready_def empty_disk_def checkSnapshotMigration_def)
qed

theorem failed_preparation_keeps_the_claim_witness:
  "\<exists>f w'. claimAndRun sample_loop ((sample_gh_issue [])\<lparr>gh_Number := 7\<rparr>) ''run_1'' claiming_world = (Inl f, w') \<and> wo_Disk w' = wo_Disk claiming_world"
proof -
  let ?i = "(sample_gh_issue [])\<lparr>gh_Number := 7\<rparr>"
  have st: "lp_Store sample_loop = sample_store" and alone: "\<And>k d. lp_Others sample_loop k d = d"
    and ans: "lp_Answer sample_loop (wo_Step claiming_world) (Claim (gh_Number ?i) ''run_1'') = None"
    and ens: "lp_Ensure sample_loop (Suc (Suc (wo_Step claiming_world))) (gh_Number ?i) (gh_Title ?i) (iss_Branch claiming_issue)
      = Inl (Cause ''no space left'')"
    by (simp_all add: sample_loop_def)
  have found: "issue_at claiming_snapshot (gh_Number ?i) = Some claiming_issue" "iss_Status claiming_issue = StatusClaiming"
    by (code_simp, simp add: claiming_issue_def)
  show ?thesis
    using failed_preparation_keeps_the_claim [of sample_loop claiming_snapshot claiming_world ?i claiming_issue "''run_1''", OF _ _ alone found ans ens]
      claiming_settled st by auto
qed

end
