(* ===== verification/ReconcileFacts.thy ===== *)
theory ReconcileFacts
  imports Reconcile RunSafety StoreFacts
begin

text \<open>
  Startup reconciliation as a whole: it does nothing outside but stop left-over workers and project, it commits what the domain decided, the
  committed record is a fixed point of the decision, and its rounds come to an end when nobody else writes.
\<close>

section \<open>The commit refines the decision\<close>

lemma number_after_transition: "iss_Number (commit_transition tr item) = iss_Number item"
  by (simp add: commit_transition_def drop_resolved_suspension_def Let_def)

lemma transition_kept:
  "iss_LastError (commit_transition tr item) = iss_LastError item" "iss_Branch (commit_transition tr item) = iss_Branch item"
  "iss_Worktree (commit_transition tr item) = iss_Worktree item" "iss_Status (commit_transition tr item) = tr_To tr"
  by (simp_all add: commit_transition_def drop_resolved_suspension_def Let_def)

lemma transition_issue_Inr: "transition_issue number tr s = Inr s' \<longleftrightarrow>
    (\<exists>item. issue_at s number = Some item \<and> ValidateCommit tr (iss_Status item) = None \<and> s' = put_issue number (commit_transition tr item) s)"
  by (auto simp: transition_issue_def ApplyIssueTransition_def ValidateIssueTransition_def and_ok_Inr split: option.splits)

lemma pending_after_set:
  assumes "SetEffect entropy number runID kind now s = Inr s'"
  shows "pending_kind s' number = kind" "snap_Issues s' = snap_Issues s"
  using assms
  by (auto simp: SetEffect_def pending_kind_def PendingEffect_def and_ok_Inr massign_Inr split: if_splits option.splits)

lemma edit_Inr: "edit number f s = Inr s' \<longleftrightarrow> (\<exists>item. issue_at s number = Some item \<and> s' = put_issue number (f item) s)"
  by (auto simp: edit_def split: option.splits)

definition settled_issue :: "Transition \<Rightarrow> reconciliationDecision \<Rightarrow> string \<Rightarrow> time \<Rightarrow> Issue \<Rightarrow> Issue" where
  "settled_issue tr decision reason at item = (let d = dd_Decision decision in
     (reconciled_issue decision reason (commit_transition tr item))\<lparr>iss_RetryAfter := dc_RetryAt d, iss_WorkerPID := dc_WorkerPID d,
       iss_WorkerPGID := dc_WorkerPGID d, iss_UpdatedAt := at\<rparr>)"

lemma settled_state:
  "tr_To tr = dc_Status (dd_Decision decision) \<Longrightarrow>
     reconciliation_state (settled_issue tr decision reason at item) (dc_Effect (dd_Decision decision))
       = commit_decision (reconciliation_state item kind) (dd_Decision decision)"
  by (simp add: reconciliation_state_def ReconciliationState.make_def commit_decision_def settled_issue_def reconciled_issue_def
      transition_kept Let_def)

lemma apply_decision_Inr:
  assumes "apply_decision number tr decision reason rd s = Inr s'" and "issue_at s number = Some item" and "iss_Number item = number"
  shows "issue_at s' number = Some (settled_issue tr decision reason (rd_Now rd 1) item)"
    and "pending_kind s' number = dc_Effect (dd_Decision decision)"
    and "\<forall>m. m \<noteq> number \<longrightarrow> issue_at s' m = issue_at s m"
proof -
  let ?i = "reconciled_issue decision reason (commit_transition tr item)"
  have number: "iss_Number ?i = number" by (simp add: reconciled_issue_def Let_def number_after_transition assms(3))
  have some: "snap_Issues s \<noteq> NilMap" using ptr_at_not_nil [OF assms(2)] .
  obtain s1 where s1: "SetEffect (rd_Entropy rd 0) number (iss_RunID ?i) (dc_Effect (dd_Decision decision)) (rd_Now rd 0)
      (put_issue number ?i (put_issue number (commit_transition tr item) s)) = Inr s1"
    and s': "edit number (\<lambda>item. item\<lparr>iss_RetryAfter := dc_RetryAt (dd_Decision decision), iss_WorkerPID := dc_WorkerPID (dd_Decision decision),
      iss_WorkerPGID := dc_WorkerPGID (dd_Decision decision), iss_UpdatedAt := rd_Now rd 1\<rparr>) s1 = Inr s'"
    using assms(1,2) number some
    by (auto simp: apply_decision_def Let_def and_ok_Inr transition_issue_Inr edit_Inr set_item_effect_def)
  note e = pending_after_set [OF s1]
  show "issue_at s' number = Some (settled_issue tr decision reason (rd_Now rd 1) item)"
    using s' some by (auto simp: edit_Inr e(2) settled_issue_def Let_def)
  show "pending_kind s' number = dc_Effect (dd_Decision decision)"
    using s' e(1) by (auto simp: edit_Inr pending_kind_def PendingEffect_def)
  show "\<forall>m. m \<noteq> number \<longrightarrow> issue_at s' m = issue_at s m"
    using s' some by (auto simp: edit_Inr e(2))
qed

lemma reconcile_target: "ReconcileObservation from to' = Inr t \<Longrightarrow> tr_To t = to'"
  by (auto simp: ReconcileObservation_def decision_Inr split: if_splits Status.splits)

text \<open>C15: C: A committed startup reconciliation is the decision of the domain and converges. The record the Issue has after the commit is the
  decided one field for field, with the decided effect pending and no other Issue touched, and deciding again on the same observation
  changes nothing, provided the record names its branch or no Pull Request is open.\<close>

theorem startup_commit_converges:
  assumes "startup_mutation latest current False checkpointID suspendedAt tr (with_identity remote d) reason rd s = Inr s'"
    and "d = DecideReconciliation (reconciliation_state current (pending_kind latest (iss_Number current))) observed"
    and "ReconcileObservation (iss_Status current) (dc_Status d) = Inr tr"
    and "iss_Branch current \<noteq> '''' \<or> sc_open (scan_prs (ro_PullRequests observed)) = []"
  shows "\<exists>item st. issue_at s' (iss_Number current) = Some item \<and> st = reconciliation_state item (pending_kind s' (iss_Number current))
    \<and> st = commit_decision (reconciliation_state current (pending_kind latest (iss_Number current))) d
    \<and> commit_decision st (DecideReconciliation st observed) = st
    \<and> (\<forall>m. m \<noteq> iss_Number current \<longrightarrow> issue_at s' m = issue_at s m)"
proof -
  let ?n = "iss_Number current" and ?x = "with_identity remote d"
  let ?before = "reconciliation_state current (pending_kind latest ?n)" and ?item = "settled_issue tr ?x reason (rd_Now rd 1) current"
  have d: "dd_Decision ?x = d" by (simp add: with_identity_def split: prod.split)
  have found: "issue_at s ?n = Some current" and applied: "apply_decision ?n tr ?x reason rd s = Inr s'"
    using assms(1) by (auto simp: startup_mutation_def unless_changed_def and_ok_Inr split: if_splits)
  have to': "tr_To tr = dc_Status (dd_Decision ?x)" using reconcile_target [OF assms(3)] d by simp
  note a = apply_decision_Inr [OF applied found refl]
  have st: "reconciliation_state ?item (pending_kind s' ?n) = commit_decision ?before d"
    using settled_state [OF to'] a(2) by (simp add: d)
  have "rs_Branch ?before = iss_Branch current" by (simp add: reconciliation_state_def ReconciliationState.make_def)
  then have "commit_decision (commit_decision ?before d) (DecideReconciliation (commit_decision ?before d) observed) = commit_decision ?before d"
    using reconciliation_converges [of ?before observed] assms(2,4) by simp
  then show ?thesis using a(1,3) st by auto
qed

definition orphaned_issue :: Issue where
  "orphaned_issue = claiming_issue\<lparr>iss_Status := StatusRunning, iss_WorkerPID := 4242, iss_WorkerPGID := 4242\<rparr>"

definition orphaned_snapshot :: Snapshot where
  "orphaned_snapshot = put_issue 7 orphaned_issue claiming_snapshot"

definition orphaned_remote :: RemoteState where
  "orphaned_remote = \<lparr>rs_Issue = sample_gh_issue [], rs_PullRequests = []\<rparr>"

definition orphaned_observation :: ReconciliationObservation where
  "orphaned_observation = observation_of orphaned_remote zero_Inspection 50 False"

definition orphaned_decision :: ReconciliationDecision where
  "orphaned_decision = DecideReconciliation (reconciliation_state orphaned_issue (pending_kind orphaned_snapshot 7)) orphaned_observation"

abbreviation orphaned_transition :: Transition where
  "orphaned_transition \<equiv> \<lparr>tr_Name = ''reconcile_observation'', tr_From = StatusRunning, tr_To = StatusRetryWait\<rparr>"

abbreviation orphaned_readings :: Readings where
  "orphaned_readings \<equiv> \<lparr>rd_Now = (\<lambda>i. 60), rd_Entropy = (\<lambda>i. RandFailed 4)\<rparr>"

lemma orphaned_number: "iss_Number orphaned_issue = 7" by code_simp

lemma orphaned_decides: "dc_Status orphaned_decision = StatusRetryWait" "dc_WorkerPID orphaned_decision = 0"
  "dc_RetryAt orphaned_decision = Some 50"
  by code_simp+

lemma orphaned_transits: "ReconcileObservation (iss_Status orphaned_issue) (dc_Status orphaned_decision) = Inr orphaned_transition"
  unfolding orphaned_decides by code_simp

lemma orphaned_commits: "\<not> isl (startup_mutation orphaned_snapshot orphaned_issue False '''' 0 orphaned_transition
    (with_identity orphaned_remote orphaned_decision) '''' orphaned_readings orphaned_snapshot)"
  by code_simp

theorem startup_commit_converges_witness:
  "\<exists>s' item. issue_at s' 7 = Some item \<and> iss_Status item = StatusRetryWait \<and> iss_WorkerPID item = 0 \<and> iss_RetryAfter item = Some 50
    \<and> startup_mutation orphaned_snapshot orphaned_issue False '''' 0 orphaned_transition
        (with_identity orphaned_remote orphaned_decision) '''' orphaned_readings orphaned_snapshot = Inr s'"
proof -
  obtain s' where s': "startup_mutation orphaned_snapshot orphaned_issue False '''' 0 orphaned_transition
      (with_identity orphaned_remote orphaned_decision) '''' orphaned_readings orphaned_snapshot = Inr s'"
    using orphaned_commits by (metis sum.collapse(2))
  have none: "sc_open (scan_prs (ro_PullRequests orphaned_observation)) = []" by code_simp
  have "orphaned_decision = DecideReconciliation (reconciliation_state orphaned_issue (pending_kind orphaned_snapshot (iss_Number orphaned_issue)))
      orphaned_observation" by (simp add: orphaned_decision_def orphaned_number)
  from startup_commit_converges [OF s' this orphaned_transits] none orphaned_number obtain item where "issue_at s' 7 = Some item"
      "reconciliation_state item (pending_kind s' 7)
        = commit_decision (reconciliation_state orphaned_issue (pending_kind orphaned_snapshot 7)) orphaned_decision" by auto
  then show ?thesis using s' orphaned_decides
    by (auto simp: reconciliation_state_def ReconciliationState.make_def commit_decision_def intro!: exI [of _ s'])
qed

section \<open>Nothing but stopping, deciding and projecting\<close>

fun startup_call :: "gh_call \<Rightarrow> bool" where
  "startup_call (ReconcileIssue n status human) \<longleftrightarrow> True"
| "startup_call (ClosePullRequest u) \<longleftrightarrow> True"
| "startup_call (SignalGroup pgid force) \<longleftrightarrow> True"
| "startup_call _ \<longleftrightarrow> False"

text \<open>A commit of startup is the shared mutation with a decision of the domain and without the capture of a continuation, or the note
  of GitHub's reason on a terminal Issue.\<close>

definition decided_commit :: "int \<Rightarrow> Snapshot \<Rightarrow> bool" where
  "decided_commit n before \<longleftrightarrow> (\<exists>current rd reason s'. iss_Number current = n
     \<and> (terminalReconciliationCandidate current \<and> sticky_mutation current reason rd before = Inr s'
        \<or> (\<exists>latest remote i now alive d tr.
             d = DecideReconciliation (reconciliation_state current (pending_kind latest n)) (observation_of remote i now alive)
             \<and> ReconcileObservation (iss_Status current) (dc_Status d) = Inr tr
             \<and> startup_mutation latest current False '''' 0 tr (with_identity remote d) reason rd before = Inr s')))"

definition startup_event :: "event \<Rightarrow> bool" where
  "startup_event e \<longleftrightarrow> (case e of Called c ok \<Rightarrow> startup_call c
     | Committed eventType n before after \<Rightarrow> eventType = ''worker_process_stopped''
         \<or> eventType = ''startup_reconciled'' \<and> decided_commit n before
     | AnswerTaken r a p \<Rightarrow> False)"

abbreviation startup_only :: "event list \<Rightarrow> bool" where
  "startup_only \<equiv> list_all startup_event"

interpretation su: trace_property startup_only
  by unfold_locales simp_all

lemma captures_never: "startupRemoteInspectionRequired latest (Some current) now \<Longrightarrow> \<not> captures_input latest current d"
  by (auto simp: startupRemoteInspectionRequired_def captures_input_def)

lemma traced_mutation:
  assumes "\<And>rd before after s. mutate rd before = Inr s \<Longrightarrow> startup_event (Committed eventType number before after)"
  shows "traced startup_only (update_snapshot l eventType number runID payload mutate)"
  unfolding traced_leaves by (rule leaves_update) (simp_all add: assms)

lemma startup_projects: "traced startup_only (reconcileIssueProjection l n)"
  unfolding reconcileIssueProjection_def project_issue_def
  by (intro su.tracing_rules su.t_call) (simp_all add: startup_event_def)

lemma startup_stops: "traced startup_only (StopWorkers l grace reason)"
proof -
  have signal: "traced startup_only (signal l pgid force)" for pgid force
    unfolding signal_def by (intro su.tracing_rules su.t_call) (simp add: startup_event_def)
  have targets: "traced startup_only (stop_targets l issues)" for issues
    by (induction issues) (auto simp: stop_target_def worker_alive_def group_alive_def intro!: su.tracing_rules)
  have kill: "traced startup_only (kill_groups l ts)" for ts
    by (induction ts) (auto simp: group_alive_def intro!: su.tracing_rules signal)
  have stop: "traced startup_only (record_stop l reason (t, forced))" for t forced
    unfolding record_stop_def prod.case Let_def by (intro su.tracing_rules su.t_update) (simp add: startup_event_def)
  have stops: "traced startup_only (record_stops l reason ts)" for ts
    by (induction ts) (auto intro!: su.tracing_rules stop)
  show ?thesis
    unfolding StopWorkers_def terminate_group_def expect_dead_def group_alive_def
    by (intro su.tracing_rules targets kill stops signal)
qed

lemma can_be_decided: "can_be (decideReconciliation l latest current remote i) x \<Longrightarrow>
    \<exists>now alive. x = with_identity remote (DecideReconciliation (reconciliation_state current (pending_kind latest (iss_Number current)))
      (observation_of remote i now alive))"
  unfolding decideReconciliation_def reconciliationInputs_def by (fastforce dest!: can_be_seq split: prod.splits)

lemma silent_decided: "silent (decideReconciliation l latest current remote i)"
  unfolding decideReconciliation_def reconciliationInputs_def read_clock_def
  by (intro silent_rules) (auto intro: silent_rules split: prod.split)

lemma startup_round_ended: "traced startup_only (round_ended e)"
  unfolding round_ended_def by (intro su.tracing_rules)

lemma startup_commits:
  assumes "\<not> captures_input latest current (dd_Decision x)" and "x = with_identity remote (DecideReconciliation
      (reconciliation_state current (pending_kind latest (iss_Number current))) (observation_of remote i now alive))"
    and "ReconcileObservation (iss_Status current) (dc_Status (dd_Decision x)) = Inr tr"
  shows "traced startup_only (commit_startup l latest current remote x tr)"
proof -
  let ?d = "DecideReconciliation (reconciliation_state current (pending_kind latest (iss_Number current))) (observation_of remote i now alive)"
  have d: "dd_Decision x = ?d" by (simp add: assms(2) with_identity_def split: prod.split)
  have event: "startup_event (Committed ''startup_reconciled'' (iss_Number current) before after)"
    if "startup_mutation latest current False '''' 0 tr x reason rd before = Inr s" for reason rd before after s
  proof -
    have "decided_commit (iss_Number current) before"
      unfolding decided_commit_def
      by (intro exI [of _ current] exI [of _ rd] exI [of _ reason] exI [of _ s] conjI refl disjI2 exI [of _ latest] exI [of _ remote]
            exI [of _ i] exI [of _ now] exI [of _ alive] exI [of _ ?d] exI [of _ tr])
         (use that assms(3) d assms(2) in simp_all)
    then show ?thesis by (simp add: startup_event_def)
  qed
  show ?thesis
    unfolding commit_startup_def Let_def by (simp only: assms(1) if_False)
      (intro su.tracing_rules startup_round_ended traced_mutation, auto intro: event)
qed

lemma startup_sticky: "terminalReconciliationCandidate current \<Longrightarrow> traced startup_only (reconcile_sticky l current remote)"
  unfolding reconcile_sticky_def
  by (intro su.tracing_rules startup_round_ended traced_mutation) (auto simp: startup_event_def decided_commit_def)

lemma startup_observed:
  assumes "startupRemoteInspectionRequired latest (Some current) now"
  shows "traced startup_only (reconcile_observed l latest current remote)"
  unfolding reconcile_observed_def
proof (intro su.tracing_rules)
  fix i x tr
  assume "can_be (decideReconciliation l latest current remote i) x"
    and tr: "ReconcileObservation (iss_Status current) (dc_Status (dd_Decision x)) = Inr tr"
  then obtain now alive where x: "x = with_identity remote (DecideReconciliation
      (reconciliation_state current (pending_kind latest (iss_Number current))) (observation_of remote i now alive))"
    using can_be_decided by blast
  show "traced startup_only (commit_startup l latest current remote x tr)"
    by (rule startup_commits [OF captures_never [OF assms] x tr])
qed (auto simp: inspect_worktree_def intro: su.tracing_rules su.t_silent [OF silent_decided])

lemma silent_limited: "silent (limited_now l e)"
  unfolding limited_now_def read_clock_def by (intro silent_rules)

lemma silent_inspection: "silent (inspectReconciliationIssue l current)"
  unfolding inspectReconciliationIssue_def by (intro silent_rules silent_inspectIssue)

lemma startup_round: "traced startup_only (reconcile_round l number)"
  unfolding reconcile_round_def
  by (intro su.tracing_rules su.t_silent [OF silent_inspection] su.t_silent [OF silent_limited] startup_sticky startup_observed) auto

lemma startup_rounds: "traced startup_only (reconcile_rounds n l number)"
  by (induction n) (auto intro!: su.tracing_rules startup_round)

lemma startup_numbers: "traced startup_only (reconcile_numbers n l numbers)"
  by (induction numbers) (auto intro!: su.tracing_rules startup_rounds)

lemma silent_numbers: "silent (inspected_numbers l s items)"
  by (induction items) (auto simp: read_clock_def intro!: silent_rules)


section \<open>A webhook never restarts an Issue\<close>

text \<open>What the reconciliation of a terminal Issue leaves: projections, and commits that end in a stable status.\<close>

definition stable_commit :: "int \<Rightarrow> Snapshot \<Rightarrow> bool" where
  "stable_commit n before \<longleftrightarrow> (\<exists>current tr decision reason rd s' item. reconcile_mutation current tr decision reason rd before = Inr s'
     \<and> iss_Number current = n \<and> issue_at before n = Some current \<and> issue_at s' n = Some item \<and> TerminalForWebhook (iss_Status item)
     \<and> \<not> RequiresActiveExecution (iss_Status item))"

definition webhook_event :: "event \<Rightarrow> bool" where
  "webhook_event e \<longleftrightarrow> (case e of Called (ReconcileIssue n status human) ok \<Rightarrow> True | Called (ClosePullRequest u) ok \<Rightarrow> True
     | Committed eventType n before after \<Rightarrow> eventType = ''webhook_terminal_reconciled'' \<and> stable_commit n before
     | _ \<Rightarrow> False)"

abbreviation webhook_only :: "event list \<Rightarrow> bool" where
  "webhook_only \<equiv> list_all webhook_event"

interpretation wh: trace_property webhook_only
  by unfold_locales simp_all

lemma stable_reconcile:
  assumes "reconcile_mutation current tr decision reason rd before = Inr s'" and "TerminalForWebhook (dc_Status (dd_Decision decision))"
    and "tr_To tr = dc_Status (dd_Decision decision)"
  shows "stable_commit (iss_Number current) before"
proof -
  have found: "issue_at before (iss_Number current) = Some current"
    and applied: "apply_decision (iss_Number current) tr decision reason rd before = Inr s'"
    using assms(1) by (auto simp: reconcile_mutation_def unless_changed_def and_ok_Inr split: if_splits)
  have "iss_Status (settled_issue tr decision reason (rd_Now rd 1) current) = dc_Status (dd_Decision decision)"
    by (simp add: settled_issue_def reconciled_issue_def transition_kept Let_def assms(3))
  moreover have "\<not> RequiresActiveExecution s" if "TerminalForWebhook s" for s
    using that by (auto simp: TerminalForWebhook_def Terminal_def RequiresActiveExecution_def)
  ultimately show ?thesis
    unfolding stable_commit_def using assms(1,2) found apply_decision_Inr(1) [OF applied found refl] by fastforce
qed

lemma webhook_projects: "traced webhook_only (projected l n)"
  unfolding projected_def reconcileIssueProjection_def project_issue_def
  by (intro wh.tracing_rules wh.t_call) (simp_all add: webhook_event_def)

lemma webhook_applies: "traced webhook_only (applyWebhookReconciliation l current remote)"
proof -
  have commit: "traced webhook_only (commit_webhook l current remote x tr)"
    if "TerminalForWebhook (dc_Status (dd_Decision x))" "ReconcileObservation (iss_Status current) (dc_Status (dd_Decision x)) = Inr tr" for x tr
  proof -
    have u: "traced webhook_only (update_snapshot l ''webhook_terminal_reconciled'' (iss_Number current) r p (reconcile_mutation current tr x reason))"
      for r p reason
      unfolding traced_leaves using that stable_reconcile reconcile_target
      by (intro leaves_update) (auto simp: webhook_event_def)
    show ?thesis unfolding commit_webhook_def by (intro wh.tracing_rules u webhook_projects)
  qed
  show ?thesis
    unfolding applyWebhookReconciliation_def webhook_refused_def
    by (intro wh.tracing_rules commit webhook_projects wh.t_silent [OF silent_decided]) (auto simp: inspect_worktree_def intro: wh.tracing_rules)
qed


section \<open>The rounds end\<close>

text \<open>Computations that keep an invariant of the world, and those that in such a world do not have a given result.\<close>

definition retains :: "(World \<Rightarrow> bool) \<Rightarrow> ('e, 'a) run \<Rightarrow> bool" where
  "retains I m \<longleftrightarrow> (\<forall>w. I w \<longrightarrow> I (snd (m w)))"

definition avoids :: "(World \<Rightarrow> bool) \<Rightarrow> 'a \<Rightarrow> ('e, 'a) run \<Rightarrow> bool" where
  "avoids I x m \<longleftrightarrow> (\<forall>w. I w \<longrightarrow> fst (m w) \<noteq> Inr x)"

lemma retains_on_error: "retains I m \<Longrightarrow> (\<And>e. retains I (h e)) \<Longrightarrow> (\<And>x. retains I (f x)) \<Longrightarrow> retains I (on_error m h f)"
  by (auto simp: retains_def on_error_def split: sum.splits prod.splits)

lemma retains_basic: "retains I (ret x)" "retains I (throw e)"
  by (simp_all add: retains_def ret_def throw_def)

lemma retains_seq: "retains I m \<Longrightarrow> (\<And>x. retains I (f x)) \<Longrightarrow> retains I (seq m f)"
  unfolding seq_def by (rule retains_on_error) (simp_all add: retains_basic)

lemma retains_wraps: "retains I m \<Longrightarrow> retains I (wrap_job k operation m)" "retains I n \<Longrightarrow> retains I (persist operation n)" "retains I n \<Longrightarrow> retains I (unwrapped n)"
  unfolding wrap_job_def persist_def unwrapped_def by (rule retains_on_error; simp add: retains_basic)+

lemma retains_cases:
  "retains I m \<Longrightarrow> retains I n \<Longrightarrow> retains I (if b then m else n)"
  "retains I m \<Longrightarrow> (\<And>y. retains I (f y)) \<Longrightarrow> retains I (case p of None \<Rightarrow> m | Some y \<Rightarrow> f y)"
  "(\<And>y. retains I (g y)) \<Longrightarrow> (\<And>y. retains I (f' y)) \<Longrightarrow> retains I (case r of Inl y \<Rightarrow> g y | Inr y \<Rightarrow> f' y)"
  "(\<And>y z. retains I (h y z)) \<Longrightarrow> retains I (case q of (y, z) \<Rightarrow> h y z)"
  by (simp_all split: option.split sum.split prod.split)

lemma retains_for: "(\<And>x. retains I (f x)) \<Longrightarrow> retains I (for_jobs f xs)"
  by (induction xs) (auto intro: retains_seq retains_basic)

lemmas retains_rules = retains_basic retains_seq retains_wraps retains_cases retains_for retains_on_error

lemma avoids_on_error: "retains I m \<Longrightarrow> (\<And>e. avoids I x (h e)) \<Longrightarrow> (\<And>y. avoids I x (f y)) \<Longrightarrow> avoids I x (on_error m h f)"
  by (auto simp: retains_def avoids_def on_error_def split: sum.splits prod.splits)

lemma avoids_basic: "y \<noteq> x \<Longrightarrow> avoids I x (ret y)" "avoids I x (throw e)"
  by (simp_all add: avoids_def ret_def throw_def)

lemma avoids_seq: "retains I m \<Longrightarrow> (\<And>y. avoids I x (f y)) \<Longrightarrow> avoids I x (seq m f)"
  unfolding seq_def by (rule avoids_on_error) (simp_all add: avoids_basic)

text \<open>A result that is avoided need not be considered by what follows.\<close>

lemma avoids_after: "retains I m \<Longrightarrow> avoids I z m \<Longrightarrow> (\<And>y. y \<noteq> z \<Longrightarrow> avoids I x (f y)) \<Longrightarrow> avoids I x (seq m f)"
  by (auto simp: retains_def avoids_def seq_def on_error_def throw_def split: sum.splits prod.splits) (metis fst_conv snd_conv)

lemma avoids_if: "(b \<Longrightarrow> avoids I x m) \<Longrightarrow> (\<not> b \<Longrightarrow> avoids I x n) \<Longrightarrow> avoids I x (if b then m else n)" by simp

definition resting :: "World \<Rightarrow> bool" where
  "resting w \<longleftrightarrow> ready (wo_Disk w)"

definition holding :: "Loop \<Rightarrow> Snapshot \<Rightarrow> World \<Rightarrow> bool" where
  "holding l s w \<longleftrightarrow> settled (lp_Store l) s (wo_Disk w) \<and> ready (wo_Disk w)"

text \<open>Nobody else writes, and the sanitizer and the encoder of payloads do not return the loop's own signal.\<close>

definition undisturbed :: "Loop \<Rightarrow> bool" where
  "undisturbed l \<longleftrightarrow> (\<forall>k d. lp_Others l k d = d)"

definition own_signal :: "Store \<Rightarrow> bool" where
  "own_signal st \<longleftrightarrow> (\<forall>s e. store_sanitize st s = Inl e \<longrightarrow> \<not> is_changed e) \<and> (\<forall>p e. store_payload st p = Inl e \<longrightarrow> \<not> is_changed e)"

lemma retains_observe: "retains resting (observe f)" "retains (holding l s) (observe f)"
  by (simp_all add: retains_def observe_def advance_def resting_def holding_def)

lemma retains_call: "retains resting (call_out l c)"
  by (simp add: retains_def call_out_def advance_def resting_def Let_def)

lemma ready_update:
  assumes "ready d"
  shows "ready (snd (Update st draws ty n run pl mutate d))"
proof -
  have op: "ready (run_op st x d)" if "ready d" for x d using that unfolding ready_def ready_op .
  have r: "ready (rotateEventsUnlocked st a s d)" if "ready d" for a s d
    using op [OF that] that by (auto simp: rotateEventsUnlocked_def simp del: run_op.simps split: sum.split)
  show ?thesis
    using recover_keeps_ready [OF assms, of st "dr_Recover draws"] r
    by (auto simp: Update_def split: prod.splits sum.splits option.splits)
qed

lemma retains_load: "undisturbed l \<Longrightarrow> retains resting (load_snapshot l)"
  using recover_keeps_ready
  by (auto simp: retains_def load_snapshot_def Load_def advance_def resting_def undisturbed_def split: prod.split) (metis snd_conv)

lemma retains_update: "undisturbed l \<Longrightarrow> retains resting (update_snapshot l ty n run p mutate)"
  using ready_update
  by (auto simp: retains_def update_snapshot_def advance_def resting_def undisturbed_def Let_def split: prod.split) (metis snd_conv)

lemma retains_silent_clock: "retains resting (read_clock l)" "retains (holding l s) (read_clock l')"
  unfolding read_clock_def by (rule retains_observe)+

lemma retains_ids: "retains resting (new_id l p)" unfolding new_id_def by (rule retains_observe)

lemma literal_errors:
  "Status_Validate st = Some e \<Longrightarrow> \<not> is_changed e" "ValidateCommit tr st = Some e \<Longrightarrow> \<not> is_changed e"
  "SetEffect entropy n run kind now s = Inl e \<Longrightarrow> \<not> is_changed e" "recovery_blocked s = Some e \<Longrightarrow> \<not> is_changed e"
  "make_transaction store amb n run ty s json = Inl e \<Longrightarrow> \<not> is_changed e"
  "settle_mutation ty p n valid now s = Inl e \<Longrightarrow> \<not> is_changed e"
proof -
  show 1: "\<not> is_changed e" if "Status_Validate st = Some e" for st e
    using that by (auto simp: Status_Validate_def reconciliation_changed_def split: if_splits)
  show "\<not> is_changed e" if "ValidateCommit tr st = Some e" for tr st e
    using that 1 by (auto simp: ValidateCommit_def and_then_Some reconciliation_changed_def split: if_splits)
  show "\<not> is_changed e" if "SetEffect entropy n run kind now s = Inl e" for entropy n run kind now s e
    using that by (auto simp: SetEffect_def EffectKind_Validate_def and_ok_Inl massign_def reconciliation_changed_def
        split: if_splits option.splits gomap.splits)
  show "\<not> is_changed e" if "recovery_blocked s = Some e" for s e
    using that by (auto simp: recovery_blocked_def guard_def reconciliation_changed_def split: if_splits option.splits)
  show "\<not> is_changed e" if "make_transaction store amb n run ty s json = Inl e" for store amb n run ty s json e
    using that by (cases "Snapshot_Validate s") (auto simp: make_transaction_def Transaction_Validate_def Let_def guard_def
        reconciliation_changed_def split: if_splits option.splits dest!: first_error_Some)
  show "\<not> is_changed e" if "settle_mutation ty p n valid now s = Inl e" for ty p n valid now s e
    using that by (auto simp: settle_mutation_def isolateInvalidIssue_def Let_def and_ok_Inl massign_def reconciliation_changed_def
        split: if_splits option.splits gomap.splits)
qed

lemma prepare_signals:
  assumes "prepare_update st amb ty n run p mutate s = Inl e" and "own_signal st" and "\<And>e. mutate (Normalize s) = Inl e \<Longrightarrow> \<not> is_changed e"
  shows "\<not> is_changed e"
  using assms
  by (auto simp: prepare_update_def Let_def and_ok_Inl own_signal_def split: sum.splits if_splits prod.splits
      dest: literal_errors(5,6))

lemma update_signals:
  assumes "fst (Update st draws ty n run p mutate d) = Inl e" and "settled st s d" and "ready d" and "own_signal st"
    and "\<And>e. mutate s = Inl e \<Longrightarrow> \<not> is_changed e"
  shows "\<not> is_changed e"
proof -
  have "Normalize s = s"
    using assms(2) by (auto simp: settled_def validateConsistency_None normalize_valid)
  then show ?thesis
    using assms(1,5) recover_settled [OF assms(2,3)] prepare_signals [OF _ assms(4), of "dr_Update draws" ty n run p mutate s e]
    by (auto simp: Update_def split: option.splits sum.splits dest: literal_errors(4))
qed

lemma apply_signals:
  assumes "apply_decision n tr x reason rd s = Inl e" and "issue_at s n = Some current" and "iss_Number current = n"
  shows "\<not> is_changed e"
  using assms ptr_at_not_nil [OF assms(2)]
  by (auto simp: apply_decision_def Let_def and_ok_Inl transition_issue_def ApplyIssueTransition_def ValidateIssueTransition_def
      edit_def set_item_effect_def reconciliation_changed_def split: option.splits dest: literal_errors(2,3))

lemma round_update:
  assumes "own_signal (lp_Store l)" and "undisturbed l" and "\<And>rd e. mutate rd s = Inl e \<Longrightarrow> \<not> is_changed e"
  shows "avoids (holding l s) True (on_error (update_snapshot l ty n run p mutate) round_ended (\<lambda>_. ret False))"
  unfolding avoids_def
proof (intro allI impI)
  fix w assume w: "holding l s w"
  obtain r d where u: "Update (lp_Store l) (lp_Draws l (wo_Step w)) ty n run (CallerPayload p) (mutate (readings l (wo_Step w))) (wo_Disk w) = (r, d)"
    by fastforce
  have "\<not> is_changed e" if "r = Inl e" for e
    using update_signals [of "lp_Store l" "lp_Draws l (wo_Step w)" ty n run "CallerPayload p" "mutate (readings l (wo_Step w))" "wo_Disk w" e s]
      that u w assms(1,3) by (simp add: holding_def)
  then show "fst (on_error (update_snapshot l ty n run p mutate) round_ended (\<lambda>_. ret False) w) \<noteq> Inr True"
    using u assms(2) by (auto simp: on_error_def update_snapshot_def undisturbed_def Let_def round_ended_def ret_def throw_def split: sum.splits)
qed

lemma round_decides:
  assumes "own_signal (lp_Store l)" and "undisturbed l" and "issue_at s n = Some current" and "iss_Number current = n"
    and "startupRemoteInspectionRequired s (Some current) now"
  shows "avoids (holding l s) True (reconcile_sticky l current remote)" "avoids (holding l s) True (reconcile_observed l s current remote)"
proof -
  show "avoids (holding l s) True (reconcile_sticky l current remote)"
    unfolding reconcile_sticky_def
    by (rule round_update [OF assms(1,2)]) (use assms(3,4) in \<open>auto simp: sticky_mutation_def unless_changed_def edit_def\<close>)
  have commit: "avoids (holding l s) True (commit_startup l s current remote x tr)" for x tr
  proof -
    have "avoids (holding l s) True (on_error (update_snapshot l ty m run p (startup_mutation s current False c at tr x reason)) round_ended (\<lambda>_. ret False))"
      for ty m run p c at reason
      by (rule round_update [OF assms(1,2)])
        (use assms(3,4) apply_signals [of "iss_Number current" tr x] in \<open>auto simp: startup_mutation_def unless_changed_def\<close>)
    then show ?thesis
      unfolding commit_startup_def Let_def by (simp only: captures_never [OF assms(5)] if_False) (intro avoids_seq retains_basic)
  qed
  have decides: "retains (holding l s) (decideReconciliation l s current remote i)" for i
    unfolding decideReconciliation_def reconciliationInputs_def by (intro retains_rules retains_silent_clock retains_observe)
  show "avoids (holding l s) True (reconcile_observed l s current remote)"
    unfolding reconcile_observed_def
    by (intro avoids_on_error avoids_seq retains_rules decides retains_observe [folded inspect_worktree_def])
      (auto simp: inspect_worktree_def intro: avoids_basic commit retains_observe split: sum.split)
qed

lemma retains_inspection: "retains (holding l s) (inspectReconciliationIssue l current)" "retains resting (inspectReconciliationIssue l current)"
  unfolding inspectReconciliationIssue_def inspectIssue_def inspect_targeted_def Let_def
  by (intro retains_rules retains_observe)+

text \<open>A round on a record nobody changes meanwhile is the last one.\<close>

lemma round_is_last:
  assumes "own_signal (lp_Store l)" and "undisturbed l"
  shows "avoids resting True (reconcile_round l number)"
  unfolding avoids_def
proof (intro allI impI)
  fix w assume "resting w"
  obtain r d where load: "Load (lp_Store l) (lp_Ambient l (wo_Step w)) (wo_Disk w) = (r, d)" by fastforce
  let ?w = "(advance w)\<lparr>wo_Disk := d\<rparr>"
  have l: "unwrapped (load_snapshot l) w = (case r of Inl e \<Rightarrow> (Inl (store_failure e), ?w) | Inr s \<Rightarrow> (Inr s, ?w))"
    using load assms(2) by (simp add: unwrapped_def on_error_def load_snapshot_def undisturbed_def throw_def ret_def split: sum.split)
  show "fst (reconcile_round l number w) \<noteq> Inr True"
  proof (cases r)
    case (Inl e)
    then show ?thesis using l by (simp add: reconcile_round_def seq_Inl)
  next
    case (Inr s)
    have s: "settled (lp_Store l) s d \<or> s = emptySnapshot (lp_Store l) (amb_Now (lp_Ambient l (wo_Step w)))" "ready d"
      using recover_settles [of "lp_Store l" "lp_Ambient l (wo_Step w)" "wo_Disk w" s d] load Inr \<open>resting w\<close>
      by (auto simp: Load_def resting_def)
    let ?k = "\<lambda>now. case issue_at s number of None \<Rightarrow> ret False
       | Some current \<Rightarrow>
         if \<not> startupRemoteInspectionRequired s (Some current) now then ret False
         else on_error (inspectReconciliationIssue l current)
           (\<lambda>e. seq (limited_now l e) (\<lambda>limited.
              if limited then throw (Context (''reconcile GitHub state for Issue #'' @ Itoa number @ '': '') e) else ret False))
           (\<lambda>remote. if terminalReconciliationCandidate current \<and> \<not> terminalPullRequestCandidate current
             then reconcile_sticky l current remote else reconcile_observed l s current remote)"
    have whole: "reconcile_round l number w = seq (read_clock l) ?k ?w"
      unfolding reconcile_round_def using l Inr by (simp add: seq_Inr)
    show ?thesis
    proof (cases "issue_at s number")
      case None
      then show ?thesis using whole by (simp add: seq_def on_error_def ret_def throw_def split: sum.split prod.split)
    next
      case (Some current)
      have hold: "holding l s ?w" using s Some by (auto simp: holding_def emptySnapshot_def ptr_at_def mlookup_def)
      have number: "iss_Number current = number" using recovered_number load Inr Some by (fastforce simp: Load_def)
      have "avoids (holding l s) True (seq (read_clock l) ?k)"
        unfolding Some option.case limited_now_def
        by (intro avoids_seq avoids_if avoids_on_error retains_rules retains_silent_clock retains_inspection
            round_decides [OF assms Some number] avoids_basic) auto
      then show ?thesis using hold whole by (simp add: avoids_def)
    qed
  qed
qed

text \<open>The jobs around the rounds keep the disk ready.\<close>

lemmas resting_rules = retains_rules retains_observe(1) retains_call retains_load retains_update retains_silent_clock(1) retains_ids retains_inspection(2)

lemma retains_projection: "undisturbed l \<Longrightarrow> retains resting (reconcileIssueProjection l n)"
  unfolding reconcileIssueProjection_def project_issue_def Let_def by (intro resting_rules) assumption+

lemma retains_decision: "retains resting (decideReconciliation l s current remote i)"
  unfolding decideReconciliation_def reconciliationInputs_def by (intro resting_rules)

lemma retains_round_ended: "retains resting (round_ended e)"
  unfolding round_ended_def by (intro resting_rules)

lemma retains_round: "undisturbed l \<Longrightarrow> retains resting (reconcile_round l number)"
  unfolding reconcile_round_def limited_now_def reconcile_sticky_def reconcile_observed_def commit_startup_def inspect_worktree_def Let_def
  by (intro resting_rules retains_decision retains_round_ended) assumption+

lemma retains_rounds: "undisturbed l \<Longrightarrow> retains resting (reconcile_rounds n l number)"
  by (induction n) (auto intro!: resting_rules retains_round)

lemma retains_stop: "undisturbed l \<Longrightarrow> retains resting (StopWorkers l grace reason)"
proof -
  assume u: "undisturbed l"
  have signal: "retains resting (signal l pgid force)" for pgid force
    unfolding signal_def by (intro resting_rules)
  have targets: "retains resting (stop_targets l issues)" for issues
    by (induction issues) (auto simp: stop_target_def worker_alive_def group_alive_def intro!: resting_rules)
  have kill: "retains resting (kill_groups l ts)" for ts
    by (induction ts) (auto simp: group_alive_def intro!: resting_rules signal)
  have stop: "retains resting (record_stop l reason (t, forced))" for t forced
    unfolding record_stop_def prod.case Let_def by (intro resting_rules u)
  have stops: "retains resting (record_stops l reason ts)" for ts
    by (induction ts) (auto intro!: resting_rules stop)
  show ?thesis
    unfolding StopWorkers_def terminate_group_def expect_dead_def group_alive_def
    by (intro resting_rules targets kill stops signal u)
qed

lemma retains_left: "undisturbed l \<Longrightarrow> retains resting (stop_left_workers l grace controls s)"
  unfolding stop_left_workers_def by (intro resting_rules retains_stop) assumption+

lemma retains_inspected: "retains resting (inspected_numbers l s items)"
  by (induction items) (auto intro!: resting_rules)

lemma rounds_end: "own_signal (lp_Store l) \<Longrightarrow> undisturbed l \<Longrightarrow> avoids resting False (reconcile_rounds (Suc n) l number)"
  by (simp, rule avoids_after [OF retains_round round_is_last]) (auto intro: avoids_basic)

lemma numbers_end: "own_signal (lp_Store l) \<Longrightarrow> undisturbed l \<Longrightarrow> avoids resting False (reconcile_numbers (Suc n) l numbers)"
  by (induction numbers)
    (auto simp del: reconcile_rounds.simps intro!: avoids_basic avoids_after [OF retains_rounds rounds_end] avoids_if)

lemma retains_numbers: "undisturbed l \<Longrightarrow> retains resting (reconcile_numbers n l numbers)"
  by (induction numbers) (auto intro!: resting_rules retains_rounds)

text \<open>C17: C: Startup reconciliation comes to an end. On a disk without a migration or restore under way, and as long as nobody else writes the
  state, one round on each Issue is enough, whatever GitHub, git and the process table answer: the loop that starts over when the durable
  Issue changed never does, so the startup returns a result or an error of the surroundings.\<close>

theorem startup_comes_to_an_end:
  assumes "undisturbed l" and "own_signal (lp_Store l)" and "ready (wo_Disk w)" and "0 < n"
  shows "(\<exists>e w'. reconcileStartup n l grace controls snapshot w = (Inl e, w')) \<or> (\<exists>w'. reconcileStartup n l grace controls snapshot w = (Inr True, w'))"
proof -
  obtain m where n: "n = Suc m" using assms(4) gr0_implies_Suc by blast
  have "avoids resting False (reconcileStartup n l grace controls snapshot)"
    unfolding reconcileStartup_def n
    by (rule avoids_seq [OF retains_left [OF assms(1)]], rule avoids_seq [OF retains_inspected],
        rule avoids_after [OF retains_numbers [OF assms(1)] numbers_end [OF assms(2,1)]])
      (use assms(1) in \<open>auto simp: project_startup_def limited_now_def intro!: avoids_seq avoids_basic resting_rules retains_projection\<close>)
  then have "fst (reconcileStartup n l grace controls snapshot w) \<noteq> Inr False"
    using assms(3) by (auto simp: avoids_def resting_def)
  then show ?thesis by (cases "reconcileStartup n l grace controls snapshot w"; cases "fst (reconcileStartup n l grace controls snapshot w)") auto
qed

theorem startup_comes_to_an_end_witness:
  "\<exists>w'. reconcileStartup 1 sample_loop 5 True claiming_snapshot claiming_world = (Inr True, w')
    \<or> (\<exists>e. reconcileStartup 1 sample_loop 5 True claiming_snapshot claiming_world = (Inl e, w'))"
proof -
  have "undisturbed sample_loop" "own_signal (lp_Store sample_loop)"
    by (simp_all add: undisturbed_def own_signal_def sample_loop_def sample_store_def)
  from startup_comes_to_an_end [OF this claiming_settled(2), of 1 5 True claiming_snapshot] show ?thesis by auto
qed

end
